(* ===== verification/Msap1_Prelude.thy ===== *)
theory Msap1_Prelude
  imports Main "HOL-Library.Word" "HOL-Library.Signed_Division"
begin

text \<open>
  Shared vocabulary of the development: the fixed-width integers of the C++ code, its
  exceptions as values, sequences of \<^verbatim>\<open>require(...)\<close> checks, little- and big-endian byte
  codecs, and two interfaces used by several components: a fixed-width byte codec (used by
  the IPC frames, the ledger blobs and the RPMsg frames) and a transition system with an
  invariant (used by every component that keeps state).
\<close>

unbundle bit_operations_syntax

section \<open>Types of the C++ program\<close>

type_synonym u8 = "8 word"
type_synonym u16 = "16 word"
type_synonym u32 = "32 word"
type_synonym u64 = "64 word"

text \<open>
  A thrown exception is a value. The constructors are the standard exception classes the
  code throws and the two classes the energy ledger declares; the string is the message.
\<close>

datatype exn =
    Invalid_argument string
  | Out_of_range string
  | Length_error string
  | Logic_error string
  | Runtime_error string
  | Overflow_error string
  | Conflict string
  | Unavailable string

type_synonym 'a result = "exn + 'a"

text \<open>\<^verbatim>\<open>what()\<close>.\<close>

definition exn_message :: "exn \<Rightarrow> string" where
  "exn_message e = (case e of Invalid_argument m \<Rightarrow> m | Out_of_range m \<Rightarrow> m | Length_error m \<Rightarrow> m
   | Logic_error m \<Rightarrow> m | Runtime_error m \<Rightarrow> m | Overflow_error m \<Rightarrow> m | Conflict m \<Rightarrow> m
   | Unavailable m \<Rightarrow> m)"

named_theorems codec_simps \<open>evaluation of the byte codecs\<close>
named_theorems result_simps \<open>evaluation of computations that may throw\<close>

section \<open>Computations that may throw\<close>

definition bind_result :: "'e + 'a \<Rightarrow> ('a \<Rightarrow> 'e + 'b) \<Rightarrow> 'e + 'b" where
  "bind_result m f = (case m of Inl e \<Rightarrow> Inl e | Inr x \<Rightarrow> f x)"

lemma bind_result_simps [simp, result_simps]:
  "bind_result (Inl e) f = Inl e"
  "bind_result (Inr x) f = f x"
  by (simp_all add: bind_result_def)

lemma bind_result_eq_Inr [simp]:
  "bind_result m f = Inr y \<longleftrightarrow> (\<exists>x. m = Inr x \<and> f x = Inr y)"
  by (cases m) auto

lemma bind_result_eq_Inl:
  "bind_result m f = Inl e \<longleftrightarrow> m = Inl e \<or> (\<exists>x. m = Inr x \<and> f x = Inl e)"
  by (cases m) auto

text \<open>A list of \<^verbatim>\<open>require(condition, message)\<close> calls: the first failing one throws.\<close>

fun require_all :: "(bool \<times> exn) list \<Rightarrow> unit result" where
  "require_all [] = Inr ()"
| "require_all ((c, e) # cs) = (if c then require_all cs else Inl e)"

lemma require_all_ok [simp]: "require_all cs = Inr u \<longleftrightarrow> (\<forall>(c, e) \<in> set cs. c)"
  by (induction cs rule: require_all.induct) auto

lemma require_all_append:
  "require_all (cs @ ds) = bind_result (require_all cs) (\<lambda>_. require_all ds)"
  by (induction cs rule: require_all.induct) auto

lemma require_all_fails: "(\<exists>(c, e) \<in> set cs. \<not> c) \<longleftrightarrow> (\<exists>e. require_all cs = Inl e)"
  by (induction cs rule: require_all.induct) auto

text \<open>Applies a computation that may throw to every element, in order.\<close>

fun traverse :: "('a \<Rightarrow> 'e + 'b) \<Rightarrow> 'a list \<Rightarrow> 'e + 'b list" where
  "traverse f [] = Inr []"
| "traverse f (x # xs) =
     bind_result (f x) (\<lambda>y. bind_result (traverse f xs) (\<lambda>ys. Inr (y # ys)))"

lemma traverse_ok: "(\<And>x. x \<in> set xs \<Longrightarrow> f x = Inr (g x)) \<Longrightarrow> traverse f xs = Inr (map g xs)"
  by (induction xs) simp_all

lemma traverse_Inr: "traverse f xs = Inr ys \<Longrightarrow> list_all2 (\<lambda>x y. f x = Inr y) xs ys"
  by (induction xs arbitrary: ys) auto

section \<open>64-bit signed values\<close>

text \<open>
  \<^verbatim>\<open>std::int64_t\<close> values are integers within this range; where the code relies on arithmetic
  not leaving it, the development proves so.
\<close>

definition int64_max :: int where "int64_max = 9223372036854775807"
definition int64_min :: int where "int64_min = - 9223372036854775808"

lemma uint_pos: "w \<noteq> 0 \<Longrightarrow> 0 < uint (w :: 'a::len word)"
  by (simp add: less_le uint_0_iff)

lemma uint_ucast_u32 [simp]: "uint (ucast (w :: u32) :: u64) = uint w"
  using uint_lt2p [of w] by (simp add: unsigned_ucast_eq take_bit_int_eq_self)

definition in_int64 :: "int \<Rightarrow> bool" where
  "in_int64 x \<longleftrightarrow> int64_min \<le> x \<and> x \<le> int64_max"

lemma sint64_in_int64 [simp]: "in_int64 (sint (w :: u64))"
  using sint_ge [of w] sint_lt [of w] by (simp add: in_int64_def int64_min_def int64_max_def)

lemma word_of_int_sint64 [simp]: "sint (word_of_int x :: u64) = x \<longleftrightarrow> in_int64 x"
proof
  assume "sint (word_of_int x :: u64) = x"
  then show "in_int64 x" using sint64_in_int64 [of "word_of_int x"] by simp
next
  assume "in_int64 x"
  then show "sint (word_of_int x :: u64) = x"
    by (simp add: in_int64_def int64_min_def int64_max_def sint_uint unsigned_of_int
        signed_take_bit_take_bit signed_take_bit_int_eq_self_iff)
qed

section \<open>Little-endian and big-endian integers\<close>

text \<open>
  \<^verbatim>\<open>append_little\<close> pushes byte \<^verbatim>\<open>i\<close> of a value as \<^verbatim>\<open>(value >> (8 * i)) & 0xff\<close>;
  \<^verbatim>\<open>read_little\<close> ORs the bytes back, each shifted to its place.
\<close>

definition le_bytes :: "nat \<Rightarrow> 'a::len word \<Rightarrow> u8 list" where
  "le_bytes n w = map (\<lambda>i. ucast (drop_bit (8 * i) w)) [0..<n]"

definition le_value :: "u8 list \<Rightarrow> 'a::len word" where
  "le_value bs = fold (\<lambda>i v. v OR push_bit (8 * i) (ucast (bs ! i))) [0..<length bs] 0"

lemma length_le_bytes [simp]: "length (le_bytes n w) = n"
  by (simp add: le_bytes_def)

lemma nth_le_bytes [simp]: "i < n \<Longrightarrow> le_bytes n w ! i = ucast (drop_bit (8 * i) w)"
  by (simp add: le_bytes_def)

lemma bit_le_fold:
  "bit (fold (\<lambda>i v. v OR push_bit (8 * i) (ucast (bs ! i))) [0..<n] (0 :: 'a::len word)) k \<longleftrightarrow>
   (\<exists>i<n. 8 * i \<le> k \<and> k < LENGTH('a) \<and> bit (bs ! i :: u8) (k - 8 * i))"
proof (induction n)
  case 0
  then show ?case by simp
next
  case (Suc n)
  then show ?case
    by (auto simp: bit_simps less_Suc_eq dest: bit_imp_le_length)
qed

lemma bit_le_value:
  "bit (le_value bs :: 'a::len word) k \<longleftrightarrow>
   k < LENGTH('a) \<and> k div 8 < length bs \<and> bit (bs ! (k div 8)) (k mod 8)"
proof -
  have "(\<exists>i<length bs. 8 * i \<le> k \<and> k < LENGTH('a) \<and> bit (bs ! i) (k - 8 * i)) \<longleftrightarrow>
    k < LENGTH('a) \<and> k div 8 < length bs \<and> bit (bs ! (k div 8)) (k mod 8)"
  proof
    assume "\<exists>i<length bs. 8 * i \<le> k \<and> k < LENGTH('a) \<and> bit (bs ! i) (k - 8 * i)"
    then obtain i where i: "i < length bs" "8 * i \<le> k" "k < LENGTH('a)" "bit (bs ! i) (k - 8 * i)"
      by blast
    from i(4) have "k - 8 * i < 8"
      using bit_imp_le_length [of "bs ! i"] by simp
    then have "i = k div 8" using i(2) by linarith
    moreover from this have "k - 8 * i = k mod 8" by (simp add: minus_mult_div_eq_mod)
    ultimately show "k < LENGTH('a) \<and> k div 8 < length bs \<and> bit (bs ! (k div 8)) (k mod 8)"
      using i by simp
  next
    assume "k < LENGTH('a) \<and> k div 8 < length bs \<and> bit (bs ! (k div 8)) (k mod 8)"
    then show "\<exists>i<length bs. 8 * i \<le> k \<and> k < LENGTH('a) \<and> bit (bs ! i) (k - 8 * i)"
      by (intro exI [of _ "k div 8"]) (simp add: minus_mult_div_eq_mod)
  qed
  then show ?thesis
    unfolding le_value_def by (simp only: bit_le_fold)
qed

lemma le_value_le_bytes [codec_simps]:
  "LENGTH('a::len) \<le> 8 * n \<Longrightarrow> le_value (le_bytes n (w :: 'a word)) = w"
proof (rule bit_word_eqI)
  fix k assume "LENGTH('a) \<le> 8 * n" "k < LENGTH('a)"
  then have "k div 8 < n" by linarith
  then show "bit (le_value (le_bytes n w) :: 'a word) k = bit w k"
    using \<open>k < LENGTH('a)\<close> by (simp add: bit_le_value bit_simps)
qed

lemma le_bytes_le_value [codec_simps]:
  "length bs = n \<Longrightarrow> 8 * n \<le> LENGTH('a::len) \<Longrightarrow> le_bytes n (le_value bs :: 'a word) = bs"
proof (rule nth_equalityI)
  fix i assume a: "length bs = n" "8 * n \<le> LENGTH('a)"
    and "i < length (le_bytes n (le_value bs :: 'a word))"
  then have i: "i < n" by simp
  show "le_bytes n (le_value bs :: 'a word) ! i = bs ! i"
  proof (rule bit_word_eqI)
    fix k assume "k < LENGTH(8)"
    then have "(8 * i + k) div 8 = i" "(8 * i + k) mod 8 = k" "8 * i + k < LENGTH('a)"
      using i a by auto
    then show "bit (le_bytes n (le_value bs :: 'a word) ! i) k = bit (bs ! i) k"
      using i a \<open>k < LENGTH(8)\<close> by (simp add: bit_le_value bit_simps)
  qed
qed simp

text \<open>The big-endian 16-bit registers of Modbus.\<close>

definition be16_bytes :: "u16 \<Rightarrow> u8 list" where
  "be16_bytes w = [ucast (drop_bit 8 w AND 0xff), ucast (w AND 0xff)]"

definition be16_value :: "u8 \<Rightarrow> u8 \<Rightarrow> u16" where
  "be16_value hi lo = push_bit 8 (ucast hi) OR ucast lo"

lemma length_be16_bytes [simp]: "length (be16_bytes w) = 2"
  by (simp add: be16_bytes_def)

lemma bit_be16_value:
  "bit (be16_value hi lo) k \<longleftrightarrow> (if k < 8 then bit lo k else k < 16 \<and> bit hi (k - 8))"
  by (auto simp: be16_value_def bit_simps dest: bit_imp_le_length)

lemma mask8_bits: "bit (255 :: int) k \<longleftrightarrow> k < 8"
proof -
  have "(255 :: int) = mask 8" by (simp add: mask_eq_exp_minus_1)
  then show ?thesis by (simp only: bit_mask_iff) simp
qed

lemma be16_value_be16_bytes [simp, codec_simps]:
  "be16_value (be16_bytes w ! 0) (be16_bytes w ! 1) = w"
  by (rule bit_word_eqI) (auto simp: be16_bytes_def bit_be16_value bit_simps mask8_bits)

lemma be16_value_of_bytes [simp, codec_simps]:
  "be16_value (ucast (drop_bit 8 w AND 0xff)) (ucast (w AND 0xff)) = w"
  using be16_value_be16_bytes [of w] by (simp add: be16_bytes_def)

lemma be16_bytes_be16_value [simp, codec_simps]: "be16_bytes (be16_value hi lo) = [hi, lo]"
proof -
  have "ucast (drop_bit 8 (be16_value hi lo) AND 0xff) = hi"
    by (rule bit_word_eqI) (simp add: bit_be16_value bit_simps mask8_bits)
  moreover have "ucast (be16_value hi lo AND 0xff) = lo"
    by (rule bit_word_eqI) (simp add: bit_be16_value bit_simps mask8_bits)
  ultimately show ?thesis by (simp add: be16_bytes_def)
qed

section \<open>Interface: a fixed-width byte codec\<close>

text \<open>
  What a client of a codec relies on: the encoding has a fixed width and decodes to the
  value it came from. The client's lemmas concern fields laid out one after the other.
\<close>

locale byte_codec =
  fixes enc :: "'v \<Rightarrow> u8 list" and dec :: "u8 list \<Rightarrow> 'v" and width :: nat
  assumes enc_width: "length (enc v) = width"
    and dec_enc: "dec (enc v) = v"
begin

lemma take_enc: "take width (enc v @ rest) = enc v"
  by (simp add: enc_width)

lemma drop_enc: "drop width (enc v @ rest) = rest"
  by (simp add: enc_width)

lemma dec_field: "dec (take width (enc v @ rest)) = v"
  by (simp only: take_enc dec_enc)

lemma length_concat_enc: "length (concat (map enc vs)) = width * length vs"
  by (induction vs) (simp_all add: enc_width)

lemma slice_concat_enc:
  "i < length vs \<Longrightarrow> take width (drop (i * width) (concat (map enc vs))) = enc (vs ! i)"
proof (induction vs arbitrary: i)
  case Nil
  then show ?case by simp
next
  case (Cons v vs)
  then show ?case
    by (cases i) (simp_all add: enc_width)
qed

lemma dec_concat_enc:
  "map (\<lambda>i. dec (take width (drop (i * width) (concat (map enc vs))))) [0..<length vs] = vs"
  by (rule nth_equalityI) (simp_all add: slice_concat_enc dec_enc)

lemma enc_inj: "enc v = enc w \<longleftrightarrow> v = w"
  using dec_enc [of v] dec_enc [of w] by metis

end

interpretation le16: byte_codec "le_bytes 2 :: u16 \<Rightarrow> u8 list" le_value 2
  by unfold_locales (simp_all add: le_value_le_bytes)

interpretation le32: byte_codec "le_bytes 4 :: u32 \<Rightarrow> u8 list" le_value 4
  by unfold_locales (simp_all add: le_value_le_bytes)

interpretation le64: byte_codec "le_bytes 8 :: u64 \<Rightarrow> u8 list" le_value 8
  by unfold_locales (simp_all add: le_value_le_bytes)

interpretation be16: byte_codec be16_bytes "\<lambda>bs. be16_value (bs ! 0) (bs ! 1)" 2
  by unfold_locales (simp_all add: be16_bytes_def)

section \<open>Interface: a transition system with an invariant\<close>

text \<open>
  A component handles one event at a time. If every event keeps its invariant, every
  sequence of events does.
\<close>

locale invariant_system =
  fixes step :: "'s \<Rightarrow> 'ev \<Rightarrow> 's" and inv :: "'s \<Rightarrow> bool"
  assumes inv_step: "inv s \<Longrightarrow> inv (step s e)"
begin

lemma inv_run: "inv s \<Longrightarrow> inv (foldl step s es)"
  by (induction es arbitrary: s) (simp_all add: inv_step)

lemma inv_prefix: "inv s \<Longrightarrow> inv (foldl step s (take n es))"
  by (rule inv_run)

end

text \<open>A quantity that no event lowers, under the invariant.\<close>

locale monotone_system = invariant_system step inv
  for step :: "'s \<Rightarrow> 'ev \<Rightarrow> 's" and inv :: "'s \<Rightarrow> bool" +
  fixes le :: "'s \<Rightarrow> 's \<Rightarrow> bool"
  assumes le_refl: "le s s"
    and le_trans: "le s t \<Longrightarrow> le t u \<Longrightarrow> le s u"
    and step_le: "inv s \<Longrightarrow> le s (step s e)"
begin

lemma run_le: "inv s \<Longrightarrow> le s (foldl step s es)"
proof (induction es arbitrary: s)
  case Nil
  then show ?case by (simp add: le_refl)
next
  case (Cons e es)
  from Cons.prems have "inv (step s e)" by (rule inv_step)
  then have "le (step s e) (foldl step (step s e) es)" by (rule Cons.IH)
  with step_le [OF Cons.prems] show ?case by (auto intro: le_trans)
qed

end

section \<open>Lists\<close>

lemma find_Some_in_set: "find P xs = Some x \<Longrightarrow> x \<in> set xs \<and> P x"
  by (auto simp: find_Some_iff)

lemma list_all2_map2 [simp]:
  "list_all2 R xs (map f xs) \<longleftrightarrow> (\<forall>x\<in>set xs. R x (f x))"
  by (induction xs) auto

end
