(* ===== verification/Meter_Record.thy ===== *)
theory Meter_Record
  imports Msap1_Prelude
begin

text \<open>
  The fixed 256-byte record the PL and the R5 cores deliver by DMA
  (\<^verbatim>\<open>common/msap1/meter/meter_record.hpp\<close>): 64 little-endian 32-bit words, one envelope in
  words 0..12 shared by every format, and the format-specific accessors. The processor is
  little-endian, so \<^verbatim>\<open>MeterRecord::word\<close> takes the branch without a byte swap.
\<close>

section \<open>Formats and word positions\<close>

abbreviation meter_channel_count :: nat where "meter_channel_count \<equiv> 8"
abbreviation meter_record_word_count :: nat where "meter_record_word_count \<equiv> 64"
abbreviation meter_record_size :: u32 where "meter_record_size \<equiv> 256"
abbreviation meter_record_magic :: u32 where "meter_record_magic \<equiv> 0x3152544d"

abbreviation meter_periodic_format :: u32 where "meter_periodic_format \<equiv> 0x00010004"
abbreviation meter_power_format :: u32 where "meter_power_format \<equiv> 0x00070001"
abbreviation meter_phasor_format :: u32 where "meter_phasor_format \<equiv> 0x00080002"
abbreviation meter_unbalance_format :: u32 where "meter_unbalance_format \<equiv> 0x00090002"
abbreviation meter_energy_format :: u32 where "meter_energy_format \<equiv> 0x00030001"
abbreviation meter_demand_format :: u32 where "meter_demand_format \<equiv> 0x00040001"
abbreviation meter_aggregate_format :: u32 where "meter_aggregate_format \<equiv> 0x00020003"
abbreviation meter_aggregate_power_format :: u32 where
  "meter_aggregate_power_format \<equiv> 0x00100001"
abbreviation meter_aggregate_phasor_format :: u32 where
  "meter_aggregate_phasor_format \<equiv> 0x00110002"
abbreviation meter_aggregate_unbalance_format :: u32 where
  "meter_aggregate_unbalance_format \<equiv> 0x00120002"
abbreviation meter_ten_minute_format :: u32 where "meter_ten_minute_format \<equiv> 0x000C0001"
abbreviation meter_ten_minute_power_format :: u32 where
  "meter_ten_minute_power_format \<equiv> 0x00130001"
abbreviation meter_ten_minute_phasor_format :: u32 where
  "meter_ten_minute_phasor_format \<equiv> 0x00140002"
abbreviation meter_ten_minute_unbalance_format :: u32 where
  "meter_ten_minute_unbalance_format \<equiv> 0x00150002"
abbreviation meter_two_hour_format :: u32 where "meter_two_hour_format \<equiv> 0x000D0001"
abbreviation meter_two_hour_power_format :: u32 where
  "meter_two_hour_power_format \<equiv> 0x00160001"
abbreviation meter_two_hour_phasor_format :: u32 where
  "meter_two_hour_phasor_format \<equiv> 0x00170002"
abbreviation meter_two_hour_unbalance_format :: u32 where
  "meter_two_hour_unbalance_format \<equiv> 0x00180002"
abbreviation meter_ten_minute_open_format :: u32 where
  "meter_ten_minute_open_format \<equiv> 0x00200001"
abbreviation meter_ten_minute_open_power_format :: u32 where
  "meter_ten_minute_open_power_format \<equiv> 0x00210001"
abbreviation meter_ten_minute_open_phasor_format :: u32 where
  "meter_ten_minute_open_phasor_format \<equiv> 0x00220002"
abbreviation meter_ten_minute_open_unbalance_format :: u32 where
  "meter_ten_minute_open_unbalance_format \<equiv> 0x00230002"
abbreviation meter_two_hour_open_format :: u32 where
  "meter_two_hour_open_format \<equiv> 0x00240001"
abbreviation meter_two_hour_open_power_format :: u32 where
  "meter_two_hour_open_power_format \<equiv> 0x00250001"
abbreviation meter_two_hour_open_phasor_format :: u32 where
  "meter_two_hour_open_phasor_format \<equiv> 0x00260002"
abbreviation meter_two_hour_open_unbalance_format :: u32 where
  "meter_two_hour_open_unbalance_format \<equiv> 0x00270002"
abbreviation meter_harmonic_format :: u32 where "meter_harmonic_format \<equiv> 0x00050001"
abbreviation meter_harmonic_aggregate_format :: u32 where
  "meter_harmonic_aggregate_format \<equiv> 0x001F0001"
abbreviation meter_pq_event_format :: u32 where "meter_pq_event_format \<equiv> 0x000B0001"
abbreviation meter_pq_event_lifecycle_format :: u32 where
  "meter_pq_event_lifecycle_format \<equiv> 0x00060001"
abbreviation meter_flicker_format :: u32 where "meter_flicker_format \<equiv> 0x000E0001"
abbreviation meter_mains_signal_format :: u32 where "meter_mains_signal_format \<equiv> 0x000F0001"
abbreviation meter_frequency_10s_format :: u32 where "meter_frequency_10s_format \<equiv> 0x00280001"
abbreviation meter_single_cycle_format :: u32 where "meter_single_cycle_format \<equiv> 0x000A0005"

text \<open>Positions of the ENERGY-v1 and DEMAND-v1 fields.\<close>

abbreviation meter_energy_part_summary :: u8 where "meter_energy_part_summary \<equiv> 0"
abbreviation meter_energy_part_quadrants :: u8 where "meter_energy_part_quadrants \<equiv> 1"
abbreviation meter_energy_part_count :: u8 where "meter_energy_part_count \<equiv> 2"
abbreviation meter_energy_last_sample_word :: nat where "meter_energy_last_sample_word \<equiv> 14"
abbreviation meter_energy_summary_import_word :: nat where
  "meter_energy_summary_import_word \<equiv> 16"
abbreviation meter_energy_summary_export_word :: nat where
  "meter_energy_summary_export_word \<equiv> 24"
abbreviation meter_energy_summary_apparent_word :: nat where
  "meter_energy_summary_apparent_word \<equiv> 32"
abbreviation meter_energy_quadrant_words :: "nat list" where
  "meter_energy_quadrant_words \<equiv> [16, 24, 32, 40]"
abbreviation meter_energy_session_word :: nat where "meter_energy_session_word \<equiv> 48"
abbreviation meter_energy_accepted_samples_word :: nat where
  "meter_energy_accepted_samples_word \<equiv> 50"
abbreviation meter_energy_skipped_samples_word :: nat where
  "meter_energy_skipped_samples_word \<equiv> 52"
abbreviation meter_energy_accepted_blocks_word :: nat where
  "meter_energy_accepted_blocks_word \<equiv> 54"
abbreviation meter_energy_skipped_blocks_word :: nat where
  "meter_energy_skipped_blocks_word \<equiv> 55"
abbreviation meter_demand_fixed_interval_seconds :: u16 where
  "meter_demand_fixed_interval_seconds \<equiv> 600"
abbreviation meter_demand_sliding_update_seconds :: u16 where
  "meter_demand_sliding_update_seconds \<equiv> 3"
abbreviation meter_demand_last_sample_word :: nat where "meter_demand_last_sample_word \<equiv> 14"
abbreviation meter_demand_current_word :: nat where "meter_demand_current_word \<equiv> 16"
abbreviation meter_demand_import_peak_word :: nat where "meter_demand_import_peak_word \<equiv> 24"
abbreviation meter_demand_export_peak_word :: nat where "meter_demand_export_peak_word \<equiv> 32"
abbreviation meter_demand_import_peak_anchor_word :: nat where
  "meter_demand_import_peak_anchor_word \<equiv> 40"
abbreviation meter_demand_export_peak_anchor_word :: nat where
  "meter_demand_export_peak_anchor_word \<equiv> 48"
abbreviation meter_demand_session_word :: nat where "meter_demand_session_word \<equiv> 56"
abbreviation meter_demand_interval_anchor_sample_word :: nat where
  "meter_demand_interval_anchor_sample_word \<equiv> 58"
abbreviation meter_demand_source_interval_count_word :: nat where
  "meter_demand_source_interval_count_word \<equiv> 60"
abbreviation meter_demand_source_status_word :: nat where
  "meter_demand_source_status_word \<equiv> 61"
abbreviation meter_demand_profile_generation_word :: nat where
  "meter_demand_profile_generation_word \<equiv> 62"

section \<open>The record and its words\<close>

record meter_record =
  words :: "u32 list"

text \<open>The type of \<^verbatim>\<open>std::array<std::uint32_t, 64>\<close>.\<close>

definition wf_record :: "meter_record \<Rightarrow> bool" where
  "wf_record r \<longleftrightarrow> length (words r) = meter_record_word_count"

definition rec_word :: "meter_record \<Rightarrow> nat \<Rightarrow> u32 result" where
  "rec_word r i =
     (if i \<ge> length (words r) then Inl (Out_of_range ''meter record word index'')
      else Inr (words r ! i))"

text \<open>
  The value of a call \<^verbatim>\<open>word(i)\<close> at one of the constant positions the accessors use, all of
  them below 64: \<open>rec_word_in_range\<close> shows that such a call never throws.
\<close>

definition w32 :: "meter_record \<Rightarrow> nat \<Rightarrow> u32" where
  "w32 r i = (case rec_word r i of Inl _ \<Rightarrow> 0 | Inr w \<Rightarrow> w)"

lemma rec_word_in_range: "wf_record r \<Longrightarrow> i < 64 \<Longrightarrow> rec_word r i = Inr (w32 r i)"
  by (simp add: wf_record_def rec_word_def w32_def)

lemma w32_nth: "wf_record r \<Longrightarrow> i < 64 \<Longrightarrow> w32 r i = words r ! i"
  by (simp add: wf_record_def rec_word_def w32_def)

definition unsigned64 :: "meter_record \<Rightarrow> nat \<Rightarrow> u64" where
  "unsigned64 r low = ucast (w32 r low) OR push_bit 32 (ucast (w32 r (low + 1)))"

definition signed64 :: "meter_record \<Rightarrow> nat \<Rightarrow> int" where
  "signed64 r low = sint (unsigned64 r low)"

text \<open>The test \<^verbatim>\<open>(w & (1u << n)) != 0u\<close> on a status word.\<close>

definition flag :: "u32 \<Rightarrow> nat \<Rightarrow> bool" where
  "flag w n \<longleftrightarrow> w AND push_bit n 1 \<noteq> 0"

lemma flag_bit: "n < 32 \<Longrightarrow> flag w n \<longleftrightarrow> bit w n"
proof -
  assume "n < 32"
  have "w AND push_bit n 1 = of_bool (bit w n) * push_bit n 1"
    by (rule bit_word_eqI) (auto simp: bit_simps)
  with \<open>n < 32\<close> show ?thesis
    by (auto simp: flag_def push_bit_eq_mult)
qed

section \<open>The common envelope\<close>

definition record_format :: "meter_record \<Rightarrow> u32" where "record_format r = w32 r 1"

definition header_valid :: "meter_record \<Rightarrow> bool" where
  "header_valid r \<longleftrightarrow>
     w32 r 0 = meter_record_magic \<and>
     record_format r \<in> set
       [meter_periodic_format, meter_power_format, meter_phasor_format,
        meter_unbalance_format, meter_energy_format, meter_demand_format,
        meter_aggregate_format, meter_aggregate_power_format,
        meter_aggregate_phasor_format, meter_aggregate_unbalance_format,
        meter_ten_minute_format, meter_ten_minute_power_format,
        meter_ten_minute_phasor_format, meter_ten_minute_unbalance_format,
        meter_two_hour_format, meter_two_hour_power_format,
        meter_two_hour_phasor_format, meter_two_hour_unbalance_format,
        meter_ten_minute_open_format, meter_ten_minute_open_power_format,
        meter_ten_minute_open_phasor_format, meter_ten_minute_open_unbalance_format,
        meter_two_hour_open_format, meter_two_hour_open_power_format,
        meter_two_hour_open_phasor_format, meter_two_hour_open_unbalance_format,
        meter_harmonic_format, meter_harmonic_aggregate_format,
        meter_pq_event_format, meter_pq_event_lifecycle_format,
        meter_flicker_format, meter_mains_signal_format,
        meter_frequency_10s_format, meter_single_cycle_format] \<and>
     w32 r 2 = meter_record_size"

definition rec_sequence :: "meter_record \<Rightarrow> u32" where "rec_sequence r = w32 r 3"
definition configuration_generation :: "meter_record \<Rightarrow> u32" where
  "configuration_generation r = w32 r 4"
definition sample_rate_hz :: "meter_record \<Rightarrow> u32" where "sample_rate_hz r = w32 r 5"
definition block_sample_count :: "meter_record \<Rightarrow> u32" where "block_sample_count r = w32 r 6"
definition valid_mask :: "meter_record \<Rightarrow> u8" where "valid_mask r = ucast (w32 r 7)"
definition rec_status :: "meter_record \<Rightarrow> u32" where "rec_status r = w32 r 8"
definition first_sample_index :: "meter_record \<Rightarrow> u64" where
  "first_sample_index r = unsigned64 r 9"
definition emit_drops :: "meter_record \<Rightarrow> u32" where "emit_drops r = w32 r 11"
definition result_drops :: "meter_record \<Rightarrow> u32" where "result_drops r = w32 r 12"

section \<open>ENERGY-v1 and DEMAND-v1 fields\<close>

definition energy_part :: "meter_record \<Rightarrow> u8" where
  "energy_part r = ucast (w32 r 13 AND 0x3)"
definition energy_part_count :: "meter_record \<Rightarrow> u8" where
  "energy_part_count r = ucast (drop_bit 2 (w32 r 13) AND 0x3)"
definition energy_family_complete :: "meter_record \<Rightarrow> bool" where
  "energy_family_complete r = flag (w32 r 13) 4"
definition energy_category_valid_mask :: "meter_record \<Rightarrow> u8" where
  "energy_category_valid_mask r = ucast (drop_bit 8 (w32 r 13) AND 0x0f)"
definition energy_last_sample_index :: "meter_record \<Rightarrow> u64" where
  "energy_last_sample_index r = unsigned64 r meter_energy_last_sample_word"
definition energy_session_id :: "meter_record \<Rightarrow> u64" where
  "energy_session_id r = unsigned64 r meter_energy_session_word"
definition energy_accepted_samples :: "meter_record \<Rightarrow> u64" where
  "energy_accepted_samples r = unsigned64 r meter_energy_accepted_samples_word"
definition energy_skipped_samples :: "meter_record \<Rightarrow> u64" where
  "energy_skipped_samples r = unsigned64 r meter_energy_skipped_samples_word"
definition energy_accepted_blocks :: "meter_record \<Rightarrow> u32" where
  "energy_accepted_blocks r = w32 r meter_energy_accepted_blocks_word"
definition energy_skipped_blocks :: "meter_record \<Rightarrow> u32" where
  "energy_skipped_blocks r = w32 r meter_energy_skipped_blocks_word"
definition energy_complete :: "meter_record \<Rightarrow> bool" where
  "energy_complete r = flag (rec_status r) 1"
definition energy_incomplete_input :: "meter_record \<Rightarrow> bool" where
  "energy_incomplete_input r = flag (rec_status r) 2"
definition energy_saturated :: "meter_record \<Rightarrow> bool" where
  "energy_saturated r = flag (rec_status r) 3"
definition energy_discontinuity :: "meter_record \<Rightarrow> bool" where
  "energy_discontinuity r = flag (rec_status r) 4"

definition demand_interval_seconds :: "meter_record \<Rightarrow> u16" where
  "demand_interval_seconds r = ucast (w32 r 13 AND 0xffff)"
definition demand_valid_mask :: "meter_record \<Rightarrow> u8" where
  "demand_valid_mask r = ucast (drop_bit 16 (w32 r 13) AND 0x0f)"
definition demand_method :: "meter_record \<Rightarrow> u8" where
  "demand_method r = ucast (drop_bit 20 (w32 r 13) AND 0x03)"
definition demand_update_seconds :: "meter_record \<Rightarrow> u16" where
  "demand_update_seconds r = ucast (drop_bit 22 (w32 r 13) AND 0x03ff)"
definition demand_profile_generation :: "meter_record \<Rightarrow> u32" where
  "demand_profile_generation r = w32 r meter_demand_profile_generation_word"
definition demand_last_sample_index :: "meter_record \<Rightarrow> u64" where
  "demand_last_sample_index r = unsigned64 r meter_demand_last_sample_word"
definition demand_session_id :: "meter_record \<Rightarrow> u64" where
  "demand_session_id r = unsigned64 r meter_demand_session_word"
definition demand_complete :: "meter_record \<Rightarrow> bool" where
  "demand_complete r = flag (rec_status r) 1"
definition demand_time_aligned :: "meter_record \<Rightarrow> bool" where
  "demand_time_aligned r = flag (rec_status r) 2"
definition demand_contaminated :: "meter_record \<Rightarrow> bool" where
  "demand_contaminated r = flag (rec_status r) 3"
definition demand_boundary_valid :: "meter_record \<Rightarrow> bool" where
  "demand_boundary_valid r = flag (rec_status r) 4"
definition demand_saturated :: "meter_record \<Rightarrow> bool" where
  "demand_saturated r = flag (rec_status r) 5"
definition demand_incomplete_input :: "meter_record \<Rightarrow> bool" where
  "demand_incomplete_input r = flag (rec_status r) 6"

section \<open>Periodic and aggregate fields\<close>

record meter_channel_reading =
  ch_valid :: bool
  mean_micro_units :: int
  rms_count :: u32
  rms_micro_units :: int

record meter_timing_word =
  tw_nominal_frequency_hz :: u8
  tw_cycle_count :: u8
  tw_cycle_locked :: bool
  tw_free_run_fallback :: bool
  tw_first_block_after_apply :: bool
  tw_utc_resynchronized :: bool

definition timing :: "meter_record \<Rightarrow> meter_timing_word" where
  "timing r = (let t = w32 r 13 in
     \<lparr>tw_nominal_frequency_hz = ucast (t AND 0xff),
      tw_cycle_count = ucast (drop_bit 8 t AND 0xff),
      tw_cycle_locked = flag t 16,
      tw_free_run_fallback = flag t 17,
      tw_first_block_after_apply = flag t 18,
      tw_utc_resynchronized = flag t 19\<rparr>)"

definition channel :: "meter_record \<Rightarrow> nat \<Rightarrow> meter_channel_reading result" where
  "channel r index =
     (if index \<ge> meter_channel_count then Inl (Out_of_range ''meter channel index'')
      else let base = 16 + index * 5 in
        Inr \<lparr>ch_valid = (ucast (valid_mask r) AND push_bit index 1 \<noteq> (0 :: u32)),
             mean_micro_units = signed64 r base,
             rms_count = w32 r (base + 2),
             rms_micro_units = signed64 r (base + 3)\<rparr>)"

record meter_frequency_reading =
  fr_enabled :: bool
  fr_valid :: bool
  fr_reference_valid :: bool
  fr_out_of_range :: bool
  fr_timed_out :: bool
  fr_arithmetic_error :: bool
  fr_millihz :: u32
  fr_period_q16_samples :: u32
  fr_measurement_sequence :: u32
  fr_mode :: u8
  fr_reference_channel :: u8
  fr_cycles_used :: u8

definition frequency :: "meter_record \<Rightarrow> meter_frequency_reading" where
  "frequency r = (let s = w32 r 57 in
     \<lparr>fr_enabled = flag s 0, fr_valid = flag s 1, fr_reference_valid = flag s 2,
      fr_out_of_range = flag s 5, fr_timed_out = flag s 6, fr_arithmetic_error = flag s 7,
      fr_millihz = w32 r 56, fr_period_q16_samples = w32 r 58,
      fr_measurement_sequence = w32 r 59,
      fr_mode = ucast (drop_bit 8 s AND 0x7),
      fr_reference_channel = ucast (drop_bit 12 s AND 0xf),
      fr_cycles_used = ucast (drop_bit 16 s AND 0xff)\<rparr>)"

record meter_aggregate_status =
  ag_arithmetic_error :: bool
  ag_complete :: bool
  ag_frequency_valid :: bool
  ag_utc_overlap :: bool
  ag_utc_resynchronized :: bool

definition aggregate_status :: "meter_record \<Rightarrow> meter_aggregate_status" where
  "aggregate_status r = (let s = w32 r 8 in
     \<lparr>ag_arithmetic_error = flag s 0, ag_complete = flag s 1, ag_frequency_valid = flag s 2,
      ag_utc_overlap = flag s 3, ag_utc_resynchronized = flag s 4\<rparr>)"

record meter_aggregate_composition =
  ac_basic_block_count :: u8
  ac_nominal_frequency_hz :: u8
  ac_cycle_count :: u16

definition aggregate_composition :: "meter_record \<Rightarrow> meter_aggregate_composition" where
  "aggregate_composition r = (let c = w32 r 13 in
     \<lparr>ac_basic_block_count = ucast (c AND 0xff),
      ac_nominal_frequency_hz = ucast (drop_bit 8 c AND 0xff),
      ac_cycle_count = ucast (drop_bit 16 c)\<rparr>)"

definition aggregate_rms_micro_units :: "meter_record \<Rightarrow> nat \<Rightarrow> int result" where
  "aggregate_rms_micro_units r index =
     (if index \<ge> meter_channel_count then Inl (Out_of_range ''meter channel index'')
      else Inr (signed64 r (16 + index * 2)))"

record meter_ten_minute_status =
  tm_arithmetic_error :: bool
  tm_complete :: bool
  tm_time_aligned :: bool
  tm_contaminated :: bool
  tm_boundary_valid :: bool
  tm_open_interval :: bool
  tm_non_normative :: bool

definition ten_minute_status :: "meter_record \<Rightarrow> meter_ten_minute_status" where
  "ten_minute_status r = (let s = w32 r 8 in
     \<lparr>tm_arithmetic_error = flag s 0, tm_complete = flag s 1, tm_time_aligned = flag s 2,
      tm_contaminated = flag s 3, tm_boundary_valid = flag s 4, tm_open_interval = flag s 5,
      tm_non_normative = flag s 6\<rparr>)"

record meter_ten_minute_composition =
  tc_basic_block_count :: u16
  tc_nominal_frequency_hz :: u8
  tc_flags :: u8
  tc_cycle_count :: u32

definition ten_minute_composition :: "meter_record \<Rightarrow> meter_ten_minute_composition" where
  "ten_minute_composition r = (let s = w32 r 13 in
     \<lparr>tc_basic_block_count = ucast (s AND 0xffff),
      tc_nominal_frequency_hz = ucast (drop_bit 16 s AND 0xff),
      tc_flags = ucast (drop_bit 24 s AND 0xff),
      tc_cycle_count = w32 r 41\<rparr>)"

definition ten_minute_actual_last_sample_index :: "meter_record \<Rightarrow> u64" where
  "ten_minute_actual_last_sample_index r = unsigned64 r 36"
definition ten_minute_target_sample_index :: "meter_record \<Rightarrow> u64" where
  "ten_minute_target_sample_index r = unsigned64 r 42"
definition ten_minute_overshoot_samples :: "meter_record \<Rightarrow> u32" where
  "ten_minute_overshoot_samples r = w32 r 44"

section \<open>Facts about the fields\<close>

lemma bit_unsigned64:
  "bit (unsigned64 r i) k \<longleftrightarrow>
     (if k < 32 then bit (w32 r i) k else k < 64 \<and> bit (w32 r (i + 1)) (k - 32))"
  by (auto simp: unsigned64_def bit_simps dest: bit_imp_le_length)

lemma unsigned64_words:
  "ucast (unsigned64 r i) = w32 r i"
  "ucast (drop_bit 32 (unsigned64 r i)) = w32 r (i + 1)"
  by (rule bit_word_eqI, simp add: bit_simps bit_unsigned64)+

lemma signed64_in_int64 [simp]: "in_int64 (signed64 r i)"
  by (simp add: signed64_def)

end
