(* ===== verification/Meter_Timing.thy ===== *)
theory Meter_Timing
  imports Msap1_Prelude
begin

text \<open>
  The timing vocabulary (\<^verbatim>\<open>common/msap1/meter/meter_timing.hpp\<close>) and the measurement
  timebase (\<^verbatim>\<open>measurement_timebase.{hpp,cpp}\<close>): the mapping from the free-running PL sample
  counter to UTC and the quality of that mapping. Times are nanoseconds. The mutex serialises
  the calls, so each operation is one step on the state.
\<close>

section \<open>Timing vocabulary\<close>

datatype measurement_period =
  Basic | Seconds10 | Cycles150_180 | Min10 | Hour2 | Min10Live | Hour2Live | Demand

text \<open>\<^verbatim>\<open>enum class NominalFrequency : std::uint8_t\<close>; a value cast from the wire may be neither.\<close>

datatype nominal_frequency = Hz50 | Hz60 | Hz_other u8

datatype time_quality = Unsynchronized | Synchronized | Holdover

definition cycles_per_basic_block :: "nominal_frequency \<Rightarrow> u32 result" where
  "cycles_per_basic_block nominal =
     (case nominal of
        Hz50 \<Rightarrow> Inr 10
      | Hz60 \<Rightarrow> Inr 12
      | Hz_other _ \<Rightarrow> Inl (Invalid_argument ''invalid nominal frequency''))"

abbreviation basic_blocks_per_aggregate :: u32 where "basic_blocks_per_aggregate \<equiv> 15"

definition cycles_per_aggregate :: "nominal_frequency \<Rightarrow> u32 result" where
  "cycles_per_aggregate nominal =
     bind_result (cycles_per_basic_block nominal) (\<lambda>c. Inr (basic_blocks_per_aggregate * c))"

record block_timing =
  bt_sequence :: u64
  bt_configuration_generation :: u32
  bt_first_sample_index :: u64
  bt_sample_count :: u32
  bt_sample_rate_hz :: u32
  bt_cycle_count :: u16
  bt_nominal_frequency :: nominal_frequency
  bt_cycle_locked :: bool
  bt_free_run_fallback :: bool
  bt_first_block_after_apply :: bool
  bt_utc_resynchronized :: bool
  bt_time_quality :: time_quality
  bt_utc_start :: "int option"
  bt_utc_uncertainty_ns :: "u64 option"

definition class_a_aggregation_eligible :: "block_timing \<Rightarrow> bool result" where
  "class_a_aggregation_eligible t =
     (if bt_cycle_locked t \<and> \<not> bt_free_run_fallback t \<and> \<not> bt_first_block_after_apply t
      then bind_result (cycles_per_basic_block (bt_nominal_frequency t))
             (\<lambda>c. Inr (ucast (bt_cycle_count t) = c))
      else Inr False)"

record aggregate_timing =
  at_sequence :: u64
  at_configuration_generation :: u32
  at_first_sample_index :: u64
  at_last_sample_index :: u64
  at_sample_count :: u32
  at_sample_rate_hz :: u32
  at_first_basic_sequence :: u32
  at_last_basic_sequence :: u32
  at_basic_block_count :: u16
  at_cycle_count :: u32
  at_nominal_frequency :: nominal_frequency
  at_arithmetic_error :: bool
  at_frequency_valid :: bool
  at_utc_overlap :: bool
  at_utc_resynchronized :: bool
  at_time_aligned :: bool
  at_contaminated :: bool
  at_boundary_valid :: bool
  at_target_sample_index :: "u64 option"
  at_overshoot_samples :: "u32 option"
  at_time_quality :: time_quality
  at_utc_start :: "int option"
  at_utc_uncertainty_ns :: "u64 option"

text \<open>The default member initialisers of \<^verbatim>\<open>AggregateTiming\<close>.\<close>

definition aggregate_timing_init :: aggregate_timing where
  "aggregate_timing_init =
     \<lparr>at_sequence = 0, at_configuration_generation = 0, at_first_sample_index = 0,
      at_last_sample_index = 0, at_sample_count = 0, at_sample_rate_hz = 0,
      at_first_basic_sequence = 0, at_last_basic_sequence = 0, at_basic_block_count = 0,
      at_cycle_count = 0, at_nominal_frequency = Hz60, at_arithmetic_error = False,
      at_frequency_valid = False, at_utc_overlap = False, at_utc_resynchronized = False,
      at_time_aligned = False, at_contaminated = False, at_boundary_valid = False,
      at_target_sample_index = None, at_overshoot_samples = None,
      at_time_quality = Unsynchronized, at_utc_start = None, at_utc_uncertainty_ns = None\<rparr>"

section \<open>The measurement timebase\<close>

record time_sync_point =
  sample_counter :: u64
  utc_ns :: int
  uncertainty_ns :: u64
  sync_sample_rate_hz :: u32
  sync_configuration_generation :: u32
  utc_synchronized :: bool

record utc_estimate =
  est_utc :: int
  est_uncertainty_ns :: u64

record measurement_timebase =
  staleness_threshold :: int
  latest_sync :: "time_sync_point option"
  last_sync_at :: int

abbreviation default_staleness_threshold :: int where
  "default_staleness_threshold \<equiv> 30 * 1000000000"

abbreviation max_backward_extrapolation_seconds :: u64 where
  "max_backward_extrapolation_seconds \<equiv> 60"

definition timebase_init :: "int \<Rightarrow> measurement_timebase" where
  "timebase_init staleness =
     \<lparr>staleness_threshold = staleness, latest_sync = None, last_sync_at = 0\<rparr>"

definition record_sync ::
    "measurement_timebase \<Rightarrow> time_sync_point \<Rightarrow> int \<Rightarrow> measurement_timebase" where
  "record_sync tb sync now = tb\<lparr>latest_sync := Some sync, last_sync_at := now\<rparr>"

definition quality :: "measurement_timebase \<Rightarrow> int \<Rightarrow> time_quality" where
  "quality tb now =
     (case latest_sync tb of
        None \<Rightarrow> Unsynchronized
      | Some sync \<Rightarrow>
          if \<not> utc_synchronized sync then Unsynchronized
          else if now - last_sync_at tb > staleness_threshold tb then Holdover
          else Synchronized)"

text \<open>The guard against a sample index far behind the newest sync point.\<close>

definition too_far_behind :: "time_sync_point \<Rightarrow> u64 \<Rightarrow> bool" where
  "too_far_behind sync sample_index \<longleftrightarrow>
     sample_index < sample_counter sync \<and>
     sample_counter sync - sample_index
       > ucast (sync_sample_rate_hz sync) * max_backward_extrapolation_seconds"

text \<open>
  \<^verbatim>\<open>static_cast<std::int64_t>(sample_index - sample_counter)\<close>: the unsigned difference wraps
  and is read as two's complement. The C++ \<^verbatim>\<open>/\<close> and \<^verbatim>\<open>%\<close> truncate.
\<close>

definition extrapolate_ns :: "time_sync_point \<Rightarrow> u64 \<Rightarrow> int" where
  "extrapolate_ns sync sample_index =
     (let delta = sint (sample_index - sample_counter sync);
          rate = uint (sync_sample_rate_hz sync);
          whole_seconds = delta sdiv rate;
          remainder_samples = delta smod rate
      in utc_ns sync + whole_seconds * 1000000000
           + (remainder_samples * 1000000000) sdiv rate)"

definition utc_for_sample ::
    "measurement_timebase \<Rightarrow> u64 \<Rightarrow> u32 \<Rightarrow> int \<Rightarrow> utc_estimate option" where
  "utc_for_sample tb sample_index generation now =
     (case latest_sync tb of
        None \<Rightarrow> None
      | Some sync \<Rightarrow>
          if \<not> utc_synchronized sync \<or> sync_sample_rate_hz sync = 0 then None
          else if generation \<noteq> sync_configuration_generation sync then None
          else if too_far_behind sync sample_index then None
          else Some \<lparr>est_utc = extrapolate_ns sync sample_index,
                     est_uncertainty_ns = uncertainty_ns sync\<rparr>)"

section \<open>Truncating division\<close>

lemma sdiv_pos: "0 \<le> a \<Longrightarrow> 0 < r \<Longrightarrow> a sdiv r = a div (r :: int)"
  by (cases "a = 0") (simp_all add: signed_divide_int_def)

lemma sdiv_neg: "a < 0 \<Longrightarrow> 0 < r \<Longrightarrow> a sdiv r = - ((- a) div (r :: int))"
  by (simp add: signed_divide_int_def)

lemma smod_alt: "a smod r = a - (a sdiv r) * (r :: int)"
  using sdiv_mult_smod_eq [of a r] by simp

text \<open>
  Splitting into whole seconds and a remainder loses nothing: the split form is the
  truncated quotient of the whole product.
\<close>

lemma split_division:
  assumes "0 < r" and that: "0 < c"
  shows "(a sdiv r) * c + ((a smod r) * c) sdiv r = (a * c) sdiv (r :: int)"
proof (cases "0 \<le> a")
  case True
  have m: "a smod r = a mod r"
    using True assms by (simp add: smod_alt sdiv_pos minus_div_mult_eq_mod)
  have "a * c = (a div r * c) * r + (a mod r) * c"
    by (metis (no_types, opaque_lifting) distrib_right div_mult_mod_eq mult.assoc mult.commute)
  then have "(a * c) div r = a div r * c + (a mod r * c) div r"
    using assms by simp
  with True m assms that show ?thesis
    by (simp add: sdiv_pos)
next
  case False
  define b where "b = - a"
  have b: "0 < b" using False by (simp add: b_def)
  have q: "a sdiv r = - (b div r)" using False assms by (simp add: sdiv_neg b_def)
  have m: "a smod r = - (b mod r)"
    by (simp add: smod_alt q b_def minus_div_mult_eq_mod [symmetric])
  have "b * c = (b div r * c) * r + (b mod r) * c"
    by (metis (no_types, opaque_lifting) distrib_right div_mult_mod_eq mult.assoc mult.commute)
  then have d: "(b * c) div r = b div r * c + (b mod r * c) div r"
    using assms by simp
  have neg: "(- x) sdiv r = - (x div r)" if "0 \<le> x" for x
    using that assms by (simp add: sdiv_pos)
  have "0 \<le> b mod r * c" using assms that by simp
  moreover have "0 \<le> b * c" using b that by simp
  ultimately show ?thesis
    using neg [of "b mod r * c"] neg [of "b * c"] q m d by (simp add: b_def)
qed

lemma extrapolate_exact:
  "sync_sample_rate_hz sync \<noteq> 0 \<Longrightarrow>
   extrapolate_ns sync i =
     utc_ns sync + (sint (i - sample_counter sync) * 1000000000) sdiv uint (sync_sample_rate_hz sync)"
proof -
  assume "sync_sample_rate_hz sync \<noteq> 0"
  then have "0 < uint (sync_sample_rate_hz sync)"
    by (rule uint_pos)
  then show ?thesis
    using split_division [of "uint (sync_sample_rate_hz sync)" 1000000000 "sint (i - sample_counter sync)"]
    by (simp add: extrapolate_ns_def Let_def add.assoc)
qed

lemma sdiv_mono: "0 < r \<Longrightarrow> a \<le> b \<Longrightarrow> a sdiv r \<le> b sdiv (r :: int)"
proof -
  assume r: "0 < r" and ab: "a \<le> b"
  show ?thesis
  proof (cases "0 \<le> a")
    case True
    with ab r show ?thesis by (simp add: sdiv_pos zdiv_mono1)
  next
    case False
    then have n: "a sdiv r = - ((- a) div r)" using r by (simp add: sdiv_neg)
    show ?thesis
    proof (cases "0 \<le> b")
      case True
      then have "0 \<le> b sdiv r" using r by (simp add: sdiv_pos pos_imp_zdiv_nonneg_iff)
      moreover have "0 \<le> (- a) div r" using False r by (simp add: pos_imp_zdiv_nonneg_iff)
      ultimately show ?thesis using n by simp
    next
      case F: False
      have "(- b) div r \<le> (- a) div r" using ab r by (simp add: zdiv_mono1)
      with F n r show ?thesis by (simp add: sdiv_neg)
    qed
  qed
qed

section \<open>Sample distances\<close>

lemma sint_diff:
  "- (2 ^ 63) \<le> uint a - uint b \<Longrightarrow> uint a - uint b < 2 ^ 63 \<Longrightarrow>
   sint (a - b) = uint a - uint (b :: u64)"
proof -
  assume r: "- (2 ^ 63) \<le> uint a - uint b" "uint a - uint b < 2 ^ 63"
  have "a - b = word_of_int (uint a - uint b)" by simp
  moreover have "in_int64 (uint a - uint b)"
    using r by (simp add: in_int64_def int64_min_def int64_max_def)
  ultimately show ?thesis by (metis word_of_int_sint64)
qed

lemma uint_backward_limit:
  "uint (ucast (r :: u32) * 60 :: u64) = uint r * 60"
proof -
  have "uint r * 60 < 2 ^ 64" using uint_lt2p [of r] by simp
  then show ?thesis
    by (simp add: uint_word_ariths unsigned_ucast_eq take_bit_int_eq_self_iff
        take_bit_int_eq_self)
qed

lemma not_too_far_behind:
  "\<not> too_far_behind sync i \<longleftrightarrow>
   uint (sample_counter sync) - uint i \<le> 60 * uint (sync_sample_rate_hz sync)"
proof (cases "i < sample_counter sync")
  case True
  then have "uint (sample_counter sync - i) = uint (sample_counter sync) - uint i"
    by (simp add: uint_sub_if' word_less_def)
  with True show ?thesis
    by (simp add: too_far_behind_def word_less_def uint_backward_limit not_less mult.commute)
next
  case False
  then have "uint (sample_counter sync) \<le> uint i" by (simp add: word_less_def not_less)
  moreover have "0 \<le> 60 * uint (sync_sample_rate_hz sync)" by simp
  ultimately have "uint (sample_counter sync) - uint i \<le> 60 * uint (sync_sample_rate_hz sync)"
    by linarith
  with False show ?thesis by (simp add: too_far_behind_def)
qed

text \<open>A labelled sample less than \<open>2 ^ 63\<close> ahead of the sync point: its signed distance.\<close>

lemma labelled_distance:
  "\<not> too_far_behind sync i \<Longrightarrow> uint i - uint (sample_counter sync) < 2 ^ 63 \<Longrightarrow>
   sint (i - sample_counter sync) = uint i - uint (sample_counter sync)"
proof (rule sint_diff)
  assume "\<not> too_far_behind sync i"
  then have "uint (sample_counter sync) - uint i \<le> 60 * uint (sync_sample_rate_hz sync)"
    by (simp add: not_too_far_behind)
  moreover have "uint (sync_sample_rate_hz sync) < 2 ^ 32"
    using uint_lt2p [of "sync_sample_rate_hz sync"] by simp
  ultimately show "- (2 ^ 63) \<le> uint i - uint (sample_counter sync)" by simp
qed simp_all

section \<open>Properties\<close>


text \<open>
  Labels are monotone in the sample index and never reach back more than 60 seconds before
  the sync point: with one sync point installed, a later sample (less than \<open>2 ^ 63\<close> samples
  ahead) never gets an earlier label.
\<close>

theorem timebase_label_monotone:
  assumes i: "utc_for_sample tb i generation now = Some e"
    and j: "utc_for_sample tb j generation now' = Some f"
    and "i \<le> j"
    and sync: "latest_sync tb = Some sync"
    and ahead: "uint j - uint (sample_counter sync) < 2 ^ 63"
  shows "est_utc e \<le> est_utc f \<and> utc_ns sync - 60 * 1000000000 \<le> est_utc e"
proof -
  let ?r = "uint (sync_sample_rate_hz sync)"
  let ?d = "\<lambda>k. uint k - uint (sample_counter sync)"
  from i j sync have r: "sync_sample_rate_hz sync \<noteq> 0" "\<not> too_far_behind sync i" "\<not> too_far_behind sync j"
    and e: "est_utc e = extrapolate_ns sync i" "est_utc f = extrapolate_ns sync j"
    by (auto simp: utc_for_sample_def split: if_splits)
  have ij: "uint i \<le> uint j" using \<open>i \<le> j\<close> by (simp add: word_le_def)
  have rp: "0 < ?r" using r(1) by (rule uint_pos)
  have di: "sint (i - sample_counter sync) = ?d i" "sint (j - sample_counter sync) = ?d j"
    using labelled_distance r(2,3) ahead ij by auto
  have "(?d i * 1000000000) sdiv ?r \<le> (?d j * 1000000000) sdiv ?r"
    using rp ij by (intro sdiv_mono) simp_all
  moreover have "(- (60 * 1000000000) * ?r) sdiv ?r \<le> (?d i * 1000000000) sdiv ?r"
    using rp r(2) by (intro sdiv_mono) (simp_all add: not_too_far_behind)
  moreover have "(- (60 * 1000000000) * ?r) sdiv ?r = - (60 * 1000000000)"
    using rp by (simp add: sdiv_pos)
  ultimately show ?thesis
    using e di r(1) by (simp add: extrapolate_exact)
qed

definition sample_sync :: time_sync_point where
  "sample_sync = \<lparr>sample_counter = 1000, utc_ns = 5000000000, uncertainty_ns = 10,
     sync_sample_rate_hz = 1000, sync_configuration_generation = 7, utc_synchronized = True\<rparr>"

definition sample_timebase :: measurement_timebase where
  "sample_timebase = record_sync (timebase_init default_staleness_threshold) sample_sync 0"

lemma sample_labels:
  "utc_for_sample sample_timebase 500 7 0 =
     Some \<lparr>est_utc = 4500000000, est_uncertainty_ns = 10\<rparr>"
  "utc_for_sample sample_timebase 2500 7 9 =
     Some \<lparr>est_utc = 6500000000, est_uncertainty_ns = 10\<rparr>"
  by (simp_all add: utc_for_sample_def sample_timebase_def sample_sync_def record_sync_def
      timebase_init_def too_far_behind_def extrapolate_ns_def Let_def)

theorem timebase_label_monotone_witness:
  "est_utc (the (utc_for_sample sample_timebase 500 7 0))
     \<le> est_utc (the (utc_for_sample sample_timebase 2500 7 9)) \<and>
   utc_ns sample_sync - 60 * 1000000000 \<le> est_utc (the (utc_for_sample sample_timebase 500 7 0))"
proof -
  have "latest_sync sample_timebase = Some sample_sync"
    by (simp add: sample_timebase_def record_sync_def)
  moreover have "uint (2500 :: u64) - uint (sample_counter sample_sync) < 2 ^ 63"
    by (simp add: sample_sync_def)
  ultimately show ?thesis
    using timebase_label_monotone [OF sample_labels] by (simp add: sample_labels)
qed

text \<open>
  The quality state machine: after a sync point is recorded, the quality is Unsynchronized
  for an untrusted system clock; for a trusted one it is Synchronized up to the staleness
  threshold and Holdover after it, whatever the state was before.
\<close>

theorem timebase_quality_after_sync:
  "quality (record_sync tb sync t) now =
     (if \<not> utc_synchronized sync then Unsynchronized
      else if now \<le> t + staleness_threshold tb then Synchronized else Holdover)"
  by (auto simp: quality_def record_sync_def)

end
