(* ===== verification/Energy_Demand.thy ===== *)
theory Energy_Demand
  imports Meter_Record Meter_Timing
begin

text \<open>
  The ENERGY-v1 and DEMAND-v1 decoders and the two-part ENERGY family assembler
  (\<^verbatim>\<open>common/msap1/meter/energy_demand.{hpp,cpp}\<close>) with the typed values they produce
  (\<^verbatim>\<open>meter_data.hpp\<close>). A throwing decoder returns \<^verbatim>\<open>Inl\<close>; the assembler's step also returns
  the state it is left in when it throws.
\<close>

section \<open>Typed readings\<close>

text \<open>
  \<^verbatim>\<open>enum class MeasurementQuality : std::uint8_t\<close>. A value cast from a stored byte may be
  none of the named ones.
\<close>

datatype measurement_quality =
    Q_unavailable | Q_valid | Q_invalid | Q_out_of_range | Q_timed_out | Q_arithmetic_error
  | Q_other u8

record sample_window =
  sw_sample_count :: u32
  sw_duration :: int

record reading =
  rd_value :: int
  rd_quality :: measurement_quality
  rd_source_sequence :: u64
  rd_measured_at :: int
  rd_calculation_window :: sample_window

record 'a phase_abc_total =
  phase_a :: 'a
  phase_b :: 'a
  phase_c :: 'a
  total :: 'a

record energy_values =
  active_import :: "reading phase_abc_total"
  active_export :: "reading phase_abc_total"
  apparent :: "reading phase_abc_total"
  reactive_quadrants :: "reading phase_abc_total list"
  ev_session_id :: u64
  ev_last_sample_index :: u64
  ev_accepted_samples :: u64
  ev_skipped_samples :: u64
  ev_accepted_blocks :: u32
  ev_skipped_blocks :: u32
  ev_reset_epoch :: u64
  ev_saturated :: bool
  ev_incomplete_input :: bool
  ev_discontinuity :: bool

datatype demand_method_kind = fixed_block | sliding

record demand_values =
  current_active :: "reading phase_abc_total"
  import_peak :: "reading phase_abc_total"
  export_peak :: "reading phase_abc_total"
  import_peak_sample :: "u64 phase_abc_total"
  export_peak_sample :: "u64 phase_abc_total"
  dv_session_id :: u64
  dv_last_sample_index :: u64
  dv_interval_anchor_sample :: u64
  dv_source_interval_count :: u32
  dv_source_status :: u32
  dv_window_seconds :: u32
  dv_update_seconds :: u32
  dv_profile_generation :: u32
  dv_peak_reset_epoch :: u64
  dv_method :: demand_method_kind
  dv_time_aligned :: bool
  dv_contaminated :: bool
  dv_boundary_valid :: bool
  dv_saturated :: bool
  dv_incomplete_input :: bool

text \<open>\<^verbatim>\<open>phase_total(values, index)\<close> for index 0..3, as a whole group.\<close>

definition phase_list :: "'a phase_abc_total \<Rightarrow> 'a list" where
  "phase_list g = [phase_a g, phase_b g, phase_c g, total g]"

definition phase_group :: "'a list \<Rightarrow> 'a phase_abc_total" where
  "phase_group xs = \<lparr>phase_a = xs ! 0, phase_b = xs ! 1, phase_c = xs ! 2, total = xs ! 3\<rparr>"

lemma phase_group_list [simp]: "phase_group (phase_list g) = g"
  by (simp add: phase_group_def phase_list_def)

lemma length_phase_list [simp]: "length (phase_list g) = 4"
  by (simp add: phase_list_def)

lemma phase_list_group: "length xs = 4 \<Longrightarrow> phase_list (phase_group xs) = xs"
  by (rule nth_equalityI) (auto simp: phase_list_def phase_group_def less_Suc_eq numeral_eq_Suc)

section \<open>Checks\<close>

definition require_zero_words ::
    "meter_record \<Rightarrow> nat \<Rightarrow> nat \<Rightarrow> string \<Rightarrow> (bool \<times> exn) list" where
  "require_zero_words r first_word last_word message =
     map (\<lambda>i. (w32 r i = 0, Invalid_argument message)) [first_word..<Suc last_word]"

abbreviation counter_range_error :: exn where
  "counter_range_error \<equiv> Invalid_argument ''energy/demand counter exceeds INT64_MAX''"

definition checked_counter :: "meter_record \<Rightarrow> nat \<Rightarrow> int result" where
  "checked_counter r i =
     (if uint (unsigned64 r i) \<le> int64_max then Inr (uint (unsigned64 r i))
      else Inl counter_range_error)"

definition counter_checks :: "meter_record \<Rightarrow> nat list \<Rightarrow> (bool \<times> exn) list" where
  "counter_checks r bases =
     concat (map (\<lambda>base. map (\<lambda>index.
       (uint (unsigned64 r (base + index * 2)) \<le> int64_max, counter_range_error)) [0..<4]) bases)"

definition source_window :: "meter_record \<Rightarrow> sample_window result" where
  "source_window r =
     (if sample_rate_hz r = 0 then Inl (Invalid_argument ''energy/demand sample rate is zero'')
      else let nanoseconds =
             (ucast (block_sample_count r) * 1000000000) div (ucast (sample_rate_hz r) :: u64)
        in if uint nanoseconds \<le> int64_max
           then Inr \<lparr>sw_sample_count = block_sample_count r, sw_duration = uint nanoseconds\<rparr>
           else Inl (Invalid_argument ''energy/demand source window exceeds duration range''))"

definition reading_quality :: "bool \<Rightarrow> bool \<Rightarrow> measurement_quality" where
  "reading_quality valid saturated =
     (if \<not> valid then Q_invalid else if saturated then Q_out_of_range else Q_valid)"

definition counter_reading ::
    "meter_record \<Rightarrow> nat \<Rightarrow> bool \<Rightarrow> bool \<Rightarrow> int \<Rightarrow> sample_window \<Rightarrow> reading result" where
  "counter_reading r i valid saturated received_at window =
     bind_result (checked_counter r i) (\<lambda>v.
       Inr \<lparr>rd_value = v, rd_quality = reading_quality valid saturated,
            rd_source_sequence = ucast (rec_sequence r), rd_measured_at = received_at,
            rd_calculation_window = window\<rparr>)"

definition signed_demand_reading ::
    "meter_record \<Rightarrow> nat \<Rightarrow> bool \<Rightarrow> bool \<Rightarrow> int \<Rightarrow> sample_window \<Rightarrow> reading" where
  "signed_demand_reading r i valid saturated received_at window =
     \<lparr>rd_value = signed64 r i, rd_quality = reading_quality valid saturated,
      rd_source_sequence = ucast (rec_sequence r), rd_measured_at = received_at,
      rd_calculation_window = window\<rparr>"

definition energy_header_allowed_mask :: u32 where "energy_header_allowed_mask = 0x00000f1f"
definition energy_status_allowed_mask :: u32 where "energy_status_allowed_mask = 0x0000001f"
definition demand_header_allowed_mask :: u32 where "demand_header_allowed_mask = 0xffffffff"
definition demand_status_allowed_mask :: u32 where "demand_status_allowed_mask = 0x0000007f"

text \<open>The sequence of checks of \<^verbatim>\<open>validate_energy_part\<close>, in the order of the code.\<close>

definition energy_part_checks :: "meter_record \<Rightarrow> (bool \<times> exn) list" where
  "energy_part_checks r =
     [(header_valid r \<and> record_format r = meter_energy_format,
         Invalid_argument ''invalid ENERGY-v1 envelope''),
      (w32 r 13 AND NOT energy_header_allowed_mask = 0,
         Invalid_argument ''ENERGY-v1 format header reserved bits are nonzero''),
      (energy_part r \<le> meter_energy_part_quadrants,
         Invalid_argument ''ENERGY-v1 part kind is invalid''),
      (energy_part_count r = meter_energy_part_count,
         Invalid_argument ''ENERGY-v1 part count is not two''),
      (energy_family_complete r \<and> energy_complete r,
         Invalid_argument ''ENERGY-v1 family is not marked complete''),
      (rec_status r AND NOT energy_status_allowed_mask = 0,
         Invalid_argument ''ENERGY-v1 status reserved bits are nonzero''),
      (emit_drops r = 0 \<and> result_drops r = 0,
         Invalid_argument ''ENERGY-v1 carries transport drops''),
      (block_sample_count r \<noteq> 0,
         Invalid_argument ''ENERGY-v1 source sample count is zero''),
      (energy_session_id r \<noteq> 0, Invalid_argument ''ENERGY-v1 session ID is zero''),
      (energy_last_sample_index r \<ge> first_sample_index r,
         Invalid_argument ''ENERGY-v1 sample anchors are reversed'')]
     @ (if energy_part r = meter_energy_part_summary
        then require_zero_words r 40 47 ''ENERGY-v1 summary reserved words are nonzero'' else [])
     @ require_zero_words r 56 63 ''ENERGY-v1 tail reserved words are nonzero''
     @ (if energy_part r = meter_energy_part_summary
        then counter_checks r [meter_energy_summary_import_word,
               meter_energy_summary_export_word, meter_energy_summary_apparent_word]
        else counter_checks r meter_energy_quadrant_words)"

definition validate_energy_part :: "meter_record \<Rightarrow> unit result" where
  "validate_energy_part r = require_all (energy_part_checks r)"

definition demand_checks :: "meter_record \<Rightarrow> (bool \<times> exn) list" where
  "demand_checks r =
     (let method = demand_method r; window = demand_interval_seconds r;
          update = demand_update_seconds r
      in [(header_valid r \<and> record_format r = meter_demand_format,
             Invalid_argument ''invalid DEMAND-v1 envelope''),
          (w32 r 13 AND NOT demand_header_allowed_mask = 0,
             Invalid_argument ''DEMAND-v1 format header reserved bits are nonzero''),
          (method \<le> 1, Invalid_argument ''DEMAND-v1 method is invalid''),
          (if method = 0
           then (window = meter_demand_fixed_interval_seconds \<and>
                   update = meter_demand_fixed_interval_seconds,
                 Invalid_argument ''DEMAND-v1 fixed profile is not 600/600 seconds'')
           else ((window = 60 \<or> window = 300 \<or> window = 600 \<or> window = 900 \<or> window = 1800)
                   \<and> update = meter_demand_sliding_update_seconds,
                 Invalid_argument ''DEMAND-v1 sliding profile is invalid'')),
          (demand_complete r, Invalid_argument ''DEMAND-v1 is not complete''),
          (rec_status r AND NOT demand_status_allowed_mask = 0,
             Invalid_argument ''DEMAND-v1 status reserved bits are nonzero''),
          (emit_drops r = 0 \<and> result_drops r = 0,
             Invalid_argument ''DEMAND-v1 carries transport drops''),
          (block_sample_count r \<noteq> 0,
             Invalid_argument ''DEMAND-v1 source sample count is zero''),
          (demand_session_id r \<noteq> 0, Invalid_argument ''DEMAND-v1 session ID is zero''),
          (demand_last_sample_index r \<ge> first_sample_index r,
             Invalid_argument ''DEMAND-v1 sample anchors are reversed''),
          (demand_profile_generation r \<noteq> 0,
             Invalid_argument ''DEMAND-v1 profile generation is zero'')]
         @ require_zero_words r 63 63 ''DEMAND-v1 reserved tail word is nonzero''
         @ concat (map (\<lambda>index.
             [(uint (unsigned64 r (meter_demand_import_peak_word + index * 2)) \<le> int64_max,
                 counter_range_error),
              (uint (unsigned64 r (meter_demand_export_peak_word + index * 2)) \<le> int64_max,
                 counter_range_error)]) [0..<4]))"

definition validate_demand :: "meter_record \<Rightarrow> unit result" where
  "validate_demand r = require_all (demand_checks r)"

section \<open>Flat counter arrays\<close>

abbreviation energy_counter_count :: nat where "energy_counter_count \<equiv> 28"

definition energy_groups :: "energy_values \<Rightarrow> reading phase_abc_total list" where
  "energy_groups v = [active_import v, active_export v, apparent v] @ reactive_quadrants v"

definition flatten_energy_counters :: "energy_values \<Rightarrow> int list" where
  "flatten_energy_counters v = concat (map (map rd_value \<circ> phase_list) (energy_groups v))"

definition assign_group_values ::
    "reading phase_abc_total \<Rightarrow> int list \<Rightarrow> reading phase_abc_total" where
  "assign_group_values g xs =
     \<lparr>phase_a = (phase_a g)\<lparr>rd_value := xs ! 0\<rparr>, phase_b = (phase_b g)\<lparr>rd_value := xs ! 1\<rparr>,
      phase_c = (phase_c g)\<lparr>rd_value := xs ! 2\<rparr>, total = (total g)\<lparr>rd_value := xs ! 3\<rparr>\<rparr>"

definition assign_energy_counters :: "energy_values \<Rightarrow> int list \<Rightarrow> energy_values" where
  "assign_energy_counters v counters =
     v\<lparr>active_import := assign_group_values (active_import v) (take 4 counters),
       active_export := assign_group_values (active_export v) (take 4 (drop 4 counters)),
       apparent := assign_group_values (apparent v) (take 4 (drop 8 counters)),
       reactive_quadrants := map (\<lambda>q. assign_group_values (reactive_quadrants v ! q)
         (take 4 (drop (12 + q * 4) counters))) [0..<4]\<rparr>"

definition flatten_demand_values :: "reading phase_abc_total \<Rightarrow> int list" where
  "flatten_demand_values g = map rd_value (phase_list g)"

text \<open>\<^verbatim>\<open>assign_demand_values\<close> stores four values into the readings of a group.\<close>

abbreviation assign_demand_values ::
    "reading phase_abc_total \<Rightarrow> int list \<Rightarrow> reading phase_abc_total" where
  "assign_demand_values \<equiv> assign_group_values"

section \<open>The ENERGY family\<close>

record energy_family_identity =
  id_sequence :: u32
  id_configuration_generation :: u32
  id_sample_rate_hz :: u32
  id_sample_count :: u32
  id_source_valid_mask :: u8
  id_status :: u32
  id_first_sample_index :: u64
  id_last_sample_index :: u64
  id_session_id :: u64
  id_accepted_samples :: u64
  id_skipped_samples :: u64
  id_accepted_blocks :: u32
  id_skipped_blocks :: u32

definition energy_identity :: "meter_record \<Rightarrow> energy_family_identity" where
  "energy_identity r =
     \<lparr>id_sequence = rec_sequence r, id_configuration_generation = configuration_generation r,
      id_sample_rate_hz = sample_rate_hz r, id_sample_count = block_sample_count r,
      id_source_valid_mask = valid_mask r, id_status = rec_status r,
      id_first_sample_index = first_sample_index r,
      id_last_sample_index = energy_last_sample_index r, id_session_id = energy_session_id r,
      id_accepted_samples = energy_accepted_samples r,
      id_skipped_samples = energy_skipped_samples r,
      id_accepted_blocks = energy_accepted_blocks r,
      id_skipped_blocks = energy_skipped_blocks r\<rparr>"

definition decode_energy_identity :: "meter_record \<Rightarrow> energy_family_identity result" where
  "decode_energy_identity r =
     bind_result (validate_energy_part r) (\<lambda>_. Inr (energy_identity r))"

text \<open>One group of four counters that start at a word of a part.\<close>

definition decode_energy_group ::
    "meter_record \<Rightarrow> nat \<Rightarrow> bool \<Rightarrow> int \<Rightarrow> sample_window \<Rightarrow> reading phase_abc_total result" where
  "decode_energy_group r base saturated received_at window =
     bind_result (traverse (\<lambda>index.
         counter_reading r (base + index * 2)
           (ucast (energy_category_valid_mask r) AND push_bit index 1 \<noteq> (0 :: u32))
           saturated received_at window) [0..<4])
       (\<lambda>rs. Inr (phase_group rs))"

definition decode_energy_family ::
    "meter_record \<Rightarrow> meter_record \<Rightarrow> int \<Rightarrow> energy_values result" where
  "decode_energy_family summary quadrants received_at =
     bind_result (decode_energy_identity summary) (\<lambda>summary_identity.
     bind_result (decode_energy_identity quadrants) (\<lambda>quadrant_identity.
     bind_result (require_all
       [(energy_part summary = meter_energy_part_summary,
           Invalid_argument ''ENERGY-v1 summary part is missing''),
        (energy_part quadrants = meter_energy_part_quadrants,
           Invalid_argument ''ENERGY-v1 quadrant part is missing''),
        (summary_identity = quadrant_identity,
           Invalid_argument ''ENERGY-v1 parts have mismatched family identity'')]) (\<lambda>_.
     bind_result (source_window summary) (\<lambda>window.
     let saturated = energy_saturated summary in
     bind_result (decode_energy_group summary meter_energy_summary_import_word
                    saturated received_at window) (\<lambda>imports.
     bind_result (decode_energy_group summary meter_energy_summary_export_word
                    saturated received_at window) (\<lambda>exports.
     bind_result (decode_energy_group summary meter_energy_summary_apparent_word
                    saturated received_at window) (\<lambda>apparents.
     bind_result (traverse (\<lambda>base. decode_energy_group quadrants base
                    saturated received_at window) meter_energy_quadrant_words) (\<lambda>reactive.
       Inr \<lparr>active_import = imports, active_export = exports, apparent = apparents,
            reactive_quadrants = reactive,
            ev_session_id = id_session_id summary_identity,
            ev_last_sample_index = id_last_sample_index summary_identity,
            ev_accepted_samples = id_accepted_samples summary_identity,
            ev_skipped_samples = id_skipped_samples summary_identity,
            ev_accepted_blocks = id_accepted_blocks summary_identity,
            ev_skipped_blocks = id_skipped_blocks summary_identity,
            ev_reset_epoch = 0,
            ev_saturated = saturated,
            ev_incomplete_input = energy_incomplete_input summary,
            ev_discontinuity = energy_discontinuity summary\<rparr>))))))))"

section \<open>Default values\<close>

text \<open>Values as default-initialised by \<^verbatim>\<open>EnergyValues values;\<close> and \<^verbatim>\<open>DemandValues values;\<close>.\<close>

definition reading_init :: reading where
  "reading_init = \<lparr>rd_value = 0, rd_quality = Q_unavailable, rd_source_sequence = 0,
     rd_measured_at = 0, rd_calculation_window = \<lparr>sw_sample_count = 0, sw_duration = 0\<rparr>\<rparr>"

definition group_init :: "reading phase_abc_total" where
  "group_init = phase_group (replicate 4 reading_init)"

definition energy_values_init :: energy_values where
  "energy_values_init =
     \<lparr>active_import = group_init, active_export = group_init, apparent = group_init,
      reactive_quadrants = replicate 4 group_init, ev_session_id = 0, ev_last_sample_index = 0,
      ev_accepted_samples = 0, ev_skipped_samples = 0, ev_accepted_blocks = 0,
      ev_skipped_blocks = 0, ev_reset_epoch = 0, ev_saturated = False,
      ev_incomplete_input = False, ev_discontinuity = False\<rparr>"

definition demand_values_init :: demand_values where
  "demand_values_init =
     \<lparr>current_active = group_init, import_peak = group_init, export_peak = group_init,
      import_peak_sample = phase_group (replicate 4 0),
      export_peak_sample = phase_group (replicate 4 0), dv_session_id = 0,
      dv_last_sample_index = 0, dv_interval_anchor_sample = 0, dv_source_interval_count = 0,
      dv_source_status = 0, dv_window_seconds = 0, dv_update_seconds = 0,
      dv_profile_generation = 0, dv_peak_reset_epoch = 0, dv_method = sliding,
      dv_time_aligned = False, dv_contaminated = False, dv_boundary_valid = False,
      dv_saturated = False, dv_incomplete_input = False\<rparr>"

section \<open>The family assembler\<close>

record energy_assembly_update =
  completed :: "energy_values option"
  incomplete_families :: u64
  duplicate_part :: bool

record energy_family_assembler =
  identity :: "energy_family_identity option"
  summary_part :: "meter_record option"
  quadrants_part :: "meter_record option"

definition assembler_reset :: energy_family_assembler where
  "assembler_reset = \<lparr>identity = None, summary_part = None, quadrants_part = None\<rparr>"

definition pending_parts :: "energy_family_assembler \<Rightarrow> nat" where
  "pending_parts a = of_bool (summary_part a \<noteq> None) + of_bool (quadrants_part a \<noteq> None)"

text \<open>
  The slot a record belongs to, and the record placed into it: \<^verbatim>\<open>auto &slot = ...; slot = record\<close>.
\<close>

definition part_slot :: "energy_family_assembler \<Rightarrow> meter_record \<Rightarrow> meter_record option" where
  "part_slot a r =
     (if energy_part r = meter_energy_part_summary then summary_part a else quadrants_part a)"

definition fill_slot :: "energy_family_assembler \<Rightarrow> meter_record \<Rightarrow> energy_family_assembler" where
  "fill_slot a r =
     (if energy_part r = meter_energy_part_summary then a\<lparr>summary_part := Some r\<rparr>
      else a\<lparr>quadrants_part := Some r\<rparr>)"

text \<open>A part of another family discards what is pending; then the identity is fixed.\<close>

definition adopt_identity ::
    "energy_family_assembler \<Rightarrow> energy_family_identity \<Rightarrow> energy_family_assembler \<times> u64" where
  "adopt_identity a incoming =
     (let (a1, incomplete) =
        (case identity a of
           Some old \<Rightarrow>
             if old \<noteq> incoming
             then (assembler_reset,
                   if summary_part a \<noteq> None \<or> quadrants_part a \<noteq> None then 1 else 0)
             else (a, 0)
         | None \<Rightarrow> (a, 0))
      in (case identity a1 of None \<Rightarrow> a1\<lparr>identity := Some incoming\<rparr> | Some _ \<Rightarrow> a1, incomplete))"

text \<open>Once both parts are present the family is decoded and the assembler emptied.\<close>

definition complete_family ::
    "energy_family_assembler \<Rightarrow> u64 \<Rightarrow> bool \<Rightarrow> int
       \<Rightarrow> energy_family_assembler \<times> energy_assembly_update result" where
  "complete_family a incomplete duplicate received_at =
     (case (summary_part a, quadrants_part a) of
        (Some s, Some q) \<Rightarrow>
          (case decode_energy_family s q received_at of
             Inl e \<Rightarrow> (a, Inl e)
           | Inr v \<Rightarrow> (assembler_reset,
                Inr \<lparr>completed = Some v, incomplete_families = incomplete,
                     duplicate_part = duplicate\<rparr>))
      | _ \<Rightarrow> (a, Inr \<lparr>completed = None, incomplete_families = incomplete,
                     duplicate_part = duplicate\<rparr>))"

definition assembler_accept ::
    "energy_family_assembler \<Rightarrow> meter_record \<Rightarrow> int
       \<Rightarrow> energy_family_assembler \<times> energy_assembly_update result" where
  "assembler_accept a r received_at =
     (case decode_energy_identity r of
        Inl e \<Rightarrow> (a, Inl e)
      | Inr incoming \<Rightarrow>
          (let (a1, incomplete) = adopt_identity a incoming in
           case part_slot a1 r of
             Some old \<Rightarrow>
               if words old \<noteq> words r
               then (a1, Inl (Invalid_argument ''ENERGY-v1 duplicate part has different payload''))
               else complete_family a1 incomplete True received_at
           | None \<Rightarrow> complete_family (fill_slot a1 r) incomplete False received_at))"

section \<open>The DEMAND record\<close>

text \<open>
  \<^verbatim>\<open>MeterUpdate\<close> with the members this decoder fills; the other optional members stay empty.
\<close>

record demand_update =
  du_period :: measurement_period
  du_sequence :: u64
  du_configuration_generation :: u32
  du_demand :: demand_values
  du_aggregate_timing :: aggregate_timing

definition demand_peak_group ::
    "meter_record \<Rightarrow> nat \<Rightarrow> int \<Rightarrow> sample_window \<Rightarrow> reading phase_abc_total result" where
  "demand_peak_group r base received_at window =
     bind_result (traverse (\<lambda>index. counter_reading r (base + index * 2) True
         (demand_saturated r) received_at window) [0..<4])
       (\<lambda>rs. Inr (phase_group rs))"

definition demand_interval_valid :: "meter_record \<Rightarrow> demand_method_kind \<Rightarrow> bool" where
  "demand_interval_valid r method \<longleftrightarrow>
     (method = sliding \<or> demand_time_aligned r) \<and>
     demand_boundary_valid r \<and> \<not> demand_contaminated r"

definition demand_aggregate_timing :: "meter_record \<Rightarrow> aggregate_timing" where
  "demand_aggregate_timing r = aggregate_timing_init
     \<lparr>at_sequence := ucast (rec_sequence r),
      at_configuration_generation := configuration_generation r,
      at_first_sample_index := first_sample_index r,
      at_last_sample_index := demand_last_sample_index r,
      at_sample_count := block_sample_count r,
      at_sample_rate_hz := sample_rate_hz r,
      at_time_aligned := demand_time_aligned r,
      at_contaminated := demand_contaminated r,
      at_boundary_valid := demand_boundary_valid r,
      at_target_sample_index := Some (unsigned64 r meter_demand_interval_anchor_sample_word)\<rparr>"

definition decode_demand_meter_record :: "meter_record \<Rightarrow> int \<Rightarrow> demand_update result" where
  "decode_demand_meter_record r received_at =
     bind_result (validate_demand r) (\<lambda>_.
     bind_result (source_window r) (\<lambda>window.
     let method = (if demand_method r = 0 then fixed_block else sliding);
         interval_valid = demand_interval_valid r method in
     bind_result (demand_peak_group r meter_demand_import_peak_word received_at window) (\<lambda>imports.
     bind_result (demand_peak_group r meter_demand_export_peak_word received_at window) (\<lambda>exports.
       Inr \<lparr>du_period = Demand,
            du_sequence = ucast (rec_sequence r),
            du_configuration_generation = configuration_generation r,
            du_demand =
              \<lparr>current_active = phase_group (map (\<lambda>index.
                   signed_demand_reading r (meter_demand_current_word + index * 2)
                     (interval_valid \<and>
                      ucast (demand_valid_mask r) AND push_bit index 1 \<noteq> (0 :: u32))
                     (demand_saturated r) received_at window) [0..<4]),
               import_peak = imports, export_peak = exports,
               import_peak_sample = phase_group (map (\<lambda>index.
                 unsigned64 r (meter_demand_import_peak_anchor_word + index * 2)) [0..<4]),
               export_peak_sample = phase_group (map (\<lambda>index.
                 unsigned64 r (meter_demand_export_peak_anchor_word + index * 2)) [0..<4]),
               dv_session_id = demand_session_id r,
               dv_last_sample_index = demand_last_sample_index r,
               dv_interval_anchor_sample = unsigned64 r meter_demand_interval_anchor_sample_word,
               dv_source_interval_count = w32 r meter_demand_source_interval_count_word,
               dv_source_status = w32 r meter_demand_source_status_word,
               dv_window_seconds = ucast (demand_interval_seconds r),
               dv_update_seconds = ucast (demand_update_seconds r),
               dv_profile_generation = demand_profile_generation r,
               dv_peak_reset_epoch = 0,
               dv_method = method,
               dv_time_aligned = demand_time_aligned r,
               dv_contaminated = demand_contaminated r,
               dv_boundary_valid = demand_boundary_valid r,
               dv_saturated = demand_saturated r,
               dv_incomplete_input = demand_incomplete_input r\<rparr>,
            du_aggregate_timing = demand_aggregate_timing r\<rparr>))))"

section \<open>Successful decodes\<close>

definition part_valid :: "meter_record \<Rightarrow> bool" where
  "part_valid r \<longleftrightarrow> validate_energy_part r = Inr ()"

lemma decode_energy_identity_ok [simp]:
  "decode_energy_identity r = Inr i \<longleftrightarrow> part_valid r \<and> i = energy_identity r"
  by (auto simp: decode_energy_identity_def part_valid_def)

lemma decode_energy_identity_valid:
  "part_valid r \<Longrightarrow> decode_energy_identity r = Inr (energy_identity r)"
  by simp

lemma part_valid_checks: "part_valid r \<longleftrightarrow> (\<forall>(c, e) \<in> set (energy_part_checks r). c)"
  by (simp add: part_valid_def validate_energy_part_def)

lemma part_kind: "part_valid r \<Longrightarrow> energy_part r = 0 \<or> energy_part r = 1"
proof -
  assume "part_valid r"
  then have "energy_part r \<le> 1"
    by (simp add: part_valid_checks energy_part_checks_def)
  then have "uint (energy_part r) \<le> 1" by (simp add: word_le_def)
  moreover have "0 \<le> uint (energy_part r)" by simp
  ultimately have "uint (energy_part r) = 0 \<or> uint (energy_part r) = 1" by linarith
  then show ?thesis by (metis uint_0_iff uint_1 word_uint_eqI)
qed

lemma counter_checks_in:
  "set (counter_checks r bases) \<subseteq> S \<Longrightarrow> \<forall>(c, e) \<in> S. c \<Longrightarrow> base \<in> set bases \<Longrightarrow> i < 4 \<Longrightarrow>
   uint (unsigned64 r (base + i * 2)) \<le> int64_max"
  unfolding counter_checks_def by fastforce

lemma part_counters:
  assumes "part_valid r"
    and "base \<in> set (if energy_part r = 0 then [16, 24, 32] else meter_energy_quadrant_words)"
    and "i < 4"
  shows "uint (unsigned64 r (base + i * 2)) \<le> int64_max"
proof -
  have "\<forall>(c, e) \<in> set (energy_part_checks r). c"
    using assms(1) by (simp only: part_valid_checks)
  moreover have "set (counter_checks r (if energy_part r = 0 then [16, 24, 32]
      else meter_energy_quadrant_words)) \<subseteq> set (energy_part_checks r)"
    by (auto simp: energy_part_checks_def)
  ultimately show ?thesis using counter_checks_in assms(2,3) by blast
qed

text \<open>The window of a record with a nonzero rate; the product of the code cannot wrap.\<close>

lemma window_product: "uint (ucast (n :: u32) * 1000000000 :: u64) = uint n * 1000000000"
proof -
  have "uint n * 1000000000 < 2 ^ 64" using uint_lt2p [of n] by simp
  then show ?thesis
    by (simp add: uint_word_ariths unsigned_ucast_eq take_bit_int_eq_self_iff
        take_bit_int_eq_self)
qed

lemma source_window_ok:
  "sample_rate_hz r \<noteq> 0 \<Longrightarrow>
   source_window r = Inr \<lparr>sw_sample_count = block_sample_count r,
     sw_duration = uint (block_sample_count r) * 1000000000 div uint (sample_rate_hz r)\<rparr>"
proof -
  assume r: "sample_rate_hz r \<noteq> 0"
  let ?n = "uint (block_sample_count r) * 1000000000"
  have "?n div uint (sample_rate_hz r) \<le> ?n"
    using uint_pos [OF r] zdiv_mono2 [of ?n 1 "uint (sample_rate_hz r)"] by simp
  moreover have "?n \<le> int64_max"
    using uint_lt2p [of "block_sample_count r"] by (simp add: int64_max_def)
  moreover have "uint (ucast (block_sample_count r) * 1000000000 div ucast (sample_rate_hz r) :: u64)
      = ?n div uint (sample_rate_hz r)"
    by (simp add: uint_div window_product)
  ultimately show ?thesis using r by (simp add: source_window_def Let_def)
qed

lemma source_window_zero: "sample_rate_hz r = 0 \<Longrightarrow> \<exists>e. source_window r = Inl e"
  by (simp add: source_window_def)

section \<open>Decoding a family\<close>

definition window_of :: "meter_record \<Rightarrow> sample_window" where
  "window_of r = \<lparr>sw_sample_count = block_sample_count r,
     sw_duration = uint (block_sample_count r) * 1000000000 div uint (sample_rate_hz r)\<rparr>"

definition energy_group_of :: "meter_record \<Rightarrow> nat \<Rightarrow> bool \<Rightarrow> int \<Rightarrow> reading phase_abc_total" where
  "energy_group_of r base saturated received_at = phase_group (map (\<lambda>index.
     \<lparr>rd_value = uint (unsigned64 r (base + index * 2)),
      rd_quality = reading_quality
        (ucast (energy_category_valid_mask r) AND push_bit index 1 \<noteq> (0 :: u32)) saturated,
      rd_source_sequence = ucast (rec_sequence r), rd_measured_at = received_at,
      rd_calculation_window = window_of r\<rparr>) [0..<4])"

lemma decode_energy_group_ok:
  "(\<And>i. i < 4 \<Longrightarrow> uint (unsigned64 r (base + i * 2)) \<le> int64_max) \<Longrightarrow>
   decode_energy_group r base saturated t (window_of r) = Inr (energy_group_of r base saturated t)"
  unfolding decode_energy_group_def energy_group_of_def
  by (subst traverse_ok) (auto simp: counter_reading_def checked_counter_def)

lemma same_identity_fields:
  assumes "energy_identity s = energy_identity q"
  shows "rec_sequence s = rec_sequence q" "block_sample_count s = block_sample_count q"
    "sample_rate_hz s = sample_rate_hz q" "rec_status s = rec_status q" "window_of s = window_of q"
proof -
  show 1: "rec_sequence s = rec_sequence q" "block_sample_count s = block_sample_count q"
    "sample_rate_hz s = sample_rate_hz q" "rec_status s = rec_status q"
    using assms by (simp_all add: energy_identity_def)
  show "window_of s = window_of q" by (simp add: window_of_def 1)
qed

text \<open>A matching pair of parts: what the assembler waits for.\<close>

definition family_pair :: "meter_record \<Rightarrow> meter_record \<Rightarrow> bool" where
  "family_pair s q \<longleftrightarrow> part_valid s \<and> part_valid q \<and> energy_part s = 0 \<and> energy_part q = 1 \<and>
     energy_identity s = energy_identity q"

text \<open>The values of a family, read off the two records.\<close>

definition family_values :: "meter_record \<Rightarrow> meter_record \<Rightarrow> int \<Rightarrow> energy_values" where
  "family_values s q t = (let sat = energy_saturated s in
     \<lparr>active_import = energy_group_of s 16 sat t, active_export = energy_group_of s 24 sat t,
      apparent = energy_group_of s 32 sat t,
      reactive_quadrants = map (\<lambda>base. energy_group_of q base sat t) meter_energy_quadrant_words,
      ev_session_id = energy_session_id s, ev_last_sample_index = energy_last_sample_index s,
      ev_accepted_samples = energy_accepted_samples s,
      ev_skipped_samples = energy_skipped_samples s,
      ev_accepted_blocks = energy_accepted_blocks s, ev_skipped_blocks = energy_skipped_blocks s,
      ev_reset_epoch = 0, ev_saturated = sat, ev_incomplete_input = energy_incomplete_input s,
      ev_discontinuity = energy_discontinuity s\<rparr>)"

lemma decode_family_values:
  assumes "family_pair s q" and rate: "sample_rate_hz s \<noteq> 0"
  shows "decode_energy_family s q t = Inr (family_values s q t)"
proof -
  from assms have v: "part_valid s" "part_valid q" "energy_part s = 0" "energy_part q = 1"
    and i: "energy_identity s = energy_identity q"
    by (auto simp: family_pair_def)
  have w: "source_window s = Inr (window_of s)"
    using source_window_ok [OF rate] by (simp add: window_of_def)
  have gs: "decode_energy_group s base sat t (window_of s) = Inr (energy_group_of s base sat t)"
    if "base \<in> {16, 24, 32}" for base sat
    using that v by (intro decode_energy_group_ok part_counters) auto
  have gq: "decode_energy_group q base sat t (window_of s) = Inr (energy_group_of q base sat t)"
    if "base \<in> set meter_energy_quadrant_words" for base sat
    unfolding same_identity_fields(5) [OF i]
    using that v by (intro decode_energy_group_ok part_counters) auto
  have tq: "traverse (\<lambda>base. decode_energy_group q base sat t (window_of s)) meter_energy_quadrant_words
      = Inr (map (\<lambda>base. energy_group_of q base sat t) meter_energy_quadrant_words)" for sat
    by (rule traverse_ok) (rule gq)
  show ?thesis
    unfolding decode_energy_family_def Let_def family_values_def
    using v i w gs tq by (simp add: energy_identity_def)
qed

lemma decode_family_iff:
  "decode_energy_family s q t = Inr v \<longleftrightarrow>
   family_pair s q \<and> sample_rate_hz s \<noteq> 0 \<and> v = family_values s q t"
proof
  assume d: "decode_energy_family s q t = Inr v"
  then have f: "family_pair s q"
    by (auto simp: decode_energy_family_def family_pair_def split: if_splits)
  moreover from d have "sample_rate_hz s \<noteq> 0"
    using source_window_zero [of s] by (auto simp: decode_energy_family_def)
  ultimately show "family_pair s q \<and> sample_rate_hz s \<noteq> 0 \<and> v = family_values s q t"
    using d decode_family_values by simp
qed (simp add: decode_family_values)

section \<open>The assembler's invariant\<close>

text \<open>
  Pending parts are validated parts of the one identity the assembler holds, each in its slot,
  and were received; both are pending only when the family could not be decoded, which a zero
  sample rate alone can cause.
\<close>

definition assembler_inv :: "energy_family_assembler \<times> meter_record list \<Rightarrow> bool" where
  "assembler_inv = (\<lambda>(a, received).
     (\<forall>s. summary_part a = Some s \<longrightarrow>
        part_valid s \<and> energy_part s = 0 \<and> identity a = Some (energy_identity s) \<and> s \<in> set received) \<and>
     (\<forall>q. quadrants_part a = Some q \<longrightarrow>
        part_valid q \<and> energy_part q = 1 \<and> identity a = Some (energy_identity q) \<and> q \<in> set received) \<and>
     (\<forall>s q. summary_part a = Some s \<and> quadrants_part a = Some q \<longrightarrow> sample_rate_hz s = 0))"

definition assembler_step ::
    "energy_family_assembler \<times> meter_record list \<Rightarrow> meter_record \<times> int
       \<Rightarrow> energy_family_assembler \<times> meter_record list" where
  "assembler_step = (\<lambda>(a, received) (r, t). (fst (assembler_accept a r t), r # received))"

lemma assembler_inv_reset [simp]: "assembler_inv (assembler_reset, received)"
  by (simp add: assembler_inv_def assembler_reset_def)

lemma assembler_inv_received:
  "assembler_inv (a, received) \<Longrightarrow> set received \<subseteq> set later \<Longrightarrow> assembler_inv (a, later)"
  unfolding assembler_inv_def by fast

lemma assembler_inv_adopt:
  assumes "assembler_inv (a, received)"
  shows "assembler_inv (fst (adopt_identity a i), received)"
    and "identity (fst (adopt_identity a i)) = Some i"
  using assms
  by (auto simp: adopt_identity_def assembler_inv_def assembler_reset_def Let_def
      split: option.splits if_splits)

lemma assembler_inv_fill:
  assumes "assembler_inv (a, received)" and "part_valid r" and "identity a = Some (energy_identity r)"
    and "part_slot a r = None"
  shows "case complete_family (fill_slot a r) n d t of (a', res) \<Rightarrow> assembler_inv (a', r # received)"
proof -
  have k: "energy_part r = 0 \<or> energy_part r = 1" using assms(2) by (rule part_kind)
  show ?thesis
  proof (cases "summary_part (fill_slot a r)")
    case None
    then show ?thesis
      using assms k by (auto simp: complete_family_def assembler_inv_def fill_slot_def split: if_splits)
  next
    case s: (Some s)
    show ?thesis
    proof (cases "quadrants_part (fill_slot a r)")
      case None
      then show ?thesis
        using s assms k
        by (auto simp: complete_family_def assembler_inv_def fill_slot_def split: if_splits)
    next
      case q: (Some q)
      have fp: "family_pair s q"
        using s q assms k
        by (auto simp: family_pair_def assembler_inv_def fill_slot_def part_slot_def split: if_splits)
      show ?thesis
      proof (cases "sample_rate_hz s = 0")
        case True
        then have "\<exists>e. decode_energy_family s q t = Inl e"
          by (cases "decode_energy_family s q t") (auto simp: decode_family_iff)
        with s q True assms k show ?thesis
          by (auto simp: complete_family_def assembler_inv_def fill_slot_def part_slot_def
              split: if_splits)
      next
        case False
        with fp s q show ?thesis by (simp add: complete_family_def decode_family_values)
      qed
    qed
  qed
qed

lemma assembler_accept_valid:
  assumes "part_valid r" and "adopt_identity a (energy_identity r) = (a1, n)"
  shows "assembler_accept a r t =
     (case part_slot a1 r of
        Some old \<Rightarrow>
          if words old \<noteq> words r
          then (a1, Inl (Invalid_argument ''ENERGY-v1 duplicate part has different payload''))
          else complete_family a1 n True t
      | None \<Rightarrow> complete_family (fill_slot a1 r) n False t)"
  using assms by (simp add: assembler_accept_def decode_energy_identity_valid)

lemma assembler_inv_slot:
  "assembler_inv (a, received) \<Longrightarrow> summary_part a = Some s \<Longrightarrow> quadrants_part a = Some q \<Longrightarrow>
   \<exists>e. decode_energy_family s q t = Inl e"
  by (cases "decode_energy_family s q t") (auto simp: decode_family_iff assembler_inv_def)

lemma complete_family_pending:
  "assembler_inv (a, received) \<Longrightarrow> fst (complete_family a n d t) = a"
  using assembler_inv_slot [of a received _ _ t]
  by (fastforce simp: complete_family_def split: option.splits sum.splits)

lemma assembler_inv_accept:
  assumes "assembler_inv (a, received)"
  shows "assembler_inv (fst (assembler_accept a r t), r # received)"
proof (cases "decode_energy_identity r")
  case (Inl e)
  then show ?thesis using assembler_inv_received [OF assms] by (simp add: assembler_accept_def subset_insertI)
next
  case (Inr i)
  then have v: "part_valid r" "i = energy_identity r" by simp_all
  obtain a1 n where a1: "adopt_identity a i = (a1, n)" by fastforce
  have inv1: "assembler_inv (a1, received)" and id1: "identity a1 = Some (energy_identity r)"
    using assembler_inv_adopt [OF assms, of i] a1 v by simp_all
  have inv2: "assembler_inv (a1, r # received)"
    using assembler_inv_received [OF inv1] by (simp add: subset_insertI)
  show ?thesis
  proof (cases "part_slot a1 r")
    case None
    with assembler_inv_fill [OF inv1 v(1) id1 None, of n False t] a1 v show ?thesis
      by (simp add: assembler_accept_valid case_prod_beta)
  next
    case (Some old)
    then show ?thesis
      using v a1 inv2 complete_family_pending [OF inv1]
      by (simp add: assembler_accept_valid)
  qed
qed

interpretation assembler: invariant_system assembler_step assembler_inv
  by unfold_locales (auto simp: assembler_step_def assembler_inv_accept split: prod.splits)

lemma assembler_run_received:
  "snd (foldl assembler_step (a, received) evs) = rev (map fst evs) @ received"
  by (induction evs arbitrary: a received) (auto simp: assembler_step_def split: prod.splits)

lemma completed_family:
  assumes "assembler_inv (a, received)"
    and "assembler_accept a r t = (a', Inr u)" and "completed u = Some v"
  shows "a' = assembler_reset \<and> duplicate_part u = False \<and>
    (\<exists>s q. family_pair s q \<and> {s, q} \<subseteq> insert r (set received) \<and> r \<in> {s, q} \<and>
       decode_energy_family s q t = Inr v)"
proof -
  from assms(2) obtain i where i: "decode_energy_identity r = Inr i"
    by (auto simp: assembler_accept_def split: sum.splits)
  then have v: "part_valid r" "i = energy_identity r" by simp_all
  obtain a1 n where a1: "adopt_identity a i = (a1, n)" by fastforce
  have inv1: "assembler_inv (a1, received)" and id1: "identity a1 = Some (energy_identity r)"
    using assembler_inv_adopt [OF assms(1), of i] a1 v by simp_all
  have slot: "part_slot a1 r = None"
    using assms(2,3) v a1 assembler_inv_slot [OF inv1, of _ _ t]
    by (fastforce simp: assembler_accept_valid complete_family_def split: option.splits if_splits sum.splits)
  then have c: "complete_family (fill_slot a1 r) n False t = (a', Inr u)"
    using assms(2) v a1 by (simp add: assembler_accept_valid)
  then obtain s q where sq: "summary_part (fill_slot a1 r) = Some s"
      "quadrants_part (fill_slot a1 r) = Some q" "decode_energy_family s q t = Inr v"
      "a' = assembler_reset" "duplicate_part u = False"
    using assms(3) by (auto simp: complete_family_def split: option.splits sum.splits)
  have "{s, q} \<subseteq> insert r (set received) \<and> r \<in> {s, q}"
    using sq(1,2) inv1 by (auto simp: fill_slot_def assembler_inv_def split: if_splits)
  with sq show ?thesis by (auto simp: decode_family_iff)
qed

section \<open>Properties of the assembler\<close>

text \<open>
  C6. Families are never mixed. Whatever records arrive in whatever order, a value the
  assembler publishes is the decoding of one summary part and one quadrant part that were both
  received, both passed validation and carry the same family identity; the record being
  accepted is one of the two, and the assembler is empty afterwards.
\<close>

theorem assembler_never_mixes_families:
  assumes "assembler_accept (fst (foldl assembler_step (assembler_reset, []) evs)) r t = (a', Inr u)"
    and "completed u = Some v"
  shows "pending_parts a' = 0 \<and>
    (\<exists>s q. s \<in> set (map fst evs @ [r]) \<and> q \<in> set (map fst evs @ [r]) \<and> r \<in> {s, q} \<and>
       part_valid s \<and> part_valid q \<and> energy_part s = meter_energy_part_summary \<and>
       energy_part q = meter_energy_part_quadrants \<and> energy_identity s = energy_identity q \<and>
       decode_energy_family s q t = Inr v)"
proof -
  let ?run = "foldl assembler_step (assembler_reset, []) evs"
  have "assembler_inv ?run" by (intro assembler.inv_run) simp
  then have inv: "assembler_inv (fst ?run, snd ?run)" by simp
  have recv: "snd ?run = rev (map fst evs)" by (simp add: assembler_run_received)
  obtain s q where sq: "a' = assembler_reset" "family_pair s q"
      "{s, q} \<subseteq> insert r (set (snd ?run))" "r \<in> {s, q}"
      "decode_energy_family s q t = Inr v"
    using completed_family [OF inv assms] by blast
  then show ?thesis
    using recv by (auto simp: family_pair_def pending_parts_def assembler_reset_def)
qed

text \<open>The first part of a family the assembler does not hold: stored, nothing published.\<close>

lemma accept_first_part:
  assumes "part_valid r" and "identity a \<noteq> Some (energy_identity r)"
    and "identity a = None \<longrightarrow> pending_parts a = 0"
  shows "assembler_accept a r t =
    (fill_slot (assembler_reset\<lparr>identity := Some (energy_identity r)\<rparr>) r,
     Inr \<lparr>completed = None, incomplete_families = of_bool (pending_parts a \<noteq> 0),
          duplicate_part = False\<rparr>)"
proof -
  obtain a1 n where a1: "adopt_identity a (energy_identity r) = (a1, n)" by fastforce
  then have "a1 = assembler_reset\<lparr>identity := Some (energy_identity r)\<rparr>"
      "n = of_bool (pending_parts a \<noteq> 0)"
    using assms(2,3)
    by (auto simp: adopt_identity_def assembler_reset_def pending_parts_def Let_def
        split: option.splits if_splits)
  with assms(1) a1 part_kind [OF assms(1)] show ?thesis
    by (auto simp: assembler_accept_valid part_slot_def fill_slot_def complete_family_def
        assembler_reset_def)
qed

lemma accept_second_part:
  assumes fp: "family_pair s q" and rate: "sample_rate_hz s \<noteq> 0"
    and rs: "(r, other) = (s, q) \<or> (r, other) = (q, s)"
  shows "assembler_accept
      (fill_slot (assembler_reset\<lparr>identity := Some (energy_identity r)\<rparr>) r) other t =
    (assembler_reset, Inr \<lparr>completed = Some (family_values s q t), incomplete_families = 0,
       duplicate_part = False\<rparr>)"
proof -
  have p: "part_valid s" "part_valid q" "energy_part s = 0" "energy_part q = 1"
      "energy_identity q = energy_identity s"
    using fp by (simp_all add: family_pair_def)
  let ?a = "fill_slot (assembler_reset\<lparr>identity := Some (energy_identity r)\<rparr>) r"
  have o: "part_valid other" "energy_identity other = energy_identity r"
    using rs p by auto
  have "adopt_identity ?a (energy_identity other) = (?a, 0)"
    by (simp add: adopt_identity_def fill_slot_def Let_def o(2))
  moreover have "part_slot ?a other = None"
    using rs p by (elim disjE) (simp_all add: part_slot_def fill_slot_def assembler_reset_def)
  moreover have "complete_family (fill_slot ?a other) 0 False t =
    (assembler_reset, Inr \<lparr>completed = Some (family_values s q t), incomplete_families = 0,
       duplicate_part = False\<rparr>)"
    using rs p decode_family_values [OF fp rate, of t]
    by (elim disjE) (simp_all add: complete_family_def fill_slot_def)
  ultimately show ?thesis using o(1) by (simp add: assembler_accept_valid)
qed

text \<open>
  Either order completes. From any assembler state (reached in any run) that holds nothing
  of the family, a valid pair of parts with a nonzero sample rate yields nothing after the
  first part and the whole decoded family after the second, in both orders of arrival, and
  leaves the assembler empty. Parts pending from another family are counted as one
  incomplete family.
\<close>

theorem assembler_either_order_completes:
  assumes "part_valid s" and "part_valid q"
    and "energy_part s = meter_energy_part_summary" and "energy_part q = meter_energy_part_quadrants"
    and "energy_identity s = energy_identity q" and rate: "sample_rate_hz s \<noteq> 0"
    and reach: "a = fst (foldl assembler_step (assembler_reset, []) evs)"
    and other: "identity a \<noteq> Some (energy_identity s)"
    and rs: "(first, second) = (s, q) \<or> (first, second) = (q, s)"
  shows "\<exists>a1. assembler_accept a first t1 =
      (a1, Inr \<lparr>completed = None, incomplete_families = of_bool (pending_parts a \<noteq> 0),
                duplicate_part = False\<rparr>) \<and>
    assembler_accept a1 second t2 =
      (assembler_reset, Inr \<lparr>completed = Some (family_values s q t2), incomplete_families = 0,
                duplicate_part = False\<rparr>) \<and>
    decode_energy_family s q t2 = Inr (family_values s q t2)"
proof -
  have fp: "family_pair s q" using assms(1-5) by (simp add: family_pair_def)
  have inv: "assembler_inv (foldl assembler_step (assembler_reset, []) evs)"
    by (intro assembler.inv_run) simp
  then have none: "identity a = None \<longrightarrow> pending_parts a = 0"
    using reach by (auto simp: assembler_inv_def pending_parts_def split: prod.splits)
  have f: "part_valid first" "identity a \<noteq> Some (energy_identity first)"
    using rs assms(1,2,5) other by auto
  show ?thesis
    using accept_first_part [OF f(1,2) none, of t1] accept_second_part [OF fp rate rs, of t2]
      decode_family_values [OF fp rate, of t2] by simp
qed

text \<open>
  A repeated part. When the assembler holds a part, the same record again changes nothing
  and is reported as a duplicate; another record for the same slot and identity is refused
  with \<^verbatim>\<open>invalid_argument\<close> and changes nothing either, so the stored part survives.
\<close>

theorem assembler_duplicate_part:
  assumes "part_valid r" and "identity a = Some (energy_identity r)"
    and "part_slot a r = Some old" and "pending_parts a = 1"
  shows "assembler_accept a r t =
    (a, if words old = words r
        then Inr \<lparr>completed = None, incomplete_families = 0, duplicate_part = True\<rparr>
        else Inl (Invalid_argument ''ENERGY-v1 duplicate part has different payload''))"
proof -
  have "adopt_identity a (energy_identity r) = (a, 0)"
    using assms(2) by (simp add: adopt_identity_def)
  with assms show ?thesis
    by (auto simp: assembler_accept_valid complete_family_def pending_parts_def part_slot_def
        split: option.splits if_splits)
qed

section \<open>Decoded counters\<close>

lemma length_flatten_energy:
  "length (reactive_quadrants v) = 4 \<Longrightarrow> length (flatten_energy_counters v) = energy_counter_count"
  by (auto simp: flatten_energy_counters_def energy_groups_def length_concat comp_def
      length_Suc_conv numeral_eq_Suc)

lemma flatten_group: "map rd_value (phase_list (energy_group_of r base sat t)) =
   map (\<lambda>i. uint (unsigned64 r (base + i * 2))) [0..<4]"
  by (simp add: energy_group_of_def phase_list_group)

lemma flatten_family:
  "flatten_energy_counters (family_values s q t) =
   map (\<lambda>i. uint (unsigned64 s (16 + i * 2))) [0..<12] @
   map (\<lambda>i. uint (unsigned64 q (16 + i * 2))) [0..<16]"
  by (simp add: flatten_energy_counters_def energy_groups_def family_values_def Let_def
      flatten_group upt_conv_Cons)

lemma family_counters_ok:
  assumes "family_pair s q"
  shows "list_all (\<lambda>c. 0 \<le> c \<and> c \<le> int64_max) (flatten_energy_counters (family_values s q t))"
proof -
  from assms have v: "part_valid s" "part_valid q" "energy_part s = 0" "energy_part q = 1"
    by (simp_all add: family_pair_def)
  show ?thesis
    using part_counters [OF v(1)] part_counters [OF v(2)] v(3,4)
    by (auto simp: flatten_energy_counters_def energy_groups_def family_values_def Let_def
        flatten_group list_all_iff)
qed

text \<open>
  The decoder. A pair decodes exactly when both parts pass validation, are the summary and
  the quadrant part of one family and the sample rate is nonzero; then the 28 counters are the
  64-bit fields of words 16..39 of the summary and 16..47 of the quadrants, in order, and each
  fits \<^verbatim>\<open>int64_t\<close> and is not negative, as the ledger requires.
\<close>

theorem decoded_counters:
  "decode_energy_family s q t = Inr v \<longleftrightarrow>
   family_pair s q \<and> sample_rate_hz s \<noteq> 0 \<and> v = family_values s q t \<and>
   flatten_energy_counters v =
     map (\<lambda>i. uint (unsigned64 s (16 + i * 2))) [0..<12] @
     map (\<lambda>i. uint (unsigned64 q (16 + i * 2))) [0..<16] \<and>
   list_all (\<lambda>c. 0 \<le> c \<and> c \<le> int64_max) (flatten_energy_counters v)"
  using family_counters_ok [of s q t] by (auto simp: decode_family_iff flatten_family)

section \<open>A concrete family\<close>

definition sample_part :: "u32 \<Rightarrow> meter_record" where
  "sample_part header = \<lparr>words =
     [meter_record_magic, meter_energy_format, meter_record_size, 5, 1, 1000, 3000, 0x7f, 2,
      100, 0, 0, 0, header, 3100, 0]
     @ [10, 0, 20, 0, 30, 0, 60, 0, 1, 0, 2, 0, 3, 0, 6, 0, 11, 0, 22, 0, 33, 0, 66, 0]
     @ replicate 8 0 @ [9, 0, 3000, 0, 0, 0, 1, 0] @ replicate 8 0\<rparr>"

definition sample_summary :: meter_record where "sample_summary = sample_part 0xf18"
definition sample_quadrants :: meter_record where "sample_quadrants = sample_part 0xf19"

lemma sample_parts:
  "part_valid sample_summary" "part_valid sample_quadrants"
  "energy_part sample_summary = 0" "energy_part sample_quadrants = 1"
  "energy_identity sample_summary = energy_identity sample_quadrants"
  "sample_rate_hz sample_summary \<noteq> 0"
  by code_simp+

theorem assembler_never_mixes_families_witness:
  "\<exists>a' u v. assembler_accept
       (fst (foldl assembler_step (assembler_reset, []) [(sample_quadrants, 3)])) sample_summary 7 =
       (a', Inr u) \<and> completed u = Some v \<and> pending_parts a' = 0 \<and>
     (\<exists>s q. s \<in> set (map fst [(sample_quadrants, 3 :: int)] @ [sample_summary]) \<and>
        q \<in> set (map fst [(sample_quadrants, 3 :: int)] @ [sample_summary]) \<and>
        decode_energy_family s q 7 = Inr v)"
proof -
  let ?a = "fst (foldl assembler_step (assembler_reset, []) [(sample_quadrants, 3)])"
  have fp: "family_pair sample_summary sample_quadrants"
    by (simp add: family_pair_def sample_parts)
  have "?a = fill_slot (assembler_reset\<lparr>identity := Some (energy_identity sample_quadrants)\<rparr>)
      sample_quadrants"
    using accept_first_part [OF sample_parts(2), of assembler_reset 3]
    by (simp add: assembler_step_def assembler_reset_def pending_parts_def)
  then have acc: "assembler_accept ?a sample_summary 7 = (assembler_reset,
      Inr \<lparr>completed = Some (family_values sample_summary sample_quadrants 7),
        incomplete_families = 0, duplicate_part = False\<rparr>)"
    using accept_second_part [OF fp sample_parts(6), of sample_quadrants sample_summary 7] by simp
  from assembler_never_mixes_families [OF acc] show ?thesis
    unfolding acc by (simp only: prod.inject sum.inject) auto
qed

theorem assembler_either_order_completes_witness:
  "\<exists>a1. assembler_accept assembler_reset sample_quadrants 3 =
      (a1, Inr \<lparr>completed = None, incomplete_families = 0, duplicate_part = False\<rparr>) \<and>
    assembler_accept a1 sample_summary 7 =
      (assembler_reset, Inr \<lparr>completed = Some (family_values sample_summary sample_quadrants 7),
         incomplete_families = 0, duplicate_part = False\<rparr>) \<and>
    decode_energy_family sample_summary sample_quadrants 7 =
      Inr (family_values sample_summary sample_quadrants 7)"
  using assembler_either_order_completes
    [OF sample_parts(1,2,3,4,5,6), of assembler_reset "[]" sample_quadrants sample_summary 3 7]
  by (simp add: assembler_reset_def pending_parts_def)

definition sample_pending :: energy_family_assembler where
  "sample_pending = fst (assembler_accept assembler_reset sample_summary 3)"

lemma sample_pending_facts:
  "identity sample_pending = Some (energy_identity sample_summary)"
  "part_slot sample_pending sample_summary = Some sample_summary"
  "pending_parts sample_pending = 1"
  using accept_first_part [OF sample_parts(1), of assembler_reset 3] sample_parts
  by (simp_all add: sample_pending_def assembler_reset_def pending_parts_def part_slot_def
      fill_slot_def)

theorem assembler_duplicate_part_witness:
  "assembler_accept sample_pending sample_summary 9 =
    (sample_pending, Inr \<lparr>completed = None, incomplete_families = 0, duplicate_part = True\<rparr>)"
  using assembler_duplicate_part [OF sample_parts(1) sample_pending_facts, of 9] by simp

end
