(* ===== verification/Ledger_Store.thy ===== *)
theory Ledger_Store
  imports Energy_Demand "HOL-Library.Char_ord"
begin

text \<open>
  The durable representation of the energy ledger
  (\<^verbatim>\<open>common/msap1/meter/energy_ledger.cpp\<close>, the codecs and the tables, and the binding rule of
  \<^verbatim>\<open>common/mnc/storage/sqlite/sqlite_database.cpp\<close>). A table row is a record with the columns of
  the \<^verbatim>\<open>CREATE TABLE\<close> statement: INTEGER columns are \<^verbatim>\<open>int64_t\<close> values, TEXT columns strings,
  BLOB columns byte lists. SQLite itself is a parameter, \<open>sql_engine\<close>: every statement may fail
  with an exception; \<open>sql_laws\<close> states what the code relies on when statements succeed.
\<close>

section \<open>Blobs\<close>

text \<open>\<^verbatim>\<open>std::bit_cast<std::uint64_t>\<close> of an \<^verbatim>\<open>int64_t\<close> is \<open>word_of_int\<close>, its inverse \<open>sint\<close>.\<close>

definition encode_u64 :: "u64 list \<Rightarrow> u8 list" where
  "encode_u64 values = concat (map (le_bytes 8) values)"

definition encode_array :: "int list \<Rightarrow> u8 list" where
  "encode_array values = encode_u64 (map word_of_int values)"

definition decode_u64 :: "nat \<Rightarrow> u8 list \<Rightarrow> string \<Rightarrow> u64 list result" where
  "decode_u64 count bytes name =
     (if length bytes \<noteq> count * 8 then Inl (Runtime_error (name @ '' ledger blob size mismatch''))
      else Inr (map (\<lambda>index. le_value (take 8 (drop (index * 8) bytes))) [0..<count]))"

definition decode_array :: "nat \<Rightarrow> u8 list \<Rightarrow> string \<Rightarrow> int list result" where
  "decode_array count bytes name =
     bind_result (decode_u64 count bytes name) (\<lambda>bits. Inr (map sint bits))"

lemma decode_u64_encode [simp]: "length xs = n \<Longrightarrow> decode_u64 n (encode_u64 xs) name = Inr xs"
  by (auto simp: decode_u64_def encode_u64_def le64.length_concat_enc le64.dec_concat_enc)

lemma decode_array_encode [simp]:
  "length xs = n \<Longrightarrow> list_all in_int64 xs \<Longrightarrow> decode_array n (encode_array xs) name = Inr xs"
  by (auto simp: decode_array_def encode_array_def comp_def list_all_iff intro: map_idI)

section \<open>Hexadecimal text\<close>

text \<open>\<^verbatim>\<open>snprintf("%016llx")\<close> and \<^verbatim>\<open>std::from_chars\<close> in base 16.\<close>

definition hex_digit :: "nat \<Rightarrow> char" where
  "hex_digit d = char_of (if d < 10 then 48 + d else 87 + d)"

definition hex_value :: "char \<Rightarrow> nat option" where
  "hex_value c = (let n = of_char c in
     if 48 \<le> n \<and> n \<le> 57 then Some (n - 48)
     else if 97 \<le> n \<and> n \<le> 102 then Some (n - 87)
     else if 65 \<le> n \<and> n \<le> 70 then Some (n - 55)
     else None)"

definition hex64 :: "u64 \<Rightarrow> string" where
  "hex64 value = map (\<lambda>i. hex_digit (unat (drop_bit (4 * (15 - i)) value AND 15))) [0..<16]"

text \<open>
  The whole text must be digits and the number must fit 64 bits; \<^verbatim>\<open>from_chars\<close> reports an empty
  text, and a number that is too large, as errors.
\<close>

fun hex_number :: "string \<Rightarrow> nat \<Rightarrow> nat option" where
  "hex_number [] n = Some n"
| "hex_number (c # cs) n =
     (case hex_value c of None \<Rightarrow> None | Some d \<Rightarrow> hex_number cs (n * 16 + d))"

definition parse_hex64 :: "string \<Rightarrow> string \<Rightarrow> u64 result" where
  "parse_hex64 s name =
     (case (if s = [] then None else hex_number s 0) of
        Some n \<Rightarrow> if n < 2 ^ 64 then Inr (of_nat n)
          else Inl (Runtime_error (name @ '' is not a uint64 hex value''))
      | None \<Rightarrow> Inl (Runtime_error (name @ '' is not a uint64 hex value'')))"

lemma hex_value_digit [simp]: "d < 16 \<Longrightarrow> hex_value (hex_digit d) = Some d"
  by (auto simp: hex_value_def hex_digit_def Let_def)

lemma hex_number_digits:
  "(\<And>d. d \<in> set ds \<Longrightarrow> d < 16) \<Longrightarrow>
   hex_number (map hex_digit ds) n = Some (foldl (\<lambda>n d. n * 16 + d) n ds)"
  by (induction ds arbitrary: n) simp_all

definition nibbles :: "nat \<Rightarrow> u64 \<Rightarrow> nat list" where
  "nibbles k v = map (\<lambda>i. unat v div 16 ^ (k - 1 - i) mod 16) [0..<k]"

lemma length_nibbles: "length (nibbles k v) = k"
  by (simp add: nibbles_def)

lemma nibbles_value: "foldl (\<lambda>n d. n * 16 + d) 0 (nibbles k v) = unat v mod 16 ^ k"
proof (induction k)
  case 0
  then show ?case by (simp add: nibbles_def)
next
  case (Suc k)
  have split: "nibbles (Suc k) v = (unat v div 16 ^ k mod 16) # nibbles k v"
    by (rule nth_equalityI) (auto simp: nibbles_def nth_Cons simp del: upt_Suc split: nat.splits)
  have gen: "foldl (\<lambda>n d. n * 16 + d) a ds = a * 16 ^ length ds + foldl (\<lambda>n d. n * 16 + d) 0 ds"
    for a :: nat and ds
  proof (induction ds arbitrary: a)
    case (Cons d ds)
    show ?case using Cons [of "a * 16 + d"] Cons [of d] by (simp add: algebra_simps)
  qed simp
  have "foldl (\<lambda>n d. n * 16 + d) 0 (nibbles (Suc k) v)
      = unat v div 16 ^ k mod 16 * 16 ^ k + unat v mod 16 ^ k"
    using gen [of "unat v div 16 ^ k mod 16" "nibbles k v"] Suc
    unfolding split by (simp add: length_nibbles)
  also have "\<dots> = unat v mod 16 ^ Suc k"
    using mod_mult2_eq [of "unat v" "16 ^ k" 16] by (simp add: algebra_simps)
  finally show ?case .
qed

lemma hex64_nibbles: "hex64 v = map hex_digit (nibbles 16 v)"
proof -
  have n: "unat (drop_bit (4 * k) v AND 15) = unat v div 16 ^ k mod 16" for k
  proof -
    have "drop_bit (4 * k) v AND 15 = take_bit 4 (drop_bit (4 * k) v)"
      by (simp add: take_bit_eq_mask mask_eq_exp_minus_1)
    then have "unat (drop_bit (4 * k) v AND 15) = take_bit 4 (drop_bit (4 * k) (unat v))"
      by (simp only: unsigned_take_bit_eq unat_drop_bit_eq)
    then show ?thesis by (simp add: drop_bit_eq_div take_bit_eq_mod power_mult)
  qed
  show ?thesis by (simp add: hex64_def nibbles_def n)
qed

lemma parse_hex64_hex64 [simp]: "parse_hex64 (hex64 v) name = Inr v"
proof -
  have "hex_number (hex64 v) 0 = Some (unat v mod 16 ^ 16)"
    unfolding hex64_nibbles nibbles_value [symmetric]
    by (rule hex_number_digits) (auto simp: nibbles_def)
  moreover have "unat v < 2 ^ LENGTH(64)" by (rule unsigned_less)
  moreover have "hex64 v \<noteq> []" by (simp add: hex64_def)
  ultimately show ?thesis by (simp add: parse_hex64_def)
qed

section \<open>Qualities and readings\<close>

definition quality_byte :: "measurement_quality \<Rightarrow> u8" where
  "quality_byte q = (case q of
     Q_unavailable \<Rightarrow> 0 | Q_valid \<Rightarrow> 1 | Q_invalid \<Rightarrow> 2 | Q_out_of_range \<Rightarrow> 3
   | Q_timed_out \<Rightarrow> 4 | Q_arithmetic_error \<Rightarrow> 5 | Q_other b \<Rightarrow> b)"

definition quality_of_byte :: "u8 \<Rightarrow> measurement_quality" where
  "quality_of_byte b =
     (if b = 0 then Q_unavailable else if b = 1 then Q_valid else if b = 2 then Q_invalid
      else if b = 3 then Q_out_of_range else if b = 4 then Q_timed_out
      else if b = 5 then Q_arithmetic_error else Q_other b)"

text \<open>The named qualities, and the numbers that are not one of them.\<close>

definition wf_quality :: "measurement_quality \<Rightarrow> bool" where
  "wf_quality q \<longleftrightarrow> quality_of_byte (quality_byte q) = q"

lemma wf_quality_named [simp]:
  "wf_quality Q_unavailable" "wf_quality Q_valid" "wf_quality Q_invalid"
  "wf_quality Q_out_of_range" "wf_quality Q_timed_out" "wf_quality Q_arithmetic_error"
  by (simp_all add: wf_quality_def quality_byte_def quality_of_byte_def)

text \<open>
  \<^verbatim>\<open>for_each_energy_reading\<close> and \<^verbatim>\<open>for_each_demand_reading\<close>: the function also receives the running
  index, which the callers that need it keep in a captured counter.
\<close>

definition map_group ::
    "(nat \<Rightarrow> reading \<Rightarrow> reading) \<Rightarrow> nat \<Rightarrow> reading phase_abc_total \<Rightarrow> reading phase_abc_total" where
  "map_group f base g =
     \<lparr>phase_a = f base (phase_a g), phase_b = f (base + 1) (phase_b g),
      phase_c = f (base + 2) (phase_c g), total = f (base + 3) (total g)\<rparr>"

definition for_each_energy_reading ::
    "(nat \<Rightarrow> reading \<Rightarrow> reading) \<Rightarrow> energy_values \<Rightarrow> energy_values" where
  "for_each_energy_reading f v =
     v\<lparr>active_import := map_group f 0 (active_import v),
       active_export := map_group f 4 (active_export v),
       apparent := map_group f 8 (apparent v),
       reactive_quadrants := map (\<lambda>q. map_group f (12 + q * 4) (reactive_quadrants v ! q))
         [0..<length (reactive_quadrants v)]\<rparr>"

definition for_each_demand_reading ::
    "(nat \<Rightarrow> reading \<Rightarrow> reading) \<Rightarrow> demand_values \<Rightarrow> demand_values" where
  "for_each_demand_reading f v =
     v\<lparr>current_active := map_group f 0 (current_active v),
       import_peak := map_group f 4 (import_peak v),
       export_peak := map_group f 8 (export_peak v)\<rparr>"

definition energy_readings :: "energy_values \<Rightarrow> reading list" where
  "energy_readings v = concat (map phase_list (energy_groups v))"

definition demand_readings :: "demand_values \<Rightarrow> reading list" where
  "demand_readings v =
     phase_list (current_active v) @ phase_list (import_peak v) @ phase_list (export_peak v)"

definition energy_qualities :: "energy_values \<Rightarrow> u8 list" where
  "energy_qualities v = map (\<lambda>r. quality_byte (rd_quality r)) (energy_readings v)"

definition demand_qualities :: "demand_values \<Rightarrow> u8 list" where
  "demand_qualities v = map (\<lambda>r. quality_byte (rd_quality r)) (demand_readings v)"

definition assign_energy_qualities :: "energy_values \<Rightarrow> u8 list \<Rightarrow> energy_values result" where
  "assign_energy_qualities v qualities =
     (if length qualities \<noteq> energy_counter_count
      then Inl (Runtime_error ''energy quality ledger blob size mismatch'')
      else Inr (for_each_energy_reading
        (\<lambda>i r. r\<lparr>rd_quality := quality_of_byte (qualities ! i)\<rparr>) v))"

definition assign_demand_qualities :: "demand_values \<Rightarrow> u8 list \<Rightarrow> demand_values result" where
  "assign_demand_qualities v qualities =
     (if length qualities \<noteq> 12
      then Inl (Runtime_error ''demand quality ledger blob size mismatch'')
      else Inr (for_each_demand_reading
        (\<lambda>i r. r\<lparr>rd_quality := quality_of_byte (qualities ! i)\<rparr>) v))"

abbreviation flatten_samples :: "u64 phase_abc_total \<Rightarrow> u64 list" where
  "flatten_samples \<equiv> phase_list"

abbreviation assign_samples :: "u64 list \<Rightarrow> u64 phase_abc_total" where
  "assign_samples \<equiv> phase_group"

section \<open>Arithmetic\<close>

text \<open>The flag passed by reference is returned beside the value.\<close>

definition saturating_add :: "int \<Rightarrow> int \<Rightarrow> bool \<Rightarrow> (int \<times> bool) result" where
  "saturating_add value delta saturated =
     (if delta < 0 then Inl (Logic_error ''negative energy ledger delta'')
      else if value > int64_max - delta then Inr (int64_max, True)
      else Inr (value + delta, saturated))"

definition demand_magnitude :: "int \<Rightarrow> bool \<Rightarrow> int \<times> bool" where
  "demand_magnitude value saturated =
     (if value \<noteq> int64_min then (if value < 0 then - value else value, saturated)
      else (int64_max, True))"

definition sample_rate :: "sample_window \<Rightarrow> u32" where
  "sample_rate window =
     (let duration = sw_duration window in
      if sw_sample_count window = 0 \<or> duration \<le> 0 then 0
      else let rate = ucast (sw_sample_count window) * 1000000000 div (word_of_int duration :: u64)
        in if uint rate > 2 ^ 32 - 1 then 0 else ucast rate)"

definition same_window :: "sample_window \<Rightarrow> sample_window \<Rightarrow> bool" where
  "same_window l r \<longleftrightarrow> sw_sample_count l = sw_sample_count r \<and> sw_duration l = sw_duration r"

section \<open>Tables\<close>

record energy_state_row =
  er_epoch :: int
  er_session_id :: string
  er_source_sequence :: int
  er_generation :: int
  er_session_counters :: "u8 list"
  er_lifetime_counters :: "u8 list"
  er_qualities :: "u8 list"
  er_last_sample :: string
  er_accepted_samples :: string
  er_skipped_samples :: string
  er_accepted_blocks :: int
  er_skipped_blocks :: int
  er_flags :: int
  er_sample_count :: int
  er_sample_rate :: int
  er_updated_ns :: int

record demand_state_row =
  dr_epoch :: int
  dr_session_id :: string
  dr_source_sequence :: int
  dr_generation :: int
  dr_current_values :: "u8 list"
  dr_raw_import :: "u8 list"
  dr_raw_export :: "u8 list"
  dr_baseline_import :: "u8 list"
  dr_baseline_export :: "u8 list"
  dr_authoritative_import :: "u8 list"
  dr_authoritative_export :: "u8 list"
  dr_import_anchors :: "u8 list"
  dr_export_anchors :: "u8 list"
  dr_qualities :: "u8 list"
  dr_last_sample :: string
  dr_target_sample :: string
  dr_source_count :: int
  dr_source_status :: int
  dr_flags :: int
  dr_sample_count :: int
  dr_sample_rate :: int
  dr_updated_ns :: int
  dr_method :: int
  dr_window_seconds :: int
  dr_update_seconds :: int
  dr_profile_generation :: int

record reset_audit_row =
  ra_idempotency_key :: string
  ra_request_id :: string
  ra_actor :: string
  ra_requested_ns :: int
  ra_previous_epoch :: int
  ra_resulting_epoch :: int

record energy_history_row =
  eh_session_id :: string
  eh_target_sample :: string
  eh_captured_ns :: int
  eh_epoch :: int
  eh_counters :: "u8 list"
  eh_qualities :: "u8 list"
  eh_flags :: int

record demand_history_row =
  dh_session_id :: string
  dh_target_sample :: string
  dh_captured_ns :: int
  dh_epoch :: int
  dh_current_values :: "u8 list"
  dh_import_peaks :: "u8 list"
  dh_export_peaks :: "u8 list"
  dh_qualities :: "u8 list"
  dh_flags :: int
  dh_method :: int
  dh_window_seconds :: int
  dh_update_seconds :: int
  dh_profile_generation :: int

datatype audit_table = Energy_reset_audit | Demand_reset_audit

section \<open>The SQLite engine as a parameter\<close>

record 'db sql_engine =
  sql_begin :: "'db \<Rightarrow> unit result"
  sql_commit :: "'db \<Rightarrow> unit result"
  select_energy_state :: "'db \<Rightarrow> energy_state_row option result"
  replace_energy_state :: "energy_state_row \<Rightarrow> 'db \<Rightarrow> 'db result"
  select_demand_state :: "'db \<Rightarrow> demand_state_row option result"
  replace_demand_state :: "demand_state_row \<Rightarrow> 'db \<Rightarrow> 'db result"
  select_resulting_epoch :: "audit_table \<Rightarrow> string \<Rightarrow> 'db \<Rightarrow> int option result"
  insert_reset_audit :: "audit_table \<Rightarrow> reset_audit_row \<Rightarrow> 'db \<Rightarrow> 'db result"
  replace_energy_history :: "energy_history_row \<Rightarrow> 'db \<Rightarrow> 'db result"
  replace_demand_history :: "demand_history_row \<Rightarrow> 'db \<Rightarrow> 'db result"

text \<open>\<^verbatim>\<open>Statement::bind(int, std::uint64_t)\<close>.\<close>

definition bind_u64 :: "u64 \<Rightarrow> int result" where
  "bind_u64 value =
     (if uint value > int64_max
      then Inl (Overflow_error ''SQLite integer exceeds signed 64-bit range'')
      else Inr (uint value))"

text \<open>
  \<^verbatim>\<open>Transaction transaction(db); ...; transaction.commit();\<close>: the new contents if everything
  succeeds; after an exception the destructor rolls back, and the caller keeps the old contents.
\<close>

definition transaction :: "'db sql_engine \<Rightarrow> 'db \<Rightarrow> ('db \<Rightarrow> 'db result) \<Rightarrow> 'db result" where
  "transaction sql db body =
     bind_result (sql_begin sql db) (\<lambda>_.
     bind_result (body db) (\<lambda>db'.
     bind_result (sql_commit sql db') (\<lambda>_. Inr db')))"

text \<open>
  What the ledger relies on, over the contents of the tables: a statement that succeeds has its
  documented effect on its own table and none on the others. \<^verbatim>\<open>INSERT\<close> respects the primary key.
\<close>

record ledger_tables =
  t_energy_state :: "energy_state_row option"
  t_demand_state :: "demand_state_row option"
  t_reset_audit :: "audit_table \<Rightarrow> string \<Rightarrow> reset_audit_row option"
  t_energy_history :: "string \<times> string \<Rightarrow> energy_history_row option"
  t_demand_history :: "string \<times> int \<times> string \<Rightarrow> demand_history_row option"

definition put_audit ::
    "audit_table \<Rightarrow> reset_audit_row \<Rightarrow> (audit_table \<Rightarrow> string \<Rightarrow> reset_audit_row option)
       \<Rightarrow> audit_table \<Rightarrow> string \<Rightarrow> reset_audit_row option" where
  "put_audit table row m = m(table := (m table)(ra_idempotency_key row \<mapsto> row))"

definition sql_laws :: "'db sql_engine \<Rightarrow> ('db \<Rightarrow> ledger_tables) \<Rightarrow> bool" where
  "sql_laws sql tables \<longleftrightarrow>
     (\<forall>db x. select_energy_state sql db = Inr x \<longrightarrow> x = t_energy_state (tables db)) \<and>
     (\<forall>db x. select_demand_state sql db = Inr x \<longrightarrow> x = t_demand_state (tables db)) \<and>
     (\<forall>db t k x. select_resulting_epoch sql t k db = Inr x \<longrightarrow>
        x = map_option ra_resulting_epoch (t_reset_audit (tables db) t k)) \<and>
     (\<forall>db row db'. replace_energy_state sql row db = Inr db' \<longrightarrow>
        tables db' = (tables db)\<lparr>t_energy_state := Some row\<rparr>) \<and>
     (\<forall>db row db'. replace_demand_state sql row db = Inr db' \<longrightarrow>
        tables db' = (tables db)\<lparr>t_demand_state := Some row\<rparr>) \<and>
     (\<forall>db t row db'. insert_reset_audit sql t row db = Inr db' \<longrightarrow>
        t_reset_audit (tables db) t (ra_idempotency_key row) = None \<and>
        tables db' = (tables db)\<lparr>t_reset_audit := put_audit t row (t_reset_audit (tables db))\<rparr>) \<and>
     (\<forall>db row db'. replace_energy_history sql row db = Inr db' \<longrightarrow>
        tables db' = (tables db)\<lparr>t_energy_history :=
          (t_energy_history (tables db))((eh_session_id row, eh_target_sample row) \<mapsto> row)\<rparr>) \<and>
     (\<forall>db row db'. replace_demand_history sql row db = Inr db' \<longrightarrow>
        tables db' = (tables db)\<lparr>t_demand_history :=
          (t_demand_history (tables db))
            ((dh_session_id row, dh_profile_generation row, dh_target_sample row) \<mapsto> row)\<rparr>)"

lemma transaction_ok:
  "transaction sql db body = Inr db' \<longleftrightarrow>
   sql_begin sql db = Inr () \<and> body db = Inr db' \<and> sql_commit sql db' = Inr ()"
  by (auto simp: transaction_def)

text \<open>An engine that satisfies the laws: the tables in memory.\<close>

definition memory_engine :: "ledger_tables sql_engine" where
  "memory_engine =
     \<lparr>sql_begin = (\<lambda>_. Inr ()), sql_commit = (\<lambda>_. Inr ()),
      select_energy_state = (\<lambda>db. Inr (t_energy_state db)),
      replace_energy_state = (\<lambda>row db. Inr (db\<lparr>t_energy_state := Some row\<rparr>)),
      select_demand_state = (\<lambda>db. Inr (t_demand_state db)),
      replace_demand_state = (\<lambda>row db. Inr (db\<lparr>t_demand_state := Some row\<rparr>)),
      select_resulting_epoch = (\<lambda>t k db. Inr (map_option ra_resulting_epoch (t_reset_audit db t k))),
      insert_reset_audit = (\<lambda>t row db.
        if t_reset_audit db t (ra_idempotency_key row) = None
        then Inr (db\<lparr>t_reset_audit := put_audit t row (t_reset_audit db)\<rparr>)
        else Inl (Runtime_error ''step SQLite statement: UNIQUE constraint failed'')),
      replace_energy_history = (\<lambda>row db. Inr (db\<lparr>t_energy_history :=
        (t_energy_history db)((eh_session_id row, eh_target_sample row) \<mapsto> row)\<rparr>)),
      replace_demand_history = (\<lambda>row db. Inr (db\<lparr>t_demand_history :=
        (t_demand_history db)
          ((dh_session_id row, dh_profile_generation row, dh_target_sample row) \<mapsto> row)\<rparr>))\<rparr>"

definition empty_tables :: ledger_tables where
  "empty_tables =
     \<lparr>t_energy_state = None, t_demand_state = None, t_reset_audit = (\<lambda>_ _. None),
      t_energy_history = Map.empty, t_demand_history = Map.empty\<rparr>"

lemma memory_engine_laws [simp]: "sql_laws memory_engine (\<lambda>db. db)"
  unfolding sql_laws_def by (simp add: memory_engine_def)

section \<open>Readings of a value\<close>

definition wf_energy :: "energy_values \<Rightarrow> bool" where
  "wf_energy v \<longleftrightarrow> length (reactive_quadrants v) = 4"

lemma length4: "length xs = 4 \<longleftrightarrow> (\<exists>a b c d. xs = [a, b, c, d])"
  by (auto simp: numeral_eq_Suc length_Suc_conv)

lemma phase_list_map_group [simp]:
  "phase_list (map_group f b g) =
     [f b (phase_a g), f (b + 1) (phase_b g), f (b + 2) (phase_c g), f (b + 3) (total g)]"
  by (simp add: map_group_def phase_list_def)

lemma group_eqI: "phase_list g = phase_list h \<Longrightarrow> g = (h :: 'a phase_abc_total)"
  by (simp add: phase_list_def)

lemma length_energy_readings [simp]: "wf_energy v \<Longrightarrow> length (energy_readings v) = energy_counter_count"
  by (auto simp: wf_energy_def length4 energy_readings_def energy_groups_def)

lemma flatten_energy_readings: "flatten_energy_counters v = map rd_value (energy_readings v)"
  by (simp add: flatten_energy_counters_def energy_readings_def map_concat comp_def)

lemma upt28: "[0..<28] = [0, 1, 2, 3, 4, 5, 6, 7, 8, 9, 10, 11, 12, 13, 14, 15, 16, 17, 18, 19,
    20, 21, 22, 23, 24, 25, 26, 27 :: nat]"
  by (simp add: upt_conv_Cons)

lemma energy_readings_for_each:
  "wf_energy v \<Longrightarrow> energy_readings (for_each_energy_reading f v) =
     map (\<lambda>i. f i (energy_readings v ! i)) [0..<28]"
  unfolding upt28
  by (auto simp: wf_energy_def length4 energy_readings_def energy_groups_def
      for_each_energy_reading_def phase_list_def map_group_def numeral_2_eq_2)

lemma for_each_energy_frame [simp]:
  "wf_energy (for_each_energy_reading f v) = wf_energy v"
  "ev_session_id (for_each_energy_reading f v) = ev_session_id v"
  "ev_last_sample_index (for_each_energy_reading f v) = ev_last_sample_index v"
  "ev_accepted_samples (for_each_energy_reading f v) = ev_accepted_samples v"
  "ev_skipped_samples (for_each_energy_reading f v) = ev_skipped_samples v"
  "ev_accepted_blocks (for_each_energy_reading f v) = ev_accepted_blocks v"
  "ev_skipped_blocks (for_each_energy_reading f v) = ev_skipped_blocks v"
  "ev_reset_epoch (for_each_energy_reading f v) = ev_reset_epoch v"
  "ev_saturated (for_each_energy_reading f v) = ev_saturated v"
  "ev_incomplete_input (for_each_energy_reading f v) = ev_incomplete_input v"
  "ev_discontinuity (for_each_energy_reading f v) = ev_discontinuity v"
  by (simp_all add: for_each_energy_reading_def wf_energy_def)

lemma energy_readings_scalar [simp]:
  "energy_readings (v\<lparr>ev_session_id := x0\<rparr>) = energy_readings v"
  "energy_readings (v\<lparr>ev_last_sample_index := x1\<rparr>) = energy_readings v"
  "energy_readings (v\<lparr>ev_accepted_samples := x2\<rparr>) = energy_readings v"
  "energy_readings (v\<lparr>ev_skipped_samples := x3\<rparr>) = energy_readings v"
  "energy_readings (v\<lparr>ev_accepted_blocks := x4\<rparr>) = energy_readings v"
  "energy_readings (v\<lparr>ev_skipped_blocks := x5\<rparr>) = energy_readings v"
  "energy_readings (v\<lparr>ev_reset_epoch := x6\<rparr>) = energy_readings v"
  "energy_readings (v\<lparr>ev_saturated := x7\<rparr>) = energy_readings v"
  "energy_readings (v\<lparr>ev_incomplete_input := x8\<rparr>) = energy_readings v"
  "energy_readings (v\<lparr>ev_discontinuity := x9\<rparr>) = energy_readings v"
  by (simp_all add: energy_readings_def energy_groups_def)

lemma wf_energy_scalar [simp]:
  "wf_energy (v\<lparr>ev_session_id := x0\<rparr>) = wf_energy v"
  "wf_energy (v\<lparr>ev_last_sample_index := x1\<rparr>) = wf_energy v"
  "wf_energy (v\<lparr>ev_accepted_samples := x2\<rparr>) = wf_energy v"
  "wf_energy (v\<lparr>ev_skipped_samples := x3\<rparr>) = wf_energy v"
  "wf_energy (v\<lparr>ev_accepted_blocks := x4\<rparr>) = wf_energy v"
  "wf_energy (v\<lparr>ev_skipped_blocks := x5\<rparr>) = wf_energy v"
  "wf_energy (v\<lparr>ev_reset_epoch := x6\<rparr>) = wf_energy v"
  "wf_energy (v\<lparr>ev_saturated := x7\<rparr>) = wf_energy v"
  "wf_energy (v\<lparr>ev_incomplete_input := x8\<rparr>) = wf_energy v"
  "wf_energy (v\<lparr>ev_discontinuity := x9\<rparr>) = wf_energy v"
  by (simp_all add: wf_energy_def)

lemma assign_energy_counters_frame [simp]:
  "ev_session_id (assign_energy_counters v xs) = ev_session_id v"
  "ev_last_sample_index (assign_energy_counters v xs) = ev_last_sample_index v"
  "ev_accepted_samples (assign_energy_counters v xs) = ev_accepted_samples v"
  "ev_skipped_samples (assign_energy_counters v xs) = ev_skipped_samples v"
  "ev_accepted_blocks (assign_energy_counters v xs) = ev_accepted_blocks v"
  "ev_skipped_blocks (assign_energy_counters v xs) = ev_skipped_blocks v"
  "ev_reset_epoch (assign_energy_counters v xs) = ev_reset_epoch v"
  "ev_saturated (assign_energy_counters v xs) = ev_saturated v"
  "ev_incomplete_input (assign_energy_counters v xs) = ev_incomplete_input v"
  "ev_discontinuity (assign_energy_counters v xs) = ev_discontinuity v"
  "wf_energy (assign_energy_counters v xs)"
  by (simp_all add: assign_energy_counters_def wf_energy_def)

lemma assign_group_map_group:
  "b + 4 \<le> length xs \<Longrightarrow>
   assign_group_values g (take 4 (drop b xs)) = map_group (\<lambda>i r. r\<lparr>rd_value := xs ! i\<rparr>) b g"
  by (simp add: assign_group_values_def map_group_def)

lemma assign_energy_counters_for_each:
  "wf_energy v \<Longrightarrow> length xs = 28 \<Longrightarrow>
   assign_energy_counters v xs = for_each_energy_reading (\<lambda>i r. r\<lparr>rd_value := xs ! i\<rparr>) v"
  using assign_group_map_group [of 0 xs]
  by (simp add: assign_energy_counters_def for_each_energy_reading_def wf_energy_def
      assign_group_map_group cong: map_cong)

lemma flatten_assign [simp]:
  "wf_energy v \<Longrightarrow> length xs = 28 \<Longrightarrow> flatten_energy_counters (assign_energy_counters v xs) = xs"
  by (auto simp: assign_energy_counters_for_each flatten_energy_readings energy_readings_for_each
      intro: nth_equalityI)

lemma qualities_assign [simp]:
  "wf_energy v \<Longrightarrow> length xs = 28 \<Longrightarrow>
   energy_qualities (assign_energy_counters v xs) = energy_qualities v"
  by (rule nth_equalityI) (simp_all add: assign_energy_counters_for_each energy_qualities_def
      energy_readings_for_each)

lemma energy_values_init_wf [simp]: "wf_energy energy_values_init"
  by (simp add: energy_values_init_def wf_energy_def)

section \<open>Windows\<close>

text \<open>The windows the decoder produces for sample rates up to 1 GHz.\<close>

definition decoded_window :: "sample_window \<Rightarrow> bool" where
  "decoded_window w \<longleftrightarrow> sw_sample_count w \<noteq> 0 \<and>
     (\<exists>r. 0 < r \<and> r \<le> 1000000000 \<and>
        sw_duration w = uint (sw_sample_count w) * 1000000000 div r)"

lemma division_involution:
  assumes "0 < r" and "r \<le> (M :: int)"
  shows "M div (M div (M div r)) = M div r" and "M div (M div r) < 2 * r"
proof -
  let ?d = "M div r" and ?e = "M div (M div r)"
  have d: "1 \<le> ?d" using assms by (metis div_self less_irrefl zdiv_mono1 order_less_le_trans)
  have le_div: "a \<le> M div b" if "a * b \<le> M" "0 < b" for a b
    using zdiv_mono1 [OF that] that(2) by simp
  have "?d * r \<le> M" using assms(1) by (simp add: minus_mod_eq_div_mult [symmetric])
  then have re: "r \<le> ?e"
    using d by (intro le_div) (simp_all add: mult.commute)
  have ed: "?e * ?d \<le> M" using d by (simp add: minus_mod_eq_div_mult [symmetric])
  then have "?d \<le> M div ?e" using re assms(1) by (intro le_div) (simp_all add: mult.commute)
  moreover have "M div ?e \<le> ?d" using re assms by (intro zdiv_mono2) auto
  ultimately show "M div ?e = ?d" by simp
  have "M < (?d + 1) * r"
    using assms(1) by (metis div_mult_mod_eq pos_mod_bound add_less_cancel_left distrib_right mult_1)
  also have "\<dots> \<le> ?d * (2 * r)" using d assms(1) by (simp add: algebra_simps)
  finally have "?e * ?d < (2 * r) * ?d" using ed by (simp add: mult.commute)
  with d show "?e < 2 * r" by (simp add: mult_less_cancel_right)
qed

text \<open>The window as the ledger rebuilds it from the stored count and rate.\<close>

definition reloaded_window :: "int \<Rightarrow> int \<Rightarrow> sample_window" where
  "reloaded_window count rate =
     \<lparr>sw_sample_count = word_of_int count,
      sw_duration = (count * 1000000000) sdiv (max rate 1)\<rparr>"

lemma reloaded_window_decoded:
  assumes "decoded_window w"
  shows "reloaded_window (uint (sw_sample_count w)) (uint (sample_rate w)) = w"
proof -
  define M where "M = uint (sw_sample_count w) * 1000000000"
  obtain r where r: "0 < r" "r \<le> 1000000000" "sw_duration w = M div r" and n: "sw_sample_count w \<noteq> 0"
    using assms by (auto simp: decoded_window_def M_def)
  have n1: "1 \<le> uint (sw_sample_count w)" using uint_pos [OF n] by simp
  then have rM: "r \<le> M" using r(2) by (simp add: M_def)
  let ?d = "sw_duration w"
  have d: "M div (M div ?d) = ?d" "M div ?d < 2 * r"
    using division_involution [OF r(1) rM] by (simp_all add: r(3))
  have dpos: "0 < ?d" using r(1,3) rM by (simp add: pos_imp_zdiv_pos_iff)
  have "M < 2 ^ 63" using uint_lt2p [of "sw_sample_count w"] by (simp add: M_def)
  moreover have "?d \<le> M" using r(1,3) rM zdiv_mono2 [of M 1 r] by simp
  ultimately have u: "uint (word_of_int ?d :: u64) = ?d"
    using dpos by (simp add: unsigned_of_int take_bit_int_eq_self)
  have q: "uint (ucast (sw_sample_count w) * 1000000000 div word_of_int ?d :: u64) = M div ?d"
    by (simp add: uint_div window_product u M_def)
  have e: "0 < M div ?d" using dpos \<open>?d \<le> M\<close> by (simp add: pos_imp_zdiv_pos_iff)
  have lt: "M div ?d < 2 ^ 32" using d(2) r(2) by simp
  then have "uint (sample_rate w) = M div ?d"
    using n dpos q e
    by (simp add: sample_rate_def Let_def unsigned_ucast_eq take_bit_int_eq_self)
  then show ?thesis
    using e d(1) rM r(1) by (simp add: reloaded_window_def sdiv_pos M_def [symmetric])
qed

end
