(* ===== verification/Energy_Ledger.thy ===== *)
theory Energy_Ledger
  imports Ledger_Store
begin

text \<open>
  The energy half of the authoritative ledger (\<^verbatim>\<open>EnergyLedger\<close>,
  \<^verbatim>\<open>common/msap1/meter/energy_ledger.{hpp,cpp}\<close>): the volatile per-session counters of the R5 core
  become durable lifetime counters. An operation returns the ledger it leaves and its result;
  on an exception the ledger is the one before the call, with the transaction rolled back.
\<close>

section \<open>State\<close>

record energy_state =
  es_epoch :: u64
  es_session_id :: u64
  es_source_sequence :: u32
  es_generation :: u32
  es_session_counters :: "int list"
  es_lifetime_counters :: "int list"

record demand_state =
  ds_epoch :: u64
  ds_session_id :: u64
  ds_source_sequence :: u32
  ds_generation :: u32
  ds_method :: demand_method_kind
  ds_window_seconds :: u32
  ds_update_seconds :: u32
  ds_profile_generation :: u32
  ds_current :: "int list"
  ds_raw_import :: "int list"
  ds_raw_export :: "int list"
  ds_baseline_import :: "int list"
  ds_baseline_export :: "int list"
  ds_authoritative_import :: "int list"
  ds_authoritative_export :: "int list"
  ds_import_anchors :: "u64 list"
  ds_export_anchors :: "u64 list"

record 'db ledger =
  led_database :: 'db
  led_latest_energy :: "energy_values option"
  led_latest_demand :: "demand_values option"
  led_energy :: energy_state
  led_demand :: demand_state

record reset_request =
  expected_epoch :: u64
  idempotency_key :: string
  actor :: string
  request_id :: string
  requested_at_nanoseconds :: int

record reset_result =
  rr_epoch :: u64
  rr_replayed :: bool

definition energy_state_init :: energy_state where
  "energy_state_init =
     \<lparr>es_epoch = 0, es_session_id = 0, es_source_sequence = 0, es_generation = 0,
      es_session_counters = replicate energy_counter_count 0,
      es_lifetime_counters = replicate energy_counter_count 0\<rparr>"

definition demand_state_init :: demand_state where
  "demand_state_init =
     \<lparr>ds_epoch = 0, ds_session_id = 0, ds_source_sequence = 0, ds_generation = 0,
      ds_method = sliding, ds_window_seconds = 0, ds_update_seconds = 0,
      ds_profile_generation = 0, ds_current = replicate 4 0, ds_raw_import = replicate 4 0,
      ds_raw_export = replicate 4 0, ds_baseline_import = replicate 4 0,
      ds_baseline_export = replicate 4 0, ds_authoritative_import = replicate 4 0,
      ds_authoritative_export = replicate 4 0, ds_import_anchors = replicate 4 0,
      ds_export_anchors = replicate 4 0\<rparr>"

text \<open>A ledger whose tables hold no state yet.\<close>

definition fresh_ledger :: "'db \<Rightarrow> 'db ledger" where
  "fresh_ledger db =
     \<lparr>led_database = db, led_latest_energy = None, led_latest_demand = None,
      led_energy = energy_state_init, led_demand = demand_state_init\<rparr>"

definition validate_reset :: "reset_request \<Rightarrow> unit result" where
  "validate_reset req =
     (if idempotency_key req = [] \<or> actor req = [] \<or> request_id req = []
      then Inl (Invalid_argument ''reset requires idempotency key, actor, and request ID'')
      else Inr ())"

section \<open>Loading and persisting\<close>

definition energy_flags :: "energy_values \<Rightarrow> u32" where
  "energy_flags v =
     of_bool (ev_saturated v) OR push_bit 1 (of_bool (ev_incomplete_input v))
       OR push_bit 2 (of_bool (ev_discontinuity v))"

definition load_energy :: "energy_state_row \<Rightarrow> (energy_state \<times> energy_values) result" where
  "load_energy row =
     bind_result (parse_hex64 (er_session_id row) ''energy session ID'') (\<lambda>session_id.
     bind_result (decode_array energy_counter_count (er_session_counters row)
       ''energy session counters'') (\<lambda>session_counters.
     bind_result (decode_array energy_counter_count (er_lifetime_counters row)
       ''energy lifetime counters'') (\<lambda>lifetime_counters.
     bind_result (assign_energy_qualities
       (assign_energy_counters energy_values_init lifetime_counters)
       (er_qualities row)) (\<lambda>values.
     bind_result (parse_hex64 (er_last_sample row) ''energy last sample'') (\<lambda>last_sample.
     bind_result (parse_hex64 (er_accepted_samples row) ''accepted samples'') (\<lambda>accepted.
     bind_result (parse_hex64 (er_skipped_samples row) ''skipped samples'') (\<lambda>skipped.
     let state = \<lparr>es_epoch = word_of_int (er_epoch row), es_session_id = session_id,
           es_source_sequence = word_of_int (er_source_sequence row),
           es_generation = word_of_int (er_generation row),
           es_session_counters = session_counters, es_lifetime_counters = lifetime_counters\<rparr>;
         flags = word_of_int (er_flags row)
     in Inr (state, for_each_energy_reading
          (\<lambda>_ r. r\<lparr>rd_source_sequence := ucast (es_source_sequence state),
                   rd_measured_at := er_updated_ns row,
                   rd_calculation_window :=
                     reloaded_window (er_sample_count row) (er_sample_rate row)\<rparr>)
          (values\<lparr>ev_session_id := session_id,
                  ev_last_sample_index := last_sample,
                  ev_accepted_samples := accepted,
                  ev_skipped_samples := skipped,
                  ev_accepted_blocks := word_of_int (er_accepted_blocks row),
                  ev_skipped_blocks := word_of_int (er_skipped_blocks row),
                  ev_saturated := flag flags 0,
                  ev_incomplete_input := flag flags 1,
                  ev_discontinuity := flag flags 2,
                  ev_reset_epoch := es_epoch state\<rparr>)))))))))"

definition energy_row ::
    "energy_values \<Rightarrow> energy_state \<Rightarrow> u32 \<Rightarrow> u32 \<Rightarrow> int \<Rightarrow> int \<Rightarrow> energy_state_row" where
  "energy_row values state count rate updated_ns epoch =
     \<lparr>er_epoch = epoch,
      er_session_id = hex64 (es_session_id state),
      er_source_sequence = uint (es_source_sequence state),
      er_generation = uint (es_generation state),
      er_session_counters = encode_array (es_session_counters state),
      er_lifetime_counters = encode_array (es_lifetime_counters state),
      er_qualities = energy_qualities values,
      er_last_sample = hex64 (ev_last_sample_index values),
      er_accepted_samples = hex64 (ev_accepted_samples values),
      er_skipped_samples = hex64 (ev_skipped_samples values),
      er_accepted_blocks = uint (ev_accepted_blocks values),
      er_skipped_blocks = uint (ev_skipped_blocks values),
      er_flags = sint (energy_flags values),
      er_sample_count = uint count,
      er_sample_rate = uint rate,
      er_updated_ns = updated_ns\<rparr>"

definition persist_energy ::
    "'db sql_engine \<Rightarrow> energy_values \<Rightarrow> energy_state \<Rightarrow> u32 \<Rightarrow> u32 \<Rightarrow> int \<Rightarrow> 'db \<Rightarrow> 'db result" where
  "persist_energy sql values state count rate updated_ns db =
     bind_result (bind_u64 (es_epoch state)) (\<lambda>epoch.
       replace_energy_state sql (energy_row values state count rate updated_ns epoch) db)"

section \<open>Accumulation\<close>

text \<open>The loops over the counters; the arrays have equal sizes.\<close>

fun add_same_session ::
    "int list \<Rightarrow> int list \<Rightarrow> int list \<Rightarrow> bool \<Rightarrow> (int list \<times> bool) result" where
  "add_same_session (c # cs) (s # ss) (l # ls) saturated =
     (if c < s then Inl (Conflict ''same-session ENERGY counter rollback'')
      else bind_result (saturating_add l (c - s) saturated) (\<lambda>(l', sat).
           bind_result (add_same_session cs ss ls sat) (\<lambda>(ls', sat').
             Inr (l' # ls', sat'))))"
| "add_same_session _ _ _ saturated = Inr ([], saturated)"

fun add_new_session :: "int list \<Rightarrow> int list \<Rightarrow> bool \<Rightarrow> (int list \<times> bool) result" where
  "add_new_session (c # cs) (l # ls) saturated =
     bind_result (saturating_add l c saturated) (\<lambda>(l', sat).
     bind_result (add_new_session cs ls sat) (\<lambda>(ls', sat').
       Inr (l' # ls', sat')))"
| "add_new_session _ _ saturated = Inr ([], saturated)"

section \<open>Operations\<close>

abbreviation energy_window :: "energy_values \<Rightarrow> sample_window" where
  "energy_window v \<equiv> rd_calculation_window (phase_a (active_import v))"

definition energy_content_differs ::
    "energy_values \<Rightarrow> u32 \<Rightarrow> energy_state \<Rightarrow> energy_values \<Rightarrow> bool" where
  "energy_content_differs session generation next_state latest \<longleftrightarrow>
     flatten_energy_counters session \<noteq> es_session_counters next_state \<or>
     generation \<noteq> es_generation next_state \<or>
     ev_last_sample_index session \<noteq> ev_last_sample_index latest \<or>
     ev_accepted_samples session \<noteq> ev_accepted_samples latest \<or>
     ev_skipped_samples session \<noteq> ev_skipped_samples latest \<or>
     ev_accepted_blocks session \<noteq> ev_accepted_blocks latest \<or>
     ev_skipped_blocks session \<noteq> ev_skipped_blocks latest \<or>
     ev_incomplete_input session \<noteq> ev_incomplete_input latest \<or>
     ev_discontinuity session \<noteq> ev_discontinuity latest \<or>
     (ev_saturated session \<and> \<not> ev_saturated latest) \<or>
     energy_qualities session \<noteq> energy_qualities latest \<or>
     \<not> same_window (energy_window session) (energy_window latest)"

definition store_energy ::
    "'db sql_engine \<Rightarrow> 'db ledger \<Rightarrow> energy_values \<Rightarrow> energy_state \<Rightarrow> sample_window \<Rightarrow> int
       \<Rightarrow> 'db ledger \<times> energy_values result" where
  "store_energy sql L v next_state window now =
     (case transaction sql (led_database L)
             (persist_energy sql v next_state (sw_sample_count window) (sample_rate window) now) of
        Inl e \<Rightarrow> (L, Inl e)
      | Inr db \<Rightarrow> (L\<lparr>led_database := db, led_energy := next_state, led_latest_energy := Some v\<rparr>,
                   Inr v))"

definition accept_energy ::
    "'db sql_engine \<Rightarrow> 'db ledger \<Rightarrow> energy_values \<Rightarrow> u32 \<Rightarrow> u32 \<Rightarrow> int \<Rightarrow> (int list \<times> bool)
       \<Rightarrow> 'db ledger \<times> energy_values result" where
  "accept_energy sql L session sequence generation now acc =
     (let (lifetime, saturated) = acc;
          next_state = (led_energy L)\<lparr>es_lifetime_counters := lifetime,
            es_session_id := ev_session_id session, es_source_sequence := sequence,
            es_generation := generation,
            es_session_counters := flatten_energy_counters session\<rparr>;
          v = (assign_energy_counters session lifetime)
            \<lparr>ev_reset_epoch := es_epoch next_state, ev_saturated := saturated\<rparr>
      in store_energy sql L v next_state (energy_window session) now)"

definition ingest_energy ::
    "'db sql_engine \<Rightarrow> 'db ledger \<Rightarrow> energy_values \<Rightarrow> u32 \<Rightarrow> u32 \<Rightarrow> int
       \<Rightarrow> 'db ledger \<times> energy_values result" where
  "ingest_energy sql L session sequence generation now =
     (let counters = flatten_energy_counters session; state = led_energy L in
      if list_ex (\<lambda>c. c < 0) counters
      then (L, Inl (Invalid_argument ''negative ENERGY session counter''))
      else case led_latest_energy L of
        Some latest \<Rightarrow>
          if ev_session_id session = es_session_id state
          then if sequence < es_source_sequence state
               then (L, Inl (Conflict ''stale ENERGY family sequence''))
               else if sequence = es_source_sequence state
               then if energy_content_differs session generation state latest
                    then (L, Inl (Conflict ''duplicate ENERGY sequence has different content''))
                    else (L, Inr latest)
               else (case add_same_session counters (es_session_counters state)
                            (es_lifetime_counters state) (ev_saturated session) of
                       Inl e \<Rightarrow> (L, Inl e)
                     | Inr acc \<Rightarrow> accept_energy sql L session sequence generation now acc)
          else (case add_new_session counters (es_lifetime_counters state) (ev_saturated session) of
                  Inl e \<Rightarrow> (L, Inl e)
                | Inr acc \<Rightarrow> accept_energy sql L session sequence generation now acc)
      | None \<Rightarrow>
          (case add_new_session counters (es_lifetime_counters state) (ev_saturated session) of
             Inl e \<Rightarrow> (L, Inl e)
           | Inr acc \<Rightarrow> accept_energy sql L session sequence generation now acc))"

text \<open>\<^verbatim>\<open>EnergyLedger::energy()\<close> is \<open>led_latest_energy\<close>, \<^verbatim>\<open>demand()\<close> is \<open>led_latest_demand\<close>.\<close>

definition audit_row :: "reset_request \<Rightarrow> int \<Rightarrow> int \<Rightarrow> reset_audit_row" where
  "audit_row req previous resulting =
     \<lparr>ra_idempotency_key = idempotency_key req, ra_request_id = request_id req,
      ra_actor = actor req, ra_requested_ns = requested_at_nanoseconds req,
      ra_previous_epoch = previous, ra_resulting_epoch = resulting\<rparr>"

definition write_audit ::
    "'db sql_engine \<Rightarrow> audit_table \<Rightarrow> reset_request \<Rightarrow> u64 \<Rightarrow> u64 \<Rightarrow> 'db \<Rightarrow> 'db result" where
  "write_audit sql table req previous resulting db =
     bind_result (bind_u64 previous) (\<lambda>p.
     bind_result (bind_u64 resulting) (\<lambda>r.
       insert_reset_audit sql table (audit_row req p r) db))"

definition reset_energy ::
    "'db sql_engine \<Rightarrow> 'db ledger \<Rightarrow> reset_request \<Rightarrow> 'db ledger \<times> reset_result result" where
  "reset_energy sql L req =
     (case bind_result (validate_reset req) (\<lambda>_.
             select_resulting_epoch sql Energy_reset_audit (idempotency_key req) (led_database L)) of
        Inl e \<Rightarrow> (L, Inl e)
      | Inr (Some epoch) \<Rightarrow> (L, Inr \<lparr>rr_epoch = word_of_int epoch, rr_replayed = True\<rparr>)
      | Inr None \<Rightarrow>
          (case led_latest_energy L of
             None \<Rightarrow> (L, Inl (Unavailable ''no durable ENERGY checkpoint exists''))
           | Some latest \<Rightarrow>
               if expected_epoch req \<noteq> es_epoch (led_energy L)
               then (L, Inl (Conflict ''ENERGY reset epoch conflict''))
               else
                 let previous = es_epoch (led_energy L);
                     next_state = (led_energy L)\<lparr>es_epoch := previous + 1,
                       es_lifetime_counters := replicate energy_counter_count 0\<rparr>;
                     v = (assign_energy_counters latest (es_lifetime_counters next_state))
                       \<lparr>ev_reset_epoch := es_epoch next_state\<rparr>
                 in (case transaction sql (led_database L) (\<lambda>db.
                            bind_result (persist_energy sql v next_state
                              (sw_sample_count (energy_window v)) (sample_rate (energy_window v))
                              (requested_at_nanoseconds req) db)
                              (write_audit sql Energy_reset_audit req previous
                                 (es_epoch next_state))) of
                       Inl e \<Rightarrow> (L, Inl e)
                     | Inr db \<Rightarrow>
                         (L\<lparr>led_database := db, led_energy := next_state,
                            led_latest_energy := Some v\<rparr>,
                          Inr \<lparr>rr_epoch = es_epoch next_state, rr_replayed = False\<rparr>))))"

section \<open>The accumulation loops\<close>

definition clamped_sum :: "int list \<Rightarrow> int list \<Rightarrow> int list" where
  "clamped_sum ls ds = map2 (\<lambda>l d. min int64_max (l + d)) ls ds"

lemma saturating_add_clamp:
  "0 \<le> d \<Longrightarrow> saturating_add l d sat = Inr (min int64_max (l + d), sat \<or> int64_max < l + d)"
  by (auto simp: saturating_add_def min_def)

lemma add_same_session_eq:
  "length ss = length cs \<Longrightarrow> length ls = length cs \<Longrightarrow>
   add_same_session cs ss ls sat =
     (if list_all2 (\<le>) ss cs
      then Inr (clamped_sum ls (map2 (-) cs ss),
                sat \<or> list_ex (\<lambda>s. int64_max < s) (map2 (+) ls (map2 (-) cs ss)))
      else Inl (Conflict ''same-session ENERGY counter rollback''))"
proof (induction cs arbitrary: ss ls sat)
  case Nil
  then show ?case by (simp add: clamped_sum_def)
next
  case (Cons c cs)
  then obtain s ss' l ls' where e: "ss = s # ss'" "ls = l # ls'"
    by (metis length_Suc_conv)
  show ?case
  proof (cases "s \<le> c")
    case True
    then show ?thesis
      using Cons.prems Cons.IH [of ss' ls' "sat \<or> int64_max < l + (c - s)"]
      by (simp add: e saturating_add_clamp clamped_sum_def disj_assoc)
  qed (simp add: e)
qed

lemma add_new_session_eq:
  "length ls = length cs \<Longrightarrow> list_all ((\<le>) 0) cs \<Longrightarrow>
   add_new_session cs ls sat =
     Inr (clamped_sum ls cs, sat \<or> list_ex (\<lambda>s. int64_max < s) (map2 (+) ls cs))"
proof (induction cs arbitrary: ls sat)
  case Nil
  then show ?case by (simp add: clamped_sum_def)
next
  case (Cons c cs)
  then obtain l ls' where e: "ls = l # ls'" by (metis length_Suc_conv)
  show ?case
    using Cons.prems Cons.IH [of ls' "sat \<or> int64_max < l + c"]
    by (simp add: e saturating_add_clamp clamped_sum_def disj_assoc)
qed

text \<open>Summing clamped values and clamping once give the same result.\<close>

lemma clamped_sum_min:
  "length ts = length ds \<Longrightarrow> list_all ((\<le>) 0) ds \<Longrightarrow>
   clamped_sum (map (min int64_max) ts) ds = map (min int64_max) (map2 (+) ts ds)"
  by (induction ts ds rule: list_induct2) (auto simp: clamped_sum_def)

section \<open>Invariant and outcomes\<close>

text \<open>The values of the C++ type: four quadrants, every counter an \<^verbatim>\<open>int64_t\<close>.\<close>

definition energy_input :: "energy_values \<Rightarrow> bool" where
  "energy_input v \<longleftrightarrow> wf_energy v \<and> list_all in_int64 (flatten_energy_counters v)"

definition counter_ok :: "int \<Rightarrow> bool" where
  "counter_ok c \<longleftrightarrow> 0 \<le> c \<and> c \<le> int64_max"

definition energy_inv :: "'db ledger \<Rightarrow> bool" where
  "energy_inv L \<longleftrightarrow>
     length (es_session_counters (led_energy L)) = 28 \<and>
     length (es_lifetime_counters (led_energy L)) = 28 \<and>
     list_all counter_ok (es_session_counters (led_energy L)) \<and>
     list_all counter_ok (es_lifetime_counters (led_energy L)) \<and>
     (\<forall>v. led_latest_energy L = Some v \<longrightarrow>
        wf_energy v \<and> flatten_energy_counters v = es_lifetime_counters (led_energy L) \<and>
        ev_reset_epoch v = es_epoch (led_energy L) \<and>
        ev_session_id v = es_session_id (led_energy L))"

definition same_energy_session :: "'db ledger \<Rightarrow> energy_values \<Rightarrow> bool" where
  "same_energy_session L session \<longleftrightarrow>
     led_latest_energy L \<noteq> None \<and> ev_session_id session = es_session_id (led_energy L)"

definition energy_deltas :: "'db ledger \<Rightarrow> energy_values \<Rightarrow> int list" where
  "energy_deltas L session =
     (if same_energy_session L session
      then map2 (-) (flatten_energy_counters session) (es_session_counters (led_energy L))
      else flatten_energy_counters session)"

definition next_energy :: "'db ledger \<Rightarrow> energy_values \<Rightarrow> u32 \<Rightarrow> u32 \<Rightarrow> energy_state" where
  "next_energy L session sequence generation = (led_energy L)
     \<lparr>es_lifetime_counters :=
        clamped_sum (es_lifetime_counters (led_energy L)) (energy_deltas L session),
      es_session_id := ev_session_id session, es_source_sequence := sequence,
      es_generation := generation, es_session_counters := flatten_energy_counters session\<rparr>"

definition energy_overflows :: "'db ledger \<Rightarrow> energy_values \<Rightarrow> bool" where
  "energy_overflows L session \<longleftrightarrow> list_ex (\<lambda>s. int64_max < s)
     (map2 (+) (es_lifetime_counters (led_energy L)) (energy_deltas L session))"

definition next_energy_value :: "'db ledger \<Rightarrow> energy_values \<Rightarrow> energy_values" where
  "next_energy_value L session = (assign_energy_counters session
     (clamped_sum (es_lifetime_counters (led_energy L)) (energy_deltas L session)))
     \<lparr>ev_reset_epoch := es_epoch (led_energy L),
      ev_saturated := ev_saturated session \<or> energy_overflows L session\<rparr>"

lemma accept_energy_eq:
  "accept_energy sql L session sequence generation now
     (clamped_sum (es_lifetime_counters (led_energy L)) (energy_deltas L session),
      ev_saturated session \<or> energy_overflows L session) =
   store_energy sql L (next_energy_value L session) (next_energy L session sequence generation)
     (energy_window session) now"
  by (simp add: accept_energy_def next_energy_value_def next_energy_def)

lemma length_flatten_input [simp]:
  "wf_energy v \<Longrightarrow> length (flatten_energy_counters v) = 28"
  by (simp add: flatten_energy_readings)

text \<open>Three outcomes: an error, the recognised retry, the accepted checkpoint.\<close>

lemma ingest_energy_eq:
  assumes inp: "wf_energy session" and inv: "energy_inv L"
  shows "ingest_energy sql L session sequence generation now =
    (if \<not> list_all ((\<le>) 0) (flatten_energy_counters session)
     then (L, Inl (Invalid_argument ''negative ENERGY session counter''))
     else if same_energy_session L session \<and> sequence < es_source_sequence (led_energy L)
     then (L, Inl (Conflict ''stale ENERGY family sequence''))
     else if same_energy_session L session \<and> sequence = es_source_sequence (led_energy L)
     then if energy_content_differs session generation (led_energy L) (the (led_latest_energy L))
          then (L, Inl (Conflict ''duplicate ENERGY sequence has different content''))
          else (L, Inr (the (led_latest_energy L)))
     else if \<not> list_all ((\<le>) 0) (energy_deltas L session)
     then (L, Inl (Conflict ''same-session ENERGY counter rollback''))
     else store_energy sql L (next_energy_value L session)
            (next_energy L session sequence generation) (energy_window session) now)"
proof -
  let ?c = "flatten_energy_counters session" and ?s = "es_session_counters (led_energy L)"
  have len: "length ?c = 28" "length ?s = 28" "length (es_lifetime_counters (led_energy L)) = 28"
    using inp inv by (simp_all add: energy_inv_def)
  have neg: "list_ex (\<lambda>c. c < 0) ?c \<longleftrightarrow> \<not> list_all ((\<le>) 0) ?c"
    by (auto simp: list_ex_iff list_all_iff not_le)
  have dl: "list_all2 (\<le>) ?s ?c \<longleftrightarrow> list_all ((\<le>) 0) (map2 (-) ?c ?s)"
    using len by (auto simp: list_all2_conv_all_nth list_all_length)
  show ?thesis
  proof (cases "list_all ((\<le>) 0) ?c")
    case nn: True
    show ?thesis
    proof (cases "same_energy_session L session")
      case True
      then obtain latest where la: "led_latest_energy L = Some latest"
          "ev_session_id session = es_session_id (led_energy L)"
        by (auto simp: same_energy_session_def)
      have "energy_deltas L session = map2 (-) ?c ?s" using True by (simp add: energy_deltas_def)
      then show ?thesis
        using nn True la len accept_energy_eq [of sql L session sequence generation now]
        by (auto simp: ingest_energy_def neg add_same_session_eq dl energy_overflows_def)
    next
      case False
      have d: "energy_deltas L session = ?c" using False by (simp add: energy_deltas_def)
      have "ingest_energy sql L session sequence generation now =
          (case add_new_session ?c (es_lifetime_counters (led_energy L)) (ev_saturated session) of
             Inl e \<Rightarrow> (L, Inl e)
           | Inr acc \<Rightarrow> accept_energy sql L session sequence generation now acc)"
        using nn False
        by (auto simp: ingest_energy_def neg same_energy_session_def Let_def split: option.splits)
      then show ?thesis
        using nn False len d accept_energy_eq [of sql L session sequence generation now]
        by (simp add: add_new_session_eq energy_overflows_def)
    qed
  qed (simp add: ingest_energy_def neg)
qed

lemma store_energy_cases:
  "(\<exists>e. store_energy sql L v st w now = (L, Inl e)) \<or>
   (\<exists>db. transaction sql (led_database L)
       (persist_energy sql v st (sw_sample_count w) (sample_rate w) now) = Inr db \<and>
      store_energy sql L v st w now =
        (L\<lparr>led_database := db, led_energy := st, led_latest_energy := Some v\<rparr>, Inr v))"
  by (cases "transaction sql (led_database L)
       (persist_energy sql v st (sw_sample_count w) (sample_rate w) now)")
     (simp_all add: store_energy_def)

lemma clamped_sum_ok:
  "length ls = length ds \<Longrightarrow> list_all counter_ok ls \<Longrightarrow> list_all ((\<le>) 0) ds \<Longrightarrow>
   list_all counter_ok (clamped_sum ls ds)"
  by (induction ls ds rule: list_induct2)
     (auto simp: clamped_sum_def counter_ok_def int64_max_def)

lemma length_clamped_sum [simp]: "length (clamped_sum ls ds) = min (length ls) (length ds)"
  by (simp add: clamped_sum_def)

lemma length_energy_deltas:
  "wf_energy session \<Longrightarrow> energy_inv L \<Longrightarrow> length (energy_deltas L session) = 28"
  by (simp add: energy_deltas_def energy_inv_def)

text \<open>What an accepted checkpoint leaves behind.\<close>

lemma energy_inv_accepted:
  assumes "energy_input session" "energy_inv L" "list_all ((\<le>) 0) (flatten_energy_counters session)"
    "list_all ((\<le>) 0) (energy_deltas L session)"
  shows "energy_inv (L\<lparr>led_database := db, led_energy := next_energy L session sequence generation,
     led_latest_energy := Some (next_energy_value L session)\<rparr>)"
proof -
  have "list_all counter_ok (flatten_energy_counters session)"
    using assms(1,3) by (auto simp: energy_input_def list_all_iff counter_ok_def in_int64_def)
  moreover have "list_all counter_ok
      (clamped_sum (es_lifetime_counters (led_energy L)) (energy_deltas L session))"
    using assms length_energy_deltas [of session L]
    by (intro clamped_sum_ok) (simp_all add: energy_inv_def energy_input_def)
  moreover have "wf_energy session" using assms(1) by (simp add: energy_input_def)
  moreover have "length (clamped_sum (es_lifetime_counters (led_energy L)) (energy_deltas L session)) = 28"
    using assms(2) length_energy_deltas [OF \<open>wf_energy session\<close> assms(2)] by (simp add: energy_inv_def)
  ultimately show ?thesis
    using flatten_assign [of session "clamped_sum (es_lifetime_counters (led_energy L)) (energy_deltas L session)"]
    by (simp add: energy_inv_def next_energy_def next_energy_value_def flatten_energy_readings)
qed

section \<open>Resets\<close>

definition next_reset :: "'db ledger \<Rightarrow> energy_state" where
  "next_reset L = (led_energy L)\<lparr>es_epoch := es_epoch (led_energy L) + 1,
     es_lifetime_counters := replicate 28 0\<rparr>"

definition reset_value :: "'db ledger \<Rightarrow> energy_values \<Rightarrow> energy_values" where
  "reset_value L latest = (assign_energy_counters latest (replicate 28 0))
     \<lparr>ev_reset_epoch := es_epoch (led_energy L) + 1\<rparr>"

lemma reset_energy_cases:
  obtains (failed) e where "reset_energy sql L req = (L, Inl e)"
  | (replayed) epoch where "reset_energy sql L req =
        (L, Inr \<lparr>rr_epoch = word_of_int epoch, rr_replayed = True\<rparr>)"
      "select_resulting_epoch sql Energy_reset_audit (idempotency_key req) (led_database L) = Inr (Some epoch)"
  | (applied) latest db1 db where "validate_reset req = Inr ()"
      "select_resulting_epoch sql Energy_reset_audit (idempotency_key req) (led_database L) = Inr None"
      "led_latest_energy L = Some latest"
      "expected_epoch req = es_epoch (led_energy L)"
      "persist_energy sql (reset_value L latest) (next_reset L)
         (sw_sample_count (energy_window (reset_value L latest)))
         (sample_rate (energy_window (reset_value L latest)))
         (requested_at_nanoseconds req) (led_database L) = Inr db1"
      "write_audit sql Energy_reset_audit req (es_epoch (led_energy L))
         (es_epoch (led_energy L) + 1) db1 = Inr db"
      "reset_energy sql L req =
        (L\<lparr>led_database := db, led_energy := next_reset L,
           led_latest_energy := Some (reset_value L latest)\<rparr>,
         Inr \<lparr>rr_epoch = es_epoch (led_energy L) + 1, rr_replayed = False\<rparr>)"
proof -
  let ?sel = "bind_result (validate_reset req) (\<lambda>_.
     select_resulting_epoch sql Energy_reset_audit (idempotency_key req) (led_database L))"
  consider (a) e where "?sel = Inl e" | (b) epoch where "?sel = Inr (Some epoch)"
    | (c) "?sel = Inr None" by (metis option.exhaust sumE)
  then show thesis
  proof cases
    case a
    then show thesis by (intro failed [of e]) (simp add: reset_energy_def)
  next
    case b
    then have "select_resulting_epoch sql Energy_reset_audit (idempotency_key req) (led_database L)
        = Inr (Some epoch)" "validate_reset req = Inr ()" by auto
    then show thesis by (intro replayed [of epoch]) (simp_all add: reset_energy_def)
  next
    case c
    then have sel: "select_resulting_epoch sql Energy_reset_audit (idempotency_key req) (led_database L)
        = Inr None" "validate_reset req = Inr ()" by auto
    show thesis
    proof (cases "led_latest_energy L")
      case None
      with sel show thesis
        by (intro failed [of "Unavailable ''no durable ENERGY checkpoint exists''"])
           (simp add: reset_energy_def)
    next
      case (Some latest)
      let ?v = "reset_value L latest"
      let ?t = "transaction sql (led_database L) (\<lambda>db.
         bind_result (persist_energy sql ?v (next_reset L) (sw_sample_count (energy_window ?v))
           (sample_rate (energy_window ?v)) (requested_at_nanoseconds req) db)
           (write_audit sql Energy_reset_audit req (es_epoch (led_energy L))
              (es_epoch (led_energy L) + 1)))"
      have eq: "reset_energy sql L req =
        (if expected_epoch req \<noteq> es_epoch (led_energy L)
         then (L, Inl (Conflict ''ENERGY reset epoch conflict''))
         else case ?t of Inl e \<Rightarrow> (L, Inl e)
           | Inr db \<Rightarrow> (L\<lparr>led_database := db, led_energy := next_reset L,
               led_latest_energy := Some ?v\<rparr>,
             Inr \<lparr>rr_epoch = es_epoch (led_energy L) + 1, rr_replayed = False\<rparr>))"
        using sel Some
        by (simp add: reset_energy_def next_reset_def reset_value_def Let_def split: sum.split)
      show thesis
      proof (cases ?t)
        case (Inl e)
        then show thesis
          using eq failed by (cases "expected_epoch req \<noteq> es_epoch (led_energy L)") auto
      next
        case (Inr db)
        show thesis
        proof (cases "expected_epoch req = es_epoch (led_energy L)")
          case True
          from Inr obtain db1 where
            "persist_energy sql ?v (next_reset L) (sw_sample_count (energy_window ?v))
               (sample_rate (energy_window ?v)) (requested_at_nanoseconds req) (led_database L) = Inr db1"
            "write_audit sql Energy_reset_audit req (es_epoch (led_energy L))
               (es_epoch (led_energy L) + 1) db1 = Inr db"
            by (auto simp: transaction_ok)
          then show thesis using sel Some True Inr eq by (intro applied) simp_all
        next
          case False
          then show thesis using eq failed by simp
        qed
      qed
    qed
  qed
qed

lemma energy_inv_reset: "energy_inv L \<Longrightarrow> energy_inv (fst (reset_energy sql L req))"
proof (cases rule: reset_energy_cases [of sql L req])
  case (applied latest db1 db)
  assume "energy_inv L"
  then have "wf_energy latest" "length (es_session_counters (led_energy L)) = 28"
      "list_all counter_ok (es_session_counters (led_energy L))"
      "ev_session_id latest = es_session_id (led_energy L)"
    using applied(3) by (simp_all add: energy_inv_def)
  then show ?thesis
    using flatten_assign [of latest "replicate 28 0"]
    by (simp add: applied(7) energy_inv_def next_reset_def reset_value_def flatten_energy_readings
        counter_ok_def list_all_iff int64_max_def)
qed simp_all

section \<open>Refinement of an unbounded meter\<close>

text \<open>
  The abstract meter: totals are unbounded integers; a checkpoint adds what the session counted
  since the previous checkpoint of the same session (everything, for a new session), and a
  checkpoint already counted adds nothing.
\<close>

record energy_meter =
  m_session :: "u64 option"
  m_sequence :: u32
  m_counters :: "int list"
  m_total :: "int list"

definition meter_init :: energy_meter where
  "meter_init = \<lparr>m_session = None, m_sequence = 0, m_counters = replicate 28 0,
     m_total = replicate 28 0\<rparr>"

definition meter_ingest :: "energy_meter \<Rightarrow> energy_values \<Rightarrow> u32 \<Rightarrow> energy_meter" where
  "meter_ingest m session sequence =
     (if m_session m = Some (ev_session_id session) \<and> sequence = m_sequence m then m
      else \<lparr>m_session = Some (ev_session_id session), m_sequence = sequence,
            m_counters = flatten_energy_counters session,
            m_total = map2 (+) (m_total m)
              (if m_session m = Some (ev_session_id session)
               then map2 (-) (flatten_energy_counters session) (m_counters m)
               else flatten_energy_counters session)\<rparr>)"

definition meter_reset :: "energy_meter \<Rightarrow> energy_meter" where
  "meter_reset m = m\<lparr>m_total := replicate 28 0\<rparr>"

datatype energy_op =
    Ingest_energy energy_values u32 u32 int
  | Reset_energy reset_request

text \<open>
  Both machines side by side: the meter follows the calls the ledger reports as successful (and
  as not replayed). Arguments that are not values of the C++ type are not calls.
\<close>

fun track :: "'db sql_engine \<Rightarrow> 'db ledger \<times> energy_meter \<Rightarrow> energy_op \<Rightarrow> 'db ledger \<times> energy_meter"
  where
  "track sql (L, m) (Ingest_energy session sequence generation now) =
     (if energy_input session
      then case ingest_energy sql L session sequence generation now of
             (L', Inl _) \<Rightarrow> (L', m)
           | (L', Inr _) \<Rightarrow> (L', meter_ingest m session sequence)
      else (L, m))"
| "track sql (L, m) (Reset_energy req) =
     (case reset_energy sql L req of
        (L', Inl _) \<Rightarrow> (L', m)
      | (L', Inr r) \<Rightarrow> (L', if rr_replayed r then m else meter_reset m))"

definition meter_refined :: "'db ledger \<times> energy_meter \<Rightarrow> bool" where
  "meter_refined = (\<lambda>(L, m).
     energy_inv L \<and>
     m_session m = (if led_latest_energy L = None then None else Some (es_session_id (led_energy L))) \<and>
     m_sequence m = es_source_sequence (led_energy L) \<and>
     m_counters m = es_session_counters (led_energy L) \<and>
     length (m_total m) = 28 \<and>
     es_lifetime_counters (led_energy L) = map (min int64_max) (m_total m))"

lemma meter_refined_deltas:
  "meter_refined (L, m) \<Longrightarrow> energy_deltas L session =
     (if m_session m = Some (ev_session_id session)
      then map2 (-) (flatten_energy_counters session) (m_counters m)
      else flatten_energy_counters session)"
  by (auto simp: meter_refined_def energy_deltas_def same_energy_session_def)

lemma meter_refined_same:
  "meter_refined (L, m) \<Longrightarrow>
   same_energy_session L session \<longleftrightarrow> m_session m = Some (ev_session_id session)"
  by (auto simp: meter_refined_def same_energy_session_def)

lemma meter_refined_ingest:
  assumes r: "meter_refined (L, m)" and inp: "energy_input session"
  shows "meter_refined (case ingest_energy sql L session sequence generation now of
             (L', Inl _) \<Rightarrow> (L', m)
           | (L', Inr _) \<Rightarrow> (L', meter_ingest m session sequence))"
proof -
  have inv: "energy_inv L" and w: "wf_energy session"
    using r inp by (simp_all add: meter_refined_def energy_input_def)
  note eq = ingest_energy_eq [OF w inv, of sql sequence generation now]
  let ?st = "store_energy sql L (next_energy_value L session)
            (next_energy L session sequence generation) (energy_window session) now"
  have stored: "meter_refined (case ?st of (L', Inl _) \<Rightarrow> (L', m)
           | (L', Inr _) \<Rightarrow> (L', meter_ingest m session sequence))"
    if nn: "list_all ((\<le>) 0) (flatten_energy_counters session)"
      "list_all ((\<le>) 0) (energy_deltas L session)"
      and new: "\<not> (same_energy_session L session \<and> sequence = es_source_sequence (led_energy L))"
    using store_energy_cases [of sql L "next_energy_value L session"
        "next_energy L session sequence generation" "energy_window session" now]
  proof (elim disjE exE conjE)
    fix db
    assume s: "?st = (L\<lparr>led_database := db, led_energy := next_energy L session sequence generation,
       led_latest_energy := Some (next_energy_value L session)\<rparr>, Inr (next_energy_value L session))"
    have len: "length (m_total m) = length (energy_deltas L session)"
      using r length_energy_deltas [OF w inv] by (simp add: meter_refined_def)
    have "es_lifetime_counters (led_energy L) = map (min int64_max) (m_total m)"
      using r by (simp add: meter_refined_def)
    then have "clamped_sum (es_lifetime_counters (led_energy L)) (energy_deltas L session)
        = map (min int64_max) (map2 (+) (m_total m) (energy_deltas L session))"
      using clamped_sum_min [OF len nn(2)] by simp
    moreover have "length (energy_deltas L session) = 28" by (rule length_energy_deltas [OF w inv])
    moreover have "\<not> (m_session m = Some (ev_session_id session) \<and> sequence = m_sequence m)"
      using new r meter_refined_same [OF r, of session] by (auto simp: meter_refined_def)
    moreover note energy_inv_accepted [OF inp inv nn, where db = db and sequence = sequence and generation = generation]
    ultimately have "meter_refined (L\<lparr>led_database := db,
        led_energy := next_energy L session sequence generation,
        led_latest_energy := Some (next_energy_value L session)\<rparr>, meter_ingest m session sequence)"
      using len meter_refined_deltas [OF r, of session]
      by (simp add: meter_refined_def meter_ingest_def next_energy_def split: if_splits)
    then show ?thesis by (simp add: s)
  qed (auto simp: r)
  have retry: "meter_ingest m session sequence = m"
    if "same_energy_session L session \<and> sequence = es_source_sequence (led_energy L)"
    using that r meter_refined_same [OF r, of session] by (auto simp: meter_ingest_def meter_refined_def)
  show ?thesis
    unfolding eq using r stored retry by auto
qed

lemma meter_refined_reset:
  assumes "meter_refined (L, m)"
  shows "meter_refined (case reset_energy sql L req of
        (L', Inl _) \<Rightarrow> (L', m)
      | (L', Inr r) \<Rightarrow> (L', if rr_replayed r then m else meter_reset m))"
  using energy_inv_reset [of L sql req]
proof (cases rule: reset_energy_cases [of sql L req])
  case (applied latest db1 db)
  then show ?thesis
    using assms energy_inv_reset [of L sql req]
    by (simp add: meter_refined_def meter_reset_def next_reset_def int64_max_def)
qed (use assms in simp_all)

interpretation energy_refinement: invariant_system "track sql" meter_refined for sql
proof
  fix s :: "'a ledger \<times> energy_meter" and op
  assume "meter_refined s"
  then show "meter_refined (track sql s op)"
    using meter_refined_ingest meter_refined_reset by (cases s; cases op) auto
qed

section \<open>Round trip through the table\<close>

lemma energy_values_eqI:
  assumes "wf_energy v" "wf_energy w" "energy_readings v = energy_readings w"
    "ev_session_id v = ev_session_id w" "ev_last_sample_index v = ev_last_sample_index w"
    "ev_accepted_samples v = ev_accepted_samples w" "ev_skipped_samples v = ev_skipped_samples w"
    "ev_accepted_blocks v = ev_accepted_blocks w" "ev_skipped_blocks v = ev_skipped_blocks w"
    "ev_reset_epoch v = ev_reset_epoch w" "ev_saturated v = ev_saturated w"
    "ev_incomplete_input v = ev_incomplete_input w" "ev_discontinuity v = ev_discontinuity w"
  shows "v = w"
proof -
  obtain a b c d where v: "reactive_quadrants v = [a, b, c, d]"
    using assms(1) by (auto simp: wf_energy_def length4)
  obtain a' b' c' d' where w: "reactive_quadrants w = [a', b', c', d']"
    using assms(2) by (auto simp: wf_energy_def length4)
  have "phase_list (active_import v) = phase_list (active_import w)"
    "phase_list (active_export v) = phase_list (active_export w)"
    "phase_list (apparent v) = phase_list (apparent w)"
    "phase_list a = phase_list a'" "phase_list b = phase_list b'"
    "phase_list c = phase_list c'" "phase_list d = phase_list d'"
    using assms(3) by (simp_all add: energy_readings_def energy_groups_def v w)
  then show ?thesis using assms(4-) v w by (simp add: group_eqI)
qed

lemma flag_of_energy_flags [simp]:
  "flag (energy_flags v) 0 = ev_saturated v"
  "flag (energy_flags v) (Suc 0) = ev_incomplete_input v"
  "flag (energy_flags v) 2 = ev_discontinuity v"
  by (simp_all add: flag_bit energy_flags_def bit_simps)

definition stamped :: "u32 \<Rightarrow> int \<Rightarrow> sample_window \<Rightarrow> energy_values \<Rightarrow> energy_values" where
  "stamped sequence now window = for_each_energy_reading
     (\<lambda>_ r. r\<lparr>rd_source_sequence := ucast sequence, rd_measured_at := now,
              rd_calculation_window := window\<rparr>)"

lemma reading_eqI:
  "rd_value r = rd_value s \<Longrightarrow> rd_quality r = rd_quality s \<Longrightarrow>
   rd_source_sequence r = rd_source_sequence s \<Longrightarrow> rd_measured_at r = rd_measured_at s \<Longrightarrow>
   rd_calculation_window r = rd_calculation_window s \<Longrightarrow> r = (s :: reading)"
  by simp

lemma load_energy_row:
  assumes "wf_energy v" and "list_all counter_ok (es_session_counters st)"
    and "list_all counter_ok (es_lifetime_counters st)"
    and "length (es_session_counters st) = 28" and "length (es_lifetime_counters st) = 28"
    and "flatten_energy_counters v = es_lifetime_counters st"
    and "ev_session_id v = es_session_id st" and "ev_reset_epoch v = es_epoch st"
    and "list_all (\<lambda>r. wf_quality (rd_quality r)) (energy_readings v)"
  shows "load_energy (energy_row v st count rate now (uint (es_epoch st))) =
    Inr (st, stamped (es_source_sequence st) now (reloaded_window (uint count) (uint rate)) v)"
proof -
  have r: "list_all in_int64 (es_session_counters st)" "list_all in_int64 (es_lifetime_counters st)"
    using assms(2,3) by (auto simp: list_all_iff counter_ok_def in_int64_def int64_min_def)
  have lq: "length (energy_qualities v) = 28" using assms(1) by (simp add: energy_qualities_def)
  have val: "rd_value (energy_readings v ! i) = es_lifetime_counters st ! i" if "i < 28" for i
    using assms(1,6) that nth_map [of i "energy_readings v" rd_value]
    by (simp add: flatten_energy_readings)
  have q: "quality_of_byte (energy_qualities v ! i) = rd_quality (energy_readings v ! i)" if "i < 28" for i
    using assms(1,9) that by (simp add: energy_qualities_def wf_quality_def list_all_length)
  show ?thesis
    unfolding load_energy_def energy_row_def stamped_def
    using assms r lq
  proof (simp add: Let_def assign_energy_qualities_def, intro energy_values_eqI)
  qed (auto simp: energy_readings_for_each assign_energy_counters_for_each q val
      intro!: nth_equalityI reading_eqI)
qed

section \<open>Properties of the energy ledger\<close>

lemma energy_inv_fresh [simp]: "energy_inv (fresh_ledger db)"
  by (simp add: energy_inv_def fresh_ledger_def energy_state_init_def counter_ok_def list_all_iff
      int64_max_def)

lemma meter_refined_fresh [simp]: "meter_refined (fresh_ledger db, meter_init)"
proof -
  have "energy_inv (fresh_ledger db)" by simp
  then show ?thesis
    by (simp add: meter_refined_def meter_init_def fresh_ledger_def energy_state_init_def int64_max_def)
qed

text \<open>
  C1. Lifetime energy is exact. For every sequence of ingests and resets, with any failures of
  the database in between, the 28 lifetime counters are the totals of an unbounded meter that
  follows the calls reported as successful, clamped once at INT64_MAX: each checkpoint adds what
  its session counted since the session's previous checkpoint, a new session adds its whole
  count, a repeated checkpoint adds nothing. The published value carries the same counters.
\<close>

theorem energy_lifetime_exact:
  "case foldl (track sql) (fresh_ledger db, meter_init) ops of (L, m) \<Rightarrow>
     es_lifetime_counters (led_energy L) = map (min int64_max) (m_total m) \<and>
     (led_latest_energy L = None \<or>
      (\<exists>v. led_latest_energy L = Some v \<and>
         flatten_energy_counters v = map (min int64_max) (m_total m) \<and>
         ev_reset_epoch v = es_epoch (led_energy L)))"
proof -
  obtain L m where f: "foldl (track sql) (fresh_ledger db, meter_init) ops = (L, m)" by fastforce
  have "meter_refined (foldl (track sql) (fresh_ledger db, meter_init) ops)"
    by (intro energy_refinement.inv_run meter_refined_fresh)
  then have "meter_refined (L, m)" by (simp add: f)
  then show ?thesis
    by (cases "led_latest_energy L") (auto simp: f meter_refined_def energy_inv_def)
qed

section \<open>Monotone counters\<close>

definition ingest_step ::
    "'db sql_engine \<Rightarrow> 'db ledger \<Rightarrow> energy_values \<times> u32 \<times> u32 \<times> int \<Rightarrow> 'db ledger" where
  "ingest_step sql L = (\<lambda>(session, sequence, generation, now).
     if energy_input session then fst (ingest_energy sql L session sequence generation now) else L)"

definition counters_le :: "'db ledger \<Rightarrow> 'db ledger \<Rightarrow> bool" where
  "counters_le L L' \<longleftrightarrow>
     list_all2 (\<le>) (es_lifetime_counters (led_energy L)) (es_lifetime_counters (led_energy L')) \<and>
     es_epoch (led_energy L) = es_epoch (led_energy L')"

lemma counters_le_refl: "counters_le L L"
  by (simp add: counters_le_def list.rel_refl)

lemma clamped_sum_ge:
  "length ls = length ds \<Longrightarrow> list_all counter_ok ls \<Longrightarrow> list_all ((\<le>) 0) ds \<Longrightarrow>
   list_all2 (\<le>) ls (clamped_sum ls ds)"
  by (induction ls ds rule: list_induct2) (auto simp: clamped_sum_def counter_ok_def)

lemma ingest_energy_cases:
  assumes w: "wf_energy session" and inv: "energy_inv L"
  obtains (failed) e where "ingest_energy sql L session sequence generation now = (L, Inl e)"
  | (retry) latest where "ingest_energy sql L session sequence generation now = (L, Inr latest)"
      "list_all ((\<le>) 0) (flatten_energy_counters session)"
      "led_latest_energy L = Some latest" "same_energy_session L session"
      "sequence = es_source_sequence (led_energy L)"
      "\<not> energy_content_differs session generation (led_energy L) latest"
  | (accepted) db where "list_all ((\<le>) 0) (flatten_energy_counters session)"
      "list_all ((\<le>) 0) (energy_deltas L session)"
      "\<not> (same_energy_session L session \<and> sequence \<le> es_source_sequence (led_energy L))"
      "transaction sql (led_database L)
         (persist_energy sql (next_energy_value L session) (next_energy L session sequence generation)
            (sw_sample_count (energy_window session)) (sample_rate (energy_window session)) now) = Inr db"
      "ingest_energy sql L session sequence generation now =
        (L\<lparr>led_database := db, led_energy := next_energy L session sequence generation,
           led_latest_energy := Some (next_energy_value L session)\<rparr>,
         Inr (next_energy_value L session))"
proof -
  note eq = ingest_energy_eq [OF w inv, of sql sequence generation now]
  show thesis
  proof (cases "list_all ((\<le>) 0) (flatten_energy_counters session)")
    case nn: True
    show thesis
    proof (cases "same_energy_session L session \<and> sequence \<le> es_source_sequence (led_energy L)")
      case True
      then obtain latest where "led_latest_energy L = Some latest"
        by (auto simp: same_energy_session_def)
      then show thesis using nn True eq failed retry by (auto split: if_splits)
    next
      case False
      then have "\<not> (same_energy_session L session \<and> sequence < es_source_sequence (led_energy L))"
        "\<not> (same_energy_session L session \<and> sequence = es_source_sequence (led_energy L))"
        by auto
      with nn eq have eq2: "ingest_energy sql L session sequence generation now =
        (if \<not> list_all ((\<le>) 0) (energy_deltas L session)
         then (L, Inl (Conflict ''same-session ENERGY counter rollback''))
         else store_energy sql L (next_energy_value L session)
            (next_energy L session sequence generation) (energy_window session) now)"
        by simp
      show thesis
      proof (cases "list_all ((\<le>) 0) (energy_deltas L session)")
        case d: True
        from store_energy_cases [of sql L "next_energy_value L session"
            "next_energy L session sequence generation" "energy_window session" now]
        show thesis
          using eq2 d nn False failed accepted by (elim disjE exE conjE) auto
      qed (use eq2 failed in simp)
    qed
  qed (use eq failed in simp)
qed

interpretation energy_counters: monotone_system "ingest_step sql" energy_inv counters_le for sql
proof
  fix L :: "'a ledger" and ev :: "energy_values \<times> u32 \<times> u32 \<times> int"
  assume inv: "energy_inv L"
  obtain session sequence generation now where ev: "ev = (session, sequence, generation, now)"
    by (cases ev)
  have "energy_inv (ingest_step sql L ev) \<and> counters_le L (ingest_step sql L ev)"
  proof (cases "energy_input session")
    case inp: True
    then have w: "wf_energy session" by (simp add: energy_input_def)
    from w inv show ?thesis
    proof (cases rule: ingest_energy_cases [of session L sql sequence generation now])
      case (accepted db)
      then show ?thesis
        using inv inp energy_inv_accepted [OF inp inv accepted(1,2)] length_energy_deltas [OF w inv]
          clamped_sum_ge [of "es_lifetime_counters (led_energy L)" "energy_deltas L session"]
        by (simp add: ev ingest_step_def counters_le_def energy_inv_def next_energy_def)
    qed (use inv in \<open>simp_all add: ev ingest_step_def counters_le_refl\<close>)
  qed (use inv in \<open>simp add: ev ingest_step_def counters_le_refl\<close>)
  then show "energy_inv (ingest_step sql L ev)" "counters_le L (ingest_step sql L ev)" by blast+
next
  fix L L' L'' :: "'a ledger"
  show "counters_le L L" by (rule counters_le_refl)
  assume "counters_le L L'" "counters_le L' L''"
  then show "counters_le L L''"
    by (auto simp: counters_le_def intro: list_all2_trans [of "(\<le>)" "(\<le>)" "(\<le>)", rotated])
qed

text \<open>
  C2. Energy never runs backwards. Between resets, whatever checkpoints arrive (stale, repeated,
  rolled back, from a new session, with a failing database), no lifetime counter decreases,
  every counter stays within 0..INT64_MAX and the reset epoch stays.
\<close>

theorem energy_counters_monotone:
  assumes "energy_inv L"
  shows "list_all2 (\<le>) (es_lifetime_counters (led_energy L))
           (es_lifetime_counters (led_energy (foldl (ingest_step sql) L evs))) \<and>
         list_all (\<lambda>c. 0 \<le> c \<and> c \<le> int64_max)
           (es_lifetime_counters (led_energy (foldl (ingest_step sql) L evs))) \<and>
         es_epoch (led_energy (foldl (ingest_step sql) L evs)) = es_epoch (led_energy L)"
  using energy_counters.run_le [OF assms, of sql evs] energy_counters.inv_run [OF assms, of sql evs]
  by (simp add: counters_le_def energy_inv_def counter_ok_def list_all_iff)

section \<open>Retries and resets\<close>

lemma window_assign [simp]:
  "energy_window (assign_energy_counters v xs) = energy_window v"
  by (simp add: assign_energy_counters_def assign_group_values_def)

lemma energy_qualities_scalar [simp]:
  "energy_qualities (v\<lparr>ev_reset_epoch := e\<rparr>) = energy_qualities v"
  "energy_qualities (v\<lparr>ev_saturated := s\<rparr>) = energy_qualities v"
  by (simp_all add: energy_qualities_def)

lemma same_window_refl [simp]: "same_window w w"
  by (simp add: same_window_def)

text \<open>A checkpoint the ledger has just counted is recognised as such.\<close>

lemma accepted_content:
  assumes "wf_energy session" "energy_inv L"
  shows "\<not> energy_content_differs session generation (next_energy L session sequence generation)
    (next_energy_value L session)"
proof -
  have "length (clamped_sum (es_lifetime_counters (led_energy L)) (energy_deltas L session)) = 28"
    using assms length_energy_deltas [OF assms] by (simp add: energy_inv_def)
  with assms(1) show ?thesis
    by (simp add: energy_content_differs_def next_energy_def next_energy_value_def)
qed

lemma reset_content:
  "wf_energy latest \<Longrightarrow> \<not> energy_content_differs session generation (led_energy L) latest \<Longrightarrow>
   \<not> energy_content_differs session generation (next_reset L) (reset_value L latest)"
  by (simp add: energy_content_differs_def next_reset_def reset_value_def)

lemma ingest_retry:
  assumes "wf_energy session" "energy_inv L" "led_latest_energy L = Some latest"
    "list_all ((\<le>) 0) (flatten_energy_counters session)"
    "ev_session_id session = es_session_id (led_energy L)"
    "\<not> energy_content_differs session generation (led_energy L) latest"
  shows "ingest_energy sql L session (es_source_sequence (led_energy L)) generation now = (L, Inr latest)"
  using assms by (simp add: ingest_energy_eq same_energy_session_def)

text \<open>After a successful ingest: what a retry finds.\<close>

lemma ingested_state:
  assumes "energy_input session" "energy_inv L"
    and "ingest_energy sql L session sequence generation now = (L', Inr v)"
  shows "energy_inv L' \<and> led_latest_energy L' = Some v \<and>
    list_all ((\<le>) 0) (flatten_energy_counters session) \<and>
    ev_session_id session = es_session_id (led_energy L') \<and>
    sequence = es_source_sequence (led_energy L') \<and>
    \<not> energy_content_differs session generation (led_energy L') v"
proof -
  have w: "wf_energy session" using assms(1) by (simp add: energy_input_def)
  from w assms(2) show ?thesis
  proof (cases rule: ingest_energy_cases [of session L sql sequence generation now])
    case (accepted db)
    then show ?thesis
      using assms accepted_content [OF w assms(2), of generation sequence]
        energy_inv_accepted [OF assms(1,2) accepted(1,2)]
      by (auto simp: next_energy_def)
  qed (use assms in \<open>auto simp: same_energy_session_def\<close>)
qed

text \<open>
  C3. Retries are idempotent, also across a reset. Once a checkpoint was ingested successfully,
  ingesting the same checkpoint again, whether at once or after an administrative reset in
  between (successful or not), returns the ledger's latest published value and changes nothing:
  the retry neither counts twice nor brings pre-reset energy into the new epoch.
\<close>

theorem energy_retry_idempotent:
  assumes "energy_input session" and "energy_inv L"
    and "ingest_energy sql L session sequence generation now = (L1, Inr v)"
    and "L2 = L1 \<or> L2 = fst (reset_energy sql L1 req)"
  shows "\<exists>latest. led_latest_energy L2 = Some latest \<and>
    ingest_energy sql L2 session sequence generation later = (L2, Inr latest)"
proof -
  have w: "wf_energy session" using assms(1) by (simp add: energy_input_def)
  have s: "energy_inv L1" "led_latest_energy L1 = Some v"
      "list_all ((\<le>) 0) (flatten_energy_counters session)"
      "ev_session_id session = es_session_id (led_energy L1)"
      "sequence = es_source_sequence (led_energy L1)"
      "\<not> energy_content_differs session generation (led_energy L1) v"
    using ingested_state [OF assms(1-3)] by blast+
  then have wv: "wf_energy v" by (simp add: energy_inv_def)
  have same: "ingest_energy sql L1 session sequence generation later = (L1, Inr v)"
    using ingest_retry [OF w s(1,2,3,4,6)] s(5) by simp
  have inv: "energy_inv (fst (reset_energy sql L1 req))" using s(1) by (rule energy_inv_reset)
  show ?thesis
  proof (cases rule: reset_energy_cases [of sql L1 req])
    case (applied latest db1 db)
    let ?R = "fst (reset_energy sql L1 req)"
    have "led_latest_energy ?R = Some (reset_value L1 v)" "led_energy ?R = next_reset L1"
      using applied s(2) by simp_all
    then have "ingest_energy sql ?R session sequence generation later = (?R, Inr (reset_value L1 v))"
      using ingest_retry [OF w inv, of "reset_value L1 v" generation sql later]
        s reset_content [OF wv s(6)] by (simp add: next_reset_def)
    then show ?thesis using assms(4) same s(2) \<open>led_latest_energy ?R = _\<close> by auto
  qed (use assms(4) same s(2) in auto)
qed

lemma clamped_sum_zero: "list_all counter_ok ds \<Longrightarrow> clamped_sum (replicate (length ds) 0) ds = ds"
  by (induction ds) (simp_all add: clamped_sum_def counter_ok_def)

lemma differences_ok:
  "length cs = length ss \<Longrightarrow> list_all in_int64 cs \<Longrightarrow> list_all counter_ok ss \<Longrightarrow>
   list_all ((\<le>) 0) (map2 (-) cs ss) \<Longrightarrow> list_all counter_ok (map2 (-) cs ss)"
  by (induction cs ss rule: list_induct2) (auto simp: counter_ok_def in_int64_def)

lemma flatten_scalar:
  "flatten_energy_counters (v\<lparr>ev_reset_epoch := e\<rparr>) = flatten_energy_counters v"
  "flatten_energy_counters (v\<lparr>ev_saturated := s\<rparr>) = flatten_energy_counters v"
  by (simp_all add: flatten_energy_readings)

text \<open>
  A reset starts a new epoch at zero. A reset that is carried out was requested for the
  current epoch; it makes every lifetime counter and every published counter zero, increments
  the epoch and keeps the session's baseline, so the next new checkpoint of the same session
  publishes exactly what the session counted after the reset.
\<close>

theorem energy_reset_new_epoch:
  assumes "energy_inv L" and "reset_energy sql L req = (L1, Inr r)" and "\<not> rr_replayed r"
    and "energy_input session" and "ev_session_id session = es_session_id (led_energy L)"
    and "ingest_energy sql L1 session sequence generation now = (L2, Inr v)"
    and "sequence \<noteq> es_source_sequence (led_energy L)"
  shows "expected_epoch req = es_epoch (led_energy L) \<and>
    rr_epoch r = es_epoch (led_energy L) + 1 \<and>
    es_lifetime_counters (led_energy L1) = replicate 28 0 \<and>
    map_option flatten_energy_counters (led_latest_energy L1) = Some (replicate 28 0) \<and>
    es_epoch (led_energy L1) = rr_epoch r \<and>
    flatten_energy_counters v =
      map2 (-) (flatten_energy_counters session) (es_session_counters (led_energy L)) \<and>
    ev_reset_epoch v = rr_epoch r"
proof -
  obtain latest where r: "led_latest_energy L = Some latest"
      "expected_epoch req = es_epoch (led_energy L)" "rr_epoch r = es_epoch (led_energy L) + 1"
      "led_energy L1 = next_reset L" "led_latest_energy L1 = Some (reset_value L latest)"
    using assms(2,3) by (cases rule: reset_energy_cases [of sql L req]) auto
  have inv1: "energy_inv L1" using energy_inv_reset [OF assms(1), of sql req] assms(2) by simp
  have w: "wf_energy session" using assms(4) by (simp add: energy_input_def)
  have same: "same_energy_session L1 session"
    using r assms(5) by (simp add: same_energy_session_def next_reset_def)
  have len: "length (flatten_energy_counters session) = 28" using w by simp
  from w inv1 have "v = next_energy_value L1 session" "list_all ((\<le>) 0) (energy_deltas L1 session)"
    using assms(6,7) r
    by (cases rule: ingest_energy_cases [of session L1 sql sequence generation now];
        auto simp: next_reset_def)+
  moreover have d: "energy_deltas L1 session =
      map2 (-) (flatten_energy_counters session) (es_session_counters (led_energy L))"
    using same r by (simp add: energy_deltas_def next_reset_def)
  moreover have "length (es_session_counters (led_energy L)) = 28"
    using assms(1) by (simp add: energy_inv_def)
  moreover have fits: "list_all counter_ok
      (map2 (-) (flatten_energy_counters session) (es_session_counters (led_energy L)))"
    using calculation assms(1,4) len
    by (intro differences_ok) (simp_all add: energy_inv_def energy_input_def)
  ultimately have "flatten_energy_counters v =
      map2 (-) (flatten_energy_counters session) (es_session_counters (led_energy L))"
    using w len fits \<open>length (es_session_counters (led_energy L)) = 28\<close>
      clamped_sum_zero [OF fits] r
    by (simp add: next_energy_value_def flatten_scalar next_reset_def)
  then show ?thesis
    using r inv1 \<open>v = _\<close>
    by (auto simp: next_reset_def next_energy_value_def energy_inv_def)
qed

lemma persist_energy_ok:
  "persist_energy sql v st count rate now db = Inr db' \<longleftrightarrow>
   uint (es_epoch st) \<le> int64_max \<and>
   replace_energy_state sql (energy_row v st count rate now (uint (es_epoch st))) db = Inr db'"
  by (auto simp: persist_energy_def bind_u64_def)

lemma write_audit_ok:
  "write_audit sql table req p r db = Inr db' \<longleftrightarrow>
   uint p \<le> int64_max \<and> uint r \<le> int64_max \<and>
   insert_reset_audit sql table (audit_row req (uint p) (uint r)) db = Inr db'"
  by (auto simp: write_audit_def bind_u64_def)

text \<open>
  Reset requests are idempotent by key. After a reset was carried out, any later valid
  request with the same idempotency key, as long as the audit table can be read, is answered
  with the epoch recorded then, marked as replayed, and changes nothing; whatever its expected
  epoch says.
\<close>

theorem energy_reset_replay:
  assumes laws: "sql_laws sql tables"
    and "reset_energy sql L req = (L1, Inr r)" and "\<not> rr_replayed r"
    and "validate_reset req2 = Inr ()" and "idempotency_key req2 = idempotency_key req"
    and "select_resulting_epoch sql Energy_reset_audit (idempotency_key req2) (led_database L1) = Inr x"
  shows "reset_energy sql L1 req2 = (L1, Inr \<lparr>rr_epoch = rr_epoch r, rr_replayed = True\<rparr>)"
  using assms(2,3)
proof (cases rule: reset_energy_cases [of sql L req])
  case (applied latest db1 db)
  then have r: "L1 = L\<lparr>led_database := db, led_energy := next_reset L,
        led_latest_energy := Some (reset_value L latest)\<rparr>" "rr_epoch r = es_epoch (led_energy L) + 1"
    using assms(2) by auto
  have "insert_reset_audit sql Energy_reset_audit
      (audit_row req (uint (es_epoch (led_energy L))) (uint (es_epoch (led_energy L) + 1))) db1 = Inr db"
    using applied(6) by (simp add: write_audit_ok)
  then have "t_reset_audit (tables db) Energy_reset_audit (idempotency_key req) =
      Some (audit_row req (uint (es_epoch (led_energy L))) (uint (es_epoch (led_energy L) + 1)))"
    using laws by (fastforce simp: sql_laws_def put_audit_def audit_row_def)
  then have "x = Some (uint (es_epoch (led_energy L) + 1))"
    using laws assms(5,6) r(1) by (fastforce simp: sql_laws_def audit_row_def)
  then show ?thesis
    using assms(4,6) r by (simp add: reset_energy_def)
qed auto

section \<open>Restarts\<close>

text \<open>
  The sessions the family decoder produces: named qualities, and the window of a sample rate up
  to 1 GHz.
\<close>

definition decoded_session :: "energy_values \<Rightarrow> bool" where
  "decoded_session v \<longleftrightarrow> energy_input v \<and> decoded_window (energy_window v) \<and>
     list_all (\<lambda>r. wf_quality (rd_quality r)) (energy_readings v)"

text \<open>The stored row describes the ledger's state and its published value.\<close>

definition energy_durable :: "('db \<Rightarrow> ledger_tables) \<Rightarrow> 'db ledger \<Rightarrow> bool" where
  "energy_durable tables L \<longleftrightarrow> (\<forall>v. led_latest_energy L = Some v \<longrightarrow>
     decoded_window (energy_window v) \<and>
     list_all (\<lambda>r. wf_quality (rd_quality r)) (energy_readings v) \<and>
     (\<exists>now. t_energy_state (tables (led_database L)) =
        Some (energy_row v (led_energy L) (sw_sample_count (energy_window v))
          (sample_rate (energy_window v)) now (uint (es_epoch (led_energy L))))))"

lemma qualities_of_assign:
  "wf_energy v \<Longrightarrow> length xs = 28 \<Longrightarrow>
   list_all (\<lambda>r. wf_quality (rd_quality r)) (energy_readings (assign_energy_counters v xs)) =
   list_all (\<lambda>r. wf_quality (rd_quality r)) (energy_readings v)"
  by (auto simp: assign_energy_counters_for_each energy_readings_for_each list_all_length)

lemma energy_durable_ingest:
  assumes laws: "sql_laws sql tables" and "energy_inv L" and "energy_durable tables L"
    and "decoded_session session"
    and ok: "ingest_energy sql L session sequence generation now = (L', r)"
  shows "energy_durable tables L'"
proof -
  have w: "wf_energy session" using assms(4) by (simp add: decoded_session_def energy_input_def)
  from w assms(2) show ?thesis
  proof (cases rule: ingest_energy_cases [of session L sql sequence generation now])
    case (accepted db)
    let ?v = "next_energy_value L session" and ?st = "next_energy L session sequence generation"
    have "t_energy_state (tables db) = Some (energy_row ?v ?st (sw_sample_count (energy_window session))
        (sample_rate (energy_window session)) now (uint (es_epoch ?st)))"
      using accepted(4) laws by (fastforce simp: transaction_ok persist_energy_ok sql_laws_def)
    moreover have "length (clamped_sum (es_lifetime_counters (led_energy L)) (energy_deltas L session)) = 28"
      using assms(2) length_energy_deltas [OF w assms(2)] by (simp add: energy_inv_def)
    then have "energy_window ?v = energy_window session"
      "list_all (\<lambda>r. wf_quality (rd_quality r)) (energy_readings ?v)"
      using assms(4) w by (simp_all add: next_energy_value_def qualities_of_assign decoded_session_def)
    moreover have "L' = L\<lparr>led_database := db, led_energy := ?st, led_latest_energy := Some ?v\<rparr>"
      using ok accepted(5) by simp
    moreover have "decoded_window (energy_window session)"
      using assms(4) by (simp add: decoded_session_def)
    ultimately show ?thesis by (auto simp: energy_durable_def)
  qed (use assms(3) ok in simp_all)
qed

lemma stamped_frame [simp]:
  "wf_energy (stamped sq t w v) = wf_energy v"
  "ev_session_id (stamped sq t w v) = ev_session_id v"
  "ev_reset_epoch (stamped sq t w v) = ev_reset_epoch v"
  "wf_energy v \<Longrightarrow> flatten_energy_counters (stamped sq t w v) = flatten_energy_counters v"
  by (auto simp: stamped_def flatten_energy_readings energy_readings_for_each intro: nth_equalityI)

lemma stamped_content:
  assumes "wf_energy v" "\<not> energy_content_differs session generation st v"
  shows "\<not> energy_content_differs session generation st (stamped sq t (energy_window v) v)"
proof -
  have "energy_qualities (stamped sq t (energy_window v) v) = energy_qualities v"
    using assms(1)
    by (auto simp: energy_qualities_def stamped_def energy_readings_for_each intro: nth_equalityI)
  moreover have "energy_window (stamped sq t (energy_window v) v) = energy_window v"
    by (simp add: stamped_def for_each_energy_reading_def map_group_def)
  ultimately show ?thesis
    using assms(2) by (simp add: energy_content_differs_def stamped_def)
qed

text \<open>
  A restart loses nothing. After a successful ingest the table row, loaded by a new process,
  gives back exactly the ledger's state and the published value with the time stamp of the commit
  (the sample rate is stored rounded, and the window is still rebuilt exactly); and a retry of the
  same checkpoint against the reloaded ledger is recognised: it changes nothing.
\<close>

theorem energy_survives_restart:
  assumes laws: "sql_laws sql tables" and inv: "energy_inv L" and dur: "energy_durable tables L"
    and dec: "decoded_session session"
    and ok: "ingest_energy sql L session sequence generation now = (L', Inr v)"
  shows "\<exists>row stamp. t_energy_state (tables (led_database L')) = Some row \<and>
    load_energy row = Inr (led_energy L', stamped sequence stamp (energy_window v) v) \<and>
    (\<forall>db. ingest_energy sql
        (L'\<lparr>led_database := db, led_latest_energy := Some (stamped sequence stamp (energy_window v) v)\<rparr>)
        session sequence generation later =
      (L'\<lparr>led_database := db, led_latest_energy := Some (stamped sequence stamp (energy_window v) v)\<rparr>,
       Inr (stamped sequence stamp (energy_window v) v)))"
proof -
  have inp: "energy_input session" using dec by (simp add: decoded_session_def)
  have s: "energy_inv L'" "led_latest_energy L' = Some v"
      "list_all ((\<le>) 0) (flatten_energy_counters session)"
      "ev_session_id session = es_session_id (led_energy L')"
      "sequence = es_source_sequence (led_energy L')"
      "\<not> energy_content_differs session generation (led_energy L') v"
    using ingested_state [OF inp inv ok] by blast+
  have v: "wf_energy v" "flatten_energy_counters v = es_lifetime_counters (led_energy L')"
      "ev_session_id v = es_session_id (led_energy L')" "ev_reset_epoch v = es_epoch (led_energy L')"
    using s(1,2) by (simp_all add: energy_inv_def)
  obtain stamp where row: "t_energy_state (tables (led_database L')) =
        Some (energy_row v (led_energy L') (sw_sample_count (energy_window v))
          (sample_rate (energy_window v)) stamp (uint (es_epoch (led_energy L'))))"
      and win: "decoded_window (energy_window v)"
      and q: "list_all (\<lambda>r. wf_quality (rd_quality r)) (energy_readings v)"
    using energy_durable_ingest [OF laws inv dur dec ok] s(2) by (auto simp: energy_durable_def)
  let ?w = "stamped sequence stamp (energy_window v) v"
  have load: "load_energy (energy_row v (led_energy L') (sw_sample_count (energy_window v))
       (sample_rate (energy_window v)) stamp (uint (es_epoch (led_energy L')))) = Inr (led_energy L', ?w)"
    using s(1) v q load_energy_row [of v "led_energy L'"] reloaded_window_decoded [OF win] s(5)
    by (simp add: energy_inv_def)
  have "ingest_energy sql (L'\<lparr>led_database := db, led_latest_energy := Some ?w\<rparr>)
        session sequence generation later =
      (L'\<lparr>led_database := db, led_latest_energy := Some ?w\<rparr>, Inr ?w)" for db
  proof -
    let ?L = "L'\<lparr>led_database := db, led_latest_energy := Some ?w\<rparr>"
    have "energy_inv ?L" using s(1,2) v by (simp add: energy_inv_def)
    then show ?thesis
      using ingest_retry [of session ?L ?w generation sql later] s inp v stamped_content [OF v(1) s(6)]
      by (simp add: energy_input_def)
  qed
  then show ?thesis using row load by blast
qed

section \<open>A concrete run\<close>

lemma family_readings:
  "wf_energy (family_values s q t)"
  "r \<in> set (energy_readings (family_values s q t)) \<Longrightarrow> wf_quality (rd_quality r)"
  "energy_window (family_values s q t) = window_of s"
proof -
  show "wf_energy (family_values s q t)" by (simp add: wf_energy_def family_values_def Let_def)
  have g: "phase_list (energy_group_of x base sat t) = map (\<lambda>index.
     \<lparr>rd_value = uint (unsigned64 x (base + index * 2)),
      rd_quality = reading_quality
        (ucast (energy_category_valid_mask x) AND push_bit index 1 \<noteq> (0 :: u32)) sat,
      rd_source_sequence = ucast (rec_sequence x), rd_measured_at = t,
      rd_calculation_window = window_of x\<rparr>) [0..<4]" for x base sat
    by (simp add: energy_group_of_def phase_list_group)
  show "energy_window (family_values s q t) = window_of s"
    by (simp add: family_values_def Let_def energy_group_of_def phase_group_def)
  show "wf_quality (rd_quality r)" if "r \<in> set (energy_readings (family_values s q t))"
    using that
    by (auto simp: energy_readings_def energy_groups_def family_values_def Let_def g reading_quality_def)
qed

text \<open>What the family decoder produces is what the ledger expects.\<close>

lemma family_decoded_session:
  assumes fp: "family_pair s q" and rate: "sample_rate_hz s \<noteq> 0" "uint (sample_rate_hz s) \<le> 1000000000"
  shows "decoded_session (family_values s q t)"
    and "list_all ((\<le>) 0) (flatten_energy_counters (family_values s q t))"
proof -
  have "block_sample_count s \<noteq> 0"
    using fp by (simp add: family_pair_def part_valid_checks energy_part_checks_def)
  then have "decoded_window (window_of s)"
    using uint_pos [OF rate(1)] rate(2)
    by (auto simp: decoded_window_def window_of_def intro!: exI [of _ "uint (sample_rate_hz s)"])
  then show "decoded_session (family_values s q t)"
    using family_counters_ok [OF fp, of t] family_readings(1,3) [of s q t]
    by (auto simp: family_readings(2) decoded_session_def energy_input_def list_all_iff in_int64_def int64_min_def)
  show "list_all ((\<le>) 0) (flatten_energy_counters (family_values s q t))"
    using family_counters_ok [OF fp, of t] by (simp add: list_all_iff)
qed

definition sample_session :: energy_values where
  "sample_session = family_values sample_summary sample_quadrants 7"

definition sample_later_session :: energy_values where
  "sample_later_session = assign_energy_counters sample_session
     (map (\<lambda>c. c + 5) (flatten_energy_counters sample_session))"

definition sample_fresh :: "ledger_tables ledger" where
  "sample_fresh = fresh_ledger empty_tables"

definition sample_ledger :: "ledger_tables ledger" where
  "sample_ledger = fst (ingest_energy memory_engine sample_fresh sample_session 5 1 100)"

lemma sample_session_ok:
  "decoded_session sample_session" "energy_input sample_session"
  "list_all ((\<le>) 0) (flatten_energy_counters sample_session)"
proof -
  have fp: "family_pair sample_summary sample_quadrants" by (simp add: family_pair_def sample_parts)
  have "uint (sample_rate_hz sample_summary) \<le> 1000000000" by code_simp
  then show d: "decoded_session sample_session"
    and "list_all ((\<le>) 0) (flatten_energy_counters sample_session)"
    using family_decoded_session [OF fp sample_parts(6)] by (simp_all add: sample_session_def)
  then show "energy_input sample_session" by (simp add: decoded_session_def)
qed

lemma sample_fresh_ok [simp]:
  "energy_inv sample_fresh" "energy_durable (\<lambda>db. db) sample_fresh"
  "led_latest_energy sample_fresh = None"
  by (simp_all add: sample_fresh_def energy_durable_def) (simp_all add: fresh_ledger_def)

text \<open>On the in-memory engine a checkpoint with nothing to object to is stored.\<close>

lemma memory_store:
  "uint (es_epoch st) \<le> int64_max \<Longrightarrow>
   store_energy memory_engine L v st w now =
     (L\<lparr>led_database := (led_database L)\<lparr>t_energy_state := Some (energy_row v st
          (sw_sample_count w) (sample_rate w) now (uint (es_epoch st)))\<rparr>,
        led_energy := st, led_latest_energy := Some v\<rparr>, Inr v)"
  by (simp add: store_energy_def transaction_def persist_energy_def bind_u64_def memory_engine_def)

lemma sample_ingest:
  "ingest_energy memory_engine sample_fresh sample_session 5 1 100 =
     (sample_ledger, Inr (next_energy_value sample_fresh sample_session))"
  "led_energy sample_ledger = next_energy sample_fresh sample_session 5 1"
  "led_latest_energy sample_ledger = Some (next_energy_value sample_fresh sample_session)"
  "t_reset_audit (led_database sample_ledger) = (\<lambda>_ _. None)"
  "energy_inv sample_ledger"
proof -
  have w: "wf_energy sample_session" using sample_session_ok(2) by (simp add: energy_input_def)
  have ns: "\<not> same_energy_session sample_fresh sample_session"
    by (simp add: same_energy_session_def)
  have "uint (es_epoch (next_energy sample_fresh sample_session 5 1)) \<le> int64_max"
    by (simp add: next_energy_def sample_fresh_def fresh_ledger_def energy_state_init_def int64_max_def)
  then have "ingest_energy memory_engine sample_fresh sample_session 5 1 100 =
      (sample_fresh\<lparr>led_database := empty_tables\<lparr>t_energy_state := Some (energy_row
           (next_energy_value sample_fresh sample_session) (next_energy sample_fresh sample_session 5 1)
           (sw_sample_count (energy_window sample_session)) (sample_rate (energy_window sample_session))
           100 (uint (es_epoch (next_energy sample_fresh sample_session 5 1))))\<rparr>,
         led_energy := next_energy sample_fresh sample_session 5 1,
         led_latest_energy := Some (next_energy_value sample_fresh sample_session)\<rparr>,
       Inr (next_energy_value sample_fresh sample_session))"
    using ingest_energy_eq [OF w sample_fresh_ok(1), of memory_engine 5 1 100] ns sample_session_ok(3)
    by (simp add: energy_deltas_def memory_store) (simp add: sample_fresh_def fresh_ledger_def)
  then show i: "ingest_energy memory_engine sample_fresh sample_session 5 1 100 =
     (sample_ledger, Inr (next_energy_value sample_fresh sample_session))"
    and "led_energy sample_ledger = next_energy sample_fresh sample_session 5 1"
    and "led_latest_energy sample_ledger = Some (next_energy_value sample_fresh sample_session)"
    and "t_reset_audit (led_database sample_ledger) = (\<lambda>_ _. None)"
    by (simp_all add: sample_ledger_def empty_tables_def)
  show "energy_inv sample_ledger"
    using ingested_state [OF sample_session_ok(2) sample_fresh_ok(1) i] by blast
qed

theorem energy_counters_monotone_witness:
  "list_all2 (\<le>) (replicate 28 0) (es_lifetime_counters (led_energy
     (foldl (ingest_step memory_engine) sample_fresh [(sample_session, 5, 1, 100)])))"
  using energy_counters_monotone [OF sample_fresh_ok(1), of memory_engine "[(sample_session, 5, 1, 100)]"]
  by (simp add: sample_fresh_def fresh_ledger_def energy_state_init_def)

theorem energy_retry_idempotent_witness:
  "\<exists>latest. led_latest_energy sample_ledger = Some latest \<and>
    ingest_energy memory_engine sample_ledger sample_session 5 1 200 = (sample_ledger, Inr latest)"
  by (rule energy_retry_idempotent [OF sample_session_ok(2) sample_fresh_ok(1) sample_ingest(1)]) simp

definition sample_reset_request :: reset_request where
  "sample_reset_request = \<lparr>expected_epoch = 0, idempotency_key = ''key'', actor = ''admin'',
     request_id = ''r1'', requested_at_nanoseconds = 150\<rparr>"

definition sample_reset_ledger :: "ledger_tables ledger" where
  "sample_reset_ledger = fst (reset_energy memory_engine sample_ledger sample_reset_request)"

lemma sample_reset:
  "reset_energy memory_engine sample_ledger sample_reset_request =
     (sample_reset_ledger, Inr \<lparr>rr_epoch = 1, rr_replayed = False\<rparr>)"
proof -
  let ?latest = "next_energy_value sample_fresh sample_session"
  have "es_epoch (led_energy sample_ledger) = 0"
    by (simp add: sample_ingest next_energy_def sample_fresh_def fresh_ledger_def energy_state_init_def)
  then show ?thesis
    by (simp add: sample_reset_ledger_def reset_energy_def validate_reset_def sample_reset_request_def
        memory_engine_def sample_ingest(3,4) transaction_def persist_energy_def write_audit_def
        bind_u64_def audit_row_def int64_max_def Let_def)
qed

lemma sample_reset_state:
  "led_energy sample_reset_ledger = next_reset sample_ledger" "energy_inv sample_reset_ledger"
  "led_latest_energy sample_reset_ledger \<noteq> None"
  "t_reset_audit (led_database sample_reset_ledger) Energy_reset_audit ''key'' =
     Some (audit_row sample_reset_request 0 1)"
proof -
  have e0: "es_epoch (led_energy sample_ledger) = 0"
    by (simp add: sample_ingest next_energy_def sample_fresh_def fresh_ledger_def energy_state_init_def)
  show "energy_inv sample_reset_ledger"
    unfolding sample_reset_ledger_def by (rule energy_inv_reset) (rule sample_ingest)
  show "led_energy sample_reset_ledger = next_reset sample_ledger"
    "led_latest_energy sample_reset_ledger \<noteq> None"
    "t_reset_audit (led_database sample_reset_ledger) Energy_reset_audit ''key'' =
     Some (audit_row sample_reset_request 0 1)"
  proof (atomize (full), cases rule: reset_energy_cases [of memory_engine sample_ledger sample_reset_request])
    case (applied latest db1 db)
    have L: "sample_reset_ledger = sample_ledger\<lparr>led_database := db,
        led_energy := next_reset sample_ledger,
        led_latest_energy := Some (reset_value sample_ledger latest)\<rparr>"
      unfolding sample_reset_ledger_def by (simp add: applied(7))
    have "t_reset_audit db Energy_reset_audit ''key'' = Some (audit_row sample_reset_request 0 1)"
      using applied(6) e0
      by (auto simp: write_audit_ok memory_engine_def put_audit_def audit_row_def
          sample_reset_request_def split: if_splits)
    then show "led_energy sample_reset_ledger = next_reset sample_ledger \<and>
       led_latest_energy sample_reset_ledger \<noteq> None \<and>
       t_reset_audit (led_database sample_reset_ledger) Energy_reset_audit ''key'' =
         Some (audit_row sample_reset_request 0 1)"
      by (simp add: L)
  qed (use sample_reset in simp_all)
qed

lemma sample_later_ok:
  "energy_input sample_later_session" "wf_energy sample_later_session"
  "ev_session_id sample_later_session = es_session_id (led_energy sample_ledger)"
  "flatten_energy_counters sample_later_session =
     map (\<lambda>c. c + 5) (flatten_energy_counters sample_session)"
  "energy_deltas sample_reset_ledger sample_later_session = replicate 28 5"
proof -
  let ?c = "flatten_energy_counters sample_session"
  have w: "wf_energy sample_session" using sample_session_ok(2) by (simp add: energy_input_def)
  have fl: "flatten_energy_counters sample_later_session = map (\<lambda>c. c + 5) ?c"
    using w by (simp add: sample_later_session_def)
  have "?c = map (\<lambda>i. uint (unsigned64 sample_summary (16 + i * 2))) [0..<12] @
     map (\<lambda>i. uint (unsigned64 sample_quadrants (16 + i * 2))) [0..<16]"
    unfolding sample_session_def by (rule flatten_family)
  also have "list_all (\<lambda>c. c \<le> 1000) \<dots>" by code_simp
  finally have small: "list_all (\<lambda>c. c \<le> 1000) ?c" .
  show "energy_input sample_later_session" "wf_energy sample_later_session"
    using w small sample_session_ok(3)
    by (auto simp: energy_input_def fl list_all_iff in_int64_def int64_min_def int64_max_def)
       (auto simp: sample_later_session_def)
  show "flatten_energy_counters sample_later_session = map (\<lambda>c. c + 5) ?c" by (rule fl)
  show sid: "ev_session_id sample_later_session = es_session_id (led_energy sample_ledger)"
    by (simp add: sample_ingest next_energy_def sample_later_session_def)
  have sc: "es_session_counters (led_energy sample_reset_ledger) = ?c"
    by (simp add: sample_reset_state next_reset_def sample_ingest next_energy_def)
  have "same_energy_session sample_reset_ledger sample_later_session"
    using sid sample_reset_state(1,3) by (simp add: same_energy_session_def next_reset_def)
  then have "energy_deltas sample_reset_ledger sample_later_session = map2 (-) (map (\<lambda>c. c + 5) ?c) ?c"
    by (simp add: energy_deltas_def fl sc)
  also have "\<dots> = replicate 28 5" using w by (intro nth_equalityI) simp_all
  finally show "energy_deltas sample_reset_ledger sample_later_session = replicate 28 5" .
qed

lemma sample_later_ingest:
  "ingest_energy memory_engine sample_reset_ledger sample_later_session 6 1 300 =
     (fst (ingest_energy memory_engine sample_reset_ledger sample_later_session 6 1 300),
      Inr (next_energy_value sample_reset_ledger sample_later_session))"
proof -
  have sq: "es_source_sequence (led_energy sample_reset_ledger) = 5"
    by (simp add: sample_reset_state next_reset_def sample_ingest next_energy_def)
  have e: "uint (es_epoch (next_energy sample_reset_ledger sample_later_session 6 1)) \<le> int64_max"
    by (simp add: next_energy_def sample_reset_state next_reset_def sample_ingest sample_fresh_def
        fresh_ledger_def energy_state_init_def int64_max_def)
  have nn: "list_all ((\<le>) 0) (flatten_energy_counters sample_later_session)"
    using sample_session_ok(3) by (auto simp: sample_later_ok list_all_iff)
  show ?thesis
    using ingest_energy_eq [OF sample_later_ok(2) sample_reset_state(2), of memory_engine 6 1 300]
      sq e nn sample_later_ok(5) by (simp add: memory_store list_all_iff)
qed

theorem energy_reset_new_epoch_witness:
  "\<exists>v. ingest_energy memory_engine sample_reset_ledger sample_later_session 6 1 300 =
      (fst (ingest_energy memory_engine sample_reset_ledger sample_later_session 6 1 300), Inr v) \<and>
    es_lifetime_counters (led_energy sample_reset_ledger) = replicate 28 0 \<and>
    flatten_energy_counters v = map2 (-) (flatten_energy_counters sample_later_session)
      (es_session_counters (led_energy sample_ledger)) \<and>
    ev_reset_epoch v = 1"
  using energy_reset_new_epoch [OF sample_ingest(5) sample_reset _ sample_later_ok(1,3) sample_later_ingest]
    sample_later_ingest
  by (intro exI [of _ "next_energy_value sample_reset_ledger sample_later_session"])
     (simp add: sample_ingest next_energy_def)

theorem energy_reset_replay_witness:
  "reset_energy memory_engine sample_reset_ledger (sample_reset_request\<lparr>expected_epoch := 77\<rparr>) =
     (sample_reset_ledger, Inr \<lparr>rr_epoch = 1, rr_replayed = True\<rparr>)"
  using energy_reset_replay [OF memory_engine_laws sample_reset, of
      "sample_reset_request\<lparr>expected_epoch := 77\<rparr>" "Some 1"] sample_reset_state(4)
  by (simp add: validate_reset_def sample_reset_request_def memory_engine_def audit_row_def)

theorem energy_survives_restart_witness:
  "\<exists>row stamp. t_energy_state (led_database sample_ledger) = Some row \<and>
    load_energy row = Inr (led_energy sample_ledger, stamped 5 stamp
      (energy_window (next_energy_value sample_fresh sample_session))
      (next_energy_value sample_fresh sample_session))"
  using energy_survives_restart [OF memory_engine_laws sample_fresh_ok(1,2) sample_session_ok(1)
      sample_ingest(1), of 900] by blast

end
