(* ===== verification/Demand_Ledger.thy ===== *)
theory Demand_Ledger
  imports Energy_Ledger
begin

text \<open>
  The demand half of the ledger (\<^verbatim>\<open>common/msap1/meter/energy_ledger.cpp\<close>): the administrative demand
  peaks, their reset watermark, the history rows of completed fixed blocks, and the constructor
  that loads both halves from the tables.
\<close>

section \<open>Loading and persisting\<close>

definition method_number :: "demand_method_kind \<Rightarrow> int" where
  "method_number m = (case m of fixed_block \<Rightarrow> 0 | sliding \<Rightarrow> 1)"

definition demand_flags :: "demand_values \<Rightarrow> u32" where
  "demand_flags v =
     of_bool (dv_time_aligned v) OR push_bit 1 (of_bool (dv_contaminated v))
       OR push_bit 2 (of_bool (dv_boundary_valid v)) OR push_bit 3 (of_bool (dv_saturated v))
       OR push_bit 4 (of_bool (dv_incomplete_input v))"

definition load_demand_state :: "demand_state_row \<Rightarrow> demand_state result" where
  "load_demand_state row =
     bind_result (parse_hex64 (dr_session_id row) ''demand session ID'') (\<lambda>session_id.
     bind_result (decode_array 4 (dr_current_values row) ''demand current'') (\<lambda>current.
     bind_result (decode_array 4 (dr_raw_import row) ''raw import peaks'') (\<lambda>raw_import.
     bind_result (decode_array 4 (dr_raw_export row) ''raw export peaks'') (\<lambda>raw_export.
     bind_result (decode_array 4 (dr_baseline_import row) ''baseline import'') (\<lambda>baseline_import.
     bind_result (decode_array 4 (dr_baseline_export row) ''baseline export'') (\<lambda>baseline_export.
     bind_result (decode_array 4 (dr_authoritative_import row) ''import peaks'') (\<lambda>import_peaks.
     bind_result (decode_array 4 (dr_authoritative_export row) ''export peaks'') (\<lambda>export_peaks.
     bind_result (decode_u64 4 (dr_import_anchors row) ''import anchors'') (\<lambda>import_anchors.
     bind_result (decode_u64 4 (dr_export_anchors row) ''export anchors'') (\<lambda>export_anchors.
       Inr \<lparr>ds_epoch = word_of_int (dr_epoch row), ds_session_id = session_id,
            ds_source_sequence = word_of_int (dr_source_sequence row),
            ds_generation = word_of_int (dr_generation row),
            ds_method = sliding, ds_window_seconds = 0, ds_update_seconds = 0,
            ds_profile_generation = 0,
            ds_current = current, ds_raw_import = raw_import, ds_raw_export = raw_export,
            ds_baseline_import = baseline_import, ds_baseline_export = baseline_export,
            ds_authoritative_import = import_peaks, ds_authoritative_export = export_peaks,
            ds_import_anchors = import_anchors, ds_export_anchors = export_anchors\<rparr>))))))))))"

definition load_demand :: "demand_state_row \<Rightarrow> (demand_state \<times> demand_values) result" where
  "load_demand row =
     bind_result (load_demand_state row) (\<lambda>state.
     bind_result (assign_demand_qualities
       (demand_values_init
          \<lparr>current_active := assign_demand_values (current_active demand_values_init) (ds_current state),
           import_peak := assign_demand_values (import_peak demand_values_init)
             (ds_authoritative_import state),
           export_peak := assign_demand_values (export_peak demand_values_init)
             (ds_authoritative_export state),
           import_peak_sample := assign_samples (ds_import_anchors state),
           export_peak_sample := assign_samples (ds_export_anchors state)\<rparr>)
       (dr_qualities row)) (\<lambda>values.
     bind_result (parse_hex64 (dr_last_sample row) ''demand last sample'') (\<lambda>last_sample.
     bind_result (parse_hex64 (dr_target_sample row) ''demand interval anchor'') (\<lambda>target.
     let flags = word_of_int (dr_flags row); method = (word_of_int (dr_method row) :: u32) in
     if method > 1 then Inl (Runtime_error ''invalid demand method in ledger'')
     else
       let kind = (if method = 0 then fixed_block else sliding);
           state' = state\<lparr>ds_method := kind,
             ds_window_seconds := word_of_int (dr_window_seconds row),
             ds_update_seconds := word_of_int (dr_update_seconds row),
             ds_profile_generation := word_of_int (dr_profile_generation row)\<rparr>
       in Inr (state', for_each_demand_reading
            (\<lambda>_ r. r\<lparr>rd_source_sequence := ucast (ds_source_sequence state),
                     rd_measured_at := dr_updated_ns row,
                     rd_calculation_window :=
                       reloaded_window (dr_sample_count row) (dr_sample_rate row)\<rparr>)
            (values\<lparr>dv_session_id := ds_session_id state,
                    dv_last_sample_index := last_sample,
                    dv_interval_anchor_sample := target,
                    dv_source_interval_count := word_of_int (dr_source_count row),
                    dv_source_status := word_of_int (dr_source_status row),
                    dv_time_aligned := flag flags 0,
                    dv_contaminated := flag flags 1,
                    dv_boundary_valid := flag flags 2,
                    dv_saturated := flag flags 3,
                    dv_incomplete_input := flag flags 4,
                    dv_peak_reset_epoch := ds_epoch state,
                    dv_method := kind,
                    dv_window_seconds := ds_window_seconds state',
                    dv_update_seconds := ds_update_seconds state',
                    dv_profile_generation := ds_profile_generation state'\<rparr>))))))"

definition demand_row ::
    "demand_values \<Rightarrow> demand_state \<Rightarrow> u32 \<Rightarrow> u32 \<Rightarrow> int \<Rightarrow> int \<Rightarrow> demand_state_row" where
  "demand_row values state count rate updated_ns epoch =
     \<lparr>dr_epoch = epoch,
      dr_session_id = hex64 (ds_session_id state),
      dr_source_sequence = uint (ds_source_sequence state),
      dr_generation = uint (ds_generation state),
      dr_current_values = encode_array (ds_current state),
      dr_raw_import = encode_array (ds_raw_import state),
      dr_raw_export = encode_array (ds_raw_export state),
      dr_baseline_import = encode_array (ds_baseline_import state),
      dr_baseline_export = encode_array (ds_baseline_export state),
      dr_authoritative_import = encode_array (ds_authoritative_import state),
      dr_authoritative_export = encode_array (ds_authoritative_export state),
      dr_import_anchors = encode_u64 (ds_import_anchors state),
      dr_export_anchors = encode_u64 (ds_export_anchors state),
      dr_qualities = demand_qualities values,
      dr_last_sample = hex64 (dv_last_sample_index values),
      dr_target_sample = hex64 (dv_interval_anchor_sample values),
      dr_source_count = uint (dv_source_interval_count values),
      dr_source_status = uint (dv_source_status values),
      dr_flags = sint (demand_flags values),
      dr_sample_count = uint count,
      dr_sample_rate = uint rate,
      dr_updated_ns = updated_ns,
      dr_method = method_number (dv_method values),
      dr_window_seconds = uint (dv_window_seconds values),
      dr_update_seconds = uint (dv_update_seconds values),
      dr_profile_generation = uint (dv_profile_generation values)\<rparr>"

definition persist_demand ::
    "'db sql_engine \<Rightarrow> demand_values \<Rightarrow> demand_state \<Rightarrow> u32 \<Rightarrow> u32 \<Rightarrow> int \<Rightarrow> 'db \<Rightarrow> 'db result" where
  "persist_demand sql values state count rate updated_ns db =
     bind_result (bind_u64 (ds_epoch state)) (\<lambda>epoch.
       replace_demand_state sql (demand_row values state count rate updated_ns epoch) db)"

section \<open>Peaks\<close>

abbreviation demand_window :: "demand_values \<Rightarrow> sample_window" where
  "demand_window v \<equiv> rd_calculation_window (phase_a (current_active v))"

definition current_demand :: "demand_values \<Rightarrow> nat \<Rightarrow> int" where
  "current_demand v i = flatten_demand_values (current_active v) ! i"

definition current_quality :: "demand_values \<Rightarrow> nat \<Rightarrow> measurement_quality" where
  "current_quality v i = rd_quality (phase_list (current_active v) ! i)"

text \<open>One turn of the loop over the phases and the total; the flag is threaded.\<close>

definition live_peak ::
    "demand_values \<Rightarrow> nat \<Rightarrow> demand_state \<times> bool \<Rightarrow> demand_state \<times> bool" where
  "live_peak session i = (\<lambda>(st, saturated).
     let current = current_demand session i in
     if current_quality session i = Q_valid \<and> current > 0 \<and> current > ds_authoritative_import st ! i
     then (st\<lparr>ds_authoritative_import := (ds_authoritative_import st)[i := current],
              ds_import_anchors := (ds_import_anchors st)[i := dv_last_sample_index session]\<rparr>,
           saturated)
     else if current_quality session i = Q_valid \<and> current < 0
     then let (candidate, saturated') = demand_magnitude current saturated in
          if candidate > ds_authoritative_export st ! i
          then (st\<lparr>ds_authoritative_export := (ds_authoritative_export st)[i := candidate],
                   ds_export_anchors := (ds_export_anchors st)[i := dv_last_sample_index session]\<rparr>,
                saturated')
          else (st, saturated')
     else (st, saturated))"

definition session_peak :: "demand_values \<Rightarrow> nat \<Rightarrow> demand_state \<Rightarrow> demand_state" where
  "session_peak session i st =
     (let incoming_import = flatten_demand_values (import_peak session) ! i;
          incoming_export = flatten_demand_values (export_peak session) ! i;
          st1 = (if incoming_import > ds_baseline_import st ! i \<and>
                    incoming_import > ds_authoritative_import st ! i
                 then st\<lparr>ds_authoritative_import := (ds_authoritative_import st)[i := incoming_import],
                         ds_import_anchors := (ds_import_anchors st)
                           [i := flatten_samples (import_peak_sample session) ! i]\<rparr>
                 else st)
      in if incoming_export > ds_baseline_export st1 ! i \<and>
            incoming_export > ds_authoritative_export st1 ! i
         then st1\<lparr>ds_authoritative_export := (ds_authoritative_export st1)[i := incoming_export],
                  ds_export_anchors := (ds_export_anchors st1)
                    [i := flatten_samples (export_peak_sample session) ! i]\<rparr>
         else st1)"

definition peak_step ::
    "demand_values \<Rightarrow> demand_state \<times> bool \<Rightarrow> nat \<Rightarrow> demand_state \<times> bool" where
  "peak_step session acc i =
     (let (st, saturated) = live_peak session i acc in (session_peak session i st, saturated))"

section \<open>Ingesting\<close>

definition demand_content_differs ::
    "demand_values \<Rightarrow> u32 \<Rightarrow> demand_state \<Rightarrow> demand_values \<Rightarrow> bool" where
  "demand_content_differs session generation st latest \<longleftrightarrow>
     flatten_demand_values (current_active session) \<noteq> ds_current st \<or>
     flatten_demand_values (import_peak session) \<noteq> ds_raw_import st \<or>
     flatten_demand_values (export_peak session) \<noteq> ds_raw_export st \<or>
     generation \<noteq> ds_generation st \<or>
     dv_last_sample_index session \<noteq> dv_last_sample_index latest \<or>
     dv_interval_anchor_sample session \<noteq> dv_interval_anchor_sample latest \<or>
     dv_source_interval_count session \<noteq> dv_source_interval_count latest \<or>
     dv_source_status session \<noteq> dv_source_status latest \<or>
     dv_time_aligned session \<noteq> dv_time_aligned latest \<or>
     dv_contaminated session \<noteq> dv_contaminated latest \<or>
     dv_boundary_valid session \<noteq> dv_boundary_valid latest \<or>
     dv_incomplete_input session \<noteq> dv_incomplete_input latest \<or>
     (dv_saturated session \<and> \<not> dv_saturated latest) \<or>
     demand_qualities session \<noteq> demand_qualities latest \<or>
     \<not> same_window (demand_window session) (demand_window latest)"

definition same_demand_session :: "'db ledger \<Rightarrow> demand_values \<Rightarrow> bool" where
  "same_demand_session L session \<longleftrightarrow>
     led_latest_demand L \<noteq> None \<and> dv_session_id session = ds_session_id (led_demand L)"

definition same_semantics :: "'db ledger \<Rightarrow> demand_values \<Rightarrow> bool" where
  "same_semantics L session \<longleftrightarrow>
     led_latest_demand L \<noteq> None \<and> dv_method session = ds_method (led_demand L) \<and>
     dv_window_seconds session = ds_window_seconds (led_demand L) \<and>
     dv_update_seconds session = ds_update_seconds (led_demand L)"

definition same_profile_instance :: "'db ledger \<Rightarrow> demand_values \<Rightarrow> bool" where
  "same_profile_instance L session \<longleftrightarrow>
     same_demand_session L session \<and> same_semantics L session \<and>
     dv_profile_generation session = ds_profile_generation (led_demand L)"

definition profile_changed :: "'db ledger \<Rightarrow> demand_values \<Rightarrow> bool" where
  "profile_changed L session \<longleftrightarrow>
     led_latest_demand L \<noteq> None \<and>
     (\<not> same_semantics L session \<or>
      (same_demand_session L session \<and>
       dv_profile_generation session \<noteq> ds_profile_generation (led_demand L)))"

text \<open>The state the loop starts from.\<close>

definition prepare_demand :: "'db ledger \<Rightarrow> demand_values \<Rightarrow> demand_state result" where
  "prepare_demand L session =
     (let st = led_demand L in
      if profile_changed L session
      then Inr (st\<lparr>ds_epoch := ds_epoch st + 1,
             ds_baseline_import := replicate 4 0, ds_baseline_export := replicate 4 0,
             ds_authoritative_import := replicate 4 0, ds_authoritative_export := replicate 4 0,
             ds_import_anchors := replicate 4 0, ds_export_anchors := replicate 4 0,
             ds_raw_import := replicate 4 0, ds_raw_export := replicate 4 0\<rparr>)
      else if \<not> same_profile_instance L session
      then Inr (st\<lparr>ds_baseline_import := replicate 4 0, ds_baseline_export := replicate 4 0\<rparr>)
      else if list_ex (\<lambda>i.
                flatten_demand_values (import_peak session) ! i < ds_raw_import st ! i \<or>
                flatten_demand_values (export_peak session) ! i < ds_raw_export st ! i) [0..<4]
      then Inl (Conflict ''same-session DEMAND peak rollback'')
      else Inr st)"

definition finish_demand :: "demand_state \<Rightarrow> demand_values \<Rightarrow> u32 \<Rightarrow> u32 \<Rightarrow> demand_state" where
  "finish_demand st session sequence generation = st
     \<lparr>ds_session_id := dv_session_id session, ds_source_sequence := sequence,
      ds_generation := generation, ds_method := dv_method session,
      ds_window_seconds := dv_window_seconds session,
      ds_update_seconds := dv_update_seconds session,
      ds_profile_generation := dv_profile_generation session,
      ds_current := flatten_demand_values (current_active session),
      ds_raw_import := flatten_demand_values (import_peak session),
      ds_raw_export := flatten_demand_values (export_peak session)\<rparr>"

definition publish_demand :: "demand_values \<Rightarrow> demand_state \<Rightarrow> bool \<Rightarrow> demand_values" where
  "publish_demand session st saturated = session
     \<lparr>import_peak := assign_demand_values (import_peak session) (ds_authoritative_import st),
      export_peak := assign_demand_values (export_peak session) (ds_authoritative_export st),
      import_peak_sample := assign_samples (ds_import_anchors st),
      export_peak_sample := assign_samples (ds_export_anchors st),
      dv_peak_reset_epoch := ds_epoch st, dv_saturated := saturated\<rparr>"

definition energy_history ::
    "'db sql_engine \<Rightarrow> 'db ledger \<Rightarrow> demand_values \<Rightarrow> int \<Rightarrow> 'db \<Rightarrow> 'db result" where
  "energy_history sql L v now db =
     (case led_latest_energy L of
        None \<Rightarrow> Inr db
      | Some e \<Rightarrow>
          bind_result (bind_u64 (es_epoch (led_energy L))) (\<lambda>epoch.
            replace_energy_history sql
              \<lparr>eh_session_id = hex64 (es_session_id (led_energy L)),
               eh_target_sample = hex64 (dv_interval_anchor_sample v), eh_captured_ns = now,
               eh_epoch = epoch, eh_counters = encode_array (es_lifetime_counters (led_energy L)),
               eh_qualities = energy_qualities e, eh_flags = sint (energy_flags e)\<rparr> db))"

definition demand_history_flags :: "demand_values \<Rightarrow> u32" where
  "demand_history_flags v =
     of_bool (dv_contaminated v) OR push_bit 1 (of_bool (dv_incomplete_input v))
       OR push_bit 2 (of_bool (dv_saturated v))"

definition demand_history ::
    "'db sql_engine \<Rightarrow> demand_state \<Rightarrow> demand_values \<Rightarrow> int \<Rightarrow> 'db \<Rightarrow> 'db result" where
  "demand_history sql st v now db =
     bind_result (bind_u64 (ds_epoch st)) (\<lambda>epoch.
       replace_demand_history sql
         \<lparr>dh_session_id = hex64 (ds_session_id st),
          dh_target_sample = hex64 (dv_interval_anchor_sample v), dh_captured_ns = now,
          dh_epoch = epoch, dh_current_values = encode_array (ds_current st),
          dh_import_peaks = encode_array (ds_authoritative_import st),
          dh_export_peaks = encode_array (ds_authoritative_export st),
          dh_qualities = demand_qualities v, dh_flags = sint (demand_history_flags v),
          dh_method = method_number (dv_method v), dh_window_seconds = uint (dv_window_seconds v),
          dh_update_seconds = uint (dv_update_seconds v),
          dh_profile_generation = uint (dv_profile_generation v)\<rparr> db)"

definition store_demand ::
    "'db sql_engine \<Rightarrow> 'db ledger \<Rightarrow> demand_values \<Rightarrow> demand_state \<Rightarrow> sample_window \<Rightarrow> int
       \<Rightarrow> 'db ledger \<times> demand_values result" where
  "store_demand sql L v st window now =
     (case transaction sql (led_database L) (\<lambda>db.
             bind_result (persist_demand sql v st (sw_sample_count window) (sample_rate window)
               now db) (\<lambda>db1.
             if dv_interval_anchor_sample v \<noteq> 0 \<and> dv_method v = fixed_block
             then bind_result (energy_history sql L v now db1) (demand_history sql st v now)
             else Inr db1)) of
        Inl e \<Rightarrow> (L, Inl e)
      | Inr db \<Rightarrow> (L\<lparr>led_database := db, led_demand := st, led_latest_demand := Some v\<rparr>, Inr v))"

definition ingest_demand ::
    "'db sql_engine \<Rightarrow> 'db ledger \<Rightarrow> demand_values \<Rightarrow> u32 \<Rightarrow> u32 \<Rightarrow> int
       \<Rightarrow> 'db ledger \<times> demand_values result" where
  "ingest_demand sql L session sequence generation now =
     (if dv_profile_generation session = 0 \<or> dv_window_seconds session = 0 \<or>
         dv_update_seconds session = 0
      then (L, Inl (Invalid_argument ''invalid DEMAND profile metadata''))
      else if list_ex (\<lambda>c. c < 0) (flatten_demand_values (import_peak session)
                @ flatten_demand_values (export_peak session))
      then (L, Inl (Invalid_argument ''negative DEMAND peak''))
      else if same_profile_instance L session \<and> sequence < ds_source_sequence (led_demand L)
      then (L, Inl (Conflict ''stale DEMAND family sequence''))
      else if same_profile_instance L session \<and> sequence = ds_source_sequence (led_demand L)
      then let latest = the (led_latest_demand L) in
           if demand_content_differs session generation (led_demand L) latest
           then (L, Inl (Conflict ''duplicate DEMAND sequence has different content''))
           else (L, Inr latest)
      else case prepare_demand L session of
        Inl e \<Rightarrow> (L, Inl e)
      | Inr start \<Rightarrow>
          (let (peaks, saturated) = foldl (peak_step session) (start, dv_saturated session) [0..<4];
               v = publish_demand session peaks saturated
           in store_demand sql L v (finish_demand peaks session sequence generation)
                (demand_window session) now))"

section \<open>Resetting the peaks\<close>

definition next_peak_reset :: "demand_state \<Rightarrow> demand_state" where
  "next_peak_reset st = st
     \<lparr>ds_epoch := ds_epoch st + 1,
      ds_authoritative_import := replicate 4 0, ds_authoritative_export := replicate 4 0,
      ds_import_anchors := replicate 4 0, ds_export_anchors := replicate 4 0,
      ds_baseline_import := ds_raw_import st, ds_baseline_export := ds_raw_export st\<rparr>"

definition reset_demand_peaks ::
    "'db sql_engine \<Rightarrow> 'db ledger \<Rightarrow> reset_request \<Rightarrow> 'db ledger \<times> reset_result result" where
  "reset_demand_peaks sql L req =
     (case bind_result (validate_reset req) (\<lambda>_.
             select_resulting_epoch sql Demand_reset_audit (idempotency_key req) (led_database L)) of
        Inl e \<Rightarrow> (L, Inl e)
      | Inr (Some epoch) \<Rightarrow> (L, Inr \<lparr>rr_epoch = word_of_int epoch, rr_replayed = True\<rparr>)
      | Inr None \<Rightarrow>
          (case led_latest_demand L of
             None \<Rightarrow> (L, Inl (Unavailable ''no durable DEMAND checkpoint exists''))
           | Some latest \<Rightarrow>
               if expected_epoch req \<noteq> ds_epoch (led_demand L)
               then (L, Inl (Conflict ''DEMAND reset epoch conflict''))
               else
                 let previous = ds_epoch (led_demand L);
                     st = next_peak_reset (led_demand L);
                     v = publish_demand latest st (dv_saturated latest)
                 in (case transaction sql (led_database L) (\<lambda>db.
                            bind_result (persist_demand sql v st
                              (sw_sample_count (demand_window v)) (sample_rate (demand_window v))
                              (requested_at_nanoseconds req) db)
                              (write_audit sql Demand_reset_audit req previous (ds_epoch st))) of
                       Inl e \<Rightarrow> (L, Inl e)
                     | Inr db \<Rightarrow>
                         (L\<lparr>led_database := db, led_demand := st, led_latest_demand := Some v\<rparr>,
                          Inr \<lparr>rr_epoch = ds_epoch st, rr_replayed = False\<rparr>))))"

section \<open>Opening the ledger\<close>

text \<open>The constructor, after the tables have been created where they were missing.\<close>

definition open_ledger :: "'db sql_engine \<Rightarrow> 'db \<Rightarrow> 'db ledger result" where
  "open_ledger sql db =
     bind_result (select_energy_state sql db) (\<lambda>erow.
     bind_result (case erow of
         None \<Rightarrow> Inr (energy_state_init, None)
       | Some row \<Rightarrow> bind_result (load_energy row) (\<lambda>(st, v). Inr (st, Some v))) (\<lambda>(est, ev).
     bind_result (select_demand_state sql db) (\<lambda>drow.
     bind_result (case drow of
         None \<Rightarrow> Inr (demand_state_init, None)
       | Some row \<Rightarrow> bind_result (load_demand row) (\<lambda>(st, v). Inr (st, Some v))) (\<lambda>(dst, dv).
       Inr \<lparr>led_database = db, led_latest_energy = ev, led_latest_demand = dv,
            led_energy = est, led_demand = dst\<rparr>))))"

section \<open>The peak loop\<close>

definition live_import :: "demand_values \<Rightarrow> nat \<Rightarrow> int" where
  "live_import session i =
     (if current_quality session i = Q_valid \<and> current_demand session i > 0
      then current_demand session i else 0)"

definition live_export :: "demand_values \<Rightarrow> nat \<Rightarrow> int" where
  "live_export session i =
     (if current_quality session i = Q_valid \<and> current_demand session i < 0
      then min int64_max (- current_demand session i) else 0)"

definition above :: "int list \<Rightarrow> reading phase_abc_total \<Rightarrow> nat \<Rightarrow> int" where
  "above baseline peaks i =
     (if flatten_demand_values peaks ! i > baseline ! i then flatten_demand_values peaks ! i else 0)"

definition new_import :: "demand_state \<Rightarrow> demand_values \<Rightarrow> nat \<Rightarrow> int" where
  "new_import st session i = Max {ds_authoritative_import st ! i, live_import session i,
     above (ds_baseline_import st) (import_peak session) i}"

definition new_export :: "demand_state \<Rightarrow> demand_values \<Rightarrow> nat \<Rightarrow> int" where
  "new_export st session i = Max {ds_authoritative_export st ! i, live_export session i,
     above (ds_baseline_export st) (export_peak session) i}"

definition wf_demand_state :: "demand_state \<Rightarrow> bool" where
  "wf_demand_state st \<longleftrightarrow>
     length (ds_current st) = 4 \<and> length (ds_raw_import st) = 4 \<and> length (ds_raw_export st) = 4 \<and>
     length (ds_baseline_import st) = 4 \<and> length (ds_baseline_export st) = 4 \<and>
     length (ds_authoritative_import st) = 4 \<and> length (ds_authoritative_export st) = 4 \<and>
     length (ds_import_anchors st) = 4 \<and> length (ds_export_anchors st) = 4 \<and>
     list_all in_int64 (ds_current st) \<and>
     list_all counter_ok (ds_raw_import st) \<and> list_all counter_ok (ds_raw_export st) \<and>
     list_all counter_ok (ds_baseline_import st) \<and> list_all counter_ok (ds_baseline_export st) \<and>
     list_all counter_ok (ds_authoritative_import st) \<and>
     list_all counter_ok (ds_authoritative_export st)"

text \<open>The values of the C++ type.\<close>

definition demand_input :: "demand_values \<Rightarrow> bool" where
  "demand_input v \<longleftrightarrow> list_all (\<lambda>r. in_int64 (rd_value r)) (demand_readings v)"

lemma length_flatten_demand [simp]: "length (flatten_demand_values g) = 4"
  by (simp add: flatten_demand_values_def)

lemma current_in_int64:
  "demand_input session \<Longrightarrow> i < 4 \<Longrightarrow> in_int64 (current_demand session i)"
proof -
  assume "demand_input session" "i < 4"
  moreover have "phase_list (current_active session) ! i \<in> set (demand_readings session)"
    using \<open>i < 4\<close> by (simp add: demand_readings_def)
  ultimately show ?thesis
    by (simp add: demand_input_def current_demand_def flatten_demand_values_def list_all_iff)
qed

lemma demand_magnitude_neg:
  "int64_min \<le> c \<Longrightarrow> c < 0 \<Longrightarrow> fst (demand_magnitude c sat) = min int64_max (- c)"
  by (auto simp: demand_magnitude_def int64_min_def int64_max_def min_def)

lemma update_max: "xs[i := max (xs ! i) c] = (if xs ! i < c then xs[i := c] else (xs :: int list))"
  by (cases "xs ! i < c") (simp_all add: max_absorb1)

lemma peak_step_effect:
  assumes inp: "demand_input session" and i: "i < 4"
    and len: "length (ds_authoritative_import st) = 4" "length (ds_authoritative_export st) = 4"
    and nn: "0 \<le> ds_authoritative_import st ! i" "0 \<le> ds_authoritative_export st ! i"
    and step: "peak_step session (st, sat) i = (st', sat')"
  shows "ds_authoritative_import st' = (ds_authoritative_import st)[i := new_import st session i]"
    and "ds_authoritative_export st' = (ds_authoritative_export st)[i := new_export st session i]"
    and "ds_baseline_import st' = ds_baseline_import st" "ds_baseline_export st' = ds_baseline_export st"
    and "ds_epoch st' = ds_epoch st"
    and "length (ds_import_anchors st') = length (ds_import_anchors st)"
      "length (ds_export_anchors st') = length (ds_export_anchors st)"
    and "sat \<Longrightarrow> sat'"
proof -
  have c: "int64_min \<le> current_demand session i"
    using current_in_int64 [OF inp i] by (simp add: in_int64_def)
  obtain stl where l: "live_peak session i (st, sat) = (stl, sat')"
    using step by (auto simp: peak_step_def Let_def split: prod.splits)
  have s: "st' = session_peak session i stl"
    using step l by (simp add: peak_step_def)
  have li: "ds_authoritative_import stl =
      (ds_authoritative_import st)[i := max (ds_authoritative_import st ! i) (live_import session i)]"
    using l nn by (auto simp: live_peak_def Let_def live_import_def split: if_splits prod.splits)
  have le: "ds_authoritative_export stl =
      (ds_authoritative_export st)[i := max (ds_authoritative_export st ! i) (live_export session i)]"
    using l nn demand_magnitude_neg [OF c, of sat]
    by (auto simp: live_peak_def Let_def live_export_def split: if_splits prod.splits)
  have lb: "ds_baseline_import stl = ds_baseline_import st" "ds_baseline_export stl = ds_baseline_export st"
      "ds_epoch stl = ds_epoch st"
      "length (ds_import_anchors stl) = length (ds_import_anchors st)"
      "length (ds_export_anchors stl) = length (ds_export_anchors st)"
    using l by (auto simp: live_peak_def Let_def split: if_splits prod.splits)
  have ni: "0 \<le> ds_authoritative_import stl ! i" "0 \<le> ds_authoritative_export stl ! i"
    using nn i len by (simp_all add: li le)
  have "ds_authoritative_import st' = (ds_authoritative_import stl)
      [i := max (ds_authoritative_import stl ! i) (above (ds_baseline_import stl) (import_peak session) i)]"
    using ni by (simp add: s session_peak_def Let_def above_def update_max)
  then show "ds_authoritative_import st' = (ds_authoritative_import st)[i := new_import st session i]"
    using len i by (simp add: li lb new_import_def max.assoc)
  have "ds_authoritative_export st' = (ds_authoritative_export stl)
      [i := max (ds_authoritative_export stl ! i) (above (ds_baseline_export stl) (export_peak session) i)]"
    using ni by (simp add: s session_peak_def Let_def above_def update_max)
  then show "ds_authoritative_export st' = (ds_authoritative_export st)[i := new_export st session i]"
    using len i by (simp add: le lb new_export_def max.assoc)
  show "ds_baseline_import st' = ds_baseline_import st" "ds_baseline_export st' = ds_baseline_export st"
    "ds_epoch st' = ds_epoch st"
    "length (ds_import_anchors st') = length (ds_import_anchors st)"
    "length (ds_export_anchors st') = length (ds_export_anchors st)"
    by (simp_all add: s session_peak_def Let_def lb)
  show "sat \<Longrightarrow> sat'"
    using l by (auto simp: live_peak_def Let_def demand_magnitude_def split: if_splits)
qed

lemma new_import_nonneg: "0 \<le> ds_authoritative_import st ! i \<Longrightarrow> 0 \<le> new_import st session i"
  by (simp add: new_import_def)

lemma new_export_nonneg: "0 \<le> ds_authoritative_export st ! i \<Longrightarrow> 0 \<le> new_export st session i"
  by (simp add: new_export_def)

lemma peaks_fold:
  assumes inp: "demand_input session"
    and len: "length (ds_authoritative_import st) = 4" "length (ds_authoritative_export st) = 4"
    and nn: "\<And>i. i < 4 \<Longrightarrow> 0 \<le> ds_authoritative_import st ! i \<and> 0 \<le> ds_authoritative_export st ! i"
  shows "n \<le> 4 \<Longrightarrow> case foldl (peak_step session) (st, sat) [0..<n] of (st', sat') \<Rightarrow>
    ds_authoritative_import st' =
      map (\<lambda>i. if i < n then new_import st session i else ds_authoritative_import st ! i) [0..<4] \<and>
    ds_authoritative_export st' =
      map (\<lambda>i. if i < n then new_export st session i else ds_authoritative_export st ! i) [0..<4] \<and>
    ds_baseline_import st' = ds_baseline_import st \<and> ds_baseline_export st' = ds_baseline_export st \<and>
    ds_epoch st' = ds_epoch st \<and>
    length (ds_import_anchors st') = length (ds_import_anchors st) \<and>
    length (ds_export_anchors st') = length (ds_export_anchors st) \<and> (sat \<longrightarrow> sat')"
proof (induction n)
  case 0
  have "map ((!) (ds_authoritative_import st)) [0..<4] = ds_authoritative_import st"
    "map ((!) (ds_authoritative_export st)) [0..<4] = ds_authoritative_export st"
    using len map_nth by metis+
  then show ?case by simp
next
  case (Suc n)
  then have n: "n < 4" by simp
  obtain st1 sat1 where f1: "foldl (peak_step session) (st, sat) [0..<n] = (st1, sat1)" by fastforce
  obtain st2 sat2 where f2: "peak_step session (st1, sat1) n = (st2, sat2)" by fastforce
  have ih: "ds_authoritative_import st1 =
      map (\<lambda>i. if i < n then new_import st session i else ds_authoritative_import st ! i) [0..<4]"
    "ds_authoritative_export st1 =
      map (\<lambda>i. if i < n then new_export st session i else ds_authoritative_export st ! i) [0..<4]"
    "ds_baseline_import st1 = ds_baseline_import st" "ds_baseline_export st1 = ds_baseline_export st"
    "ds_epoch st1 = ds_epoch st"
    "length (ds_import_anchors st1) = length (ds_import_anchors st)"
    "length (ds_export_anchors st1) = length (ds_export_anchors st)" "sat \<longrightarrow> sat1"
    using Suc f1 by simp_all
  have at: "ds_authoritative_import st1 ! n = ds_authoritative_import st ! n"
      "ds_authoritative_export st1 ! n = ds_authoritative_export st ! n"
    using n by (simp_all add: ih)
  have l1: "length (ds_authoritative_import st1) = 4" "length (ds_authoritative_export st1) = 4"
    by (simp_all add: ih)
  have nw: "new_import st1 session n = new_import st session n"
      "new_export st1 session n = new_export st session n"
    by (simp_all only: new_import_def new_export_def at ih(3,4))
  have ge: "0 \<le> ds_authoritative_import st1 ! n" "0 \<le> ds_authoritative_export st1 ! n"
    using nn [OF n] at by simp_all
  note e = peak_step_effect [OF inp n l1 ge f2]
  have "ds_authoritative_import st2 = map (\<lambda>i. if i < Suc n then new_import st session i
      else ds_authoritative_import st ! i) [0..<4]"
    unfolding e nw ih by (rule nth_equalityI) (auto simp: nth_list_update less_Suc_eq)
  moreover have "ds_authoritative_export st2 = map (\<lambda>i. if i < Suc n then new_export st session i
      else ds_authoritative_export st ! i) [0..<4]"
    unfolding e nw ih by (rule nth_equalityI) (auto simp: nth_list_update less_Suc_eq)
  ultimately show ?case
    using e(3-) ih(3-) f1 f2 by (auto simp del: upt_Suc simp: upt_Suc_append)
qed

section \<open>Outcomes of an ingest\<close>

definition demand_inv :: "'db ledger \<Rightarrow> bool" where
  "demand_inv L \<longleftrightarrow> wf_demand_state (led_demand L) \<and>
     (\<forall>v. led_latest_demand L = Some v \<longrightarrow>
        flatten_demand_values (current_active v) = ds_current (led_demand L) \<and>
        flatten_demand_values (import_peak v) = ds_authoritative_import (led_demand L) \<and>
        flatten_demand_values (export_peak v) = ds_authoritative_export (led_demand L) \<and>
        flatten_samples (import_peak_sample v) = ds_import_anchors (led_demand L) \<and>
        flatten_samples (export_peak_sample v) = ds_export_anchors (led_demand L) \<and>
        dv_session_id v = ds_session_id (led_demand L) \<and>
        dv_method v = ds_method (led_demand L) \<and>
        dv_window_seconds v = ds_window_seconds (led_demand L) \<and>
        dv_update_seconds v = ds_update_seconds (led_demand L) \<and>
        dv_profile_generation v = ds_profile_generation (led_demand L) \<and>
        dv_peak_reset_epoch v = ds_epoch (led_demand L))"

definition demand_checks_pass :: "demand_values \<Rightarrow> bool" where
  "demand_checks_pass session \<longleftrightarrow>
     dv_profile_generation session \<noteq> 0 \<and> dv_window_seconds session \<noteq> 0 \<and>
     dv_update_seconds session \<noteq> 0 \<and>
     list_all ((\<le>) 0) (flatten_demand_values (import_peak session)) \<and>
     list_all ((\<le>) 0) (flatten_demand_values (export_peak session))"

definition demand_result ::
    "demand_state \<Rightarrow> demand_values \<Rightarrow> demand_state \<times> bool" where
  "demand_result start session = foldl (peak_step session) (start, dv_saturated session) [0..<4]"

lemma store_demand_cases:
  "(\<exists>e. store_demand sql L v st w now = (L, Inl e)) \<or>
   (\<exists>db db1. persist_demand sql v st (sw_sample_count w) (sample_rate w) now (led_database L) = Inr db1 \<and>
      (if dv_interval_anchor_sample v \<noteq> 0 \<and> dv_method v = fixed_block
       then bind_result (energy_history sql L v now db1) (demand_history sql st v now)
       else Inr db1) = Inr db \<and>
      store_demand sql L v st w now =
        (L\<lparr>led_database := db, led_demand := st, led_latest_demand := Some v\<rparr>, Inr v))"
proof -
  let ?t = "transaction sql (led_database L) (\<lambda>db.
             bind_result (persist_demand sql v st (sw_sample_count w) (sample_rate w)
               now db) (\<lambda>db1.
             if dv_interval_anchor_sample v \<noteq> 0 \<and> dv_method v = fixed_block
             then bind_result (energy_history sql L v now db1) (demand_history sql st v now)
             else Inr db1))"
  show ?thesis
  proof (cases ?t)
    case (Inl e)
    then show ?thesis by (simp add: store_demand_def)
  next
    case (Inr db)
    moreover from Inr obtain db1 where
      "persist_demand sql v st (sw_sample_count w) (sample_rate w) now (led_database L) = Inr db1"
      "(if dv_interval_anchor_sample v \<noteq> 0 \<and> dv_method v = fixed_block
        then bind_result (energy_history sql L v now db1) (demand_history sql st v now)
        else Inr db1) = Inr db"
      unfolding transaction_ok by (auto simp only: bind_result_eq_Inr)
    ultimately show ?thesis by (auto simp: store_demand_def)
  qed
qed

lemma any_negative: "list_ex (\<lambda>c. c < 0) xs \<longleftrightarrow> \<not> list_all ((\<le>) (0 :: int)) xs"
  by (auto simp: list_ex_iff list_all_iff not_le)

lemma ingest_demand_refused:
  "\<not> demand_checks_pass session \<Longrightarrow>
   \<exists>e. ingest_demand sql L session sequence generation now = (L, Inl e)"
  by (auto simp: ingest_demand_def any_negative demand_checks_pass_def)

lemma ingest_demand_eq:
  "demand_checks_pass session \<Longrightarrow> ingest_demand sql L session sequence generation now =
    (if same_profile_instance L session \<and> sequence < ds_source_sequence (led_demand L)
     then (L, Inl (Conflict ''stale DEMAND family sequence''))
     else if same_profile_instance L session \<and> sequence = ds_source_sequence (led_demand L)
     then if demand_content_differs session generation (led_demand L) (the (led_latest_demand L))
          then (L, Inl (Conflict ''duplicate DEMAND sequence has different content''))
          else (L, Inr (the (led_latest_demand L)))
     else case prepare_demand L session of Inl e \<Rightarrow> (L, Inl e)
         | Inr start \<Rightarrow> (let (peaks, saturated) = demand_result start session
             in store_demand sql L (publish_demand session peaks saturated)
                  (finish_demand peaks session sequence generation) (demand_window session) now))"
  by (simp add: ingest_demand_def any_negative demand_checks_pass_def Let_def demand_result_def
      split: sum.split)

lemma ingest_demand_cases:
  obtains (failed) e where "ingest_demand sql L session sequence generation now = (L, Inl e)"
  | (retry) latest where "ingest_demand sql L session sequence generation now = (L, Inr latest)"
      "demand_checks_pass session"
      "led_latest_demand L = Some latest" "same_profile_instance L session"
      "sequence = ds_source_sequence (led_demand L)"
      "\<not> demand_content_differs session generation (led_demand L) latest"
  | (accepted) start peaks saturated db db1 where "demand_checks_pass session"
      "\<not> (same_profile_instance L session \<and> sequence \<le> ds_source_sequence (led_demand L))"
      "prepare_demand L session = Inr start"
      "demand_result start session = (peaks, saturated)"
      "persist_demand sql (publish_demand session peaks saturated)
         (finish_demand peaks session sequence generation)
         (sw_sample_count (demand_window session)) (sample_rate (demand_window session)) now
         (led_database L) = Inr db1"
      "(if dv_interval_anchor_sample session \<noteq> 0 \<and> dv_method session = fixed_block
        then bind_result (energy_history sql L (publish_demand session peaks saturated) now db1)
          (demand_history sql (finish_demand peaks session sequence generation)
            (publish_demand session peaks saturated) now)
        else Inr db1) = Inr db"
      "ingest_demand sql L session sequence generation now =
        (L\<lparr>led_database := db, led_demand := finish_demand peaks session sequence generation,
           led_latest_demand := Some (publish_demand session peaks saturated)\<rparr>,
         Inr (publish_demand session peaks saturated))"
proof -
  show thesis
  proof (cases "demand_checks_pass session")
    case ok: True
    show thesis
    proof (cases "same_profile_instance L session \<and> sequence \<le> ds_source_sequence (led_demand L)")
      case True
      then obtain latest where "led_latest_demand L = Some latest"
        by (auto simp: same_profile_instance_def same_demand_session_def)
      then show thesis
        using ingest_demand_eq [OF ok, of sql L sequence generation now] ok True failed retry
        by (auto split: if_splits)
    next
      case False
      then have eq: "ingest_demand sql L session sequence generation now =
        (case prepare_demand L session of Inl e \<Rightarrow> (L, Inl e)
         | Inr start \<Rightarrow> (let (peaks, saturated) = demand_result start session
             in store_demand sql L (publish_demand session peaks saturated)
                  (finish_demand peaks session sequence generation) (demand_window session) now))"
        using ingest_demand_eq [OF ok, of sql L sequence generation now] by auto
      show thesis
      proof (cases "prepare_demand L session")
        case (Inl e)
        then show thesis using eq failed by simp
      next
        case (Inr start)
        obtain peaks saturated where r: "demand_result start session = (peaks, saturated)" by fastforce
        have p: "dv_interval_anchor_sample (publish_demand session peaks saturated) =
            dv_interval_anchor_sample session"
          "dv_method (publish_demand session peaks saturated) = dv_method session"
          by (simp_all add: publish_demand_def)
        show thesis
          using store_demand_cases [of sql L "publish_demand session peaks saturated"
              "finish_demand peaks session sequence generation" "demand_window session" now]
        proof (elim disjE exE conjE)
          fix e assume "store_demand sql L (publish_demand session peaks saturated)
            (finish_demand peaks session sequence generation) (demand_window session) now = (L, Inl e)"
          then show thesis using eq Inr r failed by simp
        next
          fix db db1
          assume "persist_demand sql (publish_demand session peaks saturated)
              (finish_demand peaks session sequence generation)
              (sw_sample_count (demand_window session)) (sample_rate (demand_window session)) now
              (led_database L) = Inr db1"
            "(if dv_interval_anchor_sample (publish_demand session peaks saturated) \<noteq> 0 \<and>
                 dv_method (publish_demand session peaks saturated) = fixed_block
              then bind_result (energy_history sql L (publish_demand session peaks saturated) now db1)
                (demand_history sql (finish_demand peaks session sequence generation)
                  (publish_demand session peaks saturated) now)
              else Inr db1) = Inr db"
            "store_demand sql L (publish_demand session peaks saturated)
               (finish_demand peaks session sequence generation) (demand_window session) now =
             (L\<lparr>led_database := db, led_demand := finish_demand peaks session sequence generation,
                led_latest_demand := Some (publish_demand session peaks saturated)\<rparr>,
              Inr (publish_demand session peaks saturated))"
          then show thesis using eq Inr r ok False by (intro accepted) (simp_all only: p, simp_all)
        qed
      qed
    qed
  next
    case False
    then show thesis using ingest_demand_refused [OF False] failed by blast
  qed
qed

lemma prepare_demand_ok:
  assumes "wf_demand_state (led_demand L)" and "prepare_demand L session = Inr start"
  shows "wf_demand_state start"
proof -
  have z: "list_all counter_ok (replicate 4 0)"
    by (simp add: counter_ok_def list_all_iff int64_max_def)
  show ?thesis
    using assms z
    by (auto simp: prepare_demand_def wf_demand_state_def Let_def split: if_splits)
qed

lemma wf_demand_nonneg:
  "wf_demand_state st \<Longrightarrow> i < 4 \<Longrightarrow>
   0 \<le> ds_authoritative_import st ! i \<and> 0 \<le> ds_authoritative_export st ! i"
  by (auto simp: wf_demand_state_def list_all_length counter_ok_def)

lemma demand_result_peaks:
  assumes "demand_input session" "wf_demand_state start" "demand_result start session = (peaks, saturated)"
  shows "ds_authoritative_import peaks = map (new_import start session) [0..<4]"
    "ds_authoritative_export peaks = map (new_export start session) [0..<4]"
    "ds_baseline_import peaks = ds_baseline_import start"
    "ds_baseline_export peaks = ds_baseline_export start"
    "ds_epoch peaks = ds_epoch start"
    "length (ds_import_anchors peaks) = 4" "length (ds_export_anchors peaks) = 4"
    "dv_saturated session \<longrightarrow> saturated"
proof -
  have len: "length (ds_authoritative_import start) = 4" "length (ds_authoritative_export start) = 4"
      "length (ds_import_anchors start) = 4" "length (ds_export_anchors start) = 4"
    using assms(2) by (simp_all add: wf_demand_state_def)
  have "case (peaks, saturated) of (st', sat') \<Rightarrow>
    ds_authoritative_import st' =
      map (\<lambda>i. if i < 4 then new_import start session i else ds_authoritative_import start ! i) [0..<4] \<and>
    ds_authoritative_export st' =
      map (\<lambda>i. if i < 4 then new_export start session i else ds_authoritative_export start ! i) [0..<4] \<and>
    ds_baseline_import st' = ds_baseline_import start \<and>
    ds_baseline_export st' = ds_baseline_export start \<and> ds_epoch st' = ds_epoch start \<and>
    length (ds_import_anchors st') = length (ds_import_anchors start) \<and>
    length (ds_export_anchors st') = length (ds_export_anchors start) \<and>
    (dv_saturated session \<longrightarrow> sat')"
    using peaks_fold [OF assms(1) len(1,2) wf_demand_nonneg [OF assms(2)], of 4 "dv_saturated session"]
      assms(3) by (simp only: demand_result_def)
  then show "ds_authoritative_import peaks = map (new_import start session) [0..<4]"
    "ds_authoritative_export peaks = map (new_export start session) [0..<4]"
    "ds_baseline_import peaks = ds_baseline_import start"
    "ds_baseline_export peaks = ds_baseline_export start"
    "ds_epoch peaks = ds_epoch start"
    "length (ds_import_anchors peaks) = 4" "length (ds_export_anchors peaks) = 4"
    "dv_saturated session \<longrightarrow> saturated"
    using len by (auto cong: map_cong)
qed

lemma demand_values_in:
  assumes "demand_input session" and "g \<in> {current_active session, import_peak session, export_peak session}"
  shows "list_all in_int64 (flatten_demand_values g)"
  using assms by (auto simp: demand_input_def demand_readings_def flatten_demand_values_def list_all_iff)

lemma new_import_ok:
  assumes "demand_input session" "wf_demand_state start" "i < 4"
  shows "counter_ok (new_import start session i)"
proof -
  have "counter_ok (ds_authoritative_import start ! i)"
    using assms(2,3) by (simp add: wf_demand_state_def list_all_length)
  moreover have "live_import session i \<le> int64_max" "0 \<le> int64_max"
    using current_in_int64 [OF assms(1,3)] by (simp_all add: live_import_def in_int64_def int64_max_def)
  moreover have "above (ds_baseline_import start) (import_peak session) i \<le> int64_max"
    using demand_values_in [OF assms(1), of "import_peak session"] assms(3)
    by (simp add: above_def list_all_length in_int64_def int64_max_def)
  ultimately show ?thesis by (simp add: counter_ok_def new_import_def le_max_iff_disj)
qed

lemma new_export_ok:
  assumes "demand_input session" "wf_demand_state start" "i < 4"
  shows "counter_ok (new_export start session i)"
proof -
  have "counter_ok (ds_authoritative_export start ! i)"
    using assms(2,3) by (simp add: wf_demand_state_def list_all_length)
  moreover have "live_export session i \<le> int64_max" by (simp add: live_export_def int64_max_def)
  moreover have "above (ds_baseline_export start) (export_peak session) i \<le> int64_max"
    using demand_values_in [OF assms(1), of "export_peak session"] assms(3)
    by (simp add: above_def list_all_length in_int64_def int64_max_def)
  ultimately show ?thesis by (simp add: counter_ok_def new_export_def le_max_iff_disj)
qed

lemma flatten_assign_demand [simp]:
  "length xs = 4 \<Longrightarrow> flatten_demand_values (assign_demand_values g xs) = xs"
  by (auto simp: flatten_demand_values_def assign_group_values_def phase_list_def length4)

lemma demand_inv_accepted:
  assumes inp: "demand_input session" and inv: "demand_inv L" and ok: "demand_checks_pass session"
    and prep: "prepare_demand L session = Inr start"
    and res: "demand_result start session = (peaks, saturated)"
  shows "demand_inv (L\<lparr>led_database := db,
      led_demand := finish_demand peaks session sequence generation,
      led_latest_demand := Some (publish_demand session peaks saturated)\<rparr>)"
proof -
  have st: "wf_demand_state start"
    using inv prep by (auto simp: demand_inv_def intro: prepare_demand_ok)
  note p = demand_result_peaks [OF inp st res]
  have "list_all counter_ok (flatten_demand_values (import_peak session))"
    "list_all counter_ok (flatten_demand_values (export_peak session))"
    using demand_values_in [OF inp, of "import_peak session"]
      demand_values_in [OF inp, of "export_peak session"] ok
    by (auto simp: demand_checks_pass_def list_all_iff counter_ok_def in_int64_def)
  moreover have "list_all counter_ok (ds_authoritative_import peaks)"
    "list_all counter_ok (ds_authoritative_export peaks)"
    using new_import_ok [OF inp st] new_export_ok [OF inp st] p by (simp_all add: list_all_iff)
  moreover have "list_all counter_ok (ds_baseline_import peaks)"
    "list_all counter_ok (ds_baseline_export peaks)"
    "length (ds_baseline_import peaks) = 4" "length (ds_baseline_export peaks) = 4"
    "length (ds_authoritative_import peaks) = 4" "length (ds_authoritative_export peaks) = 4"
    using st p by (simp_all add: wf_demand_state_def)
  ultimately show ?thesis
    using demand_values_in [OF inp, of "current_active session"] p(6,7)
    by (simp add: demand_inv_def wf_demand_state_def finish_demand_def publish_demand_def
        phase_list_group)
qed

section \<open>Properties of the demand peaks\<close>

lemma prepare_demand_start:
  assumes "prepare_demand L session = Inr start" "i < 4"
  shows "ds_authoritative_import start ! i =
      (if profile_changed L session then 0 else ds_authoritative_import (led_demand L) ! i)"
    "ds_authoritative_export start ! i =
      (if profile_changed L session then 0 else ds_authoritative_export (led_demand L) ! i)"
    "ds_baseline_import start ! i =
      (if same_profile_instance L session then ds_baseline_import (led_demand L) ! i else 0)"
    "ds_baseline_export start ! i =
      (if same_profile_instance L session then ds_baseline_export (led_demand L) ! i else 0)"
    "ds_epoch start = ds_epoch (led_demand L) + of_bool (profile_changed L session)"
  using assms
  by (auto simp: prepare_demand_def Let_def profile_changed_def same_profile_instance_def
      split: if_splits)

text \<open>
  C4. A demand peak is a true maximum. When a new demand interval is accepted, each published
  import peak is the largest of the peak so far (zero when the demand profile changed, which also
  starts a new epoch), the interval's own demand if it is valid and positive, and the session's
  peak if it exceeds the reset watermark; each export peak likewise with the magnitude of a
  valid negative demand, clamped at INT64_MAX. The ledger's state holds the same peaks.
\<close>

theorem demand_peak_maximum:
  assumes "demand_input session" and "demand_inv L"
    and "ingest_demand sql L session sequence generation now = (L', Inr v)"
    and "\<not> (same_profile_instance L session \<and> sequence = ds_source_sequence (led_demand L))"
    and "i < 4"
  shows "flatten_demand_values (import_peak v) ! i = Max
      {if profile_changed L session then 0 else ds_authoritative_import (led_demand L) ! i,
       live_import session i,
       if flatten_demand_values (import_peak session) ! i >
          (if same_profile_instance L session then ds_baseline_import (led_demand L) ! i else 0)
       then flatten_demand_values (import_peak session) ! i else 0} \<and>
    flatten_demand_values (export_peak v) ! i = Max
      {if profile_changed L session then 0 else ds_authoritative_export (led_demand L) ! i,
       live_export session i,
       if flatten_demand_values (export_peak session) ! i >
          (if same_profile_instance L session then ds_baseline_export (led_demand L) ! i else 0)
       then flatten_demand_values (export_peak session) ! i else 0} \<and>
    ds_authoritative_import (led_demand L') = flatten_demand_values (import_peak v) \<and>
    ds_authoritative_export (led_demand L') = flatten_demand_values (export_peak v) \<and>
    dv_peak_reset_epoch v = ds_epoch (led_demand L) + of_bool (profile_changed L session)"
proof (cases rule: ingest_demand_cases [of sql L session sequence generation now])
  case (accepted start peaks saturated db db1)
  have st: "wf_demand_state start"
    using assms(2) accepted(3) by (auto simp: demand_inv_def intro: prepare_demand_ok)
  note p = demand_result_peaks [OF assms(1) st accepted(4)]
  note s = prepare_demand_start [OF accepted(3) assms(5)]
  have v: "v = publish_demand session peaks saturated" "L' = L\<lparr>led_database := db,
      led_demand := finish_demand peaks session sequence generation,
      led_latest_demand := Some v\<rparr>"
    using assms(3) accepted(7) by auto
  have "demand_inv L'"
    unfolding v(2) unfolding v(1)
    by (rule demand_inv_accepted [OF assms(1,2) accepted(1,3,4)])
  then have pub: "flatten_demand_values (import_peak v) = ds_authoritative_import (led_demand L')"
    "flatten_demand_values (export_peak v) = ds_authoritative_export (led_demand L')"
    "dv_peak_reset_epoch v = ds_epoch (led_demand L')"
    by (simp_all add: demand_inv_def v(2))
  have "ds_authoritative_import (led_demand L') ! i = new_import start session i"
    "ds_authoritative_export (led_demand L') ! i = new_export start session i"
    "ds_epoch (led_demand L') = ds_epoch start"
    using assms(5) by (simp_all add: v(2) finish_demand_def p)
  then show ?thesis
    unfolding pub by (simp add: new_import_def new_export_def above_def s)
qed (use assms in auto)

section \<open>Resets of the peaks\<close>

lemma reset_demand_cases:
  obtains (failed) e where "reset_demand_peaks sql L req = (L, Inl e)"
  | (replayed) epoch where "reset_demand_peaks sql L req =
        (L, Inr \<lparr>rr_epoch = word_of_int epoch, rr_replayed = True\<rparr>)"
  | (applied) latest db where
      "led_latest_demand L = Some latest" "expected_epoch req = ds_epoch (led_demand L)"
      "reset_demand_peaks sql L req =
        (L\<lparr>led_database := db, led_demand := next_peak_reset (led_demand L),
           led_latest_demand := Some (publish_demand latest (next_peak_reset (led_demand L))
             (dv_saturated latest))\<rparr>,
         Inr \<lparr>rr_epoch = ds_epoch (led_demand L) + 1, rr_replayed = False\<rparr>)"
proof -
  let ?sel = "bind_result (validate_reset req) (\<lambda>_.
     select_resulting_epoch sql Demand_reset_audit (idempotency_key req) (led_database L))"
  have ep: "ds_epoch (next_peak_reset (led_demand L)) = ds_epoch (led_demand L) + 1"
    by (simp add: next_peak_reset_def)
  consider (a) e where "?sel = Inl e" | (b) epoch where "?sel = Inr (Some epoch)"
    | (c) "?sel = Inr None" by (metis option.exhaust sumE)
  then show thesis
  proof cases
    case a
    then show thesis by (intro failed [of e]) (simp add: reset_demand_peaks_def)
  next
    case b
    then have "validate_reset req = Inr ()" "select_resulting_epoch sql Demand_reset_audit
        (idempotency_key req) (led_database L) = Inr (Some epoch)" by auto
    then show thesis by (intro replayed [of epoch]) (simp add: reset_demand_peaks_def)
  next
    case c
    then have "validate_reset req = Inr ()" "select_resulting_epoch sql Demand_reset_audit
        (idempotency_key req) (led_database L) = Inr None" by auto
    then show thesis
      using failed applied ep
      by (cases "led_latest_demand L"; cases "expected_epoch req = ds_epoch (led_demand L)")
         (force simp: reset_demand_peaks_def Let_def split: sum.splits)+
  qed
qed

lemma demand_inv_reset: "demand_inv L \<Longrightarrow> demand_inv (fst (reset_demand_peaks sql L req))"
proof (cases rule: reset_demand_cases [of sql L req])
  case (applied latest db)
  assume "demand_inv L"
  moreover have "list_all counter_ok (replicate 4 0)"
    by (simp add: counter_ok_def list_all_iff int64_max_def)
  ultimately show ?thesis
    using applied(1)
    by (simp add: applied(3) demand_inv_def wf_demand_state_def next_peak_reset_def
        publish_demand_def phase_list_group)
qed simp_all

lemma publish_qualities [simp]:
  "demand_qualities (publish_demand session st sat) = demand_qualities session"
  by (simp add: demand_qualities_def demand_readings_def publish_demand_def assign_group_values_def
      phase_list_def)

lemma ingest_demand_retry:
  assumes "demand_checks_pass session" "led_latest_demand L = Some latest"
    "same_profile_instance L session"
    "\<not> demand_content_differs session generation (led_demand L) latest"
  shows "ingest_demand sql L session (ds_source_sequence (led_demand L)) generation now = (L, Inr latest)"
  using assms by (simp add: ingest_demand_eq)

lemma ingested_demand:
  assumes "demand_input session" "demand_inv L"
    and "ingest_demand sql L session sequence generation now = (L', Inr v)"
  shows "demand_inv L' \<and> demand_checks_pass session \<and> led_latest_demand L' = Some v \<and>
    same_profile_instance L' session \<and> sequence = ds_source_sequence (led_demand L') \<and>
    \<not> demand_content_differs session generation (led_demand L') v"
proof (cases rule: ingest_demand_cases [of sql L session sequence generation now])
  case (accepted start peaks saturated db db1)
  have st: "wf_demand_state start"
    using assms(2) accepted(3) by (auto simp: demand_inv_def intro: prepare_demand_ok)
  have L': "L' = L\<lparr>led_database := db, led_demand := finish_demand peaks session sequence generation,
      led_latest_demand := Some (publish_demand session peaks saturated)\<rparr>"
    "v = publish_demand session peaks saturated"
    using assms(3) accepted(7) by auto
  have "demand_inv L'"
    unfolding L' by (rule demand_inv_accepted [OF assms(1,2) accepted(1,3,4)])
  moreover have "\<not> demand_content_differs session generation (led_demand L') v"
    using demand_result_peaks(8) [OF assms(1) st accepted(4)] publish_qualities [of session peaks saturated]
    by (simp add: L' demand_content_differs_def finish_demand_def)
       (simp add: publish_demand_def)
  ultimately show ?thesis
    using accepted(1)
    by (simp add: L' same_profile_instance_def same_demand_session_def same_semantics_def finish_demand_def)
qed (use assms in auto)

text \<open>
  The reset watermark holds. After the peaks were reset, a retry of the interval that was
  already consumed returns the published value and changes nothing, so its peak cannot reappear
  in the new epoch; and the next new interval of the same session and profile can raise a peak
  only by its own valid demand or by a session peak above the one seen before the reset.
\<close>

theorem demand_reset_watermark:
  assumes inp: "demand_input session" "demand_inv L"
    and first: "ingest_demand sql L session sequence generation now = (L1, Inr v)"
    and reset: "reset_demand_peaks sql L1 req = (L2, Inr r)" "\<not> rr_replayed r"
    and later: "demand_input session'" "same_profile_instance L2 session'"
      "ingest_demand sql L2 session' sequence' generation' now' = (L3, Inr v')"
      "sequence' \<noteq> sequence" and i: "i < 4"
  shows "(\<exists>latest. led_latest_demand L2 = Some latest \<and>
      flatten_demand_values (import_peak latest) = replicate 4 0 \<and>
      ingest_demand sql L2 session sequence generation retry_at = (L2, Inr latest)) \<and>
    flatten_demand_values (import_peak v') ! i = Max {0, live_import session' i,
      if flatten_demand_values (import_peak session') ! i > flatten_demand_values (import_peak session) ! i
      then flatten_demand_values (import_peak session') ! i else 0} \<and>
    flatten_demand_values (export_peak v') ! i = Max {0, live_export session' i,
      if flatten_demand_values (export_peak session') ! i > flatten_demand_values (export_peak session) ! i
      then flatten_demand_values (export_peak session') ! i else 0}"
proof -
  have s: "demand_inv L1" "demand_checks_pass session" "led_latest_demand L1 = Some v"
      "same_profile_instance L1 session" "sequence = ds_source_sequence (led_demand L1)"
      "\<not> demand_content_differs session generation (led_demand L1) v"
    using ingested_demand [OF inp first] by blast+
  obtain db where L2: "L2 = L1\<lparr>led_database := db, led_demand := next_peak_reset (led_demand L1),
        led_latest_demand := Some (publish_demand v (next_peak_reset (led_demand L1)) (dv_saturated v))\<rparr>"
    using reset s(3) by (cases rule: reset_demand_cases [of sql L1 req]) auto
  have inv2: "demand_inv L2" using demand_inv_reset [OF s(1), of sql req] reset(1) by simp
  let ?w = "publish_demand v (next_peak_reset (led_demand L1)) (dv_saturated v)"
  have "\<not> demand_content_differs session generation (led_demand L2) ?w"
    using s(6) publish_qualities [of v "next_peak_reset (led_demand L1)" "dv_saturated v"]
    by (simp add: L2 demand_content_differs_def next_peak_reset_def) (simp add: publish_demand_def)
  moreover have "same_profile_instance L2 session"
    using s(4) by (simp add: L2 same_profile_instance_def same_demand_session_def same_semantics_def
        next_peak_reset_def)
  ultimately have retry: "ingest_demand sql L2 session sequence generation retry_at = (L2, Inr ?w)"
    using ingest_demand_retry [OF s(2), of L2 ?w generation sql retry_at] s(5)
    by (simp add: L2 next_peak_reset_def)
  have raw: "ds_raw_import (led_demand L1) = flatten_demand_values (import_peak session)"
      "ds_raw_export (led_demand L1) = flatten_demand_values (export_peak session)"
    using s(6) by (simp_all add: demand_content_differs_def)
  have pc: "\<not> profile_changed L2 session'"
    using later(2) by (auto simp: profile_changed_def same_profile_instance_def)
  show ?thesis
  proof (cases rule: ingest_demand_cases [of sql L2 session' sequence' generation' now'])
    case (accepted start peaks saturated db3 db4)
    have st: "wf_demand_state start"
      using inv2 accepted(3) by (auto simp: demand_inv_def intro: prepare_demand_ok)
    note p = demand_result_peaks [OF later(1) st accepted(4)]
    have v': "v' = publish_demand session' peaks saturated" using later(3) accepted(7) by simp
    have "flatten_demand_values (import_peak v') = ds_authoritative_import peaks"
      "flatten_demand_values (export_peak v') = ds_authoritative_export peaks"
      by (simp_all add: v' publish_demand_def p)
    then show ?thesis
      using i retry prepare_demand_start [OF accepted(3) i] pc later(2) raw
      by (simp add: p new_import_def new_export_def above_def L2 next_peak_reset_def)
         (simp add: publish_demand_def)
  qed (use later s(5) in \<open>auto simp: L2 next_peak_reset_def\<close>)
qed

section \<open>Restarts\<close>

lemma flag_of_demand_flags [simp]:
  "flag (demand_flags v) 0 = dv_time_aligned v"
  "flag (demand_flags v) (Suc 0) = dv_contaminated v"
  "flag (demand_flags v) 2 = dv_boundary_valid v"
  "flag (demand_flags v) 3 = dv_saturated v"
  "flag (demand_flags v) 4 = dv_incomplete_input v"
  by (simp_all add: flag_bit demand_flags_def bit_simps)

definition stamped_demand :: "u32 \<Rightarrow> int \<Rightarrow> sample_window \<Rightarrow> demand_values \<Rightarrow> demand_values" where
  "stamped_demand sequence now window = for_each_demand_reading
     (\<lambda>_ r. r\<lparr>rd_source_sequence := ucast sequence, rd_measured_at := now,
              rd_calculation_window := window\<rparr>)"

text \<open>The parts of the state that the published value repeats.\<close>

definition demand_agrees :: "demand_state \<Rightarrow> demand_values \<Rightarrow> bool" where
  "demand_agrees st v \<longleftrightarrow>
     flatten_demand_values (current_active v) = ds_current st \<and>
     flatten_demand_values (import_peak v) = ds_authoritative_import st \<and>
     flatten_demand_values (export_peak v) = ds_authoritative_export st \<and>
     flatten_samples (import_peak_sample v) = ds_import_anchors st \<and>
     flatten_samples (export_peak_sample v) = ds_export_anchors st \<and>
     dv_session_id v = ds_session_id st \<and> dv_method v = ds_method st \<and>
     dv_window_seconds v = ds_window_seconds st \<and> dv_update_seconds v = ds_update_seconds st \<and>
     dv_profile_generation v = ds_profile_generation st \<and> dv_peak_reset_epoch v = ds_epoch st"

lemma load_demand_state_row:
  assumes "wf_demand_state st"
  shows "load_demand_state (demand_row v st count rate now (uint (ds_epoch st))) =
    Inr (st\<lparr>ds_method := sliding, ds_window_seconds := 0, ds_update_seconds := 0,
            ds_profile_generation := 0\<rparr>)"
proof -
  have r: "list_all in_int64 xs" if "list_all counter_ok xs" for xs
    using that by (auto simp: list_all_iff counter_ok_def in_int64_def int64_min_def)
  show ?thesis
    using assms by (simp add: load_demand_state_def demand_row_def wf_demand_state_def r)
qed

lemma method_number_word:
  "\<not> (word_of_int (method_number m) :: u32) > 1"
  "(if (word_of_int (method_number m) :: u32) = 0 then fixed_block else sliding) = m"
  by (cases m; simp add: method_number_def)+

lemma group_reading_eqI:
  assumes "\<And>i. i < 4 \<Longrightarrow> phase_list g ! i = phase_list h ! i"
  shows "g = (h :: 'a phase_abc_total)"
  by (rule group_eqI) (rule nth_equalityI, simp_all add: assms)

lemma restored_group:
  assumes "flatten_demand_values g = xs" and "\<And>i. i < 4 \<Longrightarrow> qs ! (b + i) = quality_byte (rd_quality (phase_list g ! i))"
    and "list_all (\<lambda>r. wf_quality (rd_quality r)) (phase_list g)"
  shows "map_group (\<lambda>_ r. r\<lparr>rd_source_sequence := sq, rd_measured_at := t, rd_calculation_window := w\<rparr>) b
      (map_group (\<lambda>i r. r\<lparr>rd_quality := quality_of_byte (qs ! i)\<rparr>) b
        (assign_group_values group_init xs)) =
    map_group (\<lambda>_ r. r\<lparr>rd_source_sequence := sq, rd_measured_at := t, rd_calculation_window := w\<rparr>) b g"
proof -
  have "quality_of_byte (qs ! b) = rd_quality (phase_a g)"
    "quality_of_byte (qs ! (b + 1)) = rd_quality (phase_b g)"
    "quality_of_byte (qs ! (b + 2)) = rd_quality (phase_c g)"
    "quality_of_byte (qs ! (b + 3)) = rd_quality (total g)"
    using assms(2) [of 0] assms(2) [of 1] assms(2) [of 2] assms(2) [of 3] assms(3)
    by (simp_all add: phase_list_def wf_quality_def)
  then show ?thesis
    using assms(1) [symmetric]
    by (simp add: map_group_def assign_group_values_def flatten_demand_values_def phase_list_def)
qed

lemma load_demand_row:
  assumes st: "wf_demand_state st" and ag: "demand_agrees st v"
    and q: "list_all (\<lambda>r. wf_quality (rd_quality r)) (demand_readings v)"
  shows "load_demand (demand_row v st count rate now (uint (ds_epoch st))) =
    Inr (st, stamped_demand (ds_source_sequence st) now (reloaded_window (uint count) (uint rate)) v)"
proof -
  let ?row = "demand_row v st count rate now (uint (ds_epoch st))"
  have row: "dr_qualities ?row = demand_qualities v" "dr_last_sample ?row = hex64 (dv_last_sample_index v)"
    "dr_target_sample ?row = hex64 (dv_interval_anchor_sample v)"
    "dr_source_count ?row = uint (dv_source_interval_count v)"
    "dr_source_status ?row = uint (dv_source_status v)" "dr_flags ?row = sint (demand_flags v)"
    "dr_sample_count ?row = uint count" "dr_sample_rate ?row = uint rate" "dr_updated_ns ?row = now"
    "dr_method ?row = method_number (dv_method v)"
    "dr_window_seconds ?row = uint (dv_window_seconds v)"
    "dr_update_seconds ?row = uint (dv_update_seconds v)"
    "dr_profile_generation ?row = uint (dv_profile_generation v)"
    by (simp_all add: demand_row_def)
  have lq: "length (demand_qualities v) = 12"
    by (simp add: demand_qualities_def demand_readings_def)
  have qs: "demand_qualities v ! i = quality_byte (rd_quality (phase_list (current_active v) ! i))"
    "demand_qualities v ! (4 + i) = quality_byte (rd_quality (phase_list (import_peak v) ! i))"
    "demand_qualities v ! (8 + i) = quality_byte (rd_quality (phase_list (export_peak v) ! i))"
    if "i < 4" for i
    using that by (simp_all add: demand_qualities_def demand_readings_def nth_append)
  have wq: "list_all (\<lambda>r. wf_quality (rd_quality r)) (phase_list (current_active v))"
    "list_all (\<lambda>r. wf_quality (rd_quality r)) (phase_list (import_peak v))"
    "list_all (\<lambda>r. wf_quality (rd_quality r)) (phase_list (export_peak v))"
    using q by (simp_all add: demand_readings_def)
  note g = restored_group [where qs = "demand_qualities v" and sq = "ucast (ds_source_sequence st)"
      and t = now and w = "reloaded_window (uint count) (uint rate)"]
  have s: "assign_samples (ds_import_anchors st) = import_peak_sample v"
    "assign_samples (ds_export_anchors st) = export_peak_sample v"
    using ag by (simp_all add: demand_agrees_def) (metis phase_group_list)+
  show ?thesis
    using ag lq g [of "current_active v" "ds_current st" 0] g [of "import_peak v" _ 4]
      g [of "export_peak v" _ 8] qs wq method_number_word [of "dv_method v"]
    by (simp add: load_demand_def load_demand_state_row [OF st] row assign_demand_qualities_def
        Let_def for_each_demand_reading_def stamped_demand_def demand_values_init_def s demand_agrees_def)
qed

definition decoded_demand :: "demand_values \<Rightarrow> bool" where
  "decoded_demand v \<longleftrightarrow> demand_input v \<and> decoded_window (demand_window v) \<and>
     list_all (\<lambda>r. wf_quality (rd_quality r)) (demand_readings v)"

definition demand_stored :: "('db \<Rightarrow> ledger_tables) \<Rightarrow> 'db \<Rightarrow> demand_state \<Rightarrow> demand_values \<Rightarrow> bool" where
  "demand_stored tables db st v \<longleftrightarrow>
     decoded_window (demand_window v) \<and>
     list_all (\<lambda>r. wf_quality (rd_quality r)) (demand_readings v) \<and>
     (\<exists>now. t_demand_state (tables db) = Some (demand_row v st (sw_sample_count (demand_window v))
        (sample_rate (demand_window v)) now (uint (ds_epoch st))))"

text \<open>The tables describe the ledger, both halves.\<close>

definition ledger_durable :: "('db \<Rightarrow> ledger_tables) \<Rightarrow> 'db ledger \<Rightarrow> bool" where
  "ledger_durable tables L \<longleftrightarrow>
     energy_inv L \<and> demand_inv L \<and> energy_durable tables L \<and>
     (led_latest_energy L = None \<longrightarrow>
        led_energy L = energy_state_init \<and> t_energy_state (tables (led_database L)) = None) \<and>
     (case led_latest_demand L of
        None \<Rightarrow> led_demand L = demand_state_init \<and> t_demand_state (tables (led_database L)) = None
      | Some v \<Rightarrow> demand_stored tables (led_database L) (led_demand L) v)"

lemma demand_inv_agrees:
  "demand_inv L \<Longrightarrow> led_latest_demand L = Some v \<Longrightarrow> demand_agrees (led_demand L) v"
  by (simp add: demand_inv_def demand_agrees_def)

lemma persist_demand_ok:
  "persist_demand sql v st count rate now db = Inr db' \<longleftrightarrow>
   uint (ds_epoch st) \<le> int64_max \<and>
   replace_demand_state sql (demand_row v st count rate now (uint (ds_epoch st))) db = Inr db'"
  by (auto simp: persist_demand_def bind_u64_def)

text \<open>Which parts of the tables each statement leaves alone.\<close>

lemma sql_frame:
  assumes laws: "sql_laws sql tables"
  shows "replace_energy_state sql row db = Inr db' \<Longrightarrow>
      t_demand_state (tables db') = t_demand_state (tables db)"
    "replace_demand_state sql drow db = Inr db' \<Longrightarrow>
      t_energy_state (tables db') = t_energy_state (tables db)"
    "replace_demand_state sql drow db = Inr db' \<Longrightarrow> t_demand_state (tables db') = Some drow"
    "replace_energy_state sql row db = Inr db' \<Longrightarrow> t_energy_state (tables db') = Some row"
    "energy_history sql L v now db = Inr db' \<Longrightarrow>
      t_energy_state (tables db') = t_energy_state (tables db) \<and>
      t_demand_state (tables db') = t_demand_state (tables db)"
    "demand_history sql st v now db = Inr db' \<Longrightarrow>
      t_energy_state (tables db') = t_energy_state (tables db) \<and>
      t_demand_state (tables db') = t_demand_state (tables db)"
    "write_audit sql table req p r db = Inr db' \<Longrightarrow>
      t_energy_state (tables db') = t_energy_state (tables db) \<and>
      t_demand_state (tables db') = t_demand_state (tables db)"
proof -
  show "replace_energy_state sql row db = Inr db' \<Longrightarrow>
      t_demand_state (tables db') = t_demand_state (tables db)"
    "replace_demand_state sql drow db = Inr db' \<Longrightarrow>
      t_energy_state (tables db') = t_energy_state (tables db)"
    "replace_demand_state sql drow db = Inr db' \<Longrightarrow> t_demand_state (tables db') = Some drow"
    "replace_energy_state sql row db = Inr db' \<Longrightarrow> t_energy_state (tables db') = Some row"
    using laws by (auto simp: sql_laws_def)
  have eh: "replace_energy_history sql row2 db = Inr db' \<Longrightarrow>
      t_energy_state (tables db') = t_energy_state (tables db) \<and>
      t_demand_state (tables db') = t_demand_state (tables db)" for row2
    using laws by (auto simp: sql_laws_def)
  then show "energy_history sql L v now db = Inr db' \<Longrightarrow>
      t_energy_state (tables db') = t_energy_state (tables db) \<and>
      t_demand_state (tables db') = t_demand_state (tables db)"
    by (auto simp: energy_history_def split: option.splits)
  have dh: "replace_demand_history sql row3 db = Inr db' \<Longrightarrow>
      t_energy_state (tables db') = t_energy_state (tables db) \<and>
      t_demand_state (tables db') = t_demand_state (tables db)" for row3
    using laws by (auto simp: sql_laws_def)
  then show "demand_history sql st v now db = Inr db' \<Longrightarrow>
      t_energy_state (tables db') = t_energy_state (tables db) \<and>
      t_demand_state (tables db') = t_demand_state (tables db)"
    by (auto simp: demand_history_def)
  have "insert_reset_audit sql table row4 db = Inr db' \<Longrightarrow>
      t_energy_state (tables db') = t_energy_state (tables db) \<and>
      t_demand_state (tables db') = t_demand_state (tables db)" for row4
    using laws unfolding sql_laws_def by fastforce
  then show "write_audit sql table req p r db = Inr db' \<Longrightarrow>
      t_energy_state (tables db') = t_energy_state (tables db) \<and>
      t_demand_state (tables db') = t_demand_state (tables db)"
    by (auto simp: write_audit_def)
qed

lemma publish_demand_stored:
  "demand_window (publish_demand v st sat) = demand_window v"
  "list_all (\<lambda>r. wf_quality (rd_quality r)) (demand_readings (publish_demand v st sat)) =
   list_all (\<lambda>r. wf_quality (rd_quality r)) (demand_readings v)"
  by (simp_all add: publish_demand_def demand_readings_def assign_group_values_def phase_list_def)

lemma demand_inv_frame [simp]:
  "demand_inv (L\<lparr>led_database := db, led_energy := st, led_latest_energy := w\<rparr>) = demand_inv L"
  "energy_inv (L\<lparr>led_database := db, led_demand := dst, led_latest_demand := dw\<rparr>) = energy_inv L"
  by (simp_all add: demand_inv_def energy_inv_def)

lemma durable_ingest_energy:
  assumes laws: "sql_laws sql tables" and dur: "ledger_durable tables L" and dec: "decoded_session session"
  shows "ledger_durable tables (fst (ingest_energy sql L session sequence generation now))"
proof -
  have inv: "energy_inv L" "demand_inv L" "energy_durable tables L"
    and w: "wf_energy session" and inp: "energy_input session"
    using dur dec by (simp_all add: ledger_durable_def decoded_session_def energy_input_def)
  from w inv(1) show ?thesis
  proof (cases rule: ingest_energy_cases [of session L sql sequence generation now])
    case (accepted db)
    have e: "energy_durable tables (fst (ingest_energy sql L session sequence generation now))"
      by (rule energy_durable_ingest [OF laws inv(1,3) dec prod.collapse [symmetric]])
    have "energy_inv (fst (ingest_energy sql L session sequence generation now))"
      using energy_inv_accepted [OF inp inv(1) accepted(1,2)] by (simp add: accepted(5))
    moreover have "t_demand_state (tables db) = t_demand_state (tables (led_database L))"
      using accepted(4) sql_frame(1) [OF laws] by (auto simp: transaction_ok persist_energy_ok)
    ultimately show ?thesis
      using dur e inv(2)
      by (auto simp: ledger_durable_def accepted(5) demand_stored_def split: option.splits)
  qed (use dur in simp_all)
qed

lemma durable_ingest_demand:
  assumes laws: "sql_laws sql tables" and dur: "ledger_durable tables L" and dec: "decoded_demand session"
  shows "ledger_durable tables (fst (ingest_demand sql L session sequence generation now))"
proof (cases rule: ingest_demand_cases [of sql L session sequence generation now])
  case (accepted start peaks saturated db db1)
  have inp: "demand_input session" and inv: "demand_inv L"
    using dec dur by (simp_all add: decoded_demand_def ledger_durable_def)
  let ?v = "publish_demand session peaks saturated"
  let ?st = "finish_demand peaks session sequence generation"
  have db1: "t_energy_state (tables db1) = t_energy_state (tables (led_database L))"
    "t_demand_state (tables db1) = Some (demand_row ?v ?st (sw_sample_count (demand_window session))
       (sample_rate (demand_window session)) now (uint (ds_epoch ?st)))"
    using accepted(5) sql_frame(2,3) [OF laws] by (auto simp: persist_demand_ok)
  have "t_energy_state (tables db) = t_energy_state (tables db1) \<and>
      t_demand_state (tables db) = t_demand_state (tables db1)"
    using accepted(6) sql_frame(5,6) [OF laws] by (fastforce split: if_splits)
  then have "demand_stored tables db ?st ?v"
    using db1 dec by (auto simp: demand_stored_def publish_demand_stored decoded_demand_def)
  then show ?thesis
    using dur db1 \<open>t_energy_state (tables db) = _ \<and> _\<close>
      demand_inv_accepted [OF inp inv accepted(1,3,4), where db = db and sequence = sequence
        and generation = generation]
    by (auto simp: accepted(7) ledger_durable_def energy_durable_def)
qed (use dur in simp_all)

lemma durable_reset_energy:
  assumes laws: "sql_laws sql tables" and dur: "ledger_durable tables L"
  shows "ledger_durable tables (fst (reset_energy sql L req))"
proof (cases rule: reset_energy_cases [of sql L req])
  case (applied latest db1 db)
  have inv: "energy_inv L" "wf_energy latest" using dur applied(3)
    by (simp_all add: ledger_durable_def energy_inv_def)
  have old: "decoded_window (energy_window latest)"
    "list_all (\<lambda>r. wf_quality (rd_quality r)) (energy_readings latest)"
    using dur applied(3) by (simp_all add: ledger_durable_def energy_durable_def)
  have "t_demand_state (tables db) = t_demand_state (tables (led_database L))"
    using applied(5,6) sql_frame(1,7) [OF laws] by (auto simp: persist_energy_ok)
  moreover have "t_energy_state (tables db) = Some (energy_row (reset_value L latest) (next_reset L)
      (sw_sample_count (energy_window (reset_value L latest)))
      (sample_rate (energy_window (reset_value L latest))) (requested_at_nanoseconds req)
      (uint (es_epoch (next_reset L))))"
    using applied(5,6) sql_frame(4,7) [OF laws] by (auto simp: persist_energy_ok)
  moreover have "decoded_window (energy_window (reset_value L latest))"
    "list_all (\<lambda>r. wf_quality (rd_quality r)) (energy_readings (reset_value L latest))"
    using old inv(2) by (simp_all add: reset_value_def qualities_of_assign)
  moreover have "energy_inv (fst (reset_energy sql L req))" using inv(1) by (rule energy_inv_reset)
  ultimately show ?thesis
    using dur by (auto simp: applied(7) ledger_durable_def energy_durable_def demand_stored_def
        split: option.splits)
qed (use dur in simp_all)

lemma reset_demand_tables:
  assumes "reset_demand_peaks sql L req = (L', Inr r)" "\<not> rr_replayed r" "led_latest_demand L = Some latest"
  shows "\<exists>db1. persist_demand sql (publish_demand latest (next_peak_reset (led_demand L)) (dv_saturated latest))
      (next_peak_reset (led_demand L)) (sw_sample_count (demand_window latest))
      (sample_rate (demand_window latest)) (requested_at_nanoseconds req) (led_database L) = Inr db1 \<and>
    write_audit sql Demand_reset_audit req (ds_epoch (led_demand L))
      (ds_epoch (next_peak_reset (led_demand L))) db1 = Inr (led_database L')"
  using assms
  by (auto simp: reset_demand_peaks_def Let_def transaction_ok publish_demand_stored
      split: sum.splits option.splits if_splits)

lemma durable_reset_demand:
  assumes laws: "sql_laws sql tables" and dur: "ledger_durable tables L"
  shows "ledger_durable tables (fst (reset_demand_peaks sql L req))"
proof (cases rule: reset_demand_cases [of sql L req])
  case (applied latest db)
  let ?st = "next_peak_reset (led_demand L)"
  let ?v = "publish_demand latest ?st (dv_saturated latest)"
  obtain db1 where p: "persist_demand sql ?v ?st (sw_sample_count (demand_window latest))
      (sample_rate (demand_window latest)) (requested_at_nanoseconds req) (led_database L) = Inr db1"
    "write_audit sql Demand_reset_audit req (ds_epoch (led_demand L)) (ds_epoch ?st) db1 = Inr db"
    using reset_demand_tables [OF applied(3) _ applied(1)] by auto
  have "t_energy_state (tables db) = t_energy_state (tables (led_database L))"
    "t_demand_state (tables db) = Some (demand_row ?v ?st (sw_sample_count (demand_window latest))
       (sample_rate (demand_window latest)) (requested_at_nanoseconds req) (uint (ds_epoch ?st)))"
    using p sql_frame(2,3,7) [OF laws] by (auto simp: persist_demand_ok)
  moreover have "demand_stored tables (led_database L) (led_demand L) latest"
    using dur applied(1) by (simp add: ledger_durable_def)
  ultimately have "demand_stored tables db ?st ?v"
    "t_energy_state (tables db) = t_energy_state (tables (led_database L))"
    by (auto simp: demand_stored_def publish_demand_stored)
  moreover have "demand_inv (fst (reset_demand_peaks sql L req))"
    using dur by (intro demand_inv_reset) (simp add: ledger_durable_def)
  ultimately show ?thesis
    using dur by (auto simp: applied(3) ledger_durable_def energy_durable_def)
qed (use dur in simp_all)

section \<open>The whole ledger\<close>

datatype ledger_op =
    Op_energy energy_values u32 u32 int
  | Op_demand demand_values u32 u32 int
  | Op_reset_energy reset_request
  | Op_reset_demand reset_request

text \<open>The calls the service makes: checkpoints come from the decoders.\<close>

fun ledger_step :: "'db sql_engine \<Rightarrow> 'db ledger \<Rightarrow> ledger_op \<Rightarrow> 'db ledger" where
  "ledger_step sql L (Op_energy session sequence generation now) =
     (if decoded_session session then fst (ingest_energy sql L session sequence generation now) else L)"
| "ledger_step sql L (Op_demand session sequence generation now) =
     (if decoded_demand session then fst (ingest_demand sql L session sequence generation now) else L)"
| "ledger_step sql L (Op_reset_energy req) = fst (reset_energy sql L req)"
| "ledger_step sql L (Op_reset_demand req) = fst (reset_demand_peaks sql L req)"

interpretation durable_ledger: invariant_system "ledger_step sql"
  "\<lambda>L. sql_laws sql tables \<longrightarrow> ledger_durable tables L" for sql tables
proof
  fix L :: "'a ledger" and op
  assume "sql_laws sql tables \<longrightarrow> ledger_durable tables L"
  then show "sql_laws sql tables \<longrightarrow> ledger_durable tables (ledger_step sql L op)"
    by (cases op) (simp_all add: durable_ingest_energy durable_ingest_demand durable_reset_energy
        durable_reset_demand)
qed

lemma demand_inv_fresh: "demand_inv (fresh_ledger db)"
  by (simp add: demand_inv_def fresh_ledger_def demand_state_init_def wf_demand_state_def
      list_all_iff counter_ok_def in_int64_def int64_max_def int64_min_def)

lemma durable_fresh:
  "t_energy_state (tables db) = None \<Longrightarrow> t_demand_state (tables db) = None \<Longrightarrow>
   ledger_durable tables (fresh_ledger db)"
proof -
  assume t: "t_energy_state (tables db) = None" "t_demand_state (tables db) = None"
  have "energy_durable tables (fresh_ledger db)"
    by (simp add: energy_durable_def fresh_ledger_def)
  then show ?thesis
    using t energy_inv_fresh [of db] demand_inv_fresh [of db]
    by (simp add: ledger_durable_def del: energy_inv_fresh) (simp add: fresh_ledger_def)
qed

lemma open_durable:
  assumes laws: "sql_laws sql tables" and dur: "ledger_durable tables L"
    and sel: "select_energy_state sql (led_database L) = Inr erow"
      "select_demand_state sql (led_database L) = Inr drow"
  shows "\<exists>t1 t2. open_ledger sql (led_database L) = Inr (L
    \<lparr>led_latest_energy := map_option (\<lambda>v. stamped (es_source_sequence (led_energy L)) t1 (energy_window v) v)
       (led_latest_energy L),
     led_latest_demand := map_option (\<lambda>v. stamped_demand (ds_source_sequence (led_demand L)) t2
       (demand_window v) v) (led_latest_demand L)\<rparr>)"
proof -
  have rows: "erow = t_energy_state (tables (led_database L))" "drow = t_demand_state (tables (led_database L))"
    using laws sel by (auto simp: sql_laws_def)
  have e: "\<exists>t1. (case erow of None \<Rightarrow> Inr (energy_state_init, None)
       | Some row \<Rightarrow> bind_result (load_energy row) (\<lambda>(st, v). Inr (st, Some v))) =
    Inr (led_energy L, map_option (\<lambda>v. stamped (es_source_sequence (led_energy L)) t1 (energy_window v) v)
       (led_latest_energy L))"
  proof (cases "led_latest_energy L")
    case None
    then show ?thesis using dur rows by (simp add: ledger_durable_def)
  next
    case (Some v)
    then obtain now where r: "t_energy_state (tables (led_database L)) =
        Some (energy_row v (led_energy L) (sw_sample_count (energy_window v))
          (sample_rate (energy_window v)) now (uint (es_epoch (led_energy L))))"
      and w: "decoded_window (energy_window v)"
      and q: "list_all (\<lambda>r. wf_quality (rd_quality r)) (energy_readings v)"
      using dur by (auto simp: ledger_durable_def energy_durable_def)
    have "load_energy (energy_row v (led_energy L) (sw_sample_count (energy_window v))
          (sample_rate (energy_window v)) now (uint (es_epoch (led_energy L)))) =
      Inr (led_energy L, stamped (es_source_sequence (led_energy L)) now (energy_window v) v)"
      using load_energy_row [of v "led_energy L"] reloaded_window_decoded [OF w] q Some dur
      by (simp add: ledger_durable_def energy_inv_def)
    then show ?thesis using r rows Some by (intro exI [of _ now]) simp
  qed
  have d: "\<exists>t2. (case drow of None \<Rightarrow> Inr (demand_state_init, None)
       | Some row \<Rightarrow> bind_result (load_demand row) (\<lambda>(st, v). Inr (st, Some v))) =
    Inr (led_demand L, map_option (\<lambda>v. stamped_demand (ds_source_sequence (led_demand L)) t2
       (demand_window v) v) (led_latest_demand L))"
  proof (cases "led_latest_demand L")
    case None
    then show ?thesis using dur rows by (simp add: ledger_durable_def)
  next
    case (Some v)
    then obtain now where r: "t_demand_state (tables (led_database L)) =
        Some (demand_row v (led_demand L) (sw_sample_count (demand_window v))
          (sample_rate (demand_window v)) now (uint (ds_epoch (led_demand L))))"
      and w: "decoded_window (demand_window v)"
      and q: "list_all (\<lambda>r. wf_quality (rd_quality r)) (demand_readings v)"
      using dur by (auto simp: ledger_durable_def demand_stored_def)
    have i: "demand_inv L" using dur by (simp add: ledger_durable_def)
    have "load_demand (demand_row v (led_demand L) (sw_sample_count (demand_window v))
          (sample_rate (demand_window v)) now (uint (ds_epoch (led_demand L)))) =
      Inr (led_demand L, stamped_demand (ds_source_sequence (led_demand L)) now (demand_window v) v)"
      using load_demand_row [OF _ demand_inv_agrees [OF i Some] q] reloaded_window_decoded [OF w] i
      by (simp add: demand_inv_def)
    then show ?thesis using r rows Some by (intro exI [of _ now]) simp
  qed
  from e d obtain t1 t2 where
    "open_ledger sql (led_database L) = Inr \<lparr>led_database = led_database L,
       led_latest_energy = map_option (\<lambda>v. stamped (es_source_sequence (led_energy L)) t1
         (energy_window v) v) (led_latest_energy L),
       led_latest_demand = map_option (\<lambda>v. stamped_demand (ds_source_sequence (led_demand L)) t2
         (demand_window v) v) (led_latest_demand L),
       led_energy = led_energy L, led_demand = led_demand L\<rparr>"
    using sel by (auto simp: open_ledger_def)
  then show ?thesis by (intro exI [of _ t1] exI [of _ t2]) simp
qed



section \<open>A concrete demand run\<close>

definition sample_reading :: "int \<Rightarrow> reading" where
  "sample_reading x = reading_init\<lparr>rd_value := x, rd_quality := Q_valid\<rparr>"

definition sample_demand :: "int \<Rightarrow> int \<Rightarrow> demand_values" where
  "sample_demand current peak = demand_values_init
     \<lparr>current_active := phase_group (replicate 4 (sample_reading current)),
      import_peak := phase_group (replicate 4 (sample_reading peak)),
      export_peak := phase_group (replicate 4 (sample_reading 0)),
      dv_session_id := 9, dv_window_seconds := 60, dv_update_seconds := 3,
      dv_profile_generation := 1\<rparr>"

lemma sample_demand_ok:
  "in_int64 c \<Longrightarrow> in_int64 p \<Longrightarrow> demand_input (sample_demand c p)"
  "0 \<le> p \<Longrightarrow> demand_checks_pass (sample_demand c p)"
  by (simp_all add: demand_input_def demand_checks_pass_def demand_readings_def sample_demand_def
      phase_list_group sample_reading_def flatten_demand_values_def list_all_iff in_int64_def
      int64_min_def int64_max_def)

lemma sample_in_range: "in_int64 0" "in_int64 40" "in_int64 100" "in_int64 250"
  by (simp_all add: in_int64_def int64_min_def int64_max_def)

lemma memory_ingest_demand:
  assumes "demand_checks_pass session" "prepare_demand L session = Inr start"
    "\<not> (same_profile_instance L session \<and> sequence \<le> ds_source_sequence (led_demand L))"
    "dv_method session = sliding" "demand_input session" "demand_inv L" "ds_epoch start \<le> 100"
  shows "\<exists>v. ingest_demand memory_engine L session sequence generation now =
    (fst (ingest_demand memory_engine L session sequence generation now), Inr v)"
proof -
  obtain peaks sat where r: "demand_result start session = (peaks, sat)" by fastforce
  have st: "wf_demand_state start"
    using assms(2,6) by (auto simp: demand_inv_def intro: prepare_demand_ok)
  have "uint (ds_epoch start) \<le> 100" using assms(7) by (simp add: word_le_def)
  then have "uint (ds_epoch (finish_demand peaks session sequence generation)) \<le> int64_max"
    using demand_result_peaks(5) [OF assms(5) st r] by (simp add: finish_demand_def int64_max_def)
  then show ?thesis
    using ingest_demand_eq [OF assms(1), of memory_engine L sequence generation now] assms(2-4) r
    by (auto simp: store_demand_def transaction_def persist_demand_def bind_u64_def memory_engine_def
        publish_demand_def)
qed

definition sample_demand_ledger :: "ledger_tables ledger" where
  "sample_demand_ledger = fst (ingest_demand memory_engine sample_fresh (sample_demand 40 250) 1 1 10)"

lemma sample_demand_ingest:
  "\<exists>v. ingest_demand memory_engine sample_fresh (sample_demand 40 250) 1 1 10 =
     (sample_demand_ledger, Inr v)"
  unfolding sample_demand_ledger_def
proof (rule memory_ingest_demand [where start = demand_state_init])
  show "prepare_demand sample_fresh (sample_demand 40 250) = Inr demand_state_init"
    by (simp add: prepare_demand_def sample_fresh_def fresh_ledger_def profile_changed_def
        same_profile_instance_def same_demand_session_def demand_state_init_def)
qed (simp_all add: sample_demand_ok sample_in_range sample_fresh_def demand_inv_fresh,
     simp_all add: sample_demand_def demand_values_init_def same_profile_instance_def
       same_demand_session_def fresh_ledger_def demand_state_init_def)

theorem demand_peak_maximum_witness:
  "\<exists>v. ingest_demand memory_engine sample_fresh (sample_demand 40 250) 1 1 10 =
       (sample_demand_ledger, Inr v) \<and>
     flatten_demand_values (import_peak v) ! 3 = 250 \<and> flatten_demand_values (export_peak v) ! 3 = 0"
proof -
  obtain v where v: "ingest_demand memory_engine sample_fresh (sample_demand 40 250) 1 1 10 =
     (sample_demand_ledger, Inr v)"
    using sample_demand_ingest by blast
  have f: "demand_inv sample_fresh" by (simp add: sample_fresh_def demand_inv_fresh)
  have n: "\<not> same_profile_instance sample_fresh (sample_demand 40 250)"
    "\<not> profile_changed sample_fresh (sample_demand 40 250)"
    by (simp_all add: same_profile_instance_def same_demand_session_def profile_changed_def)
      (simp_all add: sample_fresh_def fresh_ledger_def)
  show ?thesis
    using demand_peak_maximum [OF sample_demand_ok(1) [OF sample_in_range(2,4)] f v _, of 3] n v
    by (simp add: sample_fresh_def fresh_ledger_def demand_state_init_def live_import_def
        live_export_def current_demand_def current_quality_def sample_demand_def
        flatten_demand_values_def phase_list_group sample_reading_def)
qed

lemma sample_demand_state:
  "demand_inv sample_demand_ledger" "led_latest_demand sample_demand_ledger \<noteq> None"
  "same_profile_instance sample_demand_ledger (sample_demand 40 250)"
  "ds_source_sequence (led_demand sample_demand_ledger) = 1"
  "ds_epoch (led_demand sample_demand_ledger) = 0"
  "t_reset_audit (led_database sample_demand_ledger) t k = None"
proof -
  obtain v where v: "ingest_demand memory_engine sample_fresh (sample_demand 40 250) 1 1 10 =
     (sample_demand_ledger, Inr v)"
    using sample_demand_ingest by blast
  have f: "demand_inv sample_fresh" by (simp add: sample_fresh_def demand_inv_fresh)
  show "demand_inv sample_demand_ledger" "led_latest_demand sample_demand_ledger \<noteq> None"
    "same_profile_instance sample_demand_ledger (sample_demand 40 250)"
    "ds_source_sequence (led_demand sample_demand_ledger) = 1"
    using ingested_demand [OF sample_demand_ok(1) [OF sample_in_range(2,4)] f v] by auto
  show "ds_epoch (led_demand sample_demand_ledger) = 0"
    "t_reset_audit (led_database sample_demand_ledger) t k = None"
  proof (atomize (full), cases rule: ingest_demand_cases
      [of memory_engine sample_fresh "sample_demand 40 250" 1 1 10])
    case (accepted start peaks saturated db db1)
    have st: "wf_demand_state start"
      using f accepted(3) by (auto simp: demand_inv_def intro: prepare_demand_ok)
    have L: "sample_demand_ledger = sample_fresh\<lparr>led_database := db,
        led_demand := finish_demand peaks (sample_demand 40 250) 1 1,
        led_latest_demand := Some (publish_demand (sample_demand 40 250) peaks saturated)\<rparr>"
      unfolding sample_demand_ledger_def by (simp add: accepted(7))
    have "ds_epoch start = 0"
      using accepted(3) by (simp add: prepare_demand_def Let_def profile_changed_def
          same_profile_instance_def same_demand_session_def sample_fresh_def fresh_ledger_def
          demand_state_init_def) auto
    then have "ds_epoch peaks = 0"
      using demand_result_peaks(5) [OF sample_demand_ok(1) [OF sample_in_range(2,4)] st accepted(4)] by simp
    moreover have "db = db1" "t_reset_audit db1 = t_reset_audit empty_tables"
      using accepted(5,6)
      by (auto simp: sample_demand_def demand_values_init_def persist_demand_ok memory_engine_def
          sample_fresh_def fresh_ledger_def)
    ultimately show "ds_epoch (led_demand sample_demand_ledger) = 0 \<and>
        t_reset_audit (led_database sample_demand_ledger) t k = None"
      by (simp add: L finish_demand_def empty_tables_def)
  qed (use v in \<open>auto simp: sample_fresh_def fresh_ledger_def\<close>)
qed

definition sample_peak_reset_ledger :: "ledger_tables ledger" where
  "sample_peak_reset_ledger = fst (reset_demand_peaks memory_engine sample_demand_ledger sample_reset_request)"

lemma sample_peak_reset:
  "reset_demand_peaks memory_engine sample_demand_ledger sample_reset_request =
     (sample_peak_reset_ledger, Inr \<lparr>rr_epoch = 1, rr_replayed = False\<rparr>)"
proof -
  obtain latest where "led_latest_demand sample_demand_ledger = Some latest"
    using sample_demand_state(2) by blast
  then show ?thesis
    using sample_demand_state(5,6)
    by (simp add: sample_peak_reset_ledger_def reset_demand_peaks_def validate_reset_def
        sample_reset_request_def memory_engine_def transaction_def persist_demand_def write_audit_def
        bind_u64_def audit_row_def int64_max_def Let_def next_peak_reset_def)
qed

lemma sample_peak_reset_state:
  "led_demand sample_peak_reset_ledger = next_peak_reset (led_demand sample_demand_ledger)"
  "demand_inv sample_peak_reset_ledger"
  "same_profile_instance sample_peak_reset_ledger (sample_demand 100 250)"
proof -
  show inv: "demand_inv sample_peak_reset_ledger"
    unfolding sample_peak_reset_ledger_def by (rule demand_inv_reset) (rule sample_demand_state)
  show "led_demand sample_peak_reset_ledger = next_peak_reset (led_demand sample_demand_ledger)"
    "same_profile_instance sample_peak_reset_ledger (sample_demand 100 250)"
  proof (atomize (full), cases rule: reset_demand_cases [of memory_engine sample_demand_ledger
        sample_reset_request])
    case (applied latest db)
    have L: "sample_peak_reset_ledger = sample_demand_ledger\<lparr>led_database := db,
        led_demand := next_peak_reset (led_demand sample_demand_ledger),
        led_latest_demand := Some (publish_demand latest (next_peak_reset (led_demand sample_demand_ledger))
          (dv_saturated latest))\<rparr>"
      unfolding sample_peak_reset_ledger_def by (simp add: applied(3))
    show "led_demand sample_peak_reset_ledger = next_peak_reset (led_demand sample_demand_ledger) \<and>
        same_profile_instance sample_peak_reset_ledger (sample_demand 100 250)"
      using sample_demand_state(3)
      by (simp add: L same_profile_instance_def same_demand_session_def same_semantics_def
          next_peak_reset_def sample_demand_def)
  qed (use sample_peak_reset in simp_all)
qed

lemma sample_raw:
  "ds_raw_import (led_demand sample_demand_ledger) = replicate 4 250"
  "ds_raw_export (led_demand sample_demand_ledger) = replicate 4 0"
proof -
  obtain v where v: "ingest_demand memory_engine sample_fresh (sample_demand 40 250) 1 1 10 =
     (sample_demand_ledger, Inr v)"
    using sample_demand_ingest by blast
  have f: "demand_inv sample_fresh" by (simp add: sample_fresh_def demand_inv_fresh)
  show "ds_raw_import (led_demand sample_demand_ledger) = replicate 4 250"
    "ds_raw_export (led_demand sample_demand_ledger) = replicate 4 0"
    using ingested_demand [OF sample_demand_ok(1) [OF sample_in_range(2,4)] f v]
    by (simp_all add: demand_content_differs_def sample_demand_def flatten_demand_values_def
        phase_list_group sample_reading_def numeral_eq_Suc)
qed

theorem demand_reset_watermark_witness:
  "\<exists>L3 v'. ingest_demand memory_engine sample_peak_reset_ledger (sample_demand 100 250) 2 1 30 =
       (L3, Inr v') \<and>
     flatten_demand_values (import_peak v') ! 3 = 100 \<and>
     (\<exists>latest. led_latest_demand sample_peak_reset_ledger = Some latest \<and>
        ingest_demand memory_engine sample_peak_reset_ledger (sample_demand 40 250) 1 1 20 =
          (sample_peak_reset_ledger, Inr latest))"
proof -
  obtain v where v: "ingest_demand memory_engine sample_fresh (sample_demand 40 250) 1 1 10 =
     (sample_demand_ledger, Inr v)"
    using sample_demand_ingest by blast
  have f: "demand_inv sample_fresh" by (simp add: sample_fresh_def demand_inv_fresh)
  note st = sample_peak_reset_state
  have "\<exists>v'. ingest_demand memory_engine sample_peak_reset_ledger (sample_demand 100 250) 2 1 30 =
      (fst (ingest_demand memory_engine sample_peak_reset_ledger (sample_demand 100 250) 2 1 30), Inr v')"
  proof (rule memory_ingest_demand [where start = "led_demand sample_peak_reset_ledger"])
    show "prepare_demand sample_peak_reset_ledger (sample_demand 100 250) =
        Inr (led_demand sample_peak_reset_ledger)"
      using st(3) sample_raw
      by (auto simp: prepare_demand_def Let_def profile_changed_def same_profile_instance_def st(1)
          next_peak_reset_def sample_demand_def flatten_demand_values_def phase_list_group
          sample_reading_def list_ex_iff)
    have "\<not> (2 :: u32) \<le> 1" by (simp add: word_le_def)
    then show "\<not> (same_profile_instance sample_peak_reset_ledger (sample_demand 100 250) \<and>
        2 \<le> ds_source_sequence (led_demand sample_peak_reset_ledger))"
      by (simp add: st(1) next_peak_reset_def sample_demand_state(4))
    show "ds_epoch (led_demand sample_peak_reset_ledger) \<le> 100"
      by (simp add: st(1) next_peak_reset_def sample_demand_state(5))
  qed (simp_all add: sample_demand_ok sample_in_range st(2) st(1) next_peak_reset_def
        sample_demand_state(4), simp_all add: sample_demand_def demand_values_init_def)
  then obtain L3 v' where v': "ingest_demand memory_engine sample_peak_reset_ledger
      (sample_demand 100 250) 2 1 30 = (L3, Inr v')" by blast
  show ?thesis
    using demand_reset_watermark [OF sample_demand_ok(1) [OF sample_in_range(2,4)] f v sample_peak_reset _
        sample_demand_ok(1) [OF sample_in_range(3,4)] st(3) v', of 3 20] v'
    by (auto simp: live_import_def current_demand_def current_quality_def sample_demand_def
        flatten_demand_values_def phase_list_group sample_reading_def)
qed

end
