(* ===== verification/Meter_Values.thy ===== *)
theory Meter_Values
  imports Energy_Demand
begin

text \<open>
  The typed values of the decoded meter data (\<^verbatim>\<open>common/msap1/meter/meter_data.hpp\<close>) and the payload
  decoders that fill them from the words of a record (the anonymous-namespace functions of
  \<^verbatim>\<open>meter_data.cpp\<close>): fundamental, power, phasor and unbalance values. The unit tag of a
  \<^verbatim>\<open>Reading<Unit>\<close> carries no data and is dropped. The words are read at constant positions below
  64, where \<^verbatim>\<open>MeterRecord::word\<close> does not throw.
\<close>

unbundle bit_operations_syntax

section \<open>Typed values\<close>

datatype record_kind =
    RK_fundamental | RK_power | RK_energy | RK_demand | RK_power_quality | RK_phasor | RK_unbalance
  | RK_harmonic | RK_power_quality_event | RK_flicker | RK_mains_signal | RK_frequency_10s

record 'a phase_abc =
  abc_a :: 'a
  abc_b :: 'a
  abc_c :: 'a

record 'a phase_abcn =
  abcn_a :: 'a
  abcn_b :: 'a
  abcn_c :: 'a
  abcn_neutral :: 'a

definition abc_list :: "'a phase_abc \<Rightarrow> 'a list" where
  "abc_list g = [abc_a g, abc_b g, abc_c g]"

definition abcn_list :: "'a phase_abcn \<Rightarrow> 'a list" where
  "abcn_list g = [abcn_a g, abcn_b g, abcn_c g, abcn_neutral g]"

text \<open>Aggregate initialisation \<^verbatim>\<open>{f(i), f(j), f(k)}\<close> and \<^verbatim>\<open>{f(i), f(j), f(k), f(n)}\<close>.\<close>

definition abc_of :: "('i \<Rightarrow> 'a) \<Rightarrow> 'i \<Rightarrow> 'i \<Rightarrow> 'i \<Rightarrow> 'a phase_abc" where
  "abc_of f i j k = \<lparr>abc_a = f i, abc_b = f j, abc_c = f k\<rparr>"

definition abcn_of :: "('i \<Rightarrow> 'a) \<Rightarrow> 'i \<Rightarrow> 'i \<Rightarrow> 'i \<Rightarrow> 'i \<Rightarrow> 'a phase_abcn" where
  "abcn_of f i j k n = \<lparr>abcn_a = f i, abcn_b = f j, abcn_c = f k, abcn_neutral = f n\<rparr>"

lemma abc_list_of [simp]: "abc_list (abc_of f i j k) = map f [i, j, k]"
  by (simp add: abc_list_def abc_of_def)

lemma abcn_list_of [simp]: "abcn_list (abcn_of f i j k n) = map f [i, j, k, n]"
  by (simp add: abcn_list_def abcn_of_def)

record fundamental_values =
  fv_frequency :: reading
  fv_voltage_ln :: "reading phase_abc"
  fv_current :: "reading phase_abcn"
  fv_voltage_ll :: "reading phase_abc"

record power_values =
  pv_active_power :: "reading phase_abc"
  pv_apparent_power :: "reading phase_abc"
  pv_power_factor :: "reading phase_abc"
  pv_total_active_power :: reading
  pv_total_apparent_power :: reading
  pv_total_power_factor :: reading
  pv_voltage_crest :: "reading phase_abc"
  pv_current_crest :: "reading phase_abcn"

datatype load_nature = LN_undefined | LN_unity | LN_lagging | LN_leading

record phasor_values =
  ph_fundamental_voltage :: "reading phase_abc"
  ph_fundamental_current :: "reading phase_abcn"
  ph_fundamental_voltage_ll :: "reading phase_abc"
  ph_voltage_angle :: "reading phase_abc"
  ph_current_angle :: "reading phase_abcn"
  ph_voltage_ll_angle :: "reading phase_abc"
  ph_displacement_angle :: "reading phase_abc"
  ph_reactive_power :: "reading phase_abc"
  ph_total_reactive_power :: reading
  ph_fundamental_active_power :: "reading phase_abc"
  ph_total_fundamental_active_power :: reading
  ph_displacement_power_factor :: "reading phase_abc"
  ph_total_displacement_power_factor :: reading
  ph_load_nature :: "load_nature phase_abc"
  ph_total_load_nature :: load_nature
  ph_angle_reference_valid :: bool
  ph_phasor_invalid :: bool

record unbalance_values =
  ub_voltage_zero_sequence :: reading
  ub_voltage_positive_sequence :: reading
  ub_voltage_negative_sequence :: reading
  ub_voltage_zero_angle :: reading
  ub_voltage_positive_angle :: reading
  ub_voltage_negative_angle :: reading
  ub_current_zero_sequence :: reading
  ub_current_positive_sequence :: reading
  ub_current_negative_sequence :: reading
  ub_current_zero_angle :: reading
  ub_current_positive_angle :: reading
  ub_current_negative_angle :: reading
  ub_voltage_zero_ratio :: reading
  ub_voltage_unbalance :: reading
  ub_current_zero_ratio :: reading
  ub_current_unbalance :: reading
  ub_angle_reference_valid :: bool
  ub_phasor_invalid :: bool

datatype energy_quadrant = quadrant_i | quadrant_ii | quadrant_iii | quadrant_iv | quadrant_none

definition classify_energy_quadrant :: "int \<Rightarrow> int \<Rightarrow> energy_quadrant" where
  "classify_energy_quadrant active_power fundamental_reactive_power =
     (if fundamental_reactive_power = 0 then quadrant_none
      else if fundamental_reactive_power > 0 then
        (if active_power < 0 then quadrant_ii else quadrant_i)
      else if active_power < 0 then quadrant_iii else quadrant_iv)"

text \<open>
  \<^verbatim>\<open>EnergyValues::reactive\<close>: the numerical value of \<^verbatim>\<open>EnergyQuadrant::none\<close> is 0xff, outside of
  the array.
\<close>

definition quadrant_index :: "energy_quadrant \<Rightarrow> nat" where
  "quadrant_index q = (case q of quadrant_i \<Rightarrow> 0 | quadrant_ii \<Rightarrow> 1 | quadrant_iii \<Rightarrow> 2
     | quadrant_iv \<Rightarrow> 3 | quadrant_none \<Rightarrow> 255)"

definition energy_reactive :: "energy_values \<Rightarrow> energy_quadrant \<Rightarrow> reading phase_abc_total result" where
  "energy_reactive values quadrant =
     (if quadrant_index quadrant \<ge> length (reactive_quadrants values)
      then Inl (Out_of_range ''energy quadrant'')
      else Inr (reactive_quadrants values ! quadrant_index quadrant))"

datatype power_quality_record_kind = PQ_periodic | PQ_event_start | PQ_event_end

datatype power_quality_event_type = PQ_none | PQ_sag | PQ_swell | PQ_interruption

record power_quality_values =
  pq_kind :: power_quality_record_kind
  pq_event_type :: power_quality_event_type
  pq_affected_phases :: u8
  pq_armed :: bool
  pq_cycle_locked :: bool
  pq_synthetic_half_cycle :: bool
  pq_voltage :: "reading phase_abc"
  pq_voltage_minimum :: "reading phase_abc"
  pq_voltage_maximum :: "reading phase_abc"
  pq_current :: "reading phase_abc"
  pq_event_sequence :: u32
  pq_duration_samples :: u64
  pq_half_cycle_updates :: u32
  pq_reference_micro_volts :: u32
  pq_sag_threshold_e4 :: u32
  pq_swell_threshold_e4 :: u32
  pq_interruption_threshold_e4 :: u32
  pq_hysteresis_e4 :: u32

record frequency_10s_metadata =
  fm_interval_end_sample_index :: u64
  fm_utc_start_nanoseconds :: u64
  fm_utc_end_nanoseconds :: u64
  fm_utc_uncertainty_nanoseconds :: u64
  fm_measured_sample_rate_millihz :: u32
  fm_source_sequence :: u32
  fm_boundary_generation :: u32
  fm_source_status :: u32
  fm_status :: u32
  fm_reasons :: u32
  fm_observer_drop_count :: u32
  fm_guard_flags :: u8
  fm_observed_crossings :: u32
  fm_included_crossings :: u32
  fm_rejected_cycles :: u32
  fm_duration_q16_samples :: u64
  fm_first_crossing_q16_samples :: int
  fm_last_crossing_q16_samples :: int
  fm_nominal_frequency_hz :: u8
  fm_reference_channel :: u8
  fm_filter_profile :: u8
  fm_calibration_profile :: u8

record meter_update =
  mu_period :: measurement_period
  mu_kind :: record_kind
  mu_sequence :: u64
  mu_configuration_generation :: u32
  mu_fundamental :: "fundamental_values option"
  mu_power :: "power_values option"
  mu_phasor :: "phasor_values option"
  mu_unbalance :: "unbalance_values option"
  mu_energy :: "energy_values option"
  mu_demand :: "demand_values option"
  mu_power_quality :: "power_quality_values option"
  mu_frequency_10s :: "frequency_10s_metadata option"
  mu_timing :: "block_timing option"
  mu_aggregate_timing :: "aggregate_timing option"

text \<open>The default member initialisers of \<^verbatim>\<open>MeterUpdate update{}\<close>.\<close>

definition meter_update_init :: meter_update where
  "meter_update_init =
     \<lparr>mu_period = Basic, mu_kind = RK_fundamental, mu_sequence = 0,
      mu_configuration_generation = 0, mu_fundamental = None, mu_power = None, mu_phasor = None,
      mu_unbalance = None, mu_energy = None, mu_demand = None, mu_power_quality = None,
      mu_frequency_10s = None, mu_timing = None, mu_aggregate_timing = None\<rparr>"

section \<open>Quality of a reading\<close>

record aggregate_payload_state =
  ps_arithmetic_error :: bool
  ps_invalid :: bool

definition two_hour_status :: "meter_record \<Rightarrow> meter_ten_minute_status" where
  "two_hour_status r = ten_minute_status r"

definition aggregate_payload_state ::
    "meter_record \<Rightarrow> measurement_period \<Rightarrow> aggregate_payload_state" where
  "aggregate_payload_state r period =
     (if period \<notin> {Min10, Hour2, Min10Live, Hour2Live}
      then \<lparr>ps_arithmetic_error = False, ps_invalid = False\<rparr>
      else let status = (if period = Hour2 \<or> period = Hour2Live then two_hour_status r
                         else ten_minute_status r);
               preview = (period = Min10Live \<or> period = Hour2Live);
               preview_contract_invalid = (preview \<and>
                 (tm_complete status \<or> \<not> tm_open_interval status \<or> \<not> tm_non_normative status));
               incomplete = ((record_format r = meter_ten_minute_format \<or>
                              record_format r = meter_two_hour_format) \<and> \<not> tm_complete status)
        in \<lparr>ps_arithmetic_error = tm_arithmetic_error status,
            ps_invalid = (incomplete \<or> preview_contract_invalid \<or> \<not> tm_time_aligned status \<or>
                          tm_contaminated status \<or> \<not> tm_boundary_valid status)\<rparr>)"

definition basic_reading :: "int \<Rightarrow> bool \<Rightarrow> u64 \<Rightarrow> int \<Rightarrow> sample_window \<Rightarrow> reading" where
  "basic_reading value valid sequence timestamp window =
     \<lparr>rd_value = value, rd_quality = (if valid then Q_valid else Q_unavailable),
      rd_source_sequence = sequence, rd_measured_at = timestamp, rd_calculation_window = window\<rparr>"

text \<open>
  The order in which \<^verbatim>\<open>payload_reading\<close>, \<^verbatim>\<open>aggregate_reading\<close> and the \<^verbatim>\<open>quality\<close> lambdas of the phasor
  and unbalance decoders grade a value: an arithmetic error outranks an invalid interval, which
  outranks the availability of the lane.
\<close>

definition graded_quality :: "bool \<Rightarrow> bool \<Rightarrow> bool \<Rightarrow> measurement_quality" where
  "graded_quality arithmetic_error invalid available =
     (if arithmetic_error then Q_arithmetic_error
      else if invalid then Q_invalid
      else if available then Q_valid else Q_unavailable)"

definition graded_reading ::
    "int \<Rightarrow> measurement_quality \<Rightarrow> u64 \<Rightarrow> int \<Rightarrow> sample_window \<Rightarrow> reading" where
  "graded_reading value grade sequence timestamp window =
     \<lparr>rd_value = value, rd_quality = grade, rd_source_sequence = sequence,
      rd_measured_at = timestamp, rd_calculation_window = window\<rparr>"

definition payload_reading ::
    "int \<Rightarrow> bool \<Rightarrow> aggregate_payload_state \<Rightarrow> u64 \<Rightarrow> int \<Rightarrow> sample_window \<Rightarrow> reading" where
  "payload_reading value available state sequence timestamp window =
     graded_reading value
       (graded_quality (ps_arithmetic_error state) (ps_invalid state) available)
       sequence timestamp window"

definition aggregate_reading ::
    "int \<Rightarrow> bool \<Rightarrow> bool \<Rightarrow> bool \<Rightarrow> u64 \<Rightarrow> int \<Rightarrow> sample_window \<Rightarrow> reading" where
  "aggregate_reading value channel_valid arithmetic_error force_invalid sequence timestamp window =
     graded_reading value (graded_quality arithmetic_error force_invalid channel_valid)
       sequence timestamp window"

text \<open>
  \<^verbatim>\<open>sample_window\<close>: the product of a 32-bit count and a thousand million fits in 63 bits, so the
  signed arithmetic is exact.
\<close>

definition sample_window_of :: "u32 \<Rightarrow> u32 \<Rightarrow> sample_window" where
  "sample_window_of sample_count rate =
     \<lparr>sw_sample_count = sample_count,
      sw_duration = (if rate = 0 then 0 else uint sample_count * 1000000000 div uint rate)\<rparr>"

text \<open>The test \<^verbatim>\<open>(valid_mask & (1u << lane)) != 0u\<close>.\<close>

definition lane_valid :: "meter_record \<Rightarrow> nat \<Rightarrow> bool" where
  "lane_valid r lane \<longleftrightarrow> ucast (valid_mask r) AND push_bit lane 1 \<noteq> (0 :: u32)"

section \<open>Fundamental values\<close>

definition frequency_quality :: "meter_frequency_reading \<Rightarrow> measurement_quality" where
  "frequency_quality f =
     (if fr_valid f then Q_valid
      else if fr_arithmetic_error f then Q_arithmetic_error
      else if fr_out_of_range f then Q_out_of_range
      else if fr_timed_out f then Q_timed_out else Q_unavailable)"

text \<open>
  The channels of the basic record are Ia, Ib, Ic, In, Vc, Vb, Va; \<^verbatim>\<open>record.channel(i)\<close> does not
  throw below 8.
\<close>

definition channel_at :: "meter_record \<Rightarrow> nat \<Rightarrow> meter_channel_reading" where
  "channel_at r index =
     (case channel r index of
        Inr c \<Rightarrow> c
      | Inl _ \<Rightarrow> \<lparr>ch_valid = False, mean_micro_units = 0, rms_count = 0, rms_micro_units = 0\<rparr>)"

definition decode_fundamental_values ::
    "meter_record \<Rightarrow> u64 \<Rightarrow> int \<Rightarrow> sample_window \<Rightarrow> fundamental_values" where
  "decode_fundamental_values r sequence received_at window =
     (let rms = (\<lambda>index. basic_reading (rms_micro_units (channel_at r index))
                   (ch_valid (channel_at r index)) sequence received_at window);
          pair = (\<lambda>(word, a, b). basic_reading (uint (w32 r word))
                   (ch_valid (channel_at r a) \<and> ch_valid (channel_at r b))
                   sequence received_at window)
      in \<lparr>fv_frequency = graded_reading (uint (fr_millihz (frequency r)))
            (frequency_quality (frequency r)) sequence received_at window,
          fv_voltage_ln = abc_of rms 6 5 4,
          fv_current = abcn_of rms 0 1 2 3,
          fv_voltage_ll = abc_of pair (51, 6, 5) (52, 5, 4) (53, 4, 6)\<rparr>)"

definition aggregate_rms_at :: "meter_record \<Rightarrow> nat \<Rightarrow> int" where
  "aggregate_rms_at r index = (case aggregate_rms_micro_units r index of Inr v \<Rightarrow> v | Inl _ \<Rightarrow> 0)"

definition aggregate_frequency_millihz :: "meter_record \<Rightarrow> u32" where
  "aggregate_frequency_millihz r = w32 r 32"

definition decode_aggregate_fundamental_values ::
    "meter_record \<Rightarrow> u64 \<Rightarrow> int \<Rightarrow> sample_window \<Rightarrow> bool \<Rightarrow> bool \<Rightarrow> fundamental_values" where
  "decode_aggregate_fundamental_values r sequence received_at window arithmetic_error force_invalid =
     (let rms = (\<lambda>lane. aggregate_reading (aggregate_rms_at r lane) (lane_valid r lane)
                   arithmetic_error force_invalid sequence received_at window);
          voltage_pair = (\<lambda>(word, lane_a, lane_b). aggregate_reading (uint (w32 r word))
                   (lane_valid r lane_a \<and> lane_valid r lane_b)
                   arithmetic_error force_invalid sequence received_at window)
      in \<lparr>fv_frequency = graded_reading (uint (aggregate_frequency_millihz r)) Q_unavailable
            sequence received_at window,
          fv_voltage_ln = abc_of rms 6 5 4,
          fv_current = abcn_of rms 0 1 2 3,
          fv_voltage_ll = abc_of voltage_pair (38, 6, 5) (39, 5, 4) (40, 4, 6)\<rparr>)"

section \<open>Power values\<close>

text \<open>Phase A, B, C are the lanes Va/Ia, Vb/Ib, Vc/Ic.\<close>

definition voltage_lane :: "nat \<Rightarrow> nat" where "voltage_lane phase = [6, 5, 4] ! phase"
definition current_lane :: "nat \<Rightarrow> nat" where "current_lane phase = [0, 1, 2] ! phase"

definition phase_lanes_valid :: "meter_record \<Rightarrow> nat \<Rightarrow> bool" where
  "phase_lanes_valid r phase \<longleftrightarrow>
     lane_valid r (voltage_lane phase) \<and> lane_valid r (current_lane phase)"

definition totals_valid :: "meter_record \<Rightarrow> bool" where
  "totals_valid r \<longleftrightarrow> lane_valid r 6 \<and> lane_valid r 0"

text \<open>The guards every sibling payload decoder starts with.\<close>

definition payload_checks :: "meter_record \<Rightarrow> u32 \<Rightarrow> string \<Rightarrow> (bool \<times> exn) list" where
  "payload_checks r expected_format name =
     [(header_valid r \<and> record_format r = expected_format,
         Invalid_argument (''invalid '' @ name @ '' record'')),
      (block_sample_count r \<noteq> 0,
         Invalid_argument (name @ '' record has a zero sample count'')),
      (first_sample_index r \<noteq> 0,
         Invalid_argument (name @ '' record has a zero first-sample index''))]"

definition power_payload_values ::
    "meter_record \<Rightarrow> int \<Rightarrow> measurement_period \<Rightarrow> power_values" where
  "power_payload_values r received_at period =
     (let sequence = ucast (rec_sequence r);
          window = sample_window_of (block_sample_count r) (sample_rate_hz r);
          state = aggregate_payload_state r period;
          published = (\<lambda>value available.
            payload_reading value available state sequence received_at window);
          base = (\<lambda>phase :: nat. 16 + phase * 5);
          phase_p = (\<lambda>phase. published (signed64 r (base phase)) (phase_lanes_valid r phase));
          phase_s = (\<lambda>phase. published (signed64 r (base phase + 2)) (phase_lanes_valid r phase));
          phase_pf = (\<lambda>phase. published (sint (w32 r (base phase + 4)))
            (phase_lanes_valid r phase \<and> signed64 r (base phase + 2) \<noteq> 0));
          crest = (\<lambda>lane. published (uint (w32 r (36 + lane))) (lane_valid r lane));
          total_s = signed64 r 33
      in \<lparr>pv_active_power = abc_of phase_p 0 1 2,
          pv_apparent_power = abc_of phase_s 0 1 2,
          pv_power_factor = abc_of phase_pf 0 1 2,
          pv_total_active_power = published (signed64 r 31) (totals_valid r),
          pv_total_apparent_power = published total_s (totals_valid r),
          pv_total_power_factor =
            published (sint (w32 r 35)) (totals_valid r \<and> total_s \<noteq> 0),
          pv_voltage_crest = abc_of crest 6 5 4,
          pv_current_crest = abcn_of crest 0 1 2 3\<rparr>)"

text \<open>The members a decoder sets in every update it returns.\<close>

definition update_of :: "meter_record \<Rightarrow> measurement_period \<Rightarrow> record_kind \<Rightarrow> meter_update" where
  "update_of r period kind = meter_update_init
     \<lparr>mu_period := period, mu_kind := kind, mu_sequence := ucast (rec_sequence r),
      mu_configuration_generation := configuration_generation r\<rparr>"

definition decode_power_payload ::
    "meter_record \<Rightarrow> int \<Rightarrow> u32 \<Rightarrow> measurement_period \<Rightarrow> meter_update result" where
  "decode_power_payload r received_at expected_format period =
     bind_result (require_all (payload_checks r expected_format ''power'')) (\<lambda>_.
       Inr ((update_of r period RK_power)
              \<lparr>mu_power := Some (power_payload_values r received_at period)\<rparr>))"

section \<open>Phasor values\<close>

text \<open>\<^verbatim>\<open>static_cast<LoadNature>(code & 0x3u)\<close>.\<close>

definition load_nature_of :: "u32 \<Rightarrow> load_nature" where
  "load_nature_of code =
     (if code AND 3 = 0 then LN_undefined else if code AND 3 = 1 then LN_unity
      else if code AND 3 = 2 then LN_lagging else LN_leading)"

definition phasor_block_invalid :: "meter_record \<Rightarrow> measurement_period \<Rightarrow> bool" where
  "phasor_block_invalid r period \<longleftrightarrow>
     w32 r 8 AND 2 \<noteq> 0 \<or> ps_invalid (aggregate_payload_state r period)"

definition phasor_quality ::
    "meter_record \<Rightarrow> measurement_period \<Rightarrow> bool \<Rightarrow> measurement_quality" where
  "phasor_quality r period available =
     graded_quality (ps_arithmetic_error (aggregate_payload_state r period))
       (phasor_block_invalid r period) available"

definition phasor_payload_values ::
    "meter_record \<Rightarrow> int \<Rightarrow> measurement_period \<Rightarrow> phasor_values" where
  "phasor_payload_values r received_at period =
     (let sequence = ucast (rec_sequence r);
          window = sample_window_of (block_sample_count r) (sample_rate_hz r);
          flags = w32 r 51;
          reference_valid = (flags AND 0x100 \<noteq> 0);
          published = (\<lambda>value available. graded_reading value (phasor_quality r period available)
            sequence received_at window);
          fund_of = (\<lambda>lane :: nat. uint (w32 r (16 + lane * 2)));
          fund = (\<lambda>lane. published (fund_of lane) (lane_valid r lane));
          angle = (\<lambda>lane. published (uint (w32 r (17 + lane * 2)))
            (lane_valid r lane \<and> reference_valid \<and> fund_of lane \<noteq> 0));
          pair_valid = (\<lambda>pair. lane_valid r ([6, 5, 4] ! pair) \<and> lane_valid r ([5, 4, 6] ! pair));
          vll_fund = (\<lambda>pair. published (uint (w32 r (30 + pair * 2))) (pair_valid pair));
          vll_angle = (\<lambda>pair. published (uint (w32 r (31 + pair * 2)))
            (pair_valid pair \<and> reference_valid \<and> uint (w32 r (30 + pair * 2)) \<noteq> 0));
          nature = (\<lambda>phase. load_nature_of (drop_bit (phase * 2) flags));
          disp = (\<lambda>phase. published (uint (w32 r (36 + phase)))
            (phase_lanes_valid r phase \<and> fund_of (voltage_lane phase) \<noteq> 0 \<and>
             fund_of (current_lane phase) \<noteq> 0));
          q1 = (\<lambda>phase. published (signed64 r (39 + phase * 2)) (phase_lanes_valid r phase));
          p1 = (\<lambda>phase. published (signed64 r (52 + phase * 2)) (phase_lanes_valid r phase));
          dpf = (\<lambda>phase. published (sint (w32 r (47 + phase)))
            (phase_lanes_valid r phase \<and> nature phase \<noteq> LN_undefined));
          total_nature = load_nature_of (drop_bit 6 flags)
      in \<lparr>ph_fundamental_voltage = abc_of fund 6 5 4,
          ph_fundamental_current = abcn_of fund 0 1 2 3,
          ph_fundamental_voltage_ll = abc_of vll_fund 0 1 2,
          ph_voltage_angle = abc_of angle 6 5 4,
          ph_current_angle = abcn_of angle 0 1 2 3,
          ph_voltage_ll_angle = abc_of vll_angle 0 1 2,
          ph_displacement_angle = abc_of disp 0 1 2,
          ph_reactive_power = abc_of q1 0 1 2,
          ph_total_reactive_power = published (signed64 r 45) (totals_valid r),
          ph_fundamental_active_power = abc_of p1 0 1 2,
          ph_total_fundamental_active_power = published (signed64 r 58) (totals_valid r),
          ph_displacement_power_factor = abc_of dpf 0 1 2,
          ph_total_displacement_power_factor = published (sint (w32 r 50))
            (totals_valid r \<and> total_nature \<noteq> LN_undefined),
          ph_load_nature = abc_of nature 0 1 2,
          ph_total_load_nature = total_nature,
          ph_angle_reference_valid = reference_valid,
          ph_phasor_invalid = phasor_block_invalid r period\<rparr>)"

definition decode_phasor_payload ::
    "meter_record \<Rightarrow> int \<Rightarrow> u32 \<Rightarrow> measurement_period \<Rightarrow> meter_update result" where
  "decode_phasor_payload r received_at expected_format period =
     bind_result (require_all (payload_checks r expected_format ''phasor'')) (\<lambda>_.
       Inr ((update_of r period RK_phasor)
              \<lparr>mu_phasor := Some (phasor_payload_values r received_at period)\<rparr>))"

section \<open>Unbalance values\<close>

definition unbalance_payload_values ::
    "meter_record \<Rightarrow> int \<Rightarrow> measurement_period \<Rightarrow> unbalance_values" where
  "unbalance_payload_values r received_at period =
     (let sequence = ucast (rec_sequence r);
          window = sample_window_of (block_sample_count r) (sample_rate_hz r);
          flags = w32 r 32;
          v_ratios_valid = (flags AND 1 \<noteq> 0);
          i_ratios_valid = (flags AND 2 \<noteq> 0);
          reference_valid = (flags AND 0x100 \<noteq> 0);
          v_lanes = (valid_mask r AND 0x70 = 0x70);
          i_lanes = (valid_mask r AND 0x07 = 0x07);
          published = (\<lambda>value available. graded_reading value (phasor_quality r period available)
            sequence received_at window);
          magnitude = (\<lambda>base lanes_ok. published (uint (w32 r base)) lanes_ok);
          angle_of = (\<lambda>base lanes_ok. published (uint (w32 r (base + 1)))
            (lanes_ok \<and> reference_valid \<and> uint (w32 r base) \<noteq> 0));
          ratio = (\<lambda>word available. published (uint (w32 r word)) available)
      in \<lparr>ub_voltage_zero_sequence = magnitude 16 v_lanes,
          ub_voltage_positive_sequence = magnitude 18 v_lanes,
          ub_voltage_negative_sequence = magnitude 20 v_lanes,
          ub_voltage_zero_angle = angle_of 16 v_lanes,
          ub_voltage_positive_angle = angle_of 18 v_lanes,
          ub_voltage_negative_angle = angle_of 20 v_lanes,
          ub_current_zero_sequence = magnitude 22 i_lanes,
          ub_current_positive_sequence = magnitude 24 i_lanes,
          ub_current_negative_sequence = magnitude 26 i_lanes,
          ub_current_zero_angle = angle_of 22 i_lanes,
          ub_current_positive_angle = angle_of 24 i_lanes,
          ub_current_negative_angle = angle_of 26 i_lanes,
          ub_voltage_zero_ratio = ratio 28 (v_lanes \<and> v_ratios_valid),
          ub_voltage_unbalance = ratio 29 (v_lanes \<and> v_ratios_valid),
          ub_current_zero_ratio = ratio 30 (i_lanes \<and> i_ratios_valid),
          ub_current_unbalance = ratio 31 (i_lanes \<and> i_ratios_valid),
          ub_angle_reference_valid = reference_valid,
          ub_phasor_invalid = phasor_block_invalid r period\<rparr>)"

definition decode_unbalance_payload ::
    "meter_record \<Rightarrow> int \<Rightarrow> u32 \<Rightarrow> measurement_period \<Rightarrow> meter_update result" where
  "decode_unbalance_payload r received_at expected_format period =
     bind_result (require_all (payload_checks r expected_format ''unbalance'')) (\<lambda>_.
       Inr ((update_of r period RK_unbalance)
              \<lparr>mu_unbalance := Some (unbalance_payload_values r received_at period)\<rparr>))"

section \<open>The readings of an update\<close>

definition fundamental_readings :: "fundamental_values \<Rightarrow> reading list" where
  "fundamental_readings v =
     fv_frequency v # abc_list (fv_voltage_ln v) @ abcn_list (fv_current v) @ abc_list (fv_voltage_ll v)"

definition power_readings :: "power_values \<Rightarrow> reading list" where
  "power_readings v =
     abc_list (pv_active_power v) @ abc_list (pv_apparent_power v) @ abc_list (pv_power_factor v) @
     [pv_total_active_power v, pv_total_apparent_power v, pv_total_power_factor v] @
     abc_list (pv_voltage_crest v) @ abcn_list (pv_current_crest v)"

definition phasor_readings :: "phasor_values \<Rightarrow> reading list" where
  "phasor_readings v =
     abc_list (ph_fundamental_voltage v) @ abcn_list (ph_fundamental_current v) @
     abc_list (ph_fundamental_voltage_ll v) @ abc_list (ph_voltage_angle v) @
     abcn_list (ph_current_angle v) @ abc_list (ph_voltage_ll_angle v) @
     abc_list (ph_displacement_angle v) @ abc_list (ph_reactive_power v) @
     abc_list (ph_fundamental_active_power v) @ abc_list (ph_displacement_power_factor v) @
     [ph_total_reactive_power v, ph_total_fundamental_active_power v,
      ph_total_displacement_power_factor v]"

definition unbalance_readings :: "unbalance_values \<Rightarrow> reading list" where
  "unbalance_readings v =
     [ub_voltage_zero_sequence v, ub_voltage_positive_sequence v, ub_voltage_negative_sequence v,
      ub_voltage_zero_angle v, ub_voltage_positive_angle v, ub_voltage_negative_angle v,
      ub_current_zero_sequence v, ub_current_positive_sequence v, ub_current_negative_sequence v,
      ub_current_zero_angle v, ub_current_positive_angle v, ub_current_negative_angle v,
      ub_voltage_zero_ratio v, ub_voltage_unbalance v, ub_current_zero_ratio v,
      ub_current_unbalance v]"

definition demand_value_readings :: "demand_values \<Rightarrow> reading list" where
  "demand_value_readings v =
     phase_list (current_active v) @ phase_list (import_peak v) @ phase_list (export_peak v)"

definition option_readings :: "('v \<Rightarrow> reading list) \<Rightarrow> 'v option \<Rightarrow> reading list" where
  "option_readings f v = (case v of None \<Rightarrow> [] | Some x \<Rightarrow> f x)"

lemma option_readings_simps [simp]:
  "option_readings f None = []" "option_readings f (Some v) = f v"
  by (simp_all add: option_readings_def)

text \<open>All electrical readings a decoded record contributes to the published values.\<close>

definition update_readings :: "meter_update \<Rightarrow> reading list" where
  "update_readings u =
     option_readings fundamental_readings (mu_fundamental u) @
     option_readings power_readings (mu_power u) @
     option_readings phasor_readings (mu_phasor u) @
     option_readings unbalance_readings (mu_unbalance u) @
     option_readings demand_value_readings (mu_demand u)"

lemma graded_quality_valid [simp]:
  "graded_quality arithmetic_error invalid available = Q_valid \<longleftrightarrow>
     \<not> arithmetic_error \<and> \<not> invalid \<and> available"
  by (simp add: graded_quality_def)

lemma graded_reading_fields [simp]:
  "rd_value (graded_reading v q s t w) = v" "rd_quality (graded_reading v q s t w) = q"
  "rd_source_sequence (graded_reading v q s t w) = s" "rd_measured_at (graded_reading v q s t w) = t"
  "rd_calculation_window (graded_reading v q s t w) = w"
  by (simp_all add: graded_reading_def)

lemma update_of_fields [simp]:
  "mu_period (update_of r p k) = p" "mu_kind (update_of r p k) = k"
  "mu_sequence (update_of r p k) = ucast (rec_sequence r)"
  "mu_configuration_generation (update_of r p k) = configuration_generation r"
  "mu_fundamental (update_of r p k) = None" "mu_power (update_of r p k) = None"
  "mu_phasor (update_of r p k) = None" "mu_unbalance (update_of r p k) = None"
  "mu_energy (update_of r p k) = None" "mu_demand (update_of r p k) = None"
  "mu_power_quality (update_of r p k) = None" "mu_frequency_10s (update_of r p k) = None"
  "mu_timing (update_of r p k) = None" "mu_aggregate_timing (update_of r p k) = None"
  by (simp_all add: update_of_def meter_update_init_def)

text \<open>
  What the interval flags of a record have to say before a consumer may trust a value of a
  clock-aligned or a live period.
\<close>

definition interval_trusted :: "meter_record \<Rightarrow> measurement_period \<Rightarrow> bool" where
  "interval_trusted r period \<longleftrightarrow>
     (let s = ten_minute_status r in
       (period \<in> {Min10, Hour2, Min10Live, Hour2Live} \<longrightarrow>
          \<not> tm_arithmetic_error s \<and> tm_time_aligned s \<and> \<not> tm_contaminated s \<and> tm_boundary_valid s) \<and>
       (period \<in> {Min10Live, Hour2Live} \<longrightarrow>
          \<not> tm_complete s \<and> tm_open_interval s \<and> tm_non_normative s))"

lemma payload_state_trusted:
  "\<not> ps_arithmetic_error (aggregate_payload_state r p) \<Longrightarrow>
   \<not> ps_invalid (aggregate_payload_state r p) \<Longrightarrow> interval_trusted r p"
  by (cases p) (simp_all add: aggregate_payload_state_def interval_trusted_def two_hour_status_def Let_def)

text \<open>
  The common form of the payload decoders' results: every reading carries the sequence, the
  time stamp and the window of its record, and is graded by the state of the interval.
\<close>

definition graded_by ::
    "bool \<Rightarrow> bool \<Rightarrow> u64 \<Rightarrow> int \<Rightarrow> sample_window \<Rightarrow> reading list \<Rightarrow> bool" where
  "graded_by arithmetic_error invalid s t w xs \<longleftrightarrow>
     list_all (\<lambda>x. rd_source_sequence x = s \<and> rd_measured_at x = t \<and>
       rd_calculation_window x = w \<and>
       (rd_quality x = Q_valid \<longrightarrow> \<not> arithmetic_error \<and> \<not> invalid)) xs"

lemma graded_by_Nil [simp]: "graded_by ar iv s t w []"
  by (simp add: graded_by_def)

lemma graded_by_Cons [simp]:
  "graded_by ar iv s t w (x # xs) \<longleftrightarrow>
     rd_source_sequence x = s \<and> rd_measured_at x = t \<and> rd_calculation_window x = w \<and>
     (rd_quality x = Q_valid \<longrightarrow> \<not> ar \<and> \<not> iv) \<and> graded_by ar iv s t w xs"
  by (simp add: graded_by_def)

lemma graded_by_append [simp]:
  "graded_by ar iv s t w (xs @ ys) \<longleftrightarrow> graded_by ar iv s t w xs \<and> graded_by ar iv s t w ys"
  by (simp add: graded_by_def)

lemma graded_byD:
  "graded_by ar iv s t w xs \<Longrightarrow> x \<in> set xs \<Longrightarrow> rd_quality x = Q_valid \<Longrightarrow> \<not> ar \<and> \<not> iv"
  by (auto simp: graded_by_def list_all_iff)

lemma power_payload_graded:
  "graded_by (ps_arithmetic_error (aggregate_payload_state r p))
     (ps_invalid (aggregate_payload_state r p)) (ucast (rec_sequence r)) t
     (sample_window_of (block_sample_count r) (sample_rate_hz r))
     (power_readings (power_payload_values r t p))"
  by (simp add: power_readings_def power_payload_values_def payload_reading_def Let_def)

lemma phasor_payload_graded:
  "graded_by (ps_arithmetic_error (aggregate_payload_state r p))
     (phasor_block_invalid r p) (ucast (rec_sequence r)) t
     (sample_window_of (block_sample_count r) (sample_rate_hz r))
     (phasor_readings (phasor_payload_values r t p))"
  by (simp add: phasor_readings_def phasor_payload_values_def phasor_quality_def Let_def)

lemma unbalance_payload_graded:
  "graded_by (ps_arithmetic_error (aggregate_payload_state r p))
     (phasor_block_invalid r p) (ucast (rec_sequence r)) t
     (sample_window_of (block_sample_count r) (sample_rate_hz r))
     (unbalance_readings (unbalance_payload_values r t p))"
  by (simp add: unbalance_readings_def unbalance_payload_values_def phasor_quality_def Let_def)

lemma aggregate_fundamental_graded:
  "graded_by ar iv s t w
     (fundamental_readings (decode_aggregate_fundamental_values r s t w ar iv))"
  by (simp add: fundamental_readings_def decode_aggregate_fundamental_values_def
      aggregate_reading_def Let_def)

lemma basic_fundamental_graded:
  "graded_by False False s t w (fundamental_readings (decode_fundamental_values r s t w))"
  by (simp add: fundamental_readings_def decode_fundamental_values_def basic_reading_def Let_def)

text \<open>The frequency field of an aggregate is informative only: it is never published as valid.\<close>

lemma aggregate_frequency_unavailable:
  "rd_quality (fv_frequency (decode_aggregate_fundamental_values r s t w ar iv)) = Q_unavailable"
  by (simp add: decode_aggregate_fundamental_values_def Let_def)

text \<open>A power factor is never valid where the apparent power it divides by is zero.\<close>

lemma power_factor_defined:
  assumes "phase < 3"
    and "rd_quality (abc_list (pv_power_factor (power_payload_values r t p)) ! phase) = Q_valid"
  shows "rd_value (abc_list (pv_apparent_power (power_payload_values r t p)) ! phase) \<noteq> 0"
proof -
  have "phase = 0 \<or> phase = 1 \<or> phase = 2"
    using assms(1) by auto
  then show ?thesis
    using assms(2) by (auto simp: power_payload_values_def payload_reading_def Let_def)
qed

end
