(* ===== verification/Meter_Decoders.thy ===== *)
theory Meter_Decoders
  imports Meter_Values
begin

text \<open>
  The record decoders of \<^verbatim>\<open>common/msap1/meter/meter_data.cpp\<close>: the basic, 150/180-cycle, ten-minute,
  two-hour and open-interval records with their timing identities, the UTC ten-second frequency
  record, and the decoder registry that routes a record by its format word. Each decoder is its
  list of guards in the order of the code, followed by the update it builds.
\<close>

unbundle bit_operations_syntax

section \<open>Sibling records\<close>

definition decode_power_meter_record :: "meter_record \<Rightarrow> int \<Rightarrow> meter_update result" where
  "decode_power_meter_record r t = decode_power_payload r t meter_power_format Basic"
definition decode_aggregate_power_meter_record :: "meter_record \<Rightarrow> int \<Rightarrow> meter_update result" where
  "decode_aggregate_power_meter_record r t =
     decode_power_payload r t meter_aggregate_power_format Cycles150_180"
definition decode_ten_minute_power_meter_record :: "meter_record \<Rightarrow> int \<Rightarrow> meter_update result" where
  "decode_ten_minute_power_meter_record r t =
     decode_power_payload r t meter_ten_minute_power_format Min10"
definition decode_two_hour_power_meter_record :: "meter_record \<Rightarrow> int \<Rightarrow> meter_update result" where
  "decode_two_hour_power_meter_record r t =
     decode_power_payload r t meter_two_hour_power_format Hour2"
definition decode_ten_minute_open_power_meter_record ::
    "meter_record \<Rightarrow> int \<Rightarrow> meter_update result" where
  "decode_ten_minute_open_power_meter_record r t =
     decode_power_payload r t meter_ten_minute_open_power_format Min10Live"
definition decode_two_hour_open_power_meter_record ::
    "meter_record \<Rightarrow> int \<Rightarrow> meter_update result" where
  "decode_two_hour_open_power_meter_record r t =
     decode_power_payload r t meter_two_hour_open_power_format Hour2Live"

definition decode_phasor_meter_record :: "meter_record \<Rightarrow> int \<Rightarrow> meter_update result" where
  "decode_phasor_meter_record r t = decode_phasor_payload r t meter_phasor_format Basic"
definition decode_aggregate_phasor_meter_record :: "meter_record \<Rightarrow> int \<Rightarrow> meter_update result" where
  "decode_aggregate_phasor_meter_record r t =
     decode_phasor_payload r t meter_aggregate_phasor_format Cycles150_180"
definition decode_ten_minute_phasor_meter_record :: "meter_record \<Rightarrow> int \<Rightarrow> meter_update result" where
  "decode_ten_minute_phasor_meter_record r t =
     decode_phasor_payload r t meter_ten_minute_phasor_format Min10"
definition decode_two_hour_phasor_meter_record :: "meter_record \<Rightarrow> int \<Rightarrow> meter_update result" where
  "decode_two_hour_phasor_meter_record r t =
     decode_phasor_payload r t meter_two_hour_phasor_format Hour2"
definition decode_ten_minute_open_phasor_meter_record ::
    "meter_record \<Rightarrow> int \<Rightarrow> meter_update result" where
  "decode_ten_minute_open_phasor_meter_record r t =
     decode_phasor_payload r t meter_ten_minute_open_phasor_format Min10Live"
definition decode_two_hour_open_phasor_meter_record ::
    "meter_record \<Rightarrow> int \<Rightarrow> meter_update result" where
  "decode_two_hour_open_phasor_meter_record r t =
     decode_phasor_payload r t meter_two_hour_open_phasor_format Hour2Live"

definition decode_unbalance_meter_record :: "meter_record \<Rightarrow> int \<Rightarrow> meter_update result" where
  "decode_unbalance_meter_record r t = decode_unbalance_payload r t meter_unbalance_format Basic"
definition decode_aggregate_unbalance_meter_record ::
    "meter_record \<Rightarrow> int \<Rightarrow> meter_update result" where
  "decode_aggregate_unbalance_meter_record r t =
     decode_unbalance_payload r t meter_aggregate_unbalance_format Cycles150_180"
definition decode_ten_minute_unbalance_meter_record ::
    "meter_record \<Rightarrow> int \<Rightarrow> meter_update result" where
  "decode_ten_minute_unbalance_meter_record r t =
     decode_unbalance_payload r t meter_ten_minute_unbalance_format Min10"
definition decode_two_hour_unbalance_meter_record ::
    "meter_record \<Rightarrow> int \<Rightarrow> meter_update result" where
  "decode_two_hour_unbalance_meter_record r t =
     decode_unbalance_payload r t meter_two_hour_unbalance_format Hour2"
definition decode_ten_minute_open_unbalance_meter_record ::
    "meter_record \<Rightarrow> int \<Rightarrow> meter_update result" where
  "decode_ten_minute_open_unbalance_meter_record r t =
     decode_unbalance_payload r t meter_ten_minute_open_unbalance_format Min10Live"
definition decode_two_hour_open_unbalance_meter_record ::
    "meter_record \<Rightarrow> int \<Rightarrow> meter_update result" where
  "decode_two_hour_open_unbalance_meter_record r t =
     decode_unbalance_payload r t meter_two_hour_open_unbalance_format Hour2Live"

section \<open>The basic record\<close>

text \<open>
  \<^verbatim>\<open>nominal_frequency_hz == 50u ? Hz50 : Hz60\<close>, used after the test that the field is one of them.
\<close>

definition nominal_of :: "u8 \<Rightarrow> nominal_frequency" where
  "nominal_of hz = (if hz = 50 then Hz50 else Hz60)"

definition block_timing_init :: block_timing where
  "block_timing_init =
     \<lparr>bt_sequence = 0, bt_configuration_generation = 0, bt_first_sample_index = 0,
      bt_sample_count = 0, bt_sample_rate_hz = 0, bt_cycle_count = 0, bt_nominal_frequency = Hz60,
      bt_cycle_locked = False, bt_free_run_fallback = False, bt_first_block_after_apply = False,
      bt_utc_resynchronized = False, bt_time_quality = Unsynchronized, bt_utc_start = None,
      bt_utc_uncertainty_ns = None\<rparr>"

definition periodic_checks :: "meter_record \<Rightarrow> (bool \<times> exn) list" where
  "periodic_checks r = (let tw = timing r; nominal = nominal_of (tw_nominal_frequency_hz tw) in
     [(header_valid r \<and> record_format r = meter_periodic_format,
         Invalid_argument ''invalid basic record''),
      (tw_nominal_frequency_hz tw = 50 \<or> tw_nominal_frequency_hz tw = 60,
         Invalid_argument ''invalid nominal frequency in 10/12-cycle basic timing word''),
      (block_sample_count r \<noteq> 0,
         Invalid_argument ''10/12-cycle basic interval has a zero sample count''),
      (first_sample_index r \<noteq> 0,
         Invalid_argument ''10/12-cycle basic interval has a zero first-sample index''),
      (first_sample_index r \<le> - 1 - ucast (block_sample_count r),
         Invalid_argument ''10/12-cycle basic sample range overflows the 64-bit counter''),
      (\<not> (tw_cycle_locked tw \<and> \<not> tw_free_run_fallback tw \<and>
          cycles_per_basic_block nominal \<noteq> Inr (ucast (tw_cycle_count tw))),
         Invalid_argument ''10/12-cycle basic interval has an impossible cycle count'')])"

definition periodic_update :: "meter_record \<Rightarrow> int \<Rightarrow> meter_update" where
  "periodic_update r received_at =
     (let tw = timing r;
          sequence = ucast (rec_sequence r);
          window = sample_window_of (block_sample_count r) (sample_rate_hz r)
      in (update_of r Basic RK_fundamental)
         \<lparr>mu_fundamental := Some (decode_fundamental_values r sequence received_at window),
          mu_timing := Some (block_timing_init
            \<lparr>bt_sequence := sequence,
             bt_configuration_generation := configuration_generation r,
             bt_first_sample_index := first_sample_index r,
             bt_sample_count := block_sample_count r,
             bt_sample_rate_hz := sample_rate_hz r,
             bt_cycle_count := ucast (tw_cycle_count tw),
             bt_nominal_frequency := nominal_of (tw_nominal_frequency_hz tw),
             bt_cycle_locked := tw_cycle_locked tw,
             bt_free_run_fallback := tw_free_run_fallback tw,
             bt_first_block_after_apply := tw_first_block_after_apply tw,
             bt_utc_resynchronized := tw_utc_resynchronized tw\<rparr>)\<rparr>)"

definition decode_periodic_meter_record :: "meter_record \<Rightarrow> int \<Rightarrow> meter_update result" where
  "decode_periodic_meter_record r received_at =
     bind_result (require_all (periodic_checks r)) (\<lambda>_. Inr (periodic_update r received_at))"

section \<open>The 150/180-cycle aggregate\<close>

definition aggregate_sequence :: "meter_record \<Rightarrow> u32" where "aggregate_sequence r = rec_sequence r"
definition aggregate_sample_count :: "meter_record \<Rightarrow> u32" where
  "aggregate_sample_count r = block_sample_count r"
definition aggregate_first_sample_index :: "meter_record \<Rightarrow> u64" where
  "aggregate_first_sample_index r = first_sample_index r"
definition aggregate_last_sample_index :: "meter_record \<Rightarrow> u64" where
  "aggregate_last_sample_index r = unsigned64 r 36"
definition first_basic_sequence :: "meter_record \<Rightarrow> u32" where "first_basic_sequence r = w32 r 14"
definition last_basic_sequence :: "meter_record \<Rightarrow> u32" where "last_basic_sequence r = w32 r 15"

text \<open>\<^verbatim>\<open>first + sample_count - 1u\<close> in 64-bit arithmetic.\<close>

definition expected_last_sample :: "meter_record \<Rightarrow> u64" where
  "expected_last_sample r =
     aggregate_first_sample_index r + ucast (aggregate_sample_count r) - 1"

definition aggregate_checks :: "meter_record \<Rightarrow> (bool \<times> exn) list" where
  "aggregate_checks r =
    (let status = aggregate_status r;
         composition = aggregate_composition r;
         nominal = nominal_of (ac_nominal_frequency_hz composition);
         first_sample = aggregate_first_sample_index r;
         actual_last = aggregate_last_sample_index r in
     [(header_valid r \<and> record_format r = meter_aggregate_format,
         Invalid_argument ''invalid 150/180-cycle aggregate record''),
      (ag_complete status,
         Invalid_argument ''150/180-cycle aggregate is not marked complete''),
      (ac_nominal_frequency_hz composition = 50 \<or> ac_nominal_frequency_hz composition = 60,
         Invalid_argument ''invalid nominal frequency in 150/180-cycle aggregate composition word''),
      (ucast (ac_basic_block_count composition) = basic_blocks_per_aggregate,
         Invalid_argument ''150/180-cycle aggregate is not built from exactly 15 basic intervals''),
      (cycles_per_aggregate nominal = Inr (ucast (ac_cycle_count composition)),
         Invalid_argument
           ''150/180-cycle aggregate cycle count does not match its nominal frequency''),
      (last_basic_sequence r - first_basic_sequence r = basic_blocks_per_aggregate - 1,
         Invalid_argument ''150/180-cycle aggregate does not span 15 consecutive basic intervals''),
      (aggregate_sample_count r \<noteq> 0,
         Invalid_argument ''150/180-cycle aggregate has a zero sample count''),
      (first_sample \<noteq> 0,
         Invalid_argument ''150/180-cycle aggregate has a zero first-sample index''),
      (first_sample \<le> - 1 - ucast (aggregate_sample_count r),
         Invalid_argument ''150/180-cycle aggregate sample range overflows the 64-bit counter''),
      (\<not> (ag_utc_overlap status \<and> ag_utc_resynchronized status),
         Invalid_argument ''150/180-cycle aggregate has conflicting UTC provenance''),
      (ag_utc_overlap status \<longrightarrow> first_sample \<le> actual_last \<and> actual_last \<le> expected_last_sample r,
         Invalid_argument ''150/180-cycle UTC-overlap range exceeds its contribution span''),
      (\<not> ag_utc_overlap status \<longrightarrow> actual_last = expected_last_sample r,
         Invalid_argument ''150/180-cycle aggregate sample range is discontinuous'')])"

definition aggregate_update :: "meter_record \<Rightarrow> int \<Rightarrow> meter_update" where
  "aggregate_update r received_at =
     (let status = aggregate_status r;
          composition = aggregate_composition r;
          sequence = ucast (aggregate_sequence r);
          window = sample_window_of (aggregate_sample_count r) (sample_rate_hz r)
      in (update_of r Cycles150_180 RK_fundamental)
         \<lparr>mu_sequence := sequence,
          mu_fundamental := Some (decode_aggregate_fundamental_values r sequence received_at window
             (ag_arithmetic_error status) False),
          mu_aggregate_timing := Some (aggregate_timing_init
            \<lparr>at_sequence := sequence,
             at_configuration_generation := configuration_generation r,
             at_first_sample_index := aggregate_first_sample_index r,
             at_last_sample_index := aggregate_last_sample_index r,
             at_sample_count := aggregate_sample_count r,
             at_sample_rate_hz := sample_rate_hz r,
             at_first_basic_sequence := first_basic_sequence r,
             at_last_basic_sequence := last_basic_sequence r,
             at_basic_block_count := ucast (ac_basic_block_count composition),
             at_cycle_count := ucast (ac_cycle_count composition),
             at_nominal_frequency := nominal_of (ac_nominal_frequency_hz composition),
             at_arithmetic_error := ag_arithmetic_error status,
             at_frequency_valid := ag_frequency_valid status,
             at_utc_overlap := ag_utc_overlap status,
             at_utc_resynchronized := ag_utc_resynchronized status\<rparr>)\<rparr>)"

definition decode_aggregate_meter_record :: "meter_record \<Rightarrow> int \<Rightarrow> meter_update result" where
  "decode_aggregate_meter_record r received_at =
     bind_result (require_all (aggregate_checks r)) (\<lambda>_. Inr (aggregate_update r received_at))"

section \<open>Clock-aligned and open intervals\<close>

definition two_hour_composition :: "meter_record \<Rightarrow> meter_ten_minute_composition" where
  "two_hour_composition r = ten_minute_composition r"
definition two_hour_actual_last_sample_index :: "meter_record \<Rightarrow> u64" where
  "two_hour_actual_last_sample_index r = ten_minute_actual_last_sample_index r"
definition two_hour_target_sample_index :: "meter_record \<Rightarrow> u64" where
  "two_hour_target_sample_index r = ten_minute_target_sample_index r"
definition two_hour_overshoot_samples :: "meter_record \<Rightarrow> u32" where
  "two_hour_overshoot_samples r = ten_minute_overshoot_samples r"

text \<open>
  The update the three interval decoders build: the fundamental values, forced invalid when the
  interval is contaminated, unaligned or not closed on its boundary, and the timing identity.
\<close>

definition interval_update ::
    "meter_record \<Rightarrow> int \<Rightarrow> measurement_period \<Rightarrow> u64 option \<Rightarrow> u32 option \<Rightarrow> meter_update" where
  "interval_update r received_at period target overshoot =
     (let status = ten_minute_status r;
          composition = ten_minute_composition r;
          sequence = ucast (rec_sequence r);
          window = sample_window_of (aggregate_sample_count r) (sample_rate_hz r);
          invalid_interval = (tm_contaminated status \<or> \<not> tm_time_aligned status \<or>
                              \<not> tm_boundary_valid status)
      in (update_of r period RK_fundamental)
         \<lparr>mu_fundamental := Some (decode_aggregate_fundamental_values r sequence received_at window
             (tm_arithmetic_error status) invalid_interval),
          mu_aggregate_timing := Some (aggregate_timing_init
            \<lparr>at_sequence := sequence,
             at_configuration_generation := configuration_generation r,
             at_first_sample_index := aggregate_first_sample_index r,
             at_last_sample_index := ten_minute_actual_last_sample_index r,
             at_sample_count := aggregate_sample_count r,
             at_sample_rate_hz := sample_rate_hz r,
             at_first_basic_sequence := first_basic_sequence r,
             at_last_basic_sequence := last_basic_sequence r,
             at_basic_block_count := tc_basic_block_count composition,
             at_cycle_count := tc_cycle_count composition,
             at_nominal_frequency := nominal_of (tc_nominal_frequency_hz composition),
             at_arithmetic_error := tm_arithmetic_error status,
             at_frequency_valid := False,
             at_time_aligned := tm_time_aligned status,
             at_contaminated := tm_contaminated status,
             at_boundary_valid := tm_boundary_valid status,
             at_target_sample_index := target,
             at_overshoot_samples := overshoot\<rparr>)\<rparr>)"

definition open_interval_checks :: "meter_record \<Rightarrow> u32 \<Rightarrow> (bool \<times> exn) list" where
  "open_interval_checks r expected_format =
    (let status = ten_minute_status r;
         composition = ten_minute_composition r;
         sample_count = aggregate_sample_count r;
         first_sample = aggregate_first_sample_index r in
     [(header_valid r \<and> record_format r = expected_format,
         Invalid_argument ''invalid open aggregate record''),
      (\<not> (tm_complete status \<or> \<not> tm_open_interval status \<or> \<not> tm_non_normative status),
         Invalid_argument ''open aggregate lacks its non-normative interval markers''),
      ((tc_nominal_frequency_hz composition = 50 \<or> tc_nominal_frequency_hz composition = 60) \<and>
       tc_basic_block_count composition \<noteq> 0 \<and> tc_cycle_count composition \<noteq> 0,
         Invalid_argument ''open aggregate has an invalid composition''),
      (last_basic_sequence r - first_basic_sequence r =
         ucast (tc_basic_block_count composition) - 1,
         Invalid_argument ''open aggregate source sequence span is not consecutive''),
      (sample_count \<noteq> 0 \<and> first_sample \<noteq> 0 \<and> first_sample \<le> - 1 - ucast (sample_count - 1),
         Invalid_argument ''open aggregate has an invalid sample range''),
      (ten_minute_actual_last_sample_index r = expected_last_sample r,
         Invalid_argument ''open aggregate last sample does not match its range''),
      (ten_minute_actual_last_sample_index r \<le> ten_minute_target_sample_index r \<and>
       ten_minute_overshoot_samples r = 0,
         Invalid_argument ''open aggregate expected end or overshoot is inconsistent'')])"

definition decode_open_interval_meter_record ::
    "meter_record \<Rightarrow> int \<Rightarrow> u32 \<Rightarrow> measurement_period \<Rightarrow> meter_update result" where
  "decode_open_interval_meter_record r received_at expected_format period =
     bind_result (require_all (open_interval_checks r expected_format)) (\<lambda>_.
       Inr (interval_update r received_at period (Some (ten_minute_target_sample_index r)) (Some 0)))"

definition decode_ten_minute_open_meter_record :: "meter_record \<Rightarrow> int \<Rightarrow> meter_update result" where
  "decode_ten_minute_open_meter_record r t =
     decode_open_interval_meter_record r t meter_ten_minute_open_format Min10Live"

definition decode_two_hour_open_meter_record :: "meter_record \<Rightarrow> int \<Rightarrow> meter_update result" where
  "decode_two_hour_open_meter_record r t =
     decode_open_interval_meter_record r t meter_two_hour_open_format Hour2Live"

definition ten_minute_checks :: "meter_record \<Rightarrow> (bool \<times> exn) list" where
  "ten_minute_checks r =
    (let status = ten_minute_status r;
         composition = ten_minute_composition r;
         nominal = nominal_of (tc_nominal_frequency_hz composition);
         sample_count = aggregate_sample_count r;
         first_sample = aggregate_first_sample_index r;
         actual_last = ten_minute_actual_last_sample_index r;
         target = ten_minute_target_sample_index r in
     [(header_valid r \<and> record_format r = meter_ten_minute_format,
         Invalid_argument ''invalid ten-minute aggregate record''),
      (tm_complete status, Invalid_argument ''ten-minute aggregate is not marked complete''),
      (tc_nominal_frequency_hz composition = 50 \<or> tc_nominal_frequency_hz composition = 60,
         Invalid_argument ''invalid nominal frequency in ten-minute composition''),
      (tc_basic_block_count composition \<noteq> 0 \<and> tc_cycle_count composition \<noteq> 0,
         Invalid_argument ''ten-minute aggregate has an empty composition''),
      ((case cycles_per_basic_block nominal of
          Inr cycles \<Rightarrow> ucast (tc_cycle_count composition) =
            (ucast (tc_basic_block_count composition) * ucast cycles :: u64)
        | Inl _ \<Rightarrow> False),
         Invalid_argument ''ten-minute aggregate cycle count does not match its blocks''),
      (last_basic_sequence r - first_basic_sequence r =
         ucast (tc_basic_block_count composition) - 1,
         Invalid_argument ''ten-minute basic sequence span is not consecutive''),
      (sample_count \<noteq> 0 \<and> first_sample \<noteq> 0,
         Invalid_argument ''ten-minute aggregate has an empty sample range''),
      (first_sample \<le> - 1 - ucast (sample_count - 1),
         Invalid_argument ''ten-minute sample range overflows the 64-bit counter''),
      (actual_last = expected_last_sample r,
         Invalid_argument ''ten-minute actual boundary does not match its sample range''),
      (target \<le> actual_last,
         Invalid_argument ''ten-minute target boundary follows its actual boundary''),
      (actual_last - target \<le> 0xffffffff \<and>
       ucast (ten_minute_overshoot_samples r) = actual_last - target,
         Invalid_argument ''ten-minute boundary overshoot is inconsistent'')])"

definition decode_ten_minute_meter_record :: "meter_record \<Rightarrow> int \<Rightarrow> meter_update result" where
  "decode_ten_minute_meter_record r received_at =
     bind_result (require_all (ten_minute_checks r)) (\<lambda>_.
       Inr (interval_update r received_at Min10 (Some (ten_minute_target_sample_index r))
              (Some (ten_minute_overshoot_samples r))))"

definition two_hour_checks :: "meter_record \<Rightarrow> (bool \<times> exn) list" where
  "two_hour_checks r =
    (let status = two_hour_status r;
         composition = two_hour_composition r;
         sample_count = aggregate_sample_count r;
         first_sample = aggregate_first_sample_index r;
         actual_last = two_hour_actual_last_sample_index r;
         target = two_hour_target_sample_index r in
     [(header_valid r \<and> record_format r = meter_two_hour_format,
         Invalid_argument ''invalid two-hour aggregate record''),
      (tm_complete status, Invalid_argument ''two-hour aggregate is not marked complete''),
      (tc_nominal_frequency_hz composition = 50 \<or> tc_nominal_frequency_hz composition = 60,
         Invalid_argument ''invalid nominal frequency in two-hour composition''),
      (tc_basic_block_count composition = 12 \<and> tc_cycle_count composition \<noteq> 0,
         Invalid_argument ''two-hour aggregate is not built from twelve intervals''),
      (last_basic_sequence r - first_basic_sequence r = 12 - 1,
         Invalid_argument ''two-hour ten-minute sequence span is not consecutive''),
      (sample_count \<noteq> 0 \<and> first_sample \<noteq> 0,
         Invalid_argument ''two-hour aggregate has an empty sample range''),
      (first_sample \<le> - 1 - ucast (sample_count - 1),
         Invalid_argument ''two-hour sample range overflows the 64-bit counter''),
      (actual_last = expected_last_sample r,
         Invalid_argument ''two-hour actual boundary does not match its sample range''),
      (target \<le> actual_last,
         Invalid_argument ''two-hour target boundary follows its actual boundary''),
      (actual_last - target \<le> 0xffffffff \<and>
       ucast (two_hour_overshoot_samples r) = actual_last - target,
         Invalid_argument ''two-hour boundary overshoot is inconsistent'')])"

definition decode_two_hour_meter_record :: "meter_record \<Rightarrow> int \<Rightarrow> meter_update result" where
  "decode_two_hour_meter_record r received_at =
     bind_result (require_all (two_hour_checks r)) (\<lambda>_.
       Inr (interval_update r received_at Hour2 (Some (two_hour_target_sample_index r))
              (Some (two_hour_overshoot_samples r))))"

section \<open>The UTC ten-second frequency record\<close>

definition frequency_10s_nominal_hz :: "meter_record \<Rightarrow> u8" where
  "frequency_10s_nominal_hz r = ucast (w32 r 13)"
definition frequency_10s_reference_channel :: "meter_record \<Rightarrow> u8" where
  "frequency_10s_reference_channel r = ucast (drop_bit 8 (w32 r 13))"
definition frequency_10s_filter_profile :: "meter_record \<Rightarrow> u8" where
  "frequency_10s_filter_profile r = ucast (drop_bit 16 (w32 r 13))"
definition frequency_10s_calibration_profile :: "meter_record \<Rightarrow> u8" where
  "frequency_10s_calibration_profile r = ucast (drop_bit 24 (w32 r 13))"
definition frequency_10s_last_sample_index :: "meter_record \<Rightarrow> u64" where
  "frequency_10s_last_sample_index r = unsigned64 r 14"
definition frequency_10s_end_sample_index :: "meter_record \<Rightarrow> u64" where
  "frequency_10s_end_sample_index r = unsigned64 r 24"
definition frequency_10s_utc_start_nanoseconds :: "meter_record \<Rightarrow> u64" where
  "frequency_10s_utc_start_nanoseconds r = unsigned64 r 26"
definition frequency_10s_utc_end_nanoseconds :: "meter_record \<Rightarrow> u64" where
  "frequency_10s_utc_end_nanoseconds r = unsigned64 r 28"
definition frequency_10s_utc_uncertainty_nanoseconds :: "meter_record \<Rightarrow> u64" where
  "frequency_10s_utc_uncertainty_nanoseconds r = unsigned64 r 30"

text \<open>The remaining word positions of the record.\<close>

definition f10_value :: "meter_record \<Rightarrow> u32" where "f10_value r = w32 r 16"
definition f10_cycles :: "meter_record \<Rightarrow> u32" where "f10_cycles r = w32 r 17"
definition f10_duration :: "meter_record \<Rightarrow> u64" where "f10_duration r = unsigned64 r 18"
definition f10_first_crossing :: "meter_record \<Rightarrow> int" where "f10_first_crossing r = signed64 r 20"
definition f10_last_crossing :: "meter_record \<Rightarrow> int" where "f10_last_crossing r = signed64 r 22"
definition f10_measured_rate :: "meter_record \<Rightarrow> u32" where "f10_measured_rate r = w32 r 32"
definition f10_source_sequence :: "meter_record \<Rightarrow> u32" where "f10_source_sequence r = w32 r 33"
definition f10_boundary_generation :: "meter_record \<Rightarrow> u32" where
  "f10_boundary_generation r = w32 r 34"
definition f10_source_status :: "meter_record \<Rightarrow> u32" where "f10_source_status r = w32 r 35"
definition f10_reasons :: "meter_record \<Rightarrow> u32" where "f10_reasons r = w32 r 36"
definition f10_observer_drop :: "meter_record \<Rightarrow> u32" where "f10_observer_drop r = w32 r 37"
definition f10_guard_flags :: "meter_record \<Rightarrow> u32" where "f10_guard_flags r = w32 r 38"
definition f10_observed :: "meter_record \<Rightarrow> u32" where "f10_observed r = w32 r 39"
definition f10_included :: "meter_record \<Rightarrow> u32" where "f10_included r = w32 r 40"
definition f10_rejected :: "meter_record \<Rightarrow> u32" where "f10_rejected r = w32 r 41"

text \<open>
  Bit positions of the reason word: 0 unsupported profile, 1 time unsynchronized, 2 time
  uncertainty, 3 filter warm-up, 4 reference invalid, 5 discontinuity, 6 crossing overflow, 7
  observer drop, 8 sample rate invalid, 9 boundary invalid, 10 calibration invalid, 16 insufficient
  crossings, 17 out of range, 18 arithmetic, 19 transport gap, 20 cycle geometry, 21 time geometry.
\<close>

abbreviation meter_frequency_10s_status_mask :: u32 where
  "meter_frequency_10s_status_mask \<equiv> 0x0000ffff"
abbreviation meter_frequency_10s_reason_mask :: u32 where
  "meter_frequency_10s_reason_mask \<equiv> 0x003f07ff"
abbreviation meter_frequency_10s_source_status_mask :: u32 where
  "meter_frequency_10s_source_status_mask \<equiv> 0x000007ff"
abbreviation meter_frequency_10s_guard_flags_mask :: u32 where
  "meter_frequency_10s_guard_flags_mask \<equiv> 0x0000000f"

definition rounded_divide_ties_to_even :: "u64 \<Rightarrow> u64 \<Rightarrow> u64 result" where
  "rounded_divide_ties_to_even numerator denominator =
     (if denominator = 0
      then Inl (Invalid_argument ''frequency 10-second result has a zero duration'')
      else let quotient = numerator div denominator;
               remainder = numerator mod denominator;
               complement = denominator - remainder
        in Inr (quotient + of_bool (remainder > complement \<or>
             (remainder = complement \<and> quotient AND 1 \<noteq> 0))))"

text \<open>A status or reason word assembled by \<^verbatim>\<open>|=\<close>: the bits whose conditions hold.\<close>

definition flags_word :: "(bool \<times> nat) list \<Rightarrow> u32" where
  "flags_word bits = foldl (\<lambda>w (c, n). if c then w OR push_bit n 1 else w) 0 bits"

definition expected_frequency_10s_status :: "meter_record \<Rightarrow> u32 \<Rightarrow> u32" where
  "expected_frequency_10s_status r reasons = (let source = f10_source_status r in flags_word
     [(flag reasons 18, 0),
      (reasons = 0, 1),
      (flag source 0, 2),
      (flag source 10, 3),
      (flag source 1, 4),
      (flag source 3, 5),
      (flag source 4, 6),
      (source AND (push_bit 5 1 OR push_bit 8 1) \<noteq> 0, 7),
      (flag source 6, 8),
      (flag source 7 \<or> f10_observer_drop r \<noteq> 0, 9),
      (flag reasons 16, 10),
      (reasons AND (push_bit 17 1 OR push_bit 20 1) \<noteq> 0, 11),
      (flag reasons 19, 12),
      (flag source 9, 13),
      (flag source 2, 14),
      (flag source 8, 15)])"

definition f10_sample_span :: "meter_record \<Rightarrow> u64" where
  "f10_sample_span r = frequency_10s_end_sample_index r - first_sample_index r"

definition f10_span_error :: "meter_record \<Rightarrow> u64" where
  "f10_span_error r =
     (let expected_millisamples = ucast (f10_measured_rate r) * 10;
          actual_millisamples = f10_sample_span r * 1000
      in if expected_millisamples > actual_millisamples
         then expected_millisamples - actual_millisamples
         else actual_millisamples - expected_millisamples)"

definition mandatory_frequency_10s_reasons :: "meter_record \<Rightarrow> u32" where
  "mandatory_frequency_10s_reasons r = (let source = f10_source_status r in flags_word
     [(sample_rate_hz r \<noteq> 128000 \<or> frequency_10s_reference_channel r \<noteq> 6 \<or>
         frequency_10s_filter_profile r \<noteq> 1 \<or> frequency_10s_calibration_profile r \<noteq> 1 \<or>
         \<not> flag source 10, 0),
      (\<not> flag source 0, 9),
      (\<not> flag source 1, 1),
      (\<not> flag source 2, 8),
      (\<not> flag source 3, 3),
      (\<not> flag source 4, 4),
      (\<not> flag source 9, 10),
      (source AND (push_bit 5 1 OR push_bit 8 1) \<noteq> 0, 5),
      (flag source 6, 6),
      (flag source 7 \<or> emit_drops r \<noteq> 0, 7),
      (frequency_10s_utc_uncertainty_nanoseconds r > 1000000, 2),
      (f10_span_error r > 2000, 21)])"

text \<open>The checks up to the crossing geometry.\<close>

definition frequency_10s_anchor_checks :: "meter_record \<Rightarrow> (bool \<times> exn) list" where
  "frequency_10s_anchor_checks r =
     [(header_valid r \<and> record_format r = meter_frequency_10s_format,
         Invalid_argument ''invalid frequency 10-second record''),
      (w32 r 12 = 0,
         Invalid_argument ''frequency 10-second reserved envelope word is nonzero'')] @
     require_zero_words r 42 63 ''frequency 10-second reserved tail is nonzero'' @
     [(frequency_10s_nominal_hz r = 50 \<or> frequency_10s_nominal_hz r = 60,
         Invalid_argument ''frequency 10-second nominal frequency is invalid''),
      (sample_rate_hz r \<noteq> 0,
         Invalid_argument ''frequency 10-second sample rate is zero''),
      (frequency_10s_end_sample_index r > first_sample_index r,
         Invalid_argument ''frequency 10-second sample interval is empty or reversed''),
      (f10_sample_span r \<le> 0xffffffff \<and> ucast (block_sample_count r) = f10_sample_span r \<and>
       frequency_10s_last_sample_index r = frequency_10s_end_sample_index r - 1,
         Invalid_argument ''frequency 10-second sample anchors disagree''),
      (frequency_10s_utc_end_nanoseconds r > frequency_10s_utc_start_nanoseconds r \<and>
       frequency_10s_utc_end_nanoseconds r - frequency_10s_utc_start_nanoseconds r = 10000000000 \<and>
       frequency_10s_utc_end_nanoseconds r \<le> 0x7fffffffffffffff,
         Invalid_argument ''frequency 10-second UTC interval is not exactly ten seconds''),
      (f10_source_sequence r = rec_sequence r,
         Invalid_argument ''frequency 10-second source sequence disagrees''),
      (emit_drops r = f10_observer_drop r,
         Invalid_argument ''frequency 10-second observer drop counters disagree''),
      (f10_source_status r AND NOT meter_frequency_10s_source_status_mask = 0 \<and>
       f10_reasons r AND NOT meter_frequency_10s_reason_mask = 0 \<and>
       rec_status r AND NOT meter_frequency_10s_status_mask = 0 \<and>
       f10_guard_flags r AND NOT meter_frequency_10s_guard_flags_mask = 0,
         Invalid_argument ''frequency 10-second flags use reserved bits''),
      (rec_status r = expected_frequency_10s_status r (f10_reasons r),
         Invalid_argument ''frequency 10-second status and reasons disagree''),
      (f10_reasons r AND mandatory_frequency_10s_reasons r = mandatory_frequency_10s_reasons r,
         Invalid_argument ''frequency 10-second record omits a mandatory rejection reason'')]"

definition f10_insufficient :: "meter_record \<Rightarrow> bool" where
  "f10_insufficient r \<longleftrightarrow> f10_cycles r = 0 \<or> f10_duration r = 0"

definition frequency_10s_geometry_checks :: "meter_record \<Rightarrow> (bool \<times> exn) list" where
  "frequency_10s_geometry_checks r =
     [(f10_observed r \<le> 1024 \<and> f10_included r \<le> f10_observed r \<and>
       f10_cycles r = (if f10_included r = 0 then 0 else f10_included r - 1) \<and>
       f10_rejected r \<le> f10_cycles r,
         Invalid_argument ''frequency 10-second crossing counts disagree''),
      (f10_included r = 0 \<longrightarrow>
         f10_first_crossing r = 0 \<and> f10_last_crossing r = 0 \<and> f10_duration r = 0,
         Invalid_argument ''frequency 10-second empty crossing geometry is nonzero''),
      (f10_included r \<noteq> 0 \<longrightarrow>
         0 \<le> f10_first_crossing r \<and> f10_first_crossing r \<le> f10_last_crossing r \<and>
         word_of_int (f10_last_crossing r) \<le> push_bit 16 (f10_sample_span r) \<and>
         f10_duration r = (if f10_included r \<ge> 2
           then word_of_int (f10_last_crossing r - f10_first_crossing r) else 0),
         Invalid_argument ''frequency 10-second crossing geometry is invalid''),
      (flag (f10_reasons r) 16 = f10_insufficient r \<and>
       flag (f10_reasons r) 20 = (f10_rejected r \<noteq> 0),
         Invalid_argument ''frequency 10-second geometry reasons disagree'')]"

text \<open>\<^verbatim>\<open>calculated_frequency\<close>.\<close>

definition f10_calculated :: "meter_record \<Rightarrow> u64 result" where
  "f10_calculated r =
     (if f10_insufficient r then Inr 0
      else let scaled_rate = push_bit 16 (ucast (f10_measured_rate r)) :: u64 in
        if scaled_rate > (- 1) div ucast (f10_cycles r)
        then Inl (Invalid_argument ''frequency 10-second arithmetic overflows'')
        else rounded_divide_ties_to_even (scaled_rate * ucast (f10_cycles r)) (f10_duration r))"

definition f10_out_of_range :: "meter_record \<Rightarrow> u64 \<Rightarrow> bool" where
  "f10_out_of_range r calculated \<longleftrightarrow>
     (let minimum = (if frequency_10s_nominal_hz r = 50 then 42500 else 51000);
          maximum = (if frequency_10s_nominal_hz r = 50 then 57500 else 69000)
      in calculated \<noteq> 0 \<and> (calculated < minimum \<or> calculated > maximum))"

definition frequency_10s_result_checks :: "meter_record \<Rightarrow> u64 \<Rightarrow> (bool \<times> exn) list" where
  "frequency_10s_result_checks r calculated =
     (let reasons = f10_reasons r; valid = (reasons = 0) in
     [(flag reasons 17 = f10_out_of_range r calculated,
         Invalid_argument ''frequency 10-second range reason disagrees''),
      (\<not> flag reasons 18,
         Invalid_argument ''frequency 10-second impossible arithmetic reason''),
      (valid_mask r = (if valid then push_bit 6 1 else 0) \<and>
       (valid \<longrightarrow> ucast (f10_value r) = calculated) \<and> (\<not> valid \<longrightarrow> f10_value r = 0),
         Invalid_argument ''frequency 10-second result validity disagrees'')])"

definition frequency_10s_quality :: "u32 \<Rightarrow> measurement_quality" where
  "frequency_10s_quality reasons =
     (if reasons = 0 then Q_valid
      else if flag reasons 18 then Q_arithmetic_error
      else if reasons AND (push_bit 17 1 OR push_bit 20 1) \<noteq> 0 then Q_out_of_range
      else Q_invalid)"

definition fundamental_values_init :: fundamental_values where
  "fundamental_values_init = \<lparr>fv_frequency = reading_init,
     fv_voltage_ln = \<lparr>abc_a = reading_init, abc_b = reading_init, abc_c = reading_init\<rparr>,
     fv_current = \<lparr>abcn_a = reading_init, abcn_b = reading_init, abcn_c = reading_init,
                    abcn_neutral = reading_init\<rparr>,
     fv_voltage_ll = \<lparr>abc_a = reading_init, abc_b = reading_init, abc_c = reading_init\<rparr>\<rparr>"

definition frequency_10s_provenance :: "meter_record \<Rightarrow> frequency_10s_metadata" where
  "frequency_10s_provenance r =
     \<lparr>fm_interval_end_sample_index = frequency_10s_end_sample_index r,
      fm_utc_start_nanoseconds = frequency_10s_utc_start_nanoseconds r,
      fm_utc_end_nanoseconds = frequency_10s_utc_end_nanoseconds r,
      fm_utc_uncertainty_nanoseconds = frequency_10s_utc_uncertainty_nanoseconds r,
      fm_measured_sample_rate_millihz = f10_measured_rate r,
      fm_source_sequence = f10_source_sequence r,
      fm_boundary_generation = f10_boundary_generation r,
      fm_source_status = f10_source_status r,
      fm_status = rec_status r,
      fm_reasons = f10_reasons r,
      fm_observer_drop_count = f10_observer_drop r,
      fm_guard_flags = ucast (f10_guard_flags r),
      fm_observed_crossings = f10_observed r,
      fm_included_crossings = f10_included r,
      fm_rejected_cycles = f10_rejected r,
      fm_duration_q16_samples = f10_duration r,
      fm_first_crossing_q16_samples = f10_first_crossing r,
      fm_last_crossing_q16_samples = f10_last_crossing r,
      fm_nominal_frequency_hz = frequency_10s_nominal_hz r,
      fm_reference_channel = frequency_10s_reference_channel r,
      fm_filter_profile = frequency_10s_filter_profile r,
      fm_calibration_profile = frequency_10s_calibration_profile r\<rparr>"

definition frequency_10s_update :: "meter_record \<Rightarrow> meter_update" where
  "frequency_10s_update r =
     (update_of r Seconds10 RK_frequency_10s)
       \<lparr>mu_fundamental := Some (fundamental_values_init
          \<lparr>fv_frequency := graded_reading (uint (f10_value r))
             (frequency_10s_quality (f10_reasons r)) (ucast (rec_sequence r))
             (sint (frequency_10s_utc_end_nanoseconds r))
             \<lparr>sw_sample_count = block_sample_count r, sw_duration = 10000000000\<rparr>\<rparr>),
        mu_timing := Some (block_timing_init
          \<lparr>bt_sequence := ucast (rec_sequence r),
           bt_configuration_generation := configuration_generation r,
           bt_first_sample_index := first_sample_index r,
           bt_sample_count := block_sample_count r,
           bt_sample_rate_hz := sample_rate_hz r,
           bt_cycle_count := ucast (f10_cycles r),
           bt_nominal_frequency := nominal_of (frequency_10s_nominal_hz r),
           bt_time_quality :=
             (if flag (rec_status r) 4 \<and> frequency_10s_utc_uncertainty_nanoseconds r \<le> 1000000
              then Synchronized else Unsynchronized),
           bt_utc_start := Some (sint (frequency_10s_utc_start_nanoseconds r)),
           bt_utc_uncertainty_ns := Some (frequency_10s_utc_uncertainty_nanoseconds r)\<rparr>),
        mu_frequency_10s := Some (frequency_10s_provenance r)\<rparr>"

definition decode_frequency_10s_meter_record :: "meter_record \<Rightarrow> int \<Rightarrow> meter_update result" where
  "decode_frequency_10s_meter_record r received_at =
     bind_result (require_all (frequency_10s_anchor_checks r @ frequency_10s_geometry_checks r)) (\<lambda>_.
     bind_result (f10_calculated r) (\<lambda>calculated.
     bind_result (require_all (frequency_10s_result_checks r calculated)) (\<lambda>_.
       Inr (frequency_10s_update r))))"

section \<open>The decoder registry\<close>

type_synonym record_decoder = "meter_record \<Rightarrow> int \<Rightarrow> meter_update result"

text \<open>
  \<^verbatim>\<open>decoders_\<close>, a map from format words to decoders. The decoder argument of \<^verbatim>\<open>register_decoder\<close> is a
  \<^verbatim>\<open>std::function\<close>, which may be empty.
\<close>

type_synonym meter_decoder_registry = "(u32 \<times> record_decoder) list"

definition register_decoder ::
    "meter_decoder_registry \<Rightarrow> u32 \<Rightarrow> record_decoder option \<Rightarrow> meter_decoder_registry result" where
  "register_decoder decoders format decoder =
     (case decoder of
        None \<Rightarrow> Inl (Invalid_argument ''meter record decoder is empty'')
      | Some d \<Rightarrow>
          if format \<in> set (map fst decoders)
          then Inl (Invalid_argument ''duplicate meter record decoder'')
          else Inr (decoders @ [(format, d)]))"

definition registry_decode ::
    "meter_decoder_registry \<Rightarrow> meter_record \<Rightarrow> int \<Rightarrow> meter_update result" where
  "registry_decode decoders r received_at =
     (case map_of decoders (w32 r 1) of
        None \<Rightarrow> Inl (Invalid_argument ''unsupported meter record format'')
      | Some d \<Rightarrow> d r received_at)"

text \<open>\<^verbatim>\<open>MeterUpdate\<close> as the DEMAND decoder fills it.\<close>

definition demand_meter_update :: "demand_update \<Rightarrow> meter_update" where
  "demand_meter_update u = meter_update_init
     \<lparr>mu_period := du_period u, mu_kind := RK_demand, mu_sequence := du_sequence u,
      mu_configuration_generation := du_configuration_generation u,
      mu_demand := Some (du_demand u), mu_aggregate_timing := Some (du_aggregate_timing u)\<rparr>"

definition decode_demand :: record_decoder where
  "decode_demand r t =
     bind_result (decode_demand_meter_record r t) (\<lambda>u. Inr (demand_meter_update u))"

definition builtin_decoders :: "(u32 \<times> record_decoder) list" where
  "builtin_decoders =
     [(meter_frequency_10s_format, decode_frequency_10s_meter_record),
      (meter_demand_format, decode_demand),
      (meter_power_format, decode_power_meter_record),
      (meter_phasor_format, decode_phasor_meter_record),
      (meter_unbalance_format, decode_unbalance_meter_record),
      (meter_aggregate_power_format, decode_aggregate_power_meter_record),
      (meter_aggregate_phasor_format, decode_aggregate_phasor_meter_record),
      (meter_aggregate_unbalance_format, decode_aggregate_unbalance_meter_record),
      (meter_ten_minute_power_format, decode_ten_minute_power_meter_record),
      (meter_ten_minute_phasor_format, decode_ten_minute_phasor_meter_record),
      (meter_ten_minute_unbalance_format, decode_ten_minute_unbalance_meter_record),
      (meter_two_hour_power_format, decode_two_hour_power_meter_record),
      (meter_two_hour_phasor_format, decode_two_hour_phasor_meter_record),
      (meter_two_hour_unbalance_format, decode_two_hour_unbalance_meter_record),
      (meter_ten_minute_open_power_format, decode_ten_minute_open_power_meter_record),
      (meter_ten_minute_open_phasor_format, decode_ten_minute_open_phasor_meter_record),
      (meter_ten_minute_open_unbalance_format, decode_ten_minute_open_unbalance_meter_record),
      (meter_two_hour_open_power_format, decode_two_hour_open_power_meter_record),
      (meter_two_hour_open_phasor_format, decode_two_hour_open_phasor_meter_record),
      (meter_two_hour_open_unbalance_format, decode_two_hour_open_unbalance_meter_record),
      (meter_periodic_format, decode_periodic_meter_record),
      (meter_aggregate_format, decode_aggregate_meter_record),
      (meter_ten_minute_format, decode_ten_minute_meter_record),
      (meter_two_hour_format, decode_two_hour_meter_record),
      (meter_ten_minute_open_format, decode_ten_minute_open_meter_record),
      (meter_two_hour_open_format, decode_two_hour_open_meter_record)]"

definition with_builtin_decoders :: "meter_decoder_registry result" where
  "with_builtin_decoders =
     foldl (\<lambda>acc (format, d). bind_result acc (\<lambda>reg. register_decoder reg format (Some d)))
       (Inr []) builtin_decoders"

section \<open>Routing\<close>

lemma builtin_formats_distinct: "distinct (map fst builtin_decoders)"
  by (simp add: builtin_decoders_def)

lemma register_all:
  "distinct (map fst (reg @ ds)) \<Longrightarrow>
   foldl (\<lambda>acc (format, d). bind_result acc (\<lambda>reg. register_decoder reg format (Some d)))
     (Inr reg) ds = Inr (reg @ ds)"
proof (induction ds arbitrary: reg)
  case (Cons p ds)
  then show ?case
    by (cases p) (simp add: register_decoder_def)
qed simp

text \<open>No format is registered twice, so the construction of the registry does not throw.\<close>

lemma builtin_registry [simp]: "with_builtin_decoders = Inr builtin_decoders"
  unfolding with_builtin_decoders_def using register_all [of "[]" builtin_decoders]
  by (simp only: append.simps builtin_formats_distinct)

lemma builtin_decode_cases:
  assumes "registry_decode builtin_decoders r t = Inr u"
  obtains
    (frequency_10s) "decode_frequency_10s_meter_record r t = Inr u"
  | (demand) "decode_demand r t = Inr u"
  | (power) f p where "decode_power_payload r t f p = Inr u"
  | (phasor) f p where "decode_phasor_payload r t f p = Inr u"
  | (unbalance) f p where "decode_unbalance_payload r t f p = Inr u"
  | (periodic) "decode_periodic_meter_record r t = Inr u"
  | (aggregate) "decode_aggregate_meter_record r t = Inr u"
  | (ten_minute) "decode_ten_minute_meter_record r t = Inr u"
  | (two_hour) "decode_two_hour_meter_record r t = Inr u"
  | (live) f p where "decode_open_interval_meter_record r t f p = Inr u"
      and "p = Min10Live \<or> p = Hour2Live"
proof -
  obtain d where "(w32 r 1, d) \<in> set builtin_decoders" and u: "d r t = Inr u"
    using assms by (auto simp: registry_decode_def split: option.splits dest: map_of_SomeD)
  then have "d \<in> set (map snd builtin_decoders)"
    by force
  then show ?thesis
    using u that unfolding builtin_decoders_def
    by (auto simp: decode_power_meter_record_def decode_aggregate_power_meter_record_def
        decode_ten_minute_power_meter_record_def decode_two_hour_power_meter_record_def
        decode_ten_minute_open_power_meter_record_def decode_two_hour_open_power_meter_record_def
        decode_phasor_meter_record_def decode_aggregate_phasor_meter_record_def
        decode_ten_minute_phasor_meter_record_def decode_two_hour_phasor_meter_record_def
        decode_ten_minute_open_phasor_meter_record_def decode_two_hour_open_phasor_meter_record_def
        decode_unbalance_meter_record_def decode_aggregate_unbalance_meter_record_def
        decode_ten_minute_unbalance_meter_record_def decode_two_hour_unbalance_meter_record_def
        decode_ten_minute_open_unbalance_meter_record_def
        decode_two_hour_open_unbalance_meter_record_def
        decode_ten_minute_open_meter_record_def decode_two_hour_open_meter_record_def)
qed

section \<open>Accepted records\<close>

lemma checked_eq_Inr:
  "bind_result (require_all cs) k = Inr u \<longleftrightarrow> list_all fst cs \<and> k () = Inr u"
  by (auto simp: list_all_iff split: prod.splits)

lemma accepted_power:
  "decode_power_payload r t f p = Inr u \<longleftrightarrow> list_all fst (payload_checks r f ''power'') \<and>
     u = (update_of r p RK_power)\<lparr>mu_power := Some (power_payload_values r t p)\<rparr>"
  unfolding decode_power_payload_def checked_eq_Inr by auto

lemma accepted_phasor:
  "decode_phasor_payload r t f p = Inr u \<longleftrightarrow> list_all fst (payload_checks r f ''phasor'') \<and>
     u = (update_of r p RK_phasor)\<lparr>mu_phasor := Some (phasor_payload_values r t p)\<rparr>"
  unfolding decode_phasor_payload_def checked_eq_Inr by auto

lemma accepted_unbalance:
  "decode_unbalance_payload r t f p = Inr u \<longleftrightarrow> list_all fst (payload_checks r f ''unbalance'') \<and>
     u = (update_of r p RK_unbalance)\<lparr>mu_unbalance := Some (unbalance_payload_values r t p)\<rparr>"
  unfolding decode_unbalance_payload_def checked_eq_Inr by auto

lemma accepted_periodic:
  "decode_periodic_meter_record r t = Inr u \<longleftrightarrow> list_all fst (periodic_checks r) \<and>
     u = periodic_update r t"
  unfolding decode_periodic_meter_record_def checked_eq_Inr by auto

lemma accepted_aggregate:
  "decode_aggregate_meter_record r t = Inr u \<longleftrightarrow> list_all fst (aggregate_checks r) \<and>
     u = aggregate_update r t"
  unfolding decode_aggregate_meter_record_def checked_eq_Inr by auto

lemma accepted_open_interval:
  "decode_open_interval_meter_record r t f p = Inr u \<longleftrightarrow>
     list_all fst (open_interval_checks r f) \<and>
     u = interval_update r t p (Some (ten_minute_target_sample_index r)) (Some 0)"
  unfolding decode_open_interval_meter_record_def checked_eq_Inr by auto

lemma accepted_ten_minute:
  "decode_ten_minute_meter_record r t = Inr u \<longleftrightarrow> list_all fst (ten_minute_checks r) \<and>
     u = interval_update r t Min10 (Some (ten_minute_target_sample_index r))
           (Some (ten_minute_overshoot_samples r))"
  unfolding decode_ten_minute_meter_record_def checked_eq_Inr by auto

lemma accepted_two_hour:
  "decode_two_hour_meter_record r t = Inr u \<longleftrightarrow> list_all fst (two_hour_checks r) \<and>
     u = interval_update r t Hour2 (Some (two_hour_target_sample_index r))
           (Some (two_hour_overshoot_samples r))"
  unfolding decode_two_hour_meter_record_def checked_eq_Inr by auto

section \<open>Trustworthy readings\<close>

lemma power_trusted:
  assumes "decode_power_payload r t f p = Inr u" and "x \<in> set (update_readings u)"
    and "rd_quality x = Q_valid"
  shows "interval_trusted r (mu_period u) \<and> mu_kind u = RK_power"
  using assms graded_byD [OF power_payload_graded]
  by (auto simp: accepted_power update_readings_def intro: payload_state_trusted)

lemma phasor_trusted:
  assumes "decode_phasor_payload r t f p = Inr u" and "x \<in> set (update_readings u)"
    and "rd_quality x = Q_valid"
  shows "interval_trusted r (mu_period u) \<and> mu_kind u = RK_phasor"
  using assms graded_byD [OF phasor_payload_graded]
  by (auto simp: accepted_phasor update_readings_def phasor_block_invalid_def
      intro: payload_state_trusted)

lemma unbalance_trusted:
  assumes "decode_unbalance_payload r t f p = Inr u" and "x \<in> set (update_readings u)"
    and "rd_quality x = Q_valid"
  shows "interval_trusted r (mu_period u) \<and> mu_kind u = RK_unbalance"
  using assms graded_byD [OF unbalance_payload_graded]
  by (auto simp: accepted_unbalance update_readings_def phasor_block_invalid_def
      intro: payload_state_trusted)

lemma interval_update_trusted:
  assumes "x \<in> set (update_readings (interval_update r t p target overshoot))"
    and "rd_quality x = Q_valid"
  shows "\<not> tm_arithmetic_error (ten_minute_status r) \<and> tm_time_aligned (ten_minute_status r) \<and>
    \<not> tm_contaminated (ten_minute_status r) \<and> tm_boundary_valid (ten_minute_status r)"
proof -
  let ?s = "ten_minute_status r"
  have "x \<in> set (fundamental_readings (decode_aggregate_fundamental_values r (ucast (rec_sequence r)) t
      (sample_window_of (aggregate_sample_count r) (sample_rate_hz r)) (tm_arithmetic_error ?s)
      (tm_contaminated ?s \<or> \<not> tm_time_aligned ?s \<or> \<not> tm_boundary_valid ?s)))"
    using assms(1) unfolding interval_update_def update_readings_def Let_def by simp
  from graded_byD [OF aggregate_fundamental_graded this assms(2)] show ?thesis
    by blast
qed

lemma interval_update_period [simp]:
  "mu_period (interval_update r t p target overshoot) = p"
  "mu_kind (interval_update r t p target overshoot) = RK_fundamental"
  by (simp_all add: interval_update_def Let_def)

lemma closed_interval_trusted:
  assumes "decode_ten_minute_meter_record r t = Inr u \<or> decode_two_hour_meter_record r t = Inr u"
    and "x \<in> set (update_readings u)" and "rd_quality x = Q_valid"
  shows "interval_trusted r (mu_period u) \<and> mu_period u \<noteq> Cycles150_180"
proof -
  obtain p target overshoot where u: "u = interval_update r t p target overshoot"
    and p: "p = Min10 \<or> p = Hour2"
    using assms(1) by (auto simp: accepted_ten_minute accepted_two_hour)
  then show ?thesis
    using interval_update_trusted assms(2,3) by (auto simp: interval_trusted_def)
qed

lemma open_interval_status:
  assumes "decode_open_interval_meter_record r t f p = Inr u"
  shows "u = interval_update r t p (Some (ten_minute_target_sample_index r)) (Some 0)"
    and "\<not> tm_complete (ten_minute_status r)" and "tm_open_interval (ten_minute_status r)"
    and "tm_non_normative (ten_minute_status r)"
  using assms by (simp_all add: accepted_open_interval open_interval_checks_def Let_def)

lemma open_interval_trusted:
  assumes "decode_open_interval_meter_record r t f p = Inr u"
    and "x \<in> set (update_readings u)" and "rd_quality x = Q_valid"
  shows "interval_trusted r (mu_period u)"
  using interval_update_trusted [OF assms(2)[unfolded open_interval_status(1)[OF assms(1)]] assms(3)]
    open_interval_status[OF assms(1)]
  by (simp add: interval_trusted_def)

lemma aggregate_trusted:
  assumes "decode_aggregate_meter_record r t = Inr u"
    and "x \<in> set (update_readings u)" and "rd_quality x = Q_valid"
  shows "\<not> ag_arithmetic_error (aggregate_status r) \<and> mu_period u = Cycles150_180"
proof -
  have u: "u = aggregate_update r t"
    using assms(1) by (simp add: accepted_aggregate)
  then have "x \<in> set (fundamental_readings (decode_aggregate_fundamental_values r
      (ucast (aggregate_sequence r)) t
      (sample_window_of (aggregate_sample_count r) (sample_rate_hz r))
      (ag_arithmetic_error (aggregate_status r)) False))"
    using assms(2) unfolding aggregate_update_def update_readings_def Let_def by simp
  from graded_byD [OF aggregate_fundamental_graded this assms(3)] show ?thesis
    unfolding u by (simp add: aggregate_update_def Let_def)
qed

text \<open>The periods without interval flags.\<close>

lemma unflagged_trusted:
  "p \<notin> {Min10, Hour2, Min10Live, Hour2Live} \<Longrightarrow> interval_trusted r p"
  by (simp add: interval_trusted_def Let_def)

lemma decoder_periods:
  "decode_frequency_10s_meter_record r t = Inr u \<Longrightarrow> mu_period u = Seconds10"
  "decode_demand r t = Inr u \<Longrightarrow> mu_period u = Demand \<and> mu_kind u = RK_demand"
  "decode_periodic_meter_record r t = Inr u \<Longrightarrow> mu_period u = Basic"
  unfolding decode_frequency_10s_meter_record_def frequency_10s_update_def decode_demand_def
    decode_demand_meter_record_def demand_meter_update_def accepted_periodic periodic_update_def
    checked_eq_Inr bind_result_eq_Inr Let_def
  by auto


section \<open>Sample ranges\<close>

lemma uint_minus_one: "w \<noteq> 0 \<Longrightarrow> uint (w - 1 :: 'a::len word) = uint w - 1"
  using uint_pos [of w] by (simp add: uint_sub_lem [THEN iffD1])

lemma uint_max_minus: "uint (- 1 - ucast (c :: u32) :: u64) = 2 ^ 64 - 1 - uint c"
proof -
  have max: "uint (- 1 :: u64) = 2 ^ 64 - 1"
    by (simp add: unsigned_minus_1_eq_mask mask_eq_exp_minus_1)
  moreover have "uint (ucast c :: u64) \<le> uint (- 1 :: u64)"
    unfolding max using uint_lt2p [of c] by simp
  ultimately show ?thesis
    using uint_sub_lem [of "ucast c :: u64" "- 1"] by simp
qed

lemma last_sample_no_wrap:
  assumes "count \<noteq> (0 :: u32)" and "first_index \<le> - 1 - ucast (count - 1)"
  shows "uint (first_index + ucast count - 1 :: u64) = uint first_index + uint count - 1"
    and "uint first_index + uint count - 1 < 2 ^ 64"
proof -
  have *: "uint first_index \<le> 2 ^ 64 - 1 - (uint count - 1)"
    using assms(2) unfolding word_le_def uint_max_minus uint_minus_one [OF assms(1)] .
  then show "uint first_index + uint count - 1 < 2 ^ 64"
    by simp
  have "(ucast count :: u64) \<noteq> 0"
    using assms(1) by (metis uint_0_iff uint_ucast_u32)
  then have c: "uint (ucast count - 1 :: u64) = uint count - 1"
    by (simp add: uint_minus_one)
  have "uint (first_index + (ucast count - 1)) = uint first_index + (uint count - 1)"
    using * uint_add_lem [of first_index "ucast count - 1"] unfolding c by simp
  then show "uint (first_index + ucast count - 1) = uint first_index + uint count - 1"
    by (simp add: algebra_simps)
qed

lemma last_sample_no_wrap_strict:
  assumes "count \<noteq> (0 :: u32)" and "(first_index :: u64) \<le> - 1 - ucast count"
  shows "first_index \<le> - 1 - ucast (count - 1 :: u32)"
proof -
  have "uint first_index \<le> 2 ^ 64 - 1 - uint count"
    using assms(2) by (simp only: word_le_def uint_max_minus)
  then show ?thesis
    by (simp add: word_le_def uint_max_minus uint_minus_one [OF assms(1)])
qed

text \<open>What the timing identity of an aggregate promises about its samples and its sources.\<close>

definition range_exact :: "aggregate_timing \<Rightarrow> bool" where
  "range_exact a \<longleftrightarrow>
     0 < uint (at_first_sample_index a) \<and> 0 < uint (at_sample_count a) \<and>
     uint (at_first_sample_index a) + uint (at_sample_count a) - 1 < 2 ^ 64 \<and>
     uint (at_first_sample_index a) \<le> uint (at_last_sample_index a) \<and>
     uint (at_last_sample_index a) \<le> uint (at_first_sample_index a) + uint (at_sample_count a) - 1 \<and>
     (\<not> at_utc_overlap a \<longrightarrow>
        uint (at_last_sample_index a) = uint (at_first_sample_index a) + uint (at_sample_count a) - 1) \<and>
     uint (at_last_basic_sequence a - at_first_basic_sequence a) + 1 = uint (at_basic_block_count a)"

definition overshoot_exact :: "aggregate_timing \<Rightarrow> bool" where
  "overshoot_exact a \<longleftrightarrow>
     (case (at_target_sample_index a, at_overshoot_samples a) of
        (Some target, Some overshoot) \<Rightarrow> uint (at_last_sample_index a) = uint target + uint overshoot
      | _ \<Rightarrow> False)"

text \<open>The fields of the timing identity an interval decoder builds.\<close>

lemma interval_update_timing:
  assumes "mu_aggregate_timing (interval_update r t p target overshoot) = Some a"
  shows "at_first_sample_index a = aggregate_first_sample_index r"
    and "at_last_sample_index a = ten_minute_actual_last_sample_index r"
    and "at_sample_count a = aggregate_sample_count r" and "\<not> at_utc_overlap a"
    and "at_first_basic_sequence a = first_basic_sequence r"
    and "at_last_basic_sequence a = last_basic_sequence r"
    and "at_basic_block_count a = tc_basic_block_count (ten_minute_composition r)"
    and "at_target_sample_index a = target" and "at_overshoot_samples a = overshoot"
  using assms by (auto simp: interval_update_def aggregate_timing_init_def Let_def)

lemma interval_range_exact:
  assumes "mu_aggregate_timing (interval_update r t p target overshoot) = Some a"
    and "aggregate_sample_count r \<noteq> 0" and "aggregate_first_sample_index r \<noteq> 0"
    and "aggregate_first_sample_index r \<le> - 1 - ucast (aggregate_sample_count r - 1)"
    and "ten_minute_actual_last_sample_index r = expected_last_sample r"
    and "last_basic_sequence r - first_basic_sequence r =
           ucast (tc_basic_block_count (ten_minute_composition r)) - 1"
    and "tc_basic_block_count (ten_minute_composition r) \<noteq> 0"
  shows "range_exact a"
proof -
  let ?n = "tc_basic_block_count (ten_minute_composition r)"
  have pos: "0 < uint (aggregate_sample_count r)" "0 < uint (aggregate_first_sample_index r)"
    using assms(2,3) by (simp_all add: uint_pos)
  have "uint (ucast ?n :: u32) = uint ?n"
    using uint_lt2p [of ?n] by (simp add: unsigned_ucast_eq take_bit_int_eq_self)
  then have "uint (last_basic_sequence r - first_basic_sequence r) + 1 = uint ?n"
    unfolding assms(6) using uint_minus_one [of "ucast ?n :: u32"] uint_pos [OF assms(7)]
    by (metis diff_add_cancel less_irrefl uint_0_iff)
  then show ?thesis
    using last_sample_no_wrap [OF assms(2,4)] pos
    by (simp add: range_exact_def interval_update_timing [OF assms(1)] assms(5) expected_last_sample_def)
qed

lemma uint_of_difference:
  assumes "target \<le> (l :: u64)" and "ucast (o32 :: u32) = l - target"
  shows "uint l = uint target + uint o32"
proof -
  have "uint (l - target) = uint l - uint target"
    using assms(1) by (simp add: uint_sub_lem [THEN iffD1] word_le_def)
  then show ?thesis
    using assms(2) by (metis add.commute diff_add_cancel uint_ucast_u32)
qed

lemma ten_minute_ranges:
  assumes "decode_ten_minute_meter_record r t = Inr u" and "mu_aggregate_timing u = Some a"
  shows "range_exact a \<and> overshoot_exact a"
proof -
  have checks: "list_all fst (ten_minute_checks r)"
    and u: "u = interval_update r t Min10 (Some (ten_minute_target_sample_index r))
           (Some (ten_minute_overshoot_samples r))"
    using assms(1) by (simp_all add: accepted_ten_minute)
  note a = assms(2)[unfolded u]
  from checks have "ten_minute_target_sample_index r \<le> ten_minute_actual_last_sample_index r"
    "ucast (ten_minute_overshoot_samples r) =
       ten_minute_actual_last_sample_index r - ten_minute_target_sample_index r"
    by (auto simp: ten_minute_checks_def Let_def)
  then have "overshoot_exact a"
    by (simp add: overshoot_exact_def interval_update_timing [OF a] uint_of_difference)
  moreover have "range_exact a"
    by (rule interval_range_exact [OF a]) (use checks in \<open>simp_all add: ten_minute_checks_def Let_def\<close>)
  ultimately show ?thesis by simp
qed

lemma two_hour_ranges:
  assumes "decode_two_hour_meter_record r t = Inr u" and "mu_aggregate_timing u = Some a"
  shows "range_exact a \<and> overshoot_exact a"
proof -
  have checks: "list_all fst (two_hour_checks r)"
    and u: "u = interval_update r t Hour2 (Some (two_hour_target_sample_index r))
           (Some (two_hour_overshoot_samples r))"
    using assms(1) by (simp_all add: accepted_two_hour)
  note a = assms(2)[unfolded u]
  note defs = two_hour_checks_def two_hour_composition_def two_hour_actual_last_sample_index_def
    two_hour_target_sample_index_def two_hour_overshoot_samples_def two_hour_status_def Let_def
  from checks have "two_hour_target_sample_index r \<le> ten_minute_actual_last_sample_index r"
    "ucast (two_hour_overshoot_samples r) =
       ten_minute_actual_last_sample_index r - two_hour_target_sample_index r"
    by (auto simp: defs)
  then have "overshoot_exact a"
    by (simp add: overshoot_exact_def interval_update_timing [OF a] uint_of_difference)
  moreover have "range_exact a"
    by (rule interval_range_exact [OF a]) (use checks in \<open>simp_all add: defs\<close>)
  ultimately show ?thesis by simp
qed

lemma open_interval_ranges:
  assumes "decode_open_interval_meter_record r t f p = Inr u" and "mu_aggregate_timing u = Some a"
  shows "range_exact a"
  by (rule interval_range_exact [OF assms(2)[unfolded open_interval_status(1)[OF assms(1)]]])
    (use assms(1) in \<open>simp_all add: accepted_open_interval open_interval_checks_def Let_def\<close>)

lemma aggregate_ranges:
  assumes "decode_aggregate_meter_record r t = Inr u" and "mu_aggregate_timing u = Some a"
  shows "range_exact a"
proof -
  have checks: "list_all fst (aggregate_checks r)" and u: "u = aggregate_update r t"
    using assms(1) by (simp_all add: accepted_aggregate)
  have a: "at_first_sample_index a = aggregate_first_sample_index r"
    "at_last_sample_index a = aggregate_last_sample_index r"
    "at_sample_count a = aggregate_sample_count r"
    "at_utc_overlap a = ag_utc_overlap (aggregate_status r)"
    "at_first_basic_sequence a = first_basic_sequence r"
    "at_last_basic_sequence a = last_basic_sequence r"
    "at_basic_block_count a = ucast (ac_basic_block_count (aggregate_composition r))"
    using assms(2) by (auto simp: u aggregate_update_def aggregate_timing_init_def Let_def)
  have count: "aggregate_sample_count r \<noteq> 0" and first0: "aggregate_first_sample_index r \<noteq> 0"
    and le: "aggregate_first_sample_index r \<le> - 1 - ucast (aggregate_sample_count r)"
    and span: "last_basic_sequence r - first_basic_sequence r = 14"
    and blocks: "ucast (ac_basic_block_count (aggregate_composition r)) = (15 :: u32)"
    and over: "ag_utc_overlap (aggregate_status r) \<Longrightarrow>
       aggregate_first_sample_index r \<le> aggregate_last_sample_index r \<and>
       aggregate_last_sample_index r \<le> expected_last_sample r"
    and exact: "\<not> ag_utc_overlap (aggregate_status r) \<Longrightarrow>
       aggregate_last_sample_index r = expected_last_sample r"
    using checks by (simp_all add: aggregate_checks_def Let_def)
  let ?n = "ac_basic_block_count (aggregate_composition r)"
  have "uint (ucast ?n :: u32) = uint ?n"
    using uint_lt2p [of ?n] by (simp add: unsigned_ucast_eq take_bit_int_eq_self)
  then have n: "?n = 15"
    using blocks by (simp add: word_uint_eq_iff)
  note nw = last_sample_no_wrap [OF count last_sample_no_wrap_strict [OF count le]]
  have pos: "0 < uint (aggregate_sample_count r)" "0 < uint (aggregate_first_sample_index r)"
    using count first0 by (simp_all add: uint_pos)
  show ?thesis
  proof (cases "ag_utc_overlap (aggregate_status r)")
    case True
    then show ?thesis
      using over [OF True] nw pos
      by (simp add: range_exact_def a span n expected_last_sample_def word_le_def)
  next
    case False
    then show ?thesis
      using exact [OF False] nw pos
      by (simp add: range_exact_def a span n expected_last_sample_def)
  qed
qed

lemma no_aggregate_timing:
  "decode_frequency_10s_meter_record r t = Inr u \<Longrightarrow> mu_aggregate_timing u = None"
  "decode_periodic_meter_record r t = Inr u \<Longrightarrow> mu_aggregate_timing u = None"
  "decode_power_payload r t f p = Inr u \<Longrightarrow> mu_aggregate_timing u = None"
  "decode_phasor_payload r t f p = Inr u \<Longrightarrow> mu_aggregate_timing u = None"
  "decode_unbalance_payload r t f p = Inr u \<Longrightarrow> mu_aggregate_timing u = None"
  unfolding decode_frequency_10s_meter_record_def accepted_periodic accepted_power accepted_phasor
    accepted_unbalance checked_eq_Inr bind_result_eq_Inr
  by (auto simp: frequency_10s_update_def periodic_update_def Let_def)

text \<open>
  Every aggregate, ten-minute, two-hour or preview record the registry decodes carries an
  exact sample range: it starts at a positive index, does not wrap the 64-bit counter, ends
  exactly at its last sample unless it is a UTC-overlap aggregate (which may end earlier, never
  later), and names exactly as many consecutive source intervals as it says it has, also where
  their 32-bit sequence wraps. For the completed ten-minute and two-hour intervals the last sample is the
  target boundary plus the published overshoot.
\<close>

theorem registry_sample_ranges:
  assumes "with_builtin_decoders = Inr reg" and "registry_decode reg r t = Inr u"
    and "mu_kind u \<noteq> RK_demand" and "mu_aggregate_timing u = Some a"
  shows "range_exact a \<and> (mu_period u = Min10 \<or> mu_period u = Hour2 \<longrightarrow> overshoot_exact a)"
proof -
  have "registry_decode builtin_decoders r t = Inr u"
    using assms(1,2) by simp
  then show ?thesis
  proof (cases rule: builtin_decode_cases)
    case demand
    then show ?thesis using assms(3) by (simp add: decoder_periods)
  next
    case aggregate
    then show ?thesis using aggregate_ranges [OF aggregate assms(4)]
      by (simp add: accepted_aggregate aggregate_update_def Let_def)
  next
    case ten_minute
    then show ?thesis using ten_minute_ranges assms(4) by simp
  next
    case two_hour
    then show ?thesis using two_hour_ranges assms(4) by simp
  next
    case (live f p)
    then show ?thesis using open_interval_ranges [OF live(1) assms(4)] open_interval_status(1) [OF live(1)]
      by auto
  qed (use assms(4) in \<open>simp_all add: no_aggregate_timing\<close>)
qed

section \<open>Concrete interval records\<close>

definition sample_interval_record :: "u32 \<Rightarrow> u32 \<Rightarrow> u32 \<Rightarrow> meter_record" where
  "sample_interval_record format status lanes = \<lparr>words =
     [meter_record_magic, format, meter_record_size, 7, 1, 1000, 3000, lanes, status,
      1000, 0, 0, 0, 0x320002, 0xffffffff, 0]
     @ [1, 0, 2, 0, 3, 0, 4, 0, 5, 0, 6, 0, 230000000, 0, 0, 0]
     @ [0, 0, 0, 0, 3999, 0, 400000000, 400000000, 400000000, 20, 3990, 0, 9] @ replicate 19 0\<rparr>"

definition sample_ten_minute :: meter_record where
  "sample_ten_minute = sample_interval_record meter_ten_minute_format 0x16 0x7f"

lemma sample_ten_minute_checks:
  "list_all fst (ten_minute_checks sample_ten_minute)"
  by code_simp+

lemma sample_ten_minute_decodes:
  "registry_decode builtin_decoders sample_ten_minute t = Inr (interval_update sample_ten_minute t Min10
     (Some (ten_minute_target_sample_index sample_ten_minute))
     (Some (ten_minute_overshoot_samples sample_ten_minute)))"
proof -
  have "map_of builtin_decoders (w32 sample_ten_minute 1) = Some decode_ten_minute_meter_record"
  proof -
    have "w32 sample_ten_minute 1 = meter_ten_minute_format"
      by code_simp
    then show ?thesis
      by (simp add: builtin_decoders_def)
  qed
  then show ?thesis
    using sample_ten_minute_checks by (simp add: registry_decode_def accepted_ten_minute)
qed

theorem registry_sample_ranges_witness:
  "range_exact (the (mu_aggregate_timing (interval_update sample_ten_minute 5 Min10
     (Some (ten_minute_target_sample_index sample_ten_minute))
     (Some (ten_minute_overshoot_samples sample_ten_minute)))))"
proof -
  let ?u = "interval_update sample_ten_minute 5 Min10
     (Some (ten_minute_target_sample_index sample_ten_minute))
     (Some (ten_minute_overshoot_samples sample_ten_minute))"
  obtain a where a: "mu_aggregate_timing ?u = Some a"
    by (simp add: interval_update_def Let_def)
  show ?thesis
    using registry_sample_ranges [OF builtin_registry sample_ten_minute_decodes _ a] by (simp add: a)
qed

definition sample_voltage :: reading where
  "sample_voltage = abc_a (fv_voltage_ln (the (mu_fundamental (interval_update sample_ten_minute 5 Min10
     (Some (ten_minute_target_sample_index sample_ten_minute))
     (Some (ten_minute_overshoot_samples sample_ten_minute))))))"


section \<open>The ten-second frequency\<close>

lemma odd_word: "w AND 1 \<noteq> 0 \<longleftrightarrow> odd (uint (w :: u64))"
  by (simp add: and_one_eq odd_iff_mod_2_eq_one word_uint_eq_iff uint_mod)

lemma uint_round_up:
  assumes "b \<Longrightarrow> uint q + 1 < 2 ^ 64"
  shows "uint (q + of_bool b :: u64) = uint q + of_bool b"
  using assms uint_add_lem [of q 1] by (cases b) simp_all

lemma half_even_arith:
  fixes N D :: int
  assumes "0 \<le> N" and "0 < D"
  defines "up \<equiv> D - N mod D < N mod D \<or> (N mod D = D - N mod D \<and> odd (N div D))"
  defines "Q \<equiv> N div D + of_bool up"
  shows "2 * \<bar>Q * D - N\<bar> \<le> D \<and> (2 * \<bar>Q * D - N\<bar> = D \<longrightarrow> even Q)"
    and "up \<Longrightarrow> 2 \<le> D"
proof -
  have N: "N = N div D * D + N mod D" and m: "0 \<le> N mod D" "N mod D < D"
    using assms(2) by simp_all
  have low: "N div D * D - N = - (N mod D)" and high: "(N div D + 1) * D - N = D - N mod D"
    using N by (simp_all add: algebra_simps)
  show "2 * \<bar>Q * D - N\<bar> \<le> D \<and> (2 * \<bar>Q * D - N\<bar> = D \<longrightarrow> even Q)"
  proof (cases up)
    case True
    then have "Q * D - N = D - N mod D"
      using high by (simp add: Q_def)
    with True m show ?thesis
      by (auto simp: up_def Q_def)
  next
    case False
    then have "Q * D - N = - (N mod D)"
      using low by (simp add: Q_def)
    with False m show ?thesis
      by (auto simp: up_def Q_def)
  qed
  show "2 \<le> D" if up
    using that m by (auto simp: up_def)
qed

lemma rounded_divide_half_even:
  assumes "rounded_divide_ties_to_even n d = Inr q"
  shows "0 < uint d \<and> 2 * \<bar>uint q * uint d - uint n\<bar> \<le> uint d \<and>
    (2 * \<bar>uint q * uint d - uint n\<bar> = uint d \<longrightarrow> even (uint q))"
proof -
  have d: "d \<noteq> 0"
    using assms by (auto simp: rounded_divide_ties_to_even_def)
  then have D: "0 < uint d"
    by (rule uint_pos)
  let ?up = "uint d - uint n mod uint d < uint n mod uint d \<or>
    (uint n mod uint d = uint d - uint n mod uint d \<and> odd (uint n div uint d))"
  have "uint (n mod d) \<le> uint d"
    using D by (simp add: uint_mod order_less_imp_le)
  then have "uint (d - n mod d) = uint d - uint n mod uint d"
    using uint_sub_lem [of "n mod d" d] by (simp add: uint_mod)
  then have cond: "(n mod d > d - n mod d \<or> (n mod d = d - n mod d \<and> (n div d) AND 1 \<noteq> 0)) \<longleftrightarrow> ?up"
    unfolding odd_word by (simp add: word_less_def word_uint_eq_iff uint_mod uint_div)
  have q: "q = n div d + of_bool ?up"
    using assms d unfolding rounded_divide_ties_to_even_def Let_def cond by simp
  have N: "uint n < 2 ^ 64" "0 \<le> uint n"
    using uint_lt2p [of n] by simp_all
  have "uint q = uint n div uint d + of_bool ?up"
    unfolding q
  proof (subst uint_round_up)
    assume ?up
    then have "2 \<le> uint d"
      by (rule half_even_arith(2) [OF N(2) D])
    then have "uint n div uint d \<le> uint n div 2"
      using N(2) by (intro zdiv_mono2) simp_all
    then show "uint (n div d) + 1 < 2 ^ 64"
      using N by (simp add: uint_div)
  qed (simp add: uint_div)
  then show ?thesis
    using half_even_arith(1) [OF N(2) D] D by simp
qed

lemma accepted_frequency_10s:
  "decode_frequency_10s_meter_record r t = Inr u \<longleftrightarrow>
     list_all fst (frequency_10s_anchor_checks r) \<and> list_all fst (frequency_10s_geometry_checks r) \<and>
     (\<exists>f. f10_calculated r = Inr f \<and> list_all fst (frequency_10s_result_checks r f)) \<and>
     u = frequency_10s_update r"
  by (cases "f10_calculated r")
    (auto simp only: decode_frequency_10s_meter_record_def checked_eq_Inr bind_result_simps
      list_all_append sum.inject sum.distinct)

lemma flags_word_fold_zero:
  assumes "foldl (\<lambda>w (c, n). if c then w OR push_bit n 1 else w) v bits = (0 :: u32)"
    and "list_all (\<lambda>(c, n). n < 32) bits"
  shows "v = 0 \<and> list_all (\<lambda>(c, n). \<not> c) bits"
  using assms
proof (induction bits arbitrary: v)
  case (Cons b bits)
  obtain c n where b: "b = (c, n)" and n: "n < 32"
    using Cons.prems(2) by (cases b) auto
  have IH: "(if c then v OR push_bit n 1 else v) = 0 \<and> list_all (\<lambda>(c, n). \<not> c) bits"
    by (rule Cons.IH) (use Cons.prems b in auto)
  have "v OR push_bit n 1 \<noteq> 0"
  proof
    assume "v OR push_bit n 1 = 0"
    then have "bit (v OR push_bit n 1) n = bit (0 :: u32) n"
      by (rule arg_cong)
    then show False
      using n by (simp add: bit_simps)
  qed
  with IH show ?case
    by (auto simp: b split: if_splits)
qed simp

lemma flags_word_zero:
  "flags_word bits = 0 \<Longrightarrow> list_all (\<lambda>(c, n). n < 32) bits \<Longrightarrow> list_all (\<lambda>(c, n). \<not> c) bits"
  unfolding flags_word_def using flags_word_fold_zero by blast

text \<open>What the source of a ten-second result has to attest before it is published as valid.\<close>

definition frequency_10s_attested :: "meter_record \<Rightarrow> bool" where
  "frequency_10s_attested r \<longleftrightarrow>
     sample_rate_hz r = 128000 \<and> frequency_10s_reference_channel r = 6 \<and>
     frequency_10s_filter_profile r = 1 \<and> frequency_10s_calibration_profile r = 1 \<and>
     list_all (flag (f10_source_status r)) [0, 1, 2, 3, 4, 9, 10] \<and>
     list_all (\<lambda>n. \<not> flag (f10_source_status r) n) [6, 7] \<and>
     f10_source_status r AND (push_bit 5 1 OR push_bit 8 1) = 0 \<and>
     emit_drops r = 0 \<and> uint (frequency_10s_utc_uncertainty_nanoseconds r) \<le> 1000000 \<and>
     uint (f10_span_error r) \<le> 2000"

lemma mandatory_reasons_zero:
  "mandatory_frequency_10s_reasons r = 0 \<Longrightarrow> frequency_10s_attested r"
  unfolding mandatory_frequency_10s_reasons_def Let_def
  by (drule flags_word_zero)
    (simp_all add: frequency_10s_attested_def word_le_def word_less_def linorder_not_less)

lemma uint_scaled_rate: "uint (push_bit 16 (ucast (w :: u32)) :: u64) = uint w * 65536"
proof -
  have "uint w * 65536 < 2 ^ 64"
    using uint_lt2p [of w] by simp
  then show ?thesis
    by (simp add: push_bit_eq_mult uint_word_ariths take_bit_int_eq_self mult.commute)
qed

text \<open>The division overflow guard makes the 64-bit product exact.\<close>

lemma guarded_product:
  assumes "\<not> a > (- 1) div b" and "b \<noteq> (0 :: u64)"
  shows "uint (a * b) = uint a * uint b"
proof -
  have B: "0 < uint b"
    by (rule uint_pos [OF assms(2)])
  have "uint a \<le> (2 ^ 64 - 1) div uint b"
    using assms(1) by (simp add: word_less_def uint_div linorder_not_less unsigned_minus_1_eq_mask
        mask_eq_exp_minus_1)
  then have "uint a * uint b \<le> (2 ^ 64 - 1) div uint b * uint b"
    using B by (intro mult_right_mono) simp_all
  also have "\<dots> \<le> 2 ^ 64 - 1"
    using minus_mod_eq_div_mult [of "2 ^ 64 - 1" "uint b"] pos_mod_sign [OF B, of "2 ^ 64 - 1"]
    by linarith
  finally show ?thesis
    using uint_mult_lem [of a b] by simp
qed

lemma f10_accuracy:
  assumes "f10_calculated r = Inr f" and "\<not> f10_insufficient r"
  shows "0 < uint (f10_duration r) \<and>
    2 * \<bar>uint f * uint (f10_duration r) - uint (f10_measured_rate r) * 65536 * uint (f10_cycles r)\<bar>
      \<le> uint (f10_duration r) \<and>
    (2 * \<bar>uint f * uint (f10_duration r) - uint (f10_measured_rate r) * 65536 * uint (f10_cycles r)\<bar>
      = uint (f10_duration r) \<longrightarrow> even (uint f))"
proof -
  let ?s = "push_bit 16 (ucast (f10_measured_rate r)) :: u64" and ?c = "ucast (f10_cycles r) :: u64"
  have guard: "\<not> ?s > (- 1) div ?c" and q: "rounded_divide_ties_to_even (?s * ?c) (f10_duration r) = Inr f"
    using assms unfolding f10_calculated_def Let_def by (auto split: if_splits)
  have "?c \<noteq> 0"
    using assms(2) by (metis f10_insufficient_def uint_0_iff uint_ucast_u32)
  from guarded_product [OF guard this]
  have "uint (?s * ?c) = uint (f10_measured_rate r) * 65536 * uint (f10_cycles r)"
    by (simp add: uint_scaled_rate)
  then show ?thesis
    using rounded_divide_half_even [OF q] by simp
qed

text \<open>
  C22. A ten-second frequency published as valid is attested by its source: the certified profile
  (128 kHz, channel 6), a synchronised and calibrated source with no discontinuity, overflow or
  drop, an uncertainty of at most one millisecond, and a sample span within two samples of the
  measured rate. Its UTC interval is exactly ten seconds and its value is the measured rate times
  the cycles over the duration, correctly rounded to the nearest millihertz with ties to even,
  and within 15 percent of the nominal frequency unless it is zero.
\<close>

theorem frequency_10s_certified:
  assumes "decode_frequency_10s_meter_record r t = Inr u"
    and "mu_fundamental u = Some v" and "rd_quality (fv_frequency v) = Q_valid"
  shows "frequency_10s_attested r \<and>
    uint (frequency_10s_utc_end_nanoseconds r) =
      uint (frequency_10s_utc_start_nanoseconds r) + 10000000000 \<and>
    (let f = rd_value (fv_frequency v);
         exact = uint (f10_measured_rate r) * 65536 * uint (f10_cycles r);
         duration = uint (f10_duration r)
     in 0 < duration \<and> 2 * \<bar>f * duration - exact\<bar> \<le> duration \<and>
        (2 * \<bar>f * duration - exact\<bar> = duration \<longrightarrow> even f) \<and>
        (f \<noteq> 0 \<longrightarrow> (if frequency_10s_nominal_hz r = 50 then 42500 \<le> f \<and> f \<le> 57500
                    else 51000 \<le> f \<and> f \<le> 69000)))"
proof -
  obtain f where anchor: "list_all fst (frequency_10s_anchor_checks r)"
    and geometry: "list_all fst (frequency_10s_geometry_checks r)"
    and f: "f10_calculated r = Inr f" and result: "list_all fst (frequency_10s_result_checks r f)"
    and u: "u = frequency_10s_update r"
    using assms(1) by (auto simp only: accepted_frequency_10s)
  have v: "fv_frequency v = graded_reading (uint (f10_value r)) (frequency_10s_quality (f10_reasons r))
      (ucast (rec_sequence r)) (sint (frequency_10s_utc_end_nanoseconds r))
      \<lparr>sw_sample_count = block_sample_count r, sw_duration = 10000000000\<rparr>"
    using assms(2) by (auto simp: u frequency_10s_update_def)
  have reasons: "f10_reasons r = 0"
    using assms(3) by (simp add: v frequency_10s_quality_def split: if_splits)
  have attested: "frequency_10s_attested r"
    using anchor reasons by (intro mandatory_reasons_zero) (simp add: frequency_10s_anchor_checks_def)
  have utc: "frequency_10s_utc_end_nanoseconds r - frequency_10s_utc_start_nanoseconds r = 10000000000"
    "frequency_10s_utc_start_nanoseconds r < frequency_10s_utc_end_nanoseconds r"
    using anchor by (simp_all add: frequency_10s_anchor_checks_def)
  have "uint (frequency_10s_utc_end_nanoseconds r) - uint (frequency_10s_utc_start_nanoseconds r) = 10000000000"
    using utc uint_sub_lem [of "frequency_10s_utc_start_nanoseconds r" "frequency_10s_utc_end_nanoseconds r"]
    by (simp add: word_less_def)
  moreover have val: "uint (f10_value r) = uint f"
    using result reasons by (auto simp: frequency_10s_result_checks_def Let_def)
  moreover have sufficient: "\<not> f10_insufficient r"
    using geometry reasons by (simp add: frequency_10s_geometry_checks_def flag_def)
  moreover have range: "\<not> f10_out_of_range r f"
    using result reasons by (simp add: frequency_10s_result_checks_def flag_def Let_def)
  moreover note round = f10_accuracy [OF f sufficient]
  ultimately show ?thesis
    using attested by (auto simp: v f10_out_of_range_def Let_def word_less_def split: if_splits)
qed

definition sample_frequency_record ::
    "u32 \<Rightarrow> u32 \<Rightarrow> u32 \<Rightarrow> u32 \<Rightarrow> u32 \<Rightarrow> u32 \<Rightarrow> u32 \<Rightarrow> meter_record" where
  "sample_frequency_record span rate value cycles duration_lo duration_hi crossings = \<lparr>words =
     [meter_record_magic, meter_frequency_10s_format, meter_record_size, 3, 1, 128000, span, 0x40,
      0x607e, 1000, 0, 0, 0, 0x01010632, 999 + span, 0, value, cycles, duration_lo, duration_hi,
      0, 0, duration_lo, duration_hi, 1000 + span, 0, 0, 0, 0x540be400, 2, 1000, 0, rate, 3, 1,
      0x61f, 0, 0, 0, crossings, crossings, 0] @ replicate 22 0\<rparr>"

definition sample_frequency :: meter_record where
  "sample_frequency = sample_frequency_record 1280000 128000000 50000 500 0x88000000 0x13 501"

lemma sample_frequency_decodes:
  "list_all fst (frequency_10s_anchor_checks sample_frequency)"
  "list_all fst (frequency_10s_geometry_checks sample_frequency)"
  "f10_calculated sample_frequency = Inr 50000"
  "list_all fst (frequency_10s_result_checks sample_frequency 50000)"
  "frequency_10s_quality (f10_reasons sample_frequency) = Q_valid"
  "f10_value sample_frequency = 50000"
  by code_simp+

theorem frequency_10s_certified_witness:
  "decode_frequency_10s_meter_record sample_frequency 0 = Inr (frequency_10s_update sample_frequency) \<and>
   frequency_10s_attested sample_frequency"
proof -
  have d: "decode_frequency_10s_meter_record sample_frequency 0 = Inr (frequency_10s_update sample_frequency)"
    using sample_frequency_decodes(1-4) by (simp only: accepted_frequency_10s) blast
  obtain v where v: "mu_fundamental (frequency_10s_update sample_frequency) = Some v"
    "rd_quality (fv_frequency v) = Q_valid"
    by (simp add: frequency_10s_update_def sample_frequency_decodes(5))
  from frequency_10s_certified [OF d v] d show ?thesis by blast
qed

definition sample_zero_rate :: meter_record where
  "sample_zero_rate = sample_frequency_record 2 0 0 1 1 0 2"


end
