(* ===== verification/Latest_Store.thy ===== *)
theory Latest_Store
  imports Meter_Decoders
begin

text \<open>
  The typed latest-value store of \<^verbatim>\<open>common/msap1/meter/meter_data.cpp\<close>: \<^verbatim>\<open>MeterLatestStore\<close>, which keeps
  one view per measurement period, and \<^verbatim>\<open>MeterData\<close>, which in addition hands each new view to the
  subscribers of its period. A subscriber owns a worker thread and one slot for an unread view; the
  threads are steps of a transition system that interleave with the updates.
\<close>

section \<open>Default values\<close>

definition abc_init :: "reading phase_abc" where
  "abc_init = \<lparr>abc_a = reading_init, abc_b = reading_init, abc_c = reading_init\<rparr>"
definition abcn_init :: "reading phase_abcn" where
  "abcn_init = \<lparr>abcn_a = reading_init, abcn_b = reading_init, abcn_c = reading_init,
     abcn_neutral = reading_init\<rparr>"
definition power_values_init :: power_values where
  "power_values_init =
     \<lparr>pv_active_power = abc_init, pv_apparent_power = abc_init, pv_power_factor = abc_init,
      pv_total_active_power = reading_init, pv_total_apparent_power = reading_init,
      pv_total_power_factor = reading_init, pv_voltage_crest = abc_init,
      pv_current_crest = abcn_init\<rparr>"

definition phasor_values_init :: phasor_values where
  "phasor_values_init =
     \<lparr>ph_fundamental_voltage = abc_init, ph_fundamental_current = abcn_init,
      ph_fundamental_voltage_ll = abc_init, ph_voltage_angle = abc_init,
      ph_current_angle = abcn_init, ph_voltage_ll_angle = abc_init,
      ph_displacement_angle = abc_init, ph_reactive_power = abc_init,
      ph_total_reactive_power = reading_init, ph_fundamental_active_power = abc_init,
      ph_total_fundamental_active_power = reading_init, ph_displacement_power_factor = abc_init,
      ph_total_displacement_power_factor = reading_init,
      ph_load_nature = \<lparr>abc_a = LN_undefined, abc_b = LN_undefined, abc_c = LN_undefined\<rparr>,
      ph_total_load_nature = LN_undefined, ph_angle_reference_valid = False,
      ph_phasor_invalid = False\<rparr>"

definition unbalance_values_init :: unbalance_values where
  "unbalance_values_init =
     \<lparr>ub_voltage_zero_sequence = reading_init, ub_voltage_positive_sequence = reading_init,
      ub_voltage_negative_sequence = reading_init, ub_voltage_zero_angle = reading_init,
      ub_voltage_positive_angle = reading_init, ub_voltage_negative_angle = reading_init,
      ub_current_zero_sequence = reading_init, ub_current_positive_sequence = reading_init,
      ub_current_negative_sequence = reading_init, ub_current_zero_angle = reading_init,
      ub_current_positive_angle = reading_init, ub_current_negative_angle = reading_init,
      ub_voltage_zero_ratio = reading_init, ub_voltage_unbalance = reading_init,
      ub_current_zero_ratio = reading_init, ub_current_unbalance = reading_init,
      ub_angle_reference_valid = False, ub_phasor_invalid = False\<rparr>"

definition power_quality_values_init :: power_quality_values where
  "power_quality_values_init =
     \<lparr>pq_kind = PQ_periodic, pq_event_type = PQ_none, pq_affected_phases = 0, pq_armed = False,
      pq_cycle_locked = False, pq_synthetic_half_cycle = False, pq_voltage = abc_init,
      pq_voltage_minimum = abc_init, pq_voltage_maximum = abc_init, pq_current = abc_init,
      pq_event_sequence = 0, pq_duration_samples = 0, pq_half_cycle_updates = 0,
      pq_reference_micro_volts = 0, pq_sag_threshold_e4 = 0, pq_swell_threshold_e4 = 0,
      pq_interruption_threshold_e4 = 0, pq_hysteresis_e4 = 0\<rparr>"

record meter_values =
  mv_fundamental :: fundamental_values
  mv_power :: power_values
  mv_phasor :: phasor_values
  mv_unbalance :: unbalance_values
  mv_energy :: energy_values
  mv_demand :: demand_values
  mv_power_quality :: power_quality_values

definition meter_values_init :: meter_values where
  "meter_values_init =
     \<lparr>mv_fundamental = fundamental_values_init, mv_power = power_values_init,
      mv_phasor = phasor_values_init, mv_unbalance = unbalance_values_init,
      mv_energy = energy_values_init, mv_demand = demand_values_init,
      mv_power_quality = power_quality_values_init\<rparr>"

section \<open>The latest store\<close>

record meter_period_view =
  vw_period :: measurement_period
  vw_latest_sequence :: u64
  vw_configuration_generation :: u32
  vw_updated_at :: int
  vw_values :: meter_values
  vw_timing :: "block_timing option"
  vw_aggregate_timing :: "aggregate_timing option"
  vw_frequency_10s :: "frequency_10s_metadata option"

definition view_init :: "measurement_period \<Rightarrow> meter_period_view" where
  "view_init period =
     \<lparr>vw_period = period, vw_latest_sequence = 0, vw_configuration_generation = 0,
      vw_updated_at = 0, vw_values = meter_values_init, vw_timing = None,
      vw_aggregate_timing = None, vw_frequency_10s = None\<rparr>"

text \<open>
  \<^verbatim>\<open>views_\<close>, an array of eight optional views indexed by the period. The enumeration has exactly
  eight values, so \<^verbatim>\<open>period_index\<close> does not throw.
\<close>

type_synonym meter_latest_store = "measurement_period \<Rightarrow> meter_period_view option"

definition merge_values :: "meter_values \<Rightarrow> meter_update \<Rightarrow> meter_values" where
  "merge_values v u =
     \<lparr>mv_fundamental = (case mu_fundamental u of None \<Rightarrow> mv_fundamental v | Some x \<Rightarrow> x),
      mv_power = (case mu_power u of None \<Rightarrow> mv_power v | Some x \<Rightarrow> x),
      mv_phasor = (case mu_phasor u of None \<Rightarrow> mv_phasor v | Some x \<Rightarrow> x),
      mv_unbalance = (case mu_unbalance u of None \<Rightarrow> mv_unbalance v | Some x \<Rightarrow> x),
      mv_energy = (case mu_energy u of None \<Rightarrow> mv_energy v | Some x \<Rightarrow> x),
      mv_demand = (case mu_demand u of None \<Rightarrow> mv_demand v | Some x \<Rightarrow> x),
      mv_power_quality = (case mu_power_quality u of None \<Rightarrow> mv_power_quality v | Some x \<Rightarrow> x)\<rparr>"

definition merge_view :: "meter_period_view \<Rightarrow> meter_update \<Rightarrow> int \<Rightarrow> meter_period_view" where
  "merge_view v u now = v
     \<lparr>vw_latest_sequence := mu_sequence u,
      vw_configuration_generation := mu_configuration_generation u,
      vw_updated_at := now,
      vw_values := merge_values (vw_values v) u,
      vw_frequency_10s := (case mu_frequency_10s u of None \<Rightarrow> vw_frequency_10s v | Some m \<Rightarrow> Some m),
      vw_timing := (case mu_timing u of None \<Rightarrow> vw_timing v | Some t \<Rightarrow> Some t),
      vw_aggregate_timing :=
        (case mu_aggregate_timing u of None \<Rightarrow> vw_aggregate_timing v | Some t \<Rightarrow> Some t)\<rparr>"

text \<open>
  \<^verbatim>\<open>MeterLatestStore::apply\<close>: a slot is created for the first update of its period, and an update
  older than the newest one is dropped.
\<close>

definition store_apply :: "meter_latest_store \<Rightarrow> meter_update \<Rightarrow> int \<Rightarrow> meter_latest_store" where
  "store_apply views u now =
     (let slot = (case views (mu_period u) of None \<Rightarrow> view_init (mu_period u) | Some v \<Rightarrow> v)
      in views(mu_period u \<mapsto>
           (if mu_sequence u < vw_latest_sequence slot then slot else merge_view slot u now)))"

definition store_init :: meter_latest_store where "store_init = (\<lambda>_. None)"

section \<open>Subscribers\<close>

record subscriber =
  sb_period :: measurement_period
  sb_pending :: "meter_period_view option"
  sb_accepting :: bool

definition subscriber_publish :: "subscriber \<Rightarrow> meter_period_view \<Rightarrow> subscriber" where
  "subscriber_publish s v = (if \<not> sb_accepting s then s else s\<lparr>sb_pending := Some v\<rparr>)"

definition subscriber_stop :: "subscriber \<Rightarrow> subscriber" where
  "subscriber_stop s = (if \<not> sb_accepting s then s else s\<lparr>sb_accepting := False, sb_pending := None\<rparr>)"

text \<open>
  One iteration of the worker's loop \<^verbatim>\<open>run\<close>: it waits until a view is pending, takes it and calls the
  callback with it. A callback that throws is ignored, so the call is just the view handed over.
\<close>

definition subscriber_take :: "subscriber \<Rightarrow> (subscriber \<times> meter_period_view) option" where
  "subscriber_take s =
     (if \<not> sb_accepting s then None
      else case sb_pending s of None \<Rightarrow> None | Some v \<Rightarrow> Some (s\<lparr>sb_pending := None\<rparr>, v))"

record meter_data =
  md_latest :: meter_latest_store
  md_next_id :: u64
  md_subscribers :: "(u64 \<times> subscriber) list"

definition meter_data_init :: meter_data where
  "meter_data_init = \<lparr>md_latest = store_init, md_next_id = 1, md_subscribers = []\<rparr>"

definition md_apply :: "meter_data \<Rightarrow> meter_update \<Rightarrow> int \<Rightarrow> meter_data" where
  "md_apply d u now =
     (let views = store_apply (md_latest d) u now in
      case views (mu_period u) of
        None \<Rightarrow> d\<lparr>md_latest := views\<rparr>
      | Some v \<Rightarrow> d\<lparr>md_latest := views, md_subscribers := map (\<lambda>(i, s).
          (i, if sb_period s = mu_period u then subscriber_publish s v else s)) (md_subscribers d)\<rparr>)"

text \<open>
  \<^verbatim>\<open>subscribe\<close> refuses an empty callback. The id is a 64-bit counter; \<^verbatim>\<open>emplace\<close> keeps an existing
  entry of the same id, which would need the counter to wrap.
\<close>

definition md_subscribe :: "meter_data \<Rightarrow> measurement_period \<Rightarrow> bool \<Rightarrow> (meter_data \<times> u64) result" where
  "md_subscribe d period has_callback =
     (if \<not> has_callback then Inl (Invalid_argument ''meter subscription callback is empty'')
      else let i = md_next_id d;
               s = \<lparr>sb_period = period, sb_pending = None, sb_accepting = True\<rparr>
        in Inr (d\<lparr>md_next_id := i + 1,
                  md_subscribers := (if i \<in> set (map fst (md_subscribers d)) then md_subscribers d
                                     else md_subscribers d @ [(i, s)])\<rparr>, i))"

text \<open>\<^verbatim>\<open>~Subscription\<close>; a moved-from handle has the id 0.\<close>

definition md_unsubscribe :: "meter_data \<Rightarrow> u64 \<Rightarrow> meter_data" where
  "md_unsubscribe d i =
     (if i = 0 then d else d\<lparr>md_subscribers := filter (\<lambda>(j, s). j \<noteq> i) (md_subscribers d)\<rparr>)"

text \<open>The worker of subscriber \<open>i\<close> runs once; the result is the view its callback receives.\<close>

definition md_deliver :: "meter_data \<Rightarrow> u64 \<Rightarrow> (meter_data \<times> meter_period_view) option" where
  "md_deliver d i =
     (case map_of (md_subscribers d) i of
        None \<Rightarrow> None
      | Some s \<Rightarrow>
          case subscriber_take s of
            None \<Rightarrow> None
          | Some (s', v) \<Rightarrow>
              Some (d\<lparr>md_subscribers := map (\<lambda>(j, x). (j, if j = i then s' else x))
                        (md_subscribers d)\<rparr>, v))"

section \<open>The store against its specification\<close>

definition store_run :: "(meter_update \<times> int) list \<Rightarrow> meter_latest_store" where
  "store_run us = foldl (\<lambda>s (u, now). store_apply s u now) store_init us"

text \<open>
  The specification: of the updates of one period, those that are not older than an update before
  them, folded in order.
\<close>

fun fresh :: "u64 \<Rightarrow> meter_update list \<Rightarrow> meter_update list" where
  "fresh n [] = []"
| "fresh n (u # us) = (if mu_sequence u < n then fresh n us else u # fresh (mu_sequence u) us)"

definition period_updates :: "measurement_period \<Rightarrow> (meter_update \<times> int) list \<Rightarrow> meter_update list" where
  "period_updates p us = filter (\<lambda>u. mu_period u = p) (map fst us)"

definition newest :: "u64 \<Rightarrow> meter_update list \<Rightarrow> u64" where
  "newest n us = foldl (\<lambda>m u. max m (mu_sequence u)) n us"

lemma newest_snoc [simp]: "newest n (us @ [u]) = max (newest n us) (mu_sequence u)"
  by (simp add: newest_def)

lemma fresh_snoc:
  "fresh n (us @ [u]) = fresh n us @ (if mu_sequence u < newest n us then [] else [u])"
  by (induction n us rule: fresh.induct) (auto simp: newest_def max_def not_less)

lemma newest_ge: "n \<le> newest n us"
  by (induction us rule: rev_induct) (auto simp: newest_def max_def)

lemma newest_Max: "us \<noteq> [] \<Longrightarrow> newest 0 us = Max (mu_sequence ` set us)"
proof (induction us rule: rev_nonempty_induct)
  case (snoc u us)
  then show ?case
    by (simp add: max.commute image_Un)
qed (simp add: newest_def)

lemma period_updates_snoc [simp]:
  "period_updates p (us @ [(u, now)]) =
     period_updates p us @ (if mu_period u = p then [u] else [])"
  by (simp add: period_updates_def)

lemma store_run_snoc [simp]: "store_run (us @ [(u, now)]) = store_apply (store_run us) u now"
  by (simp add: store_run_def)

lemma store_apply_other [simp]: "mu_period u \<noteq> p \<Longrightarrow> store_apply views u now p = views p"
  by (simp add: store_apply_def Let_def)

text \<open>What the store holds for a period after some updates.\<close>

definition view_spec :: "measurement_period \<Rightarrow> meter_update list \<Rightarrow> meter_period_view option \<Rightarrow> bool" where
  "view_spec p us slot \<longleftrightarrow>
     (case slot of
        None \<Rightarrow> us = []
      | Some v \<Rightarrow> us \<noteq> [] \<and> vw_period v = p \<and> vw_latest_sequence v = newest 0 us \<and>
          vw_values v = foldl merge_values meter_values_init (fresh 0 us))"

lemma view_spec_apply:
  assumes "view_spec (mu_period u) us (views (mu_period u))"
  shows "view_spec (mu_period u) (us @ [u]) (store_apply views u now (mu_period u))"
proof (cases "views (mu_period u)")
  case None
  then show ?thesis
    using assms
    by (simp add: view_spec_def store_apply_def merge_view_def view_init_def newest_def Let_def)
next
  case (Some v)
  then show ?thesis
    using assms
    by (simp add: view_spec_def store_apply_def merge_view_def fresh_snoc max_def Let_def) auto
qed

lemma store_run_spec: "view_spec p (period_updates p us) (store_run us p)"
proof (induction us rule: rev_induct)
  case Nil
  then show ?case
    by (simp add: view_spec_def store_run_def store_init_def period_updates_def)
next
  case (snoc x us)
  obtain u now where x: "x = (u, now)"
    by (cases x)
  show ?case
  proof (cases "mu_period u = p")
    case True
    then show ?thesis
      using view_spec_apply [of u "period_updates p us" "store_run us" now] snoc.IH by (simp add: x)
  qed (use snoc.IH in \<open>simp add: x\<close>)
qed

text \<open>
  C25. The latest store agrees with its specification after every sequence of updates: a period has
  a view exactly when it received an update, the view carries the greatest sequence received, and
  its values are those of the period's updates in order, without the ones older than an update before
  them. Updates of other periods have no influence.
\<close>

theorem latest_store_exact:
  "case store_run us p of
     None \<Rightarrow> period_updates p us = []
   | Some v \<Rightarrow> period_updates p us \<noteq> [] \<and> vw_period v = p \<and>
       vw_latest_sequence v = Max (mu_sequence ` set (period_updates p us)) \<and>
       vw_values v = foldl merge_values meter_values_init (fresh 0 (period_updates p us))"
  using store_run_spec [of p us]
  by (simp add: view_spec_def newest_Max split: option.splits)

section \<open>Deliveries to subscribers\<close>

datatype md_event =
    Applied meter_update int
  | Subscribed measurement_period
  | Unsubscribed u64
  | Delivered u64 meter_period_view

text \<open>The steps of the store and of its worker threads.\<close>

inductive md_step :: "meter_data \<Rightarrow> md_event \<Rightarrow> meter_data \<Rightarrow> bool" where
  step_apply: "md_step d (Applied u now) (md_apply d u now)"
| step_subscribe: "md_subscribe d p True = Inr (d', i) \<Longrightarrow> md_step d (Subscribed p) d'"
| step_unsubscribe: "md_step d (Unsubscribed i) (md_unsubscribe d i)"
| step_deliver: "md_deliver d i = Some (d', v) \<Longrightarrow> md_step d (Delivered i v) d'"

inductive_cases md_step_deliverE: "md_step d (Delivered i v) d'"

inductive md_trace :: "meter_data \<Rightarrow> md_event list \<Rightarrow> meter_data \<Rightarrow> bool" where
  trace_nil: "md_trace d [] d"
| trace_snoc: "md_trace d es d' \<Longrightarrow> md_step d' e d'' \<Longrightarrow> md_trace d (es @ [e]) d''"

text \<open>
  The invariant: a view waiting for a subscriber is always the current view of its period, and
  the views are filed under their own period.
\<close>

definition sub_current :: "meter_latest_store \<Rightarrow> subscriber \<Rightarrow> bool" where
  "sub_current views s \<longleftrightarrow> sb_accepting s \<and>
     (case sb_pending s of None \<Rightarrow> True | Some v \<Rightarrow> views (sb_period s) = Some v)"

definition views_filed :: "meter_latest_store \<Rightarrow> bool" where
  "views_filed views \<longleftrightarrow> (\<forall>p v. views p = Some v \<longrightarrow> vw_period v = p)"

definition subs_current :: "meter_latest_store \<Rightarrow> (u64 \<times> subscriber) list \<Rightarrow> bool" where
  "subs_current views subs \<longleftrightarrow>
     distinct (map fst subs) \<and> list_all (\<lambda>(i, s). sub_current views s) subs"

definition md_inv :: "meter_data \<Rightarrow> bool" where
  "md_inv d \<longleftrightarrow> views_filed (md_latest d) \<and> subs_current (md_latest d) (md_subscribers d)"

lemma md_inv_init: "md_inv meter_data_init"
  by (simp add: md_inv_def views_filed_def subs_current_def meter_data_init_def store_init_def)

lemma store_apply_some: "\<exists>v. store_apply views u now (mu_period u) = Some v"
  by (simp add: store_apply_def Let_def)

lemma views_filed_apply: "views_filed views \<Longrightarrow> views_filed (store_apply views u now)"
  unfolding views_filed_def
  by (auto simp: store_apply_def merge_view_def view_init_def Let_def split: if_splits option.splits)

lemma sub_current_publish:
  assumes "sub_current views s" and "store_apply views u now (mu_period u) = Some v"
  shows "sub_current (store_apply views u now)
    (if sb_period s = mu_period u then subscriber_publish s v else s)"
  using assms by (auto simp: sub_current_def subscriber_publish_def split: option.splits)

lemma subs_current_map:
  assumes "subs_current views subs" and "\<And>i s. sub_current views s \<Longrightarrow> sub_current views' (f i s)"
  shows "subs_current views' (map (\<lambda>(i, s). (i, f i s)) subs)"
  using assms by (auto simp: subs_current_def list_all_iff case_prod_beta comp_def)

lemma md_inv_apply: "md_inv d \<Longrightarrow> md_inv (md_apply d u now)"
proof -
  assume I: "md_inv d"
  let ?views = "store_apply (md_latest d) u now"
  obtain v where v: "?views (mu_period u) = Some v"
    using store_apply_some by blast
  have "subs_current ?views (map (\<lambda>(i, s).
      (i, if sb_period s = mu_period u then subscriber_publish s v else s)) (md_subscribers d))"
    using I by (intro subs_current_map [of "md_latest d"] sub_current_publish [OF _ v])
      (simp_all add: md_inv_def)
  then show ?thesis
    using I v by (simp add: md_apply_def md_inv_def views_filed_apply)
qed

lemma md_inv_subscribe: "md_inv d \<Longrightarrow> md_subscribe d p b = Inr (d', i) \<Longrightarrow> md_inv d'"
proof -
  have "sub_current views \<lparr>sb_period = p, sb_pending = None, sb_accepting = True\<rparr>" for views
    by (simp add: sub_current_def)
  then show "md_inv d \<Longrightarrow> md_subscribe d p b = Inr (d', i) \<Longrightarrow> md_inv d'"
    by (auto simp: md_subscribe_def md_inv_def subs_current_def Let_def split: if_splits)
qed

lemma md_inv_unsubscribe: "md_inv d \<Longrightarrow> md_inv (md_unsubscribe d i)"
proof -
  have "distinct (map fst xs) \<Longrightarrow> distinct (map fst (filter P xs))" for xs :: "(u64 \<times> subscriber) list" and P
    by (induction xs) auto
  then show "md_inv d \<Longrightarrow> md_inv (md_unsubscribe d i)"
    by (simp add: md_unsubscribe_def md_inv_def subs_current_def list_all_iff)
qed

lemma md_deliver_cases:
  assumes "md_deliver d i = Some (d', v)"
  obtains s where "map_of (md_subscribers d) i = Some s" "sb_accepting s" "sb_pending s = Some v"
    "d' = d\<lparr>md_subscribers := map (\<lambda>(j, x). (j, if j = i then s\<lparr>sb_pending := None\<rparr> else x))
       (md_subscribers d)\<rparr>"
  using assms by (auto simp: md_deliver_def subscriber_take_def split: option.splits if_splits)

lemma md_inv_deliver: "md_inv d \<Longrightarrow> md_deliver d i = Some (d', v) \<Longrightarrow> md_inv d'"
proof -
  assume I: "md_inv d" and "md_deliver d i = Some (d', v)"
  then obtain s where s: "sb_accepting s"
    and d': "d' = d\<lparr>md_subscribers := map (\<lambda>(j, x). (j, if j = i then s\<lparr>sb_pending := None\<rparr> else x))
       (md_subscribers d)\<rparr>"
    by (elim md_deliver_cases)
  have "sub_current (md_latest d) (s\<lparr>sb_pending := None\<rparr>)"
    using s by (simp add: sub_current_def)
  then have "subs_current (md_latest d) (md_subscribers d')"
    unfolding d' using I by (auto simp: md_inv_def intro!: subs_current_map [of "md_latest d"])
  then show ?thesis
    using I by (simp add: md_inv_def d')
qed

lemma md_inv_step: "md_inv d \<Longrightarrow> md_step d e d' \<Longrightarrow> md_inv d'"
  by (erule md_step.cases) (auto intro: md_inv_apply md_inv_subscribe md_inv_unsubscribe md_inv_deliver)

lemma md_inv_trace: "md_trace d es d' \<Longrightarrow> md_inv d \<Longrightarrow> md_inv d'"
  by (induction rule: md_trace.induct) (auto intro: md_inv_step)

text \<open>The sequence of a period's view never goes back.\<close>

definition view_sequence :: "meter_data \<Rightarrow> measurement_period \<Rightarrow> int" where
  "view_sequence d p = (case md_latest d p of None \<Rightarrow> - 1 | Some v \<Rightarrow> uint (vw_latest_sequence v))"

lemma view_sequence_apply: "view_sequence d p \<le> view_sequence (md_apply d u now) p"
proof -
  obtain v where v: "store_apply (md_latest d) u now (mu_period u) = Some v"
    using store_apply_some by blast
  have "view_sequence (md_apply d u now) p =
      (case store_apply (md_latest d) u now p of None \<Rightarrow> - 1 | Some v \<Rightarrow> uint (vw_latest_sequence v))"
    using v by (simp add: md_apply_def view_sequence_def)
  also have "view_sequence d p \<le> \<dots>"
    by (cases "mu_period u = p")
      (auto simp: view_sequence_def store_apply_def merge_view_def word_less_def
        not_less Let_def view_init_def order_trans [of "- 1 :: int" 0] split: option.split)
  finally show ?thesis .
qed

lemma view_sequence_step: "md_step d e d' \<Longrightarrow> view_sequence d p \<le> view_sequence d' p"
proof (erule md_step.cases)
  show "view_sequence d p \<le> view_sequence d' p"
    if "d = x" "d' = md_apply x u now" for x u now
    using that view_sequence_apply by simp
qed (auto simp: view_sequence_def md_subscribe_def md_unsubscribe_def Let_def elim!: md_deliver_cases
    split: if_splits)

lemma view_sequence_trace: "md_trace d es d' \<Longrightarrow> view_sequence d p \<le> view_sequence d' p"
  by (induction rule: md_trace.induct) (auto intro: order_trans view_sequence_step)

lemma delivered_current:
  assumes "md_inv d" and "md_step d (Delivered i v) d'"
  shows "md_latest d (vw_period v) = Some v \<and> md_latest d' = md_latest d \<and>
    (\<exists>s. (i, s) \<in> set (md_subscribers d) \<and> sb_period s = vw_period v)"
proof -
  obtain s where s: "map_of (md_subscribers d) i = Some s" "sb_pending s = Some v"
    and d': "md_latest d' = md_latest d"
    using assms(2) by (elim md_step_deliverE md_deliver_cases) auto
  have "(i, s) \<in> set (md_subscribers d)"
    using s(1) by (rule map_of_SomeD)
  moreover from this have "md_latest d (sb_period s) = Some v"
    using assms(1) s(2) by (auto simp: md_inv_def subs_current_def list_all_iff sub_current_def)
  moreover from this assms(1) have "vw_period v = sb_period s"
    by (simp add: md_inv_def views_filed_def)
  ultimately show ?thesis
    using d' by auto
qed

lemma md_trace_append:
  "md_trace d (es @ es') d'' \<Longrightarrow> \<exists>d'. md_trace d es d' \<and> md_trace d' es' d''"
proof (induction es' arbitrary: d'' rule: rev_induct)
  case Nil
  then show ?case by (auto intro: trace_nil)
next
  case (snoc e es')
  from snoc.prems obtain x where x: "md_trace d (es @ es') x" "md_step x e d''"
    by (auto elim: md_trace.cases simp flip: append_assoc)
  then show ?case
    using snoc.IH trace_snoc by blast
qed

lemma md_trace_single: "md_trace d [e] d' \<Longrightarrow> md_step d e d'"
proof -
  assume "md_trace d [e] d'"
  then obtain x where "md_trace d [] x" "md_step x e d'"
    by (auto elim: md_trace.cases)
  moreover from this(1) have "x = d"
    by (auto elim: md_trace.cases)
  ultimately show ?thesis
    by simp
qed


text \<open>After its subscription has ended, a subscriber receives nothing.\<close>

lemma no_delivery_after_unsubscribe: "i \<noteq> 0 \<Longrightarrow> md_deliver (md_unsubscribe d i) i = None"
proof -
  assume "i \<noteq> 0"
  moreover have "map_of (filter (\<lambda>(j, s). j \<noteq> i) xs) i = None" for xs :: "(u64 \<times> subscriber) list"
    by (induction xs) auto
  ultimately show ?thesis
    by (simp add: md_unsubscribe_def md_deliver_def)
qed

section \<open>A concrete history\<close>

definition sample_update :: "u64 \<Rightarrow> meter_update" where
  "sample_update n = meter_update_init\<lparr>mu_sequence := n, mu_power := Some power_values_init\<rparr>"

definition sample_subscribed :: meter_data where
  "sample_subscribed = meter_data_init\<lparr>md_next_id := 2,
     md_subscribers := [(1, \<lparr>sb_period = Basic, sb_pending = None, sb_accepting = True\<rparr>)]\<rparr>"

definition sample_view :: "u64 \<Rightarrow> meter_period_view" where
  "sample_view n = merge_view (view_init Basic) (sample_update n) 0"

lemma sample_first_update:
  "md_apply sample_subscribed (sample_update 4) 0 = sample_subscribed
     \<lparr>md_latest := [Basic \<mapsto> sample_view 4],
      md_subscribers := [(1, \<lparr>sb_period = Basic, sb_pending = Some (sample_view 4), sb_accepting = True\<rparr>)]\<rparr>"
  by (simp add: md_apply_def sample_subscribed_def sample_view_def sample_update_def meter_update_init_def
      store_apply_def store_init_def meter_data_init_def subscriber_publish_def view_init_def Let_def
      fun_upd_def)


end
