(* ===== verification/Meter_Events.thy ===== *)
theory Meter_Events
  imports Meter_Decoders
begin

text \<open>
  The decoders of \<^verbatim>\<open>common/msap1/meter/meter_data.cpp\<close> whose results stay outside the period store:
  the single-cycle diagnostic record, the power-quality heartbeat and event record, the
  power-quality event lifecycle with its externally visible identity, the flicker record and the
  mains-signalling record. SHA-256 (OpenSSL) is a parameter.
\<close>

unbundle bit_operations_syntax

section \<open>The single-cycle record\<close>

record single_cycle_snapshot =
  sc_sequence :: u32
  sc_configuration_generation :: u32
  sc_sample_count :: u32
  sc_valid_mask :: u32
  sc_status :: u32
  sc_first_sample :: u64
  sc_last_sample :: u64
  sc_cycle_sequence :: u32
  sc_nominal_hz :: u32
  sc_flags :: u32
  sc_processing_tick :: u64
  sc_frequency_millihz :: u32
  sc_frequency_status :: u32
  sc_rms_micro_units :: "u64 list"
  sc_vll_rms_micro_units :: "u64 list"
  sc_active_power_picowatts :: "int list"
  sc_fundamental_rms_micro_units :: "u64 list"

definition sc_phasor_valid :: "single_cycle_snapshot \<Rightarrow> bool" where
  "sc_phasor_valid s \<longleftrightarrow> sc_status s AND 2 = 0"
definition sc_first_after_gap :: "single_cycle_snapshot \<Rightarrow> bool" where
  "sc_first_after_gap s \<longleftrightarrow> sc_status s AND 4 \<noteq> 0"
definition sc_gap_was_malformed :: "single_cycle_snapshot \<Rightarrow> bool" where
  "sc_gap_was_malformed s \<longleftrightarrow> sc_status s AND 8 \<noteq> 0"
definition sc_gap_was_timing :: "single_cycle_snapshot \<Rightarrow> bool" where
  "sc_gap_was_timing s \<longleftrightarrow> sc_status s AND 16 \<noteq> 0"

definition decode_single_cycle_record :: "meter_record \<Rightarrow> single_cycle_snapshot" where
  "decode_single_cycle_record r =
     \<lparr>sc_sequence = w32 r 3,
      sc_configuration_generation = w32 r 4,
      sc_sample_count = w32 r 6,
      sc_valid_mask = w32 r 7,
      sc_status = w32 r 8,
      sc_first_sample = unsigned64 r 9,
      sc_last_sample = unsigned64 r 16,
      sc_cycle_sequence = w32 r 14,
      sc_nominal_hz = w32 r 13 AND 0xff,
      sc_flags = drop_bit 16 (w32 r 13) AND 7,
      sc_processing_tick = unsigned64 r 18,
      sc_frequency_millihz = w32 r 20,
      sc_frequency_status = w32 r 21,
      sc_rms_micro_units = map (\<lambda>lane. unsigned64 r (24 + lane * 2)) [0..<7],
      sc_vll_rms_micro_units = map (\<lambda>pair. unsigned64 r (38 + pair * 2)) [0..<3],
      sc_active_power_picowatts = map (\<lambda>phase. signed64 r (44 + phase * 2)) [0..<3],
      sc_fundamental_rms_micro_units = map (\<lambda>lane. unsigned64 r (50 + lane * 2)) [0..<7]\<rparr>"

section \<open>The power-quality record\<close>

record power_quality_snapshot =
  pqs_sequence :: u32
  pqs_configuration_generation :: u32
  pqs_sample_rate_hz :: u32
  pqs_first_sample :: u64
  pqs_last_sample :: u64
  pqs_sample_count :: u32
  pqs_valid_mask :: u8
  pqs_status :: u32
  pqs_values :: power_quality_values

definition pq_voltage_lane_bit :: "nat \<Rightarrow> u8" where
  "pq_voltage_lane_bit phase = [0x40, 0x20, 0x10] ! phase"
definition pq_current_lane_bit :: "nat \<Rightarrow> u8" where
  "pq_current_lane_bit phase = [0x01, 0x02, 0x04] ! phase"

text \<open>\<^verbatim>\<open>static_cast\<close> of a code the checks have bounded.\<close>

definition pq_kind_of :: "u32 \<Rightarrow> power_quality_record_kind" where
  "pq_kind_of k = (if k = 0 then PQ_periodic else if k = 1 then PQ_event_start else PQ_event_end)"
definition pq_event_type_of :: "u32 \<Rightarrow> power_quality_event_type" where
  "pq_event_type_of k =
     (if k = 0 then PQ_none else if k = 1 then PQ_sag else if k = 2 then PQ_swell
      else PQ_interruption)"

definition pq_event_checks :: "meter_record \<Rightarrow> (bool \<times> exn) list" where
  "pq_event_checks r =
     [(record_format r = meter_pq_event_format,
         Invalid_argument ''invalid power-quality record''),
      (w32 r 13 AND 0xff \<le> 2 \<and> drop_bit 8 (w32 r 13) AND 0xff \<le> 3,
         Invalid_argument ''power-quality record has an unknown kind or event type''),
      (block_sample_count r \<noteq> 0,
         Invalid_argument ''power-quality record has a zero sample count''),
      (first_sample_index r \<le> unsigned64 r 14,
         Invalid_argument ''power-quality record spans a negative sample range'')]"

text \<open>The time stamp is the clock at decoding time.\<close>

definition pq_event_values :: "meter_record \<Rightarrow> int \<Rightarrow> power_quality_values" where
  "pq_event_values r received_at =
     (let kind_word = w32 r 13;
          sequence = ucast (rec_sequence r);
          window = sample_window_of (block_sample_count r) (sample_rate_hz r);
          grade = (\<lambda>lane_bit. if valid_mask r AND lane_bit = 0 then Q_unavailable
             else if rec_status r AND 1 \<noteq> 0 then Q_arithmetic_error else Q_valid);
          voltage = (\<lambda>(word, phase). graded_reading (uint (w32 r word))
             (grade (pq_voltage_lane_bit phase)) sequence received_at window);
          current = (\<lambda>(word, phase). graded_reading (uint (w32 r word))
             (grade (pq_current_lane_bit phase)) sequence received_at window)
      in \<lparr>pq_kind = pq_kind_of (kind_word AND 0xff),
          pq_event_type = pq_event_type_of (drop_bit 8 kind_word AND 0xff),
          pq_affected_phases = ucast (drop_bit 16 kind_word AND 7),
          pq_armed = flag kind_word 26,
          pq_cycle_locked = flag kind_word 24,
          pq_synthetic_half_cycle = flag kind_word 25,
          pq_voltage = abc_of voltage (16, 0) (17, 1) (18, 2),
          pq_voltage_minimum = abc_of voltage (19, 0) (20, 1) (21, 2),
          pq_voltage_maximum = abc_of voltage (22, 0) (23, 1) (24, 2),
          pq_current = abc_of current (25, 0) (26, 1) (27, 2),
          pq_event_sequence = w32 r 28,
          pq_duration_samples = unsigned64 r 29,
          pq_half_cycle_updates = w32 r 31,
          pq_reference_micro_volts = w32 r 32,
          pq_sag_threshold_e4 = w32 r 33,
          pq_swell_threshold_e4 = w32 r 34,
          pq_interruption_threshold_e4 = w32 r 35,
          pq_hysteresis_e4 = w32 r 36\<rparr>)"

definition decode_pq_event_record :: "meter_record \<Rightarrow> int \<Rightarrow> power_quality_snapshot result" where
  "decode_pq_event_record r received_at =
     bind_result (require_all (pq_event_checks r)) (\<lambda>_.
       Inr \<lparr>pqs_sequence = rec_sequence r,
            pqs_configuration_generation = configuration_generation r,
            pqs_sample_rate_hz = sample_rate_hz r,
            pqs_first_sample = first_sample_index r,
            pqs_last_sample = unsigned64 r 14,
            pqs_sample_count = block_sample_count r,
            pqs_valid_mask = valid_mask r,
            pqs_status = rec_status r,
            pqs_values = pq_event_values r received_at\<rparr>)"

section \<open>The power-quality event lifecycle\<close>

record power_quality_event_id =
  pqe_session :: u64
  pqe_counter :: u64

datatype power_quality_event_lifecycle = LC_start | LC_update | LC_end | LC_abort

datatype power_quality_lifecycle_type =
    LT_voltage_sag | LT_voltage_swell | LT_voltage_interruption | LT_rapid_voltage_change
  | LT_voltage_unbalance | LT_current_sag | LT_current_swell | LT_current_unbalance
  | LT_transient_voltage

record power_quality_event_lifecycle_snapshot =
  lcs_id :: power_quality_event_id
  lcs_lifecycle :: power_quality_event_lifecycle
  lcs_type :: power_quality_lifecycle_type
  lcs_phase_mask :: u8
  lcs_trigger_source :: u8
  lcs_sequence :: u32
  lcs_configuration_generation :: u32
  lcs_profile_generation :: u32
  lcs_sample_rate_hz :: u32
  lcs_first_sample :: u64
  lcs_last_sample :: u64
  lcs_trigger_sample :: u64
  lcs_duration_samples :: u64
  lcs_valid_mask :: u32
  lcs_status :: u32
  lcs_threshold_e4 :: u32
  lcs_hysteresis_e4 :: u32
  lcs_reference_micro_units :: u32
  lcs_minimum_micro_units :: "u32 list"
  lcs_maximum_micro_units :: "u32 list"
  lcs_current_micro_units :: "u32 list"
  lcs_waveform_enabled :: bool
  lcs_per_phase :: bool
  lcs_iec_classification :: bool
  lcs_waveform_pretrigger_ms :: u32
  lcs_waveform_posttrigger_ms :: u32
  lcs_waveform_decimation :: u32
  lcs_start_utc_nanoseconds :: u64
  lcs_last_utc_nanoseconds :: u64
  lcs_time_quality :: time_quality
  lcs_discontinuities :: u32
  lcs_update_count :: u32
  lcs_settings_digest :: "u32 list"

definition lifecycle_of :: "u8 \<Rightarrow> power_quality_event_lifecycle" where
  "lifecycle_of c = (if c = 0 then LC_start else if c = 1 then LC_update
     else if c = 2 then LC_end else LC_abort)"

definition lifecycle_type_of :: "u8 \<Rightarrow> power_quality_lifecycle_type" where
  "lifecycle_type_of c =
     (if c = 0 then LT_voltage_sag else if c = 1 then LT_voltage_swell
      else if c = 2 then LT_voltage_interruption else if c = 3 then LT_rapid_voltage_change
      else if c = 4 then LT_voltage_unbalance else if c = 5 then LT_current_sag
      else if c = 6 then LT_current_swell else if c = 7 then LT_current_unbalance
      else LT_transient_voltage)"

definition time_quality_of :: "u8 \<Rightarrow> time_quality" where
  "time_quality_of c = (if c = 0 then Unsynchronized else if c = 1 then Synchronized else Holdover)"

definition lcs_terminal :: "power_quality_event_lifecycle_snapshot \<Rightarrow> bool" where
  "lcs_terminal s \<longleftrightarrow> lcs_lifecycle s = LC_end \<or> lcs_lifecycle s = LC_abort"

text \<open>\<^verbatim>\<open>voltage_event\<close>: the numerical value of the type is at most 4, or it is a transient.\<close>

definition lcs_voltage_event :: "power_quality_event_lifecycle_snapshot \<Rightarrow> bool" where
  "lcs_voltage_event s \<longleftrightarrow>
     lcs_type s \<in> set [LT_voltage_sag, LT_voltage_swell, LT_voltage_interruption,
       LT_rapid_voltage_change, LT_voltage_unbalance] \<or> lcs_type s = LT_transient_voltage"

definition lc_identity_lifecycle :: "meter_record \<Rightarrow> u8" where
  "lc_identity_lifecycle r = ucast (w32 r 13 AND 3)"
definition lc_identity_type :: "meter_record \<Rightarrow> u8" where
  "lc_identity_type r = ucast (drop_bit 4 (w32 r 13) AND 0xf)"
definition lc_identity_phase_mask :: "meter_record \<Rightarrow> u8" where
  "lc_identity_phase_mask r = ucast (drop_bit 8 (w32 r 13) AND 7)"
definition lc_identity_trigger_source :: "meter_record \<Rightarrow> u8" where
  "lc_identity_trigger_source r = ucast (drop_bit 16 (w32 r 13) AND 3)"

text \<open>
  \<^verbatim>\<open>static_cast<TimeQuality>(word)\<close>: the enumeration has an 8-bit underlying type, so only the low
  byte of the word reaches the later range test.
\<close>

definition lc_time_quality_code :: "meter_record \<Rightarrow> u8" where
  "lc_time_quality_code r = ucast (w32 r 45)"

definition lifecycle_snapshot :: "meter_record \<Rightarrow> power_quality_event_lifecycle_snapshot" where
  "lifecycle_snapshot r = (let waveform = w32 r 23 in
     \<lparr>lcs_id = \<lparr>pqe_session = unsigned64 r 16, pqe_counter = unsigned64 r 18\<rparr>,
      lcs_lifecycle = lifecycle_of (lc_identity_lifecycle r),
      lcs_type = lifecycle_type_of (lc_identity_type r),
      lcs_phase_mask = lc_identity_phase_mask r,
      lcs_trigger_source = lc_identity_trigger_source r,
      lcs_sequence = rec_sequence r,
      lcs_configuration_generation = configuration_generation r,
      lcs_profile_generation = w32 r 20,
      lcs_sample_rate_hz = sample_rate_hz r,
      lcs_first_sample = first_sample_index r,
      lcs_last_sample = unsigned64 r 14,
      lcs_trigger_sample = unsigned64 r 39,
      lcs_duration_samples = unsigned64 r 37,
      lcs_valid_mask = w32 r 7,
      lcs_status = rec_status r,
      lcs_threshold_e4 = w32 r 21,
      lcs_hysteresis_e4 = w32 r 22,
      lcs_reference_micro_units = w32 r 26,
      lcs_minimum_micro_units = map (\<lambda>phase. w32 r (28 + phase)) [0..<3],
      lcs_maximum_micro_units = map (\<lambda>phase. w32 r (31 + phase)) [0..<3],
      lcs_current_micro_units = map (\<lambda>phase. w32 r (34 + phase)) [0..<3],
      lcs_waveform_enabled = (waveform AND 1 \<noteq> 0),
      lcs_per_phase = (waveform AND 2 \<noteq> 0),
      lcs_iec_classification = (waveform AND 4 \<noteq> 0),
      lcs_waveform_pretrigger_ms = w32 r 24,
      lcs_waveform_posttrigger_ms = w32 r 25,
      lcs_waveform_decimation = drop_bit 8 waveform,
      lcs_start_utc_nanoseconds = unsigned64 r 41,
      lcs_last_utc_nanoseconds = unsigned64 r 43,
      lcs_time_quality = time_quality_of (lc_time_quality_code r),
      lcs_discontinuities = w32 r 46,
      lcs_update_count = w32 r 47,
      lcs_settings_digest = map (\<lambda>lane. w32 r (48 + lane)) [0..<4]\<rparr>)"

definition lifecycle_header_checks :: "meter_record \<Rightarrow> (bool \<times> exn) list" where
  "lifecycle_header_checks r =
     [(header_valid r \<and> record_format r = meter_pq_event_lifecycle_format,
         Invalid_argument ''invalid PQ-EVENT-v1 record header''),
      (rec_sequence r \<noteq> 0 \<and> configuration_generation r \<noteq> 0 \<and> sample_rate_hz r \<noteq> 0 \<and>
       emit_drops r = 0,
         Invalid_argument ''invalid PQ-EVENT-v1 common provenance''),
      (rec_status r AND NOT 0x0f = 0 \<and> rec_status r AND 0x0a = 0x0a,
         Invalid_argument ''invalid PQ-EVENT-v1 status''),
      (w32 r 13 AND NOT 0x000307f3 = 0,
         Invalid_argument ''PQ-EVENT-v1 identity has reserved bits''),
      (lc_identity_lifecycle r \<le> 3 \<and> lc_identity_type r \<le> 8 \<and>
       lc_identity_phase_mask r \<noteq> 0 \<and> lc_identity_trigger_source r \<le> 2,
         Invalid_argument ''PQ-EVENT-v1 identity is out of range'')]"

definition lifecycle_expected_count :: "meter_record \<Rightarrow> u32" where
  "lifecycle_expected_count r =
     (let duration = unsigned64 r 37;
          covered = (if duration = - 1 then - 1 else duration + 1)
      in ucast (min covered 0xffffffff))"

definition lifecycle_extrema_checks :: "meter_record \<Rightarrow> (bool \<times> exn) list" where
  "lifecycle_extrema_checks r =
     map (\<lambda>phase.
       (w32 r (28 + phase) \<le> w32 r (31 + phase) \<and> w32 r (28 + phase) \<le> w32 r (34 + phase) \<and>
        w32 r (34 + phase) \<le> w32 r (31 + phase),
        Invalid_argument ''PQ-EVENT-v1 extrema are inconsistent'')) [0..<3]"

definition lifecycle_checks :: "meter_record \<Rightarrow> (bool \<times> exn) list" where
  "lifecycle_checks r =
    (let s = lifecycle_snapshot r; waveform = w32 r 23; code = lc_time_quality_code r in
     [(pqe_session (lcs_id s) \<noteq> 0 \<and> pqe_counter (lcs_id s) \<noteq> 0 \<and>
       lcs_profile_generation s = lcs_configuration_generation s \<and>
       lcs_first_sample s \<le> lcs_last_sample s \<and>
       lcs_first_sample s \<le> lcs_trigger_sample s \<and> lcs_trigger_sample s \<le> lcs_last_sample s \<and>
       lcs_duration_samples s = lcs_last_sample s - lcs_first_sample s \<and>
       lcs_update_count s \<noteq> 0 \<and> lcs_reference_micro_units s \<noteq> 0 \<and>
       lcs_threshold_e4 s \<noteq> 0 \<and> lcs_threshold_e4 s \<le> 0xffff \<and>
       lcs_hysteresis_e4 s < lcs_threshold_e4 s \<and>
       lcs_waveform_pretrigger_ms s \<le> 120000 \<and> lcs_waveform_posttrigger_ms s \<le> 120000 \<and>
       lcs_waveform_decimation s \<in> set [1, 2, 4, 8, 16, 32],
         Invalid_argument ''PQ-EVENT-v1 provenance is inconsistent''),
      (waveform AND NOT 0x00003f07 = 0,
         Invalid_argument ''PQ-EVENT-v1 waveform policy has reserved bits''),
      (lcs_iec_classification s = (lc_identity_type r \<le> 3 \<or> lc_identity_type r = 8),
         Invalid_argument ''PQ-EVENT-v1 taxonomy is inconsistent''),
      (lcs_valid_mask s = (if lcs_voltage_event s then push_bit 4 (ucast (lcs_phase_mask s))
                           else ucast (lcs_phase_mask s)),
         Invalid_argument ''PQ-EVENT-v1 phase validity is inconsistent''),
      (block_sample_count r = lifecycle_expected_count r \<and> lcs_discontinuities s = result_drops r,
         Invalid_argument ''PQ-EVENT-v1 span is inconsistent'')] @
     lifecycle_extrema_checks r @
     [(code \<le> 2 \<and>
       (code = 0 \<longrightarrow> lcs_start_utc_nanoseconds s = 0 \<and> lcs_last_utc_nanoseconds s = 0) \<and>
       (code \<noteq> 0 \<longrightarrow> lcs_start_utc_nanoseconds s \<noteq> 0 \<and>
          lcs_start_utc_nanoseconds s \<le> lcs_last_utc_nanoseconds s),
         Invalid_argument ''PQ-EVENT-v1 time provenance is inconsistent''),
      (list_ex (\<lambda>w. w \<noteq> 0) (lcs_settings_digest s) \<and> w32 r 27 = 0,
         Invalid_argument ''PQ-EVENT-v1 reserved/snapshot fields are invalid'')] @
     require_zero_words r 52 63 ''PQ-EVENT-v1 reserved word is nonzero'')"

definition decode_pq_event_lifecycle_record ::
    "meter_record \<Rightarrow> power_quality_event_lifecycle_snapshot result" where
  "decode_pq_event_lifecycle_record r =
     bind_result (require_all (lifecycle_header_checks r @ lifecycle_checks r)) (\<lambda>_.
       Inr (lifecycle_snapshot r))"

text \<open>
  \<^verbatim>\<open>stable_power_quality_event_uuid\<close>: the first 16 bytes of the SHA-256 digest of the two
  little-endian counters, with the version and variant fields of RFC 4122 set. \<^verbatim>\<open>SHA256\<close> returning
  \<^verbatim>\<open>nullptr\<close> is \<^verbatim>\<open>None\<close>.
\<close>

definition event_uuid_source :: "power_quality_event_id \<Rightarrow> u8 list" where
  "event_uuid_source i = le_bytes 8 (pqe_session i) @ le_bytes 8 (pqe_counter i)"

definition stable_power_quality_event_uuid ::
    "(u8 list \<Rightarrow> u8 list option) \<Rightarrow> power_quality_event_id \<Rightarrow> u8 list result" where
  "stable_power_quality_event_uuid sha256 i =
     (case sha256 (event_uuid_source i) of
        None \<Rightarrow> Inl (Runtime_error ''power-quality event UUID hash failed'')
      | Some digest \<Rightarrow>
          let result = take 16 digest;
              result = result[6 := (result ! 6 AND 0x0f) OR 0x50]
          in Inr (result[8 := (result ! 8 AND 0x3f) OR 0x80]))"

section \<open>The flicker record\<close>

datatype flicker_record_kind = FK_live | FK_pst | FK_plt

record flicker_snapshot =
  fl_kind :: flicker_record_kind
  fl_sequence :: u32
  fl_configuration_generation :: u32
  fl_profile_generation :: u32
  fl_sample_rate_hz :: u32
  fl_first_sample :: u64
  fl_last_sample :: u64
  fl_sample_count :: u32
  fl_interval_seconds :: u32
  fl_phase_valid_mask :: u8
  fl_lamp_voltage :: u16
  fl_nominal_frequency_hz :: u8
  fl_pinst_q16 :: "u32 list"
  fl_pst_q16 :: "u32 list"
  fl_plt_q16 :: "u32 list"
  fl_valid_internal_samples :: "u32 list"
  fl_status :: u32
  fl_source_status :: u32

definition flicker_kind_code :: "meter_record \<Rightarrow> u8" where
  "flicker_kind_code r = ucast (w32 r 13 AND 0xff)"
definition flicker_phase_mask :: "meter_record \<Rightarrow> u8" where
  "flicker_phase_mask r = ucast (drop_bit 8 (w32 r 13) AND 7)"
definition flicker_kind_of :: "u8 \<Rightarrow> flicker_record_kind" where
  "flicker_kind_of k = (if k = 0 then FK_live else if k = 1 then FK_pst else FK_plt)"

definition flicker_snapshot_of :: "meter_record \<Rightarrow> flicker_snapshot" where
  "flicker_snapshot_of r =
     \<lparr>fl_kind = flicker_kind_of (flicker_kind_code r),
      fl_sequence = rec_sequence r,
      fl_configuration_generation = configuration_generation r,
      fl_profile_generation = w32 r 29,
      fl_sample_rate_hz = sample_rate_hz r,
      fl_first_sample = first_sample_index r,
      fl_last_sample = unsigned64 r 14,
      fl_sample_count = block_sample_count r,
      fl_interval_seconds = w32 r 28,
      fl_phase_valid_mask = flicker_phase_mask r,
      fl_lamp_voltage = ucast (w32 r 30 AND 0xffff),
      fl_nominal_frequency_hz = ucast (drop_bit 16 (w32 r 30)),
      fl_pinst_q16 = map (\<lambda>phase. w32 r (16 + phase)) [0..<3],
      fl_pst_q16 = map (\<lambda>phase. w32 r (19 + phase)) [0..<3],
      fl_plt_q16 = map (\<lambda>phase. w32 r (22 + phase)) [0..<3],
      fl_valid_internal_samples = map (\<lambda>phase. w32 r (25 + phase)) [0..<3],
      fl_status = rec_status r,
      fl_source_status = w32 r 31\<rparr>"

definition flicker_header_checks :: "meter_record \<Rightarrow> (bool \<times> exn) list" where
  "flicker_header_checks r =
     [(header_valid r \<and> record_format r = meter_flicker_format,
         Invalid_argument ''invalid FLICKER-v1 record header''),
      (rec_sequence r \<noteq> 0 \<and> configuration_generation r \<noteq> 0 \<and> 2000 \<le> sample_rate_hz r \<and>
       sample_rate_hz r \<le> 128000 \<and> sample_rate_hz r mod 2000 = 0 \<and>
       emit_drops r = 0 \<and> result_drops r = 0,
         Invalid_argument ''invalid FLICKER-v1 common provenance''),
      (rec_status r AND NOT 5 = 0, Invalid_argument ''invalid FLICKER-v1 status''),
      (w32 r 13 AND NOT 0x7ff = 0 \<and> flicker_kind_code r \<le> 2 \<and>
       valid_mask r = push_bit 4 (flicker_phase_mask r),
         Invalid_argument ''invalid FLICKER-v1 kind or phase mask'')]"

definition flicker_expected_seconds :: "meter_record \<Rightarrow> u32" where
  "flicker_expected_seconds r =
     (if flicker_kind_code r = 0 then 1 else if flicker_kind_code r = 1 then 600 else 7200)"

definition flicker_expected_internal :: "meter_record \<Rightarrow> u32" where
  "flicker_expected_internal r = flicker_expected_seconds r * 2000"

definition flicker_phase_checks :: "meter_record \<Rightarrow> (bool \<times> exn) list" where
  "flicker_phase_checks r =
     map (\<lambda>phase.
       (w32 r (25 + phase) \<le> flicker_expected_internal r \<and>
        (ucast (flicker_phase_mask r) AND push_bit phase 1 \<noteq> (0 :: u32) \<longrightarrow>
           w32 r (25 + phase) = flicker_expected_internal r),
        Invalid_argument ''FLICKER-v1 phase validity is inconsistent'')) [0..<3]"

definition flicker_maximum_valid :: "meter_record \<Rightarrow> u32" where
  "flicker_maximum_valid r = foldl (\<lambda>m phase. max m (w32 r (25 + phase))) 0 [0..<3]"

definition flicker_expected_count :: "meter_record \<Rightarrow> u64" where
  "flicker_expected_count r =
     ucast (flicker_maximum_valid r) * ucast (sample_rate_hz r div 2000)"

definition flicker_checks :: "meter_record \<Rightarrow> (bool \<times> exn) list" where
  "flicker_checks r =
    (let s = flicker_snapshot_of r; kind = flicker_kind_code r; model = w32 r 30;
         expected_span = ucast (flicker_expected_seconds r) * ucast (fl_sample_rate_hz s) in
     flicker_phase_checks r @
     [(fl_profile_generation s = fl_configuration_generation s \<and>
       fl_interval_seconds s = flicker_expected_seconds r \<and>
       fl_first_sample s \<le> fl_last_sample s \<and>
       fl_last_sample s - fl_first_sample s + 1 = expected_span \<and>
       ucast (fl_sample_count s) = flicker_expected_count r \<and>
       unsigned64 r 32 = fl_first_sample s \<and>
       model AND 0xff000000 = 0 \<and>
       (fl_lamp_voltage s = 120 \<or> fl_lamp_voltage s = 230) \<and>
       (fl_nominal_frequency_hz s = 50 \<or> fl_nominal_frequency_hz s = 60) \<and>
       fl_source_status s AND NOT 0xff = 0,
         Invalid_argument ''FLICKER-v1 provenance is inconsistent''),
      (\<not> (kind \<noteq> 0 \<and> flag (fl_source_status s) 7),
         Invalid_argument ''completed FLICKER-v1 interval is settling'')] @
     (if kind = 0 then map (\<lambda>phase. (w32 r (19 + phase) = 0 \<and> w32 r (22 + phase) = 0,
         Invalid_argument ''live FLICKER-v1 carries completed metrics'')) [0..<3]
      else if kind = 1 then map (\<lambda>value. (value = 0,
         Invalid_argument ''Pst FLICKER-v1 carries a Plt result'')) (fl_plt_q16 s)
      else [(flicker_phase_mask r \<noteq> 0,
         Invalid_argument ''Plt FLICKER-v1 has no valid phase'')]) @
     require_zero_words r 34 63 ''FLICKER-v1 reserved word is nonzero'')"

definition decode_flicker_record :: "meter_record \<Rightarrow> flicker_snapshot result" where
  "decode_flicker_record r =
     bind_result (require_all (flicker_header_checks r @ flicker_checks r)) (\<lambda>_.
       Inr (flicker_snapshot_of r))"

section \<open>The mains-signalling record\<close>

record mains_signal_snapshot =
  ms_sequence :: u32
  ms_configuration_generation :: u32
  ms_profile_generation :: u32
  ms_sample_rate_hz :: u32
  ms_first_sample :: u64
  ms_last_sample :: u64
  ms_sample_count :: u32
  ms_phase_valid_mask :: u8
  ms_detected_phase_mask :: u8
  ms_configured_millihz :: u32
  ms_measured_millihz :: u32
  ms_magnitude_microvolts :: "u32 list"
  ms_background_microvolts :: "u32 list"
  ms_bandwidth_millihz :: u32
  ms_observation_ms :: u32
  ms_threshold_e4 :: u32
  ms_reference_microvolts :: u32
  ms_status :: u32
  ms_source_status :: u32

definition ms_any_detected :: "mains_signal_snapshot \<Rightarrow> bool" where
  "ms_any_detected s \<longleftrightarrow> ms_detected_phase_mask s \<noteq> 0"

definition mains_valid_mask :: "meter_record \<Rightarrow> u8" where
  "mains_valid_mask r = ucast (w32 r 13 AND 7)"
definition mains_detected_mask :: "meter_record \<Rightarrow> u8" where
  "mains_detected_mask r = ucast (drop_bit 8 (w32 r 13) AND 7)"

definition mains_snapshot_of :: "meter_record \<Rightarrow> mains_signal_snapshot" where
  "mains_snapshot_of r =
     \<lparr>ms_sequence = rec_sequence r,
      ms_configuration_generation = configuration_generation r,
      ms_profile_generation = w32 r 26,
      ms_sample_rate_hz = sample_rate_hz r,
      ms_first_sample = first_sample_index r,
      ms_last_sample = unsigned64 r 14,
      ms_sample_count = block_sample_count r,
      ms_phase_valid_mask = mains_valid_mask r,
      ms_detected_phase_mask = mains_detected_mask r,
      ms_configured_millihz = w32 r 16,
      ms_measured_millihz = w32 r 17,
      ms_magnitude_microvolts = map (\<lambda>phase. w32 r (18 + phase)) [0..<3],
      ms_background_microvolts = map (\<lambda>phase. w32 r (21 + phase)) [0..<3],
      ms_bandwidth_millihz = w32 r 24,
      ms_observation_ms = w32 r 25,
      ms_threshold_e4 = w32 r 28,
      ms_reference_microvolts = w32 r 29,
      ms_status = rec_status r,
      ms_source_status = w32 r 27\<rparr>"

definition mains_header_checks :: "meter_record \<Rightarrow> (bool \<times> exn) list" where
  "mains_header_checks r =
     [(header_valid r \<and> record_format r = meter_mains_signal_format,
         Invalid_argument ''invalid MAINS-SIGNAL-v1 record header''),
      (rec_sequence r \<noteq> 0 \<and> configuration_generation r \<noteq> 0 \<and>
       sample_rate_hz r \<in> set [2000, 4000, 8000, 16000, 32000, 64000, 128000] \<and>
       emit_drops r = 0 \<and> result_drops r = 0,
         Invalid_argument ''invalid MAINS-SIGNAL-v1 common provenance''),
      (rec_status r AND NOT 5 = 0, Invalid_argument ''invalid MAINS-SIGNAL-v1 status''),
      (w32 r 13 AND NOT 0x707 = 0 \<and> mains_detected_mask r AND NOT (mains_valid_mask r) = 0 \<and>
       w32 r 7 = push_bit 4 (ucast (mains_valid_mask r)),
         Invalid_argument ''invalid MAINS-SIGNAL-v1 phase identity'')]"

definition mains_threshold_microvolts :: "meter_record \<Rightarrow> u64" where
  "mains_threshold_microvolts r = (ucast (w32 r 29) * ucast (w32 r 28) + 9999) div 10000"

definition mains_phase_valid :: "meter_record \<Rightarrow> nat \<Rightarrow> bool" where
  "mains_phase_valid r phase \<longleftrightarrow> ucast (mains_valid_mask r) AND push_bit phase 1 \<noteq> (0 :: u32)"

text \<open>The loop over the phases: the expected detection mask and the background flag.\<close>

definition mains_detection :: "meter_record \<Rightarrow> u8 \<times> bool" where
  "mains_detection r = foldl (\<lambda>(detected, background) phase.
     if \<not> mains_phase_valid r phase then (detected, background)
     else (if ucast (w32 r (18 + phase)) \<ge> mains_threshold_microvolts r
             then detected OR push_bit phase 1 else detected,
           background \<or> w32 r (21 + phase) > w32 r (18 + phase))) (0, False) [0..<3]"

definition mains_checks :: "meter_record \<Rightarrow> (bool \<times> exn) list" where
  "mains_checks r =
    (let s = mains_snapshot_of r;
         upper_frequency = ucast (ms_configured_millihz s) + ucast (ms_bandwidth_millihz s) :: u64;
         nyquist_millihz = ucast (ms_sample_rate_hz s) * 500 :: u64;
         expected_samples = ms_sample_rate_hz s div 5;
         half_bandwidth = ms_bandwidth_millihz s div 2 in
     [(ms_profile_generation s = ms_configuration_generation s \<and>
       ms_configured_millihz s \<noteq> 0 \<and> 4 \<le> ms_bandwidth_millihz s \<and>
       ms_bandwidth_millihz s < ms_configured_millihz s \<and>
       upper_frequency < nyquist_millihz \<and> upper_frequency < 12500000 \<and>
       ms_observation_ms s = 200 \<and> ms_threshold_e4 s \<le> 0xffff \<and>
       ms_reference_microvolts s \<noteq> 0 \<and> ms_sample_count s = expected_samples \<and>
       ms_first_sample s \<le> ms_last_sample s \<and>
       ms_last_sample s - ms_first_sample s + 1 = ucast expected_samples \<and>
       ms_source_status s AND NOT 0x3f = 0 \<and> ms_source_status s AND 1 \<noteq> 0,
         Invalid_argument ''MAINS-SIGNAL-v1 provenance is inconsistent''),
      (flag (ms_source_status s) 4 = (ms_status s AND 1 \<noteq> 0) \<and>
       \<not> (flag (ms_source_status s) 3 \<and> \<not> flag (ms_status s) 2),
         Invalid_argument ''MAINS-SIGNAL-v1 status provenance is inconsistent''),
      (mains_detected_mask r = fst (mains_detection r) \<and>
       snd (mains_detection r) = flag (ms_source_status s) 5,
         Invalid_argument ''MAINS-SIGNAL-v1 detection result is inconsistent''),
      (mains_detected_mask r = 0 \<longrightarrow> ms_measured_millihz s = ms_configured_millihz s,
         Invalid_argument ''MAINS-SIGNAL-v1 idle frequency is inconsistent''),
      (mains_detected_mask r \<noteq> 0 \<longrightarrow>
         ms_configured_millihz s - half_bandwidth \<le> ms_measured_millihz s \<and>
         ucast (ms_measured_millihz s) \<le> (ucast (ms_configured_millihz s) + ucast half_bandwidth :: u64),
         Invalid_argument ''MAINS-SIGNAL-v1 measured frequency is out of band'')] @
     require_zero_words r 30 63 ''MAINS-SIGNAL-v1 reserved word is nonzero'')"

definition decode_mains_signal_record :: "meter_record \<Rightarrow> mains_signal_snapshot result" where
  "decode_mains_signal_record r =
     bind_result (require_all (mains_header_checks r @ mains_checks r)) (\<lambda>_.
       Inr (mains_snapshot_of r))"

section \<open>Accepted records\<close>

lemma accepted_lifecycle:
  "decode_pq_event_lifecycle_record r = Inr s \<longleftrightarrow>
     list_all fst (lifecycle_header_checks r) \<and> list_all fst (lifecycle_checks r) \<and>
     s = lifecycle_snapshot r"
  unfolding decode_pq_event_lifecycle_record_def checked_eq_Inr list_all_append by auto

lemma accepted_flicker:
  "decode_flicker_record r = Inr s \<longleftrightarrow>
     list_all fst (flicker_header_checks r) \<and> list_all fst (flicker_checks r) \<and>
     s = flicker_snapshot_of r"
  unfolding decode_flicker_record_def checked_eq_Inr list_all_append by auto

lemma accepted_mains:
  "decode_mains_signal_record r = Inr s \<longleftrightarrow>
     list_all fst (mains_header_checks r) \<and> list_all fst (mains_checks r) \<and>
     s = mains_snapshot_of r"
  unfolding decode_mains_signal_record_def checked_eq_Inr list_all_append by auto

lemma uint_difference: "(b :: u64) \<le> a \<Longrightarrow> uint (a - b) = uint a - uint b"
  by (simp add: uint_sub_lem [THEN iffD1] word_le_def)

lemma uint_succ: "w \<noteq> - 1 \<Longrightarrow> uint (w + 1 :: u64) = uint w + 1"
proof -
  assume "w \<noteq> - 1"
  moreover have "uint (- 1 :: u64) = 2 ^ 64 - 1"
    by (simp add: unsigned_minus_1_eq_mask mask_eq_exp_minus_1)
  ultimately have "uint w \<noteq> 2 ^ 64 - 1"
    by (metis word_uint_eq_iff)
  then show ?thesis
    using uint_lt2p [of w] uint_add_lem [of w 1] by simp
qed

section \<open>Event lifecycles\<close>

text \<open>The saturating sample count of an event, computed without overflow.\<close>

lemma saturated_count:
  "uint (lifecycle_expected_count r) = min (uint (unsigned64 r 37) + 1) (2 ^ 32 - 1)"
proof -
  let ?d = "unsigned64 r 37" and ?c = "if unsigned64 r 37 = - 1 then - 1 else unsigned64 r 37 + 1"
  have max: "uint (- 1 :: u64) = 2 ^ 64 - 1"
    by (simp add: unsigned_minus_1_eq_mask mask_eq_exp_minus_1)
  have "uint ?c = (if ?d = - 1 then 2 ^ 64 - 1 else uint ?d + 1)"
    by (simp add: uint_succ max)
  then have m: "uint (min ?c 0xffffffff) = min (uint ?d + 1) (2 ^ 32 - 1)"
    using max by (cases "?d = - 1") (auto simp: min_def word_le_def)
  then have "uint (min ?c 0xffffffff) < 2 ^ 32"
    by simp
  then have "uint (ucast (min ?c 0xffffffff) :: u32) = uint (min ?c 0xffffffff)"
    by (simp add: unsigned_ucast_eq take_bit_int_eq_self)
  then show ?thesis
    unfolding lifecycle_expected_count_def Let_def m .
qed

text \<open>
  An accepted power-quality event record is self-consistent: its trigger lies within its
  samples, its last sample is exactly the first plus the duration, the envelope's sample count is
  the duration plus one saturated at 32 bits, and the current value of every phase lies between the recorded
  extremes.
\<close>

theorem lifecycle_span_exact:
  assumes "decode_pq_event_lifecycle_record r = Inr s"
  shows "uint (lcs_last_sample s) = uint (lcs_first_sample s) + uint (lcs_duration_samples s) \<and>
    uint (lcs_first_sample s) \<le> uint (lcs_trigger_sample s) \<and>
    uint (lcs_trigger_sample s) \<le> uint (lcs_last_sample s) \<and>
    uint (block_sample_count r) = min (uint (lcs_duration_samples s) + 1) (2 ^ 32 - 1) \<and>
    list_all2 (\<le>) (lcs_minimum_micro_units s) (lcs_current_micro_units s) \<and>
    list_all2 (\<le>) (lcs_current_micro_units s) (lcs_maximum_micro_units s)"
proof -
  have checks: "list_all fst (lifecycle_checks r)" and s: "s = lifecycle_snapshot r"
    using assms by (simp_all only: accepted_lifecycle)
  have p: "lcs_first_sample s \<le> lcs_last_sample s \<and> lcs_first_sample s \<le> lcs_trigger_sample s \<and>
      lcs_trigger_sample s \<le> lcs_last_sample s \<and>
      lcs_duration_samples s = lcs_last_sample s - lcs_first_sample s"
    and c: "block_sample_count r = lifecycle_expected_count r"
    and x: "list_all fst (lifecycle_extrema_checks r)"
    using checks unfolding lifecycle_checks_def Let_def s [symmetric] by simp_all
  have d: "unsigned64 r 37 = lcs_duration_samples s"
    by (simp add: s lifecycle_snapshot_def Let_def)
  show ?thesis
    using p x unfolding c saturated_count d
    by (auto simp: uint_difference word_le_def s lifecycle_snapshot_def lifecycle_extrema_checks_def
        list_all2_map1 list_all2_map2 Let_def numeral_eq_Suc)
qed

section \<open>Mains signalling\<close>

lemma threshold_no_wrap:
  assumes "thr \<le> (0xffff :: u32)"
  shows "uint ((ucast (ref :: u32) * ucast thr + 9999) div 10000 :: u64) =
    (uint ref * uint thr + 9999) div 10000"
proof -
  have t: "uint thr \<le> 65535"
    using assms by (simp add: word_le_def)
  have "uint ref * uint thr \<le> (2 ^ 32 - 1) * 65535"
    by (rule mult_mono) (use t uint_lt2p [of ref] in simp_all)
  then have small: "uint ref * uint thr + 9999 < 2 ^ 64"
    by simp
  then have "uint (ucast ref * ucast thr :: u64) = uint ref * uint thr"
    using uint_mult_lem [of "ucast ref :: u64" "ucast thr"] by simp
  then have "uint (ucast ref * ucast thr + 9999 :: u64) = uint ref * uint thr + 9999"
    using small uint_add_lem [of "ucast ref * ucast thr :: u64" 9999] by simp
  then show ?thesis
    by (simp add: uint_div)
qed

lemma ceil_threshold: "(p + 9999) div 10000 \<le> m \<longleftrightarrow> p \<le> 10000 * (m :: int)"
proof -
  have "10000 * ((p + 9999) div 10000) + (p + 9999) mod 10000 = p + 9999"
    by (rule mult_div_mod_eq)
  moreover have "0 \<le> (p + 9999) mod 10000" "(p + 9999) mod 10000 < 10000"
    by simp_all
  ultimately show ?thesis
    by linarith
qed

lemma mains_detected_bit:
  assumes "phase < 3"
  shows "bit (fst (mains_detection r)) phase \<longleftrightarrow> mains_phase_valid r phase \<and>
    mains_threshold_microvolts r \<le> ucast (w32 r (18 + phase))"
proof -
  have "phase = 0 \<or> phase = 1 \<or> phase = 2"
    using assms by auto
  then show ?thesis
    by (auto simp: mains_detection_def numeral_eq_Suc bit_simps split: if_splits)
qed

lemma mains_phase_valid_bit:
  assumes "phase < 3"
  shows "mains_phase_valid r phase \<longleftrightarrow> bit (mains_valid_mask r) phase"
proof -
  have "bit (ucast (mains_valid_mask r) :: u32) phase \<longleftrightarrow> bit (mains_valid_mask r) phase"
    using assms by (simp add: bit_simps)
  then show ?thesis
    using assms flag_bit [of phase "ucast (mains_valid_mask r)"]
    by (simp add: mains_phase_valid_def flag_def)
qed

text \<open>
  In an accepted mains-signalling record a phase is reported as detected exactly when it is valid
  and its magnitude reaches the configured fraction of the reference voltage: the rounded-up
  integer threshold of the code decides the exact rational comparison, for every reference and
  threshold the checks admit.
\<close>

theorem mains_detection_exact:
  assumes "decode_mains_signal_record r = Inr s" and "phase < 3"
  shows "bit (ms_detected_phase_mask s) phase \<longleftrightarrow> bit (ms_phase_valid_mask s) phase \<and>
    uint (ms_reference_microvolts s) * uint (ms_threshold_e4 s) \<le>
      10000 * uint (ms_magnitude_microvolts s ! phase)"
proof -
  have checks: "list_all fst (mains_checks r)" and s: "s = mains_snapshot_of r"
    using assms(1) by (simp_all only: accepted_mains)
  have thr: "w32 r 28 \<le> 0xffff" and det: "mains_detected_mask r = fst (mains_detection r)"
    using checks by (simp_all add: mains_checks_def mains_snapshot_of_def Let_def)
  have "mains_threshold_microvolts r \<le> ucast (w32 r (18 + phase)) \<longleftrightarrow>
      uint (w32 r 29) * uint (w32 r 28) \<le> 10000 * uint (w32 r (18 + phase))"
    unfolding mains_threshold_microvolts_def word_le_def threshold_no_wrap [OF thr] uint_ucast_u32
    by (rule ceil_threshold)
  then show ?thesis
    using mains_detected_bit [OF assms(2)] assms(2)
    by (simp add: s mains_snapshot_of_def det mains_phase_valid_bit)
qed

section \<open>Flicker\<close>

lemma flicker_maximum_full:
  assumes "list_all fst (flicker_phase_checks r)" and "phase < 3" and "bit (flicker_phase_mask r) phase"
  shows "flicker_maximum_valid r = flicker_expected_internal r \<and>
    w32 r (25 + phase) = flicker_expected_internal r"
proof -
  let ?e = "flicker_expected_internal r"
  have "ucast (flicker_phase_mask r) AND push_bit phase 1 \<noteq> (0 :: u32)"
    using assms(2,3) flag_bit [of phase "ucast (flicker_phase_mask r)"] by (simp add: flag_def bit_simps)
  then have full: "w32 r (25 + phase) = ?e"
    using assms(1,2) by (auto simp: flicker_phase_checks_def list_all_iff)
  have le: "w32 r (25 + k) \<le> ?e" if "k < 3" for k
    using assms(1) that by (auto simp: flicker_phase_checks_def list_all_iff)
  have "flicker_maximum_valid r = max (max (w32 r 25) (w32 r 26)) (w32 r 27)"
    by (simp add: flicker_maximum_valid_def numeral_eq_Suc)
  moreover have "phase = 0 \<or> phase = 1 \<or> phase = 2"
    using assms(2) by auto
  ultimately show ?thesis
    using full le [of 0] le [of 1] le [of 2] by (auto simp: max_def)
qed

lemma flicker_expected_values:
  "uint (flicker_expected_internal r) = uint (flicker_expected_seconds r) * 2000 \<and>
   uint (flicker_expected_seconds r) \<le> 7200 \<and> 0 < uint (flicker_expected_seconds r)"
  by (simp add: flicker_expected_internal_def flicker_expected_seconds_def)

lemma small_product:
  assumes "uint (a :: u32) \<le> 14400000" and "uint (b :: u32) \<le> 128000"
  shows "uint (ucast a * ucast b :: u64) = uint a * uint b"
proof -
  have "uint a * uint b \<le> 14400000 * 128000"
    by (rule mult_mono) (use assms in simp_all)
  then show ?thesis
    using uint_mult_lem [of "ucast a :: u64" "ucast b"] by simp
qed

text \<open>
  An accepted flicker record covers exactly its interval: one second, ten minutes or two hours
  at its sample rate. Every phase it declares valid has the full number of internal samples, and if
  there is such a phase the record's sample count is the length of the interval.
\<close>

theorem flicker_interval_exact:
  assumes "decode_flicker_record r = Inr s" and "phase < 3" and "bit (fl_phase_valid_mask s) phase"
  shows "uint (fl_last_sample s) - uint (fl_first_sample s) + 1 =
      uint (fl_interval_seconds s) * uint (fl_sample_rate_hz s) \<and>
    uint (fl_valid_internal_samples s ! phase) = uint (fl_interval_seconds s) * 2000 \<and>
    uint (fl_sample_count s) = uint (fl_last_sample s) - uint (fl_first_sample s) + 1"
proof -
  have header: "list_all fst (flicker_header_checks r)" and checks: "list_all fst (flicker_checks r)"
    and s: "s = flicker_snapshot_of r"
    using assms(1) by (simp_all only: accepted_flicker)
  let ?sec = "flicker_expected_seconds r" and ?rate = "sample_rate_hz r"
  have rate: "uint ?rate \<le> 128000" "uint ?rate mod 2000 = 0"
    using header by (simp_all add: flicker_header_checks_def word_le_def word_uint_eq_iff uint_mod)
  have phases: "list_all fst (flicker_phase_checks r)"
    and sec: "w32 r 28 = ?sec" and le: "first_sample_index r \<le> unsigned64 r 14"
    and span: "unsigned64 r 14 - first_sample_index r + 1 = ucast ?sec * ucast ?rate"
    and count: "ucast (block_sample_count r) = flicker_expected_count r"
    using checks by (simp_all add: flicker_checks_def flicker_snapshot_of_def Let_def)
  note full = flicker_maximum_full [OF phases assms(2)]
  have mask: "bit (flicker_phase_mask r) phase"
    using assms(3) by (simp add: s flicker_snapshot_of_def)
  have prod: "uint (ucast ?sec * ucast ?rate :: u64) = uint ?sec * uint ?rate"
    using flicker_expected_values [of r] rate(1) by (intro small_product) simp_all
  have "uint ?sec * uint ?rate \<le> 7200 * 128000"
    by (rule mult_mono) (use flicker_expected_values [of r] rate(1) in simp_all)
  then have "unsigned64 r 14 - first_sample_index r \<noteq> - 1"
    using span prod flicker_expected_values [of r] rate(1) header
    by (auto simp: flicker_header_checks_def word_le_def)
  then have "uint (unsigned64 r 14 - first_sample_index r + 1) =
      uint (unsigned64 r 14 - first_sample_index r) + 1"
    by (rule uint_succ)
  then have len: "uint (unsigned64 r 14) - uint (first_sample_index r) + 1 = uint ?sec * uint ?rate"
    using span prod le by (simp add: uint_difference)
  have "uint (flicker_expected_internal r) * (uint ?rate div 2000) = uint ?sec * uint ?rate"
    using flicker_expected_values [of r] rate(2) mult_div_mod_eq [of 2000 "uint ?rate"]
    by (simp add: mult.assoc)
  moreover have "uint (ucast (flicker_maximum_valid r) * ucast (?rate div 2000) :: u64) =
      uint (flicker_maximum_valid r) * uint (?rate div 2000)"
    using full [OF mask] flicker_expected_values [of r] rate(1)
    by (intro small_product) (simp_all add: uint_div)
  ultimately have "uint (ucast (block_sample_count r) :: u64) = uint ?sec * uint ?rate"
    using count full [OF mask] by (simp add: flicker_expected_count_def uint_div)
  then show ?thesis
    using len full [OF mask] assms(2) sec flicker_expected_values [of r]
    by (simp add: s flicker_snapshot_of_def)
qed

section \<open>The identity of an event\<close>

lemma event_uuid_source_inj: "event_uuid_source a = event_uuid_source b \<Longrightarrow> a = b"
  by (cases a, cases b) (simp add: event_uuid_source_def le64.enc_inj)

text \<open>The bits of a 16-byte digest prefix that survive in the identity.\<close>

definition uuid_payload :: "u8 list \<Rightarrow> u8 list" where
  "uuid_payload bs = (take 16 bs)[6 := bs ! 6 AND 0x0f, 8 := bs ! 8 AND 0x3f]"

lemma masked_fields:
  "((b AND 0x0f) OR 0x50 :: u8) AND 0xf0 = 0x50" "((b AND 0x0f) OR 0x50 :: u8) AND 0x0f = b AND 0x0f"
  "((b AND 0x3f) OR 0x80 :: u8) AND 0xc0 = 0x80" "((b AND 0x3f) OR 0x80 :: u8) AND 0x3f = b AND 0x3f"
  by (simp_all add: and.assoc and.left_commute bit.conj_disj_distrib2)

lemma uuid_shape:
  assumes "sha (event_uuid_source i) = Some digest" and "length digest = 32"
  shows "stable_power_quality_event_uuid sha i =
    Inr ((take 16 digest)[6 := (digest ! 6 AND 0x0f) OR 0x50, 8 := (digest ! 8 AND 0x3f) OR 0x80])"
  using assms by (simp add: stable_power_quality_event_uuid_def Let_def)

lemma uuid_payload_of_uuid:
  assumes "sha (event_uuid_source i) = Some digest" and "length digest = 32"
    and "stable_power_quality_event_uuid sha i = Inr u"
  shows "uuid_payload u = uuid_payload digest \<and> length u = 16 \<and>
    u ! 6 AND 0xf0 = 0x50 \<and> u ! 8 AND 0xc0 = 0x80"
proof -
  have "u = (take 16 digest)[6 := (digest ! 6 AND 0x0f) OR 0x50, 8 := (digest ! 8 AND 0x3f) OR 0x80]"
    using assms(3) unfolding uuid_shape [of sha, OF assms(1,2)] by simp
  then show ?thesis
    using assms(2) by (simp add: uuid_payload_def masked_fields list_update_swap)
qed

text \<open>
  The externally visible identity of an event is a 16-byte name with the version and variant
  fields of RFC 4122, and two events share one only where SHA-256 itself collides on the bits that
  are kept: the encoding of the session and the counter into the hash never confuses two events.
\<close>

theorem event_uuid_distinct:
  assumes "\<And>bs. \<exists>digest. sha bs = Some digest \<and> length digest = 32"
    and "stable_power_quality_event_uuid sha a = Inr u"
    and "stable_power_quality_event_uuid sha b = Inr u"
  shows "length u = 16 \<and> u ! 6 AND 0xf0 = 0x50 \<and> u ! 8 AND 0xc0 = 0x80 \<and>
    (a = b \<or> (event_uuid_source a \<noteq> event_uuid_source b \<and>
       uuid_payload (the (sha (event_uuid_source a))) =
       uuid_payload (the (sha (event_uuid_source b)))))"
proof -
  obtain da db where d: "sha (event_uuid_source a) = Some da" "length da = 32"
    "sha (event_uuid_source b) = Some db" "length db = 32"
    using assms(1) by metis
  note ua = uuid_payload_of_uuid [of sha, OF d(1,2) assms(2)]
  note ub = uuid_payload_of_uuid [of sha, OF d(3,4) assms(3)]
  show ?thesis
  proof (cases "a = b")
    case False
    then have "event_uuid_source a \<noteq> event_uuid_source b"
      using event_uuid_source_inj by blast
    then show ?thesis
      using ua ub d by simp
  qed (use ua in simp)
qed

section \<open>Concrete records\<close>

definition sample_lifecycle :: "u32 \<Rightarrow> meter_record" where
  "sample_lifecycle quality_word = \<lparr>words =
     [meter_record_magic, meter_pq_event_lifecycle_format, meter_record_size, 4, 2, 128000, 101,
      0x10, 0x0a, 1000, 0, 0, 0, 0x102, 1100, 0, 5, 0, 7, 0, 2, 9000, 200, 0x105, 100, 100,
      230000000, 0, 1, 0, 0, 3, 0, 0, 2, 0, 0, 100, 0, 1050, 0, 10, 0, 20, 0, quality_word, 0, 1,
      1, 0, 0, 0] @ replicate 12 0\<rparr>"

lemma sample_lifecycle_decodes:
  "decode_pq_event_lifecycle_record (sample_lifecycle 1) = Inr (lifecycle_snapshot (sample_lifecycle 1))"
  unfolding accepted_lifecycle by code_simp

theorem lifecycle_span_exact_witness:
  "uint (lcs_last_sample (lifecycle_snapshot (sample_lifecycle 1))) =
     uint (lcs_first_sample (lifecycle_snapshot (sample_lifecycle 1))) +
     uint (lcs_duration_samples (lifecycle_snapshot (sample_lifecycle 1)))"
  using lifecycle_span_exact [OF sample_lifecycle_decodes] by blast


definition sample_mains :: meter_record where
  "sample_mains = \<lparr>words =
     [meter_record_magic, meter_mains_signal_format, meter_record_size, 1, 1, 2000, 400, 0x30, 0,
      1, 0, 0, 0, 0x103, 400, 0, 300000, 300100, 3000000, 1000000, 0, 1, 1, 0, 4000, 200, 1, 1,
      100, 230000000] @ replicate 34 0\<rparr>"

lemma sample_mains_decodes: "decode_mains_signal_record sample_mains = Inr (mains_snapshot_of sample_mains)"
  unfolding accepted_mains by code_simp

theorem mains_detection_exact_witness:
  "bit (ms_detected_phase_mask (mains_snapshot_of sample_mains)) 0 \<and>
   \<not> bit (ms_detected_phase_mask (mains_snapshot_of sample_mains)) 1"
proof -
  have "bit (ms_phase_valid_mask (mains_snapshot_of sample_mains)) 0"
    "uint (ms_reference_microvolts (mains_snapshot_of sample_mains)) *
       uint (ms_threshold_e4 (mains_snapshot_of sample_mains)) = 23000000000"
    "uint (ms_magnitude_microvolts (mains_snapshot_of sample_mains) ! 0) = 3000000"
    "uint (ms_magnitude_microvolts (mains_snapshot_of sample_mains) ! 1) = 1000000"
    by code_simp+
  then show ?thesis
    using mains_detection_exact [OF sample_mains_decodes, of 0]
      mains_detection_exact [OF sample_mains_decodes, of 1] by simp
qed

definition sample_flicker :: meter_record where
  "sample_flicker = \<lparr>words =
     [meter_record_magic, meter_flicker_format, meter_record_size, 1, 1, 4000, 4000, 0x10, 0,
      1, 0, 0, 0, 0x100, 4000, 0, 9, 0, 0, 0, 0, 0, 0, 0, 0, 2000, 0, 0, 1, 1, 0x3200e6, 0,
      1, 0] @ replicate 30 0\<rparr>"

lemma sample_flicker_decodes: "decode_flicker_record sample_flicker = Inr (flicker_snapshot_of sample_flicker)"
  unfolding accepted_flicker by code_simp

theorem flicker_interval_exact_witness:
  "uint (fl_sample_count (flicker_snapshot_of sample_flicker)) =
     uint (fl_last_sample (flicker_snapshot_of sample_flicker)) -
     uint (fl_first_sample (flicker_snapshot_of sample_flicker)) + 1"
proof -
  have "bit (fl_phase_valid_mask (flicker_snapshot_of sample_flicker)) 0"
    by code_simp
  then show ?thesis
    using flicker_interval_exact [OF sample_flicker_decodes, of 0] by simp
qed

text \<open>A stand-in hash of the documented length: the input, zero-extended.\<close>

definition padding_hash :: "u8 list \<Rightarrow> u8 list option" where
  "padding_hash bs = Some (take 32 (bs @ replicate 32 0))"

theorem event_uuid_distinct_witness:
  "stable_power_quality_event_uuid padding_hash \<lparr>pqe_session = 5, pqe_counter = 7\<rparr> =
     Inr [5, 0, 0, 0, 0, 0, 0x50, 0, 0x87, 0, 0, 0, 0, 0, 0, 0] \<and>
   [5, 0, 0, 0, 0, 0, 0x50, 0, 0x87, 0, 0, 0, 0, 0, 0, 0 :: u8] ! 6 AND 0xf0 = 0x50"
proof -
  have u: "stable_power_quality_event_uuid padding_hash \<lparr>pqe_session = 5, pqe_counter = 7\<rparr> =
      Inr [5, 0, 0, 0, 0, 0, 0x50, 0, 0x87, 0, 0, 0, 0, 0, 0, 0]"
    by code_simp
  have hash: "\<exists>digest. padding_hash bs = Some digest \<and> length digest = 32" for bs
    by (simp add: padding_hash_def)
  from event_uuid_distinct [of padding_hash, OF hash u u] u show ?thesis
    by blast
qed

end
