(* ===== verification/Harmonic_Spectrum.thy ===== *)
theory Harmonic_Spectrum
  imports Meter_Decoders
begin

text \<open>
  HARMONIC-v1 records and the atomic assembly of spectrum families
  (\<^verbatim>\<open>common/msap1/meter/harmonic_spectrum.{hpp,cpp}\<close>): a family is 42 records, six chunks of orders for
  each of seven channels, and a spectrum becomes visible only when all of them arrived. The total
  harmonic distortion is a fold of \<^verbatim>\<open>std::hypot\<close> over extended-precision numbers, which are
  parameters.
\<close>

unbundle bit_operations_syntax

section \<open>Data\<close>

abbreviation harmonic_channel_count :: nat where "harmonic_channel_count \<equiv> 7"
abbreviation harmonic_max_order :: nat where "harmonic_max_order \<equiv> 127"
abbreviation harmonic_orders_per_record :: nat where "harmonic_orders_per_record \<equiv> 24"
abbreviation harmonic_aggregate_orders_per_record :: nat where
  "harmonic_aggregate_orders_per_record \<equiv> 23"
abbreviation harmonic_chunks_per_channel :: nat where "harmonic_chunks_per_channel \<equiv> 6"
abbreviation harmonic_records_per_family :: nat where "harmonic_records_per_family \<equiv> 42"

record harmonic_point =
  hp_order :: u8
  hp_magnitude_micro_units :: u64
  hp_angle_millidegrees :: u32
  hp_magnitude_valid :: bool
  hp_angle_valid :: bool

definition harmonic_point_init :: harmonic_point where
  "harmonic_point_init = \<lparr>hp_order = 0, hp_magnitude_micro_units = 0, hp_angle_millidegrees = 0,
     hp_magnitude_valid = False, hp_angle_valid = False\<rparr>"

text \<open>
  The provenance fields that \<^verbatim>\<open>HarmonicRecordChunk\<close> and \<^verbatim>\<open>HarmonicSpectrumSnapshot\<close> share; \<^verbatim>\<open>snapshot_from\<close>
  copies each of them and \<^verbatim>\<open>same_family\<close> compares each of them.
\<close>

record harmonic_family =
  hf_period :: measurement_period
  hf_sequence :: u32
  hf_configuration_generation :: u32
  hf_sample_rate_hz :: u32
  hf_sample_count :: u32
  hf_valid_mask :: u8
  hf_status :: u32
  hf_first_sample :: u64
  hf_emit_drops :: u32
  hf_result_drops :: u32
  hf_target_sample :: u64
  hf_contributors :: u16
  hf_overshoot_samples :: u16
  hf_time_aligned :: bool
  hf_contaminated :: bool
  hf_first_source_sequence :: u32
  hf_last_source_sequence :: u32
  hf_measured_frequency_millihz :: u32
  hf_qualified_max_order :: u8
  hf_nominal_frequency_hz :: u8
  hf_cycle_count :: u8
  hf_filter_profile_id :: u8

record harmonic_record_chunk =
  hc_family :: harmonic_family
  hc_channel :: u8
  hc_chunk :: u8
  hc_first_order :: u8
  hc_order_count :: u8
  hc_chunk_count :: u8
  hc_max_order :: u8
  hc_entries :: "harmonic_point list"

record harmonic_spectrum_snapshot =
  hss_family :: harmonic_family
  hss_channels :: "harmonic_point list list"

section \<open>Decoding a chunk\<close>

definition orders_per_record :: "measurement_period \<Rightarrow> nat" where
  "orders_per_record period =
     (if period = Basic then harmonic_orders_per_record else harmonic_aggregate_orders_per_record)"

definition expected_order_count :: "u8 \<Rightarrow> measurement_period \<Rightarrow> u8" where
  "expected_order_count chunk period =
     (let per_record = orders_per_record period;
          first_order = unat chunk * per_record + 1
      in of_nat (min per_record (harmonic_max_order - first_order + 1)))"

text \<open>\<^verbatim>\<open>static_cast<MeasurementPeriod>(period)\<close> for the two-bit selector after its range test.\<close>

definition harmonic_period_of :: "u32 \<Rightarrow> measurement_period" where
  "harmonic_period_of code =
     (if code = 1 then Cycles150_180 else if code = 2 then Min10
      else if code = 3 then Hour2 else Basic)"

definition harmonic_is_aggregate :: "meter_record \<Rightarrow> bool" where
  "harmonic_is_aggregate r \<longleftrightarrow> record_format r = meter_harmonic_aggregate_format"

definition harmonic_family_of :: "meter_record \<Rightarrow> harmonic_family" where
  "harmonic_family_of r =
    (let aggregate = harmonic_is_aggregate r; shape = w32 r 14; metadata = w32 r 15 in
     \<lparr>hf_period = (if aggregate then harmonic_period_of (shape AND 3) else Basic),
      hf_sequence = rec_sequence r,
      hf_configuration_generation = configuration_generation r,
      hf_sample_rate_hz = sample_rate_hz r,
      hf_sample_count = block_sample_count r,
      hf_valid_mask = valid_mask r,
      hf_status = rec_status r,
      hf_first_sample = first_sample_index r,
      hf_emit_drops = (if aggregate then 0 else emit_drops r),
      hf_result_drops = (if aggregate then 0 else result_drops r),
      hf_target_sample = (if aggregate then unsigned64 r 11 else 0),
      hf_contributors = (if aggregate then ucast (drop_bit 2 shape AND 0xfff) else 0),
      hf_overshoot_samples = (if aggregate then ucast (drop_bit 14 shape AND 0xffff) else 0),
      hf_time_aligned = (aggregate \<and> flag shape 30),
      hf_contaminated = (aggregate \<and> flag shape 31),
      hf_first_source_sequence = (if aggregate then w32 r 62 else 0),
      hf_last_source_sequence = (if aggregate then w32 r 63 else 0),
      hf_measured_frequency_millihz = (if aggregate then 0 else w32 r 14),
      hf_qualified_max_order = ucast metadata,
      hf_nominal_frequency_hz = ucast (drop_bit 8 metadata),
      hf_cycle_count = ucast (drop_bit 16 metadata),
      hf_filter_profile_id = ucast (drop_bit 24 metadata)\<rparr>)"

definition harmonic_entry :: "meter_record \<Rightarrow> nat \<Rightarrow> harmonic_point" where
  "harmonic_entry r index =
    (let packed = unsigned64 r (16 + index * 2);
         first_order = ucast (drop_bit 7 (w32 r 13) AND 0xff) :: u8 in
     \<lparr>hp_order = first_order + of_nat index,
      hp_magnitude_micro_units = packed AND mask 40,
      hp_angle_millidegrees = ucast (drop_bit 40 packed AND mask 20),
      hp_magnitude_valid = bit packed 60,
      hp_angle_valid = bit packed 61\<rparr>)"

definition harmonic_chunk_of :: "meter_record \<Rightarrow> harmonic_record_chunk" where
  "harmonic_chunk_of r = (let header = w32 r 13; count = drop_bit 15 header AND 0x1f in
     \<lparr>hc_family = harmonic_family_of r,
      hc_channel = ucast (header AND 7),
      hc_chunk = ucast (drop_bit 3 header AND 0xf),
      hc_first_order = ucast (drop_bit 7 header AND 0xff),
      hc_order_count = ucast count,
      hc_chunk_count = ucast (drop_bit 20 header AND 0xf),
      hc_max_order = ucast (drop_bit 24 header),
      hc_entries = map (\<lambda>index. if index < unat count then harmonic_entry r index
         else harmonic_point_init) [0..<harmonic_orders_per_record]\<rparr>)"

definition harmonic_header_checks :: "meter_record \<Rightarrow> (bool \<times> exn) list" where
  "harmonic_header_checks r = (let status = rec_status r; f = harmonic_family_of r in
     [(header_valid r \<and> (record_format r = meter_harmonic_format \<or>
         record_format r = meter_harmonic_aggregate_format),
         Invalid_argument ''invalid harmonic record header''),
      (sample_rate_hz r \<noteq> 0 \<and> block_sample_count r \<noteq> 0,
         Invalid_argument ''harmonic record has an empty sample span''),
      (w32 r 7 AND NOT 0x7f = 0, Invalid_argument ''harmonic record has an invalid lane mask''),
      (status AND NOT 0xff = 0 \<and> status AND 2 \<noteq> 0,
         Invalid_argument ''harmonic record status is malformed'')] @
     (if harmonic_is_aggregate r then
        [(1 \<le> w32 r 14 AND 3 \<and> w32 r 14 AND 3 \<le> 3,
            Invalid_argument ''harmonic aggregate period is malformed''),
         (hf_contributors f \<noteq> 0 \<and> hf_time_aligned f \<and>
          (status AND 4 \<noteq> 0) = hf_time_aligned f \<and> (status AND 8 \<noteq> 0) \<noteq> hf_contaminated f,
            Invalid_argument ''harmonic aggregate provenance is malformed'')]
      else []))"

definition harmonic_geometry_checks :: "meter_record \<Rightarrow> (bool \<times> exn) list" where
  "harmonic_geometry_checks r =
    (let c = harmonic_chunk_of r; f = hc_family c in
     [(unat (hc_channel c) < harmonic_channel_count \<and> unat (hc_chunk c) < harmonic_chunks_per_channel \<and>
       unat (hc_chunk_count c) = harmonic_chunks_per_channel \<and>
       unat (hc_max_order c) = harmonic_max_order \<and>
       unat (hc_first_order c) = unat (hc_chunk c) * orders_per_record (hf_period f) + 1 \<and>
       hc_order_count c = expected_order_count (hc_chunk c) (hf_period f),
         Invalid_argument ''harmonic record chunk geometry is malformed''),
      (unat (hf_qualified_max_order f) \<le> harmonic_max_order \<and>
       ((hf_nominal_frequency_hz f = 50 \<and> hf_cycle_count f = 10) \<or>
        (hf_nominal_frequency_hz f = 60 \<and> hf_cycle_count f = 12)),
         Invalid_argument ''harmonic record metadata is malformed''),
      ((hf_status f AND 0x20 \<noteq> 0) = (unat (hf_qualified_max_order f) = harmonic_max_order),
         Invalid_argument ''harmonic full-range status disagrees with metadata''),
      (\<not> (unat (hf_qualified_max_order f) < harmonic_max_order \<and> hf_status f AND 0x80 = 0),
         Invalid_argument ''limited harmonic range lacks rate-limit status''),
      (\<not> (hf_period f = Basic \<and> hf_status f AND 4 \<noteq> 0 \<and> hf_measured_frequency_millihz f = 0),
         Invalid_argument ''grid-locked harmonic record has zero frequency'')])"

definition harmonic_entry_checks :: "meter_record \<Rightarrow> nat \<Rightarrow> (bool \<times> exn) list" where
  "harmonic_entry_checks r index =
    (let c = harmonic_chunk_of r; f = hc_family c; packed = unsigned64 r (16 + index * 2);
         e = harmonic_entry r index in
     if index \<ge> unat (hc_order_count c)
     then [(packed = 0, Invalid_argument ''harmonic record has nonzero padding entries'')]
     else [(drop_bit 62 packed = 0, Invalid_argument ''harmonic entry uses reserved bits''),
           (\<not> ((\<not> hp_magnitude_valid e \<and> hp_magnitude_micro_units e \<noteq> 0) \<or>
               (\<not> hp_angle_valid e \<and> hp_angle_millidegrees e \<noteq> 0) \<or>
               (hp_angle_valid e \<and> (\<not> hp_magnitude_valid e \<or> hp_angle_millidegrees e \<ge> 360000)) \<or>
               (hp_order e > hf_qualified_max_order f \<and> (hp_magnitude_valid e \<or> hp_angle_valid e)) \<or>
               (ucast (hf_valid_mask f) AND push_bit (unat (hc_channel c)) 1 = (0 :: u32) \<and>
                (hp_magnitude_valid e \<or> hp_angle_valid e))),
              Invalid_argument ''harmonic entry validity is malformed'')])"

definition decode_harmonic_record :: "meter_record \<Rightarrow> harmonic_record_chunk result" where
  "decode_harmonic_record r =
     bind_result (require_all (harmonic_header_checks r @ harmonic_geometry_checks r @
       concat (map (harmonic_entry_checks r)
         [0..<orders_per_record (hf_period (harmonic_family_of r))]))) (\<lambda>_.
       Inr (harmonic_chunk_of r))"

section \<open>Family assembly\<close>

definition snapshot_from :: "harmonic_record_chunk \<Rightarrow> harmonic_spectrum_snapshot" where
  "snapshot_from chunk =
     \<lparr>hss_family = hc_family chunk,
      hss_channels = replicate harmonic_channel_count
        (map (\<lambda>index. harmonic_point_init\<lparr>hp_order := of_nat (index + 1)\<rparr>) [0..<harmonic_max_order])\<rparr>"

definition same_family :: "harmonic_spectrum_snapshot \<Rightarrow> harmonic_record_chunk \<Rightarrow> bool" where
  "same_family family chunk \<longleftrightarrow> hss_family family = hc_family chunk"

definition forward_of :: "u32 \<Rightarrow> u32 \<Rightarrow> bool" where
  "forward_of candidate baseline \<longleftrightarrow>
     candidate - baseline \<noteq> 0 \<and> candidate - baseline < push_bit 31 1"

record partial_family =
  pf_snapshot :: harmonic_spectrum_snapshot
  pf_received :: "bool list"
  pf_received_count :: nat

record harmonic_family_assembler =
  ha_partial :: "partial_family option"
  ha_last_completed_sequence :: "u32 option"

record harmonic_assembly_update =
  hu_incomplete_families :: u32
  hu_completed :: "harmonic_spectrum_snapshot option"

definition harmonic_reset :: harmonic_family_assembler where
  "harmonic_reset = \<lparr>ha_partial = None, ha_last_completed_sequence = None\<rparr>"

abbreviation chunk_sequence :: "harmonic_record_chunk \<Rightarrow> u32" where
  "chunk_sequence c \<equiv> hf_sequence (hc_family c)"

abbreviation partial_sequence :: "partial_family \<Rightarrow> u32" where
  "partial_sequence p \<equiv> hf_sequence (hss_family (pf_snapshot p))"

definition chunk_index :: "harmonic_record_chunk \<Rightarrow> nat" where
  "chunk_index c = unat (hc_channel c) * harmonic_chunks_per_channel + unat (hc_chunk c)"

text \<open>The family a chunk belongs to, begun if necessary, and the number of families it skips.\<close>

definition begin_family ::
    "harmonic_family_assembler \<Rightarrow> harmonic_record_chunk \<Rightarrow> (partial_family \<times> u32) result" where
  "begin_family a chunk =
     (let new_family = \<lparr>pf_snapshot = snapshot_from chunk,
            pf_received = replicate harmonic_records_per_family False, pf_received_count = 0\<rparr> in
      case ha_partial a of
        Some p \<Rightarrow>
          if chunk_sequence chunk \<noteq> partial_sequence p then
            (if \<not> forward_of (chunk_sequence chunk) (partial_sequence p)
             then Inl (Invalid_argument ''stale harmonic family sequence'')
             else Inr (new_family, chunk_sequence chunk - partial_sequence p))
          else Inr (p, 0)
      | None \<Rightarrow>
          case ha_last_completed_sequence a of
            None \<Rightarrow> Inr (new_family, 0)
          | Some s \<Rightarrow>
              if \<not> forward_of (chunk_sequence chunk) s
              then Inl (Invalid_argument ''stale harmonic family sequence'')
              else Inr (new_family, chunk_sequence chunk - (s + 1)))"

text \<open>\<^verbatim>\<open>channels[channel][first_order + index - 1] = entries[index]\<close> for the chunk's orders.\<close>

definition store_entries ::
    "harmonic_point list list \<Rightarrow> harmonic_record_chunk \<Rightarrow> harmonic_point list list" where
  "store_entries spectrum chunk =
     spectrum[unat (hc_channel chunk) :=
       foldl (\<lambda>points index. points[unat (hc_first_order chunk) + index - 1 := hc_entries chunk ! index])
         (spectrum ! unat (hc_channel chunk)) [0..<unat (hc_order_count chunk)]]"

text \<open>
  \<^verbatim>\<open>accept\<close>. Every exception is thrown before the state changes: a family that was begun for this
  chunk has the chunk's provenance and has received nothing.
\<close>

definition harmonic_accept ::
    "harmonic_family_assembler \<Rightarrow> harmonic_record_chunk \<Rightarrow>
     harmonic_family_assembler \<times> harmonic_assembly_update result" where
  "harmonic_accept a chunk =
     (case begin_family a chunk of
        Inl e \<Rightarrow> (a, Inl e)
      | Inr (p, skipped) \<Rightarrow>
          if \<not> same_family (pf_snapshot p) chunk
          then (a, Inl (Invalid_argument ''harmonic family provenance mismatch''))
          else if pf_received p ! chunk_index chunk
          then (a, Inl (Invalid_argument ''duplicate harmonic family chunk''))
          else
            let received_count = pf_received_count p + 1;
                s = (pf_snapshot p)\<lparr>hss_channels := store_entries (hss_channels (pf_snapshot p)) chunk\<rparr>
            in if received_count = harmonic_records_per_family
               then (a\<lparr>ha_partial := None, ha_last_completed_sequence := Some (chunk_sequence chunk)\<rparr>,
                     Inr \<lparr>hu_incomplete_families = skipped, hu_completed = Some s\<rparr>)
               else (a\<lparr>ha_partial := Some \<lparr>pf_snapshot = s,
                         pf_received = (pf_received p)[chunk_index chunk := True],
                         pf_received_count = received_count\<rparr>\<rparr>,
                     Inr \<lparr>hu_incomplete_families = skipped, hu_completed = None\<rparr>))"

section \<open>Total harmonic distortion\<close>

datatype harmonic_distortion_status =
    HD_valid | HD_interval_invalid | HD_channel_unavailable | HD_fundamental_unavailable
  | HD_insufficient_order_range | HD_harmonic_unavailable

record 'd harmonic_distortion_result =
  hd_percent :: "'d option"
  hd_first_order :: u8
  hd_last_order :: u8
  hd_status :: harmonic_distortion_status

definition aggregate_family :: "harmonic_spectrum_snapshot \<Rightarrow> bool" where
  "aggregate_family s \<longleftrightarrow> hf_period (hss_family s) \<noteq> Basic"

definition interval_valid :: "harmonic_spectrum_snapshot \<Rightarrow> bool" where
  "interval_valid s \<longleftrightarrow>
     (if aggregate_family s then hf_status (hss_family s) AND 8 \<noteq> 0
      else hf_status (hss_family s) AND 8 \<noteq> 0 \<and> hf_status (hss_family s) AND 0x10 \<noteq> 0)"

text \<open>
  \<^verbatim>\<open>harmonic_distortion\<close>. \<open>widen\<close> converts a magnitude to extended precision, \<open>hypot\<close> is \<^verbatim>\<open>std::hypot\<close>
  and \<open>percentage\<close> is the final division and conversion.
\<close>

definition harmonic_distortion ::
    "(u64 \<Rightarrow> 'l) \<Rightarrow> ('l \<Rightarrow> 'l \<Rightarrow> 'l) \<Rightarrow> ('l \<Rightarrow> 'l \<Rightarrow> 'd) \<Rightarrow>
     harmonic_spectrum_snapshot \<Rightarrow> nat \<Rightarrow> 'd harmonic_distortion_result" where
  "harmonic_distortion widen hypot percentage s channel_index =
     (let result = (\<lambda>p status. \<lparr>hd_percent = p, hd_first_order = 2, hd_last_order = 50, hd_status = status\<rparr>);
          points = hss_channels s ! channel_index;
          harmonics = map (\<lambda>order. points ! (order - 1)) [2..<51]
      in if \<not> interval_valid s \<or>
            (aggregate_family s \<and> (\<not> hf_time_aligned (hss_family s) \<or> hf_contaminated (hss_family s)))
         then result None HD_interval_invalid
         else if channel_index \<ge> length (hss_channels s) \<or>
            hf_valid_mask (hss_family s) AND push_bit channel_index 1 = 0
         then result None HD_channel_unavailable
         else if \<not> hp_magnitude_valid (points ! 0) \<or> hp_magnitude_micro_units (points ! 0) = 0
         then result None HD_fundamental_unavailable
         else if hf_qualified_max_order (hss_family s) < 50
         then result None HD_insufficient_order_range
         else if list_ex (\<lambda>p. \<not> hp_magnitude_valid p) harmonics
         then result None HD_harmonic_unavailable
         else result (Some (percentage
             (foldl (\<lambda>acc p. hypot acc (widen (hp_magnitude_micro_units p))) (widen 0) harmonics)
             (widen (hp_magnitude_micro_units (points ! 0))))) HD_valid)"

section \<open>Decoded chunks\<close>

text \<open>The geometry a decoded chunk has.\<close>

definition chunk_base :: "harmonic_record_chunk \<Rightarrow> nat" where
  "chunk_base c = unat (hc_chunk c) * orders_per_record (hf_period (hc_family c))"

definition wf_chunk :: "harmonic_record_chunk \<Rightarrow> bool" where
  "wf_chunk c \<longleftrightarrow>
     unat (hc_channel c) < 7 \<and> unat (hc_chunk c) < 6 \<and>
     unat (hc_first_order c) = chunk_base c + 1 \<and>
     unat (hc_order_count c) = min (orders_per_record (hf_period (hc_family c))) (127 - chunk_base c) \<and>
     length (hc_entries c) = 24 \<and>
     (\<forall>j < unat (hc_order_count c). unat (hp_order (hc_entries c ! j)) = chunk_base c + j + 1)"

lemma orders_per_record_cases: "orders_per_record p = 24 \<or> orders_per_record p = 23"
  by (simp add: orders_per_record_def)

lemma chunk_base_bound: "unat (hc_chunk c) < 6 \<Longrightarrow> chunk_base c \<le> 120"
proof -
  assume "unat (hc_chunk c) < 6"
  then have "chunk_base c \<le> 5 * orders_per_record (hf_period (hc_family c))"
    unfolding chunk_base_def by (intro mult_le_mono1) simp
  then show ?thesis
    using orders_per_record_cases [of "hf_period (hc_family c)"] by auto
qed

lemma decoded_wf: "decode_harmonic_record r = Inr c \<Longrightarrow> wf_chunk c"
proof -
  assume "decode_harmonic_record r = Inr c"
  then have c: "c = harmonic_chunk_of r" and checks: "list_all fst (harmonic_geometry_checks r)"
    unfolding decode_harmonic_record_def checked_eq_Inr list_all_append by auto
  have geo: "unat (hc_channel c) < 7" "unat (hc_chunk c) < 6"
    "unat (hc_first_order c) = chunk_base c + 1"
    "hc_order_count c = expected_order_count (hc_chunk c) (hf_period (hc_family c))"
    using checks by (simp_all add: harmonic_geometry_checks_def c chunk_base_def Let_def)
  have b: "chunk_base c \<le> 120"
    by (rule chunk_base_bound [OF geo(2)])
  let ?n = "min (orders_per_record (hf_period (hc_family c))) (127 - chunk_base c)"
  have "harmonic_max_order - (chunk_base c + 1) + 1 = 127 - chunk_base c"
    using b by simp
  then have "hc_order_count c = of_nat ?n"
    by (simp only: geo(4) expected_order_count_def chunk_base_def Let_def)
  moreover have n: "?n \<le> 24"
    using orders_per_record_cases [of "hf_period (hc_family c)"] by auto
  ultimately have count: "unat (hc_order_count c) = ?n"
    by (simp add: unat_of_nat)
  have "unat (hp_order (hc_entries c ! j)) = chunk_base c + j + 1" if "j < unat (hc_order_count c)" for j
  proof -
    have j: "j < 24" "chunk_base c + j < 127"
      using that n unfolding count by linarith+
    have "unat (drop_bit 15 (w32 r 13) AND 0x1f) = unat (hc_order_count c)"
    proof -
      have "drop_bit 15 (w32 r 13) AND 0x1f < (2 ^ 8 :: u32)"
        by (rule order_le_less_trans [OF word_and_le1]) simp
      then show ?thesis
        by (simp add: c harmonic_chunk_of_def Let_def unsigned_ucast_eq take_bit_nat_eq_self
            word_less_nat_alt)
    qed
    then have "hc_entries c ! j = harmonic_entry r j"
      using that j by (simp add: c harmonic_chunk_of_def Let_def)
    then have "hp_order (hc_entries c ! j) = hc_first_order c + of_nat j"
      by (simp add: harmonic_entry_def c harmonic_chunk_of_def Let_def)
    then have "unat (hp_order (hc_entries c ! j)) = (unat (hc_first_order c) + j) mod 256"
      using j by (simp add: unat_word_ariths unat_of_nat)
    then show ?thesis
      using geo(3) j by simp
  qed
  then show ?thesis
    using geo count by (simp add: wf_chunk_def) (simp add: c harmonic_chunk_of_def Let_def)
qed

lemma wf_chunk_bounds:
  assumes "wf_chunk c"
  shows "unat (hc_channel c) < 7" "unat (hc_chunk c) < 6" "chunk_index c < 42"
    "chunk_base c + unat (hc_order_count c) \<le> 127" "unat (hc_order_count c) \<le> 24"
    "unat (hc_first_order c) = chunk_base c + 1"
proof -
  show "unat (hc_channel c) < 7" "unat (hc_chunk c) < 6" "chunk_index c < 42"
    "unat (hc_first_order c) = chunk_base c + 1"
    using assms by (auto simp: wf_chunk_def chunk_index_def)
  have "chunk_base c \<le> 120"
    using assms by (intro chunk_base_bound) (simp add: wf_chunk_def)
  then show "chunk_base c + unat (hc_order_count c) \<le> 127" "unat (hc_order_count c) \<le> 24"
    using assms orders_per_record_cases [of "hf_period (hc_family c)"]
    by (auto simp: wf_chunk_def min_def)
qed

lemma chunk_index_inject:
  assumes "wf_chunk c" "wf_chunk d" "chunk_index c = chunk_index d"
  shows "hc_channel c = hc_channel d \<and> hc_chunk c = hc_chunk d"
proof -
  have "chunk_index c div 6 = unat (hc_channel c)" "chunk_index c mod 6 = unat (hc_chunk c)"
    "chunk_index d div 6 = unat (hc_channel d)" "chunk_index d mod 6 = unat (hc_chunk d)"
    using wf_chunk_bounds(2) [OF assms(1)] wf_chunk_bounds(2) [OF assms(2)]
    by (simp_all add: chunk_index_def)
  then show ?thesis
    using assms(3) by (metis word_unat_eq_iff)
qed

text \<open>Where the entries of a chunk go.\<close>

lemma fold_entries:
  assumes "base + n \<le> length points"
  shows "foldl (\<lambda>ps index. ps[base + index := es ! index]) points [0..<n] =
    take base points @ map (nth es) [0..<n] @ drop (base + n) points"
  using assms
proof (induction n)
  case (Suc n)
  then have "drop (base + n) points = points ! (base + n) # drop (Suc (base + n)) points"
    by (intro Cons_nth_drop_Suc [symmetric]) simp
  with Suc show ?case
    by (simp add: list_update_append min_def)
qed simp

definition stored_row :: "harmonic_point list \<Rightarrow> harmonic_record_chunk \<Rightarrow> harmonic_point list" where
  "stored_row points c = take (chunk_base c) points @ map (nth (hc_entries c)) [0..<unat (hc_order_count c)] @
     drop (chunk_base c + unat (hc_order_count c)) points"

lemma store_entries_row:
  assumes "wf_chunk c" and "length spectrum = 7" and "length (spectrum ! unat (hc_channel c)) = 127"
  shows "store_entries spectrum c =
    spectrum[unat (hc_channel c) := stored_row (spectrum ! unat (hc_channel c)) c]"
proof -
  have "(\<lambda>points index. points[unat (hc_first_order c) + index - 1 := hc_entries c ! index]) =
      (\<lambda>points index. points[chunk_base c + index := hc_entries c ! index])"
    using wf_chunk_bounds(6) [OF assms(1)] by (intro ext) simp
  then show ?thesis
    using fold_entries [of "chunk_base c" "unat (hc_order_count c)" "spectrum ! unat (hc_channel c)"
        "hc_entries c"] wf_chunk_bounds [OF assms(1)] assms(3)
    by (simp add: store_entries_def stored_row_def)
qed

lemma length_stored_row:
  "wf_chunk c \<Longrightarrow> length points = 127 \<Longrightarrow> length (stored_row points c) = 127"
  using wf_chunk_bounds(4) [of c] by (simp add: stored_row_def)

lemma nth_stored_row:
  assumes "wf_chunk c" and "length points = 127" and "k < 127"
  shows "stored_row points c ! k =
    (if chunk_base c \<le> k \<and> k < chunk_base c + unat (hc_order_count c)
     then hc_entries c ! (k - chunk_base c) else points ! k)"
  using assms wf_chunk_bounds(4) [OF assms(1)]
  by (auto simp: stored_row_def nth_append min_def)

lemma chunks_disjoint:
  assumes "wf_chunk c" "wf_chunk d" "hc_family c = hc_family d" "unat (hc_chunk c) < unat (hc_chunk d)"
  shows "chunk_base c + unat (hc_order_count c) \<le> chunk_base d"
proof -
  let ?per = "orders_per_record (hf_period (hc_family c))"
  have "chunk_base c + unat (hc_order_count c) \<le> (unat (hc_chunk c) + 1) * ?per"
    using assms(1) by (simp add: wf_chunk_def chunk_base_def)
  also have "\<dots> \<le> unat (hc_chunk d) * ?per"
    using assms(4) by (intro mult_le_mono1) simp
  finally show ?thesis
    using assms(3) by (simp add: chunk_base_def)
qed

section \<open>The partial family\<close>

text \<open>
  What a partial family holds when the set \<open>K\<close> of chunks has been stored in it.
\<close>

definition entries_stored :: "harmonic_point list list \<Rightarrow> harmonic_record_chunk \<Rightarrow> bool" where
  "entries_stored spectrum c \<longleftrightarrow>
     (\<forall>j < unat (hc_order_count c).
        spectrum ! unat (hc_channel c) ! (chunk_base c + j) = hc_entries c ! j)"

definition spectrum_shape :: "harmonic_point list list \<Rightarrow> bool" where
  "spectrum_shape spectrum \<longleftrightarrow> length spectrum = 7 \<and> (\<forall>i < 7. length (spectrum ! i) = 127)"

definition family_holds :: "partial_family \<Rightarrow> harmonic_record_chunk set \<Rightarrow> bool" where
  "family_holds p K \<longleftrightarrow>
     spectrum_shape (hss_channels (pf_snapshot p)) \<and>
     length (pf_received p) = 42 \<and> finite K \<and> inj_on chunk_index K \<and>
     pf_received_count p = card K \<and>
     (\<forall>i < 42. pf_received p ! i \<longleftrightarrow> i \<in> chunk_index ` K) \<and>
     (\<forall>c \<in> K. wf_chunk c \<and> hc_family c = hss_family (pf_snapshot p) \<and>
        entries_stored (hss_channels (pf_snapshot p)) c)"

lemma family_holds_new:
  "family_holds \<lparr>pf_snapshot = snapshot_from c, pf_received = replicate 42 False, pf_received_count = 0\<rparr> {}"
  by (simp add: family_holds_def snapshot_from_def spectrum_shape_def)

lemma store_entries_keeps:
  assumes "spectrum_shape spectrum" and "wf_chunk c" and "wf_chunk d" and "hc_family c = hc_family d"
    and "chunk_index c \<noteq> chunk_index d" and "entries_stored spectrum d"
  shows "entries_stored (store_entries spectrum c) d"
proof (cases "hc_channel c = hc_channel d")
  case False
  then have "unat (hc_channel c) \<noteq> unat (hc_channel d)"
    by (simp add: word_unat_eq_iff)
  then show ?thesis
    using assms wf_chunk_bounds(1) [OF assms(2)]
    by (simp add: entries_stored_def store_entries_row spectrum_shape_def)
next
  case True
  then have "unat (hc_chunk c) \<noteq> unat (hc_chunk d)"
    using assms(5) by (auto simp: chunk_index_def)
  then have "chunk_base d + unat (hc_order_count d) \<le> chunk_base c \<or>
      chunk_base c + unat (hc_order_count c) \<le> chunk_base d"
    using chunks_disjoint [OF assms(2,3,4)] chunks_disjoint [OF assms(3,2) assms(4) [symmetric]]
    by linarith
  moreover have row: "length (spectrum ! unat (hc_channel d)) = 127" "length spectrum = 7"
    using assms(1) wf_chunk_bounds(1) [OF assms(3)] by (simp_all add: spectrum_shape_def)
  ultimately show ?thesis
    using assms(6) True wf_chunk_bounds(1,4) [OF assms(3)]
    by (auto simp: entries_stored_def store_entries_row [OF assms(2)] nth_stored_row [OF assms(2)])
qed

lemma store_entries_new:
  assumes "spectrum_shape spectrum" and "wf_chunk c"
  shows "entries_stored (store_entries spectrum c) c" and "spectrum_shape (store_entries spectrum c)"
proof -
  have row: "length (spectrum ! unat (hc_channel c)) = 127" "length spectrum = 7"
    using assms(1) wf_chunk_bounds(1) [OF assms(2)] by (simp_all add: spectrum_shape_def)
  show "entries_stored (store_entries spectrum c) c"
    using wf_chunk_bounds(1,4) [OF assms(2)] row
    by (auto simp: entries_stored_def store_entries_row [OF assms(2)] nth_stored_row [OF assms(2)])
  show "spectrum_shape (store_entries spectrum c)"
    unfolding spectrum_shape_def store_entries_row [OF assms(2) row(2,1)]
  proof (intro conjI allI impI)
    fix i :: nat
    assume "i < 7"
    then show "length (spectrum[unat (hc_channel c) := stored_row (spectrum ! unat (hc_channel c)) c] ! i) = 127"
      using assms(1) row length_stored_row [OF assms(2) row(1)]
      by (cases "i = unat (hc_channel c)") (simp_all add: spectrum_shape_def)
  qed (simp add: row)
qed

text \<open>The partial family after one more chunk.\<close>

definition add_chunk :: "partial_family \<Rightarrow> harmonic_record_chunk \<Rightarrow> partial_family" where
  "add_chunk p c =
     \<lparr>pf_snapshot = (pf_snapshot p)\<lparr>hss_channels := store_entries (hss_channels (pf_snapshot p)) c\<rparr>,
      pf_received = (pf_received p)[chunk_index c := True],
      pf_received_count = pf_received_count p + 1\<rparr>"

lemma family_holds_add:
  assumes "family_holds p K" and "wf_chunk c" and "hc_family c = hss_family (pf_snapshot p)"
    and "\<not> pf_received p ! chunk_index c"
  shows "family_holds (add_chunk p c) (insert c K)"
proof -
  let ?s = "hss_channels (pf_snapshot p)"
  have shape: "spectrum_shape ?s" and fin: "finite K" and inj: "inj_on chunk_index K"
    and len: "length (pf_received p) = 42"
    and recv: "\<And>i. i < 42 \<Longrightarrow> pf_received p ! i \<longleftrightarrow> i \<in> chunk_index ` K"
    and K: "\<And>d. d \<in> K \<Longrightarrow> wf_chunk d \<and> hc_family d = hss_family (pf_snapshot p) \<and> entries_stored ?s d"
    using assms(1) by (auto simp: family_holds_def)
  have new: "chunk_index c \<notin> chunk_index ` K"
    using assms(4) recv wf_chunk_bounds(3) [OF assms(2)] by blast
  then have "c \<notin> K" by blast
  moreover have "entries_stored (store_entries ?s c) d" if "d \<in> K" for d
  proof (rule store_entries_keeps [OF shape assms(2)])
    show "chunk_index c \<noteq> chunk_index d"
      using new that by force
  qed (use K [OF that] assms(3) in simp_all)
  moreover have "(pf_received p)[chunk_index c := True] ! i \<longleftrightarrow> i \<in> chunk_index ` insert c K"
    if "i < 42" for i
    using recv [OF that] that len by (cases "i = chunk_index c") simp_all
  ultimately show ?thesis
    using assms(1-3) inj fin new K store_entries_new [OF shape assms(2)]
    by (simp add: family_holds_def add_chunk_def)
qed

text \<open>With 42 chunks, no order of any channel is missing.\<close>

definition spectrum_from :: "harmonic_spectrum_snapshot \<Rightarrow> harmonic_record_chunk set \<Rightarrow> bool" where
  "spectrum_from s K \<longleftrightarrow>
     (\<forall>i < 7. \<forall>k < 127. \<exists>c \<in> K. wf_chunk c \<and> hc_family c = hss_family s \<and> unat (hc_channel c) = i \<and>
        chunk_base c \<le> k \<and> k < chunk_base c + unat (hc_order_count c) \<and>
        hss_channels s ! i ! k = hc_entries c ! (k - chunk_base c) \<and>
        unat (hp_order (hss_channels s ! i ! k)) = k + 1)"

lemma complete_spectrum:
  assumes "family_holds p K" and "pf_received_count p = 42"
  shows "spectrum_from (pf_snapshot p) K"
  unfolding spectrum_from_def
proof (intro allI impI)
  fix i k :: nat
  assume i: "i < 7" and k: "k < 127"
  let ?f = "hss_family (pf_snapshot p)"
  let ?per = "orders_per_record (hf_period ?f)"
  have fin: "finite K" and inj: "inj_on chunk_index K" and card: "card K = 42"
    and K: "\<And>c. c \<in> K \<Longrightarrow> wf_chunk c \<and> hc_family c = ?f \<and> entries_stored (hss_channels (pf_snapshot p)) c"
    using assms by (auto simp: family_holds_def)
  have "chunk_index ` K \<subseteq> {..<42}"
    using K wf_chunk_bounds(3) by auto
  then have all: "chunk_index ` K = {..<42}"
    by (intro card_subset_eq) (simp_all add: card_image [OF inj] card)
  have per: "?per = 24 \<or> ?per = 23"
    by (rule orders_per_record_cases)
  then have j: "k div ?per < 6"
    using k by auto
  then have "i * 6 + k div ?per \<in> chunk_index ` K"
    using i by (simp add: all)
  then obtain c where c: "c \<in> K" "chunk_index c = i * 6 + k div ?per"
    by auto
  have "chunk_index c div 6 = unat (hc_channel c)" "chunk_index c mod 6 = unat (hc_chunk c)"
    using K [OF c(1)] wf_chunk_bounds(2) [of c] by (simp_all add: chunk_index_def)
  then have ch: "unat (hc_channel c) = i" "unat (hc_chunk c) = k div ?per"
    using c(2) j by simp_all
  then have base: "chunk_base c = k div ?per * ?per"
    using K [OF c(1)] by (simp add: chunk_base_def)
  have "k - chunk_base c = k mod ?per"
    by (simp add: base minus_div_mult_eq_mod)
  moreover have "k mod ?per < ?per"
    using per by auto
  moreover have le: "chunk_base c \<le> k"
    by (simp add: base)
  moreover have "unat (hc_order_count c) = min ?per (127 - chunk_base c)"
    using K [OF c(1)] by (simp add: wf_chunk_def)
  ultimately have lt: "k - chunk_base c < unat (hc_order_count c)"
    using k by simp
  moreover have "hss_channels (pf_snapshot p) ! i ! k = hc_entries c ! (k - chunk_base c)"
    using K [OF c(1)] lt le unfolding entries_stored_def ch(1) by (metis le_add_diff_inverse)
  moreover have "unat (hp_order (hc_entries c ! (k - chunk_base c))) = k + 1"
    using K [OF c(1)] lt le by (simp add: wf_chunk_def)
  ultimately show "\<exists>c \<in> K. wf_chunk c \<and> hc_family c = ?f \<and> unat (hc_channel c) = i \<and>
        chunk_base c \<le> k \<and> k < chunk_base c + unat (hc_order_count c) \<and>
        hss_channels (pf_snapshot p) ! i ! k = hc_entries c ! (k - chunk_base c) \<and>
        unat (hp_order (hss_channels (pf_snapshot p) ! i ! k)) = k + 1"
    using K [OF c(1)] c(1) ch(1) le by (intro bexI [of _ c]) auto
qed

section \<open>Runs\<close>

text \<open>
  A record is decoded and its chunk offered to the assembler; a run is a sequence of records, and the
  updates of the records that were accepted are its output. A rejected record changes nothing.
\<close>

definition harmonic_step ::
    "harmonic_family_assembler \<Rightarrow> meter_record \<Rightarrow>
     harmonic_family_assembler \<times> harmonic_assembly_update result" where
  "harmonic_step a r =
     (case decode_harmonic_record r of Inl e \<Rightarrow> (a, Inl e) | Inr c \<Rightarrow> harmonic_accept a c)"

fun harmonic_run ::
    "harmonic_family_assembler \<Rightarrow> meter_record list \<Rightarrow>
     harmonic_family_assembler \<times> harmonic_assembly_update list" where
  "harmonic_run a [] = (a, [])"
| "harmonic_run a (r # rs) =
     (let (b, u) = harmonic_step a r; (d, us) = harmonic_run b rs
      in (d, (case u of Inl _ \<Rightarrow> us | Inr v \<Rightarrow> v # us)))"

definition received_chunks :: "meter_record set \<Rightarrow> harmonic_record_chunk set" where
  "received_chunks R = {c. \<exists>r \<in> R. decode_harmonic_record r = Inr c}"

lemma received_chunks_wf: "c \<in> received_chunks R \<Longrightarrow> wf_chunk c"
  by (auto simp: received_chunks_def decoded_wf)

text \<open>One accepted chunk.\<close>

lemma harmonic_accept_Inr:
  "harmonic_accept a c = (b, Inr u) \<longleftrightarrow>
   (\<exists>p. begin_family a c = Inr (p, hu_incomplete_families u) \<and>
      hss_family (pf_snapshot p) = hc_family c \<and> \<not> pf_received p ! chunk_index c \<and>
      (if pf_received_count p + 1 = 42
       then b = \<lparr>ha_partial = None, ha_last_completed_sequence = Some (chunk_sequence c)\<rparr> \<and>
            hu_completed u = Some (pf_snapshot (add_chunk p c))
       else b = a\<lparr>ha_partial := Some (add_chunk p c)\<rparr> \<and> hu_completed u = None))"
  by (cases u) (auto simp: harmonic_accept_def same_family_def add_chunk_def Let_def
      split: sum.splits if_splits)

lemma harmonic_accept_Inl: "harmonic_accept a c = (b, Inl e) \<Longrightarrow> b = a"
  by (auto simp: harmonic_accept_def Let_def split: sum.splits if_splits)

definition assembler_holds ::
    "harmonic_record_chunk set \<Rightarrow> harmonic_family_assembler \<Rightarrow> bool" where
  "assembler_holds R a \<longleftrightarrow>
     (case ha_partial a of None \<Rightarrow> True | Some p \<Rightarrow> \<exists>K \<subseteq> R. family_holds p K \<and> card K < 42)"

lemma assembler_holds_mono: "assembler_holds R a \<Longrightarrow> R \<subseteq> Q \<Longrightarrow> assembler_holds Q a"
  by (auto simp: assembler_holds_def split: option.splits)

lemma begin_family_holds:
  assumes "begin_family a c = Inr (p, k)" and "assembler_holds R a"
  shows "\<exists>K \<subseteq> R. family_holds p K \<and> card K < 42"
proof -
  consider "ha_partial a = Some p"
    | "p = \<lparr>pf_snapshot = snapshot_from c, pf_received = replicate 42 False, pf_received_count = 0\<rparr>"
    using assms(1) unfolding begin_family_def Let_def
    by (cases "ha_partial a"; cases "ha_last_completed_sequence a") (simp_all split: if_splits)
  then show ?thesis
  proof cases
    case 1
    then show ?thesis using assms(2) by (simp add: assembler_holds_def)
  next
    case 2
    then show ?thesis using family_holds_new [of c] by (intro exI [of _ "{}"]) simp
  qed
qed

lemma harmonic_accept_holds:
  assumes "harmonic_accept a c = (b, Inr u)" and "assembler_holds R a" and "wf_chunk c" and "c \<in> R"
  shows "assembler_holds R b"
    and "hu_completed u = Some s \<Longrightarrow>
      \<exists>K \<subseteq> R. card K = 42 \<and> spectrum_shape (hss_channels s) \<and> spectrum_from s K"
proof -
  obtain p where p: "begin_family a c = Inr (p, hu_incomplete_families u)"
    "hss_family (pf_snapshot p) = hc_family c" "\<not> pf_received p ! chunk_index c"
    "if pf_received_count p + 1 = 42
     then b = \<lparr>ha_partial = None, ha_last_completed_sequence = Some (chunk_sequence c)\<rparr> \<and>
          hu_completed u = Some (pf_snapshot (add_chunk p c))
     else b = a\<lparr>ha_partial := Some (add_chunk p c)\<rparr> \<and> hu_completed u = None"
    using assms(1) by (auto simp: harmonic_accept_Inr)
  obtain K where K: "K \<subseteq> R" "family_holds p K" "card K < 42"
    using begin_family_holds [OF p(1) assms(2)] by blast
  have add: "family_holds (add_chunk p c) (insert c K)"
    by (rule family_holds_add [OF K(2) assms(3)]) (simp_all add: p)
  have count: "card (insert c K) = pf_received_count p + 1"
    using add by (simp add: family_holds_def add_chunk_def)
  have sub: "insert c K \<subseteq> R"
    using K(1) assms(4) by blast
  show "assembler_holds R b"
  proof (cases "pf_received_count p + 1 = 42")
    case True
    then show ?thesis
      using p(4) by (simp add: assembler_holds_def)
  next
    case False
    have "pf_received_count p = card K"
      using K(2) by (simp add: family_holds_def)
    then have "card (insert c K) < 42"
      using False K(3) count by simp
    moreover have "ha_partial b = Some (add_chunk p c)"
      using False p(4) by simp
    ultimately show ?thesis
      unfolding assembler_holds_def using add sub by (auto intro!: exI [of _ "insert c K"])
  qed
  show "\<exists>K \<subseteq> R. card K = 42 \<and> spectrum_shape (hss_channels s) \<and> spectrum_from s K"
    if "hu_completed u = Some s"
  proof -
    have fin: "pf_received_count p + 1 = 42" "s = pf_snapshot (add_chunk p c)"
      using p(4) that by (auto split: if_splits)
    have "spectrum_from s (insert c K)"
      unfolding fin(2) using fin(1) by (intro complete_spectrum [OF add]) (simp add: add_chunk_def)
    moreover have "spectrum_shape (hss_channels s)"
      using add fin(2) by (simp add: family_holds_def)
    ultimately show ?thesis
      using sub count fin(1) by metis
  qed
qed

lemma harmonic_step_holds:
  assumes "harmonic_step a r = (b, u)" and "assembler_holds (received_chunks R) a" and "r \<in> R"
  shows "assembler_holds (received_chunks R) b"
    and "u = Inr v \<Longrightarrow> hu_completed v = Some s \<Longrightarrow>
      \<exists>K \<subseteq> received_chunks R. card K = 42 \<and> spectrum_shape (hss_channels s) \<and> spectrum_from s K"
proof -
  have acc: "\<exists>c. decode_harmonic_record r = Inr c \<and> harmonic_accept a c = (b, Inr v)" if "u = Inr v" for v
    using assms(1) that by (auto simp: harmonic_step_def split: sum.splits)
  have chunk: "c \<in> received_chunks R \<and> wf_chunk c" if "decode_harmonic_record r = Inr c" for c
    using that assms(3) by (auto simp: received_chunks_def decoded_wf)
  show "assembler_holds (received_chunks R) b"
  proof (cases u)
    case (Inl e)
    then have "b = a"
      using assms(1) by (auto simp: harmonic_step_def split: sum.splits dest: harmonic_accept_Inl)
    then show ?thesis using assms(2) by simp
  next
    case (Inr v)
    then show ?thesis
      using acc chunk harmonic_accept_holds(1) [OF _ assms(2)] by blast
  qed
  show "\<exists>K \<subseteq> received_chunks R. card K = 42 \<and> spectrum_shape (hss_channels s) \<and> spectrum_from s K"
    if "u = Inr v" "hu_completed v = Some s"
    using acc [OF that(1)] chunk harmonic_accept_holds(2) [OF _ assms(2) _ _ that(2)] by blast
qed

definition completed_spectra :: "harmonic_assembly_update list \<Rightarrow> harmonic_spectrum_snapshot list" where
  "completed_spectra us = List.map_filter hu_completed us"

lemma harmonic_run_spectra:
  assumes "assembler_holds (received_chunks R) a" and "set rs \<subseteq> R"
    and "s \<in> set (completed_spectra (snd (harmonic_run a rs)))"
  shows "\<exists>K \<subseteq> received_chunks R. card K = 42 \<and> spectrum_shape (hss_channels s) \<and> spectrum_from s K"
  using assms
proof (induction rs arbitrary: a)
  case (Cons r rs)
  obtain b u where step: "harmonic_step a r = (b, u)" by fastforce
  have "r \<in> R" using Cons.prems(2) by simp
  note holds = harmonic_step_holds [OF step Cons.prems(1) this]
  obtain v where "s \<in> set (completed_spectra (snd (harmonic_run b rs))) \<or> u = Inr v \<and> hu_completed v = Some s"
    using Cons.prems(3) step
    by (auto simp: completed_spectra_def Let_def List.map_filter_simps split: prod.splits sum.splits option.splits)
  then show ?case
    using Cons.IH [OF holds(1)] holds(2) Cons.prems(2) by auto
qed (simp add: completed_spectra_def List.map_filter_simps)

text \<open>
  C20. No spectrum is ever published with a missing, mixed or misplaced order. For every sequence of
  records given to a fresh assembler, each completed spectrum has seven channels of 127 orders, and
  every order of every channel is the entry that one of 42 received chunks of the same family - the same
  sequence, configuration generation, span and status - carries for exactly that channel and order.
\<close>

theorem harmonic_spectrum_exact:
  "list_all (\<lambda>s. \<exists>K \<subseteq> received_chunks (set rs). card K = 42 \<and>
       spectrum_shape (hss_channels s) \<and> spectrum_from s K)
     (completed_spectra (snd (harmonic_run harmonic_reset rs)))"
  unfolding list_all_iff
  by (intro ballI harmonic_run_spectra [of _ harmonic_reset rs])
    (simp_all add: assembler_holds_def harmonic_reset_def)

section \<open>Progress\<close>

definition accept_chunks ::
    "harmonic_family_assembler \<Rightarrow> harmonic_record_chunk list \<Rightarrow> harmonic_family_assembler" where
  "accept_chunks a cs = foldl (\<lambda>b c. fst (harmonic_accept b c)) a cs"

definition may_begin :: "harmonic_family_assembler \<Rightarrow> harmonic_family \<Rightarrow> bool" where
  "may_begin a f \<longleftrightarrow> ha_partial a = None \<and>
     (case ha_last_completed_sequence a of None \<Rightarrow> True | Some s \<Rightarrow> forward_of (hf_sequence f) s)"

definition family_chunks :: "harmonic_family \<Rightarrow> harmonic_record_chunk list \<Rightarrow> bool" where
  "family_chunks f cs \<longleftrightarrow>
     list_all (\<lambda>c. wf_chunk c \<and> hc_family c = f) cs \<and> distinct (map chunk_index cs)"

lemma family_chunks_snoc:
  "family_chunks f (cs @ [c]) \<longleftrightarrow>
   family_chunks f cs \<and> wf_chunk c \<and> hc_family c = f \<and> chunk_index c \<notin> chunk_index ` set cs"
  by (auto simp: family_chunks_def)

lemma partial_of_chunks:
  assumes "may_begin a f" and "family_chunks f cs" and "length cs < 42" and "hc_family c = f"
  shows "\<exists>p k. begin_family (accept_chunks a cs) c = Inr (p, k) \<and> family_holds p (set cs) \<and>
    hss_family (pf_snapshot p) = f"
  using assms(2-4)
proof (induction cs arbitrary: c rule: rev_induct)
  case Nil
  have "begin_family a c =
      Inr (\<lparr>pf_snapshot = snapshot_from c, pf_received = replicate 42 False, pf_received_count = 0\<rparr>,
        case ha_last_completed_sequence a of None \<Rightarrow> 0 | Some s \<Rightarrow> hf_sequence f - (s + 1))"
    using assms(1) Nil(3) by (auto simp: may_begin_def begin_family_def Let_def split: option.splits)
  then show ?case
    using family_holds_new [of c] Nil(3) by (simp add: accept_chunks_def snapshot_from_def)
next
  case (snoc d cs)
  let ?a = "accept_chunks a cs"
  have d: "wf_chunk d" "hc_family d = f" "chunk_index d \<notin> chunk_index ` set cs" "family_chunks f cs"
    using snoc.prems(1) by (auto simp: family_chunks_snoc)
  obtain p k where p: "begin_family ?a d = Inr (p, k)" "family_holds p (set cs)"
    "hss_family (pf_snapshot p) = f"
    using snoc.IH [OF d(4) _ d(2)] snoc.prems(2) by auto
  have card: "card (set cs) = pf_received_count p"
    and recv: "\<not> pf_received p ! chunk_index d"
    using p(2) d(3) wf_chunk_bounds(3) [OF d(1)] by (auto simp: family_holds_def)
  have "pf_received_count p + 1 \<noteq> 42"
    using snoc.prems(2) card_length [of cs] card by simp
  then have "fst (harmonic_accept ?a d) = ?a\<lparr>ha_partial := Some (add_chunk p d)\<rparr>"
    using p recv d(2)
    by (simp add: harmonic_accept_def same_family_def add_chunk_def Let_def)
  then have "begin_family (accept_chunks a (cs @ [d])) c = Inr (add_chunk p d, 0)"
    using p(3) snoc.prems(3) by (simp add: accept_chunks_def begin_family_def add_chunk_def)
  moreover have "family_holds (add_chunk p d) (set (cs @ [d]))"
    using family_holds_add [OF p(2) d(1) _ recv] p(3) d(2) by simp
  ultimately show ?case
    using p(3) by (auto simp: add_chunk_def)
qed

lemma chunk_place:
  assumes "may_begin a f" and "family_chunks f (ds @ [d])" and "length ds < 42"
  shows "\<exists>p k. begin_family (accept_chunks a ds) d = Inr (p, k) \<and> family_holds p (set ds) \<and>
      hss_family (pf_snapshot p) = f \<and> wf_chunk d \<and> hc_family d = f \<and>
      \<not> pf_received p ! chunk_index d \<and> pf_received_count p = length ds"
proof -
  have d: "wf_chunk d" "hc_family d = f" "chunk_index d \<notin> chunk_index ` set ds" "family_chunks f ds"
    using assms(2) by (auto simp: family_chunks_snoc)
  obtain p k where p: "begin_family (accept_chunks a ds) d = Inr (p, k)" "family_holds p (set ds)"
    "hss_family (pf_snapshot p) = f"
    using partial_of_chunks [OF assms(1) d(4) assms(3) d(2)] by blast
  have "distinct ds"
    using d(4) by (simp add: family_chunks_def distinct_map)
  then have "pf_received_count p = length ds" "\<not> pf_received p ! chunk_index d"
    using p(2) d(3) wf_chunk_bounds(3) [OF d(1)]
    by (auto simp: family_holds_def distinct_card)
  then show ?thesis
    using p d by blast
qed

lemma family_chunks_prefix: "family_chunks f cs \<Longrightarrow> family_chunks f (take n cs)"
  by (auto simp: family_chunks_def list_all_iff take_map [symmetric] distinct_take dest: in_set_takeD)

text \<open>
  Spectrum families always complete. Once an assembler without an open family - fresh, or past a
  completed older family - is given 42 well-formed chunks of one family, no two for the same place, in
  any order, the first 41 publish nothing and the last one publishes the spectrum that holds the entry of
  the right chunk at every order; the assembler is then closed on that family's sequence.
\<close>

theorem harmonic_family_completes:
  assumes "may_begin a f" and "family_chunks f (cs @ [c])" and "length cs = 41"
  shows "list_all (\<lambda>i. \<exists>u. snd (harmonic_accept (accept_chunks a (take i cs)) (cs ! i)) = Inr u \<and>
           hu_completed u = None) [0..<41] \<and>
    (\<exists>u s. harmonic_accept (accept_chunks a cs) c =
        (\<lparr>ha_partial = None, ha_last_completed_sequence = Some (hf_sequence f)\<rparr>, Inr u) \<and>
      hu_completed u = Some s \<and> hss_family s = f \<and> spectrum_from s (set (cs @ [c])))"
proof
  show "list_all (\<lambda>i. \<exists>u. snd (harmonic_accept (accept_chunks a (take i cs)) (cs ! i)) = Inr u \<and>
           hu_completed u = None) [0..<41]"
    unfolding list_all_iff
  proof
    fix i
    assume "i \<in> set [0..<41]"
    then have i: "i < 41" by simp
    have "family_chunks f (take (Suc i) (cs @ [c]))"
      by (rule family_chunks_prefix [OF assms(2)])
    then have "family_chunks f (take i cs @ [cs ! i])"
      using i assms(3) by (simp add: take_Suc_conv_app_nth)
    from chunk_place [OF assms(1) this] obtain p k where
      "begin_family (accept_chunks a (take i cs)) (cs ! i) = Inr (p, k)"
      "hss_family (pf_snapshot p) = f" "hc_family (cs ! i) = f"
      "\<not> pf_received p ! chunk_index (cs ! i)" "pf_received_count p = i"
      using i assms(3) by auto
    then show "\<exists>u. snd (harmonic_accept (accept_chunks a (take i cs)) (cs ! i)) = Inr u \<and>
        hu_completed u = None"
      using i by (simp add: harmonic_accept_def same_family_def Let_def)
  qed
  obtain p k where p: "begin_family (accept_chunks a cs) c = Inr (p, k)" "family_holds p (set cs)"
    "hss_family (pf_snapshot p) = f" "wf_chunk c" "hc_family c = f"
    "\<not> pf_received p ! chunk_index c" "pf_received_count p = 41"
    using chunk_place [OF assms(1,2)] assms(3) by auto
  have "family_holds (add_chunk p c) (set (cs @ [c]))"
    using family_holds_add [OF p(2,4) _ p(6)] p(3,5) by simp
  then have "spectrum_from (pf_snapshot (add_chunk p c)) (set (cs @ [c]))"
    by (rule complete_spectrum) (simp add: add_chunk_def p(7))
  then show "\<exists>u s. harmonic_accept (accept_chunks a cs) c =
        (\<lparr>ha_partial = None, ha_last_completed_sequence = Some (hf_sequence f)\<rparr>, Inr u) \<and>
      hu_completed u = Some s \<and> hss_family s = f \<and> spectrum_from s (set (cs @ [c]))"
    using p by (simp add: harmonic_accept_def same_family_def add_chunk_def Let_def)
qed

definition example_harmonic_family :: harmonic_family where
  "example_harmonic_family =
     \<lparr>hf_period = Basic, hf_sequence = 7, hf_configuration_generation = 1, hf_sample_rate_hz = 16000,
      hf_sample_count = 3200, hf_valid_mask = 0x7f, hf_status = 0x3e, hf_first_sample = 64000,
      hf_emit_drops = 0, hf_result_drops = 0, hf_target_sample = 0, hf_contributors = 0,
      hf_overshoot_samples = 0, hf_time_aligned = False, hf_contaminated = False,
      hf_first_source_sequence = 0, hf_last_source_sequence = 0, hf_measured_frequency_millihz = 50000,
      hf_qualified_max_order = 127, hf_nominal_frequency_hz = 50, hf_cycle_count = 10,
      hf_filter_profile_id = 1\<rparr>"

definition example_harmonic_chunk :: "nat \<Rightarrow> harmonic_record_chunk" where
  "example_harmonic_chunk i =
     (let base = i mod 6 * 24; n = min 24 (127 - base) in
      \<lparr>hc_family = example_harmonic_family, hc_channel = of_nat (i div 6), hc_chunk = of_nat (i mod 6),
       hc_first_order = of_nat (base + 1), hc_order_count = of_nat n, hc_chunk_count = 6, hc_max_order = 127,
       hc_entries = map (\<lambda>j. if j < n
         then \<lparr>hp_order = of_nat (base + j + 1), hp_magnitude_micro_units = of_nat (1000 * i + j),
               hp_angle_millidegrees = 0, hp_magnitude_valid = True, hp_angle_valid = True\<rparr>
         else harmonic_point_init) [0..<24]\<rparr>)"

lemma example_chunk_wf:
  assumes "i < 42"
  shows "wf_chunk (example_harmonic_chunk i) \<and> chunk_index (example_harmonic_chunk i) = i"
proof -
  have nat8: "unat (of_nat k :: u8) = k" if "k < 256" for k
    using that by (simp add: unat_of_nat)
  have base: "i mod 6 * 24 \<le> 120" "i div 6 < 7"
    using assms by auto
  let ?c = "example_harmonic_chunk i"
  have parts: "unat (hc_channel ?c) = i div 6" "unat (hc_chunk ?c) = i mod 6"
    "unat (hc_first_order ?c) = i mod 6 * 24 + 1" "unat (hc_order_count ?c) = min 24 (127 - i mod 6 * 24)"
    "hf_period (hc_family ?c) = Basic" "length (hc_entries ?c) = 24"
    using base by (simp_all add: example_harmonic_chunk_def example_harmonic_family_def Let_def nat8
        del: of_nat_add of_nat_mult of_nat_Suc)
  have "chunk_base ?c = i mod 6 * 24"
    by (simp add: chunk_base_def parts orders_per_record_def)
  moreover have "unat (hp_order (hc_entries ?c ! j)) = i mod 6 * 24 + j + 1"
    if "j < min 24 (127 - i mod 6 * 24)" for j
    using that base by (simp add: example_harmonic_chunk_def Let_def nat8
        del: of_nat_add of_nat_mult of_nat_Suc)
  ultimately show ?thesis
    using base by (simp add: wf_chunk_def parts orders_per_record_def chunk_index_def)
qed

lemma example_family_chunks:
  "family_chunks example_harmonic_family (map example_harmonic_chunk (rev [1..<42]) @ [example_harmonic_chunk 0])"
proof -
  have eq: "map example_harmonic_chunk (rev [1..<42]) @ [example_harmonic_chunk 0] =
      map example_harmonic_chunk (rev [0..<42])"
    by (simp add: upt_conv_Cons)
  have "map chunk_index (map example_harmonic_chunk (rev [0..<42])) = rev [0..<42]"
    by (intro nth_equalityI) (simp_all add: rev_nth example_chunk_wf)
  moreover have "hc_family (example_harmonic_chunk i) = example_harmonic_family" for i
    by (simp add: example_harmonic_chunk_def Let_def)
  ultimately show ?thesis
    unfolding eq family_chunks_def by (simp add: list_all_iff example_chunk_wf)
qed

theorem harmonic_family_completes_witness:
  "may_begin harmonic_reset example_harmonic_family \<and>
   (\<exists>u s. harmonic_accept (accept_chunks harmonic_reset (map example_harmonic_chunk (rev [1..<42])))
        (example_harmonic_chunk 0) =
        (\<lparr>ha_partial = None, ha_last_completed_sequence = Some 7\<rparr>, Inr u) \<and>
      hu_completed u = Some s \<and> hss_family s = example_harmonic_family)"
proof -
  have "may_begin harmonic_reset example_harmonic_family"
    by (simp add: may_begin_def harmonic_reset_def)
  moreover have "hf_sequence example_harmonic_family = 7"
    by (simp add: example_harmonic_family_def)
  ultimately show ?thesis
    using harmonic_family_completes [OF _ example_family_chunks, of harmonic_reset] by auto
qed

section \<open>Families accounted for\<close>

text \<open>The sequence of the open family, or of the one after the last completed family.\<close>

definition current_family :: "harmonic_family_assembler \<Rightarrow> u32 option" where
  "current_family a =
     (case ha_partial a of Some p \<Rightarrow> Some (partial_sequence p)
      | None \<Rightarrow> map_option (\<lambda>s. s + 1) (ha_last_completed_sequence a))"

definition families_passed :: "harmonic_assembly_update list \<Rightarrow> u32" where
  "families_passed us =
     of_nat (length (completed_spectra us)) + sum_list (map hu_incomplete_families us)"

lemma families_passed_simps [simp]:
  "families_passed [] = 0"
  "families_passed (u # us) =
     families_passed us + hu_incomplete_families u + (if hu_completed u = None then 0 else 1)"
  by (auto simp: families_passed_def completed_spectra_def List.map_filter_simps split: option.split)

lemma harmonic_accept_passes:
  assumes "harmonic_accept a c = (b, Inr u)" and "current_family a = Some s"
  shows "current_family b =
    Some (s + hu_incomplete_families u + (if hu_completed u = None then 0 else 1))"
proof -
  obtain p where p: "begin_family a c = Inr (p, hu_incomplete_families u)"
    "hss_family (pf_snapshot p) = hc_family c"
    "if pf_received_count p + 1 = 42
     then b = \<lparr>ha_partial = None, ha_last_completed_sequence = Some (chunk_sequence c)\<rparr> \<and>
          hu_completed u = Some (pf_snapshot (add_chunk p c))
     else b = a\<lparr>ha_partial := Some (add_chunk p c)\<rparr> \<and> hu_completed u = None"
    using assms(1) by (auto simp: harmonic_accept_Inr)
  have "chunk_sequence c = s + hu_incomplete_families u"
    using p(1,2) assms(2) unfolding begin_family_def Let_def current_family_def
    by (cases "ha_partial a"; cases "ha_last_completed_sequence a")
      (auto simp: algebra_simps split: if_splits)
  then show ?thesis
    using p(2,3) by (auto simp: current_family_def add_chunk_def split: if_splits)
qed

text \<open>
  No harmonic family disappears silently. Over any further sequence of records, the family an
  assembler works on advances by exactly the number of spectra it published plus the number of families
  it reported as incomplete (modulo the 32-bit sequence range).
\<close>

lemma harmonic_families_accounted:
  assumes "current_family a = Some s"
  shows "current_family (fst (harmonic_run a rs)) = Some (s + families_passed (snd (harmonic_run a rs)))"
  using assms
proof (induction rs arbitrary: a s)
  case (Cons r rs)
  obtain b u where step: "harmonic_step a r = (b, u)" by fastforce
  show ?case
  proof (cases u)
    case (Inl e)
    then have "b = a"
      using step by (auto simp: harmonic_step_def split: sum.splits dest: harmonic_accept_Inl)
    then show ?thesis
      using Cons.IH [OF Cons.prems] step Inl by (simp add: split_def Let_def)
  next
    case (Inr v)
    then obtain c where "harmonic_accept a c = (b, Inr v)"
      using step by (auto simp: harmonic_step_def split: sum.splits)
    from harmonic_accept_passes [OF this Cons.prems] show ?thesis
      using Cons.IH step Inr by (simp add: split_def Let_def algebra_simps)
  qed
qed simp

end
