(* ===== verification/Record_Ingestor.thy ===== *)
theory Record_Ingestor
  imports Latest_Store Meter_Events Harmonic_Spectrum
begin

text \<open>
  The record ingestor of the acquisition daemon
  (\<^verbatim>\<open>apps/MeterCore/Services/acquisition/pipeline/record_ingestor.{hpp,cpp}\<close>): every record of the DMA stream is
  matched against the active configuration, tracked on the sequence of its own stream, decoded,
  committed to the durable stream and only then shown in the latest views.

  The durable stream (\<^verbatim>\<open>MeterRecordPublisher\<close>, with \<^verbatim>\<open>EnergyAuthority\<close> where the publisher also is one) and the
  callback for event waveforms are interfaces; they are the ports of the model, functions over a world
  of their own. Clock readings, the timebase, the active configuration and the overrun counter of the
  DMA driver are the environment of a call. The text of log messages is left out; the journal keeps the
  entries of the rate-limited rejection log.
\<close>

unbundle bit_operations_syntax

section \<open>Interval categories\<close>

datatype record_interval_category =
    RI_unknown | RI_single_cycle | RI_urms_half | RI_basic | RI_seconds_10 | RI_cycles_150_180
  | RI_minutes_10 | RI_hours_2 | RI_minutes_10_live | RI_hours_2_live | RI_demand | RI_flicker
  | RI_mains_signal

record record_interval_identity =
  ri_category :: record_interval_category
  ri_code :: string
  ri_label :: string

definition unknown_interval :: record_interval_identity where
  "unknown_interval = \<lparr>ri_category = RI_unknown, ri_code = ''unknown'', ri_label = ''unknown interval''\<rparr>"

definition record_interval_identity_of :: "meter_record \<Rightarrow> record_interval_identity" where
  "record_interval_identity_of r =
    (let f = record_format r;
         is = (\<lambda>c code label. \<lparr>ri_category = c, ri_code = code, ri_label = label\<rparr>);
         aggregate = is RI_cycles_150_180 ''cycles_150_180'' ''150/180-cycle'';
         ten_minutes = is RI_minutes_10 ''minutes_10'' ''10-minute'';
         two_hours = is RI_hours_2 ''hours_2'' ''2-hour'' in
     if f = meter_single_cycle_format then is RI_single_cycle ''single_cycle'' ''single-cycle''
     else if f = meter_pq_event_format then is RI_urms_half ''urms_half'' ''Urms(1/2)''
     else if f = meter_flicker_format then is RI_flicker ''flicker'' ''flicker interval''
     else if f = meter_mains_signal_format
     then is RI_mains_signal ''mains_signal'' ''mains-signalling observation''
     else if f \<in> {meter_periodic_format, meter_power_format, meter_phasor_format,
       meter_unbalance_format, meter_energy_format, meter_harmonic_format}
     then is RI_basic ''basic'' ''10/12-cycle''
     else if f = meter_frequency_10s_format
     then is RI_seconds_10 ''seconds_10'' ''UTC 10-second frequency''
     else if f \<in> {meter_aggregate_format, meter_aggregate_power_format,
       meter_aggregate_phasor_format, meter_aggregate_unbalance_format} then aggregate
     else if f \<in> {meter_ten_minute_format, meter_ten_minute_power_format,
       meter_ten_minute_phasor_format, meter_ten_minute_unbalance_format} then ten_minutes
     else if f = meter_demand_format then is RI_demand ''demand'' ''configured demand''
     else if f \<in> {meter_two_hour_format, meter_two_hour_power_format,
       meter_two_hour_phasor_format, meter_two_hour_unbalance_format} then two_hours
     else if f \<in> {meter_ten_minute_open_format, meter_ten_minute_open_power_format,
       meter_ten_minute_open_phasor_format, meter_ten_minute_open_unbalance_format}
     then is RI_minutes_10_live ''minutes_10_live'' ''10-minute live partial''
     else if f \<in> {meter_two_hour_open_format, meter_two_hour_open_power_format,
       meter_two_hour_open_phasor_format, meter_two_hour_open_unbalance_format}
     then is RI_hours_2_live ''hours_2_live'' ''2-hour live partial''
     else if f = meter_harmonic_aggregate_format then
       (let selector = w32 r 14 AND 3 in
        if selector = 1 then aggregate else if selector = 2 then ten_minutes
        else if selector = 3 then two_hours else unknown_interval)
     else unknown_interval)"

section \<open>Stream records\<close>

record record_timing_provenance =
  tp_first_sample_index :: u64
  tp_sample_count :: u32
  tp_cycle_count :: u32
  tp_time_quality :: u8
  tp_utc_start_nanoseconds :: "int option"
  tp_utc_uncertainty_nanoseconds :: "u64 option"

record meter_stream_record =
  sr_cursor :: u64
  sr_record_format :: u32
  sr_record_kind :: u16
  sr_measurement_period :: u8
  sr_source_sequence :: u64
  sr_source_fragment :: u16
  sr_configuration_generation :: u32
  sr_ingested_at_nanoseconds :: int
  sr_timing :: record_timing_provenance
  sr_payload :: "u8 list"

text \<open>The numeric values of the enumerations (\<^verbatim>\<open>static_cast\<close>).\<close>

primrec record_kind_value :: "record_kind \<Rightarrow> u16" where
  "record_kind_value RK_fundamental = 1"
| "record_kind_value RK_power = 2"
| "record_kind_value RK_energy = 3"
| "record_kind_value RK_demand = 4"
| "record_kind_value RK_power_quality = 5"
| "record_kind_value RK_phasor = 6"
| "record_kind_value RK_unbalance = 7"
| "record_kind_value RK_harmonic = 8"
| "record_kind_value RK_power_quality_event = 9"
| "record_kind_value RK_flicker = 10"
| "record_kind_value RK_mains_signal = 11"
| "record_kind_value RK_frequency_10s = 12"

primrec measurement_period_value :: "measurement_period \<Rightarrow> u8" where
  "measurement_period_value Basic = 0"
| "measurement_period_value Cycles150_180 = 1"
| "measurement_period_value Min10 = 2"
| "measurement_period_value Hour2 = 3"
| "measurement_period_value Min10Live = 4"
| "measurement_period_value Hour2Live = 5"
| "measurement_period_value Demand = 6"
| "measurement_period_value Seconds10 = 7"

primrec time_quality_value :: "time_quality \<Rightarrow> u8" where
  "time_quality_value Unsynchronized = 0"
| "time_quality_value Synchronized = 1"
| "time_quality_value Holdover = 2"

text \<open>The 256 bytes of a record in memory, on the little-endian target.\<close>

definition record_bytes :: "meter_record \<Rightarrow> u8 list" where
  "record_bytes r = concat (map (le_bytes 4) (words r))"

definition block_provenance :: "block_timing \<Rightarrow> record_timing_provenance" where
  "block_provenance t =
     \<lparr>tp_first_sample_index = bt_first_sample_index t, tp_sample_count = bt_sample_count t,
      tp_cycle_count = ucast (bt_cycle_count t),
      tp_time_quality = time_quality_value (bt_time_quality t),
      tp_utc_start_nanoseconds = bt_utc_start t,
      tp_utc_uncertainty_nanoseconds = bt_utc_uncertainty_ns t\<rparr>"

definition aggregate_provenance :: "aggregate_timing \<Rightarrow> record_timing_provenance" where
  "aggregate_provenance t =
     \<lparr>tp_first_sample_index = at_first_sample_index t, tp_sample_count = at_sample_count t,
      tp_cycle_count = at_cycle_count t,
      tp_time_quality = time_quality_value (at_time_quality t),
      tp_utc_start_nanoseconds = at_utc_start t,
      tp_utc_uncertainty_nanoseconds = at_utc_uncertainty_ns t\<rparr>"

definition provenance_init :: record_timing_provenance where
  "provenance_init = \<lparr>tp_first_sample_index = 0, tp_sample_count = 0, tp_cycle_count = 0,
     tp_time_quality = 0, tp_utc_start_nanoseconds = None, tp_utc_uncertainty_nanoseconds = None\<rparr>"

definition stream_record_of ::
    "meter_record \<Rightarrow> record_kind \<Rightarrow> measurement_period \<Rightarrow> u64 \<Rightarrow> u16 \<Rightarrow> u32 \<Rightarrow> int \<Rightarrow>
     record_timing_provenance \<Rightarrow> meter_stream_record" where
  "stream_record_of r kind period sequence fragment generation received_at provenance =
     \<lparr>sr_cursor = 0, sr_record_format = record_format r, sr_record_kind = record_kind_value kind,
      sr_measurement_period = measurement_period_value period, sr_source_sequence = sequence,
      sr_source_fragment = fragment, sr_configuration_generation = generation,
      sr_ingested_at_nanoseconds = received_at, sr_timing = provenance,
      sr_payload = record_bytes r\<rparr>"

text \<open>A stream record after \<^verbatim>\<open>std::move\<close>: its payload vector is empty.\<close>

definition moved_from :: "meter_stream_record \<Rightarrow> meter_stream_record" where
  "moved_from sr = sr\<lparr>sr_payload := []\<rparr>"

section \<open>State, ports and environment\<close>

text \<open>A sequence baseline (\<^verbatim>\<open>last_..._sequence_\<close>) with its gap counter (\<^verbatim>\<open>..._sequence_gaps_\<close>).\<close>

record sequence_track =
  tk_last :: "u32 option"
  tk_gaps :: u64

record reject_log_state =
  rl_last_log :: "int option"
  rl_suppressed :: u64

record pending_harmonic_family =
  phf_sequence :: u32
  phf_records :: "meter_stream_record option list"
  phf_count :: nat

text \<open>The elements of the arrays that are indexed by the harmonic period.\<close>

record harmonic_period_state =
  hx_assembler :: harmonic_family_assembler
  hx_pending :: "pending_harmonic_family option"
  hx_records :: u64
  hx_families :: u64
  hx_incomplete_families :: u64
  hx_latest :: "harmonic_spectrum_snapshot option"

record pending_energy_family =
  pef_identity :: energy_family_identity
  pef_records :: "meter_stream_record option list"
  pef_count :: nat

record power_quality_state =
  px_records :: u64
  px_events :: u64
  px_latest :: "power_quality_snapshot option"
  px_latest_event :: "power_quality_snapshot option"

record record_ingestor =
  ri_meter_data :: meter_data
  ri_meter_records :: u64
  ri_dma_bytes :: u64
  ri_dma_read_errors :: u64
  ri_invalid_records :: u64
  ri_lifetime_invalid_records :: u64
  ri_sequence_gaps :: u64
  ri_latest_record :: "meter_record option"
  ri_last_transport_overruns :: u64
  ri_aggregate :: sequence_track
  ri_ten_minute :: sequence_track
  ri_two_hour :: sequence_track
  ri_frequency_10s :: sequence_track
  ri_latest_aggregate_record :: "meter_record option"
  ri_latest_aggregate_time_quality :: time_quality
  ri_last_record_time :: "int option"
  ri_last_aggregate_record_time :: "int option"
  ri_single_cycle_records :: u64
  ri_latest_single_cycle :: "single_cycle_snapshot option"
  ri_power_quality :: power_quality_state
  ri_pq_lifecycle :: sequence_track
  ri_pq_lifecycle_records :: u64
  ri_latest_pq_lifecycle :: "power_quality_event_lifecycle_snapshot option"
  ri_flicker :: sequence_track
  ri_flicker_records :: u64
  ri_latest_flicker :: "flicker_record_kind \<Rightarrow> flicker_snapshot option"
  ri_mains_signal :: sequence_track
  ri_mains_signal_records :: u64
  ri_latest_mains_signal :: "mains_signal_snapshot option"
  ri_harmonics :: "nat \<Rightarrow> harmonic_period_state"
  ri_harmonic_records :: u64
  ri_harmonic_families :: u64
  ri_incomplete_harmonic_families :: u64
  ri_energy_assembler :: energy_family_assembler
  ri_pending_energy_family :: "pending_energy_family option"
  ri_energy_records :: u64
  ri_energy_families :: u64
  ri_incomplete_energy_families :: u64
  ri_reject_log_states :: "record_interval_category \<Rightarrow> reject_log_state"
  ri_journal :: "(string \<times> record_interval_category \<times> u64) list"

definition track_init :: sequence_track where
  "track_init = \<lparr>tk_last = None, tk_gaps = 0\<rparr>"

definition harmonic_state_init :: harmonic_period_state where
  "harmonic_state_init = \<lparr>hx_assembler = harmonic_reset, hx_pending = None, hx_records = 0,
     hx_families = 0, hx_incomplete_families = 0, hx_latest = None\<rparr>"

definition ingestor_init :: record_ingestor where
  "ingestor_init =
     \<lparr>ri_meter_data = meter_data_init, ri_meter_records = 0, ri_dma_bytes = 0, ri_dma_read_errors = 0,
      ri_invalid_records = 0, ri_lifetime_invalid_records = 0, ri_sequence_gaps = 0,
      ri_latest_record = None, ri_last_transport_overruns = 0, ri_aggregate = track_init,
      ri_ten_minute = track_init, ri_two_hour = track_init, ri_frequency_10s = track_init,
      ri_latest_aggregate_record = None, ri_latest_aggregate_time_quality = Unsynchronized,
      ri_last_record_time = None, ri_last_aggregate_record_time = None, ri_single_cycle_records = 0,
      ri_latest_single_cycle = None,
      ri_power_quality = \<lparr>px_records = 0, px_events = 0, px_latest = None, px_latest_event = None\<rparr>,
      ri_pq_lifecycle = track_init, ri_pq_lifecycle_records = 0, ri_latest_pq_lifecycle = None,
      ri_flicker = track_init, ri_flicker_records = 0, ri_latest_flicker = (\<lambda>_. None),
      ri_mains_signal = track_init, ri_mains_signal_records = 0, ri_latest_mains_signal = None,
      ri_harmonics = (\<lambda>_. harmonic_state_init), ri_harmonic_records = 0, ri_harmonic_families = 0,
      ri_incomplete_harmonic_families = 0, ri_energy_assembler = assembler_reset,
      ri_pending_energy_family = None, ri_energy_records = 0, ri_energy_families = 0,
      ri_incomplete_energy_families = 0,
      ri_reject_log_states = (\<lambda>_. \<lparr>rl_last_log = None, rl_suppressed = 0\<rparr>), ri_journal = []\<rparr>"

text \<open>
  The collaborators. A port returns the changed world and its result or the exception it throws;
  \<^verbatim>\<open>Conflict\<close> is \<^verbatim>\<open>energy_ledger::Conflict\<close>.
\<close>

record 'w ingest_ports =
  ip_publish :: "'w \<Rightarrow> meter_stream_record \<Rightarrow> 'w \<times> u64 result"
  ip_publish_records :: "'w \<Rightarrow> meter_stream_record list \<Rightarrow> 'w \<times> u64 list result"
  ip_authority :: "(('w \<Rightarrow> energy_values option result) \<times> ('w \<Rightarrow> demand_values option result)) option"
  ip_lifecycle_callback :: "('w \<Rightarrow> power_quality_event_lifecycle_snapshot \<Rightarrow> 'w \<times> unit result) option"

text \<open>
  The environment of one call of \<^verbatim>\<open>accept\<close>: the configuration, the timebase, the wall clock, the steady
  clock when the record is stamped or rejected and when it is done, and the driver's overrun counter.
\<close>

record ingest_env =
  ie_generation :: u32
  ie_sample_rate_hz :: u32
  ie_timebase :: measurement_timebase
  ie_received_at :: int
  ie_now :: int
  ie_finished :: int
  ie_transport_overruns :: u64

section \<open>Rejections\<close>

definition note_invalid_record :: "record_ingestor \<Rightarrow> record_ingestor" where
  "note_invalid_record s = s\<lparr>ri_invalid_records := ri_invalid_records s + 1,
     ri_lifetime_invalid_records := ri_lifetime_invalid_records s + 1\<rparr>"

abbreviation reject_log_interval :: int where "reject_log_interval \<equiv> 2000000000"

definition log_rejected_record ::
    "ingest_env \<Rightarrow> string \<Rightarrow> meter_record \<Rightarrow> record_ingestor \<Rightarrow> record_ingestor" where
  "log_rejected_record env event r s =
     (let category = ri_category (record_interval_identity_of r);
          log_state = ri_reject_log_states s category;
          limited = (case rl_last_log log_state of None \<Rightarrow> False
            | Some t \<Rightarrow> ie_now env - t < reject_log_interval)
      in if limited
         then s\<lparr>ri_reject_log_states := (ri_reject_log_states s)
                (category := log_state\<lparr>rl_suppressed := rl_suppressed log_state + 1\<rparr>)\<rparr>
         else s\<lparr>ri_reject_log_states := (ri_reject_log_states s)
                (category := \<lparr>rl_last_log = Some (ie_now env), rl_suppressed = 0\<rparr>),
              ri_journal := ri_journal s @ [(event, category, rl_suppressed log_state)]\<rparr>)"

definition reject_record ::
    "ingest_env \<Rightarrow> string \<Rightarrow> meter_record \<Rightarrow> record_ingestor \<Rightarrow> record_ingestor" where
  "reject_record env event r s = log_rejected_record env event r (note_invalid_record s)"

definition matches_configuration :: "ingest_env \<Rightarrow> meter_record \<Rightarrow> bool" where
  "matches_configuration env r \<longleftrightarrow>
     header_valid r \<and> configuration_generation r = ie_generation env \<and>
     sample_rate_hz r = ie_sample_rate_hz env"

section \<open>Continuity\<close>

text \<open>The rule of the four trackers that follow one baseline; \<open>None\<close> is a stale record.\<close>

definition track_continuity :: "sequence_track \<Rightarrow> u32 \<Rightarrow> sequence_track option" where
  "track_continuity t received =
     (case tk_last t of
        None \<Rightarrow> Some t
      | Some latest \<Rightarrow>
          let forward_distance = received - (latest + 1) in
          if forward_distance = 0 then Some t
          else if forward_distance < push_bit 31 1
          then Some (t\<lparr>tk_gaps := tk_gaps t + ucast forward_distance\<rparr>)
          else None)"

definition track_aggregate_continuity ::
    "ingest_env \<Rightarrow> meter_record \<Rightarrow> record_ingestor \<Rightarrow> record_ingestor \<times> bool" where
  "track_aggregate_continuity env r s =
     (case track_continuity (ri_aggregate s) (aggregate_sequence r) of
        Some t \<Rightarrow> (s\<lparr>ri_aggregate := t\<rparr>, True)
      | None \<Rightarrow> (reject_record env ''meter_record_stale_rejected'' r s, False))"

definition track_ten_minute_continuity ::
    "ingest_env \<Rightarrow> meter_record \<Rightarrow> record_ingestor \<Rightarrow> record_ingestor \<times> bool" where
  "track_ten_minute_continuity env r s =
     (case track_continuity (ri_ten_minute s) (rec_sequence r) of
        Some t \<Rightarrow> (s\<lparr>ri_ten_minute := t\<rparr>, True)
      | None \<Rightarrow> (reject_record env ''meter_record_stale_rejected'' r s, False))"

definition track_two_hour_continuity ::
    "ingest_env \<Rightarrow> meter_record \<Rightarrow> record_ingestor \<Rightarrow> record_ingestor \<times> bool" where
  "track_two_hour_continuity env r s =
     (case track_continuity (ri_two_hour s) (rec_sequence r) of
        Some t \<Rightarrow> (s\<lparr>ri_two_hour := t\<rparr>, True)
      | None \<Rightarrow> (reject_record env ''meter_record_stale_rejected'' r s, False))"

definition track_frequency_10s_continuity ::
    "ingest_env \<Rightarrow> meter_record \<Rightarrow> record_ingestor \<Rightarrow> record_ingestor \<times> bool" where
  "track_frequency_10s_continuity env r s =
     (case track_continuity (ri_frequency_10s s) (rec_sequence r) of
        Some t \<Rightarrow> (s\<lparr>ri_frequency_10s := t\<rparr>, True)
      | None \<Rightarrow> (reject_record env ''meter_record_stale_rejected'' r s, False))"

text \<open>Whether a basic record that does not start where the last one ended overlaps it on purpose.\<close>

definition intentional_utc_overlap :: "meter_record \<Rightarrow> meter_record \<Rightarrow> bool" where
  "intentional_utc_overlap previous r =
     (let previous_first = first_sample_index previous;
          previous_last = previous_first + ucast (block_sample_count previous) - 1;
          first = first_sample_index r;
          count = block_sample_count r;
          range_safe = (count \<noteq> 0 \<and> first \<le> - 1 - ucast (count - 1));
          last_sample = (if range_safe then first + ucast count - 1 else 0)
      in tw_utc_resynchronized (timing r) \<and> range_safe \<and> first > previous_first \<and>
         first \<le> previous_last \<and> last_sample > previous_last)"

definition track_basic_continuity ::
    "ingest_env \<Rightarrow> meter_record \<Rightarrow> record_ingestor \<Rightarrow> record_ingestor \<times> bool" where
  "track_basic_continuity env r s =
     (case ri_latest_record s of
        None \<Rightarrow> (s, True)
      | Some previous \<Rightarrow>
          let forward_distance = rec_sequence r - (rec_sequence previous + 1) in
          if forward_distance \<noteq> 0 \<and> forward_distance < push_bit 31 1
          then (s\<lparr>ri_sequence_gaps := ri_sequence_gaps s + ucast forward_distance,
                  ri_last_transport_overruns := ie_transport_overruns env\<rparr>, True)
          else if forward_distance \<noteq> 0
          then (reject_record env ''meter_record_stale_rejected'' r s, False)
          else if first_sample_index r =
                    first_sample_index previous + ucast (block_sample_count previous) \<or>
                  intentional_utc_overlap previous r
          then (s, True)
          else (s\<lparr>ri_sequence_gaps := ri_sequence_gaps s + 1\<rparr>, True))"

text \<open>
  The streams with a sequence of their own: the distance as a signed 32-bit number; \<open>None\<close> is a stale
  record, which is dropped without a trace.
\<close>

definition track_private :: "sequence_track \<Rightarrow> u32 \<Rightarrow> sequence_track option" where
  "track_private t received =
     (case tk_last t of
        None \<Rightarrow> Some t
      | Some latest \<Rightarrow>
          let delta = sint (received - (latest + 1)) in
          if delta < 0 then None
          else if delta > 0 then Some (t\<lparr>tk_gaps := tk_gaps t + word_of_int delta\<rparr>)
          else Some t)"

section \<open>Time stamps\<close>

definition stamp_block :: "ingest_env \<Rightarrow> block_timing \<Rightarrow> block_timing" where
  "stamp_block env t =
     (let stamped = t\<lparr>bt_time_quality := quality (ie_timebase env) (ie_now env)\<rparr> in
      case utc_for_sample (ie_timebase env) (bt_first_sample_index t)
             (bt_configuration_generation t) (ie_now env) of
        None \<Rightarrow> stamped
      | Some estimate \<Rightarrow> stamped\<lparr>bt_utc_start := Some (est_utc estimate),
                                bt_utc_uncertainty_ns := Some (est_uncertainty_ns estimate)\<rparr>)"

definition stamp_aggregate :: "ingest_env \<Rightarrow> aggregate_timing \<Rightarrow> aggregate_timing" where
  "stamp_aggregate env t =
     (let stamped = t\<lparr>at_time_quality := quality (ie_timebase env) (ie_now env)\<rparr> in
      case utc_for_sample (ie_timebase env) (at_first_sample_index t)
             (at_configuration_generation t) (ie_now env) of
        None \<Rightarrow> stamped
      | Some estimate \<Rightarrow> stamped\<lparr>at_utc_start := Some (est_utc estimate),
                                at_utc_uncertainty_ns := Some (est_uncertainty_ns estimate)\<rparr>)"

definition private_timing :: "ingest_env \<Rightarrow> u32 \<Rightarrow> u32 \<Rightarrow> u64 \<Rightarrow> u32 \<Rightarrow> u32 \<Rightarrow> block_timing" where
  "private_timing env sequence generation first_sample sample_count rate =
     stamp_block env (block_timing_init
       \<lparr>bt_sequence := ucast sequence, bt_configuration_generation := generation,
        bt_first_sample_index := first_sample, bt_sample_count := sample_count,
        bt_sample_rate_hz := rate\<rparr>)"

section \<open>The branches of accept\<close>

type_synonym 'w ingest_result = "(record_ingestor \<times> 'w) \<times> unit result"

definition accept_single_cycle ::
    "meter_record \<Rightarrow> record_ingestor \<times> 'w \<Rightarrow> 'w ingest_result" where
  "accept_single_cycle r sw = (case sw of (s, w) \<Rightarrow>
     ((s\<lparr>ri_single_cycle_records := ri_single_cycle_records s + 1,
         ri_latest_single_cycle := Some (decode_single_cycle_record r)\<rparr>, w), Inr ()))"

definition accept_pq_event ::
    "ingest_env \<Rightarrow> meter_record \<Rightarrow> record_ingestor \<times> 'w \<Rightarrow> 'w ingest_result" where
  "accept_pq_event env r sw = (case sw of (s, w) \<Rightarrow>
     case decode_pq_event_record r (ie_received_at env) of
       Inl e \<Rightarrow> ((reject_record env ''meter_record_decode_rejected'' r s, w), Inr ())
     | Inr snapshot \<Rightarrow>
         let p = ri_power_quality s; kind = pq_kind (pqs_values snapshot);
             counted = p\<lparr>px_records := px_records p + 1, px_latest := Some snapshot\<rparr>;
             edged = (if kind \<noteq> PQ_periodic then counted\<lparr>px_latest_event := Some snapshot\<rparr> else counted);
             started = (if kind = PQ_event_start then edged\<lparr>px_events := px_events p + 1\<rparr> else edged)
         in ((s\<lparr>ri_power_quality := started\<rparr>, w), Inr ()))"

definition lifecycle_stream_record ::
    "ingest_env \<Rightarrow> meter_record \<Rightarrow> power_quality_event_lifecycle_snapshot \<Rightarrow> meter_stream_record" where
  "lifecycle_stream_record env r event =
     stream_record_of r RK_power_quality_event Basic (ucast (lcs_sequence event)) 0
       (lcs_configuration_generation event) (ie_received_at env)
       (block_provenance (private_timing env (lcs_sequence event) (lcs_configuration_generation event)
          (lcs_first_sample event) (block_sample_count r) (lcs_sample_rate_hz event)))"

definition run_lifecycle_callback ::
    "'w ingest_ports \<Rightarrow> ingest_env \<Rightarrow> meter_record \<Rightarrow> power_quality_event_lifecycle_snapshot \<Rightarrow>
     record_ingestor \<times> 'w \<Rightarrow> record_ingestor \<times> 'w" where
  "run_lifecycle_callback P env r event sw = (case sw of (s, w) \<Rightarrow>
     case ip_lifecycle_callback P of
       None \<Rightarrow> (s, w)
     | Some callback \<Rightarrow>
         (case callback w event of
            (w', Inl e) \<Rightarrow> (log_rejected_record env ''pq_event_waveform_trigger_failed'' r s, w')
          | (w', Inr _) \<Rightarrow> (s, w')))"

definition accept_lifecycle ::
    "'w ingest_ports \<Rightarrow> ingest_env \<Rightarrow> meter_record \<Rightarrow> record_ingestor \<times> 'w \<Rightarrow> 'w ingest_result" where
  "accept_lifecycle P env r sw = (case sw of (s, w) \<Rightarrow>
     case decode_pq_event_lifecycle_record r of
       Inl e \<Rightarrow> ((reject_record env ''meter_record_decode_rejected'' r s, w), Inr ())
     | Inr event \<Rightarrow>
         (case track_private (ri_pq_lifecycle s) (lcs_sequence event) of
            None \<Rightarrow> ((s, w), Inr ())
          | Some t \<Rightarrow>
              let tracked = s\<lparr>ri_pq_lifecycle := t\<rparr> in
              (case ip_publish P w (lifecycle_stream_record env r event) of
                 (w1, Inl e) \<Rightarrow> ((tracked, w1), Inl e)
               | (w1, Inr _) \<Rightarrow>
                   let (called, w2) = run_lifecycle_callback P env r event (tracked, w1)
                   in ((called\<lparr>ri_pq_lifecycle := t\<lparr>tk_last := Some (lcs_sequence event)\<rparr>,
                         ri_latest_pq_lifecycle := Some event,
                         ri_pq_lifecycle_records := ri_pq_lifecycle_records s + 1,
                         ri_meter_records := ri_meter_records s + 1,
                         ri_last_record_time := Some (ie_finished env)\<rparr>, w2), Inr ()))))"

definition flicker_period :: "flicker_record_kind \<Rightarrow> measurement_period" where
  "flicker_period kind = (case kind of FK_live \<Rightarrow> Basic | FK_pst \<Rightarrow> Min10 | FK_plt \<Rightarrow> Hour2)"

definition flicker_stream_record ::
    "ingest_env \<Rightarrow> meter_record \<Rightarrow> flicker_snapshot \<Rightarrow> meter_stream_record" where
  "flicker_stream_record env r flicker =
     stream_record_of r RK_flicker (flicker_period (fl_kind flicker)) (ucast (fl_sequence flicker)) 0
       (fl_configuration_generation flicker) (ie_received_at env)
       (block_provenance (private_timing env (fl_sequence flicker) (fl_configuration_generation flicker)
          (fl_first_sample flicker) (fl_sample_count flicker) (fl_sample_rate_hz flicker)))"

definition accept_flicker ::
    "'w ingest_ports \<Rightarrow> ingest_env \<Rightarrow> meter_record \<Rightarrow> record_ingestor \<times> 'w \<Rightarrow> 'w ingest_result" where
  "accept_flicker P env r sw = (case sw of (s, w) \<Rightarrow>
     case decode_flicker_record r of
       Inl e \<Rightarrow> ((reject_record env ''meter_record_decode_rejected'' r s, w), Inr ())
     | Inr flicker \<Rightarrow>
         (case track_private (ri_flicker s) (fl_sequence flicker) of
            None \<Rightarrow> ((s, w), Inr ())
          | Some t \<Rightarrow>
              (case ip_publish P w (flicker_stream_record env r flicker) of
                 (w1, Inl e) \<Rightarrow> ((s\<lparr>ri_flicker := t\<rparr>, w1), Inl e)
               | (w1, Inr _) \<Rightarrow>
                   ((s\<lparr>ri_flicker := t\<lparr>tk_last := Some (fl_sequence flicker)\<rparr>,
                      ri_latest_flicker := (ri_latest_flicker s)(fl_kind flicker := Some flicker),
                      ri_flicker_records := ri_flicker_records s + 1,
                      ri_meter_records := ri_meter_records s + 1,
                      ri_last_record_time := Some (ie_finished env)\<rparr>, w1), Inr ()))))"

definition mains_stream_record ::
    "ingest_env \<Rightarrow> meter_record \<Rightarrow> mains_signal_snapshot \<Rightarrow> meter_stream_record" where
  "mains_stream_record env r mains =
     stream_record_of r RK_mains_signal Basic (ucast (ms_sequence mains)) 0
       (ms_configuration_generation mains) (ie_received_at env)
       (block_provenance (private_timing env (ms_sequence mains) (ms_configuration_generation mains)
          (ms_first_sample mains) (ms_sample_count mains) (ms_sample_rate_hz mains)))"

definition accept_mains_signal ::
    "'w ingest_ports \<Rightarrow> ingest_env \<Rightarrow> meter_record \<Rightarrow> record_ingestor \<times> 'w \<Rightarrow> 'w ingest_result" where
  "accept_mains_signal P env r sw = (case sw of (s, w) \<Rightarrow>
     case decode_mains_signal_record r of
       Inl e \<Rightarrow> ((reject_record env ''meter_record_decode_rejected'' r s, w), Inr ())
     | Inr mains \<Rightarrow>
         (case track_private (ri_mains_signal s) (ms_sequence mains) of
            None \<Rightarrow> ((s, w), Inr ())
          | Some t \<Rightarrow>
              (case ip_publish P w (mains_stream_record env r mains) of
                 (w1, Inl e) \<Rightarrow> ((s\<lparr>ri_mains_signal := t\<rparr>, w1), Inl e)
               | (w1, Inr _) \<Rightarrow>
                   ((s\<lparr>ri_mains_signal := t\<lparr>tk_last := Some (ms_sequence mains)\<rparr>,
                      ri_latest_mains_signal := Some mains,
                      ri_mains_signal_records := ri_mains_signal_records s + 1,
                      ri_meter_records := ri_meter_records s + 1,
                      ri_last_record_time := Some (ie_finished env)\<rparr>, w1), Inr ()))))"

subsection \<open>Harmonic families\<close>

definition harmonic_period_index :: "measurement_period \<Rightarrow> nat result" where
  "harmonic_period_index period =
     (let index = unat (measurement_period_value period) in
      if index \<ge> 4 then Inl (Invalid_argument ''unsupported harmonic measurement period'')
      else Inr index)"

definition harmonic_stream_record ::
    "ingest_env \<Rightarrow> meter_record \<Rightarrow> harmonic_record_chunk \<Rightarrow> meter_stream_record" where
  "harmonic_stream_record env r chunk = (let f = hc_family chunk in
     stream_record_of r RK_harmonic (hf_period f) (ucast (hf_sequence f)) (of_nat (chunk_index chunk))
       (hf_configuration_generation f) (ie_received_at env)
       (block_provenance (stamp_block env (block_timing_init
          \<lparr>bt_sequence := ucast (hf_sequence f),
           bt_configuration_generation := hf_configuration_generation f,
           bt_first_sample_index := hf_first_sample f, bt_sample_count := hf_sample_count f,
           bt_sample_rate_hz := hf_sample_rate_hz f, bt_cycle_count := ucast (hf_cycle_count f),
           bt_nominal_frequency := (if hf_nominal_frequency_hz f = 50 then Hz50 else Hz60),
           bt_cycle_locked := (hf_status f AND 4 \<noteq> 0)\<rparr>))))"

text \<open>The publication buffer for a chunk: that of its family, or a new one.\<close>

definition pending_family_for :: "pending_harmonic_family option \<Rightarrow> u32 \<Rightarrow> pending_harmonic_family" where
  "pending_family_for pending sequence =
     (let fresh = \<lparr>phf_sequence = sequence,
            phf_records = replicate harmonic_records_per_family None, phf_count = 0\<rparr> in
      case pending of None \<Rightarrow> fresh
      | Some p \<Rightarrow> if phf_sequence p \<noteq> sequence then fresh else p)"

text \<open>
  The publication of a completed family. When it throws, the records have been moved out of the
  buffer, which stays.
\<close>

definition publish_harmonic_family ::
    "'w ingest_ports \<Rightarrow> nat \<Rightarrow> pending_harmonic_family \<Rightarrow> harmonic_spectrum_snapshot \<Rightarrow>
     record_ingestor \<times> 'w \<Rightarrow> 'w ingest_result" where
  "publish_harmonic_family P i pending spectrum sw = (case sw of (s, w) \<Rightarrow>
     let x = ri_harmonics s i;
         set_x = (\<lambda>y. s\<lparr>ri_harmonics := (ri_harmonics s)(i := y)\<rparr>) in
     if phf_count pending \<noteq> harmonic_records_per_family
     then ((s, w), Inl (Logic_error ''complete harmonic family has a partial publication buffer''))
     else if None \<in> set (phf_records pending)
     then ((s, w), Inl (Logic_error ''complete harmonic family is missing a publication chunk''))
     else let family = map the (phf_records pending);
              spent = set_x (x\<lparr>hx_pending := Some (pending
                \<lparr>phf_records := map (\<lambda>sr. Some (moved_from sr)) family\<rparr>)\<rparr>)
       in case ip_publish_records P w family of
            (w1, Inl e) \<Rightarrow> ((spent, w1), Inl e)
          | (w1, Inr cursors) \<Rightarrow>
              if length cursors \<noteq> length family
              then ((spent, w1),
                Inl (Runtime_error ''harmonic family publish returned the wrong cursor count''))
              else ((set_x (x\<lparr>hx_latest := Some spectrum, hx_families := hx_families x + 1,
                        hx_pending := None\<rparr>)
                      \<lparr>ri_harmonic_families := ri_harmonic_families s + 1\<rparr>, w1), Inr ()))"

definition accept_harmonic ::
    "'w ingest_ports \<Rightarrow> ingest_env \<Rightarrow> meter_record \<Rightarrow> record_ingestor \<times> 'w \<Rightarrow> 'w ingest_result" where
  "accept_harmonic P env r sw = (case sw of (s, w) \<Rightarrow>
     case bind_result (decode_harmonic_record r) (\<lambda>chunk.
            bind_result (harmonic_period_index (hf_period (hc_family chunk))) (\<lambda>i. Inr (chunk, i))) of
       Inl e \<Rightarrow> ((reject_record env ''meter_record_decode_rejected'' r s, w), Inr ())
     | Inr (chunk, i) \<Rightarrow>
         let x = ri_harmonics s i;
             with_state = (\<lambda>y. s\<lparr>ri_harmonics := (ri_harmonics s)(i := y)\<rparr>) in
         (case harmonic_accept (hx_assembler x) chunk of
            (a, Inl e) \<Rightarrow>
              ((reject_record env ''meter_record_decode_rejected'' r
                  (with_state (x\<lparr>hx_assembler := a\<rparr>)), w), Inr ())
          | (a, Inr assembly) \<Rightarrow>
              let pending = pending_family_for (hx_pending x) (chunk_sequence chunk) in
              if phf_records pending ! chunk_index chunk \<noteq> None
              then ((with_state (x\<lparr>hx_assembler := a, hx_pending := Some pending\<rparr>), w),
                Inl (Logic_error ''harmonic publication buffer received a duplicate chunk''))
              else let filled = pending
                         \<lparr>phf_records := (phf_records pending)
                            [chunk_index chunk := Some (harmonic_stream_record env r chunk)],
                          phf_count := phf_count pending + 1\<rparr>;
                       counted = with_state (x\<lparr>hx_assembler := a, hx_pending := Some filled,
                           hx_records := hx_records x + 1,
                           hx_incomplete_families := hx_incomplete_families x +
                             ucast (hu_incomplete_families assembly)\<rparr>)
                         \<lparr>ri_harmonic_records := ri_harmonic_records s + 1,
                          ri_incomplete_harmonic_families := ri_incomplete_harmonic_families s +
                            ucast (hu_incomplete_families assembly)\<rparr>
                in (case hu_completed assembly of
                      None \<Rightarrow> ((counted\<lparr>ri_meter_records := ri_meter_records s + 1\<rparr>, w), Inr ())
                    | Some spectrum \<Rightarrow>
                        (case publish_harmonic_family P i filled spectrum (counted, w) of
                           ((t, w1), Inl e) \<Rightarrow> ((t, w1), Inl e)
                         | ((t, w1), Inr _) \<Rightarrow>
                             ((t\<lparr>ri_meter_records := ri_meter_records s + 1\<rparr>, w1), Inr ())))))"

subsection \<open>Energy families\<close>

definition energy_stream_record ::
    "ingest_env \<Rightarrow> meter_record \<Rightarrow> energy_family_identity \<Rightarrow> meter_stream_record" where
  "energy_stream_record env r ident =
     stream_record_of r RK_energy Basic (ucast (id_sequence ident)) (ucast (energy_part r))
       (id_configuration_generation ident) (ie_received_at env)
       (provenance_init\<lparr>tp_first_sample_index := id_first_sample_index ident,
          tp_sample_count := id_sample_count ident\<rparr>)"

definition pending_energy_for ::
    "pending_energy_family option \<Rightarrow> energy_family_identity \<Rightarrow> pending_energy_family" where
  "pending_energy_for pending ident =
     (let fresh = \<lparr>pef_identity = ident, pef_records = [None, None], pef_count = 0\<rparr> in
      case pending of None \<Rightarrow> fresh
      | Some p \<Rightarrow> if pef_identity p \<noteq> ident then fresh else p)"

text \<open>The buffer with one more part; a part it already holds must be the same 256 bytes.\<close>

definition buffer_energy_part ::
    "ingest_env \<Rightarrow> meter_record \<Rightarrow> energy_family_identity \<Rightarrow> pending_energy_family \<Rightarrow>
     pending_energy_family result" where
  "buffer_energy_part env r ident pending =
     (let part = unat (energy_part r) in
      case pef_records pending ! part of
        Some held \<Rightarrow>
          if sr_payload held \<noteq> record_bytes r
          then Inl (Invalid_argument ''ENERGY duplicate part has different payload'')
          else Inr pending
      | None \<Rightarrow> Inr (pending
          \<lparr>pef_records := (pef_records pending)[part := Some (energy_stream_record env r ident)],
           pef_count := pef_count pending + 1\<rparr>))"

definition energy_timing :: "ingest_env \<Rightarrow> energy_family_identity \<Rightarrow> block_timing" where
  "energy_timing env ident = private_timing env (id_sequence ident) (id_configuration_generation ident)
     (id_first_sample_index ident) (id_sample_count ident) (id_sample_rate_hz ident)"

definition stamp_pending :: "block_timing \<Rightarrow> meter_stream_record \<Rightarrow> meter_stream_record" where
  "stamp_pending t sr = sr\<lparr>sr_timing := (sr_timing sr)
     \<lparr>tp_time_quality := time_quality_value (bt_time_quality t),
      tp_utc_start_nanoseconds := (case bt_utc_start t of None \<Rightarrow> tp_utc_start_nanoseconds (sr_timing sr)
        | Some u \<Rightarrow> Some u),
      tp_utc_uncertainty_nanoseconds := bt_utc_uncertainty_ns t\<rparr>\<rparr>"

definition energy_update ::
    "energy_family_identity \<Rightarrow> energy_values \<Rightarrow> block_timing \<Rightarrow> meter_update" where
  "energy_update ident values t = meter_update_init
     \<lparr>mu_period := Basic, mu_kind := RK_energy, mu_sequence := ucast (id_sequence ident),
      mu_configuration_generation := id_configuration_generation ident,
      mu_energy := Some values, mu_timing := Some t\<rparr>"

text \<open>What the publisher that is also the authority has on record, or the assembled values.\<close>

definition authoritative :: "('w \<Rightarrow> 'v option result) option \<Rightarrow> string \<Rightarrow> 'w \<Rightarrow> 'v \<Rightarrow> 'v result" where
  "authoritative authority message w assembled =
     (case authority of None \<Rightarrow> Inr assembled
      | Some read \<Rightarrow> bind_result (read w) (\<lambda>stored.
          case stored of None \<Rightarrow> Inl (Runtime_error message) | Some v \<Rightarrow> Inr v))"

definition publish_energy_family ::
    "'w ingest_ports \<Rightarrow> ingest_env \<Rightarrow> meter_record \<Rightarrow> energy_family_identity \<Rightarrow> energy_values \<Rightarrow>
     record_ingestor \<times> 'w \<Rightarrow> (record_ingestor \<times> 'w) \<times> bool result" where
  "publish_energy_family P env r ident values sw = (case sw of (s, w) \<Rightarrow>
     case ri_pending_energy_family s of
       None \<Rightarrow> ((s, w), Inl (Logic_error ''complete ENERGY family has a partial publication buffer''))
     | Some pending \<Rightarrow>
         if pef_count pending \<noteq> 2 \<or> None \<in> set (pef_records pending)
         then ((s, w), Inl (Logic_error ''complete ENERGY family has a partial publication buffer''))
         else let t = energy_timing env ident;
                  family = map (\<lambda>p. stamp_pending t (the p)) (pef_records pending);
                  spent = s\<lparr>ri_pending_energy_family := Some (pending
                    \<lparr>pef_records := map (\<lambda>sr. Some (moved_from sr)) family\<rparr>)\<rparr>
           in case ip_publish_records P w family of
                (w1, Inl (Conflict m)) \<Rightarrow>
                  (((log_rejected_record env ''meter_energy_ledger_conflict'' r
                       ((note_invalid_record spent)
                         \<lparr>ri_incomplete_energy_families := ri_incomplete_energy_families s + 1\<rparr>))
                     \<lparr>ri_pending_energy_family := None\<rparr>, w1), Inr False)
              | (w1, Inl e) \<Rightarrow> ((spent, w1), Inl e)
              | (w1, Inr cursors) \<Rightarrow>
                  if length cursors \<noteq> length family
                  then ((spent, w1),
                    Inl (Runtime_error ''ENERGY family publish returned the wrong cursor count''))
                  else case authoritative (map_option fst (ip_authority P))
                         ''meter-stream acknowledged ENERGY without a durable snapshot'' w1 values of
                         Inl e \<Rightarrow> ((spent, w1), Inl e)
                       | Inr v \<Rightarrow>
                           ((s\<lparr>ri_meter_data := md_apply (ri_meter_data s) (energy_update ident v t)
                                  (ie_received_at env),
                               ri_energy_families := ri_energy_families s + 1,
                               ri_pending_energy_family := None\<rparr>, w1), Inr True))"

definition accept_energy_part ::
    "'w ingest_ports \<Rightarrow> ingest_env \<Rightarrow> meter_record \<Rightarrow> record_ingestor \<times> 'w \<Rightarrow> 'w ingest_result" where
  "accept_energy_part P env r sw = (case sw of (s, w) \<Rightarrow>
     case decode_energy_identity r of
       Inl e \<Rightarrow> ((reject_record env ''meter_record_decode_rejected'' r s, w), Inr ())
     | Inr ident \<Rightarrow>
         let pending = pending_energy_for (ri_pending_energy_family s) ident in
         (case buffer_energy_part env r ident pending of
            Inl e \<Rightarrow> ((reject_record env ''meter_record_decode_rejected'' r
                        (s\<lparr>ri_pending_energy_family := Some pending\<rparr>), w), Inr ())
          | Inr buffered \<Rightarrow>
              (case assembler_accept (ri_energy_assembler s) r (ie_received_at env) of
                 (a, Inl e) \<Rightarrow> ((reject_record env ''meter_record_decode_rejected'' r
                    (s\<lparr>ri_pending_energy_family := Some buffered, ri_energy_assembler := a\<rparr>), w), Inr ())
               | (a, Inr assembly) \<Rightarrow>
                   let counted = s\<lparr>ri_pending_energy_family := Some buffered, ri_energy_assembler := a,
                         ri_energy_records := ri_energy_records s + 1,
                         ri_incomplete_energy_families := ri_incomplete_energy_families s +
                           incomplete_families assembly\<rparr>;
                       finish = (\<lambda>t. t\<lparr>ri_meter_records := ri_meter_records s + 1,
                         ri_last_record_time := Some (ie_finished env)\<rparr>)
                   in case completed assembly of
                        None \<Rightarrow> ((finish counted, w), Inr ())
                      | Some values \<Rightarrow>
                          (case publish_energy_family P env r ident values (counted, w) of
                             ((t, w1), Inl e) \<Rightarrow> ((t, w1), Inl e)
                           | ((t, w1), Inr False) \<Rightarrow> ((t, w1), Inr ())
                           | ((t, w1), Inr True) \<Rightarrow> ((finish t, w1), Inr ())))))"

subsection \<open>The decoded records\<close>

definition sibling_formats :: "u32 list" where
  "sibling_formats =
     [meter_demand_format, meter_power_format, meter_phasor_format, meter_unbalance_format,
      meter_aggregate_power_format, meter_aggregate_phasor_format, meter_aggregate_unbalance_format,
      meter_ten_minute_power_format, meter_ten_minute_phasor_format,
      meter_ten_minute_unbalance_format, meter_two_hour_power_format, meter_two_hour_phasor_format,
      meter_two_hour_unbalance_format, meter_ten_minute_open_power_format,
      meter_ten_minute_open_phasor_format, meter_ten_minute_open_unbalance_format,
      meter_two_hour_open_power_format, meter_two_hour_open_phasor_format,
      meter_two_hour_open_unbalance_format]"

definition open_preview_formats :: "u32 list" where
  "open_preview_formats = [meter_ten_minute_open_format, meter_two_hour_open_format]"

definition track_record ::
    "ingest_env \<Rightarrow> meter_record \<Rightarrow> record_ingestor \<Rightarrow> record_ingestor \<times> bool" where
  "track_record env r s = (let f = record_format r in
     if f \<in> set sibling_formats \<or> f \<in> set open_preview_formats then (s, True)
     else if f = meter_frequency_10s_format then track_frequency_10s_continuity env r s
     else if f = meter_aggregate_format then track_aggregate_continuity env r s
     else if f = meter_ten_minute_format then track_ten_minute_continuity env r s
     else if f = meter_two_hour_format then track_two_hour_continuity env r s
     else track_basic_continuity env r s)"

definition stamp_update :: "ingest_env \<Rightarrow> meter_record \<Rightarrow> meter_update \<Rightarrow> meter_update" where
  "stamp_update env r u =
     u\<lparr>mu_timing := (if record_format r = meter_frequency_10s_format then mu_timing u
                      else map_option (stamp_block env) (mu_timing u)),
       mu_aggregate_timing := map_option (stamp_aggregate env) (mu_aggregate_timing u)\<rparr>"

definition update_provenance :: "meter_update \<Rightarrow> record_timing_provenance" where
  "update_provenance u =
     (case mu_timing u of Some t \<Rightarrow> block_provenance t
      | None \<Rightarrow> (case mu_aggregate_timing u of Some t \<Rightarrow> aggregate_provenance t
                 | None \<Rightarrow> provenance_init))"

definition update_stream_record :: "ingest_env \<Rightarrow> meter_record \<Rightarrow> meter_update \<Rightarrow> meter_stream_record" where
  "update_stream_record env r u =
     stream_record_of r (mu_kind u) (mu_period u) (mu_sequence u) 0 (mu_configuration_generation u)
       (ie_received_at env) (update_provenance u)"

text \<open>The caches and baselines of the record's own stream, after its update was applied.\<close>

definition advance_baseline ::
    "ingest_env \<Rightarrow> meter_record \<Rightarrow> meter_update \<Rightarrow> record_ingestor \<Rightarrow> record_ingestor" where
  "advance_baseline env r u s = (let f = record_format r in
     if f = meter_aggregate_format
     then s\<lparr>ri_aggregate := (ri_aggregate s)\<lparr>tk_last := Some (aggregate_sequence r)\<rparr>,
            ri_latest_aggregate_record := Some r,
            ri_latest_aggregate_time_quality := (case mu_aggregate_timing u of
              Some t \<Rightarrow> at_time_quality t | None \<Rightarrow> Unsynchronized),
            ri_last_aggregate_record_time := Some (ie_finished env)\<rparr>
     else if f = meter_ten_minute_format
     then s\<lparr>ri_ten_minute := (ri_ten_minute s)\<lparr>tk_last := Some (rec_sequence r)\<rparr>\<rparr>
     else if f = meter_two_hour_format
     then s\<lparr>ri_two_hour := (ri_two_hour s)\<lparr>tk_last := Some (rec_sequence r)\<rparr>\<rparr>
     else if f = meter_frequency_10s_format
     then s\<lparr>ri_frequency_10s := (ri_frequency_10s s)\<lparr>tk_last := Some (rec_sequence r)\<rparr>\<rparr>
     else if f \<notin> set open_preview_formats \<and> f = meter_periodic_format
     then s\<lparr>ri_latest_record := Some r\<rparr>
     else s)"

definition accept_update ::
    "'w ingest_ports \<Rightarrow> ingest_env \<Rightarrow> meter_record \<Rightarrow> meter_update \<Rightarrow> record_ingestor \<times> 'w \<Rightarrow>
     'w ingest_result" where
  "accept_update P env r u sw = (case sw of (s, w) \<Rightarrow>
     case ip_publish P w (update_stream_record env r u) of
       (w1, Inl e) \<Rightarrow>
         (case e of
            Conflict m \<Rightarrow>
              if mu_demand u = None then ((s, w1), Inl e)
              else ((reject_record env ''meter_demand_ledger_conflict'' r s, w1), Inr ())
          | _ \<Rightarrow> ((s, w1), Inl e))
     | (w1, Inr _) \<Rightarrow>
         (case (case mu_demand u of None \<Rightarrow> Inr u
                | Some d \<Rightarrow> bind_result (authoritative (map_option snd (ip_authority P))
                    ''meter-stream acknowledged DEMAND without a durable snapshot'' w1 d) (\<lambda>v.
                    Inr (u\<lparr>mu_demand := Some v\<rparr>))) of
            Inl e \<Rightarrow> ((s, w1), Inl e)
          | Inr v \<Rightarrow>
              (((advance_baseline env r v (s\<lparr>ri_meter_data := md_apply (ri_meter_data s) v
                    (ie_received_at env)\<rparr>))
                 \<lparr>ri_last_record_time := Some (ie_finished env),
                  ri_meter_records := ri_meter_records s + 1\<rparr>, w1), Inr ())))"

definition accept_decoded ::
    "'w ingest_ports \<Rightarrow> ingest_env \<Rightarrow> meter_record \<Rightarrow> record_ingestor \<times> 'w \<Rightarrow> 'w ingest_result" where
  "accept_decoded P env r sw = (case sw of (s, w) \<Rightarrow>
     let (tracked, continuous) = track_record env r s in
     if \<not> continuous then ((tracked, w), Inr ())
     else case bind_result with_builtin_decoders (\<lambda>decoders.
                 registry_decode decoders r (ie_received_at env)) of
            Inl e \<Rightarrow> ((note_invalid_record tracked, w), Inr ())
          | Inr u \<Rightarrow> accept_update P env r (stamp_update env r u) (tracked, w))"

section \<open>Operations\<close>

definition ingest_accept ::
    "'w ingest_ports \<Rightarrow> ingest_env \<Rightarrow> meter_record \<Rightarrow> record_ingestor \<times> 'w \<Rightarrow> 'w ingest_result" where
  "ingest_accept P env r sw = (let f = record_format r in
     if \<not> matches_configuration env r
     then ((reject_record env ''meter_record_config_rejected'' r (fst sw), snd sw), Inr ())
     else if f = meter_single_cycle_format then accept_single_cycle r sw
     else if f = meter_pq_event_format then accept_pq_event env r sw
     else if f = meter_pq_event_lifecycle_format then accept_lifecycle P env r sw
     else if f = meter_flicker_format then accept_flicker P env r sw
     else if f = meter_mains_signal_format then accept_mains_signal P env r sw
     else if f = meter_harmonic_format \<or> f = meter_harmonic_aggregate_format
     then accept_harmonic P env r sw
     else if f = meter_energy_format then accept_energy_part P env r sw
     else accept_decoded P env r sw)"

text \<open>
  \<^verbatim>\<open>read_available\<close>: what the DMA source returns for each read, and the records of a batch with their
  environments. At most eight batches are drained per wake-up; an exception of \<^verbatim>\<open>accept\<close> escapes.
\<close>

datatype dma_read =
    Dma_failed
  | Dma_batch nat bool "(ingest_env \<times> meter_record) list"

abbreviation maximum_drain_batches_per_wake :: nat where "maximum_drain_batches_per_wake \<equiv> 8"

fun accept_all ::
    "'w ingest_ports \<Rightarrow> (ingest_env \<times> meter_record) list \<Rightarrow> record_ingestor \<times> 'w \<Rightarrow> 'w ingest_result" where
  "accept_all P [] sw = (sw, Inr ())"
| "accept_all P ((env, r) # rest) sw =
     (case ingest_accept P env r sw of
        (sw1, Inl e) \<Rightarrow> (sw1, Inl e)
      | (sw1, Inr _) \<Rightarrow> accept_all P rest sw1)"

fun drain_batches ::
    "'w ingest_ports \<Rightarrow> nat \<Rightarrow> dma_read list \<Rightarrow> record_ingestor \<times> 'w \<Rightarrow> 'w ingest_result" where
  "drain_batches P 0 reads sw = (sw, Inr ())"
| "drain_batches P (Suc n) [] sw = (sw, Inr ())"
| "drain_batches P (Suc n) (Dma_failed # reads) (s, w) =
     ((s\<lparr>ri_dma_read_errors := ri_dma_read_errors s + 1\<rparr>, w), Inr ())"
| "drain_batches P (Suc n) (Dma_batch bytes partial batch # reads) (s, w) =
     (if bytes = 0 then ((s, w), Inr ())
      else let read = s\<lparr>ri_dma_bytes := ri_dma_bytes s + of_nat bytes\<rparr> in
        if partial then ((note_invalid_record read, w), Inr ())
        else case accept_all P batch (read, w) of
               (sw1, Inl e) \<Rightarrow> (sw1, Inl e)
             | (sw1, Inr _) \<Rightarrow> drain_batches P n reads sw1)"

definition read_available ::
    "'w ingest_ports \<Rightarrow> dma_read list \<Rightarrow> record_ingestor \<times> 'w \<Rightarrow> 'w ingest_result" where
  "read_available P = drain_batches P maximum_drain_batches_per_wake"

definition forget :: "sequence_track \<Rightarrow> sequence_track" where
  "forget t = t\<lparr>tk_last := None\<rparr>"

definition clear_harmonics :: "harmonic_period_state \<Rightarrow> harmonic_period_state" where
  "clear_harmonics x = x\<lparr>hx_assembler := harmonic_reset, hx_pending := None, hx_latest := None\<rparr>"

definition clear_latest :: "record_ingestor \<Rightarrow> record_ingestor" where
  "clear_latest s = s
     \<lparr>ri_latest_record := None, ri_aggregate := forget (ri_aggregate s),
      ri_ten_minute := forget (ri_ten_minute s), ri_two_hour := forget (ri_two_hour s),
      ri_frequency_10s := forget (ri_frequency_10s s), ri_pq_lifecycle := forget (ri_pq_lifecycle s),
      ri_latest_pq_lifecycle := None, ri_flicker := forget (ri_flicker s),
      ri_latest_flicker := (\<lambda>_. None), ri_mains_signal := forget (ri_mains_signal s),
      ri_latest_mains_signal := None, ri_latest_aggregate_record := None,
      ri_latest_aggregate_time_quality := Unsynchronized, ri_last_record_time := None,
      ri_last_aggregate_record_time := None,
      ri_harmonics := (\<lambda>i. clear_harmonics (ri_harmonics s i)),
      ri_energy_assembler := assembler_reset, ri_pending_energy_family := None\<rparr>"

definition begin_epoch :: "record_ingestor \<Rightarrow> record_ingestor" where
  "begin_epoch s = (clear_latest s)
     \<lparr>ri_invalid_records := 0, ri_sequence_gaps := 0, ri_aggregate := track_init,
      ri_ten_minute := track_init, ri_two_hour := track_init, ri_frequency_10s := track_init,
      ri_pq_lifecycle := track_init, ri_flicker := track_init, ri_mains_signal := track_init,
      ri_harmonics := (\<lambda>i. (clear_harmonics (ri_harmonics s i))\<lparr>hx_incomplete_families := 0\<rparr>),
      ri_incomplete_energy_families := 0, ri_incomplete_harmonic_families := 0\<rparr>"

definition note_dma_failure :: "record_ingestor \<Rightarrow> record_ingestor" where
  "note_dma_failure s = s\<lparr>ri_dma_read_errors := ri_dma_read_errors s + 1\<rparr>"

end
