(* ===== verification/Ingest_Safety.thy ===== *)
theory Ingest_Safety
  imports Record_Ingestor
begin

text \<open>
  Properties of the record ingestor: no view changes before the exact record is committed, families are
  published whole, the buffers for publication never disagree with the assemblers, each record touches
  only the sequence of its own stream, and two flaws of the sequence handling.
\<close>

section \<open>What the parts of a step leave alone\<close>

text \<open>
  The state that other services can read, together with the sequence baselines; and the state of the
  family assemblers with their publication buffers.
\<close>

definition public_view where
  "public_view s =
     ((ri_meter_data s, ri_latest_record s, ri_latest_aggregate_record s, ri_latest_pq_lifecycle s,
       ri_latest_flicker s, ri_latest_mains_signal s, \<lambda>i. hx_latest (ri_harmonics s i)),
      (tk_last (ri_aggregate s), tk_last (ri_ten_minute s), tk_last (ri_two_hour s),
       tk_last (ri_frequency_10s s), tk_last (ri_pq_lifecycle s), tk_last (ri_flicker s),
       tk_last (ri_mains_signal s)))"

definition assembly_state where
  "assembly_state s = (ri_harmonics s, ri_energy_assembler s, ri_pending_energy_family s)"

lemma note_invalid_frame [simp]:
  "public_view (note_invalid_record s) = public_view s"
  "assembly_state (note_invalid_record s) = assembly_state s"
  by (simp_all add: public_view_def assembly_state_def note_invalid_record_def)

lemma log_rejected_frame [simp]:
  "public_view (log_rejected_record env event r s) = public_view s"
  "assembly_state (log_rejected_record env event r s) = assembly_state s"
  by (simp_all add: public_view_def assembly_state_def log_rejected_record_def Let_def)

lemma reject_frame [simp]:
  "public_view (reject_record env event r s) = public_view s"
  "assembly_state (reject_record env event r s) = assembly_state s"
  by (simp_all add: reject_record_def)

lemma track_continuity_last: "track_continuity t x = Some u \<Longrightarrow> tk_last u = tk_last t"
  by (auto simp: track_continuity_def Let_def split: option.splits if_splits)

lemma track_private_last: "track_private t x = Some u \<Longrightarrow> tk_last u = tk_last t"
  by (auto simp: track_private_def Let_def split: option.splits if_splits)

lemma counters_frame [simp]:
  "public_view (s\<lparr>ri_sequence_gaps := n\<rparr>) = public_view s"
  "public_view (s\<lparr>ri_last_transport_overruns := n\<rparr>) = public_view s"
  "public_view (s\<lparr>ri_meter_records := n\<rparr>) = public_view s"
  "public_view (s\<lparr>ri_last_record_time := k\<rparr>) = public_view s"
  "assembly_state (s\<lparr>ri_sequence_gaps := n\<rparr>) = assembly_state s"
  "assembly_state (s\<lparr>ri_last_transport_overruns := n\<rparr>) = assembly_state s"
  "assembly_state (s\<lparr>ri_meter_records := n\<rparr>) = assembly_state s"
  "assembly_state (s\<lparr>ri_last_record_time := k\<rparr>) = assembly_state s"
  by (simp_all add: public_view_def assembly_state_def)

lemma tracks_frame:
  "tk_last t = tk_last (ri_aggregate s) \<Longrightarrow> public_view (s\<lparr>ri_aggregate := t\<rparr>) = public_view s"
  "tk_last t = tk_last (ri_ten_minute s) \<Longrightarrow> public_view (s\<lparr>ri_ten_minute := t\<rparr>) = public_view s"
  "tk_last t = tk_last (ri_two_hour s) \<Longrightarrow> public_view (s\<lparr>ri_two_hour := t\<rparr>) = public_view s"
  "tk_last t = tk_last (ri_frequency_10s s) \<Longrightarrow> public_view (s\<lparr>ri_frequency_10s := t\<rparr>) = public_view s"
  "tk_last t = tk_last (ri_pq_lifecycle s) \<Longrightarrow> public_view (s\<lparr>ri_pq_lifecycle := t\<rparr>) = public_view s"
  "tk_last t = tk_last (ri_flicker s) \<Longrightarrow> public_view (s\<lparr>ri_flicker := t\<rparr>) = public_view s"
  "tk_last t = tk_last (ri_mains_signal s) \<Longrightarrow> public_view (s\<lparr>ri_mains_signal := t\<rparr>) = public_view s"
  by (simp_all add: public_view_def)

lemma assembly_tracks [simp]:
  "assembly_state (s\<lparr>ri_aggregate := t\<rparr>) = assembly_state s"
  "assembly_state (s\<lparr>ri_ten_minute := t\<rparr>) = assembly_state s"
  "assembly_state (s\<lparr>ri_two_hour := t\<rparr>) = assembly_state s"
  "assembly_state (s\<lparr>ri_frequency_10s := t\<rparr>) = assembly_state s"
  "assembly_state (s\<lparr>ri_pq_lifecycle := t\<rparr>) = assembly_state s"
  "assembly_state (s\<lparr>ri_flicker := t\<rparr>) = assembly_state s"
  "assembly_state (s\<lparr>ri_mains_signal := t\<rparr>) = assembly_state s"
  "assembly_state (s\<lparr>ri_meter_data := d\<rparr>) = assembly_state s"
  by (simp_all add: assembly_state_def)

lemmas tracker_defs =
  track_aggregate_continuity_def track_ten_minute_continuity_def track_two_hour_continuity_def
  track_frequency_10s_continuity_def track_basic_continuity_def

lemma track_record_frame [simp]:
  "public_view (fst (track_record env r s)) = public_view s"
  "assembly_state (fst (track_record env r s)) = assembly_state s"
  by (auto simp: track_record_def tracker_defs Let_def tracks_frame track_continuity_last
      split: option.split)

lemma run_callback_frame [simp]:
  "public_view (fst (run_lifecycle_callback P env r event sw)) = public_view (fst sw)"
  "assembly_state (fst (run_lifecycle_callback P env r event sw)) = assembly_state (fst sw)"
  by (auto simp: run_lifecycle_callback_def split: option.split prod.split sum.split)

lemma advance_baseline_frame [simp]: "assembly_state (advance_baseline env r u s) = assembly_state s"
  by (simp add: advance_baseline_def Let_def assembly_state_def)

section \<open>A record of what was committed\<close>

text \<open>
  The same ports, which also write down every group of records the durable stream acknowledged.
\<close>

type_synonym commit_log = "meter_stream_record list list"

definition logged :: "'w ingest_ports \<Rightarrow> ('w \<times> commit_log) ingest_ports" where
  "logged P =
     \<lparr>ip_publish = (\<lambda>(w, log) sr. case ip_publish P w sr of
        (w', Inl e) \<Rightarrow> ((w', log), Inl e) | (w', Inr c) \<Rightarrow> ((w', log @ [[sr]]), Inr c)),
      ip_publish_records = (\<lambda>(w, log) family. case ip_publish_records P w family of
        (w', Inl e) \<Rightarrow> ((w', log), Inl e) | (w', Inr cs) \<Rightarrow> ((w', log @ [family]), Inr cs)),
      ip_authority = map_option (\<lambda>(energy, demand). (\<lambda>(w, log). energy w, \<lambda>(w, log). demand w))
        (ip_authority P),
      ip_lifecycle_callback = map_option (\<lambda>f. \<lambda>(w, log) event. case f w event of
        (w', res) \<Rightarrow> ((w', log), res)) (ip_lifecycle_callback P)\<rparr>"

lemma logged_publish:
  assumes "ip_publish (logged P) (w, log) sr = ((w1, log1), res)"
  shows "case res of Inl e \<Rightarrow> log1 = log \<and> ip_publish P w sr = (w1, Inl e)
    | Inr c \<Rightarrow> log1 = log @ [[sr]] \<and> ip_publish P w sr = (w1, Inr c)"
  using assms by (auto simp: logged_def split: prod.splits sum.splits)

lemma logged_publish_records:
  assumes "ip_publish_records (logged P) (w, log) family = ((w1, log1), res)"
  shows "case res of Inl e \<Rightarrow> log1 = log \<and> ip_publish_records P w family = (w1, Inl e)
    | Inr c \<Rightarrow> log1 = log @ [family] \<and> ip_publish_records P w family = (w1, Inr c)"
  using assms by (auto simp: logged_def split: prod.splits sum.splits)

lemma logged_callback [simp]:
  "snd (snd (run_lifecycle_callback (logged P) env r event (s, w, log))) = log"
  by (auto simp: run_lifecycle_callback_def logged_def split: option.split prod.split sum.split)

text \<open>Ports that do not throw \<^verbatim>\<open>std::logic_error\<close>.\<close>

definition no_logic_error :: "'a result \<Rightarrow> bool" where
  "no_logic_error res \<longleftrightarrow> (\<forall>m. res \<noteq> Inl (Logic_error m))"

definition tame_ports :: "'w ingest_ports \<Rightarrow> bool" where
  "tame_ports P \<longleftrightarrow>
     (\<forall>w sr. no_logic_error (snd (ip_publish P w sr))) \<and>
     (\<forall>w family. no_logic_error (snd (ip_publish_records P w family))) \<and>
     (case ip_authority P of None \<Rightarrow> True
      | Some (energy, demand) \<Rightarrow> \<forall>w. no_logic_error (energy w) \<and> no_logic_error (demand w))"

lemma no_logic_error_simps [simp]:
  "no_logic_error (Inr x)" "no_logic_error (Inl (Invalid_argument m))"
  "no_logic_error (Inl (Runtime_error m))" "no_logic_error (Inl (Conflict m))"
  by (simp_all add: no_logic_error_def)

lemma no_logic_error_Inl: "no_logic_error (Inl e :: 'a result) \<Longrightarrow> no_logic_error (Inl e :: 'b result)"
  by (simp add: no_logic_error_def)

lemma no_logic_error_bind [intro]:
  "no_logic_error x \<Longrightarrow> (\<And>v. no_logic_error (f v)) \<Longrightarrow> no_logic_error (bind_result x f)"
  by (cases x) (auto simp: no_logic_error_def)

lemma tame_publish: "tame_ports P \<Longrightarrow> ip_publish P w sr = (w1, res) \<Longrightarrow> no_logic_error res"
  by (metis snd_conv tame_ports_def)

lemma tame_publish_records:
  "tame_ports P \<Longrightarrow> ip_publish_records P w family = (w1, res) \<Longrightarrow> no_logic_error res"
  by (metis snd_conv tame_ports_def)

lemma tame_authority:
  assumes "tame_ports P"
  shows "no_logic_error (authoritative (map_option fst (ip_authority (logged P))) m wl v)"
    and "no_logic_error (authoritative (map_option snd (ip_authority (logged P))) m wl d)"
  using assms
  by (auto simp: authoritative_def logged_def tame_ports_def no_logic_error_def bind_result_def
      split: option.splits prod.splits sum.splits)

section \<open>Records that are published alone\<close>

text \<open>
  One step of the ingestor: either nothing was committed and nothing is seen to change, or one group
  was committed that satisfies \<open>ok\<close> and has the exact bytes of the record.
\<close>

definition step_effect ::
    "(meter_stream_record list \<Rightarrow> bool) \<Rightarrow> 'w ingest_ports \<Rightarrow> meter_record \<Rightarrow>
     record_ingestor \<Rightarrow> commit_log \<Rightarrow> record_ingestor \<Rightarrow> commit_log \<Rightarrow> unit result \<Rightarrow> bool" where
  "step_effect ok P r s log s' log' res \<longleftrightarrow>
     (log' = log \<and> public_view s' = public_view s \<or>
      (\<exists>g. log' = log @ [g] \<and> record_bytes r \<in> sr_payload ` set g \<and> ok g)) \<and>
     (tame_ports P \<longrightarrow> no_logic_error res)"

lemma step_effect_unseen:
  "public_view s' = public_view s \<Longrightarrow> (tame_ports P \<Longrightarrow> no_logic_error res) \<Longrightarrow>
   step_effect ok P r s log s' log res"
  by (simp add: step_effect_def)

lemma step_effect_commit:
  "record_bytes r \<in> sr_payload ` set g \<Longrightarrow> ok g \<Longrightarrow> (tame_ports P \<Longrightarrow> no_logic_error res) \<Longrightarrow>
   step_effect ok P r s log s' (log @ [g]) res"
  by (simp add: step_effect_def)

definition published_alone :: "meter_record \<Rightarrow> meter_stream_record list \<Rightarrow> bool" where
  "published_alone r g \<longleftrightarrow> (\<exists>sr. g = [sr] \<and> sr_payload sr = record_bytes r)"

lemma stream_record_payload [simp]:
  "sr_payload (stream_record_of r kind period sequence fragment generation received_at p) = record_bytes r"
  "sr_payload (lifecycle_stream_record env r event) = record_bytes r"
  "sr_payload (flicker_stream_record env r flicker) = record_bytes r"
  "sr_payload (mains_stream_record env r mains) = record_bytes r"
  "sr_payload (update_stream_record env r u) = record_bytes r"
  by (simp_all add: stream_record_of_def lifecycle_stream_record_def flicker_stream_record_def
      mains_stream_record_def update_stream_record_def)

lemma commit_alone:
  assumes "sr_payload sr = record_bytes r" and "\<And>g. published_alone r g \<Longrightarrow> ok g"
    and "tame_ports P \<Longrightarrow> no_logic_error res"
  shows "step_effect ok P r s log s' (log @ [[sr]]) res"
  using assms by (intro step_effect_commit) (auto simp: published_alone_def)

lemma accept_lifecycle_effect:
  assumes "accept_lifecycle (logged P) env r (s, w, log) = ((s', w', log'), res)"
    and ok: "\<And>g. published_alone r g \<Longrightarrow> ok g"
  shows "step_effect ok P r s log s' log' res \<and> assembly_state s' = assembly_state s"
proof (cases "decode_pq_event_lifecycle_record r")
  case (Inl e)
  then show ?thesis
    using assms(1) by (auto simp: accept_lifecycle_def intro!: step_effect_unseen)
next
  case (Inr event)
  show ?thesis
  proof (cases "track_private (ri_pq_lifecycle s) (lcs_sequence event)")
    case None
    then show ?thesis
      using assms(1) Inr by (auto simp: accept_lifecycle_def intro!: step_effect_unseen)
  next
    case (Some t)
    obtain w1 log1 pub where pub:
        "ip_publish (logged P) (w, log) (lifecycle_stream_record env r event) = ((w1, log1), pub)"
      by (metis prod.exhaust)
    note log1 = logged_publish [OF this]
    show ?thesis
    proof (cases pub)
      case (Inl e)
      then have "step_effect ok P r s log (s\<lparr>ri_pq_lifecycle := t\<rparr>) log (Inl e)"
        using log1 Some
        by (intro step_effect_unseen)
          (auto simp: tracks_frame track_private_last intro: no_logic_error_Inl dest: tame_publish)
      then show ?thesis
        using assms(1) Inr Some pub Inl log1 by (auto simp: accept_lifecycle_def Let_def)
    next
      case (Inr c)
      obtain called w2 log2 where call:
          "run_lifecycle_callback (logged P) env r event (s\<lparr>ri_pq_lifecycle := t\<rparr>, w1, log1) =
            (called, w2, log2)"
        by (metis prod.exhaust)
      have "log2 = log @ [[lifecycle_stream_record env r event]]"
        using logged_callback [of P env r event "s\<lparr>ri_pq_lifecycle := t\<rparr>" w1 log1] call log1 Inr by simp
      moreover have "assembly_state called = assembly_state s"
        using run_callback_frame(2) [of "logged P" env r event "(s\<lparr>ri_pq_lifecycle := t\<rparr>, w1, log1)"] call
        by simp
      ultimately show ?thesis
        using assms(1) \<open>decode_pq_event_lifecycle_record r = Inr event\<close> Some pub Inr call
        by (auto simp: accept_lifecycle_def Let_def assembly_state_def intro!: commit_alone ok)
    qed
  qed
qed

text \<open>The shape of the other private streams: publish, then either fail or update the latest slot.\<close>

lemma publish_alone_effect:
  assumes "(case ip_publish (logged P) (w, log) sr of (w1, Inl e) \<Rightarrow> ((s1, w1), Inl e)
      | (w1, Inr c) \<Rightarrow> ((s2, w1), Inr ())) = ((s', w', log'), res)"
    and "sr_payload sr = record_bytes r" and "\<And>g. published_alone r g \<Longrightarrow> ok g"
    and "public_view s1 = public_view s"
    and "assembly_state s1 = assembly_state s" "assembly_state s2 = assembly_state s"
  shows "step_effect ok P r s log s' log' res \<and> assembly_state s' = assembly_state s"
proof -
  obtain w1 log1 pub where pub: "ip_publish (logged P) (w, log) sr = ((w1, log1), pub)"
    by (metis prod.exhaust)
  note log1 = logged_publish [OF this]
  show ?thesis
  proof (cases pub)
    case (Inl e)
    then have "step_effect ok P r s log s1 log (Inl e)"
      using log1 assms(4)
      by (intro step_effect_unseen) (auto intro: no_logic_error_Inl dest: tame_publish)
    then show ?thesis
      using assms(1,5) pub Inl log1 by auto
  next
    case (Inr c)
    then show ?thesis
      using assms pub log1 by (auto intro!: commit_alone)
  qed
qed

lemma accept_flicker_effect:
  assumes "accept_flicker (logged P) env r (s, w, log) = ((s', w', log'), res)"
    and ok: "\<And>g. published_alone r g \<Longrightarrow> ok g"
  shows "step_effect ok P r s log s' log' res \<and> assembly_state s' = assembly_state s"
proof (cases "decode_flicker_record r")
  case (Inl e)
  then show ?thesis
    using assms(1) by (auto simp: accept_flicker_def intro!: step_effect_unseen)
next
  case (Inr flicker)
  show ?thesis
  proof (cases "track_private (ri_flicker s) (fl_sequence flicker)")
    case None
    then show ?thesis
      using assms(1) Inr by (auto simp: accept_flicker_def intro!: step_effect_unseen)
  next
    case (Some t)
    note eq = assms(1) [unfolded accept_flicker_def prod.case Inr sum.case Some option.case]
    show ?thesis
      by (rule publish_alone_effect [OF eq])
        (use Some in \<open>auto simp: tracks_frame track_private_last assembly_state_def intro: ok\<close>)
  qed
qed

lemma accept_mains_effect:
  assumes "accept_mains_signal (logged P) env r (s, w, log) = ((s', w', log'), res)"
    and ok: "\<And>g. published_alone r g \<Longrightarrow> ok g"
  shows "step_effect ok P r s log s' log' res \<and> assembly_state s' = assembly_state s"
proof (cases "decode_mains_signal_record r")
  case (Inl e)
  then show ?thesis
    using assms(1) by (auto simp: accept_mains_signal_def intro!: step_effect_unseen)
next
  case (Inr mains)
  show ?thesis
  proof (cases "track_private (ri_mains_signal s) (ms_sequence mains)")
    case None
    then show ?thesis
      using assms(1) Inr by (auto simp: accept_mains_signal_def intro!: step_effect_unseen)
  next
    case (Some t)
    note eq = assms(1) [unfolded accept_mains_signal_def prod.case Inr sum.case Some option.case]
    show ?thesis
      by (rule publish_alone_effect [OF eq])
        (use Some in \<open>auto simp: tracks_frame track_private_last assembly_state_def intro: ok\<close>)
  qed
qed

lemma accept_update_effect:
  assumes "accept_update (logged P) env r u (s, w, log) = ((s', w', log'), res)"
    and ok: "\<And>g. published_alone r g \<Longrightarrow> ok g"
  shows "step_effect ok P r s log s' log' res \<and> assembly_state s' = assembly_state s"
proof -
  obtain w1 log1 pub where pub:
      "ip_publish (logged P) (w, log) (update_stream_record env r u) = ((w1, log1), pub)"
    by (metis prod.exhaust)
  note log1 = logged_publish [OF this]
  show ?thesis
  proof (cases pub)
    case (Inl e)
    then have tame: "tame_ports P \<Longrightarrow> no_logic_error (Inl e :: unit result)"
      using log1 by (auto intro: no_logic_error_Inl dest: tame_publish)
    show ?thesis
      using assms(1) pub Inl log1 tame
      by (cases e; cases "mu_demand u") (auto simp: accept_update_def intro!: step_effect_unseen)
  next
    case (Inr c)
    let ?final = "case mu_demand u of None \<Rightarrow> Inr u
      | Some d \<Rightarrow> bind_result (authoritative (map_option snd (ip_authority (logged P)))
          ''meter-stream acknowledged DEMAND without a durable snapshot'' (w1, log1) d)
          (\<lambda>v. Inr (u\<lparr>mu_demand := Some v\<rparr>))"
    have tame: "no_logic_error ?final" if "tame_ports P"
      using tame_authority(2) [OF that] by (cases "mu_demand u") auto
    show ?thesis
    proof (cases ?final)
      case (Inl e)
      then have "s' = s" "log' = log1" "res = Inl e"
        using assms(1) pub \<open>pub = Inr c\<close> by (auto simp: accept_update_def)
      moreover have "no_logic_error (Inl e :: unit result)" if "tame_ports P"
        using tame [OF that] unfolding Inl by (rule no_logic_error_Inl)
      ultimately show ?thesis
        using log1 \<open>pub = Inr c\<close> by (simp add: commit_alone ok)
    next
      case (Inr v)
      then have "log' = log1" "res = Inr ()" "assembly_state s' = assembly_state s"
        using assms(1) pub \<open>pub = Inr c\<close> by (auto simp: accept_update_def)
      then show ?thesis
        using log1 \<open>pub = Inr c\<close> by (simp add: commit_alone ok)
    qed
  qed
qed

lemma accept_decoded_effect:
  assumes "accept_decoded (logged P) env r (s, w, log) = ((s', w', log'), res)"
    and ok: "\<And>g. published_alone r g \<Longrightarrow> ok g"
  shows "step_effect ok P r s log s' log' res \<and> assembly_state s' = assembly_state s"
proof -
  obtain tracked continuous where track: "track_record env r s = (tracked, continuous)"
    by fastforce
  have frame: "public_view tracked = public_view s" "assembly_state tracked = assembly_state s"
    using track_record_frame [of env r s] track by simp_all
  show ?thesis
  proof (cases "\<not> continuous \<or> (\<exists>e. registry_decode builtin_decoders r (ie_received_at env) = Inl e)")
    case True
    then show ?thesis
      using assms(1) track frame
      by (auto simp: accept_decoded_def split: if_splits intro!: step_effect_unseen)
  next
    case False
    then obtain u where "registry_decode builtin_decoders r (ie_received_at env) = Inr u"
      by (cases "registry_decode builtin_decoders r (ie_received_at env)") auto
    then have "accept_update (logged P) env r (stamp_update env r u) (tracked, w, log) = ((s', w', log'), res)"
      using assms(1) track False by (simp add: accept_decoded_def)
    from accept_update_effect [OF this ok] show ?thesis
      by (auto simp: step_effect_def frame)
  qed
qed

section \<open>Harmonic families\<close>

text \<open>
  \<open>R\<close> is the set of records received so far. A slot of the publication buffer holds the stream record of
  the received chunk that belongs there, exactly when the assembler has that chunk.
\<close>

definition chunk_slot ::
    "meter_record set \<Rightarrow> harmonic_family \<Rightarrow> nat \<Rightarrow> meter_stream_record \<Rightarrow> bool" where
  "chunk_slot R f k sr \<longleftrightarrow>
     (\<exists>r \<in> R. \<exists>c env. decode_harmonic_record r = Inr c \<and> hc_family c = f \<and> chunk_index c = k \<and>
        sr = harmonic_stream_record env r c)"

definition slot_filled ::
    "meter_record set \<Rightarrow> harmonic_family \<Rightarrow> nat \<Rightarrow> meter_stream_record option \<Rightarrow> bool \<Rightarrow> bool" where
  "slot_filled R f k slot received \<longleftrightarrow>
     (case slot of None \<Rightarrow> \<not> received | Some sr \<Rightarrow> received \<and> chunk_slot R f k sr)"

definition buffer_matches ::
    "meter_record set \<Rightarrow> partial_family \<Rightarrow> pending_harmonic_family \<Rightarrow> bool" where
  "buffer_matches R p q \<longleftrightarrow>
     phf_sequence q = partial_sequence p \<and> phf_count q = pf_received_count p \<and>
     length (phf_records q) = 42 \<and> length (pf_received p) = 42 \<and>
     (\<forall>k < 42. slot_filled R (hss_family (pf_snapshot p)) k (phf_records q ! k) (pf_received p ! k))"

definition harmonic_sync :: "meter_record set \<Rightarrow> harmonic_period_state \<Rightarrow> bool" where
  "harmonic_sync R x \<longleftrightarrow>
     assembler_holds (received_chunks R) (hx_assembler x) \<and>
     (case ha_partial (hx_assembler x) of
        Some p \<Rightarrow> \<exists>q. hx_pending x = Some q \<and> buffer_matches R p q
      | None \<Rightarrow> (case hx_pending x of None \<Rightarrow> True
          | Some q \<Rightarrow> ha_last_completed_sequence (hx_assembler x) = Some (phf_sequence q)))"

definition harmonic_group :: "meter_record set \<Rightarrow> meter_stream_record list \<Rightarrow> bool" where
  "harmonic_group R g \<longleftrightarrow> length g = 42 \<and> (\<exists>f. \<forall>k < 42. chunk_slot R f k (g ! k))"

lemma chunk_slot_mono: "chunk_slot R f k sr \<Longrightarrow> R \<subseteq> Q \<Longrightarrow> chunk_slot Q f k sr"
  by (auto simp: chunk_slot_def)

lemma received_chunks_mono: "R \<subseteq> Q \<Longrightarrow> received_chunks R \<subseteq> received_chunks Q"
  by (auto simp: received_chunks_def)

lemma slot_filled_mono: "slot_filled R f k slot b \<Longrightarrow> R \<subseteq> Q \<Longrightarrow> slot_filled Q f k slot b"
  by (cases slot) (auto simp: slot_filled_def intro: chunk_slot_mono)

lemma buffer_matches_mono: "buffer_matches R p q \<Longrightarrow> R \<subseteq> Q \<Longrightarrow> buffer_matches Q p q"
  by (auto simp: buffer_matches_def intro: slot_filled_mono)

lemma harmonic_sync_mono:
  assumes "harmonic_sync R x" and "R \<subseteq> Q"
  shows "harmonic_sync Q x"
proof -
  have "assembler_holds (received_chunks R) (hx_assembler x)"
    using assms(1) by (simp add: harmonic_sync_def)
  then have "assembler_holds (received_chunks Q) (hx_assembler x)"
    by (rule assembler_holds_mono) (rule received_chunks_mono [OF assms(2)])
  then show ?thesis
    using assms buffer_matches_mono [OF _ assms(2)]
    by (cases "ha_partial (hx_assembler x)") (auto simp: harmonic_sync_def)
qed

lemma fresh_buffer:
  "buffer_matches R
     \<lparr>pf_snapshot = snapshot_from c, pf_received = replicate 42 False, pf_received_count = 0\<rparr>
     \<lparr>phf_sequence = chunk_sequence c, phf_records = replicate 42 None, phf_count = 0\<rparr>"
  by (simp add: buffer_matches_def snapshot_from_def slot_filled_def)

lemma begin_family_buffer:
  assumes "harmonic_sync R x" and "begin_family (hx_assembler x) c = Inr (p, k)"
  shows "buffer_matches R p (pending_family_for (hx_pending x) (chunk_sequence c))"
proof (cases "ha_partial (hx_assembler x)")
  case None
  then have p: "p = \<lparr>pf_snapshot = snapshot_from c, pf_received = replicate 42 False, pf_received_count = 0\<rparr>"
    and forward: "\<And>n. ha_last_completed_sequence (hx_assembler x) = Some n \<Longrightarrow> chunk_sequence c \<noteq> n"
    using assms(2) by (auto simp: begin_family_def Let_def forward_of_def split: option.splits if_splits)
  have "pending_family_for (hx_pending x) (chunk_sequence c) =
      \<lparr>phf_sequence = chunk_sequence c, phf_records = replicate 42 None, phf_count = 0\<rparr>"
    using assms(1) None forward
    by (auto simp: harmonic_sync_def pending_family_for_def Let_def split: option.splits)
  then show ?thesis
    unfolding p by (simp only: fresh_buffer)
next
  case (Some p0)
  then obtain q where q: "hx_pending x = Some q" "buffer_matches R p0 q"
    using assms(1) by (auto simp: harmonic_sync_def)
  show ?thesis
  proof (cases "chunk_sequence c = partial_sequence p0")
    case True
    then have "p = p0"
      using assms(2) Some by (simp add: begin_family_def Let_def)
    moreover have "pending_family_for (hx_pending x) (chunk_sequence c) = q"
      using True q by (simp add: pending_family_for_def Let_def buffer_matches_def)
    ultimately show ?thesis
      using q(2) by simp
  next
    case False
    then have "p = \<lparr>pf_snapshot = snapshot_from c, pf_received = replicate 42 False, pf_received_count = 0\<rparr>"
      using assms(2) Some by (simp add: begin_family_def Let_def split: if_splits)
    moreover have "pending_family_for (hx_pending x) (chunk_sequence c) =
        \<lparr>phf_sequence = chunk_sequence c, phf_records = replicate 42 None, phf_count = 0\<rparr>"
      using False q by (simp add: pending_family_for_def Let_def buffer_matches_def)
    ultimately show ?thesis
      by (simp only: fresh_buffer)
  qed
qed

definition fill_buffer ::
    "ingest_env \<Rightarrow> meter_record \<Rightarrow> harmonic_record_chunk \<Rightarrow> pending_harmonic_family \<Rightarrow>
     pending_harmonic_family" where
  "fill_buffer env r c q = q\<lparr>phf_records := (phf_records q)
     [chunk_index c := Some (harmonic_stream_record env r c)], phf_count := phf_count q + 1\<rparr>"

lemma fill_buffer_matches:
  assumes "buffer_matches R p q" and "r \<in> R" and "decode_harmonic_record r = Inr c"
    and "hss_family (pf_snapshot p) = hc_family c"
  shows "buffer_matches R (add_chunk p c) (fill_buffer env r c q)"
proof -
  have "chunk_slot R (hc_family c) (chunk_index c) (harmonic_stream_record env r c)"
    using assms(2,3) by (auto simp: chunk_slot_def)
  moreover have "chunk_index c < 42"
    by (rule wf_chunk_bounds(3) [OF decoded_wf [OF assms(3)]])
  ultimately show ?thesis
    using assms(1,4)
    by (auto simp: buffer_matches_def fill_buffer_def add_chunk_def slot_filled_def nth_list_update)
qed

lemma family_holds_full:
  assumes "family_holds p K" and "pf_received_count p = 42" and "k < 42"
  shows "pf_received p ! k"
proof -
  have fin: "finite K" and inj: "inj_on chunk_index K" and card: "card K = 42"
    and wf: "\<And>c. c \<in> K \<Longrightarrow> wf_chunk c" and recv: "\<And>i. i < 42 \<Longrightarrow> pf_received p ! i \<longleftrightarrow> i \<in> chunk_index ` K"
    using assms(1,2) by (auto simp: family_holds_def)
  have "chunk_index ` K \<subseteq> {..<42}"
    using wf wf_chunk_bounds(3) by auto
  then have "chunk_index ` K = {..<42}"
    by (intro card_subset_eq) (simp_all add: card_image [OF inj] card)
  then show ?thesis
    using recv assms(3) by simp
qed

lemma full_buffer:
  assumes "family_holds p K" and "pf_received_count p = 42" and "buffer_matches R p q"
  shows "None \<notin> set (phf_records q) \<and> harmonic_group R (map the (phf_records q)) \<and> phf_count q = 42"
proof -
  have "\<exists>sr. phf_records q ! k = Some sr \<and> chunk_slot R (hss_family (pf_snapshot p)) k sr" if "k < 42" for k
    using assms(3) family_holds_full [OF assms(1,2) that] that
    by (auto simp: buffer_matches_def slot_filled_def split: option.splits)
  moreover have "length (phf_records q) = 42"
    using assms(3) by (simp add: buffer_matches_def)
  ultimately show ?thesis
    using assms(2,3)
    by (auto simp: harmonic_group_def in_set_conv_nth buffer_matches_def)
       (metis option.sel)+
qed

lemma assembly_state_fields:
  assumes "assembly_state t = assembly_state s"
  shows "ri_harmonics t = ri_harmonics s" "ri_energy_assembler t = ri_energy_assembler s"
    "ri_pending_energy_family t = ri_pending_energy_family s"
  using assms by (simp_all add: assembly_state_def)

lemmas rejected_fields [simp] =
  assembly_state_fields [OF reject_frame(2)] assembly_state_fields [OF note_invalid_frame(2)]
  assembly_state_fields [OF log_rejected_frame(2)]

text \<open>
  Publishing a full buffer: it fails before the commit and nothing is seen to change, or the group of
  all its records is committed. The assembler is not touched and a buffer that stays keeps its sequence.
\<close>

lemma publish_harmonic_effect:
  assumes pub: "publish_harmonic_family (logged P) i q spectrum (s, w, log) = ((s', w', log'), res)"
    and full: "phf_count q = 42" "None \<notin> set (phf_records q)"
  shows "(log' = log \<and> public_view s' = public_view s \<or> log' = log @ [map the (phf_records q)]) \<and>
    (tame_ports P \<longrightarrow> no_logic_error res) \<and>
    (\<exists>y. ri_harmonics s' = (ri_harmonics s)(i := y) \<and> hx_assembler y = hx_assembler (ri_harmonics s i) \<and>
      (hx_pending y = None \<or> (\<exists>q'. hx_pending y = Some q' \<and> phf_sequence q' = phf_sequence q))) \<and>
    ri_energy_assembler s' = ri_energy_assembler s \<and>
    ri_pending_energy_family s' = ri_pending_energy_family s"
proof -
  obtain w1 log1 out where out:
      "ip_publish_records (logged P) (w, log) (map the (phf_records q)) = ((w1, log1), out)"
    by (metis prod.exhaust)
  note log1 = logged_publish_records [OF this]
  show ?thesis
  proof (cases out)
    case (Inl e)
    then have "tame_ports P \<longrightarrow> no_logic_error (Inl e :: unit result)"
      using log1 by (auto intro: no_logic_error_Inl dest: tame_publish_records)
    then show ?thesis
      using pub full out Inl log1
      by (auto simp: publish_harmonic_family_def Let_def public_view_def fun_eq_iff)
  next
    case (Inr cursors)
    then show ?thesis
      using pub full out log1
      by (auto simp: publish_harmonic_family_def Let_def split: if_splits)
  qed
qed

lemma accept_harmonic_chunk:
  assumes "harmonic_accept (hx_assembler x) c = (a, Inr u)" and sync: "harmonic_sync R x"
    and r: "r \<in> R" "decode_harmonic_record r = Inr c"
  defines "q \<equiv> pending_family_for (hx_pending x) (chunk_sequence c)"
  shows "phf_records q ! chunk_index c = None"
    and "phf_sequence (fill_buffer env r c q) = chunk_sequence c"
    and "assembler_holds (received_chunks R) a"
    and "hu_completed u = None \<Longrightarrow>
      \<exists>p. ha_partial a = Some p \<and> buffer_matches R p (fill_buffer env r c q)"
    and "hu_completed u = Some spectrum \<Longrightarrow>
      ha_partial a = None \<and> ha_last_completed_sequence a = Some (chunk_sequence c) \<and>
      None \<notin> set (phf_records (fill_buffer env r c q)) \<and>
      harmonic_group R (map the (phf_records (fill_buffer env r c q))) \<and>
      phf_count (fill_buffer env r c q) = 42"
proof -
  have wf: "wf_chunk c" and cR: "c \<in> received_chunks R"
    using r by (auto simp: received_chunks_def decoded_wf)
  have holds: "assembler_holds (received_chunks R) (hx_assembler x)"
    using sync by (simp add: harmonic_sync_def)
  obtain p where p: "begin_family (hx_assembler x) c = Inr (p, hu_incomplete_families u)"
    "hss_family (pf_snapshot p) = hc_family c" "\<not> pf_received p ! chunk_index c"
    "if pf_received_count p + 1 = 42
     then a = \<lparr>ha_partial = None, ha_last_completed_sequence = Some (chunk_sequence c)\<rparr> \<and>
          hu_completed u = Some (pf_snapshot (add_chunk p c))
     else a = (hx_assembler x)\<lparr>ha_partial := Some (add_chunk p c)\<rparr> \<and> hu_completed u = None"
    using assms(1) by (auto simp: harmonic_accept_Inr)
  obtain K where K: "family_holds p K"
    using begin_family_holds [OF p(1) holds] by blast
  have add: "family_holds (add_chunk p c) (insert c K)"
    by (rule family_holds_add [OF K wf]) (simp_all add: p)
  have q: "buffer_matches R p q"
    unfolding q_def by (rule begin_family_buffer [OF sync p(1)])
  have filled: "buffer_matches R (add_chunk p c) (fill_buffer env r c q)"
    by (rule fill_buffer_matches [OF q r p(2)])
  have idx: "chunk_index c < 42"
    by (rule wf_chunk_bounds(3) [OF wf])
  have "slot_filled R (hss_family (pf_snapshot p)) (chunk_index c) (phf_records q ! chunk_index c)
      (pf_received p ! chunk_index c)"
    using q idx by (simp add: buffer_matches_def)
  then show "phf_records q ! chunk_index c = None"
    using p(3) by (cases "phf_records q ! chunk_index c") (simp_all add: slot_filled_def)
  show "phf_sequence (fill_buffer env r c q) = chunk_sequence c"
    using q p(2) by (simp add: fill_buffer_def buffer_matches_def)
  show "assembler_holds (received_chunks R) a"
    by (rule harmonic_accept_holds(1) [OF assms(1) holds wf cR])
  show "\<exists>p. ha_partial a = Some p \<and> buffer_matches R p (fill_buffer env r c q)" if "hu_completed u = None"
    using that p(4) filled by (auto split: if_splits)
  show "ha_partial a = None \<and> ha_last_completed_sequence a = Some (chunk_sequence c) \<and>
      None \<notin> set (phf_records (fill_buffer env r c q)) \<and>
      harmonic_group R (map the (phf_records (fill_buffer env r c q))) \<and>
      phf_count (fill_buffer env r c q) = 42" if "hu_completed u = Some spectrum"
  proof -
    have n: "pf_received_count p + 1 = 42"
      using that p(4) by (auto split: if_splits)
    then have "pf_received_count (add_chunk p c) = 42"
      by (simp add: add_chunk_def)
    from full_buffer [OF add this filled] show ?thesis
      using p(4) n by simp
  qed
qed

text \<open>The branch for harmonic records, in the terms of the lemmas above.\<close>

definition counted_harmonic ::
    "nat \<Rightarrow> harmonic_family_assembler \<Rightarrow> pending_harmonic_family \<Rightarrow> harmonic_assembly_update \<Rightarrow>
     record_ingestor \<Rightarrow> record_ingestor" where
  "counted_harmonic i a q u s = s
     \<lparr>ri_harmonics := (ri_harmonics s)(i := (ri_harmonics s i)
        \<lparr>hx_assembler := a, hx_pending := Some q, hx_records := hx_records (ri_harmonics s i) + 1,
         hx_incomplete_families := hx_incomplete_families (ri_harmonics s i) +
           ucast (hu_incomplete_families u)\<rparr>),
      ri_harmonic_records := ri_harmonic_records s + 1,
      ri_incomplete_harmonic_families := ri_incomplete_harmonic_families s +
        ucast (hu_incomplete_families u)\<rparr>"

lemma counted_harmonic_frame [simp]:
  "public_view (counted_harmonic i a q u s) = public_view s"
  "ri_energy_assembler (counted_harmonic i a q u s) = ri_energy_assembler s"
  "ri_pending_energy_family (counted_harmonic i a q u s) = ri_pending_energy_family s"
  by (auto simp: counted_harmonic_def public_view_def)

lemma accept_harmonic_cases:
  assumes "decode_harmonic_record r = Inr c" and "harmonic_period_index (hf_period (hc_family c)) = Inr i"
    and "harmonic_accept (hx_assembler (ri_harmonics s i)) c = (a, Inr u)"
    and "phf_records (pending_family_for (hx_pending (ri_harmonics s i)) (chunk_sequence c)) ! chunk_index c = None"
  shows "accept_harmonic P env r (s, w) =
    (let q = fill_buffer env r c (pending_family_for (hx_pending (ri_harmonics s i)) (chunk_sequence c)) in
     case hu_completed u of
       None \<Rightarrow> (((counted_harmonic i a q u s)\<lparr>ri_meter_records := ri_meter_records s + 1\<rparr>, w), Inr ())
     | Some spectrum \<Rightarrow>
         (case publish_harmonic_family P i q spectrum (counted_harmonic i a q u s, w) of
            ((t, w1), Inl e) \<Rightarrow> ((t, w1), Inl e)
          | ((t, w1), Inr _) \<Rightarrow> ((t\<lparr>ri_meter_records := ri_meter_records s + 1\<rparr>, w1), Inr ())))"
  using assms
  by (cases "hu_completed u") (simp_all add: accept_harmonic_def Let_def counted_harmonic_def fill_buffer_def)

definition all_synced :: "meter_record set \<Rightarrow> record_ingestor \<Rightarrow> bool" where
  "all_synced R s \<longleftrightarrow> (\<forall>i. harmonic_sync R (ri_harmonics s i))"

lemma accept_harmonic_effect:
  assumes acc: "accept_harmonic (logged P) env r (s, w, log) = ((s', w', log'), res)"
    and sync: "all_synced R s" and r: "r \<in> R" and ok: "\<And>g. harmonic_group R g \<Longrightarrow> ok g"
  shows "step_effect ok P r s log s' log' res \<and> all_synced R s' \<and>
    ri_energy_assembler s' = ri_energy_assembler s \<and>
    ri_pending_energy_family s' = ri_pending_energy_family s"
proof (cases "\<exists>c i. decode_harmonic_record r = Inr c \<and>
    harmonic_period_index (hf_period (hc_family c)) = Inr i")
  case False
  obtain e where "bind_result (decode_harmonic_record r) (\<lambda>c.
      bind_result (harmonic_period_index (hf_period (hc_family c))) (\<lambda>i. Inr (c, i))) = Inl e"
    using False by (cases "decode_harmonic_record r";
        cases "harmonic_period_index (hf_period (hc_family (projr (decode_harmonic_record r))))") auto
  then show ?thesis
    using acc sync by (auto simp: accept_harmonic_def all_synced_def intro!: step_effect_unseen)
next
  case True
  then obtain c i where c: "decode_harmonic_record r = Inr c"
    "harmonic_period_index (hf_period (hc_family c)) = Inr i"
    by blast
  let ?x = "ri_harmonics s i"
  have x: "harmonic_sync R ?x"
    using sync by (simp add: all_synced_def)
  obtain a out where accept: "harmonic_accept (hx_assembler ?x) c = (a, out)"
    by fastforce
  show ?thesis
  proof (cases out)
    case (Inl e)
    then have "a = hx_assembler ?x"
      using accept by (auto dest: harmonic_accept_Inl)
    then have "s\<lparr>ri_harmonics := (ri_harmonics s)(i := ?x\<lparr>hx_assembler := a\<rparr>)\<rparr> = s"
      by simp
    then show ?thesis
      using acc c accept Inl sync
      by (auto simp: accept_harmonic_def Let_def all_synced_def intro!: step_effect_unseen)
  next
    case (Inr u)
    let ?q = "fill_buffer env r c (pending_family_for (hx_pending ?x) (chunk_sequence c))"
    let ?s = "counted_harmonic i a ?q u s"
    note chunk = accept_harmonic_chunk [OF accept [unfolded Inr] x r c(1)]
    note eq = acc [unfolded accept_harmonic_cases [OF c accept [unfolded Inr] chunk(1)] Let_def]
    have others: "harmonic_sync R (ri_harmonics s j)" for j
      using sync by (simp add: all_synced_def)
    have updated: "all_synced R t"
      if "ri_harmonics t = (ri_harmonics ?s)(i := y)" "hx_assembler y = a"
        "hx_pending y = Some q' \<and> (ha_partial a = None \<longrightarrow> ha_last_completed_sequence a = Some (phf_sequence q')) \<and>
          (\<forall>p. ha_partial a = Some p \<longrightarrow> buffer_matches R p q') \<or> hx_pending y = None \<and> ha_partial a = None"
      for t y q'
      using that others chunk(3)
      by (auto simp: all_synced_def counted_harmonic_def harmonic_sync_def split: option.split)
    show ?thesis
    proof (cases "hu_completed u")
      case None
      then have s': "s' = ?s\<lparr>ri_meter_records := ri_meter_records s + 1\<rparr>" "log' = log" "res = Inr ()"
        using eq by auto
      have "all_synced R s'"
        using chunk(4) [OF None] s'(1)
        by (intro updated [of _ "ri_harmonics ?s i" ?q]) (auto simp: counted_harmonic_def)
      then show ?thesis
        using s' by (auto intro!: step_effect_unseen)
    next
      case (Some spectrum)
      note full = chunk(5) [OF Some]
      obtain t w1 log1 pub where pub:
          "publish_harmonic_family (logged P) i ?q spectrum (?s, w, log) = ((t, w1, log1), pub)"
        by (metis prod.exhaust)
      have s': "public_view s' = public_view t" "log' = log1" "res = pub"
          "assembly_state s' = assembly_state t"
        using eq Some pub by (auto split: sum.splits)
      from publish_harmonic_effect [OF pub] full obtain y where
        y: "ri_harmonics t = (ri_harmonics ?s)(i := y)" "hx_assembler y = hx_assembler (ri_harmonics ?s i)"
          "hx_pending y = None \<or> (\<exists>q'. hx_pending y = Some q' \<and> phf_sequence q' = phf_sequence ?q)"
        and log1: "log1 = log \<and> public_view t = public_view ?s \<or> log1 = log @ [map the (phf_records ?q)]"
        and tame: "tame_ports P \<longrightarrow> no_logic_error pub"
        and energy: "ri_energy_assembler t = ri_energy_assembler ?s"
          "ri_pending_energy_family t = ri_pending_energy_family ?s"
        by blast
      have "all_synced R t"
        using y full chunk(2) by (intro updated [of t y "the (hx_pending y)"]) (auto simp: counted_harmonic_def)
      then have synced: "all_synced R s'"
        by (simp add: all_synced_def assembly_state_fields(1) [OF s'(4)])
      have "phf_records ?q ! chunk_index c = Some (harmonic_stream_record env r c)"
        "chunk_index c < length (phf_records ?q)"
      proof -
        have "chunk_index c < 42"
          by (rule wf_chunk_bounds(3) [OF decoded_wf [OF c(1)]])
        moreover have "length (phf_records ?q) = 42"
          using full by (simp add: harmonic_group_def)
        ultimately show "phf_records ?q ! chunk_index c = Some (harmonic_stream_record env r c)"
          "chunk_index c < length (phf_records ?q)"
          by (simp_all add: fill_buffer_def)
      qed
      then have "harmonic_stream_record env r c \<in> set (map the (phf_records ?q))"
        by (metis length_map nth_map nth_mem option.sel)
      then have "record_bytes r \<in> sr_payload ` set (map the (phf_records ?q))"
        by (rule image_eqI [rotated]) (simp add: harmonic_stream_record_def Let_def)
      then have "step_effect ok P r s log s' log' res"
        using log1 tame s' full ok by (auto intro!: step_effect_unseen step_effect_commit)
      then show ?thesis
        using synced energy s'(4) by (simp add: assembly_state_def)
    qed
  qed
qed

section \<open>Energy families\<close>

text \<open>
  The two slots of the publication buffer hold the stream records of the two parts the assembler
  holds. A buffer whose publication failed holds two records without payload.
\<close>

definition part_matches :: "meter_stream_record option \<Rightarrow> meter_record option \<Rightarrow> bool" where
  "part_matches slot part \<longleftrightarrow>
     (case part of None \<Rightarrow> slot = None
      | Some r \<Rightarrow> \<exists>env. slot = Some (energy_stream_record env r (energy_identity r)))"

lemma part_matches_simps [simp]:
  "part_matches slot None \<longleftrightarrow> slot = None" "\<not> part_matches None (Some r)"
  "part_matches (Some (energy_stream_record env r (energy_identity r))) (Some r)"
  by (auto simp: part_matches_def)

definition energy_buffered :: "energy_family_assembler \<Rightarrow> pending_energy_family \<Rightarrow> bool" where
  "energy_buffered a q \<longleftrightarrow>
     identity a = Some (pef_identity q) \<and> pef_count q = pending_parts a \<and>
     (\<exists>x y. pef_records q = [x, y] \<and> part_matches x (summary_part a) \<and>
        part_matches y (quadrants_part a))"

definition energy_spent :: "pending_energy_family \<Rightarrow> bool" where
  "energy_spent q \<longleftrightarrow>
     (\<exists>x y. pef_records q = [Some x, Some y] \<and> sr_payload x = [] \<and> sr_payload y = [])"

definition energy_sync ::
    "meter_record set \<Rightarrow> energy_family_assembler \<Rightarrow> pending_energy_family option \<Rightarrow> bool" where
  "energy_sync R a pending \<longleftrightarrow>
     (\<exists>received. set received \<subseteq> R \<and> assembler_inv (a, received)) \<and>
     (if identity a = None
      then summary_part a = None \<and> quadrants_part a = None \<and> (\<forall>q. pending = Some q \<longrightarrow> energy_spent q)
      else \<exists>q. pending = Some q \<and> energy_buffered a q)"

definition energy_group :: "meter_record set \<Rightarrow> meter_stream_record list \<Rightarrow> bool" where
  "energy_group R g \<longleftrightarrow>
     (\<exists>s q x y. s \<in> R \<and> q \<in> R \<and> family_pair s q \<and> g = [x, y] \<and>
        sr_payload x = record_bytes s \<and> sr_source_fragment x = 0 \<and>
        sr_payload y = record_bytes q \<and> sr_source_fragment y = 1 \<and>
        sr_source_sequence x = ucast (rec_sequence s) \<and> sr_source_sequence y = ucast (rec_sequence s))"

lemma energy_sync_reset:
  assumes "\<And>q. pending = Some q \<Longrightarrow> energy_spent q"
  shows "energy_sync R assembler_reset pending"
proof -
  have "set [] \<subseteq> R \<and> assembler_inv (assembler_reset, [])"
    by simp
  then show ?thesis
    using assms unfolding energy_sync_def by (intro conjI exI) (simp_all add: assembler_reset_def)
qed

lemma energy_sync_mono: "energy_sync R a q \<Longrightarrow> R \<subseteq> Q \<Longrightarrow> energy_sync Q a q"
  unfolding energy_sync_def by blast

lemma energy_group_mono: "energy_group R g \<Longrightarrow> R \<subseteq> Q \<Longrightarrow> energy_group Q g"
  unfolding energy_group_def by blast

lemma record_bytes_nonempty: "header_valid r \<Longrightarrow> record_bytes r \<noteq> []"
  by (cases "words r")
    (auto simp: header_valid_def w32_def rec_word_def record_bytes_def le_bytes_def upt_rec)

lemma adopted_buffer:
  assumes sync: "energy_sync R a pending" and r: "record_bytes r \<noteq> []" "part_valid r"
    and adopt: "adopt_identity a ident = (a1, n)"
    and buffer: "buffer_energy_part env r ident (pending_energy_for pending ident) = Inr b"
  shows "energy_buffered a1 (pending_energy_for pending ident) \<and>
    pef_identity (pending_energy_for pending ident) = ident"
proof (cases "identity a")
  case None
  then have a: "summary_part a = None" "quadrants_part a = None"
    and spent: "\<And>q. pending = Some q \<Longrightarrow> energy_spent q"
    using sync by (auto simp: energy_sync_def)
  have "unat (energy_part r) \<in> {0, 1}"
    using part_kind [OF r(2)] by auto
  then have "pef_identity q \<noteq> ident" if "pending = Some q" for q
    using spent [OF that] buffer that r(1)
    by (auto simp: pending_energy_for_def buffer_energy_part_def energy_spent_def Let_def split: if_splits)
  then have "pending_energy_for pending ident = \<lparr>pef_identity = ident, pef_records = [None, None], pef_count = 0\<rparr>"
    by (auto simp: pending_energy_for_def Let_def split: option.split)
  then show ?thesis
    using adopt None a
    by (auto simp: adopt_identity_def Let_def energy_buffered_def part_matches_def pending_parts_def)
next
  case (Some old)
  then obtain q where q: "pending = Some q" "energy_buffered a q" "pef_identity q = old"
    using sync by (auto simp: energy_sync_def energy_buffered_def)
  then show ?thesis
    using adopt Some
    by (cases "old = ident") (auto simp: adopt_identity_def Let_def pending_energy_for_def
      energy_buffered_def part_matches_def pending_parts_def assembler_reset_def)
qed

definition assembled_with :: "energy_family_assembler \<Rightarrow> meter_record \<Rightarrow> energy_family_assembler" where
  "assembled_with a r = (case part_slot a r of None \<Rightarrow> fill_slot a r | Some _ \<Rightarrow> a)"

lemma buffered_part:
  assumes "energy_buffered a q" and "pef_identity q = energy_identity r" and "part_valid r"
    and "buffer_energy_part env r (energy_identity r) q = Inr b"
  shows "energy_buffered (assembled_with a r) b"
proof -
  obtain x y where xy: "pef_records q = [x, y]" "part_matches x (summary_part a)"
      "part_matches y (quadrants_part a)" "identity a = Some (energy_identity r)"
      "pef_count q = pending_parts a"
    using assms(1,2) by (auto simp: energy_buffered_def)
  show ?thesis
    using part_kind [OF assms(3)] assms(2,4) xy
    by (cases "summary_part a"; cases "quadrants_part a"; cases x; cases y)
      (auto simp: energy_buffered_def assembled_with_def part_slot_def fill_slot_def
        buffer_energy_part_def pending_parts_def Let_def split: if_splits)
qed

lemma assembler_accept_cases:
  assumes "part_valid r" and "adopt_identity a (energy_identity r) = (a1, n)"
    and "assembler_accept a r t = (a', res)"
  shows "(\<exists>e. res = Inl e \<and> a' = assembled_with a1 r) \<or>
    (\<exists>u. res = Inr u \<and> completed u = None \<and> a' = assembled_with a1 r) \<or>
    (\<exists>u v s q. res = Inr u \<and> completed u = Some v \<and> a' = assembler_reset \<and>
      summary_part (assembled_with a1 r) = Some s \<and> quadrants_part (assembled_with a1 r) = Some q \<and>
      decode_energy_family s q t = Inr v)"
proof -
  let ?d = "part_slot a1 r \<noteq> None"
  consider "\<exists>e. (a', res) = (assembled_with a1 r, Inl e)"
    | "complete_family (assembled_with a1 r) n ?d t = (a', res)"
    using assms by (auto simp: assembler_accept_valid assembled_with_def split: option.splits if_splits)
  then show ?thesis
  proof cases
    case 1
    then show ?thesis by blast
  next
    case 2
    then show ?thesis
      by (auto simp: complete_family_def split: option.splits sum.splits)
  qed
qed

lemma energy_fields_frame [simp]:
  "public_view (s\<lparr>ri_pending_energy_family := p\<rparr>) = public_view s"
  "public_view (s\<lparr>ri_energy_assembler := a\<rparr>) = public_view s"
  "public_view (s\<lparr>ri_energy_records := n\<rparr>) = public_view s"
  "public_view (s\<lparr>ri_incomplete_energy_families := n\<rparr>) = public_view s"
  by (simp_all add: public_view_def)

lemma stamp_pending_fields [simp]:
  "sr_payload (stamp_pending t sr) = sr_payload sr"
  "sr_source_fragment (stamp_pending t sr) = sr_source_fragment sr"
  "sr_source_sequence (stamp_pending t sr) = sr_source_sequence sr"
  by (simp_all add: stamp_pending_def)

lemma energy_stream_fields [simp]:
  "sr_payload (energy_stream_record env r ident) = record_bytes r"
  "sr_source_fragment (energy_stream_record env r ident) = ucast (energy_part r)"
  "sr_source_sequence (energy_stream_record env r ident) = ucast (id_sequence ident)"
  by (simp_all add: energy_stream_record_def stream_record_of_def)

text \<open>
  Publishing a full buffer of the two parts: it fails and nothing is seen to change, or both are
  committed together. What is left of the buffer is spent.
\<close>

definition stamped_pair ::
    "block_timing \<Rightarrow> meter_stream_record \<Rightarrow> meter_stream_record \<Rightarrow> meter_stream_record list" where
  "stamped_pair t x y = [stamp_pending t x, stamp_pending t y]"

lemma tame_authority_error:
  assumes "tame_ports P" and "authoritative (map_option fst (ip_authority (logged P))) m wl v = Inl e"
  shows "no_logic_error (Inl e :: bool result)"
  using tame_authority(1) [OF assms(1), of m wl v] assms(2) by (auto intro: no_logic_error_Inl)

lemma publish_energy_effect:
  assumes pub: "publish_energy_family (logged P) env r ident values (s, w, log) = ((s', w', log'), res)"
    and full: "ri_pending_energy_family s = Some q" "pef_count q = 2" "pef_records q = [Some x, Some y]"
  shows "(log' = log \<and> public_view s' = public_view s \<or>
      log' = log @ [stamped_pair (energy_timing env ident) x y]) \<and>
    (tame_ports P \<longrightarrow> no_logic_error res) \<and>
    ri_energy_assembler s' = ri_energy_assembler s \<and> ri_harmonics s' = ri_harmonics s \<and>
    (\<forall>q'. ri_pending_energy_family s' = Some q' \<longrightarrow> energy_spent q')"
proof -
  let ?g = "stamped_pair (energy_timing env ident) x y"
  obtain w1 log1 out where out: "ip_publish_records (logged P) (w, log) ?g = ((w1, log1), out)"
    by (metis prod.exhaust)
  note log1 = logged_publish_records [OF this]
  let ?spent = "s\<lparr>ri_pending_energy_family := Some (q\<lparr>pef_records := map (\<lambda>sr. Some (moved_from sr)) ?g\<rparr>)\<rparr>"
  have spent: "public_view ?spent = public_view s" "ri_harmonics ?spent = ri_harmonics s"
    "ri_energy_assembler ?spent = ri_energy_assembler s"
    "energy_spent (the (ri_pending_energy_family ?spent))"
    by (auto simp: energy_spent_def moved_from_def stamped_pair_def)
  note eq = pub [unfolded publish_energy_family_def prod.case full option.case Let_def]
  show ?thesis
  proof (cases out)
    case (Inl e)
    then have tame: "tame_ports P \<longrightarrow> no_logic_error (Inl e :: bool result)"
      using log1 by (auto intro: no_logic_error_Inl dest: tame_publish_records)
    show ?thesis
      using eq full out Inl log1 spent tame
      by (cases e) (auto simp: stamped_pair_def)
  next
    case (Inr cursors)
    then show ?thesis
      using eq full out log1 spent
      by (auto simp: stamped_pair_def split: if_splits sum.splits intro: tame_authority_error)
  qed
qed

lemma buffered_bytes:
  assumes "buffer_energy_part env r ident q = Inr b" and "energy_buffered a q" and "part_valid r"
  shows "\<exists>sr. Some sr \<in> set (pef_records b) \<and> sr_payload sr = record_bytes r"
  using assms(1,2) part_kind [OF assms(3)]
  by (auto simp: buffer_energy_part_def energy_buffered_def Let_def split: option.splits if_splits)

lemma full_energy_buffer:
  assumes "energy_buffered a b" and "summary_part a = Some s" "quadrants_part a = Some q"
    and "family_pair s q" and "s \<in> R" "q \<in> R"
  shows "\<exists>x y. pef_records b = [Some x, Some y] \<and> pef_count b = 2 \<and>
    (\<forall>t. energy_group R (stamped_pair t x y))"
proof -
  obtain e d where "pef_records b = [Some (energy_stream_record e s (energy_identity s)),
      Some (energy_stream_record d q (energy_identity q))]" "pef_count b = 2"
    using assms(1-3) by (auto simp: energy_buffered_def part_matches_def pending_parts_def)
  moreover have "energy_group R (stamped_pair t (energy_stream_record e s (energy_identity s))
      (energy_stream_record d q (energy_identity q)))" for t
    unfolding energy_group_def
    using assms(4-6)
    by (intro exI [of _ s] exI [of _ q] exI)
      (auto simp: stamped_pair_def family_pair_def, auto simp: energy_identity_def)
  ultimately show ?thesis
    by blast
qed

lemma assembled_received:
  assumes "assembler_inv (a, received)" and "set received \<subseteq> R" and "r \<in> R"
    and "adopt_identity a ident = (a1, n)"
  shows "summary_part (assembled_with a1 r) = Some s \<Longrightarrow> s \<in> R"
    and "quadrants_part (assembled_with a1 r) = Some q \<Longrightarrow> q \<in> R"
  using assembler_inv_adopt(1) [OF assms(1), of ident] assms(2-4)
  by (auto simp: assembled_with_def fill_slot_def assembler_inv_def split: option.splits if_splits)

lemma buffered_sync:
  assumes "energy_buffered a b" and "assembler_inv (a, received)" and "set received \<subseteq> R"
  shows "energy_sync R a (Some b)"
  using assms by (auto simp: energy_sync_def energy_buffered_def)

lemma rejected_part_sync:
  assumes "buffer_energy_part env r ident (pending_energy_for pending ident) = Inl e" and "part_valid r"
  shows "Some (pending_energy_for pending ident) = pending"
  using assms(1) part_kind [OF assms(2)]
  by (auto simp: buffer_energy_part_def pending_energy_for_def Let_def split: option.splits if_splits)

text \<open>The state when the assembler has accepted a part, and the branch in these terms.\<close>

definition counted_energy ::
    "energy_family_assembler \<Rightarrow> pending_energy_family \<Rightarrow> energy_assembly_update \<Rightarrow>
     record_ingestor \<Rightarrow> record_ingestor" where
  "counted_energy a b u s = s
     \<lparr>ri_pending_energy_family := Some b, ri_energy_assembler := a,
      ri_energy_records := ri_energy_records s + 1,
      ri_incomplete_energy_families := ri_incomplete_energy_families s + incomplete_families u\<rparr>"

lemma counted_energy_frame [simp]:
  "public_view (counted_energy a b u s) = public_view s"
  "ri_harmonics (counted_energy a b u s) = ri_harmonics s"
  "ri_energy_assembler (counted_energy a b u s) = a"
  "ri_pending_energy_family (counted_energy a b u s) = Some b"
  by (simp_all add: counted_energy_def)

lemma accept_energy_cases:
  assumes "decode_energy_identity r = Inr ident"
    and "buffer_energy_part env r ident (pending_energy_for (ri_pending_energy_family s) ident) = Inr b"
    and "assembler_accept (ri_energy_assembler s) r (ie_received_at env) = (a, Inr u)"
  shows "accept_energy_part P env r (s, w) =
    (let finish = (\<lambda>t. t\<lparr>ri_meter_records := ri_meter_records s + 1, ri_last_record_time := Some (ie_finished env)\<rparr>)
     in case completed u of
       None \<Rightarrow> ((finish (counted_energy a b u s), w), Inr ())
     | Some values \<Rightarrow>
         (case publish_energy_family P env r ident values (counted_energy a b u s, w) of
            ((t, w1), Inl e) \<Rightarrow> ((t, w1), Inl e)
          | ((t, w1), Inr False) \<Rightarrow> ((t, w1), Inr ())
          | ((t, w1), Inr True) \<Rightarrow> ((finish t, w1), Inr ())))"
  using assms
  by (cases "completed u")
    (simp_all add: accept_energy_part_def Let_def counted_energy_def del: decode_energy_identity_ok)

lemma complete_energy_effect:
  assumes pub: "publish_energy_family (logged P) env r ident vals (counted_energy assembler_reset b u s, w, log) =
      ((t, w1, log1), pub)"
    and b: "energy_buffered a b" "summary_part a = Some part" "quadrants_part a = Some other"
    and pair: "family_pair part other" "part \<in> R" "other \<in> R"
    and bytes: "\<exists>sr. Some sr \<in> set (pef_records b) \<and> sr_payload sr = record_bytes r"
    and ok: "\<And>g. energy_group R g \<Longrightarrow> ok g"
  shows "(log1 = log \<and> public_view t = public_view s \<or>
      (\<exists>g. log1 = log @ [g] \<and> record_bytes r \<in> sr_payload ` set g \<and> ok g)) \<and>
    (tame_ports P \<longrightarrow> no_logic_error pub) \<and>
    energy_sync R (ri_energy_assembler t) (ri_pending_energy_family t) \<and> ri_harmonics t = ri_harmonics s"
proof -
  from full_energy_buffer [OF b pair] obtain x y where
    xy: "pef_records b = [Some x, Some y]" "pef_count b = 2" "\<And>t. energy_group R (stamped_pair t x y)"
    by blast
  have "record_bytes r \<in> sr_payload ` set (stamped_pair k x y)" for k
    using bytes xy(1) by (auto simp: stamped_pair_def)
  moreover note publish_energy_effect [OF pub _ xy(2,1)] ok [OF xy(3)]
  ultimately show ?thesis
    by (auto intro!: energy_sync_reset)
qed

lemma accept_energy_effect:
  assumes acc: "accept_energy_part (logged P) env r (s, w, log) = ((s', w', log'), res)"
    and sync: "energy_sync R (ri_energy_assembler s) (ri_pending_energy_family s)"
    and r: "r \<in> R" "header_valid r" and ok: "\<And>g. energy_group R g \<Longrightarrow> ok g"
  shows "step_effect ok P r s log s' log' res \<and>
    energy_sync R (ri_energy_assembler s') (ri_pending_energy_family s') \<and>
    ri_harmonics s' = ri_harmonics s"
proof (cases "decode_energy_identity r")
  case (Inl e)
  then show ?thesis
    using acc sync by (auto simp: accept_energy_part_def intro!: step_effect_unseen)
next
  case (Inr ident)
  then have v: "part_valid r" "ident = energy_identity r"
    by simp_all
  let ?p = "pending_energy_for (ri_pending_energy_family s) ident"
  show ?thesis
  proof (cases "buffer_energy_part env r ident ?p")
    case (Inl e)
    then have "Some ?p = ri_pending_energy_family s"
      using v(1) by (rule rejected_part_sync)
    then show ?thesis
      using acc Inr Inl sync
      by (auto simp: accept_energy_part_def Let_def simp del: decode_energy_identity_ok intro!: step_effect_unseen)
  next
    case b: (Inr b)
    obtain received where received: "set received \<subseteq> R" "assembler_inv (ri_energy_assembler s, received)"
      using sync by (auto simp: energy_sync_def)
    obtain a1 n where a1: "adopt_identity (ri_energy_assembler s) (energy_identity r) = (a1, n)"
      by fastforce
    note adopted = adopted_buffer [OF sync record_bytes_nonempty [OF r(2)] v(1) a1 b [unfolded v(2)]]
    have buffered: "energy_buffered (assembled_with a1 r) b"
      using adopted v b by (auto intro: buffered_part)
    obtain a out where out: "assembler_accept (ri_energy_assembler s) r (ie_received_at env) = (a, out)"
      by fastforce
    have held: "assembler_inv (a, r # received)" "set (r # received) \<subseteq> R"
      using assembler_inv_accept [OF received(2), of r "ie_received_at env"] out received(1) r(1) by simp_all
    have kept: "energy_sync R a (Some b)" if "a = assembled_with a1 r"
      using buffered_sync [OF _ held] buffered that by simp
    from assembler_accept_cases [OF v(1) a1 out] consider
        e where "out = Inl e" "a = assembled_with a1 r"
      | u where "out = Inr u" "completed u = None" "a = assembled_with a1 r"
      | u vals part other where "out = Inr u" "completed u = Some vals" "a = assembler_reset"
        "summary_part (assembled_with a1 r) = Some part" "quadrants_part (assembled_with a1 r) = Some other"
        "decode_energy_family part other (ie_received_at env) = Inr vals"
      by blast
    then show ?thesis
    proof cases
      case 1
      then show ?thesis
        using acc Inr b out kept
        by (auto simp: accept_energy_part_def Let_def simp del: decode_energy_identity_ok
            intro!: step_effect_unseen)
    next
      case 2
      then show ?thesis
        using acc [unfolded accept_energy_cases [OF Inr b out [unfolded 2(1)]]] kept
        by (auto simp: Let_def intro!: step_effect_unseen)
    next
      case 3
      have pair: "family_pair part other" "part \<in> R" "other \<in> R"
        using 3 assembled_received [OF received(2,1) r(1) a1] by (simp_all add: decode_family_iff)
      obtain t w1 log1 pub where pub: "publish_energy_family (logged P) env r ident vals
          (counted_energy a b u s, w, log) = ((t, w1, log1), pub)"
        by (metis prod.exhaust)
      note effect = complete_energy_effect [OF pub [unfolded 3(3)] buffered 3(4,5) pair
          buffered_bytes [OF b [unfolded v(2)] conjunct1 [OF adopted] v(1)] ok]
      have s': "public_view s' = public_view t" "assembly_state s' = assembly_state t" "log' = log1"
          "(\<exists>e. pub = Inl e \<and> res = Inl e) \<or> res = Inr ()"
        using acc [unfolded accept_energy_cases [OF Inr b out [unfolded 3(1)]]] 3 pub
        by (auto simp: Let_def split: sum.splits bool.splits)
      then have "tame_ports P \<longrightarrow> no_logic_error res"
        using effect by (auto simp: no_logic_error_def)
      then show ?thesis
        using effect s'(1,3) by (simp add: step_effect_def assembly_state_fields [OF s'(2)])
    qed
  qed
qed

section \<open>The invariant of the ingestor\<close>

definition whole_group :: "meter_record set \<Rightarrow> meter_stream_record list \<Rightarrow> bool" where
  "whole_group R g \<longleftrightarrow> (\<exists>r \<in> R. published_alone r g) \<or> energy_group R g \<or> harmonic_group R g"

definition ingest_inv :: "meter_record set \<Rightarrow> record_ingestor \<Rightarrow> bool" where
  "ingest_inv R s \<longleftrightarrow>
     all_synced R s \<and> energy_sync R (ri_energy_assembler s) (ri_pending_energy_family s)"

lemma harmonic_group_mono: "harmonic_group R g \<Longrightarrow> R \<subseteq> Q \<Longrightarrow> harmonic_group Q g"
  unfolding harmonic_group_def by (metis chunk_slot_mono)

lemma whole_group_mono: "whole_group R g \<Longrightarrow> R \<subseteq> Q \<Longrightarrow> whole_group Q g"
  unfolding whole_group_def using harmonic_group_mono energy_group_mono by blast

lemma ingest_inv_mono: "ingest_inv R s \<Longrightarrow> R \<subseteq> Q \<Longrightarrow> ingest_inv Q s"
  by (auto simp: ingest_inv_def all_synced_def intro: harmonic_sync_mono energy_sync_mono)

lemma ingest_inv_frame: "assembly_state t = assembly_state s \<Longrightarrow> ingest_inv R t = ingest_inv R s"
  by (simp add: ingest_inv_def all_synced_def assembly_state_def)

lemma step_effect_weaken:
  "step_effect ok P r s log s' log' res \<Longrightarrow> (\<And>g. ok g \<Longrightarrow> fine g) \<Longrightarrow>
   step_effect fine P r s log s' log' res"
  by (auto simp: step_effect_def)

lemma accept_single_cycle_effect:
  assumes "accept_single_cycle r (s, w, log) = ((s', w', log'), res)"
  shows "step_effect ok P r s log s' log' res \<and> assembly_state s' = assembly_state s"
  using assms
  by (auto simp: accept_single_cycle_def assembly_state_def public_view_def intro!: step_effect_unseen)

lemma accept_pq_event_effect:
  assumes "accept_pq_event env r (s, w, log) = ((s', w', log'), res)"
  shows "step_effect ok P r s log s' log' res \<and> assembly_state s' = assembly_state s"
proof (cases "decode_pq_event_record r (ie_received_at env)")
  case (Inl e)
  then show ?thesis
    using assms by (auto simp: accept_pq_event_def intro!: step_effect_unseen)
next
  case (Inr snapshot)
  then obtain p where "s' = s\<lparr>ri_power_quality := p\<rparr>" "log' = log" "res = Inr ()"
    using assms by (auto simp: accept_pq_event_def Let_def)
  then show ?thesis
    by (auto simp: assembly_state_def public_view_def intro!: step_effect_unseen)
qed

lemma ingest_accept_effect:
  assumes acc: "ingest_accept (logged P) env r (s, w, log) = ((s', w', log'), res)"
    and inv: "ingest_inv R s" and r: "r \<in> R"
  shows "step_effect (whole_group R) P r s log s' log' res \<and> ingest_inv R s'"
proof (cases "matches_configuration env r")
  case False
  then have "s' = reject_record env ''meter_record_config_rejected'' r s" "log' = log" "res = Inr ()"
    using acc by (auto simp: ingest_accept_def)
  then show ?thesis
    using inv ingest_inv_frame [OF reject_frame(2)] by (auto intro!: step_effect_unseen)
next
  case True
  have header: "header_valid r"
    using True by (simp add: matches_configuration_def)
  have alone: "whole_group R g" if "published_alone r g" for g
    using that r by (auto simp: whole_group_def)
  have energy: "whole_group R g" if "energy_group R g" for g
    using that by (simp add: whole_group_def)
  have harmonic: "whole_group R g" if "harmonic_group R g" for g
    using that by (simp add: whole_group_def)
  have kept: ?thesis
    if "step_effect (whole_group R) P r s log s' log' res \<and> assembly_state s' = assembly_state s"
    using that inv ingest_inv_frame by blast
  let ?f = "record_format r"
  consider "accept_single_cycle r (s, w, log) = ((s', w', log'), res)"
    | "accept_pq_event env r (s, w, log) = ((s', w', log'), res)"
    | "accept_lifecycle (logged P) env r (s, w, log) = ((s', w', log'), res)"
    | "accept_flicker (logged P) env r (s, w, log) = ((s', w', log'), res)"
    | "accept_mains_signal (logged P) env r (s, w, log) = ((s', w', log'), res)"
    | "accept_harmonic (logged P) env r (s, w, log) = ((s', w', log'), res)"
    | "accept_energy_part (logged P) env r (s, w, log) = ((s', w', log'), res)"
    | "accept_decoded (logged P) env r (s, w, log) = ((s', w', log'), res)"
    using acc True by (simp add: ingest_accept_def Let_def split: if_splits)
  then show ?thesis
  proof cases
    case 1
    then show ?thesis by (intro kept accept_single_cycle_effect)
  next
    case 2
    then show ?thesis by (intro kept accept_pq_event_effect)
  next
    case 3
    then show ?thesis by (intro kept accept_lifecycle_effect alone)
  next
    case 4
    then show ?thesis by (intro kept accept_flicker_effect alone)
  next
    case 5
    then show ?thesis by (intro kept accept_mains_effect alone)
  next
    case 6
    then show ?thesis
      using accept_harmonic_effect [OF 6 _ r harmonic] inv by (simp add: ingest_inv_def)
  next
    case 7
    then show ?thesis
      using accept_energy_effect [OF 7 _ r header energy] inv by (simp add: ingest_inv_def all_synced_def)
  next
    case 8
    then show ?thesis by (intro kept accept_decoded_effect alone)
  qed
qed

section \<open>Runs of the ingestor\<close>

text \<open>
  What the daemon does with its ingestor: it drains the DMA device after a wake-up, reports a failure of
  the device, starts a new epoch and clears the latest values. The state of a run also has the records
  received so far. An exception ends the drain and leaves the state as it is at that point.
\<close>

datatype ingest_event = Wake "dma_read list" | Device_failed | New_epoch | Clear_latest

definition batch_records :: "dma_read \<Rightarrow> meter_record list" where
  "batch_records d = (case d of Dma_failed \<Rightarrow> [] | Dma_batch bytes partial batch \<Rightarrow> map snd batch)"

definition event_records :: "ingest_event \<Rightarrow> meter_record list" where
  "event_records ev = (case ev of Wake reads \<Rightarrow> concat (map batch_records reads) | _ \<Rightarrow> [])"

type_synonym 'w ingest_run = "(record_ingestor \<times> 'w \<times> commit_log) \<times> meter_record list"

definition ingest_step :: "'w ingest_ports \<Rightarrow> 'w ingest_run \<Rightarrow> ingest_event \<Rightarrow> 'w ingest_run" where
  "ingest_step P = (\<lambda>((s, w), received) ev.
     (case ev of
        Wake reads \<Rightarrow> fst (read_available (logged P) reads (s, w))
      | Device_failed \<Rightarrow> (note_dma_failure s, w)
      | New_epoch \<Rightarrow> (begin_epoch s, w)
      | Clear_latest \<Rightarrow> (clear_latest s, w), received @ event_records ev))"

definition ingest_start :: "'w \<Rightarrow> 'w ingest_run" where
  "ingest_start w = ((ingestor_init, w, []), [])"

definition run_holds :: "meter_record set \<Rightarrow> record_ingestor \<times> 'w \<times> commit_log \<Rightarrow> bool" where
  "run_holds R = (\<lambda>(s, w, log). ingest_inv R s \<and> (\<forall>g \<in> set log. whole_group R g))"

definition run_inv :: "'w ingest_run \<Rightarrow> bool" where
  "run_inv = (\<lambda>(state, received). run_holds (set received) state)"

lemma run_holds_mono: "run_holds R x \<Longrightarrow> R \<subseteq> Q \<Longrightarrow> run_holds Q x"
  by (auto simp: run_holds_def intro: ingest_inv_mono whole_group_mono)

lemma run_holds_frame:
  "run_holds R (s, w, log) \<Longrightarrow> assembly_state t = assembly_state s \<Longrightarrow> run_holds R (t, w, log)"
  using ingest_inv_frame [of t s R] by (simp add: run_holds_def)

lemma accept_holds:
  assumes "run_holds R x" and "r \<in> R"
  shows "run_holds R (fst (ingest_accept (logged P) env r x))"
    and "tame_ports P \<Longrightarrow> no_logic_error (snd (ingest_accept (logged P) env r x))"
proof -
  obtain s w log where x: "x = (s, w, log)"
    by (metis prod.exhaust)
  obtain s' w' log' res where acc: "ingest_accept (logged P) env r x = ((s', w', log'), res)"
    by (metis prod.exhaust)
  have "ingest_inv R s" "\<forall>g \<in> set log. whole_group R g"
    using assms(1) by (simp_all add: run_holds_def x)
  with ingest_accept_effect [OF acc [unfolded x] _ assms(2)]
  show "run_holds R (fst (ingest_accept (logged P) env r x))"
    and "tame_ports P \<Longrightarrow> no_logic_error (snd (ingest_accept (logged P) env r x))"
    by (auto simp: acc run_holds_def step_effect_def)
qed

lemma accept_all_holds:
  assumes "run_holds R x" and "snd ` set batch \<subseteq> R"
  shows "run_holds R (fst (accept_all (logged P) batch x)) \<and>
    (tame_ports P \<longrightarrow> no_logic_error (snd (accept_all (logged P) batch x)))"
  using assms
proof (induction batch arbitrary: x)
  case (Cons b rest)
  obtain env r where b: "b = (env, r)"
    by fastforce
  obtain y res where y: "ingest_accept (logged P) env r x = (y, res)"
    by fastforce
  then show ?case
    using accept_holds [OF Cons.prems(1), of r P env] Cons b by (cases res) auto
qed simp

lemma drain_holds:
  assumes "run_holds R x" and "set (concat (map batch_records reads)) \<subseteq> R"
  shows "run_holds R (fst (drain_batches (logged P) n reads x)) \<and>
    (tame_ports P \<longrightarrow> no_logic_error (snd (drain_batches (logged P) n reads x)))"
  using assms
proof (induction n arbitrary: reads x)
  case (Suc n)
  obtain s w log where x: "x = (s, w, log)"
    by (metis prod.exhaust)
  show ?case
  proof (cases reads)
    case Nil
    then show ?thesis using Suc.prems by simp
  next
    case (Cons d rest)
    show ?thesis
    proof (cases d)
      case Dma_failed
      then show ?thesis
        using Suc.prems(1) by (auto simp: Cons x assembly_state_def intro: run_holds_frame)
    next
      case (Dma_batch bytes partial batch)
      let ?read = "s\<lparr>ri_dma_bytes := ri_dma_bytes s + of_nat bytes\<rparr>"
      have read: "run_holds R (?read, w, log)" "run_holds R (note_invalid_record ?read, w, log)"
        using Suc.prems(1) by (auto simp: x assembly_state_def intro: run_holds_frame)
      have sub: "snd ` set batch \<subseteq> R" "set (concat (map batch_records rest)) \<subseteq> R"
        using Suc.prems(2) by (auto simp: Cons Dma_batch batch_records_def)
      obtain y res where y: "accept_all (logged P) batch (?read, w, log) = (y, res)"
        by fastforce
      have "run_holds R y" "tame_ports P \<longrightarrow> no_logic_error res"
        using accept_all_holds [OF read(1) sub(1), of P] by (simp_all add: y)
      then show ?thesis
        using Suc.prems(1) read(2) Suc.IH [OF _ sub(2)] y
        by (cases res) (auto simp: Cons Dma_batch x Let_def)
    qed
  qed
qed simp

lemma cleared_sync: "hx_assembler x = harmonic_reset \<Longrightarrow> hx_pending x = None \<Longrightarrow> harmonic_sync R x"
  by (simp add: harmonic_sync_def harmonic_reset_def assembler_holds_def)

lemma cleared_inv:
  assumes "\<And>i. hx_assembler (ri_harmonics s i) = harmonic_reset" "\<And>i. hx_pending (ri_harmonics s i) = None"
    and "ri_energy_assembler s = assembler_reset" "ri_pending_energy_family s = None"
  shows "ingest_inv R s"
  using assms energy_sync_reset [of None] by (simp add: ingest_inv_def all_synced_def cleared_sync)

lemma clear_latest_inv: "ingest_inv R (clear_latest s)"
  by (rule cleared_inv) (simp_all add: clear_latest_def clear_harmonics_def)

lemma begin_epoch_inv: "ingest_inv R (begin_epoch s)"
  by (rule cleared_inv) (simp_all add: begin_epoch_def clear_latest_def clear_harmonics_def)

lemma ingestor_init_inv: "ingest_inv R ingestor_init"
  by (rule cleared_inv) (simp_all add: ingestor_init_def harmonic_state_init_def)

lemma run_inv_step:
  assumes "run_inv x"
  shows "run_inv (ingest_step P x ev)"
proof -
  obtain s w log received where x: "x = ((s, w, log), received)"
    by (metis prod.exhaust)
  have holds: "run_holds (set (received @ event_records ev)) (s, w, log)"
    using assms by (auto simp: run_inv_def x intro: run_holds_mono)
  have logged_groups: "\<forall>g \<in> set log. whole_group (set (received @ event_records ev)) g"
    using holds by (simp add: run_holds_def)
  show ?thesis
  proof (cases ev)
    case (Wake reads)
    then have "set (concat (map batch_records reads)) \<subseteq> set (received @ event_records ev)"
      by (simp add: event_records_def)
    from drain_holds [OF holds this] Wake show ?thesis
      by (simp add: run_inv_def x ingest_step_def read_available_def)
  next
    case Device_failed
    have "assembly_state (note_dma_failure s) = assembly_state s"
      by (simp add: note_dma_failure_def assembly_state_def)
    from run_holds_frame [OF holds this] Device_failed show ?thesis
      by (simp add: run_inv_def x ingest_step_def)
  qed (use logged_groups clear_latest_inv begin_epoch_inv in
      \<open>simp_all add: run_inv_def run_holds_def x ingest_step_def\<close>)
qed

interpretation ingest: invariant_system "ingest_step P" run_inv for P
  by unfold_locales (rule run_inv_step)

lemma run_inv_start: "run_inv (ingest_start w)"
  by (simp add: run_inv_def run_holds_def ingest_start_def ingestor_init_inv)

lemma run_received:
  "snd (foldl (ingest_step P) x evs) = snd x @ concat (map event_records evs)"
  by (induction evs arbitrary: x) (auto simp: ingest_step_def split: prod.splits)

lemma run_state:
  assumes "fst (foldl (ingest_step P) (ingest_start w) evs) = x"
  shows "run_holds (set (concat (map event_records evs))) x"
  using ingest.inv_run [OF run_inv_start, of P w evs] run_received [of P "ingest_start w" evs] assms
  by (auto simp: run_inv_def ingest_start_def split: prod.splits)

section \<open>Properties of the ingestor\<close>

text \<open>
  C15. Durable before visible. Whatever the device delivered before, one accepted record either commits
  nothing and then no latest value, no live view and no sequence baseline of a published stream changes,
  or it commits exactly one group that holds the exact 256 bytes of the record.
\<close>

theorem commit_before_view:
  assumes "fst (foldl (ingest_step P) (ingest_start w0) evs) = (s, w, log)"
    and "ingest_accept (logged P) env r (s, w, log) = ((s', w', log'), res)"
  shows "log' = log \<and> public_view s' = public_view s \<or>
    (\<exists>g. log' = log @ [g] \<and> record_bytes r \<in> sr_payload ` set g)"
proof -
  have "ingest_inv (set (concat (map event_records evs))) s"
    using run_state [OF assms(1)] by (simp add: run_holds_def)
  then have "ingest_inv (insert r (set (concat (map event_records evs)))) s"
    by (rule ingest_inv_mono) blast
  from ingest_accept_effect [OF assms(2) this] show ?thesis
    by (auto simp: step_effect_def)
qed

text \<open>
  C16. Families are published whole. Every group the durable stream ever acknowledges is a single record,
  the two parts of one ENERGY family, or the 42 chunks of one harmonic family with the fragments in
  order; every member is a record the device delivered, byte for byte, and no member of a group comes
  from another family.
\<close>

theorem families_published_whole:
  assumes "fst (foldl (ingest_step P) (ingest_start w0) evs) = (s, w, log)" and "g \<in> set log"
  shows "(\<exists>r sr. g = [sr] \<and> r \<in> set (concat (map event_records evs)) \<and> sr_payload sr = record_bytes r) \<or>
    energy_group (set (concat (map event_records evs))) g \<or>
    (\<exists>f. length g = 42 \<and> (\<forall>k < 42. \<exists>r c. r \<in> set (concat (map event_records evs)) \<and>
      decode_harmonic_record r = Inr c \<and> hc_family c = f \<and> chunk_index c = k \<and>
      sr_payload (g ! k) = record_bytes r \<and> sr_source_fragment (g ! k) = of_nat k))"
proof -
  let ?R = "set (concat (map event_records evs))"
  have slot: "\<exists>r c. r \<in> ?R \<and> decode_harmonic_record r = Inr c \<and> hc_family c = f \<and> chunk_index c = k \<and>
      sr_payload sr = record_bytes r \<and> sr_source_fragment sr = of_nat k"
    if "chunk_slot ?R f k sr" for f k sr
    using that unfolding chunk_slot_def
    by (force simp: harmonic_stream_record_def stream_record_of_def Let_def)
  have "whole_group ?R g"
    using run_state [OF assms(1)] assms(2) by (simp add: run_holds_def)
  then consider r where "r \<in> ?R" "published_alone r g" | "energy_group ?R g" | "harmonic_group ?R g"
    by (auto simp: whole_group_def)
  then show ?thesis
  proof cases
    case 1
    then show ?thesis unfolding published_alone_def by blast
  next
    case 2
    then show ?thesis by blast
  next
    case 3
    then obtain f where "length g = 42" "\<And>k. k < 42 \<Longrightarrow> chunk_slot ?R f k (g ! k)"
      by (auto simp: harmonic_group_def)
    then show ?thesis
      using slot by blast
  qed
qed

text \<open>
  C17. The internal consistency checks never fire. The ingestor keeps its publication buffers beside the
  assemblers and throws \<^verbatim>\<open>std::logic_error\<close> when a complete family meets a partial buffer. Unless a
  collaborator throws one itself, no sequence of deliveries, failed publications, epochs and resets ever
  reaches such a throw.
\<close>

theorem ingest_never_logic_error:
  assumes "tame_ports P"
  shows "snd (read_available (logged P) reads (fst (foldl (ingest_step P) (ingest_start w0) evs))) \<noteq>
    Inl (Logic_error m)"
proof -
  let ?x = "fst (foldl (ingest_step P) (ingest_start w0) evs)"
  let ?R = "set (concat (map event_records evs)) \<union> set (concat (map batch_records reads))"
  have "run_holds ?R ?x"
    by (rule run_holds_mono [OF run_state [OF refl]]) simp
  from drain_holds [OF this, of reads P] assms show ?thesis
    by (auto simp: read_available_def no_logic_error_def)
qed

section \<open>Sequences that restart or skip\<close>

lemma accept_decoded_published:
  assumes "track_record env r s = (t, True)" and "registry_decode builtin_decoders r (ie_received_at env) = Inr u"
    and "mu_demand u = None"
    and "ip_publish P w (update_stream_record env r (stamp_update env r u)) = (w', Inr c)"
  shows "accept_decoded P env r (s, w) =
    (((advance_baseline env r (stamp_update env r u) (t\<lparr>ri_meter_data :=
        md_apply (ri_meter_data t) (stamp_update env r u) (ie_received_at env)\<rparr>))
       \<lparr>ri_last_record_time := Some (ie_finished env), ri_meter_records := ri_meter_records t + 1\<rparr>, w'), Inr ())"
proof -
  have "mu_demand (stamp_update env r u) = None"
    using assms(3) by (simp add: stamp_update_def)
  then show ?thesis
    using assms by (simp add: accept_decoded_def accept_update_def)
qed

lemma advance_baseline_fields [simp]:
  "ri_meter_data (advance_baseline env r u s) = ri_meter_data s"
  "record_format r = meter_ten_minute_format \<Longrightarrow>
   ri_ten_minute (advance_baseline env r u s) = (ri_ten_minute s)\<lparr>tk_last := Some (rec_sequence r)\<rparr>"
  by (simp_all add: advance_baseline_def Let_def)

lemma decoded_branch:
  assumes "matches_configuration env r"
    and "record_format r \<in> {meter_periodic_format, meter_aggregate_format, meter_ten_minute_format,
      meter_two_hour_format, meter_frequency_10s_format}"
  shows "ingest_accept P env r sw = accept_decoded P env r sw"
  using assms by (auto simp: ingest_accept_def Let_def)

lemma track_after_epoch: "track_record env r (begin_epoch s) = (begin_epoch s, True)"
  by (simp add: track_record_def tracker_defs track_continuity_def begin_epoch_def clear_latest_def
      track_init_def Let_def)

lemma hidden_update:
  assumes "md_latest d (mu_period u) = Some v" and "mu_sequence u < vw_latest_sequence v"
  shows "md_latest (md_apply d u now) (mu_period u) = Some v"
  using assms by (simp add: md_apply_def store_apply_def Let_def)

text \<open>
  C18. A restarted sequence hides the readings. A new epoch forgets every sequence baseline, because a
  deliberate restart may reset the producer's sequences, but keeps the live views. A valid record of the
  new epoch whose sequence is below the last one of the old epoch is accepted, committed and counted,
  and the live view of its period still shows the old reading.
\<close>

theorem restarted_sequence_hides_readings:
  assumes "matches_configuration env r"
    and "record_format r \<in> {meter_periodic_format, meter_aggregate_format, meter_ten_minute_format,
      meter_two_hour_format, meter_frequency_10s_format}"
    and "registry_decode builtin_decoders r (ie_received_at env) = Inr u" "mu_demand u = None"
    and "ip_publish P w (update_stream_record env r (stamp_update env r u)) = (w', Inr c)"
    and "md_latest (ri_meter_data s) (mu_period u) = Some v" "mu_sequence u < vw_latest_sequence v"
  shows "\<exists>t. ingest_accept P env r (begin_epoch s, w) = ((t, w'), Inr ()) \<and>
    ri_meter_records t = ri_meter_records s + 1 \<and> md_latest (ri_meter_data t) (mu_period u) = Some v"
proof -
  have data: "ri_meter_data (begin_epoch s) = ri_meter_data s"
    "ri_meter_records (begin_epoch s) = ri_meter_records s"
    by (simp_all add: begin_epoch_def clear_latest_def)
  have period: "mu_period (stamp_update env r u) = mu_period u" "mu_sequence (stamp_update env r u) = mu_sequence u"
    by (simp_all add: stamp_update_def)
  have "md_latest (md_apply (ri_meter_data s) (stamp_update env r u) (ie_received_at env)) (mu_period u) = Some v"
    using hidden_update [of "ri_meter_data s" "stamp_update env r u" v] assms(6,7) by (simp add: period)
  then show ?thesis
    using accept_decoded_published [OF track_after_epoch assms(3-5)]
    by (simp add: decoded_branch [OF assms(1,2)] data)
qed

lemma ten_minute_track:
  assumes "record_format r = meter_ten_minute_format"
    and "track_continuity (ri_ten_minute s) (rec_sequence r) = Some t"
  shows "track_record env r s = (s\<lparr>ri_ten_minute := t\<rparr>, True)"
  using assms
  by (simp add: track_record_def sibling_formats_def open_preview_formats_def track_ten_minute_continuity_def)

lemma skipped_sequence:
  assumes "tk_last t = Some n" and "0 < d" and "d < push_bit 31 1"
  shows "track_continuity t (n + 1 + d) = Some (t\<lparr>tk_gaps := tk_gaps t + ucast d\<rparr>)"
  using assms by (simp add: track_continuity_def Let_def word_gt_0)

lemma next_distance:
  fixes d :: u32
  assumes "0 < d" and "d < 0x7fffffff"
  shows "d < push_bit 31 1" and "0 < d + 1" and "d + 1 < push_bit 31 1"
proof -
  have b: "0 < uint d" "uint d < 0x7fffffff"
    using assms by (simp_all add: word_less_def)
  then have "uint (d + 1) = uint d + 1"
    using uint_add_lem [of d 1] by simp
  with b show "d < push_bit 31 1" and "0 < d + 1" and "d + 1 < push_bit 31 1"
    by (simp_all add: word_less_def)
qed

lemma rejected_ten_minute:
  assumes "matches_configuration env r" and "record_format r = meter_ten_minute_format"
    and "track_continuity (ri_ten_minute s) (rec_sequence r) = Some t"
    and "registry_decode builtin_decoders r (ie_received_at env) = Inl e"
  shows "ingest_accept P env r (s, w) = ((note_invalid_record (s\<lparr>ri_ten_minute := t\<rparr>), w), Inr ())"
  using ten_minute_track [OF assms(2,3)] decoded_branch [of env r P "(s, w)"] assms
  by (simp add: accept_decoded_def)

lemma accepted_ten_minute_record:
  assumes "matches_configuration env r" and "record_format r = meter_ten_minute_format"
    and "track_continuity (ri_ten_minute s) (rec_sequence r) = Some t"
    and "registry_decode builtin_decoders r (ie_received_at env) = Inr u" "mu_demand u = None"
    and "ip_publish P w (update_stream_record env r (stamp_update env r u)) = (w', Inr c)"
  shows "\<exists>s'. ingest_accept P env r (s, w) = ((s', w'), Inr ()) \<and>
    ri_ten_minute s' = t\<lparr>tk_last := Some (rec_sequence r)\<rparr>"
  using accept_decoded_published [OF ten_minute_track [OF assms(2,3)] assms(4-6)]
    decoded_branch [of env r P "(s, w)"] assms(1,2) by simp

text \<open>
  C19. A gap before a rejected record is counted twice. The tracker counts the gap before the decoder
  has seen the record, and a record the decoder rejects does not become the baseline: with \<open>d\<close> records
  missing, then a rejected one, then a good one, \<open>d + 1\<close> sequence numbers were lost and the gap counter
  grows by \<open>2 d + 1\<close>.
\<close>

theorem gap_counted_twice:
  assumes "matches_configuration env r" "matches_configuration env' q"
    and "record_format r = meter_ten_minute_format" "record_format q = meter_ten_minute_format"
    and "tk_last (ri_ten_minute s) = Some n" "0 < d" "d < 0x7fffffff"
    and "rec_sequence r = n + 1 + d" "rec_sequence q = n + 1 + (d + 1)"
    and "registry_decode builtin_decoders r (ie_received_at env) = Inl e"
    and "registry_decode builtin_decoders q (ie_received_at env') = Inr u" "mu_demand u = None"
    and "ip_publish P w (update_stream_record env' q (stamp_update env' q u)) = (w', Inr c)"
  shows "\<exists>t. ingest_accept P env' q (fst (ingest_accept P env r (s, w))) = ((t, w'), Inr ()) \<and>
    tk_gaps (ri_ten_minute t) = tk_gaps (ri_ten_minute s) + ucast d + ucast (d + 1) \<and>
    tk_last (ri_ten_minute t) = Some (n + 1 + (d + 1))"
proof -
  let ?t = "(ri_ten_minute s)\<lparr>tk_gaps := tk_gaps (ri_ten_minute s) + ucast d\<rparr>"
  let ?s = "note_invalid_record (s\<lparr>ri_ten_minute := ?t\<rparr>)"
  have d: "d < push_bit 31 1" "0 < d + 1" "d + 1 < push_bit 31 1"
    by (rule next_distance [OF assms(6,7)])+
  then have first: "ingest_accept P env r (s, w) = ((?s, w), Inr ())"
    using assms by (intro rejected_ten_minute) (simp_all only: skipped_sequence)
  have kept: "ri_ten_minute ?s = ?t"
    by (simp add: note_invalid_record_def)
  have "track_continuity (ri_ten_minute ?s) (rec_sequence q) =
      Some (?t\<lparr>tk_gaps := tk_gaps ?t + ucast (d + 1)\<rparr>)"
    unfolding kept assms(9) using assms(5) d by (intro skipped_sequence) simp_all
  from accepted_ten_minute_record [OF assms(2,4) this assms(11-13)] show ?thesis
    by (auto simp: first assms(9))
qed

section \<open>Concrete runs\<close>

text \<open>A durable stream that acknowledges everything, and a valid ten-minute record.\<close>

definition accepting_ports :: "unit ingest_ports" where
  "accepting_ports = \<lparr>ip_publish = (\<lambda>w sr. (w, Inr 1)),
     ip_publish_records = (\<lambda>w family. (w, Inr (replicate (length family) 1))),
     ip_authority = None, ip_lifecycle_callback = None\<rparr>"

definition ingest_example_env :: ingest_env where
  "ingest_example_env = \<lparr>ie_generation = 1, ie_sample_rate_hz = 1000,
     ie_timebase = timebase_init default_staleness_threshold, ie_received_at = 5, ie_now = 0,
     ie_finished = 0, ie_transport_overruns = 0\<rparr>"

lemma sample_matches:
  "matches_configuration ingest_example_env sample_ten_minute"
  "record_format sample_ten_minute = meter_ten_minute_format" "rec_sequence sample_ten_minute = 7"
  by code_simp+

abbreviation sample_update :: meter_update where
  "sample_update \<equiv> interval_update sample_ten_minute 5 Min10
     (Some (ten_minute_target_sample_index sample_ten_minute))
     (Some (ten_minute_overshoot_samples sample_ten_minute))"

lemma sample_update_fields:
  "registry_decode builtin_decoders sample_ten_minute (ie_received_at ingest_example_env) = Inr sample_update"
  "mu_demand sample_update = None" "mu_period sample_update = Min10" "mu_sequence sample_update = 7"
  by (simp_all add: sample_ten_minute_decodes ingest_example_env_def)
    (simp_all add: interval_update_def Let_def meter_update_init_def sample_matches)

lemma accepting_publish:
  "ip_publish accepting_ports () sr = ((), Inr 1)"
  "ip_publish (logged accepting_ports) ((), log) sr = (((), log @ [[sr]]), Inr 1)"
  by (simp_all add: accepting_ports_def logged_def)

lemma accepting_tame: "tame_ports accepting_ports"
  by (simp add: tame_ports_def accepting_ports_def)

lemma sample_committed:
  assumes "tk_last (ri_ten_minute s) = None"
  shows "\<exists>s' sr. ingest_accept (logged accepting_ports) ingest_example_env sample_ten_minute (s, (), log) =
    ((s', (), log @ [[sr]]), Inr ())"
proof -
  have "track_continuity (ri_ten_minute s) (rec_sequence sample_ten_minute) = Some (ri_ten_minute s)"
    using assms by (simp add: track_continuity_def)
  from accepted_ten_minute_record [OF sample_matches(1,2) this sample_update_fields(1,2) accepting_publish(2)]
  show ?thesis by blast
qed

theorem commit_before_view_witness:
  "\<exists>s' g. ingest_accept (logged accepting_ports) ingest_example_env sample_ten_minute (ingestor_init, (), []) =
     ((s', (), [g]), Inr ()) \<and> record_bytes sample_ten_minute \<in> sr_payload ` set g"
proof -
  obtain s' sr where acc: "ingest_accept (logged accepting_ports) ingest_example_env sample_ten_minute
      (ingestor_init, (), []) = ((s', (), [[sr]]), Inr ())"
    using sample_committed [of ingestor_init "[]"] by (auto simp: ingestor_init_def track_init_def)
  have start: "fst (foldl (ingest_step accepting_ports) (ingest_start ()) []) = (ingestor_init, (), [])"
    by (simp add: ingest_start_def)
  from commit_before_view [OF start acc] acc show ?thesis by auto
qed

abbreviation sample_wake :: ingest_event where
  "sample_wake \<equiv> Wake [Dma_batch 256 False [(ingest_example_env, sample_ten_minute)]]"

theorem families_published_whole_witness:
  "\<exists>s sr. fst (foldl (ingest_step accepting_ports) (ingest_start ()) [sample_wake]) = (s, (), [[sr]]) \<and>
     sr_payload sr = record_bytes sample_ten_minute"
proof -
  obtain s' sr where acc: "ingest_accept (logged accepting_ports) ingest_example_env sample_ten_minute
      (ingestor_init\<lparr>ri_dma_bytes := 256\<rparr>, (), []) = ((s', (), [[sr]]), Inr ())"
    using sample_committed [of "ingestor_init\<lparr>ri_dma_bytes := 256\<rparr>" "[]"]
    by (auto simp: ingestor_init_def track_init_def)
  have "ri_dma_bytes ingestor_init = 0"
    by (simp add: ingestor_init_def)
  then have run: "fst (foldl (ingest_step accepting_ports) (ingest_start ()) [sample_wake]) = (s', (), [[sr]])"
    using acc by (simp add: ingest_step_def ingest_start_def read_available_def eval_nat_numeral)
  from families_published_whole [OF run, of "[sr]"] run show ?thesis
    by (auto simp: event_records_def batch_records_def energy_group_def)
qed

theorem ingest_never_logic_error_witness:
  "tame_ports accepting_ports \<and>
   snd (read_available (logged accepting_ports) [] (fst (foldl (ingest_step accepting_ports) (ingest_start ())
     [sample_wake, New_epoch, sample_wake]))) \<noteq>
     Inl (Logic_error ''complete ENERGY family has a partial publication buffer'')"
  using ingest_never_logic_error [OF accepting_tame] accepting_tame by blast

definition example_old_view :: meter_period_view where
  "example_old_view = (view_init Min10)\<lparr>vw_latest_sequence := 8\<rparr>"

definition example_old_state :: record_ingestor where
  "example_old_state = ingestor_init\<lparr>ri_meter_data := (ri_meter_data ingestor_init)
     \<lparr>md_latest := [Min10 \<mapsto> example_old_view]\<rparr>\<rparr>"

theorem restarted_sequence_hides_readings_witness:
  "\<exists>t. ingest_accept accepting_ports ingest_example_env sample_ten_minute (begin_epoch example_old_state, ()) =
       ((t, ()), Inr ()) \<and>
     ri_meter_records t = ri_meter_records example_old_state + 1 \<and>
     md_latest (ri_meter_data t) Min10 = Some example_old_view"
  using restarted_sequence_hides_readings [OF sample_matches(1) _ sample_update_fields(1,2) accepting_publish(1),
      of example_old_state example_old_view]
  by (simp add: sample_update_fields sample_matches example_old_state_def) (simp add: example_old_view_def)

definition truncated_ten_minute :: meter_record where
  "truncated_ten_minute = \<lparr>words = (words sample_ten_minute)[3 := 6, 6 := 0]\<rparr>"

lemma truncated_fields:
  "matches_configuration ingest_example_env truncated_ten_minute"
  "record_format truncated_ten_minute = meter_ten_minute_format" "rec_sequence truncated_ten_minute = 6"
  "\<not> list_all fst (ten_minute_checks truncated_ten_minute)"
  "w32 truncated_ten_minute 1 = meter_ten_minute_format"
  by code_simp+

theorem gap_counted_twice_witness:
  "\<exists>t. ingest_accept accepting_ports ingest_example_env sample_ten_minute
        (fst (ingest_accept accepting_ports ingest_example_env truncated_ten_minute
          (ingestor_init\<lparr>ri_ten_minute := \<lparr>tk_last = Some 3, tk_gaps = 0\<rparr>\<rparr>, ()))) = ((t, ()), Inr ()) \<and>
     tk_gaps (ri_ten_minute t) = 5 \<and> tk_last (ri_ten_minute t) = Some 7"
proof -
  have "map_of builtin_decoders (w32 truncated_ten_minute 1) = Some decode_ten_minute_meter_record"
    unfolding truncated_fields(5) by (simp add: builtin_decoders_def)
  then have "registry_decode builtin_decoders truncated_ten_minute 5 =
      decode_ten_minute_meter_record truncated_ten_minute 5"
    by (simp add: registry_decode_def)
  then obtain e where e: "registry_decode builtin_decoders truncated_ten_minute (ie_received_at ingest_example_env) = Inl e"
    using truncated_fields(4) accepted_ten_minute [of truncated_ten_minute 5]
    by (cases "decode_ten_minute_meter_record truncated_ten_minute 5") (auto simp: ingest_example_env_def)
  show ?thesis
    using gap_counted_twice [OF truncated_fields(1) sample_matches(1) truncated_fields(2) sample_matches(2) _ _ _ _ _
        e sample_update_fields(1,2) accepting_publish(1), of
        "ingestor_init\<lparr>ri_ten_minute := \<lparr>tk_last = Some 3, tk_gaps = 0\<rparr>\<rparr>" 3 2]
    by (simp add: truncated_fields sample_matches)
qed
end
