(* ===== verification/Rpu_Protocol.thy ===== *)
theory Rpu_Protocol
  imports Meter_Record
begin

text \<open>
  The control protocol between the acquisition daemon and the real-time processors
  (\<^verbatim>\<open>common/msap1/acquisition/rpu\<close>): the packed structures of \<^verbatim>\<open>rpu_control_protocol.h\<close>, the frames and
  response decoders of \<^verbatim>\<open>protocol.cpp\<close> and the request/response matching of \<^verbatim>\<open>rpu_controller.cpp\<close>.
  A packed structure in memory is its fields in order, little-endian. What the endpoint receives while
  the deadline of a request has not passed is an argument, a list of outcomes.
\<close>

unbundle bit_operations_syntax

section \<open>Packed structures\<close>

definition le8 :: "u8 list \<Rightarrow> nat \<Rightarrow> u8" where
  "le8 bs off = bs ! off"

definition le16 :: "u8 list \<Rightarrow> nat \<Rightarrow> u16" where
  "le16 bs off = le_value (take 2 (drop off bs))"

definition le32 :: "u8 list \<Rightarrow> nat \<Rightarrow> u32" where
  "le32 bs off = le_value (take 4 (drop off bs))"

record rpu_msg_header =
  mh_magic :: u32
  mh_version :: u8
  mh_type :: u8
  mh_payload_len :: u16
  mh_sequence :: u32
  mh_status :: u32

definition rpu_msg_header_at :: "u8 list \<Rightarrow> nat \<Rightarrow> rpu_msg_header" where
  "rpu_msg_header_at bs off =
     \<lparr>mh_magic = le32 bs off,
      mh_version = le8 bs (off + 4),
      mh_type = le8 bs (off + 5),
      mh_payload_len = le16 bs (off + 6),
      mh_sequence = le32 bs (off + 8),
      mh_status = le32 bs (off + 12)\<rparr>"

definition rpu_msg_header_bytes :: "rpu_msg_header \<Rightarrow> u8 list" where
  "rpu_msg_header_bytes p =
     le_bytes 4 (mh_magic p) @
     le_bytes 1 (mh_version p) @
     le_bytes 1 (mh_type p) @
     le_bytes 2 (mh_payload_len p) @
     le_bytes 4 (mh_sequence p) @
     le_bytes 4 (mh_status p)"

record demand_config_payload =
  dc_method :: u32
  dc_window_seconds :: u32
  dc_update_seconds :: u32

definition demand_config_payload_bytes :: "demand_config_payload \<Rightarrow> u8 list" where
  "demand_config_payload_bytes p =
     le_bytes 4 (dc_method p) @
     le_bytes 4 (dc_window_seconds p) @
     le_bytes 4 (dc_update_seconds p)"

record demand_config_ack_payload =
  da_method :: u32
  da_window_seconds :: u32
  da_update_seconds :: u32
  da_profile_generation :: u32

definition demand_config_ack_payload_at :: "u8 list \<Rightarrow> nat \<Rightarrow> demand_config_ack_payload" where
  "demand_config_ack_payload_at bs off =
     \<lparr>da_method = le32 bs off,
      da_window_seconds = le32 bs (off + 4),
      da_update_seconds = le32 bs (off + 8),
      da_profile_generation = le32 bs (off + 12)\<rparr>"

record m18_event_profile =
  ep_flags :: u32
  ep_threshold_e4 :: u32
  ep_hysteresis_e4 :: u32
  ep_phase_mask :: u32
  ep_waveform_pretrigger_ms :: u32
  ep_waveform_posttrigger_ms :: u32
  ep_waveform_decimation :: u32

definition m18_event_profile_bytes :: "m18_event_profile \<Rightarrow> u8 list" where
  "m18_event_profile_bytes p =
     le_bytes 4 (ep_flags p) @
     le_bytes 4 (ep_threshold_e4 p) @
     le_bytes 4 (ep_hysteresis_e4 p) @
     le_bytes 4 (ep_phase_mask p) @
     le_bytes 4 (ep_waveform_pretrigger_ms p) @
     le_bytes 4 (ep_waveform_posttrigger_ms p) @
     le_bytes 4 (ep_waveform_decimation p)"

record m18_config_payload =
  mc_generation :: u32
  mc_event_profile_count :: u32
  mc_reference_current_microamperes :: u32
  mc_reference_voltage_microvolts :: u32
  mc_event :: "m18_event_profile list"
  mc_flicker_flags :: u32
  mc_flicker_phase_mask :: u32
  mc_flicker_lamp_voltage :: u32
  mc_flicker_live_cadence_ms :: u32
  mc_flicker_pst_interval_seconds :: u32
  mc_flicker_plt_pst_count :: u32
  mc_mains_flags :: u32
  mc_mains_carrier_millihz :: u32
  mc_mains_bandwidth_millihz :: u32
  mc_mains_observation_ms :: u32
  mc_mains_phase_mask :: u32
  mc_mains_threshold_e4 :: u32

definition m18_config_payload_bytes :: "m18_config_payload \<Rightarrow> u8 list" where
  "m18_config_payload_bytes p =
     le_bytes 4 (mc_generation p) @
     le_bytes 4 (mc_event_profile_count p) @
     le_bytes 4 (mc_reference_current_microamperes p) @
     le_bytes 4 (mc_reference_voltage_microvolts p) @
     concat (map (\<lambda>x. m18_event_profile_bytes x) (mc_event p)) @
     le_bytes 4 (mc_flicker_flags p) @
     le_bytes 4 (mc_flicker_phase_mask p) @
     le_bytes 4 (mc_flicker_lamp_voltage p) @
     le_bytes 4 (mc_flicker_live_cadence_ms p) @
     le_bytes 4 (mc_flicker_pst_interval_seconds p) @
     le_bytes 4 (mc_flicker_plt_pst_count p) @
     le_bytes 4 (mc_mains_flags p) @
     le_bytes 4 (mc_mains_carrier_millihz p) @
     le_bytes 4 (mc_mains_bandwidth_millihz p) @
     le_bytes 4 (mc_mains_observation_ms p) @
     le_bytes 4 (mc_mains_phase_mask p) @
     le_bytes 4 (mc_mains_threshold_e4 p)"

record m18_config_ack_payload =
  ma_generation :: u32
  ma_capability_flags :: u32

definition m18_config_ack_payload_at :: "u8 list \<Rightarrow> nat \<Rightarrow> m18_config_ack_payload" where
  "m18_config_ack_payload_at bs off =
     \<lparr>ma_generation = le32 bs off,
      ma_capability_flags = le32 bs (off + 4)\<rparr>"

record simulator_event_ack_payload =
  se_status :: u32
  se_remaining :: u32
  se_active_control :: u32
  se_active_scale :: u32
  se_active_timing :: u32

definition simulator_event_ack_payload_at :: "u8 list \<Rightarrow> nat \<Rightarrow> simulator_event_ack_payload" where
  "simulator_event_ack_payload_at bs off =
     \<lparr>se_status = le32 bs off,
      se_remaining = le32 bs (off + 4),
      se_active_control = le32 bs (off + 8),
      se_active_scale = le32 bs (off + 12),
      se_active_timing = le32 bs (off + 16)\<rparr>"

record meter_config_ack_payload =
  ka_generation :: u32
  ka_conversion_active_generation :: u32
  ka_processing_active_generation :: u32
  ka_conversion_status :: u32
  ka_processing_status :: u32
  ka_adc_source :: u32
  ka_simulator_active_generation :: u32
  ka_active_current_adc_phase_map :: u32
  ka_active_current_adc_invert_mask :: u32

definition meter_config_ack_payload_at :: "u8 list \<Rightarrow> nat \<Rightarrow> meter_config_ack_payload" where
  "meter_config_ack_payload_at bs off =
     \<lparr>ka_generation = le32 bs off,
      ka_conversion_active_generation = le32 bs (off + 4),
      ka_processing_active_generation = le32 bs (off + 8),
      ka_conversion_status = le32 bs (off + 12),
      ka_processing_status = le32 bs (off + 16),
      ka_adc_source = le32 bs (off + 20),
      ka_simulator_active_generation = le32 bs (off + 24),
      ka_active_current_adc_phase_map = le32 bs (off + 28),
      ka_active_current_adc_invert_mask = le32 bs (off + 32)\<rparr>"

record meter_config_payload =
  cp_generation :: u32
  cp_sample_rate_hz :: u32
  cp_rms_window_samples :: u32
  cp_valid_mask :: u32
  cp_scale_micro_units_q16 :: "u32 list"
  cp_flags :: u32
  cp_adc_pga_gain :: "u8 list"
  cp_frequency_flags :: u32
  cp_frequency_mode :: u32
  cp_frequency_reference_channel :: u32
  cp_frequency_averaging_cycles :: u32
  cp_frequency_window_samples :: u32
  cp_frequency_minimum_millihz :: u32
  cp_frequency_maximum_millihz :: u32
  cp_frequency_hysteresis_microvolts :: u32
  cp_adc_source :: u32
  cp_simulator_frequency_millihz :: u32
  cp_simulator_valid_mask :: u32
  cp_simulator_peak_counts :: "u32 list"
  cp_simulator_phase_q32 :: "u32 list"
  cp_simulator_phase_step_q32 :: u32
  cp_simulator_dc_offset_counts :: "u32 list"
  cp_simulator_noise_level_counts :: "u32 list"
  cp_simulator_harmonics :: "u32 list"
  cp_simulator_flags :: u32
  cp_nominal_frequency_hz :: u32
  cp_pq_reference_microvolts :: u32
  cp_pq_sag_threshold_e4 :: u32
  cp_pq_swell_threshold_e4 :: u32
  cp_pq_interruption_threshold_e4 :: u32
  cp_pq_hysteresis_e4 :: u32
  cp_simulator_am_frequency_millihz :: u32
  cp_simulator_am_depth_q16 :: u32
  cp_simulator_am_channel_mask :: u32
  cp_simulator_carrier_frequency_millihz :: u32
  cp_simulator_carrier_fraction_q16 :: u32
  cp_simulator_carrier_phase_mask :: u32
  cp_simulator_carrier_phase_q32 :: u32
  cp_simulator_adjacent_frequency_millihz :: u32
  cp_simulator_adjacent_fraction_q16 :: u32
  cp_simulator_adjacent_phase_q32 :: u32
  cp_current_adc_phase_map :: u32
  cp_current_adc_invert_mask :: u32

record adc_diagnostic_snapshot =
  ds_snapshot_flags :: u32
  ds_capture_flags :: u32
  ds_frame_count :: u32
  ds_packet_count :: u32
  ds_dclk_frequency_hz :: u32
  ds_drdy_frequency_hz :: u32
  ds_status_1 :: u8
  ds_status_2 :: u8
  ds_status_3 :: u8
  ds_general_user_config_1 :: u8
  ds_general_user_config_2 :: u8
  ds_general_user_config_3 :: u8
  ds_dout_format :: u8
  ds_channel_disable :: u8
  ds_buffer_config_1 :: u8
  ds_buffer_config_2 :: u8
  ds_src_n_msb :: u8
  ds_src_n_lsb :: u8
  ds_src_if_msb :: u8
  ds_src_if_lsb :: u8
  ds_src_update :: u8
  ds_reserved :: u8

definition adc_diagnostic_snapshot_at :: "u8 list \<Rightarrow> nat \<Rightarrow> adc_diagnostic_snapshot" where
  "adc_diagnostic_snapshot_at bs off =
     \<lparr>ds_snapshot_flags = le32 bs off,
      ds_capture_flags = le32 bs (off + 4),
      ds_frame_count = le32 bs (off + 8),
      ds_packet_count = le32 bs (off + 12),
      ds_dclk_frequency_hz = le32 bs (off + 16),
      ds_drdy_frequency_hz = le32 bs (off + 20),
      ds_status_1 = le8 bs (off + 24),
      ds_status_2 = le8 bs (off + 25),
      ds_status_3 = le8 bs (off + 26),
      ds_general_user_config_1 = le8 bs (off + 27),
      ds_general_user_config_2 = le8 bs (off + 28),
      ds_general_user_config_3 = le8 bs (off + 29),
      ds_dout_format = le8 bs (off + 30),
      ds_channel_disable = le8 bs (off + 31),
      ds_buffer_config_1 = le8 bs (off + 32),
      ds_buffer_config_2 = le8 bs (off + 33),
      ds_src_n_msb = le8 bs (off + 34),
      ds_src_n_lsb = le8 bs (off + 35),
      ds_src_if_msb = le8 bs (off + 36),
      ds_src_if_lsb = le8 bs (off + 37),
      ds_src_update = le8 bs (off + 38),
      ds_reserved = le8 bs (off + 39)\<rparr>"

record adc_diagnostic_payload =
  dp_flow :: u32
  dp_requested_sample_rate_hz :: u32
  dp_diagnostic_flags :: u32
  dp_diagnostic_error :: u32
  dp_failure_stage :: u32
  dp_reset_hold_ms :: u32
  dp_src_update_high_readback :: u8
  dp_src_update_low_readback :: u8
  dp_reserved :: "u8 list"
  dp_before :: adc_diagnostic_snapshot
  dp_reset_asserted :: adc_diagnostic_snapshot
  dp_reset_defaults :: adc_diagnostic_snapshot
  dp_after :: adc_diagnostic_snapshot

definition adc_diagnostic_payload_at :: "u8 list \<Rightarrow> nat \<Rightarrow> adc_diagnostic_payload" where
  "adc_diagnostic_payload_at bs off =
     \<lparr>dp_flow = le32 bs off,
      dp_requested_sample_rate_hz = le32 bs (off + 4),
      dp_diagnostic_flags = le32 bs (off + 8),
      dp_diagnostic_error = le32 bs (off + 12),
      dp_failure_stage = le32 bs (off + 16),
      dp_reset_hold_ms = le32 bs (off + 20),
      dp_src_update_high_readback = le8 bs (off + 24),
      dp_src_update_low_readback = le8 bs (off + 25),
      dp_reserved = map (\<lambda>i. le8 bs (off + 26 + i)) [0..<2],
      dp_before = adc_diagnostic_snapshot_at bs (off + 28),
      dp_reset_asserted = adc_diagnostic_snapshot_at bs (off + 68),
      dp_reset_defaults = adc_diagnostic_snapshot_at bs (off + 108),
      dp_after = adc_diagnostic_snapshot_at bs (off + 148)\<rparr>"

record adc_health_payload =
  ah_health_flags :: u32
  ah_sample_rate_hz :: u32
  ah_capture_flags :: u32
  ah_frame_count :: u32
  ah_overflow_count :: u32
  ah_header_error_count :: u32
  ah_alert_count :: u32
  ah_packet_count :: u32
  ah_dclk_frequency_hz :: u32
  ah_drdy_frequency_hz :: u32
  ah_spi_error :: u32
  ah_expected_decimation :: u16
  ah_status_3 :: u8
  ah_general_user_config_1 :: u8
  ah_general_user_config_2 :: u8
  ah_general_user_config_3 :: u8
  ah_dout_format :: u8
  ah_src_n_msb :: u8
  ah_src_n_lsb :: u8
  ah_src_if_msb :: u8
  ah_src_if_lsb :: u8
  ah_src_update :: u8
  ah_meter_health_flags :: u32
  ah_meter_generation :: u32
  ah_conversion_status :: u32
  ah_processing_status :: u32
  ah_channel_config :: "u8 list"
  ah_channel_error :: "u8 list"
  ah_saturation_error :: "u8 list"
  ah_channel_error_enable :: u8
  ah_general_error_1 :: u8
  ah_general_error_1_enable :: u8
  ah_general_error_2 :: u8
  ah_general_error_2_enable :: u8
  ah_status_1 :: u8
  ah_status_2 :: u8
  ah_channel_disable :: u8
  ah_channel_sync_offset :: "u8 list"
  ah_adc_mux_config :: u8
  ah_global_mux_config :: u8
  ah_gpio_config :: u8
  ah_gpio_data :: u8
  ah_buffer_config_1 :: u8
  ah_buffer_config_2 :: u8
  ah_channel_offset :: "u8 list list"
  ah_channel_gain :: "u8 list list"
  ah_spi_protocol_error_count :: u32
  ah_spi_retry_recovery_count :: u32
  ah_spi_config_read_mismatch_count :: u32
  ah_spi_general_error_1_events :: u32
  ah_spi_last_failed_register :: u8
  ah_spi_last_received_header :: u8
  ah_spi_general_error_1_sticky :: u8
  ah_spi_diagnostics_reserved :: "u8 list"
  ah_spi_header_histogram :: "u16 list"
  ah_adc_source :: u32
  ah_simulator_status :: u32
  ah_simulator_active_generation :: u32
  ah_simulator_frame_count :: u32
  ah_simulator_saturation_count :: u32
  ah_simulator_missed_sample_count :: u32
  ah_meter_requested_current_adc_phase_map :: u32
  ah_meter_requested_current_adc_invert_mask :: u32
  ah_meter_active_current_adc_phase_map :: u32
  ah_meter_active_current_adc_invert_mask :: u32
  ah_meter_wiring_apply_status :: u32
  ah_meter_wiring_readback_mismatch_count :: u32

definition adc_health_payload_at :: "u8 list \<Rightarrow> nat \<Rightarrow> adc_health_payload" where
  "adc_health_payload_at bs off =
     \<lparr>ah_health_flags = le32 bs off,
      ah_sample_rate_hz = le32 bs (off + 4),
      ah_capture_flags = le32 bs (off + 8),
      ah_frame_count = le32 bs (off + 12),
      ah_overflow_count = le32 bs (off + 16),
      ah_header_error_count = le32 bs (off + 20),
      ah_alert_count = le32 bs (off + 24),
      ah_packet_count = le32 bs (off + 28),
      ah_dclk_frequency_hz = le32 bs (off + 32),
      ah_drdy_frequency_hz = le32 bs (off + 36),
      ah_spi_error = le32 bs (off + 40),
      ah_expected_decimation = le16 bs (off + 44),
      ah_status_3 = le8 bs (off + 46),
      ah_general_user_config_1 = le8 bs (off + 47),
      ah_general_user_config_2 = le8 bs (off + 48),
      ah_general_user_config_3 = le8 bs (off + 49),
      ah_dout_format = le8 bs (off + 50),
      ah_src_n_msb = le8 bs (off + 51),
      ah_src_n_lsb = le8 bs (off + 52),
      ah_src_if_msb = le8 bs (off + 53),
      ah_src_if_lsb = le8 bs (off + 54),
      ah_src_update = le8 bs (off + 55),
      ah_meter_health_flags = le32 bs (off + 56),
      ah_meter_generation = le32 bs (off + 60),
      ah_conversion_status = le32 bs (off + 64),
      ah_processing_status = le32 bs (off + 68),
      ah_channel_config = map (\<lambda>i. le8 bs (off + 72 + i)) [0..<8],
      ah_channel_error = map (\<lambda>i. le8 bs (off + 80 + i)) [0..<8],
      ah_saturation_error = map (\<lambda>i. le8 bs (off + 88 + i)) [0..<4],
      ah_channel_error_enable = le8 bs (off + 92),
      ah_general_error_1 = le8 bs (off + 93),
      ah_general_error_1_enable = le8 bs (off + 94),
      ah_general_error_2 = le8 bs (off + 95),
      ah_general_error_2_enable = le8 bs (off + 96),
      ah_status_1 = le8 bs (off + 97),
      ah_status_2 = le8 bs (off + 98),
      ah_channel_disable = le8 bs (off + 99),
      ah_channel_sync_offset = map (\<lambda>i. le8 bs (off + 100 + i)) [0..<8],
      ah_adc_mux_config = le8 bs (off + 108),
      ah_global_mux_config = le8 bs (off + 109),
      ah_gpio_config = le8 bs (off + 110),
      ah_gpio_data = le8 bs (off + 111),
      ah_buffer_config_1 = le8 bs (off + 112),
      ah_buffer_config_2 = le8 bs (off + 113),
      ah_channel_offset = map (\<lambda>i. map (\<lambda>j. le8 bs (off + 114 + 3 * i + j)) [0..<3]) [0..<8],
      ah_channel_gain = map (\<lambda>i. map (\<lambda>j. le8 bs (off + 138 + 3 * i + j)) [0..<3]) [0..<8],
      ah_spi_protocol_error_count = le32 bs (off + 162),
      ah_spi_retry_recovery_count = le32 bs (off + 166),
      ah_spi_config_read_mismatch_count = le32 bs (off + 170),
      ah_spi_general_error_1_events = le32 bs (off + 174),
      ah_spi_last_failed_register = le8 bs (off + 178),
      ah_spi_last_received_header = le8 bs (off + 179),
      ah_spi_general_error_1_sticky = le8 bs (off + 180),
      ah_spi_diagnostics_reserved = map (\<lambda>i. le8 bs (off + 181 + i)) [0..<1],
      ah_spi_header_histogram = map (\<lambda>i. le16 bs (off + 182 + 2 * i)) [0..<16],
      ah_adc_source = le32 bs (off + 214),
      ah_simulator_status = le32 bs (off + 218),
      ah_simulator_active_generation = le32 bs (off + 222),
      ah_simulator_frame_count = le32 bs (off + 226),
      ah_simulator_saturation_count = le32 bs (off + 230),
      ah_simulator_missed_sample_count = le32 bs (off + 234),
      ah_meter_requested_current_adc_phase_map = le32 bs (off + 238),
      ah_meter_requested_current_adc_invert_mask = le32 bs (off + 242),
      ah_meter_active_current_adc_phase_map = le32 bs (off + 246),
      ah_meter_active_current_adc_invert_mask = le32 bs (off + 250),
      ah_meter_wiring_apply_status = le32 bs (off + 254),
      ah_meter_wiring_readback_mismatch_count = le32 bs (off + 258)\<rparr>"

record aggregation_health_payload =
  gh_health_flags :: u32
  gh_frames_received :: u32
  gh_frames_valid :: u32
  gh_frames_invalid :: u32
  gh_crc_errors :: u32
  gh_format_errors :: u32
  gh_sequence_gaps :: u32
  gh_repeated_frames :: u32
  gh_out_of_order_frames :: u32
  gh_ring_overflows :: u32
  gh_software_ring_push_failures :: u32
  gh_input_records_dropped :: u32
  gh_first_dropped_sequence :: u32
  gh_last_dropped_sequence :: u32
  gh_fifo_errors :: u32
  gh_length_errors :: u32
  gh_records_queued :: u32
  gh_records_emitted :: u32
  gh_output_errors :: u32
  gh_output_drops :: u32
  gh_basic_completed :: u32
  gh_aggregate_completed :: u32
  gh_ten_minute_completed :: u32
  gh_two_hour_completed :: u32
  gh_last_input_sequence :: u32
  gh_expected_input_sequence :: u32
  gh_last_output_sequence :: u32
  gh_last_fifo_error :: u32
  gh_last_frame_length :: u32
  gh_last_validation_error :: u32
  gh_last_tx_vacancy :: u32
  gh_software_ring_current :: u32
  gh_software_ring_high_water :: u32
  gh_software_ring_capacity :: u32
  gh_software_ring_pressure :: u32
  gh_software_ring_warning_entries :: u32
  gh_software_ring_high_entries :: u32
  gh_software_ring_critical_entries :: u32
  gh_software_ring_full_entries :: u32
  gh_hardware_fifo_current_words :: u32
  gh_hardware_fifo_high_water_words :: u32
  gh_hardware_fifo_full_events :: u32
  gh_input_wake_count :: u32
  gh_input_records_processed :: u32
  gh_input_max_batch :: u32
  gh_input_max_runtime_us :: u32
  gh_validator_wake_count :: u32
  gh_validator_records_processed :: u32
  gh_validator_max_runtime_us :: u32
  gh_validator_max_schedule_gap_us :: u32
  gh_control_stack_high_water_bytes :: u32
  gh_input_stack_high_water_bytes :: u32
  gh_output_stack_high_water_bytes :: u32
  gh_validator_stack_high_water_bytes :: u32

definition aggregation_health_payload_at :: "u8 list \<Rightarrow> nat \<Rightarrow> aggregation_health_payload" where
  "aggregation_health_payload_at bs off =
     \<lparr>gh_health_flags = le32 bs off,
      gh_frames_received = le32 bs (off + 4),
      gh_frames_valid = le32 bs (off + 8),
      gh_frames_invalid = le32 bs (off + 12),
      gh_crc_errors = le32 bs (off + 16),
      gh_format_errors = le32 bs (off + 20),
      gh_sequence_gaps = le32 bs (off + 24),
      gh_repeated_frames = le32 bs (off + 28),
      gh_out_of_order_frames = le32 bs (off + 32),
      gh_ring_overflows = le32 bs (off + 36),
      gh_software_ring_push_failures = le32 bs (off + 40),
      gh_input_records_dropped = le32 bs (off + 44),
      gh_first_dropped_sequence = le32 bs (off + 48),
      gh_last_dropped_sequence = le32 bs (off + 52),
      gh_fifo_errors = le32 bs (off + 56),
      gh_length_errors = le32 bs (off + 60),
      gh_records_queued = le32 bs (off + 64),
      gh_records_emitted = le32 bs (off + 68),
      gh_output_errors = le32 bs (off + 72),
      gh_output_drops = le32 bs (off + 76),
      gh_basic_completed = le32 bs (off + 80),
      gh_aggregate_completed = le32 bs (off + 84),
      gh_ten_minute_completed = le32 bs (off + 88),
      gh_two_hour_completed = le32 bs (off + 92),
      gh_last_input_sequence = le32 bs (off + 96),
      gh_expected_input_sequence = le32 bs (off + 100),
      gh_last_output_sequence = le32 bs (off + 104),
      gh_last_fifo_error = le32 bs (off + 108),
      gh_last_frame_length = le32 bs (off + 112),
      gh_last_validation_error = le32 bs (off + 116),
      gh_last_tx_vacancy = le32 bs (off + 120),
      gh_software_ring_current = le32 bs (off + 124),
      gh_software_ring_high_water = le32 bs (off + 128),
      gh_software_ring_capacity = le32 bs (off + 132),
      gh_software_ring_pressure = le32 bs (off + 136),
      gh_software_ring_warning_entries = le32 bs (off + 140),
      gh_software_ring_high_entries = le32 bs (off + 144),
      gh_software_ring_critical_entries = le32 bs (off + 148),
      gh_software_ring_full_entries = le32 bs (off + 152),
      gh_hardware_fifo_current_words = le32 bs (off + 156),
      gh_hardware_fifo_high_water_words = le32 bs (off + 160),
      gh_hardware_fifo_full_events = le32 bs (off + 164),
      gh_input_wake_count = le32 bs (off + 168),
      gh_input_records_processed = le32 bs (off + 172),
      gh_input_max_batch = le32 bs (off + 176),
      gh_input_max_runtime_us = le32 bs (off + 180),
      gh_validator_wake_count = le32 bs (off + 184),
      gh_validator_records_processed = le32 bs (off + 188),
      gh_validator_max_runtime_us = le32 bs (off + 192),
      gh_validator_max_schedule_gap_us = le32 bs (off + 196),
      gh_control_stack_high_water_bytes = le32 bs (off + 200),
      gh_input_stack_high_water_bytes = le32 bs (off + 204),
      gh_output_stack_high_water_bytes = le32 bs (off + 208),
      gh_validator_stack_high_water_bytes = le32 bs (off + 212)\<rparr>"

section \<open>Frames\<close>

abbreviation rpu_magic :: u32 where "rpu_magic \<equiv> 0x4d525055"
abbreviation rpu_version :: u8 where "rpu_version \<equiv> 11"
abbreviation rpu_max_frame_size :: nat where "rpu_max_frame_size \<equiv> 384"
abbreviation rpu_header_size :: nat where "rpu_header_size \<equiv> 16"
abbreviation rpu_status_ok :: u32 where "rpu_status_ok \<equiv> 0"

abbreviation rpu_msg_ack :: u8 where "rpu_msg_ack \<equiv> 6"
abbreviation rpu_msg_error :: u8 where "rpu_msg_error \<equiv> 7"
abbreviation rpu_msg_adc_health_get :: u8 where "rpu_msg_adc_health_get \<equiv> 11"
abbreviation rpu_msg_adc_health :: u8 where "rpu_msg_adc_health \<equiv> 12"
abbreviation rpu_msg_adc_diagnostic :: u8 where "rpu_msg_adc_diagnostic \<equiv> 15"
abbreviation rpu_msg_aggregation_health_get :: u8 where "rpu_msg_aggregation_health_get \<equiv> 17"
abbreviation rpu_msg_aggregation_health :: u8 where "rpu_msg_aggregation_health \<equiv> 18"
abbreviation rpu_msg_demand_config_set :: u8 where "rpu_msg_demand_config_set \<equiv> 19"
abbreviation rpu_msg_demand_config :: u8 where "rpu_msg_demand_config \<equiv> 20"
abbreviation rpu_msg_m18_config_set :: u8 where "rpu_msg_m18_config_set \<equiv> 21"
abbreviation rpu_msg_m18_config :: u8 where "rpu_msg_m18_config \<equiv> 22"

record rpu_message =
  msg_header :: rpu_msg_header
  msg_payload :: "u8 list"

text \<open>The payload is a pointer, possibly null, to the bytes and their number.\<close>

definition encode_request :: "u8 \<Rightarrow> u32 \<Rightarrow> u8 list option \<Rightarrow> nat \<Rightarrow> u8 list result" where
  "encode_request type sequence payload payload_size =
     (if payload_size > rpu_max_frame_size - rpu_header_size \<or> payload_size \<noteq> 0 \<and> payload = None
      then Inl (Invalid_argument ''invalid RPMsg request payload'')
      else Inr (rpu_msg_header_bytes
        \<lparr>mh_magic = rpu_magic, mh_version = rpu_version, mh_type = type,
         mh_payload_len = of_nat payload_size, mh_sequence = sequence, mh_status = rpu_status_ok\<rparr> @
        (if payload_size \<noteq> 0 then take payload_size (the payload) else [])))"

definition decode_message :: "u8 list \<Rightarrow> rpu_message result" where
  "decode_message frame =
     (if length frame < rpu_header_size \<or> length frame > rpu_max_frame_size
      then Inl (Runtime_error ''invalid RPMsg frame length'')
      else let header = rpu_msg_header_at frame 0 in
        if mh_magic header \<noteq> rpu_magic then Inl (Runtime_error ''invalid RPMsg magic'')
        else if mh_version header \<noteq> rpu_version
        then Inl (Runtime_error ''unsupported RPMsg protocol version'')
        else if rpu_header_size + unat (mh_payload_len header) \<noteq> length frame
        then Inl (Runtime_error ''RPMsg payload length mismatch'')
        else Inr \<lparr>msg_header = header, msg_payload = drop rpu_header_size frame\<rparr>)"

section \<open>Responses\<close>

text \<open>The test that every decoder starts with.\<close>

definition response_matches :: "u8 \<Rightarrow> nat \<Rightarrow> rpu_message \<Rightarrow> bool" where
  "response_matches type n message \<longleftrightarrow>
     mh_type (msg_header message) = type \<and> mh_status (msg_header message) = rpu_status_ok \<and>
     length (msg_payload message) = n"

definition decode_adc_health :: "rpu_message \<Rightarrow> adc_health_payload result" where
  "decode_adc_health message =
     (if \<not> response_matches rpu_msg_adc_health 262 message
      then Inl (Runtime_error ''message is not an ADC health response'')
      else Inr (adc_health_payload_at (msg_payload message) 0))"

definition decode_aggregation_health :: "rpu_message \<Rightarrow> aggregation_health_payload result" where
  "decode_aggregation_health message =
     (if \<not> response_matches rpu_msg_aggregation_health 216 message
      then Inl (Runtime_error ''message is not an aggregation health response'')
      else Inr (aggregation_health_payload_at (msg_payload message) 0))"

definition decode_demand_config_ack :: "rpu_message \<Rightarrow> demand_config_ack_payload result" where
  "decode_demand_config_ack message =
     (if \<not> response_matches rpu_msg_demand_config 16 message
      then Inl (Runtime_error ''message is not a demand configuration acknowledgement'')
      else let acknowledgement = demand_config_ack_payload_at (msg_payload message) 0 in
        if da_profile_generation acknowledgement = 0
        then Inl (Runtime_error ''R5C1 returned a zero demand profile generation'')
        else Inr acknowledgement)"

definition decode_m18_config_ack :: "rpu_message \<Rightarrow> m18_config_ack_payload result" where
  "decode_m18_config_ack message =
     (if \<not> response_matches rpu_msg_m18_config 8 message
      then Inl (Runtime_error ''message is not an M18 configuration acknowledgement'')
      else let acknowledgement = m18_config_ack_payload_at (msg_payload message) 0 in
        if ma_generation acknowledgement = 0
        then Inl (Runtime_error ''R5 returned a zero M18 configuration generation'')
        else Inr acknowledgement)"

definition decode_adc_diagnostic :: "rpu_message \<Rightarrow> adc_diagnostic_payload result" where
  "decode_adc_diagnostic message =
     (if \<not> response_matches rpu_msg_adc_diagnostic 188 message
      then Inl (Runtime_error ''message is not an ADC diagnostic response'')
      else Inr (adc_diagnostic_payload_at (msg_payload message) 0))"

definition decode_meter_config_ack :: "rpu_message \<Rightarrow> meter_config_ack_payload result" where
  "decode_meter_config_ack message =
     (if \<not> response_matches rpu_msg_ack 36 message
      then Inl (Runtime_error ''message is not a meter configuration acknowledgement'')
      else Inr (meter_config_ack_payload_at (msg_payload message) 0))"

definition decode_simulator_event_ack :: "rpu_message \<Rightarrow> simulator_event_ack_payload result" where
  "decode_simulator_event_ack message =
     (if \<not> response_matches rpu_msg_ack 20 message
      then Inl (Runtime_error ''message is not a simulator event acknowledgement'')
      else Inr (simulator_event_ack_payload_at (msg_payload message) 0))"

section \<open>Requests\<close>

record rpu_controller =
  rc_next_sequence :: u32

definition controller_init :: rpu_controller where
  "controller_init = \<lparr>rc_next_sequence = 0x90000000\<rparr>"

text \<open>
  One return of \<^verbatim>\<open>receive\<close> before the deadline: a frame, which is empty after a timeout or an interrupted
  call, or an exception. When the list is used up the deadline has passed.
\<close>

type_synonym reception = "u8 list result"

fun await_response :: "u32 \<Rightarrow> reception list \<Rightarrow> reception list \<times> rpu_message result" where
  "await_response sequence [] = ([], Inl (Runtime_error ''timed out waiting for RPU response''))"
| "await_response sequence (Inl e # rest) = (rest, Inl e)"
| "await_response sequence (Inr frame # rest) =
     (if frame = [] then await_response sequence rest
      else case decode_message frame of
        Inl e \<Rightarrow> (rest, Inl e)
      | Inr message \<Rightarrow>
          if mh_sequence (msg_header message) \<noteq> sequence then await_response sequence rest
          else if mh_type (msg_header message) = rpu_msg_error \<or>
            mh_status (msg_header message) \<noteq> rpu_status_ok
          then (rest, Inl (Runtime_error ''RPU rejected request''))
          else (rest, Inr message))"

text \<open>\<open>sent\<close> is what the endpoint does with the frame.\<close>

definition transact ::
    "rpu_controller \<Rightarrow> u8 \<Rightarrow> u8 list option \<Rightarrow> nat \<Rightarrow> (u8 list \<Rightarrow> unit result) \<Rightarrow> reception list \<Rightarrow>
     (rpu_controller \<times> reception list) \<times> rpu_message result" where
  "transact c type payload payload_size sent received =
     (let sequence = rc_next_sequence c + 1; next = c\<lparr>rc_next_sequence := sequence\<rparr> in
      case bind_result (encode_request type sequence payload payload_size) sent of
        Inl e \<Rightarrow> ((next, received), Inl e)
      | Inr _ \<Rightarrow> (case await_response sequence received of (rest, res) \<Rightarrow> ((next, rest), res)))"

definition query_health ::
    "rpu_controller \<Rightarrow> (u8 list \<Rightarrow> unit result) \<Rightarrow> reception list \<Rightarrow>
     (rpu_controller \<times> reception list) \<times> adc_health_payload result" where
  "query_health c sent received =
     (case transact c rpu_msg_adc_health_get None 0 sent received of
        (next, res) \<Rightarrow> (next, bind_result res decode_adc_health))"

definition query_aggregation_health ::
    "rpu_controller \<Rightarrow> (u8 list \<Rightarrow> unit result) \<Rightarrow> reception list \<Rightarrow>
     (rpu_controller \<times> reception list) \<times> aggregation_health_payload result" where
  "query_aggregation_health c sent received =
     (case transact c rpu_msg_aggregation_health_get None 0 sent received of
        (next, res) \<Rightarrow> (next, bind_result res decode_aggregation_health))"

section \<open>Properties of the protocol\<close>

lemma rpu_header_roundtrip:
  "rpu_msg_header_at (rpu_msg_header_bytes h @ rest) 0 = h" "length (rpu_msg_header_bytes h) = 16"
  by (simp_all add: rpu_msg_header_at_def rpu_msg_header_bytes_def le32_def le16_def le8_def
      nth_append le_value_le_bytes)

text \<open>
  Frames round-trip. Every payload that fits is encoded into a frame within the size limit, and
  decoding this frame gives back the type, the sequence number and exactly the payload.
\<close>

theorem rpu_request_roundtrip:
  assumes "length p \<le> 368"
  shows "\<exists>frame. encode_request type sequence (Some p) (length p) = Inr frame \<and> length frame \<le> 384 \<and>
    decode_message frame = Inr \<lparr>msg_header = \<lparr>mh_magic = rpu_magic, mh_version = rpu_version, mh_type = type,
      mh_payload_len = of_nat (length p), mh_sequence = sequence, mh_status = rpu_status_ok\<rparr>,
      msg_payload = p\<rparr>"
proof -
  let ?h = "\<lparr>mh_magic = rpu_magic, mh_version = rpu_version, mh_type = type,
      mh_payload_len = of_nat (length p), mh_sequence = sequence, mh_status = rpu_status_ok\<rparr>"
  have n: "unat (of_nat (length p) :: u16) = length p"
    using assms by (simp add: unat_of_nat take_bit_nat_eq_self)
  have "encode_request type sequence (Some p) (length p) = Inr (rpu_msg_header_bytes ?h @ p)"
    using assms by (simp add: encode_request_def)
  moreover have "decode_message (rpu_msg_header_bytes ?h @ p) = Inr \<lparr>msg_header = ?h, msg_payload = p\<rparr>"
    using assms n by (simp add: decode_message_def rpu_header_roundtrip Let_def)
  ultimately show ?thesis
    using assms by (simp add: rpu_header_roundtrip(2))
qed

theorem rpu_request_roundtrip_witness:
  "\<exists>frame. encode_request 19 7 (Some [1, 2, 3]) 3 = Inr frame \<and>
     map_sum id msg_payload (decode_message frame) = Inr [1, 2, 3]"
proof -
  obtain frame where "encode_request 19 7 (Some [1, 2, 3]) 3 = Inr frame"
    "decode_message frame = Inr \<lparr>msg_header = \<lparr>mh_magic = rpu_magic, mh_version = rpu_version, mh_type = 19,
      mh_payload_len = 3, mh_sequence = 7, mh_status = rpu_status_ok\<rparr>, msg_payload = [1, 2, 3]\<rparr>"
    using rpu_request_roundtrip [of "[1, 2, 3]" 19 7] by (auto simp: eval_nat_numeral)
  then show ?thesis by (intro exI [of _ frame]) simp
qed

text \<open>What is passed over while a response is awaited.\<close>

definition passed_over :: "u32 \<Rightarrow> reception \<Rightarrow> bool" where
  "passed_over sequence rx \<longleftrightarrow>
     (case rx of Inl _ \<Rightarrow> False
      | Inr frame \<Rightarrow> frame = [] \<or>
          (case decode_message frame of Inl _ \<Rightarrow> False
           | Inr message \<Rightarrow> mh_sequence (msg_header message) \<noteq> sequence))"

lemma await_passed: "passed_over sequence x \<Longrightarrow> await_response sequence (x # xs) = await_response sequence xs"
  by (cases x) (auto simp: passed_over_def split: sum.splits)

lemma await_taken:
  assumes "\<not> passed_over sequence x"
  shows "await_response sequence (x # xs) = (rest, Inr m) \<longleftrightarrow>
    (\<exists>frame. x = Inr frame \<and> xs = rest \<and> frame \<noteq> [] \<and> decode_message frame = Inr m \<and>
      mh_sequence (msg_header m) = sequence \<and> mh_type (msg_header m) \<noteq> rpu_msg_error \<and>
      mh_status (msg_header m) = rpu_status_ok)"
  using assms by (cases x) (auto simp: passed_over_def split: sum.splits)

lemma await_response_iff:
  "await_response sequence rx = (rest, Inr m) \<longleftrightarrow>
   (\<exists>skipped frame. rx = skipped @ Inr frame # rest \<and> list_all (passed_over sequence) skipped \<and>
      frame \<noteq> [] \<and> decode_message frame = Inr m \<and> mh_sequence (msg_header m) = sequence \<and>
      mh_type (msg_header m) \<noteq> rpu_msg_error \<and> mh_status (msg_header m) = rpu_status_ok)"
  (is "?L rx \<longleftrightarrow> ?R rx")
proof (induction rx)
  case (Cons x xs)
  show ?case
  proof (cases "passed_over sequence x")
    case True
    then have "x \<noteq> Inr frame" if "frame \<noteq> []" "decode_message frame = Inr m" "mh_sequence (msg_header m) = sequence"
      for frame
      using that by (auto simp: passed_over_def)
    then show ?thesis
      unfolding await_passed [OF True] Cons.IH using True by (fastforce simp: Cons_eq_append_conv)
  next
    case False
    then show ?thesis
      unfolding await_taken [OF False] by (auto simp: Cons_eq_append_conv)
  qed
qed simp

text \<open>
  C14. A response belongs to its request. A request returns a message exactly when the frame could be
  sent and this message is the first one received that carries the sequence number of the request, is
  no error report and has the status OK; before it there were only empty receptions and well-formed
  messages of other requests. A late answer to an earlier request is never taken for the new one.
\<close>

theorem transact_answers_request:
  "(\<exists>c'. transact c type payload n sent rx = ((c', rest), Inr m)) \<longleftrightarrow>
   (\<exists>sending. encode_request type (rc_next_sequence c + 1) payload n = Inr sending \<and> sent sending = Inr ()) \<and>
   (\<exists>skipped frame. rx = skipped @ Inr frame # rest \<and>
      list_all (passed_over (rc_next_sequence c + 1)) skipped \<and> frame \<noteq> [] \<and>
      decode_message frame = Inr m \<and> mh_sequence (msg_header m) = rc_next_sequence c + 1 \<and>
      mh_type (msg_header m) \<noteq> rpu_msg_error \<and> mh_status (msg_header m) = rpu_status_ok)"
proof -
  have "(\<exists>c'. transact c type payload n sent rx = ((c', rest), Inr m)) \<longleftrightarrow>
      bind_result (encode_request type (rc_next_sequence c + 1) payload n) sent = Inr () \<and>
      await_response (rc_next_sequence c + 1) rx = (rest, Inr m)"
    by (auto simp: transact_def Let_def split: sum.splits prod.splits)
  also have "bind_result (encode_request type (rc_next_sequence c + 1) payload n) sent = Inr () \<longleftrightarrow>
      (\<exists>sending. encode_request type (rc_next_sequence c + 1) payload n = Inr sending \<and> sent sending = Inr ())"
    by (cases "encode_request type (rc_next_sequence c + 1) payload n") auto
  finally show ?thesis
    unfolding await_response_iff .
qed

end
