(* ===== verification/Meter_Attributes.thy ===== *)
theory Meter_Attributes
  imports Msap1_Prelude
begin

text \<open>
  The protocol-independent measurement vocabulary
  (\<^verbatim>\<open>common/mnc/MeterDataProvider/attributes/meter_attribute.hpp\<close>, \<^verbatim>\<open>meter_attribute_catalog.cpp\<close>,
  \<^verbatim>\<open>meter_attribute_set.hpp\<close>, \<^verbatim>\<open>snapshot/meter_snapshot.hpp\<close>): attribute identities, the catalog with its
  stable external names, units and groups, the capability matrix and the ordered attribute set.
  An attribute id is the value of \<^verbatim>\<open>enum class MeterAttributeId : std::uint16_t\<close>; the enumerators are
  abbreviations in the order of the enum.
\<close>

section \<open>Identities\<close>

type_synonym meter_attribute_id = u16

abbreviation (input) Id_Frequency :: meter_attribute_id where "Id_Frequency \<equiv> 0"
abbreviation (input) Id_VanRms :: meter_attribute_id where "Id_VanRms \<equiv> 1"
abbreviation (input) Id_VbnRms :: meter_attribute_id where "Id_VbnRms \<equiv> 2"
abbreviation (input) Id_VcnRms :: meter_attribute_id where "Id_VcnRms \<equiv> 3"
abbreviation (input) Id_VabRms :: meter_attribute_id where "Id_VabRms \<equiv> 4"
abbreviation (input) Id_VbcRms :: meter_attribute_id where "Id_VbcRms \<equiv> 5"
abbreviation (input) Id_VcaRms :: meter_attribute_id where "Id_VcaRms \<equiv> 6"
abbreviation (input) Id_IaRms :: meter_attribute_id where "Id_IaRms \<equiv> 7"
abbreviation (input) Id_IbRms :: meter_attribute_id where "Id_IbRms \<equiv> 8"
abbreviation (input) Id_IcRms :: meter_attribute_id where "Id_IcRms \<equiv> 9"
abbreviation (input) Id_InRms :: meter_attribute_id where "Id_InRms \<equiv> 10"
abbreviation (input) Id_ActivePowerA :: meter_attribute_id where "Id_ActivePowerA \<equiv> 11"
abbreviation (input) Id_ActivePowerB :: meter_attribute_id where "Id_ActivePowerB \<equiv> 12"
abbreviation (input) Id_ActivePowerC :: meter_attribute_id where "Id_ActivePowerC \<equiv> 13"
abbreviation (input) Id_ActivePowerTotal :: meter_attribute_id where "Id_ActivePowerTotal \<equiv> 14"
abbreviation (input) Id_ApparentPowerA :: meter_attribute_id where "Id_ApparentPowerA \<equiv> 15"
abbreviation (input) Id_ApparentPowerB :: meter_attribute_id where "Id_ApparentPowerB \<equiv> 16"
abbreviation (input) Id_ApparentPowerC :: meter_attribute_id where "Id_ApparentPowerC \<equiv> 17"
abbreviation (input) Id_ApparentPowerTotal :: meter_attribute_id where "Id_ApparentPowerTotal \<equiv> 18"
abbreviation (input) Id_PowerFactorA :: meter_attribute_id where "Id_PowerFactorA \<equiv> 19"
abbreviation (input) Id_PowerFactorB :: meter_attribute_id where "Id_PowerFactorB \<equiv> 20"
abbreviation (input) Id_PowerFactorC :: meter_attribute_id where "Id_PowerFactorC \<equiv> 21"
abbreviation (input) Id_PowerFactorTotal :: meter_attribute_id where "Id_PowerFactorTotal \<equiv> 22"
abbreviation (input) Id_ReactivePowerA :: meter_attribute_id where "Id_ReactivePowerA \<equiv> 23"
abbreviation (input) Id_ReactivePowerB :: meter_attribute_id where "Id_ReactivePowerB \<equiv> 24"
abbreviation (input) Id_ReactivePowerC :: meter_attribute_id where "Id_ReactivePowerC \<equiv> 25"
abbreviation (input) Id_ReactivePowerTotal :: meter_attribute_id where "Id_ReactivePowerTotal \<equiv> 26"
abbreviation (input) Id_DisplacementPowerFactorA :: meter_attribute_id where "Id_DisplacementPowerFactorA \<equiv> 27"
abbreviation (input) Id_DisplacementPowerFactorB :: meter_attribute_id where "Id_DisplacementPowerFactorB \<equiv> 28"
abbreviation (input) Id_DisplacementPowerFactorC :: meter_attribute_id where "Id_DisplacementPowerFactorC \<equiv> 29"
abbreviation (input) Id_DisplacementPowerFactorTotal :: meter_attribute_id where "Id_DisplacementPowerFactorTotal \<equiv> 30"
abbreviation (input) Id_VoltagePhaseAngleA :: meter_attribute_id where "Id_VoltagePhaseAngleA \<equiv> 31"
abbreviation (input) Id_VoltagePhaseAngleB :: meter_attribute_id where "Id_VoltagePhaseAngleB \<equiv> 32"
abbreviation (input) Id_VoltagePhaseAngleC :: meter_attribute_id where "Id_VoltagePhaseAngleC \<equiv> 33"
abbreviation (input) Id_CurrentPhaseAngleA :: meter_attribute_id where "Id_CurrentPhaseAngleA \<equiv> 34"
abbreviation (input) Id_CurrentPhaseAngleB :: meter_attribute_id where "Id_CurrentPhaseAngleB \<equiv> 35"
abbreviation (input) Id_CurrentPhaseAngleC :: meter_attribute_id where "Id_CurrentPhaseAngleC \<equiv> 36"
abbreviation (input) Id_VoltageUnbalance :: meter_attribute_id where "Id_VoltageUnbalance \<equiv> 37"
abbreviation (input) Id_CurrentUnbalance :: meter_attribute_id where "Id_CurrentUnbalance \<equiv> 38"
abbreviation (input) Id_VoltageZeroSequenceRatio :: meter_attribute_id where "Id_VoltageZeroSequenceRatio \<equiv> 39"
abbreviation (input) Id_CurrentZeroSequenceRatio :: meter_attribute_id where "Id_CurrentZeroSequenceRatio \<equiv> 40"
abbreviation (input) Id_ZeroSequenceVoltage :: meter_attribute_id where "Id_ZeroSequenceVoltage \<equiv> 41"
abbreviation (input) Id_PositiveSequenceVoltage :: meter_attribute_id where "Id_PositiveSequenceVoltage \<equiv> 42"
abbreviation (input) Id_NegativeSequenceVoltage :: meter_attribute_id where "Id_NegativeSequenceVoltage \<equiv> 43"
abbreviation (input) Id_ZeroSequenceCurrent :: meter_attribute_id where "Id_ZeroSequenceCurrent \<equiv> 44"
abbreviation (input) Id_PositiveSequenceCurrent :: meter_attribute_id where "Id_PositiveSequenceCurrent \<equiv> 45"
abbreviation (input) Id_NegativeSequenceCurrent :: meter_attribute_id where "Id_NegativeSequenceCurrent \<equiv> 46"
abbreviation (input) Id_ActiveImportEnergyA :: meter_attribute_id where "Id_ActiveImportEnergyA \<equiv> 47"
abbreviation (input) Id_ActiveImportEnergyB :: meter_attribute_id where "Id_ActiveImportEnergyB \<equiv> 48"
abbreviation (input) Id_ActiveImportEnergyC :: meter_attribute_id where "Id_ActiveImportEnergyC \<equiv> 49"
abbreviation (input) Id_ActiveImportEnergyTotal :: meter_attribute_id where "Id_ActiveImportEnergyTotal \<equiv> 50"
abbreviation (input) Id_ActiveExportEnergyA :: meter_attribute_id where "Id_ActiveExportEnergyA \<equiv> 51"
abbreviation (input) Id_ActiveExportEnergyB :: meter_attribute_id where "Id_ActiveExportEnergyB \<equiv> 52"
abbreviation (input) Id_ActiveExportEnergyC :: meter_attribute_id where "Id_ActiveExportEnergyC \<equiv> 53"
abbreviation (input) Id_ActiveExportEnergyTotal :: meter_attribute_id where "Id_ActiveExportEnergyTotal \<equiv> 54"
abbreviation (input) Id_ApparentEnergyA :: meter_attribute_id where "Id_ApparentEnergyA \<equiv> 55"
abbreviation (input) Id_ApparentEnergyB :: meter_attribute_id where "Id_ApparentEnergyB \<equiv> 56"
abbreviation (input) Id_ApparentEnergyC :: meter_attribute_id where "Id_ApparentEnergyC \<equiv> 57"
abbreviation (input) Id_ApparentEnergyTotal :: meter_attribute_id where "Id_ApparentEnergyTotal \<equiv> 58"
abbreviation (input) Id_ReactiveEnergyQuadrantIA :: meter_attribute_id where "Id_ReactiveEnergyQuadrantIA \<equiv> 59"
abbreviation (input) Id_ReactiveEnergyQuadrantIB :: meter_attribute_id where "Id_ReactiveEnergyQuadrantIB \<equiv> 60"
abbreviation (input) Id_ReactiveEnergyQuadrantIC :: meter_attribute_id where "Id_ReactiveEnergyQuadrantIC \<equiv> 61"
abbreviation (input) Id_ReactiveEnergyQuadrantITotal :: meter_attribute_id where "Id_ReactiveEnergyQuadrantITotal \<equiv> 62"
abbreviation (input) Id_ReactiveEnergyQuadrantIIA :: meter_attribute_id where "Id_ReactiveEnergyQuadrantIIA \<equiv> 63"
abbreviation (input) Id_ReactiveEnergyQuadrantIIB :: meter_attribute_id where "Id_ReactiveEnergyQuadrantIIB \<equiv> 64"
abbreviation (input) Id_ReactiveEnergyQuadrantIIC :: meter_attribute_id where "Id_ReactiveEnergyQuadrantIIC \<equiv> 65"
abbreviation (input) Id_ReactiveEnergyQuadrantIITotal :: meter_attribute_id where "Id_ReactiveEnergyQuadrantIITotal \<equiv> 66"
abbreviation (input) Id_ReactiveEnergyQuadrantIIIA :: meter_attribute_id where "Id_ReactiveEnergyQuadrantIIIA \<equiv> 67"
abbreviation (input) Id_ReactiveEnergyQuadrantIIIB :: meter_attribute_id where "Id_ReactiveEnergyQuadrantIIIB \<equiv> 68"
abbreviation (input) Id_ReactiveEnergyQuadrantIIIC :: meter_attribute_id where "Id_ReactiveEnergyQuadrantIIIC \<equiv> 69"
abbreviation (input) Id_ReactiveEnergyQuadrantIIITotal :: meter_attribute_id where "Id_ReactiveEnergyQuadrantIIITotal \<equiv> 70"
abbreviation (input) Id_ReactiveEnergyQuadrantIVA :: meter_attribute_id where "Id_ReactiveEnergyQuadrantIVA \<equiv> 71"
abbreviation (input) Id_ReactiveEnergyQuadrantIVB :: meter_attribute_id where "Id_ReactiveEnergyQuadrantIVB \<equiv> 72"
abbreviation (input) Id_ReactiveEnergyQuadrantIVC :: meter_attribute_id where "Id_ReactiveEnergyQuadrantIVC \<equiv> 73"
abbreviation (input) Id_ReactiveEnergyQuadrantIVTotal :: meter_attribute_id where "Id_ReactiveEnergyQuadrantIVTotal \<equiv> 74"
abbreviation (input) Id_CurrentActiveDemandA :: meter_attribute_id where "Id_CurrentActiveDemandA \<equiv> 75"
abbreviation (input) Id_CurrentActiveDemandB :: meter_attribute_id where "Id_CurrentActiveDemandB \<equiv> 76"
abbreviation (input) Id_CurrentActiveDemandC :: meter_attribute_id where "Id_CurrentActiveDemandC \<equiv> 77"
abbreviation (input) Id_CurrentActiveDemandTotal :: meter_attribute_id where "Id_CurrentActiveDemandTotal \<equiv> 78"
abbreviation (input) Id_ImportDemandPeakA :: meter_attribute_id where "Id_ImportDemandPeakA \<equiv> 79"
abbreviation (input) Id_ImportDemandPeakB :: meter_attribute_id where "Id_ImportDemandPeakB \<equiv> 80"
abbreviation (input) Id_ImportDemandPeakC :: meter_attribute_id where "Id_ImportDemandPeakC \<equiv> 81"
abbreviation (input) Id_ImportDemandPeakTotal :: meter_attribute_id where "Id_ImportDemandPeakTotal \<equiv> 82"
abbreviation (input) Id_ExportDemandPeakA :: meter_attribute_id where "Id_ExportDemandPeakA \<equiv> 83"
abbreviation (input) Id_ExportDemandPeakB :: meter_attribute_id where "Id_ExportDemandPeakB \<equiv> 84"
abbreviation (input) Id_ExportDemandPeakC :: meter_attribute_id where "Id_ExportDemandPeakC \<equiv> 85"
abbreviation (input) Id_ExportDemandPeakTotal :: meter_attribute_id where "Id_ExportDemandPeakTotal \<equiv> 86"
abbreviation (input) Id_FundamentalVoltageA :: meter_attribute_id where "Id_FundamentalVoltageA \<equiv> 87"
abbreviation (input) Id_FundamentalVoltageB :: meter_attribute_id where "Id_FundamentalVoltageB \<equiv> 88"
abbreviation (input) Id_FundamentalVoltageC :: meter_attribute_id where "Id_FundamentalVoltageC \<equiv> 89"
abbreviation (input) Id_FundamentalVoltageLlAB :: meter_attribute_id where "Id_FundamentalVoltageLlAB \<equiv> 90"
abbreviation (input) Id_FundamentalVoltageLlBC :: meter_attribute_id where "Id_FundamentalVoltageLlBC \<equiv> 91"
abbreviation (input) Id_FundamentalVoltageLlCA :: meter_attribute_id where "Id_FundamentalVoltageLlCA \<equiv> 92"
abbreviation (input) Id_FundamentalCurrentA :: meter_attribute_id where "Id_FundamentalCurrentA \<equiv> 93"
abbreviation (input) Id_FundamentalCurrentB :: meter_attribute_id where "Id_FundamentalCurrentB \<equiv> 94"
abbreviation (input) Id_FundamentalCurrentC :: meter_attribute_id where "Id_FundamentalCurrentC \<equiv> 95"
abbreviation (input) Id_FundamentalCurrentN :: meter_attribute_id where "Id_FundamentalCurrentN \<equiv> 96"
abbreviation (input) Id_VoltageCrestA :: meter_attribute_id where "Id_VoltageCrestA \<equiv> 97"
abbreviation (input) Id_VoltageCrestB :: meter_attribute_id where "Id_VoltageCrestB \<equiv> 98"
abbreviation (input) Id_VoltageCrestC :: meter_attribute_id where "Id_VoltageCrestC \<equiv> 99"
abbreviation (input) Id_CurrentCrestA :: meter_attribute_id where "Id_CurrentCrestA \<equiv> 100"
abbreviation (input) Id_CurrentCrestB :: meter_attribute_id where "Id_CurrentCrestB \<equiv> 101"
abbreviation (input) Id_CurrentCrestC :: meter_attribute_id where "Id_CurrentCrestC \<equiv> 102"
abbreviation (input) Id_CurrentCrestN :: meter_attribute_id where "Id_CurrentCrestN \<equiv> 103"
abbreviation (input) Id_FundamentalActivePowerA :: meter_attribute_id where "Id_FundamentalActivePowerA \<equiv> 104"
abbreviation (input) Id_FundamentalActivePowerB :: meter_attribute_id where "Id_FundamentalActivePowerB \<equiv> 105"
abbreviation (input) Id_FundamentalActivePowerC :: meter_attribute_id where "Id_FundamentalActivePowerC \<equiv> 106"
abbreviation (input) Id_FundamentalActivePowerTotal :: meter_attribute_id where "Id_FundamentalActivePowerTotal \<equiv> 107"
abbreviation (input) Id_CurrentPhaseAngleN :: meter_attribute_id where "Id_CurrentPhaseAngleN \<equiv> 108"
abbreviation (input) Id_VoltageLlPhaseAngleAB :: meter_attribute_id where "Id_VoltageLlPhaseAngleAB \<equiv> 109"
abbreviation (input) Id_VoltageLlPhaseAngleBC :: meter_attribute_id where "Id_VoltageLlPhaseAngleBC \<equiv> 110"
abbreviation (input) Id_VoltageLlPhaseAngleCA :: meter_attribute_id where "Id_VoltageLlPhaseAngleCA \<equiv> 111"
abbreviation (input) Id_DisplacementAngleA :: meter_attribute_id where "Id_DisplacementAngleA \<equiv> 112"
abbreviation (input) Id_DisplacementAngleB :: meter_attribute_id where "Id_DisplacementAngleB \<equiv> 113"
abbreviation (input) Id_DisplacementAngleC :: meter_attribute_id where "Id_DisplacementAngleC \<equiv> 114"
abbreviation (input) Id_VoltageZeroSequenceAngle :: meter_attribute_id where "Id_VoltageZeroSequenceAngle \<equiv> 115"
abbreviation (input) Id_VoltagePositiveSequenceAngle :: meter_attribute_id where "Id_VoltagePositiveSequenceAngle \<equiv> 116"
abbreviation (input) Id_VoltageNegativeSequenceAngle :: meter_attribute_id where "Id_VoltageNegativeSequenceAngle \<equiv> 117"
abbreviation (input) Id_CurrentZeroSequenceAngle :: meter_attribute_id where "Id_CurrentZeroSequenceAngle \<equiv> 118"
abbreviation (input) Id_CurrentPositiveSequenceAngle :: meter_attribute_id where "Id_CurrentPositiveSequenceAngle \<equiv> 119"
abbreviation (input) Id_CurrentNegativeSequenceAngle :: meter_attribute_id where "Id_CurrentNegativeSequenceAngle \<equiv> 120"
abbreviation (input) Id_LoadNatureA :: meter_attribute_id where "Id_LoadNatureA \<equiv> 121"
abbreviation (input) Id_LoadNatureB :: meter_attribute_id where "Id_LoadNatureB \<equiv> 122"
abbreviation (input) Id_LoadNatureC :: meter_attribute_id where "Id_LoadNatureC \<equiv> 123"
abbreviation (input) Id_LoadNatureTotal :: meter_attribute_id where "Id_LoadNatureTotal \<equiv> 124"

datatype meter_period =
    Period_Basic | Period_Cycles150_180 | Period_Min10 | Period_Hour2 | Period_Min10Live |
    Period_Hour2Live | Period_Demand | Period_Seconds10

record meter_attribute_key =
  ak_id :: meter_attribute_id
  ak_index :: "u16 option"

datatype meter_attribute_group =
    Group_Frequency | Group_VoltageLnRms | Group_VoltageLlRms | Group_CurrentRms |
    Group_Fundamental | Group_ActivePower | Group_ApparentPower | Group_PowerFactor |
    Group_ReactivePower | Group_DisplacementPowerFactor | Group_PhaseAngle | Group_Unbalance |
    Group_SequenceComponents | Group_Energy | Group_Demand | Group_CrestFactor |
    Group_LoadNature | Group_AllDefined

datatype meter_attribute_value_kind =
    Kind_Linear | Kind_CircularAngle | Kind_CumulativeCounter | Kind_Peak | Kind_Categorical

datatype meter_attribute_calculation =
    Calc_Minimum | Calc_Maximum | Calc_Average | Calc_Last | Calc_CircularAverage |
    Calc_First | Calc_Delta

datatype meter_attribute_usage =
    Usage_Snapshot | Usage_Historian

datatype meter_unit =
    Unit_MilliHertz | Unit_MicroVolts | Unit_MicroAmperes | Unit_Picowatts |
    Unit_PicoVoltAmperes | Unit_PowerFactorMillionths | Unit_Picovars | Unit_Millidegrees |
    Unit_RatioMillionths | Unit_MicroWattHours | Unit_MicroVarHours |
    Unit_MicroVoltAmpereHours | Unit_MicroWatts | Unit_CrestTenThousandths |
    Unit_CategoricalCode

datatype attribute_quality =
    Quality_Unavailable | Quality_Valid | Quality_Invalid | Quality_OutOfRange |
    Quality_TimedOut | Quality_ArithmeticError

record meter_attribute_descriptor =
  ad_attribute :: meter_attribute_key
  ad_key :: string
  ad_unit :: meter_unit
  ad_label :: string
  ad_group :: meter_attribute_group
  ad_value_kind :: meter_attribute_value_kind
  ad_calculations :: "meter_attribute_calculation list"
  ad_search_aliases :: "string list"

record measurement_period_descriptor =
  pd_period :: meter_period
  pd_key :: string
  pd_label :: string
  pd_snapshot :: bool
  pd_historian :: bool

section \<open>The catalog\<close>

definition attribute_key :: "meter_attribute_id \<Rightarrow> meter_attribute_key" where
  "attribute_key i = \<lparr>ak_id = i, ak_index = None\<rparr>"

definition catalog :: "meter_attribute_key list" where
  "catalog = map attribute_key [
     Id_Frequency, Id_VanRms, Id_VbnRms, Id_VcnRms, Id_VabRms, Id_VbcRms, Id_VcaRms, Id_IaRms,
     Id_IbRms, Id_IcRms, Id_InRms, Id_ActivePowerA, Id_ActivePowerB, Id_ActivePowerC,
     Id_ActivePowerTotal, Id_ApparentPowerA, Id_ApparentPowerB, Id_ApparentPowerC,
     Id_ApparentPowerTotal, Id_PowerFactorA, Id_PowerFactorB, Id_PowerFactorC,
     Id_PowerFactorTotal, Id_ReactivePowerA, Id_ReactivePowerB, Id_ReactivePowerC,
     Id_ReactivePowerTotal, Id_DisplacementPowerFactorA, Id_DisplacementPowerFactorB,
     Id_DisplacementPowerFactorC, Id_DisplacementPowerFactorTotal, Id_VoltagePhaseAngleA,
     Id_VoltagePhaseAngleB, Id_VoltagePhaseAngleC, Id_CurrentPhaseAngleA,
     Id_CurrentPhaseAngleB, Id_CurrentPhaseAngleC, Id_VoltageUnbalance, Id_CurrentUnbalance,
     Id_VoltageZeroSequenceRatio, Id_CurrentZeroSequenceRatio, Id_ZeroSequenceVoltage,
     Id_PositiveSequenceVoltage, Id_NegativeSequenceVoltage, Id_ZeroSequenceCurrent,
     Id_PositiveSequenceCurrent, Id_NegativeSequenceCurrent, Id_ActiveImportEnergyA,
     Id_ActiveImportEnergyB, Id_ActiveImportEnergyC, Id_ActiveImportEnergyTotal,
     Id_ActiveExportEnergyA, Id_ActiveExportEnergyB, Id_ActiveExportEnergyC,
     Id_ActiveExportEnergyTotal, Id_ApparentEnergyA, Id_ApparentEnergyB, Id_ApparentEnergyC,
     Id_ApparentEnergyTotal, Id_ReactiveEnergyQuadrantIA, Id_ReactiveEnergyQuadrantIB,
     Id_ReactiveEnergyQuadrantIC, Id_ReactiveEnergyQuadrantITotal,
     Id_ReactiveEnergyQuadrantIIA, Id_ReactiveEnergyQuadrantIIB, Id_ReactiveEnergyQuadrantIIC,
     Id_ReactiveEnergyQuadrantIITotal, Id_ReactiveEnergyQuadrantIIIA,
     Id_ReactiveEnergyQuadrantIIIB, Id_ReactiveEnergyQuadrantIIIC,
     Id_ReactiveEnergyQuadrantIIITotal, Id_ReactiveEnergyQuadrantIVA,
     Id_ReactiveEnergyQuadrantIVB, Id_ReactiveEnergyQuadrantIVC,
     Id_ReactiveEnergyQuadrantIVTotal, Id_CurrentActiveDemandA, Id_CurrentActiveDemandB,
     Id_CurrentActiveDemandC, Id_CurrentActiveDemandTotal, Id_ImportDemandPeakA,
     Id_ImportDemandPeakB, Id_ImportDemandPeakC, Id_ImportDemandPeakTotal,
     Id_ExportDemandPeakA, Id_ExportDemandPeakB, Id_ExportDemandPeakC,
     Id_ExportDemandPeakTotal, Id_FundamentalVoltageA, Id_FundamentalVoltageB,
     Id_FundamentalVoltageC, Id_FundamentalVoltageLlAB, Id_FundamentalVoltageLlBC,
     Id_FundamentalVoltageLlCA, Id_FundamentalCurrentA, Id_FundamentalCurrentB,
     Id_FundamentalCurrentC, Id_FundamentalCurrentN, Id_VoltageCrestA, Id_VoltageCrestB,
     Id_VoltageCrestC, Id_CurrentCrestA, Id_CurrentCrestB, Id_CurrentCrestC, Id_CurrentCrestN,
     Id_FundamentalActivePowerA, Id_FundamentalActivePowerB, Id_FundamentalActivePowerC,
     Id_FundamentalActivePowerTotal, Id_CurrentPhaseAngleN, Id_VoltageLlPhaseAngleAB,
     Id_VoltageLlPhaseAngleBC, Id_VoltageLlPhaseAngleCA, Id_DisplacementAngleA,
     Id_DisplacementAngleB, Id_DisplacementAngleC, Id_VoltageZeroSequenceAngle,
     Id_VoltagePositiveSequenceAngle, Id_VoltageNegativeSequenceAngle,
     Id_CurrentZeroSequenceAngle, Id_CurrentPositiveSequenceAngle,
     Id_CurrentNegativeSequenceAngle, Id_LoadNatureA, Id_LoadNatureB, Id_LoadNatureC,
     Id_LoadNatureTotal]"

definition labels :: "string list" where
  "labels = [
     ''Frequency'', ''Phase A line-to-neutral voltage'', ''Phase B line-to-neutral voltage'',
     ''Phase C line-to-neutral voltage'', ''Phase AB line-to-line voltage'',
     ''Phase BC line-to-line voltage'', ''Phase CA line-to-line voltage'', ''Phase A current'',
     ''Phase B current'', ''Phase C current'', ''Neutral current'', ''Phase A active power'',
     ''Phase B active power'', ''Phase C active power'', ''Total active power'',
     ''Phase A apparent power'', ''Phase B apparent power'', ''Phase C apparent power'',
     ''Total apparent power'', ''Phase A true power factor'', ''Phase B true power factor'',
     ''Phase C true power factor'', ''Total true power factor'',
     ''Phase A fundamental reactive power'', ''Phase B fundamental reactive power'',
     ''Phase C fundamental reactive power'', ''Total fundamental reactive power'',
     ''Phase A displacement power factor'', ''Phase B displacement power factor'',
     ''Phase C displacement power factor'', ''Total displacement power factor'',
     ''Phase A voltage angle'', ''Phase B voltage angle'', ''Phase C voltage angle'',
     ''Phase A current angle'', ''Phase B current angle'', ''Phase C current angle'',
     ''Voltage negative-sequence unbalance'', ''Current negative-sequence unbalance'',
     ''Voltage zero-sequence ratio'', ''Current zero-sequence ratio'',
     ''Zero-sequence voltage'', ''Positive-sequence voltage'', ''Negative-sequence voltage'',
     ''Zero-sequence current'', ''Positive-sequence current'', ''Negative-sequence current'',
     ''Phase A active import energy'', ''Phase B active import energy'',
     ''Phase C active import energy'', ''Total active import energy'',
     ''Phase A active export energy'', ''Phase B active export energy'',
     ''Phase C active export energy'', ''Total active export energy'',
     ''Phase A apparent energy'', ''Phase B apparent energy'', ''Phase C apparent energy'',
     ''Total apparent energy'', ''Phase A quadrant I reactive energy'',
     ''Phase B quadrant I reactive energy'', ''Phase C quadrant I reactive energy'',
     ''Total quadrant I reactive energy'', ''Phase A quadrant II reactive energy'',
     ''Phase B quadrant II reactive energy'', ''Phase C quadrant II reactive energy'',
     ''Total quadrant II reactive energy'', ''Phase A quadrant III reactive energy'',
     ''Phase B quadrant III reactive energy'', ''Phase C quadrant III reactive energy'',
     ''Total quadrant III reactive energy'', ''Phase A quadrant IV reactive energy'',
     ''Phase B quadrant IV reactive energy'', ''Phase C quadrant IV reactive energy'',
     ''Total quadrant IV reactive energy'', ''Phase A current active demand'',
     ''Phase B current active demand'', ''Phase C current active demand'',
     ''Total current active demand'', ''Phase A import demand peak'',
     ''Phase B import demand peak'', ''Phase C import demand peak'',
     ''Total import demand peak'', ''Phase A export demand peak'',
     ''Phase B export demand peak'', ''Phase C export demand peak'',
     ''Total export demand peak'', ''Phase A fundamental voltage'',
     ''Phase B fundamental voltage'', ''Phase C fundamental voltage'',
     ''Phase AB fundamental line-to-line voltage'',
     ''Phase BC fundamental line-to-line voltage'',
     ''Phase CA fundamental line-to-line voltage'', ''Phase A fundamental current'',
     ''Phase B fundamental current'', ''Phase C fundamental current'',
     ''Neutral fundamental current'', ''Phase A voltage crest factor'',
     ''Phase B voltage crest factor'', ''Phase C voltage crest factor'',
     ''Phase A current crest factor'', ''Phase B current crest factor'',
     ''Phase C current crest factor'', ''Neutral current crest factor'',
     ''Phase A fundamental active power'', ''Phase B fundamental active power'',
     ''Phase C fundamental active power'', ''Total fundamental active power'',
     ''Neutral current angle'', ''Phase AB voltage angle'', ''Phase BC voltage angle'',
     ''Phase CA voltage angle'', ''Phase A displacement angle'',
     ''Phase B displacement angle'', ''Phase C displacement angle'',
     ''Zero-sequence voltage angle'', ''Positive-sequence voltage angle'',
     ''Negative-sequence voltage angle'', ''Zero-sequence current angle'',
     ''Positive-sequence current angle'', ''Negative-sequence current angle'',
     ''Phase A load nature'', ''Phase B load nature'', ''Phase C load nature'',
     ''Total load nature'']"

definition linear_calculations :: "meter_attribute_calculation list" where
  "linear_calculations = [Calc_Minimum, Calc_Maximum, Calc_Average, Calc_Last]"

definition angle_calculations :: "meter_attribute_calculation list" where
  "angle_calculations = [Calc_CircularAverage, Calc_Last]"

definition counter_calculations :: "meter_attribute_calculation list" where
  "counter_calculations = [Calc_First, Calc_Last, Calc_Delta]"

definition peak_calculations :: "meter_attribute_calculation list" where
  "peak_calculations = [Calc_Last]"

definition categorical_calculations :: "meter_attribute_calculation list" where
  "categorical_calculations = [Calc_Last]"

definition frequency_aliases :: "string list" where
  "frequency_aliases = [''hz'', ''grid frequency'']"

definition voltage_aliases :: "string list" where
  "voltage_aliases = [''voltage'', ''volts'', ''rms'']"

definition current_aliases :: "string list" where
  "current_aliases = [''current'', ''amps'', ''rms'']"

definition active_power_aliases :: "string list" where
  "active_power_aliases = [''watts'', ''real power'', ''import export'']"

definition apparent_power_aliases :: "string list" where
  "apparent_power_aliases = [''va'', ''apparent power'']"

definition power_factor_aliases :: "string list" where
  "power_factor_aliases = [''pf'', ''power factor'']"

definition reactive_power_aliases :: "string list" where
  "reactive_power_aliases = [''var'', ''reactive power'', ''q1'']"

definition angle_aliases :: "string list" where
  "angle_aliases = [''angle'', ''phasor'', ''degrees'']"

definition unbalance_aliases :: "string list" where
  "unbalance_aliases = [''unbalance'', ''sequence ratio'']"

definition sequence_aliases :: "string list" where
  "sequence_aliases = [''symmetrical components'', ''sequence'']"

definition energy_aliases :: "string list" where
  "energy_aliases = [''energy'', ''counter'', ''watt hours'']"

definition demand_aliases :: "string list" where
  "demand_aliases = [''demand'', ''peak'', ''watts'']"

definition crest_aliases :: "string list" where
  "crest_aliases = [''crest'', ''peak rms ratio'']"

definition fundamental_aliases :: "string list" where
  "fundamental_aliases = [''fundamental'', ''h1'']"

definition load_nature_aliases :: "string list" where
  "load_nature_aliases = [''load nature'', ''leading lagging'']"

definition period_catalog :: "measurement_period_descriptor list" where
  "period_catalog = [
     \<lparr>pd_period = Period_Basic, pd_key = ''basic'', pd_label = ''Basic (10/12 cycles)'',
       pd_snapshot = True, pd_historian = True\<rparr>,
     \<lparr>pd_period = Period_Seconds10, pd_key = ''seconds_10'', pd_label = ''10 seconds'',
       pd_snapshot = True, pd_historian = True\<rparr>,
     \<lparr>pd_period = Period_Cycles150_180, pd_key = ''cycles_150_180'', pd_label = ''150/180 cycles'',
       pd_snapshot = True, pd_historian = True\<rparr>,
     \<lparr>pd_period = Period_Min10, pd_key = ''minutes_10'', pd_label = ''10 minutes'',
       pd_snapshot = True, pd_historian = True\<rparr>,
     \<lparr>pd_period = Period_Hour2, pd_key = ''hours_2'', pd_label = ''2 hours'',
       pd_snapshot = True, pd_historian = True\<rparr>,
     \<lparr>pd_period = Period_Demand, pd_key = ''demand'', pd_label = ''Demand'',
       pd_snapshot = True, pd_historian = True\<rparr>,
     \<lparr>pd_period = Period_Min10Live, pd_key = ''minutes_10_live'', pd_label = ''Open 10-minute preview'',
       pd_snapshot = True, pd_historian = False\<rparr>,
     \<lparr>pd_period = Period_Hour2Live, pd_key = ''hours_2_live'', pd_label = ''Open 2-hour preview'',
       pd_snapshot = True, pd_historian = False\<rparr>]"

definition group_for :: "meter_attribute_id \<Rightarrow> meter_attribute_group" where
  "group_for i =
     (if i \<ge> Id_FundamentalVoltageA \<and> i \<le> Id_FundamentalCurrentN then Group_Fundamental
      else if i \<ge> Id_VoltageCrestA \<and> i \<le> Id_CurrentCrestN then Group_CrestFactor
      else if i \<ge> Id_FundamentalActivePowerA \<and> i \<le> Id_FundamentalActivePowerTotal then Group_Fundamental
      else if i \<ge> Id_CurrentPhaseAngleN \<and> i \<le> Id_CurrentNegativeSequenceAngle then Group_PhaseAngle
      else if i \<ge> Id_LoadNatureA then Group_LoadNature
      else if i = Id_Frequency then Group_Frequency
      else if i \<le> Id_VcnRms then Group_VoltageLnRms
      else if i \<le> Id_VcaRms then Group_VoltageLlRms
      else if i \<le> Id_InRms then Group_CurrentRms
      else if i \<le> Id_ActivePowerTotal then Group_ActivePower
      else if i \<le> Id_ApparentPowerTotal then Group_ApparentPower
      else if i \<le> Id_PowerFactorTotal then Group_PowerFactor
      else if i \<le> Id_ReactivePowerTotal then Group_ReactivePower
      else if i \<le> Id_DisplacementPowerFactorTotal then Group_DisplacementPowerFactor
      else if i \<le> Id_CurrentPhaseAngleC then Group_PhaseAngle
      else if i \<le> Id_CurrentZeroSequenceRatio then Group_Unbalance
      else if i \<le> Id_NegativeSequenceCurrent then Group_SequenceComponents
      else if i \<le> Id_ReactiveEnergyQuadrantIVTotal then Group_Energy
      else Group_Demand)"

definition aliases_for :: "meter_attribute_group \<Rightarrow> string list" where
  "aliases_for group_id = (case group_id of
     Group_Frequency \<Rightarrow> frequency_aliases
   | Group_VoltageLnRms \<Rightarrow> voltage_aliases
   | Group_VoltageLlRms \<Rightarrow> voltage_aliases
   | Group_CurrentRms \<Rightarrow> current_aliases
   | Group_ActivePower \<Rightarrow> active_power_aliases
   | Group_ApparentPower \<Rightarrow> apparent_power_aliases
   | Group_PowerFactor \<Rightarrow> power_factor_aliases
   | Group_DisplacementPowerFactor \<Rightarrow> power_factor_aliases
   | Group_ReactivePower \<Rightarrow> reactive_power_aliases
   | Group_PhaseAngle \<Rightarrow> angle_aliases
   | Group_Unbalance \<Rightarrow> unbalance_aliases
   | Group_SequenceComponents \<Rightarrow> sequence_aliases
   | Group_Energy \<Rightarrow> energy_aliases
   | Group_Demand \<Rightarrow> demand_aliases
   | Group_CrestFactor \<Rightarrow> crest_aliases
   | Group_Fundamental \<Rightarrow> fundamental_aliases
   | Group_LoadNature \<Rightarrow> load_nature_aliases
   | Group_AllDefined \<Rightarrow> [])"

definition value_kind_for :: "meter_attribute_id \<Rightarrow> meter_attribute_value_kind" where
  "value_kind_for i =
     (if (i \<ge> Id_VoltagePhaseAngleA \<and> i \<le> Id_CurrentPhaseAngleC) \<or>
         (i \<ge> Id_CurrentPhaseAngleN \<and> i \<le> Id_CurrentNegativeSequenceAngle)
      then Kind_CircularAngle
      else if i \<ge> Id_ActiveImportEnergyA \<and> i \<le> Id_ReactiveEnergyQuadrantIVTotal
      then Kind_CumulativeCounter
      else if i \<ge> Id_ImportDemandPeakA \<and> i \<le> Id_ExportDemandPeakTotal then Kind_Peak
      else if i \<ge> Id_LoadNatureA then Kind_Categorical
      else Kind_Linear)"

definition calculations_for ::
    "meter_attribute_value_kind \<Rightarrow> meter_attribute_calculation list" where
  "calculations_for kind = (case kind of
     Kind_Linear \<Rightarrow> linear_calculations
   | Kind_CircularAngle \<Rightarrow> angle_calculations
   | Kind_CumulativeCounter \<Rightarrow> counter_calculations
   | Kind_Peak \<Rightarrow> peak_calculations
   | Kind_Categorical \<Rightarrow> categorical_calculations)"

text \<open>The cases of the \<^verbatim>\<open>switch\<close> of \<^verbatim>\<open>describe_identity\<close>, in order.\<close>

definition identities :: "(meter_attribute_id \<times> string \<times> meter_unit) list" where
  "identities = [
     (Id_Frequency, ''frequency'', Unit_MilliHertz),
     (Id_VanRms, ''voltage.ln.a.rms'', Unit_MicroVolts),
     (Id_VbnRms, ''voltage.ln.b.rms'', Unit_MicroVolts),
     (Id_VcnRms, ''voltage.ln.c.rms'', Unit_MicroVolts),
     (Id_VabRms, ''voltage.ll.ab.rms'', Unit_MicroVolts),
     (Id_VbcRms, ''voltage.ll.bc.rms'', Unit_MicroVolts),
     (Id_VcaRms, ''voltage.ll.ca.rms'', Unit_MicroVolts),
     (Id_IaRms, ''current.a.rms'', Unit_MicroAmperes),
     (Id_IbRms, ''current.b.rms'', Unit_MicroAmperes),
     (Id_IcRms, ''current.c.rms'', Unit_MicroAmperes),
     (Id_InRms, ''current.n.rms'', Unit_MicroAmperes),
     (Id_ActivePowerA, ''power.active.a'', Unit_Picowatts),
     (Id_ActivePowerB, ''power.active.b'', Unit_Picowatts),
     (Id_ActivePowerC, ''power.active.c'', Unit_Picowatts),
     (Id_ActivePowerTotal, ''power.active.total'', Unit_Picowatts),
     (Id_ApparentPowerA, ''power.apparent.a'', Unit_PicoVoltAmperes),
     (Id_ApparentPowerB, ''power.apparent.b'', Unit_PicoVoltAmperes),
     (Id_ApparentPowerC, ''power.apparent.c'', Unit_PicoVoltAmperes),
     (Id_ApparentPowerTotal, ''power.apparent.total'', Unit_PicoVoltAmperes),
     (Id_PowerFactorA, ''power.factor.a'', Unit_PowerFactorMillionths),
     (Id_PowerFactorB, ''power.factor.b'', Unit_PowerFactorMillionths),
     (Id_PowerFactorC, ''power.factor.c'', Unit_PowerFactorMillionths),
     (Id_PowerFactorTotal, ''power.factor.total'', Unit_PowerFactorMillionths),
     (Id_ReactivePowerA, ''power.reactive.a'', Unit_Picovars),
     (Id_ReactivePowerB, ''power.reactive.b'', Unit_Picovars),
     (Id_ReactivePowerC, ''power.reactive.c'', Unit_Picovars),
     (Id_ReactivePowerTotal, ''power.reactive.total'', Unit_Picovars),
     (Id_DisplacementPowerFactorA, ''power.factor.displacement.a'', Unit_PowerFactorMillionths),
     (Id_DisplacementPowerFactorB, ''power.factor.displacement.b'', Unit_PowerFactorMillionths),
     (Id_DisplacementPowerFactorC, ''power.factor.displacement.c'', Unit_PowerFactorMillionths),
     (Id_DisplacementPowerFactorTotal, ''power.factor.displacement.total'', Unit_PowerFactorMillionths),
     (Id_VoltagePhaseAngleA, ''phase.angle.voltage.a'', Unit_Millidegrees),
     (Id_VoltagePhaseAngleB, ''phase.angle.voltage.b'', Unit_Millidegrees),
     (Id_VoltagePhaseAngleC, ''phase.angle.voltage.c'', Unit_Millidegrees),
     (Id_CurrentPhaseAngleA, ''phase.angle.current.a'', Unit_Millidegrees),
     (Id_CurrentPhaseAngleB, ''phase.angle.current.b'', Unit_Millidegrees),
     (Id_CurrentPhaseAngleC, ''phase.angle.current.c'', Unit_Millidegrees),
     (Id_VoltageUnbalance, ''unbalance.voltage'', Unit_RatioMillionths),
     (Id_CurrentUnbalance, ''unbalance.current'', Unit_RatioMillionths),
     (Id_VoltageZeroSequenceRatio, ''unbalance.voltage.zero'', Unit_RatioMillionths),
     (Id_CurrentZeroSequenceRatio, ''unbalance.current.zero'', Unit_RatioMillionths),
     (Id_ZeroSequenceVoltage, ''sequence.voltage.zero.rms'', Unit_MicroVolts),
     (Id_PositiveSequenceVoltage, ''sequence.voltage.positive.rms'', Unit_MicroVolts),
     (Id_NegativeSequenceVoltage, ''sequence.voltage.negative.rms'', Unit_MicroVolts),
     (Id_ZeroSequenceCurrent, ''sequence.current.zero.rms'', Unit_MicroAmperes),
     (Id_PositiveSequenceCurrent, ''sequence.current.positive.rms'', Unit_MicroAmperes),
     (Id_NegativeSequenceCurrent, ''sequence.current.negative.rms'', Unit_MicroAmperes),
     (Id_ActiveImportEnergyA, ''energy.active.import.a'', Unit_MicroWattHours),
     (Id_ActiveImportEnergyB, ''energy.active.import.b'', Unit_MicroWattHours),
     (Id_ActiveImportEnergyC, ''energy.active.import.c'', Unit_MicroWattHours),
     (Id_ActiveImportEnergyTotal, ''energy.active.import.total'', Unit_MicroWattHours),
     (Id_ActiveExportEnergyA, ''energy.active.export.a'', Unit_MicroWattHours),
     (Id_ActiveExportEnergyB, ''energy.active.export.b'', Unit_MicroWattHours),
     (Id_ActiveExportEnergyC, ''energy.active.export.c'', Unit_MicroWattHours),
     (Id_ActiveExportEnergyTotal, ''energy.active.export.total'', Unit_MicroWattHours),
     (Id_ApparentEnergyA, ''energy.apparent.a'', Unit_MicroVoltAmpereHours),
     (Id_ApparentEnergyB, ''energy.apparent.b'', Unit_MicroVoltAmpereHours),
     (Id_ApparentEnergyC, ''energy.apparent.c'', Unit_MicroVoltAmpereHours),
     (Id_ApparentEnergyTotal, ''energy.apparent.total'', Unit_MicroVoltAmpereHours),
     (Id_ReactiveEnergyQuadrantIA, ''energy.reactive.quadrant_i.a'', Unit_MicroVarHours),
     (Id_ReactiveEnergyQuadrantIB, ''energy.reactive.quadrant_i.b'', Unit_MicroVarHours),
     (Id_ReactiveEnergyQuadrantIC, ''energy.reactive.quadrant_i.c'', Unit_MicroVarHours),
     (Id_ReactiveEnergyQuadrantITotal, ''energy.reactive.quadrant_i.total'', Unit_MicroVarHours),
     (Id_ReactiveEnergyQuadrantIIA, ''energy.reactive.quadrant_ii.a'', Unit_MicroVarHours),
     (Id_ReactiveEnergyQuadrantIIB, ''energy.reactive.quadrant_ii.b'', Unit_MicroVarHours),
     (Id_ReactiveEnergyQuadrantIIC, ''energy.reactive.quadrant_ii.c'', Unit_MicroVarHours),
     (Id_ReactiveEnergyQuadrantIITotal, ''energy.reactive.quadrant_ii.total'', Unit_MicroVarHours),
     (Id_ReactiveEnergyQuadrantIIIA, ''energy.reactive.quadrant_iii.a'', Unit_MicroVarHours),
     (Id_ReactiveEnergyQuadrantIIIB, ''energy.reactive.quadrant_iii.b'', Unit_MicroVarHours),
     (Id_ReactiveEnergyQuadrantIIIC, ''energy.reactive.quadrant_iii.c'', Unit_MicroVarHours),
     (Id_ReactiveEnergyQuadrantIIITotal, ''energy.reactive.quadrant_iii.total'', Unit_MicroVarHours),
     (Id_ReactiveEnergyQuadrantIVA, ''energy.reactive.quadrant_iv.a'', Unit_MicroVarHours),
     (Id_ReactiveEnergyQuadrantIVB, ''energy.reactive.quadrant_iv.b'', Unit_MicroVarHours),
     (Id_ReactiveEnergyQuadrantIVC, ''energy.reactive.quadrant_iv.c'', Unit_MicroVarHours),
     (Id_ReactiveEnergyQuadrantIVTotal, ''energy.reactive.quadrant_iv.total'', Unit_MicroVarHours),
     (Id_CurrentActiveDemandA, ''demand.active.current.a'', Unit_MicroWatts),
     (Id_CurrentActiveDemandB, ''demand.active.current.b'', Unit_MicroWatts),
     (Id_CurrentActiveDemandC, ''demand.active.current.c'', Unit_MicroWatts),
     (Id_CurrentActiveDemandTotal, ''demand.active.current.total'', Unit_MicroWatts),
     (Id_ImportDemandPeakA, ''demand.active.import_peak.a'', Unit_MicroWatts),
     (Id_ImportDemandPeakB, ''demand.active.import_peak.b'', Unit_MicroWatts),
     (Id_ImportDemandPeakC, ''demand.active.import_peak.c'', Unit_MicroWatts),
     (Id_ImportDemandPeakTotal, ''demand.active.import_peak.total'', Unit_MicroWatts),
     (Id_ExportDemandPeakA, ''demand.active.export_peak.a'', Unit_MicroWatts),
     (Id_ExportDemandPeakB, ''demand.active.export_peak.b'', Unit_MicroWatts),
     (Id_ExportDemandPeakC, ''demand.active.export_peak.c'', Unit_MicroWatts),
     (Id_ExportDemandPeakTotal, ''demand.active.export_peak.total'', Unit_MicroWatts),
     (Id_FundamentalVoltageA, ''voltage.fundamental.a.rms'', Unit_MicroVolts),
     (Id_FundamentalVoltageB, ''voltage.fundamental.b.rms'', Unit_MicroVolts),
     (Id_FundamentalVoltageC, ''voltage.fundamental.c.rms'', Unit_MicroVolts),
     (Id_FundamentalVoltageLlAB, ''voltage.fundamental.ll.ab.rms'', Unit_MicroVolts),
     (Id_FundamentalVoltageLlBC, ''voltage.fundamental.ll.bc.rms'', Unit_MicroVolts),
     (Id_FundamentalVoltageLlCA, ''voltage.fundamental.ll.ca.rms'', Unit_MicroVolts),
     (Id_FundamentalCurrentA, ''current.fundamental.a.rms'', Unit_MicroAmperes),
     (Id_FundamentalCurrentB, ''current.fundamental.b.rms'', Unit_MicroAmperes),
     (Id_FundamentalCurrentC, ''current.fundamental.c.rms'', Unit_MicroAmperes),
     (Id_FundamentalCurrentN, ''current.fundamental.n.rms'', Unit_MicroAmperes),
     (Id_VoltageCrestA, ''crest.voltage.a'', Unit_CrestTenThousandths),
     (Id_VoltageCrestB, ''crest.voltage.b'', Unit_CrestTenThousandths),
     (Id_VoltageCrestC, ''crest.voltage.c'', Unit_CrestTenThousandths),
     (Id_CurrentCrestA, ''crest.current.a'', Unit_CrestTenThousandths),
     (Id_CurrentCrestB, ''crest.current.b'', Unit_CrestTenThousandths),
     (Id_CurrentCrestC, ''crest.current.c'', Unit_CrestTenThousandths),
     (Id_CurrentCrestN, ''crest.current.n'', Unit_CrestTenThousandths),
     (Id_FundamentalActivePowerA, ''power.active.fundamental.a'', Unit_Picowatts),
     (Id_FundamentalActivePowerB, ''power.active.fundamental.b'', Unit_Picowatts),
     (Id_FundamentalActivePowerC, ''power.active.fundamental.c'', Unit_Picowatts),
     (Id_FundamentalActivePowerTotal, ''power.active.fundamental.total'', Unit_Picowatts),
     (Id_CurrentPhaseAngleN, ''phase.angle.current.n'', Unit_Millidegrees),
     (Id_VoltageLlPhaseAngleAB, ''phase.angle.voltage.ll.ab'', Unit_Millidegrees),
     (Id_VoltageLlPhaseAngleBC, ''phase.angle.voltage.ll.bc'', Unit_Millidegrees),
     (Id_VoltageLlPhaseAngleCA, ''phase.angle.voltage.ll.ca'', Unit_Millidegrees),
     (Id_DisplacementAngleA, ''phase.angle.displacement.a'', Unit_Millidegrees),
     (Id_DisplacementAngleB, ''phase.angle.displacement.b'', Unit_Millidegrees),
     (Id_DisplacementAngleC, ''phase.angle.displacement.c'', Unit_Millidegrees),
     (Id_VoltageZeroSequenceAngle, ''sequence.voltage.zero.angle'', Unit_Millidegrees),
     (Id_VoltagePositiveSequenceAngle, ''sequence.voltage.positive.angle'', Unit_Millidegrees),
     (Id_VoltageNegativeSequenceAngle, ''sequence.voltage.negative.angle'', Unit_Millidegrees),
     (Id_CurrentZeroSequenceAngle, ''sequence.current.zero.angle'', Unit_Millidegrees),
     (Id_CurrentPositiveSequenceAngle, ''sequence.current.positive.angle'', Unit_Millidegrees),
     (Id_CurrentNegativeSequenceAngle, ''sequence.current.negative.angle'', Unit_Millidegrees),
     (Id_LoadNatureA, ''load.nature.a'', Unit_CategoricalCode),
     (Id_LoadNatureB, ''load.nature.b'', Unit_CategoricalCode),
     (Id_LoadNatureC, ''load.nature.c'', Unit_CategoricalCode),
     (Id_LoadNatureTotal, ''load.nature.total'', Unit_CategoricalCode)]"

definition describe_identity :: "meter_attribute_key \<Rightarrow> meter_attribute_descriptor result" where
  "describe_identity attribute = (case map_of identities (ak_id attribute) of
     None \<Rightarrow> Inl (Invalid_argument ''unknown meter attribute'')
   | Some (name, unit) \<Rightarrow> Inr \<lparr>ad_attribute = attribute, ad_key = name, ad_unit = unit,
       ad_label = [], ad_group = Group_AllDefined, ad_value_kind = Kind_Linear,
       ad_calculations = [], ad_search_aliases = []\<rparr>)"

definition describe :: "meter_attribute_key \<Rightarrow> meter_attribute_descriptor result" where
  "describe attribute =
     bind_result (describe_identity attribute) (\<lambda>d.
       let index = unat (ak_id attribute) in
       if index \<ge> length catalog \<or> ak_id (catalog ! index) \<noteq> ak_id attribute
       then Inl (Invalid_argument ''unknown meter attribute'')
       else
         let kind = value_kind_for (ak_id attribute); g = group_for (ak_id attribute) in
         Inr (d\<lparr>ad_label := labels ! index, ad_group := g, ad_value_kind := kind,
                ad_calculations := calculations_for kind, ad_search_aliases := aliases_for g\<rparr>))"

text \<open>A description that throws is skipped.\<close>

definition find_attribute :: "string \<Rightarrow> meter_attribute_key option" where
  "find_attribute name =
     find (\<lambda>a. case describe a of Inl _ \<Rightarrow> False | Inr d \<Rightarrow> ad_key d = name) catalog"

definition supports_attribute ::
    "meter_attribute_key \<Rightarrow> meter_period \<Rightarrow> meter_attribute_usage \<Rightarrow> bool" where
  "supports_attribute attribute period usage =
     (let i = ak_id attribute; numeric = unat i in
      if ak_index attribute \<noteq> None then False
      else if numeric \<ge> length catalog \<or> ak_id (catalog ! numeric) \<noteq> i then False
      else
        let energy = i \<ge> Id_ActiveImportEnergyA \<and> i \<le> Id_ReactiveEnergyQuadrantIVTotal;
            demand = i \<ge> Id_CurrentActiveDemandA \<and> i \<le> Id_ExportDemandPeakTotal
        in
        if demand then period = Period_Demand
        else if energy
        then (if usage = Usage_Snapshot then period = Period_Basic else period = Period_Min10)
        else if i = Id_Frequency then period = Period_Basic \<or> period = Period_Seconds10
        else if usage = Usage_Historian \<and> (period = Period_Min10Live \<or> period = Period_Hour2Live)
        then False
        else period = Period_Basic \<or> period = Period_Cycles150_180 \<or> period = Period_Min10 \<or>
             period = Period_Hour2 \<or> period = Period_Min10Live \<or> period = Period_Hour2Live)"

definition attributes_for ::
    "meter_period \<Rightarrow> meter_attribute_usage \<Rightarrow> meter_attribute_key list" where
  "attributes_for period usage = filter (\<lambda>a. supports_attribute a period usage) catalog"

definition unit_name :: "meter_unit \<Rightarrow> string" where
  "unit_name unit = (case unit of
     Unit_MilliHertz \<Rightarrow> ''mHz''
   | Unit_MicroVolts \<Rightarrow> ''uV''
   | Unit_MicroAmperes \<Rightarrow> ''uA''
   | Unit_Picowatts \<Rightarrow> ''pW''
   | Unit_PicoVoltAmperes \<Rightarrow> ''pVA''
   | Unit_PowerFactorMillionths \<Rightarrow> ''pf_e6''
   | Unit_Picovars \<Rightarrow> ''pvar''
   | Unit_Millidegrees \<Rightarrow> ''mdeg''
   | Unit_RatioMillionths \<Rightarrow> ''ratio_e6''
   | Unit_MicroWattHours \<Rightarrow> ''uWh''
   | Unit_MicroVarHours \<Rightarrow> ''uvarh''
   | Unit_MicroVoltAmpereHours \<Rightarrow> ''uVAh''
   | Unit_MicroWatts \<Rightarrow> ''uW''
   | Unit_CrestTenThousandths \<Rightarrow> ''crest_e4''
   | Unit_CategoricalCode \<Rightarrow> ''code'')"

definition attributes_in :: "meter_attribute_group \<Rightarrow> meter_attribute_key list" where
  "attributes_in group_id = (case group_id of
     Group_Frequency \<Rightarrow> map attribute_key [
       Id_Frequency]
   | Group_VoltageLnRms \<Rightarrow> map attribute_key [
       Id_VanRms, Id_VbnRms, Id_VcnRms]
   | Group_VoltageLlRms \<Rightarrow> map attribute_key [
       Id_VabRms, Id_VbcRms, Id_VcaRms]
   | Group_CurrentRms \<Rightarrow> map attribute_key [
       Id_IaRms, Id_IbRms, Id_IcRms, Id_InRms]
   | Group_ActivePower \<Rightarrow> map attribute_key [
       Id_ActivePowerA, Id_ActivePowerB, Id_ActivePowerC, Id_ActivePowerTotal]
   | Group_ApparentPower \<Rightarrow> map attribute_key [
       Id_ApparentPowerA, Id_ApparentPowerB, Id_ApparentPowerC, Id_ApparentPowerTotal]
   | Group_PowerFactor \<Rightarrow> map attribute_key [
       Id_PowerFactorA, Id_PowerFactorB, Id_PowerFactorC, Id_PowerFactorTotal]
   | Group_ReactivePower \<Rightarrow> map attribute_key [
       Id_ReactivePowerA, Id_ReactivePowerB, Id_ReactivePowerC, Id_ReactivePowerTotal]
   | Group_DisplacementPowerFactor \<Rightarrow> map attribute_key [
       Id_DisplacementPowerFactorA, Id_DisplacementPowerFactorB, Id_DisplacementPowerFactorC,
       Id_DisplacementPowerFactorTotal]
   | Group_PhaseAngle \<Rightarrow> map attribute_key [
       Id_VoltagePhaseAngleA, Id_VoltagePhaseAngleB, Id_VoltagePhaseAngleC,
       Id_CurrentPhaseAngleA, Id_CurrentPhaseAngleB, Id_CurrentPhaseAngleC,
       Id_CurrentPhaseAngleN, Id_VoltageLlPhaseAngleAB, Id_VoltageLlPhaseAngleBC,
       Id_VoltageLlPhaseAngleCA, Id_DisplacementAngleA, Id_DisplacementAngleB,
       Id_DisplacementAngleC, Id_VoltageZeroSequenceAngle, Id_VoltagePositiveSequenceAngle,
       Id_VoltageNegativeSequenceAngle, Id_CurrentZeroSequenceAngle,
       Id_CurrentPositiveSequenceAngle, Id_CurrentNegativeSequenceAngle]
   | Group_Unbalance \<Rightarrow> map attribute_key [
       Id_VoltageUnbalance, Id_CurrentUnbalance, Id_VoltageZeroSequenceRatio,
       Id_CurrentZeroSequenceRatio]
   | Group_SequenceComponents \<Rightarrow> map attribute_key [
       Id_ZeroSequenceVoltage, Id_PositiveSequenceVoltage, Id_NegativeSequenceVoltage,
       Id_ZeroSequenceCurrent, Id_PositiveSequenceCurrent, Id_NegativeSequenceCurrent]
   | Group_Energy \<Rightarrow> map attribute_key [
       Id_ActiveImportEnergyA, Id_ActiveImportEnergyB, Id_ActiveImportEnergyC,
       Id_ActiveImportEnergyTotal, Id_ActiveExportEnergyA, Id_ActiveExportEnergyB,
       Id_ActiveExportEnergyC, Id_ActiveExportEnergyTotal, Id_ApparentEnergyA,
       Id_ApparentEnergyB, Id_ApparentEnergyC, Id_ApparentEnergyTotal,
       Id_ReactiveEnergyQuadrantIA, Id_ReactiveEnergyQuadrantIB, Id_ReactiveEnergyQuadrantIC,
       Id_ReactiveEnergyQuadrantITotal, Id_ReactiveEnergyQuadrantIIA,
       Id_ReactiveEnergyQuadrantIIB, Id_ReactiveEnergyQuadrantIIC,
       Id_ReactiveEnergyQuadrantIITotal, Id_ReactiveEnergyQuadrantIIIA,
       Id_ReactiveEnergyQuadrantIIIB, Id_ReactiveEnergyQuadrantIIIC,
       Id_ReactiveEnergyQuadrantIIITotal, Id_ReactiveEnergyQuadrantIVA,
       Id_ReactiveEnergyQuadrantIVB, Id_ReactiveEnergyQuadrantIVC,
       Id_ReactiveEnergyQuadrantIVTotal]
   | Group_Demand \<Rightarrow> map attribute_key [
       Id_CurrentActiveDemandA, Id_CurrentActiveDemandB, Id_CurrentActiveDemandC,
       Id_CurrentActiveDemandTotal, Id_ImportDemandPeakA, Id_ImportDemandPeakB,
       Id_ImportDemandPeakC, Id_ImportDemandPeakTotal, Id_ExportDemandPeakA,
       Id_ExportDemandPeakB, Id_ExportDemandPeakC, Id_ExportDemandPeakTotal]
   | Group_Fundamental \<Rightarrow> map attribute_key [
       Id_Frequency, Id_VanRms, Id_VbnRms, Id_VcnRms, Id_VabRms, Id_VbcRms, Id_VcaRms,
       Id_IaRms, Id_IbRms, Id_IcRms, Id_InRms, Id_FundamentalVoltageA, Id_FundamentalVoltageB,
       Id_FundamentalVoltageC, Id_FundamentalVoltageLlAB, Id_FundamentalVoltageLlBC,
       Id_FundamentalVoltageLlCA, Id_FundamentalCurrentA, Id_FundamentalCurrentB,
       Id_FundamentalCurrentC, Id_FundamentalCurrentN, Id_FundamentalActivePowerA,
       Id_FundamentalActivePowerB, Id_FundamentalActivePowerC, Id_FundamentalActivePowerTotal]
   | Group_CrestFactor \<Rightarrow> map attribute_key [
       Id_VoltageCrestA, Id_VoltageCrestB, Id_VoltageCrestC, Id_CurrentCrestA,
       Id_CurrentCrestB, Id_CurrentCrestC, Id_CurrentCrestN]
   | Group_LoadNature \<Rightarrow> map attribute_key [
       Id_LoadNatureA, Id_LoadNatureB, Id_LoadNatureC, Id_LoadNatureTotal]
   | Group_AllDefined \<Rightarrow> catalog)"

section \<open>The ordered attribute set\<close>

text \<open>\<^verbatim>\<open>MeterAttributeSet\<close>: its state is the vector \<^verbatim>\<open>attributes_\<close>.\<close>

type_synonym meter_attribute_set = "meter_attribute_key list"

definition set_contains :: "meter_attribute_set \<Rightarrow> meter_attribute_key \<Rightarrow> bool" where
  "set_contains attributes attribute \<longleftrightarrow> attribute \<in> set attributes"

definition set_add :: "meter_attribute_set \<Rightarrow> meter_attribute_key \<Rightarrow> meter_attribute_set" where
  "set_add attributes attribute =
     (if \<not> set_contains attributes attribute then attributes @ [attribute] else attributes)"

definition set_of_list :: "meter_attribute_key list \<Rightarrow> meter_attribute_set" where
  "set_of_list attributes = foldl set_add [] attributes"

definition set_add_group :: "meter_attribute_set \<Rightarrow> meter_attribute_group \<Rightarrow> meter_attribute_set" where
  "set_add_group attributes g = foldl set_add attributes (attributes_in g)"

section \<open>Facts about the tables\<close>

lemma catalog_ids: "map ak_id catalog = map of_nat [0..<125]"
  by code_simp

lemma identity_ids: "map fst identities = map of_nat [0..<125]"
  by code_simp

lemma distinct_names: "distinct (map (fst \<circ> snd) identities)"
  by (simp add: identities_def)

lemma catalog_eq: "catalog = map (attribute_key \<circ> of_nat) [0..<125]"
proof -
  have "catalog = map attribute_key (map ak_id catalog)"
    unfolding catalog_def map_map by (rule map_cong [OF refl]) (simp add: attribute_key_def)
  then show ?thesis by (simp only: catalog_ids map_map)
qed

lemma length_tables [simp]: "length catalog = 125" "length identities = 125" "length labels = 125"
  using arg_cong [OF catalog_ids, of length] arg_cong [OF identity_ids, of length]
  by (simp_all add: labels_def)

lemma catalog_nth: "n < 125 \<Longrightarrow> catalog ! n = attribute_key (of_nat n)"
  by (simp add: catalog_eq)

lemma unat_id: "n < 125 \<Longrightarrow> unat (of_nat n :: meter_attribute_id) = n"
  by (simp add: unat_of_nat)

lemma catalog_at_id: "unat i < 125 \<Longrightarrow> catalog ! unat i = attribute_key i"
  by (simp add: catalog_nth)

lemma in_catalog: "a \<in> set catalog \<longleftrightarrow> ak_index a = None \<and> unat (ak_id a) < 125"
proof
  assume "a \<in> set catalog"
  then show "ak_index a = None \<and> unat (ak_id a) < 125"
    by (auto simp: catalog_eq attribute_key_def unat_id)
next
  assume a: "ak_index a = None \<and> unat (ak_id a) < 125"
  then have "a = (attribute_key \<circ> of_nat) (unat (ak_id a))" by (simp add: attribute_key_def)
  with a show "a \<in> set catalog"
    unfolding catalog_eq set_map by (intro image_eqI [of _ _ "unat (ak_id a)"]) simp_all
qed

lemma distinct_catalog: "distinct catalog"
  by (auto simp: catalog_eq distinct_map inj_on_def attribute_key_def dest: arg_cong [of _ _ unat]
      simp: unat_id)

lemma identity_at: "n < 125 \<Longrightarrow> fst (identities ! n) = of_nat n"
  using arg_cong [OF identity_ids, of "\<lambda>xs. xs ! n"] by simp

lemma distinct_identity_ids: "distinct (map fst identities)"
  by (auto simp: identity_ids distinct_map inj_on_def unat_id dest: arg_cong [of _ _ unat])

lemma map_of_identity: "unat i < 125 \<Longrightarrow> map_of identities i = Some (snd (identities ! unat i))"
proof -
  assume i: "unat i < 125"
  have "identities ! unat i = (i, snd (identities ! unat i))"
    using identity_at [OF i] by (simp add: prod_eq_iff)
  then have "(i, snd (identities ! unat i)) \<in> set identities"
    using i by (metis length_tables(2) nth_mem)
  then show ?thesis using distinct_identity_ids by simp
qed

lemma map_of_identity_none: "\<not> unat i < 125 \<Longrightarrow> map_of identities i = None"
proof -
  assume "\<not> unat i < 125"
  then have "i \<notin> set (map fst identities)" by (auto simp: identity_ids unat_id)
  then show ?thesis by (simp add: map_of_eq_None_iff)
qed

text \<open>The name of the attribute at a position of the catalog.\<close>

definition attribute_name :: "meter_attribute_id \<Rightarrow> string" where
  "attribute_name i = fst (snd (identities ! unat i))"

lemma describe_known:
  "unat (ak_id a) < 125 \<Longrightarrow> describe a = Inr \<lparr>ad_attribute = a, ad_key = attribute_name (ak_id a),
     ad_unit = snd (snd (identities ! unat (ak_id a))), ad_label = labels ! unat (ak_id a),
     ad_group = group_for (ak_id a), ad_value_kind = value_kind_for (ak_id a),
     ad_calculations = calculations_for (value_kind_for (ak_id a)),
     ad_search_aliases = aliases_for (group_for (ak_id a))\<rparr>"
  by (simp add: describe_def describe_identity_def map_of_identity attribute_name_def catalog_at_id
      attribute_key_def Let_def split: prod.split)

lemma describe_unknown:
  "\<not> unat (ak_id a) < 125 \<Longrightarrow> describe a = Inl (Invalid_argument ''unknown meter attribute'')"
  by (simp add: describe_def describe_identity_def map_of_identity_none)

lemma attribute_name_inj:
  assumes "unat i < 125" "unat j < 125" "attribute_name i = attribute_name j"
  shows "i = j"
proof -
  have "map (fst \<circ> snd) identities ! unat i = map (fst \<circ> snd) identities ! unat j"
    using assms by (simp add: attribute_name_def)
  then have "unat i = unat j"
    using distinct_names assms(1,2) nth_eq_iff_index_eq [of "map (fst \<circ> snd) identities"]
    by (metis length_map length_tables(2))
  then show ?thesis by (rule word_unat_eq_iff [THEN iffD2])
qed

lemma find_unique:
  assumes "\<And>x y. x \<in> set xs \<Longrightarrow> y \<in> set xs \<Longrightarrow> P x \<Longrightarrow> P y \<Longrightarrow> x = y"
  shows "find P xs = Some a \<longleftrightarrow> a \<in> set xs \<and> P a"
  using assms by (induction xs) auto

lemma find_attribute_iff:
  "find_attribute name = Some a \<longleftrightarrow> a \<in> set catalog \<and> attribute_name (ak_id a) = name"
proof -
  let ?P = "\<lambda>a. case describe a of Inl _ \<Rightarrow> False | Inr d \<Rightarrow> ad_key d = name"
  have P: "?P a \<longleftrightarrow> attribute_name (ak_id a) = name" if "a \<in> set catalog" for a
    using that by (simp add: in_catalog describe_known)
  have "find ?P catalog = Some a \<longleftrightarrow> a \<in> set catalog \<and> ?P a"
  proof (rule find_unique)
    fix x y assume xy: "x \<in> set catalog" "y \<in> set catalog" "?P x" "?P y"
    then have "attribute_name (ak_id x) = attribute_name (ak_id y)" by (simp add: P)
    then have "ak_id x = ak_id y" using xy(1,2) attribute_name_inj by (simp add: in_catalog)
    then show "x = y" using xy(1,2) by (simp add: in_catalog)
  qed
  then show ?thesis using P by (auto simp: find_attribute_def)
qed

text \<open>
  The catalog's external names are a faithful encoding of its attributes: every catalogued
  attribute is found back from the name it is described by, and a name that is found belongs to
  exactly that attribute.
\<close>

theorem attribute_name_roundtrip:
  "find_attribute name = Some a \<longleftrightarrow>
     a \<in> set catalog \<and> (\<exists>d. describe a = Inr d \<and> ad_key d = name)"
  unfolding find_attribute_iff by (auto simp: in_catalog describe_known)

text \<open>
  \<^verbatim>\<open>describe\<close> succeeds exactly on the identities of the catalog and otherwise throws; its label,
  unit and name come from the row of the identity itself.
\<close>

lemma describe_total:
  "describe a = (if unat (ak_id a) < length catalog
     then Inr \<lparr>ad_attribute = a, ad_key = fst (snd (identities ! unat (ak_id a))),
       ad_unit = snd (snd (identities ! unat (ak_id a))), ad_label = labels ! unat (ak_id a),
       ad_group = group_for (ak_id a), ad_value_kind = value_kind_for (ak_id a),
       ad_calculations = calculations_for (value_kind_for (ak_id a)),
       ad_search_aliases = aliases_for (group_for (ak_id a))\<rparr>
     else Inl (Invalid_argument ''unknown meter attribute''))"
  by (simp add: describe_known describe_unknown attribute_name_def)

section \<open>Groups and capabilities\<close>

definition catalog_groups :: "(meter_attribute_key \<times> meter_attribute_group) list" where
  "catalog_groups = map (\<lambda>a. (a, group_for (ak_id a))) catalog"

lemma filter_groups: "filter (\<lambda>a. group_for (ak_id a) = g) catalog =
    map fst (filter (\<lambda>p. snd p = g) catalog_groups)"
  by (simp add: catalog_groups_def filter_map comp_def)

lemma groups_list:
  "let t = catalog_groups in list_all (\<lambda>g. attributes_in g = map fst (filter (\<lambda>p. snd p = g) t))
     [Group_Frequency, Group_VoltageLnRms, Group_VoltageLlRms, Group_CurrentRms, Group_ActivePower,
      Group_ApparentPower, Group_PowerFactor, Group_ReactivePower, Group_DisplacementPowerFactor,
      Group_PhaseAngle, Group_Unbalance, Group_SequenceComponents, Group_Energy, Group_Demand,
      Group_CrestFactor, Group_LoadNature]"
  by code_simp

lemma group_fundamental: "set (filter (\<lambda>a. group_for (ak_id a) = Group_Fundamental) catalog) \<subseteq>
    set (attributes_in Group_Fundamental)"
  by code_simp

text \<open>
  The two independent definitions of the groups agree: a group lists exactly the attributes
  that are described as belonging to it, in catalog order; \<^verbatim>\<open>AllDefined\<close> is the whole catalog and
  \<^verbatim>\<open>Fundamental\<close> lists at least the attributes described as fundamental.
\<close>

theorem groups_agree:
  "(if g = Group_AllDefined then attributes_in g = catalog
    else if g = Group_Fundamental
    then set (filter (\<lambda>a. group_for (ak_id a) = g) catalog) \<subseteq> set (attributes_in g)
    else attributes_in g = filter (\<lambda>a. group_for (ak_id a) = g) catalog)"
  using groups_list [unfolded Let_def, folded filter_groups] group_fundamental
  by (cases g) (simp_all only: list.pred_inject meter_attribute_group.distinct if_True if_False refl
      simp_thms, simp_all add: attributes_in_def)

lemma supports_catalogued:
  "unat i < 125 \<Longrightarrow> supports_attribute (attribute_key i) p u =
     (if i \<ge> Id_CurrentActiveDemandA \<and> i \<le> Id_ExportDemandPeakTotal then p = Period_Demand
      else if i \<ge> Id_ActiveImportEnergyA \<and> i \<le> Id_ReactiveEnergyQuadrantIVTotal
      then p = (if u = Usage_Snapshot then Period_Basic else Period_Min10)
      else if i = Id_Frequency then p \<in> {Period_Basic, Period_Seconds10}
      else p \<in> {Period_Basic, Period_Cycles150_180, Period_Min10, Period_Hour2} \<or>
        u = Usage_Snapshot \<and> p \<in> {Period_Min10Live, Period_Hour2Live})"
  by (cases u; cases p) (simp_all add: supports_attribute_def catalog_at_id attribute_key_def)

lemma attributes_for_set:
  "set (attributes_for p u) = {attribute_key i | i. unat i < 125 \<and> supports_attribute (attribute_key i) p u}"
proof -
  have "x = attribute_key (ak_id x)" if "ak_index x = None" for x
    using that by (simp add: attribute_key_def)
  then have "\<exists>i. x = attribute_key i \<and> unat i < 125 \<and> supports_attribute (attribute_key i) p u"
    if "ak_index x = None" "unat (ak_id x) < 125" "supports_attribute x p u" for x
    using that by metis
  then show ?thesis
    by (auto simp: attributes_for_def in_catalog) (simp_all add: attribute_key_def)
qed

lemma offered: "unat i < 125 \<Longrightarrow> supports_attribute (attribute_key i) p u \<Longrightarrow> attributes_for p u \<noteq> []"
  using attributes_for_set [of p u] by auto

lemma snapshot_periods: "attributes_for p Usage_Snapshot \<noteq> []"
  by (cases p; rule offered [of "case p of Period_Seconds10 \<Rightarrow> 0 | Period_Demand \<Rightarrow> 75 | _ \<Rightarrow> 1"])
     (simp_all add: supports_catalogued word_le_def)

lemma historian_periods:
  "attributes_for p Usage_Historian \<noteq> [] \<longleftrightarrow> p \<notin> {Period_Min10Live, Period_Hour2Live}"
proof (cases "p \<in> {Period_Min10Live, Period_Hour2Live}")
  case True
  then have "set (attributes_for p Usage_Historian) = {}"
    by (auto simp: attributes_for_set supports_catalogued split: if_splits)
  with True show ?thesis by simp
next
  case False
  then show ?thesis
    by (cases p;
        simp add: offered [of "case p of Period_Seconds10 \<Rightarrow> 0 | Period_Demand \<Rightarrow> 75 | _ \<Rightarrow> 1"]
          supports_catalogued word_le_def)
qed

text \<open>
  The period list and the capability matrix agree: a period offers attributes to snapshot
  clients, or to historian clients, exactly when the period catalog says so.
\<close>

theorem period_catalog_agrees:
  "(attributes_for p Usage_Snapshot \<noteq> [] \<longleftrightarrow>
      (\<exists>d \<in> set period_catalog. pd_period d = p \<and> pd_snapshot d)) \<and>
   (attributes_for p Usage_Historian \<noteq> [] \<longleftrightarrow>
      (\<exists>d \<in> set period_catalog. pd_period d = p \<and> pd_historian d))"
  using snapshot_periods [of p] historian_periods [of p]
  by (cases p) (simp_all add: period_catalog_def)

section \<open>The ordered attribute set\<close>

lemma set_add_set [simp]: "set (set_add xs a) = insert a (set xs)"
  by (auto simp: set_add_def set_contains_def)

lemma set_add_distinct: "distinct xs \<Longrightarrow> distinct (set_add xs a)"
  by (simp add: set_add_def set_contains_def)

interpretation attribute_set: invariant_system set_add distinct
  by unfold_locales (rule set_add_distinct)

lemma set_of_list_snoc: "set_of_list (as @ [a]) = set_add (set_of_list as) a"
  by (simp add: set_of_list_def)

lemma set_of_list_remdups: "set_of_list as = rev (remdups (rev as))"
proof (induction as rule: rev_induct)
  case Nil
  then show ?case by (simp add: set_of_list_def)
next
  case (snoc a as)
  then show ?case by (simp add: set_of_list_snoc) (simp add: set_add_def set_contains_def)
qed

lemma set_add_group_append: "set_add_group (set_of_list as) g = set_of_list (as @ attributes_in g)"
  by (simp add: set_add_group_def set_of_list_def)

text \<open>
  The ordered set built from a request holds exactly the requested attributes, each once,
  in the order of their first occurrence, and adding a group to it is the same as requesting the
  group's attributes after the others.
\<close>

theorem attribute_set_exact:
  "set_of_list as = rev (remdups (rev as)) \<and> distinct (set_of_list as) \<and>
   (set_contains (set_of_list as) a \<longleftrightarrow> a \<in> set as) \<and>
   set_add_group (set_of_list as) g = rev (remdups (rev (as @ attributes_in g)))"
proof -
  have "distinct (set_of_list as)"
    using attribute_set.inv_run [of "[]" as] by (simp add: set_of_list_def)
  then show ?thesis
    unfolding set_add_group_append by (simp add: set_of_list_remdups set_contains_def)
qed

end
