(* ===== verification/Datalog_Content.thy ===== *)
theory Datalog_Content
  imports Meter_Attributes "HOL-Library.Multiset"
begin

text \<open>
  The data logger's content (\<^verbatim>\<open>common/mnc/datalogger\<close>): the dataset generator of \<^verbatim>\<open>datalogger.cpp\<close>
  and the JSON and CSV writers of \<^verbatim>\<open>meter_data_content_writer.cpp\<close>. The historian is the parameter
  \<open>historical_source\<close>, SHA-256 (OpenSSL) the parameter \<open>sha\<close>, and the circular mean of angles, which is
  computed in \<^verbatim>\<open>long double\<close> with the C library, the parameter \<open>circular\<close>. Strings are sequences of
  bytes; times are nanoseconds.
\<close>

section \<open>Types\<close>

record utc_window =
  w_start :: int
  w_end :: int

definition window_valid :: "utc_window \<Rightarrow> bool" where
  "window_valid w \<longleftrightarrow> w_start w < w_end w"

definition duration_nanoseconds :: "utc_window \<Rightarrow> int" where
  "duration_nanoseconds w = w_end w - w_start w"

datatype content_format = Format_json | Format_csv

record attribute_selection =
  sl_attribute :: meter_attribute_key
  sl_calculation :: meter_attribute_calculation

record datalog_job =
  jb_id :: string
  jb_revision :: u64
  jb_product_id :: string
  jb_device_id :: string
  jb_source_period :: meter_period
  jb_generation_interval :: int
  jb_row_interval :: int
  jb_format :: content_format
  jb_selections :: "attribute_selection list"

record historical_sample =
  hs_measured_at :: int
  hs_source_sequence :: u64
  hs_attribute :: meter_attribute_key
  hs_value :: int
  hs_quality :: attribute_quality
  hs_reset_epoch :: "u64 option"

record dataset_column =
  cl_id :: string
  cl_attribute_key :: string
  cl_label :: string
  cl_unit :: string
  cl_calculation :: meter_attribute_calculation
  cl_value_kind :: meter_attribute_value_kind

record dataset_cell =
  ce_value :: "string option"
  ce_quality :: attribute_quality
  ce_contributing :: nat
  ce_expected :: u64
  ce_complete :: bool
  ce_continuity :: bool
  ce_reset_epoch :: "u64 option"

record dataset_row =
  rw_window :: utc_window
  rw_cells :: "dataset_cell list"

record generated_dataset =
  gd_schema :: string
  gd_artifact_id :: string
  gd_job_id :: string
  gd_job_revision :: u64
  gd_product_id :: string
  gd_device_id :: string
  gd_source_period :: meter_period
  gd_format :: content_format
  gd_generated_at :: int
  gd_window :: utc_window
  gd_columns :: "dataset_column list"
  gd_rows :: "dataset_row list"

record generated_content =
  gc_artifact_id :: string
  gc_filename :: string
  gc_mime_type :: string
  gc_extension :: string
  gc_body :: string
  gc_sha256 :: string

datatype datalog_error_code =
    Invalid_configuration | Unsupported_capability | Source_unavailable | Source_retention_gap |
    Serialization_failure | Storage_failure

text \<open>A \<^verbatim>\<open>DatalogError\<close> or any other exception.\<close>

datatype datalog_exn = Datalog_error datalog_error_code string | Other_error exn

type_synonym 'a datalog_result = "datalog_exn + 'a"

text \<open>The historian: a query of samples, and how many samples a window should have.\<close>

record historical_source =
  src_query :: "meter_period \<Rightarrow> meter_attribute_key list \<Rightarrow> utc_window \<Rightarrow> historical_sample list datalog_result"
  src_expected :: "meter_period \<Rightarrow> meter_attribute_key \<Rightarrow> utc_window \<Rightarrow> u64"

section \<open>Text\<close>

definition digit_char :: "int \<Rightarrow> char" where
  "digit_char d = ''0123456789'' ! nat d"

text \<open>Decimal text of a number that is not negative, and of any number (\<^verbatim>\<open>std::to_string\<close>).\<close>

function decimal :: "int \<Rightarrow> string" where
  "decimal n = (if n < 10 then [digit_char n] else decimal (n div 10) @ [digit_char (n mod 10)])"
  by pat_completeness auto
termination
  by (relation "measure nat") auto

declare decimal.simps [simp del]

definition int_string :: "int \<Rightarrow> string" where
  "int_string i = (if i < 0 then CHR ''-'' # decimal (- i) else decimal i)"

abbreviation u64_string :: "u64 \<Rightarrow> string" where
  "u64_string w \<equiv> decimal (uint w)"

definition is_alnum :: "char \<Rightarrow> bool" where
  "is_alnum c \<longleftrightarrow> (let n = (of_char c :: int) in
     48 \<le> n \<and> n \<le> 57 \<or> 65 \<le> n \<and> n \<le> 90 \<or> 97 \<le> n \<and> n \<le> 122)"

definition safe_id :: "string \<Rightarrow> bool" where
  "safe_id s \<longleftrightarrow> s \<noteq> [] \<and> length s \<le> 128 \<and>
     list_all (\<lambda>c. is_alnum c \<or> c = CHR ''-'' \<or> c = CHR ''_'') s"

section \<open>Calculations\<close>

definition supports_calculation ::
    "meter_attribute_descriptor \<Rightarrow> meter_attribute_calculation \<Rightarrow> bool" where
  "supports_calculation descriptor calculation \<longleftrightarrow> calculation \<in> set (ad_calculations descriptor)"

text \<open>At most \<open>n\<close> more digits of \<open>remainder / divisor\<close>.\<close>

fun fraction_digits :: "nat \<Rightarrow> int \<Rightarrow> int \<Rightarrow> string" where
  "fraction_digits 0 remainder divisor = []"
| "fraction_digits (Suc n) remainder divisor =
     (if remainder = 0 then []
      else digit_char (remainder * 10 div divisor) #
        fraction_digits n (remainder * 10 mod divisor) divisor)"

definition strip_zeros :: "string \<Rightarrow> string" where
  "strip_zeros s = rev (dropWhile (\<lambda>c. c = CHR ''0'') (rev s))"

definition decimal_ratio :: "int \<Rightarrow> u64 \<Rightarrow> string datalog_result" where
  "decimal_ratio numerator denominator =
     (if denominator = 0
      then Inl (Datalog_error Invalid_configuration ''average denominator is zero'')
      else
        let magnitude = (if numerator < 0 then - numerator else numerator);
            divisor = uint denominator;
            fraction = strip_zeros (fraction_digits 6 (magnitude mod divisor) divisor);
            result = decimal (magnitude div divisor) @ (if fraction \<noteq> [] then CHR ''.'' # fraction else [])
        in Inr (if numerator < 0 \<and> result \<noteq> ''0'' then CHR ''-'' # result else result))"

fun empty_quality :: "historical_sample list \<Rightarrow> attribute_quality" where
  "empty_quality [] = Quality_Unavailable"
| "empty_quality (s # ss) =
     (if hs_quality s \<noteq> Quality_Unavailable then hs_quality s else empty_quality ss)"

definition empty_cell :: dataset_cell where
  "empty_cell = \<lparr>ce_value = None, ce_quality = Quality_Unavailable, ce_contributing = 0, ce_expected = 0,
     ce_complete = False, ce_continuity = True, ce_reset_epoch = None\<rparr>"

text \<open>Sorting with a given order (\<^verbatim>\<open>std::ranges::sort\<close>).\<close>

fun insert_by :: "('a \<Rightarrow> 'a \<Rightarrow> bool) \<Rightarrow> 'a \<Rightarrow> 'a list \<Rightarrow> 'a list" where
  "insert_by before x [] = [x]"
| "insert_by before x (y # ys) = (if before x y then x # y # ys else y # insert_by before x ys)"

definition sort_by :: "('a \<Rightarrow> 'a \<Rightarrow> bool) \<Rightarrow> 'a list \<Rightarrow> 'a list" where
  "sort_by before xs = foldr (insert_by before) xs []"

text \<open>The order of the samples of a cell: by time, then by sequence.\<close>

definition sample_before :: "historical_sample \<Rightarrow> historical_sample \<Rightarrow> bool" where
  "sample_before s t \<longleftrightarrow> hs_measured_at s < hs_measured_at t \<or>
     (hs_measured_at s = hs_measured_at t \<and> hs_source_sequence s \<le> hs_source_sequence t)"

text \<open>
  One cell. \<^verbatim>\<open>std::ranges::sort\<close> leaves the order of samples with the same time and sequence open;
  here they keep their order, and the properties do not depend on it.
\<close>

definition aggregate ::
    "(int list \<Rightarrow> string option) \<Rightarrow> historical_sample list \<Rightarrow> meter_attribute_calculation \<Rightarrow> u64 \<Rightarrow>
     dataset_cell datalog_result" where
  "aggregate circular samples calculation expected =
     (let valid = sort_by sample_before (filter (\<lambda>s. hs_quality s = Quality_Valid) samples);
          base = empty_cell\<lparr>ce_expected := expected, ce_contributing := length valid,
            ce_complete := (expected \<noteq> 0 \<and> int (length valid) \<ge> uint expected)\<rparr>;
          result = base\<lparr>ce_quality := Quality_Valid\<rparr>;
          values = map hs_value valid
      in if valid = [] then Inr (base\<lparr>ce_quality := empty_quality samples\<rparr>)
         else (case calculation of
             Calc_Minimum \<Rightarrow> Inr (result\<lparr>ce_value := Some (int_string (Min (set values)))\<rparr>)
           | Calc_Maximum \<Rightarrow> Inr (result\<lparr>ce_value := Some (int_string (Max (set values)))\<rparr>)
           | Calc_Average \<Rightarrow>
               bind_result (decimal_ratio (sum_list values) (of_nat (length valid))) (\<lambda>v.
                 Inr (result\<lparr>ce_value := Some v\<rparr>))
           | Calc_CircularAverage \<Rightarrow>
               Inr (case circular values of
                   None \<Rightarrow> result\<lparr>ce_quality := Quality_ArithmeticError\<rparr>
                 | Some v \<Rightarrow> result\<lparr>ce_value := Some v\<rparr>)
           | Calc_First \<Rightarrow> Inr (result\<lparr>ce_value := Some (int_string (hs_value (hd valid))),
               ce_reset_epoch := hs_reset_epoch (hd valid)\<rparr>)
           | Calc_Last \<Rightarrow> Inr (result\<lparr>ce_value := Some (int_string (hs_value (last valid))),
               ce_reset_epoch := hs_reset_epoch (last valid)\<rparr>)
           | Calc_Delta \<Rightarrow>
               Inr (if hs_reset_epoch (hd valid) = None \<or> hs_reset_epoch (last valid) = None \<or>
                   hs_reset_epoch (hd valid) \<noteq> hs_reset_epoch (last valid)
                 then result\<lparr>ce_quality := Quality_Unavailable, ce_continuity := False\<rparr>
                 else result\<lparr>ce_value := Some (int_string (hs_value (last valid) - hs_value (hd valid))),
                   ce_reset_epoch := hs_reset_epoch (last valid)\<rparr>)))"

section \<open>Names\<close>

definition content_format_name :: "content_format \<Rightarrow> string" where
  "content_format_name f = (case f of Format_json \<Rightarrow> ''json'' | Format_csv \<Rightarrow> ''csv'')"

definition calculation_name :: "meter_attribute_calculation \<Rightarrow> string" where
  "calculation_name c = (case c of Calc_Minimum \<Rightarrow> ''minimum'' | Calc_Maximum \<Rightarrow> ''maximum''
   | Calc_Average \<Rightarrow> ''average'' | Calc_Last \<Rightarrow> ''last'' | Calc_CircularAverage \<Rightarrow> ''circular_average''
   | Calc_First \<Rightarrow> ''first'' | Calc_Delta \<Rightarrow> ''delta'')"

definition quality_name :: "attribute_quality \<Rightarrow> string" where
  "quality_name q = (case q of Quality_Unavailable \<Rightarrow> ''unavailable'' | Quality_Valid \<Rightarrow> ''valid''
   | Quality_Invalid \<Rightarrow> ''invalid'' | Quality_OutOfRange \<Rightarrow> ''out_of_range''
   | Quality_TimedOut \<Rightarrow> ''timed_out'' | Quality_ArithmeticError \<Rightarrow> ''arithmetic_error'')"

definition period_name :: "meter_period \<Rightarrow> string" where
  "period_name p = (case find (\<lambda>d. pd_period d = p) period_catalog of
     Some d \<Rightarrow> pd_key d | None \<Rightarrow> ''unknown'')"

definition value_kind_name :: "meter_attribute_value_kind \<Rightarrow> string" where
  "value_kind_name k = (case k of Kind_Linear \<Rightarrow> ''linear'' | Kind_CircularAngle \<Rightarrow> ''circular_angle''
   | Kind_CumulativeCounter \<Rightarrow> ''cumulative_counter'' | Kind_Peak \<Rightarrow> ''peak''
   | Kind_Categorical \<Rightarrow> ''categorical'')"

section \<open>The generator\<close>

definition artifact_id :: "datalog_job \<Rightarrow> utc_window \<Rightarrow> string" where
  "artifact_id job w = jb_id job @ ''-r'' @ u64_string (jb_revision job) @ ''-'' @
     int_string (w_start w) @ ''-'' @ int_string (w_end w) @ ''-'' @ content_format_name (jb_format job)"

text \<open>
  The loop over the selections: the attributes to query without repetition and the columns.
  \<open>selected\<close> are the pairs of attribute number and calculation seen so far.
\<close>

definition column_for :: "meter_attribute_descriptor \<Rightarrow> meter_attribute_calculation \<Rightarrow> dataset_column" where
  "column_for d calculation =
     \<lparr>cl_id = ad_key d @ ''.'' @ calculation_name calculation, cl_attribute_key = ad_key d,
      cl_label = ad_label d, cl_unit = unit_name (ad_unit d), cl_calculation = calculation,
      cl_value_kind = ad_value_kind d\<rparr>"

fun select_columns ::
    "meter_period \<Rightarrow> attribute_selection list \<Rightarrow> (meter_attribute_id \<times> meter_attribute_calculation) list \<Rightarrow>
     meter_attribute_key list \<Rightarrow> dataset_column list \<Rightarrow>
     (meter_attribute_key list \<times> dataset_column list) datalog_result" where
  "select_columns period [] selected attributes columns = Inr (attributes, columns)"
| "select_columns period (sel # sels) selected attributes columns =
     (case describe (sl_attribute sel) of
        Inl e \<Rightarrow> Inl (Other_error e)
      | Inr descriptor \<Rightarrow>
          if \<not> supports_attribute (sl_attribute sel) period Usage_Historian \<or>
            \<not> supports_calculation descriptor (sl_calculation sel)
          then Inl (Datalog_error Unsupported_capability
            ''selected meter attribute/calculation is unsupported'')
          else
            let identity = (ak_id (sl_attribute sel), sl_calculation sel) in
            if identity \<in> set selected
            then Inl (Datalog_error Invalid_configuration ''duplicate datalog column selection'')
            else select_columns period sels (identity # selected)
              (if sl_attribute sel \<in> set attributes then attributes else attributes @ [sl_attribute sel])
              (columns @ [column_for descriptor (sl_calculation sel)]))"

text \<open>The order of the queried samples.\<close>

definition index_le :: "u16 option \<Rightarrow> u16 option \<Rightarrow> bool" where
  "index_le i j = (case (i, j) of (None, _) \<Rightarrow> True | (Some _, None) \<Rightarrow> False | (Some a, Some b) \<Rightarrow> a \<le> b)"

definition query_before :: "historical_sample \<Rightarrow> historical_sample \<Rightarrow> bool" where
  "query_before s t \<longleftrightarrow>
     (if hs_measured_at s \<noteq> hs_measured_at t then hs_measured_at s < hs_measured_at t
      else if hs_source_sequence s \<noteq> hs_source_sequence t then hs_source_sequence s < hs_source_sequence t
      else if ak_id (hs_attribute s) \<noteq> ak_id (hs_attribute t)
      then ak_id (hs_attribute s) < ak_id (hs_attribute t)
      else index_le (ak_index (hs_attribute s)) (ak_index (hs_attribute t)))"

text \<open>The samples of one attribute within one row.\<close>

definition bucket :: "historical_sample list \<Rightarrow> meter_attribute_key \<Rightarrow> utc_window \<Rightarrow> historical_sample list" where
  "bucket samples attribute w = filter (\<lambda>s. hs_attribute s = attribute \<and>
     hs_measured_at s \<ge> w_start w \<and> hs_measured_at s < w_end w) samples"

definition make_row ::
    "(int list \<Rightarrow> string option) \<Rightarrow> historical_source \<Rightarrow> datalog_job \<Rightarrow> historical_sample list \<Rightarrow> utc_window \<Rightarrow>
     dataset_row datalog_result" where
  "make_row circular source job samples w =
     bind_result (traverse (\<lambda>sel. aggregate circular (bucket samples (sl_attribute sel) w)
         (sl_calculation sel) (src_expected source (jb_source_period job) (sl_attribute sel) w))
       (jb_selections job)) (\<lambda>cells. Inr \<lparr>rw_window = w, rw_cells = cells\<rparr>)"

text \<open>The loop over the rows; the interval has been checked to be positive.\<close>

function row_windows :: "int \<Rightarrow> int \<Rightarrow> int \<Rightarrow> utc_window list" where
  "row_windows start stop interval =
     (if start < stop \<and> 0 < interval
      then \<lparr>w_start = start, w_end = start + interval\<rparr> # row_windows (start + interval) stop interval
      else [])"
  by pat_completeness auto
termination
  by (relation "measure (\<lambda>(start, stop, interval). nat (stop - start))") auto

declare row_windows.simps [simp del]

definition query_failed :: "datalog_exn \<Rightarrow> datalog_exn" where
  "query_failed e = (case e of Datalog_error c m \<Rightarrow> Datalog_error c m
   | Other_error x \<Rightarrow> Datalog_error Source_unavailable (''historian query failed: '' @ exn_message x))"

definition generate ::
    "(int list \<Rightarrow> string option) \<Rightarrow> historical_source \<Rightarrow> datalog_job \<Rightarrow> utc_window \<Rightarrow> int \<Rightarrow>
     generated_dataset datalog_result" where
  "generate circular source job w generated_at =
     (if \<not> safe_id (jb_id job) \<or> jb_revision job = 0 \<or> jb_product_id job = [] \<or> jb_device_id job = []
      then Inl (Datalog_error Invalid_configuration ''datalog job identity is invalid'')
      else if \<not> window_valid w \<or> duration_nanoseconds w \<noteq> jb_generation_interval job \<or>
        jb_row_interval job \<le> 0 \<or> jb_generation_interval job mod jb_row_interval job \<noteq> 0
      then Inl (Datalog_error Invalid_configuration ''generation and row intervals are incompatible'')
      else if jb_selections job = []
      then Inl (Datalog_error Invalid_configuration ''datalog job has no selected attributes'')
      else
        bind_result (select_columns (jb_source_period job) (jb_selections job) [] [] []) (\<lambda>(attributes, columns).
        bind_result (map_sum query_failed id (src_query source (jb_source_period job) attributes w)) (\<lambda>queried.
        let samples = sort_by query_before queried in
        bind_result (traverse (make_row circular source job samples)
            (row_windows (w_start w) (w_end w) (jb_row_interval job))) (\<lambda>rows.
          Inr \<lparr>gd_schema = ''mnc.meter.datalog.v1'', gd_artifact_id = artifact_id job w,
            gd_job_id = jb_id job, gd_job_revision = jb_revision job, gd_product_id = jb_product_id job,
            gd_device_id = jb_device_id job, gd_source_period = jb_source_period job,
            gd_format = jb_format job, gd_generated_at = generated_at, gd_window = w,
            gd_columns = columns, gd_rows = rows\<rparr>))))"

section \<open>The writers\<close>

definition make_content ::
    "(string \<Rightarrow> string) \<Rightarrow> generated_dataset \<Rightarrow> string \<Rightarrow> string \<Rightarrow> string \<Rightarrow> generated_content" where
  "make_content sha dataset body mime_type extension =
     \<lparr>gc_artifact_id = gd_artifact_id dataset, gc_filename = gd_artifact_id dataset @ ''.'' @ extension,
      gc_mime_type = mime_type, gc_extension = extension, gc_body = body, gc_sha256 = sha body\<rparr>"

definition hex_char :: "int \<Rightarrow> char" where
  "hex_char d = ''0123456789abcdef'' ! nat d"

definition newline :: string where "newline = [CHR 0x0A]"
definition crlf :: string where "crlf = [CHR 0x0D, CHR 0x0A]"

definition json_char :: "char \<Rightarrow> string" where
  "json_char c =
     (if c = CHR 0x22 then [CHR 0x5C, CHR 0x22]
      else if c = CHR 0x5C then [CHR 0x5C, CHR 0x5C]
      else if c = CHR 0x08 then [CHR 0x5C, CHR ''b'']
      else if c = CHR 0x0C then [CHR 0x5C, CHR ''f'']
      else if c = CHR 0x0A then [CHR 0x5C, CHR ''n'']
      else if c = CHR 0x0D then [CHR 0x5C, CHR ''r'']
      else if c = CHR 0x09 then [CHR 0x5C, CHR ''t'']
      else let n = (of_char c :: int) in
        if n < 32 then [CHR 0x5C] @ ''u00'' @ [hex_char (n div 16), hex_char (n mod 16)]
        else [c])"

definition json_string :: "string \<Rightarrow> string" where
  "json_string value = [CHR 0x22] @ concat (map json_char value) @ [CHR 0x22]"

text \<open>A text in double quotes without escaping, used for numbers.\<close>

definition quoted :: "string \<Rightarrow> string" where
  "quoted s = [CHR 0x22] @ s @ [CHR 0x22]"

definition json_bool :: "bool \<Rightarrow> string" where
  "json_bool b = (if b then ''true'' else ''false'')"

fun separated :: "string \<Rightarrow> string list \<Rightarrow> string" where
  "separated sep [] = []"
| "separated sep [s] = s"
| "separated sep (s # t # ss) = s @ sep @ separated sep (t # ss)"

definition json_column :: "dataset_column \<Rightarrow> string" where
  "json_column c = ''    {'' @ quoted ''id'' @ '': '' @ json_string (cl_id c) @
     '', '' @ quoted ''attribute'' @ '': '' @ json_string (cl_attribute_key c) @
     '', '' @ quoted ''label'' @ '': '' @ json_string (cl_label c) @
     '', '' @ quoted ''unit'' @ '': '' @ json_string (cl_unit c) @
     '', '' @ quoted ''calculation'' @ '': '' @ json_string (calculation_name (cl_calculation c)) @
     '', '' @ quoted ''value_kind'' @ '': '' @ json_string (value_kind_name (cl_value_kind c)) @ ''}''"

definition json_cell :: "dataset_cell \<Rightarrow> string" where
  "json_cell c = ''{'' @ quoted ''value'' @ '': '' @
     (case ce_value c of Some v \<Rightarrow> json_string v | None \<Rightarrow> ''null'') @
     '', '' @ quoted ''quality'' @ '': '' @ json_string (quality_name (ce_quality c)) @
     '', '' @ quoted ''contributing_samples'' @ '': '' @ quoted (decimal (int (ce_contributing c))) @
     '', '' @ quoted ''expected_samples'' @ '': '' @ quoted (u64_string (ce_expected c)) @
     '', '' @ quoted ''complete'' @ '': '' @ json_bool (ce_complete c) @
     '', '' @ quoted ''continuity'' @ '': '' @ json_bool (ce_continuity c) @
     '', '' @ quoted ''reset_epoch'' @ '': '' @
     (case ce_reset_epoch c of Some e \<Rightarrow> quoted (u64_string e) | None \<Rightarrow> ''null'') @ ''}''"

definition json_row :: "dataset_row \<Rightarrow> string" where
  "json_row r = ''    {'' @ quoted ''start_utc_ns'' @ '': '' @ quoted (int_string (w_start (rw_window r))) @
     '', '' @ quoted ''end_utc_ns'' @ '': '' @ quoted (int_string (w_end (rw_window r))) @
     '', '' @ quoted ''values'' @ '': ['' @ separated '', '' (map json_cell (rw_cells r)) @ '']}''"

text \<open>A list of lines: each ends in a newline, all but the last after a comma.\<close>

definition json_lines :: "string list \<Rightarrow> string" where
  "json_lines ls = (if ls = [] then [] else separated (CHR '','' # newline) ls @ newline)"

definition cells_match :: "generated_dataset \<Rightarrow> bool" where
  "cells_match dataset \<longleftrightarrow>
     list_all (\<lambda>r. length (rw_cells r) = length (gd_columns dataset)) (gd_rows dataset)"

definition json_body :: "generated_dataset \<Rightarrow> string" where
  "json_body d = ''{'' @ newline @
     ''  '' @ quoted ''schema'' @ '': '' @ json_string (gd_schema d) @ '','' @ newline @
     ''  '' @ quoted ''artifact_id'' @ '': '' @ json_string (gd_artifact_id d) @ '','' @ newline @
     ''  '' @ quoted ''job_id'' @ '': '' @ json_string (gd_job_id d) @ '','' @ newline @
     ''  '' @ quoted ''job_revision'' @ '': '' @ quoted (u64_string (gd_job_revision d)) @ '','' @ newline @
     ''  '' @ quoted ''product_id'' @ '': '' @ json_string (gd_product_id d) @ '','' @ newline @
     ''  '' @ quoted ''device_id'' @ '': '' @ json_string (gd_device_id d) @ '','' @ newline @
     ''  '' @ quoted ''format'' @ '': '' @ quoted ''json'' @ '','' @ newline @
     ''  '' @ quoted ''source_period'' @ '': '' @ json_string (period_name (gd_source_period d)) @ '','' @ newline @
     ''  '' @ quoted ''generated_at_utc_ns'' @ '': '' @ quoted (int_string (gd_generated_at d)) @ '','' @ newline @
     ''  '' @ quoted ''artifact_window'' @ '': {'' @ quoted ''start_utc_ns'' @ '': '' @
       quoted (int_string (w_start (gd_window d))) @ '', '' @ quoted ''end_utc_ns'' @ '': '' @
       quoted (int_string (w_end (gd_window d))) @ ''},'' @ newline @
     ''  '' @ quoted ''columns'' @ '': ['' @ newline @ json_lines (map json_column (gd_columns d)) @
     ''  ],'' @ newline @ ''  '' @ quoted ''rows'' @ '': ['' @ newline @ json_lines (map json_row (gd_rows d)) @
     ''  ]'' @ newline @ ''}'' @ newline"

definition write_json :: "(string \<Rightarrow> string) \<Rightarrow> generated_dataset \<Rightarrow> generated_content datalog_result" where
  "write_json sha dataset =
     (if gd_format dataset \<noteq> Format_json
      then Inl (Datalog_error Serialization_failure ''JSON writer received a non-JSON dataset'')
      else if \<not> cells_match dataset
      then Inl (Datalog_error Serialization_failure ''dataset row/column cardinality mismatch'')
      else Inr (make_content sha dataset (json_body dataset) ''application/json'' ''json''))"

definition csv_field :: "string \<Rightarrow> string" where
  "csv_field value =
     (if list_ex (\<lambda>c. c \<in> set ([CHR '','', CHR 0x22] @ crlf)) value
      then [CHR 0x22] @ concat (map (\<lambda>c. if c = CHR 0x22 then [CHR 0x22, CHR 0x22] else [c]) value) @ [CHR 0x22]
      else value)"

definition csv_line :: "string list \<Rightarrow> string" where
  "csv_line fs = separated '','' (map csv_field fs) @ crlf"

definition csv_header :: "generated_dataset \<Rightarrow> string list" where
  "csv_header d = [''schema'', ''artifact_id'', ''job_id'', ''job_revision'', ''product_id'', ''device_id'',
     ''source_period'', ''generated_at_utc_ns'', ''artifact_start_utc_ns'', ''artifact_end_utc_ns'',
     ''row_start_utc_ns'', ''row_end_utc_ns''] @
     concat (map (\<lambda>c. map (\<lambda>suffix. cl_id c @ ''.'' @ suffix) [''value'', ''quality'',
       ''contributing_samples'', ''expected_samples'', ''complete'', ''continuity'', ''reset_epoch''])
       (gd_columns d))"

definition csv_cell :: "dataset_cell \<Rightarrow> string list" where
  "csv_cell c = [case ce_value c of Some v \<Rightarrow> v | None \<Rightarrow> [], quality_name (ce_quality c),
     decimal (int (ce_contributing c)), u64_string (ce_expected c), json_bool (ce_complete c),
     json_bool (ce_continuity c), case ce_reset_epoch c of Some e \<Rightarrow> u64_string e | None \<Rightarrow> []]"

definition csv_row :: "generated_dataset \<Rightarrow> dataset_row \<Rightarrow> string list" where
  "csv_row d r = [gd_schema d, gd_artifact_id d, gd_job_id d, u64_string (gd_job_revision d),
     gd_product_id d, gd_device_id d, period_name (gd_source_period d), int_string (gd_generated_at d),
     int_string (w_start (gd_window d)), int_string (w_end (gd_window d)),
     int_string (w_start (rw_window r)), int_string (w_end (rw_window r))] @
     concat (map csv_cell (rw_cells r))"

definition write_csv :: "(string \<Rightarrow> string) \<Rightarrow> generated_dataset \<Rightarrow> generated_content datalog_result" where
  "write_csv sha dataset =
     (if gd_format dataset \<noteq> Format_csv
      then Inl (Datalog_error Serialization_failure ''CSV writer received a non-CSV dataset'')
      else if \<not> cells_match dataset
      then Inl (Datalog_error Serialization_failure ''dataset row/column cardinality mismatch'')
      else Inr (make_content sha dataset
        (csv_line (csv_header dataset) @ concat (map (csv_line \<circ> csv_row dataset) (gd_rows dataset)))
        ''text/csv; charset=utf-8'' ''csv''))"

text \<open>The factory, and the writer it creates applied to the dataset.\<close>

definition write_content ::
    "(string \<Rightarrow> string) \<Rightarrow> content_format \<Rightarrow> generated_dataset \<Rightarrow> generated_content datalog_result" where
  "write_content sha f dataset =
     (case f of Format_json \<Rightarrow> write_json sha dataset | Format_csv \<Rightarrow> write_csv sha dataset)"

section \<open>Decimal text\<close>

definition digit_value :: "char \<Rightarrow> int" where
  "digit_value c = of_char c - 48"

definition is_digit :: "char \<Rightarrow> bool" where
  "is_digit c \<longleftrightarrow> 48 \<le> (of_char c :: int) \<and> (of_char c :: int) \<le> 57"

definition read_nat :: "string \<Rightarrow> int" where
  "read_nat s = foldl (\<lambda>v c. v * 10 + digit_value c) 0 s"

lemma read_nat_simps [simp]:
  "read_nat [] = 0" "read_nat (s @ [c]) = read_nat s * 10 + digit_value c"
  by (simp_all add: read_nat_def)

lemma ten_cases:
  fixes d :: int
  assumes "0 \<le> d" "d < 10"
  obtains "d = 0" | "d = 1" | "d = 2" | "d = 3" | "d = 4" | "d = 5" | "d = 6" | "d = 7" | "d = 8" | "d = 9"
proof -
  have "d = 0 \<or> d = 1 \<or> d = 2 \<or> d = 3 \<or> d = 4 \<or> d = 5 \<or> d = 6 \<or> d = 7 \<or> d = 8 \<or> d = 9"
    using assms by presburger
  then show thesis using that by blast
qed

lemma digit_char:
  assumes "0 \<le> d" "d < 10"
  shows "digit_value (digit_char d) = d" "is_digit (digit_char d)" "digit_char d = CHR ''0'' \<longleftrightarrow> d = 0"
  using assms by (cases rule: ten_cases; simp add: digit_char_def digit_value_def is_digit_def)+

lemma read_nat_decimal [simp]: "0 \<le> n \<Longrightarrow> read_nat (decimal n) = n"
proof (induction n rule: decimal.induct)
  case (1 n)
  then show ?case
    by (subst decimal.simps) (auto simp: digit_char(1) read_nat_def)
qed

lemma decimal_digits: "0 \<le> n \<Longrightarrow> list_all is_digit (decimal n)"
proof (induction n rule: decimal.induct)
  case (1 n)
  then show ?case by (subst decimal.simps) (auto simp: digit_char(2))
qed

lemma decimal_nonempty [simp]: "decimal n \<noteq> []"
  by (subst decimal.simps) simp

lemma decimal_inject: "0 \<le> m \<Longrightarrow> 0 \<le> n \<Longrightarrow> decimal m = decimal n \<longleftrightarrow> m = n"
  using read_nat_decimal [of m] read_nat_decimal [of n] by metis

lemma digit_not_symbol: "is_digit c \<Longrightarrow> c \<noteq> CHR ''-'' \<and> c \<noteq> CHR ''.'' \<and> c \<noteq> CHR '','' \<and> c \<noteq> CHR 0x22"
  by (auto simp: is_digit_def)

lemma decimal_no_symbol:
  "0 \<le> n \<Longrightarrow> c \<in> set (decimal n) \<Longrightarrow> c \<noteq> CHR ''-'' \<and> c \<noteq> CHR ''.'' \<and> c \<noteq> CHR '','' \<and> c \<noteq> CHR 0x22"
  using decimal_digits [of n] by (auto simp: list_all_iff dest: digit_not_symbol)

text \<open>The value of a decimal fraction with at most six digits, in millionths.\<close>

definition read_micros :: "string \<Rightarrow> int" where
  "read_micros s =
     (let negative = (s \<noteq> [] \<and> hd s = CHR ''-''); t = (if negative then tl s else s);
          whole = takeWhile (\<lambda>c. c \<noteq> CHR ''.'') t; fraction = drop (length whole + 1) t;
          magnitude = read_nat whole * 1000000 + read_nat fraction * 10 ^ (6 - length fraction)
      in if negative then - magnitude else magnitude)"

lemma length_fraction_digits: "length (fraction_digits n r d) \<le> n"
  by (induction n arbitrary: r) simp_all

lemma read_nat_Cons: "read_nat (c # s) = digit_value c * 10 ^ length s + read_nat s"
proof (induction s rule: rev_induct)
  case Nil
  then show ?case by (simp add: read_nat_def)
next
  case (snoc x s)
  have "read_nat (c # s @ [x]) = read_nat (c # s) * 10 + digit_value x"
    using read_nat_simps(2) [of "c # s" x] by simp
  with snoc show ?case by (simp add: algebra_simps)
qed

lemma scaled_div:
  fixes a d k :: int
  assumes "0 < d"
  shows "a * k div d = a div d * k + a mod d * k div d"
proof -
  have dist: "(q * d + s) * k = s * k + d * (q * k)" for q s :: int by (simp add: algebra_simps)
  have "a * k = a mod d * k + d * (a div d * k)"
    using dist [of "a div d" "a mod d"] by simp
  then have "a * k div d = (a mod d * k + d * (a div d * k)) div d" by (rule arg_cong)
  also have "\<dots> = a div d * k + a mod d * k div d"
    using assms by (simp only: div_mult_self2)
  finally show ?thesis .
qed

lemma fraction_value:
  "0 \<le> r \<Longrightarrow> r < d \<Longrightarrow>
   read_nat (fraction_digits n r d) * 10 ^ (n - length (fraction_digits n r d)) = r * 10 ^ n div d"
proof (induction n arbitrary: r)
  case 0
  then show ?case by simp
next
  case (Suc n)
  show ?case
  proof (cases "r = 0")
    case True
    then show ?thesis by simp
  next
    case False
    let ?q = "r * 10 div d" and ?s = "r * 10 mod d"
    let ?f = "fraction_digits n ?s d"
    have d: "0 < d" using Suc.prems by simp
    have "?q * d \<le> r * 10" using d pos_mod_sign [of d "r * 10"] div_mult_mod_eq [of "r * 10" d] by linarith
    also have "\<dots> < 10 * d" using Suc.prems by simp
    finally have q: "0 \<le> ?q" "?q < 10" using d Suc.prems by (simp_all add: pos_imp_zdiv_nonneg_iff)
    have ih: "read_nat ?f * 10 ^ (n - length ?f) = ?s * 10 ^ n div d"
      using Suc.IH [of ?s] d by simp
    have l: "length ?f \<le> n" by (rule length_fraction_digits)
    have e: "r * 10 ^ Suc n div d = ?q * 10 ^ n + ?s * 10 ^ n div d"
      using scaled_div [OF d, of "r * 10" "10 ^ n"] by (simp add: mult.assoc)
    have p: "(10::int) ^ length ?f * 10 ^ (n - length ?f) = 10 ^ n"
      using l by (simp flip: power_add)
    have "read_nat (fraction_digits (Suc n) r d) * 10 ^ (Suc n - length (fraction_digits (Suc n) r d)) =
        (?q * 10 ^ length ?f + read_nat ?f) * 10 ^ (n - length ?f)"
      using False by (simp add: read_nat_Cons digit_char(1) [OF q])
    also have "\<dots> = ?q * 10 ^ n + ?s * 10 ^ n div d"
      using p ih by (simp add: algebra_simps)
    finally show ?thesis using e by simp
  qed
qed

lemma length_strip_zeros: "length (strip_zeros s) \<le> length s"
  using length_dropWhile_le [of _ "rev s"] by (simp add: strip_zeros_def)

lemma strip_zeros_split: "s = strip_zeros s @ replicate (length s - length (strip_zeros s)) (CHR ''0'')"
proof (induction s rule: rev_induct)
  case Nil
  then show ?case by (simp add: strip_zeros_def)
next
  case (snoc c s)
  note l = length_strip_zeros [of s]
  show ?case
  proof (cases "c = CHR ''0''")
    case True
    then have "strip_zeros (s @ [c]) = strip_zeros s" by (simp add: strip_zeros_def)
    moreover have "Suc (length s) - length (strip_zeros s) = Suc (length s - length (strip_zeros s))"
      using l by simp
    moreover have "s @ [c] = strip_zeros s @ replicate (Suc (length s - length (strip_zeros s))) (CHR ''0'')"
      using True by (subst snoc) (simp add: replicate_append_same)
    ultimately show ?thesis by simp
  next
    case False
    then show ?thesis by (simp add: strip_zeros_def)
  qed
qed

lemma read_nat_zeros: "read_nat (s @ replicate k (CHR ''0'')) = read_nat s * 10 ^ k"
proof (induction k)
  case 0
  then show ?case by simp
next
  case (Suc k)
  have "read_nat (s @ replicate (Suc k) (CHR ''0'')) = read_nat (s @ replicate k (CHR ''0'')) * 10"
    using read_nat_simps(2) [of "s @ replicate k (CHR ''0'')" "CHR ''0''"]
    by (simp add: replicate_append_same digit_value_def)
  with Suc show ?case by simp
qed

lemma strip_zeros_value:
  "length s \<le> n \<Longrightarrow>
   read_nat (strip_zeros s) * 10 ^ (n - length (strip_zeros s)) = read_nat s * 10 ^ (n - length s)"
proof -
  assume n: "length s \<le> n"
  let ?t = "strip_zeros s" and ?k = "length s - length (strip_zeros s)"
  note l = length_strip_zeros [of s]
  have "read_nat s = read_nat ?t * 10 ^ ?k"
    using strip_zeros_split [of s] read_nat_zeros [of ?t ?k] by simp
  then show ?thesis
    using n l by (simp add: mult.assoc flip: power_add)
qed

lemma decimal_ratio_micros:
  assumes "d \<noteq> 0"
  shows "\<exists>v. decimal_ratio n d = Inr v \<and> read_micros v = n * 1000000 sdiv uint d"
proof -
  define m where "m = (if n < 0 then - n else n)"
  define f where "f = strip_zeros (fraction_digits 6 (m mod uint d) (uint d))"
  define w where "w = decimal (m div uint d)"
  define r where "r = w @ (if f \<noteq> [] then CHR ''.'' # f else [])"
  have d: "0 < uint d" using assms by (rule uint_pos)
  have m: "0 \<le> m" by (simp add: m_def)
  have q: "0 \<le> m div uint d" using m d by (simp add: pos_imp_zdiv_nonneg_iff)
  have nodot: "CHR ''.'' \<notin> set w" "w \<noteq> []" "hd w \<noteq> CHR ''-''"
    using decimal_no_symbol [OF q] hd_in_set [of w] by (auto simp: w_def)
  have tw: "takeWhile (\<lambda>c. c \<noteq> CHR ''.'') r = w" "drop (length w + 1) r = f"
    using nodot(1) by (auto simp: r_def takeWhile_tail intro: takeWhile_eq_all_conv [THEN iffD2])
  have len: "length f \<le> 6"
    using length_fraction_digits [of 6 "m mod uint d" "uint d"] length_strip_zeros le_trans
    unfolding f_def by blast
  have fv: "read_nat f * 10 ^ (6 - length f) = m mod uint d * 1000000 div uint d"
    using strip_zeros_value [OF length_fraction_digits, of 6 "m mod uint d" "uint d"]
      fraction_value [of "m mod uint d" "uint d" 6] d by (simp add: f_def)
  have mag: "m * 1000000 div uint d = m div uint d * 1000000 + m mod uint d * 1000000 div uint d"
    using d by (rule scaled_div)
  have rr: "hd r \<noteq> CHR ''-''" "r \<noteq> []" using nodot by (auto simp: r_def)
  have pos: "read_micros r = m * 1000000 div uint d"
    using rr tw fv q by (simp add: read_micros_def Let_def mag w_def)
  have neg: "read_micros (CHR ''-'' # r) = - (m * 1000000 div uint d)"
    using tw fv q by (simp add: read_micros_def Let_def mag w_def)
  have zero: "m * 1000000 div uint d = 0" if "r = ''0''"
    using pos that by (simp add: read_micros_def Let_def read_nat_def digit_value_def)
  have v: "decimal_ratio n d = Inr (if n < 0 \<and> r \<noteq> ''0'' then CHR ''-'' # r else r)"
    using assms by (simp add: decimal_ratio_def Let_def m_def f_def w_def r_def)
  have "n * 1000000 sdiv uint d = (if n < 0 then - (m * 1000000 div uint d) else m * 1000000 div uint d)"
    using d by (auto simp: signed_divide_int_def m_def sgn_if)
  then show ?thesis
    using v pos neg zero by auto
qed

section \<open>Identities\<close>

lemma split_last:
  assumes "xs @ c # ys = us @ c # vs" "c \<notin> set ys" "c \<notin> set vs"
  shows "xs = us \<and> ys = vs"
proof -
  have "takeWhile (\<lambda>x. x \<noteq> c) (rev (xs @ c # ys)) = rev ys" "takeWhile (\<lambda>x. x \<noteq> c) (rev (us @ c # vs)) = rev vs"
    using assms(2,3) by (simp_all add: takeWhile_append)
  then have "ys = vs" using assms(1) by simp
  then show ?thesis using assms(1) by simp
qed

lemma format_name_no_dash: "CHR ''-'' \<notin> set (content_format_name f)"
  by (cases f) (simp_all add: content_format_name_def)

lemma int_string_no_dash: "0 \<le> i \<Longrightarrow> CHR ''-'' \<notin> set (int_string i)"
  using decimal_no_symbol [of i] by (auto simp: int_string_def)

lemma int_string_inject: "0 \<le> i \<Longrightarrow> 0 \<le> j \<Longrightarrow> int_string i = int_string j \<longleftrightarrow> i = j"
  by (simp add: int_string_def decimal_inject)

lemma artifact_id_shape:
  "artifact_id job w = (((jb_id job @ CHR ''-'' # CHR ''r'' # u64_string (jb_revision job)) @
     CHR ''-'' # int_string (w_start w)) @ CHR ''-'' # int_string (w_end w)) @
     CHR ''-'' # content_format_name (jb_format job)"
  by (simp add: artifact_id_def)

lemma artifact_id_inject:
  assumes eq: "artifact_id job w = artifact_id job' w'"
    and nonneg: "0 \<le> w_start w" "0 \<le> w_end w" "0 \<le> w_start w'" "0 \<le> w_end w'"
  shows "jb_id job = jb_id job' \<and> jb_revision job = jb_revision job' \<and> w = w' \<and>
    content_format_name (jb_format job) = content_format_name (jb_format job')"
proof -
  have rev: "CHR ''-'' \<notin> set (CHR ''r'' # u64_string r)" for r
    using decimal_no_symbol [of "uint r"] by auto
  note e1 = split_last [OF eq [unfolded artifact_id_shape] format_name_no_dash format_name_no_dash]
  note e2 = split_last [OF conjunct1 [OF e1] int_string_no_dash int_string_no_dash, OF nonneg(2,4)]
  note e3 = split_last [OF conjunct1 [OF e2] int_string_no_dash int_string_no_dash, OF nonneg(1,3)]
  note e4 = split_last [OF conjunct1 [OF e3] rev rev]
  show ?thesis
    using e1 e2 e3 e4 nonneg
    by (cases w, cases w') (simp add: int_string_inject decimal_inject word_uint_eq_iff)
qed

section \<open>JSON strings\<close>

definition hex_value :: "char \<Rightarrow> int" where
  "hex_value c = (let n = (of_char c :: int) in if n < 58 then n - 48 else n - 87)"

definition json_escape :: "char \<Rightarrow> char" where
  "json_escape e =
     (if e = CHR ''b'' then CHR 0x08 else if e = CHR ''f'' then CHR 0x0C
      else if e = CHR ''n'' then CHR 0x0A else if e = CHR ''r'' then CHR 0x0D
      else if e = CHR ''t'' then CHR 0x09 else e)"

text \<open>A reader of JSON strings: the characters up to the closing quote, and what follows it.\<close>

fun json_read :: "string \<Rightarrow> (string \<times> string) option" where
  "json_read [] = None"
| "json_read [c] = (if c = CHR 0x22 then Some ([], []) else None)"
| "json_read (c # e # rest) =
     (if c = CHR 0x22 then Some ([], e # rest)
      else if c = CHR 0x5C
      then (if e = CHR ''u''
            then (case rest of
                a # b # h # l # tail \<Rightarrow> map_option (apfst ((#) (char_of (hex_value h * 16 + hex_value l)))) (json_read tail)
              | _ \<Rightarrow> None)
            else map_option (apfst ((#) (json_escape e))) (json_read rest))
      else map_option (apfst ((#) c)) (json_read (e # rest)))"

lemma hex_char_value:
  assumes "0 \<le> d" "d < 16"
  shows "hex_value (hex_char d) = d"
proof (cases "d < 10")
  case True
  with assms(1) show ?thesis by (cases rule: ten_cases) (simp_all add: hex_char_def hex_value_def)
next
  case False
  with assms(2) have "d = 10 \<or> d = 11 \<or> d = 12 \<or> d = 13 \<or> d = 14 \<or> d = 15" by presburger
  then show ?thesis by (auto simp: hex_char_def hex_value_def)
qed

lemma json_read_char:
  "json_read (json_char c @ x # rest) = map_option (apfst ((#) c)) (json_read (x # rest))"
proof (cases "(of_char c :: int) < 32 \<and> c \<notin> {CHR 0x08, CHR 0x0C, CHR 0x0A, CHR 0x0D, CHR 0x09}")
  case True
  let ?n = "of_char c :: int"
  have n: "0 \<le> ?n" "?n < 32" using True of_nat_of_char [of c, where 'a = int] by simp_all
  then have "c \<noteq> CHR 0x22" "c \<noteq> CHR 0x5C" by auto
  moreover have "hex_value (hex_char (?n div 16)) * 16 + hex_value (hex_char (?n mod 16)) = ?n"
    using n by (simp add: hex_char_value)
  ultimately show ?thesis using True by (simp add: json_char_def Let_def)
next
  case False
  then show ?thesis by (auto simp: json_char_def json_escape_def)
qed

lemma json_read_string: "json_read (concat (map json_char v) @ CHR 0x22 # rest) = Some (v, rest)"
proof (induction v)
  case Nil
  then show ?case by (cases rest) simp_all
next
  case (Cons c v)
  obtain x tail where x: "concat (map json_char v) @ CHR 0x22 # rest = x # tail"
    by (cases "concat (map json_char v) @ CHR 0x22 # rest") auto
  show ?case
    using json_read_char [of c x tail] Cons x by simp
qed

section \<open>CSV files\<close>

text \<open>
  A reader of comma-separated files with quoted fields, as a scanner over the characters:
  \<open>csv_scan\<close> is outside quotes, \<open>csv_quoted\<close> inside. The accumulators are the current field, the
  fields of the current line and the lines before it.
\<close>

fun csv_scan :: "string \<Rightarrow> string list \<Rightarrow> string list list \<Rightarrow> string \<Rightarrow> string list list option"
  and csv_quoted :: "string \<Rightarrow> string list \<Rightarrow> string list list \<Rightarrow> string \<Rightarrow> string list list option" where
  "csv_scan field line lines [] = (if field = [] \<and> line = [] then Some lines else None)"
| "csv_scan field line lines [c] =
     (if c = CHR '','' then csv_scan [] (line @ [field]) lines []
      else if c = CHR 0x22 \<and> field = [] then csv_quoted [] line lines []
      else csv_scan (field @ [c]) line lines [])"
| "csv_scan field line lines (c # d # rest) =
     (if c = CHR '','' then csv_scan [] (line @ [field]) lines (d # rest)
      else if c = CHR 0x0D \<and> d = CHR 0x0A then csv_scan [] [] (lines @ [line @ [field]]) rest
      else if c = CHR 0x22 \<and> field = [] then csv_quoted [] line lines (d # rest)
      else csv_scan (field @ [c]) line lines (d # rest))"
| "csv_quoted field line lines [] = None"
| "csv_quoted field line lines [c] = None"
| "csv_quoted field line lines (c # d # rest) =
     (if c = CHR 0x22
      then (if d = CHR 0x22 then csv_quoted (field @ [c]) line lines rest
            else if d = CHR '','' then csv_scan [] (line @ [field]) lines rest
            else if d = CHR 0x0D \<and> take 1 rest = [CHR 0x0A]
            then csv_scan [] [] (lines @ [line @ [field]]) (drop 1 rest)
            else None)
      else csv_quoted (field @ [c]) line lines (d # rest))"

definition read_csv :: "string \<Rightarrow> string list list option" where
  "read_csv s = csv_scan [] [] [] s"

abbreviation csv_special :: "char \<Rightarrow> bool" where
  "csv_special c \<equiv> c = CHR '','' \<or> c = CHR 0x22 \<or> c = CHR 0x0D \<or> c = CHR 0x0A"

lemma csv_scan_plain:
  assumes "list_all (\<lambda>c. \<not> csv_special c) s" "rest \<noteq> []"
  shows "csv_scan field line lines (s @ rest) = csv_scan (field @ s) line lines rest"
  using assms(1)
proof (induction s arbitrary: field)
  case Nil
  then show ?case by simp
next
  case (Cons c s)
  obtain d tail where d: "s @ rest = d # tail" using assms(2) by (cases "s @ rest") auto
  show ?case using Cons.IH [of "field @ [c]"] Cons.prems d by simp
qed

lemma csv_quoted_text:
  assumes "rest \<noteq> []"
  shows "csv_quoted field line lines
    (concat (map (\<lambda>c. if c = CHR 0x22 then [CHR 0x22, CHR 0x22] else [c]) s) @ rest) =
    csv_quoted (field @ s) line lines rest"
proof (induction s arbitrary: field)
  case Nil
  then show ?case by simp
next
  case (Cons c s)
  obtain d tail where d: "concat (map (\<lambda>c. if c = CHR 0x22 then [CHR 0x22, CHR 0x22] else [c]) s) @ rest = d # tail"
    using assms by (cases "concat (map (\<lambda>c. if c = CHR 0x22 then [CHR 0x22, CHR 0x22] else [c]) s) @ rest") auto
  show ?case using Cons.IH [of "field @ [c]"] d by (cases "c = CHR 0x22") auto
qed

lemma csv_field_cases:
  obtains "csv_field v = v" "list_all (\<lambda>c. \<not> csv_special c) v"
  | "csv_field v = CHR 0x22 # concat (map (\<lambda>c. if c = CHR 0x22 then [CHR 0x22, CHR 0x22] else [c]) v) @ [CHR 0x22]"
proof (cases "list_ex csv_special v")
  case True
  then show thesis using that(2) by (simp add: csv_field_def crlf_def)
next
  case False
  then show thesis using that(1) by (simp add: csv_field_def crlf_def list_ex_iff list_all_iff)
qed

lemma csv_scan_field:
  "csv_scan [] line lines (csv_field v @ CHR '','' # rest) = csv_scan [] (line @ [v]) lines rest"
  "csv_scan [] line lines (csv_field v @ crlf @ rest) = csv_scan [] [] (lines @ [line @ [v]]) rest"
proof -
  show "csv_scan [] line lines (csv_field v @ CHR '','' # rest) = csv_scan [] (line @ [v]) lines rest"
  proof (cases rule: csv_field_cases [of v])
    case 1
    then show ?thesis by (cases rest) (simp_all add: csv_scan_plain)
  next
    case 2
    then show ?thesis
      using csv_quoted_text [of "CHR 0x22 # CHR '','' # rest" "[]" line lines v]
      by (cases "concat (map (\<lambda>c. if c = CHR 0x22 then [CHR 0x22, CHR 0x22] else [c]) v) @ CHR 0x22 # CHR '','' # rest") auto
  qed
  show "csv_scan [] line lines (csv_field v @ crlf @ rest) = csv_scan [] [] (lines @ [line @ [v]]) rest"
  proof (cases rule: csv_field_cases [of v])
    case 1
    then show ?thesis by (simp add: csv_scan_plain crlf_def)
  next
    case 2
    then show ?thesis
      using csv_quoted_text [of "CHR 0x22 # crlf @ rest" "[]" line lines v]
      by (cases "concat (map (\<lambda>c. if c = CHR 0x22 then [CHR 0x22, CHR 0x22] else [c]) v) @ CHR 0x22 # crlf @ rest")
        (auto simp: crlf_def)
  qed
qed

lemma csv_scan_line:
  "fs \<noteq> [] \<Longrightarrow> csv_scan [] line lines (csv_line fs @ rest) = csv_scan [] [] (lines @ [line @ fs]) rest"
proof (induction fs arbitrary: line rule: induct_list012)
  case 1
  then show ?case by simp
next
  case (2 v)
  then show ?case by (simp add: csv_line_def csv_scan_field)
next
  case (3 v w fs)
  then show ?case
    using csv_scan_field(1) [of line lines v "csv_line (w # fs) @ rest"] by (simp add: csv_line_def)
qed

lemma csv_scan_lines:
  "list_all (\<lambda>fs. fs \<noteq> []) ls \<Longrightarrow> csv_scan [] [] lines (concat (map csv_line ls)) = Some (lines @ ls)"
  by (induction ls arbitrary: lines) (simp_all add: csv_scan_line)

section \<open>Cells\<close>

lemma mset_insert_by [simp]: "mset (insert_by before x xs) = add_mset x (mset xs)"
  by (induction xs) auto

lemma mset_sort_by [simp]: "mset (sort_by before xs) = mset xs"
  by (induction xs) (simp_all add: sort_by_def)

lemma set_sort_by [simp]: "set (sort_by before xs) = set xs"
  using mset_sort_by by (metis set_mset_mset)

lemma length_sort_by [simp]: "length (sort_by before xs) = length xs"
  using mset_sort_by by (metis size_mset)

lemma sort_by_eq_Nil [simp]: "sort_by before xs = [] \<longleftrightarrow> xs = []"
  by (metis length_0_conv length_sort_by)

lemma sum_sort_by [simp]: "sum_list (map (f :: 'a \<Rightarrow> int) (sort_by before xs)) = sum_list (map f xs)"
  by (metis mset_map mset_sort_by sum_mset_sum_list)

lemma length_filter_sort_by [simp]: "length (filter P (sort_by before xs)) = length (filter P xs)"
  by (metis mset_filter mset_sort_by size_mset)

lemma sample_before_total: "sample_before s t \<or> sample_before t s"
  by (auto simp: sample_before_def)

lemma sample_before_trans: "sample_before s t \<Longrightarrow> sample_before t u \<Longrightarrow> sample_before s u"
  by (auto simp: sample_before_def)

lemma sorted_insert_by:
  "sorted_wrt sample_before xs \<Longrightarrow> sorted_wrt sample_before (insert_by sample_before x xs)"
proof (induction xs)
  case Nil
  then show ?case by simp
next
  case (Cons y ys)
  have "set (insert_by sample_before x ys) = insert x (set ys)"
    by (metis mset_insert_by set_mset_add_mset_insert set_mset_mset)
  then show ?case
    using Cons sample_before_total [of x y] sample_before_trans [of x y] by auto
qed

lemma sorted_sort_by: "sorted_wrt sample_before (sort_by sample_before xs)"
  by (induction xs) (simp_all add: sort_by_def sorted_insert_by)

text \<open>The valid samples of a cell.\<close>

abbreviation valid_samples :: "historical_sample list \<Rightarrow> historical_sample list" where
  "valid_samples samples \<equiv> filter (\<lambda>s. hs_quality s = Quality_Valid) samples"

lemma aggregate_contributing:
  assumes "aggregate circular samples calculation expected = Inr cell"
  shows "ce_contributing cell = length (valid_samples samples)"
  using assms
  by (cases calculation)
    (auto simp: aggregate_def Let_def empty_cell_def split: if_splits option.splits)

lemma aggregate_delta:
  assumes "aggregate circular samples Calc_Delta expected = Inr cell" "ce_value cell = Some v"
  shows "\<exists>first final. first \<in> set (valid_samples samples) \<and> final \<in> set (valid_samples samples) \<and>
    list_all (\<lambda>s. sample_before first s \<and> sample_before s final) (valid_samples samples) \<and>
    hs_reset_epoch first = hs_reset_epoch final \<and> hs_reset_epoch first \<noteq> None \<and>
    v = int_string (hs_value final - hs_value first)"
proof -
  let ?vs = "sort_by sample_before (valid_samples samples)"
  have ne: "?vs \<noteq> []" using assms by (auto simp: aggregate_def Let_def empty_cell_def)
  have s: "sorted_wrt sample_before ?vs" by (rule sorted_sort_by)
  have "sample_before (hd ?vs) x \<and> sample_before x (last ?vs)" if "x \<in> set ?vs" for x
  proof -
    have refl: "sample_before x x" for x using sample_before_total [of x x] by simp
    obtain a xs where a: "?vs = a # xs" using ne by (cases ?vs) auto
    obtain b ys where b: "?vs = ys @ [b]" using ne by (cases ?vs rule: rev_cases) auto
    have "sample_before a x" using s that a refl by auto
    moreover have "sample_before x b" using s that refl unfolding b by (auto simp: sorted_wrt_append)
    ultimately show ?thesis using a b by (metis last_snoc list.sel(1))
  qed
  moreover have "hd ?vs \<in> set (valid_samples samples)" "last ?vs \<in> set (valid_samples samples)"
    using hd_in_set [OF ne] last_in_set [OF ne] by (simp_all only: set_sort_by)
  ultimately show ?thesis
    using assms ne
    by (intro exI [of _ "hd ?vs"] exI [of _ "last ?vs"])
      (auto simp: aggregate_def Let_def empty_cell_def list_all_iff simp del: sort_by_eq_Nil split: if_splits)
qed

section \<open>Rows\<close>

lemma row_windows_contiguous:
  assumes "0 < k"
  shows "row_windows start (start + int n * k) k = map (\<lambda>i. \<lparr>w_start = start + int i * k, w_end = start + int (Suc i) * k\<rparr>) [0..<n]"
proof (induction n arbitrary: start)
  case 0
  then show ?case by (subst row_windows.simps) simp
next
  case (Suc n)
  have lt: "start < start + int (Suc n) * k" using assms by simp
  have e: "start + int (Suc n) * k = (start + k) + int n * k" by (simp add: algebra_simps)
  have "row_windows start (start + int (Suc n) * k) k =
      \<lparr>w_start = start, w_end = start + k\<rparr> # row_windows (start + k) (start + int (Suc n) * k) k"
    using lt assms by (subst row_windows.simps) (simp del: of_nat_Suc)
  then show ?case
    unfolding e Suc upt_conv_Cons [OF zero_less_Suc]
    by (simp add: map_Suc_upt [symmetric] algebra_simps comp_def del: upt_Suc)
qed

lemma row_windows_count:
  "(\<Sum>w \<leftarrow> row_windows start stop k. length (filter (\<lambda>x. w_start w \<le> f x \<and> f x < w_end w) xs)) =
    length (filter (\<lambda>x. start \<le> f x \<and> f x < start + int (length (row_windows start stop k)) * k) xs)"
proof (induction start stop k rule: row_windows.induct)
  case (1 start stop k)
  show ?case
  proof (cases "start < stop \<and> 0 < k")
    case True
    let ?n = "length (row_windows (start + k) stop k)"
    have r: "row_windows start stop k =
        \<lparr>w_start = start, w_end = start + k\<rparr> # row_windows (start + k) stop k"
      using True by (subst row_windows.simps) simp
    have "length (filter (\<lambda>x. start \<le> f x \<and> f x < start + k) xs) +
        length (filter (\<lambda>x. start + k \<le> f x \<and> f x < start + k + int ?n * k) xs) =
        length (filter (\<lambda>x. start \<le> f x \<and> f x < start + k + int ?n * k) xs)"
    proof -
      have "length (filter (\<lambda>x. start \<le> f x \<and> f x < start + k) xs) +
          length (filter (\<lambda>x. start + k \<le> f x \<and> f x < start + k + m) xs) =
          length (filter (\<lambda>x. start \<le> f x \<and> f x < start + k + m) xs)" if "0 \<le> m" for m
        using that True by (induction xs) auto
      then show ?thesis using True by simp
    qed
    then show ?thesis using 1 True by (simp add: r algebra_simps)
  next
    case False
    then show ?thesis
      by (subst (1 2) row_windows.simps) (auto simp: filter_empty_conv)
  qed
qed

lemma select_columns_length:
  "select_columns period sels selected attributes columns = Inr (attributes', columns') \<Longrightarrow>
   length columns' = length columns + length sels"
  by (induction period sels selected attributes columns rule: select_columns.induct)
    (auto simp: Let_def split: sum.splits if_splits)

lemma map_sum_id_Inr [simp]: "map_sum f id m = Inr y \<longleftrightarrow> m = Inr y"
  by (cases m) auto

text \<open>What a successful generation has done.\<close>

lemma generate_cases:
  assumes "generate circular source job w generated_at = Inr dataset"
  obtains attributes columns queried rows where
    "select_columns (jb_source_period job) (jb_selections job) [] [] [] = Inr (attributes, columns)"
    "src_query source (jb_source_period job) attributes w = Inr queried"
    "traverse (make_row circular source job (sort_by query_before queried))
       (row_windows (w_start w) (w_end w) (jb_row_interval job)) = Inr rows"
    "gd_rows dataset = rows" "gd_columns dataset = columns" "gd_artifact_id dataset = artifact_id job w"
    "gd_format dataset = jb_format job" "gd_window dataset = w" "gd_job_id dataset = jb_id job"
    "gd_job_revision dataset = jb_revision job" "gd_generated_at dataset = generated_at"
    "window_valid w" "duration_nanoseconds w = jb_generation_interval job" "0 < jb_row_interval job"
    "jb_generation_interval job mod jb_row_interval job = 0" "jb_revision job \<noteq> 0" "safe_id (jb_id job)"
  using assms
  by (auto simp: generate_def Let_def split: if_splits)

lemma make_row_cells:
  assumes "make_row circular source job samples w = Inr row"
  shows "rw_window row = w \<and> length (rw_cells row) = length (jb_selections job) \<and>
    (\<forall>j < length (jb_selections job). ce_contributing (rw_cells row ! j) =
      length (valid_samples (bucket samples (sl_attribute (jb_selections job ! j)) w)))"
proof -
  obtain cells where c: "row = \<lparr>rw_window = w, rw_cells = cells\<rparr>"
    and t: "traverse (\<lambda>sel. aggregate circular (bucket samples (sl_attribute sel) w) (sl_calculation sel)
      (src_expected source (jb_source_period job) (sl_attribute sel) w)) (jb_selections job) = Inr cells"
    using assms by (auto simp: make_row_def)
  show ?thesis
    using traverse_Inr [OF t] by (auto simp: c list_all2_conv_all_nth aggregate_contributing)
qed

lemma generated_rows:
  assumes "generate circular source job w generated_at = Inr dataset"
  shows "cells_match dataset"
proof -
  from assms obtain attributes columns queried rows where
    s: "select_columns (jb_source_period job) (jb_selections job) [] [] [] = Inr (attributes, columns)"
    and r: "traverse (make_row circular source job (sort_by query_before queried))
       (row_windows (w_start w) (w_end w) (jb_row_interval job)) = Inr rows"
    and d: "gd_rows dataset = rows" "gd_columns dataset = columns"
    by (rule generate_cases)
  have "length columns = length (jb_selections job)" using select_columns_length [OF s] by simp
  moreover have "length (rw_cells row) = length (jb_selections job)" if "row \<in> set rows" for row
    using traverse_Inr [OF r] that make_row_cells by (auto simp: list_all2_conv_all_nth in_set_conv_nth)
  ultimately show ?thesis by (simp add: cells_match_def d list_all_iff)
qed

lemma window_tiles:
  assumes "window_valid w" "0 < k" "duration_nanoseconds w mod k = 0"
  shows "w_end w = w_start w + int (nat (duration_nanoseconds w div k)) * k"
  using assms mult_div_mod_eq [of k "duration_nanoseconds w"]
  by (simp add: window_valid_def duration_nanoseconds_def pos_imp_zdiv_nonneg_iff mult.commute)

text \<open>
  C29. A generated dataset accounts for every sample once: its rows tile the requested window without
  gap or overlap, and in every column the numbers of contributing samples add up to the valid
  samples of the selected attribute that the historian has in the window.
\<close>

theorem datalog_rows_account_for_samples:
  assumes "generate circular source job w generated_at = Inr dataset" "j < length (jb_selections job)"
  shows "map rw_window (gd_rows dataset) =
      map (\<lambda>i. \<lparr>w_start = w_start w + int i * jb_row_interval job,
        w_end = w_start w + int (Suc i) * jb_row_interval job\<rparr>)
        [0..<nat (duration_nanoseconds w div jb_row_interval job)] \<and>
    (\<exists>attributes queried. src_query source (jb_source_period job) attributes w = Inr queried \<and>
      (\<Sum>row \<leftarrow> gd_rows dataset. ce_contributing (rw_cells row ! j)) =
        length (filter (\<lambda>s. hs_quality s = Quality_Valid \<and>
          hs_attribute s = sl_attribute (jb_selections job ! j) \<and>
          w_start w \<le> hs_measured_at s \<and> hs_measured_at s < w_end w) queried))"
proof -
  let ?k = "jb_row_interval job" and ?a = "sl_attribute (jb_selections job ! j)"
  from assms(1) obtain attributes columns queried rows where
    q: "src_query source (jb_source_period job) attributes w = Inr queried"
    and r: "traverse (make_row circular source job (sort_by query_before queried))
       (row_windows (w_start w) (w_end w) ?k) = Inr rows"
    and d: "gd_rows dataset = rows" and k: "window_valid w" "0 < ?k" "duration_nanoseconds w mod ?k = 0"
    by (elim generate_cases) metis
  let ?n = "nat (duration_nanoseconds w div ?k)" and ?ws = "row_windows (w_start w) (w_end w) ?k"
  let ?v = "filter (\<lambda>s. hs_quality s = Quality_Valid \<and> hs_attribute s = ?a) (sort_by query_before queried)"
  have e: "w_end w = w_start w + int ?n * ?k" using k by (rule window_tiles)
  have ws: "?ws = map (\<lambda>i. \<lparr>w_start = w_start w + int i * ?k, w_end = w_start w + int (Suc i) * ?k\<rparr>) [0..<?n]"
    using row_windows_contiguous [OF k(2), of "w_start w" ?n] e by simp
  have "length ?ws = ?n" unfolding ws by (simp only: length_map length_upt diff_zero)
  then have len: "w_start w + int (length ?ws) * ?k = w_end w" by (simp only: e)
  have rel: "list_all2 (\<lambda>v row. rw_window row = v \<and>
      ce_contributing (rw_cells row ! j) = length (filter (\<lambda>s. w_start v \<le> hs_measured_at s \<and> hs_measured_at s < w_end v) ?v)) ?ws rows"
    using traverse_Inr [OF r] make_row_cells assms(2)
    by (elim list_all2_mono) (auto simp: bucket_def conj_ac)
  have windows: "map rw_window rows = ?ws"
    using rel by (induction rule: list_all2_induct) auto
  have "(\<Sum>row \<leftarrow> rows. ce_contributing (rw_cells row ! j)) =
      (\<Sum>v \<leftarrow> ?ws. length (filter (\<lambda>s. w_start v \<le> hs_measured_at s \<and> hs_measured_at s < w_end v) ?v))"
    using rel by (induction rule: list_all2_induct) auto
  also have "\<dots> = length (filter (\<lambda>s. w_start w \<le> hs_measured_at s \<and> hs_measured_at s < w_end w) ?v)"
    using row_windows_count [of hs_measured_at ?v "w_start w" "w_end w" ?k] unfolding len .
  finally have "(\<Sum>row \<leftarrow> rows. ce_contributing (rw_cells row ! j)) =
      length (filter (\<lambda>s. hs_quality s = Quality_Valid \<and> hs_attribute s = ?a \<and>
        w_start w \<le> hs_measured_at s \<and> hs_measured_at s < w_end w) queried)"
    by (simp add: conj_ac)
  then show ?thesis using windows ws q d by auto
qed

text \<open>
  The average in a cell is exact: the decimal text is the mean of the valid samples, truncated
  towards zero after six decimals, whatever the sign and however large the sum.
\<close>

theorem datalog_average_exact:
  assumes "valid_samples samples \<noteq> []" "length samples < 2 ^ 64"
  shows "\<exists>cell v. aggregate circular samples Calc_Average expected = Inr cell \<and> ce_value cell = Some v \<and>
    ce_quality cell = Quality_Valid \<and> read_micros v =
      sum_list (map hs_value (valid_samples samples)) * 1000000 sdiv int (length (valid_samples samples))"
proof -
  let ?vs = "valid_samples samples"
  have le: "length ?vs < 2 ^ 64" using assms(2) length_filter_le le_less_trans by blast
  have u: "uint (of_nat (length ?vs) :: u64) = int (length ?vs)"
    using le by (simp add: unsigned_of_nat take_bit_nat_eq_self uint_nat)
  then have nz: "(of_nat (length ?vs) :: u64) \<noteq> 0" using assms(1) by (metis length_0_conv of_nat_eq_0_iff uint_0_eq)
  obtain v where v: "decimal_ratio (sum_list (map hs_value ?vs)) (of_nat (length ?vs)) = Inr v"
      "read_micros v = sum_list (map hs_value ?vs) * 1000000 sdiv int (length ?vs)"
    using decimal_ratio_micros [OF nz] u by metis
  then show ?thesis
    using assms(1) by (simp add: aggregate_def Let_def)
qed

definition example_samples :: "historical_sample list" where
  "example_samples = map (\<lambda>(t, v, q). \<lparr>hs_measured_at = t, hs_source_sequence = 1,
     hs_attribute = attribute_key Id_Frequency, hs_value = v, hs_quality = q, hs_reset_epoch = None\<rparr>)
     [(10, 50001, Quality_Valid), (20, - 7, Quality_Invalid), (30, 50002, Quality_Valid), (70, 49999, Quality_Valid)]"

definition example_source :: historical_source where
  "example_source = \<lparr>src_query = (\<lambda>_ _ _. Inr example_samples), src_expected = (\<lambda>_ _ _. 3)\<rparr>"

definition example_job :: datalog_job where
  "example_job = \<lparr>jb_id = ''daily'', jb_revision = 2, jb_product_id = ''msap1'', jb_device_id = ''m,1'',
     jb_source_period = Period_Basic, jb_generation_interval = 100, jb_row_interval = 50,
     jb_format = Format_csv, jb_selections =
       [\<lparr>sl_attribute = attribute_key Id_Frequency, sl_calculation = Calc_Average\<rparr>]\<rparr>"

definition example_window :: utc_window where
  "example_window = \<lparr>w_start = 0, w_end = 100\<rparr>"

lemma example_generates:
  "\<exists>dataset. generate (\<lambda>_. None) example_source example_job example_window 200 = Inr dataset"
proof -
  have "case generate (\<lambda>_. None) example_source example_job example_window 200 of Inl e \<Rightarrow> False | Inr d \<Rightarrow> True"
    by code_simp
  then show ?thesis by (auto split: sum.splits)
qed

theorem datalog_average_exact_witness:
  "\<exists>cell v. aggregate (\<lambda>_. None) example_samples Calc_Average 3 = Inr cell \<and> ce_value cell = Some v \<and>
    ce_quality cell = Quality_Valid \<and> read_micros v = 50000666666"
  using datalog_average_exact [of example_samples "\<lambda>_. None" 3] by (simp add: example_samples_def)

theorem datalog_rows_account_for_samples_witness:
  "\<exists>dataset. generate (\<lambda>_. None) example_source example_job example_window 200 = Inr dataset \<and>
    map rw_window (gd_rows dataset) = [\<lparr>w_start = 0, w_end = 50\<rparr>, \<lparr>w_start = 50, w_end = 100\<rparr>] \<and>
    (\<Sum>row \<leftarrow> gd_rows dataset. ce_contributing (rw_cells row ! 0)) = 3"
proof -
  obtain dataset where d: "generate (\<lambda>_. None) example_source example_job example_window 200 = Inr dataset"
    using example_generates by blast
  have upt: "[0..<2] = [0, Suc 0]" by (simp add: numeral_2_eq_2)
  show ?thesis
    using datalog_rows_account_for_samples [OF d, of 0] d
    by (auto simp: example_job_def example_window_def example_source_def example_samples_def
        duration_nanoseconds_def upt)
qed

lemma written_csv:
  assumes "generate circular source job w generated_at = Inr dataset" "jb_format job = Format_csv"
  shows "\<exists>content. write_content sha (jb_format job) dataset = Inr content \<and>
    read_csv (gc_body content) = Some (csv_header dataset # map (csv_row dataset) (gd_rows dataset)) \<and>
    gc_filename content = artifact_id job w @ ''.csv'' \<and> gc_sha256 content = sha (gc_body content)"
proof -
  have f: "gd_format dataset = Format_csv" "gd_artifact_id dataset = artifact_id job w"
    using assms by (auto elim: generate_cases)
  have "read_csv (csv_line (csv_header dataset) @ concat (map (csv_line \<circ> csv_row dataset) (gd_rows dataset))) =
      Some (csv_header dataset # map (csv_row dataset) (gd_rows dataset))"
    using csv_scan_lines [of "csv_header dataset # map (csv_row dataset) (gd_rows dataset)" "[]"]
    by (simp add: read_csv_def csv_header_def csv_row_def list_all_iff)
  then show ?thesis
    using generated_rows [OF assms(1)] f assms(2)
    by (simp add: write_content_def write_csv_def make_content_def)
qed

text \<open>
  C30. The CSV file of a generated dataset is written without an error and is faithful: a CSV reader
  gets back exactly the header and, for every row, exactly the texts of its identity, its window
  and its cells, whatever characters they contain.
\<close>

theorem datalog_csv_roundtrip:
  assumes "generate circular source job w generated_at = Inr dataset" "jb_format job = Format_csv"
  shows "\<exists>content. write_content sha (jb_format job) dataset = Inr content \<and>
    read_csv (gc_body content) = Some (csv_header dataset # map (csv_row dataset) (gd_rows dataset)) \<and>
    gc_filename content = artifact_id job w @ ''.csv'' \<and> gc_sha256 content = sha (gc_body content)"
  using assms by (rule written_csv)

text \<open>
  Artifact names never collide: two generations have the same artifact identifier only when
  they are for the same job, revision, window and format.
\<close>

theorem artifact_id_unique:
  assumes "artifact_id job w = artifact_id job' w'" "0 \<le> w_start w" "0 \<le> w_start w'"
    "window_valid w" "window_valid w'"
  shows "jb_id job = jb_id job' \<and> jb_revision job = jb_revision job' \<and> w = w' \<and> jb_format job = jb_format job'"
  using artifact_id_inject [OF assms(1)] assms(2-5)
  by (cases "jb_format job"; cases "jb_format job'") (auto simp: window_valid_def content_format_name_def)

theorem datalog_csv_roundtrip_witness:
  "\<exists>dataset content. generate (\<lambda>_. None) example_source example_job example_window 200 = Inr dataset \<and>
    write_content (\<lambda>_. ''0'') Format_csv dataset = Inr content \<and>
    read_csv (gc_body content) = Some (csv_header dataset # map (csv_row dataset) (gd_rows dataset))"
proof -
  obtain dataset where d: "generate (\<lambda>_. None) example_source example_job example_window 200 = Inr dataset"
    using example_generates by blast
  have f: "jb_format example_job = Format_csv" by (simp add: example_job_def)
  show ?thesis using datalog_csv_roundtrip [OF d f, of "\<lambda>_. ''0''"] d f by auto
qed

theorem artifact_id_unique_witness:
  "\<not> artifact_id example_job example_window = artifact_id example_job \<lparr>w_start = 100, w_end = 200\<rparr>"
  using artifact_id_unique [of example_job example_window example_job "\<lparr>w_start = 100, w_end = 200\<rparr>"]
  by (auto simp: example_window_def window_valid_def)

end
