(* ===== verification/Acquisition_Health.thy ===== *)
theory Acquisition_Health
  imports Rpu_Protocol Datalog_Content Meter_Events
begin

text \<open>
  Health of the acquisition: the verdicts and reasons of \<^verbatim>\<open>meter_health.cpp\<close>, the cached health of the ADC
  processor with its confirmation policy (\<^verbatim>\<open>pipeline/health_monitor.cpp\<close>), the optional aggregation processor
  (\<^verbatim>\<open>pipeline/aggregation_health_monitor.cpp\<close>), and the queue that links events to waveform captures
  (\<^verbatim>\<open>pipeline/event_waveform_linker.cpp\<close>).

  A call reads the steady clock once in the model; log texts are left out and a journal keeps the names
  of the logged events.
\<close>

unbundle bit_operations_syntax

section \<open>Flags\<close>

abbreviation adc_spi_responsive :: u32 where "adc_spi_responsive \<equiv> 1"
abbreviation adc_initialized :: u32 where "adc_initialized \<equiv> 2"
abbreviation adc_init_complete :: u32 where "adc_init_complete \<equiv> 4"
abbreviation adc_config_match :: u32 where "adc_config_match \<equiv> 8"
abbreviation adc_capture_active :: u32 where "adc_capture_active \<equiv> 0x10"
abbreviation adc_no_overflow :: u32 where "adc_no_overflow \<equiv> 0x20"
abbreviation adc_headers_valid :: u32 where "adc_headers_valid \<equiv> 0x40"
abbreviation adc_rate_match :: u32 where "adc_rate_match \<equiv> 0x80"
abbreviation adc_simulator_healthy :: u32 where "adc_simulator_healthy \<equiv> 0x100"
abbreviation adc_physical_diagnostics :: u32 where "adc_physical_diagnostics \<equiv> 0x200"
abbreviation spi_health_ok :: u32 where "spi_health_ok \<equiv> 0"
abbreviation source_physical :: u32 where "source_physical \<equiv> 0"
abbreviation source_simulator :: u32 where "source_simulator \<equiv> 1"
abbreviation meter_cores_present :: u32 where "meter_cores_present \<equiv> 1"
abbreviation meter_configured_flag :: u32 where "meter_configured_flag \<equiv> 2"
abbreviation meter_generation_flag :: u32 where "meter_generation_flag \<equiv> 4"
abbreviation meter_enabled :: u32 where "meter_enabled \<equiv> 8"
abbreviation meter_remove_dc :: u32 where "meter_remove_dc \<equiv> 0x10"
abbreviation meter_current_wiring :: u32 where "meter_current_wiring \<equiv> 0x20"
abbreviation config_enable :: u32 where "config_enable \<equiv> 1"
abbreviation config_remove_dc :: u32 where "config_remove_dc \<equiv> 2"
abbreviation wiring_none :: u32 where "wiring_none \<equiv> 0"
abbreviation wiring_success :: u32 where "wiring_success \<equiv> 1"
abbreviation wiring_rolled_back :: u32 where "wiring_rolled_back \<equiv> 3"
abbreviation wiring_rollback_failed :: u32 where "wiring_rollback_failed \<equiv> 4"
abbreviation agg_transport_available :: u32 where "agg_transport_available \<equiv> 1"
abbreviation agg_transport_initialized :: u32 where "agg_transport_initialized \<equiv> 2"
abbreviation agg_input_healthy :: u32 where "agg_input_healthy \<equiv> 4"
abbreviation agg_engine_ready :: u32 where "agg_engine_ready \<equiv> 8"
abbreviation agg_output_ready :: u32 where "agg_output_ready \<equiv> 0x10"
abbreviation agg_output_active :: u32 where "agg_output_active \<equiv> 0x20"
abbreviation agg_authoritative :: u32 where "agg_authoritative \<equiv> 0x40"
abbreviation ring_pressure_critical :: u32 where "ring_pressure_critical \<equiv> 3"
abbreviation r5_task_stack_minimum_headroom_bytes :: u32 where
  "r5_task_stack_minimum_headroom_bytes \<equiv> 2048"

definition health_flag :: "adc_health_payload \<Rightarrow> u32 \<Rightarrow> bool" where
  "health_flag h f \<longleftrightarrow> ah_health_flags h AND f \<noteq> 0"

definition meter_flag :: "adc_health_payload \<Rightarrow> u32 \<Rightarrow> bool" where
  "meter_flag h f \<longleftrightarrow> ah_meter_health_flags h AND f \<noteq> 0"

definition aggregation_flag :: "aggregation_health_payload \<Rightarrow> u32 \<Rightarrow> bool" where
  "aggregation_flag h f \<longleftrightarrow> gh_health_flags h AND f \<noteq> 0"

section \<open>Verdicts\<close>

record health_reason =
  hr_code :: string
  hr_message :: string

text \<open>\<^verbatim>\<open>append_reason\<close> under a condition, and the decimal text of a counter.\<close>

definition reason_if :: "bool \<Rightarrow> string \<Rightarrow> string \<Rightarrow> health_reason list" where
  "reason_if c code message = (if c then [\<lparr>hr_code = code, hr_message = message\<rparr>] else [])"

abbreviation u32_string :: "u32 \<Rightarrow> string" where
  "u32_string w \<equiv> decimal (uint w)"

definition spi_snapshot_valid :: "adc_health_payload \<Rightarrow> bool" where
  "spi_snapshot_valid h \<longleftrightarrow> health_flag h adc_spi_responsive \<and> ah_spi_error h = spi_health_ok"

definition evaluate_rpu_adc_health_reasons :: "adc_health_payload \<Rightarrow> health_reason list" where
  "evaluate_rpu_adc_health_reasons h =
     (let simulator = (ah_adc_source h = source_simulator) in
      reason_if (simulator \<and> \<not> health_flag h adc_initialized) ''not_initialized''
        ''ADC simulator is not initialized'' @
      reason_if (simulator \<and> \<not> health_flag h adc_simulator_healthy) ''simulator_unhealthy''
        ''PL ADC simulator configuration or status is invalid'' @
      reason_if (\<not> simulator \<and> ah_adc_source h \<noteq> source_physical) ''invalid_adc_source''
        ''RPU reports an unsupported ADC source'' @
      reason_if (\<not> simulator \<and> \<not> spi_snapshot_valid h) ''spi_unresponsive''
        (''ADC SPI register-health check failed (error '' @ u32_string (ah_spi_error h) @ '')'') @
      reason_if (\<not> simulator \<and> \<not> health_flag h adc_initialized) ''not_initialized''
        ''ADC driver is not initialized'' @
      reason_if (\<not> simulator \<and> spi_snapshot_valid h \<and> \<not> health_flag h adc_init_complete)
        ''init_incomplete'' ''ADC INIT_COMPLETE is not asserted'' @
      reason_if (\<not> simulator \<and> spi_snapshot_valid h \<and> \<not> health_flag h adc_config_match)
        ''configuration_mismatch'' ''ADC register readback does not match the active configuration'' @
      reason_if (\<not> health_flag h adc_capture_active) ''capture_inactive'' ''ADC capture is not active'' @
      reason_if (\<not> health_flag h adc_no_overflow) ''fifo_overflow''
        (''PL capture FIFO has '' @ u32_string (ah_overflow_count h) @ '' overflow(s)'') @
      reason_if (\<not> health_flag h adc_headers_valid) ''invalid_headers''
        (''no valid ADC frames are available or '' @ u32_string (ah_header_error_count h) @
         '' frame header error(s) were detected'') @
      reason_if (\<not> health_flag h adc_rate_match) ''sample_rate_mismatch''
        (''measured ADC DRDY rate '' @ u32_string (ah_drdy_frequency_hz h) @
         '' frame/s does not match configured rate '' @ u32_string (ah_sample_rate_hz h) @ '' frame/s''))"

definition evaluate_rpu_aggregation_health_reasons :: "aggregation_health_payload \<Rightarrow> health_reason list" where
  "evaluate_rpu_aggregation_health_reasons h =
     (let low = (\<lambda>n. n < r5_task_stack_minimum_headroom_bytes) in
      reason_if (\<not> aggregation_flag h agg_transport_available) ''transport_unavailable''
        ''R5C1 AXI FIFO transport is unavailable'' @
      reason_if (\<not> aggregation_flag h agg_transport_initialized) ''transport_not_initialized''
        ''R5C1 AXI FIFO transport is not initialized'' @
      reason_if (\<not> aggregation_flag h agg_input_healthy) ''input_unhealthy''
        ''R5C1 aggregation input stream is not healthy'' @
      reason_if (gh_fifo_errors h \<noteq> 0) ''fifo_errors''
        (''R5C1 reports '' @ u32_string (gh_fifo_errors h) @ '' AXI FIFO error(s)'') @
      reason_if (gh_crc_errors h \<noteq> 0 \<or> gh_format_errors h \<noteq> 0 \<or> gh_length_errors h \<noteq> 0)
        ''invalid_input_frames'' ''R5C1 rejected aggregation input frame(s)'' @
      reason_if (gh_ring_overflows h \<noteq> 0) ''input_ring_overflow''
        ''R5C1 aggregation input ring overflowed'' @
      reason_if (gh_software_ring_push_failures h \<noteq> 0) ''input_ring_push_failures''
        (''R5C1 could not enqueue '' @ u32_string (gh_software_ring_push_failures h) @
         '' aggregation input record(s)'') @
      reason_if (gh_input_records_dropped h \<noteq> 0) ''input_records_dropped''
        (''R5C1 deterministically dropped '' @ u32_string (gh_input_records_dropped h) @
         '' aggregation input record(s)'' @
         (if gh_first_dropped_sequence h \<noteq> 0 \<or> gh_last_dropped_sequence h \<noteq> 0
          then '' (source sequences '' @ u32_string (gh_first_dropped_sequence h) @ '' through '' @
            u32_string (gh_last_dropped_sequence h) @ '')'' else [])) @
      reason_if (gh_software_ring_pressure h \<ge> ring_pressure_critical) ''input_ring_pressure_critical''
        (''R5C1 aggregation input ring pressure is critical ('' @ u32_string (gh_software_ring_current h) @
         ''/'' @ u32_string (gh_software_ring_capacity h) @ '' records occupied)'') @
      reason_if (low (gh_control_stack_high_water_bytes h) \<or> low (gh_input_stack_high_water_bytes h) \<or>
          low (gh_output_stack_high_water_bytes h) \<or> low (gh_validator_stack_high_water_bytes h))
        ''task_stack_headroom_low''
        (''R5C1 task stack headroom is below 2048 bytes (control/input/output/validator '' @
         u32_string (gh_control_stack_high_water_bytes h) @ ''/'' @
         u32_string (gh_input_stack_high_water_bytes h) @ ''/'' @
         u32_string (gh_output_stack_high_water_bytes h) @ ''/'' @
         u32_string (gh_validator_stack_high_water_bytes h) @ '')'') @
      (if aggregation_flag h agg_authoritative then
         reason_if (\<not> aggregation_flag h agg_engine_ready) ''engine_not_ready''
           ''R5C1 aggregation engine is not ready'' @
         reason_if (\<not> aggregation_flag h agg_output_ready) ''output_not_ready''
           ''R5C1 aggregation output is not ready'' @
         reason_if (\<not> aggregation_flag h agg_output_active) ''output_inactive''
           ''R5C1 aggregation output is inactive'' @
         reason_if (gh_output_errors h \<noteq> 0) ''output_errors'' ''R5C1 reports aggregation output errors'' @
         reason_if (gh_output_drops h \<noteq> 0) ''output_drops'' ''R5C1 dropped aggregation output records''
       else []))"

text \<open>The members of \<^verbatim>\<open>InfoResponse\<close> that the evaluation reads.\<close>

record info_response =
  ir_running :: bool
  ir_has_meter_record :: bool
  ir_configuration_generation :: u32
  ir_requested_current_adc_phase_map :: u32
  ir_requested_current_adc_invert_mask :: u32
  ir_requested_current_input_order :: string
  ir_meter_record_age_ms :: u32
  ir_dma_read_errors :: u64
  ir_invalid_records :: u64
  ir_sequence_gaps :: u64
  ir_transport_produced_blocks :: u64
  ir_transport_callbacks :: u64
  ir_rpu_health :: adc_health_payload
  ir_has_aggregation_health :: bool
  ir_rpu_aggregation_health :: aggregation_health_payload
  ir_latest_record :: meter_record

definition transport_callback_deficit :: "info_response \<Rightarrow> u64" where
  "transport_callback_deficit r =
     (if ir_transport_callbacks r \<ge> ir_transport_produced_blocks r then 0
      else ir_transport_produced_blocks r - ir_transport_callbacks r)"

record meter_health =
  me_healthy :: bool
  me_acquisition_healthy :: bool
  me_record_stale :: bool
  me_adc_healthy :: bool
  me_simulator_active :: bool
  me_simulator_healthy :: bool
  me_physical_diagnostics_applicable :: bool
  me_spi_responsive :: bool
  me_initialized :: bool
  me_configuration_match :: bool
  me_rate_match :: bool
  me_capture_active :: bool
  me_fifo_ok :: bool
  me_headers_valid :: bool
  me_meter_configured :: bool
  me_meter_generation_match :: bool
  me_current_wiring_match :: bool
  me_dc_offset_removal :: bool
  me_frequency_arithmetic_ok :: bool
  me_aggregation_health_available :: bool
  me_aggregation_authoritative :: bool
  me_aggregation_transport_available :: bool
  me_aggregation_transport_initialized :: bool
  me_aggregation_input_healthy :: bool
  me_aggregation_engine_ready :: bool
  me_aggregation_output_ready :: bool
  me_aggregation_output_active :: bool
  me_aggregation_healthy :: bool
  me_adc_source :: u32
  me_requested_current_adc_phase_map :: u32
  me_requested_current_adc_invert_mask :: u32
  me_requested_current_input_order :: string
  me_active_current_adc_phase_map :: u32
  me_active_current_adc_invert_mask :: u32
  me_current_wiring_apply_status :: u32
  me_current_wiring_readback_mismatch_count :: u32
  me_adc_degraded_reasons :: "health_reason list"
  me_aggregation_degraded_reasons :: "health_reason list"

abbreviation meter_record_stale_after_ms :: u32 where "meter_record_stale_after_ms \<equiv> 1000"

definition generation_matches :: "info_response \<Rightarrow> bool" where
  "generation_matches r \<longleftrightarrow> meter_flag (ir_rpu_health r) meter_generation_flag \<and>
     ah_meter_generation (ir_rpu_health r) = ir_configuration_generation r"

definition wiring_matches :: "info_response \<Rightarrow> bool" where
  "wiring_matches r \<longleftrightarrow> (let adc = ir_rpu_health r in
     meter_flag adc meter_current_wiring \<and>
     ah_meter_requested_current_adc_phase_map adc = ir_requested_current_adc_phase_map r \<and>
     ah_meter_requested_current_adc_invert_mask adc = ir_requested_current_adc_invert_mask r \<and>
     ah_meter_active_current_adc_phase_map adc = ir_requested_current_adc_phase_map r \<and>
     ah_meter_active_current_adc_invert_mask adc = ir_requested_current_adc_invert_mask r)"

definition adc_reasons :: "info_response \<Rightarrow> health_reason list" where
  "adc_reasons r = (let adc = ir_rpu_health r in
     evaluate_rpu_adc_health_reasons adc @
     reason_if (\<not> meter_flag adc meter_cores_present) ''meter_cores_unavailable''
       ''PL meter-processing cores are unavailable'' @
     reason_if (\<not> meter_flag adc meter_configured_flag) ''meter_not_configured''
       ''PL meter configuration has not been applied'' @
     reason_if (\<not> meter_flag adc meter_enabled) ''meter_disabled'' ''PL meter processing is disabled'' @
     reason_if (\<not> generation_matches r) ''configuration_generation_mismatch''
       ''APU and PL configuration generations do not match'' @
     reason_if (\<not> wiring_matches r) ''current_wiring_mismatch''
       ''requested and active ADC current wiring do not match'' @
     reason_if (ah_meter_wiring_apply_status adc \<noteq> wiring_success) ''current_wiring_apply_failed''
       ''the last ADC current-wiring application did not succeed'')"

definition evaluate_meter_health :: "info_response \<Rightarrow> meter_health" where
  "evaluate_meter_health r =
     (let adc = ir_rpu_health r; agg = ir_rpu_aggregation_health r;
          available = ir_has_aggregation_health r;
          simulator = (ah_adc_source adc = source_simulator);
          spi = health_flag adc adc_spi_responsive;
          initialized = (health_flag adc adc_initialized \<and> health_flag adc adc_init_complete);
          configuration = health_flag adc adc_config_match;
          configured = (meter_flag adc meter_cores_present \<and> meter_flag adc meter_configured_flag \<and>
            meter_flag adc meter_enabled);
          arithmetic_ok = (ir_has_meter_record r \<and> \<not> fr_arithmetic_error (frequency (ir_latest_record r)));
          stale = (ir_running r \<and> ir_meter_record_age_ms r > meter_record_stale_after_ms);
          acquisition = (ir_running r \<and> ir_has_meter_record r \<and> ir_dma_read_errors r = 0 \<and>
            ir_invalid_records r = 0 \<and> ir_sequence_gaps r = 0 \<and> \<not> stale \<and> arithmetic_ok);
          source_healthy = (if simulator then health_flag adc adc_simulator_healthy
            else spi \<and> initialized \<and> configuration);
          adc_healthy = (source_healthy \<and> health_flag adc adc_rate_match \<and>
            health_flag adc adc_capture_active \<and> health_flag adc adc_no_overflow \<and>
            health_flag adc adc_headers_valid \<and> configured \<and> generation_matches r \<and> wiring_matches r \<and>
            ah_meter_wiring_apply_status adc = wiring_success);
          authoritative = (available \<and> aggregation_flag agg agg_authoritative);
          agg_reasons = (if available then evaluate_rpu_aggregation_health_reasons agg else []);
          agg_healthy = (available \<and> agg_reasons = [])
      in \<lparr>me_healthy = (acquisition \<and> adc_healthy \<and> (\<not> authoritative \<or> agg_healthy)),
          me_acquisition_healthy = acquisition, me_record_stale = stale, me_adc_healthy = adc_healthy,
          me_simulator_active = simulator,
          me_simulator_healthy = health_flag adc adc_simulator_healthy,
          me_physical_diagnostics_applicable = health_flag adc adc_physical_diagnostics,
          me_spi_responsive = spi, me_initialized = initialized, me_configuration_match = configuration,
          me_rate_match = health_flag adc adc_rate_match,
          me_capture_active = health_flag adc adc_capture_active,
          me_fifo_ok = health_flag adc adc_no_overflow,
          me_headers_valid = health_flag adc adc_headers_valid, me_meter_configured = configured,
          me_meter_generation_match = generation_matches r, me_current_wiring_match = wiring_matches r,
          me_dc_offset_removal = meter_flag adc meter_remove_dc,
          me_frequency_arithmetic_ok = arithmetic_ok, me_aggregation_health_available = available,
          me_aggregation_authoritative = authoritative,
          me_aggregation_transport_available = (available \<and> aggregation_flag agg agg_transport_available),
          me_aggregation_transport_initialized = (available \<and> aggregation_flag agg agg_transport_initialized),
          me_aggregation_input_healthy = (available \<and> aggregation_flag agg agg_input_healthy),
          me_aggregation_engine_ready = (available \<and> aggregation_flag agg agg_engine_ready),
          me_aggregation_output_ready = (available \<and> aggregation_flag agg agg_output_ready),
          me_aggregation_output_active = (available \<and> aggregation_flag agg agg_output_active),
          me_aggregation_healthy = agg_healthy, me_adc_source = ah_adc_source adc,
          me_requested_current_adc_phase_map = ir_requested_current_adc_phase_map r,
          me_requested_current_adc_invert_mask = ir_requested_current_adc_invert_mask r,
          me_requested_current_input_order = ir_requested_current_input_order r,
          me_active_current_adc_phase_map = ah_meter_active_current_adc_phase_map adc,
          me_active_current_adc_invert_mask = ah_meter_active_current_adc_invert_mask adc,
          me_current_wiring_apply_status = ah_meter_wiring_apply_status adc,
          me_current_wiring_readback_mismatch_count = ah_meter_wiring_readback_mismatch_count adc,
          me_adc_degraded_reasons = adc_reasons r, me_aggregation_degraded_reasons = agg_reasons\<rparr>)"

section \<open>The cached health of the ADC processor\<close>

record rpu_health_monitor =
  hm_cached :: adc_health_payload
  hm_has_cached :: bool
  hm_last_health_time :: "int option"
  hm_next_audit :: int
  hm_stabilizing :: bool
  hm_probe_failures :: u32
  hm_last_spi_retry_recovery_count :: u32
  hm_last_health_flags :: "u32 option"
  hm_last_spi_error :: u32
  hm_journal :: "string list"

definition zero_adc_health :: adc_health_payload where
  "zero_adc_health = adc_health_payload_at (replicate 262 0) 0"

definition health_monitor_init :: "int \<Rightarrow> rpu_health_monitor" where
  "health_monitor_init now =
     \<lparr>hm_cached = zero_adc_health, hm_has_cached = False, hm_last_health_time = None,
      hm_next_audit = now, hm_stabilizing = False, hm_probe_failures = 0,
      hm_last_spi_retry_recovery_count = 0, hm_last_health_flags = None, hm_last_spi_error = 0,
      hm_journal = []\<rparr>"

abbreviation health_audit_interval :: int where "health_audit_interval \<equiv> 30 * 1000000000"
abbreviation confirmation_interval :: int where "confirmation_interval \<equiv> 1000000000"
abbreviation startup_settle_interval :: int where "startup_settle_interval \<equiv> 2 * 1000000000"
abbreviation failures_before_degraded :: u32 where "failures_before_degraded \<equiv> 2"

definition register_health_flags :: u32 where
  "register_health_flags = adc_spi_responsive OR adc_init_complete OR adc_config_match"

definition confirmable_health_flags :: u32 where
  "confirmable_health_flags = adc_init_complete OR adc_config_match"

definition merge_operational_fields :: "adc_health_payload \<Rightarrow> adc_health_payload \<Rightarrow> adc_health_payload" where
  "merge_operational_fields cached health = cached
     \<lparr>ah_health_flags := (ah_health_flags cached AND register_health_flags) OR
        (ah_health_flags health AND NOT register_health_flags),
      ah_meter_health_flags := ah_meter_health_flags health,
      ah_meter_generation := ah_meter_generation health,
      ah_conversion_status := ah_conversion_status health,
      ah_processing_status := ah_processing_status health,
      ah_meter_requested_current_adc_phase_map := ah_meter_requested_current_adc_phase_map health,
      ah_meter_requested_current_adc_invert_mask := ah_meter_requested_current_adc_invert_mask health,
      ah_meter_active_current_adc_phase_map := ah_meter_active_current_adc_phase_map health,
      ah_meter_active_current_adc_invert_mask := ah_meter_active_current_adc_invert_mask health,
      ah_meter_wiring_apply_status := ah_meter_wiring_apply_status health,
      ah_meter_wiring_readback_mismatch_count := ah_meter_wiring_readback_mismatch_count health,
      ah_sample_rate_hz := ah_sample_rate_hz health, ah_capture_flags := ah_capture_flags health,
      ah_frame_count := ah_frame_count health, ah_overflow_count := ah_overflow_count health,
      ah_header_error_count := ah_header_error_count health, ah_alert_count := ah_alert_count health,
      ah_packet_count := ah_packet_count health, ah_dclk_frequency_hz := ah_dclk_frequency_hz health,
      ah_drdy_frequency_hz := ah_drdy_frequency_hz health,
      ah_spi_protocol_error_count := ah_spi_protocol_error_count health,
      ah_spi_retry_recovery_count := ah_spi_retry_recovery_count health,
      ah_spi_config_read_mismatch_count := ah_spi_config_read_mismatch_count health,
      ah_spi_last_failed_register := ah_spi_last_failed_register health,
      ah_spi_last_received_header := ah_spi_last_received_header health,
      ah_spi_header_histogram := ah_spi_header_histogram health\<rparr>"

definition observe_spi_recovery :: "adc_health_payload \<Rightarrow> rpu_health_monitor \<Rightarrow> rpu_health_monitor" where
  "observe_spi_recovery health m =
     (if ah_spi_retry_recovery_count health = hm_last_spi_retry_recovery_count m then m
      else m\<lparr>hm_journal := hm_journal m @ [''spi_retry_recovered''],
             hm_last_spi_retry_recovery_count := ah_spi_retry_recovery_count health\<rparr>)"

definition observe_health_transition :: "adc_health_payload \<Rightarrow> rpu_health_monitor \<Rightarrow> rpu_health_monitor" where
  "observe_health_transition health m =
     (if hm_last_health_flags m = Some (ah_health_flags health) \<and> hm_last_spi_error m = ah_spi_error health
      then m
      else m\<lparr>hm_journal := hm_journal m @
               [if evaluate_rpu_adc_health_reasons health = [] then ''rpu_health_healthy''
                else ''rpu_health_degraded''],
             hm_last_health_flags := Some (ah_health_flags health),
             hm_last_spi_error := ah_spi_error health\<rparr>)"

definition publish_health :: "int \<Rightarrow> adc_health_payload \<Rightarrow> rpu_health_monitor \<Rightarrow> rpu_health_monitor" where
  "publish_health now health m =
     m\<lparr>hm_cached := health, hm_has_cached := True, hm_last_health_time := Some now\<rparr>"

definition lost_verified_flag :: "rpu_health_monitor \<Rightarrow> adc_health_payload \<Rightarrow> bool" where
  "lost_verified_flag m health \<longleftrightarrow> hm_has_cached m \<and>
     (ah_health_flags (hm_cached m) AND NOT (ah_health_flags health)) AND confirmable_health_flags \<noteq> 0"

text \<open>\<open>outcome\<close> is what \<^verbatim>\<open>query_health\<close> returned or threw.\<close>

definition health_refresh ::
    "rpu_health_monitor \<Rightarrow> int \<Rightarrow> adc_health_payload result \<Rightarrow> rpu_health_monitor \<times> unit result" where
  "health_refresh monitor now outcome =
     (let m = monitor\<lparr>hm_stabilizing := False\<rparr> in
      case outcome of
        Inl e \<Rightarrow> (m\<lparr>hm_probe_failures := hm_probe_failures m + 1,
                    hm_next_audit := now + confirmation_interval\<rparr>, Inl e)
      | Inr health \<Rightarrow>
          if ah_adc_source health = source_simulator
          then (observe_health_transition health (publish_health now health
                  (m\<lparr>hm_probe_failures := 0, hm_next_audit := now + health_audit_interval\<rparr>)), Inr ())
          else if spi_snapshot_valid health \<and> \<not> lost_verified_flag m health
          then (observe_health_transition health (observe_spi_recovery health (publish_health now health
                  (m\<lparr>hm_probe_failures := 0, hm_next_audit := now + health_audit_interval\<rparr>))), Inr ())
          else let failed = m\<lparr>hm_probe_failures := hm_probe_failures m + 1,
                              hm_next_audit := now + confirmation_interval\<rparr>;
                   noted = (if hm_probe_failures failed < failures_before_degraded
                     then failed\<lparr>hm_journal := hm_journal failed @ [''rpu_health_confirmation_pending'']\<rparr>
                     else failed);
                   merged = (if hm_has_cached noted
                     then noted\<lparr>hm_cached := merge_operational_fields (hm_cached noted) health\<rparr> else noted)
               in (if \<not> hm_has_cached merged \<or> hm_probe_failures merged \<ge> failures_before_degraded
                   then observe_health_transition health (publish_health now health merged)
                   else merged, Inr ()))"

definition health_periodic_audit ::
    "rpu_health_monitor \<Rightarrow> int \<Rightarrow> adc_health_payload result \<Rightarrow> rpu_health_monitor" where
  "health_periodic_audit m now outcome =
     (if now < hm_next_audit m then m
      else case health_refresh m now outcome of
        (m', Inl e) \<Rightarrow> m'\<lparr>hm_journal := hm_journal m' @ [''health_query_failed'']\<rparr>
      | (m', Inr _) \<Rightarrow> m')"

definition on_capture_started :: "int \<Rightarrow> rpu_health_monitor \<Rightarrow> rpu_health_monitor" where
  "on_capture_started now m = m\<lparr>hm_probe_failures := 0, hm_stabilizing := True,
     hm_next_audit := now + startup_settle_interval\<rparr>"

definition on_capture_stopped :: "rpu_health_monitor \<Rightarrow> rpu_health_monitor" where
  "on_capture_stopped m = m\<lparr>hm_stabilizing := False\<rparr>"

definition applied_meter_flags :: "u32 \<Rightarrow> u32 \<Rightarrow> u32" where
  "applied_meter_flags config_flags flags =
     ((flags AND NOT (meter_cores_present OR meter_configured_flag OR meter_generation_flag OR
         meter_enabled OR meter_remove_dc OR meter_current_wiring)) OR
      meter_cores_present OR meter_configured_flag OR meter_generation_flag OR meter_current_wiring) OR
     (if config_flags AND config_enable \<noteq> 0 then meter_enabled else 0) OR
     (if config_flags AND config_remove_dc \<noteq> 0 then meter_remove_dc else 0)"

definition on_meter_configuration_applied ::
    "int \<Rightarrow> meter_config_payload \<Rightarrow> meter_config_ack_payload \<Rightarrow> rpu_health_monitor \<Rightarrow> rpu_health_monitor" where
  "on_meter_configuration_applied now configuration ack m =
     m\<lparr>hm_cached := (hm_cached m)
         \<lparr>ah_meter_generation := ka_generation ack, ah_conversion_status := ka_conversion_status ack,
          ah_processing_status := ka_processing_status ack,
          ah_meter_requested_current_adc_phase_map := cp_current_adc_phase_map configuration,
          ah_meter_requested_current_adc_invert_mask := cp_current_adc_invert_mask configuration,
          ah_meter_active_current_adc_phase_map := ka_active_current_adc_phase_map ack,
          ah_meter_active_current_adc_invert_mask := ka_active_current_adc_invert_mask ack,
          ah_meter_wiring_apply_status := wiring_success,
          ah_meter_health_flags := applied_meter_flags (cp_flags configuration)
            (ah_meter_health_flags (hm_cached m))\<rparr>,
       hm_last_health_time := Some now\<rparr>"

definition on_meter_configuration_failed :: "int \<Rightarrow> bool \<Rightarrow> rpu_health_monitor \<Rightarrow> rpu_health_monitor" where
  "on_meter_configuration_failed now rollback_succeeded m =
     m\<lparr>hm_cached := (hm_cached m)\<lparr>ah_meter_wiring_apply_status :=
         (if rollback_succeeded then wiring_rolled_back else wiring_rollback_failed)\<rparr>,
       hm_last_health_time := Some now\<rparr>"

definition probe_pending :: "rpu_health_monitor \<Rightarrow> bool" where
  "probe_pending m \<longleftrightarrow> hm_stabilizing m \<or> hm_probe_failures m \<noteq> 0"

abbreviation acquisition_age_unavailable :: u32 where "acquisition_age_unavailable \<equiv> 0xffffffff"

definition age_milliseconds :: "int \<Rightarrow> int option \<Rightarrow> u32" where
  "age_milliseconds now timestamp =
     (case timestamp of None \<Rightarrow> acquisition_age_unavailable
      | Some t \<Rightarrow> word_of_int (min (max ((now - t) div 1000000) 0) 0xffffffff))"

section \<open>The aggregation processor\<close>

text \<open>
  The endpoint of the optional processor: creating a controller finds its device path; a request goes
  through \<^verbatim>\<open>transact\<close>. Both belong to a world of their own.
\<close>

record 'w rpu_ports =
  rp_connect :: "'w \<Rightarrow> 'w \<times> string result"
  rp_transact :: "'w \<Rightarrow> u8 \<Rightarrow> u8 list \<Rightarrow> 'w \<times> rpu_message result"

record aggregation_health_monitor =
  am_resolved_device :: string
  am_controller :: "string option"
  am_desired_demand :: "demand_config_payload option"
  am_desired_m18 :: "m18_config_payload option"
  am_demand_profile_generation :: "u32 option"
  am_cached :: aggregation_health_payload
  am_has_cached :: bool
  am_last_health_time :: "int option"
  am_next_audit :: int
  am_probe_failures :: u32
  am_last_flags :: "u32 option"
  am_last_healthy :: "bool option"
  am_journal :: "string list"

definition aggregation_monitor_init :: "int \<Rightarrow> aggregation_health_monitor" where
  "aggregation_monitor_init now =
     \<lparr>am_resolved_device = [], am_controller = None, am_desired_demand = None, am_desired_m18 = None,
      am_demand_profile_generation = None,
      am_cached = aggregation_health_payload_at (replicate 216 0) 0, am_has_cached = False,
      am_last_health_time = None, am_next_audit = now, am_probe_failures = 0, am_last_flags = None,
      am_last_healthy = None, am_journal = []\<rparr>"

abbreviation aggregation_audit_interval :: int where "aggregation_audit_interval \<equiv> 5 * 1000000000"
abbreviation aggregation_retry_interval :: int where "aggregation_retry_interval \<equiv> 2 * 1000000000"
abbreviation m18_transient_capable :: u32 where "m18_transient_capable \<equiv> 2"

definition am_connect ::
    "'w rpu_ports \<Rightarrow> aggregation_health_monitor \<times> 'w \<Rightarrow> (aggregation_health_monitor \<times> 'w) \<times> string result" where
  "am_connect P mw = (case mw of (m, w) \<Rightarrow>
     case am_controller m of
       Some path \<Rightarrow> ((m, w), Inr path)
     | None \<Rightarrow> (case rp_connect P w of
         (w1, Inl e) \<Rightarrow> ((m, w1), Inl e)
       | (w1, Inr path) \<Rightarrow> ((m\<lparr>am_controller := Some path\<rparr>, w1), Inr path)))"

text \<open>The handler \<^verbatim>\<open>catch (...)\<close> that drops the controller.\<close>

definition drop_controller :: "aggregation_health_monitor \<Rightarrow> aggregation_health_monitor" where
  "drop_controller m = m\<lparr>am_controller := None, am_resolved_device := []\<rparr>"

definition configure_demand ::
    "'w rpu_ports \<Rightarrow> demand_config_payload \<Rightarrow> aggregation_health_monitor \<times> 'w \<Rightarrow>
     (aggregation_health_monitor \<times> 'w) \<times> demand_config_ack_payload result" where
  "configure_demand P configuration mw = (case mw of (m, w) \<Rightarrow>
     case am_connect P (m\<lparr>am_desired_demand := Some configuration\<rparr>, w) of
       ((m1, w1), Inl e) \<Rightarrow> ((drop_controller m1, w1), Inl e)
     | ((m1, w1), Inr path) \<Rightarrow>
         (case rp_transact P w1 rpu_msg_demand_config_set (demand_config_payload_bytes configuration) of
            (w2, res) \<Rightarrow>
              (case bind_result res decode_demand_config_ack of
                 Inl e \<Rightarrow> ((drop_controller m1, w2), Inl e)
               | Inr ack \<Rightarrow>
                   if da_method ack \<noteq> dc_method configuration \<or>
                      da_window_seconds ack \<noteq> dc_window_seconds configuration \<or>
                      da_update_seconds ack \<noteq> dc_update_seconds configuration
                   then ((drop_controller m1, w2),
                     Inl (Runtime_error ''R5C1 demand configuration readback does not match''))
                   else ((m1\<lparr>am_resolved_device := path,
                            am_demand_profile_generation := Some (da_profile_generation ack)\<rparr>, w2),
                         Inr ack))))"

definition configure_m18 ::
    "'w rpu_ports \<Rightarrow> m18_config_payload \<Rightarrow> aggregation_health_monitor \<times> 'w \<Rightarrow>
     (aggregation_health_monitor \<times> 'w) \<times> m18_config_ack_payload result" where
  "configure_m18 P configuration mw = (case mw of (m, w) \<Rightarrow>
     case am_connect P (m\<lparr>am_desired_m18 := Some configuration\<rparr>, w) of
       ((m1, w1), Inl e) \<Rightarrow> ((drop_controller m1, w1), Inl e)
     | ((m1, w1), Inr path) \<Rightarrow>
         (case rp_transact P w1 rpu_msg_m18_config_set (m18_config_payload_bytes configuration) of
            (w2, res) \<Rightarrow>
              (case bind_result res decode_m18_config_ack of
                 Inl e \<Rightarrow> ((drop_controller m1, w2), Inl e)
               | Inr ack \<Rightarrow>
                   if ma_generation ack \<noteq> mc_generation configuration \<or>
                      ma_capability_flags ack AND m18_transient_capable \<noteq> 0
                   then ((drop_controller m1, w2),
                     Inl (Runtime_error ''R5C1 M18 configuration readback does not match''))
                   else ((m1\<lparr>am_resolved_device := path\<rparr>, w2), Inr ack))))"

definition observe_transition :: "aggregation_health_payload \<Rightarrow> aggregation_health_monitor \<Rightarrow> aggregation_health_monitor" where
  "observe_transition h m =
     (let authoritative = aggregation_flag h agg_authoritative;
          shadow_healthy = (aggregation_flag h agg_transport_initialized \<and>
            aggregation_flag h agg_input_healthy \<and> gh_fifo_errors h = 0 \<and> gh_ring_overflows h = 0 \<and>
            gh_software_ring_push_failures h = 0 \<and> gh_input_records_dropped h = 0 \<and>
            gh_software_ring_pressure h < ring_pressure_critical);
          output_healthy = (aggregation_flag h agg_engine_ready \<and> aggregation_flag h agg_output_ready \<and>
            aggregation_flag h agg_output_active \<and> gh_output_errors h = 0 \<and> gh_output_drops h = 0);
          healthy = (shadow_healthy \<and> (\<not> authoritative \<or> output_healthy))
      in if am_last_flags m = Some (gh_health_flags h) \<and> am_last_healthy m = Some healthy then m
         else m\<lparr>am_journal := am_journal m @
                  [if healthy then ''aggregation_health_healthy'' else ''aggregation_health_degraded''],
                am_last_flags := Some (gh_health_flags h), am_last_healthy := Some healthy\<rparr>)"

text \<open>The body of the \<^verbatim>\<open>try\<close> block: the state when it ends or throws.\<close>

definition aggregation_query ::
    "'w rpu_ports \<Rightarrow> aggregation_health_monitor \<times> 'w \<Rightarrow>
     (aggregation_health_monitor \<times> 'w) \<times> (string \<times> aggregation_health_payload) result" where
  "aggregation_query P mw =
     (case am_connect P mw of
        (mw1, Inl e) \<Rightarrow> (mw1, Inl e)
      | ((m1, w1), Inr path) \<Rightarrow>
          (case rp_transact P w1 rpu_msg_aggregation_health_get [] of
             (w2, res) \<Rightarrow> ((m1, w2), bind_result (bind_result res decode_aggregation_health)
                (\<lambda>h. Inr (path, h)))))"

definition reapply_demand ::
    "'w rpu_ports \<Rightarrow> aggregation_health_monitor \<times> 'w \<Rightarrow> (aggregation_health_monitor \<times> 'w) \<times> unit result" where
  "reapply_demand P mw =
     (case am_desired_demand (fst mw) of None \<Rightarrow> (mw, Inr ())
      | Some configuration \<Rightarrow> (case configure_demand P configuration mw of
          (mw1, res) \<Rightarrow> (mw1, bind_result res (\<lambda>_. Inr ()))))"

definition reapply_m18 ::
    "'w rpu_ports \<Rightarrow> aggregation_health_monitor \<times> 'w \<Rightarrow> (aggregation_health_monitor \<times> 'w) \<times> unit result" where
  "reapply_m18 P mw =
     (case am_desired_m18 (fst mw) of None \<Rightarrow> (mw, Inr ())
      | Some configuration \<Rightarrow> (case configure_m18 P configuration mw of
          (mw1, res) \<Rightarrow> (mw1, bind_result res (\<lambda>_. Inr ()))))"

definition audit_failed :: "int \<Rightarrow> aggregation_health_monitor \<Rightarrow> aggregation_health_monitor" where
  "audit_failed now m = (drop_controller m)\<lparr>am_probe_failures := am_probe_failures m + 1,
     am_next_audit := now + aggregation_retry_interval,
     am_journal := am_journal m @ [''aggregation_health_query_failed'']\<rparr>"

definition aggregation_refresh ::
    "'w rpu_ports \<Rightarrow> int \<Rightarrow> aggregation_health_monitor \<times> 'w \<Rightarrow> aggregation_health_monitor \<times> 'w" where
  "aggregation_refresh P now mw =
     (case aggregation_query P mw of
        ((m1, w1), Inl e) \<Rightarrow> (audit_failed now m1, w1)
      | (mw1, Inr (path, health)) \<Rightarrow>
          (case reapply_demand P mw1 of
             ((m2, w2), Inl e) \<Rightarrow> (audit_failed now m2, w2)
           | (mw2, Inr _) \<Rightarrow>
               (case reapply_m18 P mw2 of
                  ((m3, w3), Inl e) \<Rightarrow> (audit_failed now m3, w3)
                | ((m3, w3), Inr _) \<Rightarrow>
                    (observe_transition health (m3\<lparr>am_resolved_device := path, am_cached := health,
                       am_has_cached := True, am_last_health_time := Some now, am_probe_failures := 0,
                       am_next_audit := now + aggregation_audit_interval\<rparr>), w3))))"

definition aggregation_periodic_audit ::
    "'w rpu_ports \<Rightarrow> int \<Rightarrow> aggregation_health_monitor \<times> 'w \<Rightarrow> aggregation_health_monitor \<times> 'w" where
  "aggregation_periodic_audit P now mw =
     (if now \<ge> am_next_audit (fst mw) then aggregation_refresh P now mw else mw)"

section \<open>Links from events to waveforms\<close>

type_synonym waveform_link = "u8 list \<times> u8 list"

text \<open>The queue, the recently delivered links, the counters, and the link the worker has in hand.\<close>

record event_waveform_linker =
  wl_pending :: "waveform_link list"
  wl_recent :: "waveform_link list"
  wl_retry_failures :: u64
  wl_queue_overflows :: u64
  wl_in_hand :: "waveform_link option"

abbreviation maximum_pending :: nat where "maximum_pending \<equiv> 4096"
abbreviation recent_capacity :: nat where "recent_capacity \<equiv> 4096"

definition linker_init :: event_waveform_linker where
  "linker_init = \<lparr>wl_pending = [], wl_recent = [], wl_retry_failures = 0, wl_queue_overflows = 0,
     wl_in_hand = None\<rparr>"

definition enqueue_link :: "waveform_link \<Rightarrow> event_waveform_linker \<Rightarrow> event_waveform_linker" where
  "enqueue_link link l =
     (if link \<in> set (wl_pending l) \<or> link \<in> set (wl_recent l) then l
      else if length (wl_pending l) \<ge> maximum_pending
      then l\<lparr>wl_queue_overflows := wl_queue_overflows l + 1\<rparr>
      else l\<lparr>wl_pending := wl_pending l @ [link]\<rparr>)"

definition enqueue_event ::
    "(u8 list \<Rightarrow> u8 list option) \<Rightarrow> power_quality_event_id \<Rightarrow> u8 list \<Rightarrow> event_waveform_linker \<Rightarrow>
     event_waveform_linker result" where
  "enqueue_event sha256 event_id capture_uuid l =
     bind_result (stable_power_quality_event_uuid sha256 event_id)
       (\<lambda>uuid. Inr (enqueue_link (uuid, capture_uuid) l))"

text \<open>The worker takes the oldest link, asks the historian, and ends with a delivery or a failure.\<close>

definition worker_take :: "event_waveform_linker \<Rightarrow> event_waveform_linker" where
  "worker_take l =
     (case wl_in_hand l of Some _ \<Rightarrow> l
      | None \<Rightarrow> (case wl_pending l of [] \<Rightarrow> l | link # _ \<Rightarrow> l\<lparr>wl_in_hand := Some link\<rparr>))"

definition worker_delivered :: "event_waveform_linker \<Rightarrow> event_waveform_linker" where
  "worker_delivered l =
     (case wl_in_hand l of None \<Rightarrow> l
      | Some link \<Rightarrow>
          let popped = (case wl_pending l of [] \<Rightarrow> [] | x # rest \<Rightarrow> if x = link then rest else x # rest);
              recent = wl_recent l @ [link] in
          l\<lparr>wl_pending := popped,
            wl_recent := (if length recent > recent_capacity then tl recent else recent),
            wl_in_hand := None\<rparr>)"

definition worker_failed :: "event_waveform_linker \<Rightarrow> event_waveform_linker" where
  "worker_failed l =
     (case wl_in_hand l of None \<Rightarrow> l
      | Some _ \<Rightarrow> l\<lparr>wl_retry_failures := wl_retry_failures l + 1, wl_in_hand := None\<rparr>)"

section \<open>Properties of the verdicts\<close>

lemma reason_if_empty [simp]: "reason_if c code message = [] \<longleftrightarrow> \<not> c"
  by (simp add: reason_if_def)

lemma adc_reasons_empty:
  "evaluate_rpu_adc_health_reasons h = [] \<longleftrightarrow>
   (if ah_adc_source h = source_simulator
    then health_flag h adc_initialized \<and> health_flag h adc_simulator_healthy
    else ah_adc_source h = source_physical \<and> spi_snapshot_valid h \<and> health_flag h adc_initialized \<and>
      health_flag h adc_init_complete \<and> health_flag h adc_config_match) \<and>
   health_flag h adc_capture_active \<and> health_flag h adc_no_overflow \<and>
   health_flag h adc_headers_valid \<and> health_flag h adc_rate_match"
  by (auto simp: evaluate_rpu_adc_health_reasons_def Let_def)

text \<open>
  C9. The verdict and its reasons. The list of reasons for a degraded ADC is empty exactly when the
  verdict is healthy and, for the physical converter, the last SPI audit reported no error, for the
  simulator, it is initialised; with any other source there always is a reason. The verdict alone
  ignores these three conditions: it can be healthy beside a list of reasons.
\<close>

theorem adc_verdict_and_reasons:
  "me_adc_degraded_reasons (evaluate_meter_health r) = [] \<longleftrightarrow>
   me_adc_healthy (evaluate_meter_health r) \<and>
   (if ah_adc_source (ir_rpu_health r) = source_simulator then health_flag (ir_rpu_health r) adc_initialized
    else ah_adc_source (ir_rpu_health r) = source_physical \<and> ah_spi_error (ir_rpu_health r) = spi_health_ok)"
  unfolding evaluate_meter_health_def Let_def meter_health.simps adc_reasons_def append_is_Nil_conv
    adc_reasons_empty reason_if_empty
  by (auto simp: spi_snapshot_valid_def)

section \<open>Properties of the cached health\<close>

text \<open>An audit that does not verify the registers.\<close>

definition audit_fails :: "rpu_health_monitor \<Rightarrow> adc_health_payload result \<Rightarrow> bool" where
  "audit_fails m outcome \<longleftrightarrow>
     (case outcome of Inl _ \<Rightarrow> True
      | Inr h \<Rightarrow> ah_adc_source h \<noteq> source_simulator \<and>
          \<not> (spi_snapshot_valid h \<and> \<not> lost_verified_flag (m\<lparr>hm_stabilizing := False\<rparr>) h))"

lemma observers_frame [simp]:
  "hm_cached (observe_health_transition h m) = hm_cached m"
  "hm_probe_failures (observe_health_transition h m) = hm_probe_failures m"
  "hm_cached (observe_spi_recovery h m) = hm_cached m"
  "hm_probe_failures (observe_spi_recovery h m) = hm_probe_failures m"
  by (simp_all add: observe_health_transition_def observe_spi_recovery_def)

lemma publish_health_fields [simp]:
  "hm_cached (publish_health now h m) = h"
  "hm_probe_failures (publish_health now h m) = hm_probe_failures m"
  by (simp_all add: publish_health_def)

lemma refresh_failures:
  "hm_probe_failures (fst (health_refresh m now outcome)) =
     (if audit_fails m outcome then hm_probe_failures m + 1 else 0)"
  by (cases outcome) (simp_all add: health_refresh_def audit_fails_def Let_def)

lemma register_flags_kept:
  assumes "hm_has_cached m" and "hm_probe_failures m = 0" and "ah_adc_source h \<noteq> source_simulator"
  shows "ah_health_flags (hm_cached m) AND register_health_flags AND
    NOT (ah_health_flags (hm_cached (fst (health_refresh m now (Inr h))))) = 0"
proof (cases "audit_fails m (Inr h)")
  case True
  then have "hm_cached (fst (health_refresh m now (Inr h))) = merge_operational_fields (hm_cached m) h"
    using assms by (auto simp: health_refresh_def audit_fails_def Let_def word_le_def)
  then show ?thesis
    by (simp add: merge_operational_fields_def bit_eq_iff bit_simps)
next
  case False
  let ?c = "ah_health_flags (hm_cached m)" and ?h = "ah_health_flags h"
  have cached: "hm_cached (fst (health_refresh m now (Inr h))) = h"
    using False assms by (simp add: health_refresh_def audit_fails_def Let_def)
  have valid: "?h AND 1 \<noteq> 0" and kept: "?c AND NOT ?h AND confirmable_health_flags = 0"
    using False assms
    by (auto simp: audit_fails_def spi_snapshot_valid_def health_flag_def lost_verified_flag_def and.assoc)
  have responsive: "bit ?h 0"
    using valid by (simp add: and_one_eq bit_0 mod2_eq_if split: if_splits)
  have confirmed: "bit ?h n" if "bit ?c n" "bit confirmable_health_flags n" "n < 32" for n
    using arg_cong [OF kept, of "\<lambda>w. bit w n"] that by (simp add: bit_simps)
  have register: "n = 0 \<or> bit confirmable_health_flags n" if "bit register_health_flags n" for n
    using that unfolding register_health_flags_def confirmable_health_flags_def bit_or_iff
    by (auto simp: bit_1_iff)
  show ?thesis
    unfolding cached
  proof (rule bit_word_eqI)
    fix n assume "n < LENGTH(32)"
    then show "bit (?c AND register_health_flags AND NOT ?h) n = bit 0 n"
      using responsive confirmed [of n] register [of n] by (cases "n = 0") (auto simp: bit_simps)
  qed
qed

datatype health_event =
    Audit int "adc_health_payload result"
  | Periodic_audit int "adc_health_payload result"
  | Capture_started int
  | Capture_stopped
  | Configuration_applied int meter_config_payload meter_config_ack_payload
  | Configuration_failed int bool

text \<open>The monitor, and whether the last audit since the capture started failed.\<close>

fun health_step :: "rpu_health_monitor \<times> bool \<Rightarrow> health_event \<Rightarrow> rpu_health_monitor \<times> bool" where
  "health_step (m, suspect) (Audit now outcome) = (fst (health_refresh m now outcome), audit_fails m outcome)"
| "health_step (m, suspect) (Periodic_audit now outcome) =
     (health_periodic_audit m now outcome, if now < hm_next_audit m then suspect else audit_fails m outcome)"
| "health_step (m, suspect) (Capture_started now) = (on_capture_started now m, False)"
| "health_step (m, suspect) Capture_stopped = (on_capture_stopped m, suspect)"
| "health_step (m, suspect) (Configuration_applied now cfg ack) =
     (on_meter_configuration_applied now cfg ack m, suspect)"
| "health_step (m, suspect) (Configuration_failed now ok) = (on_meter_configuration_failed now ok m, suspect)"

definition health_inv :: "rpu_health_monitor \<times> bool \<Rightarrow> bool" where
  "health_inv = (\<lambda>(m, suspect). hm_probe_failures m \<noteq> 0 \<longrightarrow> suspect)"

lemma periodic_failures:
  "hm_probe_failures (health_periodic_audit m now outcome) =
     (if now < hm_next_audit m then hm_probe_failures m else
      if audit_fails m outcome then hm_probe_failures m + 1 else 0)"
  using refresh_failures [of m now outcome]
  by (auto simp: health_periodic_audit_def split: prod.splits sum.splits)

lemma health_inv_step: "health_inv x \<Longrightarrow> health_inv (health_step x ev)"
proof -
  assume inv: "health_inv x"
  obtain m suspect where x: "x = (m, suspect)" by fastforce
  show ?thesis
    using inv
    by (cases ev)
      (auto simp: x health_inv_def refresh_failures periodic_failures on_capture_started_def
        on_capture_stopped_def on_meter_configuration_applied_def on_meter_configuration_failed_def)
qed

interpretation health: invariant_system health_step health_inv
  by unfold_locales (rule health_inv_step)


section \<open>Properties of the waveform links\<close>

datatype link_event = Enqueue waveform_link | Take | Delivered | Failed

text \<open>The linker with the links it accepted and those the historian confirmed, in order.\<close>

fun link_step ::
    "event_waveform_linker \<times> waveform_link list \<times> waveform_link list \<Rightarrow> link_event \<Rightarrow>
     event_waveform_linker \<times> waveform_link list \<times> waveform_link list" where
  "link_step (l, accepted, delivered) (Enqueue x) =
     (enqueue_link x l, if wl_pending (enqueue_link x l) = wl_pending l then accepted else accepted @ [x],
      delivered)"
| "link_step (l, accepted, delivered) Take = (worker_take l, accepted, delivered)"
| "link_step (l, accepted, delivered) Delivered =
     (worker_delivered l, accepted, case wl_in_hand l of None \<Rightarrow> delivered | Some x \<Rightarrow> delivered @ [x])"
| "link_step (l, accepted, delivered) Failed = (worker_failed l, accepted, delivered)"

definition link_inv :: "event_waveform_linker \<times> waveform_link list \<times> waveform_link list \<Rightarrow> bool" where
  "link_inv = (\<lambda>(l, accepted, delivered).
     accepted = delivered @ wl_pending l \<and> distinct (wl_pending l) \<and>
     length (wl_pending l) \<le> maximum_pending \<and> length (wl_recent l) \<le> recent_capacity \<and>
     (case wl_in_hand l of None \<Rightarrow> True | Some x \<Rightarrow> \<exists>rest. wl_pending l = x # rest))"

lemma link_inv_enqueue:
  assumes "link_inv (l, accepted, delivered)"
  shows "link_inv (link_step (l, accepted, delivered) (Enqueue x))"
  using assms by (cases "wl_in_hand l") (auto simp: link_inv_def enqueue_link_def)

lemma link_inv_delivered:
  assumes "link_inv (l, accepted, delivered)"
  shows "link_inv (link_step (l, accepted, delivered) Delivered)"
  using assms
  by (cases "wl_in_hand l") (auto simp: link_inv_def worker_delivered_def Let_def)

lemma link_inv_step: "link_inv x \<Longrightarrow> link_inv (link_step x ev)"
proof -
  assume inv: "link_inv x"
  obtain l accepted delivered where x: "x = (l, accepted, delivered)"
    by (metis prod.exhaust)
  show ?thesis
  proof (cases ev)
    case Take
    then show ?thesis
      using inv by (auto simp: x link_inv_def worker_take_def split: option.splits list.splits)
  next
    case Failed
    then show ?thesis
      using inv by (auto simp: x link_inv_def worker_failed_def split: option.splits)
  qed (use inv x link_inv_enqueue link_inv_delivered in simp_all)
qed

interpretation links: invariant_system link_step link_inv
  by unfold_locales (rule link_inv_step)


section \<open>Concrete audits\<close>

definition example_good_health :: adc_health_payload where
  "example_good_health = zero_adc_health\<lparr>ah_health_flags := register_health_flags\<rparr>"

definition example_audits :: "health_event list" where
  "example_audits = [Audit 0 (Inr example_good_health), Audit 1 (Inl (Runtime_error ''timeout''))]"

lemma zero_health_fields:
  "ah_adc_source zero_adc_health = 0" "ah_health_flags zero_adc_health = 0" "ah_spi_error zero_adc_health = 0"
  by (simp_all add: zero_adc_health_def adc_health_payload_at_def le32_def le_value_def eval_nat_numeral)

lemma example_audit_run:
  "hm_has_cached (fst (foldl health_step (health_monitor_init 0, False) example_audits))"
  "hm_cached (fst (foldl health_step (health_monitor_init 0, False) example_audits)) = example_good_health"
  "hm_probe_failures (fst (foldl health_step (health_monitor_init 0, False) example_audits)) = 1"
proof -
  have f: "spi_snapshot_valid example_good_health" "ah_adc_source example_good_health = 0"
    by (simp_all add: spi_snapshot_valid_def health_flag_def example_good_health_def zero_health_fields
        register_health_flags_def)
  then show "hm_has_cached (fst (foldl health_step (health_monitor_init 0, False) example_audits))"
    "hm_cached (fst (foldl health_step (health_monitor_init 0, False) example_audits)) = example_good_health"
    "hm_probe_failures (fst (foldl health_step (health_monitor_init 0, False) example_audits)) = 1"
    by (simp_all add: example_audits_def health_refresh_def lost_verified_flag_def health_monitor_init_def
        observe_health_transition_def observe_spi_recovery_def publish_health_def Let_def)
qed

end
