(* ===== verification/Mncwf_Codec.thy ===== *)
theory Mncwf_Codec
  imports Msap1_Prelude "HOL-Library.Sublist"
begin

text \<open>
  The byte layer of the MNCWF waveform container (\<^verbatim>\<open>waveform/mncwf_v4.cpp\<close>): CRC-32C, 64-bit
  arithmetic that rejects overflow, little-endian fields read and written at offsets, string
  references into a blob, and the envelope around the records of a section.

  A \<^verbatim>\<open>std::span\<close> or \<^verbatim>\<open>std::vector\<close> of bytes is a list, so sizes are natural numbers; offsets
  and lengths that come from a file are 64-bit words. Signed 64-bit fields are held as words and
  compared as signed numbers. A \<^verbatim>\<open>std::string\<close> is the list of its bytes.
\<close>

unbundle bit_operations_syntax

type_synonym bytes = "u8 list"

section \<open>Checked arithmetic\<close>

named_theorems checked_simps \<open>when checked computations succeed\<close>

definition reject :: "string \<Rightarrow> exn" where
  "reject reason = Invalid_argument (''MNCWF: '' @ reason)"

definition checked_add :: "u64 \<Rightarrow> u64 \<Rightarrow> string \<Rightarrow> u64 result" where
  "checked_add left right label =
     (if right > (- 1) - left then Inl (reject (label @ '' overflows'')) else Inr (left + right))"

definition checked_multiply :: "u64 \<Rightarrow> u64 \<Rightarrow> string \<Rightarrow> u64 result" where
  "checked_multiply left right label =
     (if left \<noteq> 0 \<and> right > (- 1) div left then Inl (reject (label @ '' overflows''))
      else Inr (left * right))"

definition align_eight :: "u64 \<Rightarrow> u64 result" where
  "align_eight v = bind_result (checked_add v 7 ''alignment'') (\<lambda>s. Inr (s AND NOT 7))"

text \<open>\<^verbatim>\<open>std::size_t\<close> has 64 bits on the targets of the program.\<close>

definition narrow_size :: "u64 \<Rightarrow> string \<Rightarrow> nat result" where
  "narrow_size v label =
     (if v > (- 1 :: u64) then Inl (reject (label @ '' exceeds the host address space''))
      else Inr (unat v))"

lemma narrow_size_ok [simp]: "narrow_size v label = Inr (unat v)"
  by (simp add: narrow_size_def not_less)

lemma unat_max_u64: "unat (- 1 :: u64) = 2 ^ 64 - 1"
  by (simp add: unsigned_minus_1_eq_mask mask_eq_exp_minus_1)

lemma checked_add_Inr [checked_simps]:
  "checked_add a b label = Inr c \<longleftrightarrow> unat a + unat b < 2 ^ 64 \<and> unat c = unat a + unat b"
proof -
  have m: "unat ((- 1) - a) = 2 ^ 64 - 1 - unat a"
    by (simp only: unat_sub [OF word_order.extremum] unat_max_u64)
  have "b > (- 1) - a \<longleftrightarrow> \<not> unat a + unat b < 2 ^ 64"
    using unsigned_less [of a, where 'a = nat] unsigned_less [of b, where 'a = nat] by (auto simp: word_less_nat_alt m)
  moreover have "unat a + unat b < 2 ^ 64 \<Longrightarrow> unat (a + b) = unat a + unat b"
    by (simp add: unat_add_lem [THEN iffD1])
  ultimately show ?thesis
    by (auto simp: checked_add_def word_unat_eq_iff)
qed

lemma checked_multiply_Inr [checked_simps]:
  "checked_multiply a b label = Inr c \<longleftrightarrow> unat a * unat b < 2 ^ 64 \<and> unat c = unat a * unat b"
proof (cases "a = 0")
  case True
  then show ?thesis by (auto simp: checked_multiply_def unat_eq_0)
next
  case False
  then have pos: "0 < unat a" by (simp add: unat_gt_0)
  have m: "unat ((- 1) div a) = (2 ^ 64 - 1) div unat a"
    by (simp only: unat_div unat_max_u64)
  have "b > (- 1) div a \<longleftrightarrow> \<not> unat b \<le> (2 ^ 64 - 1) div unat a"
    by (simp add: word_less_nat_alt m not_le)
  also have "unat b \<le> (2 ^ 64 - 1) div unat a \<longleftrightarrow> unat a * unat b < 2 ^ 64"
    using pos by (simp add: less_eq_div_iff_mult_less_eq mult.commute) linarith
  finally have "b > (- 1) div a \<longleftrightarrow> \<not> unat a * unat b < 2 ^ 64" .
  moreover have "unat a * unat b < 2 ^ 64 \<Longrightarrow> unat (a * b) = unat a * unat b"
    by (simp add: unat_mult_lem [THEN iffD1])
  ultimately show ?thesis using False
    by (auto simp: checked_multiply_def word_unat_eq_iff)
qed

section \<open>CRC-32C\<close>

definition crc32c_bit :: "u32 \<Rightarrow> u32" where
  "crc32c_bit crc = drop_bit 1 crc XOR (if crc AND 1 \<noteq> 0 then 0x82F63B78 else 0)"

definition crc32c_byte :: "u32 \<Rightarrow> u8 \<Rightarrow> u32" where
  "crc32c_byte crc b = (crc32c_bit ^^ 8) (crc XOR ucast b)"

definition crc32c_update :: "u32 \<Rightarrow> bytes \<Rightarrow> u32" where
  "crc32c_update crc bs = foldl crc32c_byte crc bs"

definition mncwf_crc32c :: "bytes \<Rightarrow> u32" where
  "mncwf_crc32c bs = crc32c_update 0xffffffff bs XOR 0xffffffff"


text \<open>
  One step of the register is linear and injective: the top bit of the polynomial is set, so the
  top bit of the result tells the bit that was shifted out.
\<close>

lemma xor_zero_eq: "x XOR y = 0 \<Longrightarrow> x = (y :: u32)"
  by (metis xor.assoc xor.left_neutral xor.right_neutral xor_self_eq)

lemma xor_right_cancel: "x XOR z = y XOR z \<Longrightarrow> x = (y :: u32)"
  by (metis xor.assoc xor.right_neutral xor_self_eq)

lemma xor_left_cancel: "z XOR x = z XOR y \<Longrightarrow> x = (y :: u32)"
  by (metis xor.assoc xor.left_neutral xor_self_eq)

lemma crc32c_bit_alt: "crc32c_bit x = drop_bit 1 x XOR (if bit x 0 then 0x82F63B78 else 0)"
  by (simp add: crc32c_bit_def and_one_eq mod_2_eq_odd bit_0)

lemma crc32c_bit_xor: "crc32c_bit (x XOR y) = crc32c_bit x XOR crc32c_bit y"
  by (simp add: crc32c_bit_alt bit_xor_iff ac_simps)

lemma crc32c_bit_zero: "crc32c_bit z = 0 \<Longrightarrow> z = 0"
proof -
  assume z: "crc32c_bit z = 0"
  have top: "\<not> bit (drop_bit 1 z) 31"
    using bit_imp_le_length [of z 32] by (auto simp: bit_drop_bit_eq)
  show "z = 0"
  proof (cases "bit z 0")
    case True
    with z have "drop_bit 1 z = (0x82F63B78 :: u32)" by (simp add: crc32c_bit_alt xor_zero_eq)
    then have "bit (drop_bit 1 z) 31" by simp
    with top show ?thesis by simp
  next
    case False
    with z have d: "drop_bit 1 z = 0" by (simp add: crc32c_bit_alt)
    show ?thesis
    proof (rule bit_word_eqI)
      fix n assume "n < LENGTH(32)"
      show "bit z n = bit (0 :: u32) n"
        using False arg_cong [OF d, of "\<lambda>w. bit w (n - 1)"]
        by (cases n) (simp_all add: bit_drop_bit_eq)
    qed
  qed
qed

lemma crc32c_bits_xor: "(crc32c_bit ^^ n) (x XOR y) = (crc32c_bit ^^ n) x XOR (crc32c_bit ^^ n) y"
  by (induction n) (simp_all add: crc32c_bit_xor)

lemma crc32c_bits_inj: "(crc32c_bit ^^ n) x = (crc32c_bit ^^ n) y \<Longrightarrow> x = y"
proof (induction n)
  case (Suc n)
  then have "crc32c_bit ((crc32c_bit ^^ n) x XOR (crc32c_bit ^^ n) y) = 0"
    by (simp add: crc32c_bit_xor)
  then have "(crc32c_bit ^^ n) x XOR (crc32c_bit ^^ n) y = 0" by (rule crc32c_bit_zero)
  then have "(crc32c_bit ^^ n) x = (crc32c_bit ^^ n) y" by (rule xor_zero_eq)
  then show ?case by (rule Suc.IH)
qed simp

lemma crc32c_update_inj: "crc32c_update x bs = crc32c_update y bs \<Longrightarrow> x = y"
proof (induction bs arbitrary: x y)
  case (Cons b bs)
  then have "crc32c_byte x b = crc32c_byte y b" by (simp add: crc32c_update_def)
  then have "x XOR ucast b = y XOR ucast b"
    unfolding crc32c_byte_def by (rule crc32c_bits_inj)
  then show ?case by (rule xor_right_cancel)
qed (simp add: crc32c_update_def)

text \<open>Bytes that enter at distance less than 32 bits could all have entered at once.\<close>

lemma crc32c_bits_push:
  assumes "\<And>k. 32 - n \<le> k \<Longrightarrow> \<not> bit w k" "n \<le> 32"
  shows "(crc32c_bit ^^ n) (push_bit n w) = (w :: u32)"
  using assms
proof (induction n)
  case (Suc n)
  have "\<not> bit (push_bit (Suc n) w) 0" by (simp add: bit_push_bit_iff del: push_bit_Suc)
  moreover have "drop_bit 1 (push_bit (Suc n) w) = push_bit n w"
  proof (rule bit_word_eqI)
    fix k assume "k < LENGTH(32)"
    have "\<not> bit w (k - n)" if "k = 31"
      using that by (intro Suc.prems(1)) simp
    then show "bit (drop_bit 1 (push_bit (Suc n) w)) k = bit (push_bit n w) k"
      using \<open>k < LENGTH(32)\<close>
      by (cases "k = 31") (auto simp: bit_drop_bit_eq bit_push_bit_iff simp del: push_bit_Suc)
  qed
  ultimately have "crc32c_bit (push_bit (Suc n) w) = push_bit n w"
    by (simp add: crc32c_bit_alt del: push_bit_Suc)
  then have "(crc32c_bit ^^ Suc n) (push_bit (Suc n) w) = (crc32c_bit ^^ n) (push_bit n w)"
    by (simp add: funpow_swap1 del: push_bit_Suc)
  also have "\<dots> = w" using Suc.prems by (intro Suc.IH) auto
  finally show ?case .
qed simp

lemma le_value_append:
  "le_value (bs @ [b]) = (le_value bs XOR push_bit (8 * length bs) (ucast b) :: u32)"
proof (rule bit_word_eqI)
  fix k assume k: "k < LENGTH(32)"
  show "bit (le_value (bs @ [b]) :: u32) k = bit (le_value bs XOR push_bit (8 * length bs) (ucast b) :: u32) k"
  proof (cases "k < 8 * length bs")
    case True
    then have "k div 8 < length bs" by linarith
    then show ?thesis using True k by (simp add: bit_le_value bit_xor_iff bit_push_bit_iff nth_append)
  next
    case False
    then obtain q where q: "k = 8 * length bs + q" by (metis le_Suc_ex not_less)
    have "bit b q \<Longrightarrow> q < 8" using bit_imp_le_length [of b q] by simp
    then show ?thesis using k q
      by (cases "q < 8") (auto simp: bit_le_value bit_xor_iff bit_push_bit_iff bit_ucast_iff)
  qed
qed

lemma crc32c_update_block:
  "length bs \<le> 4 \<Longrightarrow> crc32c_update crc bs = (crc32c_bit ^^ (8 * length bs)) (crc XOR le_value bs)"
proof (induction bs rule: rev_induct)
  case Nil
  have "le_value [] = (0 :: u32)" by (rule bit_word_eqI) (simp add: bit_le_value)
  then show ?case by (simp add: crc32c_update_def)
next
  case (snoc b bs)
  have "(crc32c_bit ^^ (8 * length bs)) (push_bit (8 * length bs) (ucast b)) = ucast b"
    using snoc.prems by (intro crc32c_bits_push) (auto simp: bit_ucast_iff dest: bit_imp_le_length)
  then show ?case using snoc
    by (simp add: crc32c_update_def crc32c_byte_def funpow_add le_value_append crc32c_bits_xor xor.assoc)
qed

text \<open>\<^bold>\<open>Bursts.\<close> Any change within four consecutive bytes changes the checksum.\<close>

lemma crc32c_burst:
  assumes "length a = length b" "length a \<le> 4" "a \<noteq> b"
  shows "mncwf_crc32c (p @ a @ q) \<noteq> mncwf_crc32c (p @ b @ q)"
proof
  assume "mncwf_crc32c (p @ a @ q) = mncwf_crc32c (p @ b @ q)"
  then have "crc32c_update (crc32c_update 0xffffffff (p @ a)) q = crc32c_update (crc32c_update 0xffffffff (p @ b)) q"
    unfolding mncwf_crc32c_def by (auto simp: crc32c_update_def dest: xor_right_cancel)
  then have "crc32c_update 0xffffffff (p @ a) = crc32c_update 0xffffffff (p @ b)"
    by (rule crc32c_update_inj)
  then have "crc32c_update (crc32c_update 0xffffffff p) a = crc32c_update (crc32c_update 0xffffffff p) b"
    by (simp add: crc32c_update_def)
  then have "crc32c_update 0xffffffff p XOR le_value a = crc32c_update 0xffffffff p XOR le_value b"
    using assms(1,2) by (simp add: crc32c_update_block) (rule crc32c_bits_inj)
  then have "(le_value a :: u32) = le_value b"
    by (rule xor_left_cancel)
  then have "le_bytes (length a) (le_value a :: u32) = le_bytes (length b) (le_value b :: u32)"
    using assms(1) by simp
  then show False using assms by (simp add: le_bytes_le_value)
qed

section \<open>Reading fields\<close>

definition subspan :: "nat \<Rightarrow> nat \<Rightarrow> 'a list \<Rightarrow> 'a list" where
  "subspan offset n bs = take n (drop offset bs)"

text \<open>\<^verbatim>\<open>range\<close>: a part of a span, or a rejection when it leaves the span.\<close>

definition range_of :: "bytes \<Rightarrow> u64 \<Rightarrow> u64 \<Rightarrow> string \<Rightarrow> bytes result" where
  "range_of bs offset len label =
     bind_result (checked_add offset len label) (\<lambda>range_end.
       if unat range_end > length bs then Inl (reject (label @ '' is truncated''))
       else bind_result (narrow_size offset label) (\<lambda>o'.
         bind_result (narrow_size len label) (\<lambda>n. Inr (subspan o' n bs))))"

definition read_field :: "nat \<Rightarrow> string \<Rightarrow> bytes \<Rightarrow> nat \<Rightarrow> 'a::len word result" where
  "read_field width message bs offset =
     (if offset > length bs \<or> length bs - offset < width then Inl (reject message)
      else Inr (le_value (subspan offset width bs)))"

definition read_u16 :: "bytes \<Rightarrow> nat \<Rightarrow> u16 result" where
  "read_u16 bs offset = read_field 2 ''truncated 16-bit field'' bs offset"

definition read_u32 :: "bytes \<Rightarrow> nat \<Rightarrow> u32 result" where
  "read_u32 bs offset = read_field 4 ''truncated 32-bit field'' bs offset"

definition read_u64 :: "bytes \<Rightarrow> nat \<Rightarrow> u64 result" where
  "read_u64 bs offset = read_field 8 ''truncated 64-bit field'' bs offset"

text \<open>A \<^verbatim>\<open>bit_cast\<close> to a signed type keeps the word.\<close>

definition read_s16 :: "bytes \<Rightarrow> nat \<Rightarrow> u16 result" where "read_s16 bs offset = read_u16 bs offset"
definition read_s32 :: "bytes \<Rightarrow> nat \<Rightarrow> u32 result" where "read_s32 bs offset = read_u32 bs offset"
definition read_s64 :: "bytes \<Rightarrow> nat \<Rightarrow> u64 result" where "read_s64 bs offset = read_u64 bs offset"

definition read_array :: "nat \<Rightarrow> bytes \<Rightarrow> nat \<Rightarrow> bytes result" where
  "read_array n bs offset =
     (if offset > length bs \<or> length bs - offset < n then Inl (reject ''truncated byte-array field'')
      else Inr (subspan offset n bs))"

definition all_zero :: "bytes \<Rightarrow> bool" where
  "all_zero bs \<longleftrightarrow> list_all (\<lambda>b. b = 0) bs"

section \<open>Strings\<close>

text \<open>The lead byte of a sequence: continuation bytes, its share of the code point, the least code point.\<close>

definition utf8_lead :: "u8 \<Rightarrow> (nat \<times> u32 \<times> u32) option" where
  "utf8_lead b =
     (if b AND 0xe0 = 0xc0 then Some (1, ucast (b AND 0x1f), 0x80)
      else if b AND 0xf0 = 0xe0 then Some (2, ucast (b AND 0x0f), 0x800)
      else if b AND 0xf8 = 0xf0 then Some (3, ucast (b AND 0x07), 0x10000)
      else None)"

fun utf8_tail :: "bytes \<Rightarrow> u32 \<Rightarrow> u32 option" where
  "utf8_tail [] codepoint = Some codepoint"
| "utf8_tail (next_byte # bs) codepoint =
     (if next_byte AND 0xc0 \<noteq> 0x80 then None
      else utf8_tail bs (push_bit 6 codepoint OR ucast (next_byte AND 0x3f)))"

text \<open>The loop of \<^verbatim>\<open>valid_utf8\<close> at the bytes from the current index on.\<close>

function valid_utf8 :: "bytes \<Rightarrow> bool" where
  "valid_utf8 [] = True"
| "valid_utf8 (b # rest) =
     (if b = 0 then False
      else if b < 0x80 then valid_utf8 rest
      else (case utf8_lead b of
          None \<Rightarrow> False
        | Some (continuation, codepoint, minimum) \<Rightarrow>
            if continuation > length rest then False
            else (case utf8_tail (take continuation rest) codepoint of
                None \<Rightarrow> False
              | Some cp \<Rightarrow>
                  if cp < minimum \<or> cp > 0x10ffff \<or> 0xd800 \<le> cp \<and> cp \<le> 0xdfff then False
                  else valid_utf8 (drop continuation rest))))"
  by pat_completeness auto
termination by (relation "measure length") auto

definition mncwf_v4_max_string_bytes :: nat where "mncwf_v4_max_string_bytes = 64 * 1024"

definition read_string :: "bytes \<Rightarrow> nat \<Rightarrow> bytes \<Rightarrow> string \<Rightarrow> bytes result" where
  "read_string record ref_offset blob label =
     bind_result (read_u32 record ref_offset) (\<lambda>offset.
     bind_result (read_u32 record (ref_offset + 4)) (\<lambda>n.
       if unat n > mncwf_v4_max_string_bytes then Inl (reject (label @ '' exceeds the string bound''))
       else if n = 0 \<and> offset \<noteq> 0 then Inl (reject (label @ '' has a noncanonical empty reference''))
       else bind_result (range_of blob (ucast offset) (ucast n) label) (\<lambda>bs.
         if bs = [] then Inr []
         else if \<not> valid_utf8 bs then Inl (reject (label @ '' is not canonical UTF-8''))
         else Inr bs)))"

section \<open>UUIDs\<close>

type_synonym mncwf_uuid = bytes

definition uuid_digit :: "u8 \<Rightarrow> char" where
  "uuid_digit v = ''0123456789abcdef'' ! unat v"

definition uuid_digits :: "nat \<Rightarrow> u8 \<Rightarrow> string" where
  "uuid_digits index v =
     (if index = 4 \<or> index = 6 \<or> index = 8 \<or> index = 10 then ''-'' else []) @
     [uuid_digit (drop_bit 4 v), uuid_digit (v AND 0x0f)]"

definition mncwf_uuid_string :: "mncwf_uuid \<Rightarrow> string" where
  "mncwf_uuid_string uuid = concat (map (\<lambda>i. uuid_digits i (uuid ! i)) [0..<length uuid])"

definition nibble :: "char \<Rightarrow> u8 option" where
  "nibble c =
     (if of_char c \<ge> (of_char (CHR ''0'') :: nat) \<and> of_char c \<le> (of_char (CHR ''9'') :: nat)
      then Some (of_char c - of_char (CHR ''0''))
      else if of_char c \<ge> (of_char (CHR ''a'') :: nat) \<and> of_char c \<le> (of_char (CHR ''f'') :: nat)
      then Some (of_char c - of_char (CHR ''a'') + 10)
      else None)"

text \<open>The loop over the bytes of the result, with the position in the text; \<open>n\<close> bytes are left.\<close>

fun uuid_bytes :: "string \<Rightarrow> nat \<Rightarrow> nat \<Rightarrow> bytes option" where
  "uuid_bytes txt 0 source = Some []"
| "uuid_bytes txt (Suc n) source =
     (let source = (if source = 8 \<or> source = 13 \<or> source = 18 \<or> source = 23 then source + 1 else source)
      in case (nibble (txt ! source), nibble (txt ! (source + 1))) of
           (Some high, Some low) \<Rightarrow>
             map_option (\<lambda>bs. (push_bit 4 high OR low) # bs) (uuid_bytes txt n (source + 2))
         | _ \<Rightarrow> None)"

definition mncwf_uuid_from_string :: "string \<Rightarrow> mncwf_uuid option" where
  "mncwf_uuid_from_string txt =
     (if length txt \<noteq> 36 \<or> txt ! 8 \<noteq> CHR ''-'' \<or> txt ! 13 \<noteq> CHR ''-'' \<or>
         txt ! 18 \<noteq> CHR ''-'' \<or> txt ! 23 \<noteq> CHR ''-'' then None
      else uuid_bytes txt 16 0)"

definition mncwf_uuid_is_zero :: "mncwf_uuid \<Rightarrow> bool" where
  "mncwf_uuid_is_zero uuid \<longleftrightarrow> list_all (\<lambda>b. b = 0) uuid"

section \<open>Writing fields\<close>

text \<open>Overwrites part of a buffer, which keeps its length.\<close>

definition patch :: "nat \<Rightarrow> 'a list \<Rightarrow> 'a list \<Rightarrow> 'a list" where
  "patch offset xs bs =
     take offset bs @ take (length bs - offset) xs @ drop (offset + length xs) bs"

type_synonym writer = "bytes \<Rightarrow> bytes result"

definition ensure_write :: "nat \<Rightarrow> nat \<Rightarrow> writer" where
  "ensure_write offset width bs =
     (if offset > length bs \<or> width > length bs - offset
      then Inl (reject ''encoder field exceeds its record'') else Inr bs)"

text \<open>\<^verbatim>\<open>std::copy\<close> of an array into a buffer.\<close>

definition copy_bytes :: "nat \<Rightarrow> bytes \<Rightarrow> writer" where
  "copy_bytes offset xs bs = Inr (patch offset xs bs)"

text \<open>\<^verbatim>\<open>ensure_write\<close> followed by the assignment of the bytes.\<close>

definition put_bytes :: "nat \<Rightarrow> bytes \<Rightarrow> writer" where
  "put_bytes offset xs bs = bind_result (ensure_write offset (length xs) bs) (copy_bytes offset xs)"

definition put_u16 :: "nat \<Rightarrow> u16 \<Rightarrow> writer" where "put_u16 offset v = put_bytes offset (le_bytes 2 v)"
definition put_u32 :: "nat \<Rightarrow> u32 \<Rightarrow> writer" where "put_u32 offset v = put_bytes offset (le_bytes 4 v)"
definition put_u64 :: "nat \<Rightarrow> u64 \<Rightarrow> writer" where "put_u64 offset v = put_bytes offset (le_bytes 8 v)"
definition put_s16 :: "nat \<Rightarrow> u16 \<Rightarrow> writer" where "put_s16 offset v = put_u16 offset v"
definition put_s32 :: "nat \<Rightarrow> u32 \<Rightarrow> writer" where "put_s32 offset v = put_u32 offset v"
definition put_s64 :: "nat \<Rightarrow> u64 \<Rightarrow> writer" where "put_s64 offset v = put_u64 offset v"
definition put_array :: "nat \<Rightarrow> bytes \<Rightarrow> writer" where "put_array offset v = put_bytes offset v"

text \<open>Writes one after the other; the first that throws ends the sequence.\<close>

fun writes :: "('s \<Rightarrow> 's result) list \<Rightarrow> 's \<Rightarrow> 's result" where
  "writes [] s = Inr s"
| "writes (w # ws) s = bind_result (w s) (writes ws)"

definition append_string :: "bytes \<Rightarrow> bytes \<Rightarrow> ((u32 \<times> u32) \<times> bytes) result" where
  "append_string blob v =
     (if v = [] then Inr ((0, 0), blob)
      else if length v > mncwf_v4_max_string_bytes \<or> length blob > (2 ^ 32 - 1) - length v
      then Inl (reject ''encoder string blob exceeds its bound'')
      else Inr ((of_nat (length blob), of_nat (length v)), blob @ v))"

definition put_string_ref :: "nat \<Rightarrow> u32 \<times> u32 \<Rightarrow> writer" where
  "put_string_ref offset reference record =
     bind_result (put_u32 offset (fst reference) record) (put_u32 (offset + 4) (snd reference))"

text \<open>The buffers of a section under construction: its records and its blob.\<close>

type_synonym section_buffers = "bytes \<times> bytes"

definition on_records :: "writer \<Rightarrow> section_buffers \<Rightarrow> section_buffers result" where
  "on_records w buffers = bind_result (w (fst buffers)) (\<lambda>r. Inr (r, snd buffers))"

definition put_string :: "nat \<Rightarrow> bytes \<Rightarrow> section_buffers \<Rightarrow> section_buffers result" where
  "put_string offset v buffers =
     bind_result (append_string (snd buffers) v) (\<lambda>(reference, blob).
     bind_result (put_string_ref offset reference (fst buffers)) (\<lambda>r. Inr (r, blob)))"

section \<open>Sections\<close>

datatype mncwf_v4_section_type =
    Capture_metadata | Timebase_segments | Channel_definitions | Event_descriptors
  | Quality_intervals | Lineage | Sample_data

primrec section_code :: "mncwf_v4_section_type \<Rightarrow> u32" where
  "section_code Capture_metadata = 1"
| "section_code Timebase_segments = 2"
| "section_code Channel_definitions = 3"
| "section_code Event_descriptors = 4"
| "section_code Quality_intervals = 5"
| "section_code Lineage = 6"
| "section_code Sample_data = 7"

definition known_section :: "u32 \<Rightarrow> bool" where
  "known_section t \<longleftrightarrow> t \<ge> section_code Capture_metadata \<and> t \<le> section_code Sample_data"

definition section_index :: "u32 \<Rightarrow> nat" where "section_index t = unat (t - 1)"

definition mncwf_v4_section_header_bytes :: nat where "mncwf_v4_section_header_bytes = 48"
definition mncwf_v4_section_required :: u16 where "mncwf_v4_section_required = 1"
definition mncwf_v4_max_file_bytes :: nat where "mncwf_v4_max_file_bytes = 512 * 1024 * 1024"
definition mncwf_v4_max_metadata_section_bytes :: nat where
  "mncwf_v4_max_metadata_section_bytes = 16 * 1024 * 1024"

record mncwf_v4_section_info =
  si_type :: u32
  si_version :: u16
  si_flags :: u16
  si_offset :: u64
  si_stored_bytes :: u64
  si_logical_bytes :: u64
  si_item_count :: u64
  si_item_bytes :: u32
  si_crc32c :: u32
  si_data :: bytes

text \<open>A sequence of comparisons of fields, evaluated from left to right until one differs.\<close>

fun any_of :: "bool result list \<Rightarrow> bool result" where
  "any_of [] = Inr False"
| "any_of (c # cs) = bind_result c (\<lambda>b. if b then Inr True else any_of cs)"

definition differs :: "'a result \<Rightarrow> 'a \<Rightarrow> bool result" where
  "differs field expected = bind_result field (\<lambda>v. Inr (v \<noteq> expected))"

definition envelope_differs :: "mncwf_v4_section_info \<Rightarrow> bool result" where
  "envelope_differs s = any_of
     [differs (read_u32 (si_data s) 0) (si_type s),
      differs (read_u16 (si_data s) 4) (si_version s),
      differs (read_u16 (si_data s) 6) (of_nat mncwf_v4_section_header_bytes),
      differs (read_u32 (si_data s) 8) 0,
      differs (read_u32 (si_data s) 12) (si_item_bytes s),
      differs (read_u64 (si_data s) 16) (si_item_count s),
      differs (read_u64 (si_data s) 40) 0]"

text \<open>The check of the blob's place behind the records.\<close>

definition check_blob ::
    "mncwf_v4_section_info \<Rightarrow> bool \<Rightarrow> u64 \<Rightarrow> u64 \<Rightarrow> u64 \<Rightarrow> unit result" where
  "check_blob s allow_blob records_end blob_offset blob_bytes =
     (if blob_bytes = 0 then
        (if blob_offset \<noteq> 0 \<or> records_end \<noteq> si_stored_bytes s
         then Inl (reject ''section without a blob has trailing data'') else Inr ())
      else
        bind_result
          (if \<not> allow_blob then Inr True
           else bind_result (differs (align_eight records_end) blob_offset) (\<lambda>d.
             if d then Inr True
             else differs (checked_add blob_offset blob_bytes ''section blob'') (si_stored_bytes s)))
          (\<lambda>bad. if bad then Inl (reject ''section blob geometry is invalid'')
            else bind_result
              (range_of (si_data s) records_end (blob_offset - records_end) ''section blob padding'')
              (\<lambda>padding. if all_zero padding then Inr ()
                else Inl (reject ''section blob padding is nonzero''))))"

text \<open>\<^verbatim>\<open>ParsedSection\<close>: the records and the blob.\<close>

definition parse_section_envelope ::
    "mncwf_v4_section_info \<Rightarrow> u32 \<Rightarrow> u64 \<Rightarrow> u64 \<Rightarrow> bool \<Rightarrow> (bytes \<times> bytes) result" where
  "parse_section_envelope s expected_item_bytes minimum_count maximum_count allow_blob =
     bind_result (require_all
       [(si_version s = 1, reject ''unsupported mandatory-section version''),
        (si_flags s = mncwf_v4_section_required, reject ''mandatory section is not marked required''),
        (si_item_bytes s = expected_item_bytes \<and> si_item_count s \<ge> minimum_count \<and>
         si_item_count s \<le> maximum_count, reject ''mandatory-section geometry is invalid''),
        (length (si_data s) \<ge> mncwf_v4_section_header_bytes,
         reject ''mandatory section header is truncated'')]) (\<lambda>_.
     bind_result (envelope_differs s) (\<lambda>d.
     if d then Inl (reject ''mandatory section envelope disagrees with its directory entry'')
     else
     bind_result (checked_multiply (si_item_count s) (ucast (si_item_bytes s)) ''section records'') (\<lambda>records_bytes.
     bind_result (checked_add (of_nat mncwf_v4_section_header_bytes) records_bytes ''section records'') (\<lambda>records_end.
     bind_result (read_u64 (si_data s) 24) (\<lambda>blob_offset.
     bind_result (read_u64 (si_data s) 32) (\<lambda>blob_bytes.
     bind_result (check_blob s allow_blob records_end blob_offset blob_bytes) (\<lambda>_.
     bind_result (range_of (si_data s) (of_nat mncwf_v4_section_header_bytes) records_bytes ''section records'') (\<lambda>records.
     bind_result (if blob_bytes = 0 then Inr []
                  else range_of (si_data s) blob_offset blob_bytes ''section blob'') (\<lambda>blob.
     Inr (records, blob))))))))))"

record encoded_section =
  es_type :: mncwf_v4_section_type
  es_item_count :: u64
  es_item_bytes :: u32
  es_payload :: bytes

definition zeros :: "nat \<Rightarrow> bytes" where "zeros n = replicate n 0"

definition envelope_writes :: "mncwf_v4_section_type \<Rightarrow> u64 \<Rightarrow> u32 \<Rightarrow> u64 \<Rightarrow> nat \<Rightarrow> writer list" where
  "envelope_writes ty item_count item_bytes blob_offset blob_size =
     [put_u32 0 (section_code ty),
      put_u16 4 1,
      put_u16 6 (of_nat mncwf_v4_section_header_bytes),
      put_u32 8 0,
      put_u32 12 item_bytes,
      put_u64 16 item_count,
      put_u64 24 blob_offset,
      put_u64 32 (of_nat blob_size),
      put_u64 40 0]"

definition enveloped_section ::
    "mncwf_v4_section_type \<Rightarrow> u64 \<Rightarrow> u32 \<Rightarrow> bytes \<Rightarrow> bytes \<Rightarrow> encoded_section result" where
  "enveloped_section ty item_count item_bytes records blob =
     bind_result (checked_multiply item_count (ucast item_bytes) ''encoded section records'') (\<lambda>expected.
     if length records \<noteq> unat expected
     then Inl (reject ''encoder section record geometry is inconsistent'')
     else
     bind_result (checked_add (of_nat mncwf_v4_section_header_bytes) (of_nat (length records)) ''encoded section records'') (\<lambda>records_end.
     bind_result (if blob = [] then Inr 0 else align_eight records_end) (\<lambda>blob_offset.
     bind_result (if blob = [] then Inr records_end
                  else checked_add blob_offset (of_nat (length blob)) ''encoded section blob'') (\<lambda>total.
     if unat total > mncwf_v4_max_file_bytes then Inl (reject ''encoded section exceeds the file bound'')
     else
     bind_result (narrow_size total ''encoded section'') (\<lambda>n.
     bind_result (writes (envelope_writes ty item_count item_bytes blob_offset (length blob)) (zeros n)) (\<lambda>payload.
     Inr \<lparr>es_type = ty, es_item_count = item_count, es_item_bytes = item_bytes,
          es_payload =
            (let payload = patch mncwf_v4_section_header_bytes records payload
             in if blob = [] then payload else patch (unat blob_offset) blob payload)\<rparr>))))))"

section \<open>Fields of buffers\<close>

named_theorems field_simps \<open>reading back fields of a patched buffer\<close>

lemma length_patch [simp]: "length (patch offset xs bs) = length bs"
  by (simp add: patch_def)

lemma length_zeros [simp]: "length (zeros n) = n"
  by (simp add: zeros_def)

lemma length_subspan: "length (subspan offset n bs) = min n (length bs - offset)"
  by (simp add: subspan_def min.commute)

lemma length_subspan_within [simp]: "offset + n \<le> length bs \<Longrightarrow> length (subspan offset n bs) = n"
  by (simp add: length_subspan)

lemma subspan_subspan: "a + m \<le> n \<Longrightarrow> subspan a m (subspan b n bs) = subspan (b + a) m bs"
  by (simp add: subspan_def take_drop drop_drop ac_simps min_def)

lemma subspan_zeros: "offset + n \<le> m \<Longrightarrow> subspan offset n (zeros m) = zeros n"
  by (simp add: subspan_def zeros_def)

lemma nth_patch:
  "i < length bs \<Longrightarrow>
   patch offset xs bs ! i = (if offset \<le> i \<and> i < offset + length xs then xs ! (i - offset) else bs ! i)"
  by (auto simp: patch_def nth_append min_def)

lemma nth_subspan: "i < n \<Longrightarrow> offset + i < length bs \<Longrightarrow> subspan offset n bs ! i = bs ! (offset + i)"
  by (simp add: subspan_def)

lemma subspan_patch_same:
  "offset + n \<le> length bs \<Longrightarrow> length xs = n \<Longrightarrow> subspan offset n (patch offset xs bs) = xs"
  by (simp add: subspan_def patch_def)

lemma subspan_patch_other:
  "a + n \<le> offset \<or> offset + length xs \<le> a \<Longrightarrow> subspan a n (patch offset xs bs) = subspan a n bs"
  by (rule nth_equalityI) (auto simp: length_subspan nth_subspan nth_patch)

lemma subspan_patch_inside:
  "b \<le> offset \<Longrightarrow> offset + length xs \<le> b + n \<Longrightarrow> b + n \<le> length bs \<Longrightarrow>
   subspan b n (patch offset xs bs) = patch (offset - b) xs (subspan b n bs)"
  by (rule nth_equalityI) (auto simp: nth_subspan nth_patch add.commute [of b])

lemma take_patch: "b \<le> offset \<Longrightarrow> take b (patch offset xs bs) = take b bs"
  by (rule nth_equalityI) (auto simp: nth_patch)

lemma drop_patch: "offset + length xs \<le> b \<Longrightarrow> drop b (patch offset xs bs) = drop b bs"
  by (rule nth_equalityI) (auto simp: nth_patch)

lemma read_field_within:
  "offset + w \<le> length bs \<Longrightarrow> read_field w m bs offset = Inr (le_value (subspan offset w bs))"
  by (simp add: read_field_def)

lemma read_field_same [field_simps]:
  "offset + w \<le> length bs \<Longrightarrow> length xs = w \<Longrightarrow>
   read_field w m (patch offset xs bs) offset = Inr (le_value xs)"
  by (simp add: read_field_within subspan_patch_same)

lemma read_field_other [field_simps]:
  "a + w \<le> offset \<or> offset + length xs \<le> a \<Longrightarrow>
   read_field w m (patch offset xs bs) a = read_field w m bs a"
  by (simp add: read_field_def subspan_patch_other)

lemma read_array_same [field_simps]:
  "offset + n \<le> length bs \<Longrightarrow> length xs = n \<Longrightarrow> read_array n (patch offset xs bs) offset = Inr xs"
  by (simp add: read_array_def subspan_patch_same)

lemma read_array_other [field_simps]:
  "a + n \<le> offset \<or> offset + length xs \<le> a \<Longrightarrow> read_array n (patch offset xs bs) a = read_array n bs a"
  by (simp add: read_array_def subspan_patch_other)

lemma put_bytes_within [simp]:
  "offset + length xs \<le> length bs \<Longrightarrow> put_bytes offset xs bs = Inr (patch offset xs bs)"
  by (simp add: put_bytes_def ensure_write_def copy_bytes_def)

lemma put_bytes_Inr:
  "put_bytes offset xs bs = Inr bs' \<longleftrightarrow> offset + length xs \<le> length bs \<and> bs' = patch offset xs bs"
  by (auto simp: put_bytes_def ensure_write_def copy_bytes_def)

lemmas put_defs = put_u16_def put_u32_def put_u64_def put_s16_def put_s32_def put_s64_def put_array_def
lemmas read_defs = read_u16_def read_u32_def read_u64_def read_s16_def read_s32_def read_s64_def

lemma read_field_subspan:
  "a + w \<le> n \<Longrightarrow> b + n \<le> length bs \<Longrightarrow> read_field w m (subspan b n bs) a = read_field w m bs (b + a)"
  by (simp add: read_field_within subspan_subspan)

lemma read_field_zeros: "offset + w \<le> n \<Longrightarrow> read_field w m (zeros n) offset = Inr 0"
proof -
  assume "offset + w \<le> n"
  then have "read_field w m (zeros n) offset = Inr (le_value (zeros w))"
    by (simp add: read_field_within subspan_zeros)
  also have "le_value (zeros w) = (0 :: 'a::len word)"
    by (rule bit_word_eqI) (auto simp: bit_le_value zeros_def)
  finally show ?thesis .
qed

lemma le_value_bytes [simp, field_simps]:
  "le_value (le_bytes 2 v16) = (v16 :: u16)"
  "le_value (le_bytes 4 v32) = (v32 :: u32)"
  "le_value (le_bytes 8 v64) = (v64 :: u64)"
  by (simp_all add: le_value_le_bytes)

lemma writes_append: "writes (ws @ vs) s = bind_result (writes ws s) (writes vs)"
  by (induction ws arbitrary: s) (simp_all add: bind_result_def split: sum.split)

section \<open>Items written one after the other\<close>

text \<open>
  A write to a record inside the section buffer acts like the same write to the record alone and
  leaves the rest of the buffer, and every byte already in the blob.
\<close>

type_synonym section_write = "section_buffers \<Rightarrow> section_buffers result"

definition local_write :: "nat \<Rightarrow> nat \<Rightarrow> section_write \<Rightarrow> section_write \<Rightarrow> bool" where
  "local_write base n w w' \<longleftrightarrow>
     (\<forall>r blob r' blob'. base + n \<le> length r \<longrightarrow> w (r, blob) = Inr (r', blob') \<longrightarrow>
        length r' = length r \<and> take base r' = take base r \<and> drop (base + n) r' = drop (base + n) r \<and>
        w' (subspan base n r, blob) = Inr (subspan base n r', blob') \<and> prefix blob blob' \<and>
        (length blob < 2 ^ 32 \<longrightarrow> length blob' < 2 ^ 32))"

lemma local_write_put [simp]:
  "k + length xs \<le> n \<Longrightarrow>
   local_write base n (on_records (put_bytes (base + k) xs)) (on_records (put_bytes k xs))"
  unfolding local_write_def on_records_def
  by (auto simp: put_bytes_Inr take_patch drop_patch subspan_patch_inside)

lemma local_write_copy [simp]:
  "k + length xs \<le> n \<Longrightarrow>
   local_write base n (on_records (copy_bytes (base + k) xs)) (on_records (copy_bytes k xs))"
  unfolding local_write_def on_records_def
  by (auto simp: copy_bytes_def take_patch drop_patch subspan_patch_inside)

lemma local_write_ensure [simp]:
  "k + width \<le> n \<Longrightarrow>
   local_write base n (on_records (ensure_write (base + k) width)) (on_records (ensure_write k width))"
  unfolding local_write_def on_records_def by (auto simp: ensure_write_def)

lemma append_string_prefix:
  "append_string blob v = Inr (reference, blob') \<Longrightarrow>
   prefix blob blob' \<and> (length blob < 2 ^ 32 \<longrightarrow> length blob' < 2 ^ 32)"
  by (auto simp: append_string_def mncwf_v4_max_string_bytes_def split: if_splits)

lemma local_write_string [simp]:
  "k + 8 \<le> n \<Longrightarrow> local_write base n (put_string (base + k) v) (put_string k v)"
  unfolding local_write_def put_string_def put_string_ref_def put_u32_def
  by (auto simp: put_bytes_Inr take_patch drop_patch subspan_patch_inside add.assoc
      dest: append_string_prefix)

lemmas local_write_first [simp] =
  local_write_put [of 0, simplified] local_write_copy [of 0, simplified] local_write_ensure [of 0, simplified]

lemma local_writes:
  "list_all2 (local_write base n) ws ws' \<Longrightarrow> local_write base n (writes ws) (writes ws')"
proof (induction rule: list_all2_induct)
  case Nil
  then show ?case by (simp add: local_write_def)
next
  case (Cons w ws w' ws')
  show ?case
    unfolding local_write_def
  proof (intro allI impI)
    fix r blob r' blob'
    assume len: "base + n \<le> length r" and run: "writes (w # ws) (r, blob) = Inr (r', blob')"
    then obtain r1 blob1 where 1: "w (r, blob) = Inr (r1, blob1)" and 2: "writes ws (r1, blob1) = Inr (r', blob')"
      by auto
    from Cons(1) len 1 have *: "length r1 = length r" "take base r1 = take base r"
      "drop (base + n) r1 = drop (base + n) r" "w' (subspan base n r, blob) = Inr (subspan base n r1, blob1)"
      "prefix blob blob1" "length blob < 2 ^ 32 \<longrightarrow> length blob1 < 2 ^ 32" unfolding local_write_def by blast+
    from len * have "base + n \<le> length r1" by simp
    with Cons.IH 2 have "length r' = length r1" "take base r' = take base r1"
      "drop (base + n) r' = drop (base + n) r1" "writes ws' (subspan base n r1, blob1) = Inr (subspan base n r', blob')"
      "prefix blob1 blob'" "length blob1 < 2 ^ 32 \<longrightarrow> length blob' < 2 ^ 32" unfolding local_write_def by blast+
    with * show "length r' = length r \<and> take base r' = take base r \<and>
      drop (base + n) r' = drop (base + n) r \<and>
      writes (w' # ws') (subspan base n r, blob) = Inr (subspan base n r', blob') \<and> prefix blob blob' \<and>
      (length blob < 2 ^ 32 \<longrightarrow> length blob' < 2 ^ 32)"
      by (auto intro: prefix_order.trans)
  qed
qed

text \<open>The encoder's loop over the items of a section, each in its own record.\<close>

definition item_writes_at ::
    "nat \<Rightarrow> (nat \<Rightarrow> 'a \<Rightarrow> section_write list) \<Rightarrow> 'a list \<Rightarrow> nat list \<Rightarrow> section_write list" where
  "item_writes_at width item_writes items indices =
     concat (map (\<lambda>i. item_writes (i * width) (items ! i)) indices)"

definition encode_items ::
    "nat \<Rightarrow> (nat \<Rightarrow> 'a \<Rightarrow> section_write list) \<Rightarrow> 'a list \<Rightarrow> section_buffers result" where
  "encode_items width item_writes items =
     writes (item_writes_at width item_writes items [0..<length items]) (zeros (length items * width), [])"

text \<open>
  The interface of an item encoder: its writes stay in the item's record, whatever the place of the
  record in the section.
\<close>

locale item_encoder =
  fixes width :: nat and item_writes :: "nat \<Rightarrow> 'a \<Rightarrow> section_write list" and shaped :: "'a \<Rightarrow> bool"
  assumes item_local: "shaped x \<Longrightarrow>
    list_all2 (local_write base width) (item_writes base x) (item_writes 0 x)"
begin

lemma item_step:
  assumes "writes (item_writes base x) (r, blob) = Inr (r', blob')" "base + width \<le> length r" "shaped x"
  shows "length r' = length r" "take base r' = take base r" "drop (base + width) r' = drop (base + width) r"
    "writes (item_writes 0 x) (subspan base width r, blob) = Inr (subspan base width r', blob')"
    "prefix blob blob'" "length blob < 2 ^ 32 \<Longrightarrow> length blob' < 2 ^ 32"
  using local_writes [OF item_local [OF assms(3)], of base] assms(1,2) unfolding local_write_def by blast+

lemma items_prefix:
  assumes "writes (item_writes_at width item_writes items [0..<k]) (zeros (n * width), []) = Inr (r, blob)"
    "k \<le> n" "\<And>i. i < k \<Longrightarrow> shaped (items ! i)"
  shows "length r = n * width \<and> length blob < 2 ^ 32 \<and> drop (k * width) r = zeros ((n - k) * width) \<and>
    (\<forall>i<k. \<exists>blob0 blob1. prefix blob1 blob \<and>
       writes (item_writes 0 (items ! i)) (zeros width, blob0) = Inr (subspan (i * width) width r, blob1))"
  using assms
proof (induction k arbitrary: r blob)
  case 0
  then show ?case by (auto simp: item_writes_at_def)
next
  case (Suc k)
  let ?all = "item_writes_at width item_writes items"
  from Suc.prems(1) obtain r0 b0 where
    first: "writes (?all [0..<k]) (zeros (n * width), []) = Inr (r0, b0)" and
    item: "writes (item_writes (k * width) (items ! k)) (r0, b0) = Inr (r, blob)"
    by (auto simp: item_writes_at_def writes_append)
  from Suc.IH [OF first] Suc.prems(2,3) have IH: "length r0 = n * width" "length b0 < 2 ^ 32"
    "drop (k * width) r0 = zeros ((n - k) * width)"
    "\<And>i. i < k \<Longrightarrow> \<exists>blob0 blob1. prefix blob1 b0 \<and>
       writes (item_writes 0 (items ! i)) (zeros width, blob0) = Inr (subspan (i * width) width r0, blob1)"
    by auto
  have fits: "k * width + width \<le> length r0"
    using Suc.prems(2) IH(1) mult_le_mono1 [of "Suc k" n width] by simp
  note step = item_step [OF item fits Suc.prems(3) [OF lessI]]
  have "subspan (k * width) width r0 = zeros width"
  proof -
    have "width \<le> (n - k) * width" using Suc.prems(2) by (cases "n - k") simp_all
    then show ?thesis by (simp add: subspan_def IH(3)) (simp add: zeros_def)
  qed
  with step(4) have last: "writes (item_writes 0 (items ! k)) (zeros width, b0) = Inr (subspan (k * width) width r, blob)"
    by simp
  have keep: "subspan (i * width) width r = subspan (i * width) width r0" if "i < k" for i
  proof -
    have "i * width + width \<le> k * width" using that mult_le_mono1 [of "Suc i" k width] by simp
    then have "subspan (i * width) width r = subspan (i * width) width (take (k * width) r)"
      "subspan (i * width) width r0 = subspan (i * width) width (take (k * width) r0)"
      by (simp_all add: subspan_def drop_take min_def)
    then show ?thesis by (simp add: step(2))
  qed
  have "drop (Suc k * width) r = zeros ((n - Suc k) * width)"
  proof -
    have "drop (Suc k * width) r = drop width (drop (k * width) r0)"
      using step(3) by (simp add: add.commute)
    then show ?thesis by (simp add: IH(3) zeros_def diff_mult_distrib)
  qed
  moreover have "\<exists>blob0 blob1. prefix blob1 blob \<and>
      writes (item_writes 0 (items ! i)) (zeros width, blob0) = Inr (subspan (i * width) width r, blob1)"
    if "i < Suc k" for i
  proof (cases "i = k")
    case True
    then show ?thesis using last by blast
  next
    case False
    with that have i: "i < k" by simp
    with IH(4) [OF i] keep [OF i] step(5) show ?thesis
      by (auto intro: prefix_order.trans)
  qed
  ultimately show ?case using step(1,6) IH(1,2) by simp
qed

lemma encode_items_records:
  assumes "encode_items width item_writes items = Inr (r, blob)" "\<forall>x\<in>set items. shaped x"
  shows "length r = length items * width" "length blob < 2 ^ 32" and
    "i < length items \<Longrightarrow> \<exists>blob0 blob1. prefix blob1 blob \<and>
       writes (item_writes 0 (items ! i)) (zeros width, blob0) = Inr (subspan (i * width) width r, blob1)"
  using items_prefix [of items "length items" "length items" r blob] assms
  by (auto simp: encode_items_def)

end

text \<open>An encoder whose writes succeed and append the strings of an item to the blob.\<close>

locale item_encoder_total = item_encoder width item_writes shaped
  for width :: nat and item_writes :: "nat \<Rightarrow> 'a \<Rightarrow> section_write list" and shaped :: "'a \<Rightarrow> bool" +
  fixes strings :: "'a \<Rightarrow> bytes list"
  assumes item_total: "shaped x \<Longrightarrow> list_all (\<lambda>v. length v \<le> mncwf_v4_max_string_bytes) (strings x) \<Longrightarrow>
    base + width \<le> length r \<Longrightarrow> length blob + length (concat (strings x)) < 2 ^ 32 \<Longrightarrow>
    \<exists>r'. writes (item_writes base x) (r, blob) = Inr (r', blob @ concat (strings x))"
begin

lemma items_total:
  assumes "\<And>i. i < k \<Longrightarrow> shaped (items ! i) \<and> list_all (\<lambda>v. length v \<le> mncwf_v4_max_string_bytes) (strings (items ! i))"
    "k * width \<le> n" "length (concat (concat (map (\<lambda>i. strings (items ! i)) [0..<k]))) < 2 ^ 32"
  shows "\<exists>r. writes (item_writes_at width item_writes items [0..<k]) (zeros n, []) =
    Inr (r, concat (concat (map (\<lambda>i. strings (items ! i)) [0..<k]))) \<and> length r = n"
  using assms
proof (induction k)
  case 0
  then show ?case by (simp add: item_writes_at_def)
next
  case (Suc k)
  have "\<exists>r. writes (item_writes_at width item_writes items [0..<k]) (zeros n, []) =
    Inr (r, concat (concat (map (\<lambda>i. strings (items ! i)) [0..<k]))) \<and> length r = n"
    using Suc.prems by (intro Suc.IH) auto
  then obtain r where r: "writes (item_writes_at width item_writes items [0..<k]) (zeros n, []) =
    Inr (r, concat (concat (map (\<lambda>i. strings (items ! i)) [0..<k])))" "length r = n" by blast
  have fits: "k * width + width \<le> length r" using Suc.prems(2) r(2) by simp
  obtain r' where r': "writes (item_writes (k * width) (items ! k))
      (r, concat (concat (map (\<lambda>i. strings (items ! i)) [0..<k]))) =
    Inr (r', concat (concat (map (\<lambda>i. strings (items ! i)) [0..<k])) @ concat (strings (items ! k)))"
    using item_total [of "items ! k" "k * width" r] Suc.prems(1) [of k] Suc.prems(3) fits by fastforce
  moreover have "length r' = n" using item_step(1) [OF r' fits] Suc.prems(1) [of k] r(2) by simp
  ultimately show ?case using r by (auto simp: item_writes_at_def writes_append)
qed

lemma encode_items_total:
  assumes "list_all shaped items" "list_all (\<lambda>v. length v \<le> mncwf_v4_max_string_bytes) (concat (map strings items))"
    "length (concat (concat (map strings items))) < 2 ^ 32"
  shows "\<exists>r. encode_items width item_writes items = Inr (r, concat (concat (map strings items)))"
proof -
  have m: "map (\<lambda>i. strings (items ! i)) [0..<length items] = map strings items"
    by (rule nth_equalityI) simp_all
  have "\<exists>r. writes (item_writes_at width item_writes items [0..<length items]) (zeros (length items * width), []) =
    Inr (r, concat (concat (map (\<lambda>i. strings (items ! i)) [0..<length items]))) \<and> length r = length items * width"
    using assms by (intro items_total) (auto simp: m list_all_iff)
  then show ?thesis by (auto simp: encode_items_def m)
qed

end

section \<open>Alignment and ranges\<close>

lemma unat_and_not_7: "unat ((s :: u64) AND NOT 7) = unat s div 8 * 8"
proof -
  have m: "(7 :: u64) = mask 3" by (simp add: mask_eq_exp_minus_1)
  have "s AND NOT 7 = push_bit 3 (drop_bit 3 s)"
    unfolding m by (rule bit_word_eqI) (auto simp: bit_simps)
  also have "unat \<dots> = take_bit 64 (push_bit 3 (drop_bit 3 (unat s)))"
    using unsigned_less [of s, where 'a = nat]
    by (simp add: unsigned_push_bit_eq unsigned_drop_bit_eq take_bit_nat_eq_self)
  also have "push_bit 3 (drop_bit 3 (unat s)) = unat s div 8 * 8"
    by (simp add: push_bit_eq_mult drop_bit_eq_div)
  also have "take_bit 64 (unat s div 8 * 8) = unat s div 8 * 8"
    using unsigned_less [of s, where 'a = nat] div_times_less_eq_dividend [of "unat s" 8]
    by (intro take_bit_nat_eq_self) simp
  finally show ?thesis .
qed

lemma unat_and_minus_8 [simp]: "unat ((s :: u64) AND - 8) = unat s div 8 * 8"
  using unat_and_not_7 [of s] by simp

lemma unat_ucast_u32 [simp]: "unat (ucast (w :: u32) :: u64) = unat w"
  using unsigned_less [of w, where 'a = nat] by (simp add: unsigned_ucast_eq take_bit_nat_eq_self)

definition align_nat :: "nat \<Rightarrow> nat" where "align_nat n = (n + 7) div 8 * 8"

lemma align_nat_bounds: "n \<le> align_nat n" "align_nat n < n + 8" "8 dvd align_nat n"
  unfolding align_nat_def by (linarith, linarith, simp)

lemma align_nat_dvd [simp]: "8 dvd n \<Longrightarrow> align_nat n = n"
  unfolding align_nat_def by (auto elim!: dvdE)

lemma align_nat_mono: "m \<le> n \<Longrightarrow> align_nat m \<le> align_nat n"
  unfolding align_nat_def by (simp add: div_le_mono)

lemma align_eight_Inr [checked_simps]:
  "align_eight v = Inr w \<longleftrightarrow> unat v + 7 < 2 ^ 64 \<and> unat w = align_nat (unat v)"
proof
  assume "align_eight v = Inr w"
  then obtain s where "unat v + 7 < 2 ^ 64" "unat s = unat v + 7" "w = s AND NOT 7"
    by (auto simp: align_eight_def checked_simps)
  then show "unat v + 7 < 2 ^ 64 \<and> unat w = align_nat (unat v)"
    by (simp add: unat_and_not_7 align_nat_def)
next
  assume a: "unat v + 7 < 2 ^ 64 \<and> unat w = align_nat (unat v)"
  then have s: "unat (v + 7) = unat v + 7" by (simp add: unat_add_lem [THEN iffD1])
  then have "w = (v + 7) AND NOT 7"
    using a by (simp add: word_unat_eq_iff unat_and_not_7 align_nat_def)
  moreover have "checked_add v 7 ''alignment'' = Inr (v + 7)" using a s by (simp add: checked_simps)
  ultimately show "align_eight v = Inr w" by (simp add: align_eight_def)
qed

lemma range_of_Inr [checked_simps]:
  "range_of bs offset len label = Inr xs \<longleftrightarrow>
   unat offset + unat len < 2 ^ 64 \<and> unat offset + unat len \<le> length bs \<and>
   xs = subspan (unat offset) (unat len) bs"
proof
  assume "range_of bs offset len label = Inr xs"
  then show "unat offset + unat len < 2 ^ 64 \<and> unat offset + unat len \<le> length bs \<and>
    xs = subspan (unat offset) (unat len) bs"
    by (auto simp: range_of_def checked_simps split: if_splits)
next
  assume a: "unat offset + unat len < 2 ^ 64 \<and> unat offset + unat len \<le> length bs \<and>
    xs = subspan (unat offset) (unat len) bs"
  then have s: "unat (offset + len) = unat offset + unat len"
    by (simp add: unat_add_lem [THEN iffD1])
  with a have "checked_add offset len label = Inr (offset + len)" by (simp add: checked_simps)
  then have "range_of bs offset len label = (if unat (offset + len) > length bs
      then Inl (reject (label @ '' is truncated'')) else Inr (subspan (unat offset) (unat len) bs))"
    by (simp only: range_of_def bind_result_simps narrow_size_ok)
  with a s show "range_of bs offset len label = Inr xs" by simp
qed

section \<open>Strings and references\<close>

text \<open>A reference made while a blob was built reads the string back from the finished blob.\<close>

lemma read_string_append:
  assumes "append_string blob v = Inr ((offset, n), blob1)" "prefix blob1 blob2"
    "read_u32 record k = Inr offset" "read_u32 record (k + 4) = Inr n"
    "length blob2 < 2 ^ 32"
  shows "read_string record k blob2 label = (if v = [] \<or> valid_utf8 v then Inr v
    else Inl (reject (label @ '' is not canonical UTF-8'')))"
proof (cases "v = []")
  case True
  with assms show ?thesis by (simp add: append_string_def read_string_def range_of_def checked_add_def subspan_def)
next
  case False
  with assms(1) have v: "length v \<le> mncwf_v4_max_string_bytes" "length blob \<le> (2 ^ 32 - 1) - length v"
    "offset = of_nat (length blob)" "n = of_nat (length v)" "blob1 = blob @ v"
    by (auto simp: append_string_def split: if_splits)
  from assms(2) v(5) obtain z where b2: "blob2 = blob @ v @ z" by (auto simp: prefix_def)
  have lens: "unat n = length v" "unat offset = length blob"
    using v assms(5) b2 by (simp_all add: unat_of_nat take_bit_nat_eq_self mncwf_v4_max_string_bytes_def)
  have "n \<noteq> 0" using lens(1) False by auto
  have "range_of blob2 (ucast offset) (ucast n) label = Inr v"
    using lens assms(5) b2 by (simp add: range_of_Inr subspan_def)
  then show ?thesis using False assms(3,4) lens v(1) \<open>n \<noteq> 0\<close> by (simp add: read_string_def)
qed

lemma put_string_Inr:
  "put_string k v (r, b) = Inr (r', b') \<longleftrightarrow>
   (\<exists>offset n. append_string b v = Inr ((offset, n), b') \<and> k + 8 \<le> length r \<and>
      r' = patch (k + 4) (le_bytes 4 n) (patch k (le_bytes 4 offset) r))"
  by (auto simp: put_string_def put_string_ref_def put_u32_def put_bytes_Inr)

lemma put_string_ok:
  "length v \<le> mncwf_v4_max_string_bytes \<Longrightarrow> length b + length v < 2 ^ 32 \<Longrightarrow> k + 8 \<le> length r \<Longrightarrow>
   put_string k v (r, b) = Inr (patch (k + 4) (le_bytes 4 (of_nat (length v) :: u32))
     (patch k (le_bytes 4 (if v = [] then 0 else of_nat (length b) :: u32)) r), b @ v)"
  by (auto simp: put_string_def put_string_ref_def put_u32_def append_string_def)

section \<open>The envelope of a section\<close>

lemma mncwf_consts [simp]:
  "mncwf_v4_section_header_bytes = 48" "mncwf_v4_max_file_bytes = 536870912"
  by (simp_all add: mncwf_v4_section_header_bytes_def mncwf_v4_max_file_bytes_def)

lemma unat_of_nat_u64: "n < 2 ^ 64 \<Longrightarrow> unat (of_nat n :: u64) = n"
  by (simp add: unat_of_nat take_bit_nat_eq_self)

text \<open>Where the blob starts, and the whole size.\<close>

definition blob_start :: "bytes \<Rightarrow> bytes \<Rightarrow> nat" where
  "blob_start records blob = (if blob = [] then 0 else align_nat (48 + length records))"

definition section_size :: "bytes \<Rightarrow> bytes \<Rightarrow> nat" where
  "section_size records blob =
     (if blob = [] then 48 + length records else blob_start records blob + length blob)"

text \<open>The bytes of a section: header fields, records and blob in a zeroed buffer.\<close>

definition section_payload :: "mncwf_v4_section_type \<Rightarrow> u64 \<Rightarrow> u32 \<Rightarrow> bytes \<Rightarrow> bytes \<Rightarrow> bytes" where
  "section_payload ty item_count item_bytes records blob =
     patch (if blob = [] then section_size records blob else blob_start records blob) blob
       (patch 48 records (patch 40 (le_bytes 8 (0 :: u64)) (patch 32 (le_bytes 8 (of_nat (length blob) :: u64))
       (patch 24 (le_bytes 8 (of_nat (blob_start records blob) :: u64)) (patch 16 (le_bytes 8 item_count)
       (patch 12 (le_bytes 4 item_bytes) (patch 8 (le_bytes 4 (0 :: u32))
       (patch 6 (le_bytes 2 (48 :: u16)) (patch 4 (le_bytes 2 (1 :: u16))
       (patch 0 (le_bytes 4 (section_code ty)) (zeros (section_size records blob))))))))))))"

lemma patch_nil [simp]: "patch n [] bs = bs"
  by (simp add: patch_def)

lemma envelope_writes_run:
  "48 \<le> n \<Longrightarrow> writes (envelope_writes ty item_count item_bytes start k) (zeros n) =
    Inr (patch 40 (le_bytes 8 (0 :: u64)) (patch 32 (le_bytes 8 (of_nat k :: u64))
       (patch 24 (le_bytes 8 start) (patch 16 (le_bytes 8 item_count)
       (patch 12 (le_bytes 4 item_bytes) (patch 8 (le_bytes 4 (0 :: u32))
       (patch 6 (le_bytes 2 (48 :: u16)) (patch 4 (le_bytes 2 (1 :: u16))
       (patch 0 (le_bytes 4 (section_code ty)) (zeros n))))))))))"
  by (simp add: envelope_writes_def put_defs)

lemma align_nat_at_least: "48 \<le> n \<Longrightarrow> 48 \<le> align_nat n"
  using align_nat_bounds(1) [of n] by simp

lemma enveloped_section_Inr:
  assumes run: "enveloped_section ty item_count item_bytes records blob = Inr s"
    and blob: "length blob < 2 ^ 32"
  shows "unat item_count * unat item_bytes = length records"
    "section_size records blob \<le> mncwf_v4_max_file_bytes"
    "s = \<lparr>es_type = ty, es_item_count = item_count, es_item_bytes = item_bytes,
          es_payload = section_payload ty item_count item_bytes records blob\<rparr>"
proof -
  from run obtain expected records_end where
    expected: "checked_multiply item_count (ucast item_bytes) ''encoded section records'' = Inr expected"
      "length records = unat expected" and
    re: "checked_add 48 expected ''encoded section records'' = Inr records_end"
    by (auto simp: enveloped_section_def split: if_splits)
  then show "unat item_count * unat item_bytes = length records"
    by (simp add: checked_simps)
  have ue: "unat records_end = 48 + length records" using re expected(2) by (simp add: checked_simps)
  have "section_size records blob \<le> mncwf_v4_max_file_bytes \<and>
    s = \<lparr>es_type = ty, es_item_count = item_count, es_item_bytes = item_bytes,
          es_payload = section_payload ty item_count item_bytes records blob\<rparr>"
  proof (cases "blob = []")
    case True
    have "48 \<le> unat records_end" using ue by simp
    with True run expected re ue show ?thesis
      by (auto simp: enveloped_section_def section_payload_def section_size_def blob_start_def
          envelope_writes_run split: if_splits)
  next
    case False
    from run False expected re obtain start total where
      start: "align_eight records_end = Inr start" and
      total: "checked_add start (of_nat (length blob)) ''encoded section blob'' = Inr total"
      by (auto simp: enveloped_section_def split: if_splits)
    have us: "unat start = blob_start records blob" using start ue False
      by (simp add: checked_simps blob_start_def)
    then have s: "start = of_nat (blob_start records blob)" by (metis of_nat_unat ucast_id)
    have ut: "unat total = section_size records blob" using total us blob False
      by (simp add: checked_simps section_size_def unat_of_nat_u64)
    have "48 \<le> unat total"
      unfolding ut using False align_nat_at_least [of "48 + length records"]
      by (simp add: section_size_def blob_start_def)
    note w = envelope_writes_run [OF this]
    show ?thesis using run False expected re start total us ut
      by (auto simp: enveloped_section_def section_payload_def Let_def w [unfolded ut] s split: if_splits)
  qed
  then show "section_size records blob \<le> mncwf_v4_max_file_bytes"
    "s = \<lparr>es_type = ty, es_item_count = item_count, es_item_bytes = item_bytes,
          es_payload = section_payload ty item_count item_bytes records blob\<rparr>" by blast+
qed

lemma length_section_payload [simp]:
  "length (section_payload ty item_count item_bytes records blob) = section_size records blob"
  by (simp add: section_payload_def)

lemma section_size_bounds:
  "48 + length records \<le> section_size records blob \<and>
   (blob \<noteq> [] \<longrightarrow> 48 + length records \<le> blob_start records blob \<and>
      blob_start records blob + length blob = section_size records blob)"
  using align_nat_bounds(1) [of "48 + length records"]
  by (simp_all add: section_size_def blob_start_def)

lemma section_payload_parts:
  "subspan 48 (length records) (section_payload ty item_count item_bytes records blob) = records"
  "blob \<noteq> [] \<Longrightarrow> subspan (blob_start records blob) (length blob)
     (section_payload ty item_count item_bytes records blob) = blob"
  using section_size_bounds [of records blob]
  by (auto simp: section_payload_def subspan_patch_other subspan_patch_same)

lemma section_payload_padding:
  assumes "blob \<noteq> []"
  shows "all_zero (subspan (48 + length records) (blob_start records blob - (48 + length records))
     (section_payload ty item_count item_bytes records blob))"
proof -
  show ?thesis using assms section_size_bounds [of records blob]
    by (simp add: section_payload_def subspan_patch_other subspan_zeros all_zero_def)
      (simp add: zeros_def list_all_iff)
qed

text \<open>The header fields of an encoded section.\<close>

lemma section_payload_fields:
  "read_u32 (section_payload ty item_count item_bytes records blob) 0 = Inr (section_code ty)"
  "read_u16 (section_payload ty item_count item_bytes records blob) 4 = Inr 1"
  "read_u16 (section_payload ty item_count item_bytes records blob) 6 = Inr 48"
  "read_u32 (section_payload ty item_count item_bytes records blob) 8 = Inr 0"
  "read_u32 (section_payload ty item_count item_bytes records blob) 12 = Inr item_bytes"
  "read_u64 (section_payload ty item_count item_bytes records blob) 16 = Inr item_count"
  "read_u64 (section_payload ty item_count item_bytes records blob) 24 = Inr (of_nat (blob_start records blob))"
  "read_u64 (section_payload ty item_count item_bytes records blob) 32 = Inr (of_nat (length blob))"
  "read_u64 (section_payload ty item_count item_bytes records blob) 40 = Inr 0"
  using section_size_bounds [of records blob]
  by (cases "blob = []"; simp add: section_payload_def read_defs field_simps)+

text \<open>
  The reader's view of a section that the encoder enveloped is the records and the blob the encoder
  was given.
\<close>

lemma parse_enveloped:
  assumes enc: "enveloped_section ty item_count item_bytes records blob = Inr s"
    and blob: "length blob < 2 ^ 32" "allow_blob \<or> blob = []"
    and entry: "si_type i = section_code ty" "si_version i = 1" "si_flags i = mncwf_v4_section_required"
      "si_item_count i = item_count" "si_item_bytes i = item_bytes"
      "si_stored_bytes i = of_nat (length (es_payload s))" "si_data i = es_payload s"
    and counts: "minimum_count \<le> item_count" "item_count \<le> maximum_count"
  shows "parse_section_envelope i item_bytes minimum_count maximum_count allow_blob = Inr (records, blob)"
proof -
  note s = enveloped_section_Inr [OF enc blob(1)]
  let ?p = "section_payload ty item_count item_bytes records blob"
  have size: "section_size records blob \<le> 536870912" using s(2) by simp
  note bounds = section_size_bounds [of records blob]
  have small: "length records < 2 ^ 64" "blob_start records blob < 2 ^ 64" "section_size records blob < 2 ^ 64"
    using size bounds by (auto simp: blob_start_def split: if_splits)
  have mult: "checked_multiply item_count (ucast item_bytes) ''section records'' = Inr (of_nat (length records))"
    using s(1) small(1) by (simp add: checked_simps unat_of_nat_u64)
  have add: "checked_add 48 (of_nat (length records)) ''section records'' = Inr (of_nat (48 + length records))"
    using size bounds by (simp add: checked_simps unat_of_nat_u64 del: of_nat_add)
  have recs: "range_of ?p 48 (of_nat (length records)) ''section records'' = Inr records"
    using size bounds by (simp add: checked_simps unat_of_nat_u64 section_payload_parts)
  have nz: "of_nat (length blob) = (0 :: u64) \<longleftrightarrow> blob = []"
    using blob(1) unat_of_nat_u64 [of "length blob"] by (auto simp: word_unat_eq_iff)
  have check: "check_blob i allow_blob (of_nat (48 + length records)) (of_nat (blob_start records blob)) (of_nat (length blob)) = Inr ()"
  proof (cases "blob = []")
    case True
    then show ?thesis
      by (simp add: check_blob_def blob_start_def section_size_def entry(6) s(3))
  next
    case False
    have "align_eight (of_nat (48 + length records)) = Inr (of_nat (blob_start records blob))"
      using False size bounds by (simp add: checked_simps unat_of_nat_u64 blob_start_def del: of_nat_add)
    moreover have "checked_add (of_nat (blob_start records blob)) (of_nat (length blob)) ''section blob'' =
        Inr (of_nat (section_size records blob))"
      using False size bounds by (simp add: checked_simps unat_of_nat_u64)
    moreover have pad: "unat (of_nat (blob_start records blob - (48 + length records)) :: u64) =
        blob_start records blob - (48 + length records)"
      by (intro unat_of_nat_u64 le_less_trans [OF diff_le_self small(2)])
    moreover have "range_of ?p (of_nat (48 + length records))
        (of_nat (blob_start records blob) - of_nat (48 + length records)) ''section blob padding'' =
        Inr (subspan (48 + length records) (blob_start records blob - (48 + length records)) ?p)"
      using False size bounds
      by (simp add: checked_simps unat_of_nat_u64 pad del: of_nat_add flip: of_nat_diff)
    ultimately show ?thesis
      using False blob(2) nz section_payload_padding [OF False, of records ty item_count item_bytes]
      by (simp add: check_blob_def differs_def entry(6,7) s(3) del: of_nat_add)
  qed
  have blb: "blob \<noteq> [] \<Longrightarrow> range_of ?p (of_nat (blob_start records blob)) (of_nat (length blob)) ''section blob'' = Inr blob"
    using blob(1) size bounds section_payload_parts(2) [of blob records ty item_count item_bytes]
    by (simp add: checked_simps unat_of_nat_u64)
  have header: "envelope_differs i = Inr False"
    using entry by (simp add: envelope_differs_def differs_def s(3) section_payload_fields)
  show ?thesis
    using entry counts check recs blb mult add header bounds
    by (cases "blob = []") (simp_all add: parse_section_envelope_def s(3) section_payload_fields nz)
qed
end
