(* ===== verification/Mncwf_Format.thy ===== *)
theory Mncwf_Format
  imports Mncwf_Codec
begin

text \<open>
  The typed contents of an MNCWF file (\<^verbatim>\<open>waveform/mncwf_v4.hpp\<close>) and how the encoder of
  \<^verbatim>\<open>mncwf_v4.cpp\<close> lays each record out. For every kind of record it is shown that the fields and
  strings read back are the ones that were written.
\<close>

unbundle bit_operations_syntax

section \<open>Enumerations\<close>

text \<open>
  An enumeration is written as its underlying integer. The reader casts back only after it has
  checked the value, so the cast of a value outside the enumeration is never used.
\<close>

definition enum_cast :: "('e \<Rightarrow> 'a) \<Rightarrow> 'e list \<Rightarrow> 'a \<Rightarrow> 'e" where
  "enum_cast code all v = (case find (\<lambda>e. code e = v) all of Some e \<Rightarrow> e | None \<Rightarrow> hd all)"

locale wire_enum =
  fixes code :: "'e \<Rightarrow> 'a" and all :: "'e list"
  assumes code_inj: "code x = code y \<Longrightarrow> x = y"
    and all_complete: "x \<in> set all"
begin

lemma cast_code: "enum_cast code all (code x) = x"
proof -
  obtain y where y: "find (\<lambda>e. code e = code x) all = Some y"
    using all_complete [of x] by (cases "find (\<lambda>e. code e = code x) all") (auto simp: find_None_iff)
  then have "code y = code x" by (auto simp: find_Some_iff)
  then have "y = x" by (rule code_inj)
  then show ?thesis using y by (simp add: enum_cast_def)
qed

end

datatype mncwf_topology =
    Topology_unknown | Wye | Delta

primrec topology_code :: "mncwf_topology \<Rightarrow> u32" where
  "topology_code Topology_unknown = 0"
| "topology_code Wye = 1"
| "topology_code Delta = 2"

definition topology_all :: "mncwf_topology list" where
  "topology_all = [Topology_unknown, Wye, Delta]"

datatype mncwf_calibration_status =
    Calibration_unknown | Calibration_valid | Calibration_expired | Calibration_invalid

primrec calibration_code :: "mncwf_calibration_status \<Rightarrow> u32" where
  "calibration_code Calibration_unknown = 0"
| "calibration_code Calibration_valid = 1"
| "calibration_code Calibration_expired = 2"
| "calibration_code Calibration_invalid = 3"

definition calibration_all :: "mncwf_calibration_status list" where
  "calibration_all = [Calibration_unknown, Calibration_valid, Calibration_expired, Calibration_invalid]"

datatype mncwf_decimation_method =
    Decimation_none | Boxcar_mean_toward_zero

primrec decimation_code :: "mncwf_decimation_method \<Rightarrow> u16" where
  "decimation_code Decimation_none = 0"
| "decimation_code Boxcar_mean_toward_zero = 1"

definition decimation_all :: "mncwf_decimation_method list" where
  "decimation_all = [Decimation_none, Boxcar_mean_toward_zero]"

datatype mncwf_clock_source =
    Clock_unknown | Clock_system | Clock_ptp | Clock_gnss
  | Clock_manual

primrec clock_code :: "mncwf_clock_source \<Rightarrow> u16" where
  "clock_code Clock_unknown = 0"
| "clock_code Clock_system = 1"
| "clock_code Clock_ptp = 2"
| "clock_code Clock_gnss = 3"
| "clock_code Clock_manual = 4"

definition clock_all :: "mncwf_clock_source list" where
  "clock_all = [Clock_unknown, Clock_system, Clock_ptp, Clock_gnss, Clock_manual]"

datatype mncwf_time_quality =
    Time_unknown | Time_unlocked | Time_holdover | Time_locked

primrec time_quality_code :: "mncwf_time_quality \<Rightarrow> u16" where
  "time_quality_code Time_unknown = 0"
| "time_quality_code Time_unlocked = 1"
| "time_quality_code Time_holdover = 2"
| "time_quality_code Time_locked = 3"

definition time_quality_all :: "mncwf_time_quality list" where
  "time_quality_all = [Time_unknown, Time_unlocked, Time_holdover, Time_locked]"

datatype mncwf_phase =
    Phase_none | Phase_a | Phase_b | Phase_c
  | Phase_neutral | Phase_ab | Phase_bc | Phase_ca

primrec phase_code :: "mncwf_phase \<Rightarrow> u16" where
  "phase_code Phase_none = 0"
| "phase_code Phase_a = 1"
| "phase_code Phase_b = 2"
| "phase_code Phase_c = 3"
| "phase_code Phase_neutral = 4"
| "phase_code Phase_ab = 5"
| "phase_code Phase_bc = 6"
| "phase_code Phase_ca = 7"

definition phase_all :: "mncwf_phase list" where
  "phase_all = [Phase_none, Phase_a, Phase_b, Phase_c, Phase_neutral, Phase_ab, Phase_bc, Phase_ca]"

datatype mncwf_quantity =
    Quantity_unknown | Quantity_current | Quantity_voltage | Quantity_status
  | Quantity_frequency | Quantity_ratio

primrec quantity_code :: "mncwf_quantity \<Rightarrow> u16" where
  "quantity_code Quantity_unknown = 0"
| "quantity_code Quantity_current = 1"
| "quantity_code Quantity_voltage = 2"
| "quantity_code Quantity_status = 3"
| "quantity_code Quantity_frequency = 4"
| "quantity_code Quantity_ratio = 5"

definition quantity_all :: "mncwf_quantity list" where
  "quantity_all = [Quantity_unknown, Quantity_current, Quantity_voltage, Quantity_status, Quantity_frequency, Quantity_ratio]"

datatype mncwf_si_unit =
    Dimensionless | Ampere | Volt | Hertz

primrec si_unit_code :: "mncwf_si_unit \<Rightarrow> u16" where
  "si_unit_code Dimensionless = 0"
| "si_unit_code Ampere = 1"
| "si_unit_code Volt = 2"
| "si_unit_code Hertz = 3"

definition si_unit_all :: "mncwf_si_unit list" where
  "si_unit_all = [Dimensionless, Ampere, Volt, Hertz]"

datatype mncwf_sample_encoding =
    Signed_integer_little_endian

primrec encoding_code :: "mncwf_sample_encoding \<Rightarrow> u16" where
  "encoding_code Signed_integer_little_endian = 1"

definition encoding_all :: "mncwf_sample_encoding list" where
  "encoding_all = [Signed_integer_little_endian]"

datatype mncwf_event_taxonomy =
    Taxonomy_unknown | Iec_61000_4_30 | Product_alarm

primrec taxonomy_code :: "mncwf_event_taxonomy \<Rightarrow> u16" where
  "taxonomy_code Taxonomy_unknown = 0"
| "taxonomy_code Iec_61000_4_30 = 1"
| "taxonomy_code Product_alarm = 2"

definition taxonomy_all :: "mncwf_event_taxonomy list" where
  "taxonomy_all = [Taxonomy_unknown, Iec_61000_4_30, Product_alarm]"

datatype mncwf_event_lifecycle =
    Event_start | Event_update | Event_end | Event_abort
  | Event_complete

primrec lifecycle_code :: "mncwf_event_lifecycle \<Rightarrow> u16" where
  "lifecycle_code Event_start = 1"
| "lifecycle_code Event_update = 2"
| "lifecycle_code Event_end = 3"
| "lifecycle_code Event_abort = 4"
| "lifecycle_code Event_complete = 5"

definition lifecycle_all :: "mncwf_event_lifecycle list" where
  "lifecycle_all = [Event_start, Event_update, Event_end, Event_abort, Event_complete]"

datatype mncwf_lineage_relation =
    Relation_parent | Previous_continuation | Next_continuation | Relation_event
  | Virtual_slice

primrec relation_code :: "mncwf_lineage_relation \<Rightarrow> u16" where
  "relation_code Relation_parent = 1"
| "relation_code Previous_continuation = 2"
| "relation_code Next_continuation = 3"
| "relation_code Relation_event = 4"
| "relation_code Virtual_slice = 5"

definition relation_all :: "mncwf_lineage_relation list" where
  "relation_all = [Relation_parent, Previous_continuation, Next_continuation, Relation_event, Virtual_slice]"

interpretation wire_topology: wire_enum topology_code topology_all
proof
  show "topology_code x = topology_code y \<Longrightarrow> x = y" for x y by (cases x; cases y; simp)
  show "x \<in> set topology_all" for x by (cases x) (simp_all add: topology_all_def)
qed

interpretation wire_calibration: wire_enum calibration_code calibration_all
proof
  show "calibration_code x = calibration_code y \<Longrightarrow> x = y" for x y by (cases x; cases y; simp)
  show "x \<in> set calibration_all" for x by (cases x) (simp_all add: calibration_all_def)
qed

interpretation wire_decimation: wire_enum decimation_code decimation_all
proof
  show "decimation_code x = decimation_code y \<Longrightarrow> x = y" for x y by (cases x; cases y; simp)
  show "x \<in> set decimation_all" for x by (cases x) (simp_all add: decimation_all_def)
qed

interpretation wire_clock: wire_enum clock_code clock_all
proof
  show "clock_code x = clock_code y \<Longrightarrow> x = y" for x y by (cases x; cases y; simp)
  show "x \<in> set clock_all" for x by (cases x) (simp_all add: clock_all_def)
qed

interpretation wire_time_quality: wire_enum time_quality_code time_quality_all
proof
  show "time_quality_code x = time_quality_code y \<Longrightarrow> x = y" for x y by (cases x; cases y; simp)
  show "x \<in> set time_quality_all" for x by (cases x) (simp_all add: time_quality_all_def)
qed

interpretation wire_phase: wire_enum phase_code phase_all
proof
  show "phase_code x = phase_code y \<Longrightarrow> x = y" for x y by (cases x; cases y; simp)
  show "x \<in> set phase_all" for x by (cases x) (simp_all add: phase_all_def)
qed

interpretation wire_quantity: wire_enum quantity_code quantity_all
proof
  show "quantity_code x = quantity_code y \<Longrightarrow> x = y" for x y by (cases x; cases y; simp)
  show "x \<in> set quantity_all" for x by (cases x) (simp_all add: quantity_all_def)
qed

interpretation wire_si_unit: wire_enum si_unit_code si_unit_all
proof
  show "si_unit_code x = si_unit_code y \<Longrightarrow> x = y" for x y by (cases x; cases y; simp)
  show "x \<in> set si_unit_all" for x by (cases x) (simp_all add: si_unit_all_def)
qed

interpretation wire_encoding: wire_enum encoding_code encoding_all
proof
  show "encoding_code x = encoding_code y \<Longrightarrow> x = y" for x y by (cases x; cases y; simp)
  show "x \<in> set encoding_all" for x by (cases x) (simp_all add: encoding_all_def)
qed

interpretation wire_taxonomy: wire_enum taxonomy_code taxonomy_all
proof
  show "taxonomy_code x = taxonomy_code y \<Longrightarrow> x = y" for x y by (cases x; cases y; simp)
  show "x \<in> set taxonomy_all" for x by (cases x) (simp_all add: taxonomy_all_def)
qed

interpretation wire_lifecycle: wire_enum lifecycle_code lifecycle_all
proof
  show "lifecycle_code x = lifecycle_code y \<Longrightarrow> x = y" for x y by (cases x; cases y; simp)
  show "x \<in> set lifecycle_all" for x by (cases x) (simp_all add: lifecycle_all_def)
qed

interpretation wire_relation: wire_enum relation_code relation_all
proof
  show "relation_code x = relation_code y \<Longrightarrow> x = y" for x y by (cases x; cases y; simp)
  show "x \<in> set relation_all" for x by (cases x) (simp_all add: relation_all_def)
qed

lemmas cast_codes [simp] = wire_topology.cast_code
  wire_calibration.cast_code
  wire_decimation.cast_code
  wire_clock.cast_code
  wire_time_quality.cast_code
  wire_phase.cast_code
  wire_quantity.cast_code
  wire_si_unit.cast_code
  wire_encoding.cast_code
  wire_taxonomy.cast_code
  wire_lifecycle.cast_code
  wire_relation.cast_code

section \<open>Records\<close>

text \<open>Fixed byte arrays are lists; the documents of interest have them at their lengths.\<close>

record mncwf_v4_capture_metadata =
  cm_capture_uuid :: mncwf_uuid
  cm_device_uuid :: mncwf_uuid
  cm_configuration_sha256 :: bytes
  cm_sensor_profile_sha256 :: bytes
  cm_created_tai_nanoseconds :: u64
  cm_created_utc_nanoseconds :: u64
  cm_nominal_voltage_numerator :: u64
  cm_nominal_voltage_denominator :: u64
  cm_nominal_frequency_numerator :: u64
  cm_nominal_frequency_denominator :: u64
  cm_topology :: mncwf_topology
  cm_calibration_status :: mncwf_calibration_status
  cm_flags :: u32
  cm_station_name :: bytes
  cm_site_name :: bytes
  cm_circuit_name :: bytes
  cm_product_name :: bytes
  cm_device_model :: bytes
  cm_firmware_version :: bytes
  cm_software_build_id :: bytes
  cm_sensor_profile_id :: bytes
  cm_configuration_id :: bytes
  cm_calibration_id :: bytes
  cm_device_serial :: bytes
  cm_comments :: bytes

record mncwf_v4_timebase_segment =
  ts_first_frame :: u64
  ts_frame_count :: u64
  ts_first_sequence :: u64
  ts_sequence_step :: u64
  ts_acquisition_rate_numerator :: u64
  ts_acquisition_rate_denominator :: u64
  ts_persisted_rate_numerator :: u64
  ts_persisted_rate_denominator :: u64
  ts_correlation_sequence :: u64
  ts_correlation_pl_tick :: u64
  ts_correlation_tai_nanoseconds :: u64
  ts_correlation_utc_nanoseconds :: u64
  ts_uncertainty_nanoseconds :: u64
  ts_decimation_divisor :: u32
  ts_decimation_method :: mncwf_decimation_method
  ts_clock_source :: mncwf_clock_source
  ts_time_quality :: mncwf_time_quality
  ts_flags :: u16
  ts_utc_offset_seconds :: u32
  ts_source_frame_count :: u64

record mncwf_v4_channel_definition =
  cd_stable_id :: mncwf_uuid
  cd_source_channel :: u32
  cd_flags :: u32
  cd_phase :: mncwf_phase
  cd_quantity :: mncwf_quantity
  cd_si_unit :: mncwf_si_unit
  cd_sample_encoding :: mncwf_sample_encoding
  cd_storage_bits :: u16
  cd_valid_bits :: u16
  cd_display_exponent10 :: u16
  cd_gain_numerator :: u64
  cd_gain_denominator :: u64
  cd_offset_numerator :: u64
  cd_offset_denominator :: u64
  cd_ratio_numerator :: u64
  cd_ratio_denominator :: u64
  cd_nominal_numerator :: u64
  cd_nominal_denominator :: u64
  cd_range_minimum_numerator :: u64
  cd_range_minimum_denominator :: u64
  cd_range_maximum_numerator :: u64
  cd_range_maximum_denominator :: u64
  cd_resolution_numerator :: u64
  cd_resolution_denominator :: u64
  cd_clipping_low :: u64
  cd_clipping_high :: u64
  cd_name :: bytes
  cd_unit_symbol :: bytes
  cd_description :: bytes

record mncwf_v4_event_descriptor =
  ed_event_uuid :: mncwf_uuid
  ed_taxonomy :: mncwf_event_taxonomy
  ed_event_type :: u16
  ed_lifecycle :: mncwf_event_lifecycle
  ed_time_quality :: mncwf_time_quality
  ed_flags :: u32
  ed_phase_mask :: u32
  ed_quantity :: mncwf_quantity
  ed_si_unit :: mncwf_si_unit
  ed_trigger_source :: u16
  ed_configuration_generation :: u32
  ed_severity :: u32
  ed_start_sequence :: u64
  ed_current_sequence :: u64
  ed_end_sequence :: u64
  ed_trigger_sequence :: u64
  ed_start_tai_nanoseconds :: u64
  ed_current_tai_nanoseconds :: u64
  ed_end_tai_nanoseconds :: u64
  ed_trigger_tai_nanoseconds :: u64
  ed_start_utc_nanoseconds :: u64
  ed_current_utc_nanoseconds :: u64
  ed_end_utc_nanoseconds :: u64
  ed_trigger_utc_nanoseconds :: u64
  ed_uncertainty_nanoseconds :: u64
  ed_reference_micro_units :: u64
  ed_threshold_micro_units :: u64
  ed_hysteresis_micro_units :: u64
  ed_extrema_micro_units :: "u64 \<times> u64 \<times> u64"
  ed_duration_samples :: u64
  ed_update_count :: u64
  ed_status :: u32
  ed_taxonomy_name :: bytes
  ed_label :: bytes
  ed_settings_snapshot_json :: bytes

record mncwf_v4_quality_interval =
  qi_first_frame :: u64
  qi_frame_count :: u64
  qi_first_sequence :: u64
  qi_last_sequence :: u64
  qi_channel_mask :: u64
  qi_flags :: u32
  qi_severity :: u16
  qi_source :: u16
  qi_detail_code :: u32

record mncwf_v4_lineage_entry =
  le_relation :: mncwf_lineage_relation
  le_flags :: u16
  le_related_capture_uuid :: mncwf_uuid
  le_related_event_uuid :: mncwf_uuid
  le_first_sequence :: u64
  le_last_sequence :: u64
  le_part_index :: u32
  le_part_count :: u32

record mncwf_v4_document =
  doc_capture_metadata :: mncwf_v4_capture_metadata
  doc_timebase_segments :: "mncwf_v4_timebase_segment list"
  doc_channels :: "mncwf_v4_channel_definition list"
  doc_events :: "mncwf_v4_event_descriptor list"
  doc_quality_intervals :: "mncwf_v4_quality_interval list"
  doc_lineage :: "mncwf_v4_lineage_entry list"
  doc_sample_frame_count :: u64
  doc_sample_frame_bytes :: u32
  doc_sample_data :: bytes

section \<open>How records are written\<close>

definition capture_writes :: "nat \<Rightarrow> mncwf_v4_capture_metadata \<Rightarrow> section_write list" where
  "capture_writes base c =
     map on_records
       [put_array (base + 0) (cm_capture_uuid c),
        put_array (base + 16) (cm_device_uuid c),
        put_array (base + 32) (cm_configuration_sha256 c),
        put_array (base + 64) (cm_sensor_profile_sha256 c),
        put_u64 (base + 96) (cm_created_tai_nanoseconds c),
        put_u64 (base + 104) (cm_created_utc_nanoseconds c),
        put_s64 (base + 112) (cm_nominal_voltage_numerator c),
        put_u64 (base + 120) (cm_nominal_voltage_denominator c),
        put_u64 (base + 128) (cm_nominal_frequency_numerator c),
        put_u64 (base + 136) (cm_nominal_frequency_denominator c),
        put_u32 (base + 144) (topology_code (cm_topology c)),
        put_u32 (base + 148) (calibration_code (cm_calibration_status c)),
        put_u32 (base + 152) (cm_flags c)] @
     [put_string (base + 160) (cm_station_name c),
      put_string (base + 168) (cm_site_name c),
      put_string (base + 176) (cm_circuit_name c),
      put_string (base + 184) (cm_product_name c),
      put_string (base + 192) (cm_device_model c),
      put_string (base + 200) (cm_firmware_version c),
      put_string (base + 208) (cm_software_build_id c),
      put_string (base + 216) (cm_sensor_profile_id c),
      put_string (base + 224) (cm_configuration_id c),
      put_string (base + 232) (cm_calibration_id c),
      put_string (base + 240) (cm_device_serial c),
      put_string (base + 248) (cm_comments c)]"

definition segment_writes :: "nat \<Rightarrow> mncwf_v4_timebase_segment \<Rightarrow> section_write list" where
  "segment_writes base s =
     map on_records
       [put_u64 (base + 0) (ts_first_frame s),
        put_u64 (base + 8) (ts_frame_count s),
        put_u64 (base + 16) (ts_first_sequence s),
        put_u64 (base + 24) (ts_sequence_step s),
        put_u64 (base + 32) (ts_acquisition_rate_numerator s),
        put_u64 (base + 40) (ts_acquisition_rate_denominator s),
        put_u64 (base + 48) (ts_persisted_rate_numerator s),
        put_u64 (base + 56) (ts_persisted_rate_denominator s),
        put_u64 (base + 64) (ts_correlation_sequence s),
        put_u64 (base + 72) (ts_correlation_pl_tick s),
        put_u64 (base + 80) (ts_correlation_tai_nanoseconds s),
        put_u64 (base + 88) (ts_correlation_utc_nanoseconds s),
        put_u64 (base + 96) (ts_uncertainty_nanoseconds s),
        put_u32 (base + 104) (ts_decimation_divisor s),
        put_u16 (base + 108) (decimation_code (ts_decimation_method s)),
        put_u16 (base + 110) (clock_code (ts_clock_source s)),
        put_u16 (base + 112) (time_quality_code (ts_time_quality s)),
        put_u16 (base + 114) (ts_flags s),
        put_s32 (base + 116) (ts_utc_offset_seconds s),
        put_u64 (base + 120) (ts_source_frame_count s)]"

definition channel_writes :: "nat \<Rightarrow> mncwf_v4_channel_definition \<Rightarrow> section_write list" where
  "channel_writes base c =
     map on_records
       [ensure_write base 208,
        copy_bytes base (cd_stable_id c),
        put_u32 (base + 16) (cd_source_channel c),
        put_u32 (base + 20) (cd_flags c),
        put_u16 (base + 24) (phase_code (cd_phase c)),
        put_u16 (base + 26) (quantity_code (cd_quantity c)),
        put_u16 (base + 28) (si_unit_code (cd_si_unit c)),
        put_u16 (base + 30) (encoding_code (cd_sample_encoding c)),
        put_u16 (base + 32) (cd_storage_bits c),
        put_u16 (base + 34) (cd_valid_bits c),
        put_s16 (base + 36) (cd_display_exponent10 c),
        put_s64 (base + 40) (cd_gain_numerator c),
        put_u64 (base + 48) (cd_gain_denominator c),
        put_s64 (base + 56) (cd_offset_numerator c),
        put_u64 (base + 64) (cd_offset_denominator c),
        put_u64 (base + 72) (cd_ratio_numerator c),
        put_u64 (base + 80) (cd_ratio_denominator c),
        put_s64 (base + 88) (cd_nominal_numerator c),
        put_u64 (base + 96) (cd_nominal_denominator c),
        put_s64 (base + 104) (cd_range_minimum_numerator c),
        put_u64 (base + 112) (cd_range_minimum_denominator c),
        put_s64 (base + 120) (cd_range_maximum_numerator c),
        put_u64 (base + 128) (cd_range_maximum_denominator c),
        put_u64 (base + 136) (cd_resolution_numerator c),
        put_u64 (base + 144) (cd_resolution_denominator c),
        put_s64 (base + 152) (cd_clipping_low c),
        put_s64 (base + 160) (cd_clipping_high c)] @
     [put_string (base + 168) (cd_name c),
      put_string (base + 176) (cd_unit_symbol c),
      put_string (base + 184) (cd_description c)]"

definition event_writes :: "nat \<Rightarrow> mncwf_v4_event_descriptor \<Rightarrow> section_write list" where
  "event_writes base e =
     map on_records
       [ensure_write base 256,
        copy_bytes base (ed_event_uuid e),
        put_u16 (base + 16) (taxonomy_code (ed_taxonomy e)),
        put_u16 (base + 18) (ed_event_type e),
        put_u16 (base + 20) (lifecycle_code (ed_lifecycle e)),
        put_u16 (base + 22) (time_quality_code (ed_time_quality e)),
        put_u32 (base + 24) (ed_flags e),
        put_u32 (base + 28) (ed_phase_mask e),
        put_u16 (base + 32) (quantity_code (ed_quantity e)),
        put_u16 (base + 34) (si_unit_code (ed_si_unit e)),
        put_u16 (base + 36) (ed_trigger_source e),
        put_u32 (base + 40) (ed_configuration_generation e),
        put_u32 (base + 44) (ed_severity e),
        put_u64 (base + 48) (ed_start_sequence e),
        put_u64 (base + 56) (ed_current_sequence e),
        put_u64 (base + 64) (ed_end_sequence e),
        put_u64 (base + 72) (ed_trigger_sequence e),
        put_u64 (base + 80) (ed_start_tai_nanoseconds e),
        put_u64 (base + 88) (ed_current_tai_nanoseconds e),
        put_u64 (base + 96) (ed_end_tai_nanoseconds e),
        put_u64 (base + 104) (ed_trigger_tai_nanoseconds e),
        put_u64 (base + 112) (ed_start_utc_nanoseconds e),
        put_u64 (base + 120) (ed_current_utc_nanoseconds e),
        put_u64 (base + 128) (ed_end_utc_nanoseconds e),
        put_u64 (base + 136) (ed_trigger_utc_nanoseconds e),
        put_u64 (base + 144) (ed_uncertainty_nanoseconds e),
        put_s64 (base + 152) (ed_reference_micro_units e),
        put_s64 (base + 160) (ed_threshold_micro_units e),
        put_s64 (base + 168) (ed_hysteresis_micro_units e),
        put_s64 (base + 176) (fst (ed_extrema_micro_units e)),
        put_s64 (base + 184) (fst (snd (ed_extrema_micro_units e))),
        put_s64 (base + 192) (snd (snd (ed_extrema_micro_units e))),
        put_u64 (base + 200) (ed_duration_samples e),
        put_u64 (base + 208) (ed_update_count e),
        put_u32 (base + 216) (ed_status e)] @
     [put_string (base + 224) (ed_taxonomy_name e),
      put_string (base + 232) (ed_label e),
      put_string (base + 240) (ed_settings_snapshot_json e)]"

definition quality_writes :: "nat \<Rightarrow> mncwf_v4_quality_interval \<Rightarrow> section_write list" where
  "quality_writes base q =
     map on_records
       [put_u64 (base + 0) (qi_first_frame q),
        put_u64 (base + 8) (qi_frame_count q),
        put_u64 (base + 16) (qi_first_sequence q),
        put_u64 (base + 24) (qi_last_sequence q),
        put_u64 (base + 32) (qi_channel_mask q),
        put_u32 (base + 40) (qi_flags q),
        put_u16 (base + 44) (qi_severity q),
        put_u16 (base + 46) (qi_source q),
        put_u32 (base + 48) (qi_detail_code q)]"

definition lineage_writes :: "nat \<Rightarrow> mncwf_v4_lineage_entry \<Rightarrow> section_write list" where
  "lineage_writes base l =
     map on_records
       [put_u16 (base + 0) (relation_code (le_relation l)),
        put_u16 (base + 2) (le_flags l),
        ensure_write (base + 8) (length (le_related_capture_uuid l)),
        copy_bytes (base + 8) (le_related_capture_uuid l),
        copy_bytes (base + 24) (le_related_event_uuid l),
        put_u64 (base + 40) (le_first_sequence l),
        put_u64 (base + 48) (le_last_sequence l),
        put_u32 (base + 56) (le_part_index l),
        put_u32 (base + 60) (le_part_count l)]"

section \<open>The sections\<close>

definition encode_capture :: "mncwf_v4_capture_metadata \<Rightarrow> encoded_section result" where
  "encode_capture c =
     bind_result (encode_items 256 capture_writes [c]) (\<lambda>(records, blob).
     enveloped_section Capture_metadata 1 256 records blob)"

definition encode_timebase :: "mncwf_v4_timebase_segment list \<Rightarrow> encoded_section result" where
  "encode_timebase segments =
     bind_result (encode_items 128 segment_writes segments) (\<lambda>(records, _).
     enveloped_section Timebase_segments (of_nat (length segments)) 128 records [])"

definition encode_channels :: "mncwf_v4_channel_definition list \<Rightarrow> encoded_section result" where
  "encode_channels definitions =
     bind_result (encode_items 208 channel_writes definitions) (\<lambda>(records, blob).
     enveloped_section Channel_definitions (of_nat (length definitions)) 208 records blob)"

definition encode_events :: "mncwf_v4_event_descriptor list \<Rightarrow> encoded_section result" where
  "encode_events events =
     bind_result (encode_items 256 event_writes events) (\<lambda>(records, blob).
     enveloped_section Event_descriptors (of_nat (length events)) 256 records blob)"

definition encode_quality :: "mncwf_v4_quality_interval list \<Rightarrow> encoded_section result" where
  "encode_quality intervals =
     bind_result (encode_items 64 quality_writes intervals) (\<lambda>(records, _).
     enveloped_section Quality_intervals (of_nat (length intervals)) 64 records [])"

definition encode_lineage :: "mncwf_v4_lineage_entry list \<Rightarrow> encoded_section result" where
  "encode_lineage entries =
     bind_result (encode_items 64 lineage_writes entries) (\<lambda>(records, _).
     enveloped_section Lineage (of_nat (length entries)) 64 records [])"

section \<open>Writes stay in their records\<close>

text \<open>The lengths that \<^verbatim>\<open>std::array\<close> guarantees.\<close>

definition capture_shaped :: "mncwf_v4_capture_metadata \<Rightarrow> bool" where
  "capture_shaped c \<longleftrightarrow> length (cm_capture_uuid c) = 16 \<and> length (cm_device_uuid c) = 16 \<and>
     length (cm_configuration_sha256 c) = 32 \<and> length (cm_sensor_profile_sha256 c) = 32"

definition channel_shaped :: "mncwf_v4_channel_definition \<Rightarrow> bool" where
  "channel_shaped c \<longleftrightarrow> length (cd_stable_id c) = 16"

definition event_shaped :: "mncwf_v4_event_descriptor \<Rightarrow> bool" where
  "event_shaped e \<longleftrightarrow> length (ed_event_uuid e) = 16"

definition lineage_shaped :: "mncwf_v4_lineage_entry \<Rightarrow> bool" where
  "lineage_shaped l \<longleftrightarrow> length (le_related_capture_uuid l) = 16 \<and> length (le_related_event_uuid l) = 16"

definition document_shaped :: "mncwf_v4_document \<Rightarrow> bool" where
  "document_shaped d \<longleftrightarrow> capture_shaped (doc_capture_metadata d) \<and>
     list_all channel_shaped (doc_channels d) \<and> list_all event_shaped (doc_events d) \<and>
     list_all lineage_shaped (doc_lineage d)"

lemmas shaped_defs = capture_shaped_def channel_shaped_def event_shaped_def lineage_shaped_def

text \<open>The strings of an item, in the order of their references.\<close>

definition capture_strings :: "mncwf_v4_capture_metadata \<Rightarrow> bytes list" where
  "capture_strings c =
     [cm_station_name c, cm_site_name c, cm_circuit_name c, cm_product_name c, cm_device_model c,
      cm_firmware_version c, cm_software_build_id c, cm_sensor_profile_id c, cm_configuration_id c,
      cm_calibration_id c, cm_device_serial c, cm_comments c]"

definition channel_strings :: "mncwf_v4_channel_definition \<Rightarrow> bytes list" where
  "channel_strings c = [cd_name c, cd_unit_symbol c, cd_description c]"

definition event_strings :: "mncwf_v4_event_descriptor \<Rightarrow> bytes list" where
  "event_strings e = [ed_taxonomy_name e, ed_label e, ed_settings_snapshot_json e]"

lemmas strings_defs = capture_strings_def channel_strings_def event_strings_def

interpretation capture_item: item_encoder_total 256 capture_writes capture_shaped capture_strings
  by unfold_locales (auto simp: capture_writes_def put_defs shaped_defs on_records_def copy_bytes_def ensure_write_def put_string_ok strings_defs simp del: add_2_eq_Suc')

interpretation segment_item: item_encoder_total 128 segment_writes "\<lambda>_. True" "\<lambda>_. []"
  by unfold_locales (auto simp: segment_writes_def put_defs shaped_defs on_records_def copy_bytes_def ensure_write_def put_string_ok strings_defs simp del: add_2_eq_Suc')

interpretation channel_item: item_encoder_total 208 channel_writes channel_shaped channel_strings
  by unfold_locales (auto simp: channel_writes_def put_defs shaped_defs on_records_def copy_bytes_def ensure_write_def put_string_ok strings_defs simp del: add_2_eq_Suc')

interpretation event_item: item_encoder_total 256 event_writes event_shaped event_strings
  by unfold_locales (auto simp: event_writes_def put_defs shaped_defs on_records_def copy_bytes_def ensure_write_def put_string_ok strings_defs simp del: add_2_eq_Suc')

interpretation quality_item: item_encoder_total 64 quality_writes "\<lambda>_. True" "\<lambda>_. []"
  by unfold_locales (auto simp: quality_writes_def put_defs shaped_defs on_records_def copy_bytes_def ensure_write_def put_string_ok strings_defs simp del: add_2_eq_Suc')

interpretation lineage_item: item_encoder_total 64 lineage_writes lineage_shaped "\<lambda>_. []"
  by unfold_locales (auto simp: lineage_writes_def put_defs shaped_defs on_records_def copy_bytes_def ensure_write_def put_string_ok strings_defs simp del: add_2_eq_Suc')


section \<open>How records are read\<close>

text \<open>
  The fields of a record as the reader takes them, before its checks: the enumerations still have
  the default of the structure, beside the raw values that are checked and cast later. The strings
  of channels and events are read at this point; the strings of the capture metadata only after its
  checks (\<open>read_capture_strings\<close>).
\<close>

definition read_capture_fields :: "bytes \<Rightarrow> (mncwf_v4_capture_metadata \<times> u32 \<times> u32) result" where
  "read_capture_fields record =
     bind_result (read_array 16 record 0) (\<lambda>v_cm_capture_uuid.
     bind_result (read_array 16 record 16) (\<lambda>v_cm_device_uuid.
     bind_result (read_array 32 record 32) (\<lambda>v_cm_configuration_sha256.
     bind_result (read_array 32 record 64) (\<lambda>v_cm_sensor_profile_sha256.
     bind_result (read_u64 record 96) (\<lambda>v_cm_created_tai_nanoseconds.
     bind_result (read_u64 record 104) (\<lambda>v_cm_created_utc_nanoseconds.
     bind_result (read_s64 record 112) (\<lambda>v_cm_nominal_voltage_numerator.
     bind_result (read_u64 record 120) (\<lambda>v_cm_nominal_voltage_denominator.
     bind_result (read_u64 record 128) (\<lambda>v_cm_nominal_frequency_numerator.
     bind_result (read_u64 record 136) (\<lambda>v_cm_nominal_frequency_denominator.
     bind_result (read_u32 record 144) (\<lambda>raw_topology.
     bind_result (read_u32 record 148) (\<lambda>raw_calibration_status.
     bind_result (read_u32 record 152) (\<lambda>v_cm_flags.
     Inr (\<lparr>cm_capture_uuid = v_cm_capture_uuid,
         cm_device_uuid = v_cm_device_uuid,
         cm_configuration_sha256 = v_cm_configuration_sha256,
         cm_sensor_profile_sha256 = v_cm_sensor_profile_sha256,
         cm_created_tai_nanoseconds = v_cm_created_tai_nanoseconds,
         cm_created_utc_nanoseconds = v_cm_created_utc_nanoseconds,
         cm_nominal_voltage_numerator = v_cm_nominal_voltage_numerator,
         cm_nominal_voltage_denominator = v_cm_nominal_voltage_denominator,
         cm_nominal_frequency_numerator = v_cm_nominal_frequency_numerator,
         cm_nominal_frequency_denominator = v_cm_nominal_frequency_denominator,
         cm_topology = Topology_unknown,
         cm_calibration_status = Calibration_unknown,
         cm_flags = v_cm_flags,
         cm_station_name = [],
         cm_site_name = [],
         cm_circuit_name = [],
         cm_product_name = [],
         cm_device_model = [],
         cm_firmware_version = [],
         cm_software_build_id = [],
         cm_sensor_profile_id = [],
         cm_configuration_id = [],
         cm_calibration_id = [],
         cm_device_serial = [],
         cm_comments = []\<rparr>, raw_topology, raw_calibration_status))))))))))))))"

definition read_segment_fields :: "bytes \<Rightarrow> (mncwf_v4_timebase_segment \<times> u16 \<times> u16 \<times> u16) result" where
  "read_segment_fields record =
     bind_result (read_u64 record 0) (\<lambda>v_ts_first_frame.
     bind_result (read_u64 record 8) (\<lambda>v_ts_frame_count.
     bind_result (read_u64 record 16) (\<lambda>v_ts_first_sequence.
     bind_result (read_u64 record 24) (\<lambda>v_ts_sequence_step.
     bind_result (read_u64 record 32) (\<lambda>v_ts_acquisition_rate_numerator.
     bind_result (read_u64 record 40) (\<lambda>v_ts_acquisition_rate_denominator.
     bind_result (read_u64 record 48) (\<lambda>v_ts_persisted_rate_numerator.
     bind_result (read_u64 record 56) (\<lambda>v_ts_persisted_rate_denominator.
     bind_result (read_u64 record 64) (\<lambda>v_ts_correlation_sequence.
     bind_result (read_u64 record 72) (\<lambda>v_ts_correlation_pl_tick.
     bind_result (read_u64 record 80) (\<lambda>v_ts_correlation_tai_nanoseconds.
     bind_result (read_u64 record 88) (\<lambda>v_ts_correlation_utc_nanoseconds.
     bind_result (read_u64 record 96) (\<lambda>v_ts_uncertainty_nanoseconds.
     bind_result (read_u32 record 104) (\<lambda>v_ts_decimation_divisor.
     bind_result (read_u16 record 108) (\<lambda>raw_decimation_method.
     bind_result (read_u16 record 110) (\<lambda>raw_clock_source.
     bind_result (read_u16 record 112) (\<lambda>raw_time_quality.
     bind_result (read_u16 record 114) (\<lambda>v_ts_flags.
     bind_result (read_s32 record 116) (\<lambda>v_ts_utc_offset_seconds.
     bind_result (read_u64 record 120) (\<lambda>v_ts_source_frame_count.
     Inr (\<lparr>ts_first_frame = v_ts_first_frame,
         ts_frame_count = v_ts_frame_count,
         ts_first_sequence = v_ts_first_sequence,
         ts_sequence_step = v_ts_sequence_step,
         ts_acquisition_rate_numerator = v_ts_acquisition_rate_numerator,
         ts_acquisition_rate_denominator = v_ts_acquisition_rate_denominator,
         ts_persisted_rate_numerator = v_ts_persisted_rate_numerator,
         ts_persisted_rate_denominator = v_ts_persisted_rate_denominator,
         ts_correlation_sequence = v_ts_correlation_sequence,
         ts_correlation_pl_tick = v_ts_correlation_pl_tick,
         ts_correlation_tai_nanoseconds = v_ts_correlation_tai_nanoseconds,
         ts_correlation_utc_nanoseconds = v_ts_correlation_utc_nanoseconds,
         ts_uncertainty_nanoseconds = v_ts_uncertainty_nanoseconds,
         ts_decimation_divisor = v_ts_decimation_divisor,
         ts_decimation_method = Decimation_none,
         ts_clock_source = Clock_unknown,
         ts_time_quality = Time_unknown,
         ts_flags = v_ts_flags,
         ts_utc_offset_seconds = v_ts_utc_offset_seconds,
         ts_source_frame_count = v_ts_source_frame_count\<rparr>, raw_decimation_method, raw_clock_source, raw_time_quality)))))))))))))))))))))"

definition read_channel_fields :: "bytes \<Rightarrow> bytes \<Rightarrow> (mncwf_v4_channel_definition \<times> u16 \<times> u16 \<times> u16 \<times> u16) result" where
  "read_channel_fields record blob =
     bind_result (read_array 16 record 0) (\<lambda>v_cd_stable_id.
     bind_result (read_u32 record 16) (\<lambda>v_cd_source_channel.
     bind_result (read_u32 record 20) (\<lambda>v_cd_flags.
     bind_result (read_u16 record 24) (\<lambda>raw_phase.
     bind_result (read_u16 record 26) (\<lambda>raw_quantity.
     bind_result (read_u16 record 28) (\<lambda>raw_si_unit.
     bind_result (read_u16 record 30) (\<lambda>raw_sample_encoding.
     bind_result (read_u16 record 32) (\<lambda>v_cd_storage_bits.
     bind_result (read_u16 record 34) (\<lambda>v_cd_valid_bits.
     bind_result (read_s16 record 36) (\<lambda>v_cd_display_exponent10.
     bind_result (read_s64 record 40) (\<lambda>v_cd_gain_numerator.
     bind_result (read_u64 record 48) (\<lambda>v_cd_gain_denominator.
     bind_result (read_s64 record 56) (\<lambda>v_cd_offset_numerator.
     bind_result (read_u64 record 64) (\<lambda>v_cd_offset_denominator.
     bind_result (read_u64 record 72) (\<lambda>v_cd_ratio_numerator.
     bind_result (read_u64 record 80) (\<lambda>v_cd_ratio_denominator.
     bind_result (read_s64 record 88) (\<lambda>v_cd_nominal_numerator.
     bind_result (read_u64 record 96) (\<lambda>v_cd_nominal_denominator.
     bind_result (read_s64 record 104) (\<lambda>v_cd_range_minimum_numerator.
     bind_result (read_u64 record 112) (\<lambda>v_cd_range_minimum_denominator.
     bind_result (read_s64 record 120) (\<lambda>v_cd_range_maximum_numerator.
     bind_result (read_u64 record 128) (\<lambda>v_cd_range_maximum_denominator.
     bind_result (read_u64 record 136) (\<lambda>v_cd_resolution_numerator.
     bind_result (read_u64 record 144) (\<lambda>v_cd_resolution_denominator.
     bind_result (read_s64 record 152) (\<lambda>v_cd_clipping_low.
     bind_result (read_s64 record 160) (\<lambda>v_cd_clipping_high.
     bind_result (read_string record 168 blob ''channel name'') (\<lambda>v_cd_name.
     bind_result (read_string record 176 blob ''channel unit'') (\<lambda>v_cd_unit_symbol.
     bind_result (read_string record 184 blob ''channel description'') (\<lambda>v_cd_description.
     Inr (\<lparr>cd_stable_id = v_cd_stable_id,
         cd_source_channel = v_cd_source_channel,
         cd_flags = v_cd_flags,
         cd_phase = Phase_none,
         cd_quantity = Quantity_unknown,
         cd_si_unit = Dimensionless,
         cd_sample_encoding = Signed_integer_little_endian,
         cd_storage_bits = v_cd_storage_bits,
         cd_valid_bits = v_cd_valid_bits,
         cd_display_exponent10 = v_cd_display_exponent10,
         cd_gain_numerator = v_cd_gain_numerator,
         cd_gain_denominator = v_cd_gain_denominator,
         cd_offset_numerator = v_cd_offset_numerator,
         cd_offset_denominator = v_cd_offset_denominator,
         cd_ratio_numerator = v_cd_ratio_numerator,
         cd_ratio_denominator = v_cd_ratio_denominator,
         cd_nominal_numerator = v_cd_nominal_numerator,
         cd_nominal_denominator = v_cd_nominal_denominator,
         cd_range_minimum_numerator = v_cd_range_minimum_numerator,
         cd_range_minimum_denominator = v_cd_range_minimum_denominator,
         cd_range_maximum_numerator = v_cd_range_maximum_numerator,
         cd_range_maximum_denominator = v_cd_range_maximum_denominator,
         cd_resolution_numerator = v_cd_resolution_numerator,
         cd_resolution_denominator = v_cd_resolution_denominator,
         cd_clipping_low = v_cd_clipping_low,
         cd_clipping_high = v_cd_clipping_high,
         cd_name = v_cd_name,
         cd_unit_symbol = v_cd_unit_symbol,
         cd_description = v_cd_description\<rparr>, raw_phase, raw_quantity, raw_si_unit, raw_sample_encoding))))))))))))))))))))))))))))))"

definition read_event_fields :: "bytes \<Rightarrow> bytes \<Rightarrow> (mncwf_v4_event_descriptor \<times> u16 \<times> u16 \<times> u16 \<times> u16 \<times> u16) result" where
  "read_event_fields record blob =
     bind_result (read_array 16 record 0) (\<lambda>v_ed_event_uuid.
     bind_result (read_u16 record 16) (\<lambda>raw_taxonomy.
     bind_result (read_u16 record 18) (\<lambda>v_ed_event_type.
     bind_result (read_u16 record 20) (\<lambda>raw_lifecycle.
     bind_result (read_u16 record 22) (\<lambda>raw_time_quality.
     bind_result (read_u32 record 24) (\<lambda>v_ed_flags.
     bind_result (read_u32 record 28) (\<lambda>v_ed_phase_mask.
     bind_result (read_u16 record 32) (\<lambda>raw_quantity.
     bind_result (read_u16 record 34) (\<lambda>raw_si_unit.
     bind_result (read_u16 record 36) (\<lambda>v_ed_trigger_source.
     bind_result (read_u32 record 40) (\<lambda>v_ed_configuration_generation.
     bind_result (read_u32 record 44) (\<lambda>v_ed_severity.
     bind_result (read_u64 record 48) (\<lambda>v_ed_start_sequence.
     bind_result (read_u64 record 56) (\<lambda>v_ed_current_sequence.
     bind_result (read_u64 record 64) (\<lambda>v_ed_end_sequence.
     bind_result (read_u64 record 72) (\<lambda>v_ed_trigger_sequence.
     bind_result (read_u64 record 80) (\<lambda>v_ed_start_tai_nanoseconds.
     bind_result (read_u64 record 88) (\<lambda>v_ed_current_tai_nanoseconds.
     bind_result (read_u64 record 96) (\<lambda>v_ed_end_tai_nanoseconds.
     bind_result (read_u64 record 104) (\<lambda>v_ed_trigger_tai_nanoseconds.
     bind_result (read_u64 record 112) (\<lambda>v_ed_start_utc_nanoseconds.
     bind_result (read_u64 record 120) (\<lambda>v_ed_current_utc_nanoseconds.
     bind_result (read_u64 record 128) (\<lambda>v_ed_end_utc_nanoseconds.
     bind_result (read_u64 record 136) (\<lambda>v_ed_trigger_utc_nanoseconds.
     bind_result (read_u64 record 144) (\<lambda>v_ed_uncertainty_nanoseconds.
     bind_result (read_s64 record 152) (\<lambda>v_ed_reference_micro_units.
     bind_result (read_s64 record 160) (\<lambda>v_ed_threshold_micro_units.
     bind_result (read_s64 record 168) (\<lambda>v_ed_hysteresis_micro_units.
     bind_result (read_s64 record 176) (\<lambda>v_x0.
     bind_result (read_s64 record 184) (\<lambda>v_x1.
     bind_result (read_s64 record 192) (\<lambda>v_x2.
     bind_result (read_u64 record 200) (\<lambda>v_ed_duration_samples.
     bind_result (read_u64 record 208) (\<lambda>v_ed_update_count.
     bind_result (read_u32 record 216) (\<lambda>v_ed_status.
     bind_result (read_string record 224 blob ''event taxonomy name'') (\<lambda>v_ed_taxonomy_name.
     bind_result (read_string record 232 blob ''event label'') (\<lambda>v_ed_label.
     bind_result (read_string record 240 blob ''event settings snapshot'') (\<lambda>v_ed_settings_snapshot_json.
     Inr (\<lparr>ed_event_uuid = v_ed_event_uuid,
         ed_taxonomy = Taxonomy_unknown,
         ed_event_type = v_ed_event_type,
         ed_lifecycle = Event_start,
         ed_time_quality = Time_unknown,
         ed_flags = v_ed_flags,
         ed_phase_mask = v_ed_phase_mask,
         ed_quantity = Quantity_unknown,
         ed_si_unit = Dimensionless,
         ed_trigger_source = v_ed_trigger_source,
         ed_configuration_generation = v_ed_configuration_generation,
         ed_severity = v_ed_severity,
         ed_start_sequence = v_ed_start_sequence,
         ed_current_sequence = v_ed_current_sequence,
         ed_end_sequence = v_ed_end_sequence,
         ed_trigger_sequence = v_ed_trigger_sequence,
         ed_start_tai_nanoseconds = v_ed_start_tai_nanoseconds,
         ed_current_tai_nanoseconds = v_ed_current_tai_nanoseconds,
         ed_end_tai_nanoseconds = v_ed_end_tai_nanoseconds,
         ed_trigger_tai_nanoseconds = v_ed_trigger_tai_nanoseconds,
         ed_start_utc_nanoseconds = v_ed_start_utc_nanoseconds,
         ed_current_utc_nanoseconds = v_ed_current_utc_nanoseconds,
         ed_end_utc_nanoseconds = v_ed_end_utc_nanoseconds,
         ed_trigger_utc_nanoseconds = v_ed_trigger_utc_nanoseconds,
         ed_uncertainty_nanoseconds = v_ed_uncertainty_nanoseconds,
         ed_reference_micro_units = v_ed_reference_micro_units,
         ed_threshold_micro_units = v_ed_threshold_micro_units,
         ed_hysteresis_micro_units = v_ed_hysteresis_micro_units,
         ed_extrema_micro_units = (v_x0, v_x1, v_x2),
         ed_duration_samples = v_ed_duration_samples,
         ed_update_count = v_ed_update_count,
         ed_status = v_ed_status,
         ed_taxonomy_name = v_ed_taxonomy_name,
         ed_label = v_ed_label,
         ed_settings_snapshot_json = v_ed_settings_snapshot_json\<rparr>, raw_taxonomy, raw_lifecycle, raw_time_quality, raw_quantity, raw_si_unit))))))))))))))))))))))))))))))))))))))"

definition read_quality_fields :: "bytes \<Rightarrow> mncwf_v4_quality_interval result" where
  "read_quality_fields record =
     bind_result (read_u64 record 0) (\<lambda>v_qi_first_frame.
     bind_result (read_u64 record 8) (\<lambda>v_qi_frame_count.
     bind_result (read_u64 record 16) (\<lambda>v_qi_first_sequence.
     bind_result (read_u64 record 24) (\<lambda>v_qi_last_sequence.
     bind_result (read_u64 record 32) (\<lambda>v_qi_channel_mask.
     bind_result (read_u32 record 40) (\<lambda>v_qi_flags.
     bind_result (read_u16 record 44) (\<lambda>v_qi_severity.
     bind_result (read_u16 record 46) (\<lambda>v_qi_source.
     bind_result (read_u32 record 48) (\<lambda>v_qi_detail_code.
     Inr \<lparr>qi_first_frame = v_qi_first_frame,
         qi_frame_count = v_qi_frame_count,
         qi_first_sequence = v_qi_first_sequence,
         qi_last_sequence = v_qi_last_sequence,
         qi_channel_mask = v_qi_channel_mask,
         qi_flags = v_qi_flags,
         qi_severity = v_qi_severity,
         qi_source = v_qi_source,
         qi_detail_code = v_qi_detail_code\<rparr>)))))))))"

definition read_lineage_fields :: "bytes \<Rightarrow> (mncwf_v4_lineage_entry \<times> u16) result" where
  "read_lineage_fields record =
     bind_result (read_u16 record 0) (\<lambda>raw_relation.
     bind_result (read_u16 record 2) (\<lambda>v_le_flags.
     bind_result (read_array 16 record 8) (\<lambda>v_le_related_capture_uuid.
     bind_result (read_array 16 record 24) (\<lambda>v_le_related_event_uuid.
     bind_result (read_u64 record 40) (\<lambda>v_le_first_sequence.
     bind_result (read_u64 record 48) (\<lambda>v_le_last_sequence.
     bind_result (read_u32 record 56) (\<lambda>v_le_part_index.
     bind_result (read_u32 record 60) (\<lambda>v_le_part_count.
     Inr (\<lparr>le_relation = Relation_parent,
         le_flags = v_le_flags,
         le_related_capture_uuid = v_le_related_capture_uuid,
         le_related_event_uuid = v_le_related_event_uuid,
         le_first_sequence = v_le_first_sequence,
         le_last_sequence = v_le_last_sequence,
         le_part_index = v_le_part_index,
         le_part_count = v_le_part_count\<rparr>, raw_relation)))))))))"

definition read_capture_strings ::
    "mncwf_v4_capture_metadata \<Rightarrow> bytes \<Rightarrow> bytes \<Rightarrow> mncwf_v4_capture_metadata result" where
  "read_capture_strings c record blob =
     bind_result (read_string record 160 blob ''capture metadata string'') (\<lambda>v_cm_station_name.
     bind_result (read_string record 168 blob ''capture metadata string'') (\<lambda>v_cm_site_name.
     bind_result (read_string record 176 blob ''capture metadata string'') (\<lambda>v_cm_circuit_name.
     bind_result (read_string record 184 blob ''capture metadata string'') (\<lambda>v_cm_product_name.
     bind_result (read_string record 192 blob ''capture metadata string'') (\<lambda>v_cm_device_model.
     bind_result (read_string record 200 blob ''capture metadata string'') (\<lambda>v_cm_firmware_version.
     bind_result (read_string record 208 blob ''capture metadata string'') (\<lambda>v_cm_software_build_id.
     bind_result (read_string record 216 blob ''capture metadata string'') (\<lambda>v_cm_sensor_profile_id.
     bind_result (read_string record 224 blob ''capture metadata string'') (\<lambda>v_cm_configuration_id.
     bind_result (read_string record 232 blob ''capture metadata string'') (\<lambda>v_cm_calibration_id.
     bind_result (read_string record 240 blob ''capture metadata string'') (\<lambda>v_cm_device_serial.
     bind_result (read_string record 248 blob ''capture metadata string'') (\<lambda>v_cm_comments.
     Inr (c\<lparr>cm_station_name := v_cm_station_name,
         cm_site_name := v_cm_site_name,
         cm_circuit_name := v_cm_circuit_name,
         cm_product_name := v_cm_product_name,
         cm_device_model := v_cm_device_model,
         cm_firmware_version := v_cm_firmware_version,
         cm_software_build_id := v_cm_software_build_id,
         cm_sensor_profile_id := v_cm_sensor_profile_id,
         cm_configuration_id := v_cm_configuration_id,
         cm_calibration_id := v_cm_calibration_id,
         cm_device_serial := v_cm_device_serial,
         cm_comments := v_cm_comments\<rparr>)))))))))))))"

text \<open>The fields that must be zero.\<close>

definition capture_reserved :: "bytes \<Rightarrow> bool result" where
  "capture_reserved record = differs (read_u32 record 156) 0"

definition channel_reserved :: "bytes \<Rightarrow> bool result" where
  "channel_reserved record =
     bind_result (differs (read_u16 record 38) 0) (\<lambda>d. Inr (d \<or> \<not> all_zero (subspan 192 16 record)))"

definition event_reserved :: "bytes \<Rightarrow> bool result" where
  "event_reserved record = any_of [differs (read_u16 record 38) 0, differs (read_u32 record 220) 0,
     differs (read_u64 record 248) 0]"

definition quality_reserved :: "bytes \<Rightarrow> bool result" where
  "quality_reserved record = any_of [differs (read_u32 record 52) 0, differs (read_u64 record 56) 0]"

definition lineage_reserved :: "bytes \<Rightarrow> bool result" where
  "lineage_reserved record = differs (read_u32 record 4) 0"


section \<open>Records read back\<close>

lemma zero_bytes [field_simps]: "all_zero (zeros n)"
  by (simp add: all_zero_def zeros_def list_all_iff)

lemma segment_read_back:
  assumes "writes (segment_writes 0 s) (zeros 128, b0) = Inr (r, b1)"
  shows "read_segment_fields r =
    Inr (s\<lparr>ts_decimation_method := Decimation_none, ts_clock_source := Clock_unknown, ts_time_quality := Time_unknown\<rparr>,
      decimation_code (ts_decimation_method s), clock_code (ts_clock_source s), time_quality_code (ts_time_quality s))"
  using assms
  by (auto simp: segment_writes_def put_defs on_records_def read_segment_fields_def read_defs field_simps)

lemma quality_read_back:
  assumes "writes (quality_writes 0 q) (zeros 64, b0) = Inr (r, b1)"
  shows "read_quality_fields r = Inr q" "quality_reserved r = Inr False"
proof -
  show "read_quality_fields r = Inr q"
    using assms
    by (auto simp: quality_writes_def put_defs on_records_def read_quality_fields_def read_defs field_simps)
  have "read_u32 r 52 = Inr 0" "read_u64 r 56 = Inr 0"
    using assms by (auto simp: quality_writes_def put_defs on_records_def read_defs field_simps read_field_zeros)
  then show "quality_reserved r = Inr False" by (simp add: quality_reserved_def differs_def)
qed

lemma lineage_read_back:
  assumes "writes (lineage_writes 0 l) (zeros 64, b0) = Inr (r, b1)" "lineage_shaped l"
  shows "read_lineage_fields r = Inr (l\<lparr>le_relation := Relation_parent\<rparr>, relation_code (le_relation l))"
    "lineage_reserved r = Inr False"
proof -
  show "read_lineage_fields r = Inr (l\<lparr>le_relation := Relation_parent\<rparr>, relation_code (le_relation l))"
    using assms
    by (auto simp: lineage_writes_def put_defs on_records_def copy_bytes_def ensure_write_def shaped_defs
      read_lineage_fields_def read_defs field_simps simp del: add_2_eq_Suc')
  have "read_u32 r 4 = Inr 0"
    using assms by (auto simp: lineage_writes_def put_defs on_records_def copy_bytes_def ensure_write_def shaped_defs
      read_defs field_simps read_field_zeros simp del: add_2_eq_Suc')
  then show "lineage_reserved r = Inr False" by (simp add: lineage_reserved_def differs_def)
qed

text \<open>
  A record with strings: what the writes of its references leave for the reader. The hypothesis on
  the blob holds at the end of the section, when the strings of later records follow.
\<close>

definition text_ok :: "bytes \<Rightarrow> bool" where
  "text_ok v \<longleftrightarrow> length v \<le> mncwf_v4_max_string_bytes \<and> (v = [] \<or> valid_utf8 v)"

definition string_at :: "bytes \<Rightarrow> bytes \<Rightarrow> nat \<Rightarrow> bytes \<Rightarrow> bool" where
  "string_at r blob k v \<longleftrightarrow> (text_ok v \<longrightarrow> (\<forall>label. read_string r k blob label = Inr v))"

lemma string_atI:
  assumes "append_string b v = Inr ((offset, n), b1)" "prefix b1 blob" "length blob < 2 ^ 32"
    "read_u32 r k = Inr offset" "read_u32 r (k + 4) = Inr n"
  shows "string_at r blob k v"
  unfolding string_at_def text_ok_def using read_string_append [OF assms(1,2,4,5,3)] by auto

lemma channel_read_back:
  assumes run: "writes (channel_writes 0 v) (zeros 208, b0) = Inr (r, b1)" and shape: "channel_shaped v"
    and blob: "prefix b1 blob" "length blob < 2 ^ 32" and texts: "list_all text_ok (channel_strings v)"
  shows "read_channel_fields r blob = Inr (v\<lparr>cd_phase := Phase_none, cd_quantity := Quantity_unknown, cd_si_unit := Dimensionless,
      cd_sample_encoding := Signed_integer_little_endian\<rparr>,
      phase_code (cd_phase v), quantity_code (cd_quantity v), si_unit_code (cd_si_unit v), encoding_code (cd_sample_encoding v))" "channel_reserved r = Inr False"
proof -
  from run obtain o1 n1 B1 o2 n2 B2 o3 n3 where
    appends: "append_string b0 (cd_name v) = Inr ((o1, n1), B1)"
      "append_string B1 (cd_unit_symbol v) = Inr ((o2, n2), B2)"
      "append_string B2 (cd_description v) = Inr ((o3, n3), b1)" and
    fields: "read_u32 r 168 = Inr o1" "read_u32 r (168 + 4) = Inr n1"
      "read_u32 r 176 = Inr o2" "read_u32 r (176 + 4) = Inr n2"
      "read_u32 r 184 = Inr o3" "read_u32 r (184 + 4) = Inr n3"
    by (auto simp: channel_writes_def put_defs on_records_def copy_bytes_def ensure_write_def shaped_defs
      put_string_Inr read_defs field_simps)
  have "prefix B1 b1" "prefix B2 b1"
    using appends(2,3) [THEN append_string_prefix] by (auto intro: prefix_order.trans)
  then have "string_at r blob 168 (cd_name v)" "string_at r blob 176 (cd_unit_symbol v)"
      "string_at r blob 184 (cd_description v)"
    using appends fields blob by (auto intro: string_atI prefix_order.trans)
  with texts have strings: "read_string r 168 blob label = Inr (cd_name v)"
      "read_string r 176 blob label = Inr (cd_unit_symbol v)" "read_string r 184 blob label = Inr (cd_description v)" for label
    by (simp_all add: string_at_def strings_defs)
  have "read_channel_fields r blob =
    bind_result (read_string r 168 blob ''channel name'') (\<lambda>x.
    bind_result (read_string r 176 blob ''channel unit'') (\<lambda>y.
    bind_result (read_string r 184 blob ''channel description'') (\<lambda>z.
    Inr (v\<lparr>cd_phase := Phase_none, cd_quantity := Quantity_unknown, cd_si_unit := Dimensionless,
      cd_sample_encoding := Signed_integer_little_endian,
      cd_name := x, cd_unit_symbol := y, cd_description := z\<rparr>,
      phase_code (cd_phase v), quantity_code (cd_quantity v), si_unit_code (cd_si_unit v), encoding_code (cd_sample_encoding v)))))"
    using run shape
    by (cases v) (auto simp: channel_writes_def put_defs on_records_def copy_bytes_def ensure_write_def shaped_defs
      put_string_Inr read_channel_fields_def read_defs field_simps)
  then show "read_channel_fields r blob = Inr (v\<lparr>cd_phase := Phase_none, cd_quantity := Quantity_unknown, cd_si_unit := Dimensionless,
      cd_sample_encoding := Signed_integer_little_endian\<rparr>,
      phase_code (cd_phase v), quantity_code (cd_quantity v), si_unit_code (cd_si_unit v), encoding_code (cd_sample_encoding v))"
    by (simp add: strings)
  have "read_u16 r 38 = Inr 0" "subspan 192 16 r = zeros 16"
    using run shape
    by (auto simp: channel_writes_def put_defs on_records_def copy_bytes_def ensure_write_def shaped_defs
      put_string_Inr read_defs field_simps subspan_patch_other subspan_zeros read_field_zeros)
  then show "channel_reserved r = Inr False" by (simp add: channel_reserved_def differs_def zero_bytes)
qed

lemma event_read_back:
  assumes run: "writes (event_writes 0 v) (zeros 256, b0) = Inr (r, b1)" and shape: "event_shaped v"
    and blob: "prefix b1 blob" "length blob < 2 ^ 32" and texts: "list_all text_ok (event_strings v)"
  shows "read_event_fields r blob = Inr (v\<lparr>ed_taxonomy := Taxonomy_unknown, ed_lifecycle := Event_start, ed_time_quality := Time_unknown,
      ed_quantity := Quantity_unknown, ed_si_unit := Dimensionless\<rparr>,
      taxonomy_code (ed_taxonomy v), lifecycle_code (ed_lifecycle v), time_quality_code (ed_time_quality v),
      quantity_code (ed_quantity v), si_unit_code (ed_si_unit v))" "event_reserved r = Inr False"
proof -
  from run obtain o1 n1 B1 o2 n2 B2 o3 n3 where
    appends: "append_string b0 (ed_taxonomy_name v) = Inr ((o1, n1), B1)"
      "append_string B1 (ed_label v) = Inr ((o2, n2), B2)"
      "append_string B2 (ed_settings_snapshot_json v) = Inr ((o3, n3), b1)" and
    fields: "read_u32 r 224 = Inr o1" "read_u32 r (224 + 4) = Inr n1"
      "read_u32 r 232 = Inr o2" "read_u32 r (232 + 4) = Inr n2"
      "read_u32 r 240 = Inr o3" "read_u32 r (240 + 4) = Inr n3"
    by (auto simp: event_writes_def put_defs on_records_def copy_bytes_def ensure_write_def shaped_defs
      put_string_Inr read_defs field_simps)
  have "prefix B1 b1" "prefix B2 b1"
    using appends(2,3) [THEN append_string_prefix] by (auto intro: prefix_order.trans)
  then have "string_at r blob 224 (ed_taxonomy_name v)" "string_at r blob 232 (ed_label v)"
      "string_at r blob 240 (ed_settings_snapshot_json v)"
    using appends fields blob by (auto intro: string_atI prefix_order.trans)
  with texts have strings: "read_string r 224 blob label = Inr (ed_taxonomy_name v)"
      "read_string r 232 blob label = Inr (ed_label v)" "read_string r 240 blob label = Inr (ed_settings_snapshot_json v)" for label
    by (simp_all add: string_at_def strings_defs)
  have "read_event_fields r blob =
    bind_result (read_string r 224 blob ''event taxonomy name'') (\<lambda>x.
    bind_result (read_string r 232 blob ''event label'') (\<lambda>y.
    bind_result (read_string r 240 blob ''event settings snapshot'') (\<lambda>z.
    Inr (v\<lparr>ed_taxonomy := Taxonomy_unknown, ed_lifecycle := Event_start, ed_time_quality := Time_unknown,
      ed_quantity := Quantity_unknown, ed_si_unit := Dimensionless,
      ed_taxonomy_name := x, ed_label := y, ed_settings_snapshot_json := z\<rparr>,
      taxonomy_code (ed_taxonomy v), lifecycle_code (ed_lifecycle v), time_quality_code (ed_time_quality v),
      quantity_code (ed_quantity v), si_unit_code (ed_si_unit v)))))"
    using run shape
    by (cases v) (auto simp: event_writes_def put_defs on_records_def copy_bytes_def ensure_write_def shaped_defs
      put_string_Inr read_event_fields_def read_defs field_simps)
  then show "read_event_fields r blob = Inr (v\<lparr>ed_taxonomy := Taxonomy_unknown, ed_lifecycle := Event_start, ed_time_quality := Time_unknown,
      ed_quantity := Quantity_unknown, ed_si_unit := Dimensionless\<rparr>,
      taxonomy_code (ed_taxonomy v), lifecycle_code (ed_lifecycle v), time_quality_code (ed_time_quality v),
      quantity_code (ed_quantity v), si_unit_code (ed_si_unit v))"
    by (simp add: strings)
  have "read_u16 r 38 = Inr 0" "read_u32 r 220 = Inr 0" "read_u64 r 248 = Inr 0"
    using run shape
    by (auto simp: event_writes_def put_defs on_records_def copy_bytes_def ensure_write_def shaped_defs
      put_string_Inr read_defs field_simps read_field_zeros)
  then show "event_reserved r = Inr False" by (simp add: event_reserved_def differs_def)
qed

lemma capture_read_back:
  assumes run: "writes (capture_writes 0 c) (zeros 256, b0) = Inr (r, b1)" and shape: "capture_shaped c"
  shows "read_capture_fields r = Inr (c\<lparr>cm_topology := Topology_unknown, cm_calibration_status := Calibration_unknown,
      cm_station_name := [], cm_site_name := [], cm_circuit_name := [], cm_product_name := [], cm_device_model := [], cm_firmware_version := [], cm_software_build_id := [], cm_sensor_profile_id := [], cm_configuration_id := [], cm_calibration_id := [], cm_device_serial := [], cm_comments := []\<rparr>,
      topology_code (cm_topology c), calibration_code (cm_calibration_status c))"
  using assms
  by (auto simp: capture_writes_def put_defs on_records_def shaped_defs
      put_string_Inr read_capture_fields_def read_defs field_simps)

lemma capture_reserved_read_back:
  assumes run: "writes (capture_writes 0 c) (zeros 256, b0) = Inr (r, b1)" and shape: "capture_shaped c"
  shows "capture_reserved r = Inr False"
proof -
  have "read_u32 r 156 = Inr 0"
    using assms by (auto simp: capture_writes_def put_defs on_records_def shaped_defs put_string_Inr
      read_defs field_simps read_field_zeros)
  then show ?thesis by (simp add: capture_reserved_def differs_def)
qed

lemma capture_strings_read_back:
  assumes run: "writes (capture_writes 0 c) (zeros 256, b0) = Inr (r, b1)" and shape: "capture_shaped c"
    and blob: "prefix b1 blob" "length blob < 2 ^ 32"
    and texts: "list_all text_ok (capture_strings c)"
  shows "read_capture_strings c0 r blob = Inr (c0\<lparr>cm_station_name := cm_station_name c, cm_site_name := cm_site_name c, cm_circuit_name := cm_circuit_name c, cm_product_name := cm_product_name c, cm_device_model := cm_device_model c, cm_firmware_version := cm_firmware_version c, cm_software_build_id := cm_software_build_id c, cm_sensor_profile_id := cm_sensor_profile_id c, cm_configuration_id := cm_configuration_id c, cm_calibration_id := cm_calibration_id c, cm_device_serial := cm_device_serial c, cm_comments := cm_comments c\<rparr>)"
proof -
  from run shape obtain o1 n1 B1 o2 n2 B2 o3 n3 B3 o4 n4 B4 o5 n5 B5 o6 n6 B6 o7 n7 B7 o8 n8 B8 o9 n9 B9 o10 n10 B10 o11 n11 B11 o12 n12 where
    appends: "append_string b0 (cm_station_name c) = Inr ((o1, n1), B1)"
      "append_string B1 (cm_site_name c) = Inr ((o2, n2), B2)"
      "append_string B2 (cm_circuit_name c) = Inr ((o3, n3), B3)"
      "append_string B3 (cm_product_name c) = Inr ((o4, n4), B4)"
      "append_string B4 (cm_device_model c) = Inr ((o5, n5), B5)"
      "append_string B5 (cm_firmware_version c) = Inr ((o6, n6), B6)"
      "append_string B6 (cm_software_build_id c) = Inr ((o7, n7), B7)"
      "append_string B7 (cm_sensor_profile_id c) = Inr ((o8, n8), B8)"
      "append_string B8 (cm_configuration_id c) = Inr ((o9, n9), B9)"
      "append_string B9 (cm_calibration_id c) = Inr ((o10, n10), B10)"
      "append_string B10 (cm_device_serial c) = Inr ((o11, n11), B11)"
      "append_string B11 (cm_comments c) = Inr ((o12, n12), b1)" and
    fields: "read_u32 r 160 = Inr o1" "read_u32 r (160 + 4) = Inr n1"
      "read_u32 r 168 = Inr o2" "read_u32 r (168 + 4) = Inr n2"
      "read_u32 r 176 = Inr o3" "read_u32 r (176 + 4) = Inr n3"
      "read_u32 r 184 = Inr o4" "read_u32 r (184 + 4) = Inr n4"
      "read_u32 r 192 = Inr o5" "read_u32 r (192 + 4) = Inr n5"
      "read_u32 r 200 = Inr o6" "read_u32 r (200 + 4) = Inr n6"
      "read_u32 r 208 = Inr o7" "read_u32 r (208 + 4) = Inr n7"
      "read_u32 r 216 = Inr o8" "read_u32 r (216 + 4) = Inr n8"
      "read_u32 r 224 = Inr o9" "read_u32 r (224 + 4) = Inr n9"
      "read_u32 r 232 = Inr o10" "read_u32 r (232 + 4) = Inr n10"
      "read_u32 r 240 = Inr o11" "read_u32 r (240 + 4) = Inr n11"
      "read_u32 r 248 = Inr o12" "read_u32 r (248 + 4) = Inr n12"
    by (auto simp: capture_writes_def put_defs on_records_def shaped_defs put_string_Inr read_defs field_simps)
  note pre = appends [THEN append_string_prefix, THEN conjunct1]
  have p11: "prefix B11 b1" by (rule pre(12))
  have p10: "prefix B10 b1" by (rule prefix_order.trans [OF pre(11) p11])
  have p9: "prefix B9 b1" by (rule prefix_order.trans [OF pre(10) p10])
  have p8: "prefix B8 b1" by (rule prefix_order.trans [OF pre(9) p9])
  have p7: "prefix B7 b1" by (rule prefix_order.trans [OF pre(8) p8])
  have p6: "prefix B6 b1" by (rule prefix_order.trans [OF pre(7) p7])
  have p5: "prefix B5 b1" by (rule prefix_order.trans [OF pre(6) p6])
  have p4: "prefix B4 b1" by (rule prefix_order.trans [OF pre(5) p5])
  have p3: "prefix B3 b1" by (rule prefix_order.trans [OF pre(4) p4])
  have p2: "prefix B2 b1" by (rule prefix_order.trans [OF pre(3) p3])
  have p1: "prefix B1 b1" by (rule prefix_order.trans [OF pre(2) p2])
  note bs = p1 p2 p3 p4 p5 p6 p7 p8 p9 p10 p11
  have strings: "string_at r blob 160 (cm_station_name c)"
      "string_at r blob 168 (cm_site_name c)"
      "string_at r blob 176 (cm_circuit_name c)"
      "string_at r blob 184 (cm_product_name c)"
      "string_at r blob 192 (cm_device_model c)"
      "string_at r blob 200 (cm_firmware_version c)"
      "string_at r blob 208 (cm_software_build_id c)"
      "string_at r blob 216 (cm_sensor_profile_id c)"
      "string_at r blob 224 (cm_configuration_id c)"
      "string_at r blob 232 (cm_calibration_id c)"
      "string_at r blob 240 (cm_device_serial c)"
      "string_at r blob 248 (cm_comments c)"
    by (rule string_atI, rule appends, rule prefix_order.trans [OF _ blob(1)], (rule bs | rule prefix_order.refl), rule blob, rule fields, rule fields)+
  then show ?thesis
    using texts by (simp add: read_capture_strings_def string_at_def strings_defs)
qed
end
