(* ===== verification/Mncwf_Reader.thy ===== *)
theory Mncwf_Reader
  imports Mncwf_Format
begin

text \<open>
  The reader of MNCWF files, \<^verbatim>\<open>MncwfV4Reader\<close> of \<^verbatim>\<open>waveform/mncwf_v4.cpp\<close>: header and directory, the
  extents and checksums of the sections, the typed sections with all their checks, the samples of
  version 4 (plain) and version 5 (independently compressed chunks), and the checks across sections;
  and the encoder \<^verbatim>\<open>encode_mncwf_v4\<close>, which accepts its own result only when this reader does.

  Zstandard is not part of the program: the functions the reader calls are fields of \<open>zstd_port\<close>.
\<close>

unbundle bit_operations_syntax

section \<open>Loops that may throw\<close>

fun fold_result :: "('s \<Rightarrow> 'x \<Rightarrow> 's result) \<Rightarrow> 's \<Rightarrow> 'x list \<Rightarrow> 's result" where
  "fold_result f s [] = Inr s"
| "fold_result f s (x # xs) = bind_result (f s x) (\<lambda>s'. fold_result f s' xs)"

section \<open>Header\<close>

definition mncwf_magic :: bytes where "mncwf_magic = [0x4d, 0x4e, 0x43, 0x57, 0x46, 0x31, 0, 0]"
definition mncwf_v4_version :: u32 where "mncwf_v4_version = 4"
definition mncwf_v5_version :: u32 where "mncwf_v5_version = 5"
definition mncwf_v4_header_bytes :: nat where "mncwf_v4_header_bytes = 64"
definition mncwf_v4_directory_entry_bytes :: nat where "mncwf_v4_directory_entry_bytes = 56"
definition mncwf_v4_mandatory_section_count :: nat where "mncwf_v4_mandatory_section_count = 7"
definition mncwf_v4_max_sections :: nat where "mncwf_v4_max_sections = 64"

datatype mncwf_validation_mode = Complete | Metadata_only

record mncwf_v4_header =
  h_version :: u32
  h_section_count :: u32
  h_directory_offset :: u64
  h_directory_bytes :: u64
  h_file_bytes :: u64
  h_flags :: u32

definition read_header_fields :: "bytes \<Rightarrow> u32 \<Rightarrow> (mncwf_v4_header \<times> u32 \<times> u32 \<times> u32) result" where
  "read_header_fields bs version =
     bind_result (read_u32 bs 20) (\<lambda>section_count.
     bind_result (read_u64 bs 24) (\<lambda>directory_offset.
     bind_result (read_u64 bs 32) (\<lambda>directory_bytes.
     bind_result (read_u64 bs 40) (\<lambda>file_bytes.
     bind_result (read_u32 bs 48) (\<lambda>flags.
     bind_result (read_u32 bs 52) (\<lambda>directory_crc.
     bind_result (read_u32 bs 56) (\<lambda>header_crc.
     bind_result (read_u32 bs 60) (\<lambda>reserved.
     Inr (\<lparr>h_version = version, h_section_count = section_count, h_directory_offset = directory_offset,
           h_directory_bytes = directory_bytes, h_file_bytes = file_bytes, h_flags = flags\<rparr>,
          directory_crc, header_crc, reserved)))))))))"

text \<open>The header's own checksum is computed over the header with the checksum field cleared.\<close>

definition header_copy :: "bytes \<Rightarrow> bytes" where
  "header_copy bs = patch 56 (zeros 4) (take mncwf_v4_header_bytes bs)"

text \<open>The result is the header and the bytes of the directory.\<close>

definition read_header :: "bytes \<Rightarrow> (mncwf_v4_header \<times> bytes) result" where
  "read_header bs =
     (if length bs < mncwf_v4_header_bytes then Inl (reject ''header is truncated'')
      else if length bs > mncwf_v4_max_file_bytes then Inl (reject ''file exceeds the configured size bound'')
      else if take 8 bs \<noteq> mncwf_magic then Inl (reject ''magic is invalid'')
      else
      bind_result (read_u32 bs 8) (\<lambda>version.
      if version \<noteq> mncwf_v4_version \<and> version \<noteq> mncwf_v5_version then Inl (reject ''version is not supported'')
      else
      bind_result (any_of [differs (read_u32 bs 12) (of_nat mncwf_v4_header_bytes),
                           differs (read_u32 bs 16) (of_nat mncwf_v4_directory_entry_bytes)]) (\<lambda>bad.
      if bad then Inl (reject ''header geometry is unsupported'')
      else
      bind_result (read_header_fields bs version) (\<lambda>(h, directory_crc, header_crc, reserved).
      if reserved \<noteq> 0 \<or> h_flags h \<noteq> 0 then Inl (reject ''header reserved fields are nonzero'')
      else if unat (h_section_count h) < mncwf_v4_mandatory_section_count \<or>
              unat (h_section_count h) > mncwf_v4_max_sections
      then Inl (reject ''section count is outside its bound'')
      else
      bind_result (any_of
        [Inr (h_directory_offset h \<noteq> of_nat mncwf_v4_header_bytes),
         differs (checked_multiply (ucast (h_section_count h)) (of_nat mncwf_v4_directory_entry_bytes) ''directory'')
           (h_directory_bytes h),
         Inr (unat (h_file_bytes h) \<noteq> length bs)]) (\<lambda>bad.
      if bad then Inl (reject ''directory or file geometry is invalid'')
      else if mncwf_crc32c (header_copy bs) \<noteq> header_crc then Inl (reject ''header CRC32C mismatch'')
      else
      bind_result (range_of bs (h_directory_offset h) (h_directory_bytes h) ''directory'') (\<lambda>directory.
      if mncwf_crc32c directory \<noteq> directory_crc then Inl (reject ''directory CRC32C mismatch'')
      else Inr (h, directory)))))))"

section \<open>Directory\<close>

definition read_directory_entry :: "bytes \<Rightarrow> nat \<Rightarrow> mncwf_v4_section_info result" where
  "read_directory_entry directory offset =
     bind_result (read_u32 directory offset) (\<lambda>ty.
     bind_result (read_u16 directory (offset + 4)) (\<lambda>version.
     bind_result (read_u16 directory (offset + 6)) (\<lambda>flags.
     bind_result (read_u64 directory (offset + 8)) (\<lambda>section_offset.
     bind_result (read_u64 directory (offset + 16)) (\<lambda>stored_bytes.
     bind_result (read_u64 directory (offset + 24)) (\<lambda>logical_bytes.
     bind_result (read_u64 directory (offset + 32)) (\<lambda>item_count.
     bind_result (read_u32 directory (offset + 40)) (\<lambda>item_bytes.
     bind_result (read_u32 directory (offset + 44)) (\<lambda>crc.
     bind_result (read_u64 directory (offset + 48)) (\<lambda>reserved.
     if reserved \<noteq> 0 then Inl (reject ''directory reserved field is nonzero'')
     else Inr \<lparr>si_type = ty, si_version = version, si_flags = flags, si_offset = section_offset,
       si_stored_bytes = stored_bytes, si_logical_bytes = logical_bytes, si_item_count = item_count,
       si_item_bytes = item_bytes, si_crc32c = crc, si_data = []\<rparr>))))))))))"

definition valid_logical_size :: "u32 \<Rightarrow> mncwf_v4_section_info \<Rightarrow> bool result" where
  "valid_logical_size version s =
     (if version = mncwf_v4_version \<or> si_type s \<noteq> section_code Sample_data
      then Inr (si_logical_bytes s = si_stored_bytes s)
      else bind_result (checked_multiply (si_item_count s) (ucast (si_item_bytes s)) ''sample logical bytes'')
        (\<lambda>n. Inr (si_logical_bytes s = n)))"

definition valid_sample_version :: "u32 \<Rightarrow> mncwf_v4_section_info \<Rightarrow> bool" where
  "valid_sample_version version s \<longleftrightarrow>
     (if version = mncwf_v4_version then si_version s = 1 else si_version s = 2)"

definition directory_entry_invalid :: "u32 \<Rightarrow> mncwf_v4_section_info \<Rightarrow> bool \<Rightarrow> bool" where
  "directory_entry_invalid version s logical_ok \<longleftrightarrow>
     si_type s = 0 \<or> si_version s = 0 \<or> si_flags s AND NOT mncwf_v4_section_required \<noteq> 0 \<or>
     si_stored_bytes s = 0 \<or> unat (si_item_count s) > mncwf_v4_max_file_bytes \<or> \<not> logical_ok \<or>
     si_type s = section_code Sample_data \<and> \<not> valid_sample_version version s \<or>
     si_offset s AND 7 \<noteq> 0"

text \<open>One turn of the loop over the directory: the slots already taken and the sections so far.\<close>

definition read_section ::
    "bytes \<Rightarrow> u32 \<Rightarrow> bytes \<Rightarrow> bool list \<times> mncwf_v4_section_info list \<Rightarrow> nat \<Rightarrow>
     (bool list \<times> mncwf_v4_section_info list) result" where
  "read_section bs version directory st index =
     (let (present, sections) = st in
      bind_result (read_directory_entry directory (index * mncwf_v4_directory_entry_bytes)) (\<lambda>s.
      bind_result (valid_logical_size version s) (\<lambda>logical_ok.
      if directory_entry_invalid version s logical_ok then Inl (reject ''directory entry is invalid'')
      else if \<not> known_section (si_type s) \<and> si_flags s AND mncwf_v4_section_required \<noteq> 0
      then Inl (reject ''unknown required section'')
      else
      bind_result
        (if known_section (si_type s) then
           (if present ! section_index (si_type s) then Inl (reject ''duplicate mandatory section'')
            else if si_flags s \<noteq> mncwf_v4_section_required then Inl (reject ''known section is not mandatory'')
            else if si_type s \<noteq> section_code Sample_data \<and>
              unat (si_stored_bytes s) > mncwf_v4_max_metadata_section_bytes
            then Inl (reject ''metadata section exceeds its size bound'')
            else Inr (present[section_index (si_type s) := True]))
         else Inr present) (\<lambda>present.
      bind_result (range_of bs (si_offset s) (si_stored_bytes s) ''section'') (\<lambda>data.
      Inr (present, sections @ [s\<lparr>si_data := data\<rparr>]))))))"

definition read_directory :: "bytes \<Rightarrow> mncwf_v4_header \<Rightarrow> bytes \<Rightarrow> mncwf_v4_section_info list result" where
  "read_directory bs h directory =
     bind_result (fold_result (read_section bs (h_version h) directory)
       (replicate mncwf_v4_mandatory_section_count False, []) [0..<unat (h_section_count h)])
       (\<lambda>(present, sections).
        if list_all (\<lambda>b. b) present then Inr sections else Inl (reject ''mandatory section is missing''))"

section \<open>Extents and checksums\<close>

definition section_extents :: "mncwf_v4_section_info list \<Rightarrow> (u64 \<times> u64) list result" where
  "section_extents sections = traverse (\<lambda>s.
     bind_result (checked_add (si_offset s) (si_stored_bytes s) ''section extent'') (\<lambda>e. Inr (si_offset s, e)))
     sections"

text \<open>\<^verbatim>\<open>std::ranges::sort\<close> on pairs: by the first component, then by the second.\<close>

definition sort_extents :: "(u64 \<times> u64) list \<Rightarrow> (u64 \<times> u64) list" where
  "sort_extents extents = sort_key fst (sort_key snd extents)"

definition check_extent :: "bytes \<Rightarrow> u64 \<Rightarrow> u64 \<times> u64 \<Rightarrow> u64 result" where
  "check_extent bs cursor extent =
     (if fst extent \<noteq> cursor
      then Inl (reject (if fst extent < cursor then ''sections overlap''
                        else ''unreferenced bytes appear between sections''))
      else bind_result (align_eight (snd extent)) (\<lambda>cursor.
        if unat cursor > length bs then Inl (reject ''final section alignment exceeds the file'')
        else if snd extent \<noteq> cursor then
          bind_result (range_of bs (snd extent) (cursor - snd extent) ''section alignment padding'') (\<lambda>padding.
          if all_zero padding then Inr cursor else Inl (reject ''section alignment padding is nonzero''))
        else Inr cursor))"

definition check_extents :: "bytes \<Rightarrow> mncwf_v4_header \<Rightarrow> mncwf_v4_section_info list \<Rightarrow> unit result" where
  "check_extents bs h sections =
     bind_result (section_extents sections) (\<lambda>extents.
     bind_result (checked_add (h_directory_offset h) (h_directory_bytes h) ''directory extent'') (\<lambda>directory_end.
     bind_result (align_eight directory_end) (\<lambda>cursor.
     bind_result (fold_result (check_extent bs) cursor (sort_extents extents)) (\<lambda>cursor.
     if unat cursor \<noteq> length bs then Inl (reject ''unreferenced bytes follow the final section'')
     else Inr ()))))"

definition check_section_crc :: "mncwf_validation_mode \<Rightarrow> mncwf_v4_section_info \<Rightarrow> bool \<times> exn" where
  "check_section_crc mode s =
     (mode = Metadata_only \<and> si_type s = section_code Sample_data \<or> mncwf_crc32c (si_data s) = si_crc32c s,
      reject ''section CRC32C mismatch'')"

definition find_section :: "mncwf_v4_section_info list \<Rightarrow> mncwf_v4_section_type \<Rightarrow> mncwf_v4_section_info result" where
  "find_section sections ty =
     (case find (\<lambda>s. si_type s = section_code ty) sections of
        None \<Rightarrow> Inl (reject ''mandatory section lookup failed'')
      | Some s \<Rightarrow> Inr s)"

text \<open>The part of the constructor before the typed sections.\<close>

definition read_container ::
    "mncwf_validation_mode \<Rightarrow> bytes \<Rightarrow> (mncwf_v4_header \<times> mncwf_v4_section_info list) result" where
  "read_container mode bs =
     bind_result (read_header bs) (\<lambda>(h, directory).
     bind_result (read_directory bs h directory) (\<lambda>sections.
     bind_result (check_extents bs h sections) (\<lambda>_.
     bind_result (require_all (map (check_section_crc mode) sections)) (\<lambda>_.
     Inr (h, sections)))))"

section \<open>Capture metadata\<close>

definition valid_topology :: "u32 \<Rightarrow> bool" where "valid_topology v \<longleftrightarrow> v \<le> topology_code Delta"
definition valid_calibration :: "u32 \<Rightarrow> bool" where "valid_calibration v \<longleftrightarrow> v \<le> calibration_code Calibration_invalid"
definition valid_time_quality :: "u16 \<Rightarrow> bool" where "valid_time_quality v \<longleftrightarrow> v \<le> time_quality_code Time_locked"
definition valid_clock_source :: "u16 \<Rightarrow> bool" where "valid_clock_source v \<longleftrightarrow> v \<le> clock_code Clock_manual"
definition valid_phase :: "u16 \<Rightarrow> bool" where "valid_phase v \<longleftrightarrow> v \<le> phase_code Phase_ca"
definition valid_quantity :: "u16 \<Rightarrow> bool" where "valid_quantity v \<longleftrightarrow> v \<le> quantity_code Quantity_ratio"
definition valid_unit :: "u16 \<Rightarrow> bool" where "valid_unit v \<longleftrightarrow> v \<le> si_unit_code Hertz"
definition valid_event_taxonomy :: "u16 \<Rightarrow> bool" where "valid_event_taxonomy v \<longleftrightarrow> v \<le> taxonomy_code Product_alarm"

definition valid_event_lifecycle :: "u16 \<Rightarrow> bool" where
  "valid_event_lifecycle v \<longleftrightarrow> v \<ge> lifecycle_code Event_start \<and> v \<le> lifecycle_code Event_complete"

definition valid_lineage_relation :: "u16 \<Rightarrow> bool" where
  "valid_lineage_relation v \<longleftrightarrow> v \<ge> relation_code Relation_parent \<and> v \<le> relation_code Virtual_slice"

definition capture_invalid :: "mncwf_v4_capture_metadata \<Rightarrow> u32 \<Rightarrow> u32 \<Rightarrow> bool" where
  "capture_invalid c topology calibration \<longleftrightarrow>
     all_zero (cm_capture_uuid c) \<or> all_zero (cm_device_uuid c) \<or>
     all_zero (cm_configuration_sha256 c) \<or> all_zero (cm_sensor_profile_sha256 c) \<or>
     cm_nominal_voltage_denominator c = 0 \<or> cm_nominal_frequency_denominator c = 0 \<or>
     \<not> valid_topology topology \<or> \<not> valid_calibration calibration \<or> cm_flags c \<noteq> 0"

definition read_capture :: "mncwf_v4_section_info list \<Rightarrow> mncwf_v4_capture_metadata result" where
  "read_capture sections =
     bind_result (find_section sections Capture_metadata) (\<lambda>info.
     bind_result (parse_section_envelope info 256 1 1 True) (\<lambda>(records, blob).
     bind_result (read_capture_fields records) (\<lambda>(c, topology, calibration).
     bind_result (if capture_invalid c topology calibration then Inr True
                  else capture_reserved records) (\<lambda>bad.
     if bad then Inl (reject ''capture metadata is invalid'')
     else
     bind_result (read_capture_strings
       (c\<lparr>cm_topology := enum_cast topology_code topology_all topology,
          cm_calibration_status := enum_cast calibration_code calibration_all calibration\<rparr>) records blob) (\<lambda>c.
     if cm_product_name c = [] \<or> cm_firmware_version c = [] \<or> cm_software_build_id c = [] \<or>
        cm_sensor_profile_id c = [] \<or> cm_configuration_id c = []
     then Inl (reject ''required capture identity is empty'')
     else Inr c)))))"

section \<open>Timebase\<close>

definition mncwf_time_utc_offset_known :: u16 where "mncwf_time_utc_offset_known = 1"
definition mncwf_time_positive_leap_pending :: u16 where "mncwf_time_positive_leap_pending = 2"
definition mncwf_time_negative_leap_pending :: u16 where "mncwf_time_negative_leap_pending = 4"
definition mncwf_time_rate_change_before :: u16 where "mncwf_time_rate_change_before = 8"
definition mncwf_time_sequence_gap_before :: u16 where "mncwf_time_sequence_gap_before = 16"
definition mncwf_time_known_flags :: u16 where "mncwf_time_known_flags = 31"

lemmas time_flag_defs = mncwf_time_utc_offset_known_def mncwf_time_positive_leap_pending_def
  mncwf_time_negative_leap_pending_def mncwf_time_rate_change_before_def
  mncwf_time_sequence_gap_before_def mncwf_time_known_flags_def

definition gcd_u64 :: "u64 \<Rightarrow> u64 \<Rightarrow> u64" where "gcd_u64 a b = of_nat (gcd (unat a) (unat b))"

definition reduced :: "u64 \<Rightarrow> u64 \<Rightarrow> (u64 \<times> u64) result" where
  "reduced numerator denominator =
     (if numerator = 0 \<or> denominator = 0 then Inl (reject ''sample-rate rational is zero'')
      else let divisor = gcd_u64 numerator denominator in Inr (numerator div divisor, denominator div divisor))"

definition rate_matches_decimation :: "mncwf_v4_timebase_segment \<Rightarrow> bool result" where
  "rate_matches_decimation s =
     (let cancellation = gcd_u64 (ts_acquisition_rate_numerator s) (ucast (ts_decimation_divisor s));
          numerator = ts_acquisition_rate_numerator s div cancellation;
          decimation = ucast (ts_decimation_divisor s) div cancellation
      in bind_result (checked_multiply (ts_acquisition_rate_denominator s) decimation
           ''decimated sample-rate denominator'') (\<lambda>denominator.
         bind_result (reduced numerator denominator) (\<lambda>left.
         bind_result (reduced (ts_persisted_rate_numerator s) (ts_persisted_rate_denominator s)) (\<lambda>right.
         Inr (left = right)))))"

definition segment_invalid :: "u64 \<Rightarrow> mncwf_v4_timebase_segment \<Rightarrow> u16 \<Rightarrow> u16 \<Rightarrow> u16 \<Rightarrow> bool" where
  "segment_invalid expected_first_frame s method clock quality \<longleftrightarrow>
     ts_first_frame s \<noteq> expected_first_frame \<or> ts_frame_count s = 0 \<or> ts_sequence_step s = 0 \<or>
     ts_decimation_divisor s = 0 \<or> ts_decimation_divisor s > 65536 \<or>
     ts_flags s AND NOT mncwf_time_known_flags \<noteq> 0 \<or>
     \<not> valid_clock_source clock \<or> \<not> valid_time_quality quality \<or>
     method > decimation_code Boxcar_mean_toward_zero \<or>
     ts_flags s AND mncwf_time_utc_offset_known = 0 \<and>
       (ts_utc_offset_seconds s \<noteq> 0 \<or> ts_correlation_utc_nanoseconds s \<noteq> 0 \<or>
        ts_flags s AND (mncwf_time_positive_leap_pending OR mncwf_time_negative_leap_pending) \<noteq> 0) \<or>
     ts_correlation_tai_nanoseconds s = 0 \<or>
     ts_flags s AND mncwf_time_positive_leap_pending \<noteq> 0 \<and> ts_flags s AND mncwf_time_negative_leap_pending \<noteq> 0"

definition check_decimation :: "mncwf_v4_timebase_segment \<Rightarrow> unit result" where
  "check_decimation s =
     (if ts_decimation_method s = Decimation_none then
        (if ts_decimation_divisor s \<noteq> 1 \<or> ts_sequence_step s \<noteq> 1 \<or> ts_source_frame_count s \<noteq> ts_frame_count s
         then Inl (reject ''non-decimated timebase geometry is inconsistent'') else Inr ())
      else if ts_sequence_step s \<noteq> ucast (ts_decimation_divisor s)
      then Inl (reject ''boxcar sequence step does not equal its divisor'')
      else
      bind_result (checked_multiply (ts_frame_count s - 1) (ucast (ts_decimation_divisor s))
        ''boxcar source-frame minimum'') (\<lambda>groups.
      bind_result (checked_add groups 1 ''boxcar source-frame minimum'') (\<lambda>minimum_source.
      bind_result (checked_multiply (ts_frame_count s) (ucast (ts_decimation_divisor s))
        ''boxcar source-frame maximum'') (\<lambda>maximum_source.
      if ts_source_frame_count s < minimum_source \<or> ts_source_frame_count s > maximum_source
      then Inl (reject ''boxcar source-frame count is inconsistent'') else Inr ()))))"

definition rate_changed :: "mncwf_v4_timebase_segment \<Rightarrow> mncwf_v4_timebase_segment \<Rightarrow> bool result" where
  "rate_changed previous s = any_of
     [bind_result (reduced (ts_acquisition_rate_numerator s) (ts_acquisition_rate_denominator s))
        (differs (reduced (ts_acquisition_rate_numerator previous) (ts_acquisition_rate_denominator previous))),
      bind_result (reduced (ts_persisted_rate_numerator s) (ts_persisted_rate_denominator s))
        (differs (reduced (ts_persisted_rate_numerator previous) (ts_persisted_rate_denominator previous))),
      Inr (ts_decimation_divisor previous \<noteq> ts_decimation_divisor s),
      Inr (ts_decimation_method previous \<noteq> ts_decimation_method s)]"

definition sequence_continuity_bad :: "u64 option \<Rightarrow> mncwf_v4_timebase_segment \<Rightarrow> bool" where
  "sequence_continuity_bad expected_next s =
     (case expected_next of
        None \<Rightarrow> False
      | Some expected \<Rightarrow>
          (let gap = (ts_flags s AND mncwf_time_sequence_gap_before \<noteq> 0)
           in \<not> gap \<and> ts_first_sequence s \<noteq> expected \<or> gap \<and> ts_first_sequence s \<le> expected))"

text \<open>One turn of the loop: the next frame and sequence expected, and the segments so far.\<close>

type_synonym timebase_state = "u64 \<times> u64 option \<times> mncwf_v4_timebase_segment list"

definition accept_segment ::
    "timebase_state \<Rightarrow> nat \<Rightarrow> mncwf_v4_timebase_segment \<times> u16 \<times> u16 \<times> u16 \<Rightarrow> timebase_state result" where
  "accept_segment st index raw_segment =
     (let (expected_first_frame, expected_next_sequence, segments) = st;
          (raw, method, clock, quality) = raw_segment in
      if segment_invalid expected_first_frame raw method clock quality
      then Inl (reject ''timebase segment is invalid'')
      else
      let s = raw\<lparr>ts_decimation_method := enum_cast decimation_code decimation_all method,
                  ts_clock_source := enum_cast clock_code clock_all clock,
                  ts_time_quality := enum_cast time_quality_code time_quality_all quality\<rparr> in
      bind_result (check_decimation s) (\<lambda>_.
      bind_result (rate_matches_decimation s) (\<lambda>rate_ok.
      if \<not> rate_ok then Inl (reject ''persisted rate does not match acquisition rate/divisor'')
      else if index = 0 \<and>
        ts_flags s AND (mncwf_time_rate_change_before OR mncwf_time_sequence_gap_before) \<noteq> 0
      then Inl (reject ''first timebase segment declares a preceding discontinuity'')
      else if sequence_continuity_bad expected_next_sequence s
      then Inl (reject ''timebase sequence continuity is inconsistent'')
      else
      bind_result (if index = 0 then Inr False
        else differs (rate_changed (last segments) s) (ts_flags s AND mncwf_time_rate_change_before \<noteq> 0)) (\<lambda>bad.
      if bad then Inl (reject ''timebase rate-change flag is inconsistent'')
      else
      bind_result (checked_add (ts_first_sequence s) (ts_source_frame_count s) ''timebase source sequence'') (\<lambda>next_sequence.
      bind_result (checked_add (ts_first_frame s) (ts_frame_count s) ''timebase frame coverage'') (\<lambda>next_frame.
      Inr (next_frame, Some next_sequence, segments @ [s])))))))"

definition read_timebase_segment :: "bytes \<Rightarrow> timebase_state \<Rightarrow> nat \<Rightarrow> timebase_state result" where
  "read_timebase_segment records st index =
     bind_result (read_segment_fields (subspan (index * 128) 128 records)) (accept_segment st index)"

definition read_timebase :: "mncwf_v4_section_info list \<Rightarrow> timebase_state result" where
  "read_timebase sections =
     bind_result (find_section sections Timebase_segments) (\<lambda>info.
     bind_result (parse_section_envelope info 128 1 65536 False) (\<lambda>(records, _).
     fold_result (read_timebase_segment records) (0, None, []) [0..<unat (si_item_count info)]))"

section \<open>Channels\<close>

definition mncwf_channel_enabled :: u32 where "mncwf_channel_enabled = 1"
definition mncwf_channel_transform_valid :: u32 where "mncwf_channel_transform_valid = 2"
definition mncwf_channel_ratio_valid :: u32 where "mncwf_channel_ratio_valid = 4"
definition mncwf_channel_nominal_valid :: u32 where "mncwf_channel_nominal_valid = 8"
definition mncwf_channel_range_valid :: u32 where "mncwf_channel_range_valid = 16"
definition mncwf_channel_resolution_valid :: u32 where "mncwf_channel_resolution_valid = 32"
definition mncwf_channel_clipping_valid :: u32 where "mncwf_channel_clipping_valid = 64"
definition mncwf_channel_calibration_valid :: u32 where "mncwf_channel_calibration_valid = 128"
definition mncwf_channel_known_flags :: u32 where "mncwf_channel_known_flags = 255"
definition mncwf_v4_max_channels :: u64 where "mncwf_v4_max_channels = 64"

lemmas channel_flag_defs = mncwf_channel_enabled_def mncwf_channel_transform_valid_def
  mncwf_channel_ratio_valid_def mncwf_channel_nominal_valid_def mncwf_channel_range_valid_def
  mncwf_channel_resolution_valid_def mncwf_channel_clipping_valid_def
  mncwf_channel_calibration_valid_def mncwf_channel_known_flags_def

definition channel_invalid ::
    "mncwf_uuid list \<Rightarrow> u32 list \<Rightarrow> mncwf_v4_channel_definition \<Rightarrow> u16 \<Rightarrow> u16 \<Rightarrow> u16 \<Rightarrow> u16 \<Rightarrow> bool" where
  "channel_invalid channel_ids source_channels c phase qty unit_code encoding \<longleftrightarrow>
     all_zero (cd_stable_id c) \<or> cd_stable_id c \<in> set channel_ids \<or> cd_source_channel c \<in> set source_channels \<or>
     cd_flags c AND NOT mncwf_channel_known_flags \<noteq> 0 \<or> cd_flags c AND mncwf_channel_enabled = 0 \<or>
     \<not> valid_phase phase \<or> \<not> valid_quantity qty \<or> \<not> valid_unit unit_code \<or>
     encoding \<noteq> encoding_code Signed_integer_little_endian \<or>
     cd_storage_bits c = 0 \<or> cd_storage_bits c > 64 \<or> cd_storage_bits c mod 8 \<noteq> 0 \<or>
     cd_valid_bits c = 0 \<or> cd_valid_bits c > cd_storage_bits c"

definition channel_checks :: "mncwf_v4_channel_definition \<Rightarrow> (bool \<times> exn) list" where
  "channel_checks c =
     [(\<not> (cd_flags c AND mncwf_channel_transform_valid \<noteq> 0 \<and>
          (cd_gain_numerator c = 0 \<or> cd_gain_denominator c = 0 \<or> cd_offset_denominator c = 0)),
       reject ''channel affine transform is invalid''),
      (\<not> (cd_flags c AND mncwf_channel_ratio_valid \<noteq> 0 \<and>
          (cd_ratio_numerator c = 0 \<or> cd_ratio_denominator c = 0)),
       reject ''channel ratio is invalid''),
      (\<not> (cd_flags c AND mncwf_channel_nominal_valid \<noteq> 0 \<and> cd_nominal_denominator c = 0),
       reject ''channel nominal has a zero denominator''),
      (\<not> (cd_flags c AND mncwf_channel_range_valid \<noteq> 0 \<and>
          (cd_range_minimum_denominator c = 0 \<or> cd_range_maximum_denominator c = 0)),
       reject ''channel range has a zero denominator''),
      (\<not> (cd_flags c AND mncwf_channel_resolution_valid \<noteq> 0 \<and>
          (cd_resolution_numerator c = 0 \<or> cd_resolution_denominator c = 0)),
       reject ''channel resolution is invalid''),
      (\<not> (cd_flags c AND mncwf_channel_clipping_valid \<noteq> 0 \<and>
          sint (cd_clipping_low c) > sint (cd_clipping_high c)),
       reject ''channel clipping bounds are reversed'')]"

text \<open>One turn of the loop: the bytes of a frame so far and the channels so far.\<close>

type_synonym channel_state = "u64 \<times> mncwf_v4_channel_definition list"

definition accept_channel ::
    "channel_state \<Rightarrow> bool result \<Rightarrow> mncwf_v4_channel_definition \<times> u16 \<times> u16 \<times> u16 \<times> u16 \<Rightarrow> channel_state result" where
  "accept_channel st reserved_bad raw_channel =
     (let (frame_bytes, definitions) = st; (c, phase, qty, unit_code, encoding) = raw_channel in
      bind_result (if channel_invalid (map cd_stable_id definitions) (map cd_source_channel definitions) c
            phase qty unit_code encoding then Inr True
          else bind_result reserved_bad (\<lambda>d. Inr (d \<or> cd_name c = [] \<or> cd_unit_symbol c = []))) (\<lambda>bad.
      if bad then Inl (reject ''channel definition is invalid'')
      else
      bind_result (require_all (channel_checks c)) (\<lambda>_.
      bind_result (checked_add frame_bytes (ucast (cd_storage_bits c div 8)) ''sample frame bytes'') (\<lambda>frame_bytes.
      Inr (frame_bytes, definitions @
        [c\<lparr>cd_phase := enum_cast phase_code phase_all phase,
           cd_quantity := enum_cast quantity_code quantity_all qty,
           cd_si_unit := enum_cast si_unit_code si_unit_all unit_code,
           cd_sample_encoding := enum_cast encoding_code encoding_all encoding\<rparr>])))))"

definition read_channel :: "bytes \<Rightarrow> bytes \<Rightarrow> channel_state \<Rightarrow> nat \<Rightarrow> channel_state result" where
  "read_channel records blob st index =
     (let record = subspan (index * 208) 208 records in
      bind_result (read_channel_fields record blob) (accept_channel st (channel_reserved record)))"

definition read_channels :: "mncwf_v4_section_info list \<Rightarrow> channel_state result" where
  "read_channels sections =
     bind_result (find_section sections Channel_definitions) (\<lambda>info.
     bind_result (parse_section_envelope info 208 1 mncwf_v4_max_channels True) (\<lambda>(records, blob).
     fold_result (read_channel records blob) (0, []) [0..<unat (si_item_count info)]))"

section \<open>Events\<close>

definition mncwf_event_known_phase_mask :: u32 where "mncwf_event_known_phase_mask = 31"
definition mncwf_event_start_valid :: u32 where "mncwf_event_start_valid = 1"
definition mncwf_event_current_valid :: u32 where "mncwf_event_current_valid = 2"
definition mncwf_event_end_valid :: u32 where "mncwf_event_end_valid = 4"
definition mncwf_event_trigger_valid :: u32 where "mncwf_event_trigger_valid = 8"
definition mncwf_event_tai_valid :: u32 where "mncwf_event_tai_valid = 16"
definition mncwf_event_utc_valid :: u32 where "mncwf_event_utc_valid = 32"
definition mncwf_event_settings_snapshot_valid :: u32 where "mncwf_event_settings_snapshot_valid = 64"
definition mncwf_event_contaminated :: u32 where "mncwf_event_contaminated = 128"
definition mncwf_event_discontinuous :: u32 where "mncwf_event_discontinuous = 256"
definition mncwf_event_known_flags :: u32 where "mncwf_event_known_flags = 511"
definition mncwf_v4_max_events :: u64 where "mncwf_v4_max_events = 4096"

lemmas event_flag_defs = mncwf_event_start_valid_def mncwf_event_current_valid_def mncwf_event_end_valid_def
  mncwf_event_trigger_valid_def mncwf_event_tai_valid_def mncwf_event_utc_valid_def
  mncwf_event_settings_snapshot_valid_def mncwf_event_contaminated_def mncwf_event_discontinuous_def
  mncwf_event_known_flags_def mncwf_event_known_phase_mask_def

definition event_flag :: "mncwf_v4_event_descriptor \<Rightarrow> u32 \<Rightarrow> bool" where
  "event_flag e flag \<longleftrightarrow> ed_flags e AND flag \<noteq> 0"

definition event_invalid ::
    "mncwf_uuid list \<Rightarrow> mncwf_v4_event_descriptor \<Rightarrow> u16 \<Rightarrow> u16 \<Rightarrow> u16 \<Rightarrow> u16 \<Rightarrow> u16 \<Rightarrow> bool" where
  "event_invalid event_ids e taxonomy lifecycle time_quality qty unit_code \<longleftrightarrow>
     all_zero (ed_event_uuid e) \<or> ed_event_uuid e \<in> set event_ids \<or>
     \<not> valid_event_taxonomy taxonomy \<or> ed_event_type e = 0 \<or> \<not> valid_event_lifecycle lifecycle \<or>
     \<not> valid_time_quality time_quality \<or>
     ed_flags e AND NOT mncwf_event_known_flags \<noteq> 0 \<or> \<not> event_flag e mncwf_event_start_valid \<or>
     ed_phase_mask e = 0 \<or> ed_phase_mask e AND NOT mncwf_event_known_phase_mask \<noteq> 0 \<or>
     \<not> valid_quantity qty \<or> \<not> valid_unit unit_code"

definition event_checks :: "mncwf_v4_event_descriptor \<Rightarrow> mncwf_event_lifecycle \<Rightarrow> (bool \<times> exn) list" where
  "event_checks e lifecycle =
     [(\<not> (event_flag e mncwf_event_current_valid \<and> ed_current_sequence e < ed_start_sequence e),
       reject ''event current anchor precedes its start''),
      (\<not> (event_flag e mncwf_event_end_valid \<and>
          (ed_end_sequence e < ed_start_sequence e \<or>
           event_flag e mncwf_event_current_valid \<and> ed_end_sequence e < ed_current_sequence e)),
       reject ''event end anchor is out of order''),
      (\<not> (lifecycle = Event_update \<and> \<not> event_flag e mncwf_event_current_valid \<or>
          (lifecycle = Event_end \<or> lifecycle = Event_abort \<or> lifecycle = Event_complete) \<and>
          \<not> event_flag e mncwf_event_end_valid),
       reject ''event lifecycle is missing its required anchor''),
      (event_flag e mncwf_event_settings_snapshot_valid = (ed_settings_snapshot_json e \<noteq> []),
       reject ''event settings-snapshot flag disagrees with its payload'')]"

definition accept_event ::
    "mncwf_v4_event_descriptor list \<Rightarrow> bool result \<Rightarrow>
     mncwf_v4_event_descriptor \<times> u16 \<times> u16 \<times> u16 \<times> u16 \<times> u16 \<Rightarrow> mncwf_v4_event_descriptor list result" where
  "accept_event events reserved_bad raw_event =
     (let (e, taxonomy, lifecycle, time_quality, qty, unit_code) = raw_event in
      bind_result (if event_invalid (map ed_event_uuid events) e taxonomy lifecycle time_quality qty unit_code
          then Inr True
          else bind_result reserved_bad (\<lambda>d. Inr (d \<or> ed_taxonomy_name e = [] \<or> ed_label e = []))) (\<lambda>bad.
      if bad then Inl (reject ''event descriptor is invalid'')
      else
      let parsed_lifecycle = enum_cast lifecycle_code lifecycle_all lifecycle in
      bind_result (require_all (event_checks e parsed_lifecycle)) (\<lambda>_.
      Inr (events @
        [e\<lparr>ed_taxonomy := enum_cast taxonomy_code taxonomy_all taxonomy,
           ed_lifecycle := parsed_lifecycle,
           ed_time_quality := enum_cast time_quality_code time_quality_all time_quality,
           ed_quantity := enum_cast quantity_code quantity_all qty,
           ed_si_unit := enum_cast si_unit_code si_unit_all unit_code\<rparr>]))))"

definition read_event ::
    "bytes \<Rightarrow> bytes \<Rightarrow> mncwf_v4_event_descriptor list \<Rightarrow> nat \<Rightarrow> mncwf_v4_event_descriptor list result" where
  "read_event records blob events index =
     (let record = subspan (index * 256) 256 records in
      bind_result (read_event_fields record blob) (accept_event events (event_reserved record)))"

definition read_events :: "mncwf_v4_section_info list \<Rightarrow> mncwf_v4_event_descriptor list result" where
  "read_events sections =
     bind_result (find_section sections Event_descriptors) (\<lambda>info.
     bind_result (parse_section_envelope info 256 0 mncwf_v4_max_events True) (\<lambda>(records, blob).
     fold_result (read_event records blob) [] [0..<unat (si_item_count info)]))"

section \<open>Quality intervals and lineage\<close>

definition mncwf_quality_known_flags :: u32 where "mncwf_quality_known_flags = 127"
definition mncwf_v4_max_lineage_entries :: u64 where "mncwf_v4_max_lineage_entries = 4096"

definition accept_quality ::
    "mncwf_v4_quality_interval list \<Rightarrow> bool result \<Rightarrow> mncwf_v4_quality_interval \<Rightarrow> mncwf_v4_quality_interval list result" where
  "accept_quality intervals reserved_bad q =
     bind_result (if qi_flags q = 0 \<or> qi_flags q AND NOT mncwf_quality_known_flags \<noteq> 0 \<or>
           qi_last_sequence q < qi_first_sequence q then Inr True
         else reserved_bad) (\<lambda>bad.
     if bad then Inl (reject ''quality interval is invalid'') else Inr (intervals @ [q]))"

definition read_quality ::
    "bytes \<Rightarrow> mncwf_v4_quality_interval list \<Rightarrow> nat \<Rightarrow> mncwf_v4_quality_interval list result" where
  "read_quality records intervals index =
     (let record = subspan (index * 64) 64 records in
      bind_result (read_quality_fields record) (accept_quality intervals (quality_reserved record)))"

definition read_quality_intervals :: "mncwf_v4_section_info list \<Rightarrow> mncwf_v4_quality_interval list result" where
  "read_quality_intervals sections =
     bind_result (find_section sections Quality_intervals) (\<lambda>info.
     bind_result (parse_section_envelope info 64 0 (of_nat (mncwf_v4_max_metadata_section_bytes div 64)) False) (\<lambda>(records, _).
     fold_result (read_quality records) [] [0..<unat (si_item_count info)]))"

definition accept_lineage ::
    "mncwf_v4_lineage_entry list \<Rightarrow> bool result \<Rightarrow> mncwf_v4_lineage_entry \<times> u16 \<Rightarrow> mncwf_v4_lineage_entry list result" where
  "accept_lineage entries reserved_bad raw_entry =
     (let (l, relation) = raw_entry in
      bind_result (if \<not> valid_lineage_relation relation \<or> le_flags l \<noteq> 0 then Inr True
          else bind_result reserved_bad (\<lambda>d. Inr (d \<or> all_zero (le_related_capture_uuid l) \<or>
            le_last_sequence l < le_first_sequence l \<or> le_part_count l = 0 \<or> le_part_index l \<ge> le_part_count l))) (\<lambda>bad.
      if bad then Inl (reject ''lineage entry is invalid'')
      else Inr (entries @ [l\<lparr>le_relation := enum_cast relation_code relation_all relation\<rparr>])))"

definition read_lineage_entry ::
    "bytes \<Rightarrow> mncwf_v4_lineage_entry list \<Rightarrow> nat \<Rightarrow> mncwf_v4_lineage_entry list result" where
  "read_lineage_entry records entries index =
     (let record = subspan (index * 64) 64 records in
      bind_result (read_lineage_fields record) (accept_lineage entries (lineage_reserved record)))"

definition read_lineage :: "mncwf_v4_section_info list \<Rightarrow> mncwf_v4_lineage_entry list result" where
  "read_lineage sections =
     bind_result (find_section sections Lineage) (\<lambda>info.
     bind_result (parse_section_envelope info 64 0 mncwf_v4_max_lineage_entries False) (\<lambda>(records, _).
     fold_result (read_lineage_entry records) [] [0..<unat (si_item_count info)]))"

section \<open>Samples\<close>

text \<open>
  What the program uses of Zstandard; an error is the name \<^verbatim>\<open>ZSTD_getErrorName\<close> gives for it.
\<close>

record zstd_port =
  z_dctx_available :: bool
  z_bound_window :: "string + unit"
  z_find_frame_size :: "bytes \<Rightarrow> string + nat"
  z_content_size :: "bytes \<Rightarrow> u64"
  z_decompress :: "nat \<Rightarrow> bytes \<Rightarrow> string + bytes"

datatype mncwf_chunk_codec = Chunk_raw | Chunk_zstd

record mncwf_v5_chunk_info =
  ci_first_frame :: u64
  ci_frame_count :: u64
  ci_stored_offset :: u64
  ci_stored_bytes :: u64
  ci_logical_bytes :: u64
  ci_codec :: mncwf_chunk_codec
  ci_flags :: u16
  ci_logical_crc32c :: u32

definition mncwf_v5_chunk_entry_bytes :: nat where "mncwf_v5_chunk_entry_bytes = 56"
definition mncwf_v5_max_chunk_logical_bytes :: nat where "mncwf_v5_max_chunk_logical_bytes = 1024 * 1024"
definition mncwf_v5_max_chunks :: nat where "mncwf_v5_max_chunks = 4096"
definition mncwf_v5_chunk_frame_checksum :: u16 where "mncwf_v5_chunk_frame_checksum = 1"

definition require_zstd :: "string + 'a \<Rightarrow> string \<Rightarrow> 'a result" where
  "require_zstd r operation =
     (case r of Inl name \<Rightarrow> Inl (reject (operation @ '': '' @ name)) | Inr x \<Rightarrow> Inr x)"

text \<open>The window of a frame that is not a single segment, and the index behind its descriptor.\<close>

definition zstd_window :: "bytes \<Rightarrow> bool \<Rightarrow> (u64 \<times> nat) result" where
  "zstd_window frame single_segment =
     (if single_segment then Inr (0, 5)
      else if 5 \<ge> length frame then Inl (reject ''v5 Zstd window descriptor is truncated'')
      else let descriptor_byte = frame ! 5;
               window_base = push_bit (10 + unat (drop_bit 3 descriptor_byte)) (1 :: u64)
           in Inr (window_base + drop_bit 3 window_base * ucast (descriptor_byte AND 7), 6))"

definition validate_v5_zstd_frame :: "zstd_port \<Rightarrow> bytes \<Rightarrow> u64 \<Rightarrow> unit result" where
  "validate_v5_zstd_frame z frame expected_logical_bytes =
     (if length frame < 6 then Inl (reject ''v5 Zstd frame magic is invalid'')
      else
      bind_result (differs (read_u32 frame 0) 0xFD2FB528) (\<lambda>bad_magic.
      if bad_magic then Inl (reject ''v5 Zstd frame magic is invalid'')
      else
      let descriptor = frame ! 4; content_size_flag = unat (drop_bit 6 descriptor);
          single_segment = (descriptor AND 0x20 \<noteq> 0) in
      if descriptor AND 0x18 \<noteq> 0 \<or> descriptor AND 0x04 = 0 \<or> descriptor AND 0x03 \<noteq> 0
      then Inl (reject ''v5 Zstd frame options are unsupported'')
      else
      bind_result (zstd_window frame single_segment) (\<lambda>(window_bytes, cursor).
      let content_size_bytes = (if content_size_flag = 0 then (if single_segment then 1 else 0)
                                else 2 ^ content_size_flag) in
      if content_size_bytes = 0 \<or> cursor > length frame \<or> content_size_bytes > length frame - cursor
      then Inl (reject ''v5 Zstd frame content size is missing or truncated'')
      else
      let content_size = le_value (subspan cursor content_size_bytes frame) +
            (if content_size_bytes = 2 then 256 else 0);
          window_bytes = (if single_segment then content_size else window_bytes) in
      if content_size \<noteq> expected_logical_bytes then Inl (reject ''v5 Zstd frame content size is invalid'')
      else if unat window_bytes > mncwf_v5_max_chunk_logical_bytes
      then Inl (reject ''v5 Zstd frame window exceeds the 1 MiB limit'')
      else
      bind_result (require_zstd (z_find_frame_size z frame) ''validate v5 Zstd frame extent'') (\<lambda>frame_bytes.
      if frame_bytes \<noteq> length frame then Inl (reject ''v5 Zstd chunk must contain exactly one frame'')
      else Inr ()))))"

definition v5_envelope_differs :: "mncwf_v4_section_info \<Rightarrow> bool result" where
  "v5_envelope_differs s =
     (if length (si_data s) < mncwf_v4_section_header_bytes then Inr True
      else any_of
     [differs (read_u32 (si_data s) 0) (si_type s),
      differs (read_u16 (si_data s) 4) 2,
      differs (read_u16 (si_data s) 6) (of_nat mncwf_v4_section_header_bytes),
      differs (read_u32 (si_data s) 8) 0,
      differs (read_u32 (si_data s) 12) (si_item_bytes s),
      differs (read_u64 (si_data s) 16) (si_item_count s),
      differs (read_u64 (si_data s) 24) (of_nat mncwf_v4_section_header_bytes),
      differs (read_u64 (si_data s) 40) 0])"

text \<open>The fields of a chunk entry: the chunk with the default codec, the raw codec and the reserved field.\<close>

definition read_chunk_fields :: "bytes \<Rightarrow> nat \<Rightarrow> (mncwf_v5_chunk_info \<times> u16 \<times> u64) result" where
  "read_chunk_fields section_bytes entry =
     bind_result (read_u64 section_bytes entry) (\<lambda>first_frame.
     bind_result (read_u64 section_bytes (entry + 8)) (\<lambda>frame_count.
     bind_result (read_u64 section_bytes (entry + 16)) (\<lambda>stored_offset.
     bind_result (read_u64 section_bytes (entry + 24)) (\<lambda>stored_bytes.
     bind_result (read_u64 section_bytes (entry + 32)) (\<lambda>logical_bytes.
     bind_result (read_u16 section_bytes (entry + 40)) (\<lambda>codec.
     bind_result (read_u16 section_bytes (entry + 42)) (\<lambda>flags.
     bind_result (read_u32 section_bytes (entry + 44)) (\<lambda>crc.
     bind_result (read_u64 section_bytes (entry + 48)) (\<lambda>reserved.
     Inr (\<lparr>ci_first_frame = first_frame, ci_frame_count = frame_count, ci_stored_offset = stored_offset,
       ci_stored_bytes = stored_bytes, ci_logical_bytes = logical_bytes, ci_codec = Chunk_raw,
       ci_flags = flags, ci_logical_crc32c = crc\<rparr>, codec, reserved))))))))))"

definition chunk_invalid :: "u64 \<Rightarrow> u64 \<Rightarrow> u64 \<Rightarrow> mncwf_v5_chunk_info \<Rightarrow> u16 \<Rightarrow> u64 \<Rightarrow> bool" where
  "chunk_invalid expected_first_frame expected_stored_offset expected_logical c codec reserved \<longleftrightarrow>
     ci_first_frame c \<noteq> expected_first_frame \<or> ci_frame_count c = 0 \<or>
     ci_logical_bytes c \<noteq> expected_logical \<or>
     unat (ci_logical_bytes c) > mncwf_v5_max_chunk_logical_bytes \<or>
     ci_stored_offset c \<noteq> expected_stored_offset \<or> ci_stored_bytes c = 0 \<or> reserved \<noteq> 0 \<or>
     codec > 1 \<or>
     (if codec = 0 then ci_flags c \<noteq> 0 \<or> ci_stored_bytes c \<noteq> ci_logical_bytes c
      else ci_flags c \<noteq> mncwf_v5_chunk_frame_checksum \<or> ci_stored_bytes c \<ge> ci_logical_bytes c)"

type_synonym chunk_state = "u64 \<times> u64 \<times> mncwf_v5_chunk_info list"

definition read_sample_chunk :: "zstd_port \<Rightarrow> mncwf_v4_section_info \<Rightarrow> chunk_state \<Rightarrow> nat \<Rightarrow> chunk_state result" where
  "read_sample_chunk z info st index =
     (let (expected_first_frame, expected_stored_offset, chunks) = st; section_bytes = si_data info in
      bind_result (read_chunk_fields section_bytes (mncwf_v4_section_header_bytes + index * mncwf_v5_chunk_entry_bytes)) (\<lambda>(c, codec, reserved).
      bind_result (checked_multiply (ci_frame_count c) (ucast (si_item_bytes info)) ''v5 chunk logical bytes'') (\<lambda>expected_logical.
      if chunk_invalid expected_first_frame expected_stored_offset expected_logical c codec reserved
      then Inl (reject ''v5 sample chunk is invalid'')
      else
      bind_result (range_of section_bytes (ci_stored_offset c) (ci_stored_bytes c) ''v5 sample chunk'') (\<lambda>stored.
      bind_result (if codec = 1 then validate_v5_zstd_frame z stored (ci_logical_bytes c) else Inr ()) (\<lambda>_.
      bind_result (checked_add expected_first_frame (ci_frame_count c) ''v5 frame coverage'') (\<lambda>next_frame.
      bind_result (checked_add (ci_stored_offset c) (ci_stored_bytes c) ''v5 stored chunk'') (\<lambda>padding_begin.
      bind_result (align_eight padding_begin) (\<lambda>next_offset.
      if unat next_offset > length section_bytes then Inl (reject ''v5 chunk alignment exceeds the sample section'')
      else
      bind_result (if next_offset = padding_begin then Inr True
        else bind_result (range_of section_bytes padding_begin (next_offset - padding_begin) ''v5 chunk alignment padding'')
          (\<lambda>padding. Inr (all_zero padding))) (\<lambda>clean.
      if \<not> clean then Inl (reject ''v5 chunk alignment padding is nonzero'')
      else Inr (next_frame, next_offset,
        chunks @ [c\<lparr>ci_codec := (if codec = 1 then Chunk_zstd else Chunk_raw)\<rparr>]))))))))))"

definition read_chunk_table :: "zstd_port \<Rightarrow> mncwf_v4_section_info \<Rightarrow> mncwf_v5_chunk_info list result" where
  "read_chunk_table z info =
     (if unat (si_logical_bytes info) > mncwf_v4_max_file_bytes
      then Inl (reject ''v5 logical sample data exceeds the configured size bound'')
      else
      bind_result (v5_envelope_differs info) (\<lambda>bad.
      if bad then Inl (reject ''v5 sample-section envelope is invalid'')
      else
      bind_result (read_u64 (si_data info) 32) (\<lambda>table_bytes.
      if table_bytes = 0 \<or> table_bytes mod of_nat mncwf_v5_chunk_entry_bytes \<noteq> 0
      then Inl (reject ''v5 chunk table geometry is invalid'')
      else let chunk_count = unat table_bytes div mncwf_v5_chunk_entry_bytes in
      if chunk_count > mncwf_v5_max_chunks then Inl (reject ''v5 chunk count exceeds the allocation bound'')
      else
      bind_result (checked_add (of_nat mncwf_v4_section_header_bytes) table_bytes ''v5 chunk table'') (\<lambda>table_end.
      bind_result (range_of (si_data info) (of_nat mncwf_v4_section_header_bytes) table_bytes ''v5 chunk table'') (\<lambda>_.
      bind_result (align_eight table_end) (\<lambda>first_offset.
      bind_result (fold_result (read_sample_chunk z info) (0, first_offset, []) [0..<chunk_count]) (\<lambda>(frames, offset, chunks).
      if frames \<noteq> si_item_count info \<or> unat offset \<noteq> length (si_data info)
      then Inl (reject ''v5 chunk coverage is incomplete'')
      else Inr chunks)))))))"

text \<open>Expands one chunk into its place in the sample data.\<close>

definition expand_chunk :: "zstd_port \<Rightarrow> mncwf_v4_section_info \<Rightarrow> bytes \<Rightarrow> mncwf_v5_chunk_info \<Rightarrow> bytes result" where
  "expand_chunk z info samples c =
     bind_result (range_of (si_data info) (ci_stored_offset c) (ci_stored_bytes c) ''v5 sample chunk'') (\<lambda>stored.
     bind_result (checked_multiply (ci_first_frame c) (ucast (si_item_bytes info)) ''v5 decompressed offset'') (\<lambda>offset.
     bind_result
       (if ci_codec c = Chunk_raw then Inr stored
        else if z_content_size z stored \<noteq> ci_logical_bytes c
        then Inl (reject ''v5 Zstd frame content size is invalid'')
        else bind_result (require_zstd (z_decompress z (unat (ci_logical_bytes c)) stored) ''decompress v5 sample chunk'')
          (\<lambda>produced. if length produced \<noteq> unat (ci_logical_bytes c)
            then Inl (reject ''v5 Zstd frame decompressed size is invalid'') else Inr produced)) (\<lambda>logical.
     if mncwf_crc32c logical \<noteq> ci_logical_crc32c c
     then Inl (reject ''v5 sample chunk logical CRC32C mismatch'')
     else Inr (patch (unat offset) logical samples))))"

definition expand_chunks :: "zstd_port \<Rightarrow> mncwf_v4_section_info \<Rightarrow> mncwf_v5_chunk_info list \<Rightarrow> bytes result" where
  "expand_chunks z info chunks =
     (if \<not> z_dctx_available z then Inl (reject ''cannot allocate the Zstd decompression context'')
      else
      bind_result (require_zstd (z_bound_window z) ''bound Zstd decompression window'') (\<lambda>_.
      fold_result (expand_chunk z info) (zeros (unat (si_logical_bytes info))) chunks))"

text \<open>The chunk table and the sample data; a reader of metadata only leaves the samples alone.\<close>

definition read_samples ::
    "zstd_port \<Rightarrow> mncwf_validation_mode \<Rightarrow> u32 \<Rightarrow> mncwf_v4_section_info \<Rightarrow> (mncwf_v5_chunk_info list \<times> bytes) result" where
  "read_samples z mode version info =
     (if version = mncwf_v4_version then
        bind_result (parse_section_envelope info (si_item_bytes info) 1
          (of_nat mncwf_v4_max_file_bytes div ucast (si_item_bytes info)) False) (\<lambda>(records, _).
        Inr ([], if mode = Complete then records else []))
      else
        bind_result (read_chunk_table z info) (\<lambda>chunks.
        bind_result (if mode = Complete then expand_chunks z info chunks else Inr []) (\<lambda>samples.
        Inr (chunks, samples))))"

section \<open>The reader\<close>

record mncwf_v4_reader =
  rd_mode :: mncwf_validation_mode
  rd_header :: mncwf_v4_header
  rd_sections :: "mncwf_v4_section_info list"
  rd_capture_metadata :: mncwf_v4_capture_metadata
  rd_timebase_segments :: "mncwf_v4_timebase_segment list"
  rd_channels :: "mncwf_v4_channel_definition list"
  rd_events :: "mncwf_v4_event_descriptor list"
  rd_quality_intervals :: "mncwf_v4_quality_interval list"
  rd_lineage :: "mncwf_v4_lineage_entry list"
  rd_sample_chunks :: "mncwf_v5_chunk_info list"
  rd_sample_data :: bytes
  rd_sample_frame_count :: u64
  rd_sample_frame_bytes :: u32

definition sequence_is_stored :: "mncwf_v4_timebase_segment list \<Rightarrow> u64 \<Rightarrow> bool" where
  "sequence_is_stored segments sequence \<longleftrightarrow>
     list_ex (\<lambda>s. sequence \<ge> ts_first_sequence s \<and>
       sequence \<le> ts_first_sequence s + ts_source_frame_count s - 1) segments"

definition event_anchored :: "mncwf_v4_timebase_segment list \<Rightarrow> mncwf_v4_event_descriptor \<Rightarrow> bool" where
  "event_anchored segments e \<longleftrightarrow>
     \<not> (\<not> sequence_is_stored segments (ed_start_sequence e) \<or>
        event_flag e mncwf_event_current_valid \<and> \<not> sequence_is_stored segments (ed_current_sequence e) \<or>
        event_flag e mncwf_event_end_valid \<and> \<not> sequence_is_stored segments (ed_end_sequence e) \<or>
        event_flag e mncwf_event_trigger_valid \<and> \<not> sequence_is_stored segments (ed_trigger_sequence e))"

definition quality_checks :: "u64 \<Rightarrow> nat \<Rightarrow> mncwf_v4_quality_interval \<Rightarrow> (bool \<times> exn) list" where
  "quality_checks sample_frame_count channel_count q =
     [(\<not> (qi_first_frame q > sample_frame_count \<or> qi_frame_count q > sample_frame_count - qi_first_frame q),
       reject ''quality interval lies outside the sample data''),
      (\<not> (channel_count < 64 \<and> drop_bit channel_count (qi_channel_mask q) \<noteq> 0),
       reject ''quality interval references an unknown channel'')]"

definition mncwf_reader :: "zstd_port \<Rightarrow> mncwf_validation_mode \<Rightarrow> bytes \<Rightarrow> mncwf_v4_reader result" where
  "mncwf_reader z mode bs =
     bind_result (read_container mode bs) (\<lambda>(h, sections).
     bind_result (read_capture sections) (\<lambda>capture.
     bind_result (read_timebase sections) (\<lambda>(covered_frames, _, segments).
     bind_result (read_channels sections) (\<lambda>(expected_frame_bytes, definitions).
     bind_result (read_events sections) (\<lambda>events.
     bind_result (read_quality_intervals sections) (\<lambda>intervals.
     bind_result (read_lineage sections) (\<lambda>lineage.
     bind_result (find_section sections Sample_data) (\<lambda>info.
     if si_item_bytes info = 0 \<or> ucast (si_item_bytes info) \<noteq> expected_frame_bytes
     then Inl (reject ''sample frame size disagrees with channel definitions'')
     else
     bind_result (read_samples z mode (h_version h) info) (\<lambda>(chunks, samples).
     if covered_frames \<noteq> si_item_count info then Inl (reject ''timebase segments do not cover every sample frame'')
     else
     bind_result (require_all (map (\<lambda>e. (event_anchored segments e, reject ''event anchor lies outside the capture'')) events)) (\<lambda>_.
     bind_result (require_all (concat (map (quality_checks (si_item_count info) (length definitions)) intervals))) (\<lambda>_.
     Inr \<lparr>rd_mode = mode, rd_header = h, rd_sections = sections, rd_capture_metadata = capture,
       rd_timebase_segments = segments, rd_channels = definitions, rd_events = events,
       rd_quality_intervals = intervals, rd_lineage = lineage, rd_sample_chunks = chunks,
       rd_sample_data = samples, rd_sample_frame_count = si_item_count info,
       rd_sample_frame_bytes = si_item_bytes info\<rparr>)))))))))))"

definition sample_frame :: "mncwf_v4_reader \<Rightarrow> u64 \<Rightarrow> bytes result" where
  "sample_frame r index =
     (if rd_mode r \<noteq> Complete
      then Inl (Logic_error ''MNCWF sample data was not materialized by the metadata-only reader'')
      else if index \<ge> rd_sample_frame_count r then Inl (Out_of_range ''MNCWF sample frame index'')
      else bind_result (checked_multiply index (ucast (rd_sample_frame_bytes r)) ''sample frame offset'') (\<lambda>offset.
        Inr (subspan (unat offset) (unat (rd_sample_frame_bytes r)) (rd_sample_data r))))"

section \<open>The encoder\<close>

definition encode_sections :: "mncwf_v4_document \<Rightarrow> encoded_section list result" where
  "encode_sections d =
     bind_result (encode_capture (doc_capture_metadata d)) (\<lambda>capture.
     bind_result (encode_timebase (doc_timebase_segments d)) (\<lambda>timebase.
     bind_result (encode_channels (doc_channels d)) (\<lambda>definitions.
     bind_result (encode_events (doc_events d)) (\<lambda>events.
     bind_result (encode_quality (doc_quality_intervals d)) (\<lambda>intervals.
     bind_result (encode_lineage (doc_lineage d)) (\<lambda>lineage.
     bind_result (enveloped_section Sample_data (doc_sample_frame_count d) (doc_sample_frame_bytes d)
       (doc_sample_data d) []) (\<lambda>samples.
     Inr [capture, timebase, definitions, events, intervals, lineage, samples])))))))"

text \<open>Places sections one after the other at multiples of eight; the last component is the end.\<close>

fun layout_sections :: "u64 \<Rightarrow> nat list \<Rightarrow> (u64 list \<times> u64) result" where
  "layout_sections next_offset [] = Inr ([], next_offset)"
| "layout_sections next_offset (n # ns) =
     bind_result (checked_add next_offset (of_nat n) ''encoded file'') (\<lambda>e.
     bind_result (align_eight e) (\<lambda>after.
     bind_result (layout_sections after ns) (\<lambda>(offsets, file_bytes).
     Inr (next_offset # offsets, file_bytes))))"

definition header_writes :: "nat \<Rightarrow> u64 \<Rightarrow> u64 \<Rightarrow> writer list" where
  "header_writes section_count directory_bytes file_bytes =
     [copy_bytes 0 mncwf_magic,
      put_u32 8 mncwf_v4_version,
      put_u32 12 (of_nat mncwf_v4_header_bytes),
      put_u32 16 (of_nat mncwf_v4_directory_entry_bytes),
      put_u32 20 (of_nat section_count),
      put_u64 24 (of_nat mncwf_v4_header_bytes),
      put_u64 32 directory_bytes,
      put_u64 40 file_bytes]"

definition directory_writes :: "nat \<Rightarrow> encoded_section \<Rightarrow> u64 \<Rightarrow> writer list" where
  "directory_writes directory s offset =
     [put_u32 (directory + 0) (section_code (es_type s)),
      put_u16 (directory + 4) 1,
      put_u16 (directory + 6) mncwf_v4_section_required,
      put_u64 (directory + 8) offset,
      put_u64 (directory + 16) (of_nat (length (es_payload s))),
      put_u64 (directory + 24) (of_nat (length (es_payload s))),
      put_u64 (directory + 32) (es_item_count s),
      put_u32 (directory + 40) (es_item_bytes s),
      put_u32 (directory + 44) (mncwf_crc32c (es_payload s))]"

definition section_file_writes :: "encoded_section list \<Rightarrow> u64 list \<Rightarrow> nat \<Rightarrow> writer list" where
  "section_file_writes sections offsets index =
     directory_writes (mncwf_v4_header_bytes + index * mncwf_v4_directory_entry_bytes)
       (sections ! index) (offsets ! index) @
     [copy_bytes (unat (offsets ! index)) (es_payload (sections ! index))]"

text \<open>The checksums of the directory and of the header, in this order.\<close>

definition seal_file :: "nat \<Rightarrow> writer" where
  "seal_file directory_bytes file =
     bind_result (put_u32 52 (mncwf_crc32c (subspan mncwf_v4_header_bytes directory_bytes file)) file) (\<lambda>file.
     bind_result (put_u32 56 0 file) (\<lambda>file.
     put_u32 56 (mncwf_crc32c (take mncwf_v4_header_bytes file)) file))"

definition encode_mncwf_v4 :: "zstd_port \<Rightarrow> mncwf_v4_document \<Rightarrow> bytes result" where
  "encode_mncwf_v4 z d =
     bind_result (checked_multiply (doc_sample_frame_count d) (ucast (doc_sample_frame_bytes d)) ''encoded sample data'') (\<lambda>sample_bytes.
     if length (doc_sample_data d) \<noteq> unat sample_bytes then Inl (reject ''encoder sample geometry is inconsistent'')
     else
     bind_result (encode_sections d) (\<lambda>sections.
     bind_result (checked_multiply (of_nat (length sections)) (of_nat mncwf_v4_directory_entry_bytes) ''encoded directory'') (\<lambda>directory_bytes.
     bind_result (checked_add (of_nat mncwf_v4_header_bytes) directory_bytes ''encoded directory'') (\<lambda>directory_end.
     bind_result (align_eight directory_end) (\<lambda>first_offset.
     bind_result (layout_sections first_offset (map (\<lambda>s. length (es_payload s)) sections)) (\<lambda>(offsets, file_bytes).
     if unat file_bytes > mncwf_v4_max_file_bytes then Inl (reject ''encoded file exceeds the 512 MiB bound'')
     else
     bind_result (writes (header_writes (length sections) directory_bytes file_bytes) (zeros (unat file_bytes))) (\<lambda>file.
     bind_result (writes (concat (map (section_file_writes sections offsets) [0..<length sections])) file) (\<lambda>file.
     bind_result (seal_file (unat directory_bytes) file) (\<lambda>file.
     bind_result (mncwf_reader z Complete file) (\<lambda>_. Inr file))))))))))"
end
