(* ===== verification/Mncwf_Integrity.thy ===== *)
theory Mncwf_Integrity
  imports Mncwf_Reader
begin

text \<open>
  What the checks of the MNCWF reader achieve: no file that differs from an accepted one in a single
  byte is accepted, and the reader returns exactly the document that the encoder was given.
\<close>

unbundle bit_operations_syntax

lemma reader_consts [simp]:
  "mncwf_v4_header_bytes = 64" "mncwf_v4_directory_entry_bytes = 56"
  "mncwf_v4_mandatory_section_count = 7" "mncwf_v4_max_sections = 64"
  by (simp_all add: mncwf_v4_header_bytes_def mncwf_v4_directory_entry_bytes_def
      mncwf_v4_mandatory_section_count_def mncwf_v4_max_sections_def)


section \<open>Single changed bytes\<close>

text \<open>A loop whose turns each append one item that satisfies a relation to the loop index.\<close>

lemma fold_result_items:
  assumes "\<And>s x s'. f s x = Inr s' \<Longrightarrow> \<exists>y. items s' = items s @ [y] \<and> P x y"
    and "fold_result f s xs = Inr s'"
  shows "\<exists>ys. items s' = items s @ ys \<and> list_all2 P xs ys"
  using assms(2)
proof (induction xs arbitrary: s)
  case Nil
  then show ?case by simp
next
  case (Cons x xs)
  then obtain s1 where s1: "f s x = Inr s1" "fold_result f s1 xs = Inr s'" by auto
  from assms(1) [OF s1(1)] obtain y where y: "items s1 = items s @ [y]" "P x y" by blast
  from Cons.IH [OF s1(2)] obtain ys where "items s' = items s1 @ ys" "list_all2 P xs ys" by blast
  with y show ?case by (intro exI [of _ "y # ys"]) simp
qed

lemma read_field_update_other:
  "i < offset \<or> offset + w \<le> i \<Longrightarrow> read_field w m (bs[i := b]) offset = read_field w m bs offset"
proof -
  assume "i < offset \<or> offset + w \<le> i"
  then have "subspan offset w (bs[i := b]) = subspan offset w bs"
    by (intro nth_equalityI) (auto simp: length_subspan nth_subspan nth_list_update)
  then show ?thesis by (simp add: read_field_def)
qed

lemma nth_updated: "j < length xs \<Longrightarrow> xs[i := b] ! j = (if i = j then b else xs ! j)"
  by (cases "i = j") simp_all

lemma subspan_update:
  "subspan offset n (bs[i := b]) =
   (if offset \<le> i \<and> i < offset + n then (subspan offset n bs)[i - offset := b] else subspan offset n bs)"
  by (auto intro!: nth_equalityI simp: length_subspan nth_subspan nth_updated)

lemma crc32c_update_one:
  assumes "i < length bs" "b \<noteq> bs ! i"
  shows "mncwf_crc32c (bs[i := b]) \<noteq> mncwf_crc32c bs"
proof -
  have "bs = take i bs @ [bs ! i] @ drop (Suc i) bs" "bs[i := b] = take i bs @ [b] @ drop (Suc i) bs"
    using assms(1) by (simp_all add: id_take_nth_drop upd_conv_take_nth_drop)
  then show ?thesis using crc32c_burst [of "[b]" "[bs ! i]" "take i bs" "drop (Suc i) bs"] assms(2)
    by simp
qed

text \<open>What an accepted header says, as far as it decides where the rest lies.\<close>

lemma read_header_Inr:
  assumes "read_header bs = Inr (h, directory)"
  shows "64 \<le> length bs \<and> length bs \<le> 536870912 \<and> h_directory_offset h = 64 \<and>
    unat (h_directory_bytes h) = unat (h_section_count h) * 56 \<and>
    directory = subspan 64 (unat (h_directory_bytes h)) bs \<and> 64 + unat (h_directory_bytes h) \<le> length bs \<and>
    read_u32 bs 52 = Inr (mncwf_crc32c directory) \<and> read_u32 bs 56 = Inr (mncwf_crc32c (header_copy bs)) \<and>
    read_u32 bs 8 = Inr (h_version h) \<and> read_u32 bs 20 = Inr (h_section_count h) \<and>
    (\<exists>crc hcrc. read_header_fields bs (h_version h) = Inr (h, crc, hcrc, 0))"
proof -
  from assms obtain version dcrc hcrc where
    len: "64 \<le> length bs" "length bs \<le> 536870912" and
    v: "read_u32 bs 8 = Inr version" and
    fields: "read_header_fields bs version = Inr (h, dcrc, hcrc, 0)" and
    geo: "h_directory_offset h = 64"
      "checked_multiply (ucast (h_section_count h)) 56 ''directory'' = Inr (h_directory_bytes h)" and
    crc: "mncwf_crc32c (header_copy bs) = hcrc"
      "range_of bs 64 (h_directory_bytes h) ''directory'' = Inr directory" "mncwf_crc32c directory = dcrc"
    by (auto simp: read_header_def differs_def split: if_splits)
  from fields have "h_version h = version" "read_u32 bs 20 = Inr (h_section_count h)"
    "read_u32 bs 52 = Inr dcrc" "read_u32 bs 56 = Inr hcrc"
    by (auto simp: read_header_fields_def)
  with len v fields geo crc show ?thesis by (simp add: checked_simps)
qed

lemma read_directory_Inr:
  assumes "read_directory bs h directory = Inr sections"
  shows "list_all2 (\<lambda>k s. \<exists>e. read_directory_entry directory (k * 56) = Inr e \<and>
      unat (si_offset e) + unat (si_stored_bytes e) \<le> length bs \<and>
      s = e\<lparr>si_data := subspan (unat (si_offset e)) (unat (si_stored_bytes e)) bs\<rparr>)
    [0..<unat (h_section_count h)] sections"
proof -
  from assms obtain present where
    "fold_result (read_section bs (h_version h) directory) (replicate 7 False, []) [0..<unat (h_section_count h)] =
      Inr (present, sections)"
    by (auto simp: read_directory_def mncwf_v4_mandatory_section_count_def split: if_splits)
  then have "\<exists>ys. snd (present, sections) = snd (replicate 7 False, []) @ ys \<and>
    list_all2 (\<lambda>k s. \<exists>e. read_directory_entry directory (k * 56) = Inr e \<and>
      unat (si_offset e) + unat (si_stored_bytes e) \<le> length bs \<and>
      s = e\<lparr>si_data := subspan (unat (si_offset e)) (unat (si_stored_bytes e)) bs\<rparr>)
    [0..<unat (h_section_count h)] ys"
    by (rule fold_result_items [rotated])
      (auto simp: read_section_def checked_simps split: if_splits prod.splits)
  then show ?thesis by simp
qed

lemma section_extents_Inr:
  "section_extents sections = Inr xs \<Longrightarrow>
   xs = map (\<lambda>s. (si_offset s, si_offset s + si_stored_bytes s)) sections \<and>
   (\<forall>s\<in>set sections. unat (si_offset s + si_stored_bytes s) = unat (si_offset s) + unat (si_stored_bytes s))"
proof (induction sections arbitrary: xs)
  case (Cons s sections)
  then obtain e where e: "checked_add (si_offset s) (si_stored_bytes s) ''section extent'' = Inr e"
    by (auto simp: section_extents_def)
  then have "unat (si_offset s + si_stored_bytes s) = unat (si_offset s) + unat (si_stored_bytes s)"
    "e = si_offset s + si_stored_bytes s"
    by (simp_all add: checked_simps unat_add_lem [THEN iffD1] word_unat_eq_iff)
  then show ?case using Cons e by (auto simp: section_extents_def)
qed (simp add: section_extents_def)

text \<open>Checked extents cover the bytes between their first and last cursor, up to zero padding.\<close>

lemma check_extent_covers:
  assumes "fold_result (check_extent bs) cursor extents = Inr cursor'"
    "unat cursor \<le> i" "i < unat cursor'"
  shows "(\<exists>(b, e)\<in>set extents. unat b \<le> i \<and> i < unat e) \<or> i < length bs \<and> bs ! i = 0"
  using assms
proof (induction extents arbitrary: cursor)
  case Nil
  then show ?case by simp
next
  case (Cons x extents)
  obtain b e where x: "x = (b, e)" by (cases x)
  from Cons.prems(1) x obtain c where c: "check_extent bs cursor (b, e) = Inr c"
    "fold_result (check_extent bs) c extents = Inr cursor'" by auto
  from c(1) have b: "b = cursor" and uc: "unat c = align_nat (unat e)"
    and pad: "e \<noteq> c \<Longrightarrow> all_zero (subspan (unat e) (unat (c - e)) bs)" "unat c \<le> length bs"
    by (auto simp: check_extent_def checked_simps split: if_splits)
  show ?case
  proof (cases "i < unat c")
    case False
    then show ?thesis using Cons.IH [OF c(2)] Cons.prems(3) x by auto
  next
    case True
    show ?thesis
    proof (cases "i < unat e")
      case True
      then show ?thesis using x b Cons.prems(2) by auto
    next
      case False
      have le: "unat e \<le> unat c" using uc align_nat_bounds(1) [of "unat e"] by simp
      then have sub: "unat (c - e) = unat c - unat e" by (simp add: unat_sub word_le_nat_alt)
      have "e \<noteq> c" using False \<open>i < unat c\<close> by auto
      from pad(1) [OF this] have "list_all (\<lambda>b. b = 0) (subspan (unat e) (unat c - unat e) bs)"
        by (simp add: all_zero_def sub)
      moreover have "subspan (unat e) (unat c - unat e) bs ! (i - unat e) = bs ! i"
        using False \<open>i < unat c\<close> pad(2) by (simp add: nth_subspan)
      ultimately have "bs ! i = 0" using False \<open>i < unat c\<close> pad(2) le
        by (simp add: list_all_length)
      then show ?thesis using \<open>i < unat c\<close> pad(2) by simp
    qed
  qed
qed

lemma check_extents_cover:
  assumes "check_extents bs h sections = Inr ()"
    "align_nat (unat (h_directory_offset h) + unat (h_directory_bytes h)) \<le> i" "i < length bs"
  shows "(\<exists>s\<in>set sections. unat (si_offset s) \<le> i \<and> i < unat (si_offset s) + unat (si_stored_bytes s)) \<or>
    bs ! i = 0"
proof -
  from assms(1) obtain xs d c c' where
    xs: "section_extents sections = Inr xs" and
    d: "checked_add (h_directory_offset h) (h_directory_bytes h) ''directory extent'' = Inr d" and
    c: "align_eight d = Inr c" and run: "fold_result (check_extent bs) c (sort_extents xs) = Inr c'" and
    "unat c' = length bs"
    by (auto simp: check_extents_def split: if_splits)
  then have "unat c \<le> i" "i < unat c'" using assms(2,3) by (simp_all add: checked_simps)
  from check_extent_covers [OF run this]
  have "(\<exists>(b, e)\<in>set xs. unat b \<le> i \<and> i < unat e) \<or> bs ! i = 0"
    by (auto simp: sort_extents_def)
  with section_extents_Inr [OF xs] show ?thesis by fastforce
qed

lemma section_in_file:
  assumes "read_directory bs h directory = Inr sections" "s \<in> set sections"
  shows "unat (si_offset s) + unat (si_stored_bytes s) \<le> length bs"
    "si_data s = subspan (unat (si_offset s)) (unat (si_stored_bytes s)) bs"
  using read_directory_Inr [OF assms(1)] assms(2)
  by (auto simp: list_all2_conv_all_nth in_set_conv_nth)

text \<open>A reader of the same directory in another file finds the same entries, with other data.\<close>

lemma same_directory_entries:
  assumes "read_directory bs h directory = Inr sections" "read_directory bs' h directory = Inr sections'"
    "s \<in> set sections"
  shows "\<exists>s'\<in>set sections'. si_offset s' = si_offset s \<and> si_stored_bytes s' = si_stored_bytes s \<and>
    si_crc32c s' = si_crc32c s"
proof -
  from assms(3) obtain k where k: "k < length sections" "s = sections ! k" by (auto simp: in_set_conv_nth)
  note 1 = read_directory_Inr [OF assms(1), unfolded list_all2_conv_all_nth]
  note 2 = read_directory_Inr [OF assms(2), unfolded list_all2_conv_all_nth]
  from 1 2 k have "k < length sections'" by simp
  with 1 2 k show ?thesis by (intro bexI [of _ "sections' ! k"]) fastforce+
qed

lemma header_copy_update:
  assumes "i < 64" "64 \<le> length bs"
  shows "header_copy (bs[i := b]) = (if 56 \<le> i \<and> i < 60 then header_copy bs else (header_copy bs)[i := b])"
  using assms
  by (auto intro!: nth_equalityI simp: header_copy_def nth_patch nth_updated)

lemma read_u32_update_same:
  assumes "read_u32 (bs[i := b]) k = read_u32 bs k" "k \<le> i" "i < k + 4" "k + 4 \<le> length bs"
  shows "b = bs ! i"
proof -
  have "le_value (subspan k 4 (bs[i := b])) = (le_value (subspan k 4 bs) :: u32)"
    using assms by (simp add: read_u32_def read_field_within)
  then have "le_bytes 4 (le_value (subspan k 4 (bs[i := b])) :: u32) = le_bytes 4 (le_value (subspan k 4 bs) :: u32)"
    by simp
  then have "subspan k 4 (bs[i := b]) = subspan k 4 bs"
    using assms(4) by (simp add: le_bytes_le_value)
  then have "subspan k 4 (bs[i := b]) ! (i - k) = subspan k 4 bs ! (i - k)" by simp
  then show ?thesis using assms by (simp add: nth_subspan)
qed

lemma header_fields_update:
  "64 \<le> i \<Longrightarrow> read_header_fields (bs[i := b]) v = read_header_fields bs v \<and> read_u32 (bs[i := b]) 8 = read_u32 bs 8 \<and>
     read_u32 (bs[i := b]) 52 = read_u32 bs 52"
  by (simp add: read_header_fields_def read_defs read_field_update_other)

lemma read_container_Inr:
  assumes "read_container Complete bs = Inr (h, sections)"
  shows "\<exists>directory. read_header bs = Inr (h, directory) \<and> read_directory bs h directory = Inr sections \<and>
    check_extents bs h sections = Inr () \<and> (\<forall>s\<in>set sections. mncwf_crc32c (si_data s) = si_crc32c s)"
  using assms by (fastforce simp: read_container_def check_section_crc_def)

text \<open>The three places of a changed byte.\<close>

lemma header_byte_rejected:
  assumes "read_header bs = Inr x" "i < 64" "b \<noteq> bs ! i"
  shows "read_header (bs[i := b]) \<noteq> Inr y"
proof
  assume y: "read_header (bs[i := b]) = Inr y"
  obtain h d h' d' where "x = (h, d)" "y = (h', d')" by (cases x, cases y)
  with assms(1) y read_header_Inr [of bs h d] read_header_Inr [of "bs[i := b]" h' d']
  have len: "64 \<le> length bs" and crc: "read_u32 bs 56 = Inr (mncwf_crc32c (header_copy bs))"
    "read_u32 (bs[i := b]) 56 = Inr (mncwf_crc32c (header_copy (bs[i := b])))" by auto
  show False
  proof (cases "56 \<le> i \<and> i < 60")
    case True
    then have "read_u32 (bs[i := b]) 56 = read_u32 bs 56"
      using crc header_copy_update [OF assms(2) len, of b] by simp
    then show False using read_u32_update_same [of bs i b 56] True len assms(3) by simp
  next
    case False
    then have "read_u32 (bs[i := b]) 56 = read_u32 bs 56"
      by (auto simp: read_u32_def intro!: read_field_update_other)
    moreover have "i < length (header_copy bs)" "header_copy bs ! i = bs ! i"
      using False assms(2) len by (auto simp: header_copy_def nth_patch)
    ultimately show False
      using crc32c_update_one [of i "header_copy bs" b] crc header_copy_update [OF assms(2) len, of b] False assms(3)
      by simp
  qed
qed

lemma directory_byte_rejected:
  assumes "read_header bs = Inr (h, directory)" "64 \<le> i" "i < 64 + unat (h_directory_bytes h)" "b \<noteq> bs ! i"
  shows "read_header (bs[i := b]) \<noteq> Inr y"
proof
  assume y: "read_header (bs[i := b]) = Inr y"
  obtain h' d' where y': "y = (h', d')" by (cases y)
  note 1 = read_header_Inr [OF assms(1)] and 2 = read_header_Inr [OF y [unfolded y']]
  have "h' = h" using 1 2 header_fields_update [OF assms(2), of bs b] by auto
  then have "d' = directory[i - 64 := b]" using 1 2 assms(2,3) by (simp add: subspan_update)
  moreover have "mncwf_crc32c d' = mncwf_crc32c directory"
    using 1 2 header_fields_update [OF assms(2), of bs b] by auto
  moreover have "i - 64 < length directory" "directory ! (i - 64) = bs ! i"
    using 1 assms(2,3) by (simp_all add: nth_subspan)
  ultimately show False using crc32c_update_one [of "i - 64" directory b] assms(4) by simp
qed

lemma container_byte_rejected:
  assumes ok: "read_container Complete bs = Inr (h, sections)" and i: "i < length bs" and b: "b \<noteq> bs ! i"
  shows "read_container Complete (bs[i := b]) \<noteq> Inr x"
proof
  assume "read_container Complete (bs[i := b]) = Inr x"
  then obtain h' sections' where ok': "read_container Complete (bs[i := b]) = Inr (h', sections')"
    by (cases x) auto
  from read_container_Inr [OF ok] obtain d where 1: "read_header bs = Inr (h, d)"
    "read_directory bs h d = Inr sections" "check_extents bs h sections = Inr ()"
    "\<And>s. s \<in> set sections \<Longrightarrow> mncwf_crc32c (si_data s) = si_crc32c s" by blast
  from read_container_Inr [OF ok'] obtain d' where 2: "read_header (bs[i := b]) = Inr (h', d')"
    "read_directory (bs[i := b]) h' d' = Inr sections'" "check_extents (bs[i := b]) h' sections' = Inr ()"
    "\<And>s. s \<in> set sections' \<Longrightarrow> mncwf_crc32c (si_data s) = si_crc32c s" by blast
  have i64: "64 \<le> i" using header_byte_rejected [OF 1(1) _ b] 2(1) by (metis not_less)
  then have idir: "64 + unat (h_directory_bytes h) \<le> i"
    using directory_byte_rejected [OF 1(1) i64 _ b] 2(1) by (metis not_less)
  note H = read_header_Inr [OF 1(1)] and H' = read_header_Inr [OF 2(1)]
  have h: "h' = h" using H H' header_fields_update [OF i64, of bs b] by auto
  then have d: "d' = d" using H H' idir by (simp add: subspan_update)
  have "8 dvd 64 + unat (h_directory_bytes h)" using H by presburger
  then have al: "align_nat (unat (h_directory_offset h) + unat (h_directory_bytes h)) \<le> i"
    using H idir by simp
  show False
  proof (cases "\<exists>s\<in>set sections'. unat (si_offset s) \<le> i \<and> i < unat (si_offset s) + unat (si_stored_bytes s)")
    case True
    then obtain s' where s': "s' \<in> set sections'" "unat (si_offset s') \<le> i"
      "i < unat (si_offset s') + unat (si_stored_bytes s')" by blast
    from same_directory_entries [OF 2(2) [unfolded h d] 1(2) s'(1)] obtain s where s: "s \<in> set sections"
      "si_offset s = si_offset s'" "si_stored_bytes s = si_stored_bytes s'" "si_crc32c s = si_crc32c s'" by blast
    note data = section_in_file [OF 1(2) s(1)] section_in_file [OF 2(2) s'(1)]
    have "si_data s' = (si_data s)[i - unat (si_offset s) := b]"
      using data s s' by (simp add: subspan_update)
    moreover have "i - unat (si_offset s) < length (si_data s)" "si_data s ! (i - unat (si_offset s)) = bs ! i"
      using data s s' by (simp_all add: nth_subspan)
    ultimately show False
      using crc32c_update_one [of "i - unat (si_offset s)" "si_data s" b] b 1(4) [OF s(1)] 2(4) [OF s'(1)] s(4) by simp
  next
    case False
    then have "\<not> (\<exists>s\<in>set sections. unat (si_offset s) \<le> i \<and> i < unat (si_offset s) + unat (si_stored_bytes s))"
      using same_directory_entries [OF 1(2) 2(2) [unfolded h d]] by metis
    then have "bs ! i = 0" using check_extents_cover [OF 1(3) al i] by blast
    moreover have "(bs[i := b]) ! i = 0"
      using check_extents_cover [OF 2(3) [unfolded h] al] i False by simp
    ultimately show False using b i by simp
  qed
qed
end
