(* ===== verification/Mncwf_Roundtrip.thy ===== *)
theory Mncwf_Roundtrip
  imports Mncwf_Integrity
begin

text \<open>
  Every valid document can be encoded, and the reader returns exactly that document. The theory
  follows the encoder: where the sections lie, the bytes of the finished file as a concatenation
  of header, directory and padded sections, and then the checks of the reader one by one.
\<close>

unbundle bit_operations_syntax

section \<open>Layout\<close>

lemma align_nat_add: "8 dvd a \<Longrightarrow> align_nat (a + n) = a + align_nat n"
  unfolding align_nat_def by (elim dvdE) presburger

lemma layout_sections_total:
  assumes "8 dvd unat next_offset" "unat next_offset + sum_list (map align_nat ns) < 2 ^ 62"
  shows "\<exists>offsets file_bytes. layout_sections next_offset ns = Inr (offsets, file_bytes) \<and>
    length offsets = length ns \<and> unat file_bytes = unat next_offset + sum_list (map align_nat ns) \<and>
    (\<forall>k<length ns. unat (offsets ! k) = unat next_offset + sum_list (map align_nat (take k ns)))"
  using assms
proof (induction ns arbitrary: next_offset)
  case Nil
  then show ?case by simp
next
  case (Cons n ns)
  have n: "n \<le> align_nat n" "unat next_offset + align_nat n < 2 ^ 62" using Cons.prems align_nat_bounds(1) [of n] by auto
  define e where "e = next_offset + of_nat n"
  define after where "after = (e + 7) AND NOT 7"
  have un: "unat (of_nat n :: u64) = n" using n by (intro unat_of_nat_u64) simp
  have ue: "unat e = unat next_offset + n" unfolding e_def using n un by (subst unat_add_lem [THEN iffD1]) simp_all
  have add: "checked_add next_offset (of_nat n) ''encoded file'' = Inr e"
    using n un ue by (simp add: checked_simps)
  have "unat (e + 7) = unat e + 7" using n ue by (subst unat_add_lem [THEN iffD1]) simp_all
  then have ua: "unat after = unat next_offset + align_nat n"
    using align_nat_add [OF Cons.prems(1), of n] by (simp add: after_def ue align_nat_def)
  have al: "align_eight e = Inr after"
    using n ue ua align_nat_add [OF Cons.prems(1), of n] by (simp add: checked_simps)
  have "8 dvd unat after" using Cons.prems(1) align_nat_bounds(3) [of n] by (simp add: ua)
  moreover have "unat after + sum_list (map align_nat ns) < 2 ^ 62" using Cons.prems(2) ua by simp
  ultimately obtain offsets file_bytes where "layout_sections after ns = Inr (offsets, file_bytes)"
    "length offsets = length ns" "unat file_bytes = unat after + sum_list (map align_nat ns)"
    "\<forall>k<length ns. unat (offsets ! k) = unat after + sum_list (map align_nat (take k ns))"
    using Cons.IH by blast
  then show ?case using add al ua
    by (auto simp: nth_Cons' less_Suc_eq_0_disj)
qed

section \<open>Buffers as concatenations\<close>

lemma zeros_add: "zeros (m + n) = zeros m @ zeros n"
  by (simp add: zeros_def replicate_add)

lemma patch_zeros:
  "length a = k \<Longrightarrow> length xs \<le> m \<Longrightarrow> patch k xs (a @ zeros m @ b) = a @ xs @ zeros (m - length xs) @ b"
  by (simp add: patch_def zeros_def)

lemma patch_front: "k + length xs \<le> length e \<Longrightarrow> patch k xs (e @ c) = patch k xs e @ c"
  by (simp add: patch_def)

lemma patch_middle:
  "length a \<le> k \<Longrightarrow> k + length xs \<le> length a + length e \<Longrightarrow>
   patch k xs (a @ e @ c) = a @ patch (k - length a) xs e @ c"
  by (simp add: patch_def)

text \<open>The bytes of a directory entry and of a header before its checksums.\<close>

definition directory_entry :: "encoded_section \<Rightarrow> u64 \<Rightarrow> bytes" where
  "directory_entry s offset =
     patch 44 (le_bytes 4 (mncwf_crc32c (es_payload s))) (patch 40 (le_bytes 4 (es_item_bytes s))
     (patch 32 (le_bytes 8 (es_item_count s)) (patch 24 (le_bytes 8 (of_nat (length (es_payload s)) :: u64))
     (patch 16 (le_bytes 8 (of_nat (length (es_payload s)) :: u64)) (patch 8 (le_bytes 8 offset)
     (patch 6 (le_bytes 2 (1 :: u16)) (patch 4 (le_bytes 2 (1 :: u16))
     (patch 0 (le_bytes 4 (section_code (es_type s))) (zeros 56)))))))))"

definition header_bytes :: "nat \<Rightarrow> u64 \<Rightarrow> u64 \<Rightarrow> bytes" where
  "header_bytes section_count directory_bytes file_bytes =
     patch 40 (le_bytes 8 file_bytes) (patch 32 (le_bytes 8 directory_bytes) (patch 24 (le_bytes 8 (64 :: u64))
     (patch 20 (le_bytes 4 (of_nat section_count :: u32)) (patch 16 (le_bytes 4 (56 :: u32))
     (patch 12 (le_bytes 4 (64 :: u32)) (patch 8 (le_bytes 4 (4 :: u32)) (patch 0 mncwf_magic (zeros 64))))))))"

lemma length_directory_entry [simp]: "length (directory_entry s offset) = 56"
  by (simp add: directory_entry_def)

lemma length_header_bytes [simp]: "length (header_bytes n d f) = 64"
  by (simp add: header_bytes_def)

lemma directory_writes_run:
  assumes "length a = base"
  shows "writes (directory_writes base s offset) (a @ zeros 56 @ c) = Inr (a @ directory_entry s offset @ c)"
  using assms
  by (simp add: directory_writes_def directory_entry_def put_defs patch_middle mncwf_v4_section_required_def)

lemma header_writes_run:
  "writes (header_writes n d f) (zeros (64 + m)) = Inr (header_bytes n d f @ zeros m)"
  by (simp add: zeros_add header_writes_def header_bytes_def put_defs copy_bytes_def patch_front
      mncwf_magic_def mncwf_v4_version_def)

section \<open>The finished file\<close>

definition padded :: "bytes \<Rightarrow> bytes" where
  "padded p = p @ zeros (align_nat (length p) - length p)"

lemma length_padded [simp]: "length (padded p) = align_nat (length p)"
  using align_nat_bounds(1) [of "length p"] by (simp add: padded_def)

definition file_directory :: "encoded_section list \<Rightarrow> u64 list \<Rightarrow> nat \<Rightarrow> bytes" where
  "file_directory sections offsets k = concat (map (\<lambda>i. directory_entry (sections ! i) (offsets ! i)) [0..<k])"

definition file_body :: "encoded_section list \<Rightarrow> nat \<Rightarrow> bytes" where
  "file_body sections k = concat (map (\<lambda>i. padded (es_payload (sections ! i))) [0..<k])"

definition body_size :: "encoded_section list \<Rightarrow> nat \<Rightarrow> nat" where
  "body_size sections k = sum_list (map align_nat (take k (map (\<lambda>s. length (es_payload s)) sections)))"

lemma length_file_directory [simp]: "length (file_directory sections offsets k) = 56 * k"
  by (induction k) (simp_all add: file_directory_def)

lemma file_directory_Suc:
  "file_directory sections offsets (Suc k) =
   file_directory sections offsets k @ directory_entry (sections ! k) (offsets ! k)"
  by (simp add: file_directory_def)

lemma file_body_Suc: "file_body sections (Suc k) = file_body sections k @ padded (es_payload (sections ! k))"
  by (simp add: file_body_def)

lemma body_size_Suc:
  "k < length sections \<Longrightarrow> body_size sections (Suc k) = body_size sections k + align_nat (length (es_payload (sections ! k)))"
  by (simp add: body_size_def take_Suc_conv_app_nth)

lemma length_file_body: "k \<le> length sections \<Longrightarrow> length (file_body sections k) = body_size sections k"
  by (induction k) (simp_all add: file_body_def body_size_Suc, simp add: body_size_def)

lemma body_size_mono: "j \<le> k \<Longrightarrow> k \<le> length sections \<Longrightarrow> body_size sections j \<le> body_size sections k"
  by (induction k rule: dec_induct) (simp_all add: body_size_Suc)

text \<open>The loop of the encoder over the sections.\<close>

lemma section_loop:
  assumes "length hdr = 64" "length sections = n" "k \<le> n"
    and offsets: "\<And>i. i < n \<Longrightarrow> unat (offsets ! i) = 64 + 56 * n + body_size sections i"
  shows "writes (concat (map (section_file_writes sections offsets) [0..<k]))
      (hdr @ zeros (56 * n) @ zeros (body_size sections n)) =
    Inr (hdr @ file_directory sections offsets k @ zeros (56 * (n - k)) @
      file_body sections k @ zeros (body_size sections n - body_size sections k))"
  using assms(3)
proof (induction k)
  case 0
  then show ?case by (simp add: file_directory_def file_body_def body_size_def zeros_def)
next
  case (Suc k)
  let ?s = "sections ! k"
  have k: "k < n" using Suc.prems by simp
  have z: "zeros (56 * (n - k)) = zeros 56 @ zeros (56 * (n - Suc k))"
    using k by (simp flip: zeros_add add: Suc_diff_Suc [symmetric] del: Suc_diff_Suc)
  let ?a = "hdr @ file_directory sections offsets k"
  let ?body = "file_body sections k"
  let ?rest = "body_size sections n - body_size sections k"
  have step: "writes (directory_writes (64 + k * 56) ?s (offsets ! k))
      (?a @ zeros 56 @ (zeros (56 * (n - Suc k)) @ ?body @ zeros ?rest)) =
    Inr (?a @ directory_entry ?s (offsets ! k) @ (zeros (56 * (n - Suc k)) @ ?body @ zeros ?rest))"
    using assms(1) by (intro directory_writes_run) simp
  have size: "align_nat (length (es_payload ?s)) + body_size sections k = body_size sections (Suc k)"
    using k assms(2) by (simp add: body_size_Suc)
  have fits: "align_nat (length (es_payload ?s)) \<le> ?rest"
    using size body_size_mono [of "Suc k" n sections] k assms(2) by simp
  note b = align_nat_bounds(1) [of "length (es_payload ?s)"]
  have "patch (unat (offsets ! k)) (es_payload ?s)
      ((?a @ directory_entry ?s (offsets ! k) @ zeros (56 * (n - Suc k)) @ ?body) @ zeros ?rest @ []) =
    (?a @ directory_entry ?s (offsets ! k) @ zeros (56 * (n - Suc k)) @ ?body) @ es_payload ?s @
      zeros (?rest - length (es_payload ?s)) @ []"
    using fits b k assms(1,2) offsets [OF k]
    by (intro patch_zeros) (simp_all add: length_file_body algebra_simps)
  moreover have "zeros (?rest - length (es_payload ?s)) =
      zeros (align_nat (length (es_payload ?s)) - length (es_payload ?s)) @
      zeros (body_size sections n - body_size sections (Suc k))"
  proof -
    have "?rest - length (es_payload ?s) =
      (align_nat (length (es_payload ?s)) - length (es_payload ?s)) + (body_size sections n - body_size sections (Suc k))"
      using fits b size by linarith
    then show ?thesis by (simp only: zeros_add)
  qed
  ultimately show ?case
    using Suc.IH Suc.prems step
    by (simp add: section_file_writes_def writes_append copy_bytes_def z file_directory_Suc file_body_Suc padded_def)
qed

text \<open>The header with both checksums.\<close>

definition sealed_header :: "bytes \<Rightarrow> bytes \<Rightarrow> bytes" where
  "sealed_header hdr directory =
     (let h = patch 56 (zeros 4) (patch 52 (le_bytes 4 (mncwf_crc32c directory)) hdr)
      in patch 56 (le_bytes 4 (mncwf_crc32c h)) h)"

lemma le_bytes_zero: "le_bytes 4 (0 :: u32) = zeros 4"
  by (intro nth_equalityI) (simp_all add: zeros_def)

lemma seal_file_run:
  assumes "length hdr = 64" "length directory = d"
  shows "seal_file d (hdr @ directory @ body) = Inr (sealed_header hdr directory @ directory @ body)"
  using assms
  by (simp add: seal_file_def put_defs patch_front sealed_header_def Let_def subspan_def le_bytes_zero)

section \<open>The reader on the finished file\<close>

text \<open>The seven sections in the order in which the encoder writes them.\<close>

definition section_types :: "mncwf_v4_section_type list" where
  "section_types = [Capture_metadata, Timebase_segments, Channel_definitions, Event_descriptors,
     Quality_intervals, Lineage, Sample_data]"

text \<open>What the reader learns of a section from its directory entry and the file.\<close>

definition section_entry :: "encoded_section \<Rightarrow> u64 \<Rightarrow> mncwf_v4_section_info" where
  "section_entry s offset =
     \<lparr>si_type = section_code (es_type s), si_version = 1, si_flags = 1, si_offset = offset,
      si_stored_bytes = of_nat (length (es_payload s)), si_logical_bytes = of_nat (length (es_payload s)),
      si_item_count = es_item_count s, si_item_bytes = es_item_bytes s,
      si_crc32c = mncwf_crc32c (es_payload s), si_data = []\<rparr>"

lemma read_field_append: "k + w \<le> length a \<Longrightarrow> read_field w m (a @ b) k = read_field w m a k"
  by (simp add: read_field_def subspan_def)

lemma directory_entry_fields:
  "read_directory_entry (directory_entry s offset) 0 = Inr (section_entry s offset)"
  by (simp add: read_directory_entry_def directory_entry_def section_entry_def read_defs field_simps
      read_field_zeros)

lemma file_directory_at:
  assumes "k < n"
  shows "subspan (k * 56) 56 (file_directory sections offsets n) = directory_entry (sections ! k) (offsets ! k)"
proof -
  have "[0..<n] = [0..<k] @ k # [Suc k..<n]"
    using assms by (metis le0 less_imp_le upt_add_eq_append upt_conv_Cons le_add_diff_inverse)
  then have "file_directory sections offsets n = file_directory sections offsets k @
      directory_entry (sections ! k) (offsets ! k) @
      concat (map (\<lambda>i. directory_entry (sections ! i) (offsets ! i)) [Suc k..<n])"
    by (simp add: file_directory_def)
  then show ?thesis by (simp add: subspan_def mult.commute)
qed

lemma file_directory_field:
  assumes "k < n" "c + w \<le> 56"
  shows "read_field w m (file_directory sections offsets n) (k * 56 + c) =
    read_field w m (directory_entry (sections ! k) (offsets ! k)) c"
  using assms unfolding file_directory_at [OF assms(1), of sections offsets, symmetric]
  by (simp add: read_field_subspan)

lemma read_directory_entry_at:
  assumes "k < n"
  shows "read_directory_entry (file_directory sections offsets n) (k * 56) =
    Inr (section_entry (sections ! k) (offsets ! k))"
proof -
  note r = file_directory_field [OF assms] file_directory_field [OF assms, of 0, simplified]
  have "read_directory_entry (file_directory sections offsets n) (k * 56) =
    read_directory_entry (directory_entry (sections ! k) (offsets ! k)) 0"
    unfolding read_directory_entry_def read_defs by (simp add: r)
  then show ?thesis by (simp add: directory_entry_fields)
qed

lemma read_header_file:
  fixes directory body :: bytes
  assumes "length directory = 392" "unat file_bytes = 456 + length body" "456 + length body \<le> 536870912"
  shows "read_header (sealed_header (header_bytes 7 392 file_bytes) directory @ directory @ body) =
    Inr (\<lparr>h_version = 4, h_section_count = 7, h_directory_offset = 64, h_directory_bytes = 392,
      h_file_bytes = file_bytes, h_flags = 0\<rparr>, directory)"
proof -
  let ?h = "sealed_header (header_bytes 7 392 file_bytes) directory"
  have len: "length ?h = 64" by (simp add: sealed_header_def Let_def)
  have fields: "read_u32 ?h 8 = Inr 4" "read_u32 ?h 12 = Inr 64" "read_u32 ?h 16 = Inr 56" "read_u32 ?h 20 = Inr 7"
    "read_u64 ?h 24 = Inr 64" "read_u64 ?h 32 = Inr 392" "read_u64 ?h 40 = Inr file_bytes" "read_u32 ?h 48 = Inr 0"
    "read_u32 ?h 52 = Inr (mncwf_crc32c directory)" "read_u32 ?h 60 = Inr 0"
    by (simp_all add: sealed_header_def Let_def header_bytes_def mncwf_magic_def read_defs field_simps read_field_zeros)
  have magic: "take 8 (?h @ directory @ body) = mncwf_magic"
  proof -
    have "subspan 0 8 ?h = mncwf_magic"
      by (simp add: sealed_header_def Let_def header_bytes_def mncwf_magic_def subspan_patch_other subspan_patch_same)
    then show ?thesis using len by (simp add: subspan_def)
  qed
  let ?copy = "patch 56 (zeros 4) (patch 52 (le_bytes 4 (mncwf_crc32c directory)) (header_bytes 7 392 file_bytes))"
  have copy: "header_copy (?h @ directory @ body) = ?copy"
  proof -
    have "header_copy (?h @ directory @ body) = patch 56 (zeros 4) ?h" using len by (simp add: header_copy_def)
    also have "\<dots> = ?copy"
      by (intro nth_equalityI) (auto simp: sealed_header_def Let_def nth_patch)
    finally show ?thesis .
  qed
  have hcrc: "read_u32 ?h 56 = Inr (mncwf_crc32c ?copy)"
    by (simp add: sealed_header_def Let_def read_defs field_simps)
  have dir: "range_of (?h @ directory @ body) 64 392 ''directory'' = Inr directory"
    using len assms by (simp add: checked_simps subspan_def)
  note f = fields hcrc
  have rf: "read_header_fields (?h @ directory @ body) 4 =
    Inr (\<lparr>h_version = 4, h_section_count = 7, h_directory_offset = 64, h_directory_bytes = 392,
      h_file_bytes = file_bytes, h_flags = 0\<rparr>, mncwf_crc32c directory, mncwf_crc32c ?copy, 0)"
    using f len by (simp add: read_header_fields_def read_defs read_field_append)
  have v: "read_u32 (?h @ directory @ body) 8 = Inr 4" "read_u32 (?h @ directory @ body) 12 = Inr 64"
    "read_u32 (?h @ directory @ body) 16 = Inr 56"
    using f len by (simp_all add: read_defs read_field_append)
  have m: "checked_multiply 7 56 ''directory'' = Inr (392 :: u64)" by (simp add: checked_multiply_def)
  show ?thesis
    unfolding read_header_def using len assms magic
    by (simp add: v rf m dir copy differs_def mncwf_v4_version_def)
qed

text \<open>Sections of the right kinds and sizes, with the offsets the layout gave them.\<close>

definition encoded_layout :: "encoded_section list \<Rightarrow> u64 list \<Rightarrow> u64 \<Rightarrow> bool" where
  "encoded_layout sections offsets file_bytes \<longleftrightarrow>
     map es_type sections = section_types \<and> length offsets = 7 \<and>
     (\<forall>k<7. unat (offsets ! k) = 456 + body_size sections k) \<and>
     unat file_bytes = 456 + body_size sections 7 \<and> 456 + body_size sections 7 \<le> 536870912 \<and>
     (\<forall>k<7. 48 \<le> length (es_payload (sections ! k)) \<and> unat (es_item_count (sections ! k)) \<le> 536870912) \<and>
     (\<forall>k<6. length (es_payload (sections ! k)) \<le> mncwf_v4_max_metadata_section_bytes)"

definition encoded_file :: "encoded_section list \<Rightarrow> u64 list \<Rightarrow> u64 \<Rightarrow> bytes" where
  "encoded_file sections offsets file_bytes =
     sealed_header (header_bytes 7 392 file_bytes) (file_directory sections offsets 7) @
     file_directory sections offsets 7 @ file_body sections 7"

definition section_info :: "encoded_section \<Rightarrow> u64 \<Rightarrow> mncwf_v4_section_info" where
  "section_info s offset = (section_entry s offset)\<lparr>si_data := es_payload s\<rparr>"

lemma length_sealed_header [simp]: "length (sealed_header hdr d) = length hdr"
  by (simp add: sealed_header_def Let_def)

lemma encoded_layout_length: "encoded_layout sections offsets file_bytes \<Longrightarrow> length sections = 7"
proof -
  assume "encoded_layout sections offsets file_bytes"
  then have "map es_type sections = section_types" by (simp add: encoded_layout_def)
  then have "length (map es_type sections) = length section_types" by simp
  then show ?thesis by (simp add: section_types_def)
qed

lemma length_encoded_file:
  "encoded_layout sections offsets file_bytes \<Longrightarrow>
   length (encoded_file sections offsets file_bytes) = unat file_bytes"
  using encoded_layout_length [of sections offsets file_bytes]
  by (simp add: encoded_file_def length_file_body encoded_layout_def)

lemma section_type_facts:
  assumes "k < 7"
  shows "section_code (section_types ! k) = of_nat (Suc k)" "known_section (section_code (section_types ! k))"
    "section_index (section_code (section_types ! k)) = k"
    "section_code (section_types ! k) = section_code Sample_data \<longleftrightarrow> k = 6"
proof -
  from assms have "k \<in> {0, 1, 2, 3, 4, 5, 6}" by auto
  then show "section_code (section_types ! k) = of_nat (Suc k)" "known_section (section_code (section_types ! k))"
    "section_index (section_code (section_types ! k)) = k"
    "section_code (section_types ! k) = section_code Sample_data \<longleftrightarrow> k = 6"
    by (auto simp: section_types_def known_section_def section_index_def)
qed

lemma aligned_and_7: "8 dvd unat w \<Longrightarrow> (w :: u64) AND 7 = 0"
proof -
  assume d: "8 dvd unat w"
  have "(7 :: u64) = mask 3" by (simp add: mask_eq_exp_minus_1)
  then have "w AND 7 = take_bit 3 w" by (simp add: take_bit_eq_mask)
  moreover have "unat (take_bit 3 w) = unat w mod 8" by (simp add: take_bit_eq_mod unat_mod)
  ultimately show ?thesis using d by (simp add: word_unat_eq_iff)
qed

lemma sum_align_dvd: "8 dvd sum_list (map align_nat ns)"
  by (induction ns) (simp_all add: align_nat_def)

lemma body_size_dvd: "8 dvd body_size sections k"
  by (simp add: body_size_def sum_align_dvd)

lemma file_body_at:
  assumes "k < n"
  shows "\<exists>rest. file_body sections n = file_body sections k @ padded (es_payload (sections ! k)) @ rest \<and>
    rest = concat (map (\<lambda>i. padded (es_payload (sections ! i))) [Suc k..<n])"
proof -
  have "[0..<n] = [0..<k] @ k # [Suc k..<n]"
    using assms by (metis le0 less_imp_le upt_add_eq_append upt_conv_Cons le_add_diff_inverse)
  then show ?thesis by (simp add: file_body_def)
qed

lemma payload_in_file:
  assumes "encoded_layout sections offsets file_bytes" "k < 7"
  shows "subspan (unat (offsets ! k)) (length (es_payload (sections ! k))) (encoded_file sections offsets file_bytes) =
    es_payload (sections ! k)"
    "unat (offsets ! k) + align_nat (length (es_payload (sections ! k))) \<le> unat file_bytes"
    "subspan (unat (offsets ! k) + length (es_payload (sections ! k)))
      (align_nat (length (es_payload (sections ! k))) - length (es_payload (sections ! k)))
      (encoded_file sections offsets file_bytes) =
      zeros (align_nat (length (es_payload (sections ! k))) - length (es_payload (sections ! k)))"
proof -
  note n = encoded_layout_length [OF assms(1)]
  have off: "unat (offsets ! k) = 456 + body_size sections k" using assms by (simp add: encoded_layout_def)
  from file_body_at [OF assms(2), of sections] obtain rest where
    rest: "file_body sections 7 = file_body sections k @ padded (es_payload (sections ! k)) @ rest" by blast
  have len: "length (file_body sections k) = body_size sections k" using assms(2) n by (simp add: length_file_body)
  define a where "a = sealed_header (header_bytes 7 392 file_bytes) (file_directory sections offsets 7) @
    file_directory sections offsets 7 @ file_body sections k"
  have whole: "encoded_file sections offsets file_bytes = a @ es_payload (sections ! k) @
      zeros (align_nat (length (es_payload (sections ! k))) - length (es_payload (sections ! k))) @ rest"
    by (simp add: encoded_file_def rest a_def padded_def)
  have la: "length a = unat (offsets ! k)" by (simp add: a_def off len)
  show "subspan (unat (offsets ! k)) (length (es_payload (sections ! k))) (encoded_file sections offsets file_bytes) =
    es_payload (sections ! k)"
    unfolding whole la [symmetric] by (simp add: subspan_def)
  show "subspan (unat (offsets ! k) + length (es_payload (sections ! k)))
      (align_nat (length (es_payload (sections ! k))) - length (es_payload (sections ! k)))
      (encoded_file sections offsets file_bytes) =
      zeros (align_nat (length (es_payload (sections ! k))) - length (es_payload (sections ! k)))"
    unfolding whole la [symmetric] by (simp add: subspan_def)
  have "body_size sections k + align_nat (length (es_payload (sections ! k))) \<le> body_size sections 7"
    using body_size_mono [of "Suc k" 7 sections] assms(2) n by (simp add: body_size_Suc)
  then show "unat (offsets ! k) + align_nat (length (es_payload (sections ! k))) \<le> unat file_bytes"
    using assms(1) off by (simp add: encoded_layout_def)
qed

lemma read_section_file:
  assumes lay: "encoded_layout sections offsets file_bytes" and k: "k < 7" and p: "\<not> present ! k"
  shows "read_section (encoded_file sections offsets file_bytes) 4 (file_directory sections offsets 7) (present, acc) k =
    Inr (present[k := True], acc @ [section_info (sections ! k) (offsets ! k)])"
proof -
  let ?s = "sections ! k"
  let ?e = "section_entry ?s (offsets ! k)"
  note n = encoded_layout_length [OF lay]
  have "map es_type sections ! k = section_types ! k" using lay by (simp add: encoded_layout_def)
  then have ty: "es_type ?s = section_types ! k" using k n by simp
  note tf = section_type_facts [OF k, folded ty]
  have sizes: "48 \<le> length (es_payload ?s)" "unat (es_item_count ?s) \<le> 536870912"
    "k < 6 \<Longrightarrow> length (es_payload ?s) \<le> mncwf_v4_max_metadata_section_bytes"
    using lay k by (simp_all add: encoded_layout_def)
  note placed = payload_in_file [OF lay k]
  have fb: "unat file_bytes \<le> 536870912" using lay by (simp add: encoded_layout_def)
  have len: "unat (of_nat (length (es_payload ?s)) :: u64) = length (es_payload ?s)"
    using placed(2) fb align_nat_bounds(1) [of "length (es_payload ?s)"] by (intro unat_of_nat_u64) simp
  have nz: "of_nat (length (es_payload ?s)) \<noteq> (0 :: u64)" using len sizes(1) by (metis not_numeral_le_zero unat_0)
  have "8 dvd unat (offsets ! k)" using lay k body_size_dvd [of sections k] by (simp add: encoded_layout_def)
  then have al: "offsets ! k AND 7 = 0" by (rule aligned_and_7)
  have t0: "section_code (es_type ?s) \<noteq> 0" by (cases "es_type ?s") simp_all
  have inv: "\<not> directory_entry_invalid 4 ?e True"
    using nz sizes(2) al t0
    by (simp add: directory_entry_invalid_def section_entry_def valid_sample_version_def
        mncwf_v4_section_required_def mncwf_v4_version_def)
  have rng: "range_of (encoded_file sections offsets file_bytes) (offsets ! k) (of_nat (length (es_payload ?s))) ''section'' =
      Inr (es_payload ?s)"
    using placed(1,2) fb len align_nat_bounds(1) [of "length (es_payload ?s)"] length_encoded_file [OF lay]
    by (simp add: checked_simps)
  have k6: "section_code (es_type ?s) \<noteq> 7 \<Longrightarrow> length (es_payload ?s) \<le> mncwf_v4_max_metadata_section_bytes"
    using sizes(3) tf(4) k by auto
  show ?thesis
    unfolding read_section_def Let_def case_prod_conv reader_consts read_directory_entry_at [OF k]
    using inv tf(2,3) p k6 rng len
    by (auto simp: valid_logical_size_def section_entry_def section_info_def mncwf_v4_section_required_def
        mncwf_v4_version_def)
qed

lemma fold_result_snoc: "fold_result f s (xs @ [x]) = bind_result (fold_result f s xs) (\<lambda>s'. f s' x)"
  by (induction xs arbitrary: s) (simp_all add: bind_result_def split: sum.split)

lemma read_directory_file:
  assumes lay: "encoded_layout sections offsets file_bytes" and h: "h_version h = 4" "h_section_count h = 7"
  shows "read_directory (encoded_file sections offsets file_bytes) h (file_directory sections offsets 7) =
    Inr (map (\<lambda>k. section_info (sections ! k) (offsets ! k)) [0..<7])"
proof -
  have "fold_result (read_section (encoded_file sections offsets file_bytes) 4 (file_directory sections offsets 7))
      (replicate 7 False, []) [0..<k] =
    Inr (replicate k True @ replicate (7 - k) False, map (\<lambda>k. section_info (sections ! k) (offsets ! k)) [0..<k])"
    if "k \<le> 7" for k
    using that
  proof (induction k)
    case (Suc k)
    then have "7 - k = Suc (7 - Suc k)" by simp
    then have r: "replicate (7 - k) False = False # replicate (7 - Suc k) False" by (simp only: replicate_Suc)
    have "\<not> (replicate k True @ replicate (7 - k) False) ! k" by (simp add: r nth_append)
    from read_section_file [OF lay _ this] Suc show ?case
      by (simp add: fold_result_snoc r list_update_append replicate_append_same)
  qed simp
  from this [of 7] show ?thesis
    unfolding read_directory_def h by (simp add: list_all_iff)
qed

lemma section_extents_file:
  assumes lay: "encoded_layout sections offsets file_bytes"
  shows "section_extents (map (\<lambda>k. section_info (sections ! k) (offsets ! k)) [0..<7]) =
    Inr (map (\<lambda>k. (offsets ! k, offsets ! k + of_nat (length (es_payload (sections ! k))))) [0..<7])"
    "k < 7 \<Longrightarrow> unat (offsets ! k + of_nat (length (es_payload (sections ! k)))) =
      unat (offsets ! k) + length (es_payload (sections ! k))"
proof -
  have fb: "unat file_bytes \<le> 536870912" using lay by (simp add: encoded_layout_def)
  show sum: "unat (offsets ! k + of_nat (length (es_payload (sections ! k)))) =
      unat (offsets ! k) + length (es_payload (sections ! k))" if "k < 7" for k
  proof -
    have b: "unat (offsets ! k) + length (es_payload (sections ! k)) \<le> 536870912"
      using payload_in_file(2) [OF lay that] fb align_nat_bounds(1) [of "length (es_payload (sections ! k))"] by simp
    then have "unat (of_nat (length (es_payload (sections ! k))) :: u64) = length (es_payload (sections ! k))"
      by (intro unat_of_nat_u64) simp
    then show ?thesis using b by (subst unat_add_lem [THEN iffD1]) simp_all
  qed
  have add: "checked_add (offsets ! k) (of_nat (length (es_payload (sections ! k)))) ''section extent'' =
      Inr (offsets ! k + of_nat (length (es_payload (sections ! k))))" if "k < 7" for k
  proof -
    have b: "unat (offsets ! k) + length (es_payload (sections ! k)) \<le> 536870912"
      using payload_in_file(2) [OF lay that] fb align_nat_bounds(1) [of "length (es_payload (sections ! k))"] by simp
    then have "unat (of_nat (length (es_payload (sections ! k))) :: u64) = length (es_payload (sections ! k))"
      by (intro unat_of_nat_u64) simp
    then show ?thesis using b sum [OF that] by (simp add: checked_simps)
  qed
  have "section_extents (map (\<lambda>k. section_info (sections ! k) (offsets ! k)) ks) =
    Inr (map (\<lambda>k. (offsets ! k, offsets ! k + of_nat (length (es_payload (sections ! k))))) ks)"
    if "\<forall>k\<in>set ks. k < 7" for ks
    using that
  proof (induction ks)
    case (Cons k ks)
    then show ?case using add [of k]
      by (simp add: section_extents_def section_info_def section_entry_def)
  qed (simp add: section_extents_def)
  then show "section_extents (map (\<lambda>k. section_info (sections ! k) (offsets ! k)) [0..<7]) =
    Inr (map (\<lambda>k. (offsets ! k, offsets ! k + of_nat (length (es_payload (sections ! k))))) [0..<7])" by simp
qed

lemma offsets_increase:
  assumes lay: "encoded_layout sections offsets file_bytes" and "j < k" "k < 7"
  shows "unat (offsets ! j) + length (es_payload (sections ! j)) \<le> unat (offsets ! k)"
proof -
  have "body_size sections (Suc j) \<le> body_size sections k"
    using assms encoded_layout_length [OF lay] by (intro body_size_mono) simp_all
  then show ?thesis
    using assms encoded_layout_length [OF lay] align_nat_bounds(1) [of "length (es_payload (sections ! j))"]
    by (simp add: encoded_layout_def body_size_Suc)
qed

lemma sort_extents_file:
  assumes lay: "encoded_layout sections offsets file_bytes"
  shows "sort_extents (map (\<lambda>k. (offsets ! k, offsets ! k + of_nat (length (es_payload (sections ! k))))) [0..<7]) =
    map (\<lambda>k. (offsets ! k, offsets ! k + of_nat (length (es_payload (sections ! k))))) [0..<7]"
proof -
  have 1: "sorted (map (\<lambda>k. offsets ! k) [0..<7])"
    using offsets_increase [OF lay] by (fastforce simp: sorted_iff_nth_mono_less word_le_nat_alt)
  have 2: "sorted (map (\<lambda>k. offsets ! k + of_nat (length (es_payload (sections ! k)))) [0..<7])"
    using offsets_increase [OF lay] section_extents_file(2) [OF lay]
    by (fastforce simp: sorted_iff_nth_mono_less word_le_nat_alt)
  show ?thesis using 1 2 by (simp add: sort_extents_def sort_key_id_if_sorted comp_def)
qed

lemma check_extent_file:
  assumes lay: "encoded_layout sections offsets file_bytes" and k: "k < 7"
    and cursor: "unat cursor = 456 + body_size sections k"
  shows "\<exists>c. check_extent (encoded_file sections offsets file_bytes) cursor
      (offsets ! k, offsets ! k + of_nat (length (es_payload (sections ! k)))) = Inr c \<and>
    unat c = 456 + body_size sections (Suc k)"
proof -
  let ?len = "length (es_payload (sections ! k))"
  let ?e = "offsets ! k + of_nat ?len"
  note n = encoded_layout_length [OF lay]
  note placed = payload_in_file [OF lay k]
  have fb: "unat file_bytes \<le> 536870912" using lay by (simp add: encoded_layout_def)
  have off: "offsets ! k = cursor" using lay k cursor by (simp add: encoded_layout_def word_unat_eq_iff)
  have ue: "unat ?e = unat cursor + ?len" using section_extents_file(2) [OF lay k] off by simp
  define c where "c = (?e + 7) AND NOT 7"
  have "unat (?e + 7) = unat ?e + 7" using ue placed(2) fb off align_nat_bounds(1) [of ?len]
    by (subst unat_add_lem [THEN iffD1]) simp_all
  then have "unat c = align_nat (unat ?e)" by (simp add: c_def align_nat_def)
  also have "\<dots> = unat cursor + align_nat ?len"
    using align_nat_add [of "unat cursor" ?len] cursor body_size_dvd [of sections k] ue by simp
  finally have uc: "unat c = unat cursor + align_nat ?len" .
  have al: "align_eight ?e = Inr c"
    using ue placed(2) fb off uc align_nat_bounds(1) [of ?len] align_nat_add [of "unat cursor" ?len] cursor
      body_size_dvd [of sections k] by (simp add: checked_simps)
  have le: "unat c \<le> length (encoded_file sections offsets file_bytes)"
    using uc placed(2) off length_encoded_file [OF lay] by simp
  have sub: "unat (c - ?e) = align_nat ?len - ?len"
    using uc ue align_nat_bounds(1) [of ?len] by (simp add: unat_sub word_le_nat_alt)
  have pad: "range_of (encoded_file sections offsets file_bytes) ?e (c - ?e) ''section alignment padding'' =
      Inr (zeros (align_nat ?len - ?len))"
    using placed(3) off ue sub uc le fb placed(2) align_nat_bounds(1) [of ?len] by (simp add: checked_simps)
  have "check_extent (encoded_file sections offsets file_bytes) cursor (offsets ! k, ?e) = Inr c"
    using off al le pad by (simp add: check_extent_def zero_bytes)
  moreover have "unat c = 456 + body_size sections (Suc k)"
    using uc cursor k n by (simp add: body_size_Suc)
  ultimately show ?thesis by blast
qed

lemma check_extents_file:
  assumes lay: "encoded_layout sections offsets file_bytes"
    and h: "h_directory_offset h = 64" "h_directory_bytes h = 392"
  shows "check_extents (encoded_file sections offsets file_bytes) h
    (map (\<lambda>k. section_info (sections ! k) (offsets ! k)) [0..<7]) = Inr ()"
proof -
  have "\<exists>c. fold_result (check_extent (encoded_file sections offsets file_bytes)) 456
      (map (\<lambda>k. (offsets ! k, offsets ! k + of_nat (length (es_payload (sections ! k))))) [0..<k]) = Inr c \<and>
    unat c = 456 + body_size sections k" if "k \<le> 7" for k
    using that
  proof (induction k)
    case 0
    then show ?case by (simp add: body_size_def)
  next
    case (Suc k)
    then obtain c where c: "fold_result (check_extent (encoded_file sections offsets file_bytes)) 456
      (map (\<lambda>k. (offsets ! k, offsets ! k + of_nat (length (es_payload (sections ! k))))) [0..<k]) = Inr c"
      "unat c = 456 + body_size sections k" by auto
    from check_extent_file [OF lay _ c(2)] Suc.prems c(1) show ?case
      by (auto simp: fold_result_snoc)
  qed
  from this [of 7] obtain c where c: "fold_result (check_extent (encoded_file sections offsets file_bytes)) 456
      (map (\<lambda>k. (offsets ! k, offsets ! k + of_nat (length (es_payload (sections ! k))))) [0..<7]) = Inr c"
      "unat c = 456 + body_size sections 7" by auto
  have "unat c = length (encoded_file sections offsets file_bytes)"
    using c(2) lay length_encoded_file [OF lay] by (simp add: encoded_layout_def)
  moreover have "checked_add (64 :: u64) 392 ''directory extent'' = Inr 456" "align_eight 456 = Inr (456 :: u64)"
    by (simp_all add: checked_add_def align_eight_def)
  ultimately show ?thesis
    unfolding check_extents_def section_extents_file(1) [OF lay] h
    by (simp add: sort_extents_file [OF lay] c(1) del: upt_rec_numeral)
qed

text \<open>The container of an encoded file is read as it was laid out.\<close>

lemma read_container_file:
  assumes lay: "encoded_layout sections offsets file_bytes"
  shows "\<exists>h. read_container Complete (encoded_file sections offsets file_bytes) =
    Inr (h, map (\<lambda>k. section_info (sections ! k) (offsets ! k)) [0..<7]) \<and> h_version h = mncwf_v4_version"
proof -
  let ?h = "\<lparr>h_version = 4, h_section_count = 7, h_directory_offset = 64, h_directory_bytes = 392,
      h_file_bytes = file_bytes, h_flags = 0\<rparr>"
  have body: "length (file_body sections 7) = body_size sections 7"
    using encoded_layout_length [OF lay] by (simp add: length_file_body)
  have hdr: "read_header (encoded_file sections offsets file_bytes) = Inr (?h, file_directory sections offsets 7)"
    unfolding encoded_file_def using lay body
    by (intro read_header_file) (simp_all add: encoded_layout_def)
  have crc: "require_all (map (check_section_crc Complete)
      (map (\<lambda>k. section_info (sections ! k) (offsets ! k)) [0..<7])) = Inr ()"
    by (auto simp: check_section_crc_def section_info_def section_entry_def)
  have "read_container Complete (encoded_file sections offsets file_bytes) =
    Inr (?h, map (\<lambda>k. section_info (sections ! k) (offsets ! k)) [0..<7])"
    unfolding read_container_def hdr
    using read_directory_file [OF lay, of ?h] check_extents_file [OF lay, of ?h] crc
    by (simp del: upt_rec_numeral require_all_ok)
  then show ?thesis by (auto simp: mncwf_v4_version_def)
qed

section \<open>Valid documents\<close>

text \<open>The fields of an item as a reader finds them in its record.\<close>

definition raw_segment :: "mncwf_v4_timebase_segment \<Rightarrow> mncwf_v4_timebase_segment \<times> u16 \<times> u16 \<times> u16" where
  "raw_segment s = (s\<lparr>ts_decimation_method := Decimation_none, ts_clock_source := Clock_unknown,
       ts_time_quality := Time_unknown\<rparr>,
     decimation_code (ts_decimation_method s), clock_code (ts_clock_source s), time_quality_code (ts_time_quality s))"

definition raw_channel ::
    "mncwf_v4_channel_definition \<Rightarrow> mncwf_v4_channel_definition \<times> u16 \<times> u16 \<times> u16 \<times> u16" where
  "raw_channel c = (c\<lparr>cd_phase := Phase_none, cd_quantity := Quantity_unknown, cd_si_unit := Dimensionless,
       cd_sample_encoding := Signed_integer_little_endian\<rparr>,
     phase_code (cd_phase c), quantity_code (cd_quantity c), si_unit_code (cd_si_unit c),
     encoding_code (cd_sample_encoding c))"

definition raw_event ::
    "mncwf_v4_event_descriptor \<Rightarrow> mncwf_v4_event_descriptor \<times> u16 \<times> u16 \<times> u16 \<times> u16 \<times> u16" where
  "raw_event e = (e\<lparr>ed_taxonomy := Taxonomy_unknown, ed_lifecycle := Event_start, ed_time_quality := Time_unknown,
       ed_quantity := Quantity_unknown, ed_si_unit := Dimensionless\<rparr>,
     taxonomy_code (ed_taxonomy e), lifecycle_code (ed_lifecycle e), time_quality_code (ed_time_quality e),
     quantity_code (ed_quantity e), si_unit_code (ed_si_unit e))"

definition raw_lineage :: "mncwf_v4_lineage_entry \<Rightarrow> mncwf_v4_lineage_entry \<times> u16" where
  "raw_lineage l = (l\<lparr>le_relation := Relation_parent\<rparr>, relation_code (le_relation l))"

text \<open>The checks of the reader's loops, on the items of a document.\<close>

definition check_segments :: "mncwf_v4_timebase_segment list \<Rightarrow> timebase_state result" where
  "check_segments segments =
     fold_result (\<lambda>st i. accept_segment st i (raw_segment (segments ! i))) (0, None, []) [0..<length segments]"

definition check_channels :: "mncwf_v4_channel_definition list \<Rightarrow> channel_state result" where
  "check_channels definitions =
     fold_result (\<lambda>st i. accept_channel st (Inr False) (raw_channel (definitions ! i))) (0, []) [0..<length definitions]"

definition check_events :: "mncwf_v4_event_descriptor list \<Rightarrow> mncwf_v4_event_descriptor list result" where
  "check_events events =
     fold_result (\<lambda>st i. accept_event st (Inr False) (raw_event (events ! i))) [] [0..<length events]"

definition check_quality :: "mncwf_v4_quality_interval list \<Rightarrow> mncwf_v4_quality_interval list result" where
  "check_quality intervals =
     fold_result (\<lambda>st i. accept_quality st (Inr False) (intervals ! i)) [] [0..<length intervals]"

definition check_lineage :: "mncwf_v4_lineage_entry list \<Rightarrow> mncwf_v4_lineage_entry list result" where
  "check_lineage entries =
     fold_result (\<lambda>st i. accept_lineage st (Inr False) (raw_lineage (entries ! i))) [] [0..<length entries]"

definition capture_valid :: "mncwf_v4_capture_metadata \<Rightarrow> bool" where
  "capture_valid c \<longleftrightarrow> list_all text_ok (capture_strings c) \<and>
     \<not> capture_invalid c (topology_code (cm_topology c)) (calibration_code (cm_calibration_status c)) \<and>
     cm_product_name c \<noteq> [] \<and> cm_firmware_version c \<noteq> [] \<and> cm_software_build_id c \<noteq> [] \<and>
     cm_sensor_profile_id c \<noteq> [] \<and> cm_configuration_id c \<noteq> []"

text \<open>The bytes of the sections.\<close>

definition section_bytes :: "nat \<Rightarrow> nat \<Rightarrow> nat" where
  "section_bytes records_bytes blob_bytes =
     (if blob_bytes = 0 then 48 + records_bytes else align_nat (48 + records_bytes) + blob_bytes)"

definition document_sizes :: "mncwf_v4_document \<Rightarrow> nat list" where
  "document_sizes d =
     [section_bytes 256 (length (concat (capture_strings (doc_capture_metadata d)))),
      section_bytes (length (doc_timebase_segments d) * 128) 0,
      section_bytes (length (doc_channels d) * 208) (length (concat (concat (map channel_strings (doc_channels d))))),
      section_bytes (length (doc_events d) * 256) (length (concat (concat (map event_strings (doc_events d))))),
      section_bytes (length (doc_quality_intervals d) * 64) 0,
      section_bytes (length (doc_lineage d) * 64) 0,
      section_bytes (length (doc_sample_data d)) 0]"

text \<open>
  A document is valid when its arrays have their lengths, its strings are UTF-8 within their bound, its
  counts and sizes are within the bounds of the format, every item passes the checks, and the
  timebase, the channels, the events and the quality intervals agree with the samples.
\<close>

definition document_valid :: "mncwf_v4_document \<Rightarrow> bool" where
  "document_valid d \<longleftrightarrow> document_shaped d \<and> capture_valid (doc_capture_metadata d) \<and>
     doc_timebase_segments d \<noteq> [] \<and> length (doc_timebase_segments d) \<le> 65536 \<and>
     doc_channels d \<noteq> [] \<and> length (doc_channels d) \<le> 64 \<and> length (doc_events d) \<le> 4096 \<and>
     length (doc_quality_intervals d) \<le> 262144 \<and> length (doc_lineage d) \<le> 4096 \<and>
     list_all text_ok (concat (map channel_strings (doc_channels d))) \<and>
     list_all text_ok (concat (map event_strings (doc_events d))) \<and>
     (case check_segments (doc_timebase_segments d) of
        Inl _ \<Rightarrow> False
      | Inr (covered, _, segments) \<Rightarrow> covered = doc_sample_frame_count d \<and> segments = doc_timebase_segments d) \<and>
     check_channels (doc_channels d) = Inr (ucast (doc_sample_frame_bytes d), doc_channels d) \<and>
     check_events (doc_events d) = Inr (doc_events d) \<and>
     check_quality (doc_quality_intervals d) = Inr (doc_quality_intervals d) \<and>
     check_lineage (doc_lineage d) = Inr (doc_lineage d) \<and>
     doc_sample_frame_count d \<noteq> 0 \<and> doc_sample_frame_bytes d \<noteq> 0 \<and>
     unat (doc_sample_frame_count d) * unat (doc_sample_frame_bytes d) = length (doc_sample_data d) \<and>
     list_all (event_anchored (doc_timebase_segments d)) (doc_events d) \<and>
     list_all (\<lambda>q. list_all fst (quality_checks (doc_sample_frame_count d) (length (doc_channels d)) q))
       (doc_quality_intervals d) \<and>
     list_all (\<lambda>n. n \<le> mncwf_v4_max_metadata_section_bytes) (butlast (document_sizes d)) \<and>
     456 + sum_list (map align_nat (document_sizes d)) \<le> mncwf_v4_max_file_bytes"

section \<open>Sections of a valid document\<close>

lemma enveloped_section_total:
  assumes n: "unat item_count * unat item_bytes = length records"
    and size: "section_size records blob \<le> mncwf_v4_max_file_bytes"
  shows "enveloped_section ty item_count item_bytes records blob =
    Inr \<lparr>es_type = ty, es_item_count = item_count, es_item_bytes = item_bytes,
      es_payload = section_payload ty item_count item_bytes records blob\<rparr>"
proof -
  note bounds = section_size_bounds [of records blob]
  have small: "length records \<le> 536870912" "section_size records blob \<le> 536870912" using size bounds by auto
  have ul: "unat (of_nat (length records) :: u64) = length records"
    "unat (of_nat (section_size records blob) :: u64) = section_size records blob"
    using small by (auto intro!: unat_of_nat_u64)
  have mult: "checked_multiply item_count (ucast item_bytes) ''encoded section records'' = Inr (of_nat (length records))"
    using n small ul by (simp add: checked_simps)
  define e :: u64 where "e = of_nat (48 + length records)"
  have ue: "unat e = 48 + length records" unfolding e_def using small by (intro unat_of_nat_u64) simp
  have add: "checked_add 48 (of_nat (length records)) ''encoded section records'' = Inr e"
    using small ul ue by (simp add: checked_simps)
  show ?thesis
  proof (cases "blob = []")
    case True
    then have e: "unat e = section_size records blob" "48 \<le> unat e" using ue by (simp_all add: section_size_def)
    show ?thesis using True mult add small ul e
      by (simp add: enveloped_section_def envelope_writes_run section_payload_def blob_start_def)
  next
    case False
    define st :: u64 where "st = of_nat (blob_start records blob)"
    have us: "unat st = blob_start records blob" unfolding st_def using False small bounds
      by (intro unat_of_nat_u64) simp
    have al: "align_eight e = Inr st" using ue us small False by (simp add: checked_simps blob_start_def)
    have ub: "unat (of_nat (length blob) :: u64) = length blob" using False small bounds
      by (intro unat_of_nat_u64) simp
    have tot: "checked_add st (of_nat (length blob)) ''encoded section blob'' = Inr (of_nat (section_size records blob))"
      using us ub ul small bounds False by (simp add: checked_simps)
    have "48 \<le> section_size records blob" using bounds by simp
    then show ?thesis using False mult add al tot small ul us
      by (simp add: enveloped_section_def envelope_writes_run section_payload_def Let_def flip: st_def)
  qed
qed

lemma find_section_file:
  assumes "map es_type sections = section_types" "k < 7"
  shows "find_section (map (\<lambda>k. section_info (sections ! k) (offsets ! k)) [0..<7]) (section_types ! k) =
    Inr (section_info (sections ! k) (offsets ! k))"
proof -
  have "length (map es_type sections) = length section_types" using assms(1) by simp
  then have len: "length sections = 7" by (simp add: section_types_def)
  have code: "si_type (section_info (sections ! j) (offsets ! j)) = of_nat (Suc j)" if "j < 7" for j
  proof -
    have "es_type (sections ! j) = section_types ! j" using that len by (simp flip: assms(1))
    then show ?thesis using section_type_facts(1) [OF that] by (simp add: section_info_def section_entry_def)
  qed
  have "find (\<lambda>s. si_type s = section_code (section_types ! k)) (map (\<lambda>k. section_info (sections ! k) (offsets ! k)) [0..<7]) =
    Some (section_info (sections ! k) (offsets ! k))"
    unfolding find_Some_iff
  proof (intro exI [of _ k] conjI allI impI)
    show "si_type (map (\<lambda>k. section_info (sections ! k) (offsets ! k)) [0..<7] ! k) = section_code (section_types ! k)"
      using assms(2) code [OF assms(2)] section_type_facts(1) [OF assms(2)] by simp
    fix j assume "j < k"
    then have j: "j < 7" using assms(2) by simp
    have "unat (of_nat (Suc j) :: u32) \<noteq> unat (of_nat (Suc k) :: u32)"
      using \<open>j < k\<close> j assms(2) by (simp add: unat_of_nat take_bit_nat_eq_self del: of_nat_Suc)
    then have "of_nat (Suc j) \<noteq> (of_nat (Suc k) :: u32)" by metis
    then show "si_type (map (\<lambda>k. section_info (sections ! k) (offsets ! k)) [0..<7] ! j) \<noteq> section_code (section_types ! k)"
      using j code [OF j] section_type_facts(1) [OF assms(2)] by simp
  qed (use assms(2) in simp_all)
  then show ?thesis by (simp add: find_section_def)
qed

lemma fold_result_cong:
  "(\<And>s x. x \<in> set xs \<Longrightarrow> f s x = g s x) \<Longrightarrow> fold_result f s xs = fold_result g s xs"
  by (induction xs arbitrary: s) (auto simp: bind_result_def split: sum.split)

text \<open>
  The parts of a section the directory describes, and what the encoder made and what reading it gives.
\<close>

definition section_is :: "encoded_section \<Rightarrow> mncwf_v4_section_type \<Rightarrow> nat \<Rightarrow> nat \<Rightarrow> bool" where
  "section_is s ty item_count n \<longleftrightarrow>
     es_type s = ty \<and> unat (es_item_count s) = item_count \<and> length (es_payload s) = n"

definition section_for ::
    "encoded_section result \<Rightarrow> mncwf_v4_section_type \<Rightarrow> nat \<Rightarrow> nat \<Rightarrow>
     (mncwf_v4_section_info list \<Rightarrow> 'a result) \<Rightarrow> 'a result \<Rightarrow> encoded_section \<Rightarrow> bool" where
  "section_for encoded ty item_count n read_section_of outcome s \<longleftrightarrow> encoded = Inr s \<and> section_is s ty item_count n \<and>
     (\<forall>infos offset. find_section infos ty = Inr (section_info s offset) \<longrightarrow> read_section_of infos = outcome)"

lemma section_size_bytes: "section_size records blob = section_bytes (length records) (length blob)"
  by (simp add: section_size_def section_bytes_def blob_start_def)

lemma section_bytes_bounds: "m \<le> section_bytes m n" "n \<le> section_bytes m n" "48 \<le> section_bytes m n"
  using align_nat_bounds(1) [of "48 + m"] by (auto simp: section_bytes_def)

lemma parse_section_info:
  assumes enc: "enveloped_section ty item_count item_bytes records blob = Inr s"
    and blob: "length blob < 2 ^ 32" "allow_blob \<or> blob = []"
    and counts: "minimum_count \<le> item_count" "item_count \<le> maximum_count"
  shows "parse_section_envelope (section_info s offset) item_bytes minimum_count maximum_count allow_blob =
    Inr (records, blob)"
  using enveloped_section_Inr [OF enc blob(1)]
  by (intro parse_enveloped [OF enc blob _ _ _ _ _ _ _ counts])
    (simp_all add: section_info_def section_entry_def mncwf_v4_section_required_def)

lemma enveloped_section_is:
  assumes "unat item_count * unat item_bytes = length records"
    "section_bytes (length records) (length blob) \<le> mncwf_v4_max_file_bytes"
  shows "\<exists>s. enveloped_section ty item_count item_bytes records blob = Inr s \<and> es_item_count s = item_count \<and>
    es_item_bytes s = item_bytes \<and>
    section_is s ty (unat item_count) (section_bytes (length records) (length blob))"
  using enveloped_section_total [of item_count item_bytes records blob ty] assms
  by (simp add: section_is_def section_size_bytes length_section_payload)

text \<open>A step of a reader's loop does on the record of an item what \<open>check_item\<close> does for the item.\<close>

definition reads_back ::
    "nat \<Rightarrow> (nat \<Rightarrow> 'a \<Rightarrow> section_write list) \<Rightarrow> 'a list \<Rightarrow> bytes \<Rightarrow>
     (bytes \<Rightarrow> bytes \<Rightarrow> 's \<Rightarrow> nat \<Rightarrow> 's result) \<Rightarrow> ('s \<Rightarrow> nat \<Rightarrow> 's result) \<Rightarrow> bool" where
  "reads_back width item_writes items blob read_item check_item \<longleftrightarrow>
     (\<forall>records st i blob0 blob1. i < length items \<longrightarrow>
      writes (item_writes 0 (items ! i)) (zeros width, blob0) = Inr (subspan (i * width) width records, blob1) \<longrightarrow>
      prefix blob1 blob \<longrightarrow> length blob < 2 ^ 32 \<longrightarrow> read_item records blob st i = check_item st i)"

context item_encoder_total
begin

lemma section_encoded:
  assumes shape: "list_all shaped items" and texts: "list_all text_ok (concat (map strings items))"
    and width: "0 < width" "unat item_bytes = width"
    and size: "section_bytes (length items * width) (length (concat (concat (map strings items)))) \<le> mncwf_v4_max_file_bytes"
  shows "\<exists>records s. encode_items width item_writes items = Inr (records, concat (concat (map strings items))) \<and>
    enveloped_section ty (of_nat (length items)) item_bytes records (concat (concat (map strings items))) = Inr s \<and>
    es_item_count s = of_nat (length items) \<and> length items < 2 ^ 32 \<and>
    length (concat (concat (map strings items))) < 2 ^ 32 \<and>
    section_is s ty (length items) (section_bytes (length items * width) (length (concat (concat (map strings items))))) \<and>
    (\<forall>i<length items. \<exists>blob0 blob1. prefix blob1 (concat (concat (map strings items))) \<and>
       writes (item_writes 0 (items ! i)) (zeros width, blob0) = Inr (subspan (i * width) width records, blob1))"
proof -
  let ?blob = "concat (concat (map strings items))"
  have "length items * width \<le> 536870912" "length ?blob \<le> 536870912"
    using order_trans [OF section_bytes_bounds(1) size] order_trans [OF section_bytes_bounds(2) size] by simp_all
  moreover from this(1) width(1) have "length items \<le> 536870912"
    by (metis One_nat_def Suc_leI le_trans mult.right_neutral mult_le_mono2)
  ultimately have small: "length items < 2 ^ 32" "length ?blob < 2 ^ 32" by simp_all
  have "list_all (\<lambda>v. length v \<le> mncwf_v4_max_string_bytes) (concat (map strings items))"
    using texts by (simp add: list_all_iff text_ok_def)
  then obtain records where enc: "encode_items width item_writes items = Inr (records, ?blob)"
    using encode_items_total [OF shape _ small(2)] by blast
  note facts = encode_items_records [OF enc shape [unfolded list_all_iff]]
  have count: "unat (of_nat (length items) :: u64) = length items"
    using small(1) by (intro unat_of_nat_u64) simp
  have "unat (of_nat (length items) :: u64) * unat item_bytes = length records"
    using count width(2) facts(1) by simp
  then obtain s where "enveloped_section ty (of_nat (length items)) item_bytes records ?blob = Inr s"
    "es_item_count s = of_nat (length items)"
    "section_is s ty (length items) (section_bytes (length items * width) (length ?blob))"
    using enveloped_section_is [of "of_nat (length items)" item_bytes records ?blob ty] size facts(1) count by auto
  then show ?thesis using enc facts(3) small by blast
qed

text \<open>The loop of a reader over the records of an encoded section is the loop over the items.\<close>

lemma section_read:
  assumes shape: "list_all shaped items" and texts: "list_all text_ok (concat (map strings items))"
    and width: "0 < width" "unat item_bytes = width"
    and blob: "concat (concat (map strings items)) = blob" "allow_blob \<or> blob = []"
    and size: "section_bytes (length items * width) (length blob) \<le> mncwf_v4_max_file_bytes"
    and counts: "unat minimum_count \<le> length items" "length items \<le> unat maximum_count"
    and item: "reads_back width item_writes items blob read_item check_item"
  shows "\<exists>records s. encode_items width item_writes items = Inr (records, blob) \<and>
    enveloped_section ty (of_nat (length items)) item_bytes records blob = Inr s \<and>
    section_is s ty (length items) (section_bytes (length items * width) (length blob)) \<and>
    (\<forall>offset. parse_section_envelope (section_info s offset) item_bytes minimum_count maximum_count allow_blob =
         Inr (records, blob) \<and>
       (\<forall>st. fold_result (read_item records blob) st [0..<unat (si_item_count (section_info s offset))] =
         fold_result check_item st [0..<length items]))"
proof -
  obtain records s where enc: "encode_items width item_writes items = Inr (records, blob)"
    "enveloped_section ty (of_nat (length items)) item_bytes records blob = Inr s"
    and len: "length items < 2 ^ 32" "length blob < 2 ^ 32"
    and s: "section_is s ty (length items) (section_bytes (length items * width) (length blob))"
    and items: "\<And>i. i < length items \<Longrightarrow> \<exists>blob0 blob1. prefix blob1 blob \<and>
       writes (item_writes 0 (items ! i)) (zeros width, blob0) = Inr (subspan (i * width) width records, blob1)"
    using section_encoded [OF shape texts width size [folded blob(1)], of ty] unfolding blob(1) by blast
  have "unat (of_nat (length items) :: u64) = length items" using len(1) by (intro unat_of_nat_u64) simp
  then have n: "minimum_count \<le> (of_nat (length items) :: u64)" "of_nat (length items) \<le> maximum_count"
    using counts by (simp_all add: word_le_nat_alt)
  have "fold_result (read_item records blob) st [0..<unat (si_item_count (section_info s offset))] =
      fold_result check_item st [0..<length items]" for st offset
    using s items item [unfolded reads_back_def, rule_format] len(2)
    by (fastforce simp: section_info_def section_entry_def section_is_def intro!: fold_result_cong)
  then show ?thesis using enc s parse_section_info [OF enc(2) len(2) blob(2) n] by blast
qed

end

lemma concat_no_strings [simp]: "concat (map (\<lambda>_. []) xs) = []" "list_all (\<lambda>_. True) xs"
  by (induction xs) simp_all

text \<open>
  The sections a document has: the encoder makes them, and the reader of a section runs its checks
  on the items that were encoded.
\<close>

lemma timebase_section:
  assumes "segments \<noteq> []" "length segments \<le> 65536" "section_bytes (length segments * 128) 0 \<le> mncwf_v4_max_file_bytes"
  shows "\<exists>s. section_for (encode_timebase segments) Timebase_segments (length segments)
    (section_bytes (length segments * 128) 0) read_timebase (check_segments segments) s"
proof -
  have "read_timebase_segment records st i = accept_segment st i (raw_segment (segments ! i))"
    if "writes (segment_writes 0 (segments ! i)) (zeros 128, blob0) = Inr (subspan (i * 128) 128 records, blob1)"
    for records st i blob0 blob1
    using segment_read_back [OF that] by (simp add: read_timebase_segment_def raw_segment_def)
  then have item: "reads_back 128 segment_writes segments [] (\<lambda>records _. read_timebase_segment records)
      (\<lambda>st i. accept_segment st i (raw_segment (segments ! i)))"
    unfolding reads_back_def by blast
  show ?thesis unfolding section_for_def
    using segment_item.section_read [of segments 128 "[]" False 1 65536
        "\<lambda>records _. read_timebase_segment records" "\<lambda>st i. accept_segment st i (raw_segment (segments ! i))"
        Timebase_segments] item assms
    by (force simp: encode_timebase_def read_timebase_def check_segments_def Suc_le_eq)
qed

lemma quality_count_limit: "of_nat (mncwf_v4_max_metadata_section_bytes div 64) = (262144 :: u64)"
  by (simp add: mncwf_v4_max_metadata_section_bytes_def)

lemma quality_section:
  assumes "length intervals \<le> 262144" "section_bytes (length intervals * 64) 0 \<le> mncwf_v4_max_file_bytes"
  shows "\<exists>s. section_for (encode_quality intervals) Quality_intervals (length intervals)
    (section_bytes (length intervals * 64) 0) read_quality_intervals (check_quality intervals) s"
proof -
  have "read_quality records st i = accept_quality st (Inr False) (intervals ! i)"
    if "writes (quality_writes 0 (intervals ! i)) (zeros 64, blob0) = Inr (subspan (i * 64) 64 records, blob1)"
    for records st i blob0 blob1
    using quality_read_back [OF that] by (simp add: read_quality_def Let_def)
  then have item: "reads_back 64 quality_writes intervals [] (\<lambda>records _. read_quality records)
      (\<lambda>st i. accept_quality st (Inr False) (intervals ! i))"
    unfolding reads_back_def by blast
  show ?thesis unfolding section_for_def
    using quality_item.section_read [of intervals 64 "[]" False 0 262144
        "\<lambda>records _. read_quality records" "\<lambda>st i. accept_quality st (Inr False) (intervals ! i)"
        Quality_intervals] item assms
    unfolding read_quality_intervals_def quality_count_limit
    by (force simp: encode_quality_def check_quality_def)
qed

lemma lineage_section:
  assumes "list_all lineage_shaped entries" "length entries \<le> 4096"
    "section_bytes (length entries * 64) 0 \<le> mncwf_v4_max_file_bytes"
  shows "\<exists>s. section_for (encode_lineage entries) Lineage (length entries)
    (section_bytes (length entries * 64) 0) read_lineage (check_lineage entries) s"
proof -
  have "read_lineage_entry records st i = accept_lineage st (Inr False) (raw_lineage (entries ! i))"
    if "i < length entries"
      "writes (lineage_writes 0 (entries ! i)) (zeros 64, blob0) = Inr (subspan (i * 64) 64 records, blob1)"
    for records st i blob0 blob1
    using lineage_read_back [OF that(2)] assms(1) that(1)
    by (simp add: read_lineage_entry_def Let_def list_all_length raw_lineage_def)
  then have item: "reads_back 64 lineage_writes entries [] (\<lambda>records _. read_lineage_entry records)
      (\<lambda>st i. accept_lineage st (Inr False) (raw_lineage (entries ! i)))"
    unfolding reads_back_def by blast
  show ?thesis unfolding section_for_def
    using lineage_item.section_read [of entries 64 "[]" False 0 4096
        "\<lambda>records _. read_lineage_entry records" "\<lambda>st i. accept_lineage st (Inr False) (raw_lineage (entries ! i))"
        Lineage] item assms
    by (force simp: encode_lineage_def read_lineage_def check_lineage_def mncwf_v4_max_lineage_entries_def)
qed

lemma channels_section:
  assumes "list_all channel_shaped definitions" "list_all text_ok (concat (map channel_strings definitions))"
    "concat (concat (map channel_strings definitions)) = blob"
    "definitions \<noteq> []" "length definitions \<le> 64"
    "section_bytes (length definitions * 208) (length blob) \<le> mncwf_v4_max_file_bytes"
  shows "\<exists>s. section_for (encode_channels definitions) Channel_definitions (length definitions)
    (section_bytes (length definitions * 208) (length blob)) read_channels (check_channels definitions) s"
proof -
  have "read_channel records blob st i = accept_channel st (Inr False) (raw_channel (definitions ! i))"
    if "i < length definitions"
      "writes (channel_writes 0 (definitions ! i)) (zeros 208, blob0) = Inr (subspan (i * 208) 208 records, blob1)"
      "prefix blob1 blob" "length blob < 2 ^ 32"
    for records st i blob0 blob1
  proof -
    have "channel_shaped (definitions ! i)" "list_all text_ok (channel_strings (definitions ! i))"
      using assms(1,2) that(1) by (auto simp: list_all_iff)
    from channel_read_back [OF that(2) this(1) that(3,4) this(2)]
    show ?thesis by (simp add: read_channel_def Let_def raw_channel_def)
  qed
  then have item: "reads_back 208 channel_writes definitions blob read_channel
      (\<lambda>st i. accept_channel st (Inr False) (raw_channel (definitions ! i)))" unfolding reads_back_def by blast
  obtain records s where "encode_items 208 channel_writes definitions = Inr (records, blob)"
    "enveloped_section Channel_definitions (of_nat (length definitions)) 208 records blob = Inr s"
    and s: "section_is s Channel_definitions (length definitions) (section_bytes (length definitions * 208) (length blob))"
    and "\<And>offset. parse_section_envelope (section_info s offset) 208 1 64 True = Inr (records, blob)"
    "\<And>offset st. fold_result (read_channel records blob) st [0..<unat (si_item_count (section_info s offset))] =
       fold_result (\<lambda>st i. accept_channel st (Inr False) (raw_channel (definitions ! i))) st [0..<length definitions]"
    using channel_item.section_read [where ty = Channel_definitions and item_bytes = 208 and allow_blob = True and
        minimum_count = 1 and maximum_count = 64,
        OF assms(1,2) _ _ assms(3) _ assms(6) _ _ item] assms(4,5) by (auto simp: Suc_le_eq)
  then show ?thesis unfolding section_for_def using s
    by (intro exI [of _ s]) (simp add: encode_channels_def read_channels_def check_channels_def mncwf_v4_max_channels_def)
qed

lemma events_section:
  assumes "list_all event_shaped events" "list_all text_ok (concat (map event_strings events))"
    "concat (concat (map event_strings events)) = blob" "length events \<le> 4096"
    "section_bytes (length events * 256) (length blob) \<le> mncwf_v4_max_file_bytes"
  shows "\<exists>s. section_for (encode_events events) Event_descriptors (length events)
    (section_bytes (length events * 256) (length blob)) read_events (check_events events) s"
proof -
  have "read_event records blob st i = accept_event st (Inr False) (raw_event (events ! i))"
    if "i < length events"
      "writes (event_writes 0 (events ! i)) (zeros 256, blob0) = Inr (subspan (i * 256) 256 records, blob1)"
      "prefix blob1 blob" "length blob < 2 ^ 32"
    for records st i blob0 blob1
  proof -
    have "event_shaped (events ! i)" "list_all text_ok (event_strings (events ! i))"
      using assms(1,2) that(1) by (auto simp: list_all_iff)
    from event_read_back [OF that(2) this(1) that(3,4) this(2)]
    show ?thesis by (simp add: read_event_def Let_def raw_event_def)
  qed
  then have item: "reads_back 256 event_writes events blob read_event
      (\<lambda>st i. accept_event st (Inr False) (raw_event (events ! i)))" unfolding reads_back_def by blast
  obtain records s where "encode_items 256 event_writes events = Inr (records, blob)"
    "enveloped_section Event_descriptors (of_nat (length events)) 256 records blob = Inr s"
    and s: "section_is s Event_descriptors (length events) (section_bytes (length events * 256) (length blob))"
    and "\<And>offset. parse_section_envelope (section_info s offset) 256 0 4096 True = Inr (records, blob)"
    "\<And>offset st. fold_result (read_event records blob) st [0..<unat (si_item_count (section_info s offset))] =
       fold_result (\<lambda>st i. accept_event st (Inr False) (raw_event (events ! i))) st [0..<length events]"
    using event_item.section_read [where ty = Event_descriptors and item_bytes = 256 and allow_blob = True and
        minimum_count = 0 and maximum_count = 4096,
        OF assms(1,2) _ _ assms(3) _ assms(5) _ _ item] assms(4) by (auto simp: Suc_le_eq)
  then show ?thesis unfolding section_for_def using s
    by (intro exI [of _ s]) (simp add: encode_events_def read_events_def check_events_def mncwf_v4_max_events_def)
qed


lemma capture_section:
  assumes shape: "capture_shaped c" and valid: "capture_valid c" and blob: "concat (capture_strings c) = blob"
    and size: "section_bytes 256 (length blob) \<le> mncwf_v4_max_file_bytes"
  shows "\<exists>s. section_for (encode_capture c) Capture_metadata 1
    (section_bytes 256 (length blob)) read_capture (Inr c) s"
proof -
  have texts: "list_all text_ok (capture_strings c)" using valid by (simp add: capture_valid_def)
  obtain records s where enc: "encode_items 256 capture_writes [c] = Inr (records, blob)"
    "enveloped_section Capture_metadata 1 256 records blob = Inr s"
    and len: "length blob < 2 ^ 32"
    and s: "section_is s Capture_metadata 1 (section_bytes 256 (length blob))"
    using capture_item.section_encoded [of "[c]" 256 Capture_metadata] shape texts size
    by (simp add: blob del: length_concat) blast
  have "length records = 256" "\<exists>blob0 blob1. prefix blob1 blob \<and>
      writes (capture_writes 0 c) (zeros 256, blob0) = Inr (subspan 0 256 records, blob1)"
    using capture_item.encode_items_records(1,3) [OF enc(1)] shape by force+
  then obtain blob0 blob1 where run: "prefix blob1 blob"
    "writes (capture_writes 0 c) (zeros 256, blob0) = Inr (records, blob1)" by (auto simp: subspan_def)
  note fields = capture_read_back [OF run(2) shape] capture_reserved_read_back [OF run(2) shape]
    capture_strings_read_back [OF run(2) shape run(1) len texts]
  have "read_capture sections = Inr c"
    if "find_section sections Capture_metadata = Inr (section_info s offset)" for sections offset
    using that valid parse_section_info [OF enc(2) len, of True 1 1 offset]
    by (simp add: read_capture_def fields capture_valid_def capture_invalid_def)
  moreover have "encode_capture c = Inr s" using enc by (simp add: encode_capture_def)
  ultimately show ?thesis unfolding section_for_def using s by blast
qed

lemma samples_section:
  assumes geometry: "unat count * unat frame_bytes = length data" "count \<noteq> 0" "frame_bytes \<noteq> 0"
    and size: "section_bytes (length data) 0 \<le> mncwf_v4_max_file_bytes"
  shows "\<exists>s. enveloped_section Sample_data count frame_bytes data [] = Inr s \<and>
    section_is s Sample_data (unat count) (section_bytes (length data) 0) \<and>
    es_item_count s = count \<and> es_item_bytes s = frame_bytes \<and>
    (\<forall>offset. read_samples z Complete mncwf_v4_version (section_info s offset) = Inr ([], data))"
proof -
  obtain s where enc: "enveloped_section Sample_data count frame_bytes data [] = Inr s"
    and s: "section_is s Sample_data (unat count) (section_bytes (length data) 0)"
    "es_item_count s = count" "es_item_bytes s = frame_bytes"
    using enveloped_section_is [OF geometry(1), of "[]" Sample_data] size by auto
  have pos: "0 < unat frame_bytes" using geometry(3) by (simp add: unat_gt_0)
  have "unat count * unat frame_bytes \<le> 536870912"
    using geometry(1) order_trans [OF section_bytes_bounds(1) size] by simp
  then have "unat count \<le> 536870912 div unat frame_bytes" using pos by (simp add: less_eq_div_iff_mult_less_eq)
  then have max: "count \<le> of_nat mncwf_v4_max_file_bytes div ucast frame_bytes"
    by (simp add: word_le_nat_alt unat_div)
  have min: "1 \<le> count" using geometry(2) by (simp add: word_le_nat_alt unat_gt_0 Suc_le_eq)
  have "si_item_bytes (section_info s offset) = frame_bytes" for offset
    using s by (simp add: section_info_def section_entry_def)
  then have "read_samples z Complete mncwf_v4_version (section_info s offset) = Inr ([], data)" for offset
    using parse_section_info [OF enc _ _ min max, of False offset]
    by (simp add: read_samples_def del: of_nat_numeral)
  then show ?thesis using enc s by blast
qed

text \<open>What the reader makes of the sections of a file.\<close>

definition sections_read :: "zstd_port \<Rightarrow> mncwf_v4_document \<Rightarrow> mncwf_v4_section_info list \<Rightarrow> bool" where
  "sections_read z d infos \<longleftrightarrow>
     read_capture infos = Inr (doc_capture_metadata d) \<and>
     read_timebase infos = check_segments (doc_timebase_segments d) \<and>
     read_channels infos = check_channels (doc_channels d) \<and>
     read_events infos = check_events (doc_events d) \<and>
     read_quality_intervals infos = check_quality (doc_quality_intervals d) \<and>
     read_lineage infos = check_lineage (doc_lineage d) \<and>
     (\<exists>info. find_section infos Sample_data = Inr info \<and> si_item_count info = doc_sample_frame_count d \<and>
        si_item_bytes info = doc_sample_frame_bytes d \<and>
        read_samples z Complete mncwf_v4_version info = Inr ([], doc_sample_data d))"

definition reader_document :: "mncwf_v4_reader \<Rightarrow> mncwf_v4_document" where
  "reader_document r =
     \<lparr>doc_capture_metadata = rd_capture_metadata r, doc_timebase_segments = rd_timebase_segments r,
      doc_channels = rd_channels r, doc_events = rd_events r, doc_quality_intervals = rd_quality_intervals r,
      doc_lineage = rd_lineage r, doc_sample_frame_count = rd_sample_frame_count r,
      doc_sample_frame_bytes = rd_sample_frame_bytes r, doc_sample_data = rd_sample_data r\<rparr>"

lemma reader_on_sections:
  assumes valid: "document_valid d" and container: "read_container Complete bs = Inr (h, infos)"
    and h: "h_version h = mncwf_v4_version" and read: "sections_read z d infos"
  shows "\<exists>r. mncwf_reader z Complete bs = Inr r \<and> reader_document r = d \<and> rd_header r = h \<and> rd_sections r = infos"
proof -
  obtain info where info: "find_section infos Sample_data = Inr info" "si_item_count info = doc_sample_frame_count d"
    "si_item_bytes info = doc_sample_frame_bytes d"
    "read_samples z Complete mncwf_v4_version info = Inr ([], doc_sample_data d)"
    using read unfolding sections_read_def by blast
  obtain next_sequence where segs: "check_segments (doc_timebase_segments d) =
      Inr (doc_sample_frame_count d, next_sequence, doc_timebase_segments d)"
    using valid by (auto simp: document_valid_def split: sum.splits)
  have events: "require_all (map (\<lambda>e. (event_anchored (doc_timebase_segments d) e,
      reject ''event anchor lies outside the capture'')) (doc_events d)) = Inr ()"
    using valid by (auto simp: document_valid_def list_all_iff)
  have intervals: "require_all (concat (map (quality_checks (doc_sample_frame_count d) (length (doc_channels d)))
      (doc_quality_intervals d))) = Inr ()"
    using valid by (fastforce simp: document_valid_def list_all_iff)
  have nonzero: "doc_sample_frame_bytes d \<noteq> 0" using valid by (simp add: document_valid_def)
  have "read_channels infos = Inr (ucast (doc_sample_frame_bytes d), doc_channels d)"
    "read_events infos = Inr (doc_events d)" "read_quality_intervals infos = Inr (doc_quality_intervals d)"
    "read_lineage infos = Inr (doc_lineage d)"
    using valid read by (simp_all add: document_valid_def sections_read_def)
  then show ?thesis
    using read segs info container h nonzero unfolding mncwf_reader_def sections_read_def
    by (simp add: events intervals reader_document_def del: require_all_ok)
qed

section \<open>The file of a valid document\<close>

lemma document_sizes_bounds:
  assumes "document_valid d" "n \<in> set (document_sizes d)"
  shows "n \<le> mncwf_v4_max_file_bytes" "48 \<le> n"
proof -
  have "align_nat n \<le> sum_list (map align_nat (document_sizes d))"
    using assms(2) by (intro member_le_sum_list) auto
  then show "n \<le> mncwf_v4_max_file_bytes"
    using assms(1) align_nat_bounds(1) [of n] by (simp add: document_valid_def)
  show "48 \<le> n" using assms(2) section_bytes_bounds(3) by (auto simp: document_sizes_def)
qed

definition file_infos :: "encoded_section list \<Rightarrow> u64 list \<Rightarrow> mncwf_v4_section_info list" where
  "file_infos sections offsets = map (\<lambda>k. section_info (sections ! k) (offsets ! k)) [0..<7]"

text \<open>The sections of a valid document, one by one.\<close>

lemma valid_section_sizes:
  "document_valid d \<Longrightarrow> k < 7 \<Longrightarrow> document_sizes d ! k \<le> mncwf_v4_max_file_bytes"
  using document_sizes_bounds(1) [OF _ nth_mem] by (simp add: document_sizes_def)

lemma valid_capture_section:
  assumes "document_valid d"
  shows "\<exists>s. section_for (encode_capture (doc_capture_metadata d)) Capture_metadata 1 (document_sizes d ! 0)
    read_capture (Inr (doc_capture_metadata d)) s"
  using capture_section [OF _ _ refl, of "doc_capture_metadata d"] assms valid_section_sizes [OF assms, of 0]
  by (auto simp: document_valid_def document_shaped_def document_sizes_def)

lemma valid_timebase_section:
  assumes "document_valid d"
  shows "\<exists>s. section_for (encode_timebase (doc_timebase_segments d)) Timebase_segments (length (doc_timebase_segments d))
    (document_sizes d ! 1) read_timebase (check_segments (doc_timebase_segments d)) s"
  using timebase_section [of "doc_timebase_segments d"] assms valid_section_sizes [OF assms, of 1]
  by (simp add: document_valid_def document_sizes_def)

lemma valid_channels_section:
  assumes "document_valid d"
  shows "\<exists>s. section_for (encode_channels (doc_channels d)) Channel_definitions (length (doc_channels d))
    (document_sizes d ! 2) read_channels (check_channels (doc_channels d)) s"
  using channels_section [OF _ _ refl, of "doc_channels d"] assms valid_section_sizes [OF assms, of 2]
  by (simp add: document_valid_def document_shaped_def document_sizes_def)

lemma valid_events_section:
  assumes "document_valid d"
  shows "\<exists>s. section_for (encode_events (doc_events d)) Event_descriptors (length (doc_events d))
    (document_sizes d ! 3) read_events (check_events (doc_events d)) s"
  using events_section [OF _ _ refl, of "doc_events d"] assms valid_section_sizes [OF assms, of 3]
  by (simp add: document_valid_def document_shaped_def document_sizes_def)

lemma valid_quality_section:
  assumes "document_valid d"
  shows "\<exists>s. section_for (encode_quality (doc_quality_intervals d)) Quality_intervals (length (doc_quality_intervals d))
    (document_sizes d ! 4) read_quality_intervals (check_quality (doc_quality_intervals d)) s"
  using quality_section [of "doc_quality_intervals d"] assms valid_section_sizes [OF assms, of 4]
  by (simp add: document_valid_def document_sizes_def)

lemma valid_lineage_section:
  assumes "document_valid d"
  shows "\<exists>s. section_for (encode_lineage (doc_lineage d)) Lineage (length (doc_lineage d))
    (document_sizes d ! 5) read_lineage (check_lineage (doc_lineage d)) s"
  using lineage_section [of "doc_lineage d"] assms valid_section_sizes [OF assms, of 5]
  by (simp add: document_valid_def document_shaped_def document_sizes_def)

lemma valid_samples_section:
  assumes "document_valid d"
  shows "\<exists>s. enveloped_section Sample_data (doc_sample_frame_count d) (doc_sample_frame_bytes d)
      (doc_sample_data d) [] = Inr s \<and>
    section_is s Sample_data (unat (doc_sample_frame_count d)) (document_sizes d ! 6) \<and>
    es_item_count s = doc_sample_frame_count d \<and> es_item_bytes s = doc_sample_frame_bytes d \<and>
    (\<forall>offset. read_samples z Complete mncwf_v4_version (section_info s offset) = Inr ([], doc_sample_data d))"
  using samples_section [of "doc_sample_frame_count d" "doc_sample_frame_bytes d" "doc_sample_data d" z]
    assms valid_section_sizes [OF assms, of 6]
  by (simp add: document_valid_def document_sizes_def)

lemma valid_frame_count:
  assumes "document_valid d"
  shows "unat (doc_sample_frame_count d) \<le> 536870912"
proof -
  have "unat (doc_sample_frame_count d) * unat (doc_sample_frame_bytes d) = length (doc_sample_data d)"
    "doc_sample_frame_bytes d \<noteq> 0"
    using assms by (simp_all add: document_valid_def)
  then show ?thesis
    using section_bytes_bounds(1) [of "length (doc_sample_data d)" 0] valid_section_sizes [OF assms, of 6]
      mult_le_mono2 [of 1 "unat (doc_sample_frame_bytes d)" "unat (doc_sample_frame_count d)"]
    by (simp add: document_sizes_def unat_gt_0 Suc_le_eq)
qed

lemma valid_sections:
  assumes valid: "document_valid d"
  shows "\<exists>sections. encode_sections d = Inr sections \<and> map es_type sections = section_types \<and>
    map (\<lambda>s. length (es_payload s)) sections = document_sizes d \<and>
    list_all (\<lambda>s. unat (es_item_count s) \<le> 536870912) sections \<and>
    (\<forall>offsets. sections_read z d (file_infos sections offsets))"
proof -
  obtain s0 where s0: "section_for (encode_capture (doc_capture_metadata d)) Capture_metadata 1 (document_sizes d ! 0)
    read_capture (Inr (doc_capture_metadata d)) s0" using valid_capture_section [OF valid] by blast
  obtain s1 where s1: "section_for (encode_timebase (doc_timebase_segments d)) Timebase_segments
    (length (doc_timebase_segments d)) (document_sizes d ! 1) read_timebase (check_segments (doc_timebase_segments d)) s1"
    using valid_timebase_section [OF valid] by blast
  obtain s2 where s2: "section_for (encode_channels (doc_channels d)) Channel_definitions (length (doc_channels d))
    (document_sizes d ! 2) read_channels (check_channels (doc_channels d)) s2"
    using valid_channels_section [OF valid] by blast
  obtain s3 where s3: "section_for (encode_events (doc_events d)) Event_descriptors (length (doc_events d))
    (document_sizes d ! 3) read_events (check_events (doc_events d)) s3" using valid_events_section [OF valid] by blast
  obtain s4 where s4: "section_for (encode_quality (doc_quality_intervals d)) Quality_intervals
    (length (doc_quality_intervals d)) (document_sizes d ! 4) read_quality_intervals
    (check_quality (doc_quality_intervals d)) s4" using valid_quality_section [OF valid] by blast
  obtain s5 where s5: "section_for (encode_lineage (doc_lineage d)) Lineage (length (doc_lineage d))
    (document_sizes d ! 5) read_lineage (check_lineage (doc_lineage d)) s5" using valid_lineage_section [OF valid] by blast
  obtain s6 where s6: "enveloped_section Sample_data (doc_sample_frame_count d) (doc_sample_frame_bytes d)
      (doc_sample_data d) [] = Inr s6"
    "section_is s6 Sample_data (unat (doc_sample_frame_count d)) (document_sizes d ! 6)"
    "es_item_count s6 = doc_sample_frame_count d" "es_item_bytes s6 = doc_sample_frame_bytes d"
    "\<And>offset. read_samples z Complete mncwf_v4_version (section_info s6 offset) = Inr ([], doc_sample_data d)"
    using valid_samples_section [OF valid, of z] by blast
  define sections where "sections = [s0, s1, s2, s3, s4, s5, s6]"
  note made = s0 [unfolded section_for_def] s1 [unfolded section_for_def] s2 [unfolded section_for_def]
    s3 [unfolded section_for_def] s4 [unfolded section_for_def] s5 [unfolded section_for_def]
  have types: "map es_type sections = section_types"
    using made s6(2) by (simp add: sections_def section_types_def section_is_def)
  have sizes: "map (\<lambda>s. length (es_payload s)) sections = document_sizes d"
    using made s6(2) by (simp add: sections_def section_is_def) (simp add: document_sizes_def)
  have find: "find_section (file_infos sections offsets) (section_types ! k) =
      Inr (section_info (sections ! k) (offsets ! k))" if "k < 7" for k offsets
    using find_section_file [OF types that] by (simp only: file_infos_def)
  have "sections_read z d (file_infos sections offsets)" for offsets
    using find [of 0 offsets] find [of 1 offsets] find [of 2 offsets] find [of 3 offsets] find [of 4 offsets]
      find [of 5 offsets] find [of 6 offsets] made s6(3,4,5)
    by (simp add: sections_def section_types_def sections_read_def) (simp add: section_info_def section_entry_def)
  then show ?thesis
    using made s6 types sizes valid valid_frame_count [OF valid]
    by (intro exI [of _ sections]) (auto simp: sections_def encode_sections_def section_is_def document_valid_def)
qed

lemma valid_layout:
  assumes valid: "document_valid d" and types: "map es_type sections = section_types"
    and sizes: "map (\<lambda>s. length (es_payload s)) sections = document_sizes d"
    and counts: "list_all (\<lambda>s. unat (es_item_count s) \<le> 536870912) sections"
  shows "\<exists>offsets file_bytes. layout_sections 456 (document_sizes d) = Inr (offsets, file_bytes) \<and>
    encoded_layout sections offsets file_bytes"
proof -
  have len: "length (document_sizes d) = 7" "length sections = 7"
    using arg_cong [OF sizes, of length] by (simp_all add: document_sizes_def)
  have total: "456 + sum_list (map align_nat (document_sizes d)) \<le> 536870912"
    using valid by (simp add: document_valid_def)
  then obtain offsets file_bytes where lay: "layout_sections 456 (document_sizes d) = Inr (offsets, file_bytes)"
    "length offsets = 7" "unat file_bytes = 456 + sum_list (map align_nat (document_sizes d))"
    "\<And>k. k < 7 \<Longrightarrow> unat (offsets ! k) = 456 + sum_list (map align_nat (take k (document_sizes d)))"
    using layout_sections_total [of 456 "document_sizes d"] len by auto
  have body: "body_size sections k = sum_list (map align_nat (take k (document_sizes d)))" for k
    by (simp add: body_size_def sizes)
  have payload: "length (es_payload (sections ! k)) = document_sizes d ! k" if "k < 7" for k
    using that len by (simp flip: sizes)
  have small: "document_sizes d ! k \<le> mncwf_v4_max_metadata_section_bytes" if "k < 6" for k
  proof -
    have "butlast (document_sizes d) ! k \<in> set (butlast (document_sizes d))" using that len by (intro nth_mem) simp
    moreover have "butlast (document_sizes d) ! k = document_sizes d ! k" using that len by (intro nth_butlast) simp
    ultimately show ?thesis using valid by (auto simp: document_valid_def list_all_iff)
  qed
  have large: "48 \<le> document_sizes d ! k" if "k < 7" for k
    using document_sizes_bounds(2) [OF valid nth_mem] that len by simp
  have "encoded_layout sections offsets file_bytes"
    using types lay(2,3,4) total counts len payload small large
    by (simp add: encoded_layout_def body list_all_length)
  then show ?thesis using lay(1) by blast
qed

lemma encode_run:
  assumes lay: "encoded_layout sections offsets file_bytes" and sections: "encode_sections d = Inr sections"
    and layout: "layout_sections 456 (map (\<lambda>s. length (es_payload s)) sections) = Inr (offsets, file_bytes)"
    and geometry: "unat (doc_sample_frame_count d) * unat (doc_sample_frame_bytes d) = length (doc_sample_data d)"
      "length (doc_sample_data d) \<le> mncwf_v4_max_file_bytes"
    and read: "mncwf_reader z Complete (encoded_file sections offsets file_bytes) = Inr r"
  shows "encode_mncwf_v4 z d = Inr (encoded_file sections offsets file_bytes)"
proof -
  let ?hdr = "header_bytes 7 392 file_bytes"
  have len: "length sections = 7" by (rule encoded_layout_length [OF lay])
  have ul: "unat (of_nat (length (doc_sample_data d)) :: u64) = length (doc_sample_data d)"
    using geometry(2) by (intro unat_of_nat_u64) simp
  have mult: "checked_multiply (doc_sample_frame_count d) (ucast (doc_sample_frame_bytes d)) ''encoded sample data'' =
      Inr (of_nat (length (doc_sample_data d)))"
    using geometry ul by (simp add: checked_simps)
  have dir: "checked_multiply 7 56 ''encoded directory'' = Inr (392 :: u64)"
    "checked_add 64 392 ''encoded directory'' = Inr (456 :: u64)" "align_eight (456 :: u64) = Inr 456"
    by (simp_all add: checked_simps align_nat_def)
  have fb: "unat file_bytes = 456 + body_size sections 7" "unat file_bytes \<le> mncwf_v4_max_file_bytes"
    using lay by (simp_all add: encoded_layout_def)
  have w1: "writes (header_writes 7 392 file_bytes) (zeros (unat file_bytes)) =
      Inr (?hdr @ zeros (56 * 7) @ zeros (body_size sections 7))"
    using header_writes_run [of 7 392 file_bytes "392 + body_size sections 7"] fb by (simp add: zeros_add)
  have w2: "writes (concat (map (section_file_writes sections offsets) [0..<7]))
      (?hdr @ zeros (56 * 7) @ zeros (body_size sections 7)) =
    Inr (?hdr @ file_directory sections offsets 7 @ file_body sections 7)"
    using section_loop [of ?hdr sections 7 7 offsets] len lay
    by (simp add: encoded_layout_def zeros_def del: upt_rec_numeral)
  have w3: "seal_file 392 (?hdr @ file_directory sections offsets 7 @ file_body sections 7) =
      Inr (encoded_file sections offsets file_bytes)"
    unfolding encoded_file_def by (intro seal_file_run) simp_all
  show ?thesis
    using mult dir sections layout fb w1 w2 w3 read len ul
    by (simp add: encode_mncwf_v4_def mncwf_v4_header_bytes_def mncwf_v4_directory_entry_bytes_def
        del: upt_rec_numeral)
qed

lemma valid_document_file:
  assumes valid: "document_valid d"
  shows "\<exists>bs r. encode_mncwf_v4 z d = Inr bs \<and> mncwf_reader z Complete bs = Inr r \<and> reader_document r = d \<and>
    rd_mode r = Complete \<and> length bs \<le> mncwf_v4_max_file_bytes \<and> 64 \<le> length bs"
proof -
  obtain sections where sections: "encode_sections d = Inr sections" "map es_type sections = section_types"
    "map (\<lambda>s. length (es_payload s)) sections = document_sizes d"
    "list_all (\<lambda>s. unat (es_item_count s) \<le> 536870912) sections"
    "\<And>offsets. sections_read z d (file_infos sections offsets)"
    using valid_sections [OF valid, of z] by blast
  obtain offsets file_bytes where lay: "layout_sections 456 (document_sizes d) = Inr (offsets, file_bytes)"
    "encoded_layout sections offsets file_bytes"
    using valid_layout [OF valid sections(2-4)] by blast
  let ?file = "encoded_file sections offsets file_bytes"
  obtain h where "read_container Complete ?file = Inr (h, file_infos sections offsets)" "h_version h = mncwf_v4_version"
    using read_container_file [OF lay(2)] unfolding file_infos_def by blast
  from reader_on_sections [OF valid this sections(5)]
  obtain r where r: "mncwf_reader z Complete ?file = Inr r" "reader_document r = d" by blast
  have "section_bytes (length (doc_sample_data d)) 0 \<in> set (document_sizes d)" by (simp add: document_sizes_def)
  from document_sizes_bounds(1) [OF valid this]
  have "length (doc_sample_data d) \<le> mncwf_v4_max_file_bytes"
    using section_bytes_bounds(1) order_trans by blast
  moreover have "unat (doc_sample_frame_count d) * unat (doc_sample_frame_bytes d) = length (doc_sample_data d)"
    using valid by (simp add: document_valid_def)
  ultimately have "encode_mncwf_v4 z d = Inr ?file"
    using encode_run [OF lay(2) sections(1) _ _ _ r(1)] lay(1) sections(3) by simp
  moreover have "length ?file \<le> mncwf_v4_max_file_bytes" "64 \<le> length ?file"
    using length_encoded_file [OF lay(2)] lay(2) by (simp_all add: encoded_layout_def)
  moreover have "rd_mode r = Complete"
    using r(1) by (auto simp: mncwf_reader_def split: if_splits prod.splits)
  ultimately show ?thesis using r by blast
qed


text \<open>
  A small document: two frames of one channel of two bytes in one segment, with an event, a quality
  interval and a parent capture.
\<close>

definition example_capture :: mncwf_v4_capture_metadata where
  "example_capture =
     \<lparr>cm_capture_uuid = replicate 16 1, cm_device_uuid = replicate 16 2,
      cm_configuration_sha256 = replicate 32 3, cm_sensor_profile_sha256 = replicate 32 4,
      cm_created_tai_nanoseconds = 7, cm_created_utc_nanoseconds = 7,
      cm_nominal_voltage_numerator = 230, cm_nominal_voltage_denominator = 1,
      cm_nominal_frequency_numerator = 50, cm_nominal_frequency_denominator = 1, cm_topology = Wye,
      cm_calibration_status = Calibration_valid, cm_flags = 0, cm_station_name = [],
      cm_site_name = [], cm_circuit_name = [], cm_product_name = [0x4d], cm_device_model = [],
      cm_firmware_version = [0x31], cm_software_build_id = [0x32], cm_sensor_profile_id = [0x70],
      cm_configuration_id = [0x63], cm_calibration_id = [], cm_device_serial = [], cm_comments = []\<rparr>"

definition example_segment :: mncwf_v4_timebase_segment where
  "example_segment =
     \<lparr>ts_first_frame = 0, ts_frame_count = 2, ts_first_sequence = 100, ts_sequence_step = 1,
      ts_acquisition_rate_numerator = 10000, ts_acquisition_rate_denominator = 1,
      ts_persisted_rate_numerator = 10000, ts_persisted_rate_denominator = 1,
      ts_correlation_sequence = 100, ts_correlation_pl_tick = 0, ts_correlation_tai_nanoseconds = 5,
      ts_correlation_utc_nanoseconds = 0, ts_uncertainty_nanoseconds = 0, ts_decimation_divisor = 1,
      ts_decimation_method = Decimation_none, ts_clock_source = Clock_ptp,
      ts_time_quality = Time_locked, ts_flags = 0, ts_utc_offset_seconds = 0,
      ts_source_frame_count = 2\<rparr>"

definition example_channel :: mncwf_v4_channel_definition where
  "example_channel =
     \<lparr>cd_stable_id = replicate 16 5, cd_source_channel = 0, cd_flags = 3, cd_phase = Phase_a,
      cd_quantity = Quantity_voltage, cd_si_unit = Volt,
      cd_sample_encoding = Signed_integer_little_endian, cd_storage_bits = 16, cd_valid_bits = 16,
      cd_display_exponent10 = 0, cd_gain_numerator = 1, cd_gain_denominator = 1,
      cd_offset_numerator = 0, cd_offset_denominator = 1, cd_ratio_numerator = 0,
      cd_ratio_denominator = 0, cd_nominal_numerator = 0, cd_nominal_denominator = 0,
      cd_range_minimum_numerator = 0, cd_range_minimum_denominator = 0,
      cd_range_maximum_numerator = 0, cd_range_maximum_denominator = 0, cd_resolution_numerator = 0,
      cd_resolution_denominator = 0, cd_clipping_low = 0, cd_clipping_high = 0, cd_name = [0x56],
      cd_unit_symbol = [0x56], cd_description = []\<rparr>"

definition example_event :: mncwf_v4_event_descriptor where
  "example_event =
     \<lparr>ed_event_uuid = replicate 16 6, ed_taxonomy = Iec_61000_4_30, ed_event_type = 1,
      ed_lifecycle = Event_start, ed_time_quality = Time_locked, ed_flags = 1, ed_phase_mask = 1,
      ed_quantity = Quantity_voltage, ed_si_unit = Volt, ed_trigger_source = 0,
      ed_configuration_generation = 1, ed_severity = 1, ed_start_sequence = 101,
      ed_current_sequence = 0, ed_end_sequence = 0, ed_trigger_sequence = 0,
      ed_start_tai_nanoseconds = 0, ed_current_tai_nanoseconds = 0, ed_end_tai_nanoseconds = 0,
      ed_trigger_tai_nanoseconds = 0, ed_start_utc_nanoseconds = 0, ed_current_utc_nanoseconds = 0,
      ed_end_utc_nanoseconds = 0, ed_trigger_utc_nanoseconds = 0, ed_uncertainty_nanoseconds = 0,
      ed_reference_micro_units = 0, ed_threshold_micro_units = 0, ed_hysteresis_micro_units = 0,
      ed_extrema_micro_units = (0, 0, 0), ed_duration_samples = 1, ed_update_count = 0,
      ed_status = 0, ed_taxonomy_name = [0x64], ed_label = [0x64], ed_settings_snapshot_json = []\<rparr>"

definition example_interval :: mncwf_v4_quality_interval where
  "example_interval =
     \<lparr>qi_first_frame = 0, qi_frame_count = 1, qi_first_sequence = 100, qi_last_sequence = 101,
      qi_channel_mask = 1, qi_flags = 1, qi_severity = 0, qi_source = 0, qi_detail_code = 0\<rparr>"

definition example_entry :: mncwf_v4_lineage_entry where
  "example_entry =
     \<lparr>le_relation = Relation_parent, le_flags = 0, le_related_capture_uuid = replicate 16 7,
      le_related_event_uuid = replicate 16 0, le_first_sequence = 100, le_last_sequence = 101,
      le_part_index = 0, le_part_count = 1\<rparr>"

definition example_document :: mncwf_v4_document where
  "example_document =
     \<lparr>doc_capture_metadata = example_capture, doc_timebase_segments = [example_segment],
      doc_channels = [example_channel], doc_events = [example_event],
      doc_quality_intervals = [example_interval], doc_lineage = [example_entry],
      doc_sample_frame_count = 2, doc_sample_frame_bytes = 2, doc_sample_data = [1, 0, 2, 0]\<rparr>"

definition no_zstd :: zstd_port where
  "no_zstd = \<lparr>z_dctx_available = False, z_bound_window = Inl [], z_find_frame_size = (\<lambda>_. Inl []),
     z_content_size = (\<lambda>_. 0), z_decompress = (\<lambda>_ _. Inl [])\<rparr>"

lemmas example_defs = example_document_def example_capture_def example_segment_def example_channel_def
  example_event_def example_interval_def example_entry_def

lemmas example_simps = example_defs all_zero_def list_all_iff set_replicate_conv_if enum_cast_def decimation_all_def
  clock_all_def time_quality_all_def phase_all_def quantity_all_def si_unit_all_def encoding_all_def
  taxonomy_all_def lifecycle_all_def relation_all_def valid_topology_def valid_calibration_def
  valid_clock_source_def valid_time_quality_def valid_phase_def valid_quantity_def valid_unit_def
  valid_event_taxonomy_def valid_event_lifecycle_def valid_lineage_relation_def time_flag_defs
  channel_flag_defs event_flag_defs strings_defs text_ok_def mncwf_v4_max_string_bytes_def

lemma example_capture_valid: "capture_valid example_capture"
  by (simp add: capture_valid_def capture_invalid_def example_simps)

lemma example_segments_valid: "check_segments [example_segment] = Inr (2, Some 102, [example_segment])"
  by (simp add: check_segments_def accept_segment_def raw_segment_def segment_invalid_def Let_def check_decimation_def
      rate_matches_decimation_def gcd_u64_def reduced_def checked_multiply_def checked_add_def
      sequence_continuity_bad_def example_simps del: bind_result_eq_Inr)

lemma example_channels_valid: "check_channels [example_channel] = Inr (2, [example_channel])"
  by (simp add: check_channels_def accept_channel_def raw_channel_def channel_invalid_def channel_checks_def
      checked_add_def example_simps del: bind_result_eq_Inr)

lemma example_events_valid: "check_events [example_event] = Inr [example_event]"
  by (simp add: check_events_def accept_event_def raw_event_def event_invalid_def event_flag_def event_checks_def
      Let_def example_simps del: bind_result_eq_Inr)

lemma example_quality_valid: "check_quality [example_interval] = Inr [example_interval]"
  by (simp add: check_quality_def accept_quality_def example_defs mncwf_quality_known_flags_def)

lemma example_lineage_valid: "check_lineage [example_entry] = Inr [example_entry]"
  by (simp add: check_lineage_def accept_lineage_def raw_lineage_def example_simps del: bind_result_eq_Inr)

lemma example_document_valid: "document_valid example_document"
  by (simp add: document_valid_def example_document_def example_capture_valid example_segments_valid
      example_channels_valid example_events_valid example_quality_valid example_lineage_valid)
    (simp add: document_shaped_def shaped_defs event_anchored_def sequence_is_stored_def event_flag_def
      quality_checks_def document_sizes_def section_bytes_def align_nat_def mncwf_v4_max_metadata_section_bytes_def
      example_simps)

section \<open>What the file format promises\<close>

text \<open>
  C11. Round trip. For every valid document the encoder returns a file, the reader accepts that file in
  full, and the capture metadata, timebase segments, channels, events, quality intervals, lineage,
  sample geometry and sample bytes it returns are those of the document.
\<close>

theorem encode_mncwf_v4_roundtrip:
  assumes "document_valid d"
  shows "\<exists>bs r. encode_mncwf_v4 z d = Inr bs \<and> length bs \<le> mncwf_v4_max_file_bytes \<and>
    mncwf_reader z Complete bs = Inr r \<and> reader_document r = d"
  using valid_document_file [OF assms, of z] by blast

theorem encode_mncwf_v4_roundtrip_witness:
  "document_valid example_document \<and> (\<exists>bs r. encode_mncwf_v4 no_zstd example_document = Inr bs \<and>
     mncwf_reader no_zstd Complete bs = Inr r \<and> reader_document r = example_document \<and>
     rd_sample_data r = [1, 0, 2, 0])"
proof -
  obtain bs r where "encode_mncwf_v4 no_zstd example_document = Inr bs" "mncwf_reader no_zstd Complete bs = Inr r"
    and r: "reader_document r = example_document"
    using encode_mncwf_v4_roundtrip [OF example_document_valid, of no_zstd] by blast
  moreover have "rd_sample_data r = [1, 0, 2, 0]"
    using arg_cong [OF r, of doc_sample_data] by (simp add: reader_document_def example_document_def)
  ultimately show ?thesis using example_document_valid by blast
qed

text \<open>
  C12. Corruption is detected. If the reader accepts a file in full, then the file with any one byte
  changed, whether in the header, the directory, a section, its padding or the samples, is rejected with
  an error.
\<close>

theorem mncwf_corruption_detected:
  assumes "mncwf_reader z Complete bs = Inr r" "i < length bs" "b \<noteq> bs ! i"
  shows "\<exists>e. mncwf_reader z' Complete (bs[i := b]) = Inl e"
proof -
  obtain h infos where "read_container Complete bs = Inr (h, infos)"
    using assms(1) by (auto simp: mncwf_reader_def split: prod.splits)
  from container_byte_rejected [OF this assms(2,3)]
  have "\<exists>e. read_container Complete (bs[i := b]) = Inl e"
    by (cases "read_container Complete (bs[i := b])") auto
  then show ?thesis by (auto simp: mncwf_reader_def)
qed

theorem mncwf_corruption_detected_witness:
  "\<exists>bs r e. mncwf_reader no_zstd Complete bs = Inr r \<and> reader_document r = example_document \<and>
     mncwf_reader no_zstd Complete (bs[63 := bs ! 63 + 1]) = Inl e"
proof -
  obtain bs r where bs: "mncwf_reader no_zstd Complete bs = Inr r" "reader_document r = example_document" "64 \<le> length bs"
    using valid_document_file [OF example_document_valid, of no_zstd] by blast
  then have "63 < length bs" "bs ! 63 + 1 \<noteq> bs ! 63" by simp_all
  from mncwf_corruption_detected [OF bs(1) this] bs show ?thesis by blast
qed
end
