(* ===== verification/Mncwf_Consistency.thy ===== *)
theory Mncwf_Consistency
  imports Mncwf_Roundtrip
begin

text \<open>
  What a file is once the reader has accepted it: the timebase covers the sample frames without gap or
  overlap, the channels make up the frame, the samples of either version have the declared size,
  and every frame can be taken out. For version 5 this includes that no chunk is expanded outside the
  buffer of the samples.
\<close>

unbundle bit_operations_syntax

lemma fold_result_invariant:
  assumes "fold_result f s xs = Inr s'" "P s" "\<And>s x s'. x \<in> set xs \<Longrightarrow> P s \<Longrightarrow> f s x = Inr s' \<Longrightarrow> P s'"
  shows "P s'"
  using assms by (induction xs arbitrary: s) auto

section \<open>Timebase\<close>

text \<open>
  Segments follow one another: each starts at the frame where the one before ends, holds at
  least one frame, and its source sequence does not go back.
\<close>

fun timeline :: "nat \<Rightarrow> nat \<Rightarrow> mncwf_v4_timebase_segment list \<Rightarrow> bool" where
  "timeline frame sequence [] \<longleftrightarrow> True"
| "timeline frame sequence (s # segments) \<longleftrightarrow>
     unat (ts_first_frame s) = frame \<and> 0 < unat (ts_frame_count s) \<and> sequence \<le> unat (ts_first_sequence s) \<and>
     timeline (frame + unat (ts_frame_count s)) (unat (ts_first_sequence s) + unat (ts_source_frame_count s)) segments"

definition frames_of :: "mncwf_v4_timebase_segment list \<Rightarrow> nat" where
  "frames_of segments = sum_list (map (\<lambda>s. unat (ts_frame_count s)) segments)"

definition sequence_after :: "nat \<Rightarrow> mncwf_v4_timebase_segment list \<Rightarrow> nat" where
  "sequence_after sequence segments = (if segments = [] then sequence
     else unat (ts_first_sequence (last segments)) + unat (ts_source_frame_count (last segments)))"

lemma timeline_snoc:
  "timeline frame sequence (segments @ [s]) \<longleftrightarrow> timeline frame sequence segments \<and>
     unat (ts_first_frame s) = frame + frames_of segments \<and> 0 < unat (ts_frame_count s) \<and>
     sequence_after sequence segments \<le> unat (ts_first_sequence s)"
  by (induction frame sequence segments rule: timeline.induct) (auto simp: frames_of_def sequence_after_def)

definition timebase_state_ok :: "timebase_state \<Rightarrow> bool" where
  "timebase_state_ok st \<longleftrightarrow>
     (case st of (covered, next_sequence, segments) \<Rightarrow>
        timeline 0 0 segments \<and> unat covered = frames_of segments \<and>
        (case next_sequence of
           None \<Rightarrow> segments = []
         | Some n \<Rightarrow> segments \<noteq> [] \<and> unat n = sequence_after 0 segments))"

lemma accept_segment_ok:
  assumes "accept_segment st index raw = Inr st'" "timebase_state_ok st"
  shows "timebase_state_ok st'"
proof -
  obtain covered next_sequence segments where st: "st = (covered, next_sequence, segments)" by (cases st)
  obtain r m c q where raw: "raw = (r, m, c, q)" by (cases raw)
  define s where "s = r\<lparr>ts_decimation_method := enum_cast decimation_code decimation_all m,
      ts_clock_source := enum_cast clock_code clock_all c, ts_time_quality := enum_cast time_quality_code time_quality_all q\<rparr>"
  from assms(1) obtain next_sequence' next_frame where
    st': "st' = (next_frame, Some next_sequence', segments @ [s])" and
    first: "ts_first_frame s = covered" "ts_frame_count s \<noteq> 0" and
    cont: "\<not> sequence_continuity_bad next_sequence s" and
    sums: "checked_add (ts_first_sequence s) (ts_source_frame_count s) ''timebase source sequence'' = Inr next_sequence'"
      "checked_add (ts_first_frame s) (ts_frame_count s) ''timebase frame coverage'' = Inr next_frame"
    unfolding st raw by (auto simp: accept_segment_def s_def segment_invalid_def Let_def split: if_splits)
  have "sequence_after 0 segments \<le> unat (ts_first_sequence s)"
    using cont assms(2) by (cases next_sequence)
      (auto simp: st timebase_state_ok_def sequence_continuity_bad_def sequence_after_def Let_def
        word_less_nat_alt word_le_nat_alt split: if_splits)
  then show ?thesis using assms(2) first sums
    by (auto simp: st st' timebase_state_ok_def timeline_snoc checked_simps frames_of_def sequence_after_def unat_gt_0)
qed

lemma read_timebase_ok:
  assumes "read_timebase infos = Inr st"
  shows "timebase_state_ok st"
proof -
  from assms obtain records xs where "fold_result (read_timebase_segment records) (0, None, []) xs = Inr st"
    by (auto simp: read_timebase_def)
  then show ?thesis
    by (rule fold_result_invariant)
      (auto simp: timebase_state_ok_def frames_of_def read_timebase_segment_def dest: accept_segment_ok)
qed

section \<open>Channels\<close>

definition channel_widths :: "mncwf_v4_channel_definition list \<Rightarrow> nat" where
  "channel_widths definitions = sum_list (map (\<lambda>c. unat (cd_storage_bits c) div 8) definitions)"

definition channel_state_ok :: "channel_state \<Rightarrow> bool" where
  "channel_state_ok st \<longleftrightarrow> unat (fst st) = channel_widths (snd st) \<and>
     distinct (map cd_stable_id (snd st)) \<and> distinct (map cd_source_channel (snd st)) \<and>
     list_all (\<lambda>c. 0 < cd_valid_bits c \<and> cd_valid_bits c \<le> cd_storage_bits c \<and> 8 dvd unat (cd_storage_bits c)) (snd st)"

lemma unat_ucast_u16 [simp]: "unat (ucast (w :: u16) :: u64) = unat w"
  using unsigned_less [of w, where 'a = nat] by (simp add: unsigned_ucast_eq take_bit_nat_eq_self)

lemma accept_channel_ok:
  assumes "accept_channel st bad raw = Inr st'" "channel_state_ok st"
  shows "channel_state_ok st'"
proof -
  obtain n definitions where st: "st = (n, definitions)" by (cases st)
  obtain c p q u e where raw: "raw = (c, p, q, u, e)" by (cases raw) auto
  from assms(1) obtain n' where
    st': "st' = (n', definitions @
        [c\<lparr>cd_phase := enum_cast phase_code phase_all p, cd_quantity := enum_cast quantity_code quantity_all q,
           cd_si_unit := enum_cast si_unit_code si_unit_all u,
           cd_sample_encoding := enum_cast encoding_code encoding_all e\<rparr>])" and
    valid: "\<not> channel_invalid (map cd_stable_id definitions) (map cd_source_channel definitions) c p q u e" and
    sum: "checked_add n (ucast (cd_storage_bits c div 8)) ''sample frame bytes'' = Inr n'"
    unfolding st raw by (auto simp: accept_channel_def Let_def split: if_splits)
  have bits: "0 < cd_valid_bits c" "cd_valid_bits c \<le> cd_storage_bits c" "cd_storage_bits c mod 8 = 0"
    using valid by (auto simp: channel_invalid_def word_neq_0_conv not_less)
  have "unat (cd_storage_bits c mod 8) = unat (cd_storage_bits c) mod 8" by (simp add: unat_mod)
  then have "8 dvd unat (cd_storage_bits c)" using bits(3) by (simp add: dvd_eq_mod_eq_0)
  then show ?thesis using assms(2) valid bits(1,2) sum
    by (auto simp: st st' channel_state_ok_def channel_widths_def channel_invalid_def checked_simps unat_div)
qed

lemma read_channels_ok:
  assumes "read_channels infos = Inr st"
  shows "channel_state_ok st"
proof -
  from assms obtain records blob xs where "fold_result (read_channel records blob) (0, []) xs = Inr st"
    by (auto simp: read_channels_def)
  then show ?thesis
    by (rule fold_result_invariant)
      (auto simp: channel_state_ok_def channel_widths_def read_channel_def Let_def dest: accept_channel_ok)
qed

section \<open>Samples\<close>

lemma parse_section_records:
  assumes "parse_section_envelope s item_bytes minimum_count maximum_count allow_blob = Inr (records, blob)"
  shows "length records = unat (si_item_count s) * unat (si_item_bytes s)" "length records < 2 ^ 64"
proof -
  from assms obtain n :: u64 where "unat n = unat (si_item_count s) * unat (si_item_bytes s)" "length records = unat n"
    by (auto simp: parse_section_envelope_def checked_simps length_subspan split: if_splits)
  then show "length records = unat (si_item_count s) * unat (si_item_bytes s)" "length records < 2 ^ 64"
    using unsigned_less [of n, where 'a = nat] by simp_all
qed

text \<open>Chunks cover frames one after the other, in the sizes their frames have.\<close>

definition chunk_fits :: "nat \<Rightarrow> mncwf_v5_chunk_info \<Rightarrow> bool" where
  "chunk_fits width c \<longleftrightarrow> unat (ci_logical_bytes c) = unat (ci_frame_count c) * width \<and> 0 < unat (ci_frame_count c) \<and>
     unat (ci_logical_bytes c) \<le> mncwf_v5_max_chunk_logical_bytes \<and>
     (ci_codec c = Chunk_raw \<longrightarrow> ci_stored_bytes c = ci_logical_bytes c)"

fun chunk_line :: "nat \<Rightarrow> nat \<Rightarrow> mncwf_v5_chunk_info list \<Rightarrow> bool" where
  "chunk_line width frame [] \<longleftrightarrow> True"
| "chunk_line width frame (c # chunks) \<longleftrightarrow> unat (ci_first_frame c) = frame \<and> chunk_fits width c \<and>
     chunk_line width (frame + unat (ci_frame_count c)) chunks"

definition chunk_frames :: "mncwf_v5_chunk_info list \<Rightarrow> nat" where
  "chunk_frames chunks = sum_list (map (\<lambda>c. unat (ci_frame_count c)) chunks)"

lemma chunk_line_snoc:
  "chunk_line width frame (chunks @ [c]) \<longleftrightarrow> chunk_line width frame chunks \<and>
     unat (ci_first_frame c) = frame + chunk_frames chunks \<and> chunk_fits width c"
  by (induction width frame chunks rule: chunk_line.induct) (auto simp: chunk_frames_def)

definition chunk_state_ok :: "nat \<Rightarrow> chunk_state \<Rightarrow> bool" where
  "chunk_state_ok width st \<longleftrightarrow>
     (case st of (frames, _, chunks) \<Rightarrow> chunk_line width 0 chunks \<and> unat frames = chunk_frames chunks)"

lemma throw_unless_Inr: "((if b then Inl e else m) = Inr y) = (\<not> b \<and> m = Inr y)"
  by simp

lemma read_sample_chunk_ok:
  assumes "read_sample_chunk z info st index = Inr st'" "chunk_state_ok (unat (si_item_bytes info)) st"
  shows "chunk_state_ok (unat (si_item_bytes info)) st'"
proof -
  obtain frames offset chunks where st: "st = (frames, offset, chunks)" by (cases st)
  from assms(1) obtain c codec reserved expected next_frame next_offset where
    logical: "checked_multiply (ci_frame_count c) (ucast (si_item_bytes info)) ''v5 chunk logical bytes'' = Inr expected" and
    valid: "\<not> chunk_invalid frames offset expected c codec reserved" and
    sum: "checked_add frames (ci_frame_count c) ''v5 frame coverage'' = Inr next_frame" and
    st': "st' = (next_frame, next_offset, chunks @ [c\<lparr>ci_codec := (if codec = 1 then Chunk_zstd else Chunk_raw)\<rparr>])"
    unfolding st by (auto simp: read_sample_chunk_def Let_def throw_unless_Inr case_prod_unfold)
  have "codec = 1" if "codec \<noteq> 0" using that valid
    by (auto simp: chunk_invalid_def not_less word_le_nat_alt word_unat_eq_iff)
  then show ?thesis using assms(2) valid logical sum
    by (auto simp: st st' chunk_state_ok_def chunk_line_snoc chunk_fits_def chunk_invalid_def chunk_frames_def
        checked_simps unat_gt_0 split: if_splits)
qed

lemma read_chunk_table_ok:
  assumes "read_chunk_table z info = Inr chunks"
  shows "chunk_line (unat (si_item_bytes info)) 0 chunks" "chunk_frames chunks = unat (si_item_count info)"
proof -
  from assms obtain xs start frames offset where
    loop: "fold_result (read_sample_chunk z info) (0, start, []) xs = Inr (frames, offset, chunks)" and
    frames: "frames = si_item_count info"
    by (auto simp: read_chunk_table_def Let_def split: if_splits prod.splits)
  have "chunk_state_ok (unat (si_item_bytes info)) (frames, offset, chunks)"
    by (rule fold_result_invariant [OF loop])
      (auto simp: chunk_state_ok_def chunk_frames_def dest: read_sample_chunk_ok)
  then show "chunk_line (unat (si_item_bytes info)) 0 chunks" "chunk_frames chunks = unat (si_item_count info)"
    using frames by (simp_all add: chunk_state_ok_def)
qed

text \<open>The bytes of a chunk in the expanded samples have the checksum of its entry.\<close>

definition chunk_intact :: "nat \<Rightarrow> bytes \<Rightarrow> mncwf_v5_chunk_info \<Rightarrow> bool" where
  "chunk_intact width samples c \<longleftrightarrow>
     unat (ci_first_frame c) * width + unat (ci_logical_bytes c) \<le> length samples \<and>
     mncwf_crc32c (subspan (unat (ci_first_frame c) * width) (unat (ci_logical_bytes c)) samples) = ci_logical_crc32c c"

lemma expand_chunk_ok:
  assumes run: "expand_chunk z info samples c = Inr samples'" and fits: "chunk_fits (unat (si_item_bytes info)) c"
    and room: "unat (ci_first_frame c) * unat (si_item_bytes info) + unat (ci_logical_bytes c) \<le> length samples"
  shows "length samples' = length samples" "chunk_intact (unat (si_item_bytes info)) samples' c"
    "a + n \<le> unat (ci_first_frame c) * unat (si_item_bytes info) \<Longrightarrow> subspan a n samples' = subspan a n samples"
proof -
  from run obtain stored offset logical where
    stored: "range_of (si_data info) (ci_stored_offset c) (ci_stored_bytes c) ''v5 sample chunk'' = Inr stored" and
    offset: "checked_multiply (ci_first_frame c) (ucast (si_item_bytes info)) ''v5 decompressed offset'' = Inr offset" and
    logical: "(if ci_codec c = Chunk_raw then Inr stored
        else if z_content_size z stored \<noteq> ci_logical_bytes c
        then Inl (reject ''v5 Zstd frame content size is invalid'')
        else bind_result (require_zstd (z_decompress z (unat (ci_logical_bytes c)) stored) ''decompress v5 sample chunk'')
          (\<lambda>produced. if length produced \<noteq> unat (ci_logical_bytes c)
            then Inl (reject ''v5 Zstd frame decompressed size is invalid'') else Inr produced)) = Inr logical" and
    crc: "mncwf_crc32c logical = ci_logical_crc32c c" and samples': "samples' = patch (unat offset) logical samples"
    by (auto simp: expand_chunk_def throw_unless_Inr)
  have off: "unat offset = unat (ci_first_frame c) * unat (si_item_bytes info)"
    using offset by (simp add: checked_simps)
  have len: "length logical = unat (ci_logical_bytes c)"
    using logical stored fits by (auto simp: checked_simps chunk_fits_def length_subspan split: if_splits)
  show "length samples' = length samples" by (simp add: samples')
  show "chunk_intact (unat (si_item_bytes info)) samples' c"
    using room crc len off by (simp add: chunk_intact_def samples' subspan_patch_same)
  show "subspan a n samples' = subspan a n samples" if "a + n \<le> unat (ci_first_frame c) * unat (si_item_bytes info)"
    using that off by (simp add: samples' subspan_patch_other)
qed

lemma expand_loop:
  assumes "fold_result (expand_chunk z info) samples chunks = Inr samples'" "width = unat (si_item_bytes info)"
    "chunk_line width frame chunks" "(frame + chunk_frames chunks) * width \<le> length samples"
  shows "length samples' = length samples \<and> list_all (chunk_intact width samples') chunks \<and>
    (\<forall>a n. a + n \<le> frame * width \<longrightarrow> subspan a n samples' = subspan a n samples)"
  using assms
proof (induction chunks arbitrary: samples frame)
  case Nil
  then show ?case by simp
next
  case (Cons c chunks)
  from Cons.prems(1) obtain s where step: "expand_chunk z info samples c = Inr s"
    and rest: "fold_result (expand_chunk z info) s chunks = Inr samples'" by auto
  have c: "unat (ci_first_frame c) = frame" "chunk_fits width c" using Cons.prems(3) by simp_all
  then have logical: "unat (ci_logical_bytes c) = unat (ci_frame_count c) * width" by (simp add: chunk_fits_def)
  have total: "(frame + unat (ci_frame_count c) + chunk_frames chunks) * width \<le> length samples"
    using Cons.prems(4) by (simp add: chunk_frames_def add.assoc)
  then have room: "frame * width + unat (ci_logical_bytes c) \<le> length samples"
    unfolding logical by (simp add: add_mult_distrib)
  note ok = expand_chunk_ok [OF step, folded Cons.prems(2), unfolded c(1), OF c(2) room]
  have IH: "length samples' = length s" "list_all (chunk_intact width samples') chunks"
    "\<And>a n. a + n \<le> (frame + unat (ci_frame_count c)) * width \<Longrightarrow> subspan a n samples' = subspan a n s"
    using Cons.IH [OF rest Cons.prems(2), of "frame + unat (ci_frame_count c)"] Cons.prems(3) total ok(1) by simp_all
  have "chunk_intact width samples' c"
    using ok(2) IH(1) IH(3) [of "frame * width" "unat (ci_logical_bytes c)"] c(1) logical
    by (simp add: chunk_intact_def add_mult_distrib)
  moreover have "subspan a n samples' = subspan a n samples" if "a + n \<le> frame * width" for a n
    using IH(3) [of a n] ok(3) [OF that] that by (simp add: add_mult_distrib)
  ultimately show ?case using IH(1,2) ok(1) by simp
qed

lemma read_samples_ok:
  assumes read: "read_samples z Complete version info = Inr (chunks, samples)"
    and logical: "valid_logical_size version info = Inr True" "si_type info = section_code Sample_data"
  shows "length samples = unat (si_item_count info) * unat (si_item_bytes info)" "length samples < 2 ^ 64"
    "list_all (chunk_intact (unat (si_item_bytes info)) samples) chunks"
    "version \<noteq> mncwf_v4_version \<Longrightarrow> chunk_line (unat (si_item_bytes info)) 0 chunks \<and>
       chunk_frames chunks = unat (si_item_count info)"
proof -
  let ?goal = "length samples = unat (si_item_count info) * unat (si_item_bytes info) \<and>
    length samples < 2 ^ 64 \<and> list_all (chunk_intact (unat (si_item_bytes info)) samples) chunks \<and> (version \<noteq> mncwf_v4_version \<longrightarrow>
    chunk_line (unat (si_item_bytes info)) 0 chunks \<and> chunk_frames chunks = unat (si_item_count info))"
  have ?goal
  proof (cases "version = mncwf_v4_version")
    case True
    then show ?thesis using read by (auto simp: read_samples_def dest: parse_section_records)
  next
    case False
    from read False have table: "read_chunk_table z info = Inr chunks" and run: "expand_chunks z info chunks = Inr samples"
      by (auto simp: read_samples_def)
    have size: "unat (si_logical_bytes info) = unat (si_item_count info) * unat (si_item_bytes info)"
      using logical False by (auto simp: valid_logical_size_def checked_simps)
    note line = read_chunk_table_ok [OF table]
    from run have "fold_result (expand_chunk z info) (zeros (unat (si_logical_bytes info))) chunks = Inr samples"
      by (auto simp: expand_chunks_def throw_unless_Inr)
    from expand_loop [OF this refl line(1)] show ?thesis
      using line size unsigned_less [of "si_logical_bytes info", where 'a = nat] by simp
  qed
  then show "length samples = unat (si_item_count info) * unat (si_item_bytes info)" "length samples < 2 ^ 64"
    "list_all (chunk_intact (unat (si_item_bytes info)) samples) chunks"
    "version \<noteq> mncwf_v4_version \<Longrightarrow> chunk_line (unat (si_item_bytes info)) 0 chunks \<and>
       chunk_frames chunks = unat (si_item_count info)"
    by blast+
qed

section \<open>Accepted files\<close>

lemma valid_logical_size_data: "valid_logical_size version (s\<lparr>si_data := data\<rparr>) = valid_logical_size version s"
  by (simp add: valid_logical_size_def)

lemma read_container_logical:
  assumes "read_container mode bs = Inr (h, infos)"
  shows "list_all (\<lambda>s. valid_logical_size (h_version h) s = Inr True) infos"
proof -
  from assms obtain directory present where loop: "fold_result (read_section bs (h_version h) directory)
      (replicate mncwf_v4_mandatory_section_count False, []) [0..<unat (h_section_count h)] = Inr (present, infos)"
    by (auto simp: read_container_def read_directory_def split: if_splits prod.splits)
  have "list_all (\<lambda>s. valid_logical_size (h_version h) s = Inr True) (snd (present, infos))"
    by (rule fold_result_invariant [OF loop])
      (auto simp: read_section_def Let_def throw_unless_Inr directory_entry_invalid_def valid_logical_size_data)
  then show ?thesis by simp
qed

lemma find_section_Inr:
  "find_section infos ty = Inr s \<Longrightarrow> s \<in> set infos \<and> si_type s = section_code ty"
  by (auto simp: find_section_def find_Some_iff split: option.splits)

lemma mncwf_reader_parts:
  assumes "mncwf_reader z Complete bs = Inr r"
  obtains h infos next_sequence info where
    "read_container Complete bs = Inr (h, infos)"
    "read_timebase infos = Inr (rd_sample_frame_count r, next_sequence, rd_timebase_segments r)"
    "read_channels infos = Inr (ucast (rd_sample_frame_bytes r), rd_channels r)"
    "find_section infos Sample_data = Inr info" "si_item_count info = rd_sample_frame_count r"
    "si_item_bytes info = rd_sample_frame_bytes r" "rd_sample_frame_bytes r \<noteq> 0" "rd_mode r = Complete"
    "read_samples z Complete (h_version h) info = Inr (rd_sample_chunks r, rd_sample_data r)"
    "list_all (event_anchored (rd_timebase_segments r)) (rd_events r)"
    "list_all (\<lambda>q. list_all fst (quality_checks (rd_sample_frame_count r) (length (rd_channels r)) q)) (rd_quality_intervals r)"
  using assms by (auto simp: mncwf_reader_def throw_unless_Inr case_prod_unfold list_all_iff)

lemma frames_concat:
  "length data = n * w \<Longrightarrow> concat (map (\<lambda>i. subspan (i * w) w data) [0..<n]) = data"
proof -
  assume len: "length data = n * w"
  have "concat (map (\<lambda>i. subspan (i * w) w data) [0..<k]) = take (k * w) data" for k
    by (induction k) (simp_all add: subspan_def take_add add.commute [of w])
  then show ?thesis using len by simp
qed

lemma traverse_map: "(\<And>x. x \<in> set xs \<Longrightarrow> f x = Inr (g x)) \<Longrightarrow> traverse f xs = Inr (map g xs)"
  by (induction xs) simp_all

text \<open>
  C13. An accepted file is consistent. In every file the reader accepts in full, the timebase segments
  follow one another in frames and in source sequence and cover exactly the sample frames; the channels are
  distinct and their widths make up the frame; the samples have exactly the size of their
  frames; every chunk of a version 5 file lies inside them with the bytes its checksum was taken of;
  events are anchored inside segments; and quality intervals lie inside the samples.
\<close>

theorem mncwf_accepted_consistent:
  assumes "mncwf_reader z Complete bs = Inr r"
  shows "timeline 0 0 (rd_timebase_segments r) \<and>
    frames_of (rd_timebase_segments r) = unat (rd_sample_frame_count r) \<and>
    distinct (map cd_stable_id (rd_channels r)) \<and> channel_widths (rd_channels r) = unat (rd_sample_frame_bytes r) \<and>
    length (rd_sample_data r) = unat (rd_sample_frame_count r) * unat (rd_sample_frame_bytes r) \<and>
    list_all (chunk_intact (unat (rd_sample_frame_bytes r)) (rd_sample_data r)) (rd_sample_chunks r) \<and>
    list_all (event_anchored (rd_timebase_segments r)) (rd_events r) \<and>
    list_all (\<lambda>q. unat (qi_first_frame q) + unat (qi_frame_count q) \<le> unat (rd_sample_frame_count r)) (rd_quality_intervals r)"
proof -
  from assms obtain h infos next_sequence info where
    container: "read_container Complete bs = Inr (h, infos)" and
    timebase: "read_timebase infos = Inr (rd_sample_frame_count r, next_sequence, rd_timebase_segments r)" and
    chans: "read_channels infos = Inr (ucast (rd_sample_frame_bytes r), rd_channels r)" and
    info: "find_section infos Sample_data = Inr info" "si_item_count info = rd_sample_frame_count r"
      "si_item_bytes info = rd_sample_frame_bytes r" and
    samples: "read_samples z Complete (h_version h) info = Inr (rd_sample_chunks r, rd_sample_data r)" and
    events: "list_all (event_anchored (rd_timebase_segments r)) (rd_events r)" and
    intervals: "list_all (\<lambda>q. list_all fst (quality_checks (rd_sample_frame_count r) (length (rd_channels r)) q))
      (rd_quality_intervals r)"
    by (rule mncwf_reader_parts)
  have logical: "valid_logical_size (h_version h) info = Inr True" "si_type info = section_code Sample_data"
    using read_container_logical [OF container] find_section_Inr [OF info(1)] by (auto simp: list_all_iff)
  have "list_all (\<lambda>q. unat (qi_first_frame q) + unat (qi_frame_count q) \<le> unat (rd_sample_frame_count r))
      (rd_quality_intervals r)"
    using intervals by (auto simp: list_all_iff quality_checks_def not_less word_le_nat_alt unat_sub)
  then show ?thesis
    using read_timebase_ok [OF timebase] read_channels_ok [OF chans] read_samples_ok(1,3) [OF samples logical] info(2,3) events
    by (simp add: timebase_state_ok_def channel_state_ok_def)
qed

theorem mncwf_accepted_consistent_witness:
  "\<exists>bs r. mncwf_reader no_zstd Complete bs = Inr r \<and> reader_document r = example_document \<and>
     length (rd_sample_data r) = 4 \<and> timeline 0 0 (rd_timebase_segments r)"
proof -
  obtain bs r where bs: "mncwf_reader no_zstd Complete bs = Inr r" and r: "reader_document r = example_document"
    using valid_document_file [OF example_document_valid, of no_zstd] by blast
  have "rd_sample_frame_count r = 2" "rd_sample_frame_bytes r = 2"
    using arg_cong [OF r, of doc_sample_frame_count] arg_cong [OF r, of doc_sample_frame_bytes]
    by (simp_all add: reader_document_def example_document_def)
  then show ?thesis using mncwf_accepted_consistent [OF bs] bs r by auto
qed

text \<open>
  Every frame of an accepted file can be taken: \<^verbatim>\<open>sample_frame\<close> succeeds at every index below the
  frame count with a frame of the declared size, the frames in order are the sample data, and any
  other index is out of range.
\<close>

lemma sample_frames_partition:
  assumes "mncwf_reader z Complete bs = Inr r"
  shows "(\<exists>frames. traverse (\<lambda>i. sample_frame r (of_nat i)) [0..<unat (rd_sample_frame_count r)] = Inr frames \<and>
      concat frames = rd_sample_data r \<and> list_all (\<lambda>f. length f = unat (rd_sample_frame_bytes r)) frames) \<and>
    (\<forall>i. rd_sample_frame_count r \<le> i \<longrightarrow> sample_frame r i = Inl (Out_of_range ''MNCWF sample frame index''))"
proof -
  let ?w = "unat (rd_sample_frame_bytes r)"
  let ?n = "unat (rd_sample_frame_count r)"
  let ?frame = "\<lambda>i. subspan (i * ?w) ?w (rd_sample_data r)"
  from assms obtain h infos info where container: "read_container Complete bs = Inr (h, infos)" and
    info: "find_section infos Sample_data = Inr info" "si_item_count info = rd_sample_frame_count r"
      "si_item_bytes info = rd_sample_frame_bytes r" and mode: "rd_mode r = Complete" and
    samples: "read_samples z Complete (h_version h) info = Inr (rd_sample_chunks r, rd_sample_data r)"
    by (rule mncwf_reader_parts)
  have logical: "valid_logical_size (h_version h) info = Inr True" "si_type info = section_code Sample_data"
    using read_container_logical [OF container] find_section_Inr [OF info(1)] by (auto simp: list_all_iff)
  have len: "length (rd_sample_data r) = ?n * ?w" "?n * ?w < 2 ^ 64"
    using read_samples_ok(1,2) [OF samples logical] info(2,3) by simp_all
  have inside: "i * ?w + ?w \<le> ?n * ?w" if "i < ?n" for i
    using mult_le_mono1 [of "Suc i" ?n ?w] that by simp
  have frame: "sample_frame r (of_nat i) = Inr (?frame i)" if "i < ?n" for i
  proof -
    have i: "unat (of_nat i :: u64) = i"
      using that unsigned_less [of "rd_sample_frame_count r", where 'a = nat] by (intro unat_of_nat_u64) simp
    define off :: u64 where "off = of_nat (i * ?w)"
    have off: "unat off = i * ?w" unfolding off_def using inside [OF that] len(2) by (intro unat_of_nat_u64) simp
    have "checked_multiply (of_nat i) (ucast (rd_sample_frame_bytes r)) ''sample frame offset'' = Inr off"
      using i off inside [OF that] len(2) by (simp add: checked_simps)
    then show ?thesis using that i off mode by (simp add: sample_frame_def word_le_nat_alt)
  qed
  have "traverse (\<lambda>i. sample_frame r (of_nat i)) [0..<?n] = Inr (map ?frame [0..<?n])"
    using frame by (intro traverse_map) simp
  moreover have "length (?frame i) = ?w" if "i < ?n" for i
    using inside [OF that] len(1) by (simp add: length_subspan)
  then have "list_all (\<lambda>f. length f = ?w) (map ?frame [0..<?n])" by (simp add: list_all_iff)
  ultimately show ?thesis using frames_concat [OF len(1)] mode by (auto simp: sample_frame_def)
qed
end
