(* ===== verification/Modbus_Handler.thy ===== *)
theory Modbus_Handler
  imports Msap1_Prelude
begin

text \<open>
  The transport-neutral Modbus request handler (\<^verbatim>\<open>common/mnc/modbus/types.hpp\<close>, \<^verbatim>\<open>encoding.cpp\<close>,
  \<^verbatim>\<open>register_bank.hpp\<close>, \<^verbatim>\<open>request_handler.cpp\<close>). The register bank is an interface: a record of
  operations over a state, and the locale \<open>register_bank_contract\<close> says what an implementation
  promises. Function codes are the bytes of \<^verbatim>\<open>enum class FunctionCode : std::uint8_t\<close>.
\<close>

section \<open>Codes\<close>

abbreviation read_holding_registers :: u8 where "read_holding_registers \<equiv> 0x03"
abbreviation read_input_registers :: u8 where "read_input_registers \<equiv> 0x04"
abbreviation write_single_register :: u8 where "write_single_register \<equiv> 0x06"
abbreviation write_multiple_registers :: u8 where "write_multiple_registers \<equiv> 0x10"

datatype exception_code =
    No_exception | Illegal_function | Illegal_data_address | Illegal_data_value
  | Server_device_failure | Acknowledge | Server_device_busy | Memory_parity_error
  | Gateway_path_unavailable | Gateway_target_device_failed_to_respond

definition exception_byte :: "exception_code \<Rightarrow> u8" where
  "exception_byte c = (case c of
     No_exception \<Rightarrow> 0x00 | Illegal_function \<Rightarrow> 0x01 | Illegal_data_address \<Rightarrow> 0x02
   | Illegal_data_value \<Rightarrow> 0x03 | Server_device_failure \<Rightarrow> 0x04 | Acknowledge \<Rightarrow> 0x05
   | Server_device_busy \<Rightarrow> 0x06 | Memory_parity_error \<Rightarrow> 0x08
   | Gateway_path_unavailable \<Rightarrow> 0x0a | Gateway_target_device_failed_to_respond \<Rightarrow> 0x0b)"

definition is_register_read :: "u8 \<Rightarrow> bool" where
  "is_register_read f \<longleftrightarrow> f = read_holding_registers \<or> f = read_input_registers"

record request =
  rq_unit_id :: u8
  rq_pdu :: "u8 list"
  rq_broadcast_allowed :: bool

record response =
  rs_unit_id :: u8
  rs_pdu :: "u8 list"

section \<open>Encoding\<close>

definition read_u16_be :: "u8 list \<Rightarrow> u16 result" where
  "read_u16_be bytes =
     (if length bytes < 2 then Inl (Invalid_argument ''truncated 16-bit Modbus value'')
      else Inr (be16_value (bytes ! 0) (bytes ! 1)))"

definition append_u16_be :: "u8 list \<Rightarrow> u16 \<Rightarrow> u8 list" where
  "append_u16_be bytes value = bytes @ be16_bytes value"

definition encode_u16 :: "u16 \<Rightarrow> u16 list" where
  "encode_u16 value = [value]"

definition encode_u32 :: "u32 \<Rightarrow> u16 list" where
  "encode_u32 value = [ucast (drop_bit 16 value), ucast (value AND 0xffff)]"

definition encode_reg_u64 :: "u64 \<Rightarrow> u16 list" where
  "encode_reg_u64 value =
     [ucast (drop_bit 48 value), ucast (drop_bit 32 value AND 0xffff),
      ucast (drop_bit 16 value AND 0xffff), ucast (value AND 0xffff)]"

definition encode_i32 :: "int \<Rightarrow> u16 list" where
  "encode_i32 value = encode_u32 (word_of_int value)"

definition encode_i64 :: "int \<Rightarrow> u16 list" where
  "encode_i64 value = encode_reg_u64 (word_of_int value)"

text \<open>The argument is the bit pattern of the \<^verbatim>\<open>float\<close>.\<close>

definition encode_float :: "u32 \<Rightarrow> u16 list" where
  "encode_float bits = encode_u32 bits"

text \<open>The value of \<^verbatim>\<open>read_u16_be(pdu.subspan(i, 2))\<close> at a position that exists.\<close>

definition pdu_u16 :: "u8 list \<Rightarrow> nat \<Rightarrow> u16" where
  "pdu_u16 pdu i = (case read_u16_be (take 2 (drop i pdu)) of Inl _ \<Rightarrow> 0 | Inr w \<Rightarrow> w)"

lemma read_u16_in_range:
  "i + 2 \<le> length pdu \<Longrightarrow> read_u16_be (take 2 (drop i pdu)) = Inr (pdu_u16 pdu i)"
  by (simp add: pdu_u16_def read_u16_be_def)

lemma pdu_u16_nth: "i + 2 \<le> length pdu \<Longrightarrow> pdu_u16 pdu i = be16_value (pdu ! i) (pdu ! (i + 1))"
  by (simp add: pdu_u16_def read_u16_be_def)

section \<open>The register bank interface\<close>

record register_read_result =
  rr_exception :: exception_code
  rr_values :: "u16 list"

record 's register_bank =
  rb_read :: "'s \<Rightarrow> u8 \<Rightarrow> u16 \<Rightarrow> u16 \<Rightarrow> register_read_result"
  rb_write_single :: "'s \<Rightarrow> u16 \<Rightarrow> u16 \<Rightarrow> 's \<times> exception_code"
  rb_write_multiple :: "'s \<Rightarrow> u16 \<Rightarrow> u16 list \<Rightarrow> 's \<times> exception_code"

section \<open>The handler\<close>

definition exception_pdu :: "u8 \<Rightarrow> exception_code \<Rightarrow> u8 list" where
  "exception_pdu f code = [f OR 0x80, exception_byte code]"

text \<open>The answer to the sender, or none for a broadcast.\<close>

definition answer :: "request \<Rightarrow> bool \<Rightarrow> u8 list \<Rightarrow> response option result" where
  "answer req broadcast pdu =
     Inr (if broadcast then None else Some \<lparr>rs_unit_id = rq_unit_id req, rs_pdu = pdu\<rparr>)"

definition handle_read ::
    "'s register_bank \<Rightarrow> 's \<Rightarrow> request \<Rightarrow> bool \<Rightarrow> u8 \<Rightarrow> response option result" where
  "handle_read bank s req broadcast f =
     (let pdu = rq_pdu req in
      if broadcast then Inr None
      else if length pdu \<noteq> 5 then answer req False (exception_pdu f Illegal_data_value)
      else let count = pdu_u16 pdu 3 in
        if count = 0 \<or> count > 125 then answer req False (exception_pdu f Illegal_data_value)
        else let r = rb_read bank s f (pdu_u16 pdu 1) count in
          if rr_exception r \<noteq> No_exception
          then answer req False (exception_pdu f (rr_exception r))
          else if length (rr_values r) \<noteq> unat count
          then answer req False (exception_pdu f Server_device_failure)
          else answer req False
            (foldl append_u16_be [f, of_nat (length (rr_values r) * 2)] (rr_values r)))"

definition handle_write_single ::
    "'s register_bank \<Rightarrow> 's \<Rightarrow> request \<Rightarrow> bool \<Rightarrow> u8 \<Rightarrow> 's \<times> response option result" where
  "handle_write_single bank s req broadcast f =
     (let pdu = rq_pdu req in
      if length pdu \<noteq> 5 then (s, answer req broadcast (exception_pdu f Illegal_data_value))
      else let (s', code) = rb_write_single bank s (pdu_u16 pdu 1) (pdu_u16 pdu 3) in
        if code \<noteq> No_exception then (s', answer req broadcast (exception_pdu f code))
        else (s', answer req broadcast pdu))"

definition write_multiple_well_formed :: "u8 list \<Rightarrow> bool" where
  "write_multiple_well_formed pdu \<longleftrightarrow>
     (let count = pdu_u16 pdu 3; byte_count = pdu ! 5 in
      \<not> (count = 0 \<or> count > 123 \<or> unat byte_count \<noteq> unat count * 2 \<or>
         length pdu \<noteq> 6 + unat byte_count))"

definition handle_write_multiple ::
    "'s register_bank \<Rightarrow> 's \<Rightarrow> request \<Rightarrow> bool \<Rightarrow> u8 \<Rightarrow> 's \<times> response option result" where
  "handle_write_multiple bank s req broadcast f =
     (let pdu = rq_pdu req in
      if length pdu < 6 then (s, answer req broadcast (exception_pdu f Illegal_data_value))
      else if \<not> write_multiple_well_formed pdu
      then (s, answer req broadcast (exception_pdu f Illegal_data_value))
      else
        let count = pdu_u16 pdu 3;
            vals = map (\<lambda>index. pdu_u16 pdu (6 + index * 2)) [0..<unat count];
            (s', code) = rb_write_multiple bank s (pdu_u16 pdu 1) vals
        in if code \<noteq> No_exception then (s', answer req broadcast (exception_pdu f code))
           else (s', answer req broadcast
                  (append_u16_be (append_u16_be [f] (pdu_u16 pdu 1)) count)))"

definition handle ::
    "'s register_bank \<Rightarrow> 's \<Rightarrow> request \<Rightarrow> u8 \<Rightarrow> 's \<times> response option result" where
  "handle bank s req configured_unit_id =
     (let pdu = rq_pdu req in
      if configured_unit_id = 0 \<or> configured_unit_id > 247
      then (s, Inl (Invalid_argument ''Modbus unit id must be 1..247''))
      else if pdu = [] then (s, answer req False (exception_pdu 0 Illegal_function))
      else
        let f = pdu ! 0; broadcast = rq_broadcast_allowed req \<and> rq_unit_id req = 0 in
        if \<not> broadcast \<and> rq_unit_id req \<noteq> configured_unit_id then (s, Inr None)
        else if is_register_read f then (s, handle_read bank s req broadcast f)
        else if f = write_single_register then handle_write_single bank s req broadcast f
        else if f = write_multiple_registers then handle_write_multiple bank s req broadcast f
        else (s, answer req broadcast (exception_pdu f Illegal_function)))"

section \<open>Encoded values\<close>

lemma length_encoded [simp]:
  "length (encode_u16 a) = 1" "length (encode_u32 b) = 2" "length (encode_reg_u64 c) = 4"
  "length (encode_i32 x) = 2" "length (encode_i64 y) = 4" "length (encode_float z) = 2"
  by (simp_all add: encode_u16_def encode_u32_def encode_reg_u64_def encode_i32_def encode_i64_def
      encode_float_def)

text \<open>What a Modbus master reconstructs from the registers, high word first.\<close>

definition registers_u32 :: "u16 list \<Rightarrow> u32" where
  "registers_u32 ws = push_bit 16 (ucast (ws ! 0)) OR ucast (ws ! 1)"

definition registers_u64 :: "u16 list \<Rightarrow> u64" where
  "registers_u64 ws = push_bit 48 (ucast (ws ! 0)) OR push_bit 32 (ucast (ws ! 1))
     OR push_bit 16 (ucast (ws ! 2)) OR ucast (ws ! 3)"

lemma mask16_bits: "bit (65535 :: int) k \<longleftrightarrow> k < 16"
proof -
  have "(65535 :: int) = mask 16" by (simp add: mask_eq_exp_minus_1)
  then show ?thesis by (simp only: bit_mask_iff) simp
qed

lemma registers_u32_encode: "registers_u32 (encode_u32 w) = w"
  by (rule bit_word_eqI) (auto simp: registers_u32_def encode_u32_def bit_simps mask16_bits)

lemma registers_u64_encode: "registers_u64 (encode_reg_u64 w) = w"
proof (rule bit_word_eqI)
  fix n assume n: "n < LENGTH(64)"
  define k where "k = n mod 16"
  have "n = 16 * (n div 16) + k" "k < 16" by (simp_all add: k_def)
  moreover have "n div 16 = 0 \<or> n div 16 = 1 \<or> n div 16 = 2 \<or> n div 16 = 3"
    using n by (simp add: div_eq_dividend_iff) linarith
  ultimately consider "n = k" "k < 16" | "n = 16 + k" "k < 16" | "n = 32 + k" "k < 16"
    | "n = 48 + k" "k < 16" by auto
  then show "bit (registers_u64 (encode_reg_u64 w)) n = bit w n"
    by cases (simp_all add: registers_u64_def encode_reg_u64_def bit_simps mask16_bits)
qed

section \<open>Responses\<close>

lemma foldl_append_u16: "foldl append_u16_be acc vs = acc @ concat (map be16_bytes vs)"
  by (induction vs arbitrary: acc) (simp_all add: append_u16_be_def)

lemma count_bounds: "\<not> (count = 0 \<or> count > n) \<Longrightarrow> 1 \<le> unat (count :: u16) \<and> unat count \<le> unat n"
  by (auto simp: word_less_nat_alt unat_gt_0 Suc_le_eq not_less)

text \<open>The answers the handler can give to a request PDU.\<close>

definition response_shape :: "request \<Rightarrow> u8 list \<Rightarrow> bool" where
  "response_shape req pdu \<longleftrightarrow>
     (\<exists>f code. pdu = [f OR 0x80, exception_byte code] \<and>
        f = (if rq_pdu req = [] then 0 else rq_pdu req ! 0)) \<or>
     (\<exists>vals. rq_pdu req \<noteq> [] \<and> is_register_read (rq_pdu req ! 0) \<and> 1 \<le> length vals \<and>
        length vals \<le> 125 \<and> length vals = unat (pdu_u16 (rq_pdu req) 3) \<and>
        pdu = [rq_pdu req ! 0, of_nat (length vals * 2)] @ concat (map be16_bytes vals)) \<or>
     (rq_pdu req \<noteq> [] \<and> rq_pdu req ! 0 \<in> {write_single_register, write_multiple_registers} \<and>
        pdu = take 5 (rq_pdu req) \<and> length pdu = 5)"

lemma shape_exception:
  "req_pdu \<noteq> [] \<Longrightarrow> rq_pdu req = req_pdu \<Longrightarrow> response_shape req (exception_pdu (req_pdu ! 0) code)"
  by (auto simp: response_shape_def exception_pdu_def)

lemma shape_read:
  assumes "rq_pdu req \<noteq> []" "is_register_read (rq_pdu req ! 0)"
    "\<not> (pdu_u16 (rq_pdu req) 3 = 0 \<or> pdu_u16 (rq_pdu req) 3 > 125)"
    "length vals = unat (pdu_u16 (rq_pdu req) 3)"
  shows "response_shape req
    (foldl append_u16_be [rq_pdu req ! 0, of_nat (length vals * 2)] vals)"
proof -
  have "1 \<le> length vals \<and> length vals \<le> 125"
    using count_bounds [OF assms(3)] assms(4) by simp
  then show ?thesis
    unfolding response_shape_def foldl_append_u16 using assms(1,2,4) by blast
qed

lemma handle_read_shape:
  assumes "handle_read bank s req broadcast (rq_pdu req ! 0) = Inr (Some r)" "rq_pdu req \<noteq> []"
    "is_register_read (rq_pdu req ! 0)"
  shows "rs_unit_id r = rq_unit_id req \<and> response_shape req (rs_pdu r)"
  using assms(1) shape_exception [OF assms(2) refl] shape_read [OF assms(2,3)]
  by (simp add: handle_read_def answer_def Let_def split: if_splits) auto

lemma pdu_prefix:
  "length pdu = 5 \<or> 6 \<le> length pdu \<Longrightarrow>
   append_u16_be (append_u16_be [pdu ! 0] (pdu_u16 pdu 1)) (pdu_u16 pdu 3) = take 5 pdu"
  by (rule nth_equalityI)
     (auto simp: append_u16_be_def pdu_u16_nth less_Suc_eq numeral_eq_Suc nth_append)

lemma handle_write_shape:
  assumes "snd (handle_write_single bank s req broadcast (rq_pdu req ! 0)) = Inr (Some r) \<and>
      rq_pdu req ! 0 = write_single_register \<or>
    snd (handle_write_multiple bank s req broadcast (rq_pdu req ! 0)) = Inr (Some r) \<and>
      rq_pdu req ! 0 = write_multiple_registers" "rq_pdu req \<noteq> []"
  shows "rs_unit_id r = rq_unit_id req \<and> response_shape req (rs_pdu r)"
  using assms
proof (elim disjE conjE)
  assume a: "snd (handle_write_single bank s req broadcast (rq_pdu req ! 0)) = Inr (Some r)"
    "rq_pdu req ! 0 = write_single_register"
  then show ?thesis
    using assms(2)
    by (auto simp: handle_write_single_def answer_def Let_def response_shape_def exception_pdu_def
        split: if_splits prod.splits)
next
  assume a: "snd (handle_write_multiple bank s req broadcast (rq_pdu req ! 0)) = Inr (Some r)"
    "rq_pdu req ! 0 = write_multiple_registers"
  then show ?thesis
    using assms(2) pdu_prefix [of "rq_pdu req"]
    by (auto simp: handle_write_multiple_def answer_def Let_def response_shape_def exception_pdu_def
        split: if_splits prod.splits)
qed

lemma handle_shape:
  assumes "snd (handle bank s req unit) = Inr (Some r)"
  shows "rs_unit_id r = rq_unit_id req \<and> response_shape req (rs_pdu r)"
proof (cases "rq_pdu req = []")
  case True
  then show ?thesis using assms
    by (auto simp: handle_def answer_def response_shape_def exception_pdu_def split: if_splits)
next
  case False
  let ?f = "rq_pdu req ! 0" and ?b = "rq_broadcast_allowed req \<and> rq_unit_id req = 0"
  consider "handle_read bank s req ?b ?f = Inr (Some r)" "is_register_read ?f"
    | "snd (handle_write_single bank s req ?b ?f) = Inr (Some r)" "?f = write_single_register"
    | "snd (handle_write_multiple bank s req ?b ?f) = Inr (Some r)"
      "?f = write_multiple_registers"
    | "answer req ?b (exception_pdu ?f Illegal_function) = Inr (Some r)"
    using assms False by (auto simp: handle_def Let_def split: if_splits)
  then show ?thesis
  proof cases
    case 1
    show ?thesis by (rule handle_read_shape [OF 1(1) False 1(2)])
  next
    case 2
    then show ?thesis using handle_write_shape [OF _ False] by simp
  next
    case 3
    then show ?thesis using handle_write_shape [OF _ False] by simp
  next
    case 4
    then show ?thesis using shape_exception [OF False refl] by (auto simp: answer_def split: if_splits)
  qed
qed

lemma length_concat_be16 [simp]: "length (concat (map be16_bytes vs)) = 2 * length vs"
  by (rule be16.length_concat_enc)

lemma shape_length: "response_shape req pdu \<Longrightarrow> 2 \<le> length pdu \<and> length pdu \<le> 252"
  by (auto simp: response_shape_def)

text \<open>
  C39. Whatever the register bank does, an answer of the handler carries the unit id of the
  request and is a well-formed PDU for it: an exception for the requested function, a register
  read answer with a byte count and exactly as many registers as were asked for, or the echo of
  a write; it has between 2 and 252 bytes, so it always fits a Modbus frame.
\<close>

theorem modbus_response_well_formed:
  assumes "snd (handle bank s req unit) = Inr (Some r)"
  shows "rs_unit_id r = rq_unit_id req \<and> response_shape req (rs_pdu r) \<and>
    2 \<le> length (rs_pdu r) \<and> length (rs_pdu r) \<le> 252"
  using handle_shape [OF assms] shape_length by blast

section \<open>Requests as a master writes them\<close>

definition read_request_pdu :: "u8 \<Rightarrow> u16 \<Rightarrow> u16 \<Rightarrow> u8 list" where
  "read_request_pdu f addr count = f # be16_bytes addr @ be16_bytes count"

definition write_single_pdu :: "u16 \<Rightarrow> u16 \<Rightarrow> u8 list" where
  "write_single_pdu addr v = write_single_register # be16_bytes addr @ be16_bytes v"

definition write_multiple_pdu :: "u16 \<Rightarrow> u16 list \<Rightarrow> u8 list" where
  "write_multiple_pdu addr vs =
     write_multiple_registers # be16_bytes addr @ be16_bytes (of_nat (length vs)) @
     [of_nat (2 * length vs)] @ concat (map be16_bytes vs)"

text \<open>The registers a master reads out of an answer to a read of \<open>f\<close>.\<close>

definition parse_read_response :: "u8 \<Rightarrow> u8 list \<Rightarrow> u16 list option" where
  "parse_read_response f pdu =
     (if length pdu < 2 \<or> pdu ! 0 \<noteq> f \<or> length pdu \<noteq> 2 + unat (pdu ! 1) then None
      else Some (map (\<lambda>i. pdu_u16 pdu (2 + i * 2)) [0..<unat (pdu ! 1) div 2]))"

lemma pdu_u16_registers:
  "i < length vs \<Longrightarrow> length pre = n \<Longrightarrow>
   pdu_u16 (pre @ concat (map be16_bytes vs)) (n + i * 2) = vs ! i"
  using be16.slice_concat_enc [of i vs] be16_value_be16_bytes [of "vs ! i"]
  by (simp add: pdu_u16_def read_u16_be_def)

lemma registers_parsed:
  "length pre = n \<Longrightarrow>
   map (\<lambda>i. pdu_u16 (pre @ concat (map be16_bytes vs)) (n + i * 2)) [0..<length vs] = vs"
  by (rule nth_equalityI) (simp_all add: pdu_u16_registers)

lemma read_request_fields:
  "length (read_request_pdu f addr count) = 5" "read_request_pdu f addr count ! 0 = f"
  "pdu_u16 (read_request_pdu f addr count) 1 = addr"
  "pdu_u16 (read_request_pdu f addr count) 3 = count"
  by (simp_all add: read_request_pdu_def pdu_u16_def read_u16_be_def be16_bytes_def)

lemma write_single_fields:
  "length (write_single_pdu addr v) = 5" "write_single_pdu addr v ! 0 = write_single_register"
  "pdu_u16 (write_single_pdu addr v) 1 = addr" "pdu_u16 (write_single_pdu addr v) 3 = v"
  by (simp_all add: write_single_pdu_def pdu_u16_def read_u16_be_def be16_bytes_def)

lemma write_multiple_fields:
  "length (write_multiple_pdu addr vs) = 6 + 2 * length vs"
  "write_multiple_pdu addr vs ! 0 = write_multiple_registers"
  "pdu_u16 (write_multiple_pdu addr vs) 1 = addr"
  "pdu_u16 (write_multiple_pdu addr vs) 3 = of_nat (length vs)"
  "write_multiple_pdu addr vs ! 5 = of_nat (2 * length vs)"
  by (simp_all add: write_multiple_pdu_def pdu_u16_def read_u16_be_def be16_bytes_def)

lemma write_multiple_values:
  "map (\<lambda>i. pdu_u16 (write_multiple_pdu addr vs) (6 + i * 2)) [0..<length vs] = vs"
  using registers_parsed [of "write_multiple_registers # be16_bytes addr @
    be16_bytes (of_nat (length vs)) @ [of_nat (2 * length vs)]" 6 vs]
  by (simp add: write_multiple_pdu_def)

lemma unat_of_count:
  "n \<le> 123 \<Longrightarrow> unat (of_nat n :: u16) = n" "n \<le> 125 \<Longrightarrow> unat (of_nat (n * 2) :: u8) = n * 2"
  "n \<le> 125 \<Longrightarrow> unat (of_nat (2 * n) :: u8) = 2 * n"
  by (simp_all only: unat_of_nat) simp_all

lemma unit_range: "1 \<le> unit \<Longrightarrow> unit \<le> 247 \<Longrightarrow> unit \<noteq> 0 \<and> \<not> (unit :: u8) > 247"
  by (auto simp: not_less word_le_def)

text \<open>
  A bank of holding registers kept in a list, for examples: reads and writes outside of it
  raise \<open>Illegal_data_address\<close>.
\<close>

definition array_bank :: "u16 list register_bank" where
  "array_bank = \<lparr>
     rb_read = (\<lambda>s f a c. if unat a + unat c \<le> length s
       then \<lparr>rr_exception = No_exception, rr_values = take (unat c) (drop (unat a) s)\<rparr>
       else \<lparr>rr_exception = Illegal_data_address, rr_values = []\<rparr>),
     rb_write_single = (\<lambda>s a v. if unat a < length s then (s[unat a := v], No_exception)
       else (s, Illegal_data_address)),
     rb_write_multiple = (\<lambda>s a vs. if unat a + length vs \<le> length s
       then (take (unat a) s @ vs @ drop (unat a + length vs) s, No_exception)
       else (s, Illegal_data_address))\<rparr>"

lemma read_served:
  assumes "is_register_read f" "1 \<le> unat count" "unat count \<le> 125" "1 \<le> unit" "unit \<le> 247"
    "rb_read bank s f addr count = \<lparr>rr_exception = No_exception, rr_values = vals\<rparr>"
    "length vals = unat count"
  shows "\<exists>r. handle bank s \<lparr>rq_unit_id = unit, rq_pdu = read_request_pdu f addr count,
      rq_broadcast_allowed = b\<rparr> unit = (s, Inr (Some r)) \<and>
    rs_unit_id r = unit \<and> parse_read_response f (rs_pdu r) = Some vals"
proof -
  have u: "unit \<noteq> 0" "\<not> unit > 247" using unit_range [OF assms(4,5)] by auto
  have c: "count \<noteq> 0" "\<not> count > 125" using assms(2,3) by (auto simp: word_less_nat_alt)
  have p: "read_request_pdu f addr count \<noteq> []" by (simp add: read_request_pdu_def)
  let ?pdu = "[f, of_nat (length vals * 2)] @ concat (map be16_bytes vals)"
  have "handle bank s \<lparr>rq_unit_id = unit, rq_pdu = read_request_pdu f addr count,
      rq_broadcast_allowed = b\<rparr> unit = (s, Inr (Some \<lparr>rs_unit_id = unit, rs_pdu = ?pdu\<rparr>))"
    using assms(1,6,7)
    by (simp add: handle_def handle_read_def read_request_fields Let_def p u c answer_def
        foldl_append_u16 del: One_nat_def)
  moreover have "parse_read_response f ?pdu = Some vals"
    using assms(3,7) registers_parsed [of "[f, of_nat (length vals * 2)]" 2 vals]
    by (simp add: parse_read_response_def unat_of_count del: of_nat_mult)
  ultimately show ?thesis by simp
qed

text \<open>
  A well-formed read of 1 to 125 registers that the bank can serve is answered, the state is
  unchanged, and what a master parses out of the answer is exactly the register values the bank
  returned.
\<close>

theorem modbus_read_roundtrip:
  assumes "is_register_read f" "1 \<le> unat count" "unat count \<le> 125" "1 \<le> unit" "unit \<le> 247"
    "rb_read bank s f addr count = \<lparr>rr_exception = No_exception, rr_values = vals\<rparr>"
    "length vals = unat count"
  shows "\<exists>r. handle bank s \<lparr>rq_unit_id = unit, rq_pdu = read_request_pdu f addr count,
      rq_broadcast_allowed = b\<rparr> unit = (s, Inr (Some r)) \<and>
    rs_unit_id r = unit \<and> parse_read_response f (rs_pdu r) = Some vals"
  using assms by (rule read_served)

theorem modbus_read_roundtrip_witness:
  "\<exists>r. handle array_bank [10, 20, 30, 40] \<lparr>rq_unit_id = 17, rq_pdu = read_request_pdu 3 1 2,
      rq_broadcast_allowed = True\<rparr> 17 = ([10, 20, 30, 40], Inr (Some r)) \<and>
    rs_unit_id r = 17 \<and> parse_read_response 3 (rs_pdu r) = Some [20, 30]"
  by (rule modbus_read_roundtrip)
     (simp_all add: array_bank_def is_register_read_def word_le_def)

theorem modbus_response_well_formed_witness:
  "\<exists>r. snd (handle array_bank [10] \<lparr>rq_unit_id = 17, rq_pdu = [0x2b], rq_broadcast_allowed = False\<rparr>
      17) = Inr (Some r) \<and> rs_unit_id r = 17 \<and> rs_pdu r = [0xab, 1] \<and>
    response_shape \<lparr>rq_unit_id = 17, rq_pdu = [0x2b], rq_broadcast_allowed = False\<rparr> (rs_pdu r)"
  using modbus_response_well_formed [of array_bank "[10]" "\<lparr>rq_unit_id = 17, rq_pdu = [0x2b],
      rq_broadcast_allowed = False\<rparr>" 17 "\<lparr>rs_unit_id = 17, rs_pdu = [0xab, 1]\<rparr>"]
  by (simp add: handle_def answer_def exception_pdu_def exception_byte_def is_register_read_def)

text \<open>
  A write of 1 to 123 registers reaches the bank with exactly the address and the values
  the master encoded; the sender is answered with the echo of address and count, or with the
  exception the bank raised, and a broadcast is applied without an answer.
\<close>

theorem modbus_write_multiple_exact:
  assumes "1 \<le> length vals" "length vals \<le> 123" "1 \<le> unit" "unit \<le> 247"
    "target = unit \<or> allowed \<and> target = 0"
    "rb_write_multiple bank s addr vals = (s', code)"
  shows "handle bank s \<lparr>rq_unit_id = target, rq_pdu = write_multiple_pdu addr vals,
      rq_broadcast_allowed = allowed\<rparr> unit =
    (s', Inr (if target = 0 then None else Some \<lparr>rs_unit_id = target, rs_pdu =
       if code = No_exception then take 5 (write_multiple_pdu addr vals)
       else [0x90, exception_byte code]\<rparr>))"
proof -
  have u: "unit \<noteq> 0" "\<not> unit > 247" using unit_range [OF assms(3,4)] by auto
  have n: "unat (of_nat (length vals) :: u16) = length vals" using assms(2) by (rule unat_of_count)
  then have c: "(of_nat (length vals) :: u16) \<noteq> 0" "\<not> (of_nat (length vals) :: u16) > 123"
    using assms(1,2) by (auto simp: word_less_nat_alt)
  have p: "write_multiple_pdu addr vals \<noteq> []" by (simp add: write_multiple_pdu_def)
  have b: "unat (of_nat (2 * length vals) :: u8) = 2 * length vals"
    using assms(2) by (intro unat_of_count) simp
  have w: "write_multiple_well_formed (write_multiple_pdu addr vals)"
    unfolding write_multiple_well_formed_def Let_def write_multiple_fields using c n b by simp
  have e: "append_u16_be (append_u16_be [write_multiple_registers] addr) (of_nat (length vals)) =
      take 5 (write_multiple_pdu addr vals)"
    by (simp add: append_u16_be_def write_multiple_pdu_def)
  have x: "(write_multiple_registers OR 0x80 :: u8) = 0x90" by simp
  show ?thesis
    using assms(5,6)
    by (auto simp: handle_def handle_write_multiple_def write_multiple_fields Let_def p u w n e x
        answer_def is_register_read_def exception_pdu_def write_multiple_values
        simp del: One_nat_def)
qed

theorem modbus_write_multiple_exact_witness:
  "handle array_bank [10, 20, 30, 40] \<lparr>rq_unit_id = 0, rq_pdu = write_multiple_pdu 1 [7, 8],
      rq_broadcast_allowed = True\<rparr> 17 = ([10, 7, 8, 40], Inr None)"
  using modbus_write_multiple_exact [of "[7, 8]" 17 0 True array_bank "[10, 20, 30, 40]" 1
      "[10, 7, 8, 40]" No_exception]
  by (simp add: array_bank_def word_le_def)

text \<open>
  A request for another unit is ignored: no answer and no change, and a broadcast is
  never answered, whatever its function and contents.
\<close>

theorem modbus_silent_requests:
  assumes "1 \<le> unit" "unit \<le> 247" "rq_pdu req \<noteq> []"
  shows "(rq_unit_id req \<noteq> unit \<and> \<not> (rq_broadcast_allowed req \<and> rq_unit_id req = 0) \<longrightarrow>
      handle bank s req unit = (s, Inr None)) \<and>
    (rq_broadcast_allowed req \<and> rq_unit_id req = 0 \<longrightarrow> snd (handle bank s req unit) = Inr None)"
proof -
  have u: "unit \<noteq> 0" "\<not> unit > 247" using unit_range [OF assms(1,2)] by auto
  show ?thesis
    using assms(3)
    by (auto simp: handle_def handle_read_def handle_write_single_def handle_write_multiple_def Let_def
        u answer_def split: prod.splits)
qed

theorem modbus_silent_requests_witness:
  "handle array_bank [10] \<lparr>rq_unit_id = 5, rq_pdu = write_single_pdu 0 1,
      rq_broadcast_allowed = True\<rparr> 17 = ([10], Inr None) \<and>
   snd (handle array_bank [10] \<lparr>rq_unit_id = 0, rq_pdu = write_single_pdu 0 1,
      rq_broadcast_allowed = True\<rparr> 17) = Inr None"
  using modbus_silent_requests [of 17 "\<lparr>rq_unit_id = 5, rq_pdu = write_single_pdu 0 1,
      rq_broadcast_allowed = True\<rparr>" array_bank "[10]"]
    modbus_silent_requests [of 17 "\<lparr>rq_unit_id = 0, rq_pdu = write_single_pdu 0 1,
      rq_broadcast_allowed = True\<rparr>" array_bank "[10]"]
  by (simp add: word_le_def write_single_pdu_def)

section \<open>The contract of a register bank\<close>

text \<open>
  What \<^verbatim>\<open>RegisterBank\<close> implementations promise: a read without an exception has exactly the
  registers asked for, and a refused write changes nothing.
\<close>

locale register_bank_contract =
  fixes bank :: "'s register_bank" and bank_ok :: "'s \<Rightarrow> bool"
  assumes read_exact: "bank_ok s \<Longrightarrow> rr_exception (rb_read bank s f a c) = No_exception \<Longrightarrow>
      length (rr_values (rb_read bank s f a c)) = unat c"
    and single_refused: "bank_ok s \<Longrightarrow> snd (rb_write_single bank s a v) \<noteq> No_exception \<Longrightarrow>
      fst (rb_write_single bank s a v) = s"
    and multiple_refused: "bank_ok s \<Longrightarrow> snd (rb_write_multiple bank s a vs) \<noteq> No_exception \<Longrightarrow>
      fst (rb_write_multiple bank s a vs) = s"
begin

lemma refused_write_changes_nothing:
  assumes "bank_ok s" "snd (handle bank s req unit) = Inr (Some r)" "length (rs_pdu r) = 2"
  shows "fst (handle bank s req unit) = s"
proof -
  have "append_u16_be (append_u16_be [f] a) c \<noteq> [x, y]" for f a c x y
    by (simp add: append_u16_be_def be16_bytes_def)
  moreover have "length (append_u16_be (append_u16_be [f] a) c) = 5" for f a c
    by (simp add: append_u16_be_def)
  ultimately show ?thesis
    using assms single_refused multiple_refused
    by (auto simp: handle_def handle_write_single_def handle_write_multiple_def Let_def answer_def
        split: if_splits prod.splits) (metis fst_conv snd_conv)+
qed

text \<open>The size check of the handler after a successful read never fires.\<close>

lemma read_answer:
  assumes "bank_ok s" "length (rq_pdu req) = 5" "\<not> (pdu_u16 (rq_pdu req) 3 = 0 \<or> pdu_u16 (rq_pdu req) 3 > 125)"
  shows "handle_read bank s req False f =
    (let r = rb_read bank s f (pdu_u16 (rq_pdu req) 1) (pdu_u16 (rq_pdu req) 3) in
     answer req False (if rr_exception r \<noteq> No_exception then exception_pdu f (rr_exception r)
       else [f, of_nat (length (rr_values r) * 2)] @ concat (map be16_bytes (rr_values r))))"
  using assms read_exact [OF assms(1)] by (simp add: handle_read_def Let_def foldl_append_u16)

end

end
