(* ===== verification/Register_Schema.thy ===== *)
theory Register_Schema
  imports Meter_Attributes Modbus_Handler
begin

text \<open>
  The declarative Modbus register map (\<^verbatim>\<open>common/msap1/modbus/register_map/register_schema.hpp\<close> and
  \<^verbatim>\<open>msap1_register_schema.hpp\<close>): register definitions, the generators of dense blocks, the
  compile-time validation, the binary lookup and the product's map. A pointer into the map is the
  index of the entry.
\<close>

section \<open>Schema types\<close>

datatype data_type = DT_uint16 | DT_uint32 | DT_int32 | DT_float32 | DT_uint64 | DT_int64

datatype special_register =
    Special_map_version | Special_word_order_marker | Special_attribute_count |
    Special_quality_mask | Special_period | Special_source_sequence |
    Special_configuration_generation | Special_energy_session_id | Special_energy_reset_epoch |
    Special_energy_last_sample | Special_energy_accepted_samples |
    Special_energy_skipped_samples | Special_energy_accepted_blocks |
    Special_energy_skipped_blocks | Special_energy_flags | Special_energy_quality_mask |
    Special_demand_session_id | Special_demand_reset_epoch | Special_demand_last_sample |
    Special_demand_interval_anchor_sample | Special_demand_source_interval_count |
    Special_demand_source_status | Special_demand_method | Special_demand_window_seconds |
    Special_demand_update_seconds | Special_demand_profile_generation | Special_demand_flags |
    Special_demand_quality_mask | Special_demand_import_peak_sample_a |
    Special_demand_import_peak_sample_b | Special_demand_import_peak_sample_c |
    Special_demand_import_peak_sample_total | Special_demand_export_peak_sample_a |
    Special_demand_export_peak_sample_b | Special_demand_export_peak_sample_c |
    Special_demand_export_peak_sample_total

datatype register_source =
    Measurement_source meter_period meter_attribute_key
  | Special_source special_register "meter_period option"

record register_block =
  rk_function :: u8
  rk_base :: u16
  rk_size :: u32
  rk_name :: string

record register_definition =
  rd_function :: u8
  rd_address :: u16
  rd_words :: u16
  rd_type :: data_type
  rd_source :: register_source
  rd_compatibility_alias :: bool

record special_definition =
  sd_field :: special_register
  sd_type :: data_type
  sd_period :: "meter_period option"

section \<open>Generators\<close>

definition register_width :: "data_type \<Rightarrow> u16" where
  "register_width t = (case t of
     DT_uint16 \<Rightarrow> 1
   | DT_uint32 \<Rightarrow> 2 | DT_int32 \<Rightarrow> 2 | DT_float32 \<Rightarrow> 2
   | DT_uint64 \<Rightarrow> 4 | DT_int64 \<Rightarrow> 4)"

definition block_end :: "register_block \<Rightarrow> u32" where
  "block_end block = ucast (rk_base block) + rk_size block"

definition definition_end :: "register_definition \<Rightarrow> u32" where
  "definition_end d = ucast (rd_address d) + ucast (rd_words d)"

definition make_attribute_block ::
    "register_block \<Rightarrow> meter_period \<Rightarrow> data_type \<Rightarrow> meter_attribute_key list \<Rightarrow>
     register_definition list" where
  "make_attribute_block block period t attributes =
     map (\<lambda>(index, attribute).
       \<lparr>rd_function = rk_function block,
        rd_address = ucast (ucast (rk_base block) + of_nat index * ucast (register_width t) :: u64),
        rd_words = register_width t, rd_type = t,
        rd_source = Measurement_source period attribute, rd_compatibility_alias = False\<rparr>)
       (enumerate 0 attributes)"

definition make_indexed_block ::
    "u16 \<Rightarrow> u16 \<Rightarrow> register_block \<Rightarrow> meter_period \<Rightarrow> meter_attribute_id \<Rightarrow> data_type \<Rightarrow>
     register_definition list" where
  "make_indexed_block first_index last_index block period attribute t =
     make_attribute_block block period t
       (map (\<lambda>index. \<lparr>ak_id = attribute, ak_index = Some (of_nat (unat first_index + index))\<rparr>)
         [0..<unat last_index - unat first_index + 1])"

fun make_special_entries ::
    "register_block \<Rightarrow> u32 \<Rightarrow> special_definition list \<Rightarrow> register_definition list" where
  "make_special_entries block address [] = []"
| "make_special_entries block address (field # field_list) =
     \<lparr>rd_function = rk_function block, rd_address = ucast address,
      rd_words = register_width (sd_type field), rd_type = sd_type field,
      rd_source = Special_source (sd_field field) (sd_period field),
      rd_compatibility_alias = False\<rparr> #
     make_special_entries block (address + ucast (register_width (sd_type field))) field_list"

definition make_special_block ::
    "register_block \<Rightarrow> special_definition list \<Rightarrow> register_definition list" where
  "make_special_block block field_list = make_special_entries block (ucast (rk_base block)) field_list"

section \<open>Validation\<close>

definition overlaps :: "u32 \<Rightarrow> u32 \<Rightarrow> u32 \<Rightarrow> u32 \<Rightarrow> bool" where
  "overlaps first_begin first_end second_begin second_end \<longleftrightarrow>
     first_begin < second_end \<and> second_begin < first_end"

fun validate_blocks :: "register_block list \<Rightarrow> bool" where
  "validate_blocks [] = True"
| "validate_blocks (block # rest) =
     (if rk_size block = 0 \<or> block_end block > 0x10000 then False
      else if list_ex (\<lambda>candidate. rk_function candidate = rk_function block \<and>
        overlaps (ucast (rk_base block)) (block_end block)
          (ucast (rk_base candidate)) (block_end candidate)) rest then False
      else validate_blocks rest)"

definition source_is_duplicate :: "register_definition \<Rightarrow> register_definition \<Rightarrow> bool" where
  "source_is_duplicate d e = (case (rd_source d, rd_source e) of
     (Measurement_source p a, Measurement_source q b) \<Rightarrow>
       p = q \<and> a = b \<and> \<not> rd_compatibility_alias d \<and> \<not> rd_compatibility_alias e
   | _ \<Rightarrow> False)"

definition precedes :: "register_definition \<Rightarrow> register_definition \<Rightarrow> bool" where
  "precedes d e \<longleftrightarrow> rd_function d < rd_function e \<or>
     (rd_function d = rd_function e \<and> rd_address d < rd_address e)"

definition containing_blocks :: "register_block list \<Rightarrow> register_definition \<Rightarrow> nat" where
  "containing_blocks blocks entry = length (filter (\<lambda>block.
     rk_function block = rd_function entry \<and> rd_address entry \<ge> rk_base block \<and>
     definition_end entry \<le> block_end block) blocks)"

text \<open>The loop over the entries; the first argument is the entry before, if there is one.\<close>

fun validate_entries ::
    "register_block list \<Rightarrow> register_definition option \<Rightarrow> register_definition list \<Rightarrow> bool" where
  "validate_entries blocks before [] = True"
| "validate_entries blocks before (entry # rest) =
     (if rd_words entry = 0 \<or> rd_words entry \<noteq> register_width (rd_type entry) \<or>
         definition_end entry > 0x10000 then False
      else if containing_blocks blocks entry \<noteq> 1 then False
      else if (case before of None \<Rightarrow> False | Some p \<Rightarrow> \<not> precedes p entry) then False
      else if list_ex (\<lambda>candidate.
        rd_function candidate = rd_function entry \<and>
          overlaps (ucast (rd_address entry)) (definition_end entry)
            (ucast (rd_address candidate)) (definition_end candidate) \<or>
        source_is_duplicate entry candidate) rest then False
      else validate_entries blocks (Some entry) rest)"

definition validate_register_map :: "register_block list \<Rightarrow> register_definition list \<Rightarrow> bool" where
  "validate_register_map blocks entries \<longleftrightarrow>
     validate_blocks blocks \<and> validate_entries blocks None entries"

section \<open>Lookup\<close>

function search_loop ::
    "register_definition list \<Rightarrow> u8 \<Rightarrow> u16 \<Rightarrow> nat \<Rightarrow> nat \<Rightarrow> nat" where
  "search_loop entries f address lo hi =
     (if lo < hi then
        let middle = lo + (hi - lo) div 2; candidate = entries ! middle in
        if rd_function candidate < f \<or> (rd_function candidate = f \<and> rd_address candidate \<le> address)
        then search_loop entries f address (middle + 1) hi
        else search_loop entries f address lo middle
      else lo)"
  by pat_completeness auto
termination
  by (relation "measure (\<lambda>(entries, f, address, lo, hi). hi - lo)") auto

declare search_loop.simps [simp del]

definition find_definition :: "register_definition list \<Rightarrow> u8 \<Rightarrow> u16 \<Rightarrow> nat option" where
  "find_definition entries f address =
     (let first = search_loop entries f address 0 (length entries) in
      if first = 0 then None
      else let candidate = entries ! (first - 1) in
        if rd_function candidate = f \<and> address \<ge> rd_address candidate \<and>
           ucast address < definition_end candidate
        then Some (first - 1) else None)"

section \<open>The product's map\<close>

abbreviation register_map_version :: u16 where "register_map_version \<equiv> 3"

definition blocks_holding_metadata :: register_block where
  "blocks_holding_metadata = \<lparr>rk_function = read_holding_registers, rk_base = 0x0000, rk_size = 0x0100,
     rk_name = ''holding.metadata''\<rparr>"

definition blocks_basic_frequency :: register_block where
  "blocks_basic_frequency = \<lparr>rk_function = read_input_registers, rk_base = 0x0000, rk_size = 0x0002,
     rk_name = ''basic.frequency''\<rparr>"

definition blocks_basic_voltage_ln :: register_block where
  "blocks_basic_voltage_ln = \<lparr>rk_function = read_input_registers, rk_base = 0x0002, rk_size = 0x0006,
     rk_name = ''basic.voltage_ln''\<rparr>"

definition blocks_basic_current :: register_block where
  "blocks_basic_current = \<lparr>rk_function = read_input_registers, rk_base = 0x0008, rk_size = 0x0008,
     rk_name = ''basic.current''\<rparr>"

definition blocks_basic_status :: register_block where
  "blocks_basic_status = \<lparr>rk_function = read_input_registers, rk_base = 0x0010, rk_size = 0x0010,
     rk_name = ''basic.status''\<rparr>"

definition blocks_basic_legacy_reserve :: register_block where
  "blocks_basic_legacy_reserve = \<lparr>rk_function = read_input_registers, rk_base = 0x0020, rk_size = 0x00e0,
     rk_name = ''basic.legacy_reserve''\<rparr>"

definition blocks_basic_extension :: register_block where
  "blocks_basic_extension = \<lparr>rk_function = read_input_registers, rk_base = 0x0100, rk_size = 0x0f00,
     rk_name = ''basic.extension''\<rparr>"

definition blocks_cycles_150_180 :: register_block where
  "blocks_cycles_150_180 = \<lparr>rk_function = read_input_registers, rk_base = 0x1000, rk_size = 0x1000,
     rk_name = ''cycles_150_180''\<rparr>"

definition blocks_minute_10 :: register_block where
  "blocks_minute_10 = \<lparr>rk_function = read_input_registers, rk_base = 0x2000, rk_size = 0x1000,
     rk_name = ''minute_10''\<rparr>"

definition blocks_hour_2 :: register_block where
  "blocks_hour_2 = \<lparr>rk_function = read_input_registers, rk_base = 0x3000, rk_size = 0x1000,
     rk_name = ''hour_2''\<rparr>"

definition blocks_voltage_harmonics :: register_block where
  "blocks_voltage_harmonics = \<lparr>rk_function = read_input_registers, rk_base = 0x4000, rk_size = 0x1000,
     rk_name = ''voltage_harmonics''\<rparr>"

definition blocks_current_harmonics :: register_block where
  "blocks_current_harmonics = \<lparr>rk_function = read_input_registers, rk_base = 0x5000, rk_size = 0x1000,
     rk_name = ''current_harmonics''\<rparr>"

definition blocks_power_quality :: register_block where
  "blocks_power_quality = \<lparr>rk_function = read_input_registers, rk_base = 0x6000, rk_size = 0x1000,
     rk_name = ''power_quality''\<rparr>"

definition register_blocks :: "register_block list" where
  "register_blocks = [
     blocks_holding_metadata, blocks_basic_frequency, blocks_basic_voltage_ln,
     blocks_basic_current, blocks_basic_status, blocks_basic_legacy_reserve,
     blocks_basic_extension, blocks_cycles_150_180, blocks_minute_10, blocks_hour_2,
     blocks_voltage_harmonics, blocks_current_harmonics, blocks_power_quality]"

definition metadata :: "register_definition list" where
  "metadata = make_special_block blocks_holding_metadata [
     \<lparr>sd_field = Special_map_version, sd_type = DT_uint16, sd_period = None\<rparr>,
     \<lparr>sd_field = Special_word_order_marker, sd_type = DT_uint16, sd_period = None\<rparr>,
     \<lparr>sd_field = Special_attribute_count, sd_type = DT_uint16, sd_period = None\<rparr>]"

definition basic_frequency :: "register_definition list" where
  "basic_frequency = make_attribute_block blocks_basic_frequency Period_Basic DT_float32
     (map attribute_key [
       Id_Frequency])"

definition basic_voltage_ln :: "register_definition list" where
  "basic_voltage_ln = make_attribute_block blocks_basic_voltage_ln Period_Basic DT_float32
     (map attribute_key [
       Id_VanRms, Id_VbnRms, Id_VcnRms])"

definition basic_current :: "register_definition list" where
  "basic_current = make_attribute_block blocks_basic_current Period_Basic DT_float32
     (map attribute_key [
       Id_IaRms, Id_IbRms, Id_IcRms, Id_InRms])"

definition basic_status :: "register_definition list" where
  "basic_status = make_special_block blocks_basic_status [
     \<lparr>sd_field = Special_quality_mask, sd_type = DT_uint16, sd_period = Some Period_Basic\<rparr>,
     \<lparr>sd_field = Special_period, sd_type = DT_uint16, sd_period = Some Period_Basic\<rparr>,
     \<lparr>sd_field = Special_source_sequence, sd_type = DT_uint32, sd_period = Some Period_Basic\<rparr>,
     \<lparr>sd_field = Special_configuration_generation, sd_type = DT_uint32, sd_period = Some Period_Basic\<rparr>]"

definition energy_active_import_layout :: register_block where
  "energy_active_import_layout = \<lparr>rk_function = read_input_registers, rk_base = 0x0100, rk_size = 0x0010,
     rk_name = ''basic.energy.active_import''\<rparr>"

definition energy_active_export_layout :: register_block where
  "energy_active_export_layout = \<lparr>rk_function = read_input_registers, rk_base = 0x0110, rk_size = 0x0010,
     rk_name = ''basic.energy.active_export''\<rparr>"

definition energy_apparent_layout :: register_block where
  "energy_apparent_layout = \<lparr>rk_function = read_input_registers, rk_base = 0x0120, rk_size = 0x0010,
     rk_name = ''basic.energy.apparent''\<rparr>"

definition energy_quadrant_i_layout :: register_block where
  "energy_quadrant_i_layout = \<lparr>rk_function = read_input_registers, rk_base = 0x0130, rk_size = 0x0010,
     rk_name = ''basic.energy.quadrant_i''\<rparr>"

definition energy_quadrant_ii_layout :: register_block where
  "energy_quadrant_ii_layout = \<lparr>rk_function = read_input_registers, rk_base = 0x0140, rk_size = 0x0010,
     rk_name = ''basic.energy.quadrant_ii''\<rparr>"

definition energy_quadrant_iii_layout :: register_block where
  "energy_quadrant_iii_layout = \<lparr>rk_function = read_input_registers, rk_base = 0x0150, rk_size = 0x0010,
     rk_name = ''basic.energy.quadrant_iii''\<rparr>"

definition energy_quadrant_iv_layout :: register_block where
  "energy_quadrant_iv_layout = \<lparr>rk_function = read_input_registers, rk_base = 0x0160, rk_size = 0x0010,
     rk_name = ''basic.energy.quadrant_iv''\<rparr>"

definition energy_metadata_layout :: register_block where
  "energy_metadata_layout = \<lparr>rk_function = read_input_registers, rk_base = 0x0170, rk_size = 0x0020,
     rk_name = ''basic.energy.metadata''\<rparr>"

definition active_import_energy :: "register_definition list" where
  "active_import_energy = make_attribute_block energy_active_import_layout Period_Basic DT_uint64
     (map attribute_key [
       Id_ActiveImportEnergyA, Id_ActiveImportEnergyB, Id_ActiveImportEnergyC,
       Id_ActiveImportEnergyTotal])"

definition active_export_energy :: "register_definition list" where
  "active_export_energy = make_attribute_block energy_active_export_layout Period_Basic DT_uint64
     (map attribute_key [
       Id_ActiveExportEnergyA, Id_ActiveExportEnergyB, Id_ActiveExportEnergyC,
       Id_ActiveExportEnergyTotal])"

definition apparent_energy :: "register_definition list" where
  "apparent_energy = make_attribute_block energy_apparent_layout Period_Basic DT_uint64
     (map attribute_key [
       Id_ApparentEnergyA, Id_ApparentEnergyB, Id_ApparentEnergyC, Id_ApparentEnergyTotal])"

definition reactive_energy_quadrant_i :: "register_definition list" where
  "reactive_energy_quadrant_i = make_attribute_block energy_quadrant_i_layout Period_Basic DT_uint64
     (map attribute_key [
       Id_ReactiveEnergyQuadrantIA, Id_ReactiveEnergyQuadrantIB, Id_ReactiveEnergyQuadrantIC,
       Id_ReactiveEnergyQuadrantITotal])"

definition reactive_energy_quadrant_ii :: "register_definition list" where
  "reactive_energy_quadrant_ii = make_attribute_block energy_quadrant_ii_layout Period_Basic DT_uint64
     (map attribute_key [
       Id_ReactiveEnergyQuadrantIIA, Id_ReactiveEnergyQuadrantIIB,
       Id_ReactiveEnergyQuadrantIIC, Id_ReactiveEnergyQuadrantIITotal])"

definition reactive_energy_quadrant_iii :: "register_definition list" where
  "reactive_energy_quadrant_iii = make_attribute_block energy_quadrant_iii_layout Period_Basic DT_uint64
     (map attribute_key [
       Id_ReactiveEnergyQuadrantIIIA, Id_ReactiveEnergyQuadrantIIIB,
       Id_ReactiveEnergyQuadrantIIIC, Id_ReactiveEnergyQuadrantIIITotal])"

definition reactive_energy_quadrant_iv :: "register_definition list" where
  "reactive_energy_quadrant_iv = make_attribute_block energy_quadrant_iv_layout Period_Basic DT_uint64
     (map attribute_key [
       Id_ReactiveEnergyQuadrantIVA, Id_ReactiveEnergyQuadrantIVB,
       Id_ReactiveEnergyQuadrantIVC, Id_ReactiveEnergyQuadrantIVTotal])"

definition energy_metadata :: "register_definition list" where
  "energy_metadata = make_special_block energy_metadata_layout [
     \<lparr>sd_field = Special_energy_session_id, sd_type = DT_uint64, sd_period = Some Period_Basic\<rparr>,
     \<lparr>sd_field = Special_energy_reset_epoch, sd_type = DT_uint64, sd_period = Some Period_Basic\<rparr>,
     \<lparr>sd_field = Special_energy_last_sample, sd_type = DT_uint64, sd_period = Some Period_Basic\<rparr>,
     \<lparr>sd_field = Special_energy_accepted_samples, sd_type = DT_uint64, sd_period = Some Period_Basic\<rparr>,
     \<lparr>sd_field = Special_energy_skipped_samples, sd_type = DT_uint64, sd_period = Some Period_Basic\<rparr>,
     \<lparr>sd_field = Special_energy_accepted_blocks, sd_type = DT_uint32, sd_period = Some Period_Basic\<rparr>,
     \<lparr>sd_field = Special_energy_skipped_blocks, sd_type = DT_uint32, sd_period = Some Period_Basic\<rparr>,
     \<lparr>sd_field = Special_energy_flags, sd_type = DT_uint32, sd_period = Some Period_Basic\<rparr>,
     \<lparr>sd_field = Special_energy_quality_mask, sd_type = DT_uint64, sd_period = Some Period_Basic\<rparr>]"

definition demand_current_layout :: register_block where
  "demand_current_layout = \<lparr>rk_function = read_input_registers, rk_base = 0x2000, rk_size = 0x0010,
     rk_name = ''demand.current''\<rparr>"

definition demand_import_peak_layout :: register_block where
  "demand_import_peak_layout = \<lparr>rk_function = read_input_registers, rk_base = 0x2010, rk_size = 0x0010,
     rk_name = ''demand.import_peak''\<rparr>"

definition demand_export_peak_layout :: register_block where
  "demand_export_peak_layout = \<lparr>rk_function = read_input_registers, rk_base = 0x2020, rk_size = 0x0010,
     rk_name = ''demand.export_peak''\<rparr>"

definition demand_metadata_layout :: register_block where
  "demand_metadata_layout = \<lparr>rk_function = read_input_registers, rk_base = 0x2030, rk_size = 0x001e,
     rk_name = ''demand.metadata''\<rparr>"

definition demand_anchor_layout :: register_block where
  "demand_anchor_layout = \<lparr>rk_function = read_input_registers, rk_base = 0x2050, rk_size = 0x0020,
     rk_name = ''demand.peak_anchors''\<rparr>"

definition current_demand_block :: "register_definition list" where
  "current_demand_block = make_attribute_block demand_current_layout Period_Demand DT_int64
     (map attribute_key [
       Id_CurrentActiveDemandA, Id_CurrentActiveDemandB, Id_CurrentActiveDemandC,
       Id_CurrentActiveDemandTotal])"

definition import_demand_peak :: "register_definition list" where
  "import_demand_peak = make_attribute_block demand_import_peak_layout Period_Demand DT_uint64
     (map attribute_key [
       Id_ImportDemandPeakA, Id_ImportDemandPeakB, Id_ImportDemandPeakC,
       Id_ImportDemandPeakTotal])"

definition export_demand_peak :: "register_definition list" where
  "export_demand_peak = make_attribute_block demand_export_peak_layout Period_Demand DT_uint64
     (map attribute_key [
       Id_ExportDemandPeakA, Id_ExportDemandPeakB, Id_ExportDemandPeakC,
       Id_ExportDemandPeakTotal])"

definition demand_metadata :: "register_definition list" where
  "demand_metadata = make_special_block demand_metadata_layout [
     \<lparr>sd_field = Special_demand_session_id, sd_type = DT_uint64, sd_period = Some Period_Demand\<rparr>,
     \<lparr>sd_field = Special_demand_reset_epoch, sd_type = DT_uint64, sd_period = Some Period_Demand\<rparr>,
     \<lparr>sd_field = Special_demand_last_sample, sd_type = DT_uint64, sd_period = Some Period_Demand\<rparr>,
     \<lparr>sd_field = Special_demand_interval_anchor_sample, sd_type = DT_uint64, sd_period = Some Period_Demand\<rparr>,
     \<lparr>sd_field = Special_demand_source_interval_count, sd_type = DT_uint32, sd_period = Some Period_Demand\<rparr>,
     \<lparr>sd_field = Special_demand_source_status, sd_type = DT_uint32, sd_period = Some Period_Demand\<rparr>,
     \<lparr>sd_field = Special_demand_method, sd_type = DT_uint16, sd_period = Some Period_Demand\<rparr>,
     \<lparr>sd_field = Special_demand_window_seconds, sd_type = DT_uint32, sd_period = Some Period_Demand\<rparr>,
     \<lparr>sd_field = Special_demand_update_seconds, sd_type = DT_uint32, sd_period = Some Period_Demand\<rparr>,
     \<lparr>sd_field = Special_demand_profile_generation, sd_type = DT_uint32, sd_period = Some Period_Demand\<rparr>,
     \<lparr>sd_field = Special_demand_flags, sd_type = DT_uint32, sd_period = Some Period_Demand\<rparr>,
     \<lparr>sd_field = Special_demand_quality_mask, sd_type = DT_uint16, sd_period = Some Period_Demand\<rparr>]"

definition demand_peak_anchors :: "register_definition list" where
  "demand_peak_anchors = make_special_block demand_anchor_layout [
     \<lparr>sd_field = Special_demand_import_peak_sample_a, sd_type = DT_uint64, sd_period = Some Period_Demand\<rparr>,
     \<lparr>sd_field = Special_demand_import_peak_sample_b, sd_type = DT_uint64, sd_period = Some Period_Demand\<rparr>,
     \<lparr>sd_field = Special_demand_import_peak_sample_c, sd_type = DT_uint64, sd_period = Some Period_Demand\<rparr>,
     \<lparr>sd_field = Special_demand_import_peak_sample_total, sd_type = DT_uint64, sd_period = Some Period_Demand\<rparr>,
     \<lparr>sd_field = Special_demand_export_peak_sample_a, sd_type = DT_uint64, sd_period = Some Period_Demand\<rparr>,
     \<lparr>sd_field = Special_demand_export_peak_sample_b, sd_type = DT_uint64, sd_period = Some Period_Demand\<rparr>,
     \<lparr>sd_field = Special_demand_export_peak_sample_c, sd_type = DT_uint64, sd_period = Some Period_Demand\<rparr>,
     \<lparr>sd_field = Special_demand_export_peak_sample_total, sd_type = DT_uint64, sd_period = Some Period_Demand\<rparr>]"

definition frequency_10s_layout :: register_block where
  "frequency_10s_layout = \<lparr>rk_function = read_input_registers, rk_base = 0x6000, rk_size = 0x0002,
     rk_name = ''frequency.seconds_10''\<rparr>"

definition frequency_10s :: "register_definition list" where
  "frequency_10s = make_attribute_block frequency_10s_layout Period_Seconds10 DT_float32
     (map attribute_key [
       Id_Frequency])"

definition register_map :: "register_definition list" where
  "register_map = concat [
     metadata, basic_frequency, basic_voltage_ln, basic_current, basic_status,
     active_import_energy, active_export_energy, apparent_energy, reactive_energy_quadrant_i,
     reactive_energy_quadrant_ii, reactive_energy_quadrant_iii, reactive_energy_quadrant_iv,
     energy_metadata, current_demand_block, import_demand_peak, export_demand_peak, demand_metadata,
     demand_peak_anchors, frequency_10s]"

definition basic_published_attributes :: "meter_attribute_key list" where
  "basic_published_attributes = map attribute_key [
     Id_Frequency, Id_VanRms, Id_VbnRms, Id_VcnRms, Id_IaRms, Id_IbRms, Id_IcRms, Id_InRms]"

definition energy_published_attributes :: "register_definition list" where
  "energy_published_attributes = concat [
     active_import_energy, active_export_energy, apparent_energy, reactive_energy_quadrant_i,
     reactive_energy_quadrant_ii, reactive_energy_quadrant_iii, reactive_energy_quadrant_iv]"

definition demand_published_attributes :: "register_definition list" where
  "demand_published_attributes = concat [
     current_demand_block, import_demand_peak, export_demand_peak]"

definition published_measurement_attributes :: "meter_attribute_key list" where
  "published_measurement_attributes = basic_published_attributes @ map attribute_key [
     Id_ActiveImportEnergyA, Id_ActiveImportEnergyB, Id_ActiveImportEnergyC,
     Id_ActiveImportEnergyTotal, Id_ActiveExportEnergyA, Id_ActiveExportEnergyB,
     Id_ActiveExportEnergyC, Id_ActiveExportEnergyTotal, Id_ApparentEnergyA,
     Id_ApparentEnergyB, Id_ApparentEnergyC, Id_ApparentEnergyTotal,
     Id_ReactiveEnergyQuadrantIA, Id_ReactiveEnergyQuadrantIB, Id_ReactiveEnergyQuadrantIC,
     Id_ReactiveEnergyQuadrantITotal, Id_ReactiveEnergyQuadrantIIA,
     Id_ReactiveEnergyQuadrantIIB, Id_ReactiveEnergyQuadrantIIC,
     Id_ReactiveEnergyQuadrantIITotal, Id_ReactiveEnergyQuadrantIIIA,
     Id_ReactiveEnergyQuadrantIIIB, Id_ReactiveEnergyQuadrantIIIC,
     Id_ReactiveEnergyQuadrantIIITotal, Id_ReactiveEnergyQuadrantIVA,
     Id_ReactiveEnergyQuadrantIVB, Id_ReactiveEnergyQuadrantIVC,
     Id_ReactiveEnergyQuadrantIVTotal, Id_CurrentActiveDemandA, Id_CurrentActiveDemandB,
     Id_CurrentActiveDemandC, Id_CurrentActiveDemandTotal, Id_ImportDemandPeakA,
     Id_ImportDemandPeakB, Id_ImportDemandPeakC, Id_ImportDemandPeakTotal,
     Id_ExportDemandPeakA, Id_ExportDemandPeakB, Id_ExportDemandPeakC,
     Id_ExportDemandPeakTotal, Id_Frequency]"

section \<open>Validated maps\<close>

lemma unat_u16: "unat (w :: u16) < 65536"
proof -
  have "unat w < 2 ^ LENGTH(16)" by (rule unsigned_less)
  then show ?thesis by simp
qed

lemma unat_ucast16 [simp]: "unat (ucast (w :: u16) :: u32) = unat w"
  using unat_u16 [of w] by (simp add: unsigned_ucast_eq take_bit_nat_eq_self)

lemma unat_definition_end: "unat (definition_end d) = unat (rd_address d) + unat (rd_words d)"
  using unat_u16 [of "rd_address d"] unat_u16 [of "rd_words d"]
  by (simp add: definition_end_def unat_word_ariths)

text \<open>An entry ends before the next one starts, in the order of the map.\<close>

definition gap :: "register_definition \<Rightarrow> register_definition \<Rightarrow> bool" where
  "gap d e \<longleftrightarrow> rd_function d < rd_function e \<or>
     rd_function d = rd_function e \<and> definition_end d \<le> ucast (rd_address e)"

lemma gap_nat: "gap d e \<longleftrightarrow> rd_function d < rd_function e \<or>
    rd_function d = rd_function e \<and> unat (rd_address d) + unat (rd_words d) \<le> unat (rd_address e)"
  by (simp add: gap_def word_le_nat_alt unat_definition_end)

lemma precedes_nat: "precedes d e \<longleftrightarrow> rd_function d < rd_function e \<or>
    rd_function d = rd_function e \<and> unat (rd_address d) < unat (rd_address e)"
  by (simp add: precedes_def word_less_nat_alt)

lemma transp_gap: "transp gap"
  by (rule transpI) (auto simp: gap_nat)

lemma transp_precedes: "transp precedes"
  by (rule transpI) (auto simp: precedes_nat)

definition entry_ok :: "register_block list \<Rightarrow> register_definition \<Rightarrow> bool" where
  "entry_ok blocks entry \<longleftrightarrow> rd_words entry \<noteq> 0 \<and> rd_words entry = register_width (rd_type entry) \<and>
     definition_end entry \<le> 0x10000 \<and> containing_blocks blocks entry = 1"

definition entries_clash :: "register_definition \<Rightarrow> register_definition \<Rightarrow> bool" where
  "entries_clash entry candidate \<longleftrightarrow>
     rd_function candidate = rd_function entry \<and>
       overlaps (ucast (rd_address entry)) (definition_end entry)
         (ucast (rd_address candidate)) (definition_end candidate) \<or>
     source_is_duplicate entry candidate"

lemma overlaps_nat: "overlaps a b c d \<longleftrightarrow> unat a < unat d \<and> unat c < unat b"
  by (simp add: overlaps_def word_less_nat_alt)

lemma validate_entries_iff:
  "validate_entries blocks before es \<longleftrightarrow>
     list_all (entry_ok blocks) es \<and>
     successively precedes ((case before of None \<Rightarrow> [] | Some p \<Rightarrow> [p]) @ es) \<and>
     sorted_wrt (\<lambda>d e. \<not> entries_clash d e) es"
  by (induction blocks before es rule: validate_entries.induct)
     (auto simp: entry_ok_def entries_clash_def list_ex_iff not_less successively_Cons
       split: option.splits)

lemma gap_precedes: "entry_ok blocks d \<Longrightarrow> gap d e \<Longrightarrow> precedes d e"
  using unat_gt_0 [of "rd_words d"] by (auto simp: gap_nat precedes_nat entry_ok_def)

lemma gap_no_overlap:
  "gap d e \<Longrightarrow> rd_function e = rd_function d \<Longrightarrow>
   \<not> overlaps (ucast (rd_address d)) (definition_end d) (ucast (rd_address e)) (definition_end e)"
  by (auto simp: gap_nat overlaps_nat unat_definition_end)

text \<open>The measurements of a map that are not compatibility aliases.\<close>

definition measured :: "register_definition list \<Rightarrow> register_source list" where
  "measured es = map rd_source (filter (\<lambda>d. \<not> rd_compatibility_alias d \<and>
     (case rd_source d of Measurement_source _ _ \<Rightarrow> True | _ \<Rightarrow> False)) es)"

lemma duplicate_iff: "source_is_duplicate d e \<longleftrightarrow> rd_source d = rd_source e \<and>
    \<not> rd_compatibility_alias d \<and> \<not> rd_compatibility_alias e \<and>
    (case rd_source d of Measurement_source _ _ \<Rightarrow> True | _ \<Rightarrow> False)"
  by (auto simp: source_is_duplicate_def split: register_source.splits)

lemma no_duplicates: "distinct (measured es) \<Longrightarrow> sorted_wrt (\<lambda>d e. \<not> source_is_duplicate d e) es"
  by (induction es) (auto simp: measured_def duplicate_iff split: if_splits)

lemma sorted_wrt_both:
  "sorted_wrt P xs \<Longrightarrow> sorted_wrt Q xs \<Longrightarrow> (\<And>x y. P x y \<Longrightarrow> Q x y \<Longrightarrow> R x y) \<Longrightarrow> sorted_wrt R xs"
  by (induction xs) auto

text \<open>A check that is linear in the size of the map, apart from the duplicates.\<close>

lemma validate_by_gaps:
  assumes "validate_blocks blocks" "list_all (entry_ok blocks) es" "successively gap es"
    "distinct (measured es)"
  shows "validate_register_map blocks es"
proof -
  have "sorted_wrt gap es"
    using assms(3) transp_gap by (simp add: successively_conv_sorted_wrt)
  then have "sorted_wrt (\<lambda>d e. \<not> entries_clash d e) es"
    using no_duplicates [OF assms(4)]
    by (rule sorted_wrt_both) (auto simp: entries_clash_def dest: gap_no_overlap)
  moreover have "successively precedes es"
    using assms(3,2) by (induction es rule: induct_list012) (auto dest: gap_precedes)
  ultimately show ?thesis
    using assms(1,2) by (simp add: validate_register_map_def validate_entries_iff)
qed

lemma map_blocks: "validate_blocks register_blocks"
  by code_simp

lemma map_entries_ok: "list_all (entry_ok register_blocks) register_map"
  by code_simp

lemma map_gaps: "successively gap register_map"
  by code_simp

lemma map_measured: "distinct (measured register_map)"
  by code_simp

section \<open>Lookup is correct\<close>

text \<open>The entry is at or before the wanted address in the order of the map.\<close>

definition at_or_before :: "u8 \<Rightarrow> u16 \<Rightarrow> register_definition \<Rightarrow> bool" where
  "at_or_before f a d \<longleftrightarrow> rd_function d < f \<or> rd_function d = f \<and> rd_address d \<le> a"

text \<open>The entry owns the 16-bit register \<open>a\<close> of the table \<open>f\<close>.\<close>

definition owns :: "register_definition \<Rightarrow> u8 \<Rightarrow> u16 \<Rightarrow> bool" where
  "owns d f a \<longleftrightarrow> rd_function d = f \<and> unat (rd_address d) \<le> unat a \<and>
     unat a < unat (rd_address d) + unat (rd_words d)"

lemma at_or_before_mono: "precedes d e \<Longrightarrow> at_or_before f a e \<Longrightarrow> at_or_before f a d"
  by (auto simp: precedes_def at_or_before_def)

definition split_point :: "register_definition list \<Rightarrow> u8 \<Rightarrow> u16 \<Rightarrow> nat \<Rightarrow> bool" where
  "split_point es f a k \<longleftrightarrow> k \<le> length es \<and> (\<forall>i<k. at_or_before f a (es ! i)) \<and>
     (\<forall>i. k \<le> i \<and> i < length es \<longrightarrow> \<not> at_or_before f a (es ! i))"

lemma search_loop_spec:
  assumes "sorted_wrt precedes es" "lo \<le> hi" "hi \<le> length es"
    "\<forall>i<lo. at_or_before f a (es ! i)" "\<forall>i. hi \<le> i \<and> i < length es \<longrightarrow> \<not> at_or_before f a (es ! i)"
  shows "split_point es f a (search_loop es f a lo hi)"
  using assms
proof (induction es f a lo hi rule: search_loop.induct)
  case (1 es f a lo hi)
  define m where "m = lo + (hi - lo) div 2"
  note eq = search_loop.simps [of es f a lo hi, unfolded Let_def, folded m_def at_or_before_def]
  show ?case
  proof (cases "lo < hi")
    case False
    then have "search_loop es f a lo hi = lo" by (subst eq) simp
    then show ?thesis using 1(4-7) False by (simp add: split_point_def)
  next
    case True
    then have m: "lo \<le> m" "m < hi" "m < length es" using 1(5) by (auto simp: m_def)
    have mono: "at_or_before f a (es ! i)" if "at_or_before f a (es ! j)" "i \<le> j" "j < length es" for i j
      using that sorted_wrt_nth_less [OF 1(3), of i j] at_or_before_mono by (cases "i = j") auto
    show ?thesis
    proof (cases "at_or_before f a (es ! m)")
      case before: True
      have "\<forall>i<m + 1. at_or_before f a (es ! i)" using mono [OF before] m by simp
      note ih = 1(1) [OF True m_def refl before [unfolded at_or_before_def] 1(3) _ 1(5) this 1(7)]
      have "search_loop es f a lo hi = search_loop es f a (m + 1) hi"
        using before True by (subst eq) simp
      then show ?thesis using ih m(2) by simp
    next
      case after: False
      then have "\<forall>i. m \<le> i \<and> i < length es \<longrightarrow> \<not> at_or_before f a (es ! i)" using mono by blast
      note ih = 1(2) [OF True m_def refl after [unfolded at_or_before_def] 1(3) m(1) _ 1(6) this]
      have "search_loop es f a lo hi = search_loop es f a lo m"
        using after True by (subst eq) simp
      then show ?thesis using ih m(3) by simp
    qed
  qed
qed

lemma valid_sorted: "validate_register_map blocks es \<Longrightarrow> sorted_wrt precedes es"
  using transp_precedes
  by (simp add: validate_register_map_def validate_entries_iff successively_conv_sorted_wrt)

lemma valid_disjoint:
  assumes "validate_register_map blocks es" "i < j" "j < length es" "rd_function (es ! i) = rd_function (es ! j)"
  shows "unat (rd_address (es ! i)) + unat (rd_words (es ! i)) \<le> unat (rd_address (es ! j))"
proof -
  have "\<not> entries_clash (es ! i) (es ! j)" "precedes (es ! i) (es ! j)"
    "entry_ok blocks (es ! j)"
    using assms valid_sorted [OF assms(1)]
    by (auto simp: validate_register_map_def validate_entries_iff list_all_length
        dest: sorted_wrt_nth_less)
  then show ?thesis
    using assms(4) unat_gt_0 [of "rd_words (es ! j)"]
    by (auto simp: entries_clash_def overlaps_nat precedes_nat entry_ok_def unat_definition_end)
qed

lemma owner_unique:
  assumes "validate_register_map blocks es" "i < length es" "j < length es"
    "owns (es ! i) f a" "owns (es ! j) f a"
  shows "i = j"
  using valid_disjoint [OF assms(1), of i j] valid_disjoint [OF assms(1), of j i] assms(2-5)
  by (cases i j rule: linorder_cases) (auto simp: owns_def)

lemma found_owns:
  "rd_function d = f \<and> a \<ge> rd_address d \<and> ucast a < definition_end d \<longleftrightarrow> owns d f a"
  by (simp add: owns_def word_le_nat_alt word_less_nat_alt unat_definition_end)

lemma find_definition_iff:
  assumes v: "validate_register_map blocks es"
  shows "find_definition es f a = Some i \<longleftrightarrow> i < length es \<and> owns (es ! i) f a"
proof -
  define k where "k = search_loop es f a 0 (length es)"
  have "split_point es f a k"
    unfolding k_def by (rule search_loop_spec [OF valid_sorted [OF v]]) auto
  then have k: "k \<le> length es" "\<forall>i<k. at_or_before f a (es ! i)"
    "\<forall>i. k \<le> i \<and> i < length es \<longrightarrow> \<not> at_or_before f a (es ! i)"
    unfolding split_point_def by blast+
  have eq: "find_definition es f a =
      (if k \<noteq> 0 \<and> owns (es ! (k - 1)) f a then Some (k - 1) else None)"
    unfolding find_definition_def Let_def k_def [symmetric] found_owns by simp
  show ?thesis
  proof
    assume "find_definition es f a = Some i"
    then show "i < length es \<and> owns (es ! i) f a" using eq k(1) by (auto split: if_splits)
  next
    assume i: "i < length es \<and> owns (es ! i) f a"
    then have before: "at_or_before f a (es ! i)"
      by (auto simp: owns_def at_or_before_def word_le_nat_alt)
    then have "i < k" using k(3) i by (meson not_le)
    moreover have "i = k - 1"
    proof (rule ccontr)
      assume "i \<noteq> k - 1"
      with \<open>i < k\<close> have less: "i < k - 1" "k - 1 < length es" using k(1) by auto
      have b: "at_or_before f a (es ! (k - 1))" using k(2) \<open>i < k\<close> by auto
      have "precedes (es ! i) (es ! (k - 1))"
        using sorted_wrt_nth_less [OF valid_sorted [OF v]] less by blast
      then have "rd_function (es ! i) = rd_function (es ! (k - 1))"
        using i b by (auto simp: precedes_def at_or_before_def owns_def)
      then show False
        using valid_disjoint [OF v less] i b
        by (auto simp: owns_def at_or_before_def word_le_nat_alt)
    qed
    ultimately show "find_definition es f a = Some i" using i eq by auto
  qed
qed

lemma register_map_validated: "validate_register_map register_blocks register_map"
  by (rule validate_by_gaps [OF map_blocks map_entries_ok map_gaps map_measured])

text \<open>
  C38. For every register map that passes the compile-time validation, the binary search finds
  exactly the one entry that owns an address: it returns entry \<open>i\<close> when \<open>i\<close> covers the address
  in the requested table, and nothing when no entry does.
\<close>

theorem register_lookup_correct:
  assumes "validate_register_map blocks entries"
  shows "(find_definition entries f a = Some i \<longleftrightarrow> i < length entries \<and> owns (entries ! i) f a) \<and>
    (find_definition entries f a = None \<longleftrightarrow> (\<forall>d \<in> set entries. \<not> owns d f a))"
proof -
  have "find_definition entries f a = None \<longleftrightarrow> (\<forall>i < length entries. \<not> owns (entries ! i) f a)"
    using find_definition_iff [OF assms, of f a] by (metis not_None_eq option.distinct(1))
  then show ?thesis using find_definition_iff [OF assms] by (simp add: all_set_conv_all_nth)
qed

theorem register_lookup_correct_witness:
  "(find_definition register_map 4 0x102 = Some 16 \<longleftrightarrow> 16 < length register_map \<and>
      owns (register_map ! 16) 4 0x102) \<and>
   (find_definition register_map 4 0x102 = None \<longleftrightarrow> (\<forall>d \<in> set register_map. \<not> owns d 4 0x102))"
  using register_lookup_correct [OF register_map_validated] by blast

text \<open>
  The product's register map is valid: the reserved blocks are disjoint and inside the
  address space, every entry has the width of its type and lies in exactly one block, entries are
  strictly ordered, do not overlap, and no measurement appears twice.
\<close>

theorem register_map_valid: "validate_register_map register_blocks register_map"
  by (rule register_map_validated)

section \<open>What the map publishes\<close>

definition measurement_attributes ::
    "register_definition list \<Rightarrow> (meter_period \<times> meter_attribute_key) list" where
  "measurement_attributes es = List.map_filter (\<lambda>d. case rd_source d of
     Measurement_source p a \<Rightarrow> Some (p, a) | Special_source _ _ \<Rightarrow> None) es"

lemma map_published: "map snd (measurement_attributes register_map) = published_measurement_attributes"
  by code_simp

lemma map_supported:
  "list_all (\<lambda>(p, a). supports_attribute a p Usage_Snapshot) (measurement_attributes register_map)"
  by code_simp

text \<open>
  The attributes the map announces are exactly the measurements it contains, in map order,
  and every one of them is a period and attribute the snapshot catalog supports.
\<close>

theorem register_map_publishes:
  "map snd (measurement_attributes register_map) = published_measurement_attributes \<and>
   list_all (\<lambda>(p, a). supports_attribute a p Usage_Snapshot) (measurement_attributes register_map)"
  using map_published map_supported by blast

end
