(* ===== verification/Meter_Snapshot.thy ===== *)
theory Meter_Snapshot
  imports Meter_Attributes
begin

text \<open>
  The snapshot a provider returns (\<^verbatim>\<open>common/mnc/MeterDataProvider/snapshot/meter_snapshot.hpp\<close>) and the
  interface of the provider (\<^verbatim>\<open>meter_snapshot_provider.hpp\<close>). A \<^verbatim>\<open>std::array<std::uint64_t, 4>\<close> is a
  list of four words.
\<close>

datatype snapshot_time_quality = TQ_Unsynchronized | TQ_Synchronized | TQ_Holdover

record meter_snapshot_timing =
  st_quality :: snapshot_time_quality
  st_utc_start_nanoseconds :: "int option"
  st_utc_uncertainty_nanoseconds :: "u64 option"
  st_first_sample_index :: "u64 option"
  st_sample_count :: "u32 option"
  st_sample_rate_hz :: "u32 option"
  st_cycle_count :: "u32 option"
  st_nominal_frequency_hz :: "u32 option"
  st_source_interval_count :: "u32 option"
  st_first_source_sequence :: "u64 option"
  st_last_source_sequence :: "u64 option"
  st_expected_end_sample_index :: "u64 option"
  st_overshoot_samples :: "u32 option"
  st_time_aligned :: "bool option"
  st_contaminated :: "bool option"
  st_boundary_valid :: "bool option"

record meter_attribute_value =
  av_attribute :: meter_attribute_key
  av_unit :: meter_unit
  av_quality :: attribute_quality
  av_value :: int
  av_source_sequence :: u64
  av_measured_at_nanoseconds :: int
  av_sample_count :: u32
  av_calculation_window_nanoseconds :: int

record energy_snapshot_metadata =
  em_session_id :: u64
  em_reset_epoch :: u64
  em_last_sample_index :: u64
  em_accepted_samples :: u64
  em_skipped_samples :: u64
  em_accepted_blocks :: u32
  em_skipped_blocks :: u32
  em_saturated :: bool
  em_incomplete_input :: bool
  em_discontinuity :: bool

record demand_snapshot_metadata =
  dm_session_id :: u64
  dm_peak_reset_epoch :: u64
  dm_last_sample_index :: u64
  dm_interval_anchor_sample :: u64
  dm_source_interval_count :: u32
  dm_source_status :: u32
  dm_window_seconds :: u32
  dm_update_seconds :: u32
  dm_profile_generation :: u32
  dm_method :: u8
  dm_import_peak_samples :: "u64 list"
  dm_export_peak_samples :: "u64 list"
  dm_time_aligned :: bool
  dm_contaminated :: bool
  dm_boundary_valid :: bool
  dm_saturated :: bool
  dm_incomplete_input :: bool

record frequency_10s_snapshot_metadata =
  fm_interval_end_sample_index :: u64
  fm_utc_start_nanoseconds :: u64
  fm_utc_end_nanoseconds :: u64
  fm_utc_uncertainty_nanoseconds :: u64
  fm_measured_sample_rate_millihz :: u32
  fm_source_sequence :: u32
  fm_boundary_generation :: u32
  fm_source_status :: u32
  fm_status :: u32
  fm_reasons :: u32
  fm_observer_drop_count :: u32
  fm_guard_flags :: u8
  fm_observed_crossings :: u32
  fm_included_crossings :: u32
  fm_rejected_cycles :: u32
  fm_duration_q16_samples :: u64
  fm_first_crossing_q16_samples :: int
  fm_last_crossing_q16_samples :: int
  fm_nominal_frequency_hz :: u8
  fm_reference_channel :: u8
  fm_filter_profile :: u8
  fm_calibration_profile :: u8

record meter_snapshot =
  ms_period :: meter_period
  ms_sequence :: u64
  ms_configuration_generation :: u32
  ms_updated_at_nanoseconds :: int
  ms_timing :: "meter_snapshot_timing option"
  ms_energy :: "energy_snapshot_metadata option"
  ms_demand :: "demand_snapshot_metadata option"
  ms_frequency_10s :: "frequency_10s_snapshot_metadata option"
  ms_values :: "meter_attribute_value list"

record meter_snapshot_request =
  mr_period :: meter_period
  mr_attributes :: "meter_attribute_key list"

text \<open>
  \<^verbatim>\<open>MeterSnapshotProvider::latest\<close>: in the state \<open>s\<close> it throws, has no snapshot yet, or returns one.
\<close>

type_synonym 's snapshot_provider = "'s \<Rightarrow> meter_snapshot_request \<Rightarrow> meter_snapshot option result"

text \<open>The numeric value of \<^verbatim>\<open>enum class MeasurementPeriod : std::uint8_t\<close>.\<close>

definition period_value :: "meter_period \<Rightarrow> u8" where
  "period_value p = (case p of
     Period_Basic \<Rightarrow> 0 | Period_Cycles150_180 \<Rightarrow> 1 | Period_Min10 \<Rightarrow> 2 | Period_Hour2 \<Rightarrow> 3
   | Period_Min10Live \<Rightarrow> 4 | Period_Hour2Live \<Rightarrow> 5 | Period_Demand \<Rightarrow> 6 | Period_Seconds10 \<Rightarrow> 7)"

end
