(* ===== verification/Float32.thy ===== *)
theory Float32
  imports Complex_Main Msap1_Prelude
begin

text \<open>
  The single-precision arithmetic the register map uses: conversion of a 64-bit integer to
  \<^verbatim>\<open>float\<close> and division by a positive \<^verbatim>\<open>float\<close> constant, both rounded to nearest with ties to
  even, and the bit pattern of the result. A finite value is a sign, a 24-bit significand and an
  exponent. The magnitudes that occur stay within the normal range, which is proved below.
\<close>

section \<open>Rounding\<close>

datatype float32 = NaN | Finite bool int int

text \<open>\<open>n / d\<close> rounded to the nearest integer, ties to even.\<close>

definition round_half_even :: "int \<Rightarrow> int \<Rightarrow> int" where
  "round_half_even n d =
     (let q = n div d; r = n mod d in
      if 2 * r < d \<or> (2 * r = d \<and> even q) then q else q + 1)"

function bit_length :: "int \<Rightarrow> int" where
  "bit_length n = (if n \<le> 0 then 0 else 1 + bit_length (n div 2))"
  by pat_completeness auto
termination
  by (relation "measure nat") auto

declare bit_length.simps [simp del]

text \<open>\<open>n * 2 ^ k / d\<close> as a ratio, for any integer \<open>k\<close>.\<close>

definition scale :: "int \<Rightarrow> int \<Rightarrow> int \<Rightarrow> int \<times> int" where
  "scale n d k = (if 0 \<le> k then (n * 2 ^ nat k, d) else (n, d * 2 ^ nat (- k)))"

definition below_one :: "int \<times> int \<Rightarrow> bool" where
  "below_one p \<longleftrightarrow> fst p < snd p"

text \<open>The exponent \<open>e\<close> with \<open>2 ^ e \<le> n / d < 2 ^ (e + 1)\<close>.\<close>

definition ratio_exponent :: "int \<Rightarrow> int \<Rightarrow> int" where
  "ratio_exponent n d =
     (let e = bit_length n - bit_length d in
      if below_one (scale n d (- e)) then e - 1 else e)"

definition float_of_ratio :: "bool \<Rightarrow> int \<Rightarrow> int \<Rightarrow> float32" where
  "float_of_ratio s n d =
     (if n = 0 then Finite s 0 0
      else
        let e = ratio_exponent n d - 23; (a, b) = scale n d (- e); m = round_half_even a b in
        if m = 2 ^ 24 then Finite s (2 ^ 23) (e + 1) else Finite s m e)"

text \<open>\<^verbatim>\<open>static_cast<float>(value)\<close> of a 64-bit integer.\<close>

definition float_of_int :: "int \<Rightarrow> float32" where
  "float_of_int v = float_of_ratio (v < 0) \<bar>v\<bar> 1"

text \<open>Division by a positive constant that is an integer exactly representable as a \<^verbatim>\<open>float\<close>.\<close>

definition float_div :: "float32 \<Rightarrow> int \<Rightarrow> float32" where
  "float_div x c = (case x of
     NaN \<Rightarrow> NaN
   | Finite s m e \<Rightarrow> (let (a, b) = scale m c e in float_of_ratio s a b))"

definition float_bits :: "float32 \<Rightarrow> u32" where
  "float_bits x = (case x of
     NaN \<Rightarrow> 0x7fc00000
   | Finite s m e \<Rightarrow> (if s then 0x80000000 else 0) OR
       (if m = 0 then 0 else push_bit 23 (word_of_int (e + 150)) OR word_of_int (m - 2 ^ 23)))"

section \<open>Accuracy\<close>

text \<open>The real number a finite value stands for.\<close>

definition float_value :: "float32 \<Rightarrow> real" where
  "float_value x = (case x of NaN \<Rightarrow> 0
   | Finite s m e \<Rightarrow> (if s then - 1 else 1) * (of_int m * 2 powi e))"

lemma bit_length_step: "0 < n \<Longrightarrow> bit_length n = 1 + bit_length (n div 2)"
  by (subst bit_length.simps) simp

lemma bit_length_nonneg: "0 \<le> bit_length n"
  by (induction n rule: bit_length.induct) (subst bit_length.simps, simp)

lemma bit_length_int:
  "0 < n \<Longrightarrow> 2 ^ nat (bit_length n) \<le> 2 * n \<and> n < 2 ^ nat (bit_length n)"
proof (induction n rule: bit_length.induct)
  case (1 n)
  let ?k = "nat (bit_length (n div 2))"
  have k: "nat (bit_length n) = Suc ?k"
    using bit_length_step [OF 1(2)] bit_length_nonneg [of "n div 2"] by simp
  show ?case
  proof (cases "n = 1")
    case True
    have "bit_length (n div 2) = 0" unfolding True by (subst bit_length.simps) simp
    then show ?thesis using k unfolding True by simp
  next
    case False
    then have "2 ^ ?k \<le> 2 * (n div 2)" "n div 2 < 2 ^ ?k" using 1 by auto
    then show ?thesis unfolding k power_Suc by presburger
  qed
qed

lemma bit_length_bounds:
  assumes "0 < n"
  shows "2 powi (bit_length n - 1) \<le> real_of_int n" "real_of_int n < 2 powi bit_length n"
proof -
  have e: "2 powi bit_length n = real_of_int (2 ^ nat (bit_length n))"
    using bit_length_nonneg [of n] by (simp add: power_int_def)
  show "real_of_int n < 2 powi bit_length n"
    unfolding e using bit_length_int [OF assms] by linarith
  have "2 powi bit_length n \<le> 2 * real_of_int n"
    unfolding e using bit_length_int [OF assms] by linarith
  then show "2 powi (bit_length n - 1) \<le> real_of_int n" by (simp add: power_int_diff)
qed

lemma scale_ratio:
  assumes "0 < d" "scale n d k = (a, b)"
  shows "0 < b" "real_of_int a / real_of_int b = real_of_int n / real_of_int d * 2 powi k"
  using assms by (auto simp: scale_def power_int_def field_simps split: if_splits)

lemma below_one_scale:
  assumes "0 < d"
  shows "below_one (scale n d (- e)) \<longleftrightarrow> real_of_int n / real_of_int d < 2 powi e"
proof -
  obtain a b where ab: "scale n d (- e) = (a, b)" by fastforce
  note s = scale_ratio [OF assms ab]
  have g: "x * 2 powi (- e) < 1 \<longleftrightarrow> x < 2 powi e" for x :: real
    by (simp add: power_int_minus field_simps)
  have "a < b \<longleftrightarrow> real_of_int a / real_of_int b < 1" using s(1) by simp
  also have "\<dots> \<longleftrightarrow> real_of_int n / real_of_int d < 2 powi e"
    unfolding s(2) g ..
  finally show ?thesis by (simp add: ab below_one_def)
qed

lemma ratio_exponent_bounds:
  assumes "0 < n" "0 < d"
  shows "2 powi ratio_exponent n d \<le> real_of_int n / real_of_int d \<and>
    real_of_int n / real_of_int d < 2 powi (ratio_exponent n d + 1)"
proof -
  let ?e = "bit_length n - bit_length d" and ?x = "real_of_int n / real_of_int d"
  note n = bit_length_bounds [OF assms(1)] and d = bit_length_bounds [OF assms(2)]
  have "2 powi (?e - 1) = (2 powi (bit_length n - 1) :: real) / 2 powi bit_length d"
    by (simp add: power_int_diff)
  also have "\<dots> \<le> ?x" using n d assms by (intro frac_le) auto
  finally have lower: "2 powi (?e - 1) \<le> ?x" .
  have "?x < 2 powi bit_length n / 2 powi (bit_length d - 1)"
    using n d assms by (intro frac_less) auto
  also have "\<dots> = (2 powi (?e + 1) :: real)" by (simp add: power_int_diff power_int_add)
  finally have upper: "?x < 2 powi (?e + 1)" .
  show ?thesis
    using lower upper below_one_scale [OF assms(2), of n ?e]
    by (auto simp: ratio_exponent_def Let_def)
qed

lemma round_half_even_error:
  assumes "0 < d"
  shows "\<bar>real_of_int (round_half_even n d) - real_of_int n / real_of_int d\<bar> \<le> 1 / 2"
proof -
  have "real_of_int n = real_of_int (n div d) * real_of_int d + real_of_int (n mod d)"
    by (simp flip: of_int_mult of_int_add)
  then have "real_of_int n / real_of_int d = real_of_int (n div d) + real_of_int (n mod d) / real_of_int d"
    using assms by (simp add: field_simps)
  moreover have "0 \<le> real_of_int (n mod d) / real_of_int d" "real_of_int (n mod d) / real_of_int d < 1"
    using assms by simp_all
  moreover have "2 * (n mod d) \<le> d \<longleftrightarrow> real_of_int (n mod d) / real_of_int d \<le> 1 / 2"
    "d \<le> 2 * (n mod d) \<longleftrightarrow> 1 / 2 \<le> real_of_int (n mod d) / real_of_int d"
    using assms by (auto simp: field_simps simp flip: of_int_mult of_int_le_iff)
  ultimately show ?thesis by (auto simp: round_half_even_def Let_def abs_le_iff)
qed

lemma round_half_even_range:
  assumes "0 < d" "real_of_int lo \<le> real_of_int n / real_of_int d"
    "real_of_int n / real_of_int d \<le> real_of_int hi"
  shows "lo \<le> round_half_even n d" "round_half_even n d \<le> hi"
proof -
  note e = round_half_even_error [OF assms(1), of n]
  show "lo \<le> round_half_even n d" using assms(2) e by linarith
  show "round_half_even n d \<le> hi" using assms(3) e by linarith
qed

lemma float_of_ratio_cases:
  assumes "0 < n" "0 < d"
  obtains m e where "float_of_ratio s n d = Finite s m e" "2 ^ 23 \<le> m" "m < 2 ^ 24"
    "\<bar>of_int m * 2 powi e - real_of_int n / real_of_int d\<bar> \<le> 2 powi (- 24) * (real_of_int n / real_of_int d)"
    "e = ratio_exponent n d - 23 \<or> e = ratio_exponent n d - 22"
proof -
  let ?x = "real_of_int n / real_of_int d" and ?r = "ratio_exponent n d"
  define e where "e = ?r - 23"
  obtain a b where ab: "scale n d (- e) = (a, b)" by fastforce
  note s = scale_ratio [OF assms(2) ab]
  let ?m = "round_half_even a b"
  have x: "2 powi ?r \<le> ?x" "?x < 2 powi (?r + 1)" using ratio_exponent_bounds [OF assms] by auto
  have p: "2 powi ?r = 2 ^ 23 * (2 powi e :: real)" "2 powi (?r + 1) = 2 ^ 24 * (2 powi e :: real)"
    by (simp_all add: e_def power_int_diff power_int_add)
  have shift: "c * 2 powi e \<le> y \<Longrightarrow> c \<le> y * 2 powi (- e)" "y < c * 2 powi e \<Longrightarrow> y * 2 powi (- e) \<le> c"
    for c y :: real
    by (simp_all add: power_int_minus field_simps)
  have q: "of_int (2 ^ 23) \<le> real_of_int a / real_of_int b" "real_of_int a / real_of_int b \<le> of_int (2 ^ 24)"
    unfolding s(2) using shift(1) [OF x(1) [unfolded p(1)]] shift(2) [OF x(2) [unfolded p(2)]]
    by simp_all
  have dist: "\<bar>c * 2 powi e - y\<bar> = \<bar>c - y * 2 powi (- e)\<bar> * 2 powi e" for c y :: real
  proof -
    have "c * 2 powi e - y = (c - y * 2 powi (- e)) * 2 powi e"
      by (simp add: power_int_minus field_simps)
    then show ?thesis by (simp add: abs_mult)
  qed
  note m = round_half_even_range [OF s(1) q]
  have "\<bar>of_int ?m * 2 powi e - ?x\<bar> = \<bar>of_int ?m - real_of_int a / real_of_int b\<bar> * 2 powi e"
    unfolding s(2) by (rule dist)
  also have "\<dots> \<le> 1 / 2 * 2 powi e"
    using round_half_even_error [OF s(1)] by (intro mult_right_mono) auto
  also have "\<dots> \<le> 2 powi (- 24) * ?x"
    using x(1) p(1) by (simp add: power_int_def field_simps)
  finally have err: "\<bar>of_int ?m * 2 powi e - ?x\<bar> \<le> 2 powi (- 24) * ?x" .
  show thesis
  proof (cases "?m = 2 ^ 24")
    case True
    show thesis
    proof (rule that [of "2 ^ 23" "e + 1"])
      show "float_of_ratio s n d = Finite s (2 ^ 23) (e + 1)"
        using assms(1) True ab by (simp add: float_of_ratio_def Let_def flip: e_def)
      show "\<bar>of_int (2 ^ 23) * 2 powi (e + 1) - ?x\<bar> \<le> 2 powi (- 24) * ?x"
        using err unfolding True by (simp add: power_int_add)
    qed (simp_all add: e_def)
  next
    case False
    show thesis
    proof (rule that [of ?m e])
      show "float_of_ratio s n d = Finite s ?m e"
        using assms(1) False ab by (simp add: float_of_ratio_def Let_def flip: e_def)
    qed (use m False err in \<open>simp_all add: e_def\<close>)
  qed
qed

lemma ratio_exponent_range:
  assumes "0 < n" "0 < d" "2 powi lo \<le> real_of_int n / real_of_int d"
    "real_of_int n / real_of_int d < 2 powi hi"
  shows "lo \<le> ratio_exponent n d" "ratio_exponent n d < hi"
proof -
  let ?r = "ratio_exponent n d"
  have b: "2 powi ?r \<le> real_of_int n / real_of_int d" "real_of_int n / real_of_int d < 2 powi (?r + 1)"
    using ratio_exponent_bounds [OF assms(1,2)] by auto
  have "(2 :: real) powi lo < 2 powi (?r + 1)" "(2 :: real) powi ?r < 2 powi hi"
    using assms(3,4) b by linarith+
  then show "lo \<le> ?r" "?r < hi"
    using power_int_increasing [of "?r + 1" lo "2 :: real"] power_int_increasing [of hi ?r "2 :: real"]
    by linarith+
qed

lemma powi_values: "2 powi (- 24) = (1 :: real) / 16777216" "2 powi (- 22) = (1 :: real) / 4194304"
  "2 powi (- 41) = (2 powi (- 40) :: real) / 2" "2 powi 64 = (2 :: real) * 2 ^ 63"
  by (simp_all add: power_int_def field_simps)

lemma rounded_range:
  fixes x y :: real
  assumes "\<bar>y - x\<bar> \<le> 2 powi (- 24) * x" "2 powi (- 40) \<le> x" "x \<le> 2 ^ 63"
  shows "2 powi (- 41) \<le> y" "y < 2 powi 64"
proof -
  have "0 < x" using assms(2) by (rule less_le_trans [rotated]) simp
  then have "x / 2 \<le> y" "y < 2 * x"
    using assms(1) unfolding powi_values abs_le_iff by linarith+
  then show "2 powi (- 41) \<le> y" "y < 2 powi 64" using assms(2,3) unfolding powi_values by linarith+
qed

lemma two_roundings:
  fixes x y z :: real
  assumes "\<bar>y - x\<bar> \<le> 2 powi (- 24) * x" "\<bar>z - y\<bar> \<le> 2 powi (- 24) * y"
  shows "\<bar>z - x\<bar> \<le> 2 powi (- 22) * x"
  using assms unfolding powi_values abs_le_iff by linarith

text \<open>
  The quotient of a 64-bit integer by one of the constants: a normal single-precision number
  whose relative error is below two roundings.
\<close>

lemma float_quotient:
  assumes "v \<noteq> 0" "\<bar>v\<bar> \<le> 2 ^ 63" "0 < c" "c \<le> 2 ^ 40"
  obtains m e where "float_div (float_of_int v) c = Finite (v < 0) m e" "2 ^ 23 \<le> m" "m < 2 ^ 24"
    "- 66 \<le> e" "e \<le> 42"
    "\<bar>of_int m * 2 powi e - \<bar>real_of_int v\<bar> / real_of_int c\<bar> \<le>
      2 powi (- 22) * (\<bar>real_of_int v\<bar> / real_of_int c)"
proof -
  have n: "0 < \<bar>v\<bar>" using assms(1) by simp
  obtain m1 e1 where f1: "float_of_int v = Finite (v < 0) m1 e1" "2 ^ 23 \<le> m1" "m1 < 2 ^ 24"
    "\<bar>of_int m1 * 2 powi e1 - real_of_int \<bar>v\<bar>\<bar> \<le> 2 powi (- 24) * real_of_int \<bar>v\<bar>"
    using float_of_ratio_cases [OF n zero_less_one, of "v < 0"]
    unfolding float_of_int_def of_int_1 div_by_1 by blast
  obtain a b where ab: "scale m1 c e1 = (a, b)" by fastforce
  note s = scale_ratio [OF assms(3) ab]
  have "0 < real_of_int m1 / real_of_int c * 2 powi e1" using f1(2) assms(3) by simp
  then have "0 < real_of_int a / real_of_int b" unfolding s(2) .
  then have "0 < a" using s(1) by (simp add: zero_less_divide_iff)
  let ?y = "real_of_int a / real_of_int b" and ?x = "real_of_int \<bar>v\<bar> / real_of_int c"
  have y: "?y = of_int m1 * 2 powi e1 / real_of_int c" using s(2) by simp
  have xy: "\<bar>?y - ?x\<bar> \<le> 2 powi (- 24) * ?x"
  proof -
    have "\<bar>?y - ?x\<bar> = \<bar>of_int m1 * 2 powi e1 - real_of_int \<bar>v\<bar>\<bar> / real_of_int c"
      unfolding y diff_divide_distrib [symmetric] using assms(3) by (simp add: abs_divide)
    also have "\<dots> \<le> 2 powi (- 24) * real_of_int \<bar>v\<bar> / real_of_int c"
      using f1(4) assms(3) by (intro divide_right_mono) auto
    finally show ?thesis by simp
  qed
  have x: "2 powi (- 40) \<le> ?x" "?x \<le> 2 ^ 63"
  proof -
    have "1 / 2 ^ 40 \<le> ?x" using n assms(3,4) by (intro frac_le) auto
    then show "2 powi (- 40) \<le> ?x" by (simp add: power_int_def field_simps)
    have "?x \<le> real_of_int \<bar>v\<bar> / 1" using assms(3) by (intro divide_left_mono) auto
    also have "\<dots> \<le> 2 ^ 63" using assms(2) by (simp flip: of_int_abs)
    finally show "?x \<le> 2 ^ 63" .
  qed
  note yb = rounded_range [OF xy x]
  obtain m e where f: "float_of_ratio (v < 0) a b = Finite (v < 0) m e" "2 ^ 23 \<le> m" "m < 2 ^ 24"
    "\<bar>of_int m * 2 powi e - ?y\<bar> \<le> 2 powi (- 24) * ?y"
    "e = ratio_exponent a b - 23 \<or> e = ratio_exponent a b - 22"
    using float_of_ratio_cases [OF \<open>0 < a\<close> s(1)] .
  have "- 66 \<le> e" "e \<le> 42"
    using ratio_exponent_range [OF \<open>0 < a\<close> s(1) yb] f(5) by auto
  moreover have "\<bar>of_int m * 2 powi e - ?x\<bar> \<le> 2 powi (- 22) * ?x"
    by (rule two_roundings [OF xy f(4)])
  moreover have "float_div (float_of_int v) c = Finite (v < 0) m e"
    using f1(1) ab f(1) by (simp add: float_div_def)
  ultimately show thesis using that f(2,3) by simp
qed

section \<open>Bit patterns\<close>

text \<open>The value of a bit pattern, as IEEE 754 defines it for zero and normal numbers.\<close>

definition float_of_bits :: "u32 \<Rightarrow> float32" where
  "float_of_bits w =
     (let m = uint (take_bit 23 w); x = uint (take_bit 8 (drop_bit 23 w)); s = bit w 31 in
      if x = 255 then NaN
      else if x = 0 \<and> m = 0 then Finite s 0 0
      else Finite s (2 ^ 23 + m) (x - 150))"

lemma small_word:
  assumes "0 \<le> k" "k < 2 ^ n" "n < 32"
  shows "uint (word_of_int k :: u32) = k" "bit (word_of_int k :: u32) i \<Longrightarrow> i < n"
proof -
  have k: "k < 2 ^ 32" using assms(2,3) power_strict_increasing [of n 32 "2 :: int"] by linarith
  then show "uint (word_of_int k :: u32) = k" using assms(1) by (simp add: unsigned_of_int take_bit_int_eq_self)
  assume "bit (word_of_int k :: u32) i"
  then have "bit k i" by (simp add: bit_simps)
  moreover have "take_bit n k = k" using assms(1,2) by (simp add: take_bit_int_eq_self)
  ultimately show "i < n" by (metis bit_take_bit_iff)
qed

lemma bit_sign: "bit (0x80000000 :: u32) i \<longleftrightarrow> i = 31"
proof -
  have "(0x80000000 :: u32) = push_bit 31 1" by simp
  then show ?thesis by (simp only: bit_push_bit_iff) (auto simp: bit_1_iff)
qed

lemma float_bits_roundtrip:
  assumes "2 ^ 23 \<le> m" "m < 2 ^ 24" "- 149 \<le> e" "e \<le> 104"
  shows "float_of_bits (float_bits (Finite s m e)) = Finite s m e"
proof -
  define M :: u32 where "M = word_of_int (m - 2 ^ 23)"
  define X :: u32 where "X = word_of_int (e + 150)"
  have M: "uint M = m - 2 ^ 23" "\<And>i. bit M i \<Longrightarrow> i < 23"
    using small_word [of "m - 2 ^ 23" 23] assms by (auto simp: M_def)
  have X: "uint X = e + 150" "\<And>i. bit X i \<Longrightarrow> i < 8"
    using small_word [of "e + 150" 8] assms by (auto simp: X_def)
  define S :: u32 where "S = (if s then 0x80000000 else 0)"
  have S: "bit S i \<longleftrightarrow> s \<and> i = 31" for i using bit_sign [of i] by (simp add: S_def)
  have w: "float_bits (Finite s m e) = S OR (push_bit 23 X OR M)"
    using assms(1) by (simp add: float_bits_def S_def X_def M_def)
  have "take_bit 23 (S OR (push_bit 23 X OR M)) = M"
    by (rule bit_word_eqI) (auto simp: bit_simps S dest: M(2))
  moreover have "take_bit 8 (drop_bit 23 (S OR (push_bit 23 X OR M))) = X"
    by (rule bit_word_eqI) (auto simp: bit_simps S dest: M(2) X(2))
  moreover have "bit (S OR (push_bit 23 X OR M)) 31 \<longleftrightarrow> s"
    by (auto simp: bit_simps S dest: M(2) X(2))
  ultimately show ?thesis using assms by (simp add: float_of_bits_def w M(1) X(1) Let_def)
qed

lemma float_bits_special:
  "float_of_bits (float_bits NaN) = NaN" "float_of_bits (float_bits (Finite False 0 0)) = Finite False 0 0"
  by code_simp+

end
