(* ===== verification/Register_Map.thy ===== *)
theory Register_Map
  imports Register_Schema Meter_Snapshot Float32
begin

text \<open>
  The product register bank (\<^verbatim>\<open>common/msap1/modbus/modbus_register_map.cpp\<close>): a read validates every
  requested register, asks the snapshot provider once for one period, and encodes the entries it
  covers. The provider is a parameter. A null pointer that is dereferenced would be undefined
  behaviour; it cannot occur, since the addresses are validated first, and the model skips it.
\<close>

section \<open>Values\<close>

definition definition_at :: "u8 \<Rightarrow> u16 \<Rightarrow> nat option" where
  "definition_at f address = find_definition register_map f address"

definition find_reading :: "meter_snapshot \<Rightarrow> meter_attribute_key \<Rightarrow> meter_attribute_value option" where
  "find_reading snapshot attribute = find (\<lambda>v. av_attribute v = attribute) (ms_values snapshot)"

definition engineering_value :: "meter_attribute_value option \<Rightarrow> float32" where
  "engineering_value value = (case value of
     None \<Rightarrow> NaN
   | Some v \<Rightarrow>
       if av_quality v \<noteq> Quality_Valid then NaN
       else (case av_unit v of
          Unit_MilliHertz \<Rightarrow> float_div (float_of_int (av_value v)) 1000
        | Unit_MicroVolts \<Rightarrow> float_div (float_of_int (av_value v)) 1000000
        | Unit_MicroAmperes \<Rightarrow> float_div (float_of_int (av_value v)) 1000000
        | Unit_Picowatts \<Rightarrow> float_div (float_of_int (av_value v)) 999999995904
        | Unit_PicoVoltAmperes \<Rightarrow> float_div (float_of_int (av_value v)) 999999995904
        | Unit_PowerFactorMillionths \<Rightarrow> float_div (float_of_int (av_value v)) 1000000
        | Unit_Picovars \<Rightarrow> float_div (float_of_int (av_value v)) 999999995904
        | Unit_Millidegrees \<Rightarrow> float_div (float_of_int (av_value v)) 1000
        | Unit_RatioMillionths \<Rightarrow> float_div (float_of_int (av_value v)) 10000
        | Unit_MicroWattHours \<Rightarrow> float_of_int (av_value v)
        | Unit_MicroVarHours \<Rightarrow> float_of_int (av_value v)
        | Unit_MicroVoltAmpereHours \<Rightarrow> float_of_int (av_value v)
        | Unit_MicroWatts \<Rightarrow> float_of_int (av_value v)
        | Unit_CrestTenThousandths \<Rightarrow> float_div (float_of_int (av_value v)) 10000
        | Unit_CategoricalCode \<Rightarrow> float_of_int (av_value v)))"

definition reading_valid :: "meter_attribute_value option \<Rightarrow> bool" where
  "reading_valid value = (case value of None \<Rightarrow> False | Some v \<Rightarrow> av_quality v = Quality_Valid)"

text \<open>The value of a valid reading, and 0 otherwise.\<close>

definition available_value :: "meter_attribute_value option \<Rightarrow> int" where
  "available_value value =
     (case value of None \<Rightarrow> 0 | Some v \<Rightarrow> if av_quality v = Quality_Valid then av_value v else 0)"

definition snapshot_reading ::
    "meter_snapshot option \<Rightarrow> meter_attribute_key \<Rightarrow> meter_attribute_value option" where
  "snapshot_reading snapshot attribute =
     (case snapshot of None \<Rightarrow> None | Some s \<Rightarrow> find_reading s attribute)"

definition encode_measurement ::
    "data_type \<Rightarrow> meter_attribute_key \<Rightarrow> meter_snapshot option \<Rightarrow> u16 list" where
  "encode_measurement t attribute snapshot =
     (let value = snapshot_reading snapshot attribute; n = available_value value in
      case t of
        DT_float32 \<Rightarrow> encode_float (float_bits (engineering_value value))
      | DT_uint16 \<Rightarrow> encode_u16 (word_of_int n)
      | DT_uint32 \<Rightarrow> encode_u32 (word_of_int n)
      | DT_int32 \<Rightarrow> encode_i32 (sint (word_of_int n :: u32))
      | DT_uint64 \<Rightarrow> encode_reg_u64 (word_of_int n)
      | DT_int64 \<Rightarrow> encode_i64 n)"

text \<open>Bit \<open>index\<close> tells that the attribute at that position of the list is valid.\<close>

definition valid_mask_bits ::
    "meter_snapshot option \<Rightarrow> meter_attribute_key list \<Rightarrow> 'a::len word" where
  "valid_mask_bits snapshot attributes =
     foldl (\<lambda>mask (index, a). if reading_valid (snapshot_reading snapshot a)
       then mask OR push_bit index 1 else mask) 0 (enumerate 0 attributes)"

text \<open>\<^verbatim>\<open>std::get<MeasurementSource>(definition.source).attribute\<close> of a list of measurements.\<close>

definition source_attributes :: "register_definition list \<Rightarrow> meter_attribute_key list" where
  "source_attributes ds = map (\<lambda>d. case rd_source d of
     Measurement_source p a \<Rightarrow> a | Special_source _ _ \<Rightarrow> attribute_key 0) ds"

definition flag_bit :: "nat \<Rightarrow> bool \<Rightarrow> u32" where
  "flag_bit k b = push_bit k (if b then 1 else 0)"

definition energy_field ::
    "meter_snapshot option \<Rightarrow> (energy_snapshot_metadata \<Rightarrow> 'a::len word) \<Rightarrow> 'a word" where
  "energy_field snapshot f =
     (case snapshot of None \<Rightarrow> 0 | Some s \<Rightarrow> (case ms_energy s of None \<Rightarrow> 0 | Some m \<Rightarrow> f m))"

definition demand_field ::
    "meter_snapshot option \<Rightarrow> (demand_snapshot_metadata \<Rightarrow> 'a::len word) \<Rightarrow> 'a word" where
  "demand_field snapshot f =
     (case snapshot of None \<Rightarrow> 0 | Some s \<Rightarrow> (case ms_demand s of None \<Rightarrow> 0 | Some m \<Rightarrow> f m))"

definition encode_special ::
    "special_register \<Rightarrow> meter_period option \<Rightarrow> meter_snapshot option \<Rightarrow> u16 list" where
  "encode_special field period snapshot = (case field of
     Special_quality_mask \<Rightarrow> [valid_mask_bits snapshot basic_published_attributes]
   | Special_period \<Rightarrow>
       [ucast (period_value (case snapshot of Some s \<Rightarrow> ms_period s
          | None \<Rightarrow> (case period of Some p \<Rightarrow> p | None \<Rightarrow> Period_Basic)))]
   | Special_source_sequence \<Rightarrow>
       encode_u32 (case snapshot of Some s \<Rightarrow> ucast (ms_sequence s) | None \<Rightarrow> 0)
   | Special_configuration_generation \<Rightarrow>
       encode_u32 (case snapshot of Some s \<Rightarrow> ms_configuration_generation s | None \<Rightarrow> 0)
   | Special_map_version \<Rightarrow> [register_map_version]
   | Special_word_order_marker \<Rightarrow> [0x1234]
   | Special_attribute_count \<Rightarrow> [of_nat (length published_measurement_attributes)]
   | Special_energy_session_id \<Rightarrow> encode_reg_u64 (energy_field snapshot em_session_id)
   | Special_energy_reset_epoch \<Rightarrow> encode_reg_u64 (energy_field snapshot em_reset_epoch)
   | Special_energy_last_sample \<Rightarrow> encode_reg_u64 (energy_field snapshot em_last_sample_index)
   | Special_energy_accepted_samples \<Rightarrow> encode_reg_u64 (energy_field snapshot em_accepted_samples)
   | Special_energy_skipped_samples \<Rightarrow> encode_reg_u64 (energy_field snapshot em_skipped_samples)
   | Special_energy_accepted_blocks \<Rightarrow> encode_u32 (energy_field snapshot em_accepted_blocks)
   | Special_energy_skipped_blocks \<Rightarrow> encode_u32 (energy_field snapshot em_skipped_blocks)
   | Special_energy_flags \<Rightarrow> encode_u32 (energy_field snapshot (\<lambda>m.
       flag_bit 0 (em_saturated m) OR flag_bit 1 (em_incomplete_input m) OR flag_bit 2 (em_discontinuity m)))
   | Special_energy_quality_mask \<Rightarrow>
       encode_reg_u64 (valid_mask_bits snapshot (source_attributes energy_published_attributes))
   | Special_demand_session_id \<Rightarrow> encode_reg_u64 (demand_field snapshot dm_session_id)
   | Special_demand_reset_epoch \<Rightarrow> encode_reg_u64 (demand_field snapshot dm_peak_reset_epoch)
   | Special_demand_last_sample \<Rightarrow> encode_reg_u64 (demand_field snapshot dm_last_sample_index)
   | Special_demand_interval_anchor_sample \<Rightarrow>
       encode_reg_u64 (demand_field snapshot dm_interval_anchor_sample)
   | Special_demand_source_interval_count \<Rightarrow>
       encode_u32 (demand_field snapshot dm_source_interval_count)
   | Special_demand_source_status \<Rightarrow> encode_u32 (demand_field snapshot dm_source_status)
   | Special_demand_method \<Rightarrow> [ucast (demand_field snapshot dm_method)]
   | Special_demand_window_seconds \<Rightarrow> encode_u32 (demand_field snapshot dm_window_seconds)
   | Special_demand_update_seconds \<Rightarrow> encode_u32 (demand_field snapshot dm_update_seconds)
   | Special_demand_profile_generation \<Rightarrow> encode_u32 (demand_field snapshot dm_profile_generation)
   | Special_demand_flags \<Rightarrow> encode_u32 (demand_field snapshot (\<lambda>m.
       flag_bit 0 (dm_time_aligned m) OR flag_bit 1 (dm_contaminated m) OR flag_bit 2 (dm_boundary_valid m) OR
       flag_bit 3 (dm_saturated m) OR flag_bit 4 (dm_incomplete_input m)))
   | Special_demand_quality_mask \<Rightarrow>
       [ucast (valid_mask_bits snapshot (source_attributes demand_published_attributes) :: u64)]
   | Special_demand_import_peak_sample_a \<Rightarrow>
       encode_reg_u64 (demand_field snapshot (\<lambda>m. dm_import_peak_samples m ! 0))
   | Special_demand_import_peak_sample_b \<Rightarrow>
       encode_reg_u64 (demand_field snapshot (\<lambda>m. dm_import_peak_samples m ! 1))
   | Special_demand_import_peak_sample_c \<Rightarrow>
       encode_reg_u64 (demand_field snapshot (\<lambda>m. dm_import_peak_samples m ! 2))
   | Special_demand_import_peak_sample_total \<Rightarrow>
       encode_reg_u64 (demand_field snapshot (\<lambda>m. dm_import_peak_samples m ! 3))
   | Special_demand_export_peak_sample_a \<Rightarrow>
       encode_reg_u64 (demand_field snapshot (\<lambda>m. dm_export_peak_samples m ! 0))
   | Special_demand_export_peak_sample_b \<Rightarrow>
       encode_reg_u64 (demand_field snapshot (\<lambda>m. dm_export_peak_samples m ! 1))
   | Special_demand_export_peak_sample_c \<Rightarrow>
       encode_reg_u64 (demand_field snapshot (\<lambda>m. dm_export_peak_samples m ! 2))
   | Special_demand_export_peak_sample_total \<Rightarrow>
       encode_reg_u64 (demand_field snapshot (\<lambda>m. dm_export_peak_samples m ! 3)))"

definition encode_entry :: "register_definition \<Rightarrow> meter_snapshot option \<Rightarrow> u16 list" where
  "encode_entry entry snapshot = (case rd_source entry of
     Measurement_source p a \<Rightarrow> encode_measurement (rd_type entry) a snapshot
   | Special_source field p \<Rightarrow> encode_special field p snapshot)"

section \<open>Selection of the snapshot\<close>

record selection_state =
  ss_period :: "meter_period option"
  ss_attributes :: meter_attribute_set
  ss_incompatible_periods :: bool

definition include_period :: "selection_state \<Rightarrow> meter_period \<Rightarrow> selection_state" where
  "include_period selection period = (case ss_period selection of
     None \<Rightarrow> selection\<lparr>ss_period := Some period\<rparr>
   | Some p \<Rightarrow> if p \<noteq> period then selection\<lparr>ss_incompatible_periods := True\<rparr>
       else selection\<lparr>ss_period := Some period\<rparr>)"

definition include_attributes ::
    "selection_state \<Rightarrow> meter_attribute_key list \<Rightarrow> selection_state" where
  "include_attributes selection attributes =
     selection\<lparr>ss_attributes := foldl set_add (ss_attributes selection) attributes\<rparr>"

definition include_source :: "selection_state \<Rightarrow> register_source \<Rightarrow> selection_state" where
  "include_source selection source = (case source of
     Measurement_source p a \<Rightarrow> include_attributes (include_period selection p) [a]
   | Special_source field None \<Rightarrow> selection
   | Special_source field (Some p) \<Rightarrow>
       include_attributes (include_period selection p)
         (if field = Special_quality_mask then basic_published_attributes
          else if field = Special_energy_quality_mask
          then source_attributes energy_published_attributes
          else if field = Special_demand_quality_mask
          then source_attributes demand_published_attributes
          else []))"

text \<open>The loop of \<^verbatim>\<open>snapshot_selection\<close>; an entry equal to the one before is not visited again.\<close>

fun selection_loop ::
    "u8 \<Rightarrow> selection_state \<Rightarrow> nat option \<Rightarrow> u16 list \<Rightarrow> selection_state" where
  "selection_loop f selection previous [] = selection"
| "selection_loop f selection previous (current # rest) =
     (let entry = definition_at f current in
      if entry = previous then selection_loop f selection previous rest
      else (case entry of
        None \<Rightarrow> selection_loop f selection entry rest
      | Some i \<Rightarrow>
          selection_loop f (include_source selection (rd_source (register_map ! i))) entry rest))"

text \<open>The addresses from \<open>address\<close> to \<open>address + count - 1\<close>.\<close>

definition addresses :: "u16 \<Rightarrow> u16 \<Rightarrow> u16 list" where
  "addresses address count = map of_nat [unat address..<unat address + unat count]"

definition snapshot_selection :: "u8 \<Rightarrow> u16 list \<Rightarrow> selection_state" where
  "snapshot_selection f requested = selection_loop f
     \<lparr>ss_period = None, ss_attributes = [], ss_incompatible_periods = False\<rparr> None requested"

section \<open>The bank\<close>

text \<open>
  The encoding loop of \<^verbatim>\<open>read\<close>: \<open>cached\<close> is the entry whose words are in \<open>encoded\<close>. The result is
  \<open>None\<close> when an offset lies outside the encoded words.
\<close>

fun encode_loop ::
    "u8 \<Rightarrow> meter_snapshot option \<Rightarrow> nat option \<Rightarrow> u16 list \<Rightarrow> u16 list \<Rightarrow> u16 list option" where
  "encode_loop f snapshot cached encoded [] = Some []"
| "encode_loop f snapshot cached encoded (current # rest) =
     (case definition_at f current of
        None \<Rightarrow> None
      | Some i \<Rightarrow>
          let entry = register_map ! i;
              words = (if Some i \<noteq> cached then encode_entry entry snapshot else encoded);
              offset = unat current - unat (rd_address entry)
          in if offset \<ge> length words then None
             else map_option (\<lambda>vs. words ! offset # vs) (encode_loop f snapshot (Some i) words rest))"

definition read_exception :: "exception_code \<Rightarrow> register_read_result" where
  "read_exception code = \<lparr>rr_exception = code, rr_values = []\<rparr>"

definition bank_read :: "'s snapshot_provider \<Rightarrow> 's \<Rightarrow> u8 \<Rightarrow> u16 \<Rightarrow> u16 \<Rightarrow> register_read_result" where
  "bank_read latest s f address count =
     (if \<not> is_register_read f then read_exception Illegal_function
      else if count = 0 then read_exception Illegal_data_value
      else if ucast address + ucast count > (0x10000 :: u32) then read_exception Illegal_data_address
      else
        let requested = addresses address count in
        if list_ex (\<lambda>current. definition_at f current = None) requested
        then read_exception Illegal_data_address
        else
          let selection = snapshot_selection f requested in
          if ss_incompatible_periods selection then read_exception Illegal_data_address
          else
            (case (case ss_period selection of
                     None \<Rightarrow> Inr None
                   | Some p \<Rightarrow> latest s \<lparr>mr_period = p, mr_attributes = ss_attributes selection\<rparr>) of
               Inl _ \<Rightarrow> read_exception Server_device_failure
             | Inr snapshot \<Rightarrow>
                 (case encode_loop f snapshot None [] requested of
                    None \<Rightarrow> read_exception Server_device_failure
                  | Some vals \<Rightarrow> \<lparr>rr_exception = No_exception, rr_values = vals\<rparr>)))"

definition msap1_bank :: "'s snapshot_provider \<Rightarrow> 's register_bank" where
  "msap1_bank latest = \<lparr>
     rb_read = bank_read latest,
     rb_write_single = (\<lambda>s a v. (s, Illegal_data_address)),
     rb_write_multiple = (\<lambda>s a vs. (s, Illegal_data_address))\<rparr>"

section \<open>Every register of the map\<close>

lemma length_encode_measurement: "length (encode_measurement t a snapshot) = unat (register_width t)"
  by (cases t) (simp_all add: encode_measurement_def register_width_def Let_def)

lemma length_encode_special:
  "length (encode_special field period snapshot) = length (encode_special field None None)"
  by (cases field) (simp_all add: encode_special_def)

lemma map_special_widths: "list_all (\<lambda>d. case rd_source d of
     Measurement_source _ _ \<Rightarrow> rd_words d = register_width (rd_type d)
   | Special_source field _ \<Rightarrow> length (encode_special field None None) = unat (rd_words d)) register_map"
  by code_simp

lemma length_encode_entry:
  assumes "d \<in> set register_map"
  shows "length (encode_entry d snapshot) = unat (rd_words d)"
proof (cases "rd_source d")
  case (Measurement_source p a)
  then have "rd_words d = register_width (rd_type d)"
    using map_special_widths assms by (auto simp: list_all_iff)
  then show ?thesis using Measurement_source by (simp add: encode_entry_def length_encode_measurement)
next
  case (Special_source field p)
  then have "length (encode_special field None None) = unat (rd_words d)"
    using map_special_widths assms by (auto simp: list_all_iff)
  then show ?thesis
    using Special_source length_encode_special [of field p snapshot] by (simp add: encode_entry_def)
qed

lemma definition_at_iff: "definition_at f a = Some i \<longleftrightarrow> i < length register_map \<and> owns (register_map ! i) f a"
  unfolding definition_at_def by (rule find_definition_iff [OF register_map_validated])

text \<open>The word at an address: the words of its owner at the offset of the address.\<close>

definition register_value :: "u8 \<Rightarrow> meter_snapshot option \<Rightarrow> u16 \<Rightarrow> u16" where
  "register_value f snapshot a = (case definition_at f a of
     None \<Rightarrow> 0
   | Some i \<Rightarrow> encode_entry (register_map ! i) snapshot ! (unat a - unat (rd_address (register_map ! i))))"

lemma offset_in_range:
  assumes "definition_at f a = Some i"
  shows "unat a - unat (rd_address (register_map ! i)) < length (encode_entry (register_map ! i) snapshot)"
  using assms length_encode_entry [OF nth_mem] by (auto simp: definition_at_iff owns_def)

lemma encode_loop_values:
  assumes "\<And>a. a \<in> set as \<Longrightarrow> definition_at f a \<noteq> None"
    "\<And>i. cached = Some i \<Longrightarrow> encoded = encode_entry (register_map ! i) snapshot"
  shows "encode_loop f snapshot cached encoded as = Some (map (register_value f snapshot) as)"
  using assms
proof (induction as arbitrary: cached encoded)
  case Nil
  then show ?case by simp
next
  case (Cons a as)
  obtain i where i: "definition_at f a = Some i" using Cons.prems(1) [of a] by auto
  define ws where "ws = encode_entry (register_map ! i) snapshot"
  have w: "(if Some i \<noteq> cached then ws else encoded) = ws"
    using Cons.prems(2) [of i] by (auto simp: ws_def)
  have "encode_loop f snapshot (Some i) ws as = Some (map (register_value f snapshot) as)"
    using Cons.prems(1) by (intro Cons.IH) (auto simp: ws_def)
  moreover have "register_value f snapshot a = ws ! (unat a - unat (rd_address (register_map ! i)))"
    by (simp add: register_value_def i ws_def)
  ultimately show ?case
    using offset_in_range [OF i, of snapshot]
    by (simp only: encode_loop.simps i option.case Let_def w flip: ws_def) (simp add: not_le)
qed

text \<open>The answer of the bank once the request has been validated.\<close>

definition snapshot_result ::
    "'s snapshot_provider \<Rightarrow> 's \<Rightarrow> selection_state \<Rightarrow> meter_snapshot option result" where
  "snapshot_result latest s selection = (case ss_period selection of
     None \<Rightarrow> Inr None
   | Some p \<Rightarrow> latest s \<lparr>mr_period = p, mr_attributes = ss_attributes selection\<rparr>)"

lemma bank_read_eq:
  "bank_read latest s f address count =
     (if \<not> is_register_read f then read_exception Illegal_function
      else if count = 0 then read_exception Illegal_data_value
      else if unat address + unat count > 65536 \<or>
        (\<exists>a \<in> set (addresses address count). definition_at f a = None) \<or>
        ss_incompatible_periods (snapshot_selection f (addresses address count))
      then read_exception Illegal_data_address
      else (case snapshot_result latest s (snapshot_selection f (addresses address count)) of
          Inl _ \<Rightarrow> read_exception Server_device_failure
        | Inr snapshot \<Rightarrow> \<lparr>rr_exception = No_exception,
            rr_values = map (register_value f snapshot) (addresses address count)\<rparr>))"
proof -
  have e: "(ucast address + ucast count > (0x10000 :: u32)) \<longleftrightarrow> unat address + unat count > 65536"
    using unat_u16 [of address] unat_u16 [of count] by (simp add: word_less_nat_alt unat_word_ariths)
  have "encode_loop f snapshot None [] (addresses address count) =
      Some (map (register_value f snapshot) (addresses address count))"
    if "\<not> (\<exists>a \<in> set (addresses address count). definition_at f a = None)" for snapshot
    using that by (intro encode_loop_values) auto
  then show ?thesis
    by (auto simp: bank_read_def e Let_def list_ex_iff snapshot_result_def split: sum.split)
qed

section \<open>One coherent snapshot\<close>

text \<open>The period a source needs, and the attributes its encoding looks at.\<close>

definition source_period :: "register_source \<Rightarrow> meter_period option" where
  "source_period source = (case source of Measurement_source p a \<Rightarrow> Some p | Special_source field p \<Rightarrow> p)"

definition source_needs :: "register_source \<Rightarrow> meter_attribute_key list" where
  "source_needs source = (case source of
     Measurement_source p a \<Rightarrow> [a]
   | Special_source field p \<Rightarrow>
       (case field of
          Special_quality_mask \<Rightarrow> basic_published_attributes
        | Special_energy_quality_mask \<Rightarrow> source_attributes energy_published_attributes
        | Special_demand_quality_mask \<Rightarrow> source_attributes demand_published_attributes
        | _ \<Rightarrow> []))"

definition covered :: "selection_state \<Rightarrow> register_source \<Rightarrow> bool" where
  "covered selection source = (case source_period source of
     None \<Rightarrow> True
   | Some p \<Rightarrow> (ss_incompatible_periods selection \<or> ss_period selection = Some p) \<and>
       set (source_needs source) \<subseteq> set (ss_attributes selection))"

lemma foldl_set_add_set: "set (foldl set_add xs as) = set xs \<union> set as"
  by (induction as arbitrary: xs) auto

lemma include_source_eq:
  "include_source selection source = (case source_period source of
     None \<Rightarrow> selection
   | Some p \<Rightarrow> include_attributes (include_period selection p) (source_needs source))"
proof (cases source)
  case (Measurement_source p a)
  then show ?thesis by (simp add: include_source_def source_period_def source_needs_def)
next
  case (Special_source field p)
  then show ?thesis
    by (cases p; cases field) (simp_all add: include_source_def source_period_def source_needs_def)
qed

text \<open>What a selection only ever gains.\<close>

definition selection_le :: "selection_state \<Rightarrow> selection_state \<Rightarrow> bool" where
  "selection_le r q \<longleftrightarrow> (ss_incompatible_periods r \<longrightarrow> ss_incompatible_periods q) \<and>
     (\<forall>p. ss_period r = Some p \<longrightarrow> ss_period q = Some p) \<and> set (ss_attributes r) \<subseteq> set (ss_attributes q)"

lemma include_source_covers:
  "covered (include_source selection source) source" "selection_le selection (include_source selection source)"
  by (auto simp: include_source_eq covered_def selection_le_def include_attributes_def include_period_def
      foldl_set_add_set split: option.splits)

interpretation selection: monotone_system include_source "\<lambda>_. True" selection_le
  by unfold_locales (auto simp: include_source_covers(2), auto simp: selection_le_def)

lemma covered_mono: "covered r source \<Longrightarrow> selection_le r q \<Longrightarrow> covered q source"
  by (auto simp: covered_def selection_le_def split: option.splits)

lemma selection_loop_covers:
  assumes "\<And>i. previous = Some i \<Longrightarrow> covered selection (rd_source (register_map ! i))"
  shows "selection_le selection (selection_loop f selection previous as) \<and>
    (\<forall>i. previous = Some i \<or> Some i \<in> definition_at f ` set as \<longrightarrow>
      covered (selection_loop f selection previous as) (rd_source (register_map ! i)))"
  using assms
proof (induction as arbitrary: selection previous)
  case Nil
  then show ?case using selection.le_refl by auto
next
  case (Cons a as)
  show ?case
  proof (cases "definition_at f a = previous")
    case True
    then have eq: "selection_loop f selection previous (a # as) = selection_loop f selection previous as"
      by (simp add: Let_def)
    have "selection_le selection (selection_loop f selection previous as) \<and>
      (\<forall>i. previous = Some i \<or> Some i \<in> definition_at f ` set as \<longrightarrow>
        covered (selection_loop f selection previous as) (rd_source (register_map ! i)))"
      using Cons.prems by (rule Cons.IH)
    moreover have im: "definition_at f ` set (a # as) = insert previous (definition_at f ` set as)"
      using True by simp
    ultimately show ?thesis unfolding eq im by blast
  next
    case False
    show ?thesis
    proof (cases "definition_at f a")
      case None
      with Cons.IH [of None selection] Cons.prems False show ?thesis
        by (auto simp: Let_def dest: covered_mono)
    next
      case (Some i)
      let ?q = "include_source selection (rd_source (register_map ! i))"
      have ih: "selection_le ?q (selection_loop f ?q (Some i) as) \<and>
        (\<forall>j. Some i = Some j \<or> Some j \<in> definition_at f ` set as \<longrightarrow>
          covered (selection_loop f ?q (Some i) as) (rd_source (register_map ! j)))"
        by (rule Cons.IH) (auto simp: include_source_covers(1))
      have eq: "selection_loop f selection previous (a # as) = selection_loop f ?q (Some i) as"
        using False Some by (simp add: Let_def)
      have le: "selection_le selection (selection_loop f ?q (Some i) as)"
        using ih selection.le_trans [OF include_source_covers(2)] by blast
      moreover have im: "definition_at f ` set (a # as) = insert (Some i) (definition_at f ` set as)"
        using Some by simp
      ultimately show ?thesis
        unfolding eq im using ih covered_mono [OF Cons.prems] by blast
    qed
  qed
qed

lemma selection_covers:
  "a \<in> set as \<Longrightarrow> definition_at f a = Some i \<Longrightarrow>
   covered (snapshot_selection f as) (rd_source (register_map ! i))"
  unfolding snapshot_selection_def
  using selection_loop_covers [of None "\<lparr>ss_period = None, ss_attributes = [], ss_incompatible_periods = False\<rparr>" f as]
  by (metis imageI option.distinct(1))

lemma bank_read_succeeds_iff:
  "rr_exception (bank_read latest s f address count) = No_exception \<longleftrightarrow>
     is_register_read f \<and> count \<noteq> 0 \<and> unat address + unat count \<le> 65536 \<and>
     (\<forall>a \<in> set (addresses address count). definition_at f a \<noteq> None) \<and>
     \<not> ss_incompatible_periods (snapshot_selection f (addresses address count)) \<and>
     (\<exists>snapshot. snapshot_result latest s (snapshot_selection f (addresses address count)) = Inr snapshot)"
  unfolding bank_read_eq by (auto simp: read_exception_def not_le split: sum.splits)

section \<open>The bank as a register bank\<close>

interpretation msap1: register_bank_contract "msap1_bank latest" "\<lambda>_. True" for latest
  by unfold_locales
     (auto simp: msap1_bank_def bank_read_eq read_exception_def addresses_def split: if_splits sum.splits)

lemma map_functions: "list_all (\<lambda>d. is_register_read (rd_function d)) register_map"
  by code_simp

lemma entry_ok_range:
  assumes "entry_ok blocks d"
  shows "unat (rd_address d) + unat (rd_words d) \<le> 65536" "rd_words d \<noteq> 0"
proof -
  have "unat (definition_end d) \<le> unat (0x10000 :: u32)" "rd_words d \<noteq> 0"
    using assms unfolding entry_ok_def word_le_nat_alt by blast+
  then show "unat (rd_address d) + unat (rd_words d) \<le> 65536" "rd_words d \<noteq> 0"
    by (simp_all add: unat_definition_end)
qed

lemma entry_word:
  assumes "i < length register_map" "k < unat (rd_words (register_map ! i))"
  defines "d \<equiv> register_map ! i"
  shows "definition_at (rd_function d) (of_nat (unat (rd_address d) + k)) = Some i"
    "unat (of_nat (unat (rd_address d) + k) :: u16) = unat (rd_address d) + k"
proof -
  have "entry_ok register_blocks d"
    using map_entries_ok assms(1) by (simp add: d_def list_all_length)
  then have "unat (rd_address d) + unat (rd_words d) \<le> 65536" by (rule entry_ok_range)
  then show u: "unat (of_nat (unat (rd_address d) + k) :: u16) = unat (rd_address d) + k"
    using assms(2) unfolding d_def by (simp only: unat_of_nat) simp
  then show "definition_at (rd_function d) (of_nat (unat (rd_address d) + k)) = Some i"
    using assms(1,2) unfolding definition_at_iff owns_def d_def by simp
qed

lemma entry_addresses:
  assumes "i < length register_map"
  defines "d \<equiv> register_map ! i"
  shows "a \<in> set (addresses (rd_address d) (rd_words d)) \<Longrightarrow> definition_at (rd_function d) a = Some i"
    "map (register_value (rd_function d) snapshot) (addresses (rd_address d) (rd_words d)) =
       encode_entry d snapshot"
proof -
  have a: "addresses (rd_address d) (rd_words d) =
      map (\<lambda>k. of_nat (unat (rd_address d) + k)) [0..<unat (rd_words d)]"
    unfolding addresses_def by (rule nth_equalityI) simp_all
  note w = entry_word [OF assms(1), folded d_def]
  show "a \<in> set (addresses (rd_address d) (rd_words d)) \<Longrightarrow> definition_at (rd_function d) a = Some i"
    unfolding a using w(1) by auto
  have "register_value (rd_function d) snapshot (of_nat (unat (rd_address d) + k)) =
      encode_entry d snapshot ! k" if "k < unat (rd_words d)" for k
    using w [OF that] by (simp add: register_value_def d_def)
  then show "map (register_value (rd_function d) snapshot) (addresses (rd_address d) (rd_words d)) =
       encode_entry d snapshot"
    unfolding a using length_encode_entry [of d snapshot] assms(1)
    by (intro nth_equalityI) (simp_all add: d_def)
qed

lemma selection_same_entry:
  "(\<And>a. a \<in> set as \<Longrightarrow> definition_at f a = previous) \<Longrightarrow> selection_loop f selection previous as = selection"
  by (induction as) (simp_all add: Let_def)

lemma selection_one_entry:
  assumes "as \<noteq> []" "\<And>a. a \<in> set as \<Longrightarrow> definition_at f a = Some i"
  shows "snapshot_selection f as = include_source
    \<lparr>ss_period = None, ss_attributes = [], ss_incompatible_periods = False\<rparr> (rd_source (register_map ! i))"
  using assms by (cases as) (simp_all add: snapshot_selection_def Let_def selection_same_entry)

lemma read_measurement_entry:
  assumes "i < length register_map" "rd_source (register_map ! i) = Measurement_source p a"
    "latest s \<lparr>mr_period = p, mr_attributes = [a]\<rparr> = Inr snapshot"
  shows "bank_read latest s (rd_function (register_map ! i)) (rd_address (register_map ! i))
      (rd_words (register_map ! i)) =
    \<lparr>rr_exception = No_exception, rr_values = encode_measurement (rd_type (register_map ! i)) a snapshot\<rparr>"
proof -
  let ?d = "register_map ! i"
  have ok: "entry_ok register_blocks ?d" "is_register_read (rd_function ?d)"
    using map_entries_ok map_functions assms(1) by (simp_all add: list_all_length)
  then have n: "unat (rd_address ?d) + unat (rd_words ?d) \<le> 65536" "rd_words ?d \<noteq> 0"
    by (simp_all add: entry_ok_range)
  then have ne: "addresses (rd_address ?d) (rd_words ?d) \<noteq> []"
    using unat_gt_0 [of "rd_words ?d"] by (simp add: addresses_def)
  note at = entry_addresses(1) [OF assms(1)]
  have sel: "snapshot_selection (rd_function ?d) (addresses (rd_address ?d) (rd_words ?d)) =
      \<lparr>ss_period = Some p, ss_attributes = [a], ss_incompatible_periods = False\<rparr>"
    using selection_one_entry [OF ne at]
    by (simp add: assms(2) include_source_def include_period_def include_attributes_def set_add_def
        set_contains_def)
  have "encode_entry ?d snapshot = encode_measurement (rd_type ?d) a snapshot"
    by (simp add: encode_entry_def assms(2))
  then show ?thesis
    using ok n at assms(3) entry_addresses(2) [OF assms(1), of snapshot]
    by (auto simp: bank_read_eq sel snapshot_result_def)
qed

text \<open>A snapshot with one valid energy counter, for examples.\<close>

definition example_value :: "meter_attribute_id \<Rightarrow> meter_unit \<Rightarrow> int \<Rightarrow> meter_attribute_value" where
  "example_value attribute u v = \<lparr>av_attribute = attribute_key attribute, av_unit = u,
     av_quality = Quality_Valid, av_value = v, av_source_sequence = 1,
     av_measured_at_nanoseconds = 0, av_sample_count = 0, av_calculation_window_nanoseconds = 0\<rparr>"

definition example_snapshot :: meter_snapshot where
  "example_snapshot = \<lparr>ms_period = Period_Basic, ms_sequence = 1, ms_configuration_generation = 1,
     ms_updated_at_nanoseconds = 0, ms_timing = None, ms_energy = None, ms_demand = None,
     ms_frequency_10s = None,
     ms_values = [example_value Id_Frequency Unit_MilliHertz 50000,
       example_value Id_ActiveImportEnergyTotal Unit_MicroWattHours 123456789012]\<rparr>"

section \<open>Properties\<close>

text \<open>
  C37. A bank read is equivalent to its specification: the checks in order, one provider call for
  the selected period and attributes, and then every word computed independently from the entry
  that owns its address. In particular the cached encoding gives the same words, and the internal
  size check after encoding never fails.
\<close>

theorem register_read_exact:
  "bank_read latest s f address count =
     (if \<not> is_register_read f then read_exception Illegal_function
      else if count = 0 then read_exception Illegal_data_value
      else if unat address + unat count > 65536 \<or>
        (\<exists>a \<in> set (addresses address count). definition_at f a = None) \<or>
        ss_incompatible_periods (snapshot_selection f (addresses address count))
      then read_exception Illegal_data_address
      else (case snapshot_result latest s (snapshot_selection f (addresses address count)) of
          Inl _ \<Rightarrow> read_exception Server_device_failure
        | Inr snapshot \<Rightarrow> \<lparr>rr_exception = No_exception,
            rr_values = map (register_value f snapshot) (addresses address count)\<rparr>))"
  by (rule bank_read_eq)

text \<open>
  A successful read is coherent: every register it returns belongs to a map entry, all
  entries that need a snapshot are of the one period that was requested from the provider, and
  the request named every attribute their encoding looks at.
\<close>

theorem register_read_coherent:
  assumes "rr_exception (bank_read latest s f address count) = No_exception"
    "a \<in> set (addresses address count)"
  shows "\<exists>i. definition_at f a = Some i \<and>
    (case source_period (rd_source (register_map ! i)) of
       None \<Rightarrow> True
     | Some p \<Rightarrow> ss_period (snapshot_selection f (addresses address count)) = Some p \<and>
         set (source_needs (rd_source (register_map ! i))) \<subseteq>
           set (ss_attributes (snapshot_selection f (addresses address count))))"
proof -
  obtain i where i: "definition_at f a = Some i"
    using assms by (auto simp: bank_read_succeeds_iff)
  moreover have "\<not> ss_incompatible_periods (snapshot_selection f (addresses address count))"
    using assms(1) by (simp add: bank_read_succeeds_iff)
  ultimately show ?thesis
    using selection_covers [OF assms(2) i] by (auto simp: covered_def split: option.splits)
qed

theorem register_read_coherent_witness:
  "\<exists>i. definition_at 3 1 = Some i \<and>
    (case source_period (rd_source (register_map ! i)) of
       None \<Rightarrow> True
     | Some p \<Rightarrow> ss_period (snapshot_selection 3 (addresses 0 3)) = Some p \<and>
         set (source_needs (rd_source (register_map ! i))) \<subseteq>
           set (ss_attributes (snapshot_selection 3 (addresses 0 3))))"
proof (rule register_read_coherent)
  show "rr_exception (bank_read (\<lambda>_ _. Inr None) () 3 0 3) = No_exception" by code_simp
  show "(1 :: u16) \<in> set (addresses 0 3)" by code_simp
qed

text \<open>
  C36. Reading the four registers of a 64-bit counter over Modbus is exact: the request is
  answered, and the counter a master reassembles from the answer is the valid reading of the
  snapshot, bit for bit.
\<close>

theorem modbus_counter_exact:
  assumes "i < length register_map" "rd_source (register_map ! i) = Measurement_source p a"
    "rd_type (register_map ! i) = DT_uint64" "1 \<le> unit" "unit \<le> 247"
    "latest s \<lparr>mr_period = p, mr_attributes = [a]\<rparr> = Inr (Some snapshot)"
    "find_reading snapshot a = Some v" "av_quality v = Quality_Valid"
  shows "\<exists>r ws. handle (msap1_bank latest) s \<lparr>rq_unit_id = unit,
      rq_pdu = read_request_pdu (rd_function (register_map ! i)) (rd_address (register_map ! i)) 4,
      rq_broadcast_allowed = b\<rparr> unit = (s, Inr (Some r)) \<and>
    parse_read_response (rd_function (register_map ! i)) (rs_pdu r) = Some ws \<and>
    registers_u64 ws = word_of_int (av_value v)"
proof -
  let ?d = "register_map ! i" and ?ws = "encode_reg_u64 (word_of_int (av_value v))"
  have "entry_ok register_blocks ?d" "is_register_read (rd_function ?d)"
    using map_entries_ok map_functions assms(1) by (simp_all add: list_all_length)
  then have w: "rd_words ?d = 4" "is_register_read (rd_function ?d)"
    by (simp_all add: entry_ok_def assms(3) register_width_def)
  have "encode_measurement DT_uint64 a (Some snapshot) = ?ws"
    by (simp add: encode_measurement_def snapshot_reading_def assms(7,8) available_value_def)
  then have "bank_read latest s (rd_function ?d) (rd_address ?d) 4 =
      \<lparr>rr_exception = No_exception, rr_values = ?ws\<rparr>"
    using read_measurement_entry [of i p a latest s "Some snapshot", OF assms(1,2,6)] w(1) assms(3) by simp
  then have "rb_read (msap1_bank latest) s (rd_function ?d) (rd_address ?d) 4 =
      \<lparr>rr_exception = No_exception, rr_values = ?ws\<rparr>"
    by (simp add: msap1_bank_def)
  from read_served [OF w(2) _ _ assms(4,5) this, of b]
  show ?thesis using registers_u64_encode [of "word_of_int (av_value v)"] by auto
qed

theorem modbus_counter_exact_witness:
  "\<exists>r ws. handle (msap1_bank (\<lambda>_ _. Inr (Some example_snapshot))) () \<lparr>rq_unit_id = 1,
      rq_pdu = read_request_pdu (rd_function (register_map ! 18)) (rd_address (register_map ! 18)) 4,
      rq_broadcast_allowed = True\<rparr> 1 = ((), Inr (Some r)) \<and>
    parse_read_response (rd_function (register_map ! 18)) (rs_pdu r) = Some ws \<and>
    registers_u64 ws = word_of_int 123456789012"
proof -
  let ?v = "example_value Id_ActiveImportEnergyTotal Unit_MicroWattHours 123456789012"
  have "18 < length register_map" "rd_type (register_map ! 18) = DT_uint64"
    "rd_source (register_map ! 18) =
      Measurement_source Period_Basic (attribute_key Id_ActiveImportEnergyTotal)"
    by code_simp+
  moreover have "find_reading example_snapshot (attribute_key Id_ActiveImportEnergyTotal) = Some ?v"
    by code_simp
  ultimately show ?thesis
    using modbus_counter_exact [of 18 Period_Basic "attribute_key Id_ActiveImportEnergyTotal" 1
        "\<lambda>_ _. Inr (Some example_snapshot)" "()" example_snapshot ?v True]
    by (simp add: example_value_def word_le_def)
qed

text \<open>
  The register bank is read-only: no request of any kind changes the state behind it, and a
  write is never acknowledged, it is refused with an exception.
\<close>

theorem modbus_bank_read_only:
  assumes "snd (handle (msap1_bank latest) s req unit) = Inr (Some r)"
  shows "fst (handle (msap1_bank latest) s req unit) = s \<and>
    (rq_pdu req \<noteq> [] \<and> rq_pdu req ! 0 \<in> {write_single_register, write_multiple_registers} \<longrightarrow>
      (\<exists>code. code \<noteq> No_exception \<and> rs_pdu r = exception_pdu (rq_pdu req ! 0) code))"
proof -
  have "fst (handle (msap1_bank latest) s req unit) = s"
    by (simp add: handle_def handle_write_single_def handle_write_multiple_def msap1_bank_def Let_def)
  moreover have "\<exists>code. code \<noteq> No_exception \<and> rs_pdu r = exception_pdu (rq_pdu req ! 0) code"
    if "rq_pdu req \<noteq> []" "rq_pdu req ! 0 = write_single_register"
    using assms that
    by (auto simp: handle_def handle_write_single_def msap1_bank_def answer_def Let_def
        is_register_read_def split: if_splits)
  moreover have "\<exists>code. code \<noteq> No_exception \<and> rs_pdu r = exception_pdu (rq_pdu req ! 0) code"
    if "rq_pdu req \<noteq> []" "rq_pdu req ! 0 = write_multiple_registers"
    using assms that
    by (auto simp: handle_def handle_write_multiple_def msap1_bank_def answer_def Let_def
        is_register_read_def split: if_splits)
  ultimately show ?thesis by blast
qed

theorem modbus_bank_read_only_witness:
  "\<exists>code. code \<noteq> No_exception \<and> [0x86, 2] = exception_pdu write_single_register code"
  using modbus_bank_read_only [of "\<lambda>_ _. Inr None" "()" "\<lparr>rq_unit_id = 1,
      rq_pdu = write_single_pdu 7 8, rq_broadcast_allowed = False\<rparr>" 1 "\<lparr>rs_unit_id = 1, rs_pdu = [0x86, 2]\<rparr>"]
  by (simp add: handle_def handle_write_single_def msap1_bank_def answer_def exception_pdu_def
      exception_byte_def write_single_pdu_def be16_bytes_def is_register_read_def word_less_nat_alt)

section \<open>Floating-point registers\<close>

text \<open>The divisor that turns a unit into its base unit; \<^verbatim>\<open>1e12f\<close> is the float 999999995904.\<close>

definition unit_divisor :: "meter_unit \<Rightarrow> int option" where
  "unit_divisor u = (case u of
     Unit_MilliHertz \<Rightarrow> Some 1000 | Unit_MicroVolts \<Rightarrow> Some 1000000 | Unit_MicroAmperes \<Rightarrow> Some 1000000
   | Unit_Picowatts \<Rightarrow> Some 999999995904 | Unit_PicoVoltAmperes \<Rightarrow> Some 999999995904
   | Unit_PowerFactorMillionths \<Rightarrow> Some 1000000 | Unit_Picovars \<Rightarrow> Some 999999995904
   | Unit_Millidegrees \<Rightarrow> Some 1000 | Unit_RatioMillionths \<Rightarrow> Some 10000
   | Unit_CrestTenThousandths \<Rightarrow> Some 10000 | _ \<Rightarrow> None)"

lemma engineering_value_divided:
  "av_quality v = Quality_Valid \<Longrightarrow> unit_divisor (av_unit v) = Some c \<Longrightarrow>
   engineering_value (Some v) = float_div (float_of_int (av_value v)) c \<and> 0 < c \<and> c \<le> 2 ^ 40"
  by (auto simp: engineering_value_def unit_divisor_def split: meter_unit.splits)

lemma registers_float: "registers_u32 (encode_measurement DT_float32 a snapshot) =
    float_bits (engineering_value (snapshot_reading snapshot a))"
  by (simp add: encode_measurement_def encode_float_def registers_u32_encode Let_def)

text \<open>
  A float register carries the reading in its base unit with a relative error below
  \<open>2 ^ -22\<close>: the bits a master reassembles decode to a finite number that close to the value
  divided by the constant of its unit, and to NaN when the reading is missing or not valid.
\<close>

theorem float_register_accuracy:
  assumes "snapshot_reading snapshot a = Some v" "in_int64 (av_value v)"
    "unit_divisor (av_unit v) = Some c"
  shows "(let x = float_of_bits (registers_u32 (encode_measurement DT_float32 a snapshot)) in
     if av_quality v = Quality_Valid
     then x \<noteq> NaN \<and> \<bar>float_value x - of_int (av_value v) / of_int c\<bar> \<le>
       2 powi (- 22) * (\<bar>of_int (av_value v)\<bar> / of_int c)
     else x = NaN)"
proof (cases "av_quality v = Quality_Valid")
  case False
  then show ?thesis
    by (simp add: registers_float assms(1) engineering_value_def float_bits_special Let_def)
next
  case True
  note e = engineering_value_divided [OF True assms(3)]
  show ?thesis
  proof (cases "av_value v = 0")
    case zero: True
    have "float_div (float_of_int 0) c = Finite False 0 0"
      by (simp add: float_div_def float_of_int_def float_of_ratio_def scale_def)
    then show ?thesis
      using True e by (simp add: registers_float assms(1) zero float_bits_special float_value_def)
  next
    case nz: False
    have b: "\<bar>av_value v\<bar> \<le> 2 ^ 63"
      using assms(2) by (auto simp: in_int64_def int64_min_def int64_max_def)
    obtain m x where f: "float_div (float_of_int (av_value v)) c = Finite (av_value v < 0) m x"
      "2 ^ 23 \<le> m" "m < 2 ^ 24" "- 66 \<le> x" "x \<le> 42"
      "\<bar>of_int m * 2 powi x - \<bar>real_of_int (av_value v)\<bar> / real_of_int c\<bar> \<le>
        2 powi (- 22) * (\<bar>real_of_int (av_value v)\<bar> / real_of_int c)"
      using float_quotient [OF nz b] e by blast
    have "float_of_bits (registers_u32 (encode_measurement DT_float32 a snapshot)) =
        Finite (av_value v < 0) m x"
      using float_bits_roundtrip [OF f(2,3), of x] f(1,4,5) e by (simp add: registers_float assms(1))
    moreover have "\<bar>float_value (Finite (av_value v < 0) m x) - of_int (av_value v) / of_int c\<bar> =
        \<bar>of_int m * 2 powi x - \<bar>real_of_int (av_value v)\<bar> / real_of_int c\<bar>"
      by (cases "av_value v < 0") (simp_all add: float_value_def abs_if)
    ultimately show ?thesis using True f(6) by simp
  qed
qed

theorem float_register_accuracy_witness:
  "let x = float_of_bits (registers_u32 (encode_measurement DT_float32 (attribute_key Id_Frequency)
      (Some example_snapshot))) in
   x \<noteq> NaN \<and> \<bar>float_value x - 50\<bar> \<le> 2 powi (- 22) * 50"
proof -
  have "snapshot_reading (Some example_snapshot) (attribute_key Id_Frequency) =
      Some (example_value Id_Frequency Unit_MilliHertz 50000)"
    by code_simp
  from float_register_accuracy [OF this, of 1000] show ?thesis
    by (simp add: example_value_def unit_divisor_def in_int64_def int64_min_def int64_max_def Let_def)
qed

end
