(* ===== verification/Modbus_Tcp.thy ===== *)
theory Modbus_Tcp
  imports Modbus_Handler
begin

text \<open>
  The Modbus/TCP transport (\<^verbatim>\<open>common/mnc/modbus/tcp_server.cpp\<close>): the session loop that turns a byte
  stream into requests and answers, and the table of client sockets shared by the acceptor, the
  sessions and the lifecycle thread. Each critical section under \<^verbatim>\<open>sockets_mutex\<close> and each atomic
  update is one step; the network is the environment. The run counter \<^verbatim>\<open>generation\<close> is a natural
  number: it is incremented twice per start and stop and does not reach \<open>2 ^ 64\<close>.
\<close>

section \<open>Sessions\<close>

abbreviation tcp_header_size :: nat where "tcp_header_size \<equiv> 7"
abbreviation maximum_pdu_size :: nat where "maximum_pdu_size \<equiv> 253"

text \<open>How a session ends: the stream ended, the MBAP header was invalid, or the handler threw.\<close>

datatype session_end = Disconnected | Invalid_header | Handler_failed exn

definition response_adu :: "u16 \<Rightarrow> response \<Rightarrow> u8 list" where
  "response_adu transaction r =
     append_u16_be (append_u16_be (append_u16_be [] transaction) 0) (of_nat (length (rs_pdu r) + 1)) @
     [rs_unit_id r] @ rs_pdu r"

definition header_valid_tcp :: "u8 list \<Rightarrow> bool" where
  "header_valid_tcp header \<longleftrightarrow>
     \<not> (pdu_u16 header 2 \<noteq> 0 \<or> pdu_u16 header 4 < 2 \<or>
        unat (pdu_u16 header 4) > maximum_pdu_size + 1)"

text \<open>
  The loop of \<^verbatim>\<open>session\<close> on everything the client sends, while the run stays current: the state
  behind the bank, the ADUs written, and how the session ends.
\<close>

function session ::
    "'s register_bank \<Rightarrow> u8 \<Rightarrow> 's \<Rightarrow> u8 list \<Rightarrow> 's \<times> u8 list list \<times> session_end" where
  "session bank unit_id s stream =
     (if length stream < tcp_header_size then (s, [], Disconnected)
      else
        let header = take tcp_header_size stream;
            transaction = pdu_u16 header 0;
            len = unat (pdu_u16 header 4);
            unit = header ! 6;
            body = drop tcp_header_size stream
        in
        if \<not> header_valid_tcp header then (s, [], Invalid_header)
        else if length body < len - 1 then (s, [], Disconnected)
        else (case handle bank s \<lparr>rq_unit_id = unit, rq_pdu = take (len - 1) body,
              rq_broadcast_allowed = False\<rparr> unit_id of
            (s', Inl e) \<Rightarrow> (s', [], Handler_failed e)
          | (s', Inr response) \<Rightarrow>
              let (s'', adus, ending) = session bank unit_id s' (drop (len - 1) body) in
              (s'', (case response of None \<Rightarrow> adus | Some r \<Rightarrow> response_adu transaction r # adus),
               ending)))"
  by pat_completeness auto
termination
  by (relation "measure (\<lambda>(bank, unit_id, s, stream). length stream)") auto

declare session.simps [simp del]

section \<open>The server\<close>

record tcp_server_config =
  tc_bind_address :: string
  tc_port :: u16
  tc_maximum_clients :: u32
  tc_unit_id :: u8

text \<open>
  A socket is kept with the run it was admitted in. \<open>ts_stopping\<close> tells that \<^verbatim>\<open>stop()\<close> has cleared
  the running flag and not yet taken the lock.
\<close>

record tcp_server =
  ts_config :: tcp_server_config
  ts_running :: bool
  ts_generation :: nat
  ts_sockets :: "(nat \<times> nat) list"
  ts_stopping :: bool

definition tcp_current :: "tcp_server \<Rightarrow> nat \<Rightarrow> bool" where
  "tcp_current sv run \<longleftrightarrow> ts_running sv \<and> ts_generation sv = run"

definition release_socket :: "tcp_server \<Rightarrow> nat \<Rightarrow> tcp_server" where
  "release_socket sv socket = sv\<lparr>ts_sockets := filter (\<lambda>(x, r). x \<noteq> socket) (ts_sockets sv)\<rparr>"

definition reserve_socket :: "tcp_server \<Rightarrow> nat \<Rightarrow> nat \<Rightarrow> tcp_server \<times> bool" where
  "reserve_socket sv socket run =
     (if \<not> tcp_current sv run \<or> length (ts_sockets sv) \<ge> unat (tc_maximum_clients (ts_config sv))
      then (sv, False)
      else (sv\<lparr>ts_sockets := (if socket \<in> fst ` set (ts_sockets sv) then ts_sockets sv
              else (socket, run) # ts_sockets sv)\<rparr>, True))"

text \<open>
  \<^verbatim>\<open>start()\<close>. \<open>listen\<close> tells how resolving, binding and listening on the configured endpoint and
  starting the acceptor end.
\<close>

definition tcp_start ::
    "(tcp_server_config \<Rightarrow> exn option) \<Rightarrow> tcp_server \<Rightarrow> tcp_server \<times> exn option" where
  "tcp_start listen sv =
     (if ts_running sv then (sv, None)
      else
        let run = ts_generation sv + 1;
            started = sv\<lparr>ts_running := True, ts_generation := run\<rparr>;
            failed = started\<lparr>ts_running := False\<rparr>;
            unit = tc_unit_id (ts_config sv)
        in
        if unit = 0 \<or> unit > 247
        then (failed, Some (Invalid_argument ''Modbus TCP unit id must be 1..247''))
        else if tc_maximum_clients (ts_config sv) = 0
        then (failed, Some (Invalid_argument ''Modbus TCP maximum clients must be nonzero''))
        else (case listen (ts_config sv) of
            Some e \<Rightarrow> (failed, Some e)
          | None \<Rightarrow> (started, None)))"

definition tcp_stop_begin :: "tcp_server \<Rightarrow> tcp_server" where
  "tcp_stop_begin sv =
     (if \<not> ts_running sv then sv
      else sv\<lparr>ts_running := False, ts_generation := ts_generation sv + 1, ts_stopping := True\<rparr>)"

definition tcp_stop_finish :: "tcp_server \<Rightarrow> tcp_server" where
  "tcp_stop_finish sv =
     (if \<not> ts_stopping sv then sv else sv\<lparr>ts_sockets := [], ts_stopping := False\<rparr>)"

definition tcp_stop :: "tcp_server \<Rightarrow> tcp_server" where
  "tcp_stop sv = tcp_stop_finish (tcp_stop_begin sv)"

definition new_tcp_server :: "tcp_server_config \<Rightarrow> tcp_server" where
  "new_tcp_server config = \<lparr>ts_config = config, ts_running = False, ts_generation = 0,
     ts_sockets = [], ts_stopping = False\<rparr>"

text \<open>
  What the three kinds of threads do, in any interleaving: the lifecycle thread starts (not while
  it is still stopping) and stops in two steps, acceptors of any run, also of a past one, admit
  sockets, and sessions end.
\<close>

datatype tcp_event = Tcp_start | Tcp_stop_begin | Tcp_stop_finish | Tcp_accept nat nat | Tcp_end nat

fun tcp_step :: "(tcp_server_config \<Rightarrow> exn option) \<Rightarrow> tcp_server \<Rightarrow> tcp_event \<Rightarrow> tcp_server" where
  "tcp_step listen sv Tcp_start = (if ts_stopping sv then sv else fst (tcp_start listen sv))"
| "tcp_step listen sv Tcp_stop_begin = tcp_stop_begin sv"
| "tcp_step listen sv Tcp_stop_finish = tcp_stop_finish sv"
| "tcp_step listen sv (Tcp_accept socket run) = fst (reserve_socket sv socket run)"
| "tcp_step listen sv (Tcp_end socket) = release_socket sv socket"

section \<open>Slots\<close>

definition tcp_ok :: "tcp_server \<Rightarrow> bool" where
  "tcp_ok sv \<longleftrightarrow> distinct (map fst (ts_sockets sv)) \<and>
     length (ts_sockets sv) \<le> unat (tc_maximum_clients (ts_config sv)) \<and>
     (ts_running sv \<longrightarrow> \<not> ts_stopping sv \<and> snd ` set (ts_sockets sv) \<subseteq> {ts_generation sv}) \<and>
     (\<not> ts_running sv \<and> \<not> ts_stopping sv \<longrightarrow> ts_sockets sv = [])"

lemma tcp_ok_release: "tcp_ok sv \<Longrightarrow> tcp_ok (release_socket sv socket)"
proof -
  assume ok: "tcp_ok sv"
  have "length (filter (\<lambda>(x, r). x \<noteq> socket) (ts_sockets sv)) \<le> unat (tc_maximum_clients (ts_config sv))"
    using ok le_trans [OF length_filter_le] by (auto simp: tcp_ok_def)
  with ok show ?thesis by (auto simp: tcp_ok_def release_socket_def distinct_map_filter)
qed

lemma tcp_ok_reserve: "tcp_ok sv \<Longrightarrow> tcp_ok (fst (reserve_socket sv socket run))"
  by (auto simp: tcp_ok_def reserve_socket_def tcp_current_def)

lemma tcp_ok_start: "tcp_ok sv \<Longrightarrow> \<not> ts_stopping sv \<Longrightarrow> tcp_ok (fst (tcp_start listen sv))"
  by (auto simp: tcp_ok_def tcp_start_def Let_def split: option.splits)

lemma tcp_ok_step: "tcp_ok sv \<Longrightarrow> tcp_ok (tcp_step listen sv ev)"
  by (cases ev)
     (auto simp: tcp_ok_release tcp_ok_reserve tcp_ok_start,
      auto simp: tcp_ok_def tcp_stop_begin_def tcp_stop_finish_def)

interpretation tcp_slots: invariant_system "tcp_step listen" tcp_ok for listen
  by unfold_locales (rule tcp_ok_step)

text \<open>
  Under every interleaving of starts, stops, accepts of any run and ending sessions, the
  socket table never exceeds the configured number of clients, never holds a socket twice, only
  holds sockets of the current run while the server runs, and is empty once a stop has completed.
\<close>

theorem tcp_slots_bounded:
  "(let sv = foldl (tcp_step listen) (new_tcp_server config) events in
    length (ts_sockets sv) \<le> unat (tc_maximum_clients (ts_config sv)) \<and>
    distinct (map fst (ts_sockets sv)) \<and>
    (if ts_running sv then snd ` set (ts_sockets sv) \<subseteq> {ts_generation sv}
     else if ts_stopping sv then True else ts_sockets sv = []))"
proof -
  have "tcp_ok (new_tcp_server config)" by (simp add: tcp_ok_def new_tcp_server_def)
  from tcp_slots.inv_run [OF this, of listen events] show ?thesis
    by (simp add: tcp_ok_def Let_def)
qed

section \<open>Requests and answers\<close>

text \<open>A request as a client writes it: transaction id, unit and PDU.\<close>

definition request_adu :: "u16 \<times> u8 \<times> u8 list \<Rightarrow> u8 list" where
  "request_adu = (\<lambda>(transaction, unit, pdu).
     be16_bytes transaction @ be16_bytes 0 @ be16_bytes (of_nat (length pdu + 1)) @ [unit] @ pdu)"

text \<open>The answers to a list of requests, handled one after the other.\<close>

fun answers ::
    "'s register_bank \<Rightarrow> u8 \<Rightarrow> 's \<Rightarrow> (u16 \<times> u8 \<times> u8 list) list \<Rightarrow> 's \<times> u8 list list \<times> session_end" where
  "answers bank unit_id s [] = (s, [], Disconnected)"
| "answers bank unit_id s ((transaction, unit, pdu) # rest) =
     (case handle bank s \<lparr>rq_unit_id = unit, rq_pdu = pdu, rq_broadcast_allowed = False\<rparr> unit_id of
        (s', Inl e) \<Rightarrow> (s', [], Handler_failed e)
      | (s', Inr response) \<Rightarrow>
          let (s'', adus, ending) = answers bank unit_id s' rest in
          (s'', (case response of None \<Rightarrow> adus | Some r \<Rightarrow> response_adu transaction r # adus), ending))"

definition request_fits :: "u16 \<times> u8 \<times> u8 list \<Rightarrow> bool" where
  "request_fits = (\<lambda>(transaction, unit, pdu). 1 \<le> length pdu \<and> length pdu \<le> maximum_pdu_size)"

lemma request_adu_header:
  assumes "request_fits (transaction, unit, pdu)"
  defines "adu \<equiv> request_adu (transaction, unit, pdu)"
  shows "length adu = 7 + length pdu" "pdu_u16 (take 7 (adu @ rest)) 0 = transaction"
    "unat (pdu_u16 (take 7 (adu @ rest)) 4) = length pdu + 1" "take 7 (adu @ rest) ! 6 = unit"
    "header_valid_tcp (take 7 (adu @ rest))" "drop 7 (adu @ rest) = pdu @ rest"
proof -
  have n: "unat (of_nat (length pdu + 1) :: u16) = length pdu + 1"
    using assms(1) by (simp only: unat_of_nat request_fits_def) simp
  have h: "take 7 (adu @ rest) = be16_bytes transaction @ be16_bytes 0 @
      be16_bytes (of_nat (length pdu + 1)) @ [unit]" "drop 7 (adu @ rest) = pdu @ rest"
    by (simp_all add: adu_def request_adu_def)
  then show "drop 7 (adu @ rest) = pdu @ rest" "take 7 (adu @ rest) ! 6 = unit"
    by (simp_all add: nth_append)
  show "length adu = 7 + length pdu" by (simp add: adu_def request_adu_def)
  have p: "pdu_u16 (take 7 (adu @ rest)) 0 = transaction" "pdu_u16 (take 7 (adu @ rest)) 2 = 0"
    "pdu_u16 (take 7 (adu @ rest)) 4 = of_nat (length pdu + 1)"
    unfolding h using be16_value_of_bytes [of 0]
    by (simp_all add: pdu_u16_def read_u16_be_def be16_bytes_def)
  show "pdu_u16 (take 7 (adu @ rest)) 0 = transaction" by (rule p(1))
  show l: "unat (pdu_u16 (take 7 (adu @ rest)) 4) = length pdu + 1" unfolding p(3) by (rule n)
  have "1 \<le> length pdu" "length pdu \<le> 253" using assms(1) by (simp_all add: request_fits_def)
  then show "header_valid_tcp (take 7 (adu @ rest))"
    unfolding header_valid_tcp_def word_less_nat_alt l p(2) by (cases pdu) simp_all
qed

lemma session_request:
  assumes "request_fits (transaction, unit, pdu)"
  shows "session bank unit_id s (request_adu (transaction, unit, pdu) @ rest) =
    (case handle bank s \<lparr>rq_unit_id = unit, rq_pdu = pdu, rq_broadcast_allowed = False\<rparr> unit_id of
        (s', Inl e) \<Rightarrow> (s', [], Handler_failed e)
      | (s', Inr response) \<Rightarrow>
          let (s'', adus, ending) = session bank unit_id s' rest in
          (s'', (case response of None \<Rightarrow> adus | Some r \<Rightarrow> response_adu transaction r # adus), ending))"
  using request_adu_header(1) [OF assms] request_adu_header(2-6) [where rest = rest, OF assms]
  by (subst session.simps) (simp add: Let_def split: prod.split sum.split option.split)

text \<open>
  A TCP session answers a stream of well-formed requests exactly: whatever the requests are, the
  session handles each once and in order, writes the answers in the same order with the
  transaction id of their request, and consumes exactly the bytes of the requests.
\<close>

theorem tcp_session_exact:
  assumes "list_all request_fits requests"
  shows "session bank unit_id s (concat (map request_adu requests)) = answers bank unit_id s requests"
  using assms
proof (induction requests arbitrary: s)
  case Nil
  then show ?case by (subst session.simps) simp
next
  case (Cons rq requests)
  obtain transaction unit pdu where rq: "rq = (transaction, unit, pdu)" by (cases rq)
  then have "request_fits (transaction, unit, pdu)" using Cons.prems by simp
  then show ?case using Cons by (simp add: rq session_request split: prod.splits sum.splits)
qed

theorem tcp_session_exact_witness:
  "session array_bank 1 [10, 20] (concat (map request_adu [(7, 1, [3, 0, 0, 0, 1]), (8, 1, [6, 0, 1, 0, 5])])) =
     answers array_bank 1 [10, 20] [(7, 1, [3, 0, 0, 0, 1]), (8, 1, [6, 0, 1, 0, 5])]"
  by (rule tcp_session_exact) (simp add: request_fits_def)

end
