(* ===== verification/Modbus_Rtu.thy ===== *)
theory Modbus_Rtu
  imports Modbus_Handler
begin

text \<open>
  The Modbus RTU transport (\<^verbatim>\<open>common/mnc/modbus/rtu_server.cpp\<close>): CRC check, the incremental frame
  assembler, and one serial port with its bounded response queue. The checksum is computed by
  Boost (\<^verbatim>\<open>boost::crc_optimal\<close>) and is the parameter \<open>crc\<close>. One I/O thread runs the handlers, so the
  code between two suspension points is one step; the serial device and the timer are the
  environment: received bytes, expired gap timers with any generation, and the outcomes of writes
  are events in any order.
\<close>

section \<open>Frames\<close>

abbreviation maximum_rtu_frame_size :: nat where "maximum_rtu_frame_size \<equiv> 256"
abbreviation maximum_queued_rtu_responses :: nat where "maximum_queued_rtu_responses \<equiv> 64"

definition maximum_queued_rtu_bytes :: nat where
  "maximum_queued_rtu_bytes = maximum_queued_rtu_responses * maximum_rtu_frame_size"

type_synonym checksum = "u8 list \<Rightarrow> u16"

definition valid_crc :: "checksum \<Rightarrow> u8 list \<Rightarrow> bool" where
  "valid_crc crc frame =
     (if length frame < 4 then False
      else let expected = crc (take (length frame - 2) frame) in
        frame ! (length frame - 2) = ucast (expected AND 0xff) \<and>
        frame ! (length frame - 1) = ucast (drop_bit 8 expected))"

definition frame_size :: "u8 list \<Rightarrow> nat option" where
  "frame_size bytes =
     (if length bytes < 2 then None
      else let f = bytes ! 1 in
        if f = read_holding_registers \<or> f = read_input_registers \<or> f = write_single_register
        then Some 8
        else if f = write_multiple_registers
        then (if length bytes < 7 then None else Some (9 + unat (bytes ! 6)))
        else None)"

text \<open>
  The loop of \<^verbatim>\<open>push\<close> on the buffer. The frames found so far are the accumulator; when the code
  throws they are lost with it, and the buffer has been cleared.
\<close>

abbreviation rtu_bound_error :: exn where
  "rtu_bound_error \<equiv> Length_error ''RTU frame exceeded its bound''"

lemma frame_size_positive: "frame_size bytes = Some n \<Longrightarrow> 8 \<le> n"
  by (auto simp: frame_size_def Let_def split: if_splits)

function push_loop :: "u8 list list \<Rightarrow> u8 list \<Rightarrow> (u8 list list \<times> u8 list) result" where
  "push_loop frames buffer =
     (case frame_size buffer of
        None \<Rightarrow> if length buffer > maximum_rtu_frame_size then Inl rtu_bound_error
                else Inr (frames, buffer)
      | Some n \<Rightarrow>
          if n > maximum_rtu_frame_size then Inl rtu_bound_error
          else if length buffer < n then Inr (frames, buffer)
          else push_loop (frames @ [take n buffer]) (drop n buffer))"
  by pat_completeness auto
termination
  by (relation "measure (\<lambda>(frames, buffer). length buffer)") (auto dest: frame_size_positive)

declare push_loop.simps [simp del]

text \<open>The new buffer, and the frames or the exception.\<close>

definition push :: "u8 list \<Rightarrow> u8 list \<Rightarrow> u8 list \<times> u8 list list result" where
  "push buffer bytes = (case push_loop [] (buffer @ bytes) of
     Inl e \<Rightarrow> ([], Inl e)
   | Inr (frames, rest) \<Rightarrow> (rest, Inr frames))"

definition finish_on_silence :: "u8 list \<Rightarrow> u8 list \<times> u8 list option" where
  "finish_on_silence buffer = (if buffer = [] then (buffer, None) else ([], Some buffer))"

section \<open>Configuration\<close>

datatype serial_parity = Parity_none | Parity_even | Parity_odd

record rtu_port_config =
  pc_device :: string
  pc_baud_rate :: u32
  pc_data_bits :: u8
  pc_parity :: serial_parity
  pc_stop_bits :: u8
  pc_unit_id :: u8

text \<open>Microseconds. A division by zero would be undefined behaviour; the baud rate is not zero.\<close>

definition character_gap :: "rtu_port_config \<Rightarrow> u64" where
  "character_gap config =
     (if pc_baud_rate config > 19200 then 1750
      else
        let parity_bits = (if pc_parity config = Parity_none then 0 else 1 :: u32);
            bits_per_character = 1 + ucast (pc_data_bits config) + parity_bits + ucast (pc_stop_bits config);
            numerator = 3500000 * ucast bits_per_character
        in (numerator + ucast (pc_baud_rate config) - 1) div ucast (pc_baud_rate config))"

section \<open>A port\<close>

text \<open>
  The writer coroutine is not running, about to look at the queue, or suspended in a write of the
  given bytes; \<open>pt_reading\<close> tells that the reader coroutine is suspended in a read. \<open>pt_line\<close> is what
  the device has transmitted, oldest first, and \<open>pt_errors\<close> the messages given to the error handler.
\<close>

datatype writer = Writer_none | Writer_ready | Writer_sending "u8 list"

record rtu_port =
  pt_config :: rtu_port_config
  pt_running :: bool
  pt_buffer :: "u8 list"
  pt_output_queue :: "u8 list list"
  pt_queued_output_bytes :: nat
  pt_writing :: bool
  pt_active :: bool
  pt_gap_generation :: u64
  pt_reading :: bool
  pt_writer :: writer
  pt_line :: "u8 list list"
  pt_errors :: "string list"

text \<open>A port after \<^verbatim>\<open>open()\<close> and the start of its reader; opening the device is the environment's.\<close>

definition opened_port :: "rtu_port_config \<Rightarrow> rtu_port" where
  "opened_port config = \<lparr>pt_config = config, pt_running = True, pt_buffer = [], pt_output_queue = [],
     pt_queued_output_bytes = 0, pt_writing = False, pt_active = True, pt_gap_generation = 0,
     pt_reading = True, pt_writer = Writer_none, pt_line = [], pt_errors = []\<rparr>"

definition report :: "rtu_port \<Rightarrow> string \<Rightarrow> rtu_port" where
  "report p message = p\<lparr>pt_errors := pt_errors p @ [pc_device (pt_config p) @ '': '' @ message]\<rparr>"

text \<open>The serial device is open as long as the port is active.\<close>

definition close_port :: "rtu_port \<Rightarrow> rtu_port" where
  "close_port p =
     (if \<not> pt_active p then p
      else p\<lparr>pt_active := False, pt_gap_generation := pt_gap_generation p + 1, pt_buffer := [],
        pt_output_queue := [], pt_queued_output_bytes := 0, pt_writing := False\<rparr>)"

text \<open>The \<^verbatim>\<open>catch\<close> clause of the reader and of the writer, after the writer has cleared its queue.\<close>

definition coroutine_failed :: "rtu_port \<Rightarrow> string \<Rightarrow> rtu_port" where
  "coroutine_failed p message =
     close_port (if pt_running p \<and> pt_active p then report p message else p)"

definition enqueue_write :: "rtu_port \<Rightarrow> u8 list \<Rightarrow> rtu_port" where
  "enqueue_write p output =
     (if \<not> pt_active p then p
      else if length (pt_output_queue p) \<ge> maximum_queued_rtu_responses \<or>
        pt_queued_output_bytes p + length output > maximum_queued_rtu_bytes
      then report p ''response queue limit exceeded; response dropped''
      else
        let q = p\<lparr>pt_queued_output_bytes := pt_queued_output_bytes p + length output,
                  pt_output_queue := pt_output_queue p @ [output]\<rparr>
        in if \<not> pt_writing q then q\<lparr>pt_writing := True, pt_writer := Writer_ready\<rparr> else q)"

text \<open>The bytes of an answer on the line.\<close>

definition response_frame :: "checksum \<Rightarrow> response \<Rightarrow> u8 list" where
  "response_frame crc r =
     (let output = rs_unit_id r # rs_pdu r; c = crc output in
      output @ [ucast (c AND 0xff), ucast (drop_bit 8 c)])"

text \<open>The request a frame carries, once its CRC is known to be right.\<close>

definition frame_request :: "u8 list \<Rightarrow> request" where
  "frame_request frame = \<lparr>rq_unit_id = frame ! 0, rq_pdu = take (length frame - 3) (drop 1 frame),
     rq_broadcast_allowed = True\<rparr>"

text \<open>The state after one frame, and the exception if one leaves the function.\<close>

definition process_frame ::
    "checksum \<Rightarrow> 's register_bank \<Rightarrow> 's \<times> rtu_port \<Rightarrow> u8 list \<Rightarrow> ('s \<times> rtu_port) \<times> exn option" where
  "process_frame crc bank st frame =
     (let (s, p) = st in
      if \<not> valid_crc crc frame
      then ((s, report p ''CRC mismatch or truncated RTU frame''), None)
      else (case handle bank s (frame_request frame) (pc_unit_id (pt_config p)) of
          (s', Inl e) \<Rightarrow> ((s', p), Some e)
        | (s', Inr None) \<Rightarrow> ((s', p), None)
        | (s', Inr (Some r)) \<Rightarrow> ((s', enqueue_write p (response_frame crc r)), None)))"

fun process_frames ::
    "checksum \<Rightarrow> 's register_bank \<Rightarrow> 's \<times> rtu_port \<Rightarrow> u8 list list \<Rightarrow> ('s \<times> rtu_port) \<times> exn option" where
  "process_frames crc bank st [] = (st, None)"
| "process_frames crc bank st (frame # frames) =
     (case process_frame crc bank st frame of
        (st', Some e) \<Rightarrow> (st', Some e)
      | (st', None) \<Rightarrow> process_frames crc bank st' frames)"

definition arm_gap_timer :: "rtu_port \<Rightarrow> rtu_port" where
  "arm_gap_timer p =
     (if \<not> pt_active p then p else p\<lparr>pt_gap_generation := pt_gap_generation p + 1\<rparr>)"

text \<open>
  One turn of the reader \<^verbatim>\<open>run\<close> when a read completes: it pushes the bytes, arms the gap timer,
  processes the frames and reads again while the port is running and active.
\<close>

definition receive ::
    "checksum \<Rightarrow> 's register_bank \<Rightarrow> 's \<times> rtu_port \<Rightarrow> u8 list \<Rightarrow> 's \<times> rtu_port" where
  "receive crc bank st bytes =
     (let (s, p) = st in
      if \<not> pt_reading p then st
      else
        let (rest, result) = push (pt_buffer p) bytes;
            p' = p\<lparr>pt_buffer := rest\<rparr>;
            (frames, q) = (case result of
                Inl e \<Rightarrow> ([], report p' (exn_message e))
              | Inr frames \<Rightarrow> (frames, p'))
        in (case process_frames crc bank (s, arm_gap_timer q) frames of
              ((s', r), Some e) \<Rightarrow> (s', coroutine_failed (r\<lparr>pt_reading := False\<rparr>) (exn_message e))
            | ((s', r), None) \<Rightarrow> (s', r\<lparr>pt_reading := pt_running r \<and> pt_active r\<rparr>)))"

definition read_failed :: "rtu_port \<Rightarrow> string \<Rightarrow> rtu_port" where
  "read_failed p message =
     (if \<not> pt_reading p then p else coroutine_failed (p\<lparr>pt_reading := False\<rparr>) message)"

text \<open>
  The wait handler of the gap timer armed with \<open>generation\<close>. An exception leaves the handler and
  ends the I/O worker.
\<close>

definition gap_expired ::
    "checksum \<Rightarrow> 's register_bank \<Rightarrow> 's \<times> rtu_port \<Rightarrow> u64 \<Rightarrow> ('s \<times> rtu_port) \<times> exn option" where
  "gap_expired crc bank st generation =
     (let (s, p) = st in
      if \<not> pt_running p \<or> \<not> pt_active p \<or> generation \<noteq> pt_gap_generation p then (st, None)
      else
        let (rest, frame) = finish_on_silence (pt_buffer p); q = p\<lparr>pt_buffer := rest\<rparr> in
        (case frame of None \<Rightarrow> ((s, q), None) | Some fr \<Rightarrow> process_frame crc bank (s, q) fr))"

text \<open>The head of the loop of \<^verbatim>\<open>drain_writes\<close>: the writer ends or starts the next write.\<close>

definition drain_next :: "rtu_port \<Rightarrow> rtu_port" where
  "drain_next p =
     (if pt_writer p \<noteq> Writer_ready then p
      else if \<not> (pt_running p \<and> pt_active p) then p\<lparr>pt_writer := Writer_none\<rparr>
      else (case pt_output_queue p of
          [] \<Rightarrow> p\<lparr>pt_writing := False, pt_writer := Writer_none\<rparr>
        | output # _ \<Rightarrow> p\<lparr>pt_writer := Writer_sending output\<rparr>))"

definition write_done :: "rtu_port \<Rightarrow> rtu_port" where
  "write_done p = (case pt_writer p of
     Writer_sending output \<Rightarrow>
       let q = p\<lparr>pt_line := pt_line p @ [output], pt_writer := Writer_ready\<rparr> in
       (case pt_output_queue q of
          [] \<Rightarrow> q
        | front # rest \<Rightarrow> q\<lparr>pt_queued_output_bytes := pt_queued_output_bytes q - length front,
            pt_output_queue := rest\<rparr>)
   | _ \<Rightarrow> p)"

definition write_failed :: "rtu_port \<Rightarrow> string \<Rightarrow> rtu_port" where
  "write_failed p message = (case pt_writer p of
     Writer_sending output \<Rightarrow> coroutine_failed
       (p\<lparr>pt_output_queue := [], pt_writing := False, pt_writer := Writer_none\<rparr>) message
   | _ \<Rightarrow> p)"

text \<open>\<^verbatim>\<open>stop()\<close> clears the shared flag first and closes the port afterwards.\<close>

definition stop_requested :: "rtu_port \<Rightarrow> rtu_port" where
  "stop_requested p = p\<lparr>pt_running := False\<rparr>"

datatype rtu_event =
    Received "u8 list" | Read_failed string | Gap_expired u64 | Writer_resumed
  | Write_done | Write_failed string | Stop_requested | Closed

fun rtu_step ::
    "checksum \<Rightarrow> 's register_bank \<Rightarrow> 's \<times> rtu_port \<Rightarrow> rtu_event \<Rightarrow> 's \<times> rtu_port" where
  "rtu_step crc bank st (Received bytes) = receive crc bank st bytes"
| "rtu_step crc bank st (Read_failed message) = (fst st, read_failed (snd st) message)"
| "rtu_step crc bank st (Gap_expired generation) = fst (gap_expired crc bank st generation)"
| "rtu_step crc bank st Writer_resumed = (fst st, drain_next (snd st))"
| "rtu_step crc bank st Write_done = (fst st, write_done (snd st))"
| "rtu_step crc bank st (Write_failed message) = (fst st, write_failed (snd st) message)"
| "rtu_step crc bank st Stop_requested = (fst st, stop_requested (snd st))"
| "rtu_step crc bank st Closed = (fst st, close_port (snd st))"

section \<open>The assembler\<close>

lemma push_loop_none:
  "frame_size b = None \<Longrightarrow> push_loop fs b =
     (if length b > maximum_rtu_frame_size then Inl rtu_bound_error else Inr (fs, b))"
  by (subst push_loop.simps) simp

lemma push_loop_some:
  "frame_size b = Some n \<Longrightarrow> push_loop fs b =
     (if n > maximum_rtu_frame_size then Inl rtu_bound_error
      else if length b < n then Inr (fs, b) else push_loop (fs @ [take n b]) (drop n b))"
  by (subst push_loop.simps) simp

lemma frame_size_append: "frame_size b = Some n \<Longrightarrow> frame_size (b @ c) = Some n"
  by (auto simp: frame_size_def Let_def nth_append split: if_splits)

lemma frame_size_take:
  assumes "frame_size b = Some n" "n \<le> length b"
  shows "frame_size (take n b) = Some n"
  using assms frame_size_positive [OF assms(1)]
  by (auto simp: frame_size_def Let_def split: if_splits)

text \<open>Induction over the frames at the front of the buffer.\<close>

lemma push_induct [case_names stop frame]:
  assumes stop: "\<And>b. frame_size b = None \<or>
      (\<exists>n. frame_size b = Some n \<and> (n > maximum_rtu_frame_size \<or> length b < n)) \<Longrightarrow> P b"
    and frame: "\<And>b n. frame_size b = Some n \<Longrightarrow> n \<le> maximum_rtu_frame_size \<Longrightarrow> n \<le> length b \<Longrightarrow>
      P (drop n b) \<Longrightarrow> P b"
  shows "P b"
proof (induction b rule: length_induct)
  case (1 b)
  show ?case
  proof (cases "\<exists>n. frame_size b = Some n \<and> n \<le> maximum_rtu_frame_size \<and> n \<le> length b")
    case True
    then obtain n where n: "frame_size b = Some n" "n \<le> maximum_rtu_frame_size" "n \<le> length b" by blast
    then have "length (drop n b) < length b" using frame_size_positive [OF n(1)] by simp
    then show ?thesis using frame [OF n] 1 by blast
  next
    case False
    then show ?thesis using stop [of b] by (cases "frame_size b") auto
  qed
qed

text \<open>The accumulator is only ever extended.\<close>

lemma push_loop_frames: "push_loop fs b = map_sum id (\<lambda>(gs, r). (fs @ gs, r)) (push_loop [] b)"
proof (induction b arbitrary: fs rule: push_induct)
  case (stop b)
  then show ?case by (auto simp: push_loop_none push_loop_some)
next
  case (frame b n)
  show ?case
    using frame.hyps frame.IH [of "fs @ [take n b]"] frame.IH [of "[take n b]"]
    by (cases "push_loop [] (drop n b)") (auto simp: push_loop_some)
qed

lemma push_loop_frame:
  assumes "frame_size b = Some n" "n \<le> maximum_rtu_frame_size" "n \<le> length b"
  shows "push_loop [] b = map_sum id (\<lambda>(gs, r). (take n b # gs, r)) (push_loop [] (drop n b))"
  using assms push_loop_frames [of "[take n b]" "drop n b"] by (simp add: push_loop_some)

lemma push_loop_exact:
  "push_loop [] b = Inr (fs, r) \<Longrightarrow> concat fs @ r = b \<and> length r \<le> maximum_rtu_frame_size \<and>
     (\<forall>f \<in> set fs. frame_size f = Some (length f) \<and> length f \<le> maximum_rtu_frame_size)"
proof (induction b arbitrary: fs r rule: push_induct)
  case (stop b)
  then show ?case by (auto simp: push_loop_none push_loop_some split: if_splits)
next
  case (frame b n)
  obtain gs where g: "push_loop [] (drop n b) = Inr (gs, r)" "fs = take n b # gs"
    using frame.prems push_loop_frame [OF frame.hyps] by (cases "push_loop [] (drop n b)") auto
  have "frame_size (take n b) = Some (length (take n b))"
    using frame_size_take [OF frame.hyps(1,3)] frame.hyps(3) by simp
  then show ?case using frame.IH [OF g(1)] g(2) frame.hyps by simp
qed

lemma push_loop_chunks:
  "push_loop [] b = Inr (fs, r) \<Longrightarrow>
   push_loop [] (b @ c) = map_sum id (\<lambda>(gs, r'). (fs @ gs, r')) (push_loop [] (r @ c))"
proof (induction b arbitrary: fs r rule: push_induct)
  case (stop b)
  then have "fs = [] \<and> r = b" by (auto simp: push_loop_none push_loop_some split: if_splits)
  then show ?case by (cases "push_loop [] (b @ c)") auto
next
  case (frame b n)
  obtain gs where g: "push_loop [] (drop n b) = Inr (gs, r)" "fs = take n b # gs"
    using frame.prems push_loop_frame [OF frame.hyps] by (cases "push_loop [] (drop n b)") auto
  have "push_loop [] (b @ c) =
      map_sum id (\<lambda>(gs, r). (take n b # gs, r)) (push_loop [] (drop n b @ c))"
    using push_loop_frame [of "b @ c" n] frame.hyps frame_size_append [OF frame.hyps(1)] by simp
  then show ?case
    using frame.IH [OF g(1)] g(2) by (cases "push_loop [] (r @ c)") auto
qed

lemma push_ok_iff: "push b c = (r, Inr fs) \<longleftrightarrow> push_loop [] (b @ c) = Inr (fs, r)"
  by (auto simp: push_def split: sum.splits)

text \<open>
  The RTU assembler neither loses nor invents a byte: the frames it returns followed by what it
  keeps are the bytes it had and received, every frame has exactly the length its function
  defines, at most 256 bytes, and at most 256 bytes stay buffered.
\<close>

theorem rtu_push_exact:
  assumes "push buffer bytes = (rest, Inr frames)"
  shows "concat frames @ rest = buffer @ bytes \<and> length rest \<le> maximum_rtu_frame_size \<and>
    (\<forall>f \<in> set frames. frame_size f = Some (length f) \<and> length f \<le> maximum_rtu_frame_size)"
  using assms push_loop_exact by (simp add: push_ok_iff)

theorem rtu_push_exact_witness:
  "concat [[1, 3, 0, 0, 0, 2, 7, 8]] @ [1, 4] = [1, 3, 0] @ [0, 0, 2, 7, 8, 1, 4 :: u8] \<and>
   frame_size [1, 3, 0, 0, 0, 2, 7, 8] = Some 8"
  using rtu_push_exact [of "[1, 3, 0]" "[0, 0, 2, 7, 8, 1, 4]" "[1, 4]" "[[1, 3, 0, 0, 0, 2, 7, 8]]"]
  by (simp add: push_def push_loop_frame [of _ 8] push_loop_none frame_size_def)

text \<open>
  Framing does not depend on how the bytes are cut into reads: as long as no frame exceeds its
  bound, pushing two pieces gives the same frames and the same remainder as pushing them at once.
\<close>

theorem rtu_chunking:
  assumes "push buffer first = (rest, Inr frames)"
  shows "push buffer (first @ second) =
    (fst (push rest second), map_sum id (\<lambda>more_frames. frames @ more_frames) (snd (push rest second)))"
proof -
  have "push_loop [] ((buffer @ first) @ second) =
      map_sum id (\<lambda>(gs, r'). (frames @ gs, r')) (push_loop [] (rest @ second))"
    using assms by (intro push_loop_chunks) (simp add: push_ok_iff)
  then show ?thesis by (cases "push_loop [] (rest @ second)") (auto simp: push_def)
qed

theorem rtu_chunking_witness:
  "push [] ([1, 3, 0] @ [0, 0, 2, 7, 8]) = (fst (push [1, 3, 0] [0, 0, 2, 7, 8]),
     map_sum id (\<lambda>more_frames. [] @ more_frames) (snd (push [1, 3, 0] [0, 0, 2, 7, 8])))"
  by (rule rtu_chunking) (simp add: push_def push_loop_some frame_size_def)

text \<open>
  A complete request is lost when bytes behind it in the same read announce a frame beyond the
  bound: the exception discards the frames already found.
\<close>

lemma push_loses_complete_frame:
  "push [] [1, 3, 0, 0, 0, 2, 7, 8] = ([], Inr [[1, 3, 0, 0, 0, 2, 7, 8]])"
  "push [] ([1, 3, 0, 0, 0, 2, 7, 8] @ [1, 16, 0, 0, 0, 1, 255]) = ([], Inl rtu_bound_error)"
  by (simp_all add: push_def push_loop_frame [of _ 8] push_loop_some push_loop_none frame_size_def)

section \<open>Invariants of a port\<close>

definition good_frame :: "checksum \<Rightarrow> u8 list \<Rightarrow> bool" where
  "good_frame crc f \<longleftrightarrow> valid_crc crc f \<and> length f \<le> maximum_rtu_frame_size"

lemma response_frame_good:
  assumes "snd (handle bank s req unit) = Inr (Some r)"
  shows "good_frame crc (response_frame crc r)"
proof -
  have "2 \<le> length (rs_pdu r) \<and> length (rs_pdu r) \<le> 252"
    using handle_shape [OF assms] shape_length by blast
  then show ?thesis
    by (auto simp: good_frame_def valid_crc_def response_frame_def Let_def nth_append)
qed

text \<open>What holds of the output side at every moment.\<close>

definition output_ok :: "checksum \<Rightarrow> rtu_port \<Rightarrow> bool" where
  "output_ok crc p \<longleftrightarrow>
     pt_queued_output_bytes p = sum_list (map length (pt_output_queue p)) \<and>
     length (pt_output_queue p) \<le> maximum_queued_rtu_responses \<and>
     pt_queued_output_bytes p \<le> maximum_queued_rtu_bytes \<and>
     list_all (good_frame crc) (pt_output_queue p) \<and> list_all (good_frame crc) (pt_line p)"

text \<open>The writer runs exactly when there is work, and what it sends is the front of the queue.\<close>

definition writer_ok :: "rtu_port \<Rightarrow> bool" where
  "writer_ok p \<longleftrightarrow>
     (pt_running p \<and> pt_active p \<longrightarrow> (pt_writing p \<longleftrightarrow> pt_writer p \<noteq> Writer_none) \<and>
        (pt_output_queue p \<noteq> [] \<longrightarrow> pt_writing p)) \<and>
     (pt_active p \<longrightarrow> (\<forall>out. pt_writer p = Writer_sending out \<longrightarrow> (\<exists>rest. pt_output_queue p = out # rest))) \<and>
     (\<not> pt_active p \<longrightarrow> pt_output_queue p = [])"

definition sending_good :: "checksum \<Rightarrow> rtu_port \<Rightarrow> bool" where
  "sending_good crc p \<longleftrightarrow> (case pt_writer p of Writer_sending out \<Rightarrow> good_frame crc out | _ \<Rightarrow> True)"

definition port_ok :: "checksum \<Rightarrow> rtu_port \<Rightarrow> bool" where
  "port_ok crc p \<longleftrightarrow> output_ok crc p \<and> writer_ok p \<and> sending_good crc p"

lemmas port_ok_defs = port_ok_def output_ok_def writer_ok_def sending_good_def

lemma port_ok_report [simp]: "port_ok crc (report p m) = port_ok crc p"
  by (simp add: port_ok_defs report_def)

lemma port_ok_updates [simp]:
  "port_ok crc (p\<lparr>pt_buffer := b\<rparr>) = port_ok crc p" "port_ok crc (p\<lparr>pt_reading := x\<rparr>) = port_ok crc p"
  "port_ok crc (p\<lparr>pt_gap_generation := g\<rparr>) = port_ok crc p"
  by (simp_all add: port_ok_defs)

lemma port_ok_close: "port_ok crc p \<Longrightarrow> port_ok crc (close_port p)"
  by (auto simp: port_ok_defs close_port_def)

lemma port_ok_failed: "port_ok crc p \<Longrightarrow> port_ok crc (coroutine_failed p m)"
  by (simp add: coroutine_failed_def port_ok_close)

lemma port_ok_enqueue:
  assumes "port_ok crc p" "good_frame crc out"
  shows "port_ok crc (enqueue_write p out)"
proof (cases "pt_active p \<and> length (pt_output_queue p) < maximum_queued_rtu_responses \<and>
    pt_queued_output_bytes p + length out \<le> maximum_queued_rtu_bytes")
  case True
  then show ?thesis
    using assms by (auto simp: port_ok_defs enqueue_write_def Let_def split: writer.splits)
next
  case False
  then show ?thesis using assms by (auto simp: enqueue_write_def)
qed

lemma port_ok_drain: "port_ok crc p \<Longrightarrow> port_ok crc (drain_next p)"
  by (auto simp: port_ok_defs drain_next_def split: list.splits)

lemma port_ok_write_done: "port_ok crc p \<Longrightarrow> port_ok crc (write_done p)"
proof (cases "pt_writer p")
  case (Writer_sending out)
  assume ok: "port_ok crc p"
  show ?thesis
  proof (cases "pt_active p")
    case True
    then obtain rest where "pt_output_queue p = out # rest"
      using ok Writer_sending by (auto simp: port_ok_defs)
    with ok Writer_sending show ?thesis by (auto simp: port_ok_defs write_done_def)
  next
    case False
    with ok Writer_sending show ?thesis by (auto simp: port_ok_defs write_done_def)
  qed
qed (simp_all add: write_done_def)

lemma port_ok_write_failed: "port_ok crc p \<Longrightarrow> port_ok crc (write_failed p m)"
  by (cases "pt_active p")
     (auto simp: port_ok_defs write_failed_def coroutine_failed_def close_port_def report_def
       split: writer.splits)

lemma port_ok_process:
  "port_ok crc (snd st) \<Longrightarrow> port_ok crc (snd (fst (process_frame crc bank st frame)))"
  using response_frame_good [where bank = bank and crc = crc]
  by (auto simp: process_frame_def Let_def port_ok_enqueue split: prod.splits sum.splits option.splits)
     (metis port_ok_enqueue snd_conv)

lemma port_ok_process_frames:
  "port_ok crc (snd st) \<Longrightarrow> port_ok crc (snd (fst (process_frames crc bank st frames)))"
proof (induction frames arbitrary: st)
  case (Cons f fs)
  then show ?case
    using port_ok_process [OF Cons.prems, of bank f]
    by (auto split: prod.splits option.splits)
qed simp

lemma port_ok_arm [simp]: "port_ok crc (arm_gap_timer p) = port_ok crc p"
  by (simp add: arm_gap_timer_def)

text \<open>A turn of the reader, spelled out.\<close>

lemma receive_eq:
  assumes "pt_reading p" "push (pt_buffer p) bytes = (rest, result)"
  defines "q \<equiv> (case result of Inl e \<Rightarrow> report (p\<lparr>pt_buffer := rest\<rparr>) (exn_message e)
      | Inr _ \<Rightarrow> p\<lparr>pt_buffer := rest\<rparr>)"
    and "frames \<equiv> (case result of Inl _ \<Rightarrow> [] | Inr fs \<Rightarrow> fs)"
  shows "receive crc bank (s, p) bytes =
    (let r = process_frames crc bank (s, arm_gap_timer q) frames in
     (fst (fst r), case snd r of
        Some e \<Rightarrow> coroutine_failed ((snd (fst r))\<lparr>pt_reading := False\<rparr>) (exn_message e)
      | None \<Rightarrow> (snd (fst r))\<lparr>pt_reading := pt_running (snd (fst r)) \<and> pt_active (snd (fst r))\<rparr>))"
  using assms by (cases result) (auto simp: receive_def Let_def split: prod.splits option.splits)

lemma port_ok_receive: "port_ok crc p \<Longrightarrow> port_ok crc (snd (receive crc bank (s, p) bytes))"
proof (cases "pt_reading p")
  case False
  assume "port_ok crc p"
  with False show ?thesis by (simp add: receive_def)
next
  case True
  assume ok: "port_ok crc p"
  obtain rest result where r: "push (pt_buffer p) bytes = (rest, result)" by fastforce
  let ?q = "case result of Inl e \<Rightarrow> report (p\<lparr>pt_buffer := rest\<rparr>) (exn_message e)
    | Inr _ \<Rightarrow> p\<lparr>pt_buffer := rest\<rparr>"
  have "port_ok crc (snd (s, arm_gap_timer ?q))" using ok by (cases result) simp_all
  from port_ok_process_frames [OF this]
  show ?thesis
    unfolding receive_eq [OF True r] Let_def by (auto simp: port_ok_failed split: option.splits)
qed

lemma port_ok_gap: "port_ok crc p \<Longrightarrow> port_ok crc (snd (fst (gap_expired crc bank (s, p) g)))"
  using port_ok_process [of crc "(s, p\<lparr>pt_buffer := []\<rparr>)" bank]
  by (auto simp: gap_expired_def finish_on_silence_def Let_def split: prod.splits)

lemma port_ok_step: "port_ok crc (snd st) \<Longrightarrow> port_ok crc (snd (rtu_step crc bank st ev))"
proof (cases ev)
  case (Received bytes)
  assume "port_ok crc (snd st)"
  then show ?thesis using port_ok_receive [of crc "snd st" bank "fst st"] Received by simp
next
  case (Gap_expired g)
  assume "port_ok crc (snd st)"
  then show ?thesis using port_ok_gap [of crc "snd st" bank "fst st"] Gap_expired by simp
next
  case Stop_requested
  assume "port_ok crc (snd st)"
  then show ?thesis using Stop_requested by (auto simp: port_ok_defs stop_requested_def split: writer.splits)
qed (simp_all add: read_failed_def port_ok_failed port_ok_drain port_ok_write_done port_ok_write_failed
    port_ok_close)

interpretation rtu: invariant_system "rtu_step crc bank" "\<lambda>st. port_ok crc (snd st)" for crc bank
  by unfold_locales (rule port_ok_step)

lemma port_ok_opened: "port_ok crc (opened_port config)"
  by (simp add: port_ok_defs opened_port_def maximum_queued_rtu_bytes_def)

text \<open>
  Whatever bytes arrive, whenever timers fire and however writes end, the output side of an RTU
  port stays bounded and correct: at most 64 responses and 16384 bytes are queued, the byte count
  is that of the queue, every queued or transmitted response has a valid checksum and fits a
  frame, and while the port is open queued responses always have a writer working on them.
\<close>

theorem rtu_output_invariant:
  "(let p = snd (foldl (rtu_step crc bank) (s, opened_port config) events) in
    pt_queued_output_bytes p = sum_list (map length (pt_output_queue p)) \<and>
    length (pt_output_queue p) \<le> 64 \<and> pt_queued_output_bytes p \<le> 16384 \<and>
    list_all (\<lambda>f. valid_crc crc f \<and> length f \<le> 256) (pt_output_queue p @ pt_line p) \<and>
    (if pt_running p \<and> pt_active p \<and> pt_output_queue p \<noteq> [] then pt_writer p \<noteq> Writer_none else True))"
  using rtu.inv_run [of crc "(s, opened_port config)" bank events] port_ok_opened [of crc config]
  by (auto simp: port_ok_defs Let_def good_frame_def [abs_def] maximum_queued_rtu_bytes_def)

text \<open>A port and a request for examples, with a checksum function that is always zero.\<close>

definition example_config :: rtu_port_config where
  "example_config = \<lparr>pc_device = ''tty'', pc_baud_rate = 19200, pc_data_bits = 8,
     pc_parity = Parity_even, pc_stop_bits = 1, pc_unit_id = 1\<rparr>"

definition example_frame :: "u8 list" where
  "example_frame = [1, 3, 0, 0, 0, 1, 0, 0]"

section \<open>Order of the responses\<close>

text \<open>Everything accepted for transmission, in order.\<close>

definition history :: "rtu_port \<Rightarrow> u8 list list" where
  "history p = pt_line p @ pt_output_queue p"

definition history_le :: "'s \<times> rtu_port \<Rightarrow> 's \<times> rtu_port \<Rightarrow> bool" where
  "history_le st st' \<longleftrightarrow> (pt_active (snd st') \<longrightarrow> pt_active (snd st) \<and>
     (\<exists>new. history (snd st') = history (snd st) @ new))"

lemma history_le_refl: "history_le st st"
  by (simp add: history_le_def)

lemma history_le_trans: "history_le a b \<Longrightarrow> history_le b c \<Longrightarrow> history_le a c"
  by (auto simp: history_le_def)

text \<open>Operations that leave the accepted responses alone.\<close>

lemma history_le_same:
  "pt_active q = pt_active p \<Longrightarrow> pt_line q = pt_line p \<Longrightarrow> pt_output_queue q = pt_output_queue p \<Longrightarrow>
   history_le (s, p) (s', q)"
  by (simp add: history_le_def history_def)

lemma history_le_closed: "\<not> pt_active q \<Longrightarrow> history_le st (s', q)"
  by (simp add: history_le_def)

lemma close_port_inactive [simp]: "\<not> pt_active (close_port p)"
  by (simp add: close_port_def)

lemma coroutine_failed_inactive [simp]: "\<not> pt_active (coroutine_failed p m)"
  by (simp add: coroutine_failed_def)

lemma history_enqueue: "history_le (s, p) (s', enqueue_write p out)"
  by (auto simp: history_le_def history_def enqueue_write_def report_def Let_def)

lemma history_report: "history_le (s, p) (s', report p m)"
  by (rule history_le_same) (simp_all add: report_def)

lemma history_process: "history_le st (fst (process_frame crc bank st frame))"
proof (cases st)
  case (Pair s p)
  then show ?thesis
    using history_le_same [of p p s] history_enqueue [of s p] history_report [of s p]
    by (auto simp: process_frame_def Let_def split: prod.splits sum.splits option.splits)
qed

lemma history_process_frames: "history_le st (fst (process_frames crc bank st frames))"
proof (induction frames arbitrary: st)
  case Nil
  then show ?case by (simp add: history_le_refl)
next
  case (Cons f fs)
  obtain st' e where p: "process_frame crc bank st f = (st', e)" by fastforce
  then have "history_le st st'" using history_process [of st crc bank f] by simp
  then show ?case
    using p history_le_trans [OF _ Cons.IH [of st']] by (cases e) auto
qed

lemma history_receive: "history_le (s, p) (receive crc bank (s, p) bytes)"
proof (cases "pt_reading p")
  case False
  then show ?thesis by (simp add: receive_def history_le_refl)
next
  case True
  obtain rest result where r: "push (pt_buffer p) bytes = (rest, result)" by fastforce
  let ?q = "case result of Inl e \<Rightarrow> report (p\<lparr>pt_buffer := rest\<rparr>) (exn_message e)
    | Inr _ \<Rightarrow> p\<lparr>pt_buffer := rest\<rparr>" and ?fs = "case result of Inl _ \<Rightarrow> [] | Inr fs \<Rightarrow> fs"
  let ?r = "process_frames crc bank (s, arm_gap_timer ?q) ?fs"
  have "history_le (s, p) (s, arm_gap_timer ?q)"
    by (rule history_le_same; cases result) (simp_all add: arm_gap_timer_def report_def)
  from history_le_trans [OF this history_process_frames]
  have "history_le (s, p) (fst ?r)" .
  then show ?thesis
    unfolding receive_eq [OF True r] Let_def
    by (cases "snd ?r") (auto simp: history_le_def history_def)
qed

lemma history_gap: "history_le (s, p) (fst (gap_expired crc bank (s, p) g))"
proof -
  have "history_le (s, p) (s, p\<lparr>pt_buffer := b\<rparr>)" for b by (rule history_le_same) simp_all
  from history_le_trans [OF this history_process] this show ?thesis
    by (auto simp: gap_expired_def finish_on_silence_def Let_def history_le_refl)
qed

lemma history_write_done: "port_ok crc p \<Longrightarrow> history_le (s, p) (s, write_done p)"
  by (auto simp: history_le_def history_def write_done_def port_ok_defs Let_def split: writer.splits list.splits)

lemma history_step:
  assumes "port_ok crc (snd st)"
  shows "history_le st (rtu_step crc bank st ev)"
proof -
  obtain s p where st: "st = (s, p)" by fastforce
  show ?thesis
  proof (cases ev)
    case (Received bytes)
    then show ?thesis using st by (simp add: history_receive)
  next
    case (Gap_expired g)
    then show ?thesis using st by (simp add: history_gap)
  next
    case Writer_resumed
    then show ?thesis
      using st by (auto intro!: history_le_same simp: drain_next_def split: list.splits)
  next
    case Write_done
    then show ?thesis using st assms by (simp add: history_write_done)
  next
    case (Write_failed m)
    then show ?thesis
      using st by (auto simp: write_failed_def history_le_refl history_le_closed split: writer.splits)
  next
    case (Read_failed m)
    then show ?thesis using st by (auto simp: read_failed_def history_le_refl history_le_closed)
  next
    case Stop_requested
    then show ?thesis using st by (auto intro!: history_le_same simp: stop_requested_def)
  next
    case Closed
    then show ?thesis using st by (simp add: history_le_closed)
  qed
qed

interpretation rtu_order: monotone_system "rtu_step crc bank" "\<lambda>st. port_ok crc (snd st)" history_le
  for crc bank
  by unfold_locales (auto simp: history_le_refl intro: history_le_trans history_step)

text \<open>
  While an RTU port stays open, no accepted response is lost, duplicated or reordered: what has
  been transmitted followed by what is queued only ever grows at its end, so responses leave in
  the order in which the requests were answered.
\<close>

theorem rtu_responses_in_order:
  assumes "pt_active (snd (foldl (rtu_step crc bank) (s, opened_port config) (earlier @ later)))"
  shows "\<exists>new. history (snd (foldl (rtu_step crc bank) (s, opened_port config) (earlier @ later))) =
    history (snd (foldl (rtu_step crc bank) (s, opened_port config) earlier)) @ new"
proof -
  let ?st = "foldl (rtu_step crc bank) (s, opened_port config) earlier"
  have "port_ok crc (snd ?st)" by (rule rtu.inv_run) (simp add: port_ok_opened)
  from rtu_order.run_le [OF this, of bank later] show ?thesis
    using assms by (simp add: history_le_def)
qed

theorem rtu_responses_in_order_witness:
  "\<exists>new. history (snd (foldl (rtu_step (\<lambda>_. 0) array_bank) ([10], opened_port example_config)
      ([Received example_frame] @ [Writer_resumed, Write_done]))) =
    history (snd (foldl (rtu_step (\<lambda>_. 0) array_bank) ([10], opened_port example_config)
      [Received example_frame])) @ new"
  by (rule rtu_responses_in_order) code_simp

section \<open>A request is answered\<close>

lemma process_answered:
  assumes "valid_crc crc frame" "handle bank s (frame_request frame) (pc_unit_id (pt_config p)) = (s', Inr (Some r))"
  shows "process_frame crc bank (s, p) frame = ((s', enqueue_write p (response_frame crc r)), None)"
  using assms by (simp add: process_frame_def)

text \<open>
  C40. A complete, correctly checksummed request of a supported function that reaches an idle open
  port in one read is answered: the response is queued at once, and when the writer runs and its
  write completes the response is on the line.
\<close>

theorem rtu_request_answered:
  assumes "pt_active p" "pt_running p" "pt_reading p" "pt_buffer p = []" "pt_output_queue p = []"
    "pt_queued_output_bytes p = 0" "\<not> pt_writing p"
    "frame_size frame = Some (length frame)" "length frame \<le> 256" "valid_crc crc frame"
    "handle bank s (frame_request frame) (pc_unit_id (pt_config p)) = (s', Inr (Some r))"
  shows "foldl (rtu_step crc bank) (s, p) [Received frame, Writer_resumed, Write_done] =
    (s', p\<lparr>pt_gap_generation := pt_gap_generation p + 1, pt_writing := True, pt_writer := Writer_ready,
      pt_line := pt_line p @ [response_frame crc r]\<rparr>)"
proof -
  have len: "length (response_frame crc r) \<le> 256"
    using response_frame_good [of bank s "frame_request frame" "pc_unit_id (pt_config p)" r crc] assms(11)
    by (simp add: good_frame_def)
  have "push (pt_buffer p) frame = ([], Inr [frame])"
    using assms(4,8,9) push_loop_frame [of frame "length frame"]
    by (simp add: push_def push_loop_none frame_size_def)
  note eq = receive_eq [OF assms(3) this, of crc bank s]
  let ?out = "response_frame crc r"
  have "enqueue_write (arm_gap_timer (p\<lparr>pt_buffer := []\<rparr>)) ?out =
      p\<lparr>pt_gap_generation := pt_gap_generation p + 1, pt_queued_output_bytes := length ?out,
        pt_output_queue := [?out], pt_writing := True, pt_writer := Writer_ready\<rparr>"
    using assms(1,4,5,6,7) len
    by (simp add: enqueue_write_def arm_gap_timer_def maximum_queued_rtu_bytes_def)
  moreover have "process_frame crc bank (s, arm_gap_timer (p\<lparr>pt_buffer := []\<rparr>)) frame =
      ((s', enqueue_write (arm_gap_timer (p\<lparr>pt_buffer := []\<rparr>)) ?out), None)"
    using assms(10,11) by (intro process_answered) (simp_all add: arm_gap_timer_def)
  ultimately have "receive crc bank (s, p) frame =
      (s', p\<lparr>pt_gap_generation := pt_gap_generation p + 1, pt_queued_output_bytes := length ?out,
        pt_output_queue := [?out], pt_writing := True, pt_writer := Writer_ready\<rparr>)"
    unfolding eq using assms(1-3) by simp
  then show ?thesis
    using assms(1,2,5,6) by (simp add: drain_next_def write_done_def)
qed

theorem rtu_request_answered_witness:
  "foldl (rtu_step (\<lambda>_. 0) array_bank) ([10], opened_port example_config)
      [Received example_frame, Writer_resumed, Write_done] =
    ([10], (opened_port example_config)\<lparr>pt_gap_generation := pt_gap_generation (opened_port example_config) + 1,
      pt_writing := True, pt_writer := Writer_ready,
      pt_line := pt_line (opened_port example_config) @
        [response_frame (\<lambda>_. 0) \<lparr>rs_unit_id = 1, rs_pdu = [3, 2, 0, 10]\<rparr>]\<rparr>)"
  by (rule rtu_request_answered) code_simp+

end
