(* ===== verification/Modbus_Server.thy ===== *)
theory Modbus_Server
  imports Modbus_Tcp Modbus_Rtu
begin

text \<open>
  Lifecycle of the transports: starting and stopping the RTU server
  (\<^verbatim>\<open>ModbusRtuServer::start\<close>, \<^verbatim>\<open>stop\<close> of \<^verbatim>\<open>rtu_server.cpp\<close>) and the composite \<^verbatim>\<open>ModbusServer\<close>
  (\<^verbatim>\<open>common/mnc/modbus/server.cpp\<close>). The interface \<^verbatim>\<open>ModbusTransport\<close> is the locale \<open>transport\<close>; the
  composite is verified against it and the two transports are shown to implement it.
\<close>

section \<open>The RTU server\<close>

record rtu_server =
  rv_configs :: "rtu_port_config list"
  rv_running :: bool
  rv_ports :: "rtu_port list"

text \<open>Devices of the ports that are open.\<close>

definition open_devices :: "rtu_port list \<Rightarrow> string list" where
  "open_devices ports = map (pc_device \<circ> pt_config) (filter pt_active ports)"

text \<open>
  The loop that opens the configured ports. \<open>device_open\<close> tells how opening and configuring the
  device ends. The ports opened so far come back with the exception.
\<close>

fun open_ports ::
    "(rtu_port_config \<Rightarrow> exn option) \<Rightarrow> rtu_port list \<Rightarrow> rtu_port_config list \<Rightarrow>
     rtu_port list \<times> exn option" where
  "open_ports device_open opened [] = (opened, None)"
| "open_ports device_open opened (config # configs) =
     (if pc_unit_id config = 0 \<or> pc_unit_id config > 247
      then (opened, Some (Invalid_argument ''Modbus RTU unit id must be 1..247''))
      else if pc_device config = []
      then (opened, Some (Invalid_argument ''Modbus RTU device path is empty''))
      else (case device_open config of
          Some e \<Rightarrow> (opened, Some (Runtime_error
            (''failed to open '' @ pc_device config @ '': '' @ exn_message e)))
        | None \<Rightarrow> open_ports device_open (opened @ [opened_port config]) configs))"

text \<open>
  \<^verbatim>\<open>start()\<close>; \<open>spawn\<close> tells whether launching the readers fails. After a failure every port that was
  opened is closed, and these closed ports are the second component.
\<close>

definition rtu_start ::
    "(rtu_port_config \<Rightarrow> exn option) \<Rightarrow> exn option \<Rightarrow> rtu_server \<Rightarrow>
     rtu_server \<times> rtu_port list \<times> exn option" where
  "rtu_start device_open spawn sv =
     (if rv_running sv then (sv, [], None)
      else
        let (opened, failure) =
          (if rv_configs sv = []
           then ([], Some (Invalid_argument ''Modbus RTU requires at least one serial port''))
           else open_ports device_open [] (rv_configs sv))
        in (case failure of
              Some e \<Rightarrow> (sv\<lparr>rv_running := False, rv_ports := []\<rparr>,
                map close_port opened @ map close_port (rv_ports sv), Some e)
            | None \<Rightarrow>
                (case spawn of
                   Some e \<Rightarrow> (sv\<lparr>rv_running := False, rv_ports := []\<rparr>, map close_port opened, Some e)
                 | None \<Rightarrow> (sv\<lparr>rv_running := True, rv_ports := opened\<rparr>, [], None))))"

definition rtu_stop :: "rtu_server \<Rightarrow> rtu_server \<times> rtu_port list" where
  "rtu_stop sv =
     (if \<not> rv_running sv then (sv, [])
      else (sv\<lparr>rv_running := False, rv_ports := []\<rparr>, map (close_port \<circ> stop_requested) (rv_ports sv)))"

section \<open>The composite\<close>

text \<open>A transport of the product.\<close>

datatype modbus_transport = Tcp_transport tcp_server | Rtu_transport rtu_server

text \<open>What the operating system answers to the starts.\<close>

record transport_env =
  te_listen :: "tcp_server_config \<Rightarrow> exn option"
  te_open :: "rtu_port_config \<Rightarrow> exn option"
  te_spawn :: "exn option"

definition transport_start ::
    "transport_env \<Rightarrow> modbus_transport \<Rightarrow> modbus_transport \<times> exn option" where
  "transport_start env t = (case t of
     Tcp_transport sv \<Rightarrow> (let (sv', e) = tcp_start (te_listen env) sv in (Tcp_transport sv', e))
   | Rtu_transport sv \<Rightarrow>
       (let (sv', closed, e) = rtu_start (te_open env) (te_spawn env) sv in (Rtu_transport sv', e)))"

definition transport_stop :: "modbus_transport \<Rightarrow> modbus_transport" where
  "transport_stop t = (case t of
     Tcp_transport sv \<Rightarrow> Tcp_transport (tcp_stop sv)
   | Rtu_transport sv \<Rightarrow> Rtu_transport (fst (rtu_stop sv)))"

definition transport_running :: "modbus_transport \<Rightarrow> bool" where
  "transport_running t = (case t of Tcp_transport sv \<Rightarrow> ts_running sv | Rtu_transport sv \<Rightarrow> rv_running sv)"

record 't modbus_server =
  sv_transports :: "'t list"
  sv_started :: nat

definition server_add :: "'t modbus_server \<Rightarrow> 't option \<Rightarrow> 't modbus_server result" where
  "server_add sv t = (case t of
     None \<Rightarrow> Inl (Invalid_argument ''Modbus transport is null'')
   | Some x \<Rightarrow>
       if sv_started sv \<noteq> 0 then Inl (Logic_error ''cannot add a running Modbus transport'')
       else Inr (sv\<lparr>sv_transports := sv_transports sv @ [x]\<rparr>))"

text \<open>The loop of \<^verbatim>\<open>stop()\<close>: backwards from the last started transport.\<close>

fun stop_loop :: "('t \<Rightarrow> 't) \<Rightarrow> nat \<Rightarrow> 't list \<Rightarrow> 't list" where
  "stop_loop stop 0 ts = ts"
| "stop_loop stop (Suc n) ts = stop_loop stop n (ts[n := stop (ts ! n)])"

definition server_stop :: "('t \<Rightarrow> 't) \<Rightarrow> 't modbus_server \<Rightarrow> 't modbus_server" where
  "server_stop stop sv =
     sv\<lparr>sv_transports := stop_loop stop (sv_started sv) (sv_transports sv), sv_started := 0\<rparr>"

text \<open>The loop of \<^verbatim>\<open>start()\<close> from the transport \<open>n\<close> on: it ends at the first failure.\<close>

function start_loop ::
    "('t \<Rightarrow> 't \<times> exn option) \<Rightarrow> nat \<Rightarrow> 't list \<Rightarrow> nat \<times> 't list \<times> exn option" where
  "start_loop start n ts =
     (if n \<ge> length ts then (n, ts, None)
      else (case start (ts ! n) of
          (t, Some e) \<Rightarrow> (n, ts[n := t], Some e)
        | (t, None) \<Rightarrow> start_loop start (n + 1) (ts[n := t])))"
  by pat_completeness auto
termination
  by (relation "measure (\<lambda>(start, n, ts). length ts - n)") auto

declare start_loop.simps [simp del]

definition server_start ::
    "('t \<Rightarrow> 't \<times> exn option) \<Rightarrow> ('t \<Rightarrow> 't) \<Rightarrow> 't modbus_server \<Rightarrow> 't modbus_server \<times> exn option" where
  "server_start start stop sv =
     (if sv_started sv \<noteq> 0 then (sv, None)
      else (case start_loop start 0 (sv_transports sv) of
          (n, ts, None) \<Rightarrow> (sv\<lparr>sv_transports := ts, sv_started := n\<rparr>, None)
        | (n, ts, Some e) \<Rightarrow>
            (server_stop stop (sv\<lparr>sv_transports := ts, sv_started := n\<rparr>), Some e)))"

section \<open>The contract of a transport\<close>

text \<open>A failed start leaves the transport stopped, a successful one running; stopping stops it.\<close>

locale transport =
  fixes start :: "'t \<Rightarrow> 't \<times> exn option" and stop :: "'t \<Rightarrow> 't" and running :: "'t \<Rightarrow> bool"
  assumes start_running: "start t = (t', None) \<Longrightarrow> running t'"
    and start_failed: "\<not> running t \<Longrightarrow> start t = (t', Some e) \<Longrightarrow> \<not> running t'"
    and stop_stops: "\<not> running (stop t)"
begin

lemma length_stop_loop [simp]: "length (stop_loop stop n ts) = length ts"
  by (induction n arbitrary: ts) simp_all

lemma stop_loop_stops:
  "n \<le> length ts \<Longrightarrow> i < length ts \<Longrightarrow> i < n \<or> \<not> running (ts ! i) \<Longrightarrow>
   \<not> running (stop_loop stop n ts ! i)"
proof (induction n arbitrary: ts)
  case 0
  then show ?case by simp
next
  case (Suc n)
  then show ?case
    using Suc.IH [of "ts[n := stop (ts ! n)]"] stop_stops by (cases "i = n") auto
qed

lemma stop_loop_all:
  assumes "n \<le> length ts" "\<forall>i. n \<le> i \<and> i < length ts \<longrightarrow> \<not> running (ts ! i)"
  shows "list_all (Not \<circ> running) (stop_loop stop n ts)"
proof -
  have "\<not> running (stop_loop stop n ts ! i)" if "i < length ts" for i
    using stop_loop_stops [OF assms(1) that] assms(2) that by (meson not_le)
  then show ?thesis by (simp add: list_all_length)
qed

lemma start_loop_spec:
  assumes "n \<le> length ts" "\<forall>i < n. running (ts ! i)" "\<forall>i. n \<le> i \<and> i < length ts \<longrightarrow> \<not> running (ts ! i)"
    "start_loop start n ts = (m, us, e)"
  shows "length us = length ts \<and> m \<le> length ts \<and> (\<forall>i < m. running (us ! i)) \<and>
    (\<forall>i. m \<le> i \<and> i < length ts \<longrightarrow> \<not> running (us ! i)) \<and> (e = None \<longrightarrow> m = length ts)"
  using assms
proof (induction "length ts - n" arbitrary: n ts)
  case 0
  then have "m = n" "us = ts" "e = None" by (simp_all add: start_loop.simps [of start n])
  then show ?case using 0 by simp
next
  case (Suc k)
  then have n: "n < length ts" by simp
  obtain t f where s: "start (ts ! n) = (t, f)" by fastforce
  show ?case
  proof (cases f)
    case None
    have l: "start_loop start (n + 1) (ts[n := t]) = (m, us, e)"
      using Suc.prems(4) n s None by (simp add: start_loop.simps [of start n])
    have r: "\<forall>i < n + 1. running (ts[n := t] ! i)"
      using Suc.prems(2) n start_running [of "ts ! n" t] s None by (auto simp: nth_list_update less_Suc_eq)
    have u: "\<forall>i. n + 1 \<le> i \<and> i < length (ts[n := t]) \<longrightarrow> \<not> running (ts[n := t] ! i)"
      using Suc.prems(3) by simp
    show ?thesis
      using Suc.hyps(1) [OF _ _ r u l] Suc.hyps(2) n by simp
  next
    case (Some x)
    then have eq: "m = n \<and> us = ts[n := t] \<and> e = Some x"
      using Suc.prems(4) n s by (auto simp: start_loop.simps [of start n])
    have "\<not> running t" using start_failed [of "ts ! n" t x] Suc.prems(3) n s Some by simp
    then show ?thesis using Suc.prems(1-3) n eq by (simp add: nth_list_update)
  qed
qed

text \<open>The composite starts all of its transports or none.\<close>

lemma server_start_all_or_none:
  assumes "sv_started sv = 0" "\<forall>t \<in> set (sv_transports sv). \<not> running t"
    "server_start start stop sv = (sv', e)"
  shows "length (sv_transports sv') = length (sv_transports sv) \<and>
    (if e = None then sv_started sv' = length (sv_transports sv) \<and> list_all running (sv_transports sv')
     else sv_started sv' = 0 \<and> list_all (Not \<circ> running) (sv_transports sv'))"
proof -
  obtain m us f where l: "start_loop start 0 (sv_transports sv) = (m, us, f)" by (rule prod_cases3)
  have spec: "length us = length (sv_transports sv)" "m \<le> length us" "\<forall>i < m. running (us ! i)"
    "\<forall>i. m \<le> i \<and> i < length us \<longrightarrow> \<not> running (us ! i)" "f = None \<longrightarrow> m = length us"
    using start_loop_spec [OF _ _ _ l] assms(2) by auto
  show ?thesis
  proof (cases f)
    case None
    with assms l have "sv' = sv\<lparr>sv_transports := us, sv_started := m\<rparr>" "e = None"
      by (simp_all add: server_start_def)
    with spec None show ?thesis by (simp add: list_all_length)
  next
    case (Some x)
    with assms l have "sv' = server_stop stop (sv\<lparr>sv_transports := us, sv_started := m\<rparr>)" "e = Some x"
      by (simp_all add: server_start_def)
    with spec show ?thesis
      using stop_loop_all [of m us] by (simp add: server_stop_def)
  qed
qed

lemma server_stop_stops:
  assumes "sv_started sv \<le> length (sv_transports sv)"
    "\<forall>i. sv_started sv \<le> i \<and> i < length (sv_transports sv) \<longrightarrow> \<not> running (sv_transports sv ! i)"
  shows "list_all (Not \<circ> running) (sv_transports (server_stop stop sv))"
  using stop_loop_all [OF assms] by (simp add: server_stop_def)

end

section \<open>The transports implement the contract\<close>

lemma tcp_start_running: "tcp_start listen sv = (sv', None) \<Longrightarrow> ts_running sv'"
  by (auto simp: tcp_start_def Let_def split: if_splits option.splits)

lemma tcp_start_failed: "tcp_start listen sv = (sv', Some e) \<Longrightarrow> \<not> ts_running sv'"
  by (auto simp: tcp_start_def Let_def split: if_splits option.splits)

lemma tcp_stop_stops: "\<not> ts_running (tcp_stop sv)"
  by (simp add: tcp_stop_def tcp_stop_begin_def tcp_stop_finish_def)

lemma rtu_start_running: "rtu_start device_open spawn sv = (sv', closed, None) \<Longrightarrow> rv_running sv'"
  by (auto simp: rtu_start_def Let_def split: if_splits option.splits prod.splits)

lemma rtu_start_failed:
  "rtu_start device_open spawn sv = (sv', closed, Some e) \<Longrightarrow> \<not> rv_running sv' \<and> rv_ports sv' = []"
  by (auto simp: rtu_start_def Let_def split: if_splits option.splits prod.splits)

lemma rtu_stop_stops: "\<not> rv_running (fst (rtu_stop sv))"
  by (simp add: rtu_stop_def)

interpretation product: transport "transport_start env" transport_stop transport_running for env
proof
  fix t t' e
  show "transport_start env t = (t', None) \<Longrightarrow> transport_running t'"
    by (auto simp: transport_start_def transport_running_def Let_def
        dest: tcp_start_running rtu_start_running split: modbus_transport.splits prod.splits)
  show "\<not> transport_running t \<Longrightarrow> transport_start env t = (t', Some e) \<Longrightarrow> \<not> transport_running t'"
    by (auto simp: transport_start_def transport_running_def Let_def
        dest: tcp_start_failed rtu_start_failed split: modbus_transport.splits prod.splits)
  show "\<not> transport_running (transport_stop t)"
    by (simp add: transport_stop_def transport_running_def tcp_stop_stops rtu_stop_stops
        split: modbus_transport.split)
qed

lemma open_ports_active:
  "list_all pt_active opened \<Longrightarrow> open_ports device_open opened configs = (ports, e) \<Longrightarrow>
   list_all pt_active ports \<and> (e = None \<longrightarrow> map pt_config ports = map pt_config opened @ configs)"
proof (induction configs arbitrary: opened)
  case Nil
  then show ?case by auto
next
  case (Cons c configs)
  have o: "list_all pt_active (opened @ [opened_port c])" "pt_config (opened_port c) = c"
    using Cons.prems(1) by (simp_all add: opened_port_def)
  show ?case
    using Cons.prems(1,2) Cons.IH [OF o(1)] o(2) by (auto split: if_splits option.splits)
qed

text \<open>
  A server with a TCP transport and two serial ports, the second of which cannot be opened.
\<close>

definition example_port :: "string \<Rightarrow> rtu_port_config" where
  "example_port device = \<lparr>pc_device = device, pc_baud_rate = 19200, pc_data_bits = 8,
     pc_parity = Parity_even, pc_stop_bits = 1, pc_unit_id = 7\<rparr>"

definition example_rtu :: rtu_server where
  "example_rtu = \<lparr>rv_configs = [example_port ''ttyPS1'', example_port ''ttyPS2''],
     rv_running = False, rv_ports = []\<rparr>"

definition example_open :: "rtu_port_config \<Rightarrow> exn option" where
  "example_open config = (if pc_device config = ''ttyPS2'' then Some (Runtime_error ''busy'') else None)"

definition example_env :: transport_env where
  "example_env = \<lparr>te_listen = (\<lambda>_. None), te_open = example_open, te_spawn = None\<rparr>"

definition example_server :: "modbus_transport modbus_server" where
  "example_server = \<lparr>sv_transports =
     [Tcp_transport (new_tcp_server \<lparr>tc_bind_address = ''0.0.0.0'', tc_port = 502,
        tc_maximum_clients = 4, tc_unit_id = 1\<rparr>), Rtu_transport example_rtu], sv_started = 0\<rparr>"

lemmas example_server_defs = example_port_def example_rtu_def example_open_def example_env_def
  example_server_def new_tcp_server_def

text \<open>
  Starting the Modbus server is all or nothing: from stopped transports it ends with every TCP
  and RTU transport running, or, when any of them cannot start, reports the failure and leaves
  every transport stopped.
\<close>

theorem modbus_start_all_or_none:
  assumes "sv_started sv = 0" "list_all (Not \<circ> transport_running) (sv_transports sv)"
    "server_start (transport_start env) transport_stop sv = (sv', e)"
  shows "length (sv_transports sv') = length (sv_transports sv) \<and>
    (if e = None
     then sv_started sv' = length (sv_transports sv) \<and> list_all transport_running (sv_transports sv')
     else sv_started sv' = 0 \<and> list_all (Not \<circ> transport_running) (sv_transports sv'))"
proof (rule product.server_start_all_or_none [OF assms(1) _ assms(3)])
  show "\<forall>t \<in> set (sv_transports sv). \<not> transport_running t" using assms(2) by (simp add: list_all_iff)
qed

theorem modbus_start_all_or_none_witness:
  "\<exists>e. snd (server_start (transport_start example_env) transport_stop example_server) = Some e \<and>
     list_all (Not \<circ> transport_running)
       (sv_transports (fst (server_start (transport_start example_env) transport_stop example_server)))"
proof -
  obtain sv' e where s: "server_start (transport_start example_env) transport_stop example_server = (sv', e)"
    by fastforce
  have "e \<noteq> None"
    using s by (auto simp: example_server_defs server_start_def start_loop.simps transport_start_def
        tcp_start_def rtu_start_def)
  moreover have "sv_started example_server = 0"
    "list_all (Not \<circ> transport_running) (sv_transports example_server)"
    by (simp_all add: example_server_defs transport_running_def)
  ultimately show ?thesis
    using modbus_start_all_or_none [of example_server example_env sv' e] s by auto
qed

text \<open>
  A failed start of the RTU server leaves no serial device reserved: every port it had opened is
  closed again, and a successful start has opened exactly the configured ports.
\<close>

theorem rtu_start_releases_devices:
  assumes "rtu_start device_open spawn sv = (sv', closed, e)" "\<not> rv_running sv"
  shows "if e = None then map pt_config (rv_ports sv') = rv_configs sv \<and> list_all pt_active (rv_ports sv')
    else rv_ports sv' = [] \<and> \<not> rv_running sv' \<and> open_devices closed = []"
proof -
  have c: "open_devices (map close_port ps @ map close_port qs) = []" for ps qs
    by (auto simp: open_devices_def filter_empty_conv)
  show ?thesis
    using assms c [of _ "[]"] c open_ports_active [of "[]" device_open "rv_configs sv"]
    by (auto simp: rtu_start_def Let_def split: if_splits option.splits prod.splits)
qed

theorem rtu_start_releases_devices_witness:
  "snd (snd (rtu_start example_open None example_rtu)) \<noteq> None \<and>
   open_devices (fst (snd (rtu_start example_open None example_rtu))) = []"
proof -
  obtain sv' closed e where s: "rtu_start example_open None example_rtu = (sv', closed, e)"
    by (rule prod_cases3)
  have "e \<noteq> None" "\<not> rv_running example_rtu"
    using s by (auto simp: example_server_defs rtu_start_def)
  then show ?thesis
    using rtu_start_releases_devices [of example_open None example_rtu sv' closed e] s by simp
qed

end
