(* ===== verification/Data_Outbox.thy ===== *)
theory Data_Outbox
  imports Datalog_Content Ledger_Store
begin

text \<open>
  The durable outbox of the data sender (\<^verbatim>\<open>common/mnc/datalogger/outbox_repository.cpp\<close>): a SQLite
  manifest of artifacts, deliveries and watermarks, and one immutable payload file per artifact.
  The SQL statements of the source are translated to operations on the tables; constraints and
  cascading deletes are those of its schema. What the environment decides is the record
  \<open>outbox_io\<close>: whether a statement, a write, a removal or a read fails, and the free space. A failed
  transaction is rolled back; files are not. SHA-256 is the parameter \<open>sha\<close>. Sizes and times are
  integers; the differences of sizes are only formed where they are not negative.
\<close>

section \<open>State\<close>

datatype delivery_state =
    D_pending | D_retry_wait | D_blocked | D_succeeded | D_discarded | D_in_flight

datatype artifact_state =
    A_pending | A_partially_delivered | A_blocked | A_succeeded | A_local_only | A_missing_payload

datatype delivery_disposition = Disposition_succeeded | Disposition_retryable | Disposition_blocked

record delivery_result =
  rs_disposition :: delivery_disposition
  rs_remote_result :: string
  rs_sanitized_error :: string

record queued_delivery =
  qd_artifact_id :: string
  qd_channel_id :: string
  qd_state :: delivery_state
  qd_attempt_count :: u32
  qd_next_attempt :: int
  qd_last_attempt :: int
  qd_remote_result :: string
  qd_last_error :: string

text \<open>The rows of the tables.\<close>

record artifact_row =
  at_id :: string
  at_job_id :: string
  at_job_revision :: int
  at_filename :: string
  at_mime_type :: string
  at_format :: string
  at_checksum :: string
  at_size :: int
  at_start :: int
  at_end :: int
  at_generated_at :: int
  at_created_at :: int
  at_local_only :: bool
  at_payload_present :: bool
  at_snapshot_json :: string
  at_recovery_error :: string
  at_delete_pending :: bool

record delivery_row =
  dy_artifact_id :: string
  dy_channel_id :: string
  dy_state :: delivery_state
  dy_attempts :: int
  dy_next :: int
  dy_last :: int
  dy_remote_result :: string
  dy_last_error :: string

record job_watermark =
  wm_job_id :: string
  wm_revision :: u64
  wm_completed_through :: int

record audit_entry =
  ae_artifact_id :: string
  ae_action :: string
  ae_occurred_at :: int
  ae_detail :: string

record outbox_db =
  db_artifacts :: "artifact_row list"
  db_deliveries :: "delivery_row list"
  db_watermarks :: "(job_watermark \<times> int) list"
  db_audit :: "audit_entry list"

record outbox_policy =
  op_maximum_bytes :: int
  op_minimum_free :: int
  op_retention :: int

text \<open>A file is in the directory \<^verbatim>\<open>archive\<close> (\<open>True\<close>) or \<^verbatim>\<open>outbox\<close> (\<open>False\<close>).\<close>

type_synonym file_key = "bool \<times> string"

record outbox =
  ox_db :: outbox_db
  ox_files :: "(file_key \<times> string) list"
  ox_policy :: outbox_policy
  ox_initialized :: bool

text \<open>How writing a payload ends: before, while or after the temporary file is renamed.\<close>

datatype write_outcome = Write_ok | Create_failed | Write_failed string | Sync_failed string

record outbox_io =
  io_inspect :: bool
  io_available :: int
  io_write :: write_outcome
  io_db :: "string \<Rightarrow> exn option"
  io_constraint :: exn
  io_remove :: "file_key \<Rightarrow> bool"
  io_read :: "file_key \<Rightarrow> bool"
  io_sync :: "exn option"

section \<open>Names\<close>

definition name_char :: "char \<Rightarrow> bool" where
  "name_char c \<longleftrightarrow> is_alnum c \<or> c = CHR ''-'' \<or> c = CHR ''_''"

definition safe_filename :: "string \<Rightarrow> bool" where
  "safe_filename s =
     (if s = [] \<or> length s > 240 \<or> hd s = CHR ''.'' \<or> s = ''.'' \<or> s = ''..'' then False
      else list_all (\<lambda>c. name_char c \<or> c = CHR ''.'') s)"

definition safe_identity :: "string \<Rightarrow> bool" where
  "safe_identity s = (if s = [] \<or> length s > 160 then False else list_all name_char s)"

text \<open>\<^verbatim>\<open>contains\<close>: a text occurs in another.\<close>

fun contains_text :: "string \<Rightarrow> string \<Rightarrow> bool" where
  "contains_text s [] = (s = [])"
| "contains_text s (c # t) = (take (length s) (c # t) = s \<or> contains_text s t)"

abbreviation temporary_name :: "string \<Rightarrow> bool" where
  "temporary_name \<equiv> contains_text ''.tmp.''"

definition extension_of :: "string \<Rightarrow> string" where
  "extension_of filename =
     (if CHR ''.'' \<in> set filename then rev (takeWhile (\<lambda>c. c \<noteq> CHR ''.'') (rev filename)) else [])"

fun sanitize_chars :: "nat \<Rightarrow> string \<Rightarrow> string" where
  "sanitize_chars n [] = []"
| "sanitize_chars 0 (c # s) = []"
| "sanitize_chars (Suc n) (c # s) =
     (if c = CHR 0x0D \<or> c = CHR 0x0A \<or> c = CHR 0x09 then CHR '' '' # sanitize_chars n s
      else if (of_char c :: int) \<ge> 32 \<and> of_char c \<noteq> (127 :: int) then c # sanitize_chars n s
      else sanitize_chars (Suc n) s)"

definition sanitize_result :: "string \<Rightarrow> string" where
  "sanitize_result value = sanitize_chars 1024 value"

definition payload_path :: "bool \<Rightarrow> string \<Rightarrow> file_key datalog_result" where
  "payload_path local_only filename =
     (if \<not> safe_filename filename then Inl (Other_error (Invalid_argument ''outbox filename is unsafe''))
      else Inr (local_only, filename))"

section \<open>Queries\<close>

definition find_artifact :: "outbox_db \<Rightarrow> string \<Rightarrow> artifact_row option" where
  "find_artifact db aid = find (\<lambda>a. at_id a = aid) (db_artifacts db)"

text \<open>Of the artifacts not marked for deletion.\<close>

definition live_artifact :: "outbox_db \<Rightarrow> string \<Rightarrow> artifact_row option" where
  "live_artifact db aid = find (\<lambda>a. at_id a = aid \<and> \<not> at_delete_pending a) (db_artifacts db)"

definition deliveries_of :: "outbox_db \<Rightarrow> string \<Rightarrow> delivery_row list" where
  "deliveries_of db aid = filter (\<lambda>d. dy_artifact_id d = aid) (db_deliveries db)"

definition final_state :: "delivery_state \<Rightarrow> bool" where
  "final_state s \<longleftrightarrow> s = D_succeeded \<or> s = D_discarded"

definition all_succeeded :: "outbox_db \<Rightarrow> string \<Rightarrow> bool" where
  "all_succeeded db aid \<longleftrightarrow>
     deliveries_of db aid \<noteq> [] \<and> list_all (\<lambda>d. dy_state d = D_succeeded) (deliveries_of db aid)"

definition update_deliveries ::
    "(delivery_row \<Rightarrow> bool) \<Rightarrow> (delivery_row \<Rightarrow> delivery_row) \<Rightarrow> outbox_db \<Rightarrow> outbox_db" where
  "update_deliveries P f db = db\<lparr>db_deliveries := map (\<lambda>d. if P d then f d else d) (db_deliveries db)\<rparr>"

definition update_artifacts ::
    "(artifact_row \<Rightarrow> bool) \<Rightarrow> (artifact_row \<Rightarrow> artifact_row) \<Rightarrow> outbox_db \<Rightarrow> outbox_db" where
  "update_artifacts P f db = db\<lparr>db_artifacts := map (\<lambda>a. if P a then f a else a) (db_artifacts db)\<rparr>"

text \<open>\<^verbatim>\<open>DELETE FROM artifacts\<close> with its cascade.\<close>

definition delete_artifacts :: "(artifact_row \<Rightarrow> bool) \<Rightarrow> outbox_db \<Rightarrow> outbox_db" where
  "delete_artifacts P db = db
     \<lparr>db_artifacts := filter (\<lambda>a. \<not> P a) (db_artifacts db),
      db_deliveries := filter (\<lambda>d. \<not> list_ex (\<lambda>a. P a \<and> at_id a = dy_artifact_id d) (db_artifacts db))
        (db_deliveries db)\<rparr>"

text \<open>\<^verbatim>\<open>INSERT INTO artifacts\<close>: the identifier is the primary key and the filename is unique.\<close>

definition insert_artifact :: "outbox_io \<Rightarrow> artifact_row \<Rightarrow> outbox_db \<Rightarrow> outbox_db result" where
  "insert_artifact io row db =
     (if list_ex (\<lambda>a. at_id a = at_id row \<or> at_filename a = at_filename row) (db_artifacts db)
      then Inl (io_constraint io)
      else Inr (db\<lparr>db_artifacts := db_artifacts db @ [row]\<rparr>))"

fun insert_deliveries :: "outbox_io \<Rightarrow> string \<Rightarrow> string list \<Rightarrow> outbox_db \<Rightarrow> outbox_db result" where
  "insert_deliveries io aid [] db = Inr db"
| "insert_deliveries io aid (chan # chans) db =
     (if list_ex (\<lambda>d. dy_artifact_id d = aid \<and> dy_channel_id d = chan) (db_deliveries db)
      then Inl (io_constraint io)
      else insert_deliveries io aid chans (db\<lparr>db_deliveries := db_deliveries db @
        [\<lparr>dy_artifact_id = aid, dy_channel_id = chan, dy_state = D_pending, dy_attempts = 0, dy_next = 0,
          dy_last = 0, dy_remote_result = [], dy_last_error = []\<rparr>]\<rparr>))"

section \<open>Files\<close>

definition put_file :: "file_key \<Rightarrow> string \<Rightarrow> outbox \<Rightarrow> outbox" where
  "put_file key body ox = ox\<lparr>ox_files := filter (\<lambda>(k, b). k \<noteq> key) (ox_files ox) @ [(key, body)]\<rparr>"

definition drop_file :: "file_key \<Rightarrow> outbox \<Rightarrow> outbox" where
  "drop_file key ox = ox\<lparr>ox_files := filter (\<lambda>(k, b). k \<noteq> key) (ox_files ox)\<rparr>"

definition atomic_write :: "outbox_io \<Rightarrow> file_key \<Rightarrow> string \<Rightarrow> outbox \<Rightarrow> outbox \<times> unit datalog_result" where
  "atomic_write io key body ox = (case io_write io of
     Write_ok \<Rightarrow> (put_file key body ox, Inr ())
   | Create_failed \<Rightarrow> (ox, Inl (Datalog_error Storage_failure ''cannot create an outbox temporary file''))
   | Write_failed m \<Rightarrow> (ox, Inl (Datalog_error Storage_failure m))
   | Sync_failed m \<Rightarrow> (put_file key body ox, Inl (Datalog_error Storage_failure m)))"

definition read_file :: "outbox_io \<Rightarrow> outbox \<Rightarrow> file_key \<Rightarrow> int \<Rightarrow> string datalog_result" where
  "read_file io ox key expected_size =
     (case (if io_read io key then map_of (ox_files ox) key else None) of
        None \<Rightarrow> Inl (Datalog_error Storage_failure ''artifact payload is unavailable'')
      | Some body \<Rightarrow>
          if int (length body) \<noteq> expected_size
          then Inl (Datalog_error Storage_failure ''artifact payload size does not match its manifest'')
          else Inr body)"

record storage_guard =
  sg_payload_bytes :: int
  sg_maximum_bytes :: int
  sg_available_bytes :: int
  sg_minimum_free_bytes :: int
  sg_generation_allowed :: bool
  sg_blocking_reason :: string

definition payload_bytes :: "outbox \<Rightarrow> int" where
  "payload_bytes ox =
     sum_list (map (\<lambda>(k, body). int (length body)) (filter (\<lambda>((dir, name), body). \<not> temporary_name name) (ox_files ox)))"

definition storage_status :: "outbox_io \<Rightarrow> outbox \<Rightarrow> storage_guard datalog_result" where
  "storage_status io ox =
     (if \<not> io_inspect io
      then Inl (Datalog_error Storage_failure ''cannot inspect Data Sender payload storage'')
      else
        let base = \<lparr>sg_payload_bytes = payload_bytes ox, sg_maximum_bytes = op_maximum_bytes (ox_policy ox),
              sg_available_bytes = io_available io, sg_minimum_free_bytes = op_minimum_free (ox_policy ox),
              sg_generation_allowed = True, sg_blocking_reason = []\<rparr>
        in Inr (if sg_payload_bytes base \<ge> sg_maximum_bytes base
          then base\<lparr>sg_generation_allowed := False,
            sg_blocking_reason := ''combined outbox/archive quota reached''\<rparr>
          else if sg_available_bytes base \<le> sg_minimum_free_bytes base
          then base\<lparr>sg_generation_allowed := False,
            sg_blocking_reason := ''filesystem free-space reserve reached''\<rparr>
          else base))"

section \<open>Queueing an artifact\<close>

fun json_escaped :: "string \<Rightarrow> string" where
  "json_escaped [] = []"
| "json_escaped (c # s) =
     (if c = CHR 0x22 then [CHR 0x5C, CHR 0x22] else if c = CHR 0x5C then [CHR 0x5C, CHR 0x5C]
      else if c = CHR 0x0A then [CHR 0x5C, CHR ''n''] else if c = CHR 0x0D then [CHR 0x5C, CHR ''r'']
      else if c = CHR 0x09 then [CHR 0x5C, CHR ''t'']
      else if (of_char c :: int) \<ge> 32 then [c] else []) @ json_escaped s"

abbreviation json_text :: "string \<Rightarrow> string" where
  "json_text s \<equiv> quoted (json_escaped s)"

definition job_snapshot :: "generated_dataset \<Rightarrow> string list \<Rightarrow> bool \<Rightarrow> string" where
  "job_snapshot dataset chans local_only =
     ''{'' @ quoted ''schema'' @ '':'' @ quoted ''mnc.meter.datalog.job-snapshot.v1'' @ '','' @
     quoted ''job_id'' @ '':'' @ json_text (gd_job_id dataset) @ '','' @
     quoted ''job_revision'' @ '':'' @ quoted (u64_string (gd_job_revision dataset)) @ '','' @
     quoted ''source_period'' @ '':'' @ json_text (period_name (gd_source_period dataset)) @ '','' @
     quoted ''format'' @ '':'' @ json_text (content_format_name (gd_format dataset)) @ '','' @
     quoted ''local_only'' @ '':'' @ json_bool local_only @ '','' @
     quoted ''channels'' @ '':['' @ separated '','' (map json_text chans) @ ''],'' @
     quoted ''columns'' @ '':['' @ separated '','' (map (json_text \<circ> cl_id) (gd_columns dataset)) @ '']}''"

definition content_acceptable :: "(string \<Rightarrow> string) \<Rightarrow> generated_dataset \<Rightarrow> generated_content \<Rightarrow> bool" where
  "content_acceptable sha dataset content \<longleftrightarrow>
     \<not> (\<not> safe_identity (gd_artifact_id dataset) \<or> gc_artifact_id content \<noteq> gd_artifact_id dataset \<or>
        \<not> safe_filename (gc_filename content) \<or>
        gc_filename content \<noteq> gd_artifact_id dataset @ ''.'' @ gc_extension content \<or>
        (gc_extension content \<noteq> ''json'' \<and> gc_extension content \<noteq> ''csv'') \<or>
        sha (gc_body content) \<noteq> gc_sha256 content \<or> length (gc_sha256 content) \<noteq> 64)"

definition same_manifest :: "artifact_row \<Rightarrow> generated_dataset \<Rightarrow> generated_content \<Rightarrow> bool" where
  "same_manifest a dataset content \<longleftrightarrow>
     at_filename a = gc_filename content \<and> at_checksum a = gc_sha256 content \<and>
     at_size a = int (length (gc_body content)) \<and> at_start a = w_start (gd_window dataset) \<and>
     at_end a = w_end (gd_window dataset) \<and> at_job_revision a = sint (gd_job_revision dataset)"

definition manifest_row ::
    "generated_dataset \<Rightarrow> generated_content \<Rightarrow> string list \<Rightarrow> bool \<Rightarrow> int \<Rightarrow> artifact_row" where
  "manifest_row dataset content chans local_only revision =
     \<lparr>at_id = gd_artifact_id dataset, at_job_id = gd_job_id dataset, at_job_revision = revision,
      at_filename = gc_filename content, at_mime_type = gc_mime_type content,
      at_format = gc_extension content, at_checksum = gc_sha256 content,
      at_size = int (length (gc_body content)), at_start = w_start (gd_window dataset),
      at_end = w_end (gd_window dataset), at_generated_at = gd_generated_at dataset,
      at_created_at = gd_generated_at dataset, at_local_only = local_only, at_payload_present = True,
      at_snapshot_json = job_snapshot dataset chans local_only, at_recovery_error = [],
      at_delete_pending = False\<rparr>"

text \<open>The transaction that inserts the manifest and its deliveries.\<close>

definition insert_manifest ::
    "outbox_io \<Rightarrow> generated_dataset \<Rightarrow> generated_content \<Rightarrow> string list \<Rightarrow> bool \<Rightarrow> outbox_db \<Rightarrow> outbox_db result" where
  "insert_manifest io dataset content chans local_only db =
     bind_result (bind_u64 (gd_job_revision dataset)) (\<lambda>revision.
     bind_result (insert_artifact io (manifest_row dataset content chans local_only revision) db) (\<lambda>db1.
     bind_result (insert_deliveries io (gd_artifact_id dataset) chans db1) (\<lambda>db2.
       (case io_db io ''insert manifest'' of Some e \<Rightarrow> Inl e | None \<Rightarrow> Inr db2))))"

definition guard_refuses :: "storage_guard \<Rightarrow> int \<Rightarrow> bool" where
  "guard_refuses guard bytes \<longleftrightarrow>
     \<not> sg_generation_allowed guard \<or> bytes > sg_maximum_bytes guard - sg_payload_bytes guard \<or>
     sg_available_bytes guard \<le> sg_minimum_free_bytes guard \<or>
     bytes > sg_available_bytes guard - sg_minimum_free_bytes guard"

text \<open>The checks of \<^verbatim>\<open>enqueue\<close>, in order, up to the look-up of the artifact.\<close>

definition enqueue_refused ::
    "(string \<Rightarrow> string) \<Rightarrow> outbox_io \<Rightarrow> generated_dataset \<Rightarrow> generated_content \<Rightarrow> string list \<Rightarrow> bool \<Rightarrow>
     outbox \<Rightarrow> datalog_exn option" where
  "enqueue_refused sha io dataset content chans local_only ox =
     (if \<not> ox_initialized ox
      then Some (Other_error (Logic_error ''outbox repository is not initialized''))
      else if \<not> content_acceptable sha dataset content
      then Some (Datalog_error Storage_failure ''generated artifact identity or checksum is invalid'')
      else if local_only \<noteq> (chans = [])
      then Some (Datalog_error Invalid_configuration ''artifact destination is invalid'')
      else if \<not> list_all safe_identity chans \<or> \<not> distinct chans
      then Some (Datalog_error Invalid_configuration ''artifact channel selection is invalid'')
      else map_option Other_error (io_db io ''select existing''))"

text \<open>The rest of \<^verbatim>\<open>enqueue\<close> for an artifact that has no manifest yet.\<close>

definition store_artifact ::
    "outbox_io \<Rightarrow> generated_dataset \<Rightarrow> generated_content \<Rightarrow> string list \<Rightarrow> bool \<Rightarrow>
     outbox \<Rightarrow> outbox \<times> unit datalog_result" where
  "store_artifact io dataset content chans local_only ox =
     (case storage_status io ox of
        Inl e \<Rightarrow> (ox, Inl e)
      | Inr guard \<Rightarrow>
          if guard_refuses guard (int (length (gc_body content)))
          then (ox, Inl (Datalog_error Storage_failure
            (if sg_blocking_reason guard = [] then ''artifact would exceed the Data Sender storage guard''
             else sg_blocking_reason guard)))
          else
            let key = (local_only, gc_filename content) in
            if map_of (ox_files ox) key \<noteq> None
            then (ox, Inl (Datalog_error Storage_failure ''unmanifested artifact filename already exists''))
            else (case atomic_write io key (gc_body content) ox of
                (ox1, Inl e) \<Rightarrow> (ox1, Inl e)
              | (ox1, Inr u) \<Rightarrow>
                  (case insert_manifest io dataset content chans local_only (ox_db ox1) of
                     Inl e \<Rightarrow> (ox1, Inl (Other_error e))
                   | Inr db \<Rightarrow> (ox1\<lparr>ox_db := db\<rparr>, Inr ()))))"

definition enqueue ::
    "(string \<Rightarrow> string) \<Rightarrow> outbox_io \<Rightarrow> generated_dataset \<Rightarrow> generated_content \<Rightarrow> string list \<Rightarrow> bool \<Rightarrow>
     outbox \<Rightarrow> outbox \<times> unit datalog_result" where
  "enqueue sha io dataset content chans local_only ox =
     (case enqueue_refused sha io dataset content chans local_only ox of
        Some e \<Rightarrow> (ox, Inl e)
      | None \<Rightarrow>
          (case find_artifact (ox_db ox) (gd_artifact_id dataset) of
             Some a \<Rightarrow>
               if same_manifest a dataset content then (ox, Inr ())
               else (ox, Inl (Datalog_error Storage_failure ''artifact ID conflicts with a different manifest''))
           | None \<Rightarrow> store_artifact io dataset content chans local_only ox))"

section \<open>Deliveries\<close>

fun bytes_le :: "string \<Rightarrow> string \<Rightarrow> bool" where
  "bytes_le [] t = True"
| "bytes_le (c # s) [] = False"
| "bytes_le (c # s) (d # t) = ((of_char c :: int) < of_char d \<or> (c = d \<and> bytes_le s t))"

text \<open>\<^verbatim>\<open>ORDER BY d.next_attempt_ns,d.artifact_id,d.channel_id\<close>.\<close>

definition delivery_before :: "delivery_row \<Rightarrow> delivery_row \<Rightarrow> bool" where
  "delivery_before d e =
     (if dy_next d \<noteq> dy_next e then dy_next d < dy_next e
      else if dy_artifact_id d \<noteq> dy_artifact_id e then bytes_le (dy_artifact_id d) (dy_artifact_id e)
      else bytes_le (dy_channel_id d) (dy_channel_id e))"

definition deliverable :: "outbox_db \<Rightarrow> int \<Rightarrow> delivery_row \<Rightarrow> bool" where
  "deliverable db now d \<longleftrightarrow>
     (case find_artifact db (dy_artifact_id d) of
        None \<Rightarrow> False | Some a \<Rightarrow> at_payload_present a \<and> \<not> at_delete_pending a) \<and>
     dy_state d \<in> {D_pending, D_retry_wait, D_in_flight} \<and> dy_next d \<le> now"

definition due_rows :: "outbox_db \<Rightarrow> int \<Rightarrow> nat \<Rightarrow> delivery_row list" where
  "due_rows db now limit = take limit (sort_by delivery_before (filter (deliverable db now) (db_deliveries db)))"

abbreviation maximum_artifact_list_page :: nat where "maximum_artifact_list_page \<equiv> 500"

definition due :: "outbox_io \<Rightarrow> outbox \<Rightarrow> int \<Rightarrow> nat \<Rightarrow> queued_delivery list datalog_result" where
  "due io ox now limit =
     (if limit = 0 \<or> limit > maximum_artifact_list_page
      then Inl (Other_error (Invalid_argument ''outbox due limit is invalid''))
      else (case io_db io ''select due'' of Some e \<Rightarrow> Inl (Other_error e) | None \<Rightarrow>
        Inr (map (\<lambda>d. \<lparr>qd_artifact_id = dy_artifact_id d, qd_channel_id = dy_channel_id d,
          qd_state = dy_state d, qd_attempt_count = word_of_int (dy_attempts d), qd_next_attempt = dy_next d,
          qd_last_attempt = 0, qd_remote_result = [], qd_last_error = []\<rparr>) (due_rows (ox_db ox) now limit))))"

definition same_delivery :: "delivery_row \<Rightarrow> delivery_row \<Rightarrow> bool" where
  "same_delivery d e \<longleftrightarrow> dy_artifact_id d = dy_artifact_id e \<and> dy_channel_id d = dy_channel_id e"

definition claim_due ::
    "outbox_io \<Rightarrow> int \<Rightarrow> int \<Rightarrow> nat \<Rightarrow> outbox \<Rightarrow> outbox \<times> queued_delivery list datalog_result" where
  "claim_due io now lease_until limit ox =
     (if limit = 0 \<or> limit > maximum_artifact_list_page \<or> lease_until \<le> now
      then (ox, Inl (Other_error (Invalid_argument ''outbox delivery lease is invalid'')))
      else
        let chosen = due_rows (ox_db ox) now limit in
        (case io_db io ''claim'' of
           Some e \<Rightarrow> (ox, Inl (Other_error e))
         | None \<Rightarrow>
             (ox\<lparr>ox_db := update_deliveries (\<lambda>d. list_ex (same_delivery d) chosen)
                (\<lambda>d. d\<lparr>dy_state := D_in_flight, dy_next := lease_until\<rparr>) (ox_db ox)\<rparr>,
              Inr (map (\<lambda>d. \<lparr>qd_artifact_id = dy_artifact_id d, qd_channel_id = dy_channel_id d,
                qd_state = D_in_flight, qd_attempt_count = word_of_int (dy_attempts d),
                qd_next_attempt = lease_until, qd_last_attempt = 0, qd_remote_result = [],
                qd_last_error = []\<rparr>) chosen))))"

definition content_of ::
    "(string \<Rightarrow> string) \<Rightarrow> outbox_io \<Rightarrow> outbox \<Rightarrow> string \<Rightarrow> generated_content datalog_result" where
  "content_of sha io ox aid =
     (case io_db io ''select content'' of Some e \<Rightarrow> Inl (Other_error e) | None \<Rightarrow>
      (case live_artifact (ox_db ox) aid of
         None \<Rightarrow> Inl (Other_error (Out_of_range ''unknown artifact ID''))
       | Some a \<Rightarrow>
           if \<not> at_payload_present a
           then Inl (Datalog_error Storage_failure ''artifact payload is not retained'')
           else
             bind_result (payload_path (at_local_only a) (at_filename a)) (\<lambda>key.
             bind_result (read_file io ox key (at_size a)) (\<lambda>body.
               if sha body \<noteq> at_checksum a
               then Inl (Datalog_error Storage_failure ''artifact payload checksum does not match its manifest'')
               else Inr \<lparr>gc_artifact_id = aid, gc_filename = at_filename a, gc_mime_type = at_mime_type a,
                 gc_extension = at_format a, gc_body = body, gc_sha256 = at_checksum a\<rparr>))))"

text \<open>\<^verbatim>\<open>finalize_completed_locked\<close>: the state and the exception that leaves it.\<close>

definition finalize_completed :: "outbox_io \<Rightarrow> string \<Rightarrow> outbox \<Rightarrow> outbox \<times> datalog_exn option" where
  "finalize_completed io aid ox =
     (case live_artifact (ox_db ox) aid of
        None \<Rightarrow> (ox, None)
      | Some a \<Rightarrow>
          if at_local_only a \<or> \<not> at_payload_present a \<or> \<not> all_succeeded (ox_db ox) aid then (ox, None)
          else (case payload_path False (at_filename a) of
              Inl e \<Rightarrow> (ox, Some e)
            | Inr key \<Rightarrow>
                if \<not> io_remove io key then (ox, None)
                else
                  let ox1 = drop_file key ox in
                  (case io_db io ''finalize'' of
                     Some e \<Rightarrow> (ox1, Some (Other_error e))
                   | None \<Rightarrow>
                       (ox1\<lparr>ox_db := update_artifacts (\<lambda>b. at_id b = aid) (\<lambda>b. b\<lparr>at_payload_present := False\<rparr>)
                          (ox_db ox1)\<rparr>, map_option Other_error (io_sync io)))))"

text \<open>\<^verbatim>\<open>prune_completed_locked\<close>.\<close>

definition completed_before :: "outbox_db \<Rightarrow> int \<Rightarrow> artifact_row \<Rightarrow> bool" where
  "completed_before db cutoff a \<longleftrightarrow>
     \<not> at_local_only a \<and> \<not> at_payload_present a \<and> \<not> at_delete_pending a \<and> all_succeeded db (at_id a) \<and>
     (let latest = Max (set (map dy_last (deliveries_of db (at_id a)))) in latest > 0 \<and> latest \<le> cutoff)"

definition prune_completed :: "outbox_io \<Rightarrow> int \<Rightarrow> outbox \<Rightarrow> outbox \<times> datalog_exn option" where
  "prune_completed io now ox =
     (if now \<le> op_retention (ox_policy ox) then (ox, None)
      else
        let cutoff = now - op_retention (ox_policy ox); db = ox_db ox in
        if filter (completed_before db cutoff) (db_artifacts db) = [] then (ox, None)
        else (case io_db io ''prune'' of
            Some e \<Rightarrow> (ox, Some (Other_error e))
          | None \<Rightarrow>
              (ox\<lparr>ox_db := (delete_artifacts (completed_before db cutoff) db)
                 \<lparr>db_audit := filter (\<lambda>e. \<not> ae_occurred_at e \<le> cutoff) (db_audit db)\<rparr>\<rparr>, None)))"

definition disposition_state :: "delivery_disposition \<Rightarrow> delivery_state" where
  "disposition_state d = (case d of Disposition_succeeded \<Rightarrow> D_succeeded
   | Disposition_retryable \<Rightarrow> D_retry_wait | Disposition_blocked \<Rightarrow> D_blocked)"

definition open_delivery :: "queued_delivery \<Rightarrow> delivery_row \<Rightarrow> bool" where
  "open_delivery q d \<longleftrightarrow> dy_artifact_id d = qd_artifact_id q \<and> dy_channel_id d = qd_channel_id q \<and>
     \<not> final_state (dy_state d)"

definition record_result ::
    "outbox_io \<Rightarrow> queued_delivery \<Rightarrow> delivery_result \<Rightarrow> int \<Rightarrow> int \<Rightarrow> outbox \<Rightarrow> outbox \<times> unit datalog_result" where
  "record_result io q result attempted_at next_attempt ox =
     (let state = disposition_state (rs_disposition result);
          db = update_deliveries (open_delivery q)
            (\<lambda>d. d\<lparr>dy_state := state, dy_attempts := dy_attempts d + 1,
               dy_next := (if state = D_retry_wait then next_attempt else 0), dy_last := attempted_at,
               dy_remote_result := sanitize_result (rs_remote_result result),
               dy_last_error := sanitize_result (rs_sanitized_error result)\<rparr>) (ox_db ox)
      in if length (filter (open_delivery q) (db_deliveries (ox_db ox))) \<noteq> 1
         then (ox, Inl (Other_error (Runtime_error ''delivery is unknown or already finalized'')))
         else (case io_db io ''record'' of
             Some e \<Rightarrow> (ox, Inl (Other_error e))
           | None \<Rightarrow>
               (case finalize_completed io (qd_artifact_id q) (ox\<lparr>ox_db := db\<rparr>) of
                  (ox1, Some e) \<Rightarrow> (ox1, Inl e)
                | (ox1, None) \<Rightarrow>
                    (case prune_completed io attempted_at ox1 of
                       (ox2, Some e) \<Rightarrow> (ox2, Inl e) | (ox2, None) \<Rightarrow> (ox2, Inr ())))))"

section \<open>Administration\<close>

definition reset_delivery :: "int \<Rightarrow> delivery_row \<Rightarrow> delivery_row" where
  "reset_delivery now d = d\<lparr>dy_state := D_pending, dy_next := now, dy_last_error := []\<rparr>"

text \<open>The loop of \<^verbatim>\<open>retry\<close> inside its transaction.\<close>

fun retry_loop :: "int \<Rightarrow> string list \<Rightarrow> outbox_db \<Rightarrow> outbox_db result" where
  "retry_loop now [] db = Inr db"
| "retry_loop now (aid # aids) db =
     (if live_artifact db aid = None then Inl (Out_of_range ''unknown artifact ID'')
      else retry_loop now aids (update_deliveries (\<lambda>d. dy_artifact_id d = aid \<and>
        dy_state d \<in> {D_pending, D_retry_wait, D_blocked}) (reset_delivery now) db))"

definition retry :: "outbox_io \<Rightarrow> string list \<Rightarrow> int \<Rightarrow> outbox \<Rightarrow> outbox \<times> unit datalog_result" where
  "retry io aids now ox =
     (if aids = [] \<or> length aids > 500
      then (ox, Inl (Other_error (Invalid_argument ''artifact retry selection is invalid'')))
      else (case retry_loop now aids (ox_db ox) of
          Inl e \<Rightarrow> (ox, Inl (Other_error e))
        | Inr db \<Rightarrow> (case io_db io ''retry'' of
            Some e \<Rightarrow> (ox, Inl (Other_error e)) | None \<Rightarrow> (ox\<lparr>ox_db := db\<rparr>, Inr ()))))"

definition retry_channel :: "outbox_io \<Rightarrow> string \<Rightarrow> int \<Rightarrow> outbox \<Rightarrow> outbox \<times> unit datalog_result" where
  "retry_channel io chan now ox =
     (if \<not> safe_identity chan
      then (ox, Inl (Other_error (Invalid_argument ''data channel retry identity is invalid'')))
      else (case io_db io ''retry channel'' of
          Some e \<Rightarrow> (ox, Inl (Other_error e))
        | None \<Rightarrow> (ox\<lparr>ox_db := update_deliveries (\<lambda>d. dy_channel_id d = chan \<and> dy_state d = D_blocked)
            (reset_delivery now) (ox_db ox)\<rparr>, Inr ())))"

definition validate_channels :: "outbox_io \<Rightarrow> outbox \<Rightarrow> string list \<Rightarrow> unit datalog_result" where
  "validate_channels io ox available =
     (if \<not> list_all safe_identity available \<or> \<not> distinct available
      then Inl (Other_error (Invalid_argument ''candidate data channel identities are invalid''))
      else (case io_db io ''select channels'' of Some e \<Rightarrow> Inl (Other_error e) | None \<Rightarrow>
        let open_rows = filter (\<lambda>d. live_artifact (ox_db ox) (dy_artifact_id d) \<noteq> None \<and>
              \<not> final_state (dy_state d)) (db_deliveries (ox_db ox));
            missing = filter (\<lambda>c. c \<notin> set available) (sort_by bytes_le (remdups (map dy_channel_id open_rows)))
        in if missing \<noteq> []
           then Inl (Other_error (Runtime_error
             (''data channels cannot be deleted while queued deliveries reference: '' @ separated '', '' missing)))
           else Inr ()))"

record deletion_target =
  dt_id :: string
  dt_filename :: string
  dt_local_only :: bool
  dt_payload_present :: bool
  dt_unsent :: nat

text \<open>A recovered payload without deliveries counts as one unsent delivery.\<close>

definition unsent_count :: "outbox_db \<Rightarrow> artifact_row \<Rightarrow> nat" where
  "unsent_count db a =
     (if \<not> at_local_only a \<and> deliveries_of db (at_id a) = [] then 1
      else length (filter (\<lambda>d. \<not> final_state (dy_state d)) (deliveries_of db (at_id a))))"

definition deletion_target_of :: "outbox_db \<Rightarrow> artifact_row \<Rightarrow> deletion_target" where
  "deletion_target_of db a = \<lparr>dt_id = at_id a, dt_filename = at_filename a, dt_local_only = at_local_only a,
     dt_payload_present = at_payload_present a, dt_unsent = unsent_count db a\<rparr>"

fun deletion_targets :: "bool \<Rightarrow> outbox_db \<Rightarrow> string list \<Rightarrow> deletion_target list datalog_result" where
  "deletion_targets discard_unsent db [] = Inr []"
| "deletion_targets discard_unsent db (aid # aids) =
     (case live_artifact db aid of
        None \<Rightarrow> Inl (Other_error (Out_of_range ''unknown artifact ID''))
      | Some a \<Rightarrow>
          if unsent_count db a \<noteq> 0 \<and> \<not> discard_unsent
          then Inl (Other_error (Runtime_error
            ''deleting unsent artifacts requires discard_unsent confirmation''))
          else bind_result (deletion_targets discard_unsent db aids) (\<lambda>targets.
            Inr (deletion_target_of db a # targets)))"

text \<open>The transaction that discards and marks the targets; the number of discarded deliveries.\<close>

definition discarded_by :: "deletion_target \<Rightarrow> delivery_row \<Rightarrow> bool" where
  "discarded_by t d \<longleftrightarrow> dt_unsent t \<noteq> 0 \<and> dy_artifact_id d = dt_id t \<and> \<not> final_state (dy_state d)"

definition discard_delivery :: "delivery_row \<Rightarrow> delivery_row" where
  "discard_delivery d = d\<lparr>dy_state := D_discarded, dy_next := 0, dy_last_error := ''administrator discarded''\<rparr>"

definition mark_target :: "int \<Rightarrow> deletion_target \<Rightarrow> outbox_db \<Rightarrow> outbox_db" where
  "mark_target now t db =
     (let marked = update_artifacts (\<lambda>a. at_id a = dt_id t) (\<lambda>a. a\<lparr>at_delete_pending := True\<rparr>)
        (update_deliveries (discarded_by t) discard_delivery db)
      in marked\<lparr>db_audit := db_audit marked @ [\<lparr>ae_artifact_id = dt_id t,
        ae_action = (if dt_unsent t = 0 then ''delete'' else ''discard_unsent''), ae_occurred_at = now,
        ae_detail = dt_filename t\<rparr>]\<rparr>)"

fun mark_targets :: "int \<Rightarrow> deletion_target list \<Rightarrow> outbox_db \<Rightarrow> nat \<Rightarrow> outbox_db \<times> nat" where
  "mark_targets now [] db discarded = (db, discarded)"
| "mark_targets now (t # ts) db discarded =
     mark_targets now ts (mark_target now t db)
       (discarded + length (filter (discarded_by t) (db_deliveries db)))"

text \<open>The loop that removes the payloads; it stops at the first failure.\<close>

fun remove_payloads :: "outbox_io \<Rightarrow> deletion_target list \<Rightarrow> outbox \<Rightarrow> outbox \<times> datalog_exn option" where
  "remove_payloads io [] ox = (ox, None)"
| "remove_payloads io (t # ts) ox =
     (if \<not> dt_payload_present t then remove_payloads io ts ox
      else (case payload_path (dt_local_only t) (dt_filename t) of
          Inl e \<Rightarrow> (ox, Some e)
        | Inr key \<Rightarrow>
            if \<not> io_remove io key
            then (ox, Some (Datalog_error Storage_failure ''cannot remove an administratively deleted payload''))
            else remove_payloads io ts (drop_file key ox)))"

record deletion_result =
  dn_deleted :: nat
  dn_discarded :: nat

definition erase_artifacts ::
    "outbox_io \<Rightarrow> string list \<Rightarrow> bool \<Rightarrow> int \<Rightarrow> outbox \<Rightarrow> outbox \<times> deletion_result datalog_result" where
  "erase_artifacts io aids discard_unsent now ox =
     (if aids = [] \<or> length aids > 500
      then (ox, Inl (Other_error (Invalid_argument ''artifact deletion selection is invalid'')))
      else (case deletion_targets discard_unsent (ox_db ox) aids of
          Inl e \<Rightarrow> (ox, Inl e)
        | Inr targets \<Rightarrow>
            (case io_db io ''mark'' of Some e \<Rightarrow> (ox, Inl (Other_error e)) | None \<Rightarrow>
               let (db, discarded) = mark_targets now targets (ox_db ox) 0 in
               (case remove_payloads io targets (ox\<lparr>ox_db := db\<rparr>) of
                  (ox1, Some e) \<Rightarrow> (ox1, Inl e)
                | (ox1, None) \<Rightarrow>
                    (case io_db io ''delete'' of Some e \<Rightarrow> (ox1, Inl (Other_error e)) | None \<Rightarrow>
                       let gone = (\<lambda>a. at_id a \<in> set (map dt_id targets) \<and> at_delete_pending a) in
                       (ox1\<lparr>ox_db := delete_artifacts gone (ox_db ox1)\<rparr>,
                        Inr \<lparr>dn_deleted = length (filter gone (db_artifacts (ox_db ox1))),
                          dn_discarded = discarded\<rparr>))))))"

section \<open>Inspection\<close>

record artifact_summary =
  as_artifact :: artifact_row
  as_state :: artifact_state
  as_delivery_count :: nat
  as_succeeded_count :: nat
  as_blocked_count :: nat

definition damage_errors :: "string list" where
  "damage_errors = [''payload size mismatch'', ''payload cannot be read'', ''payload checksum mismatch'']"

definition count_state :: "delivery_state \<Rightarrow> delivery_row list \<Rightarrow> nat" where
  "count_state s ds = length (filter (\<lambda>d. dy_state d = s) ds)"

definition summary :: "outbox_db \<Rightarrow> artifact_row \<Rightarrow> artifact_summary" where
  "summary db a =
     (let ds = deliveries_of db (at_id a); total = length ds; succeeded = count_state D_succeeded ds;
          blocked = count_state D_blocked ds;
          state = (if (\<not> at_payload_present a \<and> at_recovery_error a \<noteq> []) \<or>
                at_recovery_error a \<in> set damage_errors then A_missing_payload
              else if at_local_only a then A_local_only
              else if total \<noteq> 0 \<and> succeeded = total then A_succeeded
              else if blocked \<noteq> 0 \<or> (total = 0 \<and> at_recovery_error a \<noteq> []) then A_blocked
              else if succeeded \<noteq> 0 then A_partially_delivered
              else A_pending)
      in \<lparr>as_artifact = a, as_state = state, as_delivery_count = total, as_succeeded_count = succeeded,
          as_blocked_count = blocked\<rparr>)"

record artifact_filter =
  af_job_id :: "string option"
  af_state :: "artifact_state option"
  af_start :: "int option"
  af_end :: "int option"
  af_offset :: nat
  af_limit :: nat

definition newer_artifact :: "artifact_row \<Rightarrow> artifact_row \<Rightarrow> bool" where
  "newer_artifact a b =
     (if at_created_at a \<noteq> at_created_at b then at_created_at b < at_created_at a
      else bytes_le (at_id b) (at_id a))"

definition option_all :: "('a \<Rightarrow> bool) \<Rightarrow> 'a option \<Rightarrow> bool" where
  "option_all P x = (case x of None \<Rightarrow> True | Some y \<Rightarrow> P y)"

definition list_artifacts :: "outbox_io \<Rightarrow> outbox \<Rightarrow> artifact_filter \<Rightarrow> artifact_summary list datalog_result" where
  "list_artifacts io ox f =
     (if af_limit f = 0 \<or> af_limit f > maximum_artifact_list_page \<or> af_offset f > 100000
      then Inl (Other_error (Invalid_argument ''artifact list page is invalid''))
      else (case io_db io ''select list'' of Some e \<Rightarrow> Inl (Other_error e) | None \<Rightarrow>
        let rows = sort_by newer_artifact (filter (\<lambda>a. \<not> at_delete_pending a \<and>
              option_all (\<lambda>j. at_job_id a = j) (af_job_id f) \<and> option_all (\<lambda>s. at_end a > s) (af_start f) \<and>
              option_all (\<lambda>e. at_start a < e) (af_end f)) (db_artifacts (ox_db ox)));
            items = filter (\<lambda>i. option_all (\<lambda>s. as_state i = s) (af_state f)) (map (summary (ox_db ox)) rows)
        in Inr (take (af_limit f) (drop (af_offset f) items))))"

definition channel_before :: "delivery_row \<Rightarrow> delivery_row \<Rightarrow> bool" where
  "channel_before d e = bytes_le (dy_channel_id d) (dy_channel_id e)"

definition artifact_detail ::
    "outbox_io \<Rightarrow> outbox \<Rightarrow> string \<Rightarrow> (artifact_summary \<times> queued_delivery list) datalog_result" where
  "artifact_detail io ox aid =
     (case io_db io ''select artifact'' of Some e \<Rightarrow> Inl (Other_error e) | None \<Rightarrow>
      (case live_artifact (ox_db ox) aid of
         None \<Rightarrow> Inl (Other_error (Out_of_range ''unknown artifact ID''))
       | Some a \<Rightarrow> Inr (summary (ox_db ox) a,
           map (\<lambda>d. \<lparr>qd_artifact_id = dy_artifact_id d, qd_channel_id = dy_channel_id d, qd_state = dy_state d,
             qd_attempt_count = word_of_int (dy_attempts d), qd_next_attempt = dy_next d,
             qd_last_attempt = dy_last d, qd_remote_result = dy_remote_result d,
             qd_last_error = dy_last_error d\<rparr>)
             (sort_by channel_before (deliveries_of (ox_db ox) aid)))))"

record content_chunk =
  cc_artifact_id :: string
  cc_filename :: string
  cc_mime_type :: string
  cc_sha256 :: string
  cc_total_size :: int
  cc_offset :: int
  cc_content :: string
  cc_end_of_file :: bool

abbreviation maximum_preview :: int where "maximum_preview \<equiv> 1048576"

definition read_chunk :: "outbox_io \<Rightarrow> outbox \<Rightarrow> string \<Rightarrow> int \<Rightarrow> int \<Rightarrow> content_chunk datalog_result" where
  "read_chunk io ox aid offset maximum_bytes =
     (if maximum_bytes = 0 \<or> maximum_bytes > maximum_preview
      then Inl (Other_error (Invalid_argument ''artifact chunk limit is invalid''))
      else (case io_db io ''select chunk'' of Some e \<Rightarrow> Inl (Other_error e) | None \<Rightarrow>
        (case live_artifact (ox_db ox) aid of
           None \<Rightarrow> Inl (Other_error (Out_of_range ''unknown artifact ID''))
         | Some a \<Rightarrow>
             if \<not> at_payload_present a
             then Inl (Datalog_error Storage_failure ''artifact payload is not retained'')
             else if offset > at_size a
             then Inl (Other_error (Invalid_argument ''artifact chunk offset is beyond end of file''))
             else
               let amount = min maximum_bytes (at_size a - offset) in
               bind_result (payload_path (at_local_only a) (at_filename a)) (\<lambda>key.
                 (case (if io_read io key then map_of (ox_files ox) key else None) of
                    None \<Rightarrow> Inl (Datalog_error Storage_failure ''artifact payload is unavailable'')
                  | Some body \<Rightarrow>
                      let part = take (nat amount) (drop (nat offset) body) in
                      if int (length part) \<noteq> amount
                      then Inl (Datalog_error Storage_failure ''artifact payload changed while reading'')
                      else Inr \<lparr>cc_artifact_id = aid, cc_filename = at_filename a,
                        cc_mime_type = at_mime_type a, cc_sha256 = at_checksum a, cc_total_size = at_size a,
                        cc_offset = offset, cc_content = part,
                        cc_end_of_file = (offset + amount = at_size a)\<rparr>)))))"

definition preview :: "outbox_io \<Rightarrow> outbox \<Rightarrow> string \<Rightarrow> int \<Rightarrow> string datalog_result" where
  "preview io ox aid maximum_bytes =
     (if maximum_bytes = 0 \<or> maximum_bytes > maximum_preview
      then Inl (Other_error (Invalid_argument ''artifact preview limit is invalid''))
      else bind_result (read_chunk io ox aid 0 maximum_bytes) (\<lambda>c. Inr (cc_content c)))"

record outbox_status =
  st_artifact_count :: nat
  st_outbox_count :: nat
  st_outbox_bytes :: int
  st_archive_count :: nat
  st_archive_bytes :: int
  st_completed_metadata_count :: nat
  st_missing_payload_count :: nat
  st_pending_delivery_count :: nat
  st_blocked_delivery_count :: nat
  st_oldest_pending_created_at :: "int option"
  st_storage :: storage_guard

definition outbox_state :: "outbox_io \<Rightarrow> outbox \<Rightarrow> outbox_status datalog_result" where
  "outbox_state io ox =
     (case io_db io ''select status'' of Some e \<Rightarrow> Inl (Other_error e) | None \<Rightarrow>
      let db = ox_db ox; artifacts = filter (\<lambda>a. \<not> at_delete_pending a) (db_artifacts db);
          retained = filter at_payload_present artifacts;
          archive = filter at_local_only retained; outbox = filter (\<lambda>a. \<not> at_local_only a) retained;
          live = filter (\<lambda>d. live_artifact db (dy_artifact_id d) \<noteq> None) (db_deliveries db);
          waiting = filter (\<lambda>d. dy_state d \<in> {D_pending, D_retry_wait, D_blocked, D_in_flight}) live;
          created = map (\<lambda>d. (case live_artifact db (dy_artifact_id d) of Some a \<Rightarrow> at_created_at a | None \<Rightarrow> 0))
            waiting;
          oldest = (if created = [] then 0 else Min (set created))
      in bind_result (storage_status io ox) (\<lambda>guard. Inr
        \<lparr>st_artifact_count = length artifacts,
         st_outbox_count = length outbox, st_outbox_bytes = sum_list (map at_size outbox),
         st_archive_count = length archive, st_archive_bytes = sum_list (map at_size archive),
         st_completed_metadata_count = length (filter (\<lambda>a. \<not> at_local_only a \<and> \<not> at_payload_present a \<and>
           at_recovery_error a = [] \<and> all_succeeded db (at_id a)) artifacts),
         st_missing_payload_count = length (filter (\<lambda>a. (\<not> at_payload_present a \<and> at_recovery_error a \<noteq> []) \<or>
           at_recovery_error a \<in> set damage_errors) artifacts),
         st_pending_delivery_count = length (filter (\<lambda>d. dy_state d \<in> {D_pending, D_retry_wait, D_in_flight}) live),
         st_blocked_delivery_count = length (filter (\<lambda>d. dy_state d = D_blocked) live),
         st_oldest_pending_created_at = (if oldest \<noteq> 0 then Some oldest else None),
         st_storage = guard\<rparr>))"

section \<open>Watermarks\<close>

definition watermark :: "outbox_io \<Rightarrow> outbox \<Rightarrow> string \<Rightarrow> job_watermark option datalog_result" where
  "watermark io ox job =
     (case io_db io ''select watermark'' of Some e \<Rightarrow> Inl (Other_error e) | None \<Rightarrow>
      Inr (map_option fst (find (\<lambda>(w, t). wm_job_id w = job) (db_watermarks (ox_db ox)))))"

definition store_watermark :: "outbox_io \<Rightarrow> job_watermark \<Rightarrow> int \<Rightarrow> outbox \<Rightarrow> outbox \<times> unit datalog_result" where
  "store_watermark io w updated_at ox =
     (if \<not> safe_identity (wm_job_id w) \<or> wm_revision w = 0
      then (ox, Inl (Other_error (Invalid_argument ''job watermark identity is invalid'')))
      else (case bind_result (bind_u64 (wm_revision w)) (\<lambda>_.
              (case io_db io ''store watermark'' of Some e \<Rightarrow> Inl e | None \<Rightarrow> Inr ())) of
          Inl e \<Rightarrow> (ox, Inl (Other_error e))
        | Inr u \<Rightarrow> (ox\<lparr>ox_db := (ox_db ox)\<lparr>db_watermarks := (w, updated_at) #
            filter (\<lambda>(v, t). wm_job_id v \<noteq> wm_job_id w) (db_watermarks (ox_db ox))\<rparr>\<rparr>, Inr ())))"

definition update_storage_policy :: "outbox_policy \<Rightarrow> outbox \<Rightarrow> outbox \<times> unit datalog_result" where
  "update_storage_policy policy ox =
     (if op_maximum_bytes policy = 0 \<or> op_retention policy \<le> 0
      then (ox, Inl (Other_error (Invalid_argument ''outbox storage quota must be nonzero'')))
      else (ox\<lparr>ox_policy := policy\<rparr>, Inr ()))"

section \<open>Start-up\<close>

text \<open>\<^verbatim>\<open>finish_pending_deletions_locked\<close>; failures to remove a file are ignored.\<close>

fun remove_pending :: "outbox_io \<Rightarrow> artifact_row list \<Rightarrow> outbox \<Rightarrow> outbox \<times> datalog_exn option" where
  "remove_pending io [] ox = (ox, None)"
| "remove_pending io (a # as) ox =
     (if \<not> at_payload_present a then remove_pending io as ox
      else (case payload_path (at_local_only a) (at_filename a) of
          Inl e \<Rightarrow> (ox, Some e)
        | Inr key \<Rightarrow> remove_pending io as (if io_remove io key then drop_file key ox else ox)))"

definition finish_pending_deletions :: "outbox_io \<Rightarrow> outbox \<Rightarrow> outbox \<times> datalog_exn option" where
  "finish_pending_deletions io ox =
     (case remove_pending io (filter at_delete_pending (db_artifacts (ox_db ox))) ox of
        (ox1, Some e) \<Rightarrow> (ox1, Some e)
      | (ox1, None) \<Rightarrow>
          (case io_db io ''finish deletions'' of
             Some e \<Rightarrow> (ox1, Some (Other_error e))
           | None \<Rightarrow> (ox1\<lparr>ox_db := delete_artifacts at_delete_pending (ox_db ox1)\<rparr>, None)))"

definition block_deliveries :: "string \<Rightarrow> string \<Rightarrow> outbox_db \<Rightarrow> outbox_db" where
  "block_deliveries aid message db = update_deliveries (\<lambda>d. dy_artifact_id d = aid \<and> \<not> final_state (dy_state d))
     (\<lambda>d. d\<lparr>dy_state := D_blocked, dy_last_error := message\<rparr>) db"

definition note_damage :: "string \<Rightarrow> string \<Rightarrow> outbox_db \<Rightarrow> outbox_db" where
  "note_damage aid message db = update_artifacts (\<lambda>a. at_id a = aid) (\<lambda>a. a\<lparr>at_recovery_error := message\<rparr>) db"

definition note_missing :: "string \<Rightarrow> string \<Rightarrow> outbox_db \<Rightarrow> outbox_db" where
  "note_missing aid message db = update_artifacts (\<lambda>a. at_id a = aid)
     (\<lambda>a. a\<lparr>at_payload_present := False, at_recovery_error := message\<rparr>) db"

text \<open>An update of the manifest and, in a statement of its own, of its deliveries.\<close>

definition block_with ::
    "outbox_io \<Rightarrow> string \<Rightarrow> string \<Rightarrow> (outbox_db \<Rightarrow> outbox_db) \<Rightarrow> outbox \<Rightarrow> outbox \<times> datalog_exn option" where
  "block_with io aid message f ox =
     (case io_db io (''manifest '' @ aid) of
        Some e \<Rightarrow> (ox, Some (Other_error e))
      | None \<Rightarrow>
          let ox1 = ox\<lparr>ox_db := f (ox_db ox)\<rparr> in
          (case io_db io (''deliveries '' @ aid) of
             Some e \<Rightarrow> (ox1, Some (Other_error e))
           | None \<Rightarrow> (ox1\<lparr>ox_db := block_deliveries aid message (ox_db ox1)\<rparr>, None)))"

definition block_artifact :: "outbox_io \<Rightarrow> string \<Rightarrow> string \<Rightarrow> outbox \<Rightarrow> outbox \<times> datalog_exn option" where
  "block_artifact io aid message ox = block_with io aid message (note_damage aid message) ox"

text \<open>The check of one manifest against its payload, and the loop over the manifests.\<close>

definition recover_manifest ::
    "(string \<Rightarrow> string) \<Rightarrow> outbox_io \<Rightarrow> artifact_row \<Rightarrow> outbox \<Rightarrow> outbox \<times> datalog_exn option" where
  "recover_manifest sha io a ox =
     (let aid = at_id a; complete = (\<not> at_local_only a \<and> all_succeeded (ox_db ox) aid) in
      (case payload_path (at_local_only a) (at_filename a) of
         Inl e \<Rightarrow> (ox, Some e)
       | Inr key \<Rightarrow>
           (case map_of (ox_files ox) key of
              None \<Rightarrow>
                if complete
                then (case io_db io (''manifest '' @ aid) of
                    Some e \<Rightarrow> (ox, Some (Other_error e))
                  | None \<Rightarrow> (ox\<lparr>ox_db := note_missing aid [] (ox_db ox)\<rparr>, None))
                else if at_payload_present a
                then block_with io aid ''manifest payload is missing''
                  (note_missing aid ''manifest payload is missing'') ox
                else (ox, None)
            | Some body \<Rightarrow>
                if int (length body) \<noteq> at_size a then block_artifact io aid ''payload size mismatch'' ox
                else if \<not> io_read io key then block_artifact io aid ''payload cannot be read'' ox
                else if sha body \<noteq> at_checksum a then block_artifact io aid ''payload checksum mismatch'' ox
                else if complete then finalize_completed io aid ox
                else (ox, None))))"

fun recover_manifests ::
    "(string \<Rightarrow> string) \<Rightarrow> outbox_io \<Rightarrow> artifact_row list \<Rightarrow> outbox \<Rightarrow> outbox \<times> datalog_exn option" where
  "recover_manifests sha io [] ox = (ox, None)"
| "recover_manifests sha io (a # as) ox =
     (case recover_manifest sha io a ox of
        (ox1, Some e) \<Rightarrow> (ox1, Some e) | (ox1, None) \<Rightarrow> recover_manifests sha io as ox1)"

definition recovered_id :: "outbox_db \<Rightarrow> string \<Rightarrow> string \<Rightarrow> string" where
  "recovered_id db filename checksum =
     (let stem = take (length filename - length (extension_of filename) - 1) filename;
          base = (if safe_identity stem then stem else ''recovered-'' @ take 24 checksum)
      in if find_artifact db base \<noteq> None then base @ ''-'' @ take 12 checksum else base)"

definition recovered_row ::
    "(string \<Rightarrow> string) \<Rightarrow> outbox_db \<Rightarrow> file_key \<Rightarrow> string \<Rightarrow> artifact_row" where
  "recovered_row sha db key body =
     (let filename = snd key; extension = extension_of filename in
      \<lparr>at_id = recovered_id db filename (sha body), at_job_id = ''recovered'', at_job_revision = 1,
       at_filename = filename,
       at_mime_type = (if extension = ''json'' then ''application/json'' else ''text/csv; charset=utf-8''),
       at_format = extension, at_checksum = sha body, at_size = int (length body), at_start = 0, at_end = 0,
       at_generated_at = 0, at_created_at = 0, at_local_only = fst key, at_payload_present = True,
       at_snapshot_json = ''{}'', at_recovery_error = (if fst key
         then ''recovered local-only file without manifest''
         else ''recovered unsent file without delivery manifest''), at_delete_pending = False\<rparr>)"

text \<open>One directory entry; \<open>known\<close> are the filenames of the manifests.\<close>

definition recover_file ::
    "(string \<Rightarrow> string) \<Rightarrow> outbox_io \<Rightarrow> string list \<Rightarrow> file_key \<times> string \<Rightarrow> outbox \<Rightarrow> outbox \<times> datalog_exn option" where
  "recover_file sha io known entry ox =
     (let (key, body) = entry; filename = snd key; extension = extension_of filename in
      if temporary_name filename then (if io_remove io key then drop_file key ox else ox, None)
      else if \<not> safe_filename filename \<or> filename \<in> set known then (ox, None)
      else if extension \<noteq> ''json'' \<and> extension \<noteq> ''csv'' then (ox, None)
      else (case read_file io ox key (int (length body)) of
          Inl e \<Rightarrow> (ox, Some e)
        | Inr text \<Rightarrow>
            (case bind_result (insert_artifact io (recovered_row sha (ox_db ox) key text) (ox_db ox)) (\<lambda>db.
                (case io_db io filename of Some e \<Rightarrow> Inl e | None \<Rightarrow> Inr db)) of
               Inl e \<Rightarrow> (ox, Some (Other_error e))
             | Inr db \<Rightarrow> (ox\<lparr>ox_db := db\<rparr>, None))))"

fun recover_files ::
    "(string \<Rightarrow> string) \<Rightarrow> outbox_io \<Rightarrow> string list \<Rightarrow> (file_key \<times> string) list \<Rightarrow> outbox \<Rightarrow>
     outbox \<times> datalog_exn option" where
  "recover_files sha io known [] ox = (ox, None)"
| "recover_files sha io known (entry # entries) ox =
     (case recover_file sha io known entry ox of
        (ox1, Some e) \<Rightarrow> (ox1, Some e) | (ox1, None) \<Rightarrow> recover_files sha io known entries ox1)"

definition recover :: "(string \<Rightarrow> string) \<Rightarrow> outbox_io \<Rightarrow> outbox \<Rightarrow> outbox \<times> datalog_exn option" where
  "recover sha io ox =
     (let manifests = filter (\<lambda>a. \<not> at_delete_pending a) (db_artifacts (ox_db ox));
          known = map at_filename manifests
      in (case recover_manifests sha io manifests ox of
            (ox1, Some e) \<Rightarrow> (ox1, Some e)
          | (ox1, None) \<Rightarrow> recover_files sha io known
              (filter (\<lambda>(k, b). \<not> fst k) (ox_files ox1) @ filter (\<lambda>(k, b). fst k) (ox_files ox1)) ox1))"

definition initialize :: "(string \<Rightarrow> string) \<Rightarrow> outbox_io \<Rightarrow> outbox \<Rightarrow> outbox \<times> datalog_exn option" where
  "initialize sha io ox =
     (if ox_initialized ox then (ox, None)
      else (case io_db io ''schema'' of Some e \<Rightarrow> (ox, Some (Other_error e)) | None \<Rightarrow>
        (case finish_pending_deletions io ox of
           (ox1, Some e) \<Rightarrow> (ox1, Some e)
         | (ox1, None) \<Rightarrow>
             (case recover sha io ox1 of
                (ox2, Some e) \<Rightarrow> (ox2, Some e)
              | (ox2, None) \<Rightarrow> (ox2\<lparr>ox_initialized := True\<rparr>, None)))))"

section \<open>Operations of the service\<close>

text \<open>
  Everything that changes the outbox, each with its environment. A restart is a process that ended
  at any point and left temporary files behind, followed by the initialisation of the next one.
\<close>

datatype outbox_op =
    Op_enqueue outbox_io generated_dataset generated_content "string list" bool
  | Op_claim outbox_io int int nat
  | Op_record outbox_io queued_delivery delivery_result int int
  | Op_retry outbox_io "string list" int
  | Op_retry_channel outbox_io string int
  | Op_prune outbox_io int
  | Op_erase outbox_io "string list" bool int
  | Op_watermark outbox_io job_watermark int
  | Op_policy outbox_policy
  | Op_restart outbox_io "(file_key \<times> string) list"

definition leave_temporaries :: "(file_key \<times> string) list \<Rightarrow> outbox \<Rightarrow> outbox" where
  "leave_temporaries stale ox =
     fold (\<lambda>((dir, name), body) x. if temporary_name name then put_file (dir, name) body x else x) stale ox"

fun outbox_step :: "(string \<Rightarrow> string) \<Rightarrow> outbox \<Rightarrow> outbox_op \<Rightarrow> outbox" where
  "outbox_step sha ox (Op_enqueue io dataset content chans local_only) =
     fst (enqueue sha io dataset content chans local_only ox)"
| "outbox_step sha ox (Op_claim io now lease_until limit) = fst (claim_due io now lease_until limit ox)"
| "outbox_step sha ox (Op_record io q result attempted_at next_attempt) =
     fst (record_result io q result attempted_at next_attempt ox)"
| "outbox_step sha ox (Op_retry io aids now) = fst (retry io aids now ox)"
| "outbox_step sha ox (Op_retry_channel io chan now) = fst (retry_channel io chan now ox)"
| "outbox_step sha ox (Op_prune io now) = fst (prune_completed io now ox)"
| "outbox_step sha ox (Op_erase io aids discard now) = fst (erase_artifacts io aids discard now ox)"
| "outbox_step sha ox (Op_watermark io w updated_at) = fst (store_watermark io w updated_at ox)"
| "outbox_step sha ox (Op_policy policy) = fst (update_storage_policy policy ox)"
| "outbox_step sha ox (Op_restart io stale) =
     fst (initialize sha io ((leave_temporaries stale ox)\<lparr>ox_initialized := False\<rparr>))"

definition empty_outbox :: "outbox_policy \<Rightarrow> outbox" where
  "empty_outbox policy = \<lparr>ox_db = \<lparr>db_artifacts = [], db_deliveries = [], db_watermarks = [], db_audit = []\<rparr>,
     ox_files = [], ox_policy = policy, ox_initialized = False\<rparr>"

end
