(* ===== verification/Outbox_Safety.thy ===== *)
theory Outbox_Safety
  imports Data_Outbox
begin

text \<open>
  What the outbox promises: every operation keeps its tables well-formed, and no operation but a
  successful delivery or a confirmed deletion ends a queued delivery or touches its payload. The
  lemmas follow the operations of \<open>Data_Outbox\<close> in order; the properties are at the end.
\<close>

section \<open>Well-formed tables\<close>

definition delivery_key :: "delivery_row \<Rightarrow> string \<times> string" where
  "delivery_key d = (dy_artifact_id d, dy_channel_id d)"

text \<open>Keys are unique, deliveries refer to artifacts, and filenames are proper.\<close>

definition db_wf :: "outbox_db \<Rightarrow> bool" where
  "db_wf db \<longleftrightarrow> distinct (map at_id (db_artifacts db)) \<and> distinct (map at_filename (db_artifacts db)) \<and>
     distinct (map delivery_key (db_deliveries db)) \<and>
     set (map dy_artifact_id (db_deliveries db)) \<subseteq> set (map at_id (db_artifacts db)) \<and>
     list_all (\<lambda>n. safe_filename n \<and> \<not> temporary_name n) (map at_filename (db_artifacts db))"

definition outbox_wf :: "outbox \<Rightarrow> bool" where
  "outbox_wf ox \<longleftrightarrow> db_wf (ox_db ox) \<and> distinct (map fst (ox_files ox))"

lemma map_key_update:
  "(\<And>x. key (f x) = key x) \<Longrightarrow> map key (map (\<lambda>x. if P x then f x else x) xs) = map key xs"
  by simp

lemma update_select [simp]:
  "db_artifacts (update_deliveries P f db) = db_artifacts db"
  "db_deliveries (update_deliveries P f db) = map (\<lambda>d. if P d then f d else d) (db_deliveries db)"
  "db_artifacts (update_artifacts Q g db) = map (\<lambda>a. if Q a then g a else a) (db_artifacts db)"
  "db_deliveries (update_artifacts Q g db) = db_deliveries db"
  by (simp_all add: update_deliveries_def update_artifacts_def)

lemma update_deliveries_wf:
  assumes "db_wf db" "\<And>d. delivery_key (f d) = delivery_key d"
  shows "db_wf (update_deliveries P f db)"
proof -
  have "dy_artifact_id (f d) = dy_artifact_id d" for d using assms(2) [of d] by (simp add: delivery_key_def)
  note k = map_key_update [of dy_artifact_id, OF this] map_key_update [of delivery_key, OF assms(2)]
  show ?thesis
    using assms(1) unfolding db_wf_def update_select k .
qed

lemma update_artifacts_wf:
  assumes "db_wf db" "\<And>a. at_id (f a) = at_id a" "\<And>a. at_filename (f a) = at_filename a"
  shows "db_wf (update_artifacts P f db)"
proof -
  note k = map_key_update [of at_id, OF assms(2)] map_key_update [of at_filename, OF assms(3)]
  show ?thesis
    using assms(1) unfolding db_wf_def update_select k .
qed

lemma delete_artifacts_wf:
  assumes "db_wf db"
  shows "db_wf (delete_artifacts P db)"
proof -
  have "dy_artifact_id d \<in> at_id ` set (filter (\<lambda>a. \<not> P a) (db_artifacts db))"
    if "d \<in> set (db_deliveries db)" "\<not> list_ex (\<lambda>a. P a \<and> at_id a = dy_artifact_id d) (db_artifacts db)" for d
  proof -
    have "dy_artifact_id d \<in> set (map at_id (db_artifacts db))" using assms that(1) by (auto simp: db_wf_def)
    then obtain a where "a \<in> set (db_artifacts db)" "dy_artifact_id d = at_id a" by auto
    then show ?thesis using that(2) by (auto simp: list_ex_iff)
  qed
  then show ?thesis
    using assms by (auto simp: db_wf_def delete_artifacts_def distinct_map_filter list_all_iff)
qed

lemma insert_artifact_wf:
  assumes "db_wf db" "insert_artifact io row db = Inr db'" "safe_filename (at_filename row)"
    "\<not> temporary_name (at_filename row)"
  shows "db_wf db'"
proof -
  have "db' = db\<lparr>db_artifacts := db_artifacts db @ [row]\<rparr>"
    "\<forall>a \<in> set (db_artifacts db). at_id a \<noteq> at_id row \<and> at_filename a \<noteq> at_filename row"
    using assms(2) by (auto simp: insert_artifact_def list_ex_iff split: if_splits)
  moreover from this have "at_id row \<notin> at_id ` set (db_artifacts db)"
    "at_filename row \<notin> at_filename ` set (db_artifacts db)" by (force simp: image_iff)+
  ultimately show ?thesis using assms(1,3,4) by (auto simp: db_wf_def)
qed

lemma insert_deliveries_wf:
  "db_wf db \<Longrightarrow> aid \<in> at_id ` set (db_artifacts db) \<Longrightarrow> insert_deliveries io aid chans db = Inr db' \<Longrightarrow> db_wf db'"
proof (induction io aid chans db rule: insert_deliveries.induct)
  case (1 io aid db)
  then show ?case by simp
next
  case (2 io aid chan chans db)
  show ?case
    using 2(2-) by (intro 2(1)) (auto simp: db_wf_def delivery_key_def list_ex_iff split: if_splits)
qed

lemma put_file_distinct: "distinct (map fst (ox_files ox)) \<Longrightarrow> distinct (map fst (ox_files (put_file key body ox)))"
  by (auto simp: put_file_def distinct_map_filter)

lemma drop_file_distinct: "distinct (map fst (ox_files ox)) \<Longrightarrow> distinct (map fst (ox_files (drop_file key ox)))"
  by (auto simp: drop_file_def distinct_map_filter)

section \<open>Unsent data\<close>

text \<open>
  The delivery of an artifact to a channel is unsent: the delivery is in no final state, and the
  artifact has a live manifest whose payload file has the recorded size and checksum.
\<close>

definition db_unsent :: "(string \<Rightarrow> string) \<Rightarrow> string \<Rightarrow> string \<Rightarrow> file_key \<Rightarrow> string \<Rightarrow> outbox_db \<Rightarrow> bool" where
  "db_unsent sha aid chan key body db \<longleftrightarrow>
     (\<exists>a \<in> set (db_artifacts db). at_id a = aid \<and> (at_local_only a, at_filename a) = key \<and>
        at_payload_present a \<and> \<not> at_delete_pending a \<and> at_size a = int (length body) \<and> at_checksum a = sha body) \<and>
     (\<exists>d \<in> set (db_deliveries db). delivery_key d = (aid, chan) \<and> \<not> final_state (dy_state d))"

definition unsent :: "(string \<Rightarrow> string) \<Rightarrow> string \<Rightarrow> string \<Rightarrow> file_key \<Rightarrow> string \<Rightarrow> outbox \<Rightarrow> bool" where
  "unsent sha aid chan key body ox \<longleftrightarrow>
     db_unsent sha aid chan key body (ox_db ox) \<and> map_of (ox_files ox) key = Some body"

lemma update_deliveries_unsent:
  assumes "db_unsent sha aid chan key body db" "\<And>d. delivery_key (f d) = delivery_key d"
    "\<And>d. delivery_key d = (aid, chan) \<Longrightarrow> P d \<Longrightarrow> \<not> final_state (dy_state d) \<Longrightarrow> \<not> final_state (dy_state (f d))"
  shows "db_unsent sha aid chan key body (update_deliveries P f db)"
proof -
  obtain d where d: "d \<in> set (db_deliveries db)" "delivery_key d = (aid, chan)" "\<not> final_state (dy_state d)"
    using assms(1) by (auto simp: db_unsent_def)
  then have "delivery_key (if P d then f d else d) = (aid, chan) \<and> \<not> final_state (dy_state (if P d then f d else d))"
    using assms(2,3) by simp
  then show ?thesis using assms(1) d(1) unfolding db_unsent_def update_select by fastforce
qed

lemma update_artifacts_unsent:
  assumes "db_unsent sha aid chan key body db"
    "\<And>a. at_id a = aid \<Longrightarrow> P a \<Longrightarrow> at_id (g a) = at_id a \<and> at_local_only (g a) = at_local_only a \<and>
      at_filename (g a) = at_filename a \<and> at_payload_present (g a) = at_payload_present a \<and>
      at_delete_pending (g a) = at_delete_pending a \<and> at_size (g a) = at_size a \<and> at_checksum (g a) = at_checksum a"
  shows "db_unsent sha aid chan key body (update_artifacts P g db)"
proof -
  obtain a where a: "a \<in> set (db_artifacts db)" "at_id a = aid \<and> (at_local_only a, at_filename a) = key \<and>
      at_payload_present a \<and> \<not> at_delete_pending a \<and> at_size a = int (length body) \<and> at_checksum a = sha body"
    using assms(1) by (auto simp: db_unsent_def)
  let ?b = "if P a then g a else a"
  have "at_id ?b = aid \<and> (at_local_only ?b, at_filename ?b) = key \<and>
      at_payload_present ?b \<and> \<not> at_delete_pending ?b \<and> at_size ?b = int (length body) \<and> at_checksum ?b = sha body"
    using a(2) assms(2) [of a] by auto
  then show ?thesis using assms(1) a(1) unfolding db_unsent_def update_select by fastforce
qed

lemma delete_artifacts_unsent:
  assumes "db_unsent sha aid chan key body db" "\<And>a. a \<in> set (db_artifacts db) \<Longrightarrow> P a \<Longrightarrow> at_id a \<noteq> aid"
  shows "db_unsent sha aid chan key body (delete_artifacts P db)"
  using assms unfolding db_unsent_def delete_artifacts_def delivery_key_def
  by (fastforce simp: list_ex_iff)

lemma unsent_not_succeeded: "db_unsent sha aid chan key body db \<Longrightarrow> \<not> all_succeeded db aid"
  by (force simp: db_unsent_def all_succeeded_def deliveries_of_def list_all_iff delivery_key_def final_state_def)

lemma map_of_drop_file: "map_of (ox_files (drop_file k ox)) key = (if k = key then None else map_of (ox_files ox) key)"
proof -
  have "map_of (filter (\<lambda>(j, b). j \<noteq> k) fs) key = (if k = key then None else map_of fs key)" for fs :: "(file_key \<times> string) list"
    by (induction fs) auto
  then show ?thesis by (simp add: drop_file_def)
qed

lemma map_of_put_file: "map_of (ox_files (put_file k b ox)) key = (if k = key then Some b else map_of (ox_files ox) key)"
  using map_of_drop_file [of k ox key]
  by (auto simp: put_file_def drop_file_def map_add_def split: option.splits)

lemma file_db [simp]: "ox_db (drop_file k ox) = ox_db ox" "ox_db (put_file k b ox) = ox_db ox"
  by (simp_all add: drop_file_def put_file_def)

lemma live_artifact_SomeD:
  "live_artifact db x = Some a \<Longrightarrow> a \<in> set (db_artifacts db) \<and> at_id a = x \<and> \<not> at_delete_pending a"
  by (auto simp: live_artifact_def dest: find_Some_in_set)

text \<open>Two artifacts have different payload files.\<close>

lemma other_artifact_key:
  assumes "db_wf db" "db_unsent sha aid chan key body db" "a \<in> set (db_artifacts db)" "at_id a \<noteq> aid"
  shows "at_filename a \<noteq> snd key"
proof -
  obtain b where "b \<in> set (db_artifacts db)" "at_id b = aid" "at_filename b = snd key"
    using assms(2) by (auto simp: db_unsent_def)
  moreover have "inj_on at_filename (set (db_artifacts db))" using assms(1) by (simp add: db_wf_def distinct_map)
  ultimately show ?thesis using assms(3,4) by (metis inj_onD)
qed

lemma safe_payload_path [simp]:
  "db_wf db \<Longrightarrow> a \<in> set (db_artifacts db) \<Longrightarrow> payload_path l (at_filename a) = Inr (l, at_filename a)"
  by (simp add: db_wf_def payload_path_def list_all_iff)

section \<open>Operations keep unsent data\<close>

text \<open>What every operation has to keep, for a fixed unsent delivery.\<close>

definition safe_step :: "(string \<Rightarrow> string) \<Rightarrow> string \<Rightarrow> string \<Rightarrow> file_key \<Rightarrow> string \<Rightarrow> outbox \<Rightarrow> outbox \<Rightarrow> bool" where
  "safe_step sha aid chan key body ox ox' \<longleftrightarrow> outbox_wf ox' \<and>
     (unsent sha aid chan key body ox \<longrightarrow> unsent sha aid chan key body ox')"

lemma finalize_completed_safe:
  assumes "outbox_wf ox"
  shows "safe_step sha aid chan key body ox (fst (finalize_completed io x ox))"
proof (cases "\<exists>a. live_artifact (ox_db ox) x = Some a \<and> \<not> at_local_only a \<and> at_payload_present a \<and>
    all_succeeded (ox_db ox) x \<and> io_remove io (False, at_filename a)")
  case False
  then have "fst (finalize_completed io x ox) = ox"
    by (auto simp: finalize_completed_def payload_path_def split: option.splits)
  then show ?thesis using assms by (simp add: safe_step_def)
next
  case True
  then obtain a where a: "live_artifact (ox_db ox) x = Some a" "\<not> at_local_only a" "at_payload_present a"
    "all_succeeded (ox_db ox) x" "io_remove io (False, at_filename a)" by blast
  note la = live_artifact_SomeD [OF a(1)]
  let ?o = "drop_file (False, at_filename a) ox"
  have wf: "db_wf (ox_db ox)" "distinct (map fst (ox_files ox))" using assms by (simp_all add: outbox_wf_def)
  have o: "outbox_wf ?o" using wf by (simp add: outbox_wf_def drop_file_distinct)
  have u: "unsent sha aid chan key body ?o" "x \<noteq> aid" if "unsent sha aid chan key body ox"
  proof -
    have d: "db_unsent sha aid chan key body (ox_db ox)" using that by (simp add: unsent_def)
    show "x \<noteq> aid" using unsent_not_succeeded [OF d] a(4) by auto
    then have "at_filename a \<noteq> snd key" using other_artifact_key [OF wf(1) d] la by blast
    then show "unsent sha aid chan key body ?o" using that by (auto simp: unsent_def map_of_drop_file)
  qed
  have f: "fst (finalize_completed io x ox) = (case io_db io ''finalize'' of Some e \<Rightarrow> ?o | None \<Rightarrow>
      ?o\<lparr>ox_db := update_artifacts (\<lambda>b. at_id b = x) (\<lambda>b. b\<lparr>at_payload_present := False\<rparr>) (ox_db ox)\<rparr>)"
    using a la wf(1) by (simp add: finalize_completed_def split: option.splits)
  show ?thesis
  proof (cases "io_db io ''finalize''")
    case None
    have "outbox_wf (?o\<lparr>ox_db := update_artifacts (\<lambda>b. at_id b = x) (\<lambda>b. b\<lparr>at_payload_present := False\<rparr>) (ox_db ox)\<rparr>)"
      using wf o by (simp add: outbox_wf_def update_artifacts_wf)
    moreover have "unsent sha aid chan key body
        (?o\<lparr>ox_db := update_artifacts (\<lambda>b. at_id b = x) (\<lambda>b. b\<lparr>at_payload_present := False\<rparr>) (ox_db ox)\<rparr>)"
      if "unsent sha aid chan key body ox"
      using u [OF that] update_artifacts_unsent [of sha aid chan key body "ox_db ox" "\<lambda>b. at_id b = x"]
      by (auto simp: unsent_def)
    ultimately show ?thesis using f None by (simp add: safe_step_def)
  next
    case (Some e)
    then show ?thesis using f o u by (simp add: safe_step_def)
  qed
qed

lemma safe_step_trans:
  "safe_step sha aid chan key body ox ox1 \<Longrightarrow> safe_step sha aid chan key body ox1 ox2 \<Longrightarrow>
   safe_step sha aid chan key body ox ox2"
  by (simp add: safe_step_def)

lemma safe_step_refl: "outbox_wf ox \<Longrightarrow> safe_step sha aid chan key body ox ox"
  by (simp add: safe_step_def)

text \<open>A change of the tables alone.\<close>

lemma safe_db_step:
  assumes "outbox_wf ox" "db_wf db"
    "db_unsent sha aid chan key body (ox_db ox) \<Longrightarrow> db_unsent sha aid chan key body db"
  shows "safe_step sha aid chan key body ox (ox\<lparr>ox_db := db\<rparr>)"
  using assms by (simp add: safe_step_def outbox_wf_def unsent_def)

lemma prune_completed_safe:
  assumes "outbox_wf ox"
  shows "safe_step sha aid chan key body ox (fst (prune_completed io now ox))"
proof -
  let ?P = "completed_before (ox_db ox) (now - op_retention (ox_policy ox))"
  let ?db = "(delete_artifacts ?P (ox_db ox))\<lparr>db_audit := filter (\<lambda>e. \<not> ae_occurred_at e \<le> now - op_retention (ox_policy ox)) (db_audit (ox_db ox))\<rparr>"
  have "db_wf ?db" using assms delete_artifacts_wf [of "ox_db ox" ?P] by (simp add: outbox_wf_def db_wf_def)
  moreover have "db_unsent sha aid chan key body ?db" if u: "db_unsent sha aid chan key body (ox_db ox)"
  proof -
    have "db_unsent sha aid chan key body (delete_artifacts ?P (ox_db ox))"
      using u unsent_not_succeeded [OF u] by (intro delete_artifacts_unsent) (auto simp: completed_before_def)
    then show ?thesis by (simp add: db_unsent_def)
  qed
  ultimately have "safe_step sha aid chan key body ox (ox\<lparr>ox_db := ?db\<rparr>)"
    using assms by (intro safe_db_step)
  then show ?thesis
    using assms by (auto simp: prune_completed_def Let_def safe_step_refl split: option.splits)
qed

lemma record_result_safe:
  assumes "outbox_wf ox"
    "\<not> (qd_artifact_id q = aid \<and> qd_channel_id q = chan \<and> rs_disposition result = Disposition_succeeded)"
  shows "safe_step sha aid chan key body ox (fst (record_result io q result attempted_at next_attempt ox))"
proof -
  let ?f = "\<lambda>d. d\<lparr>dy_state := disposition_state (rs_disposition result), dy_attempts := dy_attempts d + 1,
    dy_next := (if disposition_state (rs_disposition result) = D_retry_wait then next_attempt else 0),
    dy_last := attempted_at, dy_remote_result := sanitize_result (rs_remote_result result),
    dy_last_error := sanitize_result (rs_sanitized_error result)\<rparr>"
  let ?db = "update_deliveries (open_delivery q) ?f (ox_db ox)" and ?ox = "ox\<lparr>ox_db := update_deliveries (open_delivery q) ?f (ox_db ox)\<rparr>"
  have k: "delivery_key (?f d) = delivery_key d" for d by (simp add: delivery_key_def)
  have "db_wf ?db" using assms(1) k by (auto simp: outbox_wf_def intro: update_deliveries_wf)
  moreover have "db_unsent sha aid chan key body ?db" if "db_unsent sha aid chan key body (ox_db ox)"
    using that k assms(2)
    by (intro update_deliveries_unsent)
      (auto simp: delivery_key_def open_delivery_def final_state_def disposition_state_def split: delivery_disposition.splits)
  ultimately have s: "safe_step sha aid chan key body ox ?ox" using assms(1) by (intro safe_db_step)
  then have w: "outbox_wf ?ox" by (simp add: safe_step_def)
  note fin = finalize_completed_safe [OF w, of sha aid chan key body io "qd_artifact_id q"]
  then have w2: "outbox_wf (fst (finalize_completed io (qd_artifact_id q) ?ox))" by (simp add: safe_step_def)
  note pr = prune_completed_safe [OF w2, of sha aid chan key body io attempted_at]
  show ?thesis
    using assms(1) s fin pr
    by (auto simp: record_result_def Let_def safe_step_refl intro: safe_step_trans
        split: option.splits prod.splits)
qed

lemma claim_due_safe:
  assumes "outbox_wf ox"
  shows "safe_step sha aid chan key body ox (fst (claim_due io now lease_until limit ox))"
proof -
  let ?db = "update_deliveries (\<lambda>d. list_ex (same_delivery d) (due_rows (ox_db ox) now limit))
    (\<lambda>d. d\<lparr>dy_state := D_in_flight, dy_next := lease_until\<rparr>) (ox_db ox)"
  have "db_wf ?db" using assms by (auto simp: outbox_wf_def delivery_key_def intro: update_deliveries_wf)
  moreover have "db_unsent sha aid chan key body ?db" if "db_unsent sha aid chan key body (ox_db ox)"
    using that by (intro update_deliveries_unsent) (auto simp: delivery_key_def final_state_def)
  ultimately have "safe_step sha aid chan key body ox (ox\<lparr>ox_db := ?db\<rparr>)"
    using assms by (intro safe_db_step)
  then show ?thesis
    using assms by (auto simp: claim_due_def Let_def safe_step_refl split: option.splits)
qed

lemma reset_delivery_safe:
  assumes "db_wf db"
  shows "db_wf (update_deliveries P (reset_delivery now) db)"
    "db_unsent sha aid chan key body db \<Longrightarrow> db_unsent sha aid chan key body (update_deliveries P (reset_delivery now) db)"
proof -
  have k: "delivery_key (reset_delivery now d) = delivery_key d" for d by (simp add: delivery_key_def reset_delivery_def)
  show "db_wf (update_deliveries P (reset_delivery now) db)" using assms k by (intro update_deliveries_wf)
  show "db_unsent sha aid chan key body db \<Longrightarrow> db_unsent sha aid chan key body (update_deliveries P (reset_delivery now) db)"
    using k by (intro update_deliveries_unsent) (auto simp: reset_delivery_def final_state_def)
qed

lemma retry_loop_safe:
  "db_wf db \<Longrightarrow> retry_loop now aids db = Inr db' \<Longrightarrow>
   db_wf db' \<and> (db_unsent sha aid chan key body db \<longrightarrow> db_unsent sha aid chan key body db')"
proof (induction aids arbitrary: db)
  case Nil
  then show ?case by simp
next
  case (Cons x aids)
  let ?db = "update_deliveries (\<lambda>d. dy_artifact_id d = x \<and> dy_state d \<in> {D_pending, D_retry_wait, D_blocked})
    (reset_delivery now) db"
  have "retry_loop now aids ?db = Inr db'" using Cons.prems(2) by (auto split: if_splits)
  with Cons.IH [of ?db] reset_delivery_safe [OF Cons.prems(1)] show ?case by blast
qed

lemma retry_safe:
  assumes "outbox_wf ox"
  shows "safe_step sha aid chan key body ox (fst (retry io aids now ox))"
proof (cases "\<exists>db. retry_loop now aids (ox_db ox) = Inr db")
  case True
  then obtain db where db: "retry_loop now aids (ox_db ox) = Inr db" by blast
  have "safe_step sha aid chan key body ox (ox\<lparr>ox_db := db\<rparr>)"
    using retry_loop_safe [OF _ db] assms by (intro safe_db_step) (auto simp: outbox_wf_def)
  then show ?thesis using assms db by (auto simp: retry_def safe_step_refl split: option.splits)
next
  case False
  then show ?thesis using assms by (auto simp: retry_def safe_step_refl split: sum.splits)
qed

lemma retry_channel_safe:
  assumes "outbox_wf ox"
  shows "safe_step sha aid chan key body ox (fst (retry_channel io c now ox))"
proof -
  have "safe_step sha aid chan key body ox (ox\<lparr>ox_db :=
      update_deliveries (\<lambda>d. dy_channel_id d = c \<and> dy_state d = D_blocked) (reset_delivery now) (ox_db ox)\<rparr>)"
    using assms reset_delivery_safe by (intro safe_db_step) (auto simp: outbox_wf_def)
  then show ?thesis using assms by (auto simp: retry_channel_def safe_step_refl split: option.splits)
qed

lemma store_watermark_safe:
  assumes "outbox_wf ox"
  shows "safe_step sha aid chan key body ox (fst (store_watermark io w updated_at ox))"
proof -
  have "safe_step sha aid chan key body ox (ox\<lparr>ox_db := (ox_db ox)\<lparr>db_watermarks := ws\<rparr>\<rparr>)" for ws
    using assms by (intro safe_db_step) (auto simp: outbox_wf_def db_wf_def db_unsent_def)
  then show ?thesis using assms by (auto simp: store_watermark_def safe_step_refl split: sum.splits)
qed

lemma update_storage_policy_safe:
  "outbox_wf ox \<Longrightarrow> safe_step sha aid chan key body ox (fst (update_storage_policy policy ox))"
  by (simp add: update_storage_policy_def safe_step_def outbox_wf_def unsent_def)

text \<open>Erasing.\<close>

lemma deletion_targets_live:
  "deletion_targets discard db aids = Inr ts \<Longrightarrow> t \<in> set ts \<Longrightarrow>
   \<exists>a. live_artifact db (dt_id t) = Some a \<and> dt_id t \<in> set aids \<and> t = deletion_target_of db a \<and>
     (unsent_count db a \<noteq> 0 \<longrightarrow> discard)"
proof (induction aids arbitrary: ts)
  case Nil
  then show ?case by simp
next
  case (Cons x aids)
  obtain a us where a: "live_artifact db x = Some a" "ts = deletion_target_of db a # us"
      "deletion_targets discard db aids = Inr us" "unsent_count db a = 0 \<or> discard"
    using Cons.prems(1) by (auto split: option.splits if_splits)
  have "dt_id (deletion_target_of db a) = x"
    using live_artifact_SomeD [OF a(1)] by (simp add: deletion_target_of_def)
  then show ?case
    using Cons.IH [OF a(3)] Cons.prems(2) a by auto
qed

lemma deletion_targets_ids: "deletion_targets discard db aids = Inr ts \<Longrightarrow> map dt_id ts = aids"
proof (induction aids arbitrary: ts)
  case Nil
  then show ?case by simp
next
  case (Cons x aids)
  obtain a us where a: "live_artifact db x = Some a" "ts = deletion_target_of db a # us"
      "deletion_targets discard db aids = Inr us"
    using Cons.prems by (auto split: option.splits if_splits)
  then show ?case
    using Cons.IH [OF a(3)] live_artifact_SomeD [OF a(1)] by (simp add: deletion_target_of_def)
qed

lemma unsent_target_discarded:
  assumes "deletion_targets discard db aids = Inr ts" "db_unsent sha aid chan key body db" "aid \<in> set aids"
  shows discard
proof -
  obtain t where t: "t \<in> set ts" "dt_id t = aid"
    using deletion_targets_ids [OF assms(1)] assms(3) by (metis image_iff list.set_map)
  obtain a where a: "live_artifact db aid = Some a" "unsent_count db a \<noteq> 0 \<longrightarrow> discard"
    using deletion_targets_live [OF assms(1) t(1)] t(2) by auto
  obtain d where "d \<in> set (deliveries_of db aid)" "\<not> final_state (dy_state d)"
    using assms(2) by (auto simp: db_unsent_def deliveries_of_def delivery_key_def)
  then have "unsent_count db a \<noteq> 0"
    using live_artifact_SomeD [OF a(1)] by (auto simp: unsent_count_def filter_empty_conv)
  then show ?thesis using a(2) by simp
qed

lemma mark_target_safe:
  assumes "db_wf db"
  shows "db_wf (mark_target now t db)"
    "dt_id t \<noteq> aid \<Longrightarrow> db_unsent sha aid chan key body db \<Longrightarrow> db_unsent sha aid chan key body (mark_target now t db)"
proof -
  let ?a = "update_deliveries (discarded_by t) discard_delivery db"
  let ?b = "update_artifacts (\<lambda>a. at_id a = dt_id t) (\<lambda>a. a\<lparr>at_delete_pending := True\<rparr>) ?a"
  have "db_wf ?a" using assms by (intro update_deliveries_wf) (auto simp: delivery_key_def discard_delivery_def)
  then have wb: "db_wf ?b" by (intro update_artifacts_wf) auto
  have aud: "db_wf (db'\<lparr>db_audit := es\<rparr>) = db_wf db'"
    "db_unsent sha aid chan key body (db'\<lparr>db_audit := es\<rparr>) = db_unsent sha aid chan key body db'" for es db'
    by (simp_all add: db_wf_def db_unsent_def)
  show "db_wf (mark_target now t db)" using wb by (simp add: mark_target_def Let_def aud)
  show "db_unsent sha aid chan key body (mark_target now t db)"
    if "dt_id t \<noteq> aid" "db_unsent sha aid chan key body db"
  proof -
    have "db_unsent sha aid chan key body ?a"
      using that by (intro update_deliveries_unsent) (auto simp: delivery_key_def discard_delivery_def discarded_by_def)
    then have "db_unsent sha aid chan key body ?b" using that(1) by (intro update_artifacts_unsent) auto
    then show ?thesis by (simp add: mark_target_def Let_def aud)
  qed
qed

lemma mark_targets_safe:
  "db_wf db \<Longrightarrow> db_wf (fst (mark_targets now ts db n)) \<and>
   (aid \<notin> set (map dt_id ts) \<longrightarrow> db_unsent sha aid chan key body db \<longrightarrow>
     db_unsent sha aid chan key body (fst (mark_targets now ts db n)))"
  by (induction ts arbitrary: db n) (auto simp: mark_target_safe)

lemma remove_payloads_files:
  assumes "list_all (\<lambda>t. dt_filename t \<noteq> snd key) ts"
  shows "map_of (ox_files (fst (remove_payloads io ts ox))) key = map_of (ox_files ox) key"
  using assms
proof (induction ts arbitrary: ox)
  case Nil
  then show ?case by simp
next
  case (Cons t ts)
  then show ?case
    by (auto simp: payload_path_def map_of_drop_file split: sum.splits)
qed

lemma remove_payloads_state:
  "ox_db (fst (remove_payloads io ts ox)) = ox_db ox \<and>
   (distinct (map fst (ox_files ox)) \<longrightarrow> distinct (map fst (ox_files (fst (remove_payloads io ts ox)))))"
  by (induction ts arbitrary: ox) (auto simp: drop_file_distinct split: sum.splits)

lemma erase_artifacts_safe:
  assumes wf: "outbox_wf ox" and ok: "\<not> (discard \<and> aid \<in> set aids)"
  shows "safe_step sha aid chan key body ox (fst (erase_artifacts io aids discard now ox))"
proof (cases "\<exists>ts. deletion_targets discard (ox_db ox) aids = Inr ts \<and> io_db io ''mark'' = None")
  case False
  then show ?thesis
    using wf by (cases "deletion_targets discard (ox_db ox) aids"; cases "io_db io ''mark''")
      (simp_all add: erase_artifacts_def safe_step_refl)
next
  case True
  then obtain ts where ts: "deletion_targets discard (ox_db ox) aids = Inr ts" "io_db io ''mark'' = None" by blast
  obtain db n where m: "mark_targets now ts (ox_db ox) 0 = (db, n)" by fastforce
  obtain o2 e where r: "remove_payloads io ts (ox\<lparr>ox_db := db\<rparr>) = (o2, e)" by fastforce
  define gone where "gone = (\<lambda>a :: artifact_row. at_id a \<in> set (map dt_id ts) \<and> at_delete_pending a)"
  have w: "db_wf (ox_db ox)" "distinct (map fst (ox_files ox))" using wf by (simp_all add: outbox_wf_def)
  have ids: "set (map dt_id ts) = set aids" using deletion_targets_ids [OF ts(1)] by simp
  have o2: "ox_db o2 = db" "distinct (map fst (ox_files o2))"
    using remove_payloads_state [of io ts "ox\<lparr>ox_db := db\<rparr>"] w(2) r by simp_all
  have wdb: "db_wf db" using mark_targets_safe [OF w(1), of now ts 0] m by simp
  have w2: "outbox_wf o2" "outbox_wf (o2\<lparr>ox_db := delete_artifacts gone db\<rparr>)"
    using wdb o2 delete_artifacts_wf [OF wdb] by (simp_all add: outbox_wf_def)
  have u: "unsent sha aid chan key body o2 \<and> unsent sha aid chan key body (o2\<lparr>ox_db := delete_artifacts gone db\<rparr>)"
    if un: "unsent sha aid chan key body ox"
  proof -
    have d: "db_unsent sha aid chan key body (ox_db ox)" using un by (simp add: unsent_def)
    have na: "aid \<notin> set aids" using unsent_target_discarded [OF ts(1) d] ok by blast
    have du: "db_unsent sha aid chan key body db"
      using mark_targets_safe [OF w(1), of now ts 0 aid sha chan key body] na d
      unfolding ids m by simp
    have "dt_filename t \<noteq> snd key" if t: "t \<in> set ts" for t
    proof -
      obtain a where a: "live_artifact (ox_db ox) (dt_id t) = Some a" "dt_id t \<in> set aids"
          "t = deletion_target_of (ox_db ox) a"
        using deletion_targets_live [OF ts(1) t] by blast
      have "at_id a \<noteq> aid" using live_artifact_SomeD [OF a(1)] a(2) na by metis
      then have "at_filename a \<noteq> snd key"
        using other_artifact_key [OF w(1) d, of a] live_artifact_SomeD [OF a(1)] by blast
      moreover have "dt_filename t = at_filename a" by (subst a(3)) (simp add: deletion_target_of_def)
      ultimately show ?thesis by simp
    qed
    then have "map_of (ox_files o2) key = Some body"
      using remove_payloads_files [of key ts io "ox\<lparr>ox_db := db\<rparr>"] un r by (simp add: unsent_def list_all_iff)
    moreover have "db_unsent sha aid chan key body (delete_artifacts gone db)"
      using du na ids by (intro delete_artifacts_unsent) (auto simp: gone_def)
    ultimately show ?thesis using du o2(1) by (simp add: unsent_def)
  qed
  have res: "fst (erase_artifacts io aids discard now ox) = ox \<or> fst (erase_artifacts io aids discard now ox) = o2 \<or>
      fst (erase_artifacts io aids discard now ox) = o2\<lparr>ox_db := delete_artifacts gone db\<rparr>"
    by (cases e; cases "io_db io ''delete''") (simp_all add: erase_artifacts_def Let_def ts m r o2(1) gone_def)
  then show ?thesis
    using wf w2 u unfolding safe_step_def by metis
qed

text \<open>Queueing.\<close>

lemma temporary_dots: "temporary_name t \<Longrightarrow> 2 \<le> length (filter (\<lambda>c. c = CHR ''.'') t)"
proof (induction t)
  case Nil
  then show ?case by simp
next
  case (Cons c t)
  show ?case
  proof (cases "take 5 (c # t) = ''.tmp.''")
    case True
    then have "c # t = ''.tmp.'' @ drop 5 (c # t)" by (metis append_take_drop_id)
    then have "filter (\<lambda>c. c = CHR ''.'') (c # t) = filter (\<lambda>c. c = CHR ''.'') (''.tmp.'' @ drop 5 (c # t))" by (rule arg_cong)
    then show ?thesis by simp
  next
    case False
    then have "temporary_name t" using Cons.prems by (auto simp: numeral_eq_Suc)
    then show ?thesis using Cons.IH by simp
  qed
qed

lemma identity_no_dot: "safe_identity s \<Longrightarrow> filter (\<lambda>c. c = CHR ''.'') s = []"
  by (auto simp: safe_identity_def name_char_def is_alnum_def list_all_iff filter_empty_conv split: if_splits)

lemma acceptable_filename:
  assumes "content_acceptable sha dataset content"
  shows "safe_filename (gc_filename content)" "\<not> temporary_name (gc_filename content)"
proof -
  have f: "safe_identity (gd_artifact_id dataset)" "gc_filename content = gd_artifact_id dataset @ ''.'' @ gc_extension content"
    "gc_extension content = ''json'' \<or> gc_extension content = ''csv''"
    using assms by (auto simp: content_acceptable_def)
  then have "length (filter (\<lambda>c. c = CHR ''.'') (gc_filename content)) = 1"
    using identity_no_dot [OF f(1)] by auto
  then show "\<not> temporary_name (gc_filename content)" using temporary_dots by fastforce
  show "safe_filename (gc_filename content)" using assms by (simp add: content_acceptable_def)
qed

lemma insert_artifact_more:
  "insert_artifact io row db = Inr db' \<Longrightarrow> set (db_artifacts db') = insert row (set (db_artifacts db)) \<and>
   db_deliveries db' = db_deliveries db"
  by (auto simp: insert_artifact_def split: if_splits)

lemma insert_deliveries_more:
  "insert_deliveries io x chans db = Inr db' \<Longrightarrow> db_artifacts db' = db_artifacts db \<and>
   set (db_deliveries db) \<subseteq> set (db_deliveries db')"
  by (induction io x chans db rule: insert_deliveries.induct) (fastforce split: if_splits)+

lemma more_rows_unsent:
  "db_unsent sha aid chan key body db \<Longrightarrow> set (db_artifacts db) \<subseteq> set (db_artifacts db') \<Longrightarrow>
   set (db_deliveries db) \<subseteq> set (db_deliveries db') \<Longrightarrow> db_unsent sha aid chan key body db'"
  unfolding db_unsent_def by blast

lemma insert_manifest_safe:
  assumes "db_wf db" "insert_manifest io dataset content chans local_only db = Inr db'"
    "content_acceptable sha dataset content"
  shows "db_wf db' \<and> (db_unsent sha aid chan key body db \<longrightarrow> db_unsent sha aid chan key body db')"
proof -
  obtain revision db1 where
    i: "insert_artifact io (manifest_row dataset content chans local_only revision) db = Inr db1"
    and d: "insert_deliveries io (gd_artifact_id dataset) chans db1 = Inr db'"
    using assms(2) by (auto simp: insert_manifest_def split: option.splits)
  note m1 = insert_artifact_more [OF i] and m2 = insert_deliveries_more [OF d]
  have "db_wf db1"
    using insert_artifact_wf [OF assms(1) i] acceptable_filename [OF assms(3)] by (simp add: manifest_row_def)
  moreover have "gd_artifact_id dataset \<in> at_id ` set (db_artifacts db1)"
    using m1 by (simp add: manifest_row_def)
  ultimately have "db_wf db'" using d by (rule insert_deliveries_wf)
  moreover have "db_unsent sha aid chan key body db'" if "db_unsent sha aid chan key body db"
    using that m1 m2 by (intro more_rows_unsent [OF that]) auto
  ultimately show ?thesis by blast
qed

text \<open>The outcomes of queueing a new artifact.\<close>

lemma store_artifact_cases [case_names unchanged unmanifested stored]:
  obtains e where "store_artifact io dataset content chans local_only ox = (ox, Inl e)"
  | e where "map_of (ox_files ox) (local_only, gc_filename content) = None"
      "store_artifact io dataset content chans local_only ox =
        (put_file (local_only, gc_filename content) (gc_body content) ox, Inl e)"
  | db where "map_of (ox_files ox) (local_only, gc_filename content) = None"
      "insert_manifest io dataset content chans local_only (ox_db ox) = Inr db"
      "store_artifact io dataset content chans local_only ox =
        ((put_file (local_only, gc_filename content) (gc_body content) ox)\<lparr>ox_db := db\<rparr>, Inr ())"
proof -
  let ?new = "storage_status io ox" and ?f = "map_of (ox_files ox) (local_only, gc_filename content)"
  show thesis
  proof (cases "\<exists>guard. ?new = Inr guard \<and> \<not> guard_refuses guard (int (length (gc_body content))) \<and> ?f = None")
    case False
    then have "\<exists>e. store_artifact io dataset content chans local_only ox = (ox, Inl e)"
      by (cases ?new) (auto simp: store_artifact_def Let_def)
    then show thesis using that(1) by blast
  next
    case True
    then show thesis
      using that
      by (cases "io_write io"; cases "insert_manifest io dataset content chans local_only (ox_db ox)")
        (auto simp: store_artifact_def atomic_write_def Let_def)
  qed
qed

lemma enqueue_cases [case_names unchanged repeated unmanifested stored]:
  obtains e where "enqueue sha io dataset content chans local_only ox = (ox, Inl e)"
  | a where "find_artifact (ox_db ox) (gd_artifact_id dataset) = Some a" "same_manifest a dataset content"
      "content_acceptable sha dataset content" "enqueue sha io dataset content chans local_only ox = (ox, Inr ())"
  | e where "content_acceptable sha dataset content"
      "map_of (ox_files ox) (local_only, gc_filename content) = None"
      "enqueue sha io dataset content chans local_only ox =
        (put_file (local_only, gc_filename content) (gc_body content) ox, Inl e)"
  | db where "content_acceptable sha dataset content"
      "map_of (ox_files ox) (local_only, gc_filename content) = None"
      "insert_manifest io dataset content chans local_only (ox_db ox) = Inr db"
      "enqueue sha io dataset content chans local_only ox =
        ((put_file (local_only, gc_filename content) (gc_body content) ox)\<lparr>ox_db := db\<rparr>, Inr ())"
proof (cases "enqueue_refused sha io dataset content chans local_only ox")
  case (Some e)
  then show thesis using that(1) by (simp add: enqueue_def)
next
  case None
  then have acc: "content_acceptable sha dataset content" by (simp add: enqueue_refused_def split: if_splits)
  show thesis
  proof (cases "find_artifact (ox_db ox) (gd_artifact_id dataset)")
    case (Some a)
    then show thesis
      using that(1,2) None acc by (cases "same_manifest a dataset content") (auto simp: enqueue_def)
  next
    case new: None
    then have e: "enqueue sha io dataset content chans local_only ox = store_artifact io dataset content chans local_only ox"
      using None by (simp add: enqueue_def)
    show thesis
      by (rule store_artifact_cases [of io dataset content chans local_only ox])
        (use that(1,3,4) e acc in auto)
  qed
qed

lemma enqueue_safe:
  assumes "outbox_wf ox"
  shows "safe_step sha aid chan key body ox (fst (enqueue sha io dataset content chans local_only ox))"
proof -
  let ?k = "(local_only, gc_filename content)"
  let ?o = "put_file ?k (gc_body content) ox"
  have p: "safe_step sha aid chan key body ox ?o" if "map_of (ox_files ox) ?k = None"
    using assms that by (auto simp: safe_step_def outbox_wf_def unsent_def put_file_distinct map_of_put_file)
  show ?thesis
  proof (cases rule: enqueue_cases [of sha io dataset content chans local_only ox])
    case (stored db)
    have "safe_step sha aid chan key body ?o (?o\<lparr>ox_db := db\<rparr>)"
      using p [OF stored(2)] insert_manifest_safe [OF _ stored(3,1)] assms
      by (intro safe_db_step) (auto simp: safe_step_def outbox_wf_def)
    then show ?thesis using p [OF stored(2)] stored(4) by (simp add: safe_step_trans)
  qed (use assms p in \<open>simp_all add: safe_step_refl\<close>)
qed

text \<open>Start-up.\<close>

lemma leave_temporaries_safe:
  "outbox_wf ox \<Longrightarrow> safe_step sha aid chan key body ox (leave_temporaries stale ox)"
proof (induction stale arbitrary: ox)
  case Nil
  then show ?case by (simp add: leave_temporaries_def safe_step_refl)
next
  case (Cons entry stale)
  obtain dir name tx where e: "entry = ((dir, name), tx)" by (metis prod.exhaust)
  let ?o = "if temporary_name name then put_file (dir, name) tx ox else ox"
  have "safe_step sha aid chan key body ox ?o"
  proof (cases "temporary_name name")
    case True
    have "name \<noteq> snd key" if "unsent sha aid chan key body ox"
    proof -
      have "\<not> temporary_name (snd key)"
        using that Cons.prems by (auto simp: unsent_def db_unsent_def outbox_wf_def db_wf_def list_all_iff)
      then show ?thesis using True by auto
    qed
    then show ?thesis
      using Cons.prems True by (auto simp: safe_step_def outbox_wf_def unsent_def put_file_distinct map_of_put_file)
  next
    case False
    then show ?thesis using Cons.prems by (simp add: safe_step_refl)
  qed
  moreover from this have "safe_step sha aid chan key body ?o (leave_temporaries stale ?o)"
    by (intro Cons.IH) (simp only: safe_step_def)
  moreover have "leave_temporaries (entry # stale) ox = leave_temporaries stale ?o"
    by (simp add: leave_temporaries_def e)
  ultimately show ?case by (metis safe_step_trans)
qed

lemma remove_pending_safe:
  assumes "outbox_wf ox" "unsent sha aid chan key body ox \<Longrightarrow> list_all (\<lambda>a. at_filename a \<noteq> snd key) as"
  shows "safe_step sha aid chan key body ox (fst (remove_pending io as ox)) \<and>
    ox_db (fst (remove_pending io as ox)) = ox_db ox"
  using assms
proof (induction as arbitrary: ox)
  case Nil
  then show ?case by (simp add: safe_step_refl)
next
  case (Cons a as)
  let ?k = "(at_local_only a, at_filename a)"
  let ?o = "if io_remove io ?k then drop_file ?k ox else ox"
  have wf: "outbox_wf ?o" using Cons.prems(1) by (simp add: outbox_wf_def drop_file_distinct)
  have "unsent sha aid chan key body ?o" if u: "unsent sha aid chan key body ox"
  proof -
    have "at_filename a \<noteq> snd key" using Cons.prems(2) [OF u] by simp
    then have "?k \<noteq> key" by auto
    then show ?thesis using u by (simp add: unsent_def map_of_drop_file)
  qed
  then have s: "safe_step sha aid chan key body ox ?o" using wf unfolding safe_step_def by blast
  have prior: "unsent sha aid chan key body ox" if "unsent sha aid chan key body ?o"
    using that by (auto simp: unsent_def map_of_drop_file split: if_splits)
  have db: "ox_db ?o = ox_db ox" by simp
  have wo: "outbox_wf ?o" using s by (simp only: safe_step_def)
  have ih: "safe_step sha aid chan key body o1 (fst (remove_pending io as o1)) \<and>
      ox_db (fst (remove_pending io as o1)) = ox_db o1" if "o1 = ox \<or> o1 = ?o" for o1
  proof (rule Cons.IH)
    show "outbox_wf o1" using that Cons.prems(1) wo by blast
    show "list_all (\<lambda>a. at_filename a \<noteq> snd key) as" if "unsent sha aid chan key body o1"
      using that \<open>o1 = ox \<or> o1 = ?o\<close> prior Cons.prems(2) by auto
  qed
  show ?case
    using ih [of ox] ih [of ?o] s db Cons.prems(1) safe_step_trans [OF s]
    by (auto simp: payload_path_def safe_step_refl simp del: remove_pending.simps(1))
qed

lemma finish_pending_deletions_safe:
  assumes "outbox_wf ox"
  shows "safe_step sha aid chan key body ox (fst (finish_pending_deletions io ox))"
proof -
  let ?as = "filter at_delete_pending (db_artifacts (ox_db ox))"
  obtain o1 e where r: "remove_pending io ?as ox = (o1, e)" by fastforce
  have w: "db_wf (ox_db ox)" using assms by (simp add: outbox_wf_def)
  have pend: "at_id a \<noteq> aid" if u: "db_unsent sha aid chan key body (ox_db ox)" and m: "a \<in> set ?as" for a
  proof -
    obtain b where "b \<in> set (db_artifacts (ox_db ox))" "at_id b = aid" "\<not> at_delete_pending b"
      using u by (auto simp: db_unsent_def)
    moreover have "inj_on at_id (set (db_artifacts (ox_db ox)))" using w by (simp add: db_wf_def distinct_map)
    ultimately show ?thesis using m by (auto dest: inj_onD)
  qed
  have "list_all (\<lambda>a. at_filename a \<noteq> snd key) ?as" if "unsent sha aid chan key body ox"
    using pend other_artifact_key [OF w, of sha aid chan key body] that unfolding unsent_def list_all_iff by auto
  then have s: "safe_step sha aid chan key body ox o1" "ox_db o1 = ox_db ox"
    using remove_pending_safe [OF assms, of sha aid chan key body ?as io] r by simp_all
  have "safe_step sha aid chan key body o1 (o1\<lparr>ox_db := delete_artifacts at_delete_pending (ox_db o1)\<rparr>)"
    using s w pend
    by (intro safe_db_step) (auto simp: safe_step_def delete_artifacts_wf intro: delete_artifacts_unsent)
  then show ?thesis
    using s(1) r by (auto simp: finish_pending_deletions_def intro: safe_step_trans split: option.splits)
qed

text \<open>What recovery never changes of a manifest.\<close>

definition static_fields :: "artifact_row \<Rightarrow> string \<times> string \<times> bool \<times> int \<times> string \<times> bool" where
  "static_fields a = (at_id a, at_filename a, at_local_only a, at_size a, at_checksum a, at_delete_pending a)"

abbreviation static_rows :: "outbox \<Rightarrow> (string \<times> string \<times> bool \<times> int \<times> string \<times> bool) list" where
  "static_rows ox \<equiv> map static_fields (db_artifacts (ox_db ox))"

lemma block_artifacts [simp]: "db_artifacts (block_deliveries x m db) = db_artifacts db"
  by (simp add: block_deliveries_def)

lemma update_static:
  "(\<And>a. static_fields (f a) = static_fields a) \<Longrightarrow>
   map static_fields (db_artifacts (update_artifacts P f db)) = map static_fields (db_artifacts db)"
  by simp

lemma finalize_completed_static: "static_rows (fst (finalize_completed io x ox)) = static_rows ox"
  by (auto simp: finalize_completed_def Let_def static_fields_def split: option.splits sum.splits)

text \<open>The outcomes of the check of one manifest.\<close>

lemma recover_manifest_cases [case_names same finalized noted blocked missing missing_blocked]:
  obtains "fst (recover_manifest sha io a ox) = ox"
  | "fst (recover_manifest sha io a ox) = fst (finalize_completed io (at_id a) ox)"
  | m where "fst (recover_manifest sha io a ox) = ox\<lparr>ox_db := note_damage (at_id a) m (ox_db ox)\<rparr>"
  | m where "fst (recover_manifest sha io a ox) = ox\<lparr>ox_db := block_deliveries (at_id a) m (note_damage (at_id a) m (ox_db ox))\<rparr>"
  | m where "map_of (ox_files ox) (at_local_only a, at_filename a) = None"
    "fst (recover_manifest sha io a ox) = ox\<lparr>ox_db := note_missing (at_id a) m (ox_db ox)\<rparr>"
  | m where "map_of (ox_files ox) (at_local_only a, at_filename a) = None"
    "fst (recover_manifest sha io a ox) = ox\<lparr>ox_db := block_deliveries (at_id a) m (note_missing (at_id a) m (ox_db ox))\<rparr>"
proof (cases "payload_path (at_local_only a) (at_filename a)")
  case (Inl e)
  then show thesis using that(1) by (simp add: recover_manifest_def)
next
  case (Inr key)
  then have key: "key = (at_local_only a, at_filename a)" by (simp add: payload_path_def split: if_splits)
  let ?miss = "''manifest payload is missing''"
  show thesis
  proof (cases "map_of (ox_files ox) key")
    case None
    then have "fst (recover_manifest sha io a ox) \<in> {ox, ox\<lparr>ox_db := note_missing (at_id a) [] (ox_db ox)\<rparr>,
        ox\<lparr>ox_db := note_missing (at_id a) ?miss (ox_db ox)\<rparr>,
        ox\<lparr>ox_db := block_deliveries (at_id a) ?miss (note_missing (at_id a) ?miss (ox_db ox))\<rparr>}"
      using Inr key by (simp add: recover_manifest_def block_with_def Let_def split: option.split)
    then show thesis using that(1,5,6) None unfolding key by blast
  next
    case (Some f)
    then have "fst (recover_manifest sha io a ox) \<in> {ox, fst (finalize_completed io (at_id a) ox)} \<or>
        (\<exists>m. fst (recover_manifest sha io a ox) \<in> {ox\<lparr>ox_db := note_damage (at_id a) m (ox_db ox)\<rparr>,
          ox\<lparr>ox_db := block_deliveries (at_id a) m (note_damage (at_id a) m (ox_db ox))\<rparr>})"
      using Inr key by (auto simp: recover_manifest_def block_artifact_def block_with_def Let_def split: option.split)
    then show thesis using that(1,2,3,4) by blast
  qed
qed

lemma recover_manifest_static: "static_rows (fst (recover_manifest sha io a ox)) = static_rows ox"
  by (rule recover_manifest_cases [of sha io a ox])
    (simp_all add: note_damage_def note_missing_def static_fields_def finalize_completed_static)

lemma recover_manifests_static: "static_rows (fst (recover_manifests sha io as ox)) = static_rows ox"
proof (induction as arbitrary: ox)
  case Nil
  then show ?case by simp
next
  case (Cons a as)
  obtain ox1 e where r: "recover_manifest sha io a ox = (ox1, e)" by fastforce
  then have "static_rows ox1 = static_rows ox" using recover_manifest_static [of sha io a ox] by simp
  then show ?case using Cons.IH [of ox1] r by (cases e) simp_all
qed

lemma block_deliveries_safe:
  assumes "db_wf db"
  shows "db_wf (block_deliveries x m db)"
    "db_unsent sha aid chan key body db \<Longrightarrow> db_unsent sha aid chan key body (block_deliveries x m db)"
  using assms
  by (auto simp: block_deliveries_def delivery_key_def final_state_def
      intro!: update_deliveries_wf update_deliveries_unsent)

text \<open>A change of one manifest that keeps its names, and of an unsent one all that counts.\<close>

lemma update_manifest_safe:
  assumes "outbox_wf ox" "\<And>a. static_fields (f a) = static_fields a"
    "unsent sha aid chan key body ox \<Longrightarrow> x = aid \<Longrightarrow> \<forall>a. at_payload_present (f a) = at_payload_present a"
  shows "safe_step sha aid chan key body ox (ox\<lparr>ox_db := update_artifacts (\<lambda>b. at_id b = x) f (ox_db ox)\<rparr>)"
proof -
  let ?db = "update_artifacts (\<lambda>b. at_id b = x) f (ox_db ox)"
  have s: "at_id (f a) = at_id a \<and> at_filename (f a) = at_filename a \<and> at_local_only (f a) = at_local_only a \<and>
      at_size (f a) = at_size a \<and> at_checksum (f a) = at_checksum a \<and> at_delete_pending (f a) = at_delete_pending a" for a
    using assms(2) [of a] by (simp add: static_fields_def)
  have w: "db_wf ?db" using assms(1) s by (intro update_artifacts_wf) (auto simp: outbox_wf_def)
  have "unsent sha aid chan key body (ox\<lparr>ox_db := ?db\<rparr>)" if u: "unsent sha aid chan key body ox"
  proof -
    have "db_unsent sha aid chan key body ?db"
      using u assms(3) [OF u] s by (intro update_artifacts_unsent) (auto simp: unsent_def)
    then show ?thesis using u by (simp add: unsent_def)
  qed
  then show ?thesis using w assms(1) by (simp add: safe_step_def outbox_wf_def)
qed

lemma note_damage_safe:
  assumes "outbox_wf ox"
  shows "safe_step sha aid chan key body ox (ox\<lparr>ox_db := note_damage x m (ox_db ox)\<rparr>)"
  using assms unfolding note_damage_def by (intro update_manifest_safe) (auto simp: static_fields_def)

text \<open>Blocking the deliveries in a further statement.\<close>

lemma then_block_safe:
  assumes "safe_step sha aid chan key body ox (ox\<lparr>ox_db := db\<rparr>)"
  shows "safe_step sha aid chan key body ox (ox\<lparr>ox_db := block_deliveries x m db\<rparr>)"
proof -
  have "safe_step sha aid chan key body (ox\<lparr>ox_db := db\<rparr>) (ox\<lparr>ox_db := db\<rparr>\<lparr>ox_db := block_deliveries x m db\<rparr>)"
    using assms block_deliveries_safe by (intro safe_db_step) (auto simp: safe_step_def outbox_wf_def)
  then show ?thesis using safe_step_trans [OF assms] by simp
qed

text \<open>The manifest of the unsent delivery passes the check of its payload.\<close>

lemma unsent_manifest:
  assumes "outbox_wf ox" "static_fields a \<in> set (static_rows ox)" "at_id a = aid" "unsent sha aid chan key body ox"
  shows "key = (at_local_only a, at_filename a)" "map_of (ox_files ox) key = Some body"
    "at_size a = int (length body)" "at_checksum a = sha body" "\<not> all_succeeded (ox_db ox) aid"
proof -
  obtain b where b: "b \<in> set (db_artifacts (ox_db ox))" "at_id b = aid" "(at_local_only b, at_filename b) = key"
      "at_size b = int (length body)" "at_checksum b = sha body"
    using assms(4) by (auto simp: unsent_def db_unsent_def)
  obtain c where c: "c \<in> set (db_artifacts (ox_db ox))" "static_fields c = static_fields a" using assms(2) by auto
  have "inj_on at_id (set (db_artifacts (ox_db ox)))" using assms(1) by (simp add: outbox_wf_def db_wf_def distinct_map)
  moreover have "at_id c = at_id b" using b(2) c(2) assms(3) by (simp add: static_fields_def)
  ultimately have "c = b" using b(1) c(1) by (simp add: inj_on_def)
  then show "key = (at_local_only a, at_filename a)" "at_size a = int (length body)" "at_checksum a = sha body"
    using b c by (auto simp: static_fields_def)
  show "map_of (ox_files ox) key = Some body" using assms(4) by (simp add: unsent_def)
  show "\<not> all_succeeded (ox_db ox) aid" using assms(4) unfolding unsent_def by (metis unsent_not_succeeded)
qed

lemma recover_manifest_safe:
  assumes wf: "outbox_wf ox" and tr: "static_fields a \<in> set (static_rows ox)"
  shows "safe_step sha aid chan key body ox (fst (recover_manifest sha io a ox))"
proof -
  have miss: "safe_step sha aid chan key body ox (ox\<lparr>ox_db := note_missing (at_id a) m (ox_db ox)\<rparr>)"
    if none: "map_of (ox_files ox) (at_local_only a, at_filename a) = None" for m
  proof -
    have "at_id a \<noteq> aid" if "unsent sha aid chan key body ox"
      using unsent_manifest(1,2) [OF wf tr _ that] none by auto
    then show ?thesis
      using wf unfolding note_missing_def by (intro update_manifest_safe) (auto simp: static_fields_def)
  qed
  show ?thesis
    by (rule recover_manifest_cases [of sha io a ox])
      (use wf in \<open>simp_all add: safe_step_refl finalize_completed_safe miss note_damage_safe then_block_safe\<close>)
qed

lemma recover_manifests_safe:
  assumes "outbox_wf ox" "static_fields ` set as \<subseteq> set (static_rows ox)"
  shows "safe_step sha aid chan key body ox (fst (recover_manifests sha io as ox))"
  using assms
proof (induction as arbitrary: ox)
  case Nil
  then show ?case by (simp add: safe_step_refl)
next
  case (Cons a as)
  obtain ox1 e where r: "recover_manifest sha io a ox = (ox1, e)" by fastforce
  have st: "static_rows ox1 = static_rows ox" using recover_manifest_static [of sha io a ox] r by simp
  have s: "safe_step sha aid chan key body ox ox1"
    using recover_manifest_safe [OF Cons.prems(1), of a sha aid chan key body io] Cons.prems(2) r by simp
  have "safe_step sha aid chan key body ox1 (fst (recover_manifests sha io as ox1))"
    using s Cons.prems(2) unfolding st [symmetric] by (intro Cons.IH) (auto simp: safe_step_def)
  then show ?case using s r by (cases e) (auto intro: safe_step_trans)
qed

definition payload_name :: "string \<Rightarrow> bool" where
  "payload_name n \<longleftrightarrow> safe_filename n \<and> \<not> temporary_name n \<and> (extension_of n = ''json'' \<or> extension_of n = ''csv'')"

lemma recover_file_cases [case_names failed skipped dropped inserted]:
  obtains e where "recover_file sha io known (key, f) ox = (ox, Some e)"
  | "recover_file sha io known (key, f) ox = (ox, None)" "payload_name (snd key) \<Longrightarrow> snd key \<in> set known"
  | "temporary_name (snd key)" "recover_file sha io known (key, f) ox = (drop_file key ox, None)"
  | tx db where "payload_name (snd key)" "insert_artifact io (recovered_row sha (ox_db ox) key tx) (ox_db ox) = Inr db"
    "recover_file sha io known (key, f) ox = (ox\<lparr>ox_db := db\<rparr>, None)"
proof (cases "payload_name (snd key) \<and> snd key \<notin> set known")
  case False
  show thesis
  proof (cases "temporary_name (snd key)")
    case True
    then show thesis
      using that(2,3) by (cases "io_remove io key") (auto simp: recover_file_def payload_name_def Let_def)
  next
    case nt: False
    then show thesis using that(2) False by (auto simp: recover_file_def payload_name_def Let_def)
  qed
next
  case True
  then have r: "recover_file sha io known (key, f) ox = (case read_file io ox key (int (length f)) of
        Inl e \<Rightarrow> (ox, Some e)
      | Inr text \<Rightarrow> (case bind_result (insert_artifact io (recovered_row sha (ox_db ox) key text) (ox_db ox)) (\<lambda>db.
            (case io_db io (snd key) of Some e \<Rightarrow> Inl e | None \<Rightarrow> Inr db)) of
          Inl e \<Rightarrow> (ox, Some (Other_error e)) | Inr db \<Rightarrow> (ox\<lparr>ox_db := db\<rparr>, None)))"
    by (auto simp: recover_file_def payload_name_def)
  show thesis
  proof (cases "read_file io ox key (int (length f))")
    case (Inl e)
    then show thesis using that(1) r by simp
  next
    case (Inr tx)
    then show thesis
      using that(1,4) r True
      by (cases "insert_artifact io (recovered_row sha (ox_db ox) key tx) (ox_db ox)"; cases "io_db io (snd key)") auto
  qed
qed

lemma recovered_filename [simp]: "at_filename (recovered_row sha db key tx) = snd key"
  by (simp add: recovered_row_def Let_def)

lemma recover_file_safe:
  assumes "outbox_wf ox"
  shows "safe_step sha aid chan key body ox (fst (recover_file sha io known (k, f) ox))"
proof (cases rule: recover_file_cases [of sha io known k f ox])
  case dropped
  have "unsent sha aid chan key body (drop_file k ox)" if u: "unsent sha aid chan key body ox"
  proof -
    have "\<not> temporary_name (snd key)"
      using u assms by (auto simp: unsent_def db_unsent_def outbox_wf_def db_wf_def list_all_iff)
    then have "k \<noteq> key" using dropped(1) by auto
    then show ?thesis using u by (simp add: unsent_def map_of_drop_file)
  qed
  then show ?thesis using dropped(2) assms by (simp add: safe_step_def outbox_wf_def drop_file_distinct)
next
  case (inserted tx db)
  have "db_wf db" using assms inserted(1) by (intro insert_artifact_wf [OF _ inserted(2)]) (auto simp: outbox_wf_def payload_name_def)
  moreover have "db_unsent sha aid chan key body db" if "db_unsent sha aid chan key body (ox_db ox)"
    using insert_artifact_more [OF inserted(2)] by (intro more_rows_unsent [OF that]) auto
  ultimately show ?thesis using inserted(3) assms by (simp add: safe_db_step)
qed (use assms in \<open>simp_all add: safe_step_refl\<close>)

lemma recover_files_safe:
  "outbox_wf ox \<Longrightarrow> safe_step sha aid chan key body ox (fst (recover_files sha io known entries ox))"
proof (induction entries arbitrary: ox)
  case Nil
  then show ?case by (simp add: safe_step_refl)
next
  case (Cons entry entries)
  obtain k f where e: "entry = (k, f)" by fastforce
  obtain ox1 x where r: "recover_file sha io known entry ox = (ox1, x)" by fastforce
  then have s: "safe_step sha aid chan key body ox ox1"
    using recover_file_safe [OF Cons.prems, of sha aid chan key body io known k f] by (simp add: e)
  then have "safe_step sha aid chan key body ox1 (fst (recover_files sha io known entries ox1))"
    by (intro Cons.IH) (simp add: safe_step_def)
  then show ?case using s r by (cases x) (auto intro: safe_step_trans)
qed

lemma recover_safe:
  assumes "outbox_wf ox"
  shows "safe_step sha aid chan key body ox (fst (recover sha io ox))"
proof -
  let ?m = "filter (\<lambda>a. \<not> at_delete_pending a) (db_artifacts (ox_db ox))"
  obtain ox1 x where r: "recover_manifests sha io ?m ox = (ox1, x)" by fastforce
  have s: "safe_step sha aid chan key body ox ox1"
    using recover_manifests_safe [OF assms, of ?m sha aid chan key body io] r by auto
  show ?thesis
  proof (cases x)
    case (Some e)
    then show ?thesis using s r by (simp add: recover_def Let_def)
  next
    case None
    have "safe_step sha aid chan key body ox1 (fst (recover_files sha io known es ox1))" for known es
      using s by (intro recover_files_safe) (simp add: safe_step_def)
    then show ?thesis using s r None by (auto simp: recover_def Let_def intro: safe_step_trans)
  qed
qed

lemma initialized_safe: "safe_step sha aid chan key body ox ox' \<Longrightarrow> safe_step sha aid chan key body ox (ox'\<lparr>ox_initialized := b\<rparr>)"
  by (simp add: safe_step_def outbox_wf_def unsent_def)

lemma initialize_safe:
  assumes "outbox_wf ox"
  shows "safe_step sha aid chan key body ox (fst (initialize sha io ox))"
proof -
  obtain ox1 x where f: "finish_pending_deletions io ox = (ox1, x)" by fastforce
  obtain ox2 y where r: "recover sha io ox1 = (ox2, y)" by fastforce
  have s: "safe_step sha aid chan key body ox ox1" using finish_pending_deletions_safe [OF assms, of sha aid chan key body io] f by simp
  then have "safe_step sha aid chan key body ox1 ox2" using recover_safe [of ox1 sha aid chan key body io] r by (simp add: safe_step_def)
  with s have t: "safe_step sha aid chan key body ox ox2" by (rule safe_step_trans)
  show ?thesis
    using assms s t initialized_safe [OF t, of True] f r
    by (cases "ox_initialized ox"; cases "io_db io ''schema''"; cases x; cases y) (simp_all add: initialize_def safe_step_refl)
qed

text \<open>The operations that may end an unsent delivery: its own success, and a confirmed deletion.\<close>

fun ends_delivery :: "string \<Rightarrow> string \<Rightarrow> outbox_op \<Rightarrow> bool" where
  "ends_delivery aid chan (Op_record io q result attempted_at next_attempt) =
     (qd_artifact_id q = aid \<and> qd_channel_id q = chan \<and> rs_disposition result = Disposition_succeeded)"
| "ends_delivery aid chan (Op_erase io aids discard now) = (discard \<and> aid \<in> set aids)"
| "ends_delivery aid chan _ = False"

lemma outbox_step_safe:
  assumes "outbox_wf ox" "\<not> ends_delivery aid chan op"
  shows "safe_step sha aid chan key body ox (outbox_step sha ox op)"
proof (cases op)
  case (Op_restart io stale)
  have s: "safe_step sha aid chan key body ox ((leave_temporaries stale ox)\<lparr>ox_initialized := False\<rparr>)"
    using assms(1) by (intro initialized_safe leave_temporaries_safe)
  then show ?thesis
    using safe_step_trans [OF s initialize_safe] Op_restart by (simp add: safe_step_def)
qed (use assms in \<open>simp_all add: enqueue_safe claim_due_safe record_result_safe retry_safe retry_channel_safe
    prune_completed_safe erase_artifacts_safe store_watermark_safe update_storage_policy_safe\<close>)

lemma outbox_step_wf: "outbox_wf ox \<Longrightarrow> outbox_wf (outbox_step sha ox op)"
proof -
  assume wf: "outbox_wf ox"
  have inf: "infinite (UNIV :: string set)" by (rule infinite_UNIV_listI)
  define names where "names = (case op of Op_record io q r at na \<Rightarrow> {qd_artifact_id q} | Op_erase io aids d n \<Rightarrow> set aids | _ \<Rightarrow> {})"
  have "finite names" by (simp add: names_def split: outbox_op.split)
  then obtain aid where "aid \<notin> names" using ex_new_if_finite [OF inf] by blast
  then have "\<not> ends_delivery aid [] op" by (cases op) (auto simp: names_def)
  from outbox_step_safe [OF wf this] show ?thesis by (simp add: safe_step_def)
qed

interpretation outbox_tables: invariant_system "outbox_step sha" outbox_wf for sha
  by unfold_locales (rule outbox_step_wf)

lemma empty_outbox_wf: "outbox_wf (empty_outbox policy)"
  by (simp add: empty_outbox_def outbox_wf_def db_wf_def)

lemma outbox_run_safe:
  "outbox_wf ox \<Longrightarrow> list_all (\<lambda>op. \<not> ends_delivery aid chan op) ops \<Longrightarrow>
   safe_step sha aid chan key body ox (foldl (outbox_step sha) ox ops)"
proof (induction ops arbitrary: ox)
  case Nil
  then show ?case by (simp add: safe_step_refl)
next
  case (Cons op ops)
  have s: "safe_step sha aid chan key body ox (outbox_step sha ox op)" using Cons.prems by (intro outbox_step_safe) auto
  then have "safe_step sha aid chan key body (outbox_step sha ox op) (foldl (outbox_step sha) (outbox_step sha ox op) ops)"
    using Cons.prems(2) by (intro Cons.IH) (auto simp: safe_step_def)
  then show ?case using safe_step_trans [OF s] by simp
qed

section \<open>No data is lost\<close>

lemma insert_deliveries_all:
  "insert_deliveries io x chans db = Inr db' \<Longrightarrow> chan \<in> set chans \<Longrightarrow>
   \<exists>d \<in> set (db_deliveries db'). delivery_key d = (x, chan) \<and> \<not> final_state (dy_state d)"
proof (induction io x chans db rule: insert_deliveries.induct)
  case (1 io aid db)
  then show ?case by simp
next
  case (2 io aid c chans db)
  let ?db = "db\<lparr>db_deliveries := db_deliveries db @ [\<lparr>dy_artifact_id = aid, dy_channel_id = c, dy_state = D_pending,
    dy_attempts = 0, dy_next = 0, dy_last = 0, dy_remote_result = [], dy_last_error = []\<rparr>]\<rparr>"
  have i: "insert_deliveries io aid chans ?db = Inr db'"
    "\<not> list_ex (\<lambda>d. dy_artifact_id d = aid \<and> dy_channel_id d = c) (db_deliveries db)"
    using 2(2) by (auto split: if_splits)
  show ?case
  proof (cases "chan = c")
    case True
    have "\<exists>d \<in> set (db_deliveries ?db). delivery_key d = (aid, c) \<and> \<not> final_state (dy_state d)"
      by (simp add: delivery_key_def final_state_def)
    then show ?thesis using insert_deliveries_more [OF i(1)] True by blast
  next
    case False
    then show ?thesis using 2(1) [OF i(2,1)] 2(3) by simp
  qed
qed

text \<open>Queueing an artifact makes its deliveries unsent.\<close>

lemma enqueue_unsent:
  assumes "enqueue sha io dataset content chans local_only ox = (ox1, Inr ())"
    "find_artifact (ox_db ox) (gd_artifact_id dataset) = None" "chan \<in> set chans"
  shows "unsent sha (gd_artifact_id dataset) chan (local_only, gc_filename content) (gc_body content) ox1"
proof (cases rule: enqueue_cases [of sha io dataset content chans local_only ox])
  case (stored db)
  obtain revision db1 where
    i: "insert_artifact io (manifest_row dataset content chans local_only revision) (ox_db ox) = Inr db1"
    and d: "insert_deliveries io (gd_artifact_id dataset) chans db1 = Inr db"
    using stored(3) by (auto simp: insert_manifest_def split: option.splits)
  have row: "manifest_row dataset content chans local_only revision \<in> set (db_artifacts db)"
    using insert_artifact_more [OF i] insert_deliveries_more [OF d] by simp
  have "sha (gc_body content) = gc_sha256 content" using stored(1) by (simp add: content_acceptable_def)
  then have "db_unsent sha (gd_artifact_id dataset) chan (local_only, gc_filename content) (gc_body content) db"
    using row insert_deliveries_all [OF d assms(3)] unfolding db_unsent_def
    by (force simp: manifest_row_def)
  moreover have "ox1 = (put_file (local_only, gc_filename content) (gc_body content) ox)\<lparr>ox_db := db\<rparr>"
    using assms(1) stored(4) by simp
  ultimately show ?thesis by (simp add: unsent_def map_of_put_file)
qed (use assms in auto)

text \<open>The payload of an unsent delivery can be read.\<close>

lemma unsent_content:
  assumes "outbox_wf ox" "unsent sha aid chan key body ox" "io_db io ''select content'' = None" "io_read io key"
  shows "\<exists>c. content_of sha io ox aid = Inr c \<and> gc_artifact_id c = aid \<and> gc_body c = body \<and>
    gc_filename c = snd key \<and> gc_sha256 c = sha body"
proof -
  obtain a where a: "a \<in> set (db_artifacts (ox_db ox))" "at_id a = aid" "(at_local_only a, at_filename a) = key"
      "at_payload_present a" "\<not> at_delete_pending a" "at_size a = int (length body)" "at_checksum a = sha body"
    using assms(2) by (auto simp: unsent_def db_unsent_def)
  have wf: "db_wf (ox_db ox)" using assms(1) by (simp add: outbox_wf_def)
  then have inj: "inj_on at_id (set (db_artifacts (ox_db ox)))" by (simp add: db_wf_def distinct_map)
  obtain b where b: "live_artifact (ox_db ox) aid = Some b"
    using a(1,2,5) by (cases "live_artifact (ox_db ox) aid") (auto simp: live_artifact_def find_None_iff)
  then have "b = a" using live_artifact_SomeD [OF b] a(1,2) inj by (auto simp: inj_on_def)
  moreover have "read_file io ox key (at_size a) = Inr body"
    using assms(2,4) a(6) by (simp add: read_file_def unsent_def)
  ultimately show ?thesis
    using assms(3) b a safe_payload_path [OF wf a(1), of "at_local_only a"] by (auto simp: content_of_def)
qed

text \<open>
  C27. No data is lost. Once \<^verbatim>\<open>enqueue\<close> has accepted a new artifact, its delivery to each of its channels
  stays open and \<^verbatim>\<open>content\<close> returns exactly the queued bytes, after any number of further operations of
  the outbox - queueing, claims, results, retries, deletions, retention, restarts at any point with
  any outcome of the disk and the database - as long as none of them is the success of that delivery or
  a deletion of that artifact with \<^verbatim>\<open>discard_unsent\<close>. (The files of the outbox are its own: no other
  program removes or rewrites them, temporaries apart.)
\<close>

theorem outbox_no_loss:
  assumes "ox = foldl (outbox_step sha) (empty_outbox policy) before"
    "find_artifact (ox_db ox) (gd_artifact_id dataset) = None"
    "enqueue sha io dataset content chans local_only ox = (ox1, Inr ())" "chan \<in> set chans"
    "list_all (\<lambda>op. \<not> ends_delivery (gd_artifact_id dataset) chan op) later"
    "ox2 = foldl (outbox_step sha) ox1 later"
    "io_db io2 ''select content'' = None" "io_read io2 (local_only, gc_filename content)"
  shows "(\<exists>d \<in> set (db_deliveries (ox_db ox2)). dy_artifact_id d = gd_artifact_id dataset \<and> dy_channel_id d = chan \<and>
      \<not> final_state (dy_state d)) \<and>
    (\<exists>c. content_of sha io2 ox2 (gd_artifact_id dataset) = Inr c \<and> gc_body c = gc_body content \<and>
      gc_filename c = gc_filename content \<and> gc_sha256 c = gc_sha256 content)"
proof -
  let ?u = "unsent sha (gd_artifact_id dataset) chan (local_only, gc_filename content) (gc_body content)"
  have w: "outbox_wf ox" using outbox_tables.inv_run [OF empty_outbox_wf] assms(1) by simp
  then have "outbox_wf ox1"
    using enqueue_safe [OF w, of sha _ _ _ _ io dataset content chans local_only] assms(3) by (simp add: safe_step_def)
  from outbox_run_safe [OF this assms(5), of sha] have s: "outbox_wf ox2" "?u ox1 \<Longrightarrow> ?u ox2"
    using assms(6) by (auto simp: safe_step_def)
  have u: "?u ox2" using enqueue_unsent [OF assms(3,2,4)] s(2) by blast
  have "sha (gc_body content) = gc_sha256 content"
    by (rule enqueue_cases [of sha io dataset content chans local_only ox]) (use assms(3) in \<open>auto simp: content_acceptable_def\<close>)
  then show ?thesis
    using unsent_content [OF s(1) u assms(7,8)] u by (auto simp: unsent_def db_unsent_def delivery_key_def)
qed

text \<open>An outbox with one artifact for one channel, and an environment without failures.\<close>

definition example_io :: outbox_io where
  "example_io = \<lparr>io_inspect = True, io_available = 100000, io_write = Write_ok, io_db = (\<lambda>_. None),
     io_constraint = Runtime_error ''constraint'', io_remove = (\<lambda>_. True), io_read = (\<lambda>_. True), io_sync = None\<rparr>"

definition example_policy :: outbox_policy where
  "example_policy = \<lparr>op_maximum_bytes = 1000, op_minimum_free = 10, op_retention = 5000\<rparr>"

definition example_sha :: "string \<Rightarrow> string" where
  "example_sha s = take 64 (s @ replicate 64 CHR ''0'')"

definition example_dataset :: generated_dataset where
  "example_dataset = \<lparr>gd_schema = ''mnc.meter.datalog.v1'', gd_artifact_id = ''daily-r2-0-100-csv'', gd_job_id = ''daily'',
     gd_job_revision = 2, gd_product_id = ''msap1'', gd_device_id = ''m1'', gd_source_period = Period_Basic,
     gd_format = Format_csv, gd_generated_at = 200, gd_window = example_window, gd_columns = [], gd_rows = []\<rparr>"

definition example_content :: generated_content where
  "example_content = make_content example_sha example_dataset ''schema'' ''text/csv; charset=utf-8'' ''csv''"

definition example_started :: outbox where
  "example_started = outbox_step example_sha (empty_outbox example_policy) (Op_restart example_io [])"

definition example_queued :: outbox where
  "example_queued = fst (enqueue example_sha example_io example_dataset example_content [''cloud''] False example_started)"

definition example_delivery :: queued_delivery where
  "example_delivery = \<lparr>qd_artifact_id = ''daily-r2-0-100-csv'', qd_channel_id = ''cloud'', qd_state = D_in_flight,
     qd_attempt_count = 0, qd_next_attempt = 500, qd_last_attempt = 0, qd_remote_result = [], qd_last_error = []\<rparr>"

definition example_ops :: "outbox_op list" where
  "example_ops = [Op_claim example_io 300 500 10,
     Op_record example_io example_delivery \<lparr>rs_disposition = Disposition_retryable, rs_remote_result = [],
       rs_sanitized_error = ''timeout''\<rparr> 310 900,
     Op_restart example_io [((False, ''x.csv.tmp.12''), ''half'')]]"

lemma example_queued_ok:
  "find_artifact (ox_db example_started) ''daily-r2-0-100-csv'' = None"
  "enqueue example_sha example_io example_dataset example_content [''cloud''] False example_started = (example_queued, Inr ())"
proof -
  show "find_artifact (ox_db example_started) ''daily-r2-0-100-csv'' = None" by code_simp
  have "snd (enqueue example_sha example_io example_dataset example_content [''cloud''] False example_started) = Inr ()"
    by code_simp
  then show "enqueue example_sha example_io example_dataset example_content [''cloud''] False example_started = (example_queued, Inr ())"
    by (simp add: example_queued_def prod_eq_iff)
qed

theorem outbox_no_loss_witness:
  "\<exists>c. content_of example_sha example_io (foldl (outbox_step example_sha) example_queued example_ops) ''daily-r2-0-100-csv'' = Inr c \<and>
    gc_body c = ''schema''"
proof -
  have s: "example_started = foldl (outbox_step example_sha) (empty_outbox example_policy) [Op_restart example_io []]"
    by (simp add: example_started_def)
  have l: "list_all (\<lambda>op. \<not> ends_delivery ''daily-r2-0-100-csv'' ''cloud'' op) example_ops"
    by (simp add: example_ops_def)
  have i: "gd_artifact_id example_dataset = ''daily-r2-0-100-csv''" "gc_body example_content = ''schema''"
    by (simp_all add: example_dataset_def example_content_def make_content_def)
  show ?thesis
    using outbox_no_loss [OF s, of example_dataset example_io example_content "[''cloud'']" False example_queued
        "''cloud''" example_ops _ example_io]
      example_queued_ok l by (auto simp: i example_io_def)
qed

section \<open>Recovery\<close>

text \<open>Recovery adds manifests and never removes one.\<close>

abbreviation filenames :: "outbox \<Rightarrow> string set" where
  "filenames ox \<equiv> at_filename ` set (db_artifacts (ox_db ox))"

lemma static_filenames: "static_rows ox = static_rows ox' \<Longrightarrow> filenames ox = filenames ox'"
proof -
  assume "static_rows ox = static_rows ox'"
  then have "map (\<lambda>(i, n, r). n) (static_rows ox) = map (\<lambda>(i, n, r). n) (static_rows ox')" by simp
  then have "map at_filename (db_artifacts (ox_db ox)) = map at_filename (db_artifacts (ox_db ox'))"
    by (simp add: static_fields_def comp_def)
  then show ?thesis by (metis list.set_map)
qed

lemma recover_file_names:
  assumes "recover_file sha io known (k, f) ox = (ox1, None)" "set known \<subseteq> filenames ox"
  shows "filenames ox \<subseteq> filenames ox1" "set (ox_files ox1) \<subseteq> set (ox_files ox)"
    "payload_name (snd k) \<Longrightarrow> snd k \<in> filenames ox1"
proof -
  have "filenames ox \<subseteq> filenames ox1 \<and> set (ox_files ox1) \<subseteq> set (ox_files ox) \<and>
      (payload_name (snd k) \<longrightarrow> snd k \<in> filenames ox1)"
  proof (cases rule: recover_file_cases [of sha io known k f ox])
    case skipped
    then show ?thesis using assms by auto
  next
    case dropped
    then show ?thesis using assms(1) by (auto simp: payload_name_def drop_file_def)
  next
    case (inserted tx db)
    then show ?thesis using insert_artifact_more [OF inserted(2)] assms(1) by auto
  qed (use assms in simp)
  then show "filenames ox \<subseteq> filenames ox1" "set (ox_files ox1) \<subseteq> set (ox_files ox)"
    "payload_name (snd k) \<Longrightarrow> snd k \<in> filenames ox1" by simp_all
qed

lemma recover_files_names:
  assumes "recover_files sha io known entries ox = (ox1, None)" "set known \<subseteq> filenames ox"
  shows "filenames ox \<subseteq> filenames ox1 \<and> set (ox_files ox1) \<subseteq> set (ox_files ox) \<and>
    (\<forall>(k, f) \<in> set entries. payload_name (snd k) \<longrightarrow> snd k \<in> filenames ox1)"
  using assms
proof (induction entries arbitrary: ox)
  case Nil
  then show ?case by simp
next
  case (Cons entry entries)
  obtain k f where e: "entry = (k, f)" by fastforce
  obtain ox2 where r: "recover_file sha io known (k, f) ox = (ox2, None)" "recover_files sha io known entries ox2 = (ox1, None)"
    using Cons.prems(1) by (auto simp: e split: prod.splits option.splits)
  note n = recover_file_names [OF r(1) Cons.prems(2)]
  have "set known \<subseteq> filenames ox2" using n(1) Cons.prems(2) by (rule subset_trans [rotated])
  note ih = Cons.IH [OF r(2) this]
  have "\<forall>(k', f') \<in> set (entry # entries). payload_name (snd k') \<longrightarrow> snd k' \<in> filenames ox1"
    using ih n(3) unfolding e by auto
  then show ?case using ih n(1,2) by (meson subset_trans)
qed

text \<open>
  A start-up leaves no stray payload: when \<^verbatim>\<open>initialize\<close> returns, every \<^verbatim>\<open>.json\<close> or \<^verbatim>\<open>.csv\<close> file of the
  outbox and archive directories whose name is acceptable has a manifest, so a file that was
  published before its manifest could be committed is found again and can be listed and deleted.
\<close>

theorem recovery_adopts_files:
  assumes "\<not> ox_initialized ox" "initialize sha io ox = (ox', None)" "((dir, name), f) \<in> set (ox_files ox')"
    "payload_name name"
  shows "\<exists>a \<in> set (db_artifacts (ox_db ox')). at_filename a = name"
proof -
  obtain ox1 ox2 where f: "finish_pending_deletions io ox = (ox1, None)" and r: "recover sha io ox1 = (ox2, None)"
    and ox': "ox' = ox2\<lparr>ox_initialized := True\<rparr>"
    using assms(1,2) by (auto simp: initialize_def split: option.splits prod.splits)
  let ?m = "filter (\<lambda>a. \<not> at_delete_pending a) (db_artifacts (ox_db ox1))"
  obtain ox3 where m: "recover_manifests sha io ?m ox1 = (ox3, None)"
    and s: "recover_files sha io (map at_filename ?m)
      (filter (\<lambda>(k, b). \<not> fst k) (ox_files ox3) @ filter (\<lambda>(k, b). fst k) (ox_files ox3)) ox3 = (ox2, None)"
    using r by (auto simp: recover_def Let_def split: option.splits prod.splits)
  have "filenames ox3 = filenames ox1"
    using recover_manifests_static [of sha io ?m ox1] m by (intro static_filenames) simp
  then have "set (map at_filename ?m) \<subseteq> filenames ox3" by auto
  note n = recover_files_names [OF s this]
  have "((dir, name), f) \<in> set (ox_files ox3)" using assms(3) n ox' by auto
  then have "((dir, name), f) \<in> set (filter (\<lambda>(k, b). \<not> fst k) (ox_files ox3) @ filter (\<lambda>(k, b). fst k) (ox_files ox3))"
    by (cases dir) auto
  then have "name \<in> filenames ox2" using n assms(4) by fastforce
  then show ?thesis using ox' by auto
qed

definition example_stray :: outbox where
  "example_stray = (empty_outbox example_policy)\<lparr>ox_files := [((False, ''daily-r2-0-100-csv.csv''), ''schema'')]\<rparr>"

theorem recovery_adopts_files_witness:
  "\<exists>a \<in> set (db_artifacts (ox_db (fst (initialize example_sha example_io example_stray)))).
    at_filename a = ''daily-r2-0-100-csv.csv''"
proof -
  let ?r = "initialize example_sha example_io example_stray"
  have r: "?r = (fst ?r, None)" by (subst prod_eq_iff) code_simp
  have i: "\<not> ox_initialized example_stray" by code_simp
  have p: "payload_name ''daily-r2-0-100-csv.csv''" by code_simp
  have m: "((False, ''daily-r2-0-100-csv.csv''), ''schema'') \<in> set (ox_files (fst ?r))" by code_simp
  show ?thesis using recovery_adopts_files [OF i r m p] .
qed

section \<open>Storage\<close>

text \<open>Bytes of one file list, temporaries apart, and operations that add no file.\<close>

definition file_bytes :: "(file_key \<times> string) list \<Rightarrow> int" where
  "file_bytes fs = sum_list (map (\<lambda>((dir, name), body). if temporary_name name then 0 else int (length body)) fs)"

lemma payload_bytes_eq: "payload_bytes ox = file_bytes (ox_files ox)"
proof -
  have "sum_list (map (\<lambda>(k, body). int (length body)) (filter (\<lambda>((dir, name), body). \<not> temporary_name name) fs)) =
      file_bytes fs" for fs
    by (induction fs) (auto simp: file_bytes_def)
  then show ?thesis by (simp add: payload_bytes_def)
qed

lemma file_bytes_nonneg: "0 \<le> file_bytes fs"
  by (auto simp: file_bytes_def intro!: sum_list_nonneg)

lemma file_bytes_filter: "file_bytes (filter P fs) \<le> file_bytes fs"
  by (induction fs) (auto simp: file_bytes_def)

definition shrinks :: "outbox \<Rightarrow> outbox \<Rightarrow> bool" where
  "shrinks ox ox' \<longleftrightarrow> payload_bytes ox' \<le> payload_bytes ox \<and> ox_policy ox' = ox_policy ox"

lemma shrinks_refl [simp]: "shrinks ox ox"
  by (simp add: shrinks_def)

lemma shrinks_trans: "shrinks ox ox1 \<Longrightarrow> shrinks ox1 ox2 \<Longrightarrow> shrinks ox ox2"
  by (simp add: shrinks_def)

lemma shrinks_update [simp]: "shrinks ox (ox'\<lparr>ox_db := db\<rparr>) = shrinks ox ox'" "shrinks ox (ox'\<lparr>ox_initialized := b\<rparr>) = shrinks ox ox'"
  by (simp_all add: shrinks_def payload_bytes_eq)

lemma shrinks_from [simp]: "shrinks (ox\<lparr>ox_db := db\<rparr>) ox' = shrinks ox ox'" "shrinks (ox\<lparr>ox_initialized := b\<rparr>) ox' = shrinks ox ox'"
  by (simp_all add: shrinks_def payload_bytes_eq)

lemma shrinks_drop [simp]: "shrinks ox (drop_file k ox)"
  by (simp add: shrinks_def payload_bytes_eq drop_file_def file_bytes_filter)

lemma put_file_bytes:
  "payload_bytes (put_file (dir, name) body ox) \<le> payload_bytes ox + (if temporary_name name then 0 else int (length body))"
  using file_bytes_filter [of "\<lambda>(k, b). k \<noteq> (dir, name)" "ox_files ox"]
  by (simp add: payload_bytes_eq put_file_def file_bytes_def)

lemma finalize_completed_shrinks: "shrinks ox (fst (finalize_completed io x ox))"
  by (simp add: finalize_completed_def Let_def split: option.splits sum.splits)

lemma prune_completed_shrinks: "shrinks ox (fst (prune_completed io now ox))"
  by (simp add: prune_completed_def Let_def split: option.splits)

lemma record_result_shrinks: "shrinks ox (fst (record_result io q result attempted_at next_attempt ox))"
proof -
  define db where "db = update_deliveries (open_delivery q)
    (\<lambda>d. d\<lparr>dy_state := disposition_state (rs_disposition result), dy_attempts := dy_attempts d + 1,
       dy_next := (if disposition_state (rs_disposition result) = D_retry_wait then next_attempt else 0),
       dy_last := attempted_at, dy_remote_result := sanitize_result (rs_remote_result result),
       dy_last_error := sanitize_result (rs_sanitized_error result)\<rparr>) (ox_db ox)"
  obtain ox1 x where f: "finalize_completed io (qd_artifact_id q) (ox\<lparr>ox_db := db\<rparr>) = (ox1, x)" by fastforce
  obtain ox2 y where p: "prune_completed io attempted_at ox1 = (ox2, y)" by fastforce
  have s: "shrinks ox ox1"
    using finalize_completed_shrinks [of "ox\<lparr>ox_db := db\<rparr>" io "qd_artifact_id q"] f by simp
  have "shrinks ox ox2" using shrinks_trans [OF s prune_completed_shrinks, of io attempted_at] p by simp
  then show ?thesis
    using s f p unfolding record_result_def Let_def db_def [symmetric] by (simp split: option.split)
qed

lemma remove_payloads_shrinks: "shrinks ox (fst (remove_payloads io ts ox))"
proof (induction ts arbitrary: ox)
  case Nil
  then show ?case by simp
next
  case (Cons t ts)
  then show ?case using shrinks_trans [OF shrinks_drop Cons.IH] by (simp split: sum.splits)
qed

lemma erase_artifacts_shrinks: "shrinks ox (fst (erase_artifacts io aids discard now ox))"
proof -
  have "shrinks ox (fst (remove_payloads io ts (ox\<lparr>ox_db := db\<rparr>)))" for ts db
    using remove_payloads_shrinks [of "ox\<lparr>ox_db := db\<rparr>"] by simp
  then show ?thesis
    by (auto simp: erase_artifacts_def Let_def split: option.splits prod.splits sum.splits) (metis fst_conv)+
qed

lemma remove_pending_shrinks: "shrinks ox (fst (remove_pending io as ox))"
proof (induction as arbitrary: ox)
  case Nil
  then show ?case by simp
next
  case (Cons a as)
  then show ?case using shrinks_trans [OF shrinks_drop Cons.IH] by (simp split: sum.splits)
qed

lemma recover_manifest_shrinks: "shrinks ox (fst (recover_manifest sha io a ox))"
  by (rule recover_manifest_cases [of sha io a ox]) (simp_all add: finalize_completed_shrinks)

lemma recover_manifests_shrinks: "shrinks ox (fst (recover_manifests sha io as ox))"
proof (induction as arbitrary: ox)
  case Nil
  then show ?case by simp
next
  case (Cons a as)
  obtain ox1 e where r: "recover_manifest sha io a ox = (ox1, e)" by fastforce
  then have "shrinks ox ox1" using recover_manifest_shrinks [of ox sha io a] by simp
  then show ?case using Cons.IH [of ox1] r by (cases e) (auto intro: shrinks_trans)
qed

lemma recover_files_shrinks: "shrinks ox (fst (recover_files sha io known entries ox))"
proof (induction entries arbitrary: ox)
  case Nil
  then show ?case by simp
next
  case (Cons entry entries)
  obtain k f where e: "entry = (k, f)" by fastforce
  obtain ox1 x where r: "recover_file sha io known (k, f) ox = (ox1, x)" by fastforce
  have "shrinks ox ox1" by (rule recover_file_cases [of sha io known k f ox]) (use r in auto)
  then show ?case using Cons.IH [of ox1] r by (cases x) (auto simp: e intro: shrinks_trans)
qed

lemma initialize_shrinks: "shrinks ox (fst (initialize sha io ox))"
proof -
  obtain ox1 x where f: "remove_pending io (filter at_delete_pending (db_artifacts (ox_db ox))) ox = (ox1, x)" by fastforce
  have s1: "shrinks ox ox1" using remove_pending_shrinks [of ox io] f by (metis fst_conv)
  have s2: "shrinks o1 (fst (recover sha io o1))" for o1
  proof -
    obtain o2 y where r: "recover_manifests sha io (filter (\<lambda>a. \<not> at_delete_pending a) (db_artifacts (ox_db o1))) o1 = (o2, y)"
      by fastforce
    then have "shrinks o1 o2" using recover_manifests_shrinks [of o1 sha io] by (metis fst_conv)
    then show ?thesis
      using r shrinks_trans [OF _ recover_files_shrinks] by (cases y) (auto simp: recover_def Let_def)
  qed
  show ?thesis
    using s1 shrinks_trans [OF s1 s2 [of "ox1\<lparr>ox_db := db\<rparr>" for db, unfolded shrinks_from]] f
    by (auto simp: initialize_def finish_pending_deletions_def split: option.splits prod.splits) (metis fst_conv)+
qed

lemma leave_temporaries_shrinks: "shrinks ox (leave_temporaries stale ox)"
proof (induction stale arbitrary: ox)
  case Nil
  then show ?case by (simp add: leave_temporaries_def)
next
  case (Cons entry stale)
  obtain dir name tx where e: "entry = ((dir, name), tx)" by (metis prod.exhaust)
  let ?o = "if temporary_name name then put_file (dir, name) tx ox else ox"
  have "ox_policy (put_file (dir, name) tx ox) = ox_policy ox" by (simp add: put_file_def)
  then have s: "shrinks ox ?o" using put_file_bytes [of dir name tx ox] by (simp add: shrinks_def split: if_splits)
  have l: "leave_temporaries (entry # stale) ox = leave_temporaries stale ?o"
    by (simp add: leave_temporaries_def e)
  show ?case unfolding l using s Cons.IH by (rule shrinks_trans)
qed

text \<open>Queueing keeps the quota: the guard leaves room for the whole payload.\<close>

lemma enqueue_quota:
  "ox_policy (fst (enqueue sha io dataset content chans local_only ox)) = ox_policy ox \<and>
   (payload_bytes (fst (enqueue sha io dataset content chans local_only ox)) \<le> op_maximum_bytes (ox_policy ox) \<or>
    fst (enqueue sha io dataset content chans local_only ox) = ox)"
proof (cases "enqueue_refused sha io dataset content chans local_only ox = None \<and>
    find_artifact (ox_db ox) (gd_artifact_id dataset) = None")
  case False
  then have "fst (enqueue sha io dataset content chans local_only ox) = ox"
    by (auto simp: enqueue_def split: option.splits)
  then show ?thesis by simp
next
  case True
  let ?k = "(local_only, gc_filename content)"
  let ?o = "put_file ?k (gc_body content) ox"
  have e: "enqueue sha io dataset content chans local_only ox = store_artifact io dataset content chans local_only ox"
    using True by (simp add: enqueue_def)
  have pol: "ox_policy ?o = ox_policy ox" by (simp add: put_file_def)
  show ?thesis
  proof (cases "fst (store_artifact io dataset content chans local_only ox) = ox")
    case True
    then show ?thesis by (simp add: e)
  next
    case False
    then obtain guard where g: "storage_status io ox = Inr guard" "\<not> guard_refuses guard (int (length (gc_body content)))"
      by (cases "storage_status io ox") (auto simp: store_artifact_def split: if_splits)
    have "sg_payload_bytes guard = payload_bytes ox" "sg_maximum_bytes guard = op_maximum_bytes (ox_policy ox)"
      using g(1) by (auto simp: storage_status_def Let_def split: if_splits)
    then have "payload_bytes ?o \<le> op_maximum_bytes (ox_policy ox)"
      using g(2) put_file_bytes [of local_only "gc_filename content" "gc_body content" ox]
      by (auto simp: guard_refuses_def split: if_splits)
    moreover have "\<exists>db. fst (store_artifact io dataset content chans local_only ox) = ?o\<lparr>ox_db := db\<rparr>"
    proof (cases rule: store_artifact_cases [of io dataset content chans local_only ox])
      case (unmanifested x)
      then have "fst (store_artifact io dataset content chans local_only ox) = ?o\<lparr>ox_db := ox_db ?o\<rparr>" by simp
      then show ?thesis ..
    qed (use False in auto)
    ultimately show ?thesis using pol by (auto simp: e payload_bytes_eq)
  qed
qed

fun changes_policy :: "outbox_op \<Rightarrow> bool" where
  "changes_policy (Op_policy p) = True"
| "changes_policy _ = False"

lemma outbox_step_quota:
  assumes "payload_bytes ox \<le> op_maximum_bytes (ox_policy ox)" "\<not> changes_policy op"
  shows "payload_bytes (outbox_step sha ox op) \<le> op_maximum_bytes (ox_policy ox) \<and>
    ox_policy (outbox_step sha ox op) = ox_policy ox"
proof -
  have enough: ?thesis if "shrinks ox (outbox_step sha ox op)"
    using that assms(1) by (simp add: shrinks_def)
  show ?thesis
  proof (cases op)
    case (Op_enqueue io dataset content chans local_only)
    then show ?thesis using enqueue_quota [of sha io dataset content chans local_only ox] assms(1) by auto
  next
    case (Op_restart io stale)
    have "shrinks ox (fst (initialize sha io ((leave_temporaries stale ox)\<lparr>ox_initialized := False\<rparr>)))"
      using shrinks_trans [OF leave_temporaries_shrinks] initialize_shrinks
      by (metis shrinks_from(2))
    then show ?thesis using enough Op_restart by simp
  next
    case (Op_retry io aids now)
    show ?thesis by (rule enough) (simp add: Op_retry retry_def split: option.splits sum.splits)
  next
    case (Op_claim io now lease limit)
    show ?thesis by (rule enough) (simp add: Op_claim claim_due_def Let_def split: option.splits)
  next
    case (Op_retry_channel io c now)
    show ?thesis by (rule enough) (simp add: Op_retry_channel retry_channel_def split: option.splits)
  next
    case (Op_watermark io w now)
    show ?thesis by (rule enough) (simp add: Op_watermark store_watermark_def split: sum.splits)
  qed (use enough assms(2) in \<open>simp_all add: record_result_shrinks prune_completed_shrinks erase_artifacts_shrinks\<close>)
qed

text \<open>
  The storage quota holds: whatever is queued, delivered, deleted, recovered or restarted, and
  whichever writes, removals and database statements fail, the payload files of the outbox and the
  archive together never take more than the configured \<^verbatim>\<open>maximum_bytes\<close>.
\<close>

theorem outbox_quota:
  assumes "0 \<le> op_maximum_bytes policy" "list_all (\<lambda>op. \<not> changes_policy op) ops"
  shows "payload_bytes (foldl (outbox_step sha) (empty_outbox policy) ops) \<le> op_maximum_bytes policy"
proof -
  have "payload_bytes (foldl (outbox_step sha) ox ops) \<le> op_maximum_bytes (ox_policy ox)"
    if "payload_bytes ox \<le> op_maximum_bytes (ox_policy ox)" "list_all (\<lambda>op. \<not> changes_policy op) ops" for ox ops
    using that
  proof (induction ops arbitrary: ox)
    case (Cons op ops)
    then show ?case using outbox_step_quota [of ox op sha] Cons.IH [of "outbox_step sha ox op"] by simp
  qed simp
  from this [OF _ assms(2), of "empty_outbox policy"] show ?thesis
    using assms(1) by (simp add: empty_outbox_def payload_bytes_def)
qed

theorem outbox_quota_witness:
  "payload_bytes (foldl (outbox_step example_sha) (empty_outbox example_policy)
     [Op_restart example_io [], Op_enqueue example_io example_dataset example_content [''cloud''] False]) \<le> 1000"
  using outbox_quota [of example_policy "[Op_restart example_io [],
    Op_enqueue example_io example_dataset example_content [''cloud''] False]" example_sha]
  by (simp add: example_policy_def)

end
