(* ===== verification/Outbox_Leases.thy ===== *)
theory Outbox_Leases
  imports Outbox_Safety
begin

text \<open>
  Delivery leases: a delivery that \<^verbatim>\<open>claim_due\<close> hands to a sender is handed to no other sender until
  the lease ends, and a delivery that succeeded is never handed out again.
\<close>

section \<open>Rows of one delivery\<close>

text \<open>Some row of the delivery has a property; with well-formed tables, every row of it does.\<close>

definition delivery_is :: "(delivery_row \<Rightarrow> bool) \<Rightarrow> string \<Rightarrow> string \<Rightarrow> outbox_db \<Rightarrow> bool" where
  "delivery_is Q aid chan db \<longleftrightarrow> (\<exists>d \<in> set (db_deliveries db). delivery_key d = (aid, chan) \<and> Q d)"

lemma delivery_is_all:
  assumes "db_wf db" "delivery_is Q aid chan db" "d \<in> set (db_deliveries db)" "delivery_key d = (aid, chan)"
  shows "Q d"
proof -
  have "inj_on delivery_key (set (db_deliveries db))" using assms(1) by (simp add: db_wf_def distinct_map)
  then show ?thesis using assms(2-4) unfolding delivery_is_def by (metis inj_onD)
qed

lemma update_deliveries_is:
  assumes "delivery_is Q aid chan db" "\<And>d. delivery_key (f d) = delivery_key d"
    "\<And>d. d \<in> set (db_deliveries db) \<Longrightarrow> delivery_key d = (aid, chan) \<Longrightarrow> Q d \<Longrightarrow> P d \<Longrightarrow> Q (f d)"
  shows "delivery_is Q aid chan (update_deliveries P f db)"
proof -
  obtain d where d: "d \<in> set (db_deliveries db)" "delivery_key d = (aid, chan)" "Q d"
    using assms(1) by (auto simp: delivery_is_def)
  then have "delivery_key (if P d then f d else d) = (aid, chan) \<and> Q (if P d then f d else d)"
    using assms(2,3) by simp
  then show ?thesis using d(1) unfolding delivery_is_def update_select by fastforce
qed

lemma update_artifacts_is [simp]: "delivery_is Q aid chan (update_artifacts P f db) = delivery_is Q aid chan db"
  by (simp add: delivery_is_def)

lemma delete_artifacts_is:
  assumes "delivery_is Q aid chan db" "\<And>a. a \<in> set (db_artifacts db) \<Longrightarrow> P a \<Longrightarrow> at_id a \<noteq> aid"
  shows "delivery_is Q aid chan (delete_artifacts P db)"
  using assms unfolding delivery_is_def delete_artifacts_def delivery_key_def by (fastforce simp: list_ex_iff)

lemma audit_is [simp]: "delivery_is Q aid chan (db\<lparr>db_audit := es\<rparr>) = delivery_is Q aid chan db"
  "delivery_is Q aid chan (db\<lparr>db_watermarks := ws\<rparr>) = delivery_is Q aid chan db"
  by (simp_all add: delivery_is_def)

lemma enqueue_is:
  assumes "delivery_is Q aid chan (ox_db ox)"
  shows "delivery_is Q aid chan (ox_db (fst (enqueue sha io dataset content chans local_only ox)))"
proof (cases rule: enqueue_cases [of sha io dataset content chans local_only ox])
  case (stored db)
  obtain revision db1 where
    i: "insert_artifact io (manifest_row dataset content chans local_only revision) (ox_db ox) = Inr db1"
    and d: "insert_deliveries io (gd_artifact_id dataset) chans db1 = Inr db"
    using stored(3) by (auto simp: insert_manifest_def split: option.splits)
  have "set (db_deliveries (ox_db ox)) \<subseteq> set (db_deliveries db)"
    using insert_artifact_more [OF i] insert_deliveries_more [OF d] by simp
  then show ?thesis using assms stored(4) unfolding delivery_is_def by auto
qed (use assms in simp_all)

lemma finalize_completed_is [simp]:
  "delivery_is Q aid chan (ox_db (fst (finalize_completed io x ox))) = delivery_is Q aid chan (ox_db ox)"
  by (simp add: finalize_completed_def Let_def split: option.splits sum.splits)

lemma prune_completed_is:
  assumes "delivery_is Q aid chan (ox_db ox)" "\<And>d. Q d \<Longrightarrow> dy_state d \<noteq> D_succeeded"
  shows "delivery_is Q aid chan (ox_db (fst (prune_completed io now ox)))"
proof -
  have "\<not> all_succeeded (ox_db ox) aid"
    using assms by (force simp: delivery_is_def all_succeeded_def deliveries_of_def list_all_iff delivery_key_def)
  then have "delivery_is Q aid chan (delete_artifacts (completed_before (ox_db ox) cutoff) (ox_db ox))" for cutoff
    using assms(1) by (intro delete_artifacts_is) (auto simp: completed_before_def)
  then show ?thesis
    using assms(1) by (simp add: prune_completed_def Let_def split: option.splits)
qed

lemma mark_targets_is:
  "aid \<notin> set (map dt_id ts) \<Longrightarrow> delivery_is Q aid chan db \<Longrightarrow> delivery_is Q aid chan (fst (mark_targets now ts db n))"
proof (induction ts arbitrary: db n)
  case (Cons t ts)
  have "delivery_is Q aid chan (update_deliveries (discarded_by t) discard_delivery db)"
    using Cons.prems by (intro update_deliveries_is) (auto simp: delivery_key_def discard_delivery_def discarded_by_def)
  then show ?case using Cons by (simp add: mark_target_def Let_def)
qed simp

lemma erase_artifacts_is:
  assumes "delivery_is Q aid chan (ox_db ox)" "aid \<notin> set aids"
  shows "delivery_is Q aid chan (ox_db (fst (erase_artifacts io aids discard now ox)))"
proof (cases "\<exists>ts. deletion_targets discard (ox_db ox) aids = Inr ts \<and> io_db io ''mark'' = None")
  case False
  then show ?thesis
    using assms(1) by (cases "deletion_targets discard (ox_db ox) aids"; cases "io_db io ''mark''") (simp_all add: erase_artifacts_def)
next
  case True
  then obtain ts where ts: "deletion_targets discard (ox_db ox) aids = Inr ts" "io_db io ''mark'' = None" by blast
  obtain db n where m: "mark_targets now ts (ox_db ox) 0 = (db, n)" by fastforce
  obtain o2 e where r: "remove_payloads io ts (ox\<lparr>ox_db := db\<rparr>) = (o2, e)" by fastforce
  have o2: "ox_db o2 = db" using remove_payloads_state [of io ts "ox\<lparr>ox_db := db\<rparr>"] r by simp
  have na: "aid \<notin> set (map dt_id ts)" using deletion_targets_ids [OF ts(1)] assms(2) by simp
  have "delivery_is Q aid chan db" using mark_targets_is [OF na assms(1), of now 0] m by simp
  moreover from this have "delivery_is Q aid chan
      (delete_artifacts (\<lambda>a. at_id a \<in> set (map dt_id ts) \<and> at_delete_pending a) db)"
    using na by (intro delete_artifacts_is) auto
  ultimately show ?thesis
    using assms(1) by (cases e; cases "io_db io ''delete''") (simp_all add: erase_artifacts_def Let_def ts m r o2)
qed

lemma reset_delivery_is:
  assumes "delivery_is Q aid chan db" "\<And>d. Q d \<Longrightarrow> \<not> P d"
  shows "delivery_is Q aid chan (update_deliveries P (reset_delivery now) db)"
  using assms by (intro update_deliveries_is) (auto simp: delivery_key_def reset_delivery_def)

lemma retry_is:
  assumes "delivery_is Q aid chan (ox_db ox)" "\<And>d. Q d \<Longrightarrow> dy_state d = D_in_flight \<or> dy_state d = D_succeeded"
  shows "delivery_is Q aid chan (ox_db (fst (retry io aids now ox)))"
proof -
  have "delivery_is Q aid chan db'" if "retry_loop now aids db = Inr db'" "delivery_is Q aid chan db" for db db'
    using that
  proof (induction aids arbitrary: db)
    case (Cons x aids)
    let ?P = "\<lambda>d. dy_artifact_id d = x \<and> dy_state d \<in> {D_pending, D_retry_wait, D_blocked}"
    have "delivery_is Q aid chan (update_deliveries ?P (reset_delivery now) db)"
      using Cons.prems(2) assms(2) by (intro reset_delivery_is) fastforce+
    moreover have "retry_loop now aids (update_deliveries ?P (reset_delivery now) db) = Inr db'"
      using Cons.prems(1) by (auto split: if_splits)
    ultimately show ?case using Cons.IH by blast
  qed simp
  then show ?thesis
    using assms(1) by (auto simp: retry_def split: option.splits sum.splits)
qed

lemma retry_channel_is:
  assumes "delivery_is Q aid chan (ox_db ox)" "\<And>d. Q d \<Longrightarrow> dy_state d \<noteq> D_blocked"
  shows "delivery_is Q aid chan (ox_db (fst (retry_channel io c now ox)))"
  using assms reset_delivery_is [OF assms(1), of "\<lambda>d. dy_channel_id d = c \<and> dy_state d = D_blocked" now]
  by (auto simp: retry_channel_def split: option.splits)

section \<open>Leases\<close>

abbreviation leased_until :: "int \<Rightarrow> delivery_row \<Rightarrow> bool" where
  "leased_until t d \<equiv> dy_state d = D_in_flight \<and> dy_next d = t"

text \<open>The operations while the lease of a delivery runs: the sender has not reported its result yet, its
  artifact is not deleted, the process is not restarted, and the clock is before the end of the lease.\<close>

fun keeps_lease :: "string \<Rightarrow> string \<Rightarrow> int \<Rightarrow> outbox_op \<Rightarrow> bool" where
  "keeps_lease aid chan t (Op_claim io now lease_until limit) = (now < t)"
| "keeps_lease aid chan t (Op_record io q result attempted_at next_attempt) =
     (qd_artifact_id q \<noteq> aid \<or> qd_channel_id q \<noteq> chan)"
| "keeps_lease aid chan t (Op_erase io aids discard now) = (aid \<notin> set aids)"
| "keeps_lease aid chan t (Op_restart io stale) = False"
| "keeps_lease aid chan t _ = True"

lemma due_rows_set: "d \<in> set (due_rows db now limit) \<Longrightarrow> d \<in> set (db_deliveries db) \<and> deliverable db now d"
proof -
  assume "d \<in> set (due_rows db now limit)"
  then have "d \<in> set_mset (mset (sort_by delivery_before (filter (deliverable db now) (db_deliveries db))))"
    unfolding due_rows_def by (metis in_set_takeD set_mset_mset)
  then show ?thesis by simp
qed

lemma leased_not_due:
  assumes "db_wf db" "delivery_is (leased_until t) aid chan db" "now < t" "d \<in> set (due_rows db now limit)"
  shows "delivery_key d \<noteq> (aid, chan)"
  using due_rows_set [OF assms(4)] delivery_is_all [OF assms(1,2), of d] assms(3) by (auto simp: deliverable_def)

lemma claim_due_leased:
  assumes "db_wf (ox_db ox)" "delivery_is (leased_until t) aid chan (ox_db ox)" "now < t"
  shows "delivery_is (leased_until t) aid chan (ox_db (fst (claim_due io now lease_until limit ox)))"
proof -
  have "\<not> list_ex (same_delivery d) (due_rows (ox_db ox) now limit)" if "delivery_key d = (aid, chan)" for d
  proof
    assume "list_ex (same_delivery d) (due_rows (ox_db ox) now limit)"
    then obtain e where "e \<in> set (due_rows (ox_db ox) now limit)" "same_delivery d e" by (auto simp: list_ex_iff)
    then show False
      using that leased_not_due [OF assms, of e limit] by (simp add: same_delivery_def delivery_key_def)
  qed
  then have "delivery_is (leased_until t) aid chan (update_deliveries (\<lambda>d. list_ex (same_delivery d) (due_rows (ox_db ox) now limit))
      (\<lambda>d. d\<lparr>dy_state := D_in_flight, dy_next := lease_until\<rparr>) (ox_db ox))"
    using assms(2) by (intro update_deliveries_is) (auto simp: delivery_key_def)
  then show ?thesis using assms(2) by (simp add: claim_due_def Let_def split: option.splits)
qed

lemma record_result_db:
  obtains "fst (record_result io q result attempted_at next_attempt ox) = ox"
    "snd (record_result io q result attempted_at next_attempt ox) \<noteq> Inr ()"
  | f ox1 where "\<And>d. delivery_key (f d) = delivery_key d"
    "\<And>d. dy_state (f d) = disposition_state (rs_disposition result)"
    "ox1 = fst (finalize_completed io (qd_artifact_id q) (ox\<lparr>ox_db := update_deliveries (open_delivery q) f (ox_db ox)\<rparr>))"
    "fst (record_result io q result attempted_at next_attempt ox) \<in> {ox1, fst (prune_completed io attempted_at ox1)}"
    "\<And>d. dy_next (f d) = (if disposition_state (rs_disposition result) = D_retry_wait then next_attempt else 0)"
proof -
  define f where "f = (\<lambda>d :: delivery_row. d\<lparr>dy_state := disposition_state (rs_disposition result), dy_attempts := dy_attempts d + 1,
       dy_next := (if disposition_state (rs_disposition result) = D_retry_wait then next_attempt else 0),
       dy_last := attempted_at, dy_remote_result := sanitize_result (rs_remote_result result),
       dy_last_error := sanitize_result (rs_sanitized_error result)\<rparr>)"
  define ox1 where "ox1 = fst (finalize_completed io (qd_artifact_id q)
    (ox\<lparr>ox_db := update_deliveries (open_delivery q) f (ox_db ox)\<rparr>))"
  have f: "\<And>d. delivery_key (f d) = delivery_key d" "\<And>d. dy_state (f d) = disposition_state (rs_disposition result)"
    by (simp_all add: f_def delivery_key_def)
  have "(fst (record_result io q result attempted_at next_attempt ox) = ox \<and>
      snd (record_result io q result attempted_at next_attempt ox) \<noteq> Inr ()) \<or>
      fst (record_result io q result attempted_at next_attempt ox) \<in> {ox1, fst (prune_completed io attempted_at ox1)}"
    unfolding record_result_def Let_def ox1_def f_def [symmetric]
    by (simp split: option.split prod.split)
  then show thesis using that(1) that(2) [OF f ox1_def] by (auto simp: f_def)
qed

lemma record_result_leased:
  assumes "delivery_is (leased_until t) aid chan (ox_db ox)" "qd_artifact_id q \<noteq> aid \<or> qd_channel_id q \<noteq> chan"
  shows "delivery_is (leased_until t) aid chan (ox_db (fst (record_result io q result attempted_at next_attempt ox)))"
proof (cases rule: record_result_db [of io q result attempted_at next_attempt ox])
  case (2 f ox1)
  have "delivery_is (leased_until t) aid chan (update_deliveries (open_delivery q) f (ox_db ox))"
    using assms 2(1) by (intro update_deliveries_is) (auto simp: open_delivery_def delivery_key_def)
  then have "delivery_is (leased_until t) aid chan (ox_db ox1)" using 2(3) by simp
  then show ?thesis using 2(4) prune_completed_is [of "leased_until t" aid chan ox1 io attempted_at] by auto
qed (use assms in simp)

lemma outbox_step_leased:
  assumes "outbox_wf ox" "delivery_is (leased_until t) aid chan (ox_db ox)" "keeps_lease aid chan t op"
  shows "delivery_is (leased_until t) aid chan (ox_db (outbox_step sha ox op))"
proof (cases op)
  case (Op_claim io now l n)
  then show ?thesis using assms claim_due_leased by (simp add: outbox_wf_def)
next
  case (Op_watermark io w now)
  then show ?thesis using assms(2) by (simp add: store_watermark_def split: sum.splits)
next
  case (Op_policy p)
  then show ?thesis using assms(2) by (simp add: update_storage_policy_def)
qed (use assms retry_is [of "leased_until t" aid chan ox] retry_channel_is [of "leased_until t" aid chan ox]
    prune_completed_is [of "leased_until t" aid chan ox] in
    \<open>simp_all add: enqueue_is record_result_leased erase_artifacts_is\<close>)

lemma outbox_run_leased:
  "outbox_wf ox \<Longrightarrow> delivery_is (leased_until t) aid chan (ox_db ox) \<Longrightarrow> list_all (keeps_lease aid chan t) ops \<Longrightarrow>
   delivery_is (leased_until t) aid chan (ox_db (foldl (outbox_step sha) ox ops))"
  by (induction ops arbitrary: ox) (simp_all add: outbox_step_leased outbox_step_wf)

lemma claim_due_leases:
  assumes "claim_due io now lease_until limit ox = (ox1, Inr qs)" "q \<in> set qs"
  shows "delivery_is (leased_until lease_until) (qd_artifact_id q) (qd_channel_id q) (ox_db ox1)"
proof -
  let ?c = "due_rows (ox_db ox) now limit"
  let ?f = "\<lambda>d. d\<lparr>dy_state := D_in_flight, dy_next := lease_until\<rparr>"
  have r: "ox_db ox1 = update_deliveries (\<lambda>d. list_ex (same_delivery d) ?c) ?f (ox_db ox)"
    "\<exists>d \<in> set ?c. delivery_key d = (qd_artifact_id q, qd_channel_id q)"
    using assms by (force simp: claim_due_def Let_def delivery_key_def split: if_splits option.splits)+
  then obtain d where d: "d \<in> set ?c" "delivery_key d = (qd_artifact_id q, qd_channel_id q)" by blast
  then have "d \<in> set (db_deliveries (ox_db ox))" "list_ex (same_delivery d) ?c"
    using due_rows_set [OF d(1)] by (auto simp: list_ex_iff same_delivery_def)
  then have "?f d \<in> set (db_deliveries (ox_db ox1))" unfolding r(1) update_select by force
  moreover have "delivery_key (?f d) = (qd_artifact_id q, qd_channel_id q)" using d(2) by (simp add: delivery_key_def)
  ultimately show ?thesis unfolding delivery_is_def by fastforce
qed



section \<open>Results are final\<close>

text \<open>Every row of the delivery, if there still is one, is succeeded or discarded.\<close>

definition settled :: "string \<Rightarrow> string \<Rightarrow> outbox_db \<Rightarrow> bool" where
  "settled aid chan db \<longleftrightarrow> (\<forall>d \<in> set (db_deliveries db). delivery_key d = (aid, chan) \<longrightarrow> final_state (dy_state d))"

lemma settled_update:
  assumes "settled aid chan db" "\<And>d. delivery_key (f d) = delivery_key d"
    "\<And>d. delivery_key d = (aid, chan) \<Longrightarrow> P d \<Longrightarrow> final_state (dy_state d) \<Longrightarrow> final_state (dy_state (f d))"
  shows "settled aid chan (update_deliveries P f db)"
  using assms by (auto simp: settled_def)

lemma settled_fewer:
  "settled aid chan db \<Longrightarrow> set (db_deliveries db') \<subseteq> set (db_deliveries db) \<Longrightarrow> settled aid chan db'"
  by (auto simp: settled_def)

lemma settled_artifacts [simp]:
  "settled aid chan (update_artifacts P g db) = settled aid chan db"
  "settled aid chan (db\<lparr>db_audit := es\<rparr>) = settled aid chan db"
  "settled aid chan (db\<lparr>db_watermarks := ws\<rparr>) = settled aid chan db"
  by (simp_all add: settled_def)

lemma settled_delete: "settled aid chan db \<Longrightarrow> settled aid chan (delete_artifacts P db)"
  by (rule settled_fewer) (auto simp: delete_artifacts_def)

lemma settled_insert_artifact: "settled aid chan db \<Longrightarrow> insert_artifact io row db = Inr db' \<Longrightarrow> settled aid chan db'"
  using insert_artifact_more [of io row db db'] by (simp add: settled_def)

lemma settled_insert_deliveries:
  "settled aid chan db \<Longrightarrow> x \<noteq> aid \<Longrightarrow> insert_deliveries io x chans db = Inr db' \<Longrightarrow> settled aid chan db'"
  by (induction io x chans db rule: insert_deliveries.induct) (auto simp: settled_def delivery_key_def split: if_splits)

lemma settled_reset:
  "settled aid chan db \<Longrightarrow> (\<And>d. P d \<Longrightarrow> \<not> final_state (dy_state d)) \<Longrightarrow>
   settled aid chan (update_deliveries P (reset_delivery now) db)"
  by (intro settled_update) (auto simp: delivery_key_def reset_delivery_def)

lemma settled_retry:
  assumes "settled aid chan (ox_db ox)"
  shows "settled aid chan (ox_db (fst (retry io aids now ox)))"
proof -
  have "settled aid chan db'" if "retry_loop now aids db = Inr db'" "settled aid chan db" for db db'
    using that
  proof (induction aids arbitrary: db)
    case (Cons x aids)
    let ?P = "\<lambda>d. dy_artifact_id d = x \<and> dy_state d \<in> {D_pending, D_retry_wait, D_blocked}"
    have "settled aid chan (update_deliveries ?P (reset_delivery now) db)"
      using Cons.prems(2) by (intro settled_reset) (auto simp: final_state_def)
    moreover have "retry_loop now aids (update_deliveries ?P (reset_delivery now) db) = Inr db'"
      using Cons.prems(1) by (auto split: if_splits)
    ultimately show ?case using Cons.IH by blast
  qed simp
  then show ?thesis using assms by (auto simp: retry_def split: option.splits sum.splits)
qed

lemma settled_not_due:
  assumes "settled aid chan db" "d \<in> set (due_rows db now limit)"
  shows "delivery_key d \<noteq> (aid, chan)"
  using due_rows_set [OF assms(2)] assms(1) by (auto simp: settled_def deliverable_def final_state_def)

lemma settled_claim:
  assumes "settled aid chan (ox_db ox)"
  shows "settled aid chan (ox_db (fst (claim_due io now lease_until limit ox)))"
proof -
  have "\<not> list_ex (same_delivery d) (due_rows (ox_db ox) now limit)" if "delivery_key d = (aid, chan)" for d
  proof
    assume "list_ex (same_delivery d) (due_rows (ox_db ox) now limit)"
    then obtain e where "e \<in> set (due_rows (ox_db ox) now limit)" "same_delivery d e" by (auto simp: list_ex_iff)
    then show False
      using that settled_not_due [OF assms, of e now limit] by (simp add: same_delivery_def delivery_key_def)
  qed
  then have "settled aid chan (update_deliveries (\<lambda>d. list_ex (same_delivery d) (due_rows (ox_db ox) now limit))
      (\<lambda>d. d\<lparr>dy_state := D_in_flight, dy_next := lease_until\<rparr>) (ox_db ox))"
    using assms by (intro settled_update) (auto simp: delivery_key_def)
  then show ?thesis using assms by (simp add: claim_due_def Let_def split: option.splits)
qed

lemma settled_finalize [simp]:
  "settled aid chan (ox_db (fst (finalize_completed io x ox))) = settled aid chan (ox_db ox)"
  by (simp add: finalize_completed_def Let_def split: option.splits sum.splits)

lemma settled_prune: "settled aid chan (ox_db ox) \<Longrightarrow> settled aid chan (ox_db (fst (prune_completed io now ox)))"
  by (simp add: prune_completed_def Let_def settled_delete split: option.splits)

lemma settled_record:
  assumes "settled aid chan (ox_db ox) \<or> (qd_artifact_id q = aid \<and> qd_channel_id q = chan \<and>
    rs_disposition result = Disposition_succeeded \<and> snd (record_result io q result attempted_at next_attempt ox) = Inr ())"
  shows "settled aid chan (ox_db (fst (record_result io q result attempted_at next_attempt ox)))"
proof (cases rule: record_result_db [of io q result attempted_at next_attempt ox])
  case (2 f ox1)
  have "settled aid chan (update_deliveries (open_delivery q) f (ox_db ox))"
    unfolding settled_def update_select
  proof (intro ballI impI)
    fix e assume "e \<in> set (map (\<lambda>d. if open_delivery q d then f d else d) (db_deliveries (ox_db ox)))"
      and k: "delivery_key e = (aid, chan)"
    then obtain d where d: "d \<in> set (db_deliveries (ox_db ox))" "e = (if open_delivery q d then f d else d)" by auto
    then have key: "delivery_key d = (aid, chan)" using k 2(1) by (simp split: if_splits)
    then have nf: "open_delivery q d \<Longrightarrow> \<not> settled aid chan (ox_db ox)"
      using d by (auto simp: open_delivery_def settled_def)
    show "final_state (dy_state e)"
    proof (cases "open_delivery q d")
      case True
      then show ?thesis using assms nf 2(2) d(2) by (auto simp: disposition_state_def final_state_def)
    next
      case False
      then show ?thesis using assms d key by (auto simp: open_delivery_def settled_def delivery_key_def)
    qed
  qed
  then have "settled aid chan (ox_db ox1)" using 2(3) by simp
  then show ?thesis using 2(4) settled_prune by auto
qed (use assms in auto)

lemma settled_enqueue:
  assumes "settled aid chan (ox_db ox)" "gd_artifact_id dataset \<noteq> aid"
  shows "settled aid chan (ox_db (fst (enqueue sha io dataset content chans local_only ox)))"
proof (cases rule: enqueue_cases [of sha io dataset content chans local_only ox])
  case (stored db)
  obtain revision db1 where
    i: "insert_artifact io (manifest_row dataset content chans local_only revision) (ox_db ox) = Inr db1"
    and d: "insert_deliveries io (gd_artifact_id dataset) chans db1 = Inr db"
    using stored(3) by (auto simp: insert_manifest_def split: option.splits)
  have "settled aid chan db"
    using settled_insert_deliveries [OF settled_insert_artifact [OF assms(1) i] assms(2) d] .
  then show ?thesis using stored(4) by simp
qed (use assms in simp_all)

lemma settled_erase:
  assumes "settled aid chan (ox_db ox)"
  shows "settled aid chan (ox_db (fst (erase_artifacts io aids discard now ox)))"
proof (cases "\<exists>ts. deletion_targets discard (ox_db ox) aids = Inr ts \<and> io_db io ''mark'' = None")
  case False
  then show ?thesis
    using assms by (cases "deletion_targets discard (ox_db ox) aids"; cases "io_db io ''mark''") (simp_all add: erase_artifacts_def)
next
  case True
  then obtain ts where ts: "deletion_targets discard (ox_db ox) aids = Inr ts" "io_db io ''mark'' = None" by blast
  obtain db n where m: "mark_targets now ts (ox_db ox) 0 = (db, n)" by fastforce
  obtain o2 e where r: "remove_payloads io ts (ox\<lparr>ox_db := db\<rparr>) = (o2, e)" by fastforce
  have o2: "ox_db o2 = db" using remove_payloads_state [of io ts "ox\<lparr>ox_db := db\<rparr>"] r by simp
  have "settled aid chan (fst (mark_targets now us db0 k))" if "settled aid chan db0" for us db0 k
    using that
  proof (induction us arbitrary: db0 k)
    case (Cons u us)
    have "settled aid chan (update_deliveries (discarded_by u) discard_delivery db0)"
      using Cons.prems by (intro settled_update) (auto simp: delivery_key_def discard_delivery_def discarded_by_def)
    then show ?case using Cons by (simp add: mark_target_def Let_def)
  qed simp
  from this [OF assms] have "settled aid chan db" using m by (metis fst_conv)
  then show ?thesis
    using assms settled_delete by (cases e; cases "io_db io ''delete''") (simp_all add: erase_artifacts_def Let_def ts m r o2)
qed

text \<open>Start-up.\<close>

lemma settled_block: "settled aid chan db \<Longrightarrow> settled aid chan (block_deliveries x m db)"
  unfolding block_deliveries_def by (intro settled_update) (auto simp: delivery_key_def)

lemma settled_recover_manifest:
  "settled aid chan (ox_db ox) \<Longrightarrow> settled aid chan (ox_db (fst (recover_manifest sha io a ox)))"
  by (rule recover_manifest_cases [of sha io a ox])
    (simp_all add: note_damage_def note_missing_def settled_block)

lemma settled_recover_manifests:
  "settled aid chan (ox_db ox) \<Longrightarrow> settled aid chan (ox_db (fst (recover_manifests sha io as ox)))"
proof (induction as arbitrary: ox)
  case (Cons a as)
  obtain ox1 e where r: "recover_manifest sha io a ox = (ox1, e)" by fastforce
  then have "settled aid chan (ox_db ox1)" using settled_recover_manifest [OF Cons.prems, of sha io a] by simp
  then show ?case using Cons.IH r by (cases e) simp_all
qed simp

lemma settled_recover_files:
  "settled aid chan (ox_db ox) \<Longrightarrow> settled aid chan (ox_db (fst (recover_files sha io known entries ox)))"
proof (induction entries arbitrary: ox)
  case (Cons entry entries)
  obtain k f where e: "entry = (k, f)" by fastforce
  obtain ox1 x where r: "recover_file sha io known (k, f) ox = (ox1, x)" by fastforce
  have "settled aid chan (ox_db ox1)"
    by (rule recover_file_cases [of sha io known k f ox]) (use r Cons.prems settled_insert_artifact in auto)
  then show ?case using Cons.IH r by (cases x) (auto simp: e)
qed simp

lemma remove_pending_db: "ox_db (fst (remove_pending io as ox)) = ox_db ox"
  by (induction as arbitrary: ox) (simp_all split: sum.splits)

lemma settled_initialize:
  assumes "settled aid chan (ox_db ox)"
  shows "settled aid chan (ox_db (fst (initialize sha io ox)))"
proof -
  obtain ox1 x where f: "finish_pending_deletions io ox = (ox1, x)" by fastforce
  have s1: "settled aid chan (ox_db ox1)"
    using f assms remove_pending_db [of io "filter at_delete_pending (db_artifacts (ox_db ox))" ox]
    by (auto simp: finish_pending_deletions_def settled_delete split: prod.splits option.splits)
  have s2: "settled aid chan (ox_db (fst (recover sha io ox1)))"
    using settled_recover_files [OF settled_recover_manifests [OF s1]]
      settled_recover_manifests [OF s1, of sha io "filter (\<lambda>a. \<not> at_delete_pending a) (db_artifacts (ox_db ox1))"]
    by (simp add: recover_def Let_def split: prod.split option.split) (metis fst_conv)
  then show ?thesis
    using assms s1 f by (simp add: initialize_def split: prod.split option.split) (metis fst_conv)
qed

fun queues :: "string \<Rightarrow> outbox_op \<Rightarrow> bool" where
  "queues aid (Op_enqueue io dataset content chans local_only) = (gd_artifact_id dataset = aid)"
| "queues aid _ = False"

lemma outbox_step_settled:
  assumes "settled aid chan (ox_db ox)" "\<not> queues aid op"
  shows "settled aid chan (ox_db (outbox_step sha ox op))"
proof (cases op)
  case (Op_retry_channel io c now)
  have "settled aid chan (update_deliveries (\<lambda>d. dy_channel_id d = c \<and> dy_state d = D_blocked) (reset_delivery now) (ox_db ox))"
    using assms(1) by (intro settled_reset) (auto simp: final_state_def)
  then show ?thesis using Op_retry_channel assms(1) by (simp add: retry_channel_def split: option.splits)
next
  case (Op_restart io stale)
  have "ox_db (leave_temporaries stale ox) = ox_db ox"
    unfolding leave_temporaries_def by (induction stale arbitrary: ox) auto
  then show ?thesis using Op_restart assms(1) settled_initialize by simp
next
  case (Op_watermark io w now)
  then show ?thesis using assms(1) by (simp add: store_watermark_def split: sum.splits)
next
  case (Op_policy p)
  then show ?thesis using assms(1) by (simp add: update_storage_policy_def)
qed (use assms in \<open>simp_all add: settled_enqueue settled_claim settled_record settled_retry settled_prune settled_erase\<close>)

text \<open>
  A successful delivery is final: once \<^verbatim>\<open>record_result\<close> has stored a success, no operation, retry,
  recovery or restart makes the delivery due again; \<^verbatim>\<open>claim_due\<close> never returns it, unless an artifact
  of the same identifier is queued anew.
\<close>

theorem success_is_final:
  assumes "record_result io q result attempted_at next_attempt ox = (ox1, Inr ())"
    "rs_disposition result = Disposition_succeeded"
    "list_all (\<lambda>op. \<not> queues (qd_artifact_id q) op) ops" "ox2 = foldl (outbox_step sha) ox1 ops"
    "claim_due io2 now2 lease2 limit2 ox2 = (ox3, Inr qs)" "q2 \<in> set qs"
  shows "(qd_artifact_id q2, qd_channel_id q2) \<noteq> (qd_artifact_id q, qd_channel_id q)"
proof -
  let ?s = "settled (qd_artifact_id q) (qd_channel_id q)"
  have s1: "?s (ox_db ox1)"
    using settled_record [of "qd_artifact_id q" "qd_channel_id q" ox q result io attempted_at next_attempt] assms(1,2) by simp
  have "?s (ox_db (foldl (outbox_step sha) ox0 ops))" if "?s (ox_db ox0)" "list_all (\<lambda>op. \<not> queues (qd_artifact_id q) op) ops" for ox0
    using that by (induction ops arbitrary: ox0) (simp_all add: outbox_step_settled)
  from this [OF s1 assms(3)] have s2: "?s (ox_db ox2)" using assms(4) by simp
  obtain d where "d \<in> set (due_rows (ox_db ox2) now2 limit2)" "delivery_key d = (qd_artifact_id q2, qd_channel_id q2)"
    using assms(5,6) by (force simp: claim_due_def Let_def delivery_key_def split: if_splits option.splits)
  then show ?thesis using settled_not_due [OF s2, of d now2 limit2] by simp
qed

theorem success_is_final_witness:
  "list_all (\<lambda>q2. \<not> (qd_artifact_id q2 = ''daily-r2-0-100-csv'' \<and> qd_channel_id q2 = ''cloud''))
     (case claim_due example_io 2000 6000 10 (foldl (outbox_step example_sha)
      (fst (record_result example_io example_delivery \<lparr>rs_disposition = Disposition_succeeded, rs_remote_result = ''201'',
        rs_sanitized_error = []\<rparr> 310 0 (fst (claim_due example_io 300 500 10 example_queued))))
      [Op_retry_channel example_io ''cloud'' 400, Op_restart example_io []]) of
        (ox, Inr qs) \<Rightarrow> qs | _ \<Rightarrow> [])"
proof -
  let ?ops = "[Op_retry_channel example_io ''cloud'' 400, Op_restart example_io []]"
  let ?res = "\<lparr>rs_disposition = Disposition_succeeded, rs_remote_result = ''201'', rs_sanitized_error = []\<rparr>"
  let ?r = "record_result example_io example_delivery ?res 310 0 (fst (claim_due example_io 300 500 10 example_queued))"
  have r: "?r = (fst ?r, Inr ())" by (subst prod_eq_iff) code_simp
  have k: "qd_artifact_id example_delivery = ''daily-r2-0-100-csv''" "qd_channel_id example_delivery = ''cloud''"
    by (simp_all add: example_delivery_def)
  obtain ox3 res where c: "claim_due example_io 2000 6000 10 (foldl (outbox_step example_sha) (fst ?r) ?ops) = (ox3, res)"
    by fastforce
  show ?thesis
  proof (cases res)
    case (Inr qs2)
    then show ?thesis
      using success_is_final [OF r, of ?ops "foldl (outbox_step example_sha) (fst ?r) ?ops" example_sha example_io 2000 6000 10 ox3 qs2] c
      by (auto simp: k list_all_iff)
  qed (use c in simp)
qed

end
