(* ===== verification/Data_Sender.thy ===== *)
theory Data_Sender
  imports Outbox_Leases
begin

text \<open>
  The scheduler of the data sender (\<^verbatim>\<open>common/mnc/datalogger/scheduler.cpp\<close>): \<^verbatim>\<open>apply_jobs\<close> starts the
  watermarks of jobs, \<^verbatim>\<open>generate_due\<close> turns settled windows into queued artifacts and \<^verbatim>\<open>deliver_due\<close>
  hands claimed deliveries to their channels. The state is the engine's jobs and statuses together with
  the outbox. The environment of the calls (historian, disk and database) is a function of
  the number of the loop iteration, so every iteration may fail in its own way. The mutex of the
  engine protects the two lists; the methods are called by one thread.
\<close>

unbundle bit_operations_syntax

section \<open>Jobs and their status\<close>

record scheduled_job =
  sj_snapshot :: datalog_job
  sj_enabled :: bool
  sj_local_only :: bool
  sj_channel_ids :: "string list"

record job_status =
  js_job_id :: string
  js_revision :: u64
  js_enabled :: bool
  js_next_window :: "utc_window option"
  js_last_window :: "utc_window option"
  js_last_generated_at :: int
  js_last_error :: string

record sender =
  sn_outbox :: outbox
  sn_jobs :: "scheduled_job list"
  sn_statuses :: "job_status list"

record generation_result =
  gr_generated :: nat
  gr_skipped_expired :: nat
  gr_storage_blocked :: bool
  gr_source_deferred :: bool

text \<open>What one iteration of the generation loop meets.\<close>

record sender_env =
  se_source :: historical_source
  se_circular :: "int list \<Rightarrow> string option"
  se_io :: outbox_io

abbreviation job_id :: "scheduled_job \<Rightarrow> string" where "job_id job \<equiv> jb_id (sj_snapshot job)"
abbreviation job_revision :: "scheduled_job \<Rightarrow> u64" where "job_revision job \<equiv> jb_revision (sj_snapshot job)"
abbreviation job_interval :: "scheduled_job \<Rightarrow> int" where "job_interval job \<equiv> jb_generation_interval (sj_snapshot job)"

section \<open>Time\<close>

abbreviation int64_max :: int where "int64_max \<equiv> 9223372036854775807"
abbreviation generation_settle_delay :: int where "generation_settle_delay \<equiv> 30000000000"
abbreviation delivery_lease :: int where "delivery_lease \<equiv> 3660000000000"
abbreviation second_ns :: int where "second_ns \<equiv> 1000000000"

definition next_boundary :: "int \<Rightarrow> int \<Rightarrow> int datalog_result" where
  "next_boundary now interval =
     (if now < 0 \<or> interval \<le> 0 \<or> now > int64_max - interval
      then Inl (Other_error (Invalid_argument ''UTC scheduling interval is invalid''))
      else Inr ((now + interval - 1) div interval * interval))"

definition fnv_byte :: "u64 \<Rightarrow> u64 \<Rightarrow> u64" where
  "fnv_byte result byte = (result XOR byte) * 1099511628211"

definition fnv1a :: "string \<Rightarrow> u32 \<Rightarrow> u64" where
  "fnv1a value attempt =
     foldl fnv_byte (foldl (\<lambda>r c. fnv_byte r (of_char c)) 1469598103934665603 value)
       (map (\<lambda>shift. ucast (drop_bit shift attempt AND 0xff)) [0, 8, 16, 24])"

definition retry_delay :: "u32 \<Rightarrow> string \<Rightarrow> int" where
  "retry_delay attempt_number stable_identity =
     (let attempt = (if attempt_number = 0 then 1 else attempt_number);
          shift = min (attempt - 1) 10;
          base_seconds = min (push_bit (unat shift) (5 :: u64)) 3600;
          remaining = 3600 - base_seconds;
          jitter_range = min (base_seconds div 5) remaining;
          jitter = (if jitter_range = 0 then 0 else fnv1a stable_identity attempt mod (jitter_range + 1))
      in uint (base_seconds + jitter) * second_ns)"

section \<open>Applying jobs\<close>

definition job_before :: "scheduled_job \<Rightarrow> scheduled_job \<Rightarrow> bool" where
  "job_before j k = bytes_le (job_id j) (job_id k)"

definition initial_status :: "job_status list \<Rightarrow> scheduled_job \<Rightarrow> job_status" where
  "initial_status statuses job =
     (let fresh = \<lparr>js_job_id = job_id job, js_revision = job_revision job, js_enabled = sj_enabled job,
            js_next_window = None, js_last_window = None, js_last_generated_at = 0, js_last_error = []\<rparr>;
          base = (case find (\<lambda>s. js_job_id s = job_id job) statuses of
              Some previous \<Rightarrow> if js_revision previous = job_revision job then previous else fresh
            | None \<Rightarrow> fresh)
      in base\<lparr>js_enabled := sj_enabled job\<rparr>)"

definition window_after :: "scheduled_job \<Rightarrow> int \<Rightarrow> utc_window" where
  "window_after job t = \<lparr>w_start = t, w_end = t + job_interval job\<rparr>"

text \<open>A job without a watermark of its revision starts at the next boundary of its interval.\<close>

definition start_job ::
    "outbox_io \<Rightarrow> int \<Rightarrow> scheduled_job \<Rightarrow> job_status \<Rightarrow> outbox \<Rightarrow> outbox \<times> job_status datalog_result" where
  "start_job io now job status ox =
     (case next_boundary now (job_interval job) of
        Inl e \<Rightarrow> (ox, Inl e)
      | Inr t \<Rightarrow>
          (case store_watermark io \<lparr>wm_job_id = job_id job, wm_revision = job_revision job, wm_completed_through = t\<rparr>
              now ox of
             (ox1, Inl e) \<Rightarrow> (ox1, Inl e)
           | (ox1, Inr u) \<Rightarrow> (ox1, Inr (status\<lparr>js_last_error := [], js_last_window := None, js_last_generated_at := 0,
               js_next_window := Some (window_after job t)\<rparr>))))"

text \<open>The body of the loop: the status of one job; an exception leaves \<^verbatim>\<open>apply_jobs\<close>.\<close>

definition apply_job ::
    "outbox_io \<Rightarrow> int \<Rightarrow> job_status list \<Rightarrow> scheduled_job \<Rightarrow> outbox \<Rightarrow> outbox \<times> job_status datalog_result" where
  "apply_job io now statuses job ox =
     (if job_id job = [] \<or> job_revision job = 0 \<or> job_interval job \<le> 0
      then (ox, Inl (Other_error (Invalid_argument ''scheduled job is invalid'')))
      else
        let status = initial_status statuses job in
        if \<not> sj_enabled job then (ox, Inr (status\<lparr>js_next_window := None\<rparr>))
        else (case watermark io ox (job_id job) of
            Inl e \<Rightarrow> (ox, Inl e)
          | Inr None \<Rightarrow> start_job io now job status ox
          | Inr (Some w) \<Rightarrow>
              if wm_revision w \<noteq> job_revision job then start_job io now job status ox
              else (ox, Inr (status\<lparr>js_next_window := Some (window_after job (wm_completed_through w))\<rparr>))))"

fun apply_loop ::
    "(nat \<Rightarrow> outbox_io) \<Rightarrow> nat \<Rightarrow> int \<Rightarrow> job_status list \<Rightarrow> scheduled_job list \<Rightarrow> outbox \<Rightarrow>
     outbox \<times> job_status list datalog_result" where
  "apply_loop ios n now statuses [] ox = (ox, Inr [])"
| "apply_loop ios n now statuses (job # jobs) ox =
     (case apply_job (ios n) now statuses job ox of
        (ox1, Inl e) \<Rightarrow> (ox1, Inl e)
      | (ox1, Inr status) \<Rightarrow>
          (case apply_loop ios (Suc n) now statuses jobs ox1 of
             (ox2, Inl e) \<Rightarrow> (ox2, Inl e)
           | (ox2, Inr rest) \<Rightarrow> (ox2, Inr (status # rest))))"

definition apply_jobs ::
    "(nat \<Rightarrow> outbox_io) \<Rightarrow> int \<Rightarrow> scheduled_job list \<Rightarrow> sender \<Rightarrow> sender \<times> unit datalog_result" where
  "apply_jobs ios now jobs s =
     (let sorted_jobs = sort_by job_before jobs in
      (case apply_loop ios 0 now (sn_statuses s) sorted_jobs (sn_outbox s) of
         (ox, Inl e) \<Rightarrow> (s\<lparr>sn_outbox := ox\<rparr>, Inl e)
       | (ox, Inr statuses) \<Rightarrow> (\<lparr>sn_outbox = ox, sn_jobs = sorted_jobs, sn_statuses = statuses\<rparr>, Inr ())))"

section \<open>Generating windows\<close>

fun update_status :: "string \<Rightarrow> (job_status \<Rightarrow> job_status) \<Rightarrow> job_status list \<Rightarrow> job_status list" where
  "update_status jid f [] = []"
| "update_status jid f (s # ss) = (if js_job_id s = jid then f s # ss else s # update_status jid f ss)"

text \<open>The statements of the \<^verbatim>\<open>try\<close> block that can throw.\<close>

definition publish_window ::
    "(string \<Rightarrow> string) \<Rightarrow> sender_env \<Rightarrow> int \<Rightarrow> scheduled_job \<Rightarrow> utc_window \<Rightarrow> outbox \<Rightarrow> outbox \<times> unit datalog_result" where
  "publish_window sha env now job w ox =
     (case bind_result (generate (se_circular env) (se_source env) (sj_snapshot job) w now) (\<lambda>dataset.
         bind_result (write_content sha (jb_format (sj_snapshot job)) dataset) (\<lambda>content. Inr (dataset, content))) of
        Inl e \<Rightarrow> (ox, Inl e)
      | Inr (dataset, content) \<Rightarrow>
          (case enqueue sha (se_io env) dataset content (sj_channel_ids job) (sj_local_only job) ox of
             (ox1, Inl e) \<Rightarrow> (ox1, Inl e)
           | (ox1, Inr u) \<Rightarrow>
               store_watermark (se_io env) \<lparr>wm_job_id = job_id job, wm_revision = job_revision job,
                 wm_completed_through = w_end w\<rparr> now ox1))"

text \<open>How an iteration ends: with the next one, after a new or an expired window, by \<^verbatim>\<open>break\<close>, by
  \<^verbatim>\<open>return\<close> with the flag \<^verbatim>\<open>storage_blocked\<close> or \<^verbatim>\<open>source_deferred\<close>, or by an exception.\<close>

datatype window_end = Generated | Skipped | No_window | Storage_blocked | Source_deferred | Failed datalog_exn

definition expire_window :: "outbox_io \<Rightarrow> int \<Rightarrow> scheduled_job \<Rightarrow> utc_window \<Rightarrow> string \<Rightarrow> sender \<Rightarrow> sender \<times> window_end" where
  "expire_window io now job w message s =
     (case store_watermark io \<lparr>wm_job_id = job_id job, wm_revision = job_revision job,
         wm_completed_through = w_end w\<rparr> now (sn_outbox s) of
        (ox, Inl e) \<Rightarrow> (s\<lparr>sn_outbox := ox\<rparr>, Failed e)
      | (ox, Inr u) \<Rightarrow> (s\<lparr>sn_outbox := ox, sn_statuses := update_status (job_id job)
          (\<lambda>st. st\<lparr>js_last_error := message, js_next_window := Some (window_after job (w_end w))\<rparr>)
          (sn_statuses s)\<rparr>, Skipped))"

definition generate_window ::
    "(string \<Rightarrow> string) \<Rightarrow> sender_env \<Rightarrow> int \<Rightarrow> scheduled_job \<Rightarrow> sender \<Rightarrow> sender \<times> window_end" where
  "generate_window sha env now job s =
     (case watermark (se_io env) (sn_outbox s) (job_id job) of
        Inl e \<Rightarrow> (s, Failed e)
      | Inr None \<Rightarrow> (s, No_window)
      | Inr (Some m) \<Rightarrow>
          if wm_revision m \<noteq> job_revision job then (s, No_window)
          else
            let w = window_after job (wm_completed_through m) in
            if now < w_end w + generation_settle_delay then (s, No_window)
            else (case publish_window sha env now job w (sn_outbox s) of
                (ox, Inr u) \<Rightarrow>
                  (s\<lparr>sn_outbox := ox, sn_statuses := update_status (job_id job)
                    (\<lambda>st. st\<lparr>js_last_window := Some w, js_last_generated_at := now, js_last_error := [],
                      js_next_window := Some (window_after job (w_end w))\<rparr>) (sn_statuses s)\<rparr>, Generated)
              | (ox, Inl (Datalog_error code message)) \<Rightarrow>
                  let s1 = s\<lparr>sn_outbox := ox\<rparr> in
                  if code = Source_retention_gap then expire_window (se_io env) now job w message s1
                  else (s1\<lparr>sn_statuses := update_status (job_id job) (\<lambda>st. st\<lparr>js_last_error := message\<rparr>)
                      (sn_statuses s1)\<rparr>,
                    if code = Storage_failure then Storage_blocked else Source_deferred)
              | (ox, Inl (Other_error e)) \<Rightarrow>
                  (s\<lparr>sn_outbox := ox, sn_statuses := update_status (job_id job)
                    (\<lambda>st. st\<lparr>js_last_error := ''generation dependency is unavailable''\<rparr>) (sn_statuses s)\<rparr>,
                   Source_deferred)))"

text \<open>The \<^verbatim>\<open>while\<close> loop of one job; \<open>budget\<close> is \<^verbatim>\<open>maximum_windows - processed_windows\<close> and \<open>n\<close> counts
  the iterations. The last component is \<open>None\<close> when the next job follows.\<close>

fun generate_windows ::
    "(string \<Rightarrow> string) \<Rightarrow> (nat \<Rightarrow> sender_env) \<Rightarrow> int \<Rightarrow> scheduled_job \<Rightarrow> nat \<Rightarrow> nat \<Rightarrow> generation_result \<Rightarrow> sender \<Rightarrow>
     sender \<times> nat \<times> nat \<times> generation_result \<times> window_end option" where
  "generate_windows sha envs now job 0 n result s = (s, 0, n, result, None)"
| "generate_windows sha envs now job (Suc budget) n result s =
     (case generate_window sha (envs n) now job s of
        (s1, Generated) \<Rightarrow> generate_windows sha envs now job budget (Suc n)
          (result\<lparr>gr_generated := Suc (gr_generated result)\<rparr>) s1
      | (s1, Skipped) \<Rightarrow> generate_windows sha envs now job budget (Suc n)
          (result\<lparr>gr_skipped_expired := Suc (gr_skipped_expired result)\<rparr>) s1
      | (s1, No_window) \<Rightarrow> (s1, Suc budget, Suc n, result, None)
      | (s1, Storage_blocked) \<Rightarrow> (s1, Suc budget, Suc n, result\<lparr>gr_storage_blocked := True\<rparr>, Some Storage_blocked)
      | (s1, Source_deferred) \<Rightarrow> (s1, Suc budget, Suc n, result\<lparr>gr_source_deferred := True\<rparr>, Some Source_deferred)
      | (s1, Failed e) \<Rightarrow> (s1, Suc budget, Suc n, result, Some (Failed e)))"

fun generate_jobs ::
    "(string \<Rightarrow> string) \<Rightarrow> (nat \<Rightarrow> sender_env) \<Rightarrow> int \<Rightarrow> scheduled_job list \<Rightarrow> nat \<Rightarrow> nat \<Rightarrow> generation_result \<Rightarrow> sender \<Rightarrow>
     sender \<times> generation_result datalog_result" where
  "generate_jobs sha envs now [] budget n result s = (s, Inr result)"
| "generate_jobs sha envs now (job # jobs) budget n result s =
     (if \<not> sj_enabled job then generate_jobs sha envs now jobs budget n result s
      else (case generate_windows sha envs now job budget n result s of
          (s1, budget1, n1, result1, None) \<Rightarrow> generate_jobs sha envs now jobs budget1 n1 result1 s1
        | (s1, budget1, n1, result1, Some (Failed e)) \<Rightarrow> (s1, Inl e)
        | (s1, budget1, n1, result1, Some outcome) \<Rightarrow> (s1, Inr result1)))"

definition generate_due ::
    "(string \<Rightarrow> string) \<Rightarrow> (nat \<Rightarrow> sender_env) \<Rightarrow> int \<Rightarrow> nat \<Rightarrow> sender \<Rightarrow> sender \<times> generation_result datalog_result" where
  "generate_due sha envs now maximum_windows s =
     (if maximum_windows = 0 \<or> maximum_windows > 100
      then (s, Inl (Other_error (Invalid_argument ''generation batch limit is invalid'')))
      else generate_jobs sha envs now (sn_jobs s) maximum_windows 0
        \<lparr>gr_generated = 0, gr_skipped_expired = 0, gr_storage_blocked = False, gr_source_deferred = False\<rparr> s)"

section \<open>Delivering\<close>

record delivery_request =
  dr_channel_id :: string
  dr_content :: generated_content
  dr_zero_data_probe :: bool

type_synonym delivery_executor = "string \<Rightarrow> delivery_request \<Rightarrow> delivery_result datalog_result"

text \<open>What one delivery meets: the channel, and the outbox while it is read and updated.\<close>

record delivery_env =
  de_executor :: delivery_executor
  de_io :: outbox_io

definition attempt_delivery :: "(string \<Rightarrow> string) \<Rightarrow> delivery_env \<Rightarrow> queued_delivery \<Rightarrow> outbox \<Rightarrow> delivery_result" where
  "attempt_delivery sha env q ox =
     (case bind_result (content_of sha (de_io env) ox (qd_artifact_id q)) (\<lambda>content.
         de_executor env (qd_channel_id q) \<lparr>dr_channel_id = qd_channel_id q, dr_content = content,
           dr_zero_data_probe = False\<rparr>) of
        Inr result \<Rightarrow> result
      | Inl (Datalog_error code message) \<Rightarrow>
          \<lparr>rs_disposition = Disposition_blocked, rs_remote_result = [], rs_sanitized_error = message\<rparr>
      | Inl (Other_error e) \<Rightarrow>
          \<lparr>rs_disposition = Disposition_retryable, rs_remote_result = [],
           rs_sanitized_error = ''delivery dependency is unavailable''\<rparr>)"

definition next_attempt_time :: "int \<Rightarrow> queued_delivery \<Rightarrow> delivery_result \<Rightarrow> int" where
  "next_attempt_time now q result =
     (if rs_disposition result = Disposition_retryable
      then now + retry_delay (qd_attempt_count q + 1) (qd_artifact_id q @ '':'' @ qd_channel_id q)
      else 0)"

fun deliver_all ::
    "(string \<Rightarrow> string) \<Rightarrow> (nat \<Rightarrow> delivery_env) \<Rightarrow> nat \<Rightarrow> int \<Rightarrow> queued_delivery list \<Rightarrow> outbox \<Rightarrow>
     outbox \<times> unit datalog_result" where
  "deliver_all sha envs n now [] ox = (ox, Inr ())"
| "deliver_all sha envs n now (q # qs) ox =
     (let result = attempt_delivery sha (envs n) q ox in
      (case record_result (de_io (envs n)) q result now (next_attempt_time now q result) ox of
         (ox1, Inl e) \<Rightarrow> (ox1, Inl e)
       | (ox1, Inr u) \<Rightarrow> deliver_all sha envs (Suc n) now qs ox1))"

definition deliver_due ::
    "(string \<Rightarrow> string) \<Rightarrow> outbox_io \<Rightarrow> (nat \<Rightarrow> delivery_env) \<Rightarrow> int \<Rightarrow> nat \<Rightarrow> sender \<Rightarrow> sender \<times> nat datalog_result" where
  "deliver_due sha io envs now maximum_deliveries s =
     (if maximum_deliveries = 0 \<or> maximum_deliveries > 100
      then (s, Inl (Other_error (Invalid_argument ''delivery batch is invalid'')))
      else (case claim_due io now (now + delivery_lease) maximum_deliveries (sn_outbox s) of
          (ox, Inl e) \<Rightarrow> (s\<lparr>sn_outbox := ox\<rparr>, Inl e)
        | (ox, Inr qs) \<Rightarrow>
            (case deliver_all sha envs 0 now qs ox of
               (ox1, Inl e) \<Rightarrow> (s\<lparr>sn_outbox := ox1\<rparr>, Inl e)
             | (ox1, Inr u) \<Rightarrow> (s\<lparr>sn_outbox := ox1\<rparr>, Inr (length qs)))))"

section \<open>Retry times\<close>

lemma small_shift: "unat (min (a :: u32) 10) = min (unat a) 10"
  by (simp add: min_def word_le_nat_alt)

lemma retry_base:
  "uint (min (push_bit (unat (min (a :: u32) 10)) (5 :: u64)) 3600) = min (5 * 2 ^ min (unat a) 10) 3600"
proof -
  define k where "k = min (unat a) 10"
  have "k < 11" by (simp add: k_def)
  then have "uint (min (push_bit k (5 :: u64)) 3600) = min (5 * 2 ^ k) 3600"
    by (simp add: less_Suc_eq numeral_eq_Suc) (elim disjE; simp add: push_bit_eq_mult min_def)
  then show ?thesis by (simp add: small_shift k_def)
qed

lemma jittered:
  fixes b h :: u64
  assumes "b \<le> 3600"
  defines "r \<equiv> min (b div 5) (3600 - b)"
  shows "uint (b + (if r = 0 then 0 else h mod (r + 1))) = uint b + uint (if r = 0 then 0 else h mod (r + 1))"
    "uint (if r = 0 then 0 else h mod (r + 1)) \<le> min (uint b div 5) (3600 - uint b)"
proof -
  have b: "uint b \<le> 3600" using assms(1) by (simp add: word_le_def)
  have r: "uint r = min (uint b div 5) (3600 - uint b)"
    using assms(1) b by (simp add: r_def min_def word_le_def uint_div uint_sub_if')
  then have "uint r \<le> 720" using b by linarith
  then have r1: "uint (r + 1) = uint r + 1" by (simp add: uint_plus_if')
  have j: "uint (if r = 0 then 0 else h mod (r + 1)) \<le> uint r"
    using r1 pos_mod_bound [of "uint (r + 1)" "uint h"] uint_ge_0 [of r] by (simp add: uint_mod)
  then show "uint (if r = 0 then 0 else h mod (r + 1)) \<le> min (uint b div 5) (3600 - uint b)" using r by simp
  show "uint (b + (if r = 0 then 0 else h mod (r + 1))) = uint b + uint (if r = 0 then 0 else h mod (r + 1))"
    using j b \<open>uint r \<le> 720\<close> by (simp add: uint_plus_if' del: uint_mod)
qed

lemma retry_delay_between:
  "let base = min (5 * 2 ^ min (unat (attempt - 1)) 10) 3600 in
   attempt \<noteq> 0 \<longrightarrow> base * second_ns \<le> retry_delay attempt name \<and>
     retry_delay attempt name \<le> min (base + base div 5) 3600 * second_ns"
proof -
  define b where "b = min (push_bit (unat (min (attempt - 1) 10)) (5 :: u64)) 3600"
  define r where "r = min (b div 5) (3600 - b)"
  define jit where "jit = (if r = 0 then 0 else fnv1a name attempt mod (r + 1))"
  have "b \<le> 3600" by (simp add: b_def)
  note j = jittered [OF this, of "fnv1a name attempt", folded r_def, folded jit_def]
  have d: "retry_delay attempt name = uint (b + jit) * second_ns" if "attempt \<noteq> 0"
    unfolding retry_delay_def Let_def if_not_P [OF that] b_def [symmetric] r_def [symmetric] jit_def [symmetric] ..
  have "0 \<le> uint jit" by simp
  then have le: "uint b \<le> uint b + uint jit" "uint b + uint jit \<le> min (uint b + uint b div 5) 3600" using j(2) by simp_all
  have "uint b * second_ns \<le> uint (b + jit) * second_ns"
    unfolding j(1) using le(1) by (rule mult_right_mono) simp
  moreover have "uint (b + jit) * second_ns \<le> min (uint b + uint b div 5) 3600 * second_ns"
    unfolding j(1) using le(2) by (rule mult_right_mono) simp
  ultimately show ?thesis unfolding Let_def retry_base [symmetric] b_def [symmetric] using d by simp
qed

lemma retry_delay_range: "5 * second_ns \<le> retry_delay attempt name \<and> retry_delay attempt name \<le> 3600 * second_ns"
proof -
  have b: "5 * second_ns \<le> retry_delay a name \<and> retry_delay a name \<le> 3600 * second_ns" if "a \<noteq> 0" for a
  proof -
    let ?b = "min (5 * 2 ^ min (unat (a - 1)) 10) 3600 :: int"
    have "(1 :: int) \<le> 2 ^ min (unat (a - 1)) 10" by simp
    then have "5 \<le> ?b" by simp
    then show ?thesis using retry_delay_between [of a name] that by (simp add: Let_def min_def split: if_splits)
  qed
  show ?thesis
  proof (cases "attempt = 0")
    case True
    then have "retry_delay attempt name = retry_delay 1 name" by (simp add: retry_delay_def)
    then show ?thesis using b [of 1] by simp
  qed (rule b)
qed

text \<open>
  The retry time backs off exponentially within bounds: the delay before the next attempt
  is at least \<open>5 \<cdot> 2\<^sup>n\<^sup>-\<^sup>1\<close> seconds after the \<open>n\<close>-th attempt (one hour at most) and the jitter adds at
  most a fifth of it and never goes beyond one hour; no shift, sum or product overflows.
\<close>

theorem retry_delay_bounds:
  "let base = min (5 * 2 ^ min (unat (attempt - 1)) 10) 3600 in
   attempt \<noteq> 0 \<longrightarrow> base * second_ns \<le> retry_delay attempt name \<and>
     retry_delay attempt name \<le> min (base + base div 5) 3600 * second_ns"
  by (rule retry_delay_between)

theorem retry_delay_bounds_witness:
  "5 * second_ns \<le> retry_delay 1 ''a:b'' \<and> retry_delay 1 ''a:b'' \<le> 6 * second_ns"
  using retry_delay_bounds [of 1 "''a:b''"] by (simp add: Let_def)

text \<open>
  A new job starts at a boundary: \<^verbatim>\<open>next_boundary\<close> is the least multiple of the interval that is
  not before now, so the windows of every job lie on the same grid.
\<close>

theorem next_boundary_least:
  assumes "next_boundary now interval = Inr t"
  shows "interval dvd t \<and> now \<le> t \<and> (\<forall>u. interval dvd u \<longrightarrow> now \<le> u \<longrightarrow> t \<le> u)"
proof -
  have i: "0 < interval" "0 \<le> now" and t: "t = (now + interval - 1) div interval * interval"
    using assms by (auto simp: next_boundary_def split: if_splits)
  let ?q = "(now + interval - 1) div interval"
  have "now + interval - 1 = ?q * interval + (now + interval - 1) mod interval" by (simp add: div_mult_mod_eq)
  moreover have "(now + interval - 1) mod interval < interval" using i by simp
  ultimately have "now \<le> t" using t by linarith
  moreover have "t \<le> u" if "interval dvd u" "now \<le> u" for u
  proof -
    obtain k where k: "u = interval * k" using \<open>interval dvd u\<close> by blast
    have "now + interval - 1 < (k + 1) * interval" using that(2) i k by (simp add: algebra_simps)
    moreover have "?q * interval \<le> now + interval - 1"
      using i pos_mod_sign [of interval "now + interval - 1"] div_mult_mod_eq [of "now + interval - 1" interval] by linarith
    ultimately have "?q * interval < (k + 1) * interval" by linarith
    then have "?q < k + 1" using i by (simp add: mult_less_cancel_right)
    then show ?thesis using t k i by (simp add: mult.commute mult_left_mono)
  qed
  ultimately show ?thesis using t by simp
qed

theorem next_boundary_least_witness: "(60 :: int) dvd 120 \<and> (61 :: int) \<le> 120"
  using next_boundary_least [of 61 60 120] by (simp add: next_boundary_def)

section \<open>Interface: the watermarks of the outbox\<close>

text \<open>
  What the scheduler relies on: a stored watermark is the one that is read, storing one leaves those of
  other jobs alone, and a store that fails changes nothing.
\<close>

locale watermark_store =
  fixes mark :: "'s \<Rightarrow> string \<Rightarrow> job_watermark option"
    and put :: "'e \<Rightarrow> job_watermark \<Rightarrow> int \<Rightarrow> 's \<Rightarrow> 's \<times> unit datalog_result"
  assumes put_mark: "put e w t s = (s', Inr ()) \<Longrightarrow> mark s' (wm_job_id w) = Some w"
    and put_other: "put e w t s = (s', r) \<Longrightarrow> j \<noteq> wm_job_id w \<Longrightarrow> mark s' j = mark s j"
    and put_failed: "put e w t s = (s', Inl x) \<Longrightarrow> s' = s"
begin

lemma mark_after:
  "put e w t s = (s', r) \<Longrightarrow> mark s' j = (if j = wm_job_id w \<and> r = Inr () then Some w else mark s j)"
  using put_mark [of e w t s s'] put_other [of e w t s s' r j] put_failed [of e w t s s'] by (cases r) auto

text \<open>Storing the ends of consecutive windows leaves the last one.\<close>

lemma put_twice:
  "put e w t s = (s1, Inr ()) \<Longrightarrow> put e' v t' s1 = (s2, Inr ()) \<Longrightarrow> wm_job_id v = wm_job_id w \<Longrightarrow>
   mark s2 (wm_job_id w) = Some v"
  using mark_after [of e' v t' s1 s2 "Inr ()" "wm_job_id w"] by simp

end

definition outbox_mark :: "outbox \<Rightarrow> string \<Rightarrow> job_watermark option" where
  "outbox_mark ox jid = map_option fst (find (\<lambda>(w, t). wm_job_id w = jid) (db_watermarks (ox_db ox)))"

lemma find_filter_other:
  "(\<And>x. P x \<Longrightarrow> Q x) \<Longrightarrow> find P (filter Q xs) = find P xs"
  by (induction xs) auto

interpretation marks: watermark_store outbox_mark store_watermark
proof
  fix e w t s s' and j :: string and r and x
  show "outbox_mark s' (wm_job_id w) = Some w" if "store_watermark e w t s = (s', Inr ())"
    using that by (auto simp: store_watermark_def outbox_mark_def split: if_splits sum.splits)
  show "outbox_mark s' j = outbox_mark s j" if "store_watermark e w t s = (s', r)" "j \<noteq> wm_job_id w"
    using that find_filter_other [of "\<lambda>(w, t). wm_job_id w = j" "\<lambda>(v, t). wm_job_id v \<noteq> wm_job_id w" "db_watermarks (ox_db s)"]
    by (auto simp: store_watermark_def outbox_mark_def split: if_splits sum.splits)
  show "s' = s" if "store_watermark e w t s = (s', Inl x)"
    using that by (auto simp: store_watermark_def split: if_splits sum.splits)
qed

lemma watermark_mark: "watermark io ox jid = (case io_db io ''select watermark'' of Some e \<Rightarrow> Inl (Other_error e) | None \<Rightarrow> Inr (outbox_mark ox jid))"
  by (simp add: watermark_def outbox_mark_def split: option.split)

lemma insert_deliveries_marks: "insert_deliveries io x chans db = Inr db' \<Longrightarrow> db_watermarks db' = db_watermarks db"
  by (induction io x chans db rule: insert_deliveries.induct) (auto split: if_splits)

text \<open>Queueing keeps the watermarks and every manifest, and adds the one of the artifact.\<close>

lemma enqueue_keeps:
  assumes "enqueue sha io dataset content chans local_only ox = (ox1, r)"
  shows "outbox_mark ox1 = outbox_mark ox" "set (db_artifacts (ox_db ox)) \<subseteq> set (db_artifacts (ox_db ox1))"
    "r = Inr () \<Longrightarrow> \<exists>a \<in> set (db_artifacts (ox_db ox1)). at_id a = gd_artifact_id dataset"
proof -
  have "outbox_mark ox1 = outbox_mark ox \<and> set (db_artifacts (ox_db ox)) \<subseteq> set (db_artifacts (ox_db ox1)) \<and>
      (r = Inr () \<longrightarrow> (\<exists>a \<in> set (db_artifacts (ox_db ox1)). at_id a = gd_artifact_id dataset))"
  proof (cases rule: enqueue_cases [of sha io dataset content chans local_only ox])
    case (repeated a)
    then show ?thesis
      using assms find_Some_in_set [of "\<lambda>a. at_id a = gd_artifact_id dataset" "db_artifacts (ox_db ox)" a]
      by (auto simp: find_artifact_def)
  next
    case (unmanifested e)
    then show ?thesis using assms by (auto simp: outbox_mark_def)
  next
    case (stored db)
    obtain revision db1 where
      i: "insert_artifact io (manifest_row dataset content chans local_only revision) (ox_db ox) = Inr db1"
      and d: "insert_deliveries io (gd_artifact_id dataset) chans db1 = Inr db"
      using stored(3) by (auto simp: insert_manifest_def split: option.splits)
    have "db_watermarks db1 = db_watermarks (ox_db ox)" using i by (auto simp: insert_artifact_def split: if_splits)
    moreover have "set (db_artifacts db) = insert (manifest_row dataset content chans local_only revision) (set (db_artifacts (ox_db ox)))"
      using insert_artifact_more [OF i] insert_deliveries_more [OF d] by simp
    moreover have "at_id (manifest_row dataset content chans local_only revision) = gd_artifact_id dataset"
      by (simp add: manifest_row_def)
    moreover have "ox_db ox1 = db" using assms stored(4) by auto
    ultimately show ?thesis
      using insert_deliveries_marks [OF d] unfolding outbox_mark_def fun_eq_iff by auto
  qed (use assms in auto)
  then show "outbox_mark ox1 = outbox_mark ox" "set (db_artifacts (ox_db ox)) \<subseteq> set (db_artifacts (ox_db ox1))"
    "r = Inr () \<Longrightarrow> \<exists>a \<in> set (db_artifacts (ox_db ox1)). at_id a = gd_artifact_id dataset" by simp_all
qed

lemma store_watermark_artifacts [simp]:
  "db_artifacts (ox_db (fst (store_watermark io w t ox))) = db_artifacts (ox_db ox)"
  by (simp add: store_watermark_def split: sum.splits)

section \<open>Progress of the windows\<close>

text \<open>A window is dealt with: it was due, and it has a manifest or the historian reported that its data expired.\<close>

definition window_accounted :: "(string \<Rightarrow> string) \<Rightarrow> sender_env set \<Rightarrow> int \<Rightarrow> scheduled_job \<Rightarrow> int \<Rightarrow> sender \<Rightarrow> bool" where
  "window_accounted sha envs now job t s \<longleftrightarrow>
     t + job_interval job + generation_settle_delay \<le> now \<and>
     ((\<exists>a \<in> set (db_artifacts (ox_db (sn_outbox s))). at_id a = artifact_id (sj_snapshot job) (window_after job t)) \<or>
      (\<exists>env \<in> envs. \<exists>m. generate (se_circular env) (se_source env) (sj_snapshot job) (window_after job t) now =
         Inl (Datalog_error Source_retention_gap m)))"

text \<open>The job's watermark, of its present revision.\<close>

definition job_at :: "scheduled_job \<Rightarrow> int \<Rightarrow> sender \<Rightarrow> bool" where
  "job_at job t s \<longleftrightarrow> outbox_mark (sn_outbox s) (job_id job) =
     Some \<lparr>wm_job_id = job_id job, wm_revision = job_revision job, wm_completed_through = t\<rparr>"

lemma publish_window_cases [case_names not_generated not_queued queued]:
  obtains e where "publish_window sha env now job w ox = (ox, Inl e)"
      "generate (se_circular env) (se_source env) (sj_snapshot job) w now = Inl e \<or> (\<exists>m. e = Datalog_error Serialization_failure m)"
  | dataset content ox1 e where "generate (se_circular env) (se_source env) (sj_snapshot job) w now = Inr dataset"
      "enqueue sha (se_io env) dataset content (sj_channel_ids job) (sj_local_only job) ox = (ox1, Inl e)"
      "publish_window sha env now job w ox = (ox1, Inl e)"
  | dataset content ox1 where "generate (se_circular env) (se_source env) (sj_snapshot job) w now = Inr dataset"
      "enqueue sha (se_io env) dataset content (sj_channel_ids job) (sj_local_only job) ox = (ox1, Inr ())"
      "publish_window sha env now job w ox = store_watermark (se_io env) \<lparr>wm_job_id = job_id job,
         wm_revision = job_revision job, wm_completed_through = w_end w\<rparr> now ox1"
proof (cases "generate (se_circular env) (se_source env) (sj_snapshot job) w now")
  case (Inl e)
  then show thesis using that(1) by (simp add: publish_window_def)
next
  case g: (Inr dataset)
  show thesis
  proof (cases "write_content sha (jb_format (sj_snapshot job)) dataset")
    case (Inl e)
    then have "\<exists>m. e = Datalog_error Serialization_failure m"
      by (auto simp: write_content_def write_json_def write_csv_def split: content_format.splits if_splits)
    then show thesis using that(1) g Inl by (simp add: publish_window_def)
  next
    case (Inr content)
    obtain ox1 r where e: "enqueue sha (se_io env) dataset content (sj_channel_ids job) (sj_local_only job) ox = (ox1, r)" by fastforce
    show thesis
    proof (cases r)
      case (Inl x)
      show thesis using that(2) [OF g, of content ox1 x] g Inr e Inl by (simp add: publish_window_def)
    next
      case (Inr u)
      show thesis using that(3) [OF g, of content ox1] g \<open>write_content _ _ _ = Inr content\<close> e Inr by (simp add: publish_window_def)
    qed
  qed
qed

lemma enqueue_error:
  assumes "enqueue sha io dataset content chans local_only ox = (ox1, Inl (Datalog_error code m))"
  shows "code \<noteq> Source_retention_gap"
proof
  assume c: "code = Source_retention_gap"
  have s: "storage_status io ox \<noteq> Inl (Datalog_error Source_retention_gap m)"
    by (simp add: storage_status_def Let_def)
  have "store_artifact io dataset content chans local_only ox \<noteq> (ox1, Inl (Datalog_error Source_retention_gap m))"
    using s by (auto simp: store_artifact_def atomic_write_def Let_def split: sum.splits write_outcome.splits)
  moreover have "enqueue_refused sha io dataset content chans local_only ox \<noteq> Some (Datalog_error Source_retention_gap m)"
    by (auto simp: enqueue_refused_def)
  ultimately show False
    using assms c by (auto simp: enqueue_def split: option.splits if_splits)
qed

lemma store_watermark_error: "store_watermark io w t ox = (ox1, Inl e) \<Longrightarrow> \<exists>x. e = Other_error x"
  by (auto simp: store_watermark_def split: if_splits sum.splits)

lemma publish_window_keeps:
  assumes "publish_window sha env now job w ox = (ox1, r)"
  shows "set (db_artifacts (ox_db ox)) \<subseteq> set (db_artifacts (ox_db ox1)) \<and>
    outbox_mark ox1 j = (if j = job_id job \<and> r = Inr () then Some \<lparr>wm_job_id = job_id job,
       wm_revision = job_revision job, wm_completed_through = w_end w\<rparr> else outbox_mark ox j) \<and>
    (r = Inr () \<longrightarrow> (\<exists>a \<in> set (db_artifacts (ox_db ox1)). at_id a = artifact_id (sj_snapshot job) w)) \<and>
    (\<forall>m. r = Inl (Datalog_error Source_retention_gap m) \<longrightarrow>
       generate (se_circular env) (se_source env) (sj_snapshot job) w now = Inl (Datalog_error Source_retention_gap m))"
proof (cases rule: publish_window_cases [of sha env now job w ox])
  case (not_generated e)
  then show ?thesis using assms by auto
next
  case (not_queued dataset content ox2 e)
  then show ?thesis
    using assms enqueue_keeps [OF not_queued(2)] enqueue_error [of sha "se_io env" dataset content "sj_channel_ids job" "sj_local_only job" ox ox2]
    by auto
next
  case (queued dataset content ox2)
  note k = enqueue_keeps [OF queued(2)]
  have s: "store_watermark (se_io env) \<lparr>wm_job_id = job_id job, wm_revision = job_revision job,
      wm_completed_through = w_end w\<rparr> now ox2 = (ox1, r)"
    using assms queued(3) by simp
  have "gd_artifact_id dataset = artifact_id (sj_snapshot job) w" using queued(1) by (auto elim: generate_cases)
  moreover have "db_artifacts (ox_db ox1) = db_artifacts (ox_db ox2)"
    using store_watermark_artifacts [of "se_io env" _ now ox2] s by (metis fst_conv)
  ultimately show ?thesis
    using k marks.mark_after [OF s, of j] store_watermark_error [of "se_io env" _ now ox2 ox1] s by auto
qed

text \<open>What one iteration does to the outbox.\<close>

lemma generate_window_cases [case_names same published expired]:
  obtains "sn_outbox (fst (generate_window sha env now job s)) = sn_outbox s"
  | m ox r where "outbox_mark (sn_outbox s) (job_id job) = Some m" "wm_revision m = job_revision job"
      "wm_completed_through m + job_interval job + generation_settle_delay \<le> now"
      "publish_window sha env now job (window_after job (wm_completed_through m)) (sn_outbox s) = (ox, r)"
      "sn_outbox (fst (generate_window sha env now job s)) = ox"
  | m ox msg where "outbox_mark (sn_outbox s) (job_id job) = Some m" "wm_revision m = job_revision job"
      "wm_completed_through m + job_interval job + generation_settle_delay \<le> now"
      "publish_window sha env now job (window_after job (wm_completed_through m)) (sn_outbox s) =
         (ox, Inl (Datalog_error Source_retention_gap msg))"
      "sn_outbox (fst (generate_window sha env now job s)) = fst (store_watermark (se_io env) \<lparr>wm_job_id = job_id job,
         wm_revision = job_revision job, wm_completed_through = wm_completed_through m + job_interval job\<rparr> now ox)"
proof (cases "\<exists>m. watermark (se_io env) (sn_outbox s) (job_id job) = Inr (Some m) \<and> wm_revision m = job_revision job \<and>
    wm_completed_through m + job_interval job + generation_settle_delay \<le> now")
  case False
  then have "sn_outbox (fst (generate_window sha env now job s)) = sn_outbox s"
    by (auto simp: generate_window_def window_after_def Let_def split: sum.split option.split)
  then show thesis by (rule that(1))
next
  case True
  then obtain m where m: "watermark (se_io env) (sn_outbox s) (job_id job) = Inr (Some m)" "wm_revision m = job_revision job"
    "wm_completed_through m + job_interval job + generation_settle_delay \<le> now" by blast
  let ?w = "window_after job (wm_completed_through m)"
  have mk: "outbox_mark (sn_outbox s) (job_id job) = Some m"
    using m(1) by (auto simp: watermark_mark split: option.splits)
  have we: "w_end ?w = wm_completed_through m + job_interval job" by (simp add: window_after_def)
  obtain ox r where p: "publish_window sha env now job ?w (sn_outbox s) = (ox, r)" by fastforce
  show thesis
  proof (cases "\<exists>msg. r = Inl (Datalog_error Source_retention_gap msg)")
    case True
    then obtain msg where r: "r = Inl (Datalog_error Source_retention_gap msg)" by blast
    have "sn_outbox (fst (generate_window sha env now job s)) = fst (store_watermark (se_io env) \<lparr>wm_job_id = job_id job,
         wm_revision = job_revision job, wm_completed_through = wm_completed_through m + job_interval job\<rparr> now ox)"
      using m p r by (simp add: generate_window_def Let_def we expire_window_def split: prod.split sum.split)
    then show thesis using that(3) mk m(2,3) p r by blast
  next
    case False
    then have "sn_outbox (fst (generate_window sha env now job s)) = ox"
      using m p by (simp add: generate_window_def Let_def we split: sum.split datalog_exn.split)
    then show thesis using that(2) mk m(2,3) p by blast
  qed
qed

text \<open>One iteration: the watermark of a job either stays or moves over a window that is dealt with.\<close>

lemma generate_window_progress:
  assumes s'_def: "s' = fst (generate_window sha env now j s)" and env: "env \<in> envs"
  shows "set (db_artifacts (ox_db (sn_outbox s))) \<subseteq> set (db_artifacts (ox_db (sn_outbox s')))" (is ?keep)
    "job_id j \<noteq> job_id job \<Longrightarrow> outbox_mark (sn_outbox s') (job_id job) = outbox_mark (sn_outbox s) (job_id job)"
    "j = job \<Longrightarrow> job_at job t s \<Longrightarrow> job_at job t s' \<or>
       (job_at job (t + job_interval job) s' \<and> window_accounted sha envs now job t s')"
proof -
  have "?keep \<and> (job_id j \<noteq> job_id job \<longrightarrow> outbox_mark (sn_outbox s') (job_id job) = outbox_mark (sn_outbox s) (job_id job)) \<and>
    (j = job \<longrightarrow> job_at job t s \<longrightarrow> job_at job t s' \<or>
       (job_at job (t + job_interval job) s' \<and> window_accounted sha envs now job t s'))"
  proof (cases rule: generate_window_cases [of sha env now j s])
    case same
    then show ?thesis by (auto simp: s'_def job_at_def)
  next
    case (published m ox r)
    note k = publish_window_keeps [OF published(4), of "job_id job"]
    show ?thesis
    proof (cases r)
      case (Inl e)
      then show ?thesis using k published by (auto simp: s'_def job_at_def)
    next
      case (Inr u)
      then show ?thesis
        using k published by (auto simp: s'_def job_at_def window_accounted_def window_after_def)
    qed
  next
    case (expired m ox msg)
    note k = publish_window_keeps [OF expired(4), of "job_id job"]
    obtain ox2 r where s: "store_watermark (se_io env) \<lparr>wm_job_id = job_id j, wm_revision = job_revision j,
        wm_completed_through = wm_completed_through m + job_interval j\<rparr> now ox = (ox2, r)" by fastforce
    have o: "sn_outbox s' = ox2" using expired(5) s by (simp add: s'_def)
    have a: "db_artifacts (ox_db ox2) = db_artifacts (ox_db ox)"
      using store_watermark_artifacts [of "se_io env" _ now ox] s by (metis fst_conv)
    show ?thesis
      using k marks.mark_after [OF s, of "job_id job"] expired(1,2,3) env
      by (auto simp: o a job_at_def window_accounted_def window_after_def)
  qed
  then show ?keep "job_id j \<noteq> job_id job \<Longrightarrow> outbox_mark (sn_outbox s') (job_id job) = outbox_mark (sn_outbox s) (job_id job)"
    "j = job \<Longrightarrow> job_at job t s \<Longrightarrow> job_at job t s' \<or>
       (job_at job (t + job_interval job) s' \<and> window_accounted sha envs now job t s')" by blast+
qed

section \<open>Interface: contiguous progress\<close>

text \<open>
  A position moves by a fixed width or stays, every stretch it moves over is done, and done stays done.
  Then after any events the stretches between the first and the last position are all done.
\<close>

locale contiguous_progress =
  fixes step :: "'s \<Rightarrow> 'ev \<Rightarrow> 's" and ok :: "'ev \<Rightarrow> bool" and at :: "int \<Rightarrow> 's \<Rightarrow> bool"
    and finished :: "int \<Rightarrow> 's \<Rightarrow> bool" and width :: int
  assumes move: "ok e \<Longrightarrow> at t s \<Longrightarrow> at t (step s e) \<or> (at (t + width) (step s e) \<and> finished t (step s e))"
    and stays: "ok e \<Longrightarrow> finished t s \<Longrightarrow> finished t (step s e)"
begin

lemma finished_run: "list_all ok es \<Longrightarrow> finished t s \<Longrightarrow> finished t (foldl step s es)"
  by (induction es arbitrary: s) (simp_all add: stays)

lemma progress:
  "list_all ok es \<Longrightarrow> at t s \<Longrightarrow>
   \<exists>n. at (t + int n * width) (foldl step s es) \<and> n \<le> length es \<and>
     (\<forall>i<n. finished (t + int i * width) (foldl step s es))"
proof (induction es arbitrary: t s)
  case Nil
  then show ?case by (intro exI [of _ 0]) simp
next
  case (Cons e es)
  have ok: "ok e" "list_all ok es" using Cons.prems(1) by simp_all
  show ?case
  proof (cases "at t (step s e)")
    case True
    obtain n where "at (t + int n * width) (foldl step (step s e) es)" "n \<le> length es"
      "\<forall>i<n. finished (t + int i * width) (foldl step (step s e) es)"
      using Cons.IH [OF ok(2) True] by blast
    then show ?thesis by (intro exI [of _ n]) simp
  next
    case False
    then have m: "at (t + width) (step s e)" "finished t (step s e)" using move [OF ok(1) Cons.prems(2)] by simp_all
    obtain n where n: "at (t + width + int n * width) (foldl step (step s e) es)" "n \<le> length es"
      "\<forall>i<n. finished (t + width + int i * width) (foldl step (step s e) es)"
      using Cons.IH [OF ok(2) m(1)] by blast
    have "finished (t + int i * width) (foldl step (step s e) es)" if "i < Suc n" for i
      using that n(3) finished_run [OF ok(2) m(2)] by (cases i) (simp_all add: algebra_simps)
    then show ?thesis using n(1,2) by (intro exI [of _ "Suc n"]) (simp add: algebra_simps)
  qed
qed

end

text \<open>The generation loop as a sequence of iterations for jobs of different identifiers.\<close>

definition window_step :: "(string \<Rightarrow> string) \<Rightarrow> int \<Rightarrow> sender \<Rightarrow> sender_env \<times> scheduled_job \<Rightarrow> sender" where
  "window_step sha now s e = fst (generate_window sha (fst e) now (snd e) s)"

definition window_event :: "sender_env set \<Rightarrow> scheduled_job \<Rightarrow> sender_env \<times> scheduled_job \<Rightarrow> bool" where
  "window_event envs job e \<longleftrightarrow> fst e \<in> envs \<and> (snd e = job \<or> job_id (snd e) \<noteq> job_id job)"

interpretation windows: contiguous_progress "window_step sha now" "window_event envs job" "job_at job"
  "window_accounted sha envs now job" "job_interval job" for sha now envs job
proof
  fix e t s
  assume ok: "window_event envs job e"
  have env: "fst e \<in> envs" using ok by (simp add: window_event_def)
  note p = generate_window_progress [OF refl env]
  show "job_at job t (window_step sha now s e) \<or> (job_at job (t + job_interval job) (window_step sha now s e) \<and>
      window_accounted sha envs now job t (window_step sha now s e))" if "job_at job t s"
  proof (cases "snd e = job")
    case True
    then show ?thesis using p(3) [where j = "snd e" and job = job] that by (simp add: window_step_def)
  next
    case False
    then have "job_id (snd e) \<noteq> job_id job" using ok by (simp add: window_event_def)
    then show ?thesis using p(2) [where j = "snd e" and job = job] that by (simp add: window_step_def job_at_def)
  qed
  show "window_accounted sha envs now job t (window_step sha now s e)" if "window_accounted sha envs now job t s"
    using that p(1) [where j = "snd e" and s = s and sha = sha and now = now] by (auto simp: window_step_def window_accounted_def)
qed

lemma generate_windows_run:
  obtains es where "fst (generate_windows sha envs now job budget n result s) = foldl (window_step sha now) s es"
    "set es \<subseteq> range envs \<times> {job}"
proof (induction budget arbitrary: n result s thesis)
  case 0
  show ?case by (rule 0 [of "[]"]) simp_all
next
  case (Suc budget)
  obtain s1 o1 where g: "generate_window sha (envs n) now job s = (s1, o1)" by fastforce
  have one: "s1 = window_step sha now s (envs n, job)" using g by (simp add: window_step_def)
  show ?case
  proof (cases "o1 = Generated \<or> o1 = Skipped")
    case True
    then obtain result1 where e: "generate_windows sha envs now job (Suc budget) n result s =
        generate_windows sha envs now job budget (Suc n) result1 s1"
      using g by auto
    obtain es where "fst (generate_windows sha envs now job budget (Suc n) result1 s1) = foldl (window_step sha now) s1 es"
      "set es \<subseteq> range envs \<times> {job}" by (rule Suc.IH)
    then show ?thesis by (intro Suc.prems [of "(envs n, job) # es"]) (simp_all add: e one del: generate_windows.simps)
  next
    case False
    then have "fst (generate_windows sha envs now job (Suc budget) n result s) = s1"
      using g by (cases o1) auto
    then show ?thesis by (intro Suc.prems [of "[(envs n, job)]"]) (simp_all add: one)
  qed
qed

lemma generate_jobs_run:
  obtains es where "fst (generate_jobs sha envs now jobs budget n result s) = foldl (window_step sha now) s es"
    "set es \<subseteq> range envs \<times> set jobs"
proof (induction jobs arbitrary: budget n result s thesis)
  case Nil
  show ?case by (rule Nil [of "[]"]) simp_all
next
  case (Cons job jobs)
  show ?case
  proof (cases "sj_enabled job")
    case False
    obtain es where "fst (generate_jobs sha envs now jobs budget n result s) = foldl (window_step sha now) s es"
      "set es \<subseteq> range envs \<times> set jobs" by (rule Cons.IH)
    then show ?thesis using False by (intro Cons.prems [of es]) auto
  next
    case True
    obtain s1 b1 n1 r1 o1 where g: "generate_windows sha envs now job budget n result s = (s1, b1, n1, r1, o1)"
      by (metis prod.exhaust)
    obtain es where es: "fst (generate_windows sha envs now job budget n result s) = foldl (window_step sha now) s es"
      "set es \<subseteq> range envs \<times> {job}" by (rule generate_windows_run)
    show ?thesis
    proof (cases o1)
      case None
      obtain fs where "fst (generate_jobs sha envs now jobs b1 n1 r1 s1) = foldl (window_step sha now) s1 fs"
        "set fs \<subseteq> range envs \<times> set jobs" by (rule Cons.IH)
      then show ?thesis using es g True None by (intro Cons.prems [of "es @ fs"]) auto
    next
      case (Some x)
      then show ?thesis using es g True by (intro Cons.prems [of es]) (cases x; auto)+
    qed
  qed
qed

text \<open>
  C31. No window is skipped silently. In a run of \<^verbatim>\<open>generate_due\<close> the watermark of a job moves over whole
  windows only, one after the other without a gap; every window it moves over had ended at least
  30 seconds before, and either has a manifest in the outbox afterwards or the historian itself
  answered that its data is no longer retained - whatever fails in between, and in whatever
  iteration.
\<close>

theorem generate_due_contiguous:
  assumes "distinct (map job_id (sn_jobs s))" "job \<in> set (sn_jobs s)" "job_at job t s"
    "generate_due sha envs now maximum_windows s = (s', r)"
  shows "\<exists>n. job_at job (t + int n * job_interval job) s' \<and>
    (\<forall>i<n. window_accounted sha (range envs) now job (t + int i * job_interval job) s')"
proof -
  obtain es where es: "s' = foldl (window_step sha now) s es" "set es \<subseteq> range envs \<times> set (sn_jobs s)"
  proof (cases "maximum_windows = 0 \<or> maximum_windows > 100")
    case True
    then show thesis using assms(4) that [of "[]"] by (auto simp: generate_due_def)
  next
    case False
    then show thesis
      using generate_jobs_run [of sha envs now "sn_jobs s" maximum_windows 0 _ s] assms(4) that
      by (auto simp: generate_due_def) (metis fst_conv)
  qed
  have "list_all (window_event (range envs) job) es"
    unfolding list_all_iff
  proof
    fix e assume "e \<in> set es"
    then have "fst e \<in> range envs" "snd e \<in> set (sn_jobs s)" using es(2) by auto
    then show "window_event (range envs) job e"
      using assms(1,2) by (auto simp: window_event_def distinct_map inj_on_def)
  qed
  from windows.progress [OF this assms(3), of sha now] show ?thesis using es(1) by blast
qed

section \<open>Bounded runs\<close>

abbreviation processed :: "generation_result \<Rightarrow> nat" where
  "processed result \<equiv> gr_generated result + gr_skipped_expired result"

lemma generate_windows_bounded:
  assumes "generate_windows sha envs now job budget n result s = (s1, budget1, n1, result1, o1)"
  obtains es where "s1 = foldl (window_step sha now) s es" "length es + budget1 \<le> Suc budget"
    "processed result1 + budget1 = processed result + budget"
  using assms
proof (induction budget arbitrary: n result s thesis)
  case 0
  then show ?case by (intro 0(1) [of "[]"]) simp_all
next
  case (Suc budget)
  obtain s2 o2 where g: "generate_window sha (envs n) now job s = (s2, o2)" by fastforce
  have one: "s2 = window_step sha now s (envs n, job)" using g by (simp add: window_step_def)
  show ?case
  proof (cases "o2 = Generated \<or> o2 = Skipped")
    case True
    then obtain result2 where r: "generate_windows sha envs now job budget (Suc n) result2 s2 = (s1, budget1, n1, result1, o1)"
      "processed result2 = Suc (processed result)"
      using g Suc.prems(2) by auto
    obtain es where "s1 = foldl (window_step sha now) s2 es" "length es + budget1 \<le> Suc budget"
      "processed result1 + budget1 = processed result2 + budget" using Suc.IH [OF _ r(1)] by blast
    then show ?thesis using r(2) by (intro Suc.prems(1) [of "(envs n, job) # es"]) (simp_all add: one)
  next
    case False
    then have "s1 = s2 \<and> budget1 = Suc budget \<and> processed result1 = processed result"
      using g Suc.prems(2) by (cases o2) auto
    then show ?thesis by (intro Suc.prems(1) [of "[(envs n, job)]"]) (simp_all add: one)
  qed
qed

lemma generate_jobs_bounded:
  "\<exists>es. fst (generate_jobs sha envs now jobs budget n result s) = foldl (window_step sha now) s es \<and>
     length es \<le> budget + length jobs \<and>
     (\<forall>result1. snd (generate_jobs sha envs now jobs budget n result s) = Inr result1 \<longrightarrow>
        processed result1 \<le> processed result + budget)"
proof (induction jobs arbitrary: budget n result s)
  case Nil
  show ?case by (intro exI [of _ "[]"]) simp
next
  case (Cons job jobs)
  show ?case
  proof (cases "sj_enabled job")
    case False
    obtain es where "fst (generate_jobs sha envs now jobs budget n result s) = foldl (window_step sha now) s es"
      "length es \<le> budget + length jobs" "\<forall>result1. snd (generate_jobs sha envs now jobs budget n result s) = Inr result1 \<longrightarrow>
        processed result1 \<le> processed result + budget" using Cons.IH by blast
    then show ?thesis using False by (intro exI [of _ es]) simp
  next
    case True
    obtain s1 b1 n1 r1 o1 where g: "generate_windows sha envs now job budget n result s = (s1, b1, n1, r1, o1)"
      by (metis prod.exhaust)
    obtain es where es: "s1 = foldl (window_step sha now) s es" "length es + b1 \<le> Suc budget"
      "processed r1 + b1 = processed result + budget" by (rule generate_windows_bounded [OF g])
    show ?thesis
    proof (cases o1)
      case None
      obtain fs where "fst (generate_jobs sha envs now jobs b1 n1 r1 s1) = foldl (window_step sha now) s1 fs"
        "length fs \<le> b1 + length jobs" "\<forall>result1. snd (generate_jobs sha envs now jobs b1 n1 r1 s1) = Inr result1 \<longrightarrow>
        processed result1 \<le> processed r1 + b1" using Cons.IH by blast
      then show ?thesis using es g True None by (intro exI [of _ "es @ fs"]) auto
    next
      case (Some x)
      then show ?thesis using es g True by (intro exI [of _ es]) (cases x; auto)
    qed
  qed
qed


definition tiny_job :: datalog_job where
  "tiny_job = example_job\<lparr>jb_row_interval := 100\<rparr>"

definition tiny_source :: historical_source where
  "tiny_source = \<lparr>src_query = (\<lambda>_ _ _. Inr []), src_expected = (\<lambda>_ _ _. 3)\<rparr>"

definition example_sender_job :: scheduled_job where
  "example_sender_job = \<lparr>sj_snapshot = tiny_job, sj_enabled = True, sj_local_only = False, sj_channel_ids = [''cloud'']\<rparr>"

definition example_env :: sender_env where
  "example_env = \<lparr>se_source = tiny_source, se_circular = (\<lambda>_. None), se_io = example_io\<rparr>"

definition example_sender :: sender where
  "example_sender = \<lparr>sn_outbox = fst (store_watermark example_io \<lparr>wm_job_id = ''daily'', wm_revision = 2, wm_completed_through = 0\<rparr> 0
      (example_started\<lparr>ox_policy := \<lparr>op_maximum_bytes = 100000, op_minimum_free = 10, op_retention = 5000\<rparr>\<rparr>)),
     sn_jobs = [example_sender_job], sn_statuses = []\<rparr>"

theorem generate_due_contiguous_witness:
  "\<exists>n. job_at example_sender_job (int n * 100) (fst (generate_due example_sha (\<lambda>_. example_env) 30000000150 4 example_sender)) \<and>
    outbox_mark (sn_outbox (fst (generate_due example_sha (\<lambda>_. example_env) 30000000150 4 example_sender))) ''daily'' =
      Some \<lparr>wm_job_id = ''daily'', wm_revision = 2, wm_completed_through = 100\<rparr>"
proof -
  let ?g = "generate_due example_sha (\<lambda>_. example_env) 30000000150 4 example_sender"
  have j: "distinct (map job_id (sn_jobs example_sender))" "example_sender_job \<in> set (sn_jobs example_sender)"
    by (simp_all add: example_sender_def)
  have a: "job_at example_sender_job 0 example_sender" by code_simp
  have i: "job_interval example_sender_job = 100" by (simp add: example_sender_job_def tiny_job_def example_job_def)
  have m: "outbox_mark (sn_outbox (fst ?g)) ''daily'' =
      Some \<lparr>wm_job_id = ''daily'', wm_revision = 2, wm_completed_through = 100\<rparr>" by code_simp
  show ?thesis
    using generate_due_contiguous [OF j a, of example_sha "\<lambda>_. example_env" 30000000150 4 "fst ?g" "snd ?g"] m i by auto
qed

section \<open>Deliveries\<close>

text \<open>What a sender reads for an unsent delivery is its payload.\<close>

lemma unsent_content_exact:
  assumes "outbox_wf ox" "unsent sha aid chan key body ox" "content_of sha io ox aid = Inr c"
  shows "gc_artifact_id c = aid \<and> gc_body c = body \<and> gc_filename c = snd key \<and> gc_sha256 c = sha body"
proof -
  let ?io = "io\<lparr>io_db := (\<lambda>_. None), io_read := (\<lambda>_. True)\<rparr>"
  have "content_of sha ?io ox aid = Inr c"
  proof (cases "live_artifact (ox_db ox) aid")
    case (Some a)
    obtain k f where k: "payload_path (at_local_only a) (at_filename a) = Inr k" and f: "read_file io ox k (at_size a) = Inr f"
      using assms(3) Some by (auto simp: content_of_def split: option.splits if_splits)
    have "read_file ?io ox k (at_size a) = Inr f"
      using f by (auto simp: read_file_def split: option.splits if_splits)
    then show ?thesis using assms(3) Some k f by (simp add: content_of_def split: option.splits if_splits)
  qed (use assms(3) in \<open>simp add: content_of_def split: option.splits\<close>)
  then show ?thesis using unsent_content [OF assms(1,2), of ?io] by auto
qed

text \<open>The channel confirmed exactly these bytes.\<close>

definition confirmed :: "(nat \<Rightarrow> delivery_env) \<Rightarrow> string \<Rightarrow> string \<Rightarrow> string \<Rightarrow> bool" where
  "confirmed envs aid chan body \<longleftrightarrow>
     (\<exists>n c result. de_executor (envs n) chan \<lparr>dr_channel_id = chan, dr_content = c, dr_zero_data_probe = False\<rparr> = Inr result \<and>
        rs_disposition result = Disposition_succeeded \<and> gc_artifact_id c = aid \<and> gc_body c = body)"

lemma attempt_succeeded:
  assumes "outbox_wf ox" "unsent sha (qd_artifact_id q) (qd_channel_id q) key body ox"
    "rs_disposition (attempt_delivery sha (envs n) q ox) = Disposition_succeeded"
  shows "confirmed envs (qd_artifact_id q) (qd_channel_id q) body"
proof (cases "content_of sha (de_io (envs n)) ox (qd_artifact_id q)")
  case (Inl e)
  then show ?thesis using assms(3) by (simp add: attempt_delivery_def split: datalog_exn.splits)
next
  case (Inr c)
  let ?q = "\<lparr>dr_channel_id = qd_channel_id q, dr_content = c, dr_zero_data_probe = False\<rparr>"
  obtain result where "de_executor (envs n) (qd_channel_id q) ?q = Inr result" "rs_disposition result = Disposition_succeeded"
    using assms(3) Inr by (auto simp: attempt_delivery_def split: sum.splits datalog_exn.splits)
  then show ?thesis
    using unsent_content_exact [OF assms(1,2) Inr] unfolding confirmed_def by blast
qed

lemma deliver_all_safe:
  assumes "outbox_wf ox"
  shows "outbox_wf (fst (deliver_all sha envs n now qs ox)) \<and> (unsent sha aid chan key body ox \<longrightarrow>
    unsent sha aid chan key body (fst (deliver_all sha envs n now qs ox)) \<or> confirmed envs aid chan body)"
  using assms
proof (induction qs arbitrary: n ox)
  case Nil
  then show ?case by simp
next
  case (Cons q qs)
  let ?res = "attempt_delivery sha (envs n) q ox"
  obtain ox1 r where r: "record_result (de_io (envs n)) q ?res now (next_attempt_time now q ?res) ox = (ox1, r)" by fastforce
  have wf1: "outbox_wf ox1"
    using outbox_step_wf [OF Cons.prems, of sha "Op_record (de_io (envs n)) q ?res now (next_attempt_time now q ?res)"] r by simp
  have one: "unsent sha aid chan key body ox1 \<or> confirmed envs aid chan body" if u: "unsent sha aid chan key body ox"
  proof (cases "qd_artifact_id q = aid \<and> qd_channel_id q = chan \<and> rs_disposition ?res = Disposition_succeeded")
    case True
    then show ?thesis using attempt_succeeded [OF Cons.prems, of sha q key body envs n] u by auto
  next
    case False
    then show ?thesis using record_result_safe [OF Cons.prems False, of sha key body "de_io (envs n)" now "next_attempt_time now q ?res"] r u
      by (simp add: safe_step_def)
  qed
  have "fst (deliver_all sha envs n now (q # qs) ox) = (case r of Inl e \<Rightarrow> ox1 | Inr u \<Rightarrow> fst (deliver_all sha envs (Suc n) now qs ox1))"
    using r by (simp add: Let_def split: sum.split)
  then show ?case using Cons.IH [OF wf1, of "Suc n"] wf1 one by (cases r) auto
qed

text \<open>
  C32. Data leaves the outbox only with a receipt: after \<^verbatim>\<open>deliver_due\<close>, a delivery that was unsent is
  still unsent, with its payload in place, unless its channel was given exactly the queued bytes of
  that artifact and answered that the transfer succeeded. Failed reads, exceptions of the channel and
  failures of the database never end a delivery.
\<close>

theorem deliver_due_needs_receipt:
  assumes "outbox_wf (sn_outbox s)" "unsent sha aid chan key body (sn_outbox s)"
    "\<not> confirmed envs aid chan body"
  shows "unsent sha aid chan key body (sn_outbox (fst (deliver_due sha io envs now maximum_deliveries s)))"
proof -
  let ?l = "now + delivery_lease"
  obtain ox r where c: "claim_due io now ?l maximum_deliveries (sn_outbox s) = (ox, r)" by fastforce
  have s: "safe_step sha aid chan key body (sn_outbox s) ox"
    using claim_due_safe [OF assms(1), of sha aid chan key body io now ?l maximum_deliveries] c by simp
  then have u: "outbox_wf ox" "unsent sha aid chan key body ox" using assms(2) by (auto simp: safe_step_def)
  have d: "unsent sha aid chan key body (fst (deliver_all sha envs 0 now qs ox))" for qs
    using deliver_all_safe [OF u(1), of sha envs 0 now qs aid chan key body] u(2) assms(3) by blast
  show ?thesis
  proof (cases r)
    case (Inl e)
    then show ?thesis using c u(2) assms(2) by (simp add: deliver_due_def)
  next
    case (Inr qs)
    obtain ox1 x where x: "deliver_all sha envs 0 now qs ox = (ox1, x)" by fastforce
    then show ?thesis using c Inr assms(2) d [of qs] by (simp add: deliver_due_def split: sum.split)
  qed
qed

text \<open>A delivery attempted at \<open>now\<close> has an outcome, and a retry has a time.\<close>

definition resolved :: "int \<Rightarrow> delivery_row \<Rightarrow> bool" where
  "resolved now d \<longleftrightarrow> dy_state d = D_succeeded \<or> dy_state d = D_blocked \<or>
     (dy_state d = D_retry_wait \<and> now + 5 * second_ns \<le> dy_next d \<and> dy_next d \<le> now + 3600 * second_ns)"

abbreviation rows_resolved :: "int \<Rightarrow> string \<times> string \<Rightarrow> outbox_db \<Rightarrow> bool" where
  "rows_resolved now k db \<equiv> \<forall>d \<in> set (db_deliveries db). delivery_key d = k \<longrightarrow> resolved now d"

lemma record_result_open:
  assumes "record_result io q result attempted_at next_attempt ox = (ox1, Inr ())"
  shows "\<exists>d \<in> set (db_deliveries (ox_db ox)). open_delivery q d"
proof -
  have "filter (open_delivery q) (db_deliveries (ox_db ox)) \<noteq> []"
  proof
    assume "filter (open_delivery q) (db_deliveries (ox_db ox)) = []"
    then show False using assms by (simp add: record_result_def Let_def)
  qed
  then show ?thesis by (auto simp: filter_empty_conv)
qed

lemma prune_completed_rows:
  "set (db_deliveries (ox_db (fst (prune_completed io now ox)))) \<subseteq> set (db_deliveries (ox_db ox))"
  by (auto simp: prune_completed_def Let_def delete_artifacts_def split: option.splits)

lemma finalize_completed_rows:
  "db_deliveries (ox_db (fst (finalize_completed io x ox))) = db_deliveries (ox_db ox)"
  by (simp add: finalize_completed_def Let_def split: option.splits sum.splits)

lemma record_result_resolved:
  assumes "outbox_wf ox" "record_result io q result now (next_attempt_time now q result) ox = (ox1, r)"
  shows "rows_resolved now k (ox_db ox) \<Longrightarrow> rows_resolved now k (ox_db ox1)"
    "r = Inr () \<Longrightarrow> rows_resolved now (qd_artifact_id q, qd_channel_id q) (ox_db ox1)"
proof -
  have "(rows_resolved now k (ox_db ox) \<longrightarrow> rows_resolved now k (ox_db ox1)) \<and>
    (r = Inr () \<longrightarrow> rows_resolved now (qd_artifact_id q, qd_channel_id q) (ox_db ox1))"
  proof (cases rule: record_result_db [of io q result now "next_attempt_time now q result" ox])
    case 1
    then show ?thesis using assms(2) by auto
  next
    case (2 f ox2)
    have res: "resolved now (f d)" for d
      using 2(2) [of d] 2(5) [of d] retry_delay_range [of "qd_attempt_count q + 1" "qd_artifact_id q @ '':'' @ qd_channel_id q"]
      by (cases "rs_disposition result") (simp_all add: resolved_def disposition_state_def next_attempt_time_def)
    have rows: "\<exists>e \<in> set (db_deliveries (ox_db ox)). d = (if open_delivery q e then f e else e)"
      if "d \<in> set (db_deliveries (ox_db ox1))" for d
    proof -
      have "set (db_deliveries (ox_db ox1)) \<subseteq> set (db_deliveries (ox_db ox2))"
        using 2(4) prune_completed_rows [of io now ox2] assms(2) by auto
      then have "d \<in> set (map (\<lambda>e. if open_delivery q e then f e else e) (db_deliveries (ox_db ox)))"
        using that 2(3) finalize_completed_rows by auto
      then show ?thesis by auto
    qed
    have "resolved now d" if m: "d \<in> set (db_deliveries (ox_db ox1))" and key: "delivery_key d = k"
      and all: "rows_resolved now k (ox_db ox)" for d
    proof -
      obtain e where e: "e \<in> set (db_deliveries (ox_db ox))" "d = (if open_delivery q e then f e else e)" using rows [OF m] by blast
      then have "delivery_key e = k" using 2(1) key by (simp split: if_splits)
      then show ?thesis using e all res by auto
    qed
    moreover have "resolved now d" if m: "d \<in> set (db_deliveries (ox_db ox1))"
      and key: "delivery_key d = (qd_artifact_id q, qd_channel_id q)" and ok: "r = Inr ()" for d
    proof -
      obtain e where e: "e \<in> set (db_deliveries (ox_db ox))" "d = (if open_delivery q e then f e else e)" using rows [OF m] by blast
      then have ke: "delivery_key e = (qd_artifact_id q, qd_channel_id q)" using 2(1) key by (simp split: if_splits)
      have "delivery_is (open_delivery q) (qd_artifact_id q) (qd_channel_id q) (ox_db ox)"
        using record_result_open [of io q result now _ ox ox1] assms(2) ok
        unfolding delivery_is_def by (auto simp: open_delivery_def delivery_key_def)
      then have "open_delivery q e"
        using delivery_is_all [OF _ _ e(1) ke] assms(1) by (simp add: outbox_wf_def)
      then show ?thesis using e(2) res by simp
    qed
    ultimately show ?thesis by blast
  qed
  then show "rows_resolved now k (ox_db ox) \<Longrightarrow> rows_resolved now k (ox_db ox1)"
    "r = Inr () \<Longrightarrow> rows_resolved now (qd_artifact_id q, qd_channel_id q) (ox_db ox1)" by blast+
qed

lemma deliver_all_resolved:
  assumes "outbox_wf ox" "deliver_all sha envs n now qs ox = (ox', r)"
  shows "rows_resolved now k (ox_db ox) \<Longrightarrow> rows_resolved now k (ox_db ox')"
    "r = Inr () \<Longrightarrow> q \<in> set qs \<Longrightarrow> rows_resolved now (qd_artifact_id q, qd_channel_id q) (ox_db ox')"
proof -
  have "(rows_resolved now k (ox_db ox) \<longrightarrow> rows_resolved now k (ox_db ox')) \<and>
    (r = Inr () \<longrightarrow> q \<in> set qs \<longrightarrow> rows_resolved now (qd_artifact_id q, qd_channel_id q) (ox_db ox'))"
    for k using assms
  proof (induction qs arbitrary: n ox k)
    case Nil
    then show ?case by simp
  next
    case (Cons p qs)
    let ?res = "attempt_delivery sha (envs n) p ox"
    obtain ox1 x where x: "record_result (de_io (envs n)) p ?res now (next_attempt_time now p ?res) ox = (ox1, x)" by fastforce
    note rr = record_result_resolved [OF Cons.prems(1) x]
    show ?case
    proof (cases x)
      case (Inl e)
      then show ?thesis using Cons.prems(2) x rr(1) by (auto simp: Let_def)
    next
      case (Inr u)
      have wf1: "outbox_wf ox1"
        using outbox_step_wf [OF Cons.prems(1), of sha "Op_record (de_io (envs n)) p ?res now (next_attempt_time now p ?res)"] x by simp
      have d: "deliver_all sha envs (Suc n) now qs ox1 = (ox', r)" using Cons.prems(2) x Inr by (simp add: Let_def)
      have p: "rows_resolved now (qd_artifact_id p, qd_channel_id p) (ox_db ox1)" using rr(2) Inr by simp
      note ih = Cons.IH [OF wf1 d]
      show ?thesis
      proof (intro conjI impI)
        show "rows_resolved now k (ox_db ox')" if "rows_resolved now k (ox_db ox)"
          using ih [of k] rr(1) [OF that] by (rule conjunct1 [THEN mp])
        show "rows_resolved now (qd_artifact_id q, qd_channel_id q) (ox_db ox')" if ok: "r = Inr ()" and m: "q \<in> set (p # qs)"
        proof (cases "q = p")
          case True
          show ?thesis unfolding True using ih p by (rule conjunct1 [THEN mp])
        next
          case False
          then have "q \<in> set qs" using m by simp
          then show ?thesis using ih [THEN conjunct2, THEN mp, OF ok] by (rule rev_mp)
        qed
      qed
    qed
  qed
  then show "rows_resolved now k (ox_db ox) \<Longrightarrow> rows_resolved now k (ox_db ox')"
    "r = Inr () \<Longrightarrow> q \<in> set qs \<Longrightarrow> rows_resolved now (qd_artifact_id q, qd_channel_id q) (ox_db ox')" by blast+
qed

text \<open>
  C33. No delivery is forgotten: when \<^verbatim>\<open>deliver_due\<close> returns, every delivery that was due and within the
  batch has been attempted and has an outcome: it succeeded, it is blocked until an administrator retries
  it, or its next attempt is set between five seconds and one hour from now. None stays in flight.
\<close>

theorem deliver_due_resolves:
  assumes "outbox_wf (sn_outbox s)" "deliver_due sha io envs now maximum_deliveries s = (s', Inr handled)"
    "e \<in> set (due_rows (ox_db (sn_outbox s)) now maximum_deliveries)"
    "d \<in> set (db_deliveries (ox_db (sn_outbox s')))" "delivery_key d = delivery_key e"
  shows "resolved now d \<and> handled = length (due_rows (ox_db (sn_outbox s)) now maximum_deliveries)"
proof -
  obtain ox qs where c: "claim_due io now (now + delivery_lease) maximum_deliveries (sn_outbox s) = (ox, Inr qs)"
    and a: "deliver_all sha envs 0 now qs ox = (sn_outbox s', Inr ())" and n: "handled = length qs"
    using assms(2) by (auto simp: deliver_due_def split: if_splits prod.splits sum.splits)
  have q: "map (\<lambda>q. (qd_artifact_id q, qd_channel_id q)) qs = map delivery_key (due_rows (ox_db (sn_outbox s)) now maximum_deliveries)"
    using c by (auto simp: claim_due_def Let_def delivery_key_def split: if_splits option.splits)
  have wf: "outbox_wf ox"
    using outbox_step_wf [OF assms(1), of sha "Op_claim io now (now + delivery_lease) maximum_deliveries"] c by simp
  have "delivery_key e \<in> set (map (\<lambda>q. (qd_artifact_id q, qd_channel_id q)) qs)" unfolding q using assms(3) by simp
  then obtain p where "p \<in> set qs" "delivery_key e = (qd_artifact_id p, qd_channel_id p)" by auto
  then have "resolved now d" using deliver_all_resolved(2) [OF wf a] assms(4,5) by simp
  moreover have "length qs = length (due_rows (ox_db (sn_outbox s)) now maximum_deliveries)"
    using arg_cong [OF q, of length] by simp
  ultimately show ?thesis using n by simp
qed

section \<open>A window generated twice\<close>

text \<open>Two generations of the same window at different times have different CSV files: the time is in every row.\<close>

lemma regenerated_csv_differs:
  assumes g: "generate circ src job w t = Inr d" "generate circ' src' job w t' = Inr d'" and csv: "jb_format job = Format_csv"
    and c: "write_content sha Format_csv d = Inr c" "write_content sha Format_csv d' = Inr c'"
    and t: "0 \<le> t" "0 \<le> t'" "t \<noteq> t'"
  shows "gc_body c \<noteq> gc_body c'"
proof
  assume same: "gc_body c = gc_body c'"
  obtain r where rows: "r \<in> set (gd_rows d)"
  proof -
    obtain samples where "traverse (make_row circ src job samples) (row_windows (w_start w) (w_end w) (jb_row_interval job)) = Inr (gd_rows d)"
      "window_valid w" "0 < jb_row_interval job"
      using g(1) by (elim generate_cases) blast
    moreover from this have "row_windows (w_start w) (w_end w) (jb_row_interval job) \<noteq> []"
      by (subst row_windows.simps) (simp add: window_valid_def)
    ultimately have "gd_rows d \<noteq> []" using traverse_Inr by fastforce
    then show thesis using that by (meson list.set_sel(1))
  qed
  have "read_csv (gc_body c) = Some (csv_header d # map (csv_row d) (gd_rows d))"
    "read_csv (gc_body c') = Some (csv_header d' # map (csv_row d') (gd_rows d'))"
    using written_csv [OF g(1) csv, of sha] written_csv [OF g(2) csv, of sha] c csv by auto
  then have "map (csv_row d) (gd_rows d) = map (csv_row d') (gd_rows d')" using same by simp
  then obtain r' where "csv_row d r = csv_row d' r'" using rows by (metis image_iff image_set)
  then have "csv_row d r ! 7 = csv_row d' r' ! 7" by simp
  moreover have "gd_generated_at d = t" "gd_generated_at d' = t'" using g by (auto elim: generate_cases)
  ultimately show False using t int_string_inject [of t t'] by (simp add: csv_row_def numeral_eq_Suc)
qed

lemma enqueued_checksum:
  assumes "enqueue sha io d c chans local_only ox = (ox1, Inr ())"
  shows "\<exists>a. find_artifact (ox_db ox1) (gd_artifact_id d) = Some a \<and> at_checksum a = gc_sha256 c"
proof (cases rule: enqueue_cases [of sha io d c chans local_only ox])
  case (repeated a)
  then show ?thesis using assms by (auto simp: same_manifest_def)
next
  case (stored db)
  obtain revision db1 where i: "insert_artifact io (manifest_row d c chans local_only revision) (ox_db ox) = Inr db1"
    and e: "insert_deliveries io (gd_artifact_id d) chans db1 = Inr db"
    using stored(3) by (auto simp: insert_manifest_def split: option.splits)
  have "db_artifacts db = db_artifacts (ox_db ox) @ [manifest_row d c chans local_only revision]"
    "\<not> list_ex (\<lambda>a. at_id a = gd_artifact_id d) (db_artifacts (ox_db ox))"
    using i insert_deliveries_more [OF e] by (auto simp: insert_artifact_def manifest_row_def list_ex_iff split: if_splits)
  moreover have "find P (xs @ [x]) = Some x" if "\<not> list_ex P xs" "P x" for P :: "artifact_row \<Rightarrow> bool" and xs x
    using that by (induction xs) auto
  ultimately have "find_artifact db (gd_artifact_id d) = Some (manifest_row d c chans local_only revision)"
    by (simp add: find_artifact_def manifest_row_def)
  then show ?thesis using stored(4) assms by (auto simp: manifest_row_def)
qed (use assms in auto)

lemma find_artifact_mark: "find_artifact (ox_db (fst (store_watermark io w t ox))) x = find_artifact (ox_db ox) x"
  by (simp add: find_artifact_def)

lemma store_watermark_fails:
  "io_db io ''store watermark'' = Some x \<Longrightarrow> \<exists>e. store_watermark io w t ox = (ox, Inl (Other_error e))"
  by (cases "bind_u64 (wm_revision w)") (auto simp: store_watermark_def)

lemma csv_content:
  "write_content sha Format_csv d = Inr c \<Longrightarrow> gc_artifact_id c = gd_artifact_id d \<and> gc_extension c = ''csv'' \<and>
   gc_filename c = gd_artifact_id d @ ''.csv'' \<and> gc_sha256 c = sha (gc_body c)"
  by (auto simp: write_content_def write_csv_def make_content_def split: if_splits)


definition example_failing :: "nat \<Rightarrow> delivery_env" where
  "example_failing n = \<lparr>de_executor = (\<lambda>_ _. Inl (Other_error (Runtime_error ''offline''))), de_io = example_io\<rparr>"

definition example_loaded :: sender where
  "example_loaded = \<lparr>sn_outbox = example_queued, sn_jobs = [], sn_statuses = []\<rparr>"

theorem deliver_due_needs_receipt_witness:
  "unsent example_sha ''daily-r2-0-100-csv'' ''cloud'' (False, ''daily-r2-0-100-csv.csv'') ''schema''
     (sn_outbox (fst (deliver_due example_sha example_io example_failing 300 4 example_loaded)))"
proof (rule deliver_due_needs_receipt)
  show "outbox_wf (sn_outbox example_loaded)" by code_simp
  show "unsent example_sha ''daily-r2-0-100-csv'' ''cloud'' (False, ''daily-r2-0-100-csv.csv'') ''schema'' (sn_outbox example_loaded)"
    by code_simp
  show "\<not> confirmed example_failing ''daily-r2-0-100-csv'' ''cloud'' ''schema''"
    by (simp add: confirmed_def example_failing_def)
qed

theorem deliver_due_resolves_witness:
  "resolved 300 (hd (db_deliveries (ox_db (sn_outbox (fst (deliver_due example_sha example_io example_failing 300 4 example_loaded))))))"
proof -
  let ?r = "deliver_due example_sha example_io example_failing 300 4 example_loaded"
  have w: "outbox_wf (sn_outbox example_loaded)" by code_simp
  have r: "?r = (fst ?r, Inr 1)" by (subst prod_eq_iff) code_simp
  have e: "hd (db_deliveries (ox_db (sn_outbox example_loaded))) \<in> set (due_rows (ox_db (sn_outbox example_loaded)) 300 4)"
    by code_simp
  have d: "hd (db_deliveries (ox_db (sn_outbox (fst ?r)))) \<in> set (db_deliveries (ox_db (sn_outbox (fst ?r))))" by code_simp
  have k: "delivery_key (hd (db_deliveries (ox_db (sn_outbox (fst ?r))))) =
    delivery_key (hd (db_deliveries (ox_db (sn_outbox example_loaded))))" by code_simp
  show ?thesis using deliver_due_resolves [OF w r e d k] by simp
qed

text \<open>A checksum of 64 characters, and a database in which only storing a watermark fails.\<close>

definition example_digest :: "string \<Rightarrow> string" where
  "example_digest s = take 64 (rev s @ replicate 64 CHR ''0'')"

definition example_stuck_env :: sender_env where
  "example_stuck_env = example_env\<lparr>se_io := example_io\<lparr>io_db :=
     (\<lambda>statement. if statement = ''store watermark'' then Some (Runtime_error ''database is locked'') else None)\<rparr>\<rparr>"

abbreviation example_dataset_at :: "int \<Rightarrow> generated_dataset" where
  "example_dataset_at t \<equiv> projr (generate (\<lambda>_. None) tiny_source tiny_job \<lparr>w_start = 0, w_end = 100\<rparr> t)"

abbreviation example_content_at :: "int \<Rightarrow> generated_content" where
  "example_content_at t \<equiv> projr (write_content example_digest Format_csv (example_dataset_at t))"


end
