(* ===== verification/Spec2Isabelle.thy ===== *)
theory Spec2Isabelle
  imports Demand_Ledger Ingest_Safety Acquisition_Health Mncwf_Consistency
    Register_Map Modbus_Server Data_Sender
begin

text \<open>
  A verification development for the MSAP1 meter acquisition program (C++23, sources under
  \<^verbatim>\<open>src/\<close>).

  \<^bold>\<open>The program.\<close> An FPGA and a real-time processor deliver fixed-size meter records by DMA. The
  acquisition daemon decodes them, labels their samples with UTC from a measurement timebase,
  joins the two halves of each ENERGY record family, and folds ENERGY and DEMAND checkpoints into
  durable lifetime ledgers in SQLite. The values are published as snapshots keyed by meter
  attributes, and a Modbus service answers TCP and RTU masters from these snapshots through a
  static register map. A data sender turns stored history into files and delivers them through
  a durable outbox.

  \<^bold>\<open>The theories,\<close> in the order of the data flow:

  \<^item> \<open>Msap1_Prelude\<close>: word types, exceptions as values (\<open>exn\<close>, \<open>result\<close>), generic lemmas, and the
    locales \<open>invariant_system\<close> and \<open>monotone_system\<close> with which every component proves its
    invariants over event sequences.

  \<^item> \<open>Meter_Record\<close>: the wire format of \<^verbatim>\<open>meter_record.hpp\<close>: field accessors over the
    32-bit words of a record, header and range validation.

  \<^item> \<open>Meter_Timing\<close>: the timing vocabulary of \<^verbatim>\<open>meter_timing.hpp\<close> and \<^verbatim>\<open>measurement_timebase.cpp\<close>:
    sync points, the quality state machine, and UTC labels for sample indices.

  \<^item> \<open>Energy_Demand\<close>: \<^verbatim>\<open>energy_demand.cpp\<close>: validation and decoding of the families and the
    two-part \<^verbatim>\<open>EnergyFamilyAssembler\<close>.

  \<^item> \<open>Meter_Values\<close>, \<open>Meter_Decoders\<close>, \<open>Meter_Events\<close>: \<^verbatim>\<open>meter_data.cpp\<close>: the typed values and how readings are
    graded, every decoder of the registry (basic, power, phasor and unbalance records, the 150/180-cycle,
    ten-minute and two-hour tiers and their live previews, the ten-second frequency), and the decoders of
    single-cycle, power-quality, lifecycle, flicker and mains-signalling records.

  \<^item> \<open>Latest_Store\<close>: \<^verbatim>\<open>MeterLatestStore\<close> and \<^verbatim>\<open>MeterData\<close>: the latest view per period and its subscribers.

  \<^item> \<open>Harmonic_Spectrum\<close>: \<^verbatim>\<open>harmonic_spectrum.cpp\<close>: the chunk decoder, the 42-part family assembler and
    the total distortion.

  \<^item> \<open>Record_Ingestor\<close>, \<open>Ingest_Safety\<close>: \<^verbatim>\<open>record_ingestor.cpp\<close>: how the daemon drains the DMA device, tracks the
    sequence of every stream, buffers the ENERGY and harmonic families and commits each record to the
    durable stream before it updates the latest views.

  \<^item> \<open>Rpu_Protocol\<close>, \<open>Acquisition_Health\<close>: \<^verbatim>\<open>rpu_control_protocol.h\<close>, \<^verbatim>\<open>protocol.cpp\<close>, \<^verbatim>\<open>rpu_controller.cpp\<close>:
    the frames exchanged with the real-time processor and how a request waits for its response;
    \<^verbatim>\<open>meter_health.cpp\<close>, \<^verbatim>\<open>health_monitor.cpp\<close>, \<^verbatim>\<open>aggregation_health_monitor.cpp\<close> and
    \<^verbatim>\<open>event_waveform_linker.cpp\<close>: the verdicts over ADC, PMU and aggregation, and the queue that links
    stored waveforms to their events.

  \<^item> \<open>Mncwf_Codec\<close>, \<open>Mncwf_Format\<close>, \<open>Mncwf_Reader\<close>: \<^verbatim>\<open>mncwf_v4.cpp\<close>: the byte layer of the waveform container
    (CRC-32C, checked arithmetic, fields, strings, section envelopes), how every record is written and
    read, and the whole reader of versions 4 and 5 and the encoder of version 4. \<open>Mncwf_Integrity\<close>,
    \<open>Mncwf_Roundtrip\<close>, \<open>Mncwf_Consistency\<close>: what its checksums detect, that every valid document is read back
    from its file, and what holds of every accepted file.

  \<^item> \<open>Ledger_Store\<close>, \<open>Energy_Ledger\<close>, \<open>Demand_Ledger\<close>: \<^verbatim>\<open>energy_ledger.cpp\<close>: text codecs of the rows,
    the tables behind an abstract SQL engine, and the operations \<^verbatim>\<open>ingest_energy\<close>, \<^verbatim>\<open>reset_energy\<close>,
    \<^verbatim>\<open>ingest_demand\<close>, \<^verbatim>\<open>reset_demand_peaks\<close> and the constructor that reloads the state.

  \<^item> \<open>Meter_Attributes\<close>, \<open>Meter_Snapshot\<close>: the attribute catalog of \<^verbatim>\<open>meter_attribute_catalog.cpp\<close>, the
    ordered attribute set, and the snapshot data with its \<^verbatim>\<open>latest()\<close> interface.

  \<^item> \<open>Register_Schema\<close>, \<open>Float32\<close>, \<open>Register_Map\<close>: the compile-time checked register schema and the
    product's map, IEEE binary32 encoding, and the register bank of \<^verbatim>\<open>modbus_register_map.cpp\<close>.

  \<^item> \<open>Modbus_Handler\<close>, \<open>Modbus_Rtu\<close>, \<open>Modbus_Tcp\<close>, \<open>Modbus_Server\<close>: \<^verbatim>\<open>common/mnc/modbus\<close>: the PDU handler,
    the RTU framing and port coroutines, the TCP session and admission, and the composite server.

  \<^item> \<open>Datalog_Content\<close>: \<^verbatim>\<open>datalogger.cpp\<close> and \<^verbatim>\<open>meter_data_content_writer.cpp\<close>: column selection, row
    buckets, aggregation, and the JSON and CSV files.

  \<^item> \<open>Data_Outbox\<close>, \<open>Outbox_Safety\<close>, \<open>Outbox_Leases\<close>: \<^verbatim>\<open>outbox_repository.cpp\<close>: the manifest tables and payload
    files with every operation, failure and restart; what they keep, and who may send.

  \<^item> \<open>Data_Sender\<close>: \<^verbatim>\<open>scheduler.cpp\<close>: watermarks, generation runs, delivery runs and retry times over the two
    components before, through the interfaces \<open>watermark_store\<close> and \<open>contiguous_progress\<close>.

  \<^bold>\<open>State and effects.\<close> Objects are records and their methods return the updated record; exceptions
  are the \<open>Inl\<close> values of a result. Where the code throws after it has changed something, the
  model returns the changed state beside the exception. Coroutines are split at their suspension
  points into steps, and a run is any list of such steps (\<open>rtu_step\<close>, \<open>tcp_step\<close>, \<open>ledger_step\<close>), so the
  properties hold for every interleaving. Machine integers are words where the code relies on
  their width; signed 64-bit counters of the ledgers are integers with their bounds written out.

  \<^bold>\<open>What is shown.\<close> For the ledgers: lifetime energy refines an unbounded abstract meter, never runs
  backwards between resets, is idempotent under retries and reset replays, and survives a restart
  at any point; demand peaks are true maxima above the reset watermark. For the assembler: no
  mixture of families, either order completes, duplicates are harmless. For the timebase: exact and
  monotone labels. For the decoders: readings are valid only in trusted intervals, sample ranges are exact,
  an accepted frequency is the correctly rounded quotient of its geometry, detection masks are exact. For
  the latest store: views are folds of the updates in order, and deliveries are current. For harmonics:
  published spectra are complete and unmixed, and every family completes. For the ingestor: nothing is
  visible before the exact record is committed, families are committed whole, its internal errors are
  unreachable; a restarted sequence freezes the live views and gaps can be counted twice. For the
  real-time processor: a returned response answers the request that was sent, verified registers are
  declared lost only after two failed audits, when an ADC verdict and its list
  of reasons agree, waveform links are made in order. For the waveform container: the reader returns exactly
  the document that was encoded, no change of a single byte goes unnoticed, and in accepted files segments,
  channels, chunks, events and quality intervals agree with the samples. For the register map: validity, correct binary search, coherent reads from one
  snapshot, exact counters and bounded float error. For Modbus: well-formed answers for any bank,
  bounded queues, order of responses, independence of read boundaries, bounded admission and
  all-or-nothing start. For the data sender: exact averages and CSV files, no loss of queued data
  through failures and restarts, exclusive claims, final successes, the storage quota, windows
  without gaps, outcomes for every attempt, and that one failed watermark blocks a job.

  \<^bold>\<open>Parameters.\<close> Code outside the repository is an argument: the SQL engine (\<open>sql_engine\<close>, with the
  laws of reading back what was stored in \<open>sql_laws\<close>), Boost's CRC (\<open>crc\<close>), SHA-256 (\<open>sha\<close>), Zstandard (\<open>zstd_port\<close>), the circular mean of
  angles and the distortion in long double (\<open>circular\<close>, \<open>hypot\<close>), the results
  of opening devices and sockets, the snapshot provider, the durable stream and event callback of the
  ingestor (\<open>ingest_ports\<close>), the frames the endpoint of the real-time processor receives and the
  ports of its controller (\<open>rpu_ports\<close>). Hypotheses about them are stated with
  the theorem and discharged in its witness on a concrete instance.

  \<^bold>\<open>Bounds.\<close> No definition uses fuel: every loop is structural or has a termination proof.

  \<^bold>\<open>Not modelled.\<close> Signed overflow of UTC arithmetic
  beyond the year 2262 (undefined in C++, unbounded here); SQL text, file and socket I/O, the
  JSON layer, the web backend and the command line client; waveform capture, the version 5
  encoder, virtual sub-captures and the converters.
  The manifest lists each with its reason.
\<close>

end
